(* ===== verification/Prelude.thy ===== *)
theory Prelude
  imports Complex_Main "HOL-Library.AList"
begin

text \<open>
  What every component shares: the named collections of the development, the parts of the
  JavaScript string and list API that the sources use (\<^verbatim>\<open>trim\<close>,
  \<^verbatim>\<open>toLowerCase\<close>, \<^verbatim>\<open>includes\<close>, template literals of
  integers, \<^verbatim>\<open>Array.find\<close> followed by a field assignment,
  \<^verbatim>\<open>Map\<close>) and their lemmas.

  A JavaScript string is a HOL \<open>string\<close>: a list of code units, restricted to code
  units below 256. A JavaScript \<^verbatim>\<open>Map\<close> is an association list in insertion
  order: \<open>map_of\<close> is \<^verbatim>\<open>get\<close>, \<open>AList.update\<close> is
  \<^verbatim>\<open>set\<close> (in place for a present key, appended otherwise),
  \<open>AList.delete\<close> is \<^verbatim>\<open>delete\<close>.
\<close>

section \<open>Collections\<close>

named_theorems wf_intros \<open>introduction rules for component invariants\<close>
named_theorems frame_simps \<open>what an operation leaves unchanged\<close>

section \<open>Strings\<close>

definition is_ws :: "char \<Rightarrow> bool" where
  "is_ws c \<longleftrightarrow> (let n = of_char c :: nat in (9 \<le> n \<and> n \<le> 13) \<or> n = 32 \<or> n = 160)"

definition trimStart :: "string \<Rightarrow> string" where
  "trimStart s = dropWhile is_ws s"

definition trim :: "string \<Rightarrow> string" where
  "trim s = rev (trimStart (rev (trimStart s)))"

definition lower_char :: "char \<Rightarrow> char" where
  "lower_char c =
     (let n = of_char c :: nat
      in if (65 \<le> n \<and> n \<le> 90) \<or> (192 \<le> n \<and> n \<le> 222 \<and> n \<noteq> 215)
         then char_of (n + 32) else c)"

definition toLowerCase :: "string \<Rightarrow> string" where
  "toLowerCase s = map lower_char s"

definition starts_with :: "string \<Rightarrow> string \<Rightarrow> bool" where
  "starts_with p s \<longleftrightarrow> take (length p) s = p"

fun includes_str :: "string \<Rightarrow> string \<Rightarrow> bool" where
  "includes_str p [] = (p = [])"
| "includes_str p (c # s) = (starts_with p (c # s) \<or> includes_str p s)"

text \<open>The bytes of a code unit below 256 in UTF-8, as \<^verbatim>\<open>Buffer.byteLength\<close> counts them.\<close>

definition utf8_length :: "string \<Rightarrow> nat" where
  "utf8_length s = sum_list (map (\<lambda>c. if (of_char c :: nat) < 128 then 1 else 2) s)"

text \<open>\<^verbatim>\<open>\w\<close> of a regular expression, \<^verbatim>\<open>join\<close> and \<^verbatim>\<open>split("\n")\<close>.\<close>

definition word_char :: "char \<Rightarrow> bool" where
  "word_char c \<longleftrightarrow>
     (let n = of_char c :: nat
      in (48 \<le> n \<and> n \<le> 57) \<or> (65 \<le> n \<and> n \<le> 90) \<or> (97 \<le> n \<and> n \<le> 122) \<or> n = 95)"

fun join_with :: "string \<Rightarrow> string list \<Rightarrow> string" where
  "join_with sep [] = []"
| "join_with sep [s] = s"
| "join_with sep (s # t # ss) = s @ sep @ join_with sep (t # ss)"

definition newline :: char where
  "newline = CHR 0x0A"

fun split_lines :: "string \<Rightarrow> string list" where
  "split_lines [] = [[]]"
| "split_lines (c # s) =
     (if c = newline then [] # split_lines s
      else (case split_lines s of [] \<Rightarrow> [[c]] | l # ls \<Rightarrow> (c # l) # ls))"

text \<open>A possibly missing string that is neither \<^verbatim>\<open>undefined\<close>/\<^verbatim>\<open>null\<close> nor empty.\<close>

definition truthy_text :: "string option \<Rightarrow> bool" where
  "truthy_text x \<longleftrightarrow> x \<noteq> None \<and> x \<noteq> Some []"

lemma truthy_text_simps [simp]: "\<not> truthy_text None" "truthy_text (Some s) \<longleftrightarrow> s \<noteq> []"
  by (simp_all add: truthy_text_def)

text \<open>The decimal text of a template literal \<^verbatim>\<open>${n}\<close>.\<close>

definition digit_char :: "nat \<Rightarrow> char" where
  "digit_char d = char_of (48 + d)"

fun string_of_nat :: "nat \<Rightarrow> string" where
  "string_of_nat n =
     (if n < 10 then [digit_char n] else string_of_nat (n div 10) @ [digit_char (n mod 10)])"

declare string_of_nat.simps [simp del]

definition string_of_int :: "int \<Rightarrow> string" where
  "string_of_int i = (if i < 0 then ''-'' @ string_of_nat (nat (- i)) else string_of_nat (nat i))"

text \<open>On a character given by its bits both tests need no arithmetic, which evaluation uses.\<close>

lemma lower_char_code [code]:
  "lower_char (Char b0 b1 b2 b3 b4 b5 b6 b7) =
     (if \<not> b5 \<and> b6 \<and> (b0 \<or> b1 \<or> b2 \<or> b3 \<or> b4 \<or> b7) \<and> (\<not> b7 \<longrightarrow> \<not> (b4 \<and> b3 \<and> (b2 \<or> b1 \<and> b0)))
          \<and> (b7 \<longrightarrow> \<not> (b4 \<and> b3 \<and> b2 \<and> b1 \<and> b0) \<and> \<not> (b4 \<and> \<not> b3 \<and> b2 \<and> b1 \<and> b0))
      then Char b0 b1 b2 b3 b4 True b6 b7 else Char b0 b1 b2 b3 b4 b5 b6 b7)"
  by (cases b0; cases b1; cases b2; cases b3; cases b4; cases b5; cases b6; cases b7;
      simp add: lower_char_def char_of_def bit_0)

lemma is_ws_code [code]:
  "is_ws (Char b0 b1 b2 b3 b4 b5 b6 b7) =
     (\<not> b6 \<and> \<not> b4 \<and> (if b5 then \<not> b0 \<and> \<not> b1 \<and> \<not> b2 \<and> \<not> b3
                         else \<not> b7 \<and> b3 \<and> (if b2 then \<not> b1 else b0 \<or> b1)))"
  by (cases b0; cases b1; cases b2; cases b3; cases b4; cases b5; cases b6; cases b7; simp add: is_ws_def)

declare lower_char_def [code del] is_ws_def [code del]

lemma trimStart_Nil [simp]: "trimStart [] = []"
  by (simp add: trimStart_def)

lemma trimStart_idem [simp]: "trimStart (trimStart s) = trimStart s"
  by (simp add: trimStart_def dropWhile_idem)

lemma trimStart_fix: "s \<noteq> [] \<Longrightarrow> \<not> is_ws (hd s) \<Longrightarrow> trimStart s = s"
  by (cases s) (simp_all add: trimStart_def)

lemma hd_trimStart: "trimStart s \<noteq> [] \<Longrightarrow> \<not> is_ws (hd (trimStart s))"
  unfolding trimStart_def by (rule hd_dropWhile)

lemma trim_fix: "s \<noteq> [] \<Longrightarrow> \<not> is_ws (hd s) \<Longrightarrow> \<not> is_ws (last s) \<Longrightarrow> trim s = s"
  by (simp add: trim_def trimStart_fix hd_rev)

lemma trimStart_rev_hd:
  assumes "trimStart (rev s) \<noteq> []" and "s \<noteq> []" and "\<not> is_ws (hd s)"
  shows "hd (rev (trimStart (rev s))) = hd s"
proof -
  have "rev s = takeWhile is_ws (rev s) @ trimStart (rev s)"
    by (simp add: trimStart_def)
  then have "s = rev (trimStart (rev s)) @ rev (takeWhile is_ws (rev s))"
    by (metis rev_append rev_rev_ident)
  with assms(1) show ?thesis by (metis hd_append2 rev_is_Nil_conv)
qed

lemma trim_idem [simp]: "trim (trim s) = trim s"
proof (cases "trim s = []")
  case True
  then show ?thesis by (simp only: True) (simp add: trim_def trimStart_def)
next
  case False
  let ?t = "trimStart s"
  from False have r: "trimStart (rev ?t) \<noteq> []" by (simp add: trim_def)
  then have t: "?t \<noteq> []" by auto
  from t have ht: "\<not> is_ws (hd ?t)" by (rule hd_trimStart)
  have "hd (trim s) = hd ?t"
    unfolding trim_def by (rule trimStart_rev_hd [OF r t ht])
  moreover have "\<not> is_ws (last (trim s))"
    using hd_trimStart [OF r] r by (simp add: trim_def last_rev)
  ultimately show ?thesis using False ht by (simp add: trim_fix)
qed

lemma lower_char_ws [simp]: "is_ws (lower_char c) = is_ws c"
proof -
  have b: "(of_char c :: nat) < 256"
    using nat_of_char_less_256 by simp
  show ?thesis
    using b by (auto simp: is_ws_def lower_char_def Let_def)
qed

lemma lower_char_idem [simp]: "lower_char (lower_char c) = lower_char c"
proof -
  have b: "(of_char c :: nat) < 256"
    using nat_of_char_less_256 by simp
  show ?thesis
    using b by (auto simp: lower_char_def Let_def)
qed

lemma trim_map_ws:
  assumes "\<And>c. is_ws (f c) = is_ws c"
  shows "trim (map f s) = map f (trim s)"
proof -
  have d: "dropWhile is_ws (map f xs) = map f (dropWhile is_ws xs)" for xs
    using assms by (simp add: dropWhile_map comp_def)
  show ?thesis by (simp add: trim_def trimStart_def d rev_map)
qed

lemma trim_toLowerCase: "trim (toLowerCase s) = toLowerCase (trim s)"
  by (simp add: toLowerCase_def trim_map_ws)

lemma toLowerCase_idem [simp]: "toLowerCase (toLowerCase s) = toLowerCase s"
  by (simp add: toLowerCase_def)

lemma length_toLowerCase [simp]: "length (toLowerCase s) = length s"
  by (simp add: toLowerCase_def)

lemma length_trim: "length (trim s) \<le> length s"
  using length_dropWhile_le [of is_ws s] length_dropWhile_le [of is_ws "rev (dropWhile is_ws s)"]
  by (simp add: trim_def trimStart_def)

lemma starts_with_append [simp]: "starts_with p (p @ s)"
  by (simp add: starts_with_def)

lemma includes_str_append: "includes_str p (a @ p @ b)"
proof (induction a)
  case Nil
  show ?case
  proof (cases "p @ b")
    case Nil
    then show ?thesis by simp
  next
    case (Cons c s)
    then have "starts_with p (c # s)" by (metis starts_with_append)
    with Cons show ?thesis by simp
  qed
next
  case (Cons c a)
  then show ?case by simp
qed

lemma includes_str_iff: "includes_str p s \<longleftrightarrow> (\<exists>a b. s = a @ p @ b)"
proof
  show "includes_str p s \<Longrightarrow> \<exists>a b. s = a @ p @ b"
  proof (induction s)
    case Nil
    then show ?case by simp
  next
    case (Cons c s)
    show ?case
    proof (cases "starts_with p (c # s)")
      case True
      then have "c # s = [] @ p @ drop (length p) (c # s)"
        by (metis append_Nil append_take_drop_id starts_with_def)
      then show ?thesis by blast
    next
      case False
      with Cons obtain a b where "s = a @ p @ b" by auto
      then have "c # s = (c # a) @ p @ b" by simp
      then show ?thesis by blast
    qed
  qed
qed (auto simp: includes_str_append)

section \<open>Mutating the element \<^verbatim>\<open>Array.find\<close> returns\<close>

fun update_first :: "('a \<Rightarrow> bool) \<Rightarrow> ('a \<Rightarrow> 'a) \<Rightarrow> 'a list \<Rightarrow> 'a list" where
  "update_first P f [] = []"
| "update_first P f (x # xs) = (if P x then f x # xs else x # update_first P f xs)"

lemma length_update_first [simp]: "length (update_first P f xs) = length xs"
  by (induction xs) auto

lemma map_update_first [frame_simps]:
  "(\<And>x. g (f x) = g x) \<Longrightarrow> map g (update_first P f xs) = map g xs"
  by (induction xs) auto

lemma update_first_Nil_iff [simp]: "update_first P f xs = [] \<longleftrightarrow> xs = []"
  by (cases xs) auto

lemma set_update_first: "set (update_first P f xs) \<subseteq> set xs \<union> f ` {x \<in> set xs. P x}"
  by (induction xs) auto

lemma update_first_ball:
  "\<forall>x \<in> set xs. Q x \<Longrightarrow> (\<And>x. x \<in> set xs \<Longrightarrow> P x \<Longrightarrow> Q (f x)) \<Longrightarrow> \<forall>x \<in> set (update_first P f xs). Q x"
  by (induction xs) auto

lemma update_first_distinct_key:
  "distinct (map k xs) \<Longrightarrow> (\<And>x. k (f x) = k x) \<Longrightarrow>
   update_first (\<lambda>x. k x = a) f xs = map (\<lambda>x. if k x = a then f x else x) xs"
proof (induction xs)
  case Nil
  then show ?case by simp
next
  case (Cons x xs)
  have keep: "map (\<lambda>y. if k y = a then f y else y) xs = xs" if "k x = a"
    using that Cons.prems(1) by (intro map_idI) (auto simp: image_iff)
  show ?case
  proof (cases "k x = a")
    case True
    with keep show ?thesis by simp
  next
    case False
    with Cons show ?thesis by simp
  qed
qed

lemma find_Some_mem: "List.find P xs = Some x \<Longrightarrow> x \<in> set xs \<and> P x"
  by (auto simp: find_Some_iff)

lemma find_None_mem: "List.find P xs = None \<longleftrightarrow> (\<forall>x \<in> set xs. \<not> P x)"
  by (auto simp: find_None_iff)

lemma find_distinct_key:
  "distinct (map k xs) \<Longrightarrow> x \<in> set xs \<Longrightarrow> List.find (\<lambda>y. k y = k x) xs = Some x"
  by (induction xs) (auto simp: image_iff)

lemma update_first_no_match: "\<forall>x \<in> set xs. \<not> P x \<Longrightarrow> update_first P f xs = xs"
  by (induction xs) auto

section \<open>Maps as association lists\<close>

lemma length_AList_update:
  "length (AList.update k v m) = (if map_of m k = None then Suc (length m) else length m)"
  by (induction m) auto

lemma map_of_AList_update: "map_of (AList.update k v m) = (map_of m)(k \<mapsto> v)"
  by (rule update_conv')

lemma map_of_AList_delete: "map_of (AList.delete k m) = (map_of m)(k := None)"
  by (rule delete_conv')

lemma length_AList_delete:
  "distinct (map fst m) \<Longrightarrow>
   length (AList.delete k m) = (if map_of m k = None then length m else length m - 1)"
proof (induction m)
  case Nil
  then show ?case by simp
next
  case (Cons p m)
  obtain a b where p: "p = (a, b)" by (cases p)
  show ?case
  proof (cases "a = k")
    case True
    then have "map_of m k = None" using Cons.prems p by (simp add: map_of_eq_None_iff)
    with True p Cons show ?thesis by simp
  next
    case False
    have "map_of m k \<noteq> None \<Longrightarrow> 0 < length m" by (cases m) auto
    with False p Cons show ?thesis by auto
  qed
qed

lemma filter_Not_AList_delete:
  "AList.delete k m = filter (\<lambda>p. fst p \<noteq> k) m"
  by (induction m) auto

end
