(* ===== verification/Js_Values.thy ===== *)
theory Js_Values
  imports Prelude "HOL-Library.Word"
begin

text \<open>
  JSON values as the sources pass them around (\<^verbatim>\<open>unknown\<close>,
  \<^verbatim>\<open>Record<string, unknown>\<close>), Node's \<^verbatim>\<open>isDeepStrictEqual\<close> on
  them, and \<^verbatim>\<open>Buffer.from(s, "hex")\<close>.

  A JavaScript number is the 64-bit pattern of its IEEE double: on the values JSON can carry
  (no NaN) equality of patterns is \<^verbatim>\<open>Object.is\<close>, which is what
  \<^verbatim>\<open>isDeepStrictEqual\<close> compares numbers by.
\<close>

type_synonym js_number = "64 word"

datatype json =
    JNull
  | JBool bool
  | JNum js_number
  | JStr string
  | JArr "json list"
  | JObj "(string \<times> json) list"

text \<open>\<^verbatim>\<open>unknown\<close> with \<^verbatim>\<open>undefined\<close> as \<open>None\<close>.\<close>

type_synonym js_unknown = "json option"

fun wf_json :: "json \<Rightarrow> bool" where
  "wf_json (JArr vs) = list_all wf_json vs"
| "wf_json (JObj kvs) = (distinct (map fst kvs) \<and> list_all (\<lambda>kv. wf_json (snd kv)) kvs)"
| "wf_json _ = True"

text \<open>
  The value of a number: sign, 11 bits of exponent and 52 bits of mantissa; \<open>None\<close> for the
  infinities and NaN.
\<close>

definition number_val :: "js_number \<Rightarrow> rat option" where
  "number_val x =
     (let e = unat (take_bit 11 (drop_bit 52 x));
          m = unat (take_bit 52 x);
          v = (if e = 0 then of_nat m / 2 ^ 1074
               else if 1075 \<le> e then of_nat (2 ^ 52 + m) * 2 ^ (e - 1075)
               else of_nat (2 ^ 52 + m) / 2 ^ (1075 - e))
      in if e = 2047 then None else Some (if bit x 63 then - v else v))"

section \<open>Deep strict equality\<close>

fun isDeepStrictEqual :: "json \<Rightarrow> json \<Rightarrow> bool"
and deepEqualElems :: "json list \<Rightarrow> json list \<Rightarrow> bool"
and deepEqualFields :: "(string \<times> json) list \<Rightarrow> (string \<times> json) list \<Rightarrow> bool" where
  "isDeepStrictEqual JNull b = (b = JNull)"
| "isDeepStrictEqual (JBool x) b = (b = JBool x)"
| "isDeepStrictEqual (JNum x) b = (b = JNum x)"
| "isDeepStrictEqual (JStr x) b = (b = JStr x)"
| "isDeepStrictEqual (JArr xs) b = (case b of JArr ys \<Rightarrow> deepEqualElems xs ys | _ \<Rightarrow> False)"
| "isDeepStrictEqual (JObj xs) b =
     (case b of JObj ys \<Rightarrow> length xs = length ys \<and> deepEqualFields xs ys | _ \<Rightarrow> False)"
| "deepEqualElems [] ys = (ys = [])"
| "deepEqualElems (x # xs) ys =
     (case ys of [] \<Rightarrow> False | y # ys' \<Rightarrow> isDeepStrictEqual x y \<and> deepEqualElems xs ys')"
| "deepEqualFields [] ys = True"
| "deepEqualFields ((k, v) # xs) ys =
     (case map_of ys k of None \<Rightarrow> False | Some w \<Rightarrow> isDeepStrictEqual v w \<and> deepEqualFields xs ys)"

lemma deepEqualElems_iff: "deepEqualElems xs ys \<longleftrightarrow> list_all2 isDeepStrictEqual xs ys"
  by (induction xs arbitrary: ys) (auto split: list.splits simp: list_all2_Cons1)

lemma deepEqualFields_iff:
  "deepEqualFields xs ys \<longleftrightarrow>
   (\<forall>(k, v) \<in> set xs. \<exists>w. map_of ys k = Some w \<and> isDeepStrictEqual v w)"
  by (induction xs) (auto split: option.splits)

lemma isDeepStrictEqual_refl: "wf_json v \<Longrightarrow> isDeepStrictEqual v v"
proof (induction v)
  case (JArr vs)
  then show ?case by (auto simp: deepEqualElems_iff list_all_iff intro: list.rel_refl_strong)
next
  case (JObj kvs)
  have "\<exists>w. map_of kvs k = Some w \<and> isDeepStrictEqual v w" if kv: "(k, v) \<in> set kvs" for k v
  proof -
    from JObj.prems kv have "map_of kvs k = Some v" and "wf_json v"
      by (auto simp: list_all_iff)
    moreover have "isDeepStrictEqual v v"
      using JObj.IH [OF kv, of v] \<open>wf_json v\<close> by simp
    ultimately show ?thesis by blast
  qed
  then show ?case by (auto simp: deepEqualFields_iff)
qed simp_all

text \<open>Two objects of the same size whose keys are distinct and included have the same keys.\<close>

lemma same_keys:
  assumes "distinct (map fst xs)" and "distinct (map fst ys)" and "length xs = length ys"
    and "fst ` set xs \<subseteq> fst ` set ys"
  shows "fst ` set xs = fst ` set ys"
proof -
  have "card (fst ` set xs) = length xs" "card (fst ` set ys) = length ys"
    using assms(1,2) by (metis distinct_card length_map set_map)+
  with assms(3,4) show ?thesis by (simp add: card_subset_eq)
qed

lemma isDeepStrictEqual_sym:
  "wf_json v \<Longrightarrow> wf_json w \<Longrightarrow> isDeepStrictEqual v w \<Longrightarrow> isDeepStrictEqual w v"
proof (induction v arbitrary: w)
  case (JArr vs)
  then obtain ws where w: "w = JArr ws" and l2: "list_all2 isDeepStrictEqual vs ws"
    by (cases w) (auto simp: deepEqualElems_iff)
  have "list_all2 isDeepStrictEqual ws vs"
    unfolding list_all2_conv_all_nth
  proof (intro conjI allI impI)
    show "length ws = length vs" using l2 by (simp add: list_all2_lengthD)
    fix i assume "i < length ws"
    with l2 have "i < length vs" "isDeepStrictEqual (vs ! i) (ws ! i)"
      by (auto simp: list_all2_conv_all_nth)
    with JArr.IH JArr.prems(1,2) w \<open>i < length ws\<close> show "isDeepStrictEqual (ws ! i) (vs ! i)"
      by (auto simp: list_all_length)
  qed
  with w show ?case by (simp add: deepEqualElems_iff)
next
  case (JObj xs)
  then obtain ys where w: "w = JObj ys" and len: "length xs = length ys"
    and f: "\<forall>(k, v) \<in> set xs. \<exists>u. map_of ys k = Some u \<and> isDeepStrictEqual v u"
    by (cases w) (auto simp: deepEqualFields_iff)
  have dx: "distinct (map fst xs)" and dy: "distinct (map fst ys)"
    using JObj.prems(1,2) w by auto
  have "fst ` set xs \<subseteq> fst ` set ys"
  proof
    fix k assume "k \<in> fst ` set xs"
    then obtain v where "(k, v) \<in> set xs" by auto
    with f obtain u where "map_of ys k = Some u" by blast
    then show "k \<in> fst ` set ys" by (force dest: map_of_SomeD)
  qed
  with dx dy len have keys: "fst ` set xs = fst ` set ys" by (rule same_keys)
  have "\<exists>v. map_of xs k = Some v \<and> isDeepStrictEqual u v" if ku: "(k, u) \<in> set ys" for k u
  proof -
    from ku keys have "k \<in> fst ` set xs" by force
    then obtain v where kv: "(k, v) \<in> set xs" by auto
    with f obtain u' where "map_of ys k = Some u'" and e: "isDeepStrictEqual v u'" by blast
    with ku dy have "u' = u" by (metis map_of_is_SomeI option.inject)
    moreover have "wf_json v" "wf_json u"
      using JObj.prems(1,2) kv ku w by (auto simp: list_all_iff)
    ultimately have "isDeepStrictEqual u v" using JObj.IH [OF kv, of v u] e by simp
    with kv dx show ?thesis by auto
  qed
  with w len show ?case by (auto simp: deepEqualFields_iff)
qed auto

section \<open>Hexadecimal text\<close>

definition hexval :: "char \<Rightarrow> nat option" where
  "hexval c =
     (let n = of_char c :: nat
      in if 48 \<le> n \<and> n \<le> 57 then Some (n - 48)
         else if 97 \<le> n \<and> n \<le> 102 then Some (n - 87)
         else if 65 \<le> n \<and> n \<le> 70 then Some (n - 55)
         else None)"

text \<open>
  \<^verbatim>\<open>Buffer.from(s, "hex")\<close> decodes pairs of digits and stops at the first pair that
  is not hexadecimal; a trailing single digit is dropped.
\<close>

fun hexDecode :: "string \<Rightarrow> nat list" where
  "hexDecode (a # b # s) =
     (case (hexval a, hexval b) of
        (Some x, Some y) \<Rightarrow> (16 * x + y) # hexDecode s
      | _ \<Rightarrow> [])"
| "hexDecode _ = []"

definition lower_hex :: "char \<Rightarrow> bool" where
  "lower_hex c \<longleftrightarrow> (let n = of_char c :: nat in (48 \<le> n \<and> n \<le> 57) \<or> (97 \<le> n \<and> n \<le> 102))"

lemma lower_hex_hexval:
  assumes "lower_hex c"
  obtains x where "hexval c = Some x" "x < 16"
  using assms by (auto simp: lower_hex_def hexval_def Let_def split: if_splits)

lemma hexval_inj:
  assumes "lower_hex a" and "lower_hex b" and "hexval a = hexval b"
  shows "a = b"
proof -
  define m n where "m = (of_char a :: nat)" and "n = (of_char b :: nat)"
  have "m = n"
    using assms unfolding lower_hex_def hexval_def Let_def m_def [symmetric] n_def [symmetric]
    by (auto split: if_splits)
  then show ?thesis by (simp add: m_def n_def)
qed

text \<open>On lower-case hexadecimal texts of even length decoding loses nothing.\<close>

lemma hexDecode_inj:
  "list_all lower_hex s \<Longrightarrow> list_all lower_hex t \<Longrightarrow> length s = length t \<Longrightarrow> even (length s) \<Longrightarrow>
   hexDecode s = hexDecode t \<longleftrightarrow> s = t"
proof (induction s arbitrary: t rule: hexDecode.induct)
  case (1 a b s)
  then obtain c d u where t: "t = c # d # u" and lu: "length s = length u"
    by (cases t; cases "tl t") auto
  from "1.prems"(1) obtain x y where xy: "hexval a = Some x" "hexval b = Some y" "x < 16" "y < 16"
    by (auto elim!: lower_hex_hexval)
  from "1.prems"(2) t obtain z w where zw: "hexval c = Some z" "hexval d = Some w" "z < 16" "w < 16"
    by (auto elim!: lower_hex_hexval)
  have ih: "hexDecode s = hexDecode u \<longleftrightarrow> s = u"
    using "1.IH" [OF refl, of x y u] "1.prems" t lu xy by auto
  have hd: "16 * x + y = 16 * z + w \<longleftrightarrow> a = c \<and> b = d"
  proof
    assume "16 * x + y = 16 * z + w"
    moreover from this xy(3,4) zw(3,4) have xz: "x = z" by linarith
    ultimately have "y = w" by simp
    with xz have "x = z" "y = w" by simp_all
    then have "hexval a = hexval c" "hexval b = hexval d" by (simp_all add: xy zw)
    with "1.prems"(1,2) t show "a = c \<and> b = d" by (auto intro: hexval_inj)
  next
    assume "a = c \<and> b = d"
    with xy zw show "16 * x + y = 16 * z + w" by simp
  qed
  have "hexDecode (a # b # s) = hexDecode t \<longleftrightarrow>
      16 * x + y = 16 * z + w \<and> hexDecode s = hexDecode u"
    by (simp add: t xy(1,2) zw(1,2))
  also have "\<dots> \<longleftrightarrow> a # b # s = t" unfolding hd ih t by simp
  finally show ?case .
qed auto

end
