(* ===== verification/Shared_Types.thy ===== *)
theory Shared_Types
  imports Js_Values
begin

text \<open>
  The package \<^verbatim>\<open>packages/shared\<close>: enums, limits, socket event names and the
  payloads that cross the socket, and the effects a server handler can have. Field names that
  occur in several interfaces carry a prefix. Times are milliseconds (\<open>int\<close>), as
  \<^verbatim>\<open>Date.now()\<close> gives them.
\<close>

section \<open>Enums and limits\<close>

datatype RoomMode = Collaboration | Interview
datatype UserRole = Peer | Interviewer | Candidate
datatype Difficulty = Easy | Medium | Hard
datatype ExecutionType = Run | Submit
datatype ProblemSource = Curated | UserSubmitted
datatype ExecutionErrorType =
    API_ERROR | API_TIMEOUT | COMPILATION_ERROR | TIMEOUT | RUNTIME_ERROR | PARSE_ERROR
  | ROOM_LIMIT | GLOBAL_LIMIT | IP_LIMIT | OUTPUT_LIMIT
datatype ImportStatus = Scraping | Saved | Failed
datatype SupportedLanguage = Python

fun HINT_LIMIT_BY_DIFFICULTY :: "Difficulty \<Rightarrow> nat" where
  "HINT_LIMIT_BY_DIFFICULTY Easy = 1"
| "HINT_LIMIT_BY_DIFFICULTY Medium = 2"
| "HINT_LIMIT_BY_DIFFICULTY Hard = 3"

definition MAX_USERS :: nat where "MAX_USERS = 2"
definition MAX_SUBMISSIONS :: nat where "MAX_SUBMISSIONS = 20"
definition MAX_IMPORTS :: nat where "MAX_IMPORTS = 3"
definition MAX_CUSTOM_TEST_CASES :: nat where "MAX_CUSTOM_TEST_CASES = 10"
definition MAX_TEST_CASE_BYTES :: nat where "MAX_TEST_CASE_BYTES = 10 * 1024"
definition HARNESS_PAYLOAD_CHARS :: nat where "HARNESS_PAYLOAD_CHARS = 256 * 1024"
definition SLOW_CASE_THRESHOLD_MS :: rat where "SLOW_CASE_THRESHOLD_MS = 500"
definition GRACE_PERIOD_MS :: int where "GRACE_PERIOD_MS = 5 * 60 * 1000"
definition HINT_CONSENT_MS :: int where "HINT_CONSENT_MS = 30 * 1000"

section \<open>Socket events\<close>

datatype socket_event =
    USER_JOIN | USER_JOINED | USER_LEFT | ROOM_FULL | ROOM_SYNC
  | PROBLEM_SELECT | PROBLEM_LOADED | PROBLEM_ERROR | PROBLEM_IMPORT | PROBLEM_IMPORT_STATUS
  | CODE_RUN | CODE_SUBMIT | EXECUTION_STARTED | EXECUTION_RESULT | EXECUTION_ERROR
  | HINT_REQUEST | HINT_PENDING | HINT_APPROVE | HINT_DENY | HINT_DENIED
  | HINT_CHUNK | HINT_DONE | HINT_ERROR
  | SOLUTION_REVEAL | SOLUTION_REVEALED
  | TESTCASE_ADD | TESTCASE_ADDED | TESTCASE_ERROR
  | EVENT_REJECTED | ACCESS_REQUIRED | YJS_TOKEN_ROTATED
  | LANGUAGE_CHANGE | LANGUAGE_CHANGED

fun event_name :: "socket_event \<Rightarrow> string" where
  "event_name USER_JOIN = ''user:join''"
| "event_name USER_JOINED = ''user:joined''"
| "event_name USER_LEFT = ''user:left''"
| "event_name ROOM_FULL = ''room:full''"
| "event_name ROOM_SYNC = ''room:sync''"
| "event_name PROBLEM_SELECT = ''problem:select''"
| "event_name PROBLEM_LOADED = ''problem:loaded''"
| "event_name PROBLEM_ERROR = ''problem:error''"
| "event_name PROBLEM_IMPORT = ''problem:import''"
| "event_name PROBLEM_IMPORT_STATUS = ''problem:import:status''"
| "event_name CODE_RUN = ''code:run''"
| "event_name CODE_SUBMIT = ''code:submit''"
| "event_name EXECUTION_STARTED = ''execution:started''"
| "event_name EXECUTION_RESULT = ''execution:result''"
| "event_name EXECUTION_ERROR = ''execution:error''"
| "event_name HINT_REQUEST = ''hint:request''"
| "event_name HINT_PENDING = ''hint:pending''"
| "event_name HINT_APPROVE = ''hint:approve''"
| "event_name HINT_DENY = ''hint:deny''"
| "event_name HINT_DENIED = ''hint:denied''"
| "event_name HINT_CHUNK = ''hint:chunk''"
| "event_name HINT_DONE = ''hint:done''"
| "event_name HINT_ERROR = ''hint:error''"
| "event_name SOLUTION_REVEAL = ''solution:reveal''"
| "event_name SOLUTION_REVEALED = ''solution:revealed''"
| "event_name TESTCASE_ADD = ''testcase:add''"
| "event_name TESTCASE_ADDED = ''testcase:added''"
| "event_name TESTCASE_ERROR = ''testcase:error''"
| "event_name EVENT_REJECTED = ''event:rejected''"
| "event_name ACCESS_REQUIRED = ''access:required''"
| "event_name YJS_TOKEN_ROTATED = ''yjs:token:rotated''"
| "event_name LANGUAGE_CHANGE = ''language:change''"
| "event_name LANGUAGE_CHANGED = ''language:changed''"

section \<open>Domain types and payloads\<close>

record problem =
  p_id :: string
  p_slug :: string
  p_title :: string
  p_difficulty :: Difficulty
  p_category :: string
  p_description :: string
  p_constraints :: "string list"
  p_solution :: "string option"
  p_timeLimitMs :: nat
  p_source :: ProblemSource
  p_sourceUrl :: "string option"
  p_deletedAt :: "string option"
  p_createdAt :: string
  p_updatedAt :: string

record test_case =
  tc_id :: string
  tc_problemId :: string
  tc_input :: "(string \<times> json) list"
  tc_expectedOutput :: js_unknown
  tc_isVisible :: bool
  tc_orderIndex :: nat

record boilerplate_template =
  bp_id :: string
  bp_problemId :: string
  bp_language :: string
  bp_template :: string
  bp_methodName :: string
  bp_parameterNames :: "string list"

record hint =
  h_id :: string
  h_problemId :: string
  h_hintText :: string
  h_orderIndex :: nat

record room_user =
  ru_id :: string
  ru_displayName :: string
  ru_role :: UserRole
  ru_connected :: bool

record pending_hint_request =
  requestedBy :: string
  requestedAt :: int

record custom_test_case =
  ct_input :: "(string \<times> json) list"
  ct_expectedOutput :: js_unknown

record room_state =
  rs_roomCode :: string
  rs_mode :: RoomMode
  rs_maxUsers :: nat
  rs_users :: "room_user list"
  rs_problemId :: "string option"
  rs_language :: SupportedLanguage
  rs_hintsUsed :: nat
  rs_hintLimit :: nat
  rs_pendingHintRequest :: "pending_hint_request option"
  rs_customTestCases :: "custom_test_case list"
  rs_submissionsUsed :: nat
  rs_submissionLimit :: nat
  rs_executionInProgress :: bool
  rs_createdAt :: int
  rs_lastActivityAt :: int

record case_result =
  cr_index :: nat
  cr_passed :: bool
  cr_elapsedMs :: rat
  cr_got :: "string option"
  cr_expected :: "string option"
  cr_error :: "string option"
  cr_isErrorTruncated :: bool
  cr_input :: "string option"
  cr_slow :: bool

record run_result =
  rr_passed :: nat
  rr_total :: nat
  rr_cases :: "case_result list"
  rr_userStdout :: string
  rr_hasTruncatedUserStdout :: bool

record first_failure =
  ff_index :: nat
  ff_input :: string
  ff_got :: string
  ff_expected :: string
  ff_isErrorTruncated :: bool

record submit_result =
  sr_passed :: nat
  sr_total :: nat
  sr_firstFailure :: "first_failure option"

datatype execution_result = RunResult run_result | SubmitResult submit_result

record user_joined_payload =
  uj_userId :: string
  uj_displayName :: string
  uj_role :: UserRole
  uj_mode :: RoomMode
  uj_reconnectToken :: string
  uj_yjsToken :: string

record problem_detail =
  pd_problem :: problem
  pd_visibleTestCases :: "test_case list"
  pd_boilerplate :: "boilerplate_template option"

record problem_loaded_payload =
  pl_problem :: problem_detail
  pl_visibleTestCases :: "test_case list"
  pl_boilerplate :: string
  pl_parameterNames :: "string list"

record hint_pending_payload =
  hp_requestedBy :: string
  hp_displayName :: string
  hp_hintsUsed :: nat
  hp_hintLimit :: nat

datatype server_msg =
    UserJoined user_joined_payload
  | UserLeft string
  | RoomFull
  | RoomSync room_state
  | ProblemLoaded problem_loaded_payload
  | ProblemError string
  | ProblemImportStatus ImportStatus "string option" "nat option"
  | ExecutionStarted ExecutionType
  | ExecutionResult execution_result
  | ExecutionError ExecutionErrorType string
  | HintPending hint_pending_payload
  | HintDenied
  | HintChunk string
  | HintDone string int
  | HintError string
  | SolutionRevealed string
  | TestcaseAdded custom_test_case
  | TestcaseError string
  | EventRejected string string "nat option"
  | YjsTokenRotated string

text \<open>
  What a handler does to the outside: \<^verbatim>\<open>socket.emit\<close>, \<^verbatim>\<open>io.to(room).emit\<close>,
  \<^verbatim>\<open>socket.to(room).emit\<close>, \<^verbatim>\<open>socket.join\<close> and
  \<^verbatim>\<open>socket.disconnect(true)\<close>.
\<close>

datatype eff =
    ToSocket string server_msg
  | ToRoom string server_msg
  | ToOthers string string server_msg
  | SocketJoin string string
  | SocketDisconnect string

section \<open>Lemmas\<close>

definition all_socket_events :: "socket_event list" where
  "all_socket_events =
     [USER_JOIN, USER_JOINED, USER_LEFT, ROOM_FULL, ROOM_SYNC, PROBLEM_SELECT, PROBLEM_LOADED,
      PROBLEM_ERROR, PROBLEM_IMPORT, PROBLEM_IMPORT_STATUS, CODE_RUN, CODE_SUBMIT,
      EXECUTION_STARTED, EXECUTION_RESULT, EXECUTION_ERROR, HINT_REQUEST, HINT_PENDING,
      HINT_APPROVE, HINT_DENY, HINT_DENIED, HINT_CHUNK, HINT_DONE, HINT_ERROR, SOLUTION_REVEAL,
      SOLUTION_REVEALED, TESTCASE_ADD, TESTCASE_ADDED, TESTCASE_ERROR, EVENT_REJECTED,
      ACCESS_REQUIRED, YJS_TOKEN_ROTATED, LANGUAGE_CHANGE, LANGUAGE_CHANGED]"

lemma all_socket_events_complete: "e \<in> set all_socket_events"
  by (cases e) (simp_all add: all_socket_events_def)

lemma event_names_distinct: "distinct (map event_name all_socket_events)"
  by code_simp

lemma event_name_inj: "event_name a = event_name b \<longleftrightarrow> a = b"
proof
  assume "event_name a = event_name b"
  moreover have "inj_on event_name (set all_socket_events)"
    using event_names_distinct by (simp add: distinct_map)
  ultimately show "a = b" by (auto dest: inj_onD simp: all_socket_events_complete)
qed simp

lemma HINT_LIMIT_pos: "1 \<le> HINT_LIMIT_BY_DIFFICULTY d \<and> HINT_LIMIT_BY_DIFFICULTY d \<le> 3"
  by (cases d) simp_all

end
