(* ===== verification/Room_Code.thy ===== *)
theory Room_Code
  imports Shared_Types
begin

text \<open>
  Room codes: their generation on the server (\<^verbatim>\<open>apps/server/src/lib/roomCode.ts\<close>),
  the schema that accepts them (\<^verbatim>\<open>packages/shared/src/validation.ts\<close>) and the
  client's input field (\<^verbatim>\<open>apps/client/src/lib/roomCodeUtils.ts\<close>).
  \<^verbatim>\<open>Math.random\<close> is a stream of draws \<open>rnd\<close>, the indices
  \<^verbatim>\<open>Math.floor(Math.random() * 32)\<close> in the order the code takes them;
  \<^verbatim>\<open>crypto.randomUUID\<close> is the argument \<open>uuid\<close>.
\<close>

definition ALPHABET :: string where
  "ALPHABET = ''abcdefghijklmnopqrstuvwxyz234567''"

definition SEGMENT_LENGTH :: nat where "SEGMENT_LENGTH = 3"
definition SEGMENT_COUNT :: nat where "SEGMENT_COUNT = 2"
definition MAX_RETRIES :: nat where "MAX_RETRIES = 5"

definition normalizeRoomCode :: "string \<Rightarrow> string" where
  "normalizeRoomCode roomCode = toLowerCase (trim roomCode)"

definition segment :: "(nat \<Rightarrow> nat) \<Rightarrow> nat \<Rightarrow> string" where
  "segment rnd i = map (\<lambda>k. ALPHABET ! rnd (i + k)) [0..<SEGMENT_LENGTH]"

definition randomSegments :: "(nat \<Rightarrow> nat) \<Rightarrow> nat \<Rightarrow> string" where
  "randomSegments rnd i = segment rnd i @ ''-'' @ segment rnd (i + SEGMENT_LENGTH)"

definition parsePair :: "string \<Rightarrow> nat option" where
  "parsePair pr =
     (case pr of
        [a, b] \<Rightarrow> (case (hexval a, hexval b) of
             (Some x, Some y) \<Rightarrow> Some (16 * x + y)
           | (Some x, None) \<Rightarrow> Some x
           | _ \<Rightarrow> None)
      | [a] \<Rightarrow> hexval a
      | _ \<Rightarrow> None)"

function fallbackLetters :: "string \<Rightarrow> string \<Rightarrow> string" where
  "fallbackLetters source letters =
     (if length letters < SEGMENT_LENGTH * SEGMENT_COUNT \<and> source \<noteq> []
      then fallbackLetters (drop 2 source)
             (letters @ (case parsePair (take 2 source) of
                           Some n \<Rightarrow> [ALPHABET ! (n mod length ALPHABET)]
                         | None \<Rightarrow> ''undefined''))
      else letters)"
  by pat_completeness auto
termination
  by (relation "measure (\<lambda>(source, letters). length source)") auto

declare fallbackLetters.simps [simp del]

definition uuidFallbackSegments :: "string \<Rightarrow> string" where
  "uuidFallbackSegments uuid =
     (let letters = fallbackLetters (filter (\<lambda>c. c \<noteq> CHR ''-'') uuid) []
      in take SEGMENT_LENGTH letters @ ''-''
         @ drop SEGMENT_LENGTH (take (SEGMENT_LENGTH * SEGMENT_COUNT) letters))"

fun attemptCodes :: "string list \<Rightarrow> (nat \<Rightarrow> nat) \<Rightarrow> string \<Rightarrow> nat \<Rightarrow> nat \<Rightarrow> string" where
  "attemptCodes active rnd uuid attempt 0 = uuidFallbackSegments uuid"
| "attemptCodes active rnd uuid attempt (Suc left) =
     (let code = randomSegments rnd (SEGMENT_LENGTH * SEGMENT_COUNT * attempt)
      in if code \<notin> set active then code
         else attemptCodes active rnd uuid (Suc attempt) left)"

definition generateRoomCode :: "string list \<Rightarrow> (nat \<Rightarrow> nat) \<Rightarrow> string \<Rightarrow> string" where
  "generateRoomCode active rnd uuid = attemptCodes active rnd uuid 0 MAX_RETRIES"

text \<open>The pattern \<^verbatim>\<open>^[a-z2-7]{3}-[a-z2-7]{3}$\<close> and the schema around it.\<close>

definition roomCodePattern :: "string \<Rightarrow> bool" where
  "roomCodePattern s \<longleftrightarrow>
     length s = 7 \<and> s ! 3 = CHR ''-'' \<and>
     list_all (\<lambda>c. c \<in> set ALPHABET) (take 3 s) \<and> list_all (\<lambda>c. c \<in> set ALPHABET) (drop 4 s)"

definition roomCodeSchema :: "string \<Rightarrow> string option" where
  "roomCodeSchema s =
     (let c = toLowerCase (trim s) in if roomCodePattern c then Some c else None)"

section \<open>The client's input field\<close>

definition TOTAL_LENGTH :: nat where
  "TOTAL_LENGTH = SEGMENT_LENGTH * SEGMENT_COUNT"

definition stripRoomCodeInput :: "string \<Rightarrow> string" where
  "stripRoomCodeInput raw =
     take TOTAL_LENGTH (filter (\<lambda>ch. ch \<in> set ALPHABET) (toLowerCase raw))"

definition formatRoomCode :: "string \<Rightarrow> string" where
  "formatRoomCode stripped =
     (if length stripped \<le> SEGMENT_LENGTH then stripped
      else take SEGMENT_LENGTH stripped @ ''-'' @ drop SEGMENT_LENGTH stripped)"

definition isRoomCodeComplete :: "string \<Rightarrow> bool" where
  "isRoomCodeComplete stripped \<longleftrightarrow> length stripped = TOTAL_LENGTH"

definition normalizeRoomCodeInput :: "string \<Rightarrow> string option" where
  "normalizeRoomCodeInput raw =
     (let stripped = stripRoomCodeInput raw
      in if isRoomCodeComplete stripped then Some (formatRoomCode stripped) else None)"

section \<open>Lemmas\<close>

lemma length_ALPHABET [simp]: "length ALPHABET = 32"
  by (simp add: ALPHABET_def)

lemma ALPHABET_nth: "n < 32 \<Longrightarrow> ALPHABET ! n \<in> set ALPHABET"
  by (intro nth_mem) simp

lemma ALPHABET_fixed: "list_all (\<lambda>c. lower_char c = c \<and> \<not> is_ws c \<and> c \<noteq> CHR ''-'') ALPHABET"
  by (simp add: ALPHABET_def lower_char_def is_ws_def)

lemma ALPHABET_lower: "c \<in> set ALPHABET \<Longrightarrow> lower_char c = c"
  and ALPHABET_not_ws: "c \<in> set ALPHABET \<Longrightarrow> \<not> is_ws c"
  and ALPHABET_not_dash: "c \<in> set ALPHABET \<Longrightarrow> c \<noteq> CHR ''-''"
  using ALPHABET_fixed by (auto simp: list_all_iff)

text \<open>A code matches the pattern when it is two segments of letters joined by a dash.\<close>

lemma roomCodePattern_iff:
  "roomCodePattern s \<longleftrightarrow>
   (\<exists>a b. s = a @ ''-'' @ b \<and> length a = 3 \<and> length b = 3 \<and> set a \<subseteq> set ALPHABET \<and> set b \<subseteq> set ALPHABET)"
proof
  assume p: "roomCodePattern s"
  then have "s = take 3 s @ (s ! 3) # drop (Suc 3) s"
    by (intro id_take_nth_drop) (simp add: roomCodePattern_def)
  with p have "s = take 3 s @ ''-'' @ drop 4 s" by (simp add: roomCodePattern_def)
  then show "\<exists>a b. s = a @ ''-'' @ b \<and> length a = 3 \<and> length b = 3 \<and>
      set a \<subseteq> set ALPHABET \<and> set b \<subseteq> set ALPHABET"
    using p unfolding roomCodePattern_def list_all_iff
    by (intro exI [of _ "take 3 s"] exI [of _ "drop 4 s"]) auto
qed (auto simp: roomCodePattern_def list_all_iff nth_append subset_iff)

lemma roomCodePattern_normalized:
  assumes "roomCodePattern s"
  shows "normalizeRoomCode s = s"
proof -
  from assms obtain a b where s: "s = a @ ''-'' @ b" and len: "length a = 3" "length b = 3"
    and ab: "set a \<subseteq> set ALPHABET" "set b \<subseteq> set ALPHABET"
    by (auto simp: roomCodePattern_iff)
  have ne: "a \<noteq> []" "b \<noteq> []" using len by auto
  have "trim s = s"
    using ne ab ALPHABET_not_ws hd_in_set last_in_set by (intro trim_fix) (auto simp: s subset_iff)
  moreover have "map lower_char s = s"
    using ab ALPHABET_lower by (intro map_idI) (auto simp: s lower_char_def subset_iff)
  ultimately show ?thesis by (simp add: normalizeRoomCode_def toLowerCase_def)
qed

lemma normalizeRoomCode_idem: "normalizeRoomCode (normalizeRoomCode s) = normalizeRoomCode s"
  by (simp add: normalizeRoomCode_def trim_toLowerCase)

lemma length_segment [simp]: "length (segment rnd i) = 3"
  by (simp add: segment_def SEGMENT_LENGTH_def)

lemma set_segment: "\<forall>k. rnd k < 32 \<Longrightarrow> set (segment rnd i) \<subseteq> set ALPHABET"
  by (auto simp: segment_def ALPHABET_nth)

lemma randomSegments_valid: "\<forall>k. rnd k < 32 \<Longrightarrow> roomCodePattern (randomSegments rnd i)"
  unfolding roomCodePattern_iff randomSegments_def
  by (intro exI [of _ "segment rnd i"] exI [of _ "segment rnd (i + SEGMENT_LENGTH)"])
    (simp add: set_segment)

lemma parsePair_two:
  "hexval a \<noteq> None \<Longrightarrow> hexval b \<noteq> None \<Longrightarrow> \<exists>n. parsePair [a, b] = Some n"
  by (auto simp: parsePair_def)

lemma fallbackLetters_hex:
  "list_all (\<lambda>c. hexval c \<noteq> None) source \<Longrightarrow> set letters \<subseteq> set ALPHABET \<Longrightarrow> length letters \<le> 6 \<Longrightarrow>
   12 \<le> length source + 2 * length letters \<Longrightarrow>
   length (fallbackLetters source letters) = 6 \<and> set (fallbackLetters source letters) \<subseteq> set ALPHABET"
proof (induction source letters rule: fallbackLetters.induct)
  case (1 source letters)
  show ?case
  proof (cases "length letters < 6")
    case True
    with "1.prems"(4) obtain a b s where src: "source = a # b # s"
      by (cases source; cases "tl source") auto
    with "1.prems"(1) obtain n where n: "parsePair (take 2 source) = Some n"
      using parsePair_two by fastforce
    let ?l = "letters @ [ALPHABET ! (n mod 32)]"
    have "fallbackLetters source letters = fallbackLetters s ?l"
      using True src n by (subst fallbackLetters.simps)
        (simp add: SEGMENT_LENGTH_def SEGMENT_COUNT_def)
    moreover have "length (fallbackLetters s ?l) = 6 \<and> set (fallbackLetters s ?l) \<subseteq> set ALPHABET"
      using "1.IH" "1.prems" True src n
      by (simp add: SEGMENT_LENGTH_def SEGMENT_COUNT_def ALPHABET_nth)
    ultimately show ?thesis by simp
  next
    case False
    with "1.prems" show ?thesis
      by (subst (1 2) fallbackLetters.simps) (simp add: SEGMENT_LENGTH_def SEGMENT_COUNT_def)
  qed
qed

text \<open>The digits a version-4 UUID has once its dashes are dropped: 32 of them.\<close>

definition uuid_text :: "string \<Rightarrow> bool" where
  "uuid_text u \<longleftrightarrow>
     (let d = filter (\<lambda>c. c \<noteq> CHR ''-'') u in length d = 32 \<and> list_all (\<lambda>c. hexval c \<noteq> None) d)"

lemma uuidFallbackSegments_valid:
  assumes "uuid_text u"
  shows "roomCodePattern (uuidFallbackSegments u)"
proof -
  let ?l = "fallbackLetters (filter (\<lambda>c. c \<noteq> CHR ''-'') u) []"
  have l: "length ?l = 6" "set ?l \<subseteq> set ALPHABET"
    using assms fallbackLetters_hex [of "filter (\<lambda>c. c \<noteq> CHR ''-'') u" "[]"]
    by (auto simp: uuid_text_def Let_def)
  show ?thesis
    unfolding roomCodePattern_iff uuidFallbackSegments_def Let_def
    by (intro exI [of _ "take 3 ?l"] exI [of _ "drop 3 ?l"])
      (use l in \<open>auto simp: SEGMENT_LENGTH_def SEGMENT_COUNT_def dest: in_set_takeD in_set_dropD\<close>)
qed

lemma attemptCodes_valid:
  "\<forall>k. rnd k < 32 \<Longrightarrow> uuid_text uuid \<Longrightarrow> roomCodePattern (attemptCodes active rnd uuid a n)"
  by (induction n arbitrary: a) (auto simp: Let_def randomSegments_valid uuidFallbackSegments_valid)

lemma attemptCodes_active:
  "attemptCodes active rnd uuid a n \<in> set active \<Longrightarrow>
   attemptCodes active rnd uuid a n = uuidFallbackSegments uuid \<and>
   (\<forall>i < n. randomSegments rnd (6 * (a + i)) \<in> set active)"
proof (induction n arbitrary: a)
  case 0
  then show ?case by simp
next
  case (Suc n)
  let ?c = "randomSegments rnd (6 * a)"
  have six: "SEGMENT_LENGTH * SEGMENT_COUNT = 6"
    by (simp add: SEGMENT_LENGTH_def SEGMENT_COUNT_def)
  from Suc.prems have c: "?c \<in> set active"
    by (auto simp: Let_def six split: if_splits)
  with Suc.prems Suc.IH [of "Suc a"]
  have ih: "attemptCodes active rnd uuid (Suc a) n = uuidFallbackSegments uuid"
    and all: "\<forall>i < n. randomSegments rnd (6 * (Suc a + i)) \<in> set active"
    by (auto simp: Let_def six)
  have "randomSegments rnd (6 * (a + i)) \<in> set active" if "i < Suc n" for i
    using that c all by (cases i) auto
  with ih c show ?case by (simp add: Let_def six)
qed

lemma stripRoomCodeInput_code:
  assumes "length a = 3" "length b = 3" "set a \<subseteq> set ALPHABET" "set b \<subseteq> set ALPHABET"
  shows "stripRoomCodeInput (a @ ''-'' @ b) = a @ b"
proof -
  have low: "map lower_char a = a" "map lower_char b = b"
    using assms(3,4) ALPHABET_lower by (auto intro: map_idI)
  have keep: "filter (\<lambda>ch. ch \<in> set ALPHABET) a = a" "filter (\<lambda>ch. ch \<in> set ALPHABET) b = b"
    using assms(3,4) by (auto intro: filter_True)
  have dash: "CHR ''-'' \<notin> set ALPHABET" "lower_char CHR ''-'' = CHR ''-''"
    using ALPHABET_not_dash by (auto simp: lower_char_def)
  show ?thesis
    using assms(1,2)
    by (simp add: stripRoomCodeInput_def toLowerCase_def low keep dash TOTAL_LENGTH_def
        SEGMENT_LENGTH_def SEGMENT_COUNT_def)
qed

lemma normalizeRoomCodeInput_code:
  assumes "roomCodePattern s"
  shows "normalizeRoomCodeInput s = Some s"
proof -
  from assms obtain a b where s: "s = a @ ''-'' @ b" "length a = 3" "length b = 3"
    "set a \<subseteq> set ALPHABET" "set b \<subseteq> set ALPHABET"
    by (auto simp: roomCodePattern_iff)
  have "stripRoomCodeInput s = a @ b" unfolding s(1) using s(2-5) by (rule stripRoomCodeInput_code)
  then show ?thesis
    using s(2,3) by (simp add: normalizeRoomCodeInput_def isRoomCodeComplete_def formatRoomCode_def
        TOTAL_LENGTH_def SEGMENT_LENGTH_def SEGMENT_COUNT_def s(1))
qed

section \<open>Properties\<close>

text \<open>
  A generated room code always has the shape the schema asks for, is its own normal form,
  passes the join schema, and survives the client's input field unchanged, whatever codes are
  active and whichever attempt, random or UUID-based, produced it.
\<close>

theorem generateRoomCode_roundtrip:
  assumes "\<forall>k. rnd k < 32" and "uuid_text uuid"
  shows "let c = generateRoomCode active rnd uuid in
    roomCodePattern c \<and> normalizeRoomCode c = c \<and> roomCodeSchema c = Some c
    \<and> normalizeRoomCodeInput c = Some c"
proof -
  have p: "roomCodePattern (generateRoomCode active rnd uuid)"
    unfolding generateRoomCode_def using assms by (rule attemptCodes_valid)
  from roomCodePattern_normalized [OF p] p normalizeRoomCodeInput_code [OF p] show ?thesis
    by (simp add: roomCodeSchema_def normalizeRoomCode_def Let_def)
qed

theorem generateRoomCode_roundtrip_witness:
  "let c = generateRoomCode [''aaa-aaa''] (\<lambda>_. 7) ''0a1b2c3d-4e5f-4071-8293-a4b5c6d7e8f9'' in
    roomCodePattern c \<and> normalizeRoomCode c = c \<and> roomCodeSchema c = Some c
    \<and> normalizeRoomCodeInput c = Some c"
  by (rule generateRoomCode_roundtrip) (simp, code_simp)

text \<open>
  A generated code can only collide with an active room when all five random attempts hit
  active codes; the code is then the UUID-based fallback, which the source does not check
  against the active rooms.
\<close>

theorem generateRoomCode_collision:
  assumes "generateRoomCode active rnd uuid \<in> set active"
  shows "generateRoomCode active rnd uuid = uuidFallbackSegments uuid
    \<and> (\<forall>i < 5. randomSegments rnd (6 * i) \<in> set active)"
  using assms attemptCodes_active [of active rnd uuid 0 MAX_RETRIES]
  by (simp add: generateRoomCode_def MAX_RETRIES_def)

theorem generateRoomCode_collision_witness:
  "generateRoomCode [''aaa-aaa''] (\<lambda>_. 0) ''00000000-0000-4000-8000-000000000000''
     = uuidFallbackSegments ''00000000-0000-4000-8000-000000000000''
   \<and> randomSegments (\<lambda>_. 0) (6 * 3) = ''aaa-aaa''"
proof -
  have "generateRoomCode [''aaa-aaa''] (\<lambda>_. 0) ''00000000-0000-4000-8000-000000000000''
     \<in> set [''aaa-aaa'']"
    by code_simp
  note c = generateRoomCode_collision [OF this]
  from conjunct2 [OF c, rule_format, of 3] conjunct1 [OF c] show ?thesis by simp
qed

text \<open>
  Whatever text is typed into the client's join field, a code the field accepts has the
  shape the server's schema accepts, and formatting is stable under a second pass.
\<close>

theorem normalizeRoomCodeInput_sound:
  assumes "normalizeRoomCodeInput raw = Some c"
  shows "roomCodePattern c \<and> roomCodeSchema c = Some c \<and> normalizeRoomCodeInput c = Some c"
proof -
  let ?s = "stripRoomCodeInput raw"
  from assms have len: "length ?s = 6" and c: "c = formatRoomCode ?s"
    by (auto simp: normalizeRoomCodeInput_def isRoomCodeComplete_def TOTAL_LENGTH_def
        SEGMENT_LENGTH_def SEGMENT_COUNT_def Let_def split: if_splits)
  have sub: "set ?s \<subseteq> set ALPHABET"
    by (auto simp: stripRoomCodeInput_def dest: in_set_takeD)
  have p: "roomCodePattern c"
    unfolding roomCodePattern_iff c formatRoomCode_def
    by (intro exI [of _ "take 3 ?s"] exI [of _ "drop 3 ?s"])
      (use len sub in \<open>auto simp: SEGMENT_LENGTH_def dest: in_set_takeD in_set_dropD\<close>)
  with roomCodePattern_normalized [OF p] normalizeRoomCodeInput_code [OF p] show ?thesis
    by (simp add: roomCodeSchema_def normalizeRoomCode_def Let_def)
qed

theorem normalizeRoomCodeInput_sound_witness:
  "roomCodePattern ''abc-xyz'' \<and> roomCodeSchema ''abc-xyz'' = Some ''abc-xyz''
   \<and> normalizeRoomCodeInput ''abc-xyz'' = Some ''abc-xyz''"
  by (rule normalizeRoomCodeInput_sound [of "'' AbC  xYz!9''"]) code_simp

end
