(* ===== verification/Room.thy ===== *)
theory Room
  imports Room_Code
begin

text \<open>
  The room object of \<^verbatim>\<open>apps/server/src/models/Room.ts\<close>: its state, its
  operations, the room invariant and what each operation keeps of it. Random tokens and ids
  (\<^verbatim>\<open>crypto.randomUUID\<close>, \<^verbatim>\<open>crypto.randomBytes\<close>) and the
  clock are arguments; a timer is represented by its handle, a number.
\<close>

section \<open>State\<close>

record room_user_internal =
  userId :: string
  displayName :: string
  role :: UserRole
  connected :: bool
  reconnectToken :: string
  socketId :: "string option"

record room_options =
  opt_submissionLimit :: "nat option"
  opt_importLimit :: "nat option"
  opt_customTestCaseLimit :: "nat option"
  opt_gracePeriodMs :: "int option"

record room =
  roomCode :: string
  mode :: RoomMode
  users :: "room_user_internal list"
  problemId :: "string option"
  language :: SupportedLanguage
  hintsUsed :: nat
  hintLimit :: nat
  pendingHintRequest :: "pending_hint_request option"
  customTestCases :: "custom_test_case list"
  hintHistory :: "string list"
  submissionsUsed :: nat
  submissionLimit :: nat
  executionInProgress :: bool
  hintStreaming :: bool
  llmCallsUsed :: nat
  importsUsed :: nat
  importLimit :: nat
  customTestCaseLimit :: nat
  gracePeriodMs :: int
  yjsToken :: string
  createdAt :: int
  lastActivityAt :: int
  gracePeriodTimers :: "(string \<times> nat) list"

text \<open>The JavaScript \<^verbatim>\<open>??\<close>.\<close>

definition orElse :: "'a option \<Rightarrow> 'a \<Rightarrow> 'a" where
  "orElse x d = (case x of None \<Rightarrow> d | Some v \<Rightarrow> v)"

definition new_room :: "string \<Rightarrow> RoomMode \<Rightarrow> room_options \<Rightarrow> string \<Rightarrow> int \<Rightarrow> room" where
  "new_room code m options token now =
     \<lparr>roomCode = code, mode = m, users = [], problemId = None, language = Python,
      hintsUsed = 0, hintLimit = 0, pendingHintRequest = None, customTestCases = [],
      hintHistory = [], submissionsUsed = 0,
      submissionLimit = orElse (opt_submissionLimit options) MAX_SUBMISSIONS,
      executionInProgress = False, hintStreaming = False, llmCallsUsed = 0, importsUsed = 0,
      importLimit = orElse (opt_importLimit options) MAX_IMPORTS,
      customTestCaseLimit = orElse (opt_customTestCaseLimit options) MAX_CUSTOM_TEST_CASES,
      gracePeriodMs = orElse (opt_gracePeriodMs options) (5 * 60 * 1000),
      yjsToken = token, createdAt = now, lastActivityAt = now, gracePeriodTimers = []\<rparr>"

section \<open>Operations\<close>

definition rotateYjsToken :: "string \<Rightarrow> room \<Rightarrow> room" where
  "rotateYjsToken token r = r\<lparr>yjsToken := token\<rparr>"

definition addUser ::
  "string \<Rightarrow> string \<Rightarrow> int \<Rightarrow> string \<Rightarrow> UserRole \<Rightarrow> string \<Rightarrow> room \<Rightarrow> room \<times> room_user_internal" where
  "addUser uid token now name rl sid r =
     (let user = \<lparr>userId = uid, displayName = name, role = rl, connected = True,
                  reconnectToken = token, socketId = Some sid\<rparr>
      in (r\<lparr>users := users r @ [user], lastActivityAt := now\<rparr>, user))"

definition removeUser :: "string \<Rightarrow> room \<Rightarrow> room" where
  "removeUser uid r =
     r\<lparr>users := filter (\<lambda>u. userId u \<noteq> uid) (users r),
       gracePeriodTimers := AList.delete uid (gracePeriodTimers r)\<rparr>"

text \<open>
  Timer operations return the handles they pass to \<^verbatim>\<open>clearTimeout\<close> beside the
  room, so that the timer queue of the environment can follow them.
\<close>

definition startGracePeriod :: "string \<Rightarrow> nat \<Rightarrow> room \<Rightarrow> room" where
  "startGracePeriod uid timer r =
     r\<lparr>gracePeriodTimers := AList.update uid timer (gracePeriodTimers r)\<rparr>"

definition gracePeriodFired :: "string \<Rightarrow> room \<Rightarrow> room" where
  "gracePeriodFired uid r = r\<lparr>gracePeriodTimers := AList.delete uid (gracePeriodTimers r)\<rparr>"

definition cancelGracePeriod :: "string \<Rightarrow> room \<Rightarrow> room \<times> nat list" where
  "cancelGracePeriod uid r =
     (case map_of (gracePeriodTimers r) uid of
        None \<Rightarrow> (r, [])
      | Some timer \<Rightarrow> (r\<lparr>gracePeriodTimers := AList.delete uid (gracePeriodTimers r)\<rparr>, [timer]))"

definition findUser :: "string \<Rightarrow> room \<Rightarrow> room_user_internal option" where
  "findUser uid r = List.find (\<lambda>u. userId u = uid) (users r)"

definition reconnectUser ::
  "string \<Rightarrow> int \<Rightarrow> string \<Rightarrow> string \<Rightarrow> room \<Rightarrow> (room \<times> room_user_internal \<times> nat list) option" where
  "reconnectUser token now uid sid r =
     (case findUser uid r of
        None \<Rightarrow> None
      | Some user \<Rightarrow>
          (let upd = (\<lambda>u. u\<lparr>connected := True, socketId := Some sid, reconnectToken := token\<rparr>);
               r1 = r\<lparr>users := update_first (\<lambda>u. userId u = uid) upd (users r)\<rparr>;
               (r2, cleared) = cancelGracePeriod uid r1
           in Some (r2\<lparr>lastActivityAt := now\<rparr>, upd user, cleared)))"

definition findBySocketId :: "string \<Rightarrow> room \<Rightarrow> room_user_internal option" where
  "findBySocketId sid r = List.find (\<lambda>u. socketId u = Some sid \<and> connected u) (users r)"

text \<open>
  \<^verbatim>\<open>timingSafeEqual\<close> throws on buffers of different length, which the code turns
  into \<open>False\<close>; on equal lengths it compares the decoded bytes.
\<close>

definition tokenMatches :: "string \<Rightarrow> string \<Rightarrow> bool" where
  "tokenMatches a b \<longleftrightarrow> hexDecode a = hexDecode b"

definition findByReconnectToken :: "string \<Rightarrow> room \<Rightarrow> room_user_internal option" where
  "findByReconnectToken token r =
     List.find (\<lambda>u. \<not> connected u \<and> tokenMatches (reconnectToken u) token) (users r)"

datatype check = Allowed | Refused string

definition msg_select_before_run :: string where
  "msg_select_before_run = ''Select a problem before running code.''"
definition msg_execution_in_progress :: string where
  "msg_execution_in_progress = ''Execution already in progress.''"
definition msg_execution_limit :: "nat \<Rightarrow> string" where
  "msg_execution_limit n =
     ''Session execution limit reached ('' @ string_of_nat n @ ''/'' @ string_of_nat n @ '').''"
definition msg_no_switch_running :: string where
  "msg_no_switch_running = ''Cannot switch problems while code is running.''"
definition msg_no_switch_hint :: string where
  "msg_no_switch_hint = ''Cannot switch problems while a hint is being delivered.''"

definition canExecute :: "room \<Rightarrow> check" where
  "canExecute r =
     (if problemId r = None \<or> problemId r = Some [] then Refused msg_select_before_run
      else if executionInProgress r then Refused msg_execution_in_progress
      else if submissionLimit r \<le> submissionsUsed r
           then Refused (msg_execution_limit (submissionLimit r))
      else Allowed)"

definition canSwitchProblem :: "room \<Rightarrow> check" where
  "canSwitchProblem r =
     (if executionInProgress r then Refused msg_no_switch_running
      else if hintStreaming r then Refused msg_no_switch_hint
      else Allowed)"

definition switchProblem :: "string \<Rightarrow> nat \<Rightarrow> int \<Rightarrow> room \<Rightarrow> room" where
  "switchProblem pid limit now r =
     r\<lparr>problemId := Some pid, hintLimit := limit, hintsUsed := 0, hintHistory := [],
       pendingHintRequest := None, customTestCases := [], lastActivityAt := now\<rparr>"

definition isFull :: "room \<Rightarrow> bool" where
  "isFull r \<longleftrightarrow> MAX_USERS \<le> length (users r)"

definition connectedUserCount :: "room \<Rightarrow> nat" where
  "connectedUserCount r = length (filter connected (users r))"

definition occupiedUserCount :: "room \<Rightarrow> nat" where
  "occupiedUserCount r = length (users r)"

definition publicUser :: "room_user_internal \<Rightarrow> room_user" where
  "publicUser u = \<lparr>ru_id = userId u, ru_displayName = displayName u, ru_role = role u,
                   ru_connected = connected u\<rparr>"

definition toSyncPayload :: "room \<Rightarrow> room_state" where
  "toSyncPayload r =
     \<lparr>rs_roomCode = roomCode r, rs_mode = mode r, rs_maxUsers = MAX_USERS,
      rs_users = map publicUser (users r), rs_problemId = problemId r,
      rs_language = language r, rs_hintsUsed = hintsUsed r, rs_hintLimit = hintLimit r,
      rs_pendingHintRequest = pendingHintRequest r, rs_customTestCases = customTestCases r,
      rs_submissionsUsed = submissionsUsed r, rs_submissionLimit = submissionLimit r,
      rs_executionInProgress = executionInProgress r, rs_createdAt = createdAt r,
      rs_lastActivityAt = lastActivityAt r\<rparr>"

section \<open>The room invariant\<close>

text \<open>
  Ids are distinct, there are at most two users, a user is connected exactly when it has a
  socket, and a grace timer belongs to a present, disconnected user.
\<close>

definition user_ok :: "room_user_internal \<Rightarrow> bool" where
  "user_ok u \<longleftrightarrow> connected u = (socketId u \<noteq> None)"

definition room_wf :: "room \<Rightarrow> bool" where
  "room_wf r \<longleftrightarrow>
     distinct (map userId (users r)) \<and> length (users r) \<le> MAX_USERS \<and>
     (\<forall>u \<in> set (users r). user_ok u) \<and>
     distinct (map fst (gracePeriodTimers r)) \<and>
     (\<forall>uid \<in> set (map fst (gracePeriodTimers r)).
        \<exists>u \<in> set (users r). userId u = uid \<and> \<not> connected u)"

text \<open>Roles: an interview has at most one interviewer and no peer, a collaboration only peers.\<close>

definition is_interviewer :: "room_user_internal \<Rightarrow> bool" where
  "is_interviewer u \<longleftrightarrow> role u = Interviewer"

definition roles_ok :: "room \<Rightarrow> bool" where
  "roles_ok r \<longleftrightarrow>
     (case mode r of
        Collaboration \<Rightarrow> (\<forall>u \<in> set (users r). role u = Peer)
      | Interview \<Rightarrow> (\<forall>u \<in> set (users r). role u \<noteq> Peer)
                      \<and> length (filter is_interviewer (users r)) \<le> 1)"

section \<open>Lemmas\<close>

lemma room_wfD:
  assumes "room_wf r"
  shows "distinct (map userId (users r))" and "length (users r) \<le> MAX_USERS"
    and "\<forall>u \<in> set (users r). user_ok u" and "distinct (map fst (gracePeriodTimers r))"
    and "uid \<in> fst ` set (gracePeriodTimers r) \<Longrightarrow> \<exists>u \<in> set (users r). userId u = uid \<and> \<not> connected u"
  using assms by (auto simp: room_wf_def)

lemma room_wf_cong:
  "users r' = users r \<Longrightarrow> gracePeriodTimers r' = gracePeriodTimers r \<Longrightarrow> room_wf r' = room_wf r"
  by (simp add: room_wf_def)

lemma roles_ok_cong: "users r' = users r \<Longrightarrow> mode r' = mode r \<Longrightarrow> roles_ok r' = roles_ok r"
  by (simp add: roles_ok_def split: RoomMode.split)

lemma new_room_wf [wf_intros]: "room_wf (new_room code m options token now)"
  by (simp add: room_wf_def new_room_def)

lemma new_room_roles [wf_intros]: "roles_ok (new_room code m options token now)"
  by (simp add: roles_ok_def new_room_def split: RoomMode.split)

lemma set_AList_delete_fst: "fst ` set (AList.delete k m) = fst ` set m - {k}"
  by (induction m) auto

lemma set_AList_update_fst: "fst ` set (AList.update k v m) = insert k (fst ` set m)"
  using dom_update [of k v m] by (simp add: insert_absorb image_def)

lemma addUser_wf [wf_intros]:
  assumes "room_wf r" and "\<not> isFull r" and "uid \<notin> userId ` set (users r)"
  shows "room_wf (fst (addUser uid token now name rl sid r))"
proof -
  have "length (users r) < MAX_USERS" using assms(2) by (simp add: isFull_def)
  with assms(1,3) show ?thesis
    by (fastforce simp: room_wf_def addUser_def Let_def user_ok_def)
qed

lemma removeUser_wf [wf_intros]:
  assumes "room_wf r"
  shows "room_wf (removeUser uid r)"
proof -
  note wf = room_wfD [OF assms]
  have "distinct (map userId (filter (\<lambda>u. userId u \<noteq> uid) (users r)))"
    using wf(1) by (simp add: distinct_map_filter)
  moreover have "length (filter (\<lambda>u. userId u \<noteq> uid) (users r)) \<le> MAX_USERS"
    using wf(2) length_filter_le le_trans by blast
  moreover have "distinct (map fst (AList.delete uid (gracePeriodTimers r)))"
    using wf(4) by (rule distinct_delete)
  moreover have "\<exists>u \<in> set (users r). userId u \<noteq> uid \<and> userId u = k \<and> \<not> connected u"
    if "k \<in> fst ` set (AList.delete uid (gracePeriodTimers r))" for k
    using that room_wfD(5) [OF assms, of k] by (auto simp: set_AList_delete_fst)
  ultimately show ?thesis
    using wf(3) by (simp add: room_wf_def removeUser_def Bex_def)
qed

lemma cancelGracePeriod_users [frame_simps]: "users (fst (cancelGracePeriod uid r)) = users r"
  by (simp add: cancelGracePeriod_def split: option.split)

lemma cancelGracePeriod_timers:
  "set (gracePeriodTimers (fst (cancelGracePeriod uid r))) = {p \<in> set (gracePeriodTimers r). fst p \<noteq> uid}"
  by (auto simp: cancelGracePeriod_def filter_Not_AList_delete map_of_eq_None_iff split: option.split)

lemma distinct_AList_delete: "distinct (map fst m) \<Longrightarrow> distinct (map fst (AList.delete k m))"
  by (rule distinct_delete)

lemma cancelGracePeriod_distinct:
  "distinct (map fst (gracePeriodTimers r)) \<Longrightarrow>
   distinct (map fst (gracePeriodTimers (fst (cancelGracePeriod uid r))))"
  by (auto simp: cancelGracePeriod_def intro: distinct_AList_delete split: option.split)

lemma findUser_Some: "findUser uid r = Some u \<Longrightarrow> u \<in> set (users r) \<and> userId u = uid"
  by (auto simp: findUser_def dest: find_Some_mem)

lemma findUser_mem: "room_wf r \<Longrightarrow> u \<in> set (users r) \<Longrightarrow> findUser (userId u) r = Some u"
  unfolding findUser_def by (rule find_distinct_key) (simp_all add: room_wf_def)

lemma reconnectUser_wf [wf_intros]:
  assumes wf: "room_wf r" and r': "reconnectUser token now uid sid r = Some (r', u, cleared)"
  shows "room_wf r'"
proof -
  let ?upd = "\<lambda>u. u\<lparr>connected := True, socketId := Some sid, reconnectToken := token\<rparr>"
  let ?us = "update_first (\<lambda>u. userId u = uid) ?upd (users r)"
  let ?r1 = "r\<lparr>users := ?us\<rparr>"
  have us: "?us = map (\<lambda>u. if userId u = uid then ?upd u else u) (users r)"
    using room_wfD(1) [OF wf] by (intro update_first_distinct_key) auto
  obtain u0 where "findUser uid r = Some u0"
    using r' by (auto simp: reconnectUser_def split: option.splits)
  with r' have r'_eq: "r' = (fst (cancelGracePeriod uid ?r1))\<lparr>lastActivityAt := now\<rparr>"
    by (auto simp: reconnectUser_def Let_def split: prod.splits)
  have u': "users r' = ?us" by (simp add: r'_eq cancelGracePeriod_users)
  have t': "gracePeriodTimers r' = gracePeriodTimers (fst (cancelGracePeriod uid ?r1))"
    by (simp add: r'_eq)
  have ids: "map userId ?us = map userId (users r)" by (rule map_update_first) simp
  have "\<exists>v \<in> set ?us. userId v = k \<and> \<not> connected v"
    if k: "k \<in> fst ` set (gracePeriodTimers r')" for k
  proof -
    from k have "k \<in> fst ` set (gracePeriodTimers r)" and "k \<noteq> uid"
      by (auto simp: t' cancelGracePeriod_timers)
    with room_wfD(5) [OF wf] obtain v where "v \<in> set (users r)" "userId v = k" "\<not> connected v"
      by blast
    with \<open>k \<noteq> uid\<close> show ?thesis unfolding us by force
  qed
  moreover have "\<forall>v \<in> set ?us. user_ok v"
    using room_wfD(3) [OF wf] unfolding us by (auto simp: user_ok_def)
  moreover have "distinct (map fst (gracePeriodTimers r'))"
    using room_wfD(4) [OF wf] by (simp add: t' cancelGracePeriod_distinct)
  ultimately show ?thesis
    using room_wfD(1,2) [OF wf] by (simp add: room_wf_def u' ids)
qed

lemma reconnectUser_result:
  assumes "reconnectUser token now uid sid r = Some (r', u, cleared)"
  shows "userId u = uid" "connected u" "socketId u = Some sid" "reconnectToken u = token"
    and "mode r' = mode r" "map userId (users r') = map userId (users r)"
    and "map role (users r') = map role (users r)"
proof -
  obtain u0 where u0: "findUser uid r = Some u0"
    using assms by (auto simp: reconnectUser_def split: option.splits)
  let ?upd = "\<lambda>u. u\<lparr>connected := True, socketId := Some sid, reconnectToken := token\<rparr>"
  let ?us = "update_first (\<lambda>u. userId u = uid) ?upd (users r)"
  have eq: "r' = (fst (cancelGracePeriod uid (r\<lparr>users := ?us\<rparr>)))\<lparr>lastActivityAt := now\<rparr>" "u = ?upd u0"
    using assms u0 by (auto simp: reconnectUser_def Let_def split: prod.splits)
  show "userId u = uid" "connected u" "socketId u = Some sid" "reconnectToken u = token"
    using findUser_Some [OF u0] by (auto simp: eq)
  show "mode r' = mode r"
    by (simp add: eq cancelGracePeriod_def split: option.split)
  show "map userId (users r') = map userId (users r)" "map role (users r') = map role (users r)"
    by (simp_all add: eq cancelGracePeriod_users map_update_first)
qed

lemma findBySocketId_Some:
  "findBySocketId sid r = Some u \<Longrightarrow> u \<in> set (users r) \<and> socketId u = Some sid \<and> connected u"
  by (auto simp: findBySocketId_def dest: find_Some_mem)

lemma findByReconnectToken_Some:
  "findByReconnectToken t r = Some u \<Longrightarrow>
   u \<in> set (users r) \<and> \<not> connected u \<and> tokenMatches (reconnectToken u) t"
  by (auto simp: findByReconnectToken_def dest: find_Some_mem)

lemma startGracePeriod_wf [wf_intros]:
  "room_wf r \<Longrightarrow> u \<in> set (users r) \<Longrightarrow> userId u = uid \<Longrightarrow> \<not> connected u \<Longrightarrow>
   room_wf (startGracePeriod uid t r)"
  by (auto simp: room_wf_def startGracePeriod_def set_AList_update_fst intro: distinct_update)

lemma gracePeriodFired_wf [wf_intros]: "room_wf r \<Longrightarrow> room_wf (gracePeriodFired uid r)"
  by (auto simp: room_wf_def gracePeriodFired_def set_AList_delete_fst intro: distinct_AList_delete)

lemma rotateYjsToken_wf [wf_intros]: "room_wf r \<Longrightarrow> room_wf (rotateYjsToken t r)"
  by (simp add: rotateYjsToken_def room_wf_def)

lemma switchProblem_wf [wf_intros]: "room_wf r \<Longrightarrow> room_wf (switchProblem pid l now r)"
  by (simp add: switchProblem_def room_wf_def)

lemma canExecute_Allowed_iff:
  "canExecute r = Allowed \<longleftrightarrow>
   problemId r \<noteq> None \<and> problemId r \<noteq> Some [] \<and> \<not> executionInProgress r \<and>
   submissionsUsed r < submissionLimit r"
  by (auto simp: canExecute_def)

lemma canSwitchProblem_Allowed_iff:
  "canSwitchProblem r = Allowed \<longleftrightarrow> \<not> executionInProgress r \<and> \<not> hintStreaming r"
  by (auto simp: canSwitchProblem_def)

end
