(* ===== verification/Room_Manager.thy ===== *)
theory Room_Manager
  imports Room
begin

text \<open>
  The room manager of \<^verbatim>\<open>apps/server/src/models/RoomManager.ts\<close>: the map from
  codes to rooms, its capacity, room creation, destruction and the sweep of idle rooms. The
  calls a destruction makes outside (\<^verbatim>\<open>clearTimeout\<close> on the room's grace timers,
  the destroy listeners) are returned as lists: the handles cleared and the codes the listeners
  are called with, in order.
\<close>

record room_manager =
  rooms :: "(string \<times> room) list"
  roomDefaults :: room_options
  maxActiveRooms :: nat
  idleRoomTtlMs :: int

record destroyed =
  clearedTimers :: "nat list"
  notified :: "string list"

definition nothing_destroyed :: destroyed where
  "nothing_destroyed = \<lparr>clearedTimers = [], notified = []\<rparr>"

definition destroyed_append :: "destroyed \<Rightarrow> destroyed \<Rightarrow> destroyed" where
  "destroyed_append a b =
     \<lparr>clearedTimers = clearedTimers a @ clearedTimers b, notified = notified a @ notified b\<rparr>"

definition no_options :: room_options where
  "no_options = \<lparr>opt_submissionLimit = None, opt_importLimit = None,
                 opt_customTestCaseLimit = None, opt_gracePeriodMs = None\<rparr>"

definition initial_manager :: room_manager where
  "initial_manager = \<lparr>rooms = [], roomDefaults = no_options, maxActiveRooms = 500,
                      idleRoomTtlMs = 30 * 60 * 1000\<rparr>"

definition msg_max_active_rooms :: string where
  "msg_max_active_rooms = ''Maximum active rooms limit reached.''"

definition createRoom ::
  "RoomMode \<Rightarrow> (nat \<Rightarrow> nat) \<Rightarrow> string \<Rightarrow> string \<Rightarrow> int \<Rightarrow> room_manager \<Rightarrow> string + (room_manager \<times> room)" where
  "createRoom m rnd uuid token now mgr =
     (if maxActiveRooms mgr \<le> length (rooms mgr) then Inl msg_max_active_rooms
      else
        (let activeCodes = map fst (rooms mgr);
             code = generateRoomCode activeCodes rnd uuid;
             r = new_room code m (roomDefaults mgr) token now
         in Inr (mgr\<lparr>rooms := AList.update code r (rooms mgr)\<rparr>, r)))"

definition configureDefaults ::
  "room_options \<Rightarrow> nat option \<Rightarrow> int option \<Rightarrow> room_manager \<Rightarrow> room_manager" where
  "configureDefaults defaults maxRooms ttl mgr =
     mgr\<lparr>roomDefaults := defaults,
         maxActiveRooms := orElse maxRooms (maxActiveRooms mgr),
         idleRoomTtlMs := orElse ttl (idleRoomTtlMs mgr)\<rparr>"

definition resetDefaults :: "room_manager \<Rightarrow> room_manager" where
  "resetDefaults mgr =
     mgr\<lparr>roomDefaults := no_options, maxActiveRooms := 500, idleRoomTtlMs := 30 * 60 * 1000\<rparr>"

definition getRoom :: "string \<Rightarrow> room_manager \<Rightarrow> room option" where
  "getRoom code mgr = map_of (rooms mgr) (normalizeRoomCode code)"

definition destroyRoom :: "string \<Rightarrow> room_manager \<Rightarrow> room_manager \<times> destroyed" where
  "destroyRoom code mgr =
     (let normalizedRoomCode = normalizeRoomCode code
      in case map_of (rooms mgr) normalizedRoomCode of
           None \<Rightarrow> (mgr, nothing_destroyed)
         | Some r \<Rightarrow>
             (mgr\<lparr>rooms := AList.delete normalizedRoomCode (rooms mgr)\<rparr>,
              \<lparr>clearedTimers = map snd (gracePeriodTimers r), notified = [normalizedRoomCode]\<rparr>))"

definition getRoomCount :: "room_manager \<Rightarrow> nat" where
  "getRoomCount mgr = length (rooms mgr)"

text \<open>The loop of \<^verbatim>\<open>destroyIdleRooms\<close> over the entries of the map.\<close>

definition idle :: "int \<Rightarrow> int \<Rightarrow> room \<Rightarrow> bool" where
  "idle ttl now r \<longleftrightarrow> connectedUserCount r = 0 \<and> ttl \<le> now - lastActivityAt r"

fun sweepEntries ::
  "(string \<times> room) list \<Rightarrow> int \<Rightarrow> int \<Rightarrow> room_manager \<Rightarrow> room_manager \<times> destroyed \<times> nat" where
  "sweepEntries [] ttl now mgr = (mgr, nothing_destroyed, 0)"
| "sweepEntries ((code, r) # es) ttl now mgr =
     (if 0 < connectedUserCount r then sweepEntries es ttl now mgr
      else if now - lastActivityAt r < ttl then sweepEntries es ttl now mgr
      else
        (let (mgr1, d1) = destroyRoom code mgr;
             (mgr2, d2, n) = sweepEntries es ttl now mgr1
         in (mgr2, destroyed_append d1 d2, Suc n)))"

definition destroyIdleRooms :: "int \<Rightarrow> int \<Rightarrow> room_manager \<Rightarrow> room_manager \<times> destroyed \<times> nat" where
  "destroyIdleRooms ttl now mgr = sweepEntries (rooms mgr) ttl now mgr"

fun destroyAll :: "string list \<Rightarrow> room_manager \<Rightarrow> room_manager \<times> destroyed" where
  "destroyAll [] mgr = (mgr, nothing_destroyed)"
| "destroyAll (c # cs) mgr =
     (let (mgr1, d1) = destroyRoom c mgr; (mgr2, d2) = destroyAll cs mgr1
      in (mgr2, destroyed_append d1 d2))"

definition resetRooms :: "room_manager \<Rightarrow> room_manager \<times> destroyed" where
  "resetRooms mgr = destroyAll (map fst (rooms mgr)) mgr"

section \<open>The manager invariant\<close>

definition manager_wf :: "room_manager \<Rightarrow> bool" where
  "manager_wf mgr \<longleftrightarrow>
     distinct (map fst (rooms mgr)) \<and>
     (\<forall>(c, r) \<in> set (rooms mgr). roomCode r = c \<and> normalizeRoomCode c = c \<and> room_wf r) \<and>
     length (rooms mgr) \<le> maxActiveRooms mgr"

lemma manager_wf_initial [wf_intros]: "manager_wf initial_manager"
  by (simp add: manager_wf_def initial_manager_def)

lemma manager_wf_key:
  "manager_wf mgr \<Longrightarrow> c \<in> fst ` set (rooms mgr) \<Longrightarrow> normalizeRoomCode c = c"
  by (auto simp: manager_wf_def)

lemma mem_AList_delete: "p \<in> set (AList.delete k m) \<longleftrightarrow> p \<in> set m \<and> fst p \<noteq> k"
  by (simp add: filter_Not_AList_delete)

lemma mem_AList_update:
  "distinct (map fst m) \<Longrightarrow> p \<in> set (AList.update k v m) \<longleftrightarrow> p = (k, v) \<or> (p \<in> set m \<and> fst p \<noteq> k)"
  by (induction m) (auto simp: image_iff)

lemma length_AList_delete_le: "length (AList.delete k m) \<le> length m"
  by (simp add: filter_Not_AList_delete)

lemma destroyRoom_wf [wf_intros]: "manager_wf mgr \<Longrightarrow> manager_wf (fst (destroyRoom code mgr))"
  using length_AList_delete_le [of "normalizeRoomCode code" "rooms mgr"]
  by (auto simp: manager_wf_def destroyRoom_def Let_def mem_AList_delete
      intro: distinct_AList_delete split: option.splits)

lemma destroyRoom_rooms:
  "rooms (fst (destroyRoom code mgr)) = AList.delete (normalizeRoomCode code) (rooms mgr)"
  by (auto simp: destroyRoom_def Let_def delete_id map_of_eq_None_iff split: option.split)

lemma createRoom_wf [wf_intros]:
  assumes wf: "manager_wf mgr" and draws: "\<forall>k. rnd k < 32" and u: "uuid_text uuid"
    and c: "createRoom m rnd uuid token now mgr = Inr (mgr', r)"
  shows "manager_wf mgr'"
proof -
  let ?code = "generateRoomCode (map fst (rooms mgr)) rnd uuid"
  let ?r = "new_room ?code m (roomDefaults mgr) token now"
  from c have lt: "length (rooms mgr) < maxActiveRooms mgr"
    and mgr': "mgr' = mgr\<lparr>rooms := AList.update ?code ?r (rooms mgr)\<rparr>"
    by (auto simp: createRoom_def Let_def split: if_splits)
  have n: "normalizeRoomCode ?code = ?code"
    using draws u by (intro roomCodePattern_normalized)
      (simp add: generateRoomCode_def attemptCodes_valid)
  have "length (AList.update ?code ?r (rooms mgr)) \<le> maxActiveRooms mgr"
    using lt by (simp add: length_AList_update)
  moreover have "distinct (map fst (AList.update ?code ?r (rooms mgr)))"
    using wf by (auto simp: manager_wf_def intro: distinct_update)
  moreover have "roomCode ?r = ?code" by (simp add: new_room_def)
  ultimately show ?thesis
    using wf n by (auto simp: manager_wf_def mgr' mem_AList_update new_room_wf)
qed

lemma configureDefaults_wf:
  "manager_wf mgr \<Longrightarrow> length (rooms mgr) \<le> orElse maxRooms (maxActiveRooms mgr) \<Longrightarrow>
   manager_wf (configureDefaults defaults maxRooms ttl mgr)"
  by (simp add: manager_wf_def configureDefaults_def)

section \<open>The lookup interface the handlers use\<close>

text \<open>
  \<^verbatim>\<open>RoomLookup\<close> of the handlers: a lookup and a destruction, with the law that
  destroying a code makes exactly that code unknown.
\<close>

locale room_lookup =
  fixes get :: "string \<Rightarrow> 'm \<Rightarrow> 'r option"
    and destroy :: "string \<Rightarrow> 'm \<Rightarrow> 'm"
    and norm :: "string \<Rightarrow> string"
    and inv :: "'m \<Rightarrow> bool"
  assumes get_destroy:
      "inv m \<Longrightarrow> get c (destroy d m) = (if norm c = norm d then None else get c m)"
    and inv_destroy: "inv m \<Longrightarrow> inv (destroy d m)"
begin

lemma get_destroy_same: "inv m \<Longrightarrow> get c (destroy c m) = None"
  by (simp add: get_destroy)

lemma inv_fold: "inv m \<Longrightarrow> inv (fold destroy cs m)"
  by (induction cs arbitrary: m) (simp_all add: inv_destroy)

lemma get_fold:
  "inv m \<Longrightarrow> get c (fold destroy cs m) = (if norm c \<in> norm ` set cs then None else get c m)"
  by (induction cs arbitrary: m) (auto simp: get_destroy inv_destroy)

lemma destroy_commute_get:
  "inv m \<Longrightarrow> get c (destroy a (destroy b m)) = get c (destroy b (destroy a m))"
  by (simp add: get_destroy inv_destroy)

end

interpretation mgr: room_lookup getRoom "\<lambda>c m. fst (destroyRoom c m)" normalizeRoomCode manager_wf
  by unfold_locales
    (auto simp: getRoom_def destroyRoom_rooms map_of_AList_delete destroyRoom_wf)

lemma destroyAll_fold: "fst (destroyAll cs mgr) = fold (\<lambda>c m. fst (destroyRoom c m)) cs mgr"
  by (induction cs arbitrary: mgr) (simp_all add: Let_def case_prod_beta)

lemma sweepEntries_fold:
  "fst (sweepEntries es ttl now mgr) =
     fold (\<lambda>c m. fst (destroyRoom c m)) (map fst (filter (\<lambda>e. idle ttl now (snd e)) es)) mgr
   \<and> snd (snd (sweepEntries es ttl now mgr)) = length (filter (\<lambda>e. idle ttl now (snd e)) es)"
  by (induction es ttl now mgr rule: sweepEntries.induct)
    (auto simp: Let_def idle_def split: prod.splits)

lemma fold_destroy_rooms:
  "rooms (fold (\<lambda>c m. fst (destroyRoom c m)) cs mgr) =
   filter (\<lambda>e. fst e \<notin> normalizeRoomCode ` set cs) (rooms mgr)"
proof (induction cs arbitrary: mgr)
  case Nil
  then show ?case by simp
next
  case (Cons c cs)
  show ?case
    by (simp add: Cons destroyRoom_rooms filter_Not_AList_delete)
qed

lemma sweepEntries_notified:
  assumes "manager_wf mgr" and "distinct (map fst es)" and "set es \<subseteq> set (rooms mgr)"
  shows "notified (fst (snd (sweepEntries es ttl now mgr))) =
         map fst (filter (\<lambda>e. idle ttl now (snd e)) es)"
  using assms
proof (induction es ttl now mgr rule: sweepEntries.induct)
  case (1 ttl now mgr)
  then show ?case by (simp add: nothing_destroyed_def)
next
  case (2 code r es ttl now mgr)
  show ?case
  proof (cases "idle ttl now r")
    case True
    have n: "normalizeRoomCode code = code" and m: "map_of (rooms mgr) code = Some r"
      using "2.prems" by (auto simp: manager_wf_def)
    obtain mgr1 d1 where d: "destroyRoom code mgr = (mgr1, d1)" by fastforce
    have d1: "notified d1 = [code]" using d n m by (auto simp: destroyRoom_def)
    have m1: "mgr1 = fst (destroyRoom code mgr)" using d by simp
    have "set es \<subseteq> set (rooms mgr1)"
    proof
      fix e assume e: "e \<in> set es"
      then have "e \<in> set (rooms mgr)" using "2.prems"(3) by auto
      moreover have "fst e \<noteq> code" using "2.prems"(2) e by auto
      ultimately show "e \<in> set (rooms mgr1)"
        by (simp add: m1 destroyRoom_rooms mem_AList_delete n)
    qed
    moreover have "manager_wf mgr1" using "2.prems"(1) by (simp add: m1 destroyRoom_wf)
    ultimately show ?thesis
      using "2.IH"(3) [OF _ _ d [symmetric] refl] "2.prems"(2) True d d1
      by (auto simp: idle_def destroyed_append_def Let_def split: prod.splits)
  next
    case False
    with "2.IH"(1,2) "2.prems" show ?thesis by (auto simp: idle_def)
  qed
qed

section \<open>Properties\<close>

text \<open>
  The idle sweep removes exactly the rooms that have no connected user and whose last
  activity is at least the time-to-live ago, keeps every other room untouched and in order,
  calls the destroy listeners once for each removed code, and returns their number.
\<close>

theorem destroyIdleRooms_spec:
  assumes "manager_wf mgr" and "destroyIdleRooms ttl now mgr = (mgr', d, n)"
  shows "rooms mgr' = filter (\<lambda>(c, r). \<not> (connectedUserCount r = 0 \<and> ttl \<le> now - lastActivityAt r)) (rooms mgr)
    \<and> notified d = map fst (filter (\<lambda>(c, r). connectedUserCount r = 0 \<and> ttl \<le> now - lastActivityAt r) (rooms mgr))
    \<and> n = length (notified d) \<and> manager_wf mgr'"
proof -
  let ?idle = "\<lambda>e. idle ttl now (snd e)"
  let ?cs = "map fst (filter ?idle (rooms mgr))"
  have mgr': "mgr' = fold (\<lambda>c m. fst (destroyRoom c m)) ?cs mgr"
    and n: "n = length (filter ?idle (rooms mgr))"
    using sweepEntries_fold [of "rooms mgr" ttl now mgr] assms(2) by (auto simp: destroyIdleRooms_def)
  have d: "notified d = ?cs"
    using sweepEntries_notified [of mgr "rooms mgr" ttl now] assms
    by (auto simp: destroyIdleRooms_def manager_wf_def)
  have norm: "normalizeRoomCode ` set ?cs = set ?cs"
    using manager_wf_key [OF assms(1)] by (force simp: image_iff)
  have same: "fst e \<in> set ?cs \<longleftrightarrow> ?idle e" if "e \<in> set (rooms mgr)" for e
  proof
    assume "fst e \<in> set ?cs"
    then obtain b where b: "(fst e, b) \<in> set (rooms mgr)" "idle ttl now b" by auto
    moreover have "b = snd e"
      using assms(1) that b(1) by (intro eq_key_imp_eq_value [of "rooms mgr" "fst e"])
        (auto simp: manager_wf_def)
    ultimately show "?idle e" by simp
  qed (use that in auto)
  have "rooms mgr' = filter (\<lambda>e. fst e \<notin> set ?cs) (rooms mgr)"
    unfolding mgr' fold_destroy_rooms norm ..
  also have "\<dots> = filter (\<lambda>e. \<not> ?idle e) (rooms mgr)"
    using same by (intro filter_cong) auto
  finally have "rooms mgr' = filter (\<lambda>e. \<not> ?idle e) (rooms mgr)" .
  moreover have "manager_wf mgr'" unfolding mgr' by (rule mgr.inv_fold [OF assms(1)])
  ultimately show ?thesis using n d by (simp add: idle_def case_prod_beta')
qed

theorem destroyIdleRooms_spec_witness:
  "let r = (new_room ''aaa-aaa'' Interview no_options ''t'' 0);
       m = initial_manager\<lparr>rooms := [(''aaa-aaa'', r)]\<rparr> in
   rooms (fst (destroyIdleRooms 10 50 m)) = [] \<and>
   notified (fst (snd (destroyIdleRooms 10 50 m))) = [''aaa-aaa'']"
proof -
  let ?r = "new_room ''aaa-aaa'' Interview no_options ''t'' 0"
  let ?m = "initial_manager\<lparr>rooms := [(''aaa-aaa'', ?r)]\<rparr>"
  have n: "normalizeRoomCode ''aaa-aaa'' = ''aaa-aaa''" by code_simp
  have wf: "manager_wf ?m"
    using n new_room_wf by (simp add: manager_wf_def initial_manager_def) (simp add: new_room_def)
  obtain m' d k where eq: "destroyIdleRooms 10 50 ?m = (m', d, k)" by (metis prod_cases3)
  from destroyIdleRooms_spec [OF wf eq] eq show ?thesis
    by (simp add: connectedUserCount_def new_room_def)
qed

lemma createRoom_found:
  assumes wf: "manager_wf mgr" and draws: "\<forall>k. rnd k < 32" and u: "uuid_text uuid"
    and eq: "createRoom m rnd uuid token now mgr = Inr (mgr', r)"
  shows "length (rooms mgr) < maxActiveRooms mgr \<and> manager_wf mgr' \<and> getRoom (roomCode r) mgr' = Some r
    \<and> users r = [] \<and> mode r = m \<and> (\<forall>c. normalizeRoomCode c \<noteq> roomCode r \<longrightarrow> getRoom c mgr' = getRoom c mgr)"
proof -
  let ?code = "generateRoomCode (map fst (rooms mgr)) rnd uuid"
  have wf': "manager_wf mgr'" using createRoom_wf [OF wf draws u eq] .
  have n: "normalizeRoomCode ?code = ?code"
    using generateRoomCode_def draws u attemptCodes_valid roomCodePattern_normalized by simp
  have r: "r = new_room ?code m (roomDefaults mgr) token now"
    and mgr': "rooms mgr' = AList.update ?code r (rooms mgr)"
    and lt: "length (rooms mgr) < maxActiveRooms mgr"
    using eq by (auto simp: createRoom_def Let_def split: if_splits)
  have rc: "roomCode r = ?code" by (simp add: r new_room_def)
  show ?thesis
    using wf' lt by (simp add: rc getRoom_def n mgr' map_of_AList_update) (simp add: r new_room_def)
qed

text \<open>
  Room creation refuses exactly at capacity, and a created room keeps the manager's
  invariant (distinct normalized codes, well-formed rooms, at most \<^verbatim>\<open>maxActiveRooms\<close>
  of them), is found under its own code and, unless all five random codes were taken, leaves
  every other room as it was.
\<close>

theorem createRoom_correct:
  assumes wf: "manager_wf mgr" and draws: "\<forall>k. rnd k < 32" and u: "uuid_text uuid"
  shows "(case createRoom m rnd uuid token now mgr of
      Inl e \<Rightarrow> length (rooms mgr) = maxActiveRooms mgr
    | Inr (mgr', r) \<Rightarrow> length (rooms mgr) < maxActiveRooms mgr \<and> manager_wf mgr'
        \<and> getRoom (roomCode r) mgr' = Some r \<and> users r = [] \<and> mode r = m
        \<and> (\<forall>c. normalizeRoomCode c \<noteq> roomCode r \<longrightarrow> getRoom c mgr' = getRoom c mgr)
        \<and> ((\<exists>i < 5. randomSegments rnd (6 * i) \<notin> set (map fst (rooms mgr)))
            \<longrightarrow> getRoom (roomCode r) mgr = None))"
proof (cases "createRoom m rnd uuid token now mgr")
  case (Inl e)
  with wf show ?thesis by (simp add: createRoom_def manager_wf_def Let_def split: if_splits)
next
  case (Inr p)
  obtain mgr' r where p: "p = (mgr', r)" by (cases p)
  let ?code = "generateRoomCode (map fst (rooms mgr)) rnd uuid"
  note c = createRoom_found [OF wf draws u Inr [unfolded p]]
  have rc: "roomCode r = ?code"
    using Inr p by (auto simp: createRoom_def Let_def new_room_def split: if_splits)
  have n: "normalizeRoomCode ?code = ?code"
    using generateRoomCode_def draws u attemptCodes_valid roomCodePattern_normalized by simp
  have fresh: "getRoom ?code mgr = None" if "\<exists>i < 5. randomSegments rnd (6 * i) \<notin> set (map fst (rooms mgr))"
  proof -
    have "?code \<notin> set (map fst (rooms mgr))"
      using that attemptCodes_active [of "map fst (rooms mgr)" rnd uuid 0 MAX_RETRIES]
      by (auto simp: generateRoomCode_def MAX_RETRIES_def)
    then show ?thesis by (simp add: getRoom_def n map_of_eq_None_iff)
  qed
  show ?thesis using c fresh by (simp add: Inr p rc)
qed

theorem createRoom_correct_witness:
  "\<exists>mgr' r. createRoom Interview (\<lambda>_. 3) ''00000000-0000-4000-8000-000000000000'' ''t'' 7 initial_manager
     = Inr (mgr', r) \<and> manager_wf mgr' \<and> getRoom (roomCode r) mgr' = Some r"
proof -
  let ?c = "createRoom Interview (\<lambda>_. 3) ''00000000-0000-4000-8000-000000000000'' ''t'' 7 initial_manager"
  have u: "uuid_text ''00000000-0000-4000-8000-000000000000''" by code_simp
  obtain mgr' r where eq: "?c = Inr (mgr', r)"
    by (cases ?c) (auto simp: createRoom_def initial_manager_def Let_def split: if_splits)
  have "\<forall>k. (\<lambda>_. 3 :: nat) k < 32" by simp
  from createRoom_correct [OF manager_wf_initial this u, of Interview "''t''" 7] eq show ?thesis
    by simp
qed

text \<open>
  Resetting destroys every room: the map is empty afterwards and the listeners are called
  with every code, in order.
\<close>

theorem resetRooms_empties:
  assumes "manager_wf mgr"
  shows "rooms (fst (resetRooms mgr)) = [] \<and> getRoom c (fst (resetRooms mgr)) = None"
proof -
  have "normalizeRoomCode ` set (map fst (rooms mgr)) = set (map fst (rooms mgr))"
    using manager_wf_key [OF assms] by (force simp: image_iff)
  then have "rooms (fst (resetRooms mgr)) = []"
    by (auto simp: resetRooms_def destroyAll_fold fold_destroy_rooms filter_empty_conv)
  then show ?thesis by (simp add: getRoom_def)
qed

theorem resetRooms_empties_witness:
  "rooms (fst (resetRooms initial_manager)) = [] \<and> getRoom ''abc-def'' (fst (resetRooms initial_manager)) = None"
  by (rule resetRooms_empties) (rule manager_wf_initial)

end
