(* ===== verification/Machines.thy ===== *)
theory Machines
  imports Prelude
begin

text \<open>
  The interface every stateful component of the server has towards its environment: a step per
  event and an invariant each step keeps. The lemmas about whole runs are proved here once; each
  component interprets the locale with its own events.
\<close>

locale machine =
  fixes step :: "'e \<Rightarrow> 's \<Rightarrow> 's"
    and enabled :: "'e \<Rightarrow> 's \<Rightarrow> bool"
    and inv :: "'s \<Rightarrow> bool"
  assumes inv_step: "inv s \<Longrightarrow> enabled e s \<Longrightarrow> inv (step e s)"
begin

fun run :: "'e list \<Rightarrow> 's \<Rightarrow> 's" where
  "run [] s = s"
| "run (e # es) s = run es (step e s)"

fun legal :: "'e list \<Rightarrow> 's \<Rightarrow> bool" where
  "legal [] s = True"
| "legal (e # es) s = (enabled e s \<and> legal es (step e s))"

lemma run_append: "run (es @ fs) s = run fs (run es s)"
  by (induction es arbitrary: s) simp_all

lemma legal_append: "legal (es @ fs) s \<longleftrightarrow> legal es s \<and> legal fs (run es s)"
  by (induction es arbitrary: s) simp_all

lemma inv_run: "inv s \<Longrightarrow> legal es s \<Longrightarrow> inv (run es s)"
  by (induction es arbitrary: s) (simp_all add: inv_step)

lemma run_measure:
  assumes "inv s" and "legal es s"
    and "\<And>s e. inv s \<Longrightarrow> enabled e s \<Longrightarrow> P s \<Longrightarrow> P (step e s)" and "P s"
  shows "P (run es s)"
  using assms(1,2,4) by (induction es arbitrary: s) (auto intro: assms(3) inv_step)

end

text \<open>
  The same for a component whose step is a relation: what every step keeps, every run keeps.
\<close>

locale step_invariant =
  fixes step :: "'s \<Rightarrow> 's \<Rightarrow> bool"
    and inv :: "'s \<Rightarrow> bool"
  assumes inv_step: "inv s \<Longrightarrow> step s t \<Longrightarrow> inv t"
begin

lemma inv_steps: "step\<^sup>*\<^sup>* s t \<Longrightarrow> inv s \<Longrightarrow> inv t"
  by (induction rule: rtranclp_induct) (auto intro: inv_step)

end

end
