(* ===== verification/Operation_Limiter.thy ===== *)
theory Operation_Limiter
  imports Machines
begin

text \<open>
  The bounded concurrency limiter of \<^verbatim>\<open>apps/server/src/lib/operationLimiter.ts\<close>
  that guards the Judge0, import and LLM operations. A job stands for the closure
  \<^verbatim>\<open>work\<close> with its promise callbacks. The promises of the running jobs live in the
  environment; the model records them in \<open>running\<close>, and the order in which jobs were
  started in \<open>started\<close> and accepted in \<open>accepted\<close>.
\<close>

record 'j limiter =
  lim_name :: string
  maxInFlight :: nat
  maxQueue :: nat
  active :: nat
  queue :: "'j list"
  running :: "'j list"
  started :: "'j list"
  accepted :: "'j list"

definition new_limiter :: "string \<Rightarrow> int \<Rightarrow> int \<Rightarrow> string + 'j limiter" where
  "new_limiter nm maxIn maxQ =
     (if maxIn < 1 then Inl ''maxInFlight must be at least 1.''
      else if maxQ < 0 then Inl ''maxQueue must be zero or greater.''
      else Inr \<lparr>lim_name = nm, maxInFlight = nat maxIn, maxQueue = nat maxQ, active = 0,
                queue = [], running = [], started = [], accepted = []\<rparr>)"

datatype run_outcome = RunsNow | Enqueued | OperationLimitExceeded string

definition OPERATION_RETRY_AFTER_SECONDS :: nat where "OPERATION_RETRY_AFTER_SECONDS = 1"

definition lim_execute :: "'j \<Rightarrow> 'j limiter \<Rightarrow> 'j limiter" where
  "lim_execute j l =
     l\<lparr>active := active l + 1, running := running l @ [j], started := started l @ [j]\<rparr>"

definition lim_run :: "'j \<Rightarrow> 'j limiter \<Rightarrow> 'j limiter \<times> run_outcome" where
  "lim_run j l =
     (if active l < maxInFlight l
      then (lim_execute j (l\<lparr>accepted := accepted l @ [j]\<rparr>), RunsNow)
      else if maxQueue l \<le> length (queue l) then (l, OperationLimitExceeded (lim_name l))
      else (l\<lparr>queue := queue l @ [j], accepted := accepted l @ [j]\<rparr>, Enqueued))"

function drain :: "'j limiter \<Rightarrow> 'j limiter" where
  "drain l =
     (if active l < maxInFlight l then
        (case queue l of
           [] \<Rightarrow> l
         | next # rest \<Rightarrow> drain (lim_execute next (l\<lparr>queue := rest\<rparr>)))
      else l)"
  by pat_completeness auto
termination
  by (relation "measure (\<lambda>l. length (queue l))") (auto simp: lim_execute_def)

declare drain.simps [simp del]

lemma drain_steps:
  "maxInFlight l \<le> active l \<Longrightarrow> drain l = l"
  "queue l = [] \<Longrightarrow> drain l = l"
  "active l < maxInFlight l \<Longrightarrow> queue l = j # js \<Longrightarrow> drain l = drain (lim_execute j (l\<lparr>queue := js\<rparr>))"
  by (simp_all add: drain.simps [of l])

text \<open>The \<^verbatim>\<open>finally\<close> of \<^verbatim>\<open>execute\<close>, when the promise of a running job settles.\<close>

definition lim_settle :: "'j \<Rightarrow> 'j limiter \<Rightarrow> 'j limiter" where
  "lim_settle j l = drain (l\<lparr>active := active l - 1, running := remove1 j (running l)\<rparr>)"

record limiter_snapshot =
  snap_name :: string
  snap_active :: nat
  snap_queued :: nat
  snap_maxInFlight :: nat
  snap_maxQueue :: nat

definition lim_snapshot :: "'j limiter \<Rightarrow> limiter_snapshot" where
  "lim_snapshot l = \<lparr>snap_name = lim_name l, snap_active = active l, snap_queued = length (queue l),
                     snap_maxInFlight = maxInFlight l, snap_maxQueue = maxQueue l\<rparr>"

section \<open>The machine of the limiter\<close>

datatype 'j lim_event = RunJob 'j | SettleJob 'j

fun lim_step :: "'j lim_event \<Rightarrow> 'j limiter \<Rightarrow> 'j limiter" where
  "lim_step (RunJob j) l = fst (lim_run j l)"
| "lim_step (SettleJob j) l = lim_settle j l"

fun lim_enabled :: "'j lim_event \<Rightarrow> 'j limiter \<Rightarrow> bool" where
  "lim_enabled (RunJob j) l = True"
| "lim_enabled (SettleJob j) l = (j \<in> set (running l))"

text \<open>
  Besides the two bounds: work is conserved (nothing waits while a slot is free) and jobs are
  started in the order they were accepted, none dropped or duplicated.
\<close>

definition lim_inv :: "'j limiter \<Rightarrow> bool" where
  "lim_inv l \<longleftrightarrow>
     1 \<le> maxInFlight l \<and> active l = length (running l) \<and> active l \<le> maxInFlight l \<and>
     length (queue l) \<le> maxQueue l \<and> (queue l \<noteq> [] \<longrightarrow> active l = maxInFlight l) \<and>
     accepted l = started l @ queue l"

lemma new_limiter_inv: "new_limiter nm a b = Inr l \<Longrightarrow> lim_inv l"
  by (auto simp: new_limiter_def lim_inv_def split: if_splits)

lemma lim_run_inv: "lim_inv l \<Longrightarrow> lim_inv (fst (lim_run j l))"
  by (auto simp: lim_run_def lim_inv_def lim_execute_def)

text \<open>With the invariant, a settled job makes room for exactly the head of the queue.\<close>

lemma lim_settle_eq:
  assumes "lim_inv l" and "j \<in> set (running l)"
  shows "lim_settle j l =
    (case queue l of
       [] \<Rightarrow> l\<lparr>active := active l - 1, running := remove1 j (running l)\<rparr>
     | next # rest \<Rightarrow> l\<lparr>queue := rest, running := remove1 j (running l) @ [next],
                         started := started l @ [next]\<rparr>)"
proof (cases "queue l")
  case Nil
  then show ?thesis by (simp add: lim_settle_def drain.simps)
next
  case (Cons nx rest)
  with assms(1) have full: "active l = maxInFlight l" "1 \<le> maxInFlight l"
    by (auto simp: lim_inv_def)
  let ?l1 = "l\<lparr>active := active l - 1, running := remove1 j (running l)\<rparr>"
  let ?l2 = "lim_execute nx (?l1\<lparr>queue := rest\<rparr>)"
  have "drain ?l1 = drain ?l2"
    using full Cons by (subst drain.simps) simp
  also have "drain ?l2 = ?l2"
    using full by (subst drain.simps) (simp add: lim_execute_def)
  finally have "lim_settle j l = ?l2" by (simp add: lim_settle_def)
  with full Cons show ?thesis by (simp add: lim_execute_def)
qed

lemma lim_settle_inv:
  assumes "lim_inv l" and "j \<in> set (running l)"
  shows "lim_inv (lim_settle j l)"
proof -
  from assms(2) have "0 < length (running l)" by auto
  then show ?thesis
    using assms by (auto simp: lim_settle_eq lim_inv_def length_remove1 split: list.split)
qed

interpretation lim: machine lim_step lim_enabled lim_inv
proof unfold_locales
  fix l :: "'j limiter" and e
  assume "lim_inv l" and "lim_enabled e l"
  then show "lim_inv (lim_step e l)"
    by (cases e) (simp_all add: lim_run_inv lim_settle_inv)
qed

lemma lim_step_config:
  assumes "lim_inv l" and "lim_enabled e l"
  shows "maxInFlight (lim_step e l) = maxInFlight l" and "maxQueue (lim_step e l) = maxQueue l"
  using assms by (cases e; auto simp: lim_run_def lim_execute_def lim_settle_eq split: list.split)+

section \<open>Properties\<close>

text \<open>
  C19: Through any sequence of submissions and completions the limiter never runs more than
  \<^verbatim>\<open>maxInFlight\<close> jobs nor queues more than \<^verbatim>\<open>maxQueue\<close>, never leaves a
  queued job waiting while a slot is free, and starts the accepted jobs in first-in first-out
  order without losing or duplicating one.
\<close>

theorem limiter_safe:
  assumes "new_limiter nm a b = Inr l0" and "lim.legal es l0"
  shows "let l = lim.run es l0 in
    length (running l) \<le> nat a \<and> active l = length (running l) \<and> length (queue l) \<le> nat b
    \<and> (queue l \<noteq> [] \<longrightarrow> length (running l) = nat a) \<and> accepted l = started l @ queue l"
proof -
  have l0: "maxInFlight l0 = nat a" "maxQueue l0 = nat b"
    using assms(1) by (auto simp: new_limiter_def split: if_splits)
  have inv0: "lim_inv l0" using assms(1) by (rule new_limiter_inv)
  have inv: "lim_inv (lim.run es l0)" using inv0 assms(2) by (rule lim.inv_run)
  have "maxInFlight (lim.run es l0) = maxInFlight l0 \<and> maxQueue (lim.run es l0) = maxQueue l0"
    by (rule lim.run_measure [OF inv0 assms(2)]) (auto simp: lim_step_config)
  with inv l0 show ?thesis by (auto simp: lim_inv_def Let_def)
qed

theorem limiter_safe_witness:
  "\<exists>l0. new_limiter ''judge0'' 1 1 = Inr l0 \<and>
     (let l = lim.run [RunJob (1 :: nat), RunJob 2, RunJob 3, SettleJob 1] l0 in
      length (running l) \<le> nat 1 \<and> accepted l = started l @ queue l \<and> started l = [1, 2])"
proof -
  obtain l0 where l0: "new_limiter ''judge0'' 1 1 = (Inr l0 :: string + nat limiter)"
    by (auto simp: new_limiter_def)
  have l0_def: "l0 = \<lparr>lim_name = ''judge0'', maxInFlight = 1, maxQueue = 1, active = 0,
                queue = [], running = [], started = [], accepted = []\<rparr>"
    using l0 by (simp add: new_limiter_def)
  let ?es = "[RunJob (1 :: nat), RunJob 2, RunJob 3, SettleJob 1]"
  have "lim.legal ?es l0" by (simp add: l0_def lim_run_def lim_execute_def)
  moreover have "started (lim.run ?es l0) = [1, 2]"
    by (simp add: l0_def lim_run_def lim_execute_def lim_settle_def drain_steps)
  ultimately show ?thesis using l0 limiter_safe [OF l0, of ?es] by (intro exI [of _ l0]) (simp add: Let_def)
qed

fun settles :: "'j lim_event list \<Rightarrow> nat" where
  "settles [] = 0"
| "settles (RunJob j # es) = settles es"
| "settles (SettleJob j # es) = Suc (settles es)"

lemma lim_step_started: "lim_inv l \<Longrightarrow> lim_enabled e l \<Longrightarrow> set (started l) \<subseteq> set (started (lim_step e l))"
  by (cases e) (auto simp: lim_run_def lim_execute_def lim_settle_eq split: list.split)

lemma lim_run_started:
  assumes "lim_inv l" and "lim.legal es l"
  shows "set (started l) \<subseteq> set (started (lim.run es l))"
  by (rule lim.run_measure [OF assms]) (use lim_step_started in blast)+

lemma queued_prefix:
  "lim_inv l \<Longrightarrow> lim.legal es l \<Longrightarrow> i < length (queue l) \<Longrightarrow> i < settles es \<Longrightarrow>
   queue l ! i \<in> set (started (lim.run es l))"
proof (induction es arbitrary: l i)
  case Nil
  then show ?case by simp
next
  case (Cons e es)
  have inv: "lim_inv (lim_step e l)" and legal: "lim.legal es (lim_step e l)"
    using Cons.prems by (auto intro: lim.inv_step)
  show ?case
  proof (cases e)
    case (RunJob j)
    have "active l = maxInFlight l" using Cons.prems by (auto simp: lim_inv_def)
    then have "\<exists>more. queue (lim_step e l) = queue l @ more"
      by (simp add: RunJob lim_run_def)
    with Cons.IH [OF inv legal, of i] Cons.prems(3,4) RunJob show ?thesis
      by (auto simp: nth_append)
  next
    case (SettleJob j)
    from Cons.prems(3) obtain nx rest where q: "queue l = nx # rest" by (cases "queue l") auto
    have step: "queue (lim_step e l) = rest" "nx \<in> set (started (lim_step e l))"
      using Cons.prems(1,2) by (simp_all add: SettleJob lim_settle_eq q)
    show ?thesis
    proof (cases i)
      case 0
      with step(2) lim_run_started [OF inv legal] q show ?thesis by auto
    next
      case (Suc k)
      with Cons.IH [OF inv legal, of k] Cons.prems(3,4) step(1) q SettleJob show ?thesis by simp
    qed
  qed
qed

text \<open>
  C29: A queued job is never starved: when the job at position \<open>i\<close> of the queue waits,
  \<open>i + 1\<close> completions, with any submissions in between, start it.
\<close>

theorem limiter_no_starvation:
  assumes "new_limiter nm a b = Inr l0" and "lim.legal es l0" and "l = lim.run es l0"
    and "i < length (queue l)" and "lim.legal fs l" and "i < settles fs"
  shows "queue l ! i \<in> set (started (lim.run fs l))"
  using assms by (intro queued_prefix) (auto intro: lim.inv_run new_limiter_inv)

theorem limiter_no_starvation_witness:
  "\<exists>l0. new_limiter ''llm'' 1 2 = Inr l0 \<and>
     (7 :: nat) \<in> set (started (lim.run [SettleJob 5, SettleJob 6]
       (lim.run [RunJob 5, RunJob 6, RunJob 7] l0)))"
proof -
  obtain l0 where l0: "new_limiter ''llm'' 1 2 = (Inr l0 :: string + nat limiter)"
    by (auto simp: new_limiter_def)
  have l0_def: "l0 = \<lparr>lim_name = ''llm'', maxInFlight = 1, maxQueue = 2, active = 0,
                queue = [], running = [], started = [], accepted = []\<rparr>"
    using l0 by (simp add: new_limiter_def)
  let ?es = "[RunJob 5, RunJob 6, RunJob 7]" and ?fs = "[SettleJob 5, SettleJob 6]"
  have "lim.legal ?es l0" "lim.legal ?fs (lim.run ?es l0)" "queue (lim.run ?es l0) = [6, 7]"
    by (simp_all add: l0_def lim_run_def lim_execute_def lim_settle_def drain_steps)
  with limiter_no_starvation [OF l0 _ refl, of ?es 1 ?fs] l0 show ?thesis by auto
qed

end
