(* ===== verification/Circuit_Breaker.thy ===== *)
theory Circuit_Breaker
  imports Machines
begin

text \<open>
  The circuit breaker of \<^verbatim>\<open>apps/server/src/lib/circuitBreaker.ts\<close> around the
  Judge0 and Groq clients. A call is split at its \<^verbatim>\<open>await fn()\<close>: it is admitted or
  rejected (\<open>cb_execute\<close>), and later succeeds or fails (\<open>recordSuccess\<close>,
  \<open>recordFailure\<close>). The pending timers of the event loop and the notifications of
  \<^verbatim>\<open>onStateChange\<close> are part of the state; a timer is a handle.
\<close>

datatype circuit_state = Closed | Open | HalfOpen

record breaker =
  cb_name :: string
  failureThreshold :: nat
  cb_state :: circuit_state
  consecutiveFailures :: nat
  resetTimer :: "nat option"
  nextTimer :: nat
  pendingTimers :: "nat list"
  inFlight :: nat
  notifications :: "(circuit_state \<times> circuit_state) list"

definition createCircuitBreaker :: "string \<Rightarrow> nat option \<Rightarrow> breaker" where
  "createCircuitBreaker nm threshold =
     \<lparr>cb_name = nm, failureThreshold = (case threshold of None \<Rightarrow> 5 | Some n \<Rightarrow> n),
      cb_state = Closed, consecutiveFailures = 0, resetTimer = None, nextTimer = 0,
      pendingTimers = [], inFlight = 0, notifications = []\<rparr>"

definition transition :: "circuit_state \<Rightarrow> breaker \<Rightarrow> breaker" where
  "transition to b =
     (let from_state = cb_state b
      in if from_state = to then b
         else b\<lparr>cb_state := to, notifications := notifications b @ [(from_state, to)]\<rparr>)"

definition clearResetTimer :: "breaker \<Rightarrow> breaker" where
  "clearResetTimer b =
     (case resetTimer b of
        None \<Rightarrow> b
      | Some h \<Rightarrow> b\<lparr>pendingTimers := removeAll h (pendingTimers b)\<rparr>)"

definition scheduleHalfOpen :: "breaker \<Rightarrow> breaker" where
  "scheduleHalfOpen b =
     (let b1 = clearResetTimer b
      in b1\<lparr>resetTimer := Some (nextTimer b1), pendingTimers := pendingTimers b1 @ [nextTimer b1],
            nextTimer := Suc (nextTimer b1)\<rparr>)"

definition halfOpenTimerFired :: "nat \<Rightarrow> breaker \<Rightarrow> breaker" where
  "halfOpenTimerFired h b =
     transition HalfOpen (b\<lparr>pendingTimers := removeAll h (pendingTimers b), resetTimer := None\<rparr>)"

definition recordSuccess :: "breaker \<Rightarrow> breaker" where
  "recordSuccess b =
     (let b1 = b\<lparr>consecutiveFailures := 0\<rparr>
      in if cb_state b1 = HalfOpen then transition Closed b1 else b1)"

definition recordFailure :: "breaker \<Rightarrow> breaker" where
  "recordFailure b =
     (let b1 = b\<lparr>consecutiveFailures := consecutiveFailures b + 1\<rparr>
      in if cb_state b1 = HalfOpen then scheduleHalfOpen (transition Open b1)
         else if cb_state b1 = Closed \<and> failureThreshold b1 \<le> consecutiveFailures b1
              then scheduleHalfOpen (transition Open b1)
         else b1)"

text \<open>The \<^verbatim>\<open>DependencyError\<close> the breaker throws itself.\<close>

record dependency_error =
  dependency :: string
  operation :: string
  errorType :: string
  err_message :: string
  statusCode :: "nat option"
  isTimeout :: bool

definition circuit_open_error :: "string \<Rightarrow> dependency_error" where
  "circuit_open_error nm =
     \<lparr>dependency = nm, operation = ''execute'', errorType = ''circuit_open'',
      err_message = ''Circuit breaker for '' @ nm @ '' is open. Requests are being rejected.'',
      statusCode = None, isTimeout = False\<rparr>"

definition cb_execute :: "breaker \<Rightarrow> dependency_error + breaker" where
  "cb_execute b =
     (if cb_state b = Open then Inl (circuit_open_error (cb_name b))
      else Inr (b\<lparr>inFlight := inFlight b + 1\<rparr>))"

definition cb_settle :: "bool \<Rightarrow> breaker \<Rightarrow> breaker" where
  "cb_settle ok b =
     (let b1 = b\<lparr>inFlight := inFlight b - 1\<rparr> in if ok then recordSuccess b1 else recordFailure b1)"

definition cb_reset :: "breaker \<Rightarrow> breaker" where
  "cb_reset b =
     transition Closed ((clearResetTimer b)\<lparr>resetTimer := None, consecutiveFailures := 0\<rparr>)"

section \<open>The machine of the breaker\<close>

datatype cb_event = CallStarts | CallSettles bool | TimerFires nat | ResetCalled

fun cb_step :: "cb_event \<Rightarrow> breaker \<Rightarrow> breaker" where
  "cb_step CallStarts b = (case cb_execute b of Inl e \<Rightarrow> b | Inr b' \<Rightarrow> b')"
| "cb_step (CallSettles ok) b = cb_settle ok b"
| "cb_step (TimerFires h) b = halfOpenTimerFired h b"
| "cb_step ResetCalled b = cb_reset b"

fun cb_enabled :: "cb_event \<Rightarrow> breaker \<Rightarrow> bool" where
  "cb_enabled CallStarts b = True"
| "cb_enabled (CallSettles ok) b = (0 < inFlight b)"
| "cb_enabled (TimerFires h) b = (h \<in> set (pendingTimers b))"
| "cb_enabled ResetCalled b = True"

text \<open>The state changes the breaker may announce, and that the announcements form one path.\<close>

fun edge :: "circuit_state \<times> circuit_state \<Rightarrow> bool" where
  "edge (Closed, Open) = True"
| "edge (Open, HalfOpen) = True"
| "edge (HalfOpen, Open) = True"
| "edge (HalfOpen, Closed) = True"
| "edge (Open, Closed) = True"
| "edge _ = False"

fun path :: "circuit_state \<Rightarrow> (circuit_state \<times> circuit_state) list \<Rightarrow> circuit_state \<Rightarrow> bool" where
  "path a [] b = (a = b)"
| "path a (t # ts) b = (fst t = a \<and> edge t \<and> path (snd t) ts b)"

lemma path_append: "path a (ts @ us) c \<longleftrightarrow> (\<exists>b. path a ts b \<and> path b us c)"
  by (induction ts arbitrary: a) auto

lemma path_snoc: "path a ts b \<Longrightarrow> edge (b, c) \<Longrightarrow> path a (ts @ [(b, c)]) c"
  by (auto simp: path_append)

definition cb_inv :: "breaker \<Rightarrow> bool" where
  "cb_inv b \<longleftrightarrow>
     1 \<le> failureThreshold b \<and>
     (cb_state b = Open \<longleftrightarrow> resetTimer b \<noteq> None) \<and>
     pendingTimers b = (case resetTimer b of None \<Rightarrow> [] | Some h \<Rightarrow> [h]) \<and>
     (cb_state b = Closed \<longrightarrow> consecutiveFailures b < failureThreshold b) \<and>
     path Closed (notifications b) (cb_state b)"

lemmas cb_defs = transition_def clearResetTimer_def scheduleHalfOpen_def halfOpenTimerFired_def
  recordSuccess_def recordFailure_def cb_execute_def cb_settle_def cb_reset_def

lemma createCircuitBreaker_inv [wf_intros]:
  "threshold \<noteq> Some 0 \<Longrightarrow> cb_inv (createCircuitBreaker nm threshold)"
  by (auto simp: cb_inv_def createCircuitBreaker_def split: option.split)

lemma recordSuccess_inv [wf_intros]: "cb_inv b \<Longrightarrow> cb_inv (recordSuccess b)"
  by (auto simp: cb_inv_def recordSuccess_def transition_def Let_def path_append)

lemma recordFailure_inv [wf_intros]: "cb_inv b \<Longrightarrow> cb_inv (recordFailure b)"
  by (cases "cb_state b")
    (auto simp: cb_inv_def recordFailure_def scheduleHalfOpen_def clearResetTimer_def
      transition_def Let_def path_append)

lemma cb_inv_inFlight [simp]: "cb_inv (b\<lparr>inFlight := n\<rparr>) = cb_inv b"
  by (simp add: cb_inv_def)

lemma halfOpenTimerFired_inv [wf_intros]:
  assumes "cb_inv b" and "h \<in> set (pendingTimers b)"
  shows "cb_inv (halfOpenTimerFired h b)"
proof -
  from assms have "resetTimer b = Some h" and "cb_state b = Open"
    by (auto simp: cb_inv_def split: option.splits)
  with assms show ?thesis
    by (auto simp: cb_inv_def halfOpenTimerFired_def transition_def Let_def path_append)
qed

lemma cb_reset_inv [wf_intros]: "cb_inv b \<Longrightarrow> cb_inv (cb_reset b)"
  by (cases "cb_state b"; cases "resetTimer b")
    (auto simp: cb_inv_def cb_reset_def clearResetTimer_def transition_def Let_def path_append)

interpretation cb: machine cb_step cb_enabled cb_inv
proof unfold_locales
  fix b e assume "cb_inv b" and "cb_enabled e b"
  then show "cb_inv (cb_step e b)"
    by (cases e) (simp_all add: cb_execute_def cb_settle_def Let_def recordSuccess_inv
        recordFailure_inv halfOpenTimerFired_inv cb_reset_inv)
qed

text \<open>A call that settles before anything else happens.\<close>

definition sequential_call :: "bool \<Rightarrow> breaker \<Rightarrow> breaker" where
  "sequential_call ok b = (case cb_execute b of Inl e \<Rightarrow> b | Inr b' \<Rightarrow> cb_settle ok b')"

lemma sequential_call_config:
  "cb_name (sequential_call ok b) = cb_name b \<and> failureThreshold (sequential_call ok b) = failureThreshold b"
  by (simp add: sequential_call_def cb_defs Let_def split: option.split)

lemma sequential_calls_config:
  "cb_name ((sequential_call ok ^^ n) b) = cb_name b
   \<and> failureThreshold ((sequential_call ok ^^ n) b) = failureThreshold b"
  by (induction n) (simp_all add: sequential_call_config)

lemma failing_call_closed:
  "cb_state b = Closed \<Longrightarrow> Suc (consecutiveFailures b) < failureThreshold b \<Longrightarrow>
   cb_state (sequential_call False b) = Closed
   \<and> consecutiveFailures (sequential_call False b) = Suc (consecutiveFailures b)"
  by (simp add: sequential_call_def cb_execute_def cb_settle_def recordFailure_def Let_def)

lemma failing_calls_closed:
  "cb_state b = Closed \<Longrightarrow> consecutiveFailures b + n < failureThreshold b \<Longrightarrow>
   cb_state ((sequential_call False ^^ n) b) = Closed
   \<and> consecutiveFailures ((sequential_call False ^^ n) b) = consecutiveFailures b + n"
proof (induction n)
  case 0
  then show ?case by simp
next
  case (Suc n)
  let ?c = "(sequential_call False ^^ n) b"
  have "cb_state ?c = Closed" "consecutiveFailures ?c = consecutiveFailures b + n"
    "failureThreshold ?c = failureThreshold b"
    using Suc by (simp_all add: sequential_calls_config)
  with failing_call_closed [of ?c] Suc.prems show ?case by simp
qed

lemma failing_call_trips:
  "cb_state b = Closed \<Longrightarrow> failureThreshold b \<le> Suc (consecutiveFailures b) \<Longrightarrow>
   cb_state (sequential_call False b) = Open"
  by (simp add: sequential_call_def cb_defs Let_def split: option.split)

section \<open>Properties\<close>

text \<open>
  C20: Whatever calls start, succeed or fail in whatever order, whenever timers fire and
  \<^verbatim>\<open>reset\<close> is called: the breaker is open exactly while one half-open timer is pending
  (no timer leaks, an open breaker is never stuck), a closed breaker has seen fewer consecutive
  failures than the threshold, and the announced state changes form a path of legal
  transitions from closed to the current state.
\<close>

theorem breaker_invariant:
  assumes "threshold \<noteq> Some 0" and "cb.legal es (createCircuitBreaker nm threshold)"
  shows "let b = cb.run es (createCircuitBreaker nm threshold) in
    (cb_state b = Open \<longleftrightarrow> (\<exists>h. pendingTimers b = [h])) \<and>
    (cb_state b \<noteq> Open \<longleftrightarrow> pendingTimers b = []) \<and>
    (cb_state b = Closed \<longrightarrow> consecutiveFailures b < failureThreshold b) \<and>
    path Closed (notifications b) (cb_state b)"
proof -
  have "cb_inv (cb.run es (createCircuitBreaker nm threshold))"
    using createCircuitBreaker_inv [OF assms(1)] assms(2) by (rule cb.inv_run)
  then show ?thesis by (auto simp: cb_inv_def Let_def split: option.splits)
qed

theorem breaker_invariant_witness:
  "let b = cb.run [CallStarts, CallStarts, CallSettles False, CallSettles False, TimerFires 0]
     (createCircuitBreaker ''judge0'' (Some 2)) in
   cb_state b = HalfOpen \<and> pendingTimers b = [] \<and> path Closed (notifications b) HalfOpen"
proof -
  let ?es = "[CallStarts, CallStarts, CallSettles False, CallSettles False, TimerFires 0]"
  let ?b = "createCircuitBreaker ''judge0'' (Some 2)"
  have l: "cb.legal ?es ?b" and s: "cb_state (cb.run ?es ?b) = HalfOpen"
    by (simp_all add: cb_defs createCircuitBreaker_def Let_def)
  have "Some 2 \<noteq> Some (0 :: nat)" by simp
  from breaker_invariant [OF this l] s show ?thesis by (simp add: Let_def)
qed

text \<open>
  The breaker trips after exactly \<^verbatim>\<open>failureThreshold\<close> consecutive failures: a new
  breaker stays closed through any smaller number of failing calls, the threshold-th one opens
  it, and then every call is rejected with the \<^verbatim>\<open>circuit_open\<close> error of that
  dependency, without reaching the dependency.
\<close>

theorem breaker_trips_at_threshold:
  assumes "0 < t"
  shows "let run = (\<lambda>n. (sequential_call False ^^ n) (createCircuitBreaker nm (Some t))) in
    (\<forall>n < t. cb_state (run n) = Closed) \<and> cb_state (run t) = Open
    \<and> cb_execute (run t) = Inl (circuit_open_error nm)"
proof -
  let ?b = "createCircuitBreaker nm (Some t)"
  let ?run = "\<lambda>n. (sequential_call False ^^ n) ?b"
  have b: "cb_state ?b = Closed" "consecutiveFailures ?b = 0" "failureThreshold ?b = t" "cb_name ?b = nm"
    by (simp_all add: createCircuitBreaker_def)
  have below: "cb_state (?run n) = Closed \<and> consecutiveFailures (?run n) = n" if "n < t" for n
    using failing_calls_closed [of ?b n] b that by simp
  obtain k where t: "t = Suc k" using assms by (cases t) auto
  have "failureThreshold (?run k) = t" using b by (simp add: sequential_calls_config)
  then have opened: "cb_state (?run t) = Open"
    using failing_call_trips [of "?run k"] below [of k] by (simp add: t)
  have "cb_name (?run t) = nm" using b by (simp add: sequential_calls_config)
  with opened below show ?thesis by (simp add: Let_def cb_execute_def)
qed

theorem breaker_trips_at_threshold_witness:
  "cb_state ((sequential_call False ^^ 5) (createCircuitBreaker ''groq'' (Some 5))) = Open"
  using breaker_trips_at_threshold [of 5 "''groq''"] by (simp only: Let_def)

end
