(* ===== verification/Reliability_Store.thy ===== *)
theory Reliability_Store
  imports Prelude
begin

text \<open>
  Rate limits and daily quotas: the in-memory store of
  \<^verbatim>\<open>apps/server/src/lib/reliabilityStore.ts\<close>, the limiter and counters over it
  (\<^verbatim>\<open>ipRateLimiter.ts\<close>, \<^verbatim>\<open>rateLimitCounters.ts\<close>). Limits are
  positive integers (the configuration schema), hence \<open>nat\<close>. A UTC day, in the source the text
  \<^verbatim>\<open>YYYY-MM-DD\<close>, is the number of whole days since the epoch.
\<close>

section \<open>The store\<close>

datatype daily_quota_resource = Judge0 | Imports | Llm

record rate_limit_check_result =
  allowed :: bool
  retryAfter :: nat

record daily_quota_reservation =
  res_allowed :: bool
  res_retryAfter :: nat
  res_used :: nat
  res_limit :: nat

record fixed_window_options =
  fw_bucket :: string
  fw_key :: string
  fw_limit :: nat
  fw_windowMs :: int
  fw_now :: int

record fixed_window_entry =
  fw_count :: nat
  fw_resetAt :: int

record daily_counter_map =
  dc_judge0 :: nat
  dc_imports :: nat
  dc_llm :: nat

record memory_store =
  fixedWindows :: "(string \<times> fixed_window_entry) list"
  dailyCounters :: "(int \<times> daily_counter_map) list"

definition blankDailyCounters :: daily_counter_map where
  "blankDailyCounters = \<lparr>dc_judge0 = 0, dc_imports = 0, dc_llm = 0\<rparr>"

fun counter :: "daily_quota_resource \<Rightarrow> daily_counter_map \<Rightarrow> nat" where
  "counter Judge0 c = dc_judge0 c"
| "counter Imports c = dc_imports c"
| "counter Llm c = dc_llm c"

fun set_counter :: "daily_quota_resource \<Rightarrow> nat \<Rightarrow> daily_counter_map \<Rightarrow> daily_counter_map" where
  "set_counter Judge0 n c = c\<lparr>dc_judge0 := n\<rparr>"
| "set_counter Imports n c = c\<lparr>dc_imports := n\<rparr>"
| "set_counter Llm n c = c\<lparr>dc_llm := n\<rparr>"

definition new_memory_store :: memory_store where
  "new_memory_store = \<lparr>fixedWindows = [], dailyCounters = []\<rparr>"

definition MS_PER_DAY :: int where "MS_PER_DAY = 86400000"

definition utcDayKey :: "int \<Rightarrow> int" where
  "utcDayKey now = now div MS_PER_DAY"

definition msUntilNextUtcDay :: "int \<Rightarrow> int" where
  "msUntilNextUtcDay now = max 1 ((utcDayKey now + 1) * MS_PER_DAY - now)"

text \<open>\<^verbatim>\<open>Math.ceil(ms / 1000)\<close> on integers.\<close>

definition retryAfterSeconds :: "int \<Rightarrow> nat" where
  "retryAfterSeconds ms = nat (max 1 (- ((- ms) div 1000)))"

definition window_key :: "string \<Rightarrow> string \<Rightarrow> string" where
  "window_key bucket key = bucket @ '':'' @ key"

definition consumeFixedWindow ::
  "fixed_window_options \<Rightarrow> memory_store \<Rightarrow> memory_store \<times> rate_limit_check_result" where
  "consumeFixedWindow options s =
     (let now = fw_now options;
          key = window_key (fw_bucket options) (fw_key options);
          fresh = (s\<lparr>fixedWindows := AList.update key
                      \<lparr>fw_count = 1, fw_resetAt = now + fw_windowMs options\<rparr> (fixedWindows s)\<rparr>,
                   \<lparr>allowed = True, retryAfter = 0\<rparr>)
      in case map_of (fixedWindows s) key of
           None \<Rightarrow> fresh
         | Some existing \<Rightarrow>
             if fw_resetAt existing \<le> now then fresh
             else if fw_limit options \<le> fw_count existing then
               (s, \<lparr>allowed = False, retryAfter = retryAfterSeconds (fw_resetAt existing - now)\<rparr>)
             else
               (s\<lparr>fixedWindows := AList.update key (existing\<lparr>fw_count := fw_count existing + 1\<rparr>)
                   (fixedWindows s)\<rparr>,
                \<lparr>allowed = True, retryAfter = 0\<rparr>))"

definition getOrCreateDailyCounters :: "int \<Rightarrow> memory_store \<Rightarrow> memory_store \<times> daily_counter_map" where
  "getOrCreateDailyCounters day s =
     (case map_of (dailyCounters s) day of
        Some existing \<Rightarrow> (s, existing)
      | None \<Rightarrow>
          (s\<lparr>dailyCounters := AList.update day blankDailyCounters (dailyCounters s)\<rparr>,
           blankDailyCounters))"

definition reserveDailyQuota ::
  "daily_quota_resource \<Rightarrow> nat \<Rightarrow> int \<Rightarrow> memory_store \<Rightarrow> memory_store \<times> daily_quota_reservation" where
  "reserveDailyQuota resource limit now s =
     (let day = utcDayKey now;
          (s1, counters) = getOrCreateDailyCounters day s;
          used = counter resource counters
      in if limit \<le> used then
           (s1, \<lparr>res_allowed = False, res_retryAfter = retryAfterSeconds (msUntilNextUtcDay now),
                 res_used = used, res_limit = limit\<rparr>)
         else
           (s1\<lparr>dailyCounters := AList.update day (set_counter resource (used + 1) counters)
                 (dailyCounters s1)\<rparr>,
            \<lparr>res_allowed = True, res_retryAfter = 0, res_used = used + 1, res_limit = limit\<rparr>))"

definition getUsageSnapshot :: "int \<Rightarrow> memory_store \<Rightarrow> memory_store \<times> daily_counter_map" where
  "getUsageSnapshot now s = getOrCreateDailyCounters (utcDayKey now) s"

definition clear_store :: "memory_store \<Rightarrow> memory_store" where
  "clear_store s = s\<lparr>fixedWindows := [], dailyCounters := []\<rparr>"

section \<open>The limiter and the counters over it\<close>

definition ip_consume ::
  "string \<Rightarrow> string \<Rightarrow> nat \<Rightarrow> int \<Rightarrow> int \<Rightarrow> memory_store \<Rightarrow> memory_store \<times> rate_limit_check_result" where
  "ip_consume bucket key limit windowMs now =
     consumeFixedWindow \<lparr>fw_bucket = bucket, fw_key = key, fw_limit = limit,
                         fw_windowMs = windowMs, fw_now = now\<rparr>"

definition MAX_SAFE_INTEGER :: nat where "MAX_SAFE_INTEGER = 9007199254740991"

definition reserve :: "daily_quota_resource \<Rightarrow> nat \<Rightarrow> int \<Rightarrow> memory_store \<Rightarrow> memory_store \<times> bool" where
  "reserve resource dailyLimit now s =
     (let (s', reservation) = reserveDailyQuota resource dailyLimit now s
      in (s', res_allowed reservation))"

definition hasQuota :: "daily_quota_resource \<Rightarrow> nat \<Rightarrow> int \<Rightarrow> memory_store \<Rightarrow> memory_store \<times> bool" where
  "hasQuota resource dailyLimit now s =
     (let (s', snapshot) = getUsageSnapshot now s in (s', counter resource snapshot < dailyLimit))"

definition record_usage :: "daily_quota_resource \<Rightarrow> int \<Rightarrow> memory_store \<Rightarrow> memory_store" where
  "record_usage resource now s = fst (reserve resource MAX_SAFE_INTEGER now s)"

section \<open>Lemmas\<close>

lemma retryAfterSeconds_bounds: "1 \<le> retryAfterSeconds ms"
  unfolding retryAfterSeconds_def by (auto simp: max_def)

lemma retryAfterSeconds_enough: "ms \<le> int (retryAfterSeconds ms) * 1000"
  unfolding retryAfterSeconds_def by (auto simp: max_def)

lemma retryAfterSeconds_tight: "0 < ms \<Longrightarrow> int (retryAfterSeconds ms) * 1000 < ms + 1000"
  unfolding retryAfterSeconds_def by (auto simp: max_def)

lemma msUntilNextUtcDay_bounds:
  "1 \<le> msUntilNextUtcDay now \<and> msUntilNextUtcDay now \<le> MS_PER_DAY
   \<and> utcDayKey (now + msUntilNextUtcDay now) = utcDayKey now + 1"
proof -
  have m: "msUntilNextUtcDay now = (utcDayKey now + 1) * MS_PER_DAY - now"
  proof -
    have "1 \<le> (now div 86400000 + 1) * 86400000 - now" by presburger
    then show ?thesis by (simp add: msUntilNextUtcDay_def utcDayKey_def MS_PER_DAY_def)
  qed
  then have "now + msUntilNextUtcDay now = (utcDayKey now + 1) * MS_PER_DAY" by simp
  then have "utcDayKey (now + msUntilNextUtcDay now) = utcDayKey now + 1"
    by (simp add: utcDayKey_def MS_PER_DAY_def)
  moreover have "1 \<le> (now div 86400000 + 1) * 86400000 - now"
    "(now div 86400000 + 1) * 86400000 - now \<le> 86400000"
    by presburger+
  ultimately show ?thesis unfolding m by (simp add: utcDayKey_def MS_PER_DAY_def)
qed

lemma counter_set_counter [simp]:
  "counter r' (set_counter r n c) = (if r' = r then n else counter r' c)"
  by (cases r; cases r') simp_all

lemma counter_blank [simp]: "counter r blankDailyCounters = 0"
  by (cases r) (simp_all add: blankDailyCounters_def)

text \<open>Keys of different bucket and client pairs differ as long as buckets hold no colon.\<close>

lemma window_key_inj:
  "CHR '':'' \<notin> set b \<Longrightarrow> CHR '':'' \<notin> set b' \<Longrightarrow>
   window_key b k = window_key b' k' \<longleftrightarrow> b = b' \<and> k = k'"
proof (induction b arbitrary: b')
  case Nil
  then show ?case by (cases b') (auto simp: window_key_def)
next
  case (Cons c b)
  then show ?case by (cases b') (auto simp: window_key_def)
qed

section \<open>Quotas per day\<close>

text \<open>
  What the callers of \<^verbatim>\<open>reserve\<close> rely on: a reservation is granted exactly below the
  limit of the day and counts exactly once.
\<close>

locale daily_quota =
  fixes take_one :: "'r \<Rightarrow> nat \<Rightarrow> int \<Rightarrow> 's \<Rightarrow> 's \<times> bool"
    and used_on :: "'r \<Rightarrow> int \<Rightarrow> 's \<Rightarrow> nat"
    and day_of :: "int \<Rightarrow> int"
  assumes take_allowed: "snd (take_one r limit now s) \<longleftrightarrow> used_on r (day_of now) s < limit"
    and take_used: "used_on r' d (fst (take_one r limit now s)) =
      used_on r' d s + (if r' = r \<and> d = day_of now \<and> snd (take_one r limit now s) then 1 else 0)"
begin

text \<open>The outcomes of a sequence of reservations, each a resource and a time.\<close>

fun outcomes :: "('r \<Rightarrow> nat) \<Rightarrow> ('r \<times> int) list \<Rightarrow> 's \<Rightarrow> bool list" where
  "outcomes limits [] s = []"
| "outcomes limits ((r, now) # qs) s =
     snd (take_one r (limits r) now s) # outcomes limits qs (fst (take_one r (limits r) now s))"

fun after :: "('r \<Rightarrow> nat) \<Rightarrow> ('r \<times> int) list \<Rightarrow> 's \<Rightarrow> 's" where
  "after limits [] s = s"
| "after limits ((r, now) # qs) s = after limits qs (fst (take_one r (limits r) now s))"

lemma length_outcomes [simp]: "length (outcomes limits qs s) = length qs"
  by (induction limits qs s rule: after.induct) simp_all

definition granted :: "'r \<Rightarrow> int \<Rightarrow> ('r \<times> int) list \<Rightarrow> bool list \<Rightarrow> bool list" where
  "granted r d qs oks = map snd (filter (\<lambda>((q, now), ok). q = r \<and> day_of now = d) (zip qs oks))"

lemma granted_Nil [simp]: "granted r d [] oks = []"
  by (simp add: granted_def)

lemma granted_Cons [simp]:
  "granted r d ((q, now) # qs) (ok # oks) =
   (if q = r \<and> day_of now = d then [ok] else []) @ granted r d qs oks"
  by (simp add: granted_def)

lemma outcomes_exact:
  "granted r d qs (outcomes limits qs s) =
   (let n = length (filter (\<lambda>(q, now). q = r \<and> day_of now = d) qs);
        free = limits r - used_on r d s
    in replicate (min n free) True @ replicate (n - free) False)"
proof (induction limits qs s rule: after.induct)
  case (1 limits s)
  then show ?case by simp
next
  case (2 limits q now qs s)
  let ?s = "fst (take_one q (limits q) now s)"
  show ?case
  proof (cases "q = r \<and> day_of now = d")
    case False
    then have "used_on r d ?s = used_on r d s" by (auto simp: take_used)
    with False 2 show ?thesis by (auto simp: Let_def)
  next
    case True
    then have q: "q = r" "day_of now = d" by simp_all
    show ?thesis
    proof (cases "used_on r d s < limits r")
      case True
      then have "limits r - used_on r d s = Suc (limits r - used_on r d ?s)"
        by (simp add: take_used take_allowed q)
      moreover have "snd (take_one q (limits q) now s)" using True by (simp add: take_allowed q)
      ultimately show ?thesis using 2 q by (simp add: Let_def)
    next
      case False
      then have "used_on r d ?s = used_on r d s" by (simp add: take_used take_allowed q)
      moreover have "\<not> snd (take_one q (limits q) now s)" using False by (simp add: take_allowed q)
      ultimately show ?thesis using 2 q False by (simp add: Let_def)
    qed
  qed
qed

lemma used_after_le:
  "used_on r d s \<le> limits r \<Longrightarrow> used_on r d (after limits qs s) \<le> limits r"
  by (induction limits qs s rule: after.induct) (auto simp: take_used take_allowed)

end

definition used_of :: "daily_quota_resource \<Rightarrow> int \<Rightarrow> memory_store \<Rightarrow> nat" where
  "used_of r d s = (case map_of (dailyCounters s) d of None \<Rightarrow> 0 | Some c \<Rightarrow> counter r c)"

lemma used_of_getOrCreate [simp]:
  "used_of r d (fst (getOrCreateDailyCounters day s)) = used_of r d s"
  by (simp add: getOrCreateDailyCounters_def used_of_def map_of_AList_update split: option.split)

lemma counter_getOrCreate:
  "counter r (snd (getOrCreateDailyCounters day s)) = used_of r day s"
  by (simp add: getOrCreateDailyCounters_def used_of_def split: option.split)

lemma reserve_allowed: "snd (reserve r limit now s) \<longleftrightarrow> used_of r (utcDayKey now) s < limit"
  by (simp add: reserve_def reserveDailyQuota_def Let_def case_prod_beta counter_getOrCreate)

lemma reserve_used:
  "used_of r' d (fst (reserve r limit now s)) =
   used_of r' d s + (if r' = r \<and> d = utcDayKey now \<and> snd (reserve r limit now s) then 1 else 0)"
proof -
  let ?g = "getOrCreateDailyCounters (utcDayKey now) s"
  have c: "map_of (dailyCounters (fst ?g)) (utcDayKey now) = Some (snd ?g)"
    by (simp add: getOrCreateDailyCounters_def map_of_AList_update split: option.split)
  have "used_of r' d (fst (reserve r limit now s)) =
      (if used_of r (utcDayKey now) s < limit \<and> d = utcDayKey now \<and> r' = r
       then used_of r d s + 1 else used_of r' d (fst ?g))"
    using c by (auto simp: reserve_def reserveDailyQuota_def Let_def case_prod_beta
        counter_getOrCreate used_of_def map_of_AList_update)
  then show ?thesis by (simp add: reserve_allowed)
qed

interpretation mem: daily_quota reserve used_of utcDayKey
  by unfold_locales (simp_all only: reserve_allowed reserve_used)

section \<open>Fixed windows\<close>

definition same_window :: "string \<Rightarrow> string \<Rightarrow> fixed_window_options \<Rightarrow> bool" where
  "same_window b k q \<longleftrightarrow> fw_bucket q = b \<and> fw_key q = k"

fun consume_all :: "fixed_window_options list \<Rightarrow> memory_store \<Rightarrow> rate_limit_check_result list" where
  "consume_all [] s = []"
| "consume_all (q # qs) s =
     (let (s', result) = consumeFixedWindow q s in result # consume_all qs s')"

text \<open>The results that the requests of one client in one bucket got.\<close>

definition results_of ::
  "string \<Rightarrow> string \<Rightarrow> fixed_window_options list \<Rightarrow> memory_store \<Rightarrow> bool list" where
  "results_of b k qs s =
     map (allowed \<circ> snd) (filter (\<lambda>(q, r). same_window b k q) (zip qs (consume_all qs s)))"

lemma results_of_Nil [simp]: "results_of b k [] s = []"
  by (simp add: results_of_def)

lemma results_of_Cons:
  "results_of b k (q # qs) s =
   (if same_window b k q then [allowed (snd (consumeFixedWindow q s))] else [])
     @ results_of b k qs (fst (consumeFixedWindow q s))"
  by (simp add: results_of_def case_prod_beta)

lemma consume_other_key:
  assumes "CHR '':'' \<notin> set b" and "CHR '':'' \<notin> set (fw_bucket q)" and "\<not> same_window b k q"
  shows "map_of (fixedWindows (fst (consumeFixedWindow q s))) (window_key b k) =
         map_of (fixedWindows s) (window_key b k)"
proof -
  have "window_key b k \<noteq> window_key (fw_bucket q) (fw_key q)"
    using assms by (auto simp: window_key_inj same_window_def)
  then show ?thesis
    by (auto simp: consumeFixedWindow_def Let_def map_of_AList_update split: option.split)
qed

lemma window_open_results:
  assumes "CHR '':'' \<notin> set b"
  shows "map_of (fixedWindows s) (window_key b k) = Some e \<Longrightarrow>
    \<forall>q \<in> set qs. CHR '':'' \<notin> set (fw_bucket q) \<Longrightarrow>
    \<forall>q \<in> set qs. same_window b k q \<longrightarrow> fw_limit q = L \<and> fw_now q < fw_resetAt e \<Longrightarrow>
    results_of b k qs s =
      (let n = length (filter (same_window b k) qs)
       in replicate (min n (L - fw_count e)) True @ replicate (n - (L - fw_count e)) False)"
proof (induction qs arbitrary: s e)
  case Nil
  then show ?case by simp
next
  case (Cons q qs)
  let ?s = "fst (consumeFixedWindow q s)"
  show ?case
  proof (cases "same_window b k q")
    case False
    then have "map_of (fixedWindows ?s) (window_key b k) = Some e"
      using Cons.prems(1,2) assms by (subst consume_other_key) auto
    from Cons.IH [OF this] Cons.prems False show ?thesis by (simp add: results_of_Cons)
  next
    case True
    then have q: "fw_bucket q = b" "fw_key q = k" "fw_limit q = L" "\<not> fw_resetAt e \<le> fw_now q"
      using Cons.prems(3) by (auto simp: same_window_def)
    show ?thesis
    proof (cases "L \<le> fw_count e")
      case rejected: True
      have r: "?s = s" "\<not> allowed (snd (consumeFixedWindow q s))"
        using q rejected Cons.prems(1) by (simp_all add: consumeFixedWindow_def Let_def)
      from Cons.IH [OF Cons.prems(1)] Cons.prems r True rejected show ?thesis
        by (simp add: results_of_Cons)
    next
      case False
      let ?e = "e\<lparr>fw_count := fw_count e + 1\<rparr>"
      have r: "map_of (fixedWindows ?s) (window_key b k) = Some ?e"
        "allowed (snd (consumeFixedWindow q s))"
        using q False Cons.prems(1)
        by (simp_all add: consumeFixedWindow_def Let_def map_of_AList_update)
      have "L - fw_count e = Suc (L - fw_count ?e)" using False by simp
      with Cons.IH [OF r(1)] Cons.prems r(2) True show ?thesis
        by (simp add: results_of_Cons Let_def)
    qed
  qed
qed

section \<open>Properties\<close>

text \<open>
  C21: Fixed-window limits are exact and clients do not share them: from the moment a client's
  window opens until it expires, the client's first \<^verbatim>\<open>limit\<close> requests in the bucket
  are allowed and every later one is refused, whatever other clients or buckets consume in
  between.
\<close>

theorem fixed_window_exact:
  assumes "0 < L" and "CHR '':'' \<notin> set b" and "\<forall>q \<in> set qs. CHR '':'' \<notin> set (fw_bucket q)"
    and "same_window b k q0" and "fw_limit q0 = L"
    and "\<forall>e. map_of (fixedWindows s) (window_key b k) = Some e \<longrightarrow> fw_resetAt e \<le> fw_now q0"
    and "\<forall>q \<in> set qs. same_window b k q \<longrightarrow>
           fw_limit q = L \<and> fw_now q < fw_now q0 + fw_windowMs q0"
  shows "results_of b k (q0 # qs) s =
      (let n = length (filter (same_window b k) (q0 # qs))
       in replicate (min n L) True @ replicate (n - L) False)"
proof -
  let ?s = "fst (consumeFixedWindow q0 s)"
  let ?e = "\<lparr>fw_count = 1, fw_resetAt = fw_now q0 + fw_windowMs q0\<rparr>"
  have "map_of (fixedWindows ?s) (window_key b k) = Some ?e \<and> allowed (snd (consumeFixedWindow q0 s))"
    using assms(4,6) by (auto simp: consumeFixedWindow_def same_window_def Let_def
        map_of_AList_update split: option.split)
  then have e: "map_of (fixedWindows ?s) (window_key b k) = Some ?e"
    and a: "allowed (snd (consumeFixedWindow q0 s))" by simp_all
  obtain l where L: "L = Suc l" using assms(1) by (cases L) auto
  from window_open_results [OF assms(2) e assms(3), of L] assms(4,7) a show ?thesis
    by (simp add: results_of_Cons L Let_def)
qed

definition sample_request :: "string \<Rightarrow> int \<Rightarrow> fixed_window_options" where
  "sample_request client now =
     \<lparr>fw_bucket = ''join-attempt'', fw_key = client, fw_limit = 2, fw_windowMs = 3600000, fw_now = now\<rparr>"

theorem fixed_window_exact_witness:
  "results_of ''join-attempt'' ''::1''
     (sample_request ''::1'' 100 # [sample_request ''::2'' 101, sample_request ''::1'' 101,
        sample_request ''::1'' 102, sample_request ''::2'' 103]) new_memory_store
   = [True, True, False]"
proof -
  let ?qs = "[sample_request ''::2'' 101, sample_request ''::1'' 101,
        sample_request ''::1'' 102, sample_request ''::2'' 103]"
  have "results_of ''join-attempt'' ''::1'' (sample_request ''::1'' 100 # ?qs) new_memory_store =
      (let n = length (filter (same_window ''join-attempt'' ''::1'') (sample_request ''::1'' 100 # ?qs))
       in replicate (min n 2) True @ replicate (n - 2) False)"
    by (rule fixed_window_exact) (simp_all add: sample_request_def same_window_def new_memory_store_def)
  also have "\<dots> = [True, True, False]"
    by (simp add: sample_request_def same_window_def Let_def numeral_2_eq_2)
  finally show ?thesis .
qed

text \<open>
  A refused request is told a retry time that is right to the second: at least one second,
  long enough for the window to have expired, and less than a second too long.
\<close>

theorem fixed_window_retry_after:
  assumes "consumeFixedWindow q s = (s', r)" and "\<not> allowed r"
  shows "s' = s \<and> (\<exists>e. map_of (fixedWindows s) (window_key (fw_bucket q) (fw_key q)) = Some e
    \<and> 1 \<le> retryAfter r
    \<and> fw_resetAt e \<le> fw_now q + 1000 * int (retryAfter r)
    \<and> fw_now q + 1000 * int (retryAfter r) < fw_resetAt e + 1000)"
proof -
  let ?k = "window_key (fw_bucket q) (fw_key q)"
  from assms obtain e where e: "map_of (fixedWindows s) ?k = Some e" "fw_now q < fw_resetAt e"
    and r: "s' = s" "r = \<lparr>allowed = False, retryAfter = retryAfterSeconds (fw_resetAt e - fw_now q)\<rparr>"
    by (auto simp: consumeFixedWindow_def Let_def split: option.splits if_splits)
  let ?ms = "fw_resetAt e - fw_now q"
  have "?ms \<le> int (retryAfterSeconds ?ms) * 1000" "int (retryAfterSeconds ?ms) * 1000 < ?ms + 1000"
    "1 \<le> retryAfterSeconds ?ms"
    using e(2) retryAfterSeconds_bounds [of ?ms] retryAfterSeconds_enough [of ?ms]
      retryAfterSeconds_tight [of ?ms] by simp_all
  then show ?thesis using e(1) by (simp add: r)
qed

theorem fixed_window_retry_after_witness:
  "let s = new_memory_store\<lparr>fixedWindows := [(''join-attempt:::1'', \<lparr>fw_count = 2, fw_resetAt = 5000\<rparr>)]\<rparr>;
       r = snd (consumeFixedWindow (sample_request ''::1'' 3001) s) in
   \<not> allowed r \<and> 5000 \<le> 3001 + 1000 * int (retryAfter r) \<and> 3001 + 1000 * int (retryAfter r) < 6000"
proof -
  let ?s = "new_memory_store\<lparr>fixedWindows := [(''join-attempt:::1'', \<lparr>fw_count = 2, fw_resetAt = 5000\<rparr>)]\<rparr>"
  let ?q = "sample_request ''::1'' 3001"
  have n: "\<not> allowed (snd (consumeFixedWindow ?q ?s))"
    by (simp add: consumeFixedWindow_def sample_request_def window_key_def)
  from fixed_window_retry_after [OF prod.collapse [symmetric] n] n show ?thesis
    by (simp add: sample_request_def window_key_def Let_def)
qed

text \<open>
  Daily quotas are exact: on one UTC day the first \<^verbatim>\<open>limit\<close> reservations of a
  resource succeed and all later ones fail, in any interleaving with other resources and days,
  and the recorded usage never passes the limit.
\<close>

theorem daily_quota_exact:
  "mem.granted r d qs (mem.outcomes limits qs new_memory_store) =
     (let n = length (filter (\<lambda>(q, now). q = r \<and> utcDayKey now = d) qs)
      in replicate (min n (limits r)) True @ replicate (n - limits r) False)
   \<and> used_of r d (mem.after limits qs new_memory_store) \<le> limits r"
proof -
  have "used_of r d new_memory_store = 0" by (simp add: used_of_def new_memory_store_def)
  then show ?thesis
    using mem.outcomes_exact [of r d qs limits new_memory_store]
      mem.used_after_le [of r d new_memory_store limits qs] by (simp add: Let_def)
qed

end
