(* ===== verification/Health.thy ===== *)
theory Health
  imports Room_Manager
begin

text \<open>
  The capacity snapshot of \<^verbatim>\<open>models/RoomManager.ts\<close> and the health routes over it.
\<close>

record capacity_snapshot =
  activeRooms :: nat
  cs_maxActiveRooms :: nat
  roomCapacityUsed :: rat

definition getCapacitySnapshot :: "room_manager \<Rightarrow> capacity_snapshot" where
  "getCapacitySnapshot mgr =
     \<lparr>activeRooms = length (rooms mgr), cs_maxActiveRooms = maxActiveRooms mgr,
      roomCapacityUsed =
        (if maxActiveRooms mgr = 0 then 1
         else of_nat (length (rooms mgr)) / of_nat (maxActiveRooms mgr))\<rparr>"


end
