(* ===== verification/Network_Security.thy ===== *)
theory Network_Security
  imports Prelude
begin

text \<open>
  Who a request comes from: \<^verbatim>\<open>apps/server/src/lib/networkSecurity.ts\<close>, the origin
  check and the client address behind trusted proxies. \<^verbatim>\<open>undefined\<close> is
  \<open>None\<close>; an empty string counts as missing wherever the source tests truthiness.
\<close>

definition normalizeIp :: "string option \<Rightarrow> string option" where
  "normalizeIp ip =
     (case ip of
        None \<Rightarrow> None
      | Some s \<Rightarrow> if s = [] then None
                  else if starts_with ''::ffff:'' s then Some (drop 7 s) else Some s)"

definition isOriginAllowed :: "string option \<Rightarrow> string list \<Rightarrow> bool" where
  "isOriginAllowed origin allowedOrigins =
     (if length allowedOrigins = 0 then False
      else case origin of
             None \<Rightarrow> False
           | Some orig \<Rightarrow> if orig = [] then False else orig \<in> set allowedOrigins)"

text \<open>\<^verbatim>\<open>header.split(",")[0]\<close>, and the header as one value or a list of them.\<close>

definition before_comma :: "string \<Rightarrow> string" where
  "before_comma s = takeWhile (\<lambda>c. c \<noteq> CHR '','') s"

datatype header = Absent | Single string | Many "string list"

fun header_value :: "header \<Rightarrow> string option" where
  "header_value Absent = None"
| "header_value (Single s) = Some s"
| "header_value (Many []) = None"
| "header_value (Many (s # ss)) = Some s"

definition trusted_set :: "string list \<Rightarrow> string list" where
  "trusted_set ips = filter (\<lambda>ip. ip \<noteq> []) (List.map_filter (\<lambda>ip. normalizeIp (Some ip)) ips)"

definition extractClientIp :: "string option \<Rightarrow> header \<Rightarrow> string list \<Rightarrow> string" where
  "extractClientIp remote forwardedFor trustedProxyIps =
     (let remoteAddress = normalizeIp remote;
          direct = (case remoteAddress of None \<Rightarrow> ''unknown'' | Some a \<Rightarrow> a)
      in if truthy_text remoteAddress \<and> the remoteAddress \<in> set (trusted_set trustedProxyIps) then
           (case header_value forwardedFor of
              None \<Rightarrow> direct
            | Some h \<Rightarrow> (let ip = trim (before_comma h) in if ip = [] then direct else ip))
         else direct)"

text \<open>\<^verbatim>\<open>getClientIp(socket)\<close>: what the handshake stored.\<close>

definition getClientIp :: "string option \<Rightarrow> string" where
  "getClientIp stored = (case stored of None \<Rightarrow> ''unknown'' | Some ip \<Rightarrow> ip)"

section \<open>Properties\<close>

text \<open>
  A client that does not connect through a trusted proxy cannot choose the address it is
  rate-limited under: its \<^verbatim>\<open>X-Forwarded-For\<close> header has no influence. Only behind a
  trusted proxy is the first entry of the header used.
\<close>

theorem forwarded_for_needs_trusted_proxy:
  assumes "normalizeIp remote \<notin> Some ` set (trusted_set trusted)"
  shows "extractClientIp remote h trusted = extractClientIp remote Absent trusted
    \<and> extractClientIp remote h trusted = (case normalizeIp remote of None \<Rightarrow> ''unknown'' | Some a \<Rightarrow> a)"
  using assms by (cases "normalizeIp remote") (auto simp: extractClientIp_def Let_def)

theorem forwarded_for_needs_trusted_proxy_witness:
  "extractClientIp (Some ''::ffff:203.0.113.9'') (Single ''10.0.0.1, 10.0.0.2'') [''10.9.9.9'']
     = ''203.0.113.9''"
proof -
  have "normalizeIp (Some ''::ffff:203.0.113.9'') \<notin> Some ` set (trusted_set [''10.9.9.9''])"
    by code_simp
  from forwarded_for_needs_trusted_proxy [OF this]
  have "extractClientIp (Some ''::ffff:203.0.113.9'') (Single ''10.0.0.1, 10.0.0.2'') [''10.9.9.9'']
    = (case normalizeIp (Some ''::ffff:203.0.113.9'') of None \<Rightarrow> ''unknown'' | Some a \<Rightarrow> a)" by blast
  also have "\<dots> = ''203.0.113.9''" by code_simp
  finally show ?thesis .
qed

end
