(* ===== verification/Session.thy ===== *)
theory Session
  imports Room_Manager Network_Security
begin

text \<open>
  What every socket handler starts from: the data the handshake stored on the socket, the session
  factory (\<^verbatim>\<open>lib/sessionFactory.ts\<close>), scoped emission
  (\<^verbatim>\<open>lib/errorEmitter.ts\<close>) and payload validation
  (\<^verbatim>\<open>lib/validation.ts\<close>) of \<^verbatim>\<open>apps/server/src\<close>. Logging has
  no effect on the rest and is left out throughout.
\<close>

record socket_ctx =
  sock_id :: string
  sock_roomCode :: "string option"
  sock_clientIp :: "string option"

definition socketIp :: "socket_ctx \<Rightarrow> string" where
  "socketIp sock = getClientIp (sock_clientIp sock)"

text \<open>
  \<^verbatim>\<open>getRoom(socket.data.roomCode as string)\<close>: with no stored code the source would
  call \<^verbatim>\<open>trim\<close> of \<^verbatim>\<open>undefined\<close>; the handshake always stores one, and
  the auth middleware stops the event first.
\<close>

definition createHandlerSession ::
  "socket_ctx \<Rightarrow> (string \<Rightarrow> room option) \<Rightarrow> (room \<Rightarrow> bool) \<Rightarrow> (room \<times> string) option" where
  "createHandlerSession sock lookup validateRoom =
     (case sock_roomCode sock of
        None \<Rightarrow> None
      | Some code \<Rightarrow>
          (case lookup code of
             None \<Rightarrow> None
           | Some room \<Rightarrow> if validateRoom room then Some (room, code) else None))"

datatype emission_scope = ScopeSocket | ScopeRoom

definition emitScopedEvent :: "socket_ctx \<Rightarrow> string option \<Rightarrow> server_msg \<Rightarrow> emission_scope \<Rightarrow> eff list" where
  "emitScopedEvent sock code msg scope =
     (if scope = ScopeRoom \<and> truthy_text code then [ToRoom (the code) msg]
      else [ToSocket (sock_id sock) msg])"

definition emitExecutionError ::
  "socket_ctx \<Rightarrow> string \<Rightarrow> ExecutionErrorType \<Rightarrow> string \<Rightarrow> emission_scope \<Rightarrow> eff list" where
  "emitExecutionError sock code errorType msg scope =
     emitScopedEvent sock (Some code) (ExecutionError errorType msg) scope"

text \<open>A zod schema as a partial function; a rejected payload emits what \<^verbatim>\<open>onReject\<close> says.\<close>

definition validatePayloadOrReject ::
  "('p \<Rightarrow> 'a option) \<Rightarrow> 'p \<Rightarrow> string option \<Rightarrow> (string \<Rightarrow> eff list) \<Rightarrow> eff list + 'a" where
  "validatePayloadOrReject schema payload invalidMessage onReject =
     (case schema payload of
        None \<Rightarrow> Inl (onReject (case invalidMessage of None \<Rightarrow> ''Invalid payload.'' | Some m \<Rightarrow> m))
      | Some parsed \<Rightarrow> Inr parsed)"

text \<open>What an awaited promise can be rejected with.\<close>

datatype exn =
    OperationLimit string
  | AbortTimeout string
  | ErrorExn string
  | OtherExn

type_synonym 'a awaited = "exn + 'a"

text \<open>
  \<^verbatim>\<open>err instanceof Error ? err.message : default\<close> and
  \<^verbatim>\<open>isOperationLimitExceededError\<close>.
\<close>

fun exn_text :: "string \<Rightarrow> exn \<Rightarrow> string" where
  "exn_text dflt (OperationLimit nm) = nm @ '' capacity reached.''"
| "exn_text dflt (AbortTimeout msg) = msg"
| "exn_text dflt (ErrorExn msg) = msg"
| "exn_text dflt OtherExn = dflt"

fun is_operation_limit :: "exn \<Rightarrow> bool" where
  "is_operation_limit (OperationLimit _) = True"
| "is_operation_limit _ = False"

text \<open>Object fields of an unknown payload.\<close>

fun field :: "string \<Rightarrow> js_unknown \<Rightarrow> js_unknown" where
  "field k (Some (JObj kvs)) = map_of kvs k"
| "field k _ = None"

fun is_object :: "js_unknown \<Rightarrow> bool" where
  "is_object (Some (JObj kvs)) = True"
| "is_object _ = False"

end
