(* ===== verification/Auth_Middleware.thy ===== *)
theory Auth_Middleware
  imports Session
begin

text \<open>
  The per-event authorization of \<^verbatim>\<open>apps/server/src/middleware/authMiddleware.ts\<close>:
  every socket event passes it before its handler runs.
\<close>

datatype auth_decision = Next | Silent | Reject string

definition BYPASS_EVENTS :: "string list" where
  "BYPASS_EVENTS = [event_name USER_JOIN]"

definition INTERVIEWER_ONLY_EVENTS :: "string list" where
  "INTERVIEWER_ONLY_EVENTS = [event_name PROBLEM_SELECT, event_name PROBLEM_IMPORT, event_name SOLUTION_REVEAL]"

definition BLOCKED_IN_INTERVIEW :: "string list" where
  "BLOCKED_IN_INTERVIEW = [event_name HINT_REQUEST]"

definition REQUIRES_NO_EXECUTION :: "string list" where
  "REQUIRES_NO_EXECUTION = [event_name CODE_RUN, event_name CODE_SUBMIT]"

definition REQUIRES_SWITCHABLE_PROBLEM :: "string list" where
  "REQUIRES_SWITCHABLE_PROBLEM = [event_name PROBLEM_SELECT, event_name PROBLEM_IMPORT]"

definition HINT_RESPONSE_EVENTS :: "string list" where
  "HINT_RESPONSE_EVENTS = [event_name HINT_APPROVE, event_name HINT_DENY]"

definition msg_reveal_interview_only :: string where
  "msg_reveal_interview_only = ''Solutions can only be revealed in interview mode.''"
definition msg_interviewer_only :: string where
  "msg_interviewer_only = ''Only the interviewer can perform this action.''"
definition msg_no_hints_in_interview :: string where
  "msg_no_hints_in_interview = ''Hints are not available in interview mode.''"
definition msg_no_hint_pending :: string where
  "msg_no_hint_pending = ''No hint request is pending.''"
definition msg_other_participant_only :: string where
  "msg_other_participant_only = ''Only the other participant can respond to a hint request.''"

text \<open>The checks after the user is known, in the order of the source.\<close>

definition hint_response_check :: "string \<Rightarrow> room \<Rightarrow> room_user_internal \<Rightarrow> auth_decision" where
  "hint_response_check ev room user =
     (if ev \<in> set HINT_RESPONSE_EVENTS then
        (case pendingHintRequest room of
           None \<Rightarrow> Reject msg_no_hint_pending
         | Some p \<Rightarrow> if requestedBy p = userId user then Reject msg_other_participant_only else Next)
      else Next)"

definition switchable_check :: "string \<Rightarrow> room \<Rightarrow> room_user_internal \<Rightarrow> auth_decision" where
  "switchable_check ev room user =
     (if ev \<in> set REQUIRES_SWITCHABLE_PROBLEM then
        (case canSwitchProblem room of
           Refused reason \<Rightarrow> Reject reason
         | Allowed \<Rightarrow> hint_response_check ev room user)
      else hint_response_check ev room user)"

definition execution_check :: "string \<Rightarrow> room \<Rightarrow> room_user_internal \<Rightarrow> auth_decision" where
  "execution_check ev room user =
     (if ev \<in> set REQUIRES_NO_EXECUTION then
        (case canExecute room of
           Refused reason \<Rightarrow> Reject reason
         | Allowed \<Rightarrow> switchable_check ev room user)
      else switchable_check ev room user)"

definition member_check :: "string \<Rightarrow> room \<Rightarrow> room_user_internal \<Rightarrow> auth_decision" where
  "member_check ev room user =
     (if ev = event_name SOLUTION_REVEAL \<and> mode room \<noteq> Interview then Reject msg_reveal_interview_only
      else if mode room = Interview then
        (if ev \<in> set INTERVIEWER_ONLY_EVENTS \<and> role user \<noteq> Interviewer then Reject msg_interviewer_only
         else if ev \<in> set BLOCKED_IN_INTERVIEW then Reject msg_no_hints_in_interview
         else execution_check ev room user)
      else execution_check ev room user)"

definition authMiddleware :: "(string \<Rightarrow> room option) \<Rightarrow> socket_ctx \<Rightarrow> string \<Rightarrow> auth_decision" where
  "authMiddleware lookup sock ev =
     (if ev \<in> set BYPASS_EVENTS then Next
      else case sock_roomCode sock of
        None \<Rightarrow> Silent
      | Some code \<Rightarrow>
          if code = [] then Silent
          else case lookup code of
            None \<Rightarrow> Silent
          | Some room \<Rightarrow>
              (case List.find (\<lambda>u. socketId u = Some (sock_id sock)) (users room) of
                 None \<Rightarrow> Silent
               | Some user \<Rightarrow> member_check ev room user))"

definition auth_effects :: "socket_ctx \<Rightarrow> string \<Rightarrow> auth_decision \<Rightarrow> eff list" where
  "auth_effects sock ev d =
     (case d of Reject reason \<Rightarrow> [ToSocket (sock_id sock) (EventRejected ev reason None)] | _ \<Rightarrow> [])"

section \<open>The policy it implements\<close>

text \<open>The permission table: what a member of the room may trigger, event by event.\<close>

fun may_trigger :: "room \<Rightarrow> room_user_internal \<Rightarrow> socket_event \<Rightarrow> bool" where
  "may_trigger r u SOLUTION_REVEAL = (mode r = Interview \<and> role u = Interviewer)"
| "may_trigger r u PROBLEM_SELECT =
     ((mode r = Interview \<longrightarrow> role u = Interviewer) \<and> \<not> executionInProgress r \<and> \<not> hintStreaming r)"
| "may_trigger r u PROBLEM_IMPORT =
     ((mode r = Interview \<longrightarrow> role u = Interviewer) \<and> \<not> executionInProgress r \<and> \<not> hintStreaming r)"
| "may_trigger r u HINT_REQUEST = (mode r \<noteq> Interview)"
| "may_trigger r u CODE_RUN = (canExecute r = Allowed)"
| "may_trigger r u CODE_SUBMIT = (canExecute r = Allowed)"
| "may_trigger r u HINT_APPROVE = (\<exists>p. pendingHintRequest r = Some p \<and> requestedBy p \<noteq> userId u)"
| "may_trigger r u HINT_DENY = (\<exists>p. pendingHintRequest r = Some p \<and> requestedBy p \<noteq> userId u)"
| "may_trigger r u _ = True"

definition member_of :: "socket_ctx \<Rightarrow> room \<Rightarrow> room_user_internal option" where
  "member_of sock r = List.find (\<lambda>u. socketId u = Some (sock_id sock)) (users r)"

lemmas event_sets = BYPASS_EVENTS_def INTERVIEWER_ONLY_EVENTS_def BLOCKED_IN_INTERVIEW_def
  REQUIRES_NO_EXECUTION_def REQUIRES_SWITCHABLE_PROBLEM_def HINT_RESPONSE_EVENTS_def

lemma in_event_sets:
  "event_name e \<in> set BYPASS_EVENTS \<longleftrightarrow> e = USER_JOIN"
  "event_name e \<in> set INTERVIEWER_ONLY_EVENTS \<longleftrightarrow> e \<in> {PROBLEM_SELECT, PROBLEM_IMPORT, SOLUTION_REVEAL}"
  "event_name e \<in> set BLOCKED_IN_INTERVIEW \<longleftrightarrow> e = HINT_REQUEST"
  "event_name e \<in> set REQUIRES_NO_EXECUTION \<longleftrightarrow> e \<in> {CODE_RUN, CODE_SUBMIT}"
  "event_name e \<in> set REQUIRES_SWITCHABLE_PROBLEM \<longleftrightarrow> e \<in> {PROBLEM_SELECT, PROBLEM_IMPORT}"
  "event_name e \<in> set HINT_RESPONSE_EVENTS \<longleftrightarrow> e \<in> {HINT_APPROVE, HINT_DENY}"
  unfolding event_sets by (simp_all only: list.set event_name_inj insert_iff empty_iff simp_thms)

lemma member_check_policy:
  "member_check (event_name e) r u = Next \<longleftrightarrow> may_trigger r u e"
  unfolding member_check_def execution_check_def switchable_check_def hint_response_check_def
    in_event_sets event_name_inj
  by (cases e) (auto simp: canSwitchProblem_def split: check.splits option.splits)

section \<open>Properties\<close>

text \<open>
  C8: The middleware implements the permission table: an event reaches its handler exactly when
  it is the join event, or the sender is a member of the socket's room and the table allows the
  event for that member in the room's present state.
\<close>

theorem authMiddleware_policy:
  "authMiddleware lookup sock (event_name e) = Next \<longleftrightarrow>
     e = USER_JOIN \<or>
     (\<exists>code r u. sock_roomCode sock = Some code \<and> code \<noteq> [] \<and> lookup code = Some r
        \<and> member_of sock r = Some u \<and> may_trigger r u e)"
  by (auto simp: authMiddleware_def in_event_sets member_of_def member_check_policy
      split: option.splits)

text \<open>
  In an interview a candidate cannot change or import the problem, cannot reveal the
  solution, and nobody can ask for a hint; in a collaboration nobody can reveal a solution. The
  sender gets the reason and no handler runs.
\<close>

theorem interview_restrictions:
  assumes "sock_roomCode sock = Some code" and "code \<noteq> []" and "lookup code = Some r"
    and "member_of sock r = Some u"
  shows "(mode r = Interview \<and> role u = Candidate \<longrightarrow>
       (\<forall>e \<in> {PROBLEM_SELECT, PROBLEM_IMPORT, SOLUTION_REVEAL}.
          authMiddleware lookup sock (event_name e) = Reject msg_interviewer_only))
    \<and> (mode r = Interview \<longrightarrow>
         authMiddleware lookup sock (event_name HINT_REQUEST) = Reject msg_no_hints_in_interview)
    \<and> (mode r \<noteq> Interview \<longrightarrow>
         authMiddleware lookup sock (event_name SOLUTION_REVEAL) = Reject msg_reveal_interview_only)"
proof -
  have auth: "authMiddleware lookup sock (event_name e) =
      (if e = USER_JOIN then Next else member_check (event_name e) r u)" for e
    using assms by (simp add: authMiddleware_def in_event_sets member_of_def)
  show ?thesis
    unfolding auth member_check_def in_event_sets event_name_inj by simp
qed

theorem interview_restrictions_witness:
  "authMiddleware
     (\<lambda>c. Some (fst (addUser ''u2'' ''t2'' 0 ''Bob'' Candidate ''s2''
             (new_room ''aaa-aaa'' Interview no_options ''y'' 0))))
     \<lparr>sock_id = ''s2'', sock_roomCode = Some ''aaa-aaa'', sock_clientIp = None\<rparr>
     (event_name SOLUTION_REVEAL) = Reject msg_interviewer_only"
proof -
  let ?r = "fst (addUser ''u2'' ''t2'' 0 ''Bob'' Candidate ''s2''
             (new_room ''aaa-aaa'' Interview no_options ''y'' 0))"
  let ?sock = "\<lparr>sock_id = ''s2'', sock_roomCode = Some ''aaa-aaa'', sock_clientIp = None\<rparr> :: socket_ctx"
  let ?u = "snd (addUser ''u2'' ''t2'' 0 ''Bob'' Candidate ''s2''
             (new_room ''aaa-aaa'' Interview no_options ''y'' 0))"
  have "sock_roomCode ?sock = Some ''aaa-aaa''" and "''aaa-aaa'' \<noteq> []"
    and "(\<lambda>c :: string. Some ?r) ''aaa-aaa'' = Some ?r"
    by simp_all
  moreover have "member_of ?sock ?r = Some ?u"
    by (simp add: member_of_def addUser_def new_room_def Let_def)
  moreover have "mode ?r = Interview" "role ?u = Candidate"
    by (simp_all add: addUser_def new_room_def Let_def)
  ultimately show ?thesis
    using interview_restrictions [of ?sock "''aaa-aaa''" "\<lambda>c. Some ?r" ?r ?u] by blast
qed

end
