(* ===== verification/Room_Handler.thy ===== *)
theory Room_Handler
  imports Session Reliability_Store
begin

text \<open>
  Joining, reconnecting and leaving a room: \<^verbatim>\<open>handlers/roomHandlerCore.ts\<close> and
  \<^verbatim>\<open>handlers/roomDisconnectHandler.ts\<close> of \<^verbatim>\<open>apps/server/src\<close>. A
  handler is cut at each \<^verbatim>\<open>await\<close>: a segment returns the room, what it emits and
  the continuation that waits, if any. Other events run between the segments.
\<close>

section \<open>The join payload\<close>

record user_join_payload =
  uj_name :: string
  uj_token :: "string option"

definition userJoinSchema :: "js_unknown \<Rightarrow> user_join_payload option" where
  "userJoinSchema v =
     (if \<not> is_object v then None
      else case field ''displayName'' v of
        Some (JStr s) \<Rightarrow>
          (let name = trim s in
           if 1 \<le> length name \<and> length name \<le> 30 then
             (case field ''reconnectToken'' v of
                None \<Rightarrow> Some \<lparr>uj_name = name, uj_token = None\<rparr>
              | Some (JStr t) \<Rightarrow> Some \<lparr>uj_name = name, uj_token = Some t\<rparr>
              | _ \<Rightarrow> None)
           else None)
      | _ \<Rightarrow> None)"

definition RECONNECT_TOKEN_PATTERN :: "string \<Rightarrow> bool" where
  "RECONNECT_TOKEN_PATTERN t \<longleftrightarrow> length t = 32 \<and> list_all lower_hex t"

definition JOIN_ATTEMPT_WINDOW_MS :: int where
  "JOIN_ATTEMPT_WINDOW_MS = 60 * 60 * 1000"

section \<open>Joining\<close>

datatype join_k =
    AwaitJoinLimit user_join_payload
  | AwaitHydration "room_user_internal option"

definition getSocketRoomCode :: "socket_ctx \<Rightarrow> string" where
  "getSocketRoomCode sock =
     normalizeRoomCode (case sock_roomCode sock of None \<Rightarrow> [] | Some c \<Rightarrow> c)"

definition emitJoinRejected :: "socket_ctx \<Rightarrow> string \<Rightarrow> nat option \<Rightarrow> eff list" where
  "emitJoinRejected sock reason retry =
     [ToSocket (sock_id sock) (EventRejected (event_name USER_JOIN) reason retry)]"

definition determineRole :: "room \<Rightarrow> UserRole" where
  "determineRole r =
     (if mode r \<noteq> Interview then Peer
      else if length (users r) = 0 then Interviewer else Candidate)"

definition emitPresenceBroadcast :: "socket_ctx \<Rightarrow> room \<Rightarrow> room_user_internal \<Rightarrow> eff list" where
  "emitPresenceBroadcast sock r u =
     [ToOthers (sock_id sock) (roomCode r)
        (UserJoined \<lparr>uj_userId = userId u, uj_displayName = displayName u, uj_role = role u,
                     uj_mode = mode r, uj_reconnectToken = [], uj_yjsToken = []\<rparr>)]"

text \<open>
  \<^verbatim>\<open>emitJoinedPayload\<close> up to the query for the active problem, if there is one, and the
  rest once it is answered; \<open>presence\<close> is the user whose arrival is announced afterwards.
\<close>

definition emitJoinedPayload ::
  "socket_ctx \<Rightarrow> room \<Rightarrow> room_user_internal \<Rightarrow> room_user_internal option \<Rightarrow> eff list \<times> join_k option" where
  "emitJoinedPayload sock r u presence =
     (let sent =
        [SocketJoin (sock_id sock) (roomCode r),
         ToSocket (sock_id sock)
           (UserJoined \<lparr>uj_userId = userId u, uj_displayName = displayName u, uj_role = role u,
              uj_mode = mode r, uj_reconnectToken = reconnectToken u, uj_yjsToken = yjsToken r\<rparr>),
         ToSocket (sock_id sock) (RoomSync (toSyncPayload r))]
      in if \<not> truthy_text (problemId r) then
           (sent @ (case presence of None \<Rightarrow> [] | Some v \<Rightarrow> emitPresenceBroadcast sock r v), None)
         else (sent, Some (AwaitHydration presence)))"

definition loadedPayload :: "problem_detail \<Rightarrow> problem_loaded_payload" where
  "loadedPayload d =
     \<lparr>pl_problem = d, pl_visibleTestCases = pd_visibleTestCases d,
      pl_boilerplate = (case pd_boilerplate d of None \<Rightarrow> [] | Some b \<Rightarrow> bp_template b),
      pl_parameterNames = (case pd_boilerplate d of None \<Rightarrow> [] | Some b \<Rightarrow> bp_parameterNames b)\<rparr>"

definition emitRoomHydration ::
  "socket_ctx \<Rightarrow> room \<Rightarrow> room_user_internal option \<Rightarrow> problem_detail option awaited \<Rightarrow> eff list" where
  "emitRoomHydration sock r presence answer =
     (case answer of
        Inr (Some detail) \<Rightarrow> [ToSocket (sock_id sock) (ProblemLoaded (loadedPayload detail))]
      | _ \<Rightarrow> [])
     @ (case presence of None \<Rightarrow> [] | Some v \<Rightarrow> emitPresenceBroadcast sock r v)"

definition msg_too_many_joins :: "nat \<Rightarrow> string" where
  "msg_too_many_joins s = ''Too many join attempts. Try again in '' @ string_of_nat s @ ''s.''"

definition handleUserJoin ::
  "socket_ctx \<Rightarrow> (string \<Rightarrow> room option) \<Rightarrow> js_unknown \<Rightarrow> eff list \<times> join_k option" where
  "handleUserJoin sock lookup rawPayload =
     (case validatePayloadOrReject userJoinSchema rawPayload (Some ''Invalid join payload.'')
             (\<lambda>msg. emitJoinRejected sock msg None) of
        Inl effs \<Rightarrow> (effs, None)
      | Inr payload \<Rightarrow>
          (case lookup (getSocketRoomCode sock) of
             None \<Rightarrow> (emitJoinRejected sock ''Room not found.'' None, None)
           | Some r \<Rightarrow>
               (case findBySocketId (sock_id sock) r of
                  Some existing \<Rightarrow> emitJoinedPayload sock r existing None
                | None \<Rightarrow> ([], Some (AwaitJoinLimit payload)))))"

definition tryReconnectUser ::
  "string \<Rightarrow> int \<Rightarrow> socket_ctx \<Rightarrow> string \<Rightarrow> room \<Rightarrow> (room \<times> room_user_internal \<times> nat list) option" where
  "tryReconnectUser newToken now sock token r =
     (if \<not> RECONNECT_TOKEN_PATTERN token then None
      else case findByReconnectToken token r of
        None \<Rightarrow> None
      | Some existing \<Rightarrow> reconnectUser newToken now (userId existing) (sock_id sock) r)"

text \<open>
  The rest of \<^verbatim>\<open>handleUserJoin\<close> after the rate limiter answered; \<open>uid\<close> and
  \<open>newToken\<close> are the random id and token the room draws when it needs them.
\<close>

definition admitNewUser ::
  "string \<Rightarrow> string \<Rightarrow> int \<Rightarrow> socket_ctx \<Rightarrow> user_join_payload \<Rightarrow> room \<Rightarrow> room \<times> nat list \<times> eff list \<times> join_k option" where
  "admitNewUser uid newToken now sock payload r =
     (if isFull r then
        (r, [], [ToSocket (sock_id sock) RoomFull, SocketDisconnect (sock_id sock)], None)
      else
        (let (r', user) = addUser uid newToken now (uj_name payload) (determineRole r) (sock_id sock) r;
             (effs, k) = emitJoinedPayload sock r' user (Some user)
         in (r', [], effs, k)))"

definition joinRateChecked ::
  "string \<Rightarrow> string \<Rightarrow> int \<Rightarrow> socket_ctx \<Rightarrow> rate_limit_check_result \<Rightarrow> user_join_payload \<Rightarrow> room \<Rightarrow>
   room \<times> nat list \<times> eff list \<times> join_k option" where
  "joinRateChecked uid newToken now sock joinCheck payload r =
     (if \<not> allowed joinCheck then
        (r, [], emitJoinRejected sock (msg_too_many_joins (retryAfter joinCheck))
                  (Some (retryAfter joinCheck)), None)
      else if truthy_text (uj_token payload) then
        (case tryReconnectUser newToken now sock (the (uj_token payload)) r of
           Some (r', user, cleared) \<Rightarrow>
             (let (effs, k) = emitJoinedPayload sock r' user (Some user) in (r', cleared, effs, k))
         | None \<Rightarrow> admitNewUser uid newToken now sock payload r)
      else admitNewUser uid newToken now sock payload r)"

section \<open>Leaving\<close>

definition handleDisconnect ::
  "socket_ctx \<Rightarrow> (string \<Rightarrow> room option) \<Rightarrow> nat \<Rightarrow> (room \<times> string \<times> eff list) option" where
  "handleDisconnect sock lookup timer =
     (case sock_roomCode sock of
        None \<Rightarrow> None
      | Some code \<Rightarrow>
          if code = [] then None
          else case lookup code of
            None \<Rightarrow> None
          | Some r \<Rightarrow>
              (case findBySocketId (sock_id sock) r of
                 None \<Rightarrow> None
               | Some user \<Rightarrow>
                   (let leave = (\<lambda>u. u\<lparr>connected := False, socketId := None\<rparr>);
                        r1 = r\<lparr>users := update_first
                               (\<lambda>u. socketId u = Some (sock_id sock) \<and> connected u) leave (users r)\<rparr>
                    in Some (startGracePeriod (userId user) timer r1, userId user,
                             [ToOthers (sock_id sock) (roomCode r) (UserLeft (userId user))]))))"

datatype expiry = Kept room | Removed room "eff list" | DestroysRoom room string

text \<open>
  The timer callback: it forgets the timer, then \<^verbatim>\<open>removeDisconnectedUser\<close>.
  \<open>DestroysRoom r code\<close> stands for the call \<^verbatim>\<open>roomLookup.destroyRoom(code)\<close>.
\<close>

definition removeDisconnectedUser :: "string \<Rightarrow> string \<Rightarrow> room \<Rightarrow> expiry" where
  "removeDisconnectedUser newYjsToken uid r =
     (case findUser uid r of
        None \<Rightarrow> Kept r
      | Some expired \<Rightarrow>
          if connected expired \<or> socketId expired \<noteq> None then Kept r
          else
            (let r1 = removeUser uid r in
             if 0 < length (users r1) then
               (let r2 = rotateYjsToken newYjsToken r1
                in Removed r2 [ToRoom (roomCode r2) (YjsTokenRotated (yjsToken r2))])
             else DestroysRoom r1 (roomCode r1)))"

definition graceExpired :: "string \<Rightarrow> string \<Rightarrow> room \<Rightarrow> expiry" where
  "graceExpired newYjsToken uid r = removeDisconnectedUser newYjsToken uid (gracePeriodFired uid r)"

section \<open>Lemmas\<close>

lemma determineRole_ok:
  assumes "roles_ok r"
  shows "roles_ok (fst (addUser uid token now name (determineRole r) sid r))"
  using assms by (cases "mode r")
    (auto simp: roles_ok_def addUser_def determineRole_def is_interviewer_def Let_def)

lemma roles_ok_iff_roles:
  "roles_ok r \<longleftrightarrow>
   (case mode r of
      Collaboration \<Rightarrow> set (map role (users r)) \<subseteq> {Peer}
    | Interview \<Rightarrow> Peer \<notin> set (map role (users r))
                    \<and> length (filter (\<lambda>x. x = Interviewer) (map role (users r))) \<le> 1)"
proof -
  have "is_interviewer = (\<lambda>u. role u = Interviewer)" by (simp add: fun_eq_iff is_interviewer_def)
  then show ?thesis
    by (auto simp: roles_ok_def filter_map comp_def image_iff split: RoomMode.split)
qed

lemma roles_ok_map_role:
  "map role (users r') = map role (users r) \<Longrightarrow> mode r' = mode r \<Longrightarrow> roles_ok r' = roles_ok r"
  by (simp only: roles_ok_iff_roles)

lemma tryReconnectUser_cases:
  assumes "tryReconnectUser newToken now sock token r = Some (r', u, cleared)"
  obtains v where "RECONNECT_TOKEN_PATTERN token" "findByReconnectToken token r = Some v"
    "reconnectUser newToken now (userId v) (sock_id sock) r = Some (r', u, cleared)"
  using assms by (auto simp: tryReconnectUser_def split: if_splits option.splits)

lemma removeUser_roles [wf_intros]:
  assumes "roles_ok r"
  shows "roles_ok (removeUser uid r)"
proof -
  have "length (filter P (filter Q us)) \<le> length (filter P us)" for P Q and us :: "room_user_internal list"
    by (induction us) auto
  then have "length (filter is_interviewer (filter (\<lambda>u. userId u \<noteq> uid) (users r))) \<le> 1"
    if "length (filter is_interviewer (users r)) \<le> 1"
    using that by (meson le_trans)
  with assms show ?thesis by (auto simp: roles_ok_def removeUser_def split: RoomMode.splits)
qed

section \<open>Reconnect tokens\<close>

definition tokens_ok :: "room \<Rightarrow> bool" where
  "tokens_ok r \<longleftrightarrow> (\<forall>u \<in> set (users r). RECONNECT_TOKEN_PATTERN (reconnectToken u))"

text \<open>On well-formed tokens the constant-time comparison of the decoded bytes is equality.\<close>

lemma tokenMatches_eq:
  "RECONNECT_TOKEN_PATTERN a \<Longrightarrow> RECONNECT_TOKEN_PATTERN b \<Longrightarrow> tokenMatches a b \<longleftrightarrow> a = b"
  by (simp add: tokenMatches_def RECONNECT_TOKEN_PATTERN_def hexDecode_inj)

lemma find_cong_list:
  "(\<And>x. x \<in> set xs \<Longrightarrow> P x = Q x) \<Longrightarrow> List.find P xs = List.find Q xs"
  by (induction xs) auto

lemma findByReconnectToken_eq:
  assumes "tokens_ok r" and "RECONNECT_TOKEN_PATTERN t"
  shows "findByReconnectToken t r = List.find (\<lambda>u. \<not> connected u \<and> reconnectToken u = t) (users r)"
  unfolding findByReconnectToken_def
  by (rule find_cong_list) (use assms in \<open>auto simp: tokens_ok_def tokenMatches_eq\<close>)

lemma reconnectUser_users:
  assumes "room_wf r" and "reconnectUser tok now uid sid r = Some (r', u, cleared)"
  shows "users r' = map (\<lambda>v. if userId v = uid
      then v\<lparr>connected := True, socketId := Some sid, reconnectToken := tok\<rparr> else v) (users r)"
proof -
  let ?upd = "\<lambda>u. u\<lparr>connected := True, socketId := Some sid, reconnectToken := tok\<rparr>"
  obtain u0 where "findUser uid r = Some u0"
    using assms(2) by (auto simp: reconnectUser_def split: option.splits)
  with assms(2) have "users r' = update_first (\<lambda>u. userId u = uid) ?upd (users r)"
    by (auto simp: reconnectUser_def Let_def cancelGracePeriod_def split: option.splits)
  also have "\<dots> = map (\<lambda>v. if userId v = uid then ?upd v else v) (users r)"
    using room_wfD(1) [OF assms(1)] by (intro update_first_distinct_key) auto
  finally show ?thesis .
qed

lemma reconnectUser_tokens:
  assumes "room_wf r" and "tokens_ok r" and "RECONNECT_TOKEN_PATTERN tok"
    and "reconnectUser tok now uid sid r = Some (r', u, cleared)"
  shows "tokens_ok r'"
  using assms(2,3) reconnectUser_users [OF assms(1,4)] by (auto simp: tokens_ok_def)

lemma tryReconnectUser_eq:
  assumes "room_wf r" and "tokens_ok r"
  shows "tryReconnectUser newToken now sock t r =
    (if RECONNECT_TOKEN_PATTERN t then
       (case List.find (\<lambda>u. \<not> connected u \<and> reconnectToken u = t) (users r) of
          None \<Rightarrow> None
        | Some v \<Rightarrow> reconnectUser newToken now (userId v) (sock_id sock) r)
     else None)"
  using findByReconnectToken_eq [OF assms(2)] by (simp add: tryReconnectUser_def)

lemma reconnectUser_defined: "room_wf r \<Longrightarrow> v \<in> set (users r) \<Longrightarrow>
  \<exists>r' u cleared. reconnectUser tok now (userId v) sid r = Some (r', u, cleared)"
  by (auto simp: reconnectUser_def findUser_mem Let_def split: prod.split)

lemma emitJoinedPayload_cases:
  obtains k effs where "emitJoinedPayload sock r u p = (effs, k)"
  by (cases "emitJoinedPayload sock r u p")

text \<open>The three ways an admitted request can go.\<close>

definition may_reconnect :: "user_join_payload \<Rightarrow> room \<Rightarrow> bool" where
  "may_reconnect payload r \<longleftrightarrow>
     (\<exists>u \<in> set (users r). \<not> connected u \<and> uj_token payload = Some (reconnectToken u))"

lemma joinRateChecked_reconnects:
  assumes "room_wf r" and "tokens_ok r" and "allowed chk" and "may_reconnect payload r"
    and "joinRateChecked uid tok now sock chk payload r = (r', cleared, effs, k)"
  shows "\<exists>v u. v \<in> set (users r) \<and> \<not> connected v \<and> uj_token payload = Some (reconnectToken v)
     \<and> reconnectUser tok now (userId v) (sock_id sock) r = Some (r', u, cleared)"
proof -
  obtain u0 where u0: "u0 \<in> set (users r)" "\<not> connected u0" "uj_token payload = Some (reconnectToken u0)"
    using assms(4) by (auto simp: may_reconnect_def)
  have pat: "RECONNECT_TOKEN_PATTERN (reconnectToken u0)"
    using assms(2) u0(1) by (simp add: tokens_ok_def)
  then have ne: "reconnectToken u0 \<noteq> []" by (auto simp: RECONNECT_TOKEN_PATTERN_def)
  obtain v where f: "List.find (\<lambda>u. \<not> connected u \<and> reconnectToken u = reconnectToken u0) (users r) = Some v"
    using u0 by (cases "List.find (\<lambda>u. \<not> connected u \<and> reconnectToken u = reconnectToken u0) (users r)")
      (auto simp: find_None_mem)
  then have v: "v \<in> set (users r)" "\<not> connected v" "reconnectToken v = reconnectToken u0"
    by (auto dest: find_Some_mem)
  from reconnectUser_defined [OF assms(1) v(1)] obtain r1 u1 c1
    where rec: "reconnectUser tok now (userId v) (sock_id sock) r = Some (r1, u1, c1)" by blast
  then have "tryReconnectUser tok now sock (reconnectToken u0) r = Some (r1, u1, c1)"
    using pat f by (simp add: tryReconnectUser_eq [OF assms(1,2)])
  with assms(3,5) u0(3) ne have "r' = r1" "cleared = c1"
    by (auto simp: joinRateChecked_def Let_def split: prod.splits)
  with rec v u0(3) show ?thesis by auto
qed

lemma joinRateChecked_new:
  assumes "room_wf r" and "tokens_ok r" and "allowed chk" and "\<not> may_reconnect payload r"
  shows "joinRateChecked uid tok now sock chk payload r = admitNewUser uid tok now sock payload r"
proof -
  have "tryReconnectUser tok now sock t r = None" if "uj_token payload = Some t" for t
  proof -
    have "List.find (\<lambda>u. \<not> connected u \<and> reconnectToken u = t) (users r) = None"
      using assms(4) that by (auto simp: find_None_mem may_reconnect_def)
    then show ?thesis by (simp add: tryReconnectUser_eq [OF assms(1,2)])
  qed
  with assms(3) show ?thesis by (cases "uj_token payload") (auto simp: joinRateChecked_def)
qed

section \<open>Properties\<close>

text \<open>
  C4: What a join that reaches the room can do, completely: refused by the rate limit it changes
  nothing; with the token of a disconnected member it takes over exactly that member's slot,
  keeping ids, names and roles, under a fresh token; in a full room it changes nothing; otherwise it
  appends one connected user whose role the mode determines. The room invariant, the role
  invariant and the shape of the tokens survive.
\<close>

theorem join_outcome:
  assumes wf: "room_wf r" and roles: "roles_ok r" and toks: "tokens_ok r"
    and fresh: "uid \<notin> userId ` set (users r)" and tok: "RECONNECT_TOKEN_PATTERN tok"
    and res: "joinRateChecked uid tok now sock chk payload r = (r', cleared, effs, k)"
  shows "room_wf r' \<and> roles_ok r' \<and> tokens_ok r' \<and>
    (if \<not> allowed chk \<or> (\<not> may_reconnect payload r \<and> isFull r) then r' = r
     else if may_reconnect payload r then
       \<exists>v \<in> set (users r). \<not> connected v \<and> uj_token payload = Some (reconnectToken v) \<and>
         users r' = map (\<lambda>u. if userId u = userId v
            then u\<lparr>connected := True, socketId := Some (sock_id sock), reconnectToken := tok\<rparr>
            else u) (users r)
     else users r' = users r @
       [\<lparr>userId = uid, displayName = uj_name payload,
         role = (if mode r \<noteq> Interview then Peer else if users r = [] then Interviewer else Candidate),
         connected = True, reconnectToken = tok, socketId = Some (sock_id sock)\<rparr>])"
proof (cases "allowed chk")
  case False
  with res have "r' = r" by (simp add: joinRateChecked_def)
  with False wf roles toks show ?thesis by simp
next
  case True
  show ?thesis
  proof (cases "may_reconnect payload r")
    case rec: True
    from joinRateChecked_reconnects [OF wf toks True rec res] obtain v u
      where v: "v \<in> set (users r)" "\<not> connected v" "uj_token payload = Some (reconnectToken v)"
        and r': "reconnectUser tok now (userId v) (sock_id sock) r = Some (r', u, cleared)" by blast
    have "roles_ok r'" using roles_ok_map_role reconnectUser_result(5,7) [OF r'] roles by blast
    with True rec v reconnectUser_wf [OF wf r'] reconnectUser_tokens [OF wf toks tok r']
      reconnectUser_users [OF wf r'] show ?thesis by auto
  next
    case new: False
    with res have a: "admitNewUser uid tok now sock payload r = (r', cleared, effs, k)"
      using joinRateChecked_new [OF wf toks True new] by simp
    show ?thesis
    proof (cases "isFull r")
      case full: True
      with a have "r' = r" by (simp add: admitNewUser_def)
      with full new wf roles toks show ?thesis by simp
    next
      case False
      with a have r': "r' = fst (addUser uid tok now (uj_name payload) (determineRole r) (sock_id sock) r)"
        by (auto simp: admitNewUser_def Let_def split: prod.splits)
      have "tokens_ok r'" using toks tok by (auto simp: r' addUser_def tokens_ok_def Let_def)
      with False new True addUser_wf [OF wf False fresh] determineRole_ok [OF roles] show ?thesis
        by (auto simp: r' addUser_def determineRole_def Let_def)
    qed
  qed
qed

definition sample_token :: "char \<Rightarrow> string" where
  "sample_token c = replicate 32 c"

lemma sample_token_ok [simp]:
  "lower_hex c \<Longrightarrow> RECONNECT_TOKEN_PATTERN (sample_token c)"
  by (simp add: sample_token_def RECONNECT_TOKEN_PATTERN_def list_all_iff)

definition sample_sock :: "string \<Rightarrow> socket_ctx" where
  "sample_sock sid = \<lparr>sock_id = sid, sock_roomCode = Some ''aaa-aaa'', sock_clientIp = Some ''::1''\<rparr>"

definition sample_room :: room where
  "sample_room = new_room ''aaa-aaa'' Interview no_options ''y'' 0"

lemma sample_room_ok [simp]: "room_wf sample_room" "roles_ok sample_room" "tokens_ok sample_room"
  "users sample_room = []" "mode sample_room = Interview"
  by (simp_all add: sample_room_def new_room_wf new_room_roles) (simp_all add: new_room_def tokens_ok_def)

theorem join_outcome_witness:
  "let r' = fst (joinRateChecked ''u1'' (sample_token CHR ''a'') 5 (sample_sock ''s1'')
       \<lparr>allowed = True, retryAfter = 0\<rparr> \<lparr>uj_name = ''Ada'', uj_token = None\<rparr> sample_room) in
   map role (users r') = [Interviewer] \<and> room_wf r' \<and> roles_ok r' \<and> tokens_ok r'"
proof -
  let ?chk = "\<lparr>allowed = True, retryAfter = 0\<rparr>" and ?p = "\<lparr>uj_name = ''Ada'', uj_token = None\<rparr>"
  obtain r' c e k where res: "joinRateChecked ''u1'' (sample_token CHR ''a'') 5 (sample_sock ''s1'') ?chk ?p sample_room
      = (r', c, e, k)" by (metis prod_cases4)
  have "lower_hex CHR ''a''" by code_simp
  then have "RECONNECT_TOKEN_PATTERN (sample_token CHR ''a'')" by simp
  from join_outcome [OF _ _ _ _ this res]
  show ?thesis by (simp add: res may_reconnect_def isFull_def MAX_USERS_def)
qed

text \<open>
  A reconnect token works once: after it brought its owner back, replaying it reconnects
  nobody (the replay is handled like a newcomer), while every other member's token keeps working
  and the tokens stay distinct.
\<close>

theorem reconnect_token_single_use:
  assumes wf: "room_wf r" and toks: "tokens_ok r" and dist: "distinct (map reconnectToken (users r))"
    and tok: "RECONNECT_TOKEN_PATTERN tok" and fresh: "tok \<notin> reconnectToken ` set (users r)"
    and ok: "allowed chk" and rec: "may_reconnect payload r"
    and res: "joinRateChecked uid tok now sock chk payload r = (r', cleared, effs, k)"
  shows "\<not> may_reconnect payload r' \<and> distinct (map reconnectToken (users r'))
    \<and> (\<forall>u \<in> set (users r). uj_token payload \<noteq> Some (reconnectToken u) \<longrightarrow> u \<in> set (users r'))
    \<and> (allowed chk' \<longrightarrow> joinRateChecked uid' tok' now' sock' chk' payload r' = admitNewUser uid' tok' now' sock' payload r')"
proof -
  from joinRateChecked_reconnects [OF wf toks ok rec res] obtain v u
    where v: "v \<in> set (users r)" "uj_token payload = Some (reconnectToken v)"
      and r': "reconnectUser tok now (userId v) (sock_id sock) r = Some (r', u, cleared)" by blast
  note us = reconnectUser_users [OF wf r']
  have ids: "userId a = userId v \<longleftrightarrow> a = v" if "a \<in> set (users r)" for a
    using room_wfD(1) [OF wf] v(1) that by (auto simp: distinct_map dest: inj_onD)
  have tks: "reconnectToken a = reconnectToken v \<longleftrightarrow> a = v" if "a \<in> set (users r)" for a
    using dist v(1) that by (auto simp: distinct_map dest: inj_onD)
  have "reconnectToken a \<noteq> reconnectToken v" if "a \<in> set (users r')" for a
    using that fresh v(1) ids tks by (auto simp: us split: if_splits)
  then have no: "\<not> may_reconnect payload r'"
    using v(2) unfolding may_reconnect_def by (metis option.inject)
  have "map reconnectToken (users r') = map (\<lambda>a. if a = v then tok else reconnectToken a) (users r)"
    using ids by (auto simp: us)
  moreover have "inj_on (\<lambda>a. if a = v then tok else reconnectToken a) (set (users r))"
  proof (rule inj_onI)
    fix a b assume a: "a \<in> set (users r)" and b: "b \<in> set (users r)"
      and eq: "(if a = v then tok else reconnectToken a) = (if b = v then tok else reconnectToken b)"
    from fresh a b have "reconnectToken a \<noteq> tok" "reconnectToken b \<noteq> tok" by auto
    moreover have "reconnectToken a = reconnectToken b \<longrightarrow> a = b"
      using dist a b by (auto simp: distinct_map dest: inj_onD)
    ultimately show "a = b" using eq by (metis (full_types))
  qed
  moreover have "distinct (users r)" using dist by (simp add: distinct_map)
  ultimately have "distinct (map reconnectToken (users r'))"
    using distinct_map by metis
  moreover have "u \<in> set (users r')" if "u \<in> set (users r)" "uj_token payload \<noteq> Some (reconnectToken u)" for u
    using that v(2) ids by (force simp: us)
  ultimately show ?thesis
    using no joinRateChecked_new [OF reconnectUser_wf [OF wf r'] reconnectUser_tokens [OF wf toks tok r'] _ no]
    by blast
qed

theorem reconnect_token_single_use_witness:
  "let u = \<lparr>userId = ''u1'', displayName = ''Ada'', role = Interviewer, connected = False,
        reconnectToken = sample_token CHR ''a'', socketId = None\<rparr>;
       p = \<lparr>uj_name = ''Ada'', uj_token = Some (sample_token CHR ''a'')\<rparr>;
       r' = fst (joinRateChecked ''u2'' (sample_token CHR ''b'') 5 (sample_sock ''s2'')
              \<lparr>allowed = True, retryAfter = 0\<rparr> p (sample_room\<lparr>users := [u]\<rparr>)) in
   \<not> may_reconnect p r' \<and> distinct (map reconnectToken (users r'))"
proof -
  let ?u = "\<lparr>userId = ''u1'', displayName = ''Ada'', role = Interviewer, connected = False,
        reconnectToken = sample_token CHR ''a'', socketId = None\<rparr>"
  let ?p = "\<lparr>uj_name = ''Ada'', uj_token = Some (sample_token CHR ''a'')\<rparr>"
  let ?r = "sample_room\<lparr>users := [?u]\<rparr>"
  let ?chk = "\<lparr>allowed = True, retryAfter = 0\<rparr>"
  obtain r' c e k where res: "joinRateChecked ''u2'' (sample_token CHR ''b'') 5 (sample_sock ''s2'') ?chk ?p ?r
      = (r', c, e, k)" by (metis prod_cases4)
  have "lower_hex CHR ''a''" "lower_hex CHR ''b''" by code_simp+
  then have t: "RECONNECT_TOKEN_PATTERN (sample_token CHR ''a'')"
    "RECONNECT_TOKEN_PATTERN (sample_token CHR ''b'')" by simp_all
  have "room_wf ?r" by (simp add: room_wf_def user_ok_def sample_room_def new_room_def MAX_USERS_def)
  moreover have "tokens_ok ?r" using t by (simp add: tokens_ok_def)
  moreover have "may_reconnect ?p ?r" by (simp add: may_reconnect_def)
  ultimately show ?thesis
    using reconnect_token_single_use [OF _ _ _ t(2) _ _ _ res]
    by (simp add: res) (simp add: sample_token_def)
qed

lemma handleDisconnect_result:
  assumes "handleDisconnect sock lookup timer = Some (r', uid, effs)"
  obtains r user where "lookup (the (sock_roomCode sock)) = Some r"
    "findBySocketId (sock_id sock) r = Some user" "uid = userId user"
    "r' = startGracePeriod uid timer (r\<lparr>users := update_first
        (\<lambda>u. socketId u = Some (sock_id sock) \<and> connected u)
        (\<lambda>u. u\<lparr>connected := False, socketId := None\<rparr>) (users r)\<rparr>)"
    "effs = [ToOthers (sock_id sock) (roomCode r) (UserLeft uid)]"
  using assms by (auto simp: handleDisconnect_def Let_def split: option.splits if_splits)

lemma update_first_find:
  "List.find P xs = Some x \<Longrightarrow> distinct (map k xs) \<Longrightarrow>
   update_first P f xs = map (\<lambda>y. if k y = k x then f y else y) xs"
proof (induction xs)
  case Nil
  then show ?case by simp
next
  case (Cons y ys)
  show ?case
  proof (cases "P y")
    case True
    with Cons.prems have "y = x" and "k x \<notin> k ` set ys" by auto
    then have "map (\<lambda>z. if k z = k x then f z else z) ys = ys" by (intro map_idI) (auto simp: image_iff)
    with True \<open>y = x\<close> show ?thesis by simp
  next
    case False
    with Cons.prems have x: "List.find P ys = Some x" by simp
    then have "x \<in> set ys" by (auto dest: find_Some_mem)
    with Cons.prems(2) have "k y \<noteq> k x" by (auto simp: image_iff)
    with False Cons.IH [OF x] Cons.prems(2) show ?thesis by simp
  qed
qed

lemma handleDisconnect_users:
  assumes wf: "room_wf r" and u: "findBySocketId sid r = Some user"
  shows "update_first (\<lambda>u. socketId u = Some sid \<and> connected u)
        (\<lambda>u. u\<lparr>connected := False, socketId := None\<rparr>) (users r)
    = map (\<lambda>v. if userId v = userId user then v\<lparr>connected := False, socketId := None\<rparr> else v) (users r)"
  using u room_wfD(1) [OF wf] unfolding findBySocketId_def by (rule update_first_find)

lemma handleDisconnect_wf [wf_intros]:
  assumes wf: "room_wf r" and u: "findBySocketId sid r = Some user"
  shows "room_wf (startGracePeriod (userId user) timer (r\<lparr>users := update_first
        (\<lambda>u. socketId u = Some sid \<and> connected u)
        (\<lambda>u. u\<lparr>connected := False, socketId := None\<rparr>) (users r)\<rparr>))"
    (is "room_wf (startGracePeriod _ _ ?r)")
proof -
  let ?out = "\<lambda>v. v\<lparr>connected := False, socketId := None\<rparr>"
  let ?us = "map (\<lambda>v. if userId v = userId user then ?out v else v) (users r)"
  have us: "users ?r = ?us" using handleDisconnect_users [OF assms] by simp
  have ids: "map userId ?us = map userId (users r)" by simp
  have mem: "user \<in> set (users r)" using findBySocketId_Some [OF u] by simp
  have "\<exists>v \<in> set ?us. userId v = k \<and> \<not> connected v"
    if k: "k \<in> fst ` set (gracePeriodTimers r)" for k
  proof -
    from room_wfD(5) [OF wf k] obtain v where "v \<in> set (users r)" "userId v = k" "\<not> connected v" by blast
    then show ?thesis by (intro bexI [of _ "if userId v = userId user then ?out v else v"]) auto
  qed
  then have r: "room_wf ?r"
    using room_wfD(1-4) [OF wf] unfolding room_wf_def us ids
    by (auto simp: user_ok_def)
  have out: "?out user \<in> set (users ?r)" using mem unfolding us by force
  show ?thesis by (rule startGracePeriod_wf [OF r out]) simp_all
qed

lemma filter_map_other:
  "filter (\<lambda>u. userId u \<noteq> uid)
     (map (\<lambda>v. if userId v = uid then v\<lparr>connected := False, socketId := None\<rparr> else v) us)
   = filter (\<lambda>u. userId u \<noteq> uid) us"
  by (induction us) auto

text \<open>
  C26: Leaving keeps the slot for the grace period: after a disconnect the member is still listed,
  now without a socket, and holds a grace timer; the other members are untouched. When the timer
  fires with the member still away, exactly that member is removed: if others remain, the Yjs
  token is rotated and announced to them, and otherwise the room is destroyed.
\<close>

theorem disconnect_then_grace_expiry:
  assumes wf: "room_wf r" and code: "sock_roomCode sock = Some code" and look: "lookup code = Some r"
    and d: "handleDisconnect sock lookup timer = Some (r', uid, effs)"
  shows "room_wf r' \<and> occupiedUserCount r' = occupiedUserCount r
    \<and> map_of (gracePeriodTimers r') uid = Some timer
    \<and> effs = [ToOthers (sock_id sock) (roomCode r) (UserLeft uid)]
    \<and> filter (\<lambda>u. userId u \<noteq> uid) (users r') = filter (\<lambda>u. userId u \<noteq> uid) (users r)
    \<and> (case graceExpired newTok uid r' of
         Kept _ \<Rightarrow> False
       | Removed r2 effs2 \<Rightarrow> users r2 = filter (\<lambda>u. userId u \<noteq> uid) (users r) \<and> users r2 \<noteq> []
           \<and> yjsToken r2 = newTok \<and> effs2 = [ToRoom (roomCode r) (YjsTokenRotated newTok)] \<and> room_wf r2
       | DestroysRoom r2 c \<Rightarrow> c = roomCode r \<and> users r2 = [] \<and> filter (\<lambda>u. userId u \<noteq> uid) (users r) = [])"
proof -
  obtain user where u: "findBySocketId (sock_id sock) r = Some user" and uid: "uid = userId user"
    and r': "r' = startGracePeriod uid timer (r\<lparr>users := update_first
        (\<lambda>u. socketId u = Some (sock_id sock) \<and> connected u)
        (\<lambda>u. u\<lparr>connected := False, socketId := None\<rparr>) (users r)\<rparr>)"
    and effs: "effs = [ToOthers (sock_id sock) (roomCode r) (UserLeft uid)]"
    using d look code by (elim handleDisconnect_result) auto
  let ?out = "\<lambda>v. v\<lparr>connected := False, socketId := None\<rparr>"
  have us: "users r' = map (\<lambda>v. if userId v = uid then ?out v else v) (users r)"
    using handleDisconnect_users [OF wf u] by (simp add: r' uid startGracePeriod_def)
  have wf': "room_wf r'" using handleDisconnect_wf [OF wf u] by (simp add: r' uid)
  have others: "filter (\<lambda>u. userId u \<noteq> uid) (users r') = filter (\<lambda>u. userId u \<noteq> uid) (users r)"
    unfolding us by (rule filter_map_other)
  have timer: "map_of (gracePeriodTimers r') uid = Some timer"
    by (simp add: r' startGracePeriod_def map_of_AList_update)
  let ?g = "gracePeriodFired uid r'"
  have mem: "?out user \<in> set (users ?g)"
    using findBySocketId_Some [OF u] by (force simp: us uid gracePeriodFired_def)
  have f: "findUser uid ?g = Some (?out user)"
    using findUser_mem [OF gracePeriodFired_wf [OF wf'] mem] by (simp add: uid)
  have rest: "users (removeUser uid ?g) = filter (\<lambda>u. userId u \<noteq> uid) (users r)"
    using others by (simp add: removeUser_def gracePeriodFired_def)
  have rc: "roomCode (removeUser uid ?g) = roomCode r"
    by (simp add: r' startGracePeriod_def removeUser_def gracePeriodFired_def)
  have wf2: "room_wf (rotateYjsToken newTok (removeUser uid ?g))"
    by (rule rotateYjsToken_wf [OF removeUser_wf [OF gracePeriodFired_wf [OF wf']]])
  have "case graceExpired newTok uid r' of
         Kept _ \<Rightarrow> False
       | Removed r2 effs2 \<Rightarrow> users r2 = filter (\<lambda>u. userId u \<noteq> uid) (users r) \<and> users r2 \<noteq> []
           \<and> yjsToken r2 = newTok \<and> effs2 = [ToRoom (roomCode r) (YjsTokenRotated newTok)] \<and> room_wf r2
       | DestroysRoom r2 c \<Rightarrow> c = roomCode r \<and> users r2 = [] \<and> filter (\<lambda>u. userId u \<noteq> uid) (users r) = []"
  proof (cases "filter (\<lambda>u. userId u \<noteq> uid) (users r) = []")
    case True
    then have "graceExpired newTok uid r' = DestroysRoom (removeUser uid ?g) (roomCode (removeUser uid ?g))"
      by (simp only: graceExpired_def removeDisconnectedUser_def f option.case Let_def rest) simp
    with True rest rc show ?thesis by (simp only: expiry.case)
  next
    case False
    let ?r2 = "rotateYjsToken newTok (removeUser uid ?g)"
    from False have "graceExpired newTok uid r' = Removed ?r2 [ToRoom (roomCode ?r2) (YjsTokenRotated (yjsToken ?r2))]"
      by (simp only: graceExpired_def removeDisconnectedUser_def f option.case Let_def rest) simp
    moreover have "users ?r2 = users (removeUser uid ?g)" "yjsToken ?r2 = newTok"
      "roomCode ?r2 = roomCode (removeUser uid ?g)"
      by (simp_all add: rotateYjsToken_def)
    ultimately show ?thesis using False rest rc wf2 by (simp only: expiry.case) simp
  qed
  moreover have "occupiedUserCount r' = occupiedUserCount r" by (simp add: us occupiedUserCount_def)
  ultimately show ?thesis using wf' timer effs others by blast
qed

theorem disconnect_then_grace_expiry_witness:
  "let r = fst (addUser ''u1'' (sample_token CHR ''a'') 1 ''Ada'' Interviewer ''s1'' sample_room) in
   case handleDisconnect (sample_sock ''s1'') (\<lambda>c. Some r) 4 of
     None \<Rightarrow> False
   | Some (r', uid, effs) \<Rightarrow> occupiedUserCount r' = 1 \<and> map_of (gracePeriodTimers r') uid = Some 4"
proof -
  let ?r = "fst (addUser ''u1'' (sample_token CHR ''a'') 1 ''Ada'' Interviewer ''s1'' sample_room)"
  have wf: "room_wf ?r" by (intro addUser_wf) (simp_all add: isFull_def MAX_USERS_def)
  have us: "users ?r = [\<lparr>userId = ''u1'', displayName = ''Ada'', role = Interviewer, connected = True,
        reconnectToken = sample_token CHR ''a'', socketId = Some ''s1''\<rparr>]"
    by (simp add: addUser_def Let_def)
  obtain r' uid effs where d: "handleDisconnect (sample_sock ''s1'') (\<lambda>c. Some ?r) 4 = Some (r', uid, effs)"
    by (simp add: handleDisconnect_def sample_sock_def findBySocketId_def us)
  have "sock_roomCode (sample_sock ''s1'') = Some ''aaa-aaa''" by (simp add: sample_sock_def)
  note p = disconnect_then_grace_expiry [OF wf this refl d]
  have "occupiedUserCount ?r = 1" unfolding occupiedUserCount_def us by simp
  with conjunct1 [OF conjunct2 [OF p]] have "occupiedUserCount r' = 1" by metis
  moreover from conjunct1 [OF conjunct2 [OF conjunct2 [OF p]]]
  have "map_of (gracePeriodTimers r') uid = Some 4" .
  ultimately show ?thesis unfolding Let_def d option.case prod.case by blast
qed

end
