(* ===== verification/Marker_Lines.thy ===== *)
theory Marker_Lines
  imports Prelude
begin

text \<open>
  The marker-line search of \<^verbatim>\<open>apps/server/src/services/ExecutionService.ts\<close> that
  finds the harness payload in the output of an execution, over the string methods it uses
  (\<^verbatim>\<open>indexOf\<close>, \<^verbatim>\<open>lastIndexOf\<close>, indexing). An index that
  JavaScript reports as \<^verbatim>\<open>-1\<close> is \<open>None\<close>.
\<close>

definition char_at :: "string \<Rightarrow> nat \<Rightarrow> char option" where
  "char_at s i = (if i < length s then Some (s ! i) else None)"

definition occurs_at :: "string \<Rightarrow> string \<Rightarrow> nat \<Rightarrow> bool" where
  "occurs_at m s i \<longleftrightarrow> i + length m \<le> length s \<and> take (length m) (drop i s) = m"

fun lastIndexOf :: "string \<Rightarrow> string \<Rightarrow> nat \<Rightarrow> nat option" where
  "lastIndexOf m s 0 = (if occurs_at m s 0 then Some 0 else None)"
| "lastIndexOf m s (Suc i) = (if occurs_at m s (Suc i) then Some (Suc i) else lastIndexOf m s i)"

function indexOf :: "string \<Rightarrow> string \<Rightarrow> nat \<Rightarrow> nat option" where
  "indexOf m s i =
     (if length s < i then None else if occurs_at m s i then Some i else indexOf m s (Suc i))"
  by pat_completeness auto
termination by (relation "measure (\<lambda>(m, s, i). Suc (length s) - i)") auto

declare indexOf.simps [simp del]

definition hasLineStart :: "string \<Rightarrow> nat \<Rightarrow> bool" where
  "hasLineStart s i \<longleftrightarrow> i = 0 \<or> char_at s (i - 1) = Some newline"

lemma lastIndexOf_Some:
  "lastIndexOf m s n = Some i \<Longrightarrow> i \<le> n \<and> occurs_at m s i \<and> (\<forall>j. i < j \<and> j \<le> n \<longrightarrow> \<not> occurs_at m s j)"
  by (induction n) (auto split: if_splits simp: le_Suc_eq)

lemma lastIndexOf_None: "lastIndexOf m s n = None \<longleftrightarrow> (\<forall>j \<le> n. \<not> occurs_at m s j)"
  by (induction n) (auto simp: le_Suc_eq)

lemma indexOf_Some:
  "indexOf m s k = Some i \<Longrightarrow> k \<le> i \<and> occurs_at m s i \<and> (\<forall>j. k \<le> j \<and> j < i \<longrightarrow> \<not> occurs_at m s j)"
proof (induction m s k rule: indexOf.induct)
  case (1 m s k)
  show ?case
  proof (cases "length s < k \<or> occurs_at m s k")
    case True
    with "1.prems" show ?thesis by (subst (asm) (1) indexOf.simps) (auto split: if_splits)
  next
    case False
    then have "indexOf m s (Suc k) = Some i" using "1.prems" by (simp add: indexOf.simps [of m s k])
    with "1.IH" False have "Suc k \<le> i \<and> occurs_at m s i \<and> (\<forall>j. Suc k \<le> j \<and> j < i \<longrightarrow> \<not> occurs_at m s j)"
      by blast
    with False show ?thesis by (metis Suc_leD le_antisym not_less_eq_eq)
  qed
qed

lemma occurs_at_le: "occurs_at m s i \<Longrightarrow> i \<le> length s"
  by (simp add: occurs_at_def)

lemma indexOf_None: "indexOf m s k = None \<longleftrightarrow> (\<forall>j. k \<le> j \<longrightarrow> \<not> occurs_at m s j)"
proof (induction m s k rule: indexOf.induct)
  case (1 m s k)
  show ?case
  proof (cases "length s < k \<or> occurs_at m s k")
    case True
    then show ?thesis
      by (auto simp: indexOf.simps [of m s k] dest: occurs_at_le)
  next
    case False
    with 1 have "indexOf m s (Suc k) = None \<longleftrightarrow> (\<forall>j. Suc k \<le> j \<longrightarrow> \<not> occurs_at m s j)" by blast
    with False show ?thesis
      by (simp add: indexOf.simps [of m s k]) (metis Suc_leD le_antisym not_less_eq_eq)
  qed
qed

section \<open>The two searches\<close>

function findLastFrom :: "string \<Rightarrow> string \<Rightarrow> nat \<Rightarrow> nat option" where
  "findLastFrom stdout marker searchFrom =
     (case lastIndexOf marker stdout searchFrom of
        None \<Rightarrow> None
      | Some markerIdx \<Rightarrow>
          if hasLineStart stdout markerIdx \<and> char_at stdout (markerIdx + length marker) = Some newline
          then Some markerIdx
          else if markerIdx = 0 then None
          else findLastFrom stdout marker (markerIdx - 1))"
  by pat_completeness auto
termination
  by (relation "measure (\<lambda>(s, m, n). n)") (auto dest: lastIndexOf_Some)

declare findLastFrom.simps [simp del]

definition findLastMarkerLine :: "string \<Rightarrow> string \<Rightarrow> nat option" where
  "findLastMarkerLine stdout marker = findLastFrom stdout marker (length stdout)"

function findNextMarkerLine :: "string \<Rightarrow> string \<Rightarrow> nat \<Rightarrow> nat option" where
  "findNextMarkerLine stdout marker searchFrom =
     (case indexOf marker stdout searchFrom of
        None \<Rightarrow> None
      | Some markerIdx \<Rightarrow>
          if hasLineStart stdout markerIdx
             \<and> (char_at stdout (markerIdx + length marker) = Some newline
                \<or> char_at stdout (markerIdx + length marker) = None)
          then Some markerIdx
          else if marker = [] then None
          else findNextMarkerLine stdout marker (markerIdx + length marker))"
  by pat_completeness auto
termination
  by (relation "measure (\<lambda>(s, m, n). Suc (length s) - n)")
    (auto dest!: indexOf_Some simp: occurs_at_def neq_Nil_conv)

declare findNextMarkerLine.simps [simp del]

section \<open>What they find\<close>

definition start_line :: "string \<Rightarrow> string \<Rightarrow> nat \<Rightarrow> bool" where
  "start_line m s i \<longleftrightarrow> occurs_at m s i \<and> hasLineStart s i \<and> char_at s (i + length m) = Some newline"

definition end_line :: "string \<Rightarrow> string \<Rightarrow> nat \<Rightarrow> bool" where
  "end_line m s i \<longleftrightarrow> occurs_at m s i \<and> hasLineStart s i
     \<and> (char_at s (i + length m) = Some newline \<or> char_at s (i + length m) = None)"

lemma findLastFrom_Some:
  "findLastFrom s m n = Some i \<Longrightarrow> i \<le> n \<and> start_line m s i \<and> (\<forall>j. i < j \<and> j \<le> n \<longrightarrow> \<not> start_line m s j)"
proof (induction s m n arbitrary: i rule: findLastFrom.induct)
  case (1 s m n)
  from "1.prems" obtain k where k: "lastIndexOf m s n = Some k"
    by (subst (asm) findLastFrom.simps) (auto split: option.splits)
  note last = lastIndexOf_Some [OF k]
  show ?case
  proof (cases "hasLineStart s k \<and> char_at s (k + length m) = Some newline")
    case True
    with "1.prems" k have "i = k" by (simp add: findLastFrom.simps [of s m n])
    with True last show ?thesis by (auto simp: start_line_def)
  next
    case False
    with "1.prems" k have r: "findLastFrom s m (k - 1) = Some i" and "k \<noteq> 0"
      by (auto simp: findLastFrom.simps [of s m n] split: if_splits)
    with "1.IH" [OF k] False have i: "i \<le> k - 1 \<and> start_line m s i \<and> (\<forall>j. i < j \<and> j \<le> k - 1 \<longrightarrow> \<not> start_line m s j)"
      by auto
    have "\<not> start_line m s j" if "i < j" "j \<le> n" for j
    proof (cases "j \<le> k - 1")
      case True
      with i that show ?thesis by blast
    next
      case False2: False
      then have "j = k \<or> k < j" using \<open>k \<noteq> 0\<close> by arith
      with False last that show ?thesis by (auto simp: start_line_def)
    qed
    with i last show ?thesis by auto
  qed
qed

lemma findLastFrom_None:
  "findLastFrom s m n = None \<Longrightarrow> \<forall>j \<le> n. \<not> start_line m s j"
proof (induction s m n rule: findLastFrom.induct)
  case (1 s m n)
  show ?case
  proof (cases "lastIndexOf m s n")
    case None
    then show ?thesis by (auto simp: lastIndexOf_None start_line_def)
  next
    case (Some k)
    note last = lastIndexOf_Some [OF Some]
    from "1.prems" Some have no: "\<not> (hasLineStart s k \<and> char_at s (k + length m) = Some newline)"
      by (auto simp: findLastFrom.simps [of s m n])
    have "\<not> start_line m s j" if "j \<le> n" for j
    proof (cases "k \<le> j")
      case True
      with no last that show ?thesis by (cases "j = k") (auto simp: start_line_def)
    next
      case False
      then have "k \<noteq> 0" "j \<le> k - 1" by auto
      moreover from this "1.prems" Some no have "findLastFrom s m (k - 1) = None"
        by (auto simp: findLastFrom.simps [of s m n])
      ultimately show ?thesis using "1.IH" [OF Some no] by blast
    qed
    then show ?thesis by blast
  qed
qed

lemma start_line_le: "start_line m s i \<Longrightarrow> i \<le> length s"
  by (auto simp: start_line_def dest: occurs_at_le)

lemma findLastMarkerLine_iff:
  "findLastMarkerLine s m = Some i \<longleftrightarrow> start_line m s i \<and> (\<forall>j > i. \<not> start_line m s j)"
proof
  assume "findLastMarkerLine s m = Some i"
  from findLastFrom_Some [OF this [unfolded findLastMarkerLine_def]]
  show "start_line m s i \<and> (\<forall>j > i. \<not> start_line m s j)" by (meson start_line_le)
next
  assume i: "start_line m s i \<and> (\<forall>j > i. \<not> start_line m s j)"
  show "findLastMarkerLine s m = Some i"
  proof (cases "findLastMarkerLine s m")
    case None
    from findLastFrom_None [OF this [unfolded findLastMarkerLine_def]] i show ?thesis
      by (meson start_line_le)
  next
    case (Some k)
    from findLastFrom_Some [OF this [unfolded findLastMarkerLine_def]] i have "k = i"
      by (meson linorder_neqE_nat start_line_le)
    with Some show ?thesis by simp
  qed
qed

lemma findLastMarkerLine_None: "findLastMarkerLine s m = None \<longleftrightarrow> (\<forall>i. \<not> start_line m s i)"
proof
  assume "findLastMarkerLine s m = None"
  from findLastFrom_None [OF this [unfolded findLastMarkerLine_def]]
  show "\<forall>i. \<not> start_line m s i" by (meson start_line_le)
next
  assume "\<forall>i. \<not> start_line m s i"
  then show "findLastMarkerLine s m = None"
    by (cases "findLastMarkerLine s m") (auto simp: findLastMarkerLine_iff)
qed

text \<open>
  Skipping a whole marker after an occurrence that is not a line misses nothing: a marker has no
  line break, so no line can start inside an occurrence.
\<close>

lemma occurs_at_nth: "occurs_at m s k \<Longrightarrow> t < length m \<Longrightarrow> s ! (k + t) = m ! t"
  unfolding occurs_at_def by (metis add_leD1 nth_drop nth_take)

lemma occurs_inside:
  assumes "occurs_at m s k" and "newline \<notin> set m" and "k < j" and "j < k + length m"
  shows "\<not> hasLineStart s j"
proof -
  have "s ! (k + (j - 1 - k)) = m ! (j - 1 - k)"
    using assms by (intro occurs_at_nth) auto
  then have "s ! (j - 1) = m ! (j - 1 - k)" using assms(3) by simp
  moreover have "j - 1 - k < length m" using assms by arith
  ultimately have "s ! (j - 1) \<noteq> newline" using assms(2) by (metis nth_mem)
  with assms show ?thesis by (auto simp: hasLineStart_def char_at_def)
qed

lemma findNextMarkerLine_None:
  "m \<noteq> [] \<Longrightarrow> newline \<notin> set m \<Longrightarrow> findNextMarkerLine s m n = None \<Longrightarrow>
   \<forall>j \<ge> n. \<not> end_line m s j"
proof (induction s m n rule: findNextMarkerLine.induct)
  case (1 s m n)
  show ?case
  proof (cases "indexOf m s n")
    case None
    then show ?thesis by (auto simp: indexOf_None end_line_def)
  next
    case (Some k)
    note first = indexOf_Some [OF Some]
    from "1.prems"(3) Some have no: "\<not> (hasLineStart s k \<and> (char_at s (k + length m) = Some newline
        \<or> char_at s (k + length m) = None))"
      by (auto simp: findNextMarkerLine.simps [of s m n] split: if_splits)
    then have "findNextMarkerLine s m (k + length m) = None"
      using "1.prems"(1,3) Some by (auto simp: findNextMarkerLine.simps [of s m n])
    with "1.IH" [OF Some no "1.prems"(1)] "1.prems"
    have rest: "\<forall>j \<ge> k + length m. \<not> end_line m s j" by blast
    show ?thesis
    proof (intro allI impI)
      fix j assume "n \<le> j"
      then consider "j < k" | "j = k" | "k < j" "j < k + length m" | "k + length m \<le> j" by linarith
      then show "\<not> end_line m s j"
      proof cases
        case 1
        with first \<open>n \<le> j\<close> show ?thesis by (auto simp: end_line_def)
      next
        case 2
        with no show ?thesis by (auto simp: end_line_def)
      next
        case 3
        with occurs_inside [of m s k j] first "1.prems"(2) show ?thesis by (auto simp: end_line_def)
      next
        case 4
        with rest show ?thesis by blast
      qed
    qed
  qed
qed

lemma findNextMarkerLine_Some:
  "newline \<notin> set m \<Longrightarrow> findNextMarkerLine s m n = Some i \<Longrightarrow>
   n \<le> i \<and> end_line m s i \<and> (\<forall>j. n \<le> j \<and> j < i \<longrightarrow> \<not> end_line m s j)"
proof (induction s m n arbitrary: i rule: findNextMarkerLine.induct)
  case (1 s m n)
  from "1.prems"(2) obtain k where k: "indexOf m s n = Some k"
    by (subst (asm) findNextMarkerLine.simps) (auto split: option.splits)
  note first = indexOf_Some [OF k]
  let ?line = "hasLineStart s k \<and> (char_at s (k + length m) = Some newline
        \<or> char_at s (k + length m) = None)"
  show ?case
  proof (cases ?line)
    case True
    with "1.prems"(2) k have "i = k" by (simp add: findNextMarkerLine.simps [of s m n])
    with True first show ?thesis by (auto simp: end_line_def)
  next
    case False
    with "1.prems"(2) k have ne: "m \<noteq> []" and r: "findNextMarkerLine s m (k + length m) = Some i"
      by (auto simp: findNextMarkerLine.simps [of s m n] split: if_splits)
    with "1.IH" [OF k False ne "1.prems"(1)]
    have i: "k + length m \<le> i" "end_line m s i" "\<forall>j. k + length m \<le> j \<and> j < i \<longrightarrow> \<not> end_line m s j"
      by auto
    have "\<not> end_line m s j" if "n \<le> j" "j < i" for j
    proof -
      consider "j < k" | "j = k" | "k < j" "j < k + length m" | "k + length m \<le> j" by linarith
      then show ?thesis
      proof cases
        case 1
        with first that show ?thesis by (auto simp: end_line_def)
      next
        case 2
        with False show ?thesis by (auto simp: end_line_def)
      next
        case 3
        with occurs_inside [of m s k j] first "1.prems"(1) show ?thesis by (auto simp: end_line_def)
      next
        case 4
        with i(3) that show ?thesis by blast
      qed
    qed
    with first i show ?thesis by auto
  qed
qed

lemma findNextMarkerLine_iff:
  assumes "m \<noteq> []" and "newline \<notin> set m"
  shows "findNextMarkerLine s m n = Some i \<longleftrightarrow>
    n \<le> i \<and> end_line m s i \<and> (\<forall>j. n \<le> j \<and> j < i \<longrightarrow> \<not> end_line m s j)"
proof
  assume i: "n \<le> i \<and> end_line m s i \<and> (\<forall>j. n \<le> j \<and> j < i \<longrightarrow> \<not> end_line m s j)"
  show "findNextMarkerLine s m n = Some i"
  proof (cases "findNextMarkerLine s m n")
    case None
    from findNextMarkerLine_None [OF assms this] i show ?thesis by blast
  next
    case (Some k)
    from findNextMarkerLine_Some [OF assms(2) this] i have "k = i" by (meson linorder_neqE_nat)
    with Some show ?thesis by simp
  qed
qed (use findNextMarkerLine_Some [OF assms(2)] in blast)

section \<open>Texts made of lines\<close>

lemma occurs_at_append [simp]: "occurs_at m (x @ z) (length x + k) = occurs_at m z k"
  by (simp add: occurs_at_def)

lemma char_at_append [simp]: "char_at (x @ z) (length x + k) = char_at z k"
  by (simp add: char_at_def)

lemma hasLineStart_0 [simp]: "hasLineStart s 0"
  by (simp add: hasLineStart_def)

lemma hasLineStart_line:
  "newline \<notin> set b \<Longrightarrow> 0 < j \<Longrightarrow> j \<le> length b \<Longrightarrow> \<not> hasLineStart (b @ z) j"
  by (auto simp: hasLineStart_def char_at_def nth_append dest!: nth_mem split: if_splits)

lemma hasLineStart_next: "hasLineStart (b @ newline # y) (Suc (length b) + k) = hasLineStart y k"
proof (cases k)
  case 0
  then show ?thesis by (simp add: hasLineStart_def char_at_def)
next
  case (Suc n)
  have "char_at (b @ newline # y) (length b + Suc n) = char_at (newline # y) (Suc n)"
    by (rule char_at_append)
  then show ?thesis by (simp add: Suc hasLineStart_def char_at_def)
qed

lemma occurs_line_0:
  assumes "newline \<notin> set b" and "newline \<notin> set m"
  shows "occurs_at m (b @ newline # y) 0 \<and> char_at (b @ newline # y) (length m) = Some newline
    \<longleftrightarrow> m = b"
proof
  assume l: "occurs_at m (b @ newline # y) 0 \<and> char_at (b @ newline # y) (length m) = Some newline"
  then have t: "take (length m) (b @ newline # y) = m" by (simp add: occurs_at_def)
  have "\<not> length m < length b"
  proof
    assume lt: "length m < length b"
    with l have "b ! length m = newline" by (auto simp: char_at_def nth_append)
    with assms(1) lt show False by (metis nth_mem)
  qed
  moreover have "\<not> length b < length m"
  proof
    assume lt: "length b < length m"
    then have "newline \<in> set (take (length m) (b @ newline # y))"
      by (cases "length m - length b") auto
    with t assms(2) show False by simp
  qed
  ultimately have "length m = length b" by simp
  with t show "m = b" by simp
next
  assume "m = b"
  then show "occurs_at m (b @ newline # y) 0 \<and> char_at (b @ newline # y) (length m) = Some newline"
    by (simp add: occurs_at_def char_at_def)
qed

lemma append_line_index:
  "Suc (length b) + k + n = length (b @ [newline]) + (k + n)"
  by simp

lemma start_line_lines:
  assumes "newline \<notin> set b" and "newline \<notin> set m"
  shows "start_line m (b @ newline # y) j \<longleftrightarrow>
    (j = 0 \<and> m = b) \<or> (Suc (length b) \<le> j \<and> start_line m y (j - Suc (length b)))"
proof -
  consider "j = 0" | "0 < j" "j \<le> length b" | k where "j = Suc (length b) + k"
    by (metis le_add_diff_inverse neq0_conv not_less_eq_eq)
  then show ?thesis
  proof cases
    case 1
    with occurs_line_0 [OF assms] show ?thesis by (simp add: start_line_def)
  next
    case 2
    with hasLineStart_line [OF assms(1)] show ?thesis by (simp add: start_line_def)
  next
    case 3
    have s: "b @ newline # y = (b @ [newline]) @ y" by simp
    have "occurs_at m (b @ newline # y) j = occurs_at m y k"
      unfolding s 3 using occurs_at_append [of m "b @ [newline]" y k] by simp
    moreover have "char_at (b @ newline # y) (j + length m) = char_at y (k + length m)"
      unfolding s 3 append_line_index by (rule char_at_append)
    ultimately show ?thesis using 3 hasLineStart_next [of b y k] by (simp add: start_line_def)
  qed
qed

lemma end_line_lines:
  assumes "newline \<notin> set b" and "newline \<notin> set m"
  shows "end_line m (b @ newline # y) j \<longleftrightarrow>
    (j = 0 \<and> m = b) \<or> (Suc (length b) \<le> j \<and> end_line m y (j - Suc (length b)))"
proof -
  have inside: "char_at (b @ newline # y) (length m) \<noteq> None" if "occurs_at m (b @ newline # y) 0"
  proof
    assume "char_at (b @ newline # y) (length m) = None"
    then have "length (b @ newline # y) \<le> length m" by (auto simp: char_at_def split: if_splits)
    moreover have "take (length m) (b @ newline # y) = m" using that by (simp add: occurs_at_def)
    ultimately have "m = b @ newline # y" by simp
    with assms(2) show False by simp
  qed
  consider "j = 0" | "0 < j" "j \<le> length b" | k where "j = Suc (length b) + k"
    by (metis le_add_diff_inverse neq0_conv not_less_eq_eq)
  then show ?thesis
  proof cases
    case 1
    with occurs_line_0 [OF assms, of y] inside show ?thesis by (auto simp: end_line_def)
  next
    case 2
    with hasLineStart_line [OF assms(1)] show ?thesis by (simp add: end_line_def)
  next
    case 3
    have s: "b @ newline # y = (b @ [newline]) @ y" by simp
    have "occurs_at m (b @ newline # y) j = occurs_at m y k"
      unfolding s 3 using occurs_at_append [of m "b @ [newline]" y k] by simp
    moreover have "char_at (b @ newline # y) (j + length m) = char_at y (k + length m)"
      unfolding s 3 append_line_index by (rule char_at_append)
    ultimately show ?thesis using 3 hasLineStart_next [of b y k] by (simp add: end_line_def)
  qed
qed

lemma start_line_Nil [simp]: "start_line m [] j = False"
  by (simp add: start_line_def char_at_def)

lemma end_line_Nil: "m \<noteq> [] \<Longrightarrow> \<not> end_line m [] j"
  by (simp add: end_line_def occurs_at_def)

end
