(* ===== verification/Execution_Service.thy ===== *)
theory Execution_Service
  imports Marker_Lines Shared_Types "HOL-Library.Multiset"
begin

text \<open>
  Reading and grading the output of an execution:
  \<^verbatim>\<open>apps/server/src/services/ExecutionService.ts\<close> and the payload schema of
  \<^verbatim>\<open>packages/shared/src/validation.ts\<close>. \<^verbatim>\<open>JSON.parse\<close> and
  \<^verbatim>\<open>JSON.stringify\<close> are parameters (\<open>parse\<close>, \<open>stringify\<close>).
\<close>

section \<open>Tagged payloads\<close>

datatype parse_failure = MissingMarkers | MalformedJson | PayloadTooLarge

definition parseTaggedJson ::
  "(string \<Rightarrow> json option) \<Rightarrow> string \<Rightarrow> string \<Rightarrow> string \<Rightarrow> parse_failure + json" where
  "parseTaggedJson parse stdout startTag endTag =
     (case findLastMarkerLine stdout startTag of
        None \<Rightarrow> Inl MissingMarkers
      | Some startIdx \<Rightarrow>
          (let startMarkerEnd = startIdx + length startTag in
           case findNextMarkerLine stdout endTag startMarkerEnd of
             None \<Rightarrow> Inl MissingMarkers
           | Some endIdx \<Rightarrow>
               (let jsonStr = trim (take (endIdx - (startMarkerEnd + 1)) (drop (startMarkerEnd + 1) stdout)) in
                if HARNESS_PAYLOAD_CHARS < length jsonStr then Inl PayloadTooLarge
                else case parse jsonStr of None \<Rightarrow> Inl MalformedJson | Some v \<Rightarrow> Inr v)))"

definition start_tag :: "string \<Rightarrow> string \<Rightarrow> string" where
  "start_tag kind nonce = ''===HARNESS_'' @ kind @ ''_'' @ nonce @ ''===''"

definition end_tag :: "string \<Rightarrow> string \<Rightarrow> string" where
  "end_tag kind nonce = ''===END_HARNESS_'' @ kind @ ''_'' @ nonce @ ''===''"

definition parseResult :: "(string \<Rightarrow> json option) \<Rightarrow> string \<Rightarrow> string \<Rightarrow> parse_failure + json" where
  "parseResult parse stdout nonce =
     parseTaggedJson parse stdout (start_tag ''RESULT'' nonce) (end_tag ''RESULT'' nonce)"

text \<open>
  \<^verbatim>\<open>data.error\<close> of the unvalidated payload: reading a property of
  \<^verbatim>\<open>null\<close> throws, other values without that property give
  \<^verbatim>\<open>undefined\<close>.
\<close>

fun error_property :: "json \<Rightarrow> js_unknown option" where
  "error_property JNull = None"
| "error_property (JObj kvs) = Some (map_of kvs ''error'')"
| "error_property _ = Some None"

datatype module_error = NoModuleError | ModuleError ExecutionErrorType js_unknown | NullPayload

definition parseHarnessModuleError :: "(string \<Rightarrow> json option) \<Rightarrow> string \<Rightarrow> string \<Rightarrow> module_error" where
  "parseHarnessModuleError parse stdout nonce =
     (case parseTaggedJson parse stdout (start_tag ''COMPILATION_ERROR'' nonce)
             (end_tag ''COMPILATION_ERROR'' nonce) of
        Inr data \<Rightarrow>
          (case error_property data of None \<Rightarrow> NullPayload | Some e \<Rightarrow> ModuleError COMPILATION_ERROR e)
      | Inl _ \<Rightarrow>
          (case parseTaggedJson parse stdout (start_tag ''RUNTIME_ERROR'' nonce)
                  (end_tag ''RUNTIME_ERROR'' nonce) of
             Inr data \<Rightarrow>
               (case error_property data of None \<Rightarrow> NullPayload | Some e \<Rightarrow> ModuleError RUNTIME_ERROR e)
           | Inl _ \<Rightarrow> NoModuleError))"

section \<open>The payload schema\<close>

datatype harness_case =
    OkCase int "rat option" json "string option"
  | UnserializableCase int "rat option" string
  | ErrorCase int "rat option" string "bool option"

fun hc_index :: "harness_case \<Rightarrow> int" where
  "hc_index (OkCase i _ _ _) = i"
| "hc_index (UnserializableCase i _ _) = i"
| "hc_index (ErrorCase i _ _ _) = i"

record parsed_harness_result =
  ph_results :: "harness_case list"
  ph_userStdout :: string
  ph_truncated :: "bool option"

text \<open>
  \<^verbatim>\<open>z.number()\<close> accepts the finite numbers, \<^verbatim>\<open>z.number().int()\<close>
  the safe integers among them.
\<close>

definition z_int :: "js_unknown \<Rightarrow> int option" where
  "z_int v =
     (case v of
        Some (JNum x) \<Rightarrow>
          (case number_val x of
             None \<Rightarrow> None
           | Some q \<Rightarrow> if snd (quotient_of q) = 1 \<and> \<bar>fst (quotient_of q)\<bar> \<le> 9007199254740991
                       then Some (fst (quotient_of q)) else None)
      | _ \<Rightarrow> None)"

definition z_optional :: "(json \<Rightarrow> 'a option) \<Rightarrow> js_unknown \<Rightarrow> 'a option option" where
  "z_optional f v =
     (case v of None \<Rightarrow> Some None | Some j \<Rightarrow> (case f j of None \<Rightarrow> None | Some a \<Rightarrow> Some (Some a)))"

fun z_number :: "json \<Rightarrow> rat option" where
  "z_number (JNum x) = number_val x"
| "z_number _ = None"

fun z_string :: "json \<Rightarrow> string option" where
  "z_string (JStr s) = Some s"
| "z_string _ = None"

fun z_boolean :: "json \<Rightarrow> bool option" where
  "z_boolean (JBool b) = Some b"
| "z_boolean _ = None"

fun jsonValueSchema :: "json \<Rightarrow> bool" where
  "jsonValueSchema (JNum x) = (number_val x \<noteq> None)"
| "jsonValueSchema (JArr vs) = list_all jsonValueSchema vs"
| "jsonValueSchema (JObj kvs) = list_all (\<lambda>kv. jsonValueSchema (snd kv)) kvs"
| "jsonValueSchema _ = True"

definition harnessOkCaseSchema :: "(string \<times> json) list \<Rightarrow> harness_case option" where
  "harnessOkCaseSchema kvs =
     (case (z_int (map_of kvs ''index''), z_optional z_number (map_of kvs ''elapsed_ms''),
            map_of kvs ''got_json'') of
        (Some i, Some el, Some g) \<Rightarrow>
          if \<not> jsonValueSchema g then None
          else (case map_of kvs ''got_repr'' of
                  None \<Rightarrow> Some (OkCase i el g None)
                | Some JNull \<Rightarrow> Some (OkCase i el g None)
                | Some (JStr s) \<Rightarrow> Some (OkCase i el g (Some s))
                | _ \<Rightarrow> None)
      | _ \<Rightarrow> None)"

definition harnessUnserializableCaseSchema :: "(string \<times> json) list \<Rightarrow> harness_case option" where
  "harnessUnserializableCaseSchema kvs =
     (case (z_int (map_of kvs ''index''), z_optional z_number (map_of kvs ''elapsed_ms''),
            map_of kvs ''got_repr'') of
        (Some i, Some el, Some (JStr s)) \<Rightarrow> Some (UnserializableCase i el s)
      | _ \<Rightarrow> None)"

definition harnessErrorCaseSchema :: "(string \<times> json) list \<Rightarrow> harness_case option" where
  "harnessErrorCaseSchema kvs =
     (case (z_int (map_of kvs ''index''), z_optional z_number (map_of kvs ''elapsed_ms''),
            map_of kvs ''error'', z_optional z_boolean (map_of kvs ''error_truncated'')) of
        (Some i, Some el, Some (JStr s), Some t) \<Rightarrow> Some (ErrorCase i el s t)
      | _ \<Rightarrow> None)"

fun harnessCaseSchema :: "json \<Rightarrow> harness_case option" where
  "harnessCaseSchema (JObj kvs) =
     (case map_of kvs ''status'' of
        Some (JStr st) \<Rightarrow>
          (if st = ''ok'' then harnessOkCaseSchema kvs
           else if st = ''unserializable'' then harnessUnserializableCaseSchema kvs
           else if st = ''error'' then harnessErrorCaseSchema kvs
           else None)
      | _ \<Rightarrow> None)"
| "harnessCaseSchema _ = None"

fun z_array :: "('a \<Rightarrow> 'b option) \<Rightarrow> 'a list \<Rightarrow> 'b list option" where
  "z_array f [] = Some []"
| "z_array f (x # xs) =
     (case (f x, z_array f xs) of (Some y, Some ys) \<Rightarrow> Some (y # ys) | _ \<Rightarrow> None)"

fun metadataSchema :: "js_unknown \<Rightarrow> bool option option" where
  "metadataSchema None = Some None"
| "metadataSchema (Some (JObj kvs)) = z_optional z_boolean (map_of kvs ''userStdoutTruncated'')"
| "metadataSchema _ = None"

fun harnessResultSchema :: "json \<Rightarrow> parsed_harness_result option" where
  "harnessResultSchema (JObj kvs) =
     (case (map_of kvs ''results'', map_of kvs ''userStdout'', metadataSchema (map_of kvs ''metadata'')) of
        (Some (JArr rs), Some (JStr out), Some tr) \<Rightarrow>
          (case z_array harnessCaseSchema rs of
             None \<Rightarrow> None
           | Some cs \<Rightarrow> Some \<lparr>ph_results = cs, ph_userStdout = out, ph_truncated = tr\<rparr>)
      | _ \<Rightarrow> None)"
| "harnessResultSchema _ = None"

section \<open>Grading\<close>

record graded_case =
  gr_index :: int
  gr_passed :: bool
  gr_elapsed :: "rat option"
  gr_got :: "string option"
  gr_expected :: "string option"
  gr_error :: "string option"
  gr_truncated :: "bool option"

definition formatHarnessValue :: "(json \<Rightarrow> string) \<Rightarrow> js_unknown \<Rightarrow> string" where
  "formatHarnessValue stringify v =
     (case v of None \<Rightarrow> ''undefined'' | Some j \<Rightarrow> stringify j)"

fun indexes_distinct :: "harness_case list \<Rightarrow> nat \<Rightarrow> int list \<Rightarrow> int list option" where
  "indexes_distinct [] n seen = Some seen"
| "indexes_distinct (r # rs) n seen =
     (if hc_index r < 0 \<or> int n \<le> hc_index r \<or> hc_index r \<in> set seen then None
      else indexes_distinct rs n (hc_index r # seen))"

definition hasExactCaseIndexes :: "harness_case list \<Rightarrow> nat \<Rightarrow> bool" where
  "hasExactCaseIndexes results testCaseCount =
     (if length results \<noteq> testCaseCount then False
      else case indexes_distinct results testCaseCount [] of
        None \<Rightarrow> False
      | Some seen \<Rightarrow> length seen = testCaseCount)"

definition expected_of :: "test_case list \<Rightarrow> harness_case \<Rightarrow> js_unknown" where
  "expected_of testCases r = tc_expectedOutput (testCases ! nat (hc_index r))"

fun grade_case :: "(json \<Rightarrow> string) \<Rightarrow> js_unknown \<Rightarrow> harness_case \<Rightarrow> graded_case" where
  "grade_case stringify expectedOutput (ErrorCase i el err tr) =
     \<lparr>gr_index = i, gr_passed = False, gr_elapsed = el, gr_got = None, gr_expected = None,
      gr_error = Some err, gr_truncated = tr\<rparr>"
| "grade_case stringify expectedOutput (UnserializableCase i el rep) =
     \<lparr>gr_index = i, gr_passed = False, gr_elapsed = el, gr_got = Some rep,
      gr_expected = Some (formatHarnessValue stringify expectedOutput), gr_error = None,
      gr_truncated = None\<rparr>"
| "grade_case stringify expectedOutput (OkCase i el g rep) =
     (let passed = (case expectedOutput of None \<Rightarrow> False | Some e \<Rightarrow> isDeepStrictEqual g e)
      in \<lparr>gr_index = i, gr_passed = passed, gr_elapsed = el,
          gr_got = (if passed then None else Some (formatHarnessValue stringify (Some g))),
          gr_expected = (if passed then None else Some (formatHarnessValue stringify expectedOutput)),
          gr_error = None, gr_truncated = None\<rparr>)"

definition gradeHarnessResults ::
  "(json \<Rightarrow> string) \<Rightarrow> harness_case list \<Rightarrow> test_case list \<Rightarrow> graded_case list option" where
  "gradeHarnessResults stringify parsedResults testCases =
     (if \<not> hasExactCaseIndexes parsedResults (length testCases) then None
      else Some (map (\<lambda>r. grade_case stringify (expected_of testCases r) r)
                     (sort_key hc_index parsedResults)))"

section \<open>Results\<close>

definition run_case ::
  "(json \<Rightarrow> string) \<Rightarrow> test_case list \<Rightarrow> graded_case \<Rightarrow> case_result" where
  "run_case stringify testCases r =
     (let elapsedMs = (case gr_elapsed r of None \<Rightarrow> 0 | Some e \<Rightarrow> e);
          has_error = truthy_text (gr_error r);
          failed = \<not> gr_passed r
      in \<lparr>cr_index = nat (gr_index r), cr_passed = gr_passed r, cr_elapsedMs = elapsedMs,
          cr_got = (if failed \<and> \<not> has_error then gr_got r else None),
          cr_expected = (if failed \<and> \<not> has_error then gr_expected r else None),
          cr_error = (if failed \<and> has_error then gr_error r else None),
          cr_isErrorTruncated = (failed \<and> has_error \<and> gr_truncated r = Some True),
          cr_input = (if failed then Some (stringify (JObj (tc_input (testCases ! nat (gr_index r))))) else None),
          cr_slow = (SLOW_CASE_THRESHOLD_MS < elapsedMs)\<rparr>)"

definition buildRunResult ::
  "(json \<Rightarrow> string) \<Rightarrow> harness_case list \<Rightarrow> string \<Rightarrow> test_case list \<Rightarrow> bool option \<Rightarrow> run_result option" where
  "buildRunResult stringify parsedResults userStdout testCases truncated =
     (case gradeHarnessResults stringify parsedResults testCases of
        None \<Rightarrow> None
      | Some graded \<Rightarrow>
          (let cases = map (run_case stringify testCases) graded
           in Some \<lparr>rr_passed = length (filter cr_passed cases), rr_total = length cases,
                    rr_cases = cases, rr_userStdout = userStdout,
                    rr_hasTruncatedUserStdout = (truncated = Some True)\<rparr>))"

definition msg_hidden_got :: string where
  "msg_hidden_got = ''Output did not match a hidden test case.''"
definition msg_hidden_expected :: string where
  "msg_hidden_expected = ''Hidden test case expectation.''"

definition failure_report :: "(json \<Rightarrow> string) \<Rightarrow> test_case list \<Rightarrow> graded_case \<Rightarrow> first_failure" where
  "failure_report stringify allTestCases firstFailed =
     (let tc = allTestCases ! nat (gr_index firstFailed);
          hiddenFailure = (\<not> tc_isVisible tc)
      in \<lparr>ff_index = nat (gr_index firstFailed),
          ff_input = (if hiddenFailure then [] else stringify (JObj (tc_input tc))),
          ff_got = (if hiddenFailure then msg_hidden_got
                    else case gr_got firstFailed of
                      Some g \<Rightarrow> g
                    | None \<Rightarrow> (case gr_error firstFailed of Some e \<Rightarrow> e | None \<Rightarrow> [])),
          ff_expected = (if hiddenFailure then msg_hidden_expected
                         else case gr_expected firstFailed of Some e \<Rightarrow> e | None \<Rightarrow> []),
          ff_isErrorTruncated = (\<not> hiddenFailure \<and> gr_truncated firstFailed = Some True)\<rparr>)"

definition buildSubmitResult ::
  "(json \<Rightarrow> string) \<Rightarrow> harness_case list \<Rightarrow> test_case list \<Rightarrow> submit_result option" where
  "buildSubmitResult stringify parsedResults allTestCases =
     (case gradeHarnessResults stringify parsedResults allTestCases of
        None \<Rightarrow> None
      | Some graded \<Rightarrow>
          Some \<lparr>sr_passed = length (filter gr_passed graded), sr_total = length graded,
                sr_firstFailure =
                  (case List.find (\<lambda>r. \<not> gr_passed r) graded of
                     None \<Rightarrow> None
                   | Some firstFailed \<Rightarrow> Some (failure_report stringify allTestCases firstFailed))\<rparr>)"

section \<open>Lemmas on tagged payloads\<close>

lemma newline_tags:
  "newline \<notin> set nonce \<Longrightarrow> newline \<notin> set kind \<Longrightarrow> newline \<notin> set (start_tag kind nonce)"
  "newline \<notin> set nonce \<Longrightarrow> newline \<notin> set kind \<Longrightarrow> newline \<notin> set (end_tag kind nonce)"
  by (simp_all add: start_tag_def end_tag_def newline_def)

lemma tags_differ: "start_tag kind nonce \<noteq> end_tag kind' nonce'"
  by (simp add: start_tag_def end_tag_def)

lemma tag_starts: "\<exists>t. start_tag kind nonce = CHR ''='' # t" "\<exists>t. end_tag kind nonce = CHR ''='' # t"
  by (simp_all add: start_tag_def end_tag_def)

text \<open>The block the harness prints, one line each: start tag, payload, end tag.\<close>

definition tagged_block :: "string \<Rightarrow> string \<Rightarrow> string \<Rightarrow> string" where
  "tagged_block startTag body endTag =
     startTag @ newline # body @ newline # endTag @ newline # []"

definition ends_line :: "string \<Rightarrow> bool" where
  "ends_line pre \<longleftrightarrow> pre = [] \<or> last pre = newline"

lemma start_line_after_prefix:
  assumes "ends_line pre" and "length pre \<le> j"
  shows "start_line m (pre @ z) j = start_line m z (j - length pre)"
proof (cases "pre = []")
  case False
  then obtain x where x: "pre = x @ [newline]"
    using assms(1) by (metis append_butlast_last_id ends_line_def)
  obtain k where j: "j = length pre + k" using assms(2) by (metis le_add_diff_inverse)
  have h: "hasLineStart (pre @ z) j = hasLineStart z k"
    using hasLineStart_next [of x z k] by (simp add: x j)
  have o: "occurs_at m (pre @ z) j = occurs_at m z k" unfolding j by simp
  have c: "char_at (pre @ z) (j + length m) = char_at z (k + length m)"
    unfolding j add.assoc by simp
  show ?thesis unfolding start_line_def h o c by (simp add: j)
qed simp

lemma parseTaggedJson_block:
  assumes pre: "ends_line pre" and nS: "newline \<notin> set S" and nE: "newline \<notin> set E"
    and nb: "newline \<notin> set body" and SE: "S \<noteq> E" and bS: "body \<noteq> S" and bE: "body \<noteq> E" and E: "E \<noteq> []"
  shows "parseTaggedJson parse (pre @ tagged_block S body E) S E =
    (let j = trim (body @ [newline]) in
     if HARNESS_PAYLOAD_CHARS < length j then Inl PayloadTooLarge
     else case parse j of None \<Rightarrow> Inl MalformedJson | Some v \<Rightarrow> Inr v)"
proof -
  let ?z = "tagged_block S body E" and ?s = "pre @ tagged_block S body E"
  have z: "start_line S ?z i \<longleftrightarrow> i = 0" for i
    unfolding tagged_block_def start_line_lines [OF nS nS] start_line_lines [OF nb nS]
      start_line_lines [OF nE nS] using bS SE by auto
  have "start_line S ?s (length pre)"
    using start_line_after_prefix [OF pre, of "length pre" S ?z] z by simp
  moreover have "\<forall>j > length pre. \<not> start_line S ?s j"
    using start_line_after_prefix [OF pre, of _ S ?z] z by simp
  ultimately have first: "findLastMarkerLine ?s S = Some (length pre)"
    by (simp add: findLastMarkerLine_iff)
  let ?a = "length pre + length S"
  let ?x = "pre @ S" and ?y = "body @ newline # E @ newline # []"
  have s: "?s = ?x @ newline # ?y" by (simp add: tagged_block_def)
  have y: "end_line E ?y i \<longleftrightarrow> i = Suc (length body)" for i
    unfolding end_line_lines [OF nb nE] end_line_lines [OF nE nE]
    using bE end_line_Nil [OF E] by auto
  have at_end: "end_line E ?s j \<longleftrightarrow> j = Suc ?a + Suc (length body)" if "?a \<le> j" for j
  proof (cases "j = ?a")
    case True
    have "\<not> occurs_at E ?s ?a"
    proof
      assume o: "occurs_at E ?s ?a"
      have "?s ! (?a + 0) = newline" unfolding s by (simp add: nth_append)
      with occurs_at_nth [OF o, of 0] E have "newline \<in> set E" by (metis length_greater_0_conv nth_mem)
      with nE show False by simp
    qed
    with True show ?thesis by (simp add: end_line_def)
  next
    case False
    with that obtain k where j: "j = Suc ?a + k" by (metis le_add_diff_inverse le_neq_implies_less less_eq_Suc_le)
    have x1: "?s = (?x @ [newline]) @ ?y" unfolding s by simp
    have l: "length (?x @ [newline]) = Suc ?a" by simp
    have "hasLineStart ?s j = hasLineStart ?y k"
      using hasLineStart_next [of ?x ?y k] unfolding s j by simp
    moreover have "occurs_at E ?s j = occurs_at E ?y k"
      unfolding x1 j l [symmetric] by (rule occurs_at_append)
    moreover have "char_at ?s (j + length E) = char_at ?y (k + length E)"
      unfolding x1 j l [symmetric] add.assoc by (rule char_at_append)
    ultimately have "end_line E ?s j = end_line E ?y k" by (simp add: end_line_def)
    then show ?thesis by (simp add: y j)
  qed
  have "findNextMarkerLine ?s E ?a = Some (Suc ?a + Suc (length body))"
    unfolding findNextMarkerLine_iff [OF E nE] using at_end by auto
  moreover have "take (Suc ?a + Suc (length body) - (?a + 1)) (drop (?a + 1) ?s) = body @ [newline]"
    unfolding s by simp
  ultimately show ?thesis
    by (simp add: parseTaggedJson_def first Let_def del: take_Suc drop_Suc)
qed

section \<open>Lemmas on grading\<close>

lemma indexes_distinct_iff:
  "indexes_distinct rs n seen \<noteq> None \<longleftrightarrow>
   distinct (map hc_index rs) \<and> (\<forall>r \<in> set rs. 0 \<le> hc_index r \<and> hc_index r < int n)
   \<and> set (map hc_index rs) \<inter> set seen = {}"
  by (induction rs n seen rule: indexes_distinct.induct) auto

lemma indexes_distinct_length:
  "indexes_distinct rs n seen = Some s \<Longrightarrow> length s = length rs + length seen"
  by (induction rs n seen rule: indexes_distinct.induct) (auto split: if_splits)

lemma hasExactCaseIndexes_iff:
  "hasExactCaseIndexes rs n \<longleftrightarrow> mset (map hc_index rs) = mset (map int [0..<n])"
proof
  assume h: "hasExactCaseIndexes rs n"
  then have len: "length rs = n" and i: "indexes_distinct rs n [] \<noteq> None"
    by (auto simp: hasExactCaseIndexes_def split: if_splits option.splits)
  from i have d: "distinct (map hc_index rs)"
    and b: "\<forall>r \<in> set rs. 0 \<le> hc_index r \<and> hc_index r < int n"
    unfolding indexes_distinct_iff by auto
  have r: "set (map hc_index rs) \<subseteq> set (map int [0..<n])"
  proof
    fix x assume "x \<in> set (map hc_index rs)"
    with b have "x = int (nat x)" "nat x < n" by auto
    then show "x \<in> set (map int [0..<n])" by (metis atLeastLessThan_iff imageI le0 set_map set_upt)
  qed
  moreover note d
  moreover have "card (set (map hc_index rs)) = n" using d len by (metis distinct_card length_map)
  moreover have "card (set (map int [0..<n])) = n"
    by (subst distinct_card) (simp_all add: distinct_map)
  ultimately have "set (map hc_index rs) = set (map int [0..<n])"
    by (intro card_subset_eq) simp_all
  with d show "mset (map hc_index rs) = mset (map int [0..<n])"
    by (subst set_eq_iff_mset_eq_distinct [symmetric]) (simp_all add: distinct_map)
next
  assume m: "mset (map hc_index rs) = mset (map int [0..<n])"
  then have "length rs = n" by (metis diff_zero length_map length_upt mset_eq_length)
  moreover have "distinct (map hc_index rs)"
    using mset_eq_imp_distinct_iff [OF m] by (simp add: distinct_map)
  moreover have "set (map hc_index rs) = set (map int [0..<n])" using m by (rule mset_eq_setD)
  then have "\<forall>r \<in> set rs. 0 \<le> hc_index r \<and> hc_index r < int n" by (auto simp: set_eq_iff) (force+)
  ultimately have "indexes_distinct rs n [] \<noteq> None" unfolding indexes_distinct_iff by simp
  then obtain s where "indexes_distinct rs n [] = Some s" by blast
  with \<open>length rs = n\<close> indexes_distinct_length [OF this] show "hasExactCaseIndexes rs n"
    by (simp add: hasExactCaseIndexes_def)
qed

lemma map_hc_index_sorted:
  assumes "mset (map hc_index rs) = mset (map int [0..<n])"
  shows "map hc_index (sort_key hc_index rs) = map int [0..<n]"
proof -
  have "mset (map hc_index (sort_key hc_index rs)) = mset (map int [0..<n])"
    using assms by (simp add: mset_map)
  moreover have "sorted (map hc_index (sort_key hc_index rs))" by simp
  moreover have "sorted (map int [0..<n])" by (simp add: sorted_iff_nth_mono)
  ultimately show ?thesis by (metis properties_for_sort sorted_sort_id)
qed

lemma grade_case_index [simp]: "gr_index (grade_case f e r) = hc_index r"
  by (cases r) (simp_all add: Let_def)

text \<open>What it means that a case passes.\<close>

definition case_passes :: "harness_case list \<Rightarrow> test_case list \<Rightarrow> nat \<Rightarrow> bool" where
  "case_passes rs tcs i \<longleftrightarrow>
     (\<exists>el g rep e. OkCase (int i) el g rep \<in> set rs \<and> tc_expectedOutput (tcs ! i) = Some e
        \<and> isDeepStrictEqual g e)"

lemma grade_case_passed:
  "gr_passed (grade_case f e r) \<longleftrightarrow> (\<exists>i el g rep x. r = OkCase i el g rep \<and> e = Some x \<and> isDeepStrictEqual g x)"
  by (cases r) (auto simp: Let_def split: option.split)

lemma gradeHarnessResults_Some:
  assumes g: "gradeHarnessResults f rs tcs = Some gs"
  shows "map gr_index gs = map int [0..<length tcs]"
    and "\<And>i. i < length tcs \<Longrightarrow> gr_passed (gs ! i) \<longleftrightarrow> case_passes rs tcs i"
proof -
  let ?n = "length tcs" and ?s = "sort_key hc_index rs"
  from g have m: "mset (map hc_index rs) = mset (map int [0..<?n])"
    and gs: "gs = map (\<lambda>r. grade_case f (expected_of tcs r) r) ?s"
    by (auto simp: gradeHarnessResults_def hasExactCaseIndexes_iff split: if_splits)
  note idx = map_hc_index_sorted [OF m]
  show "map gr_index gs = map int [0..<?n]" using idx by (simp add: gs comp_def)
  fix i assume i: "i < ?n"
  have len: "length ?s = ?n" using arg_cong [OF idx, of length] by simp
  have h: "hc_index (?s ! i) = int i" using arg_cong [OF idx, of "\<lambda>l. l ! i"] i len by simp
  have mem: "?s ! i \<in> set rs" using i len by (metis nth_mem set_sort)
  have d: "distinct (map hc_index rs)" using mset_eq_imp_distinct_iff [OF m] by (simp add: distinct_map)
  have uniq: "r = ?s ! i" if "r \<in> set rs" "hc_index r = int i" for r
    using d that h mem by (metis distinct_map inj_onD)
  have "gr_passed (gs ! i) \<longleftrightarrow> gr_passed (grade_case f (tc_expectedOutput (tcs ! i)) (?s ! i))"
    using i len h by (simp add: gs expected_of_def)
  also have "\<dots> \<longleftrightarrow> case_passes rs tcs i"
  proof
    assume "gr_passed (grade_case f (tc_expectedOutput (tcs ! i)) (?s ! i))"
    then obtain k el g rep x where o: "?s ! i = OkCase k el g rep"
      and x: "tc_expectedOutput (tcs ! i) = Some x" "isDeepStrictEqual g x"
      unfolding grade_case_passed by blast
    from o h have "k = int i" by simp
    with mem o x show "case_passes rs tcs i" unfolding case_passes_def by auto
  next
    assume "case_passes rs tcs i"
    then obtain el g rep x where o: "OkCase (int i) el g rep \<in> set rs"
      and x: "tc_expectedOutput (tcs ! i) = Some x" "isDeepStrictEqual g x"
      unfolding case_passes_def by blast
    from uniq [OF o] have "?s ! i = OkCase (int i) el g rep" by simp
    with x show "gr_passed (grade_case f (tc_expectedOutput (tcs ! i)) (?s ! i))"
      unfolding grade_case_passed by blast
  qed
  finally show "gr_passed (gs ! i) \<longleftrightarrow> case_passes rs tcs i" .
qed

lemma gradeHarnessResults_None:
  "gradeHarnessResults f rs tcs = None \<longleftrightarrow> mset (map hc_index rs) \<noteq> mset (map int [0..<length tcs])"
  by (simp add: gradeHarnessResults_def hasExactCaseIndexes_iff)

section \<open>Properties\<close>

text \<open>
  C18: The payload of an execution is found whatever the program printed before it: for every
  output that ends its last line before the harness block, forged marker lines with the right
  nonce included, the parser returns exactly the payload of the final block, or reports it as too
  large.
\<close>

theorem parseResult_finds_last_block:
  assumes "ends_line pre" and "newline \<notin> set nonce" and "newline \<notin> set body"
    and "body = CHR ''{'' # rest" and "parse (trim (body @ [newline])) = Some v"
  shows "parseResult parse (pre @ tagged_block (start_tag ''RESULT'' nonce) body (end_tag ''RESULT'' nonce)) nonce =
    (if HARNESS_PAYLOAD_CHARS < length (trim (body @ [newline])) then Inl PayloadTooLarge else Inr v)"
proof -
  have k: "newline \<notin> set ''RESULT''" by code_simp
  have b: "body \<noteq> start_tag ''RESULT'' nonce" "body \<noteq> end_tag ''RESULT'' nonce"
    by (simp_all add: assms(4) start_tag_def end_tag_def)
  have e: "end_tag ''RESULT'' nonce \<noteq> []" by (simp add: end_tag_def)
  show ?thesis
    unfolding parseResult_def
      parseTaggedJson_block [OF assms(1) newline_tags(1) [OF assms(2) k] newline_tags(2) [OF assms(2) k]
        assms(3) tags_differ b e]
    using assms(5) by (simp add: Let_def)
qed

theorem parseResult_finds_last_block_witness:
  "parseResult (\<lambda>s. if s = ''{}'' then Some (JObj []) else None)
     ((start_tag ''RESULT'' ''ab'' @ [newline] @ ''{1}'' @ [newline]) @
      tagged_block (start_tag ''RESULT'' ''ab'') ''{}'' (end_tag ''RESULT'' ''ab'')) ''ab'' = Inr (JObj [])"
proof -
  let ?pre = "start_tag ''RESULT'' ''ab'' @ [newline] @ ''{1}'' @ [newline]"
  let ?parse = "\<lambda>s. if s = ''{}'' then Some (JObj []) else None"
  have t: "trim (''{}'' @ [newline]) = ''{}''" by code_simp
  have "ends_line ?pre" by (simp add: ends_line_def)
  moreover have "newline \<notin> set ''ab''" "newline \<notin> set ''{}''" by code_simp+
  moreover have "?parse (trim (''{}'' @ [newline])) = Some (JObj [])" unfolding t by simp
  ultimately show ?thesis
    using parseResult_finds_last_block [of ?pre "''ab''" "''{}''" "''}''" ?parse "JObj []"] t
    by (simp add: HARNESS_PAYLOAD_CHARS_def)
qed

text \<open>
  C3: Grading accepts a result list exactly when its indexes are a permutation of the test case
  indexes (none missing, repeated or out of range); the graded list is then in test case order,
  and a case passes exactly when its result is a value deeply equal to the expected output.
\<close>

theorem gradeHarnessResults_correct:
  "case gradeHarnessResults stringify rs tcs of
     None \<Rightarrow> mset (map hc_index rs) \<noteq> mset (map int [0..<length tcs])
   | Some gs \<Rightarrow> mset (map hc_index rs) = mset (map int [0..<length tcs])
       \<and> map gr_index gs = map int [0..<length tcs]
       \<and> map gr_passed gs = map (case_passes rs tcs) [0..<length tcs]"
proof (cases "gradeHarnessResults stringify rs tcs")
  case None
  then have "mset (map hc_index rs) \<noteq> mset (map int [0..<length tcs])"
    by (simp only: gradeHarnessResults_None not_False_eq_True)
  then show ?thesis unfolding None option.case .
next
  case (Some gs)
  note g = gradeHarnessResults_Some [OF Some]
  have len: "length gs = length tcs" using arg_cong [OF g(1), of length] by simp
  have "map gr_passed gs = map (case_passes rs tcs) [0..<length tcs]"
    by (rule nth_equalityI) (simp_all add: len g(2))
  moreover have "mset (map hc_index rs) = mset (map int [0..<length tcs])"
    using Some gradeHarnessResults_None [of stringify rs tcs] by (metis option.distinct(1))
  ultimately show ?thesis using g(1) unfolding Some option.case by blast
qed

text \<open>
  A run reports one case per test in order, each marked passed exactly when it passes, and
  counts the passed ones; only failed cases carry details, and a case is slow exactly above 500 ms.
\<close>

theorem buildRunResult_correct:
  assumes "buildRunResult stringify rs out tcs tr = Some res"
  shows "map cr_index (rr_cases res) = [0..<length tcs]
    \<and> map cr_passed (rr_cases res) = map (case_passes rs tcs) [0..<length tcs]
    \<and> rr_total res = length tcs
    \<and> rr_passed res = card {i. i < length tcs \<and> case_passes rs tcs i}
    \<and> (\<forall>c \<in> set (rr_cases res). (cr_passed c \<longrightarrow> cr_got c = None \<and> cr_expected c = None
          \<and> cr_error c = None \<and> cr_input c = None) \<and> cr_slow c = (500 < cr_elapsedMs c))"
proof -
  from assms obtain gs where g: "gradeHarnessResults stringify rs tcs = Some gs"
    and cases: "rr_cases res = map (run_case stringify tcs) gs"
    and counts: "rr_total res = length (rr_cases res)" "rr_passed res = length (filter cr_passed (rr_cases res))"
    by (auto simp: buildRunResult_def Let_def split: option.splits)
  note c = gradeHarnessResults_correct [where stringify = stringify and rs = rs and tcs = tcs, unfolded g option.case]
  have len: "length gs = length tcs" using arg_cong [OF conjunct1 [OF conjunct2 [OF c]], of length] by simp
  have "map cr_index (rr_cases res) = map nat (map gr_index gs)"
    by (simp add: cases run_case_def Let_def)
  also have "\<dots> = [0..<length tcs]" using c by (simp add: comp_def)
  finally have idx: "map cr_index (rr_cases res) = [0..<length tcs]" .
  have passed: "map cr_passed (rr_cases res) = map (case_passes rs tcs) [0..<length tcs]"
    using c by (simp add: cases run_case_def Let_def comp_def)
  have "length (filter cr_passed (rr_cases res)) = length (filter id (map cr_passed (rr_cases res)))"
    by (simp add: filter_map comp_def)
  also have "\<dots> = length (filter (case_passes rs tcs) [0..<length tcs])"
    unfolding passed by (simp add: filter_map comp_def)
  also have "\<dots> = card {i. i < length tcs \<and> case_passes rs tcs i}"
    by (simp add: length_filter_conv_card) (metis (no_types, lifting) add_0 nth_upt)
  finally have "rr_passed res = card {i. i < length tcs \<and> case_passes rs tcs i}" using counts by simp
  moreover have "\<forall>c \<in> set (rr_cases res). (cr_passed c \<longrightarrow> cr_got c = None \<and> cr_expected c = None
          \<and> cr_error c = None \<and> cr_input c = None) \<and> cr_slow c = (500 < cr_elapsedMs c)"
    by (simp add: cases run_case_def Let_def SLOW_CASE_THRESHOLD_MS_def)
  ultimately show ?thesis using idx passed counts len by (simp add: cases)
qed

definition sample_test :: "bool \<Rightarrow> js_number \<Rightarrow> test_case" where
  "sample_test visible n = \<lparr>tc_id = ''t'', tc_problemId = ''p'', tc_input = [(''n'', JNum n)],
     tc_expectedOutput = Some (JNum n), tc_isVisible = visible, tc_orderIndex = 0\<rparr>"

definition sample_results :: "harness_case list" where
  "sample_results = [OkCase 1 (Some 600) (JNum 8) None, OkCase 0 None (JNum 7) None]"

theorem buildRunResult_correct_witness:
  "\<exists>res. buildRunResult (\<lambda>_. ''7'') sample_results [] [sample_test True 7, sample_test True 9] None = Some res
     \<and> map cr_passed (rr_cases res) = [True, False] \<and> rr_total res = 2"
proof -
  let ?tcs = "[sample_test True 7, sample_test True 9]"
  obtain res where res: "buildRunResult (\<lambda>_. ''7'') sample_results [] ?tcs None = Some res"
    by (simp add: buildRunResult_def gradeHarnessResults_def sample_results_def hasExactCaseIndexes_def Let_def)
  have "case_passes sample_results ?tcs 0" "\<not> case_passes sample_results ?tcs 1"
    by (auto simp: case_passes_def sample_results_def sample_test_def)
  then have "map (case_passes sample_results ?tcs) [0..<length ?tcs] = [True, False]" by (simp add: upt_rec)
  with buildRunResult_correct [OF res] res show ?thesis by auto
qed

text \<open>
  C25: A submission counts the passed cases of all tests and reports a failure exactly when one
  fails, namely the first failing test.
\<close>

theorem buildSubmitResult_correct:
  assumes "buildSubmitResult stringify rs tcs = Some res"
  shows "sr_total res = length tcs
    \<and> sr_passed res = card {i. i < length tcs \<and> case_passes rs tcs i}
    \<and> (case sr_firstFailure res of
         None \<Rightarrow> (\<forall>i < length tcs. case_passes rs tcs i)
       | Some ff \<Rightarrow> ff_index ff < length tcs \<and> \<not> case_passes rs tcs (ff_index ff)
           \<and> (\<forall>i < ff_index ff. case_passes rs tcs i))"
proof -
  from assms obtain gs where g: "gradeHarnessResults stringify rs tcs = Some gs"
    and res: "sr_total res = length gs" "sr_passed res = length (filter gr_passed gs)"
      "sr_firstFailure res = (case List.find (\<lambda>r. \<not> gr_passed r) gs of None \<Rightarrow> None
         | Some r \<Rightarrow> Some (failure_report stringify tcs r))"
    by (auto simp: buildSubmitResult_def split: option.splits)
  note gc = gradeHarnessResults_Some [OF g]
  have len: "length gs = length tcs" using arg_cong [OF gc(1), of length] by simp
  have idx: "gr_index (gs ! i) = int i" if "i < length tcs" for i
    using arg_cong [OF gc(1), of "\<lambda>l. l ! i"] that len by simp
  have "length (filter gr_passed gs) = card {i. i < length gs \<and> gr_passed (gs ! i)}"
    by (rule length_filter_conv_card)
  also have "{i. i < length gs \<and> gr_passed (gs ! i)} = {i. i < length tcs \<and> case_passes rs tcs i}"
    using gc(2) len by auto
  finally have n: "sr_passed res = card {i. i < length tcs \<and> case_passes rs tcs i}" using res by simp
  show ?thesis
  proof (cases "List.find (\<lambda>r. \<not> gr_passed r) gs")
    case None
    then have "\<forall>r \<in> set gs. gr_passed r" by (auto simp: find_None_mem)
    then have "\<forall>i < length tcs. case_passes rs tcs i" using gc(2) len by (metis nth_mem)
    with None n res len show ?thesis by simp
  next
    case (Some r)
    then obtain i where i: "i < length gs" "\<not> gr_passed (gs ! i)" "r = gs ! i" "\<forall>j < i. gr_passed (gs ! j)"
      by (auto simp: find_Some_iff)
    have "ff_index (failure_report stringify tcs r) = i"
      using idx [of i] i len by (simp add: failure_report_def Let_def)
    with Some n res i len gc(2) show ?thesis by simp
  qed
qed

theorem buildSubmitResult_correct_witness:
  "\<exists>res. buildSubmitResult (\<lambda>_. ''7'') sample_results [sample_test True 7, sample_test False 9] = Some res
     \<and> sr_total res = 2 \<and> sr_firstFailure res \<noteq> None"
proof -
  let ?tcs = "[sample_test True 7, sample_test False 9]"
  obtain res where res: "buildSubmitResult (\<lambda>_. ''7'') sample_results ?tcs = Some res"
    by (simp add: buildSubmitResult_def gradeHarnessResults_def sample_results_def hasExactCaseIndexes_def)
  have "\<not> case_passes sample_results ?tcs 1"
    by (auto simp: case_passes_def sample_results_def sample_test_def)
  with buildSubmitResult_correct [OF res] res show ?thesis by (auto split: option.splits)
qed

text \<open>
  C17: A submission does not leak hidden tests: two submissions whose tests pass and fail alike and
  whose first failing test is hidden in both get the same answer, whatever the inputs, expected
  outputs, produced values and error texts were.
\<close>

theorem hidden_tests_do_not_leak:
  assumes "buildSubmitResult stringify rs tcs = Some res" and "buildSubmitResult stringify' rs' tcs' = Some res'"
    and "length tcs' = length tcs" and "\<forall>i < length tcs. case_passes rs' tcs' i = case_passes rs tcs i"
    and "\<forall>ff. sr_firstFailure res = Some ff \<longrightarrow>
           \<not> tc_isVisible (tcs ! ff_index ff) \<and> \<not> tc_isVisible (tcs' ! ff_index ff)"
  shows "res = res'"
proof -
  note c = buildSubmitResult_correct [OF assms(1)] and c' = buildSubmitResult_correct [OF assms(2)]
  have "{i. i < length tcs' \<and> case_passes rs' tcs' i} = {i. i < length tcs \<and> case_passes rs tcs i}"
    using assms(3,4) by auto
  with c c' assms(3) have counts: "sr_total res = sr_total res'" "sr_passed res = sr_passed res'" by simp_all
  have hidden: "f = \<lparr>ff_index = ff_index f, ff_input = [], ff_got = msg_hidden_got,
      ff_expected = msg_hidden_expected, ff_isErrorTruncated = False\<rparr>"
    if "buildSubmitResult sfy rr tt = Some rs2" "sr_firstFailure rs2 = Some f" "\<not> tc_isVisible (tt ! ff_index f)"
    for sfy rr tt rs2 f
    using that by (auto simp: buildSubmitResult_def failure_report_def Let_def split: option.splits)
  have "sr_firstFailure res = sr_firstFailure res'"
  proof (cases "sr_firstFailure res")
    case None
    with c c' assms(3,4) show ?thesis by (auto split: option.splits)
  next
    case (Some f)
    with c have f: "ff_index f < length tcs" "\<not> case_passes rs tcs (ff_index f)"
      "\<forall>i < ff_index f. case_passes rs tcs i" by simp_all
    obtain f' where f'_def: "sr_firstFailure res' = Some f'"
      using c' f assms(3,4) by (cases "sr_firstFailure res'") auto
    with c' have f': "ff_index f' < length tcs'" "\<not> case_passes rs' tcs' (ff_index f')"
      "\<forall>i < ff_index f'. case_passes rs' tcs' i" by simp_all
    have same: "ff_index f' = ff_index f"
      using f f' assms(3,4) by (metis linorder_neqE_nat order.strict_trans)
    have "f = f'"
      using hidden [OF assms(1) Some] hidden [OF assms(2) f'_def] assms(5) Some same by auto
    with Some f'_def show ?thesis by simp
  qed
  with counts show ?thesis by simp
qed

theorem hidden_tests_do_not_leak_witness:
  "buildSubmitResult (\<lambda>_. ''secret'') [OkCase 0 None (JNum 1) None] [sample_test False 7]
   = buildSubmitResult (\<lambda>_. ''other'') [ErrorCase 0 None ''boom'' None] [sample_test False 9]"
proof -
  let ?r1 = "[OkCase 0 None (JNum 1) None]" and ?r2 = "[ErrorCase 0 None ''boom'' None]"
  let ?t1 = "[sample_test False 7]" and ?t2 = "[sample_test False 9]"
  obtain a where a: "buildSubmitResult (\<lambda>_. ''secret'') ?r1 ?t1 = Some a"
    by (simp add: buildSubmitResult_def gradeHarnessResults_def hasExactCaseIndexes_def)
  obtain b where b: "buildSubmitResult (\<lambda>_. ''other'') ?r2 ?t2 = Some b"
    by (simp add: buildSubmitResult_def gradeHarnessResults_def hasExactCaseIndexes_def)
  have "\<forall>i < length ?t1. case_passes ?r2 ?t2 i = case_passes ?r1 ?t1 i"
    by (simp add: case_passes_def sample_test_def)
  moreover have "\<forall>ff. sr_firstFailure a = Some ff \<longrightarrow>
      \<not> tc_isVisible (?t1 ! ff_index ff) \<and> \<not> tc_isVisible (?t2 ! ff_index ff)"
    using buildSubmitResult_correct [OF a] by (auto simp: sample_test_def)
  ultimately have "a = b" using hidden_tests_do_not_leak [OF a b] by simp
  with a b show ?thesis by simp
qed

end
