(* ===== verification/Execution_Handler.thy ===== *)
theory Execution_Handler
  imports Session Reliability_Store Operation_Limiter Execution_Service
begin

text \<open>
  Running and submitting code: \<^verbatim>\<open>apps/server/src/handlers/executionHandler.ts\<close>.
  The handler is cut at its \<^verbatim>\<open>await\<close>s: the IP limiter, the queries for the tests
  and the problem, the operation limiter, the daily quota and Judge0. Each segment returns the
  room, what it emits and the continuation; the \<^verbatim>\<open>finally\<close> block is part of every
  segment that ends the execution. The document text, the harness builder, JSON and the database
  are parameters.
\<close>

section \<open>Error texts\<close>

definition MAX_STDERR_CHARS :: nat where "MAX_STDERR_CHARS = 500"

definition system_dirs :: "string list" where
  "system_dirs = [''usr'', ''home'', ''tmp'', ''var'', ''etc'', ''opt'', ''root'', ''proc'', ''sys'',
     ''lib'', ''run'', ''snap'', ''nix'', ''srv'', ''mnt'', ''media'', ''boot'']"

definition dir_prefix :: "string \<Rightarrow> string" where
  "dir_prefix d = ''/'' @ d @ ''/''"

definition path_match :: "string \<Rightarrow> string option" where
  "path_match s = List.find (\<lambda>p. starts_with p s) (map dir_prefix system_dirs)"

definition path_char :: "char \<Rightarrow> bool" where
  "path_char c \<longleftrightarrow> \<not> is_ws c \<and> c \<noteq> CHR '':''"

text \<open>The global replacement of the path pattern by the empty string.\<close>

function strip_paths :: "string \<Rightarrow> string" where
  "strip_paths [] = []"
| "strip_paths (c # s) =
     (case path_match (c # s) of
        None \<Rightarrow> c # strip_paths s
      | Some p \<Rightarrow> strip_paths (dropWhile path_char (drop (length p - 1) s)))"
  by pat_completeness auto
termination
  by (relation "measure length") (auto intro: le_less_trans [OF length_dropWhile_le])

definition sanitizeStderr :: "string option \<Rightarrow> string" where
  "sanitizeStderr stderr =
     (if \<not> truthy_text stderr then ''Unknown error.''
      else (let stripped = strip_paths (the stderr) in
            if MAX_STDERR_CHARS < length stripped then take MAX_STDERR_CHARS stripped @ ''...''
            else stripped))"

section \<open>State of an execution\<close>

record judge0_response =
  j0_stdout :: "string option"
  j0_stderr :: "string option"
  j0_statusId :: int

record exec_session =
  es_sock :: socket_ctx
  es_roomCode :: string
  es_type :: ExecutionType

record execution_deps =
  ed_hasIpLimiter :: bool
  ed_judge0ExecPerHour :: "nat option"
  ed_dailyLimit :: nat
  ed_maxCodeBytes :: nat
  ed_hasOperationLimiter :: bool

record execution_resources =
  er_code :: string
  er_testCases :: "test_case list"
  er_boilerplate :: boilerplate_template
  er_problem :: problem

datatype exec_k =
    AwaitIpCheck
  | AwaitVisible string
  | AwaitResources string "test_case list option"
  | AwaitSlot execution_resources
  | AwaitReserve execution_resources
  | AwaitJudge0 execution_resources string

definition execError :: "exec_session \<Rightarrow> ExecutionErrorType \<Rightarrow> string \<Rightarrow> emission_scope \<Rightarrow> eff list" where
  "execError sess t msg scope = emitExecutionError (es_sock sess) (es_roomCode sess) t msg scope"

section \<open>Starting\<close>

definition createExecutionSession ::
  "socket_ctx \<Rightarrow> (string \<Rightarrow> room option) \<Rightarrow> ExecutionType \<Rightarrow> (room \<times> exec_session) option" where
  "createExecutionSession sock lookup ty =
     (case createHandlerSession sock lookup (\<lambda>r. problemId r \<noteq> None) of
        None \<Rightarrow> None
      | Some (r, code) \<Rightarrow> Some (r, \<lparr>es_sock = sock, es_roomCode = code, es_type = ty\<rparr>))"

definition msg_too_many_executions :: "nat \<Rightarrow> string" where
  "msg_too_many_executions s = ''Too many executions. Try again in '' @ string_of_nat s @ ''s.''"
definition msg_code_size :: "nat \<Rightarrow> string" where
  "msg_code_size n = ''Code size limit exceeded ('' @ string_of_nat n @ '' bytes).''"
definition msg_no_configuration :: string where
  "msg_no_configuration = ''Problem configuration not found.''"
definition msg_daily_limit :: string where
  "msg_daily_limit = ''Daily execution limit reached. Please try again tomorrow.''"
definition msg_busy :: "nat \<Rightarrow> string" where
  "msg_busy s = ''Execution service is busy. Try again in '' @ string_of_nat s @ ''s.''"
definition msg_output_limit :: string where
  "msg_output_limit = ''Execution output exceeded the allowed size.''"
definition msg_unparsable :: string where
  "msg_unparsable = ''Could not parse execution results.''"
definition msg_invalid_results :: string where
  "msg_invalid_results = ''Execution results failed validation.''"

text \<open>The \<^verbatim>\<open>finally\<close> block.\<close>

definition finish_execution :: "bool \<Rightarrow> int \<Rightarrow> room \<Rightarrow> room" where
  "finish_execution submissionReserved now r =
     r\<lparr>executionInProgress := False,
       submissionsUsed := submissionsUsed r + (if submissionReserved then 1 else 0),
       lastActivityAt := now\<rparr>"

text \<open>From the room check to the first query.\<close>

definition begin_execution ::
  "execution_deps \<Rightarrow> exec_session \<Rightarrow> string option \<Rightarrow> int \<Rightarrow> room \<Rightarrow> room \<times> eff list \<times> exec_k option" where
  "begin_execution deps sess doc now r =
     (case canExecute r of
        Refused reason \<Rightarrow> (r, execError sess ROOM_LIMIT reason ScopeSocket, None)
      | Allowed \<Rightarrow>
          (let r1 = r\<lparr>executionInProgress := True\<rparr>;
               begun = [ToRoom (es_roomCode sess) (ExecutionStarted (es_type sess))];
               code = (case doc of None \<Rightarrow> [] | Some t \<Rightarrow> t)
           in if utf8_length code \<le> ed_maxCodeBytes deps then
                (r1, begun, Some (if es_type sess = Submit then AwaitResources code None else AwaitVisible code))
              else
                (finish_execution False now r1,
                 begun @ execError sess API_ERROR (msg_code_size (ed_maxCodeBytes deps)) ScopeRoom, None)))"

definition handleExecution ::
  "execution_deps \<Rightarrow> exec_session \<Rightarrow> string option \<Rightarrow> int \<Rightarrow> room \<Rightarrow> room \<times> eff list \<times> exec_k option" where
  "handleExecution deps sess doc now r =
     (if ed_hasIpLimiter deps then (r, [], Some AwaitIpCheck) else begin_execution deps sess doc now r)"

definition ipChecked ::
  "execution_deps \<Rightarrow> exec_session \<Rightarrow> string option \<Rightarrow> int \<Rightarrow> rate_limit_check_result \<Rightarrow> room \<Rightarrow>
   room \<times> eff list \<times> exec_k option" where
  "ipChecked deps sess doc now ipCheck r =
     (if allowed ipCheck then begin_execution deps sess doc now r
      else (r, execError sess IP_LIMIT (msg_too_many_executions (retryAfter ipCheck)) ScopeSocket, None))"

section \<open>After the start\<close>

text \<open>The \<^verbatim>\<open>catch\<close> block, followed by \<^verbatim>\<open>finally\<close>.\<close>

fun is_abort :: "exn \<Rightarrow> bool" where
  "is_abort (AbortTimeout _) = True"
| "is_abort _ = False"

definition catch_effects :: "exec_session \<Rightarrow> exn \<Rightarrow> eff list" where
  "catch_effects sess err =
     (if is_operation_limit err then
        execError sess API_ERROR (msg_busy OPERATION_RETRY_AFTER_SECONDS) ScopeRoom
      else execError sess (if is_abort err then API_TIMEOUT else API_ERROR) (exn_text ''Execution failed.'' err) ScopeRoom)"

definition execution_failed ::
  "exec_session \<Rightarrow> bool \<Rightarrow> int \<Rightarrow> exn \<Rightarrow> room \<Rightarrow> room \<times> eff list \<times> exec_k option" where
  "execution_failed sess reserved now err r =
     (finish_execution reserved now r, catch_effects sess err, None)"

definition custom_test_case_of :: "room \<Rightarrow> nat \<Rightarrow> nat \<Rightarrow> custom_test_case \<Rightarrow> test_case" where
  "custom_test_case_of r visibleCount index c =
     \<lparr>tc_id = ''custom-'' @ string_of_nat index,
      tc_problemId = (case problemId r of None \<Rightarrow> [] | Some p \<Rightarrow> p),
      tc_input = ct_input c, tc_expectedOutput = ct_expectedOutput c, tc_isVisible = True,
      tc_orderIndex = visibleCount + index\<rparr>"

definition visibleLoaded ::
  "exec_session \<Rightarrow> string \<Rightarrow> int \<Rightarrow> test_case list awaited \<Rightarrow> room \<Rightarrow> room \<times> eff list \<times> exec_k option" where
  "visibleLoaded sess code now answer r =
     (case answer of
        Inl err \<Rightarrow> execution_failed sess False now err r
      | Inr visible \<Rightarrow>
          (r, [], Some (AwaitResources code
             (Some (visible @ map (\<lambda>(i, c). custom_test_case_of r (length visible) i c)
                                  (enumerate 0 (customTestCases r)))))))"

definition resourcesLoaded ::
  "execution_deps \<Rightarrow> exec_session \<Rightarrow> string \<Rightarrow> test_case list option \<Rightarrow> int \<Rightarrow>
   (test_case list \<times> boilerplate_template option \<times> problem option) awaited \<Rightarrow> room \<Rightarrow>
   room \<times> eff list \<times> exec_k option" where
  "resourcesLoaded deps sess code loaded now answer r =
     (case answer of
        Inl err \<Rightarrow> execution_failed sess False now err r
      | Inr (allTests, Some boilerplate, Some problem) \<Rightarrow>
          (let resources = \<lparr>er_code = code,
                 er_testCases = (case loaded of None \<Rightarrow> allTests | Some ts \<Rightarrow> ts),
                 er_boilerplate = boilerplate, er_problem = problem\<rparr>
           in (r, [], Some (if ed_hasOperationLimiter deps then AwaitSlot resources
                            else AwaitReserve resources)))
      | _ \<Rightarrow> (finish_execution False now r,
              execError sess API_ERROR msg_no_configuration ScopeRoom, None))"

text \<open>The operation limiter starts the job, at once or later, or refuses it.\<close>

definition slotAnswered ::
  "exec_session \<Rightarrow> execution_resources \<Rightarrow> int \<Rightarrow> unit awaited \<Rightarrow> room \<Rightarrow> room \<times> eff list \<times> exec_k option" where
  "slotAnswered sess resources now answer r =
     (case answer of
        Inl err \<Rightarrow> execution_failed sess False now err r
      | Inr _ \<Rightarrow> (r, [], Some (AwaitReserve resources)))"

definition quotaAnswered ::
  "exec_session \<Rightarrow> execution_resources \<Rightarrow> string \<Rightarrow> int \<Rightarrow> bool awaited \<Rightarrow> room \<Rightarrow>
   room \<times> eff list \<times> exec_k option" where
  "quotaAnswered sess resources nonce now answer r =
     (case answer of
        Inl err \<Rightarrow> execution_failed sess False now err r
      | Inr reserved \<Rightarrow>
          if reserved then (r, [], Some (AwaitJudge0 resources nonce))
          else (finish_execution False now r,
                execError sess GLOBAL_LIMIT msg_daily_limit ScopeRoom, None))"

section \<open>Judge0's answer\<close>

definition emitJudge0StatusError :: "exec_session \<Rightarrow> judge0_response \<Rightarrow> eff list option" where
  "emitJudge0StatusError sess response =
     (let statusId = j0_statusId response in
      if statusId = 6 then
        Some (execError sess COMPILATION_ERROR (sanitizeStderr (j0_stderr response)) ScopeRoom)
      else if statusId = 5 then Some (execError sess TIMEOUT ''Time limit exceeded.'' ScopeRoom)
      else if 7 \<le> statusId then
        Some (execError sess RUNTIME_ERROR (sanitizeStderr (j0_stderr response)) ScopeRoom)
      else None)"

definition emitExecutionResult ::
  "(json \<Rightarrow> string) \<Rightarrow> exec_session \<Rightarrow> parsed_harness_result \<Rightarrow> test_case list \<Rightarrow> eff list option" where
  "emitExecutionResult stringify sess parsed testCases =
     (if es_type sess = Run then
        (case buildRunResult stringify (ph_results parsed) (ph_userStdout parsed) testCases (ph_truncated parsed) of
           None \<Rightarrow> None
         | Some result \<Rightarrow> Some [ToRoom (es_roomCode sess) (ExecutionResult (RunResult result))])
      else
        (case buildSubmitResult stringify (ph_results parsed) testCases of
           None \<Rightarrow> None
         | Some result \<Rightarrow> Some [ToRoom (es_roomCode sess) (ExecutionResult (SubmitResult result))]))"

text \<open>
  \<^verbatim>\<open>sanitizeStderr\<close> of the unvalidated \<^verbatim>\<open>error\<close> field: falsy values
  give the default, and a truthy value that is no string has no \<^verbatim>\<open>replace\<close>.
\<close>

fun sanitize_unknown :: "js_unknown \<Rightarrow> string awaited" where
  "sanitize_unknown (Some (JStr s)) = Inr (sanitizeStderr (Some s))"
| "sanitize_unknown None = Inr (sanitizeStderr None)"
| "sanitize_unknown (Some JNull) = Inr (sanitizeStderr None)"
| "sanitize_unknown (Some (JBool b)) =
     (if b then Inl (ErrorExn ''stderr.replace is not a function'') else Inr (sanitizeStderr None))"
| "sanitize_unknown (Some (JNum x)) =
     (if number_val x = Some 0 then Inr (sanitizeStderr None)
      else Inl (ErrorExn ''stderr.replace is not a function''))"
| "sanitize_unknown (Some (JArr _)) = Inl (ErrorExn ''stderr.replace is not a function'')"
| "sanitize_unknown (Some (JObj _)) = Inl (ErrorExn ''stderr.replace is not a function'')"

definition msg_null_payload :: string where
  "msg_null_payload = ''Cannot read properties of null (reading 'error')''"

definition handleAcceptedExecutionResult ::
  "(string \<Rightarrow> json option) \<Rightarrow> (json \<Rightarrow> string) \<Rightarrow> exec_session \<Rightarrow> judge0_response \<Rightarrow> test_case list \<Rightarrow>
   string \<Rightarrow> eff list awaited" where
  "handleAcceptedExecutionResult parse stringify sess response testCases nonce =
     (let stdout = (case j0_stdout response of None \<Rightarrow> [] | Some s \<Rightarrow> s) in
      case parseHarnessModuleError parse stdout nonce of
        NullPayload \<Rightarrow> Inl (ErrorExn msg_null_payload)
      | ModuleError t e \<Rightarrow>
          (case sanitize_unknown e of
             Inl err \<Rightarrow> Inl err
           | Inr msg \<Rightarrow> Inr (execError sess t msg ScopeRoom))
      | NoModuleError \<Rightarrow>
          (case parseResult parse stdout nonce of
             Inl PayloadTooLarge \<Rightarrow> Inr (execError sess OUTPUT_LIMIT msg_output_limit ScopeRoom)
           | Inl _ \<Rightarrow> Inr (execError sess PARSE_ERROR msg_unparsable ScopeRoom)
           | Inr data \<Rightarrow>
               (case harnessResultSchema data of
                  None \<Rightarrow> Inr (execError sess PARSE_ERROR msg_invalid_results ScopeRoom)
                | Some parsed \<Rightarrow>
                    (case emitExecutionResult stringify sess parsed testCases of
                       None \<Rightarrow> Inr (execError sess PARSE_ERROR msg_invalid_results ScopeRoom)
                     | Some effs \<Rightarrow> Inr effs))))"

definition judge0Answered ::
  "(string \<Rightarrow> json option) \<Rightarrow> (json \<Rightarrow> string) \<Rightarrow> exec_session \<Rightarrow> execution_resources \<Rightarrow> string \<Rightarrow> int \<Rightarrow>
   judge0_response awaited \<Rightarrow> room \<Rightarrow> room \<times> eff list \<times> exec_k option" where
  "judge0Answered parse stringify sess resources nonce now answer r =
     (case answer of
        Inl err \<Rightarrow> execution_failed sess True now err r
      | Inr response \<Rightarrow>
          (case emitJudge0StatusError sess response of
             Some effs \<Rightarrow> (finish_execution True now r, effs, None)
           | None \<Rightarrow>
               (case handleAcceptedExecutionResult parse stringify sess response
                       (er_testCases resources) nonce of
                  Inl err \<Rightarrow> execution_failed sess True now err r
                | Inr effs \<Rightarrow> (finish_execution True now r, effs, None))))"

section \<open>Lemmas on the sanitizer\<close>

lemma path_char_prefix: "p \<in> set (map dir_prefix system_dirs) \<Longrightarrow> list_all path_char p \<and> p \<noteq> []"
  by (auto simp: system_dirs_def dir_prefix_def path_char_def is_ws_def)

lemma path_match_None: "path_match s = None \<longleftrightarrow> (\<forall>p \<in> set (map dir_prefix system_dirs). \<not> starts_with p s)"
  unfolding path_match_def find_None_mem ..

lemma path_match_slash: "path_match s = Some p \<Longrightarrow> \<exists>t. s = CHR ''/'' # t"
proof -
  assume "path_match s = Some p"
  then have "starts_with p s" "p \<in> set (map dir_prefix system_dirs)"
    unfolding path_match_def by (auto dest!: find_Some_mem)
  then obtain d where "take (length (dir_prefix d)) s = dir_prefix d"
    by (auto simp: starts_with_def)
  then show ?thesis by (cases s) (auto simp: dir_prefix_def)
qed

text \<open>Up to the first separator the stripped text is a prefix of the text itself.\<close>

lemma strip_paths_prefix: "\<exists>z. s = takeWhile path_char (strip_paths s) @ z"
proof (induction s rule: strip_paths.induct)
  case 1
  then show ?case by simp
next
  case (2 c s)
  show ?case
  proof (cases "path_match (c # s)")
    case None
    show ?thesis
    proof (cases "path_char c")
      case True
      from "2.IH"(1) [OF None] obtain z where "s = takeWhile path_char (strip_paths s) @ z" by blast
      with None True show ?thesis by auto
    qed (simp add: None)
  next
    case (Some p)
    let ?rest = "dropWhile path_char (drop (length p - 1) s)"
    have "takeWhile path_char (strip_paths ?rest) = []"
    proof (cases ?rest)
      case Nil
      show ?thesis unfolding Nil by simp
    next
      case (Cons x xs)
      then have x: "\<not> path_char x" by (metis hd_dropWhile list.distinct(1) list.sel(1))
      have "path_match ?rest = None"
      proof (rule ccontr)
        assume "path_match ?rest \<noteq> None"
        then obtain q where "path_match ?rest = Some q" by blast
        then have "x = CHR ''/''" using Cons by (auto dest!: path_match_slash)
        with x show False by (simp add: path_char_def is_ws_def)
      qed
      with x Cons show ?thesis by simp
    qed
    then show ?thesis using Some by simp
  qed
qed

lemma starts_with_iff: "starts_with p s \<longleftrightarrow> (\<exists>z. s = p @ z)"
  unfolding starts_with_def by (metis append_eq_conv_conj append_take_drop_id)

lemma strip_paths_head:
  assumes "p \<in> set (map dir_prefix system_dirs)"
  shows "\<not> starts_with p (strip_paths s)"
proof (induction s rule: strip_paths.induct)
  case 1
  then show ?case using path_char_prefix [OF assms] by (simp add: starts_with_iff)
next
  case (2 c s)
  show ?case
  proof (cases "path_match (c # s)")
    case None
    show ?thesis
    proof
      assume "starts_with p (strip_paths (c # s))"
      then obtain z where "strip_paths (c # s) = p @ z" by (auto simp: starts_with_iff)
      then have "takeWhile path_char (strip_paths (c # s)) = p @ takeWhile path_char z"
        using path_char_prefix [OF assms] by (simp add: list_all_iff takeWhile_append2)
      with strip_paths_prefix [of "c # s"] have "starts_with p (c # s)"
        by (metis append.assoc starts_with_iff)
      with None assms show False by (simp only: path_match_None)
    qed
  next
    case (Some p')
    with "2.IH"(2) [OF Some] show ?thesis by simp
  qed
qed

lemma strip_paths_clean:
  assumes "p \<in> set (map dir_prefix system_dirs)"
  shows "\<not> includes_str p (strip_paths s)"
proof (induction s rule: strip_paths.induct)
  case 1
  then show ?case using path_char_prefix [OF assms] by simp
next
  case (2 c s)
  show ?case
  proof (cases "path_match (c # s)")
    case None
    with "2.IH"(1) [OF None] strip_paths_head [OF assms, of "c # s"] show ?thesis by simp
  next
    case (Some p')
    with "2.IH"(2) [OF Some] show ?thesis by simp
  qed
qed

lemma not_includes_truncated:
  assumes "\<not> includes_str p s" and "CHR ''.'' \<notin> set p" and "p \<noteq> []"
  shows "\<not> includes_str p (take n s @ ''...'')"
proof
  assume "includes_str p (take n s @ ''...'')"
  then obtain a b where e: "take n s @ ''...'' = a @ p @ b" by (auto simp: includes_str_iff)
  show False
  proof (cases "length (a @ p) \<le> length (take n s)")
    case True
    let ?k = "length (take n s)"
    have "take n s = take ?k (take n s @ ''...'')" 
      by (metis append_eq_conv_conj)
    also have "\<dots> = take ?k (a @ p @ b)" by (simp only: e)
    also have "\<dots> = a @ p @ take (?k - length (a @ p)) b"
      using True by (simp add: min_def split: if_splits)
    finally have "take n s = a @ p @ take (?k - length (a @ p)) b" .
    then have "s = a @ p @ (take (?k - length (a @ p)) b @ drop n s)"
      by (metis append.assoc append_take_drop_id)
    with assms(1) show False by (auto simp: includes_str_iff)
  next
    case False
    have "last (a @ p) = (a @ p) ! (length (a @ p) - 1)" using assms(3) by (simp add: last_conv_nth)
    also have "\<dots> = ((a @ p) @ b) ! (length (a @ p) - 1)"
      using assms(3) by (subst nth_append) simp
    also have "\<dots> = (take n s @ ''...'') ! (length (a @ p) - 1)" by (simp add: e)
    finally have "last (a @ p) = (take n s @ ''...'') ! (length (a @ p) - 1)" .
    moreover have "\<not> length (a @ p) - 1 < length (take n s)" using False by linarith
    ultimately have "last (a @ p) = ''...'' ! (length (a @ p) - 1 - length (take n s))"
      by (simp only: nth_append if_False)
    also have "\<dots> = CHR ''.''"
    proof -
      have "length (a @ p) \<le> length (take n s) + 3" using arg_cong [OF e, of length] by simp
      with False have "length (a @ p) - 1 - length (take n s) < 3" by simp
      then show ?thesis by (auto simp: less_Suc_eq numeral_3_eq_3)
    qed
    finally show False using assms(2,3) by (metis last_appendR last_in_set)
  qed
qed

section \<open>Properties\<close>

text \<open>
  The error text shown to a room never contains a path into a system directory of the
  execution host and is never longer than 503 characters.
\<close>

theorem sanitizeStderr_hides_paths:
  assumes "d \<in> set system_dirs"
  shows "\<not> includes_str (''/'' @ d @ ''/'') (sanitizeStderr stderr) \<and> length (sanitizeStderr stderr) \<le> 503"
proof -
  let ?p = "''/'' @ d @ ''/''"
  have p: "?p \<in> set (map dir_prefix system_dirs)" using assms by (auto simp: dir_prefix_def)
  have dot: "CHR ''.'' \<notin> set ?p" using assms by (auto simp: system_dirs_def)
  show ?thesis
  proof (cases "truthy_text stderr")
    case False
    have "\<not> includes_str ?p ''Unknown error.''"
      using assms unfolding system_dirs_def by (auto simp: starts_with_def)
    with False show ?thesis by (simp add: sanitizeStderr_def)
  next
    case True
    from strip_paths_clean [OF p, of "the stderr"]
    show ?thesis
      using True not_includes_truncated [OF strip_paths_clean [OF p, of "the stderr"] dot, of MAX_STDERR_CHARS]
      by (auto simp: sanitizeStderr_def MAX_STDERR_CHARS_def Let_def)
  qed
qed

theorem sanitizeStderr_hides_paths_witness:
  "\<not> includes_str ''/tmp/'' (sanitizeStderr (Some ''File /tmp/box/script.py:3 in /usr/lib''))"
  using sanitizeStderr_hides_paths [of "''tmp''" "Some ''File /tmp/box/script.py:3 in /usr/lib''"]
  by (simp add: system_dirs_def)

end
