(* ===== verification/Hint_Handler.thy ===== *)
theory Hint_Handler
  imports Room_Handler Session Reliability_Store Operation_Limiter Hint_Service
begin

text \<open>
  Hints with the other participant's consent: \<^verbatim>\<open>handlers/hintHandler.ts\<close> of
  \<^verbatim>\<open>apps/server/src\<close>, cut at each \<^verbatim>\<open>await\<close>. \<open>consent\<close> is the
  entry of the module's \<^verbatim>\<open>consentTimers\<close> map for the room: the handle of the
  pending consent timer. The stream of the language model is one continuation per chunk.
\<close>

record hint_session =
  hs_sock :: socket_ctx
  hs_roomCode :: string

record hint_deps =
  hd_hasGroqClient :: bool
  hd_enableLLMHintFallback :: bool
  hd_enableImportedProblemHints :: bool
  hd_maxLLMPromptChars :: int
  hd_maxLLMHintChars :: int
  hd_maxLLMCallsPerRoom :: nat
  hd_hasIpLimiter :: bool
  hd_hasLlmLimiter :: bool

datatype hint_k =
    AwaitStoredHint
  | AwaitLlmIpCheck
  | AwaitLlmQuota
  | AwaitLlmProblem
  | AwaitLlmSlot "hint_message list"
  | AwaitLlmReserve "hint_message list"
  | AwaitChunk string

definition DEFAULT_HINT_COOLDOWN_MS :: int where "DEFAULT_HINT_COOLDOWN_MS = 5000"

section \<open>Rejections\<close>

definition msg_hint_cooldown :: string where
  "msg_hint_cooldown = ''Please wait a few seconds before requesting another hint.''"
definition msg_hint_no_problem :: string where
  "msg_hint_no_problem = ''Select a problem to request hints.''"
definition msg_no_more_hints :: string where
  "msg_no_more_hints = ''No more hints available.''"
definition msg_hint_while_running :: string where
  "msg_hint_while_running = ''Cannot request hints while code is executing.''"
definition msg_hint_pending_already :: string where
  "msg_hint_pending_already = ''A hint request is already pending.''"
definition msg_hint_being_delivered :: string where
  "msg_hint_being_delivered = ''A hint is currently being delivered.''"
definition msg_no_curated_hints :: string where
  "msg_no_curated_hints = ''No more curated hints available for this problem.''"
definition msg_room_llm_limit :: string where
  "msg_room_llm_limit = ''AI hint limit for this room has been reached.''"
definition msg_too_many_hints :: "nat \<Rightarrow> string" where
  "msg_too_many_hints s = ''Too many hint requests. Try again in '' @ string_of_nat s @ ''s.''"
definition msg_daily_llm :: string where
  "msg_daily_llm = ''Daily AI hint limit reached. Please try again tomorrow.''"
definition msg_groq_missing :: string where
  "msg_groq_missing = ''AI hint fallback is unavailable because Groq is not configured.''"
definition msg_problem_not_found :: string where
  "msg_problem_not_found = ''Problem not found.''"
definition msg_imported_hints_disabled :: string where
  "msg_imported_hints_disabled = ''AI hints for imported problems are disabled.''"
definition msg_hint_busy :: "nat \<Rightarrow> string" where
  "msg_hint_busy s = ''AI hint service is busy. Try again in '' @ string_of_nat s @ ''s.''"
definition msg_hint_failed :: string where
  "msg_hint_failed = ''Failed to retrieve hint. Please try again.''"
definition msg_hint_blocked :: string where
  "msg_hint_blocked = ''Generated hint was blocked by the output policy.''"
definition msg_hint_generation_failed :: string where
  "msg_hint_generation_failed = ''Failed to generate hint. Please try again.''"

definition rejectHintRequest :: "hint_session \<Rightarrow> string \<Rightarrow> eff list" where
  "rejectHintRequest sess msg = emitScopedEvent (hs_sock sess) None (HintError msg) ScopeSocket"

definition hint_room_check :: "room \<Rightarrow> string option" where
  "hint_room_check r =
     (if \<not> truthy_text (problemId r) then Some msg_hint_no_problem
      else if hintLimit r \<le> hintsUsed r then Some msg_no_more_hints
      else if executionInProgress r then Some msg_hint_while_running
      else if pendingHintRequest r \<noteq> None then Some msg_hint_pending_already
      else if hintStreaming r then Some msg_hint_being_delivered
      else None)"

text \<open>The rejection, if any, and the new \<^verbatim>\<open>socket.data.lastHintRequestTime\<close>.\<close>

definition getHintRequestRejection :: "int \<Rightarrow> int \<Rightarrow> int option \<Rightarrow> room \<Rightarrow> string option \<times> int option" where
  "getHintRequestRejection cooldownMs now lastRequest r =
     (if now - (case lastRequest of None \<Rightarrow> 0 | Some t \<Rightarrow> t) < cooldownMs
      then (Some msg_hint_cooldown, lastRequest)
      else (hint_room_check r, Some now))"

section \<open>Consent\<close>

definition clearPendingHintRequest :: "hint_session \<Rightarrow> room \<Rightarrow> string option \<times> room \<times> eff list" where
  "clearPendingHintRequest sess r =
     (let r1 = r\<lparr>pendingHintRequest := None\<rparr>
      in (map_option requestedBy (pendingHintRequest r), r1,
          [ToRoom (hs_roomCode sess) (RoomSync (toSyncPayload r1))]))"

definition findRequester :: "room \<Rightarrow> string option \<Rightarrow> room_user_internal option" where
  "findRequester r requesterId =
     (if truthy_text requesterId then findUser (the requesterId) r else None)"

definition tell_denied :: "room_user_internal option \<Rightarrow> eff list" where
  "tell_denied requester =
     (case requester of
        None \<Rightarrow> []
      | Some u \<Rightarrow> if truthy_text (socketId u) then [ToSocket (the (socketId u)) HintDenied] else [])"

definition sendPendingHintRequest ::
  "hint_session \<Rightarrow> int \<Rightarrow> nat \<Rightarrow> room \<Rightarrow> nat option \<Rightarrow> room \<times> nat option \<times> eff list" where
  "sendPendingHintRequest sess now newTimer r consent =
     (case List.find (\<lambda>u. socketId u = Some (sock_id (hs_sock sess))) (users r) of
        None \<Rightarrow> (r, consent, [])
      | Some requester \<Rightarrow>
          (let r1 = r\<lparr>pendingHintRequest := Some \<lparr>requestedBy = userId requester, requestedAt = now\<rparr>\<rparr>;
               sync = [ToRoom (hs_roomCode sess) (RoomSync (toSyncPayload r1))]
           in case List.find (\<lambda>u. connected u \<and> socketId u \<noteq> Some (sock_id (hs_sock sess))) (users r1) of
                None \<Rightarrow> (r1, consent, sync)
              | Some other \<Rightarrow>
                  if truthy_text (socketId other) then
                    (r1, Some newTimer,
                     sync @ [ToSocket (the (socketId other))
                       (HintPending \<lparr>hp_requestedBy = userId requester, hp_displayName = displayName requester,
                                     hp_hintsUsed = hintsUsed r1, hp_hintLimit = hintLimit r1\<rparr>)])
                  else (r1, consent, sync)))"

text \<open>The callback of the consent timer.\<close>

definition consentTimedOut :: "hint_session \<Rightarrow> room \<Rightarrow> room \<times> nat option \<times> eff list" where
  "consentTimedOut sess r =
     (case pendingHintRequest r of
        None \<Rightarrow> (r, None, [])
      | Some p \<Rightarrow>
          (let (requesterId, r1, effs) = clearPendingHintRequest sess r
           in (r1, None, effs @ tell_denied (findRequester r1 requesterId))))"

definition handleHintDeny :: "hint_session \<Rightarrow> room \<Rightarrow> nat option \<Rightarrow> room \<times> nat option \<times> eff list" where
  "handleHintDeny sess r consent =
     (case pendingHintRequest r of
        None \<Rightarrow> (r, consent, [])
      | Some p \<Rightarrow>
          (let (requesterId, r1, effs) = clearPendingHintRequest sess r
           in (r1, None, effs @ tell_denied (findRequester r1 requesterId))))"

definition handleHintApprove ::
  "hint_session \<Rightarrow> room \<Rightarrow> nat option \<Rightarrow> room \<times> nat option \<times> eff list \<times> hint_k option" where
  "handleHintApprove sess r consent =
     (case pendingHintRequest r of
        None \<Rightarrow> (r, consent, [], None)
      | Some p \<Rightarrow>
          (let (requesterId, r1, effs) = clearPendingHintRequest sess r
           in (r1, None, effs, Some AwaitStoredHint)))"

definition handleRequesterDisconnect ::
  "hint_session \<Rightarrow> room \<Rightarrow> nat option \<Rightarrow> room \<times> nat option \<times> eff list" where
  "handleRequesterDisconnect sess r consent =
     (case pendingHintRequest r of
        None \<Rightarrow> (r, consent, [])
      | Some p \<Rightarrow>
          (case findUser (requestedBy p) r of
             None \<Rightarrow> (r, consent, [])
           | Some requester \<Rightarrow>
               if connected requester then (r, consent, [])
               else (let (requesterId, r1, effs) = clearPendingHintRequest sess r in (r1, None, effs))))"

definition handleHintRequest ::
  "hint_session \<Rightarrow> int \<Rightarrow> int \<Rightarrow> int option \<Rightarrow> nat \<Rightarrow> room \<Rightarrow> nat option \<Rightarrow>
   room \<times> nat option \<times> int option \<times> eff list \<times> hint_k option" where
  "handleHintRequest sess cooldownMs now lastRequest newTimer r consent =
     (let (rejection, last1) = getHintRequestRejection cooldownMs now lastRequest r in
      case rejection of
        Some msg \<Rightarrow> (r, consent, last1, rejectHintRequest sess msg, None)
      | None \<Rightarrow>
          if connectedUserCount r \<le> 1 then (r, consent, last1, [], Some AwaitStoredHint)
          else (let (r1, consent1, effs) = sendPendingHintRequest sess now newTimer r consent
                in (r1, consent1, last1, effs, None)))"

section \<open>Delivery\<close>

definition emitHintDelivered :: "hint_session \<Rightarrow> room \<Rightarrow> string \<Rightarrow> eff list" where
  "emitHintDelivered sess r fullHint =
     [ToRoom (hs_roomCode sess) (HintDone fullHint (int (hintLimit r) - int (hintsUsed r)))]"

definition deliverStoredHint :: "hint_session \<Rightarrow> hint \<Rightarrow> room \<Rightarrow> room \<times> eff list" where
  "deliverStoredHint sess h r =
     (let r1 = r\<lparr>hintsUsed := hintsUsed r + 1, hintHistory := hintHistory r @ [h_hintText h]\<rparr>
      in (r1, emitHintDelivered sess r1 (h_hintText h)))"

text \<open>The \<^verbatim>\<open>catch\<close> of \<^verbatim>\<open>deliverHint\<close>.\<close>

definition deliverCatch :: "hint_session \<Rightarrow> exn \<Rightarrow> eff list" where
  "deliverCatch sess err =
     rejectHintRequest sess
       (if is_operation_limit err then msg_hint_busy OPERATION_RETRY_AFTER_SECONDS else msg_hint_failed)"

definition prepareLLMHintRequest :: "hint_deps \<Rightarrow> hint_session \<Rightarrow> room \<Rightarrow> eff list \<times> hint_k option" where
  "prepareLLMHintRequest deps sess r =
     (if \<not> hd_enableLLMHintFallback deps then (rejectHintRequest sess msg_no_curated_hints, None)
      else if hd_maxLLMCallsPerRoom deps \<le> llmCallsUsed r then (rejectHintRequest sess msg_room_llm_limit, None)
      else ([], Some (if hd_hasIpLimiter deps then AwaitLlmIpCheck else AwaitLlmQuota)))"

definition storedHintAnswered ::
  "hint_deps \<Rightarrow> hint_session \<Rightarrow> hint option awaited \<Rightarrow> room \<Rightarrow> room \<times> eff list \<times> hint_k option" where
  "storedHintAnswered deps sess answer r =
     (case answer of
        Inl err \<Rightarrow> (r, deliverCatch sess err, None)
      | Inr (Some h) \<Rightarrow> (let (r1, effs) = deliverStoredHint sess h r in (r1, effs, None))
      | Inr None \<Rightarrow> (let (effs, k) = prepareLLMHintRequest deps sess r in (r, effs, k)))"

definition llmIpChecked ::
  "hint_session \<Rightarrow> rate_limit_check_result awaited \<Rightarrow> eff list \<times> hint_k option" where
  "llmIpChecked sess answer =
     (case answer of
        Inl err \<Rightarrow> (deliverCatch sess err, None)
      | Inr ipCheck \<Rightarrow>
          if allowed ipCheck then ([], Some AwaitLlmQuota)
          else (rejectHintRequest sess (msg_too_many_hints (retryAfter ipCheck)), None))"

definition llmQuotaChecked ::
  "hint_deps \<Rightarrow> hint_session \<Rightarrow> bool awaited \<Rightarrow> eff list \<times> hint_k option" where
  "llmQuotaChecked deps sess answer =
     (case answer of
        Inl err \<Rightarrow> (deliverCatch sess err, None)
      | Inr canCall \<Rightarrow>
          if \<not> canCall then (rejectHintRequest sess msg_daily_llm, None)
          else if \<not> hd_hasGroqClient deps then (rejectHintRequest sess msg_groq_missing, None)
          else ([], Some AwaitLlmProblem))"

definition llm_options :: "problem \<Rightarrow> string option \<Rightarrow> room \<Rightarrow> hint_options" where
  "llm_options p doc r =
     \<lparr>ho_description = p_description p, ho_constraints = p_constraints p,
      ho_currentCode = (case doc of None \<Rightarrow> [] | Some t \<Rightarrow> t),
      ho_hintLevel = min (hintsUsed r + 1) 3, ho_previousHints = hintHistory r,
      ho_lastFailure = None\<rparr>"

definition llmProblemLoaded ::
  "hint_deps \<Rightarrow> hint_session \<Rightarrow> problem option awaited \<Rightarrow> string option \<Rightarrow> room \<Rightarrow> eff list \<times> hint_k option" where
  "llmProblemLoaded deps sess answer doc r =
     (case answer of
        Inl err \<Rightarrow> (deliverCatch sess err, None)
      | Inr None \<Rightarrow> (rejectHintRequest sess msg_problem_not_found, None)
      | Inr (Some p) \<Rightarrow>
          if p_source p = UserSubmitted \<and> \<not> hd_enableImportedProblemHints deps then
            (rejectHintRequest sess msg_imported_hints_disabled, None)
          else
            (let messages = buildLLMMessages (llm_options p doc r) (hd_maxLLMPromptChars deps)
             in ([], Some (if hd_hasLlmLimiter deps then AwaitLlmSlot messages else AwaitLlmReserve messages))))"

definition llmSlotAnswered ::
  "hint_session \<Rightarrow> hint_message list \<Rightarrow> unit awaited \<Rightarrow> eff list \<times> hint_k option" where
  "llmSlotAnswered sess messages answer =
     (case answer of
        Inl err \<Rightarrow> (deliverCatch sess err, None)
      | Inr _ \<Rightarrow> ([], Some (AwaitLlmReserve messages)))"

definition llmReserved ::
  "hint_session \<Rightarrow> bool awaited \<Rightarrow> room \<Rightarrow> room \<times> eff list \<times> hint_k option" where
  "llmReserved sess answer r =
     (case answer of
        Inl err \<Rightarrow> (r, deliverCatch sess err, None)
      | Inr reserved \<Rightarrow>
          if reserved then (r\<lparr>hintStreaming := True\<rparr>, [], Some (AwaitChunk []))
          else (r, rejectHintRequest sess msg_daily_llm, None))"

section \<open>Streaming\<close>

definition mentions_policy :: "string \<Rightarrow> bool" where
  "mentions_policy msg \<longleftrightarrow>
     (let m = toLowerCase msg
      in includes_str ''empty'' m \<or> includes_str ''code'' m \<or> includes_str ''solution'' m)"

definition classifyHintStreamFailure :: "exn \<Rightarrow> string" where
  "classifyHintStreamFailure err =
     (if err \<noteq> OtherExn \<and> mentions_policy (exn_text [] err) then msg_hint_blocked
      else msg_hint_generation_failed)"

fun policy_exn :: "hint_policy_error \<Rightarrow> exn" where
  "policy_exn EmptyHint = ErrorExn ''Generated hint was empty.''"
| "policy_exn LooksLikeCode = ErrorExn ''Generated hint looked like code or a full solution.''"

definition streamFailed :: "hint_session \<Rightarrow> exn \<Rightarrow> room \<Rightarrow> room \<times> eff list" where
  "streamFailed sess err r =
     (r\<lparr>hintStreaming := False\<rparr>, rejectHintRequest sess (classifyHintStreamFailure err))"

definition streamEnded :: "hint_deps \<Rightarrow> hint_session \<Rightarrow> string \<Rightarrow> room \<Rightarrow> room \<times> eff list" where
  "streamEnded deps sess generatedHint r =
     (case sanitizeLLMHint generatedHint (hd_maxLLMHintChars deps) of
        Inl e \<Rightarrow> streamFailed sess (policy_exn e) r
      | Inr fullHint \<Rightarrow>
          (let r1 = r\<lparr>hintsUsed := hintsUsed r + 1, llmCallsUsed := llmCallsUsed r + 1,
                      hintHistory := hintHistory r @ [fullHint]\<rparr>
           in (r1\<lparr>hintStreaming := False\<rparr>, emitHintDelivered sess r1 fullHint)))"

datatype stream_event = Chunk string | StreamDone | StreamError exn

definition streamEvent ::
  "hint_deps \<Rightarrow> hint_session \<Rightarrow> string \<Rightarrow> stream_event \<Rightarrow> room \<Rightarrow> room \<times> eff list \<times> hint_k option" where
  "streamEvent deps sess generatedHint ev r =
     (case ev of
        Chunk chunk \<Rightarrow>
          (let generated = generatedHint @ chunk;
               sent = [ToRoom (hs_roomCode sess) (HintChunk chunk)]
           in if hd_maxLLMHintChars deps * 2 < int (length generated) then
                (let (r1, effs) = streamEnded deps sess generated r in (r1, sent @ effs, None))
              else (r, sent, Some (AwaitChunk generated)))
      | StreamDone \<Rightarrow> (let (r1, effs) = streamEnded deps sess generatedHint r in (r1, effs, None))
      | StreamError err \<Rightarrow> (let (r1, effs) = streamFailed sess err r in (r1, effs, None)))"

section \<open>Lemmas\<close>

text \<open>Every pending request is either answerable: a consent timer runs for it.\<close>

definition consent_ok :: "room \<Rightarrow> nat option \<Rightarrow> bool" where
  "consent_ok r consent \<longleftrightarrow> (pendingHintRequest r \<noteq> None \<longrightarrow> consent \<noteq> None)"

lemma connected_two:
  assumes "2 \<le> connectedUserCount r" and "distinct (map socketId (filter connected (users r)))"
  shows "\<exists>u \<in> set (users r). connected u \<and> socketId u \<noteq> Some sid"
proof (rule ccontr)
  assume "\<not> (\<exists>u \<in> set (users r). connected u \<and> socketId u \<noteq> Some sid)"
  then have "\<forall>x \<in> set (map socketId (filter connected (users r))). x = Some sid" by auto
  then have "set (map socketId (filter connected (users r))) \<subseteq> {Some sid}" by auto
  then have "card (set (map socketId (filter connected (users r)))) \<le> 1"
    by (metis card.empty card_insert_le_m1 card_mono finite.emptyI finite.insertI is_singletonI is_singleton_altdef)
  with assms show False by (simp add: connectedUserCount_def distinct_card del: set_map)
qed

lemma sendPendingHintRequest_consent:
  assumes "2 \<le> connectedUserCount r" and "distinct (map socketId (filter connected (users r)))"
    and "\<forall>u \<in> set (users r). connected u \<longrightarrow> truthy_text (socketId u)"
    and "pendingHintRequest r = None"
    and "sendPendingHintRequest sess now t r consent = (r', consent', effs)"
  shows "consent_ok r' consent'"
proof (cases "List.find (\<lambda>u. socketId u = Some (sock_id (hs_sock sess))) (users r)")
  case None
  with assms(4,5) show ?thesis by (simp add: sendPendingHintRequest_def consent_ok_def)
next
  case (Some requester)
  obtain v where "List.find (\<lambda>u. connected u \<and> socketId u \<noteq> Some (sock_id (hs_sock sess))) (users r) = Some v"
    using connected_two [OF assms(1,2), of "sock_id (hs_sock sess)"]
    by (cases "List.find (\<lambda>u. connected u \<and> socketId u \<noteq> Some (sock_id (hs_sock sess))) (users r)")
      (auto simp: find_None_mem)
  moreover from this have "truthy_text (socketId v)"
    using assms(3) by (auto dest!: find_Some_mem)
  ultimately show ?thesis
    using Some assms(5) by (auto simp: sendPendingHintRequest_def consent_ok_def Let_def)
qed

text \<open>A whole stream: the chunks in order, then its end.\<close>

fun stream_all :: "hint_deps \<Rightarrow> hint_session \<Rightarrow> string \<Rightarrow> string list \<Rightarrow> room \<Rightarrow> room \<times> eff list" where
  "stream_all deps sess g [] r = (let (r', effs, k) = streamEvent deps sess g StreamDone r in (r', effs))"
| "stream_all deps sess g (c # cs) r =
     (let (r', effs, k) = streamEvent deps sess g (Chunk c) r in
      case k of
        Some (AwaitChunk g') \<Rightarrow> (let (r2, effs2) = stream_all deps sess g' cs r' in (r2, effs @ effs2))
      | _ \<Rightarrow> (r', effs))"

lemma stream_all_chunks:
  assumes "int (length (g @ concat cs)) \<le> hd_maxLLMHintChars deps * 2"
  shows "stream_all deps sess g cs r =
    (let (r', effs) = streamEnded deps sess (g @ concat cs) r
     in (r', map (\<lambda>c. ToRoom (hs_roomCode sess) (HintChunk c)) cs @ effs))"
  using assms
  by (induction cs arbitrary: g) (auto simp: streamEvent_def Let_def split: prod.splits)

lemma find_other:
  assumes "List.find (\<lambda>u. connected u \<and> socketId u \<noteq> Some sid) us = Some v"
  shows "v \<in> set us" "connected v" "socketId v \<noteq> Some sid"
  using find_Some_mem [OF assms] by auto

lemma findBySocketId_any:
  assumes "room_wf r"
  shows "findBySocketId sid r = List.find (\<lambda>u. socketId u = Some sid) (users r)"
  unfolding findBySocketId_def
  by (rule find_cong_list) (use assms in \<open>auto simp: room_wf_def user_ok_def\<close>)

definition duo :: room where
  "duo = (fst (addUser ''u2'' (sample_token CHR ''b'') 0 ''Bo'' Peer ''s2''
           (fst (addUser ''u1'' (sample_token CHR ''a'') 0 ''Ada'' Peer ''s1''
             (new_room ''aaa-aaa'' Collaboration no_options ''y'' 0)))))
         \<lparr>problemId := Some ''p'', hintLimit := 2\<rparr>"

lemma duo_users: "users duo =
   [\<lparr>userId = ''u1'', displayName = ''Ada'', role = Peer, connected = True,
     reconnectToken = sample_token CHR ''a'', socketId = Some ''s1''\<rparr>,
    \<lparr>userId = ''u2'', displayName = ''Bo'', role = Peer, connected = True,
     reconnectToken = sample_token CHR ''b'', socketId = Some ''s2''\<rparr>]"
  by (simp add: duo_def addUser_def new_room_def Let_def)

lemma duo_wf: "room_wf duo"
  by (simp add: room_wf_def duo_users user_ok_def MAX_USERS_def) (simp add: duo_def addUser_def new_room_def Let_def)

section \<open>Properties\<close>

text \<open>
  What a hint request does once the cooldown has passed, in a room whose connected members
  sit on distinct sockets: if the room is not ready it changes nothing and the requester is told
  why; alone, the requester is served at once; with company the request is recorded under the
  requester's id, a consent timer runs for it, and exactly one other connected member is asked.
\<close>

theorem hint_request_outcome:
  assumes cool: "cooldown \<le> now - (case lst of None \<Rightarrow> 0 | Some t \<Rightarrow> t)"
    and dist: "distinct (map socketId (filter connected (users r)))"
    and socks: "\<forall>u \<in> set (users r). connected u \<longrightarrow> truthy_text (socketId u)"
    and wf: "room_wf r" and me: "findBySocketId (sock_id (hs_sock sess)) r = Some me"
    and res: "handleHintRequest sess cooldown now lst timer r consent = (r', consent', lst', effs, k)"
  shows "lst' = Some now \<and>
    (case hint_room_check r of
       Some msg \<Rightarrow> r' = r \<and> consent' = consent \<and> k = None \<and> effs = [ToSocket (sock_id (hs_sock sess)) (HintError msg)]
     | None \<Rightarrow>
         if connectedUserCount r \<le> 1 then r' = r \<and> consent' = consent \<and> k = Some AwaitStoredHint \<and> effs = []
         else pendingHintRequest r' = Some \<lparr>requestedBy = userId me, requestedAt = now\<rparr>
           \<and> consent' = Some timer \<and> k = None
           \<and> (\<exists>other \<in> set (users r). connected other \<and> socketId other \<noteq> Some (sock_id (hs_sock sess)) \<and>
                effs = [ToRoom (hs_roomCode sess) (RoomSync (toSyncPayload r')),
                        ToSocket (the (socketId other)) (HintPending \<lparr>hp_requestedBy = userId me,
                          hp_displayName = displayName me, hp_hintsUsed = hintsUsed r, hp_hintLimit = hintLimit r\<rparr>)]))"
proof (cases "hint_room_check r")
  case (Some msg)
  with cool res show ?thesis
    by (auto simp: handleHintRequest_def getHintRequestRejection_def rejectHintRequest_def emitScopedEvent_def)
next
  case None
  show ?thesis
  proof (cases "connectedUserCount r \<le> 1")
    case True
    with None cool res show ?thesis by (simp add: handleHintRequest_def getHintRequestRejection_def)
  next
    case False
    let ?sid = "sock_id (hs_sock sess)"
    have first: "List.find (\<lambda>u. socketId u = Some ?sid) (users r) = Some me"
      using findBySocketId_any [OF wf] me by simp
    obtain other where o: "List.find (\<lambda>u. connected u \<and> socketId u \<noteq> Some ?sid) (users r) = Some other"
      using connected_two [OF _ dist, of ?sid] False
      by (cases "List.find (\<lambda>u. connected u \<and> socketId u \<noteq> Some ?sid) (users r)") (auto simp: find_None_mem)
    with socks have "truthy_text (socketId other)" using find_other [OF o] by blast
    with None False cool res o find_other [OF o] first show ?thesis
      by (auto simp: handleHintRequest_def getHintRequestRejection_def sendPendingHintRequest_def Let_def)
  qed
qed

theorem hint_request_outcome_witness:
  "\<exists>r' lst' effs. handleHintRequest \<lparr>hs_sock = sample_sock ''s1'', hs_roomCode = ''aaa-aaa''\<rparr> 5000 9000 None 3 duo None
     = (r', Some 3, lst', effs, None) \<and> pendingHintRequest r' = Some \<lparr>requestedBy = ''u1'', requestedAt = 9000\<rparr>"
proof -
  let ?sess = "\<lparr>hs_sock = sample_sock ''s1'', hs_roomCode = ''aaa-aaa''\<rparr>"
  obtain r' c' l' e k where res: "handleHintRequest ?sess 5000 9000 None 3 duo None = (r', c', l', e, k)"
    by (metis prod_cases5)
  have check: "hint_room_check duo = None"
    by (simp add: hint_room_check_def duo_def addUser_def new_room_def truthy_text_def Let_def)
  have sid: "sock_id (hs_sock ?sess) = ''s1''" by (simp add: sample_sock_def)
  have me: "findBySocketId (sock_id (hs_sock ?sess)) duo = Some (hd (users duo))"
    unfolding sid by (simp add: findBySocketId_def duo_users)
  from hint_request_outcome [OF _ _ _ duo_wf me res] check res show ?thesis
    by (simp add: duo_users truthy_text_def connectedUserCount_def)
qed

text \<open>
  How a generated hint ends, whatever its chunks are (within the accumulation limit): every
  chunk has been sent to the whole room first, in order; then, if the text passes the output
  policy, the room gets the finished hint and the counters go up by one, and otherwise only the
  requester is told that it was blocked, with the room's counters as before - the blocked text is
  already on both screens. In both cases the streaming flag is cleared.
\<close>

theorem generated_hint_outcome:
  assumes "int (length (concat cs)) \<le> hd_maxLLMHintChars deps * 2"
    and "stream_all deps sess [] cs r = (r', effs)"
  shows "\<not> hintStreaming r' \<and>
    (case sanitizeLLMHint (concat cs) (hd_maxLLMHintChars deps) of
       Inr text \<Rightarrow> hintsUsed r' = hintsUsed r + 1 \<and> llmCallsUsed r' = llmCallsUsed r + 1
         \<and> hintHistory r' = hintHistory r @ [text]
         \<and> effs = map (\<lambda>c. ToRoom (hs_roomCode sess) (HintChunk c)) cs
                @ [ToRoom (hs_roomCode sess) (HintDone text (int (hintLimit r) - int (hintsUsed r) - 1))]
     | Inl e \<Rightarrow> r' = r\<lparr>hintStreaming := False\<rparr>
         \<and> effs = map (\<lambda>c. ToRoom (hs_roomCode sess) (HintChunk c)) cs
                @ [ToSocket (sock_id (hs_sock sess)) (HintError msg_hint_blocked)])"
proof -
  have blocked: "classifyHintStreamFailure (policy_exn e) = msg_hint_blocked" for e
    by (cases e; simp only:; code_simp)
  from assms stream_all_chunks [of "[]" cs deps sess r]
  have "(r', effs) = (let (r', effs) = streamEnded deps sess (concat cs) r
     in (r', map (\<lambda>c. ToRoom (hs_roomCode sess) (HintChunk c)) cs @ effs))" by simp
  then show ?thesis
    by (cases "sanitizeLLMHint (concat cs) (hd_maxLLMHintChars deps)")
      (simp_all add: streamEnded_def streamFailed_def blocked emitHintDelivered_def rejectHintRequest_def
        emitScopedEvent_def Let_def)
qed

theorem generated_hint_outcome_witness:
  "\<exists>effs. stream_all
      \<lparr>hd_hasGroqClient = True, hd_enableLLMHintFallback = True, hd_enableImportedProblemHints = False,
       hd_maxLLMPromptChars = 4000, hd_maxLLMHintChars = 500, hd_maxLLMCallsPerRoom = 5,
       hd_hasIpLimiter = False, hd_hasLlmLimiter = False\<rparr>
      \<lparr>hs_sock = sample_sock ''s1'', hs_roomCode = ''aaa-aaa''\<rparr> [] [''Use '', code_fence] duo = (duo, effs)
    \<and> effs = [ToRoom ''aaa-aaa'' (HintChunk ''Use ''), ToRoom ''aaa-aaa'' (HintChunk code_fence),
              ToSocket ''s1'' (HintError msg_hint_blocked)]"
proof -
  let ?deps = "\<lparr>hd_hasGroqClient = True, hd_enableLLMHintFallback = True, hd_enableImportedProblemHints = False,
       hd_maxLLMPromptChars = 4000, hd_maxLLMHintChars = 500, hd_maxLLMCallsPerRoom = 5,
       hd_hasIpLimiter = False, hd_hasLlmLimiter = False\<rparr> :: hint_deps"
  let ?sess = "\<lparr>hs_sock = sample_sock ''s1'', hs_roomCode = ''aaa-aaa''\<rparr>"
  obtain r' effs where run: "stream_all ?deps ?sess [] [''Use '', code_fence] duo = (r', effs)" by fastforce
  have "sanitizeLLMHint (concat [''Use '', code_fence]) 500 = Inl LooksLikeCode" by code_simp
  moreover have "hintStreaming duo = False" by (simp add: duo_def addUser_def new_room_def Let_def)
  moreover have "duo\<lparr>hintStreaming := False\<rparr> = duo"
    by (rule room.equality) (simp_all add: duo_def addUser_def new_room_def Let_def)
  ultimately show ?thesis
    using generated_hint_outcome [OF _ run] run by (simp add: code_fence_def sample_sock_def)
qed

end
