(* ===== verification/Leetcode_Url.thy ===== *)
theory Leetcode_Url
  imports Prelude
begin

text \<open>
  LeetCode links: \<^verbatim>\<open>packages/shared/src/leetcodeUrl.ts\<close>. The platform's
  \<^verbatim>\<open>new URL\<close> is the parameter \<open>parse_url\<close>: the host name and path of a valid URL,
  \<open>None\<close> when the constructor throws.
\<close>

definition slug_char :: "char \<Rightarrow> bool" where
  "slug_char c \<longleftrightarrow> word_char c \<or> c = CHR ''-''"

definition ascii_lower :: "char \<Rightarrow> char" where
  "ascii_lower c = (let n = of_char c :: nat in if 65 \<le> n \<and> n \<le> 90 then char_of (n + 32) else c)"

text \<open>A case-insensitive prefix test, as the patterns with the flag \<^verbatim>\<open>i\<close>.\<close>

definition starts_with_ci :: "string \<Rightarrow> string \<Rightarrow> bool" where
  "starts_with_ci p s \<longleftrightarrow> starts_with p (map ascii_lower s)"

definition with_scheme :: "string \<Rightarrow> string" where
  "with_scheme trimmed =
     (let urlString =
        (if starts_with_ci ''www.'' trimmed then ''https://'' @ trimmed
         else if starts_with_ci ''http://'' trimmed \<or> starts_with_ci ''https://'' trimmed then trimmed
         else ''https://'' @ trimmed)
      in if starts_with_ci ''http://'' urlString then ''https://'' @ drop 7 urlString else urlString)"

definition path_slug :: "string \<Rightarrow> string option" where
  "path_slug pathname =
     (if starts_with ''/problems/'' pathname then
        (let slug = takeWhile slug_char (drop 10 pathname) in if slug = [] then None else Some slug)
      else None)"

record leetcode_url =
  lc_slug :: string
  lc_canonicalUrl :: string

definition normalizeLeetCodeUrl ::
  "(string \<Rightarrow> (string \<times> string) option) \<Rightarrow> string \<Rightarrow> leetcode_url option" where
  "normalizeLeetCodeUrl parse_url input =
     (let trimmed = trim input in
      if trimmed = [] then None
      else case parse_url (with_scheme trimmed) of
        None \<Rightarrow> None
      | Some (host, pathname) \<Rightarrow>
          (let hostname = toLowerCase host in
           if hostname \<noteq> ''leetcode.com'' \<and> hostname \<noteq> ''www.leetcode.com'' then None
           else case path_slug pathname of
             None \<Rightarrow> None
           | Some slug \<Rightarrow>
               Some \<lparr>lc_slug = slug,
                     lc_canonicalUrl = ''https://leetcode.com/problems/'' @ slug @ ''/''\<rparr>))"

section \<open>Lemmas\<close>

lemma path_slug_chars: "path_slug p = Some s \<Longrightarrow> s \<noteq> [] \<and> (\<forall>c \<in> set s. slug_char c)"
  by (auto simp: path_slug_def Let_def split: if_splits dest: set_takeWhileD)

lemma slug_char_not_ws: "slug_char c \<Longrightarrow> \<not> is_ws c \<and> c \<noteq> CHR ''/''"
  by (auto simp: slug_char_def word_char_def is_ws_def Let_def)

lemma takeWhile_slug:
  "\<forall>c \<in> set s. slug_char c \<Longrightarrow> takeWhile slug_char (s @ ''/'') = s"
  by (simp add: takeWhile_append2) (simp add: slug_char_def word_char_def)

lemma with_scheme_https: "with_scheme (''https://'' @ s) = ''https://'' @ s"
  by (simp add: with_scheme_def starts_with_ci_def starts_with_def ascii_lower_def Let_def)

section \<open>Properties\<close>

text \<open>
  Whatever is accepted as a LeetCode link becomes a link to \<^verbatim>\<open>leetcode.com\<close> over
  https whose slug is a non-empty word of letters, digits, underscores and dashes, so it cannot leave the
  problems path or carry a query; and the canonical link is accepted again and maps to itself,
  when the platform parses such links as usual.
\<close>

theorem normalizeLeetCodeUrl_canonical:
  assumes "normalizeLeetCodeUrl parse_url input = Some u"
    and "parse_url (lc_canonicalUrl u) = Some (''leetcode.com'', ''/problems/'' @ lc_slug u @ ''/'')"
  shows "lc_canonicalUrl u = ''https://leetcode.com/problems/'' @ lc_slug u @ ''/''
    \<and> lc_slug u \<noteq> [] \<and> list_all slug_char (lc_slug u)
    \<and> normalizeLeetCodeUrl parse_url (lc_canonicalUrl u) = Some u"
proof -
  from assms(1) obtain pathname where p: "path_slug pathname = Some (lc_slug u)"
    and c: "lc_canonicalUrl u = ''https://leetcode.com/problems/'' @ lc_slug u @ ''/''"
    by (auto simp: normalizeLeetCodeUrl_def Let_def split: if_splits option.splits prod.splits)
  note s = path_slug_chars [OF p]
  have t: "trim (lc_canonicalUrl u) = lc_canonicalUrl u"
    unfolding c by (rule trim_fix) (simp_all add: is_ws_def)
  have w: "with_scheme (lc_canonicalUrl u) = lc_canonicalUrl u"
    using with_scheme_https [of "''leetcode.com/problems/'' @ lc_slug u @ ''/''"] unfolding c by simp
  have "path_slug (''/problems/'' @ lc_slug u @ ''/'') = Some (lc_slug u)"
    using s takeWhile_slug [of "lc_slug u"] by (simp add: path_slug_def starts_with_def Let_def)
  moreover have "toLowerCase ''leetcode.com'' = ''leetcode.com''" by code_simp
  moreover have "lc_canonicalUrl u \<noteq> []" by (simp add: c)
  ultimately have "normalizeLeetCodeUrl parse_url (lc_canonicalUrl u)
      = Some \<lparr>lc_slug = lc_slug u, lc_canonicalUrl = lc_canonicalUrl u\<rparr>"
    unfolding normalizeLeetCodeUrl_def t w Let_def using assms(2) c by simp
  with c s show ?thesis by (simp add: list_all_iff)
qed

definition sample_parse_url :: "string \<Rightarrow> (string \<times> string) option" where
  "sample_parse_url s =
     (if starts_with ''https://'' s then
        (let r = drop 8 s in Some (takeWhile (\<lambda>c. c \<noteq> CHR ''/'') r, dropWhile (\<lambda>c. c \<noteq> CHR ''/'') r))
      else None)"

theorem normalizeLeetCodeUrl_canonical_witness:
  "normalizeLeetCodeUrl sample_parse_url ''https://leetcode.com/problems/two-sum/''
     = Some \<lparr>lc_slug = ''two-sum'', lc_canonicalUrl = ''https://leetcode.com/problems/two-sum/''\<rparr>"
proof -
  let ?u = "\<lparr>lc_slug = ''two-sum'', lc_canonicalUrl = ''https://leetcode.com/problems/two-sum/''\<rparr>"
  have "normalizeLeetCodeUrl sample_parse_url ''  LeetCode.com/problems/two-sum?x=1'' = Some ?u"
    by code_simp
  moreover have "sample_parse_url (lc_canonicalUrl ?u) = Some (''leetcode.com'', ''/problems/'' @ lc_slug ?u @ ''/'')"
    by code_simp
  ultimately show ?thesis
    using normalizeLeetCodeUrl_canonical [of sample_parse_url _ ?u] by simp
qed

end
