(* ===== verification/Problem_Handler.thy ===== *)
theory Problem_Handler
  imports Session Reliability_Store Operation_Limiter Room_Handler Leetcode_Url
begin

text \<open>
  Selecting and importing a problem: \<^verbatim>\<open>handlers/problemHandler.ts\<close>,
  \<^verbatim>\<open>services/ProblemService.ts\<close> and \<^verbatim>\<open>lib/pythonBoilerplate.ts\<close> of
  \<^verbatim>\<open>apps/server/src\<close>, cut at each \<^verbatim>\<open>await\<close>. The text of the shared
  document is passed and returned (\<open>None\<close>: there is no document). The repositories, the
  scraper, the UUID check of zod and \<^verbatim>\<open>new URL\<close> are parameters.
\<close>

section \<open>Problem details\<close>

definition FUTURE_IMPORT :: string where
  "FUTURE_IMPORT = ''from __future__ import annotations''"

text \<open>\<^verbatim>\<open>(?:\r?\n)\<close>, once; the rest after it if it matches.\<close>

fun after_line_break :: "string \<Rightarrow> string option" where
  "after_line_break (c # d # s) =
     (if c = CHR 0x0D \<and> d = CHR 0x0A then Some s
      else if c = CHR 0x0A then Some (d # s) else None)"
| "after_line_break [c] = (if c = CHR 0x0A then Some [] else None)"
| "after_line_break [] = None"

definition stripPythonFutureAnnotationsImport :: "string \<Rightarrow> string" where
  "stripPythonFutureAnnotationsImport t =
     (if length (trim t) = 0 then t
      else if starts_with FUTURE_IMPORT t then
        (case after_line_break (drop (length FUTURE_IMPORT) t) of
           None \<Rightarrow> t
         | Some rest \<Rightarrow> (case after_line_break rest of None \<Rightarrow> rest | Some rest2 \<Rightarrow> rest2))
      else t)"

definition getById ::
  "(string \<Rightarrow> problem option) \<Rightarrow> (string \<Rightarrow> test_case list) \<Rightarrow>
   (string \<Rightarrow> string \<Rightarrow> boilerplate_template option) \<Rightarrow> string \<Rightarrow> problem_detail option" where
  "getById findById findVisible findByProblemAndLanguage pid =
     (case findById pid of
        None \<Rightarrow> None
      | Some p \<Rightarrow>
          Some \<lparr>pd_problem = p, pd_visibleTestCases = findVisible pid,
                pd_boilerplate = map_option
                  (\<lambda>b. b\<lparr>bp_template := stripPythonFutureAnnotationsImport (bp_template b)\<rparr>)
                  (findByProblemAndLanguage pid ''python'')\<rparr>)"

section \<open>Loading a problem into the room\<close>

record problem_session =
  ps_sock :: socket_ctx
  ps_roomCode :: string

record problem_deps =
  pb_importsPerHour :: nat
  pb_enableProblemImport :: bool
  pb_importsDailyLimit :: nat
  pb_hasGenerateTestCases :: bool
  pb_hasImportLimiter :: bool

definition emitProblemLoadError :: "problem_session \<Rightarrow> string \<Rightarrow> eff list" where
  "emitProblemLoadError sess msg = emitScopedEvent (ps_sock sess) None (ProblemError msg) ScopeSocket"

definition emitImportStatusToSender :: "problem_session \<Rightarrow> string \<Rightarrow> nat option \<Rightarrow> eff list" where
  "emitImportStatusToSender sess msg retry =
     [ToSocket (sock_id (ps_sock sess)) (ProblemImportStatus Failed (Some msg) retry)]"

definition emitImportStatusToRoom :: "problem_session \<Rightarrow> ImportStatus \<Rightarrow> string option \<Rightarrow> eff list" where
  "emitImportStatusToRoom sess status msg =
     [ToRoom (ps_roomCode sess) (ProblemImportStatus status msg None)]"

definition loadProblemIntoRoom ::
  "problem_session \<Rightarrow> problem_detail \<Rightarrow> int \<Rightarrow> string option \<Rightarrow> room \<Rightarrow> room \<times> string option \<times> eff list" where
  "loadProblemIntoRoom sess detail now doc r =
     (let p = pd_problem detail;
          payload = loadedPayload detail
      in (switchProblem (p_id p) (HINT_LIMIT_BY_DIFFICULTY (p_difficulty p)) now r,
          map_option (\<lambda>_. pl_boilerplate payload) doc,
          [ToRoom (ps_roomCode sess) (ProblemLoaded payload)]))"

section \<open>Selecting\<close>

datatype problem_k =
    AwaitDetail string
  | AwaitImportLimit string
  | AwaitImportQuota string
  | AwaitImportSlot string
  | AwaitImportReserve string
  | AwaitScrape string
  | AwaitImported string

definition problemSelectSchema :: "(string \<Rightarrow> bool) \<Rightarrow> js_unknown \<Rightarrow> string option" where
  "problemSelectSchema is_uuid v =
     (case (is_object v, field ''problemId'' v) of
        (True, Some (JStr s)) \<Rightarrow> if is_uuid s then Some s else None
      | _ \<Rightarrow> None)"

definition handleProblemSelect ::
  "(string \<Rightarrow> bool) \<Rightarrow> problem_session \<Rightarrow> js_unknown \<Rightarrow> eff list \<times> problem_k option" where
  "handleProblemSelect is_uuid sess data =
     (case validatePayloadOrReject (problemSelectSchema is_uuid) data
             (Some ''Invalid problem selection payload.'') (emitProblemLoadError sess) of
        Inl effs \<Rightarrow> (effs, None)
      | Inr pid \<Rightarrow> ([], Some (AwaitDetail pid)))"

definition detailLoaded ::
  "problem_session \<Rightarrow> int \<Rightarrow> problem_detail option awaited \<Rightarrow> string option \<Rightarrow> room \<Rightarrow>
   room \<times> string option \<times> eff list" where
  "detailLoaded sess now answer doc r =
     (case answer of
        Inl err \<Rightarrow> (r, doc, emitProblemLoadError sess ''Failed to load problem. Please try again.'')
      | Inr None \<Rightarrow> (r, doc, emitProblemLoadError sess ''Problem not found.'')
      | Inr (Some detail) \<Rightarrow> loadProblemIntoRoom sess detail now doc r)"

section \<open>Importing\<close>

definition problemImportSchema ::
  "(string \<Rightarrow> (string \<times> string) option) \<Rightarrow> js_unknown \<Rightarrow> string option" where
  "problemImportSchema parse_url v =
     (case (is_object v, field ''leetcodeUrl'' v) of
        (True, Some (JStr s)) \<Rightarrow>
          if s = [] then None
          else map_option lc_canonicalUrl (normalizeLeetCodeUrl parse_url s)
      | _ \<Rightarrow> None)"

definition msg_import_disabled :: string where
  "msg_import_disabled = ''Problem import is disabled.''"
definition msg_too_many_imports :: "nat \<Rightarrow> string" where
  "msg_too_many_imports s = ''Too many import attempts. Try again in '' @ string_of_nat s @ ''s.''"
definition msg_session_import_limit :: "nat \<Rightarrow> string" where
  "msg_session_import_limit n =
     ''Session import limit reached ('' @ string_of_nat n @ ''/'' @ string_of_nat n @ '').''"
definition msg_daily_imports :: string where
  "msg_daily_imports = ''Daily import limit reached. Please try again tomorrow.''"
definition msg_import_busy :: "nat \<Rightarrow> string" where
  "msg_import_busy s = ''Import service is busy. Try again in '' @ string_of_nat s @ ''s.''"

definition validateProblemImport ::
  "(string \<Rightarrow> (string \<times> string) option) \<Rightarrow> problem_deps \<Rightarrow> problem_session \<Rightarrow> js_unknown \<Rightarrow>
   eff list \<times> problem_k option" where
  "validateProblemImport parse_url deps sess data =
     (if \<not> pb_enableProblemImport deps then (emitImportStatusToSender sess msg_import_disabled None, None)
      else case validatePayloadOrReject (problemImportSchema parse_url) data
             (Some ''Invalid problem import payload.'') (\<lambda>msg. emitImportStatusToSender sess msg None) of
        Inl effs \<Rightarrow> (effs, None)
      | Inr url \<Rightarrow> ([], Some (AwaitImportLimit url)))"

definition importLimitChecked ::
  "problem_session \<Rightarrow> string \<Rightarrow> rate_limit_check_result \<Rightarrow> room \<Rightarrow> eff list \<times> problem_k option" where
  "importLimitChecked sess url importCheck r =
     (if \<not> allowed importCheck then
        (emitImportStatusToSender sess (msg_too_many_imports (retryAfter importCheck))
           (Some (retryAfter importCheck)), None)
      else if importLimit r \<le> importsUsed r then
        (emitImportStatusToSender sess (msg_session_import_limit (importLimit r)) None, None)
      else ([], Some (AwaitImportQuota url)))"

definition importQuotaChecked ::
  "problem_deps \<Rightarrow> problem_session \<Rightarrow> string \<Rightarrow> bool \<Rightarrow> eff list \<times> problem_k option" where
  "importQuotaChecked deps sess url canImport =
     (if \<not> canImport then (emitImportStatusToSender sess msg_daily_imports None, None)
      else (emitImportStatusToRoom sess Scraping None,
            Some (if pb_hasImportLimiter deps then AwaitImportSlot url else AwaitImportReserve url)))"

definition importCatch :: "problem_session \<Rightarrow> exn \<Rightarrow> eff list" where
  "importCatch sess err =
     (if is_operation_limit err then
        emitImportStatusToSender sess (msg_import_busy OPERATION_RETRY_AFTER_SECONDS)
          (Some OPERATION_RETRY_AFTER_SECONDS)
      else emitImportStatusToRoom sess Failed (Some (exn_text ''Failed to import problem.'' err)))"

definition importSlotAnswered ::
  "problem_session \<Rightarrow> string \<Rightarrow> unit awaited \<Rightarrow> eff list \<times> problem_k option" where
  "importSlotAnswered sess url answer =
     (case answer of
        Inl err \<Rightarrow> (importCatch sess err, None)
      | Inr _ \<Rightarrow> ([], Some (AwaitImportReserve url)))"

definition importReserved ::
  "problem_session \<Rightarrow> string \<Rightarrow> bool awaited \<Rightarrow> eff list \<times> problem_k option" where
  "importReserved sess url answer =
     (case answer of
        Inl err \<Rightarrow> (importCatch sess err, None)
      | Inr reserved \<Rightarrow>
          if reserved then ([], Some (AwaitScrape url))
          else (emitImportStatusToSender sess msg_daily_imports None, None))"

definition scraped ::
  "problem_session \<Rightarrow> string awaited \<Rightarrow> eff list \<times> problem_k option" where
  "scraped sess answer =
     (case answer of
        Inl err \<Rightarrow> (importCatch sess err, None)
      | Inr pid \<Rightarrow> ([], Some (AwaitImported pid)))"

text \<open>
  The end of an import; the last component is the problem that background test generation is
  started for.
\<close>

definition importedLoaded ::
  "problem_deps \<Rightarrow> problem_session \<Rightarrow> int \<Rightarrow> problem_detail option awaited \<Rightarrow> string option \<Rightarrow> room \<Rightarrow>
   room \<times> string option \<times> eff list \<times> problem_detail option" where
  "importedLoaded deps sess now answer doc r =
     (case answer of
        Inl err \<Rightarrow> (r, doc, importCatch sess err, None)
      | Inr None \<Rightarrow>
          (r, doc, importCatch sess (ErrorExn ''Imported problem could not be loaded.''), None)
      | Inr (Some detail) \<Rightarrow>
          (let (r1, doc1, effs) = loadProblemIntoRoom sess detail now doc r
           in (r1\<lparr>importsUsed := importsUsed r1 + 1\<rparr>, doc1,
               effs @ emitImportStatusToRoom sess Saved None,
               if pb_hasGenerateTestCases deps \<and> pd_boilerplate detail \<noteq> None then Some detail else None)))"

section \<open>Lemmas\<close>

lemma loadProblemIntoRoom_room [frame_simps]:
  "fst (loadProblemIntoRoom sess d now doc r) =
   switchProblem (p_id (pd_problem d)) (HINT_LIMIT_BY_DIFFICULTY (p_difficulty (pd_problem d))) now r"
  by (simp add: loadProblemIntoRoom_def Let_def)

lemma detailLoaded_cases:
  "fst (detailLoaded sess now answer doc r) = r \<or>
   (\<exists>pid l. fst (detailLoaded sess now answer doc r) = switchProblem pid l now r)"
  by (auto simp: detailLoaded_def loadProblemIntoRoom_room split: sum.split option.split)

lemma importedLoaded_cases:
  "fst (importedLoaded deps sess now answer doc r) = r \<or>
   (\<exists>pid l. fst (importedLoaded deps sess now answer doc r) =
      (switchProblem pid l now r)\<lparr>importsUsed := importsUsed r + 1\<rparr>)"
  by (auto simp: importedLoaded_def loadProblemIntoRoom_def Let_def switchProblem_def
      split: sum.split option.split)

section \<open>Properties\<close>

text \<open>
  Loading a problem resets everything that belonged to the old one and nothing else: no hints
  used, the hint limit of the new difficulty (one to three), no pending hint request, no custom
  tests, the shared document replaced by the boilerplate; members, submissions, imports and flags
  stay, and the whole room is sent the problem that was loaded.
\<close>

theorem problem_load_resets_round:
  assumes "loadProblemIntoRoom sess detail now doc r = (r', doc', effs)"
  shows "problemId r' = Some (p_id (pd_problem detail)) \<and> hintsUsed r' = 0
    \<and> 1 \<le> hintLimit r' \<and> hintLimit r' \<le> 3 \<and> pendingHintRequest r' = None \<and> hintHistory r' = []
    \<and> customTestCases r' = []
    \<and> (doc' = None \<longleftrightarrow> doc = None)
    \<and> (case doc' of None \<Rightarrow> True
       | Some t \<Rightarrow> t = (case pd_boilerplate detail of None \<Rightarrow> [] | Some b \<Rightarrow> bp_template b))
    \<and> effs = [ToRoom (ps_roomCode sess) (ProblemLoaded (loadedPayload detail))]
    \<and> users r' = users r \<and> submissionsUsed r' = submissionsUsed r \<and> importsUsed r' = importsUsed r
    \<and> llmCallsUsed r' = llmCallsUsed r \<and> executionInProgress r' = executionInProgress r
    \<and> hintStreaming r' = hintStreaming r \<and> gracePeriodTimers r' = gracePeriodTimers r
    \<and> yjsToken r' = yjsToken r"
  using assms HINT_LIMIT_pos [of "p_difficulty (pd_problem detail)"]
  by (auto simp: loadProblemIntoRoom_def switchProblem_def loadedPayload_def Let_def
      split: option.splits)

definition sample_problem :: problem where
  "sample_problem = \<lparr>p_id = ''p1'', p_slug = ''two-sum'', p_title = ''Two Sum'', p_difficulty = Medium,
     p_category = ''arrays'', p_description = [], p_constraints = [], p_solution = Some ''use a map'',
     p_timeLimitMs = 5000, p_source = Curated, p_sourceUrl = None, p_deletedAt = None,
     p_createdAt = [], p_updatedAt = []\<rparr>"

definition sample_detail :: problem_detail where
  "sample_detail = \<lparr>pd_problem = sample_problem, pd_visibleTestCases = [], pd_boilerplate = None\<rparr>"

theorem problem_load_resets_round_witness:
  "hintsUsed (fst (loadProblemIntoRoom \<lparr>ps_sock = sample_sock ''s1'', ps_roomCode = ''aaa-aaa''\<rparr>
      sample_detail 9 (Some ''old'') (sample_room\<lparr>hintsUsed := 2\<rparr>))) = 0"
proof -
  obtain r' doc' effs where "loadProblemIntoRoom \<lparr>ps_sock = sample_sock ''s1'', ps_roomCode = ''aaa-aaa''\<rparr>
      sample_detail 9 (Some ''old'') (sample_room\<lparr>hintsUsed := 2\<rparr>) = (r', doc', effs)"
    by (metis prod_cases3)
  from problem_load_resets_round [OF this] this show ?thesis by simp
qed

end
