(* ===== verification/Testcase_Handler.thy ===== *)
theory Testcase_Handler
  imports Session "HOL-Library.Char_ord" "HOL-Library.List_Lexorder" "HOL-Library.Multiset"
begin

text \<open>
  Custom test cases (\<^verbatim>\<open>handlers/testcaseHandler.ts\<close>) and the solution reveal
  (\<^verbatim>\<open>handlers/solutionHandler.ts\<close>) of \<^verbatim>\<open>apps/server/src\<close>, cut at
  their \<^verbatim>\<open>await\<close>. \<^verbatim>\<open>JSON.stringify\<close> is the parameter
  \<open>stringify\<close>.
\<close>

section \<open>Adding a test case\<close>

record testcase_payload =
  ta_input :: "(string \<times> json) list"
  ta_expectedOutput :: js_unknown

definition testcaseAddSchema :: "js_unknown \<Rightarrow> testcase_payload option" where
  "testcaseAddSchema v =
     (case (is_object v, field ''input'' v) of
        (True, Some (JObj kvs)) \<Rightarrow>
          Some \<lparr>ta_input = kvs, ta_expectedOutput = field ''expectedOutput'' v\<rparr>
      | _ \<Rightarrow> None)"

definition payload_object :: "testcase_payload \<Rightarrow> json" where
  "payload_object p =
     JObj ((''input'', JObj (ta_input p)) #
           (case ta_expectedOutput p of None \<Rightarrow> [] | Some e \<Rightarrow> [(''expectedOutput'', e)]))"

definition msg_select_before_testcase :: string where
  "msg_select_before_testcase = ''Select a problem before adding test cases.''"
definition msg_custom_limit :: "nat \<Rightarrow> string" where
  "msg_custom_limit n = ''Custom test case limit reached ('' @ string_of_nat n @ '').''"
definition msg_testcase_size :: string where
  "msg_testcase_size =
     ''Test case exceeds maximum size ('' @ string_of_nat (MAX_TEST_CASE_BYTES div 1024) @ ''KB).''"
definition msg_parameter_mismatch :: "string list \<Rightarrow> string" where
  "msg_parameter_mismatch names =
     ''Input keys must match parameter names: ['' @ join_with '', '' names @ ''].''"
definition msg_testcase_failed :: string where
  "msg_testcase_failed = ''Failed to add test case. Please try again.''"

datatype testcase_k = AwaitBoilerplate testcase_payload

definition emitTestcaseError :: "socket_ctx \<Rightarrow> string \<Rightarrow> eff list" where
  "emitTestcaseError sock msg = emitScopedEvent sock None (TestcaseError msg) ScopeSocket"

definition testcaseAdd ::
  "(json \<Rightarrow> string) \<Rightarrow> socket_ctx \<Rightarrow> js_unknown \<Rightarrow> room \<Rightarrow> eff list \<times> testcase_k option" where
  "testcaseAdd stringify sock data r =
     (if \<not> truthy_text (problemId r) then (emitTestcaseError sock msg_select_before_testcase, None)
      else case validatePayloadOrReject testcaseAddSchema data (Some ''Invalid test case payload.'')
                  (emitTestcaseError sock) of
        Inl effs \<Rightarrow> (effs, None)
      | Inr parsed \<Rightarrow>
          if customTestCaseLimit r \<le> length (customTestCases r) then
            (emitTestcaseError sock (msg_custom_limit (customTestCaseLimit r)), None)
          else if MAX_TEST_CASE_BYTES < utf8_length (stringify (payload_object parsed)) then
            (emitTestcaseError sock msg_testcase_size, None)
          else ([], Some (AwaitBoilerplate parsed)))"

definition keys_match :: "(string \<times> json) list \<Rightarrow> string list \<Rightarrow> bool" where
  "keys_match input parameterNames \<longleftrightarrow>
     (let inputKeys = sort (map fst input); paramKeys = sort parameterNames
      in length inputKeys = length paramKeys \<and> list_all2 (\<lambda>k p. k = p) inputKeys paramKeys)"

definition pushTestCase :: "socket_ctx \<Rightarrow> string \<Rightarrow> int \<Rightarrow> testcase_payload \<Rightarrow> room \<Rightarrow> room \<times> eff list" where
  "pushTestCase sock code now parsed r =
     (if customTestCaseLimit r \<le> length (customTestCases r) then
        (r, emitTestcaseError sock (msg_custom_limit (customTestCaseLimit r)))
      else
        (let testCase = \<lparr>ct_input = ta_input parsed, ct_expectedOutput = ta_expectedOutput parsed\<rparr>
         in (r\<lparr>customTestCases := customTestCases r @ [testCase], lastActivityAt := now\<rparr>,
             [ToRoom code (TestcaseAdded testCase)])))"

definition boilerplateLoaded ::
  "socket_ctx \<Rightarrow> string \<Rightarrow> int \<Rightarrow> testcase_payload \<Rightarrow> boilerplate_template option awaited \<Rightarrow> room \<Rightarrow>
   room \<times> eff list" where
  "boilerplateLoaded sock code now parsed answer r =
     (case answer of
        Inl err \<Rightarrow> (r, emitTestcaseError sock msg_testcase_failed)
      | Inr None \<Rightarrow> pushTestCase sock code now parsed r
      | Inr (Some boilerplate) \<Rightarrow>
          if keys_match (ta_input parsed) (bp_parameterNames boilerplate)
          then pushTestCase sock code now parsed r
          else (r, emitTestcaseError sock (msg_parameter_mismatch (bp_parameterNames boilerplate))))"

section \<open>Revealing the solution\<close>

datatype solution_k = AwaitSolution

definition emitSolutionError :: "socket_ctx \<Rightarrow> string \<Rightarrow> eff list" where
  "emitSolutionError sock msg = emitScopedEvent sock None (HintError msg) ScopeSocket"

definition solutionReveal :: "socket_ctx \<Rightarrow> room \<Rightarrow> eff list \<times> solution_k option" where
  "solutionReveal sock r =
     (if mode r \<noteq> Interview then
        (emitSolutionError sock ''Solutions can only be revealed in interview mode.'', None)
      else if \<not> truthy_text (problemId r) then
        (emitSolutionError sock ''Select a problem first.'', None)
      else ([], Some AwaitSolution))"

definition solutionLoaded :: "socket_ctx \<Rightarrow> string \<Rightarrow> problem option awaited \<Rightarrow> eff list" where
  "solutionLoaded sock code answer =
     (case answer of
        Inl err \<Rightarrow> emitSolutionError sock ''Failed to reveal solution. Please try again.''
      | Inr None \<Rightarrow> emitSolutionError sock ''Problem not found.''
      | Inr (Some p) \<Rightarrow>
          if truthy_text (p_solution p) then [ToRoom code (SolutionRevealed (the (p_solution p)))]
          else emitSolutionError sock ''No solution available for this problem.'')"

section \<open>Lemmas\<close>

lemma keys_match_iff: "keys_match input names \<longleftrightarrow> mset (map fst input) = mset names"
proof -
  have "keys_match input names \<longleftrightarrow> sort (map fst input) = sort names"
    by (auto simp: keys_match_def Let_def list_all2_eq [symmetric] dest: arg_cong [of _ _ length])
  also have "\<dots> \<longleftrightarrow> mset (map fst input) = mset names"
    by (metis mset_sort properties_for_sort sorted_sort)
  finally show ?thesis .
qed

lemma pushTestCase_frame [frame_simps]:
  "users (fst (pushTestCase sock code now p r)) = users r"
  "mode (fst (pushTestCase sock code now p r)) = mode r"
  "gracePeriodTimers (fst (pushTestCase sock code now p r)) = gracePeriodTimers r"
  "executionInProgress (fst (pushTestCase sock code now p r)) = executionInProgress r"
  "submissionsUsed (fst (pushTestCase sock code now p r)) = submissionsUsed r"
  "submissionLimit (fst (pushTestCase sock code now p r)) = submissionLimit r"
  "customTestCaseLimit (fst (pushTestCase sock code now p r)) = customTestCaseLimit r"
  by (simp_all add: pushTestCase_def Let_def)

lemma pushTestCase_limit:
  "length (customTestCases r) \<le> customTestCaseLimit r \<Longrightarrow>
   length (customTestCases (fst (pushTestCase sock code now p r))) \<le> customTestCaseLimit r"
  by (simp add: pushTestCase_def Let_def)

section \<open>Properties\<close>

text \<open>
  A custom test case is added exactly when, once the boilerplate has been looked up, the room is
  still below its limit and the input has one field per parameter (each name once, in any order),
  the limit being enforced again after the query; when it is added the room learns exactly that
  case, otherwise only the sender hears of it and the room is unchanged.
\<close>

theorem boilerplateLoaded_correct:
  "boilerplateLoaded sock code now p (Inr (Some b)) r =
     (if mset (map fst (ta_input p)) = mset (bp_parameterNames b)
         \<and> length (customTestCases r) < customTestCaseLimit r
      then (r\<lparr>customTestCases := customTestCases r @ [\<lparr>ct_input = ta_input p, ct_expectedOutput = ta_expectedOutput p\<rparr>],
              lastActivityAt := now\<rparr>,
            [ToRoom code (TestcaseAdded \<lparr>ct_input = ta_input p, ct_expectedOutput = ta_expectedOutput p\<rparr>)])
      else (r, [ToSocket (sock_id sock) (TestcaseError
              (if mset (map fst (ta_input p)) = mset (bp_parameterNames b)
               then msg_custom_limit (customTestCaseLimit r)
               else msg_parameter_mismatch (bp_parameterNames b)))]))"
  by (simp add: boilerplateLoaded_def keys_match_iff pushTestCase_def emitTestcaseError_def
      emitScopedEvent_def Let_def)

end
