(* ===== verification/Room_Protocol.thy ===== *)
theory Room_Protocol
  imports Auth_Middleware Room_Handler Execution_Handler Hint_Handler Problem_Handler Testcase_Handler
begin

text \<open>
  A room under concurrent events. The server is single-threaded: events run to their next
  \<^verbatim>\<open>await\<close> and are resumed when the promise settles, so the segments of the handlers
  interleave in every order. The state holds the room object, the sockets, the events that passed
  the middleware and wait for their handler, and the suspended handlers; a step is one event, one
  resumed handler, one timer or one disconnect. Answers of the outside (limits, queries, Judge0,
  the language model) are arbitrary.
\<close>

section \<open>State\<close>

record protocol =
  pr_room :: room
  pr_alive :: bool
  pr_doc :: "string option"
  pr_consent :: "nat option"
  pr_open :: "string list"
  pr_used :: "string list"
  pr_passed :: "(socket_ctx \<times> socket_event \<times> js_unknown) list"
  pr_joins :: "(socket_ctx \<times> join_k) list"
  pr_execs :: "(exec_session \<times> exec_k) list"
  pr_hints :: "(hint_session \<times> hint_k) list"
  pr_problems :: "(problem_session \<times> problem_k) list"
  pr_tests :: "(socket_ctx \<times> testcase_k) list"

definition new_protocol :: "room \<Rightarrow> protocol" where
  "new_protocol r =
     \<lparr>pr_room = r, pr_alive = True, pr_doc = None, pr_consent = None, pr_open = [], pr_used = [],
      pr_passed = [], pr_joins = [], pr_execs = [], pr_hints = [], pr_problems = [], pr_tests = []\<rparr>"

definition room_at :: "protocol \<Rightarrow> string \<Rightarrow> room option" where
  "room_at p c = (if pr_alive p \<and> normalizeRoomCode c = roomCode (pr_room p) then Some (pr_room p) else None)"

text \<open>A suspended handler that continues or ends.\<close>

definition resumed :: "'s \<Rightarrow> 'k option \<Rightarrow> ('s \<times> 'k) list" where
  "resumed s k = (case k of None \<Rightarrow> [] | Some k' \<Rightarrow> [(s, k')])"

section \<open>Answers\<close>

datatype exec_answer =
    IpAnswer rate_limit_check_result
  | VisibleAnswer "test_case list awaited"
  | ResourcesAnswer "(test_case list \<times> boilerplate_template option \<times> problem option) awaited"
  | SlotAnswer "unit awaited"
  | QuotaAnswer "bool awaited" string
  | Judge0Answer "judge0_response awaited"

record environment =
  env_exec :: execution_deps
  env_hint :: hint_deps
  env_problem :: problem_deps
  env_parse :: "string \<Rightarrow> json option"
  env_stringify :: "json \<Rightarrow> string"
  env_is_uuid :: "string \<Rightarrow> bool"
  env_parse_url :: "string \<Rightarrow> (string \<times> string) option"
  env_cooldown :: int

definition resume_exec ::
  "environment \<Rightarrow> exec_session \<Rightarrow> string option \<Rightarrow> int \<Rightarrow> exec_k \<Rightarrow> exec_answer \<Rightarrow> room \<Rightarrow>
   (room \<times> eff list \<times> exec_k option) option" where
  "resume_exec env sess doc now k ans r =
     (case k of
        AwaitIpCheck \<Rightarrow> (case ans of IpAnswer c \<Rightarrow> Some (ipChecked (env_exec env) sess doc now c r) | _ \<Rightarrow> None)
      | AwaitVisible code \<Rightarrow> (case ans of VisibleAnswer a \<Rightarrow> Some (visibleLoaded sess code now a r) | _ \<Rightarrow> None)
      | AwaitResources code ts \<Rightarrow> (case ans of ResourcesAnswer a \<Rightarrow> Some (resourcesLoaded (env_exec env) sess code ts now a r) | _ \<Rightarrow> None)
      | AwaitSlot res \<Rightarrow> (case ans of SlotAnswer a \<Rightarrow> Some (slotAnswered sess res now a r) | _ \<Rightarrow> None)
      | AwaitReserve res \<Rightarrow> (case ans of QuotaAnswer a nonce \<Rightarrow> Some (quotaAnswered sess res nonce now a r) | _ \<Rightarrow> None)
      | AwaitJudge0 res nonce \<Rightarrow> (case ans of Judge0Answer a \<Rightarrow>
            Some (judge0Answered (env_parse env) (env_stringify env) sess res nonce now a r) | _ \<Rightarrow> None))"

lemma resume_exec_simps [simp]:
  "resume_exec env sess doc now AwaitIpCheck (IpAnswer c) r = Some (ipChecked (env_exec env) sess doc now c r)"
  "resume_exec env sess doc now (AwaitVisible code) (VisibleAnswer a2) r = Some (visibleLoaded sess code now a2 r)"
  "resume_exec env sess doc now (AwaitResources code ts) (ResourcesAnswer a3) r = Some (resourcesLoaded (env_exec env) sess code ts now a3 r)"
  "resume_exec env sess doc now (AwaitSlot res) (SlotAnswer a4) r = Some (slotAnswered sess res now a4 r)"
  "resume_exec env sess doc now (AwaitReserve res) (QuotaAnswer a5 nonce) r = Some (quotaAnswered sess res nonce now a5 r)"
  "resume_exec env sess doc now (AwaitJudge0 res nonce) (Judge0Answer a6) r =
     Some (judge0Answered (env_parse env) (env_stringify env) sess res nonce now a6 r)"
  by (simp_all add: resume_exec_def)

lemma resume_exec_cases [consumes 1]:
  assumes "resume_exec env sess doc now k ans r = Some x"
  obtains (1) c where "k = AwaitIpCheck" "ans = IpAnswer c"
    | (2) code a where "k = AwaitVisible code" "ans = VisibleAnswer a"
    | (3) code ts a where "k = AwaitResources code ts" "ans = ResourcesAnswer a"
    | (4) res a where "k = AwaitSlot res" "ans = SlotAnswer a"
    | (5) res a nonce where "k = AwaitReserve res" "ans = QuotaAnswer a nonce"
    | (6) res nonce a where "k = AwaitJudge0 res nonce" "ans = Judge0Answer a"
  using assms by (cases k; cases ans) (simp_all add: resume_exec_def)

datatype hint_answer =
    StoredHintAnswer "hint option awaited"
  | LlmIpAnswer "rate_limit_check_result awaited"
  | LlmQuotaAnswer "bool awaited"
  | LlmProblemAnswer "problem option awaited"
  | LlmSlotAnswer "unit awaited"
  | LlmReserveAnswer "bool awaited"
  | LlmStream stream_event

definition resume_hint ::
  "environment \<Rightarrow> hint_session \<Rightarrow> string option \<Rightarrow> hint_k \<Rightarrow> hint_answer \<Rightarrow> room \<Rightarrow>
   (room \<times> eff list \<times> hint_k option) option" where
  "resume_hint env sess doc k ans r =
     (case k of
        AwaitStoredHint \<Rightarrow> (case ans of StoredHintAnswer a \<Rightarrow> Some (storedHintAnswered (env_hint env) sess a r) | _ \<Rightarrow> None)
      | AwaitLlmIpCheck \<Rightarrow> (case ans of LlmIpAnswer a \<Rightarrow> Some (r, llmIpChecked sess a) | _ \<Rightarrow> None)
      | AwaitLlmQuota \<Rightarrow> (case ans of LlmQuotaAnswer a \<Rightarrow> Some (r, llmQuotaChecked (env_hint env) sess a) | _ \<Rightarrow> None)
      | AwaitLlmProblem \<Rightarrow> (case ans of LlmProblemAnswer a \<Rightarrow> Some (r, llmProblemLoaded (env_hint env) sess a doc r) | _ \<Rightarrow> None)
      | AwaitLlmSlot ms \<Rightarrow> (case ans of LlmSlotAnswer a \<Rightarrow> Some (r, llmSlotAnswered sess ms a) | _ \<Rightarrow> None)
      | AwaitLlmReserve ms \<Rightarrow> (case ans of LlmReserveAnswer a \<Rightarrow> Some (llmReserved sess a r) | _ \<Rightarrow> None)
      | AwaitChunk g \<Rightarrow> (case ans of LlmStream ev \<Rightarrow> Some (streamEvent (env_hint env) sess g ev r) | _ \<Rightarrow> None))"

lemma resume_hint_simps [simp]:
  "resume_hint env sess doc AwaitStoredHint (StoredHintAnswer a1) r = Some (storedHintAnswered (env_hint env) sess a1 r)"
  "resume_hint env sess doc AwaitLlmIpCheck (LlmIpAnswer a2) r = Some (r, llmIpChecked sess a2)"
  "resume_hint env sess doc AwaitLlmQuota (LlmQuotaAnswer a3) r = Some (r, llmQuotaChecked (env_hint env) sess a3)"
  "resume_hint env sess doc AwaitLlmProblem (LlmProblemAnswer a4) r = Some (r, llmProblemLoaded (env_hint env) sess a4 doc r)"
  "resume_hint env sess doc (AwaitLlmSlot ms) (LlmSlotAnswer a5) r = Some (r, llmSlotAnswered sess ms a5)"
  "resume_hint env sess doc (AwaitLlmReserve ms) (LlmReserveAnswer a6) r = Some (llmReserved sess a6 r)"
  "resume_hint env sess doc (AwaitChunk g) (LlmStream ev) r = Some (streamEvent (env_hint env) sess g ev r)"
  by (simp_all add: resume_hint_def)

lemma resume_hint_cases [consumes 1]:
  assumes "resume_hint env sess doc k ans r = Some x"
  obtains (1) a where "k = AwaitStoredHint" "ans = StoredHintAnswer a"
    | (2) a where "k = AwaitLlmIpCheck" "ans = LlmIpAnswer a"
    | (3) a where "k = AwaitLlmQuota" "ans = LlmQuotaAnswer a"
    | (4) a where "k = AwaitLlmProblem" "ans = LlmProblemAnswer a"
    | (5) ms a where "k = AwaitLlmSlot ms" "ans = LlmSlotAnswer a"
    | (6) ms a where "k = AwaitLlmReserve ms" "ans = LlmReserveAnswer a"
    | (7) g ev where "k = AwaitChunk g" "ans = LlmStream ev"
  using assms by (cases k; cases ans) (simp_all add: resume_hint_def)

datatype problem_answer =
    DetailAnswer "problem_detail option awaited"
  | ImportLimitAnswer rate_limit_check_result
  | ImportQuotaAnswer bool
  | ImportSlotAnswer "unit awaited"
  | ImportReserveAnswer "bool awaited"
  | ScrapeAnswer "string awaited"
  | ImportedAnswer "problem_detail option awaited"

definition resume_problem ::
  "environment \<Rightarrow> problem_session \<Rightarrow> int \<Rightarrow> problem_k \<Rightarrow> problem_answer \<Rightarrow> string option \<Rightarrow> room \<Rightarrow>
   (room \<times> string option \<times> problem_k option) option" where
  "resume_problem env sess now k ans doc r =
     (case k of
        AwaitDetail pid \<Rightarrow> (case ans of DetailAnswer a \<Rightarrow>
            (let (r', doc', effs) = detailLoaded sess now a doc r in Some (r', doc', None)) | _ \<Rightarrow> None)
      | AwaitImportLimit url \<Rightarrow> (case ans of ImportLimitAnswer a \<Rightarrow> Some (r, doc, snd (importLimitChecked sess url a r)) | _ \<Rightarrow> None)
      | AwaitImportQuota url \<Rightarrow> (case ans of ImportQuotaAnswer a \<Rightarrow> Some (r, doc, snd (importQuotaChecked (env_problem env) sess url a)) | _ \<Rightarrow> None)
      | AwaitImportSlot url \<Rightarrow> (case ans of ImportSlotAnswer a \<Rightarrow> Some (r, doc, snd (importSlotAnswered sess url a)) | _ \<Rightarrow> None)
      | AwaitImportReserve url \<Rightarrow> (case ans of ImportReserveAnswer a \<Rightarrow> Some (r, doc, snd (importReserved sess url a)) | _ \<Rightarrow> None)
      | AwaitScrape url \<Rightarrow> (case ans of ScrapeAnswer a \<Rightarrow> Some (r, doc, snd (scraped sess a)) | _ \<Rightarrow> None)
      | AwaitImported pid \<Rightarrow> (case ans of ImportedAnswer a \<Rightarrow>
            (let (r', doc', effs, gen) = importedLoaded (env_problem env) sess now a doc r in Some (r', doc', None)) | _ \<Rightarrow> None))"

lemma resume_problem_simps [simp]:
  "resume_problem env sess now (AwaitDetail pid) (DetailAnswer a1) doc r =
     (let (r', doc', effs) = detailLoaded sess now a1 doc r in Some (r', doc', None))"
  "resume_problem env sess now (AwaitImportLimit url) (ImportLimitAnswer a2) doc r = Some (r, doc, snd (importLimitChecked sess url a2 r))"
  "resume_problem env sess now (AwaitImportQuota url) (ImportQuotaAnswer a3) doc r =
     Some (r, doc, snd (importQuotaChecked (env_problem env) sess url a3))"
  "resume_problem env sess now (AwaitImportSlot url) (ImportSlotAnswer a4) doc r = Some (r, doc, snd (importSlotAnswered sess url a4))"
  "resume_problem env sess now (AwaitImportReserve url) (ImportReserveAnswer a5) doc r = Some (r, doc, snd (importReserved sess url a5))"
  "resume_problem env sess now (AwaitScrape url) (ScrapeAnswer a6) doc r = Some (r, doc, snd (scraped sess a6))"
  "resume_problem env sess now (AwaitImported pid) (ImportedAnswer a7) doc r =
     (let (r', doc', effs, gen) = importedLoaded (env_problem env) sess now a7 doc r in Some (r', doc', None))"
  by (simp_all add: resume_problem_def)

lemma resume_problem_cases [consumes 1]:
  assumes "resume_problem env sess now k ans doc r = Some x"
  obtains (1) pid a where "k = AwaitDetail pid" "ans = DetailAnswer a"
    | (2) url a where "k = AwaitImportLimit url" "ans = ImportLimitAnswer a"
    | (3) url a where "k = AwaitImportQuota url" "ans = ImportQuotaAnswer a"
    | (4) url a where "k = AwaitImportSlot url" "ans = ImportSlotAnswer a"
    | (5) url a where "k = AwaitImportReserve url" "ans = ImportReserveAnswer a"
    | (6) url a where "k = AwaitScrape url" "ans = ScrapeAnswer a"
    | (7) pid a where "k = AwaitImported pid" "ans = ImportedAnswer a"
  using assms by (cases k; cases ans) (simp_all add: resume_problem_def)

section \<open>Steps\<close>

definition hint_session_of :: "protocol \<Rightarrow> socket_ctx \<Rightarrow> hint_session" where
  "hint_session_of p sock = \<lparr>hs_sock = sock, hs_roomCode = roomCode (pr_room p)\<rparr>"

definition problem_session_of :: "protocol \<Rightarrow> socket_ctx \<Rightarrow> problem_session" where
  "problem_session_of p sock = \<lparr>ps_sock = sock, ps_roomCode = roomCode (pr_room p)\<rparr>"

text \<open>
  Both listeners of \<^verbatim>\<open>disconnect\<close>, in the order they are registered: the room handler,
  then the hint handler.
\<close>

definition disconnect_step :: "protocol \<Rightarrow> socket_ctx \<Rightarrow> nat \<Rightarrow> protocol" where
  "disconnect_step p sock timer =
     (let r1 = (case handleDisconnect sock (room_at p) timer of None \<Rightarrow> pr_room p | Some (r, uid, effs) \<Rightarrow> r);
          (r2, consent, effs2) =
            (if pr_alive p then handleRequesterDisconnect (hint_session_of p sock) r1 (pr_consent p)
             else (r1, pr_consent p, []))
      in p\<lparr>pr_room := r2, pr_consent := consent, pr_open := removeAll (sock_id sock) (pr_open p)\<rparr>)"

inductive pstep :: "environment \<Rightarrow> protocol \<Rightarrow> protocol \<Rightarrow> bool" for env where
  connect: "sid \<notin> set (pr_used p) \<Longrightarrow>
    pstep env p (p\<lparr>pr_open := sid # pr_open p, pr_used := sid # pr_used p\<rparr>)"
| authorize: "sock_id sock \<in> set (pr_open p) \<Longrightarrow> sock_roomCode sock = Some (roomCode (pr_room p)) \<Longrightarrow>
    authMiddleware (room_at p) sock (event_name e) = Next \<Longrightarrow>
    pstep env p (p\<lparr>pr_passed := pr_passed p @ [(sock, e, data)]\<rparr>)"
| join_start: "pr_passed p = xs @ (sock, USER_JOIN, data) # ys \<Longrightarrow> sock_id sock \<in> set (pr_open p) \<Longrightarrow>
    handleUserJoin sock (room_at p) data = (effs, k) \<Longrightarrow>
    pstep env p (p\<lparr>pr_passed := xs @ ys, pr_joins := pr_joins p @ resumed sock k\<rparr>)"
| join_checked: "pr_joins p = xs @ (sock, AwaitJoinLimit payload) # ys \<Longrightarrow>
    uid \<notin> userId ` set (users (pr_room p)) \<Longrightarrow> RECONNECT_TOKEN_PATTERN tok \<Longrightarrow>
    joinRateChecked uid tok now sock chk payload (pr_room p) = (r', cleared, effs, k) \<Longrightarrow>
    pstep env p (p\<lparr>pr_room := r', pr_joins := xs @ resumed sock k @ ys\<rparr>)"
| join_hydrated: "pr_joins p = xs @ (sock, AwaitHydration presence) # ys \<Longrightarrow>
    pstep env p (p\<lparr>pr_joins := xs @ ys\<rparr>)"
| disconnect: "sock_id sock \<in> set (pr_open p) \<Longrightarrow> sock_roomCode sock = Some (roomCode (pr_room p)) \<Longrightarrow>
    pstep env p (disconnect_step p sock timer)"
| grace_kept: "uid \<in> set (map fst (gracePeriodTimers (pr_room p))) \<Longrightarrow>
    graceExpired tok uid (pr_room p) = Kept r' \<Longrightarrow> pstep env p (p\<lparr>pr_room := r'\<rparr>)"
| grace_removed: "uid \<in> set (map fst (gracePeriodTimers (pr_room p))) \<Longrightarrow>
    graceExpired tok uid (pr_room p) = Removed r' effs \<Longrightarrow> pstep env p (p\<lparr>pr_room := r'\<rparr>)"
| grace_destroys: "uid \<in> set (map fst (gracePeriodTimers (pr_room p))) \<Longrightarrow>
    graceExpired tok uid (pr_room p) = DestroysRoom r' c \<Longrightarrow>
    pstep env p (p\<lparr>pr_room := r', pr_alive := False\<rparr>)"
| sweep: "connectedUserCount (pr_room p) = 0 \<Longrightarrow>
    pstep env p (p\<lparr>pr_room := (pr_room p)\<lparr>gracePeriodTimers := []\<rparr>, pr_alive := False\<rparr>)"
| exec_start: "pr_passed p = xs @ (sock, e, data) # ys \<Longrightarrow> sock_id sock \<in> set (pr_open p) \<Longrightarrow>
    (e, ty) \<in> {(CODE_RUN, Run), (CODE_SUBMIT, Submit)} \<Longrightarrow>
    createExecutionSession sock (room_at p) ty = Some (r, sess) \<Longrightarrow>
    handleExecution (env_exec env) sess (pr_doc p) now r = (r', effs, k) \<Longrightarrow>
    pstep env p (p\<lparr>pr_passed := xs @ ys, pr_room := r', pr_execs := pr_execs p @ resumed sess k\<rparr>)"
| exec_resume: "pr_execs p = xs @ (sess, k) # ys \<Longrightarrow>
    resume_exec env sess (pr_doc p) now k ans (pr_room p) = Some (r', effs, k') \<Longrightarrow>
    pstep env p (p\<lparr>pr_room := r', pr_execs := xs @ resumed sess k' @ ys\<rparr>)"
| hint_request: "pr_passed p = xs @ (sock, HINT_REQUEST, data) # ys \<Longrightarrow> sock_id sock \<in> set (pr_open p) \<Longrightarrow>
    room_at p (roomCode (pr_room p)) = Some r \<Longrightarrow>
    handleHintRequest (hint_session_of p sock) (env_cooldown env) now lst timer r (pr_consent p)
      = (r', consent', lst', effs, k) \<Longrightarrow>
    pstep env p (p\<lparr>pr_passed := xs @ ys, pr_room := r', pr_consent := consent',
                   pr_hints := pr_hints p @ resumed (hint_session_of p sock) k\<rparr>)"
| hint_approve: "pr_passed p = xs @ (sock, HINT_APPROVE, data) # ys \<Longrightarrow> sock_id sock \<in> set (pr_open p) \<Longrightarrow>
    room_at p (roomCode (pr_room p)) = Some r \<Longrightarrow>
    handleHintApprove (hint_session_of p sock) r (pr_consent p) = (r', consent', effs, k) \<Longrightarrow>
    pstep env p (p\<lparr>pr_passed := xs @ ys, pr_room := r', pr_consent := consent',
                   pr_hints := pr_hints p @ resumed (hint_session_of p sock) k\<rparr>)"
| hint_deny: "pr_passed p = xs @ (sock, HINT_DENY, data) # ys \<Longrightarrow> sock_id sock \<in> set (pr_open p) \<Longrightarrow>
    room_at p (roomCode (pr_room p)) = Some r \<Longrightarrow>
    handleHintDeny (hint_session_of p sock) r (pr_consent p) = (r', consent', effs) \<Longrightarrow>
    pstep env p (p\<lparr>pr_passed := xs @ ys, pr_room := r', pr_consent := consent'\<rparr>)"
| consent_timeout: "pr_consent p = Some timer \<Longrightarrow>
    consentTimedOut (hint_session_of p sock) (pr_room p) = (r', consent', effs) \<Longrightarrow>
    pstep env p (p\<lparr>pr_room := r', pr_consent := consent'\<rparr>)"
| hint_resume: "pr_hints p = xs @ (sess, k) # ys \<Longrightarrow>
    resume_hint env sess (pr_doc p) k ans (pr_room p) = Some (r', effs, k') \<Longrightarrow>
    pstep env p (p\<lparr>pr_room := r', pr_hints := xs @ resumed sess k' @ ys\<rparr>)"
| problem_select: "pr_passed p = xs @ (sock, PROBLEM_SELECT, data) # ys \<Longrightarrow> sock_id sock \<in> set (pr_open p) \<Longrightarrow>
    room_at p (roomCode (pr_room p)) = Some r \<Longrightarrow>
    handleProblemSelect (env_is_uuid env) (problem_session_of p sock) data = (effs, k) \<Longrightarrow>
    pstep env p (p\<lparr>pr_passed := xs @ ys, pr_problems := pr_problems p @ resumed (problem_session_of p sock) k\<rparr>)"
| problem_import: "pr_passed p = xs @ (sock, PROBLEM_IMPORT, data) # ys \<Longrightarrow> sock_id sock \<in> set (pr_open p) \<Longrightarrow>
    room_at p (roomCode (pr_room p)) = Some r \<Longrightarrow>
    validateProblemImport (env_parse_url env) (env_problem env) (problem_session_of p sock) data = (effs, k) \<Longrightarrow>
    pstep env p (p\<lparr>pr_passed := xs @ ys, pr_problems := pr_problems p @ resumed (problem_session_of p sock) k\<rparr>)"
| problem_resume: "pr_problems p = xs @ (sess, k) # ys \<Longrightarrow>
    resume_problem env sess now k ans (pr_doc p) (pr_room p) = Some (r', doc', k') \<Longrightarrow>
    pstep env p (p\<lparr>pr_room := r', pr_doc := doc', pr_problems := xs @ resumed sess k' @ ys\<rparr>)"
| test_start: "pr_passed p = xs @ (sock, TESTCASE_ADD, data) # ys \<Longrightarrow> sock_id sock \<in> set (pr_open p) \<Longrightarrow>
    room_at p (roomCode (pr_room p)) = Some r \<Longrightarrow>
    testcaseAdd (env_stringify env) sock data r = (effs, k) \<Longrightarrow>
    pstep env p (p\<lparr>pr_passed := xs @ ys, pr_tests := pr_tests p @ resumed sock k\<rparr>)"
| test_resume: "pr_tests p = xs @ (sock, AwaitBoilerplate payload) # ys \<Longrightarrow>
    boilerplateLoaded sock (roomCode (pr_room p)) now payload ans (pr_room p) = (r', effs) \<Longrightarrow>
    pstep env p (p\<lparr>pr_room := r', pr_tests := xs @ ys\<rparr>)"
| edit: "pr_alive p \<Longrightarrow> pstep env p (p\<lparr>pr_doc := Some text\<rparr>)"

inductive reachable :: "environment \<Rightarrow> room \<Rightarrow> protocol \<Rightarrow> bool" for env r0 where
  start: "reachable env r0 (new_protocol r0)"
| step: "reachable env r0 p \<Longrightarrow> pstep env p q \<Longrightarrow> reachable env r0 q"

end
