(* ===== verification/Room_Frames.thy ===== *)
theory Room_Frames
  imports Room_Protocol
begin

text \<open>
  What each handler segment can change in the room. A frame lists the fields a group of segments
  leaves alone; the shapes say which continuation follows which change. The invariants of the
  protocol are proved from these facts alone.
\<close>

section \<open>Frames\<close>

definition same_seats :: "room \<Rightarrow> room \<Rightarrow> bool" where
  "same_seats r r' \<longleftrightarrow> users r' = users r \<and> mode r' = mode r
     \<and> gracePeriodTimers r' = gracePeriodTimers r \<and> roomCode r' = roomCode r"

definition same_execution :: "room \<Rightarrow> room \<Rightarrow> bool" where
  "same_execution r r' \<longleftrightarrow> executionInProgress r' = executionInProgress r
     \<and> submissionsUsed r' = submissionsUsed r \<and> submissionLimit r' = submissionLimit r"

definition same_tests :: "room \<Rightarrow> room \<Rightarrow> bool" where
  "same_tests r r' \<longleftrightarrow> customTestCases r' = customTestCases r \<and> customTestCaseLimit r' = customTestCaseLimit r"

definition same_stream :: "room \<Rightarrow> room \<Rightarrow> bool" where
  "same_stream r r' \<longleftrightarrow> hintStreaming r' = hintStreaming r"

lemmas frame_defs = same_seats_def same_execution_def same_tests_def same_stream_def

lemma frames_refl [simp]: "same_seats r r" "same_execution r r" "same_tests r r" "same_stream r r"
  by (simp_all add: frame_defs)

lemma same_seats_ok:
  assumes "same_seats r r'"
  shows "room_wf r' = room_wf r" and "roles_ok r' = roles_ok r" and "tokens_ok r' = tokens_ok r"
  using assms room_wf_cong [of r' r] roles_ok_cong [of r' r] by (simp_all add: same_seats_def tokens_ok_def)

section \<open>Executions\<close>

text \<open>An execution has begun once it passed the room check; \<open>exec_rank\<close> counts the answers left.\<close>

fun begun :: "exec_k \<Rightarrow> bool" where
  "begun AwaitIpCheck = False"
| "begun _ = True"

fun exec_rank :: "exec_k \<Rightarrow> nat" where
  "exec_rank AwaitIpCheck = 5"
| "exec_rank (AwaitVisible _) = 4"
| "exec_rank (AwaitResources _ _) = 3"
| "exec_rank (AwaitSlot _) = 2"
| "exec_rank (AwaitReserve _) = 1"
| "exec_rank (AwaitJudge0 _ _) = 0"

definition starts :: "room \<Rightarrow> room \<Rightarrow> exec_k option \<Rightarrow> bool" where
  "starts r r' k \<longleftrightarrow>
     (case k of
        None \<Rightarrow> r' = r \<or> (canExecute r = Allowed \<and>
                   (\<exists>now. r' = finish_execution False now (r\<lparr>executionInProgress := True\<rparr>)))
      | Some k' \<Rightarrow> (k' = AwaitIpCheck \<and> r' = r)
          \<or> (begun k' \<and> exec_rank k' < 5 \<and> canExecute r = Allowed \<and> r' = r\<lparr>executionInProgress := True\<rparr>))"

definition continues :: "exec_k \<Rightarrow> room \<Rightarrow> room \<Rightarrow> exec_k option \<Rightarrow> bool" where
  "continues k r r' k' \<longleftrightarrow>
     (case k' of
        None \<Rightarrow> (\<exists>b now. r' = finish_execution b now r)
      | Some k2 \<Rightarrow> begun k2 \<and> exec_rank k2 < exec_rank k \<and> r' = r)"

lemma begin_execution_starts:
  "begin_execution deps sess doc now r = (r', effs, k) \<Longrightarrow> starts r r' k"
  by (auto simp: begin_execution_def starts_def Let_def split: check.splits if_splits option.splits)

lemma handleExecution_starts:
  "handleExecution deps sess doc now r = (r', effs, k) \<Longrightarrow> starts r r' k"
  by (auto simp: handleExecution_def starts_def begin_execution_def Let_def split: check.splits if_splits option.splits)

lemma ipChecked_starts:
  "ipChecked deps sess doc now c r = (r', effs, k) \<Longrightarrow> starts r r' k \<and> k \<noteq> Some AwaitIpCheck"
  by (auto simp: ipChecked_def starts_def begin_execution_def Let_def split: check.splits if_splits option.splits)

lemma execution_failed_continues:
  "execution_failed sess b now err r = (r', effs, k') \<Longrightarrow> continues k r r' k'"
  by (auto simp: execution_failed_def continues_def)

lemma judge0Answered_continues:
  assumes "judge0Answered parse stringify sess res nonce now a r = (r', effs, k')"
  shows "continues k r r' k'"
proof -
  have "fst (judge0Answered parse stringify sess res nonce now a r) = finish_execution True now r
    \<and> snd (snd (judge0Answered parse stringify sess res nonce now a r)) = None"
    unfolding judge0Answered_def execution_failed_def
    by (simp split: sum.split option.split)
  with assms show ?thesis by (auto simp: continues_def)
qed

lemma resume_exec_shape:
  assumes "resume_exec env sess doc now k ans r = Some (r', effs, k')"
  shows "(if begun k then continues k r r' k' else starts r r' k' \<and> k' \<noteq> Some AwaitIpCheck)"
  using assms
proof (cases rule: resume_exec_cases [OF assms])
  case (6 res nonce a)
  with assms show ?thesis using judge0Answered_continues by fastforce
qed (auto simp: continues_def execution_failed_def visibleLoaded_def resourcesLoaded_def slotAnswered_def
       quotaAnswered_def Let_def dest: ipChecked_starts split: sum.splits option.splits prod.splits if_splits)

lemma finish_execution_frames [simp]:
  "same_seats r (finish_execution b now r)" "same_tests r (finish_execution b now r)"
  "same_stream r (finish_execution b now r)"
  by (simp_all add: frame_defs finish_execution_def)

lemma starts_frames: "starts r r' k \<Longrightarrow> same_seats r r' \<and> same_tests r r' \<and> same_stream r r'"
  by (auto simp: starts_def frame_defs finish_execution_def split: option.splits)

lemma continues_frames: "continues k r r' k' \<Longrightarrow> same_seats r r' \<and> same_tests r r' \<and> same_stream r r'"
  by (auto simp: continues_def split: option.splits)

section \<open>Hints\<close>

fun is_chunk :: "hint_k option \<Rightarrow> bool" where
  "is_chunk (Some (AwaitChunk _)) = True"
| "is_chunk _ = False"

definition hint_frame :: "room \<Rightarrow> room \<Rightarrow> bool" where
  "hint_frame r r' \<longleftrightarrow> same_seats r r' \<and> same_execution r r' \<and> same_tests r r'"

lemma hint_frame_refl [simp]: "hint_frame r r" by (simp add: hint_frame_def)

lemmas hint_frames = hint_frame_def frame_defs

lemma clearPendingHintRequest_frame:
  "clearPendingHintRequest sess r = (x, r', effs) \<Longrightarrow> hint_frame r r' \<and> same_stream r r'"
  by (auto simp: clearPendingHintRequest_def hint_frames Let_def)

lemma sendPendingHintRequest_frame:
  "sendPendingHintRequest sess now t r c = (r', c', effs) \<Longrightarrow> hint_frame r r' \<and> same_stream r r'"
  by (auto simp: sendPendingHintRequest_def hint_frames Let_def split: option.splits if_splits)

lemma handleHintRequest_frame:
  "handleHintRequest sess cd now lst t r c = (r', c', lst', effs, k) \<Longrightarrow> hint_frame r r' \<and> same_stream r r'"
  by (auto simp: handleHintRequest_def Let_def dest: sendPendingHintRequest_frame
      split: option.splits if_splits prod.splits)

lemma handleHintApprove_frame:
  "handleHintApprove sess r c = (r', c', effs, k) \<Longrightarrow> hint_frame r r' \<and> same_stream r r'"
  by (auto simp: handleHintApprove_def dest: clearPendingHintRequest_frame split: option.splits prod.splits)

lemma handleHintDeny_frame:
  "handleHintDeny sess r c = (r', c', effs) \<Longrightarrow> hint_frame r r' \<and> same_stream r r'"
  by (auto simp: handleHintDeny_def dest: clearPendingHintRequest_frame split: option.splits prod.splits)

lemma consentTimedOut_frame:
  "consentTimedOut sess r = (r', c', effs) \<Longrightarrow> hint_frame r r' \<and> same_stream r r'"
  by (auto simp: consentTimedOut_def dest: clearPendingHintRequest_frame split: option.splits prod.splits)

lemma handleRequesterDisconnect_frame:
  "handleRequesterDisconnect sess r c = (r', c', effs) \<Longrightarrow> hint_frame r r' \<and> same_stream r r'"
  by (auto simp: handleRequesterDisconnect_def dest: clearPendingHintRequest_frame
      split: option.splits prod.splits if_splits)

lemma streamEnded_frame:
  "streamEnded deps sess g r = (r', effs) \<Longrightarrow> hint_frame r r' \<and> \<not> hintStreaming r'"
  by (auto simp: streamEnded_def streamFailed_def hint_frames Let_def split: sum.splits)

lemma streamFailed_frame:
  "streamFailed sess err r = (r', effs) \<Longrightarrow> hint_frame r r' \<and> \<not> hintStreaming r'"
  by (auto simp: streamFailed_def hint_frames)

text \<open>A resumed hint either leaves the streaming flag, or holds the open stream, or clears the flag.\<close>

lemma streamEvent_frame:
  assumes "streamEvent deps sess g ev r = (r', effs, k')"
  shows "hint_frame r r' \<and> (is_chunk k' \<or> \<not> hintStreaming r')"
  using assms
  by (auto simp: streamEvent_def Let_def dest: streamEnded_frame streamFailed_frame
      split: stream_event.splits if_splits prod.splits)

lemma resume_hint_shape:
  assumes "resume_hint env sess doc k ans r = Some (r', effs, k')"
  shows "hint_frame r r' \<and> (is_chunk k' \<or> \<not> hintStreaming r' \<or> (same_stream r r' \<and> \<not> is_chunk (Some k)))"
  using assms
proof (cases rule: resume_hint_cases [OF assms])
  case (7 g ev)
  with assms show ?thesis using streamEvent_frame by fastforce
qed (auto simp: storedHintAnswered_def llmReserved_def deliverStoredHint_def hint_frames Let_def
       split: sum.splits option.splits prod.splits if_splits)

section \<open>Problems and test cases\<close>

definition problem_frame :: "room \<Rightarrow> room \<Rightarrow> bool" where
  "problem_frame r r' \<longleftrightarrow> same_seats r r' \<and> same_execution r r' \<and> same_stream r r'
     \<and> customTestCaseLimit r' = customTestCaseLimit r
     \<and> (customTestCases r' = customTestCases r \<or> customTestCases r' = [])"

lemma problem_frame_refl [simp]: "problem_frame r r" by (simp add: problem_frame_def)

lemma resume_problem_shape:
  assumes "resume_problem env sess now k ans doc r = Some (r', doc', k')"
  shows "problem_frame r r'"
  using assms
  by (cases rule: resume_problem_cases [OF assms])
    (auto simp: detailLoaded_def importedLoaded_def loadProblemIntoRoom_def switchProblem_def
       problem_frame_def frame_defs Let_def split: sum.splits option.splits prod.splits if_splits)

definition tests_frame :: "room \<Rightarrow> room \<Rightarrow> bool" where
  "tests_frame r r' \<longleftrightarrow> same_seats r r' \<and> same_execution r r' \<and> same_stream r r'
     \<and> customTestCaseLimit r' = customTestCaseLimit r
     \<and> (customTestCases r' = customTestCases r
        \<or> length (customTestCases r') = Suc (length (customTestCases r))
          \<and> length (customTestCases r) < customTestCaseLimit r)"

lemma boilerplateLoaded_shape:
  "boilerplateLoaded sock code now payload ans r = (r', effs) \<Longrightarrow> tests_frame r r'"
  by (auto simp: boilerplateLoaded_def pushTestCase_def tests_frame_def frame_defs Let_def
      split: sum.splits option.splits if_splits)

section \<open>Seats\<close>

definition seat_frame :: "room \<Rightarrow> room \<Rightarrow> bool" where
  "seat_frame r r' \<longleftrightarrow> same_execution r r' \<and> same_tests r r' \<and> same_stream r r' \<and> mode r' = mode r
     \<and> (room_wf r \<and> roles_ok r \<and> tokens_ok r \<longrightarrow> room_wf r' \<and> roles_ok r' \<and> tokens_ok r')"

lemma seat_frame_refl [simp]: "seat_frame r r" by (simp add: seat_frame_def)

lemma seat_frame_trans: "seat_frame r r1 \<Longrightarrow> seat_frame r1 r2 \<Longrightarrow> seat_frame r r2"
  by (simp add: seat_frame_def frame_defs)

lemma reconnectUser_frame:
  assumes r': "reconnectUser tok now uid sid r = Some (r', u, cleared)" and tok: "RECONNECT_TOKEN_PATTERN tok"
  shows "seat_frame r r'"
proof -
  have "same_execution r r' \<and> same_tests r r' \<and> same_stream r r' \<and> mode r' = mode r"
    using r' by (auto simp: reconnectUser_def cancelGracePeriod_def frame_defs Let_def split: option.splits)
  moreover have "room_wf r' \<and> roles_ok r' \<and> tokens_ok r'" if "room_wf r" "roles_ok r" "tokens_ok r"
    using reconnectUser_wf [OF that(1) r'] reconnectUser_tokens [OF that(1,3) tok r']
      roles_ok_map_role reconnectUser_result(5,7) [OF r'] that(2) by blast
  ultimately show ?thesis by (simp add: seat_frame_def)
qed

lemma admitNewUser_frame:
  assumes r': "admitNewUser uid tok now sock payload r = (r', cleared, effs, k)"
    and fresh: "uid \<notin> userId ` set (users r)" and tok: "RECONNECT_TOKEN_PATTERN tok"
  shows "seat_frame r r'"
proof (cases "isFull r")
  case True
  with r' show ?thesis by (simp add: admitNewUser_def)
next
  case False
  with r' have eq: "r' = fst (addUser uid tok now (uj_name payload) (determineRole r) (sock_id sock) r)"
    by (auto simp: admitNewUser_def Let_def split: prod.splits)
  have "same_execution r r' \<and> same_tests r r' \<and> same_stream r r' \<and> mode r' = mode r"
    by (simp add: eq addUser_def frame_defs Let_def)
  moreover have "tokens_ok r \<Longrightarrow> tokens_ok r'" using tok by (auto simp: eq addUser_def tokens_ok_def Let_def)
  ultimately show ?thesis
    using addUser_wf [OF _ False fresh] determineRole_ok by (simp add: seat_frame_def eq)
qed

lemma joinRateChecked_frame:
  assumes "joinRateChecked uid tok now sock chk payload r = (r', cleared, effs, k)"
    and "uid \<notin> userId ` set (users r)" and "RECONNECT_TOKEN_PATTERN tok"
  shows "seat_frame r r'"
  using assms admitNewUser_frame reconnectUser_frame
  by (auto simp: joinRateChecked_def Let_def elim!: tryReconnectUser_cases
      split: if_splits option.splits prod.splits)

lemma handleDisconnect_frame:
  assumes "handleDisconnect sock lookup timer = Some (r', uid, effs)"
    and "lookup (the (sock_roomCode sock)) = Some r"
  shows "seat_frame r r'"
proof -
  obtain user where u: "findBySocketId (sock_id sock) r = Some user" "uid = userId user"
    and r': "r' = startGracePeriod uid timer (r\<lparr>users := update_first
        (\<lambda>u. socketId u = Some (sock_id sock) \<and> connected u)
        (\<lambda>u. u\<lparr>connected := False, socketId := None\<rparr>) (users r)\<rparr>)"
    using assms by (elim handleDisconnect_result) auto
  have "same_execution r r' \<and> same_tests r r' \<and> same_stream r r' \<and> mode r' = mode r"
    by (simp add: r' startGracePeriod_def frame_defs)
  moreover have "room_wf r' \<and> roles_ok r' \<and> tokens_ok r'" if ok: "room_wf r" "roles_ok r" "tokens_ok r"
  proof -
    have us: "users r' = map (\<lambda>v. if userId v = uid then v\<lparr>connected := False, socketId := None\<rparr> else v) (users r)"
      using handleDisconnect_users [OF ok(1) u(1)] by (simp add: r' u(2) startGracePeriod_def)
    have "map role (users r') = map role (users r)" "mode r' = mode r"
      by (simp_all add: us) (simp add: r' startGracePeriod_def)
    with roles_ok_map_role ok(2) have "roles_ok r'" by blast
    with handleDisconnect_wf [OF ok(1) u(1)] ok(3) us show ?thesis
      by (auto simp: r' u(2) tokens_ok_def)
  qed
  ultimately show ?thesis by (simp add: seat_frame_def)
qed

lemma gracePeriodFired_frame: "seat_frame r (gracePeriodFired uid r)"
proof -
  have "roles_ok (gracePeriodFired uid r) = roles_ok r"
    by (rule roles_ok_cong) (simp_all add: gracePeriodFired_def)
  then show ?thesis
    using gracePeriodFired_wf by (simp add: seat_frame_def) (simp add: gracePeriodFired_def frame_defs tokens_ok_def)
qed

lemma removeUser_frame: "seat_frame r (removeUser uid r)"
  using removeUser_wf removeUser_roles
  by (simp add: seat_frame_def) (auto simp: removeUser_def frame_defs tokens_ok_def)

lemma rotateYjsToken_frame: "seat_frame r (rotateYjsToken tok r)"
proof -
  have "roles_ok (rotateYjsToken tok r) = roles_ok r"
    by (rule roles_ok_cong) (simp_all add: rotateYjsToken_def)
  then show ?thesis
    using rotateYjsToken_wf by (simp add: seat_frame_def) (simp add: rotateYjsToken_def frame_defs tokens_ok_def)
qed

lemma graceExpired_frame:
  "case graceExpired tok uid r of
     Kept r' \<Rightarrow> seat_frame r r' | Removed r' effs \<Rightarrow> seat_frame r r' | DestroysRoom r' c \<Rightarrow> seat_frame r r'"
  using seat_frame_trans [OF gracePeriodFired_frame removeUser_frame]
    seat_frame_trans [OF seat_frame_trans [OF gracePeriodFired_frame removeUser_frame] rotateYjsToken_frame]
  by (simp add: graceExpired_def removeDisconnectedUser_def Let_def gracePeriodFired_frame split: option.split)

lemma timers_cleared_frame: "seat_frame r (r\<lparr>gracePeriodTimers := []\<rparr>)"
proof -
  have "roles_ok (r\<lparr>gracePeriodTimers := []\<rparr>) = roles_ok r" by (rule roles_ok_cong) simp_all
  then show ?thesis by (auto simp: seat_frame_def frame_defs room_wf_def tokens_ok_def)
qed

lemma hint_frame_seat: "hint_frame r r' \<Longrightarrow> same_stream r r' \<Longrightarrow> seat_frame r r'"
  using same_seats_ok [of r r'] by (auto simp: hint_frame_def seat_frame_def same_seats_def)

end
