(* ===== verification/Protocol_Safety.thy ===== *)
theory Protocol_Safety
  imports Room_Frames
begin

text \<open>
  Invariants of a room under concurrent events. Every step of the protocol has one of seven
  effects; each invariant is kept by every effect, so by every run.
\<close>

section \<open>Effects of a step\<close>

definition seat_effect :: "protocol \<Rightarrow> protocol \<Rightarrow> bool" where
  "seat_effect p q \<longleftrightarrow> seat_frame (pr_room p) (pr_room q) \<and> pr_execs q = pr_execs p \<and> pr_hints q = pr_hints p"

definition start_effect :: "protocol \<Rightarrow> protocol \<Rightarrow> bool" where
  "start_effect p q \<longleftrightarrow> pr_hints q = pr_hints p
     \<and> (\<exists>sess k. starts (pr_room p) (pr_room q) k \<and> pr_execs q = pr_execs p @ resumed sess k)"

definition exec_effect :: "protocol \<Rightarrow> protocol \<Rightarrow> bool" where
  "exec_effect p q \<longleftrightarrow> pr_hints q = pr_hints p
     \<and> (\<exists>xs sess k ys k'. pr_execs p = xs @ (sess, k) # ys \<and> pr_execs q = xs @ resumed sess k' @ ys
          \<and> (if begun k then continues k (pr_room p) (pr_room q) k'
             else starts (pr_room p) (pr_room q) k' \<and> k' \<noteq> Some AwaitIpCheck))"

definition hint_effect :: "protocol \<Rightarrow> protocol \<Rightarrow> bool" where
  "hint_effect p q \<longleftrightarrow> pr_execs q = pr_execs p \<and> hint_frame (pr_room p) (pr_room q)
     \<and> same_stream (pr_room p) (pr_room q) \<and> set (pr_hints p) \<subseteq> set (pr_hints q)"

definition stream_effect :: "protocol \<Rightarrow> protocol \<Rightarrow> bool" where
  "stream_effect p q \<longleftrightarrow> pr_execs q = pr_execs p \<and> hint_frame (pr_room p) (pr_room q)
     \<and> (\<exists>xs sess k ys k'. pr_hints p = xs @ (sess, k) # ys \<and> pr_hints q = xs @ resumed sess k' @ ys
          \<and> (is_chunk k' \<or> \<not> hintStreaming (pr_room q)
             \<or> (same_stream (pr_room p) (pr_room q) \<and> \<not> is_chunk (Some k))))"

definition problem_effect :: "protocol \<Rightarrow> protocol \<Rightarrow> bool" where
  "problem_effect p q \<longleftrightarrow> problem_frame (pr_room p) (pr_room q) \<and> pr_execs q = pr_execs p \<and> pr_hints q = pr_hints p"

definition tests_effect :: "protocol \<Rightarrow> protocol \<Rightarrow> bool" where
  "tests_effect p q \<longleftrightarrow> tests_frame (pr_room p) (pr_room q) \<and> pr_execs q = pr_execs p \<and> pr_hints q = pr_hints p"

lemma room_at_Some: "room_at p c = Some r \<Longrightarrow> r = pr_room p \<and> pr_alive p"
  by (auto simp: room_at_def split: if_splits)

lemma createExecutionSession_room:
  "createExecutionSession sock (room_at p) ty = Some (r, sess) \<Longrightarrow> r = pr_room p"
  by (auto simp: createExecutionSession_def createHandlerSession_def dest: room_at_Some
      split: option.splits if_splits)

lemma disconnect_effect:
  assumes "sock_roomCode sock = Some (roomCode (pr_room p))"
  shows "seat_effect p (disconnect_step p sock timer)"
proof -
  have frame1: "seat_frame (pr_room p) r"
    if "handleDisconnect sock (room_at p) timer = Some (r, uid, effs)" for r uid effs
  proof -
    have "room_at p (the (sock_roomCode sock)) = Some (pr_room p)"
      using that assms by (elim handleDisconnect_result) (auto dest: room_at_Some)
    then show ?thesis by (rule handleDisconnect_frame [OF that])
  qed
  define r1 where "r1 = (case handleDisconnect sock (room_at p) timer of
     None \<Rightarrow> pr_room p | Some (r, uid, effs) \<Rightarrow> r)"
  have 1: "seat_frame (pr_room p) r1" by (auto simp: r1_def dest: frame1 split: option.split)
  have 2: "seat_frame r1 r2" if "handleRequesterDisconnect s r1 c = (r2, c2, effs)" for s c r2 c2 effs
    using handleRequesterDisconnect_frame [OF that] hint_frame_seat by blast
  show ?thesis
    unfolding disconnect_step_def r1_def [symmetric] Let_def seat_effect_def
    using 1 seat_frame_trans [OF 1 2] by (auto split: prod.split)
qed

lemma grace_frames:
  "graceExpired tok uid r = Kept r' \<Longrightarrow> seat_frame r r'"
  "graceExpired tok uid r = Removed r' effs \<Longrightarrow> seat_frame r r'"
  "graceExpired tok uid r = DestroysRoom r' c \<Longrightarrow> seat_frame r r'"
  using graceExpired_frame [where tok = tok and uid = uid and r = r] by auto

lemma exec_effectI:
  "pr_execs p = xs @ (sess, k) # ys \<Longrightarrow> pr_execs q = xs @ resumed sess k' @ ys \<Longrightarrow> pr_hints q = pr_hints p \<Longrightarrow>
   (if begun k then continues k (pr_room p) (pr_room q) k'
    else starts (pr_room p) (pr_room q) k' \<and> k' \<noteq> Some AwaitIpCheck) \<Longrightarrow> exec_effect p q"
  unfolding exec_effect_def by blast

lemma stream_effectI:
  "pr_hints p = xs @ (sess, k) # ys \<Longrightarrow> pr_hints q = xs @ resumed sess k' @ ys \<Longrightarrow> pr_execs q = pr_execs p \<Longrightarrow>
   hint_frame (pr_room p) (pr_room q) \<Longrightarrow>
   is_chunk k' \<or> \<not> hintStreaming (pr_room q) \<or> (same_stream (pr_room p) (pr_room q) \<and> \<not> is_chunk (Some k)) \<Longrightarrow>
   stream_effect p q"
  unfolding stream_effect_def by blast

lemma pstep_effect:
  assumes "pstep env p q"
  shows "seat_effect p q \<or> start_effect p q \<or> exec_effect p q \<or> hint_effect p q \<or> stream_effect p q
    \<or> problem_effect p q \<or> tests_effect p q"
  using assms
proof cases
  case (join_checked xs sock payload ys uid tok now chk r' cleared effs k)
  with joinRateChecked_frame have "seat_frame (pr_room p) r'" by blast
  with join_checked show ?thesis by (simp add: seat_effect_def)
next
  case (disconnect sock timer)
  then show ?thesis using disconnect_effect by simp
next
  case (exec_start xs sock e data ys ty r sess now r' effs k)
  then have "starts (pr_room p) r' k"
    using createExecutionSession_room handleExecution_starts by blast
  with exec_start show ?thesis by (auto simp: start_effect_def)
next
  case (exec_resume xs sess k ys now ans r' effs k')
  have "exec_effect p q"
    by (rule exec_effectI [OF exec_resume(2)]) (use resume_exec_shape [OF exec_resume(3)] exec_resume(1) in \<open>simp_all split: if_splits\<close>)
  then show ?thesis by blast
next
  case (hint_resume xs sess k ys ans r' effs k')
  have "stream_effect p q"
    by (rule stream_effectI [OF hint_resume(2)]) (use resume_hint_shape [OF hint_resume(3)] hint_resume(1) in auto)
  then show ?thesis by blast
next
  case (hint_request xs sock data ys r now lst timer r' consent' lst' effs k)
  with room_at_Some handleHintRequest_frame show ?thesis
    unfolding hint_effect_def by fastforce
next
  case (hint_approve xs sock data ys r r' consent' effs k)
  with room_at_Some handleHintApprove_frame show ?thesis
    unfolding hint_effect_def by fastforce
next
  case (hint_deny xs sock data ys r r' consent' effs)
  with room_at_Some handleHintDeny_frame show ?thesis
    unfolding hint_effect_def by fastforce
next
  case (consent_timeout timer sock r' consent' effs)
  with consentTimedOut_frame show ?thesis unfolding hint_effect_def by fastforce
next
  case (problem_resume xs sess k ys now ans r' doc' k')
  with resume_problem_shape show ?thesis unfolding problem_effect_def by fastforce
next
  case (test_resume xs sock payload ys now ans r' effs)
  with boilerplateLoaded_shape show ?thesis unfolding tests_effect_def by fastforce
qed (auto simp: seat_effect_def timers_cleared_frame dest: grace_frames)

section \<open>Invariants\<close>

definition in_flight :: "protocol \<Rightarrow> nat" where
  "in_flight p = length (filter (\<lambda>e. begun (snd e)) (pr_execs p))"

definition exec_inv :: "protocol \<Rightarrow> bool" where
  "exec_inv p \<longleftrightarrow> in_flight p = (if executionInProgress (pr_room p) then 1 else 0)
     \<and> submissionsUsed (pr_room p) + in_flight p \<le> submissionLimit (pr_room p)"

definition seats_inv :: "protocol \<Rightarrow> bool" where
  "seats_inv p \<longleftrightarrow> room_wf (pr_room p) \<and> roles_ok (pr_room p) \<and> tokens_ok (pr_room p)"

definition tests_inv :: "protocol \<Rightarrow> bool" where
  "tests_inv p \<longleftrightarrow> length (customTestCases (pr_room p)) \<le> customTestCaseLimit (pr_room p)"

definition stream_inv :: "protocol \<Rightarrow> bool" where
  "stream_inv p \<longleftrightarrow> (hintStreaming (pr_room p) \<longrightarrow> (\<exists>(s, k) \<in> set (pr_hints p). is_chunk (Some k)))"

lemma canExecute_Allowed:
  "canExecute r = Allowed \<Longrightarrow> \<not> executionInProgress r \<and> submissionsUsed r < submissionLimit r"
  by (auto simp: canExecute_def split: if_splits)

lemma in_flight_resumed [simp]:
  "length (filter (\<lambda>e. begun (snd e)) (resumed s k)) = (if \<exists>k'. k = Some k' \<and> begun k' then 1 else 0)"
  by (cases k) (simp_all add: resumed_def)

lemma starts_cases:
  assumes "starts r r' k"
  obtains (refused) "k = None" "r' = r"
    | (aborted) now where "k = None" "canExecute r = Allowed"
        "r' = finish_execution False now (r\<lparr>executionInProgress := True\<rparr>)"
    | (waits) "k = Some AwaitIpCheck" "r' = r"
    | (begins) k' where "k = Some k'" "begun k'" "canExecute r = Allowed" "r' = r\<lparr>executionInProgress := True\<rparr>"
proof (cases k)
  case None
  with assms refused aborted show ?thesis by (simp only: starts_def option.case) blast
next
  case (Some k')
  with assms waits begins show ?thesis by (simp only: starts_def option.case) blast
qed

text \<open>\<open>n\<close> executions in flight beside the one that moves.\<close>

definition exec_ok :: "nat \<Rightarrow> room \<Rightarrow> bool" where
  "exec_ok n r \<longleftrightarrow> n = (if executionInProgress r then 1 else 0) \<and> submissionsUsed r + n \<le> submissionLimit r"

lemma exec_inv_ok: "exec_inv p \<longleftrightarrow> exec_ok (in_flight p) (pr_room p)"
  by (simp add: exec_inv_def exec_ok_def)

lemma starts_exec_ok:
  assumes "starts r r' k" and "exec_ok n r"
  shows "exec_ok (n + (if \<exists>k'. k = Some k' \<and> begun k' then 1 else 0)) r'"
  using assms(1)
proof (cases rule: starts_cases)
  case (aborted now)
  with assms(2) canExecute_Allowed [OF aborted(2)] show ?thesis by (simp add: exec_ok_def finish_execution_def)
next
  case (begins k')
  with assms(2) canExecute_Allowed [OF begins(3)] show ?thesis by (simp add: exec_ok_def)
qed (use assms(2) in \<open>simp_all add: exec_ok_def\<close>)

lemma continues_exec_ok:
  assumes "continues k r r' k'" and "exec_ok (n + 1) r"
  shows "exec_ok (n + (if \<exists>k2. k' = Some k2 \<and> begun k2 then 1 else 0)) r'"
proof (cases k')
  case None
  with assms(1) obtain b now where "r' = finish_execution b now r" by (simp only: continues_def option.case) blast
  with None assms(2) show ?thesis by (simp add: exec_ok_def finish_execution_def split: if_splits)
next
  case (Some k2)
  with assms show ?thesis by (simp add: continues_def)
qed

lemma start_exec_inv: "start_effect p q \<Longrightarrow> exec_inv p \<Longrightarrow> exec_inv q"
  by (auto simp: start_effect_def exec_inv_ok in_flight_def simp del: One_nat_def dest: starts_exec_ok)

lemma exec_exec_inv:
  assumes "exec_effect p q" and "exec_inv p"
  shows "exec_inv q"
proof -
  obtain xs sess k ys k' where p: "pr_execs p = xs @ (sess, k) # ys"
    and q: "pr_execs q = xs @ resumed sess k' @ ys"
    and e: "if begun k then continues k (pr_room p) (pr_room q) k'
            else starts (pr_room p) (pr_room q) k' \<and> k' \<noteq> Some AwaitIpCheck"
    using assms(1) by (auto simp: exec_effect_def)
  let ?c = "\<lambda>es. length (filter (\<lambda>e. begun (snd e)) es)"
  have inv: "exec_ok (?c xs + ?c ys + (if begun k then 1 else 0)) (pr_room p)"
    using assms(2) by (cases "begun k") (simp_all add: exec_inv_ok in_flight_def p)
  have goal: "exec_inv q = exec_ok (?c xs + ?c ys + (if \<exists>k2. k' = Some k2 \<and> begun k2 then 1 else 0)) (pr_room q)"
    by (simp add: exec_inv_ok in_flight_def q add.commute add.left_commute)
  show ?thesis
  proof (cases "begun k")
    case True
    with e inv have "continues k (pr_room p) (pr_room q) k'" "exec_ok (?c xs + ?c ys + 1) (pr_room p)" by simp_all
    then show ?thesis unfolding goal by (rule continues_exec_ok)
  next
    case False
    with e inv have "starts (pr_room p) (pr_room q) k'" "exec_ok (?c xs + ?c ys) (pr_room p)" by simp_all
    then show ?thesis unfolding goal by (rule starts_exec_ok)
  qed
qed

lemma same_execution_inv:
  "same_execution (pr_room p) (pr_room q) \<Longrightarrow> pr_execs q = pr_execs p \<Longrightarrow> exec_inv p \<Longrightarrow> exec_inv q"
  by (simp add: exec_inv_def same_execution_def in_flight_def)

lemma same_tests_inv: "same_tests (pr_room p) (pr_room q) \<Longrightarrow> tests_inv p \<Longrightarrow> tests_inv q"
  by (simp add: tests_inv_def same_tests_def)

lemma same_seats_inv: "same_seats (pr_room p) (pr_room q) \<Longrightarrow> seats_inv p \<Longrightarrow> seats_inv q"
  using same_seats_ok by (simp add: seats_inv_def)

lemma same_stream_inv:
  "same_stream (pr_room p) (pr_room q) \<Longrightarrow> set (pr_hints p) \<subseteq> set (pr_hints q) \<Longrightarrow> stream_inv p \<Longrightarrow> stream_inv q"
  by (auto simp: stream_inv_def same_stream_def)

lemma exec_effect_frames:
  "exec_effect p q \<Longrightarrow> same_seats (pr_room p) (pr_room q) \<and> same_tests (pr_room p) (pr_room q)
     \<and> same_stream (pr_room p) (pr_room q) \<and> pr_hints q = pr_hints p"
  by (auto simp: exec_effect_def dest: starts_frames continues_frames split: if_splits)

lemma start_effect_frames:
  "start_effect p q \<Longrightarrow> same_seats (pr_room p) (pr_room q) \<and> same_tests (pr_room p) (pr_room q)
     \<and> same_stream (pr_room p) (pr_room q) \<and> pr_hints q = pr_hints p"
  by (auto simp: start_effect_def dest: starts_frames)

lemma stream_stream_inv:
  assumes "stream_effect p q" and "stream_inv p"
  shows "stream_inv q"
  using assms by (fastforce simp: stream_effect_def stream_inv_def same_stream_def resumed_def split: option.splits)

lemmas effect_frames = hint_effect_def stream_effect_def problem_effect_def tests_effect_def seat_effect_def
  hint_frame_def problem_frame_def tests_frame_def seat_frame_def

lemma pstep_seats:
  assumes "pstep env p q"
  obtains "same_seats (pr_room p) (pr_room q)" | "seat_frame (pr_room p) (pr_room q)"
  using pstep_effect [OF assms] start_effect_frames [of p q] exec_effect_frames [of p q]
  unfolding seat_effect_def hint_effect_def stream_effect_def problem_effect_def tests_effect_def
    hint_frame_def problem_frame_def tests_frame_def
  by metis

lemma pstep_execution:
  assumes "pstep env p q"
  obtains "start_effect p q" | "exec_effect p q"
    | "same_execution (pr_room p) (pr_room q)" "pr_execs q = pr_execs p"
  using pstep_effect [OF assms]
  unfolding seat_effect_def hint_effect_def stream_effect_def problem_effect_def tests_effect_def
    hint_frame_def problem_frame_def tests_frame_def seat_frame_def
  by metis

lemma pstep_tests:
  assumes "pstep env p q"
  obtains "same_tests (pr_room p) (pr_room q)" | "problem_frame (pr_room p) (pr_room q)"
    | "tests_frame (pr_room p) (pr_room q)"
  using pstep_effect [OF assms] start_effect_frames [of p q] exec_effect_frames [of p q]
  unfolding seat_effect_def hint_effect_def stream_effect_def problem_effect_def tests_effect_def
    hint_frame_def seat_frame_def
  by metis

lemma pstep_stream:
  assumes "pstep env p q"
  obtains "stream_effect p q"
    | "same_stream (pr_room p) (pr_room q)" "set (pr_hints p) \<subseteq> set (pr_hints q)"
  using pstep_effect [OF assms] start_effect_frames [of p q] exec_effect_frames [of p q]
  unfolding seat_effect_def hint_effect_def problem_effect_def tests_effect_def
    seat_frame_def problem_frame_def tests_frame_def
  by (metis subset_refl)

interpretation seats: step_invariant "pstep env" seats_inv for env
  by unfold_locales (erule pstep_seats, auto dest: same_seats_inv simp: seats_inv_def seat_frame_def)

interpretation execs: step_invariant "pstep env" exec_inv for env
  by unfold_locales (erule pstep_execution, auto dest: start_exec_inv exec_exec_inv same_execution_inv)

interpretation tests: step_invariant "pstep env" tests_inv for env
  by unfold_locales
    (erule pstep_tests, auto dest: same_tests_inv simp: tests_inv_def problem_frame_def tests_frame_def)

interpretation streams: step_invariant "pstep env" stream_inv for env
  by unfold_locales (erule pstep_stream, auto dest: stream_stream_inv same_stream_inv)

lemma reachable_steps: "reachable env r0 p \<Longrightarrow> (pstep env)\<^sup>*\<^sup>* (new_protocol r0) p"
  by (induction rule: reachable.induct) auto

lemma initial_invs:
  assumes "r0 = new_room code m options token now"
  shows "seats_inv (new_protocol r0)" and "exec_inv (new_protocol r0)" and "tests_inv (new_protocol r0)"
    and "stream_inv (new_protocol r0)"
  using assms new_room_wf new_room_roles
  by (simp_all add: seats_inv_def exec_inv_def tests_inv_def stream_inv_def new_protocol_def in_flight_def)
    (simp_all add: new_room_def tokens_ok_def)

section \<open>Seats that nobody can free\<close>

lemma join_keeps_connected:
  assumes "joinRateChecked uid tok now sock chk payload r = (r', cleared, effs, k)"
    and "room_wf r" and "u \<in> set (users r)" and "connected u"
  shows "u \<in> set (users r')"
proof -
  have "u \<in> set (users r1)" if "admitNewUser uid tok now sock payload r = (r1, c1, e1, k1)" for r1 c1 e1 k1
    using that assms(3) by (auto simp: admitNewUser_def addUser_def Let_def split: if_splits prod.splits)
  moreover have "u \<in> set (users r1)" if rec: "tryReconnectUser tok now sock t r = Some (r1, v, c1)" for t r1 v c1
  proof -
    obtain w where w: "findByReconnectToken t r = Some w"
      "reconnectUser tok now (userId w) (sock_id sock) r = Some (r1, v, c1)"
      using tryReconnectUser_cases [OF rec] by blast
    then have "w \<in> set (users r)" "\<not> connected w"
      by (auto simp: findByReconnectToken_def dest!: find_Some_mem)
    with assms(2-4) have "userId u \<noteq> userId w"
      by (auto simp: room_wf_def distinct_map dest: inj_onD)
    with assms(3) show ?thesis unfolding reconnectUser_users [OF assms(2) w(2)] by force
  qed
  ultimately show ?thesis
    using assms(1,3) by (auto simp: joinRateChecked_def Let_def split: if_splits option.splits prod.splits)
qed

lemma disconnect_keeps_connected:
  assumes "sock_roomCode sock = Some (roomCode (pr_room p))" and "room_wf (pr_room p)"
    and "u \<in> set (users (pr_room p))" and "connected u" and "socketId u \<noteq> Some (sock_id sock)"
  shows "u \<in> set (users (pr_room (disconnect_step p sock timer)))"
proof -
  have 1: "u \<in> set (users r)" if d: "handleDisconnect sock (room_at p) timer = Some (r, uid, effs)" for r uid effs
  proof -
    obtain r0 user where u: "room_at p (the (sock_roomCode sock)) = Some r0"
      "findBySocketId (sock_id sock) r0 = Some user"
      and r: "r = startGracePeriod uid timer (r0\<lparr>users := update_first
        (\<lambda>u. socketId u = Some (sock_id sock) \<and> connected u)
        (\<lambda>u. u\<lparr>connected := False, socketId := None\<rparr>) (users r0)\<rparr>)"
      using d by (elim handleDisconnect_result)
    then have r0: "r0 = pr_room p" by (auto dest: room_at_Some)
    have "userId u \<noteq> userId user"
      using assms(2,3,5) findBySocketId_Some [OF u(2)] by (auto simp: r0 room_wf_def distinct_map dest: inj_onD)
    with assms(3) show ?thesis
      using handleDisconnect_users [of r0, OF _ u(2)] assms(2) by (auto simp: r r0 startGracePeriod_def)
  qed
  have 2: "users r2 = users r1" if "handleRequesterDisconnect s r1 c = (r2, c2, effs)" for s r1 c r2 c2 effs
    using handleRequesterDisconnect_frame [OF that] by (simp add: hint_frames)
  define r1 where "r1 = (case handleDisconnect sock (room_at p) timer of
     None \<Rightarrow> pr_room p | Some (r, uid, effs) \<Rightarrow> r)"
  have "u \<in> set (users r1)" using assms(3) by (auto simp: r1_def dest: 1 split: option.split)
  then show ?thesis
    unfolding disconnect_step_def r1_def [symmetric] Let_def by (auto dest: 2 split: prod.split)
qed

lemma grace_keeps_connected:
  assumes "room_wf r" and "u \<in> set (users r)" and "connected u"
  shows "case graceExpired tok uid r of Kept r' \<Rightarrow> u \<in> set (users r')
    | Removed r' effs \<Rightarrow> u \<in> set (users r') | DestroysRoom r' c \<Rightarrow> u \<in> set (users r')"
proof -
  let ?g = "gracePeriodFired uid r"
  have g: "users ?g = users r" by (simp add: gracePeriodFired_def)
  have "userId u \<noteq> uid" if "findUser uid ?g = Some w" "\<not> connected w" for w
    using that findUser_mem [OF gracePeriodFired_wf [OF assms(1)], of u] assms(2,3) g by auto
  then have "u \<in> set (users (removeUser uid ?g))" if "findUser uid ?g = Some w" "\<not> connected w" for w
    using that assms(2) g by (auto simp: removeUser_def)
  with assms(2) g show ?thesis
    by (fastforce simp: graceExpired_def removeDisconnectedUser_def rotateYjsToken_def Let_def
        split: option.splits)
qed

definition ghost :: "string \<Rightarrow> room_user_internal \<Rightarrow> protocol \<Rightarrow> bool" where
  "ghost sid u p \<longleftrightarrow> room_wf (pr_room p) \<and> roles_ok (pr_room p) \<and> tokens_ok (pr_room p) \<and>
     u \<in> set (users (pr_room p)) \<and> connected u \<and> socketId u = Some sid \<and>
     sid \<in> set (pr_used p) \<and> sid \<notin> set (pr_open p)"

lemma pstep_ghost_user:
  assumes "pstep env p q" and "ghost sid u p"
  shows "u \<in> set (users (pr_room q))"
  using assms(1)
proof cases
  case (join_checked xs sock payload ys uid tok now chk r' cleared effs k)
  with assms(2) join_keeps_connected show ?thesis by (auto simp: ghost_def)
next
  case (disconnect sock timer)
  with assms(2) show ?thesis by (auto simp: ghost_def intro!: disconnect_keeps_connected)
next
  case (grace_kept uid tok r')
  with assms(2) grace_keeps_connected [of "pr_room p" u tok uid] show ?thesis by (simp add: ghost_def)
next
  case (grace_removed uid tok r' effs)
  with assms(2) grace_keeps_connected [of "pr_room p" u tok uid] show ?thesis by (simp add: ghost_def)
next
  case (grace_destroys uid tok r' c)
  with assms(2) grace_keeps_connected [of "pr_room p" u tok uid] show ?thesis by (simp add: ghost_def)
next
  case (exec_start xs sock e data ys ty r sess now r' effs k)
  then have "starts (pr_room p) r' k" using createExecutionSession_room handleExecution_starts by blast
  with exec_start assms(2) starts_frames show ?thesis by (fastforce simp: ghost_def same_seats_def)
next
  case (exec_resume xs sess k ys now ans r' effs k')
  then have "same_seats (pr_room p) r'"
    using resume_exec_shape starts_frames continues_frames by (metis (full_types))
  with exec_resume assms(2) show ?thesis by (simp add: ghost_def same_seats_def)
next
  case (hint_request xs sock data ys r now lst timer r' consent' lst' effs k)
  then show ?thesis using assms(2) room_at_Some handleHintRequest_frame
    by (fastforce simp: ghost_def hint_frames)
next
  case (hint_approve xs sock data ys r r' consent' effs k)
  then show ?thesis using assms(2) room_at_Some handleHintApprove_frame
    by (fastforce simp: ghost_def hint_frames)
next
  case (hint_deny xs sock data ys r r' consent' effs)
  then show ?thesis using assms(2) room_at_Some handleHintDeny_frame
    by (fastforce simp: ghost_def hint_frames)
next
  case (consent_timeout timer sock r' consent' effs)
  then show ?thesis using assms(2) consentTimedOut_frame by (fastforce simp: ghost_def hint_frames)
next
  case (hint_resume xs sess k ys ans r' effs k')
  then show ?thesis using assms(2) resume_hint_shape by (fastforce simp: ghost_def hint_frames)
next
  case (problem_resume xs sess k ys now ans r' doc' k')
  then show ?thesis using assms(2) resume_problem_shape
    by (fastforce simp: ghost_def problem_frame_def frame_defs)
next
  case (test_resume xs sock payload ys now ans r' effs)
  then show ?thesis using assms(2) boilerplateLoaded_shape
    by (fastforce simp: ghost_def tests_frame_def frame_defs)
qed (use assms(2) in \<open>auto simp: ghost_def\<close>)

lemma pstep_ghost_sockets:
  "pstep env p q \<Longrightarrow> sid \<in> set (pr_used p) \<and> sid \<notin> set (pr_open p) \<Longrightarrow>
   sid \<in> set (pr_used q) \<and> sid \<notin> set (pr_open q)"
  by (cases rule: pstep.cases) (auto simp: disconnect_step_def Let_def split: prod.splits)

interpretation ghosts: step_invariant "pstep env" "ghost sid u" for env sid u
proof
  fix p q assume g: "ghost sid u p" and s: "pstep env p q"
  then have "seats_inv q" by (intro seats.inv_step [OF _ s]) (simp add: ghost_def seats_inv_def)
  with g pstep_ghost_user [OF s g] pstep_ghost_sockets [OF s] show "ghost sid u q"
    by (simp add: ghost_def seats_inv_def)
qed

section \<open>A concrete room\<close>

definition sample_env :: environment where
  "sample_env =
     \<lparr>env_exec = \<lparr>ed_hasIpLimiter = False, ed_judge0ExecPerHour = None, ed_dailyLimit = 100,
                   ed_maxCodeBytes = 1000, ed_hasOperationLimiter = True\<rparr>,
      env_hint = \<lparr>hd_hasGroqClient = True, hd_enableLLMHintFallback = True,
                   hd_enableImportedProblemHints = False, hd_maxLLMPromptChars = 4000,
                   hd_maxLLMHintChars = 500, hd_maxLLMCallsPerRoom = 5, hd_hasIpLimiter = False,
                   hd_hasLlmLimiter = False\<rparr>,
      env_problem = \<lparr>pb_importsPerHour = 5, pb_enableProblemImport = True, pb_importsDailyLimit = 50,
                      pb_hasGenerateTestCases = False, pb_hasImportLimiter = False\<rparr>,
      env_parse = (\<lambda>s. None), env_stringify = (\<lambda>j. []), env_is_uuid = (\<lambda>s. s \<noteq> []),
      env_parse_url = (\<lambda>u. None), env_cooldown = 5000\<rparr>"

definition ada :: room_user_internal where
  "ada = \<lparr>userId = ''u1'', displayName = ''Ada'', role = Interviewer, connected = True,
          reconnectToken = sample_token CHR ''a'', socketId = Some ''s1''\<rparr>"

definition join_payload :: user_join_payload where
  "join_payload = \<lparr>uj_name = ''Ada'', uj_token = None\<rparr>"

definition join_data :: js_unknown where
  "join_data = Some (JObj [(''displayName'', JStr ''Ada'')])"

lemma sample_room_at: "pr_alive p \<Longrightarrow> roomCode (pr_room p) = ''aaa-aaa'' \<Longrightarrow>
    room_at p ''aaa-aaa'' = Some (pr_room p) \<and> room_at p (normalizeRoomCode ''aaa-aaa'') = Some (pr_room p)"
  by (simp add: room_at_def normalizeRoomCode_def) code_simp

lemma sample_room_fields: "roomCode sample_room = ''aaa-aaa''" "problemId sample_room = None"
    "gracePeriodTimers sample_room = []" "isFull sample_room \<longleftrightarrow> False" "pendingHintRequest sample_room = None"
  by (simp_all add: sample_room_def new_room_def isFull_def MAX_USERS_def)

lemma join_schema: "userJoinSchema join_data = Some join_payload"
  unfolding join_data_def join_payload_def by code_simp

text \<open>A socket asks to join; nobody sits on it yet.\<close>

lemma asks_to_join:
  assumes "pr_alive p" "roomCode (pr_room p) = ''aaa-aaa''" "''s1'' \<in> set (pr_open p)"
    and "findBySocketId ''s1'' (pr_room p) = None" "pr_passed p = []"
  shows "(pstep sample_env)\<^sup>*\<^sup>* p (p\<lparr>pr_joins := pr_joins p @ [(sample_sock ''s1'', AwaitJoinLimit join_payload)]\<rparr>)"
proof -
  let ?sock = "sample_sock ''s1''"
  let ?p1 = "p\<lparr>pr_passed := [(?sock, USER_JOIN, join_data)]\<rparr>"
  have 1: "pstep sample_env p ?p1"
    using pstep.authorize [of ?sock p USER_JOIN sample_env join_data] assms
    by (simp add: sample_sock_def authMiddleware_def BYPASS_EVENTS_def)
  have h: "handleUserJoin ?sock (room_at ?p1) join_data = ([], Some (AwaitJoinLimit join_payload))"
    using assms sample_room_at [of ?p1]
    by (simp add: handleUserJoin_def join_schema validatePayloadOrReject_def getSocketRoomCode_def sample_sock_def)
  have same: "p\<lparr>pr_passed := [], pr_joins := js\<rparr> = p\<lparr>pr_joins := js\<rparr>" for js
    by (rule protocol.equality) (simp_all add: assms(5))
  have 2: "pstep sample_env ?p1 (p\<lparr>pr_joins := pr_joins p @ [(?sock, AwaitJoinLimit join_payload)]\<rparr>)"
    using pstep.join_start [of ?p1 "[]" ?sock join_data "[]" "[]" "Some (AwaitJoinLimit join_payload)" sample_env] h assms(3)
      same by (simp add: sample_sock_def resumed_def)
  from 1 2 show ?thesis by auto
qed

text \<open>The rate limiter lets the join through: the room gains a user on that socket.\<close>

lemma join_goes_through:
  assumes "pr_joins p = (sample_sock ''s1'', AwaitJoinLimit join_payload) # js"
    and "\<not> isFull (pr_room p)" "problemId (pr_room p) = None" "uid \<notin> userId ` set (users (pr_room p))"
    and "RECONNECT_TOKEN_PATTERN tok"
  shows "pstep sample_env p
    (p\<lparr>pr_room := fst (addUser uid tok 5 ''Ada'' (determineRole (pr_room p)) ''s1'' (pr_room p)), pr_joins := js\<rparr>)"
proof -
  let ?r' = "fst (addUser uid tok 5 ''Ada'' (determineRole (pr_room p)) ''s1'' (pr_room p))"
  let ?u = "snd (addUser uid tok 5 ''Ada'' (determineRole (pr_room p)) ''s1'' (pr_room p))"
  let ?sock = "sample_sock ''s1''"
  obtain effs where e: "emitJoinedPayload ?sock ?r' ?u (Some ?u) = (effs, None)"
    using assms(3) by (simp add: emitJoinedPayload_def addUser_def Let_def truthy_text_def)
  have sid: "sock_id ?sock = ''s1''" by (simp add: sample_sock_def)
  have "joinRateChecked uid tok 5 ?sock \<lparr>allowed = True, retryAfter = 0\<rparr> join_payload (pr_room p)
      = (?r', [], effs, None)"
    using assms(2) e by (simp add: joinRateChecked_def join_payload_def truthy_text_def admitNewUser_def
        sid Let_def case_prod_beta)
  from pstep.join_checked [where xs = "[]", OF _ assms(4,5) this] assms(1)
  show ?thesis by (simp add: resumed_def)
qed

text \<open>The socket closes while its first join still waits for the rate limiter.\<close>

lemma disconnect_of_unseated:
  assumes "''s1'' \<in> set (pr_open p)" "roomCode (pr_room p) = ''aaa-aaa''" "pr_alive p"
    and "findBySocketId ''s1'' (pr_room p) = None" "pendingHintRequest (pr_room p) = None"
  shows "pstep sample_env p (p\<lparr>pr_open := removeAll ''s1'' (pr_open p)\<rparr>)"
proof -
  have "disconnect_step p (sample_sock ''s1'') 0 = p\<lparr>pr_open := removeAll ''s1'' (pr_open p)\<rparr>"
    by (rule protocol.equality) (use assms sample_room_at [of p] in
      \<open>simp_all add: disconnect_step_def handleDisconnect_def sample_sock_def handleRequesterDisconnect_def\<close>)
  then show ?thesis using pstep.disconnect [of "sample_sock ''s1''" p sample_env 0] assms
    by (simp add: sample_sock_def)
qed

definition ghost_room :: room where
  "ghost_room = fst (addUser ''u1'' (sample_token CHR ''a'') 5 ''Ada'' (determineRole sample_room) ''s1'' sample_room)"

lemma ghost_room_user: "users ghost_room = [ada]"
  by (simp add: ghost_room_def addUser_def determineRole_def Let_def ada_def)

definition ghost_state :: protocol where
  "ghost_state = (new_protocol sample_room)\<lparr>pr_used := [''s1''], pr_room := ghost_room\<rparr>"

lemma hex_a: "RECONNECT_TOKEN_PATTERN (sample_token CHR ''a'')" "RECONNECT_TOKEN_PATTERN (sample_token CHR ''b'')"
proof -
  have "lower_hex CHR ''a''" "lower_hex CHR ''b''" by code_simp+
  then show "RECONNECT_TOKEN_PATTERN (sample_token CHR ''a'')" "RECONNECT_TOKEN_PATTERN (sample_token CHR ''b'')"
    by simp_all
qed

lemma sample_connects:
  "pstep sample_env (new_protocol sample_room) ((new_protocol sample_room)\<lparr>pr_open := [''s1''], pr_used := [''s1'']\<rparr>)"
  using pstep.connect [of "''s1''" "new_protocol sample_room" sample_env] by (simp add: new_protocol_def)

lemma reachable_from_steps:
  assumes "(pstep env)\<^sup>*\<^sup>* (new_protocol r0) p"
  shows "reachable env r0 p"
  using assms by (induction rule: rtranclp_induct) (auto intro: reachable.intros)

lemma ghost_state_reachable: "reachable sample_env sample_room ghost_state"
proof (rule reachable_from_steps)
  let ?w = "(sample_sock ''s1'', AwaitJoinLimit join_payload)"
  let ?p0 = "new_protocol sample_room"
  let ?p1 = "?p0\<lparr>pr_open := [''s1''], pr_used := [''s1'']\<rparr>"
  let ?p2 = "?p1\<lparr>pr_joins := [?w]\<rparr>"
  let ?p3 = "?p2\<lparr>pr_open := []\<rparr>"
  note s = sample_room_fields new_protocol_def findBySocketId_def
  have 1: "pstep sample_env ?p0 ?p1" by (rule sample_connects)
  have 2: "(pstep sample_env)\<^sup>*\<^sup>* ?p1 ?p2" using asks_to_join [of ?p1] by (simp add: s)
  have 3: "pstep sample_env ?p2 ?p3" using disconnect_of_unseated [of ?p2] by (simp add: s)
  have 4: "pstep sample_env ?p3 ghost_state"
    using join_goes_through [of ?p3 "[]", OF _ _ _ _ hex_a(1), of "''u1''"]
    by (simp add: s ghost_state_def ghost_room_def)
  from 1 2 3 4 show "(pstep sample_env)\<^sup>*\<^sup>* ?p0 ghost_state"
    by (meson converse_rtranclp_into_rtranclp rtranclp.rtrancl_into_rtrancl rtranclp_trans)
qed

definition twin_room :: room where
  "twin_room = fst (addUser ''u2'' (sample_token CHR ''b'') 5 ''Ada'' (determineRole ghost_room) ''s1'' ghost_room)"

lemma twin_state_reachable:
  "reachable sample_env sample_room
     ((new_protocol sample_room)\<lparr>pr_open := [''s1''], pr_used := [''s1''], pr_room := twin_room\<rparr>)"
    (is "reachable _ _ ?twin")
proof (rule reachable_from_steps)
  let ?w = "(sample_sock ''s1'', AwaitJoinLimit join_payload)"
  let ?p0 = "new_protocol sample_room"
  let ?p1 = "?p0\<lparr>pr_open := [''s1''], pr_used := [''s1'']\<rparr>"
  let ?p2 = "?p1\<lparr>pr_joins := [?w]\<rparr>"
  let ?p3 = "?p1\<lparr>pr_joins := [?w, ?w]\<rparr>"
  let ?p4 = "?p1\<lparr>pr_room := ghost_room, pr_joins := [?w]\<rparr>"
  note s = sample_room_fields new_protocol_def findBySocketId_def
  have f: "problemId ghost_room = None"
    by (simp add: ghost_room_def addUser_def sample_room_fields Let_def)
  have 1: "pstep sample_env ?p0 ?p1" by (rule sample_connects)
  have 2: "(pstep sample_env)\<^sup>*\<^sup>* ?p1 ?p2" using asks_to_join [of ?p1] by (simp add: s)
  have 3: "(pstep sample_env)\<^sup>*\<^sup>* ?p2 ?p3" using asks_to_join [of ?p2] by (simp add: s)
  have 4: "pstep sample_env ?p3 ?p4"
    using join_goes_through [of ?p3 "[?w]", OF _ _ _ _ hex_a(1), of "''u1''"]
    by (simp add: s ghost_room_def)
  have 5: "pstep sample_env ?p4 ?twin"
    using join_goes_through [of ?p4 "[]", OF _ _ _ _ hex_a(2), of "''u2''"]
    by (simp add: s twin_room_def f ghost_room_user isFull_def MAX_USERS_def ada_def)
  from 1 2 3 4 5 show "(pstep sample_env)\<^sup>*\<^sup>* ?p0 ?twin"
    by (meson converse_rtranclp_into_rtranclp rtranclp.rtrancl_into_rtrancl rtranclp_trans)
qed

fun failure_of :: "exec_k \<Rightarrow> exec_answer" where
  "failure_of (AwaitVisible _) = VisibleAnswer (Inl OtherExn)"
| "failure_of (AwaitResources _ _) = ResourcesAnswer (Inl OtherExn)"
| "failure_of (AwaitSlot _) = SlotAnswer (Inl OtherExn)"
| "failure_of (AwaitReserve _) = QuotaAnswer (Inl OtherExn) []"
| "failure_of (AwaitJudge0 _ _) = Judge0Answer (Inl OtherExn)"
| "failure_of AwaitIpCheck = IpAnswer \<lparr>allowed = False, retryAfter = 1\<rparr>"

lemma failure_ends:
  "begun k \<Longrightarrow> \<exists>r2 effs2. resume_exec env sess doc now k (failure_of k) r = Some (r2, effs2, None)
     \<and> \<not> executionInProgress r2"
  by (cases k) (simp_all add: visibleLoaded_def resourcesLoaded_def slotAnswered_def quotaAnswered_def
      judge0Answered_def execution_failed_def finish_execution_def)

section \<open>Properties\<close>

text \<open>
  C16: However the events of a room interleave, no two members have the same id, never more than
  two slots are taken, a member is connected exactly when it has a socket, a collaboration has only
  peers and an interview at most one interviewer, and every reconnect token keeps its shape.
\<close>

theorem protocol_seats:
  assumes "reachable env (new_room code m options token t0) p"
  shows "distinct (map userId (users (pr_room p))) \<and> length (users (pr_room p)) \<le> MAX_USERS
    \<and> list_all (\<lambda>u. connected u = (socketId u \<noteq> None) \<and> RECONNECT_TOKEN_PATTERN (reconnectToken u)) (users (pr_room p))
    \<and> (case mode (pr_room p) of
         Collaboration \<Rightarrow> list_all (\<lambda>u. role u = Peer) (users (pr_room p))
       | Interview \<Rightarrow> list_all (\<lambda>u. role u \<noteq> Peer) (users (pr_room p))
           \<and> length (filter (\<lambda>u. role u = Interviewer) (users (pr_room p))) \<le> 1)"
proof -
  have "seats_inv p"
    using seats.inv_steps [OF reachable_steps [OF assms]] initial_invs(1) [OF refl] by blast
  moreover have "is_interviewer = (\<lambda>u. role u = Interviewer)" by (simp add: fun_eq_iff is_interviewer_def)
  ultimately show ?thesis
    by (auto simp: seats_inv_def room_wf_def roles_ok_def tokens_ok_def user_ok_def list_all_iff
        split: RoomMode.splits)
qed

theorem protocol_seats_witness:
  "users (pr_room ghost_state) = [ada] \<and> length (users (pr_room ghost_state)) \<le> MAX_USERS"
proof -
  have "reachable sample_env (new_room ''aaa-aaa'' Interview no_options ''y'' 0) ghost_state"
    using ghost_state_reachable by (simp add: sample_room_def)
  from protocol_seats [OF this] show ?thesis by (simp add: ghost_state_def ghost_room_user)
qed

text \<open>
  C1: Code never runs twice at once in a room: at most one execution is past the room check, the
  flag \<^verbatim>\<open>executionInProgress\<close> is set exactly while one is, and the submissions
  already counted together with the one that may still count never exceed the limit of the room.
\<close>

theorem one_execution_at_a_time:
  assumes "reachable env (new_room code m options token t0) p"
  shows "in_flight p \<le> 1 \<and> (executionInProgress (pr_room p) \<longleftrightarrow> in_flight p = 1)
    \<and> submissionsUsed (pr_room p) + in_flight p \<le> submissionLimit (pr_room p)"
proof -
  have "exec_inv p"
    using execs.inv_steps [OF reachable_steps [OF assms]] initial_invs(2) [OF refl] by blast
  then show ?thesis by (auto simp: exec_inv_def split: if_splits)
qed

theorem one_execution_at_a_time_witness:
  "in_flight ghost_state \<le> 1 \<and> submissionsUsed (pr_room ghost_state) \<le> submissionLimit (pr_room ghost_state)"
proof -
  have "reachable sample_env (new_room ''aaa-aaa'' Interview no_options ''y'' 0) ghost_state"
    using ghost_state_reachable by (simp add: sample_room_def)
  from one_execution_at_a_time [OF this] show ?thesis by linarith
qed

text \<open>
  The custom test cases of a room never exceed its limit, although the limit is checked before
  the query for the boilerplate and the case is added after it; and the flag
  \<^verbatim>\<open>hintStreaming\<close>, which blocks hints and problem switches, is set only while some
  stream of a generated hint is open.
\<close>

theorem room_flags_and_limits:
  assumes "reachable env (new_room code m options token t0) p"
  shows "length (customTestCases (pr_room p)) \<le> customTestCaseLimit (pr_room p)
    \<and> (hintStreaming (pr_room p) \<longrightarrow> (\<exists>sess generated. (sess, AwaitChunk generated) \<in> set (pr_hints p)))"
proof -
  have "tests_inv p" "stream_inv p"
    using tests.inv_steps [OF reachable_steps [OF assms]] streams.inv_steps [OF reachable_steps [OF assms]]
      initial_invs(3,4) [OF refl] by blast+
  then show ?thesis by (fastforce simp: tests_inv_def stream_inv_def elim!: is_chunk.elims)
qed

theorem room_flags_and_limits_witness:
  "length (customTestCases (pr_room ghost_state)) \<le> customTestCaseLimit (pr_room ghost_state)"
proof -
  have "reachable sample_env (new_room ''aaa-aaa'' Interview no_options ''y'' 0) ghost_state"
    using ghost_state_reachable by (simp add: sample_room_def)
  from room_flags_and_limits [OF this] show ?thesis by simp
qed

text \<open>
  C30: A member whose socket closed before its join went through stays in the room for good: in no
  continuation is it removed, so the room always counts a connected member and the idle sweep
  never takes it. The witness reaches such a room: the socket closes while the join awaits the
  rate limiter.
\<close>

theorem ghost_member_is_permanent:
  assumes "reachable env (new_room code m options token t0) p"
    and "u \<in> set (users (pr_room p))" "connected u" "socketId u = Some sid"
    and "sid \<in> set (pr_used p)" "sid \<notin> set (pr_open p)"
    and "(pstep env)\<^sup>*\<^sup>* p q"
  shows "u \<in> set (users (pr_room q)) \<and> 0 < connectedUserCount (pr_room q)"
proof -
  have "seats_inv p"
    using seats.inv_steps [OF reachable_steps [OF assms(1)]] initial_invs(1) [OF refl] by blast
  then have "ghost sid u p" using assms(2-6) by (simp add: ghost_def seats_inv_def)
  from ghosts.inv_steps [OF assms(7) this] show ?thesis
    by (auto simp: ghost_def connectedUserCount_def filter_empty_conv)
qed

theorem ghost_member_is_permanent_witness:
  "reachable sample_env (new_room ''aaa-aaa'' Interview no_options ''y'' 0) ghost_state
   \<and> pr_open ghost_state = [] \<and> 0 < connectedUserCount (pr_room ghost_state)"
proof -
  have r: "reachable sample_env (new_room ''aaa-aaa'' Interview no_options ''y'' 0) ghost_state"
    using ghost_state_reachable by (simp add: sample_room_def)
  from ghost_member_is_permanent [OF r, of ada "''s1''" ghost_state] r show ?thesis
    by (simp add: ghost_state_def ghost_room_user new_protocol_def) (simp add: ada_def)
qed

text \<open>
  One client can take both slots: two joins sent before the rate limiter answers the first are
  both admitted, and the room is full with two connected members on the same socket.
\<close>

theorem one_socket_takes_both_slots:
  "\<exists>p u v. reachable sample_env sample_room p \<and> users (pr_room p) = [u, v] \<and> isFull (pr_room p)
     \<and> connected u \<and> connected v \<and> userId u \<noteq> userId v \<and> socketId u = Some ''s1'' \<and> socketId v = Some ''s1''
     \<and> pr_open p = [''s1'']"
proof -
  have us: "users twin_room = [ada, \<lparr>userId = ''u2'', displayName = ''Ada'', role = determineRole ghost_room,
      connected = True, reconnectToken = sample_token CHR ''b'', socketId = Some ''s1''\<rparr>]"
    by (simp add: twin_room_def addUser_def ghost_room_user Let_def)
  show ?thesis
    by (intro exI conjI, rule twin_state_reachable, simp add: us) (simp_all add: us isFull_def MAX_USERS_def ada_def)
qed

text \<open>
  C23: Every execution ends. An answer either finishes it or leaves it waiting for one of fewer
  remaining answers, at most five after the first; whatever it waits for after it began, a failure
  of that dependency finishes it; and whenever one that had begun finishes, the room accepts
  executions again.
\<close>

theorem execution_terminates:
  assumes "resume_exec env sess doc now k ans r = Some (r', effs, k')"
  shows "(case k' of
      Some k2 \<Rightarrow> exec_rank k2 < exec_rank k \<and> exec_rank k2 < 5
    | None \<Rightarrow> executionInProgress r' = (if begun k then False else executionInProgress r))
    \<and> (begun k \<longrightarrow> (\<exists>failure r2 effs2. resume_exec env sess doc now k failure r = Some (r2, effs2, None)
         \<and> \<not> executionInProgress r2))"
proof -
  have "\<exists>failure r2 effs2. resume_exec env sess doc now k failure r = Some (r2, effs2, None)
       \<and> \<not> executionInProgress r2" if "begun k"
    using failure_ends [OF that] by blast
  moreover have "case k' of
      Some k2 \<Rightarrow> exec_rank k2 < exec_rank k \<and> exec_rank k2 < 5
    | None \<Rightarrow> executionInProgress r' = (if begun k then False else executionInProgress r)"
    using resume_exec_shape [OF assms]
    by (cases k; cases k')
      (auto simp: continues_def starts_def finish_execution_def dest!: canExecute_Allowed split: if_splits)
  ultimately show ?thesis by blast
qed

theorem execution_terminates_witness:
  "\<exists>r' effs. resume_exec sample_env \<lparr>es_sock = sample_sock ''s1'', es_roomCode = ''aaa-aaa'', es_type = Run\<rparr>
       None 7 (AwaitVisible []) (VisibleAnswer (Inl (ErrorExn ''down''))) (sample_room\<lparr>executionInProgress := True\<rparr>)
     = Some (r', effs, None) \<and> \<not> executionInProgress r'"
proof -
  let ?sess = "\<lparr>es_sock = sample_sock ''s1'', es_roomCode = ''aaa-aaa'', es_type = Run\<rparr>"
  obtain r' effs where r: "resume_exec sample_env ?sess None 7 (AwaitVisible [])
      (VisibleAnswer (Inl (ErrorExn ''down''))) (sample_room\<lparr>executionInProgress := True\<rparr>) = Some (r', effs, None)"
    by (simp add: visibleLoaded_def execution_failed_def)
  from execution_terminates [OF r] have "\<not> executionInProgress r'" by simp
  with r show ?thesis by blast
qed

end
