(* ===== verification/Access_Store.thy ===== *)
theory Access_Store
  imports Prelude
begin

text \<open>
  The private-access tables and the queries over them:
  \<^verbatim>\<open>repositories/accessRepository.ts\<close> of \<^verbatim>\<open>packages/db/src\<close>.
  A query is a function of the two tables, a statement returns the tables updated; the transaction
  of \<^verbatim>\<open>createSession\<close> locks the invite's row, so it is one step. Ids and creation
  times, which the database draws, are arguments. Times are milliseconds.
\<close>

section \<open>Tables\<close>

record invite_row =
  iv_id :: string
  iv_label :: string
  iv_code_hash :: string
  iv_code_lookup_hash :: "string option"
  iv_max_sessions :: nat
  iv_expires_at :: "int option"
  iv_revoked_at :: "int option"
  iv_last_used_at :: "int option"
  iv_created_at :: int

record session_row =
  sn_id :: string
  sn_invite_id :: string
  sn_token_hash :: string
  sn_expires_at :: int
  sn_revoked_at :: "int option"

record access_db =
  invite_codes :: "invite_row list"
  access_sessions :: "session_row list"

record access_session_record =
  as_id :: string
  as_inviteId :: string
  as_sessionTokenHash :: string
  as_expiresAt :: int
  as_revokedAt :: "int option"
  as_inviteLabel :: string
  as_inviteExpiresAt :: "int option"
  as_inviteRevokedAt :: "int option"

section \<open>Queries\<close>

definition usable :: "int \<Rightarrow> invite_row \<Rightarrow> bool" where
  "usable now i \<longleftrightarrow> iv_revoked_at i = None \<and> (case iv_expires_at i of None \<Rightarrow> True | Some e \<Rightarrow> now < e)"

definition listUsableInvites :: "int \<Rightarrow> access_db \<Rightarrow> invite_row list" where
  "listUsableInvites now db =
     sort_key (\<lambda>i. - iv_created_at i)
       (filter (\<lambda>i. usable now i \<and> iv_code_lookup_hash i = None) (invite_codes db))"

definition findUsableInviteByLookupHash :: "string \<Rightarrow> int \<Rightarrow> access_db \<Rightarrow> invite_row option" where
  "findUsableInviteByLookupHash h now db =
     List.find (\<lambda>i. iv_code_lookup_hash i = Some h \<and> usable now i) (invite_codes db)"

definition find_invite :: "string \<Rightarrow> access_db \<Rightarrow> invite_row option" where
  "find_invite iid db = List.find (\<lambda>i. iv_id i = iid) (invite_codes db)"

definition toSessionRecord :: "session_row \<Rightarrow> invite_row \<Rightarrow> access_session_record" where
  "toSessionRecord s i =
     \<lparr>as_id = sn_id s, as_inviteId = sn_invite_id s, as_sessionTokenHash = sn_token_hash s,
      as_expiresAt = sn_expires_at s, as_revokedAt = sn_revoked_at s, as_inviteLabel = iv_label i,
      as_inviteExpiresAt = iv_expires_at i, as_inviteRevokedAt = iv_revoked_at i\<rparr>"

text \<open>The join: a session without its invite is not found.\<close>

definition findSessionById :: "string \<Rightarrow> access_db \<Rightarrow> access_session_record option" where
  "findSessionById sid db =
     (case List.find (\<lambda>s. sn_id s = sid) (access_sessions db) of
        None \<Rightarrow> None
      | Some s \<Rightarrow> map_option (toSessionRecord s) (find_invite (sn_invite_id s) db))"

definition live_sessions :: "string \<Rightarrow> int \<Rightarrow> access_db \<Rightarrow> nat" where
  "live_sessions iid now db =
     length (filter (\<lambda>s. sn_invite_id s = iid \<and> sn_revoked_at s = None \<and> now < sn_expires_at s)
               (access_sessions db))"

section \<open>Statements\<close>

record session_input =
  in_inviteId :: string
  in_sessionTokenHash :: string
  in_expiresAt :: int
  in_now :: int

definition createSession ::
  "string \<Rightarrow> session_input \<Rightarrow> access_db \<Rightarrow> access_db \<times> access_session_record option" where
  "createSession newId input db =
     (case find_invite (in_inviteId input) db of
        None \<Rightarrow> (db, None)
      | Some invite \<Rightarrow>
          if iv_max_sessions invite \<le> live_sessions (in_inviteId input) (in_now input) db then (db, None)
          else
            (let db' = \<lparr>invite_codes =
                          map (\<lambda>i. if iv_id i = in_inviteId input
                                   then i\<lparr>iv_last_used_at := Some (in_now input)\<rparr> else i) (invite_codes db),
                        access_sessions = access_sessions db @
                          [\<lparr>sn_id = newId, sn_invite_id = in_inviteId input,
                            sn_token_hash = in_sessionTokenHash input, sn_expires_at = in_expiresAt input,
                            sn_revoked_at = None\<rparr>]\<rparr>
             in (db', findSessionById newId db')))"

definition revokeSession :: "string \<Rightarrow> int \<Rightarrow> access_db \<Rightarrow> access_db" where
  "revokeSession sid now db =
     db\<lparr>access_sessions := map (\<lambda>s. if sn_id s = sid then s\<lparr>sn_revoked_at := Some now\<rparr> else s) (access_sessions db)\<rparr>"

definition createInvite ::
  "string \<Rightarrow> int \<Rightarrow> string \<Rightarrow> string \<Rightarrow> string \<Rightarrow> nat \<Rightarrow> int option \<Rightarrow> access_db \<Rightarrow> access_db \<times> invite_row" where
  "createInvite newId createdAt label codeHash codeLookupHash maxSessions expiresAt db =
     (let row = \<lparr>iv_id = newId, iv_label = label, iv_code_hash = codeHash,
                 iv_code_lookup_hash = Some codeLookupHash, iv_max_sessions = maxSessions,
                 iv_expires_at = expiresAt, iv_revoked_at = None, iv_last_used_at = None,
                 iv_created_at = createdAt\<rparr>
      in (db\<lparr>invite_codes := invite_codes db @ [row]\<rparr>, row))"

definition listInvites :: "access_db \<Rightarrow> invite_row list" where
  "listInvites db = sort_key (\<lambda>i. - iv_created_at i) (invite_codes db)"

definition revokeInvite :: "string \<Rightarrow> int \<Rightarrow> access_db \<Rightarrow> access_db" where
  "revokeInvite iid now db =
     db\<lparr>invite_codes := map (\<lambda>i. if iv_id i = iid then i\<lparr>iv_revoked_at := Some now\<rparr> else i) (invite_codes db)\<rparr>"

section \<open>Invariant\<close>

text \<open>The keys of the schema: primary keys, and the reference of a session to its invite.\<close>

definition db_wf :: "access_db \<Rightarrow> bool" where
  "db_wf db \<longleftrightarrow> distinct (map iv_id (invite_codes db)) \<and> distinct (map sn_id (access_sessions db))
     \<and> sn_invite_id ` set (access_sessions db) \<subseteq> iv_id ` set (invite_codes db)"

lemma db_wf_lists:
  "db_wf db \<longleftrightarrow> distinct (map iv_id (invite_codes db)) \<and> distinct (map sn_id (access_sessions db))
     \<and> set (map sn_invite_id (access_sessions db)) \<subseteq> set (map iv_id (invite_codes db))"
  by (simp add: db_wf_def)

lemma db_wf_find_invite: "db_wf db \<Longrightarrow> i \<in> set (invite_codes db) \<Longrightarrow> find_invite (iv_id i) db = Some i"
  unfolding find_invite_def by (rule find_distinct_key) (simp_all add: db_wf_def)

lemma find_invite_Some: "find_invite iid db = Some i \<Longrightarrow> i \<in> set (invite_codes db) \<and> iv_id i = iid"
  by (auto simp: find_invite_def dest: find_Some_mem)

lemma revokeSession_wf [wf_intros]: "db_wf db \<Longrightarrow> db_wf (revokeSession sid now db)"
proof -
  assume "db_wf db"
  moreover have "map sn_id (access_sessions (revokeSession sid now db)) = map sn_id (access_sessions db)"
    "map sn_invite_id (access_sessions (revokeSession sid now db)) = map sn_invite_id (access_sessions db)"
    by (simp_all add: revokeSession_def)
  ultimately show ?thesis
    unfolding db_wf_def by (simp only: list.set_map [symmetric]) (simp add: revokeSession_def)
qed

lemma revokeInvite_wf [wf_intros]: "db_wf db \<Longrightarrow> db_wf (revokeInvite iid now db)"
proof -
  assume "db_wf db"
  moreover have "map iv_id (invite_codes (revokeInvite iid now db)) = map iv_id (invite_codes db)"
    by (simp add: revokeInvite_def)
  ultimately show ?thesis
    unfolding db_wf_def by (simp only: list.set_map [symmetric]) (simp add: revokeInvite_def)
qed

lemma createInvite_wf [wf_intros]:
  "db_wf db \<Longrightarrow> newId \<notin> iv_id ` set (invite_codes db) \<Longrightarrow>
   db_wf (fst (createInvite newId t l h lh m e db))"
  by (auto simp: db_wf_def createInvite_def Let_def)

lemma createSession_wf [wf_intros]:
  assumes "db_wf db" and "newId \<notin> sn_id ` set (access_sessions db)"
  shows "db_wf (fst (createSession newId input db))"
proof (cases "find_invite (in_inviteId input) db")
  case None
  with assms show ?thesis by (simp add: createSession_def)
next
  case (Some i)
  show ?thesis
  proof (cases "iv_max_sessions i \<le> live_sessions (in_inviteId input) (in_now input) db")
    case True
    with Some assms(1) show ?thesis by (simp add: createSession_def)
  next
    case False
    let ?db = "fst (createSession newId input db)"
    have ids: "map iv_id (invite_codes ?db) = map iv_id (invite_codes db)"
      "map sn_id (access_sessions ?db) = map sn_id (access_sessions db) @ [newId]"
      "map sn_invite_id (access_sessions ?db) = map sn_invite_id (access_sessions db) @ [in_inviteId input]"
      using Some False by (simp_all add: createSession_def Let_def)
    have "in_inviteId input \<in> set (map iv_id (invite_codes db))"
      using find_invite_Some [OF Some] by force
    with assms show ?thesis unfolding db_wf_lists ids by auto
  qed
qed

lemma findSessionById_of:
  "db_wf db \<Longrightarrow> s \<in> set (access_sessions db) \<Longrightarrow>
   \<exists>i. find_invite (sn_invite_id s) db = Some i \<and> findSessionById (sn_id s) db = Some (toSessionRecord s i)"
proof -
  assume wf: "db_wf db" and s: "s \<in> set (access_sessions db)"
  then obtain i where "i \<in> set (invite_codes db)" "iv_id i = sn_invite_id s"
    by (auto simp: db_wf_def)
  with db_wf_find_invite [OF wf] have "find_invite (sn_invite_id s) db = Some i" by metis
  moreover have "List.find (\<lambda>t. sn_id t = sn_id s) (access_sessions db) = Some s"
    by (rule find_distinct_key) (use wf s in \<open>simp_all add: db_wf_def\<close>)
  ultimately show ?thesis by (simp add: findSessionById_def)
qed

section \<open>The repository over time\<close>

text \<open>
  Another request's statement at time \<open>t\<close>: its \<^verbatim>\<open>now\<close> was read when the
  request came in, so it is not later. The schema draws new ids.
\<close>

inductive db_step :: "int \<Rightarrow> access_db \<Rightarrow> access_db \<Rightarrow> bool" for t :: int where
  db_create: "newId \<notin> sn_id ` set (access_sessions db) \<Longrightarrow> in_now input \<le> t \<Longrightarrow>
     db_step t db (fst (createSession newId input db))"
| db_revoke: "db_step t db (revokeSession sid now db)"
| db_invite: "newId \<notin> iv_id ` set (invite_codes db) \<Longrightarrow>
     db_step t db (fst (createInvite newId createdAt label codeHash lookupHash maxSessions expiresAt db))"
| db_revoke_invite: "db_step t db (revokeInvite iid now db)"

definition evolves :: "access_db \<Rightarrow> access_db \<Rightarrow> bool" where
  "evolves db db' \<longleftrightarrow> (\<exists>t. db_step t db db')"

text \<open>What a session's record keeps: all but the two revocations, which never go away.\<close>

definition same_session :: "access_session_record \<Rightarrow> access_session_record \<Rightarrow> bool" where
  "same_session r r' \<longleftrightarrow> as_id r' = as_id r \<and> as_inviteId r' = as_inviteId r
     \<and> as_sessionTokenHash r' = as_sessionTokenHash r \<and> as_expiresAt r' = as_expiresAt r
     \<and> as_inviteLabel r' = as_inviteLabel r \<and> as_inviteExpiresAt r' = as_inviteExpiresAt r
     \<and> (as_revokedAt r \<noteq> None \<longrightarrow> as_revokedAt r' \<noteq> None)
     \<and> (as_inviteRevokedAt r \<noteq> None \<longrightarrow> as_inviteRevokedAt r' \<noteq> None)"

lemma same_session_refl [simp]: "same_session r r"
  by (simp add: same_session_def)

lemma same_session_trans: "same_session r r' \<Longrightarrow> same_session r' r'' \<Longrightarrow> same_session r r''"
  by (simp add: same_session_def)

lemma find_map_key: "(\<And>x. k (f x) = k x) \<Longrightarrow> List.find (\<lambda>x. k x = a) (map f xs) = map_option f (List.find (\<lambda>x. k x = a) xs)"
  by (induction xs) auto

lemma find_append: "List.find P (xs @ ys) = (case List.find P xs of None \<Rightarrow> List.find P ys | Some x \<Rightarrow> Some x)"
  by (induction xs) auto

lemma find_fresh_key: "a \<notin> k ` set xs \<Longrightarrow> List.find (\<lambda>x. k x = a) xs = None"
  by (auto simp: find_None_iff)

lemma createSession_cases:
  obtains "createSession newId input db = (db, None)"
  | invite where "find_invite (in_inviteId input) db = Some invite"
      "live_sessions (in_inviteId input) (in_now input) db < iv_max_sessions invite"
      "invite_codes (fst (createSession newId input db)) =
         map (\<lambda>i. if iv_id i = in_inviteId input then i\<lparr>iv_last_used_at := Some (in_now input)\<rparr> else i) (invite_codes db)"
      "access_sessions (fst (createSession newId input db)) = access_sessions db @
         [\<lparr>sn_id = newId, sn_invite_id = in_inviteId input, sn_token_hash = in_sessionTokenHash input,
           sn_expires_at = in_expiresAt input, sn_revoked_at = None\<rparr>]"
      "snd (createSession newId input db) = findSessionById newId (fst (createSession newId input db))"
proof (cases "find_invite (in_inviteId input) db")
  case None
  then show thesis by (intro that(1)) (simp add: createSession_def)
next
  case (Some i)
  show thesis
  proof (cases "iv_max_sessions i \<le> live_sessions (in_inviteId input) (in_now input) db")
    case True
    with Some show thesis by (intro that(1)) (simp add: createSession_def)
  next
    case False
    with Some show thesis by (intro that(2) [of i]) (simp_all add: createSession_def Let_def)
  qed
qed

lemma find_invite_touched:
  "invite_codes db' = map (\<lambda>i. if iv_id i = iid then i\<lparr>iv_last_used_at := x\<rparr> else i) (invite_codes db) \<Longrightarrow>
   find_invite a db' = map_option (\<lambda>i. if iv_id i = iid then i\<lparr>iv_last_used_at := x\<rparr> else i) (find_invite a db)"
  unfolding find_invite_def by (simp add: find_map_key)

lemma findSessionById_revoke:
  "findSessionById sid (revokeSession sid' now db) =
     map_option (\<lambda>r. if sid = sid' then r\<lparr>as_revokedAt := Some now\<rparr> else r) (findSessionById sid db)"
proof -
  have "find_invite a (revokeSession sid' now db) = find_invite a db" for a
    by (simp add: find_invite_def revokeSession_def)
  moreover have "List.find (\<lambda>s. sn_id s = sid) (access_sessions (revokeSession sid' now db)) =
      map_option (\<lambda>s. if sn_id s = sid' then s\<lparr>sn_revoked_at := Some now\<rparr> else s)
        (List.find (\<lambda>s. sn_id s = sid) (access_sessions db))"
    by (simp add: revokeSession_def find_map_key)
  ultimately show ?thesis
    by (auto simp: findSessionById_def toSessionRecord_def option.map_comp comp_def
      dest!: find_Some_mem split: option.splits intro!: option.map_cong)
qed

lemma findSessionById_revokeInvite:
  "findSessionById sid db = Some r \<Longrightarrow>
   \<exists>r'. findSessionById sid (revokeInvite iid now db) = Some r' \<and> same_session r r'"
proof -
  assume r: "findSessionById sid db = Some r"
  have "find_invite a (revokeInvite iid now db) =
      map_option (\<lambda>i. if iv_id i = iid then i\<lparr>iv_revoked_at := Some now\<rparr> else i) (find_invite a db)" for a
    by (simp add: find_invite_def revokeInvite_def find_map_key)
  moreover have "access_sessions (revokeInvite iid now db) = access_sessions db"
    by (simp add: revokeInvite_def)
  moreover obtain s i where "List.find (\<lambda>s. sn_id s = sid) (access_sessions db) = Some s"
      "find_invite (sn_invite_id s) db = Some i" "r = toSessionRecord s i"
    using r by (auto simp: findSessionById_def split: option.splits)
  ultimately show ?thesis
    by (simp add: findSessionById_def same_session_def toSessionRecord_def)
qed

lemma findSessionById_createInvite:
  "findSessionById sid db = Some r \<Longrightarrow> findSessionById sid (fst (createInvite newId t l h lh m e db)) = Some r"
  by (auto simp: findSessionById_def createInvite_def Let_def find_invite_def find_append split: option.splits)

lemma findSessionById_createSession_old:
  assumes "findSessionById sid db = Some r"
  shows "findSessionById sid (fst (createSession newId input db)) = Some r"
proof (cases rule: createSession_cases [of newId input db])
  case 1
  with assms show ?thesis by simp
next
  case (2 invite)
  obtain s i where "List.find (\<lambda>s. sn_id s = sid) (access_sessions db) = Some s"
      "find_invite (sn_invite_id s) db = Some i" "r = toSessionRecord s i"
    using assms by (auto simp: findSessionById_def split: option.splits)
  then show ?thesis
    by (simp add: findSessionById_def 2(4) find_append find_invite_touched [OF 2(3)] toSessionRecord_def)
qed

lemma findSessionById_created:
  assumes "newId \<notin> sn_id ` set (access_sessions db)"
    and "createSession newId input db = (db', Some r)"
  shows "findSessionById newId db' = Some r \<and> as_id r = newId \<and> as_inviteId r = in_inviteId input
    \<and> as_sessionTokenHash r = in_sessionTokenHash input \<and> as_expiresAt r = in_expiresAt input
    \<and> as_revokedAt r = None
    \<and> (\<exists>invite. find_invite (in_inviteId input) db = Some invite \<and> as_inviteLabel r = iv_label invite
        \<and> as_inviteExpiresAt r = iv_expires_at invite \<and> as_inviteRevokedAt r = iv_revoked_at invite)"
proof (cases rule: createSession_cases [of newId input db])
  case 1
  with assms show ?thesis by simp
next
  case (2 invite)
  have db': "fst (createSession newId input db) = db'" using assms(2) by simp
  note parts = 2(3,4) [unfolded db']
  have r: "findSessionById newId db' = Some r" using assms(2) 2(5) by simp
  obtain i where i: "find_invite (in_inviteId input) db' = Some i" "iv_label i = iv_label invite"
      "iv_expires_at i = iv_expires_at invite" "iv_revoked_at i = iv_revoked_at invite"
    using 2(1) by (simp add: find_invite_touched [OF parts(1)])
  have "List.find (\<lambda>s. sn_id s = newId) (access_sessions db') =
      Some \<lparr>sn_id = newId, sn_invite_id = in_inviteId input, sn_token_hash = in_sessionTokenHash input,
           sn_expires_at = in_expiresAt input, sn_revoked_at = None\<rparr>"
    by (simp add: parts(2) find_append find_fresh_key [OF assms(1)])
  with r i have "r = toSessionRecord \<lparr>sn_id = newId, sn_invite_id = in_inviteId input,
      sn_token_hash = in_sessionTokenHash input, sn_expires_at = in_expiresAt input, sn_revoked_at = None\<rparr> i"
    by (simp add: findSessionById_def)
  with r i 2(1) show ?thesis by (simp add: toSessionRecord_def)
qed

lemma evolves_wf [wf_intros]: "db_wf db \<Longrightarrow> evolves db db' \<Longrightarrow> db_wf db'"
  by (auto simp: evolves_def elim!: db_step.cases intro: wf_intros)

lemma evolves_session:
  assumes "evolves db db'" and "findSessionById sid db = Some r"
  shows "\<exists>r'. findSessionById sid db' = Some r' \<and> same_session r r'"
proof -
  from assms(1) obtain t where "db_step t db db'" by (auto simp: evolves_def)
  then show ?thesis using assms(2)
    by cases (simp_all add: findSessionById_createSession_old findSessionById_revoke
      findSessionById_createInvite findSessionById_revokeInvite, simp add: same_session_def)
qed

section \<open>The interface\<close>

text \<open>
  What the service calls, as \<^verbatim>\<open>AccessStore\<close> of the shared types declares it, and what
  it may rely on: a created session is found as it was created, a revocation shows in every later
  lookup, and no other request's step loses a session.
\<close>

record 's access_store =
  st_listUsableInvites :: "int \<Rightarrow> 's \<Rightarrow> invite_row list"
  st_findUsableInviteByLookupHash :: "string \<Rightarrow> int \<Rightarrow> 's \<Rightarrow> invite_row option"
  st_createSession :: "string \<Rightarrow> session_input \<Rightarrow> 's \<Rightarrow> 's \<times> access_session_record option"
  st_findSessionById :: "string \<Rightarrow> 's \<Rightarrow> access_session_record option"
  st_revokeSession :: "string \<Rightarrow> int \<Rightarrow> 's \<Rightarrow> 's"

locale access_store_laws =
  fixes store :: "'s access_store"
    and inv :: "'s \<Rightarrow> bool"
    and fresh :: "string \<Rightarrow> 's \<Rightarrow> bool"
    and other :: "'s \<Rightarrow> 's \<Rightarrow> bool"
  assumes created:
      "inv s \<Longrightarrow> fresh newId s \<Longrightarrow> st_createSession store newId input s = (s', Some r) \<Longrightarrow>
       inv s' \<and> st_findSessionById store newId s' = Some r \<and> as_id r = newId
       \<and> as_inviteId r = in_inviteId input \<and> as_sessionTokenHash r = in_sessionTokenHash input
       \<and> as_expiresAt r = in_expiresAt input \<and> as_revokedAt r = None"
    and revoked:
      "inv s \<Longrightarrow> inv (st_revokeSession store sid now s)
       \<and> (\<forall>r. st_findSessionById store sid s = Some r \<longrightarrow>
            st_findSessionById store sid (st_revokeSession store sid now s) = Some (r\<lparr>as_revokedAt := Some now\<rparr>))
       \<and> (st_findSessionById store sid s = None \<longrightarrow>
            st_findSessionById store sid (st_revokeSession store sid now s) = None)"
    and other_inv: "inv s \<Longrightarrow> other s s' \<Longrightarrow> inv s'"
    and other_session:
      "inv s \<Longrightarrow> other s s' \<Longrightarrow> st_findSessionById store sid s = Some r \<Longrightarrow>
       \<exists>r'. st_findSessionById store sid s' = Some r' \<and> same_session r r'"
begin

lemma others_session:
  assumes "other\<^sup>*\<^sup>* s s'" and "inv s" and "st_findSessionById store sid s = Some r"
  shows "inv s' \<and> (\<exists>r'. st_findSessionById store sid s' = Some r' \<and> same_session r r')"
  using assms
proof (induction rule: rtranclp_induct)
  case base
  then show ?case by auto
next
  case (step s1 s2)
  then obtain r1 where "inv s1" "st_findSessionById store sid s1 = Some r1" "same_session r r1" by blast
  with other_session [OF this(1) step.hyps(2) this(2)] other_inv [OF this(1) step.hyps(2)] show ?case
    by (blast intro: same_session_trans)
qed

end

definition accessRepository :: "access_db access_store" where
  "accessRepository =
     \<lparr>st_listUsableInvites = listUsableInvites,
      st_findUsableInviteByLookupHash = findUsableInviteByLookupHash,
      st_createSession = createSession, st_findSessionById = findSessionById,
      st_revokeSession = revokeSession\<rparr>"

lemmas repository_simps = accessRepository_def access_store.simps

definition fresh_session :: "string \<Rightarrow> access_db \<Rightarrow> bool" where
  "fresh_session newId db \<longleftrightarrow> newId \<notin> sn_id ` set (access_sessions db)"

interpretation repository: access_store_laws accessRepository db_wf fresh_session evolves
proof
  fix s newId input s' r
  assume "db_wf s" "fresh_session newId s" "st_createSession accessRepository newId input s = (s', Some r)"
  moreover from this have "db_wf s'"
    using createSession_wf [of s newId input] by (simp add: repository_simps fresh_session_def)
  ultimately show "db_wf s' \<and> st_findSessionById accessRepository newId s' = Some r \<and> as_id r = newId
      \<and> as_inviteId r = in_inviteId input \<and> as_sessionTokenHash r = in_sessionTokenHash input
      \<and> as_expiresAt r = in_expiresAt input \<and> as_revokedAt r = None"
    using findSessionById_created [of newId s input s' r] by (simp add: repository_simps fresh_session_def)
qed (auto simp: repository_simps findSessionById_revoke intro: wf_intros evolves_session)

end
