(* ===== verification/Text_Codec.thy ===== *)
theory Text_Codec
  imports Js_Values
begin

text \<open>
  What the server uses of JavaScript's text functions beside trimming and searching:
  \<^verbatim>\<open>split\<close> on a character, \<^verbatim>\<open>toString("hex")\<close> of a buffer,
  \<^verbatim>\<open>encodeURIComponent\<close> and \<^verbatim>\<open>decodeURIComponent\<close>. Code units are
  below 256 throughout the development; a percent sequence that decodes to a larger code point has
  no representation and is treated like a malformed one.
\<close>

section \<open>Splitting\<close>

fun split_on :: "char \<Rightarrow> string \<Rightarrow> string list" where
  "split_on c [] = [[]]"
| "split_on c (x # xs) =
     (if x = c then [] # split_on c xs
      else (case split_on c xs of [] \<Rightarrow> [[x]] | p # ps \<Rightarrow> (x # p) # ps))"

lemma split_on_nonempty [simp]: "split_on c s \<noteq> []"
  by (cases s) (auto split: list.split)

lemma split_on_plain: "c \<notin> set p \<Longrightarrow> split_on c p = [p]"
  by (induction p) auto

lemma split_on_piece: "c \<notin> set p \<Longrightarrow> split_on c (p @ c # rest) = p # split_on c rest"
  by (induction p) auto

lemma split_on_join: "ps \<noteq> [] \<Longrightarrow> \<forall>p \<in> set ps. c \<notin> set p \<Longrightarrow> split_on c (join_with [c] ps) = ps"
  by (induction "[c]" ps rule: join_with.induct) (simp_all add: split_on_plain split_on_piece)

lemma join_split_on: "join_with [c] (split_on c s) = s"
proof (induction s)
  case (Cons x xs)
  obtain p ps where s: "split_on c xs = p # ps" by (cases "split_on c xs") simp_all
  with Cons show ?case by (cases ps) auto
qed simp

section \<open>Hexadecimal output\<close>

definition hex_digit :: "nat \<Rightarrow> char" where
  "hex_digit d = (if d < 10 then char_of (48 + d) else char_of (87 + d))"

fun hexEncode :: "nat list \<Rightarrow> string" where
  "hexEncode [] = []"
| "hexEncode (b # bs) = hex_digit (b div 16) # hex_digit (b mod 16) # hexEncode bs"

lemma hexval_hex_digit: "d < 16 \<Longrightarrow> hexval (hex_digit d) = Some d"
  by (simp add: hexval_def hex_digit_def Let_def of_char_of)

lemma lower_hex_digit: "d < 16 \<Longrightarrow> lower_hex (hex_digit d)"
  by (simp add: lower_hex_def hex_digit_def Let_def of_char_of)

lemma div_16_less: "b < (256::nat) \<Longrightarrow> b div 16 < 16"
  by simp

lemma hexDecode_hexEncode: "list_all (\<lambda>b. b < 256) bs \<Longrightarrow> hexDecode (hexEncode bs) = bs"
  by (induction bs) (simp_all add: hexval_hex_digit div_16_less)

lemma hexEncode_lower: "list_all (\<lambda>b. b < 256) bs \<Longrightarrow> list_all lower_hex (hexEncode bs)"
  by (induction bs) (simp_all add: lower_hex_digit div_16_less)

lemma hexEncode_Nil [simp]: "hexEncode bs = [] \<longleftrightarrow> bs = []"
  by (cases bs) simp_all

section \<open>Percent encoding\<close>

definition uri_unreserved :: "char \<Rightarrow> bool" where
  "uri_unreserved c \<longleftrightarrow> word_char c \<or> c \<in> set ''-.!~*()'' \<or> c = CHR 0x27"

definition upper_digit :: "nat \<Rightarrow> char" where
  "upper_digit d = (if d < 10 then char_of (48 + d) else char_of (55 + d))"

definition percent :: "nat \<Rightarrow> string" where
  "percent b = [CHR ''%'', upper_digit (b div 16), upper_digit (b mod 16)]"

definition encode_unit :: "char \<Rightarrow> string" where
  "encode_unit c =
     (let n = of_char c :: nat
      in if uri_unreserved c then [c]
         else if n < 128 then percent n
         else percent (192 + n div 64) @ percent (128 + n mod 64))"

definition encodeURIComponent :: "string \<Rightarrow> string" where
  "encodeURIComponent s = concat (map encode_unit s)"

fun percent_byte :: "string \<Rightarrow> (nat \<times> string) option" where
  "percent_byte (p # a # b # rest) =
     (if p = CHR ''%'' then
        (case (hexval a, hexval b) of (Some x, Some y) \<Rightarrow> Some (16 * x + y, rest) | _ \<Rightarrow> None)
      else None)"
| "percent_byte _ = None"

lemma percent_byte_shorter: "percent_byte s = Some (n, rest) \<Longrightarrow> length rest < length s"
  by (cases s rule: percent_byte.cases) (auto split: if_splits option.splits)

function decodeURIComponent :: "string \<Rightarrow> string option" where
  "decodeURIComponent s =
     (case s of
        [] \<Rightarrow> Some []
      | c # cs \<Rightarrow>
          if c \<noteq> CHR ''%'' then map_option (\<lambda>r. c # r) (decodeURIComponent cs)
          else (case percent_byte s of
             None \<Rightarrow> None
           | Some (n, rest) \<Rightarrow>
               if n < 128 then map_option (\<lambda>r. char_of n # r) (decodeURIComponent rest)
               else if n = 194 \<or> n = 195 then
                 (case percent_byte rest of
                    None \<Rightarrow> None
                  | Some (m, rest') \<Rightarrow>
                      if 128 \<le> m \<and> m < 192
                      then map_option (\<lambda>r. char_of ((n - 192) * 64 + (m - 128)) # r) (decodeURIComponent rest')
                      else None)
               else None))"
  by pat_completeness auto
termination
  by (relation "measure length") (auto dest!: percent_byte_shorter)

declare decodeURIComponent.simps [simp del]

lemma decodeURIComponent_Nil [simp]: "decodeURIComponent [] = Some []"
  by (simp add: decodeURIComponent.simps)

lemma decodeURIComponent_plain:
  "c \<noteq> CHR ''%'' \<Longrightarrow> decodeURIComponent (c # cs) = map_option (\<lambda>r. c # r) (decodeURIComponent cs)"
  by (simp add: decodeURIComponent.simps [of "c # cs"])

lemma hexval_upper_digit: "d < 16 \<Longrightarrow> hexval (upper_digit d) = Some d"
  by (simp add: hexval_def upper_digit_def Let_def of_char_of)

lemma percent_byte_percent: "b < 256 \<Longrightarrow> percent_byte (percent b @ rest) = Some (b, rest)"
  by (simp add: percent_def hexval_upper_digit)

lemma percent_Cons: "\<exists>t. percent b = CHR ''%'' # t"
  by (simp add: percent_def)

lemma not_unreserved_percent: "\<not> uri_unreserved CHR ''%''"
  by code_simp

lemma decode_encode_unit:
  "decodeURIComponent (encode_unit c @ rest) = map_option (\<lambda>r. c # r) (decodeURIComponent rest)"
proof -
  define n where "n = (of_char c :: nat)"
  have c: "c = char_of n" by (simp add: n_def)
  have n256: "n < 256" by (simp add: n_def)
  show ?thesis
  proof (cases "uri_unreserved c")
    case True
    with not_unreserved_percent have "c \<noteq> CHR ''%''" by auto
    with True show ?thesis by (simp add: encode_unit_def Let_def decodeURIComponent_plain)
  next
    case False
    show ?thesis
    proof (cases "n < 128")
      case True
      obtain t where t: "percent n = CHR ''%'' # t" using percent_Cons by blast
      have b: "percent_byte (CHR ''%'' # t @ rest) = Some (n, rest)"
        using percent_byte_percent [OF n256, of rest] by (simp add: t)
      from False True have e: "encode_unit c = percent n" by (simp add: encode_unit_def n_def Let_def)
      show ?thesis
        unfolding e t by (simp add: decodeURIComponent.simps [of "CHR ''%'' # t @ rest"] b True c)
    next
      case big: False
      let ?a = "192 + n div 64" and ?b = "128 + n mod 64"
      obtain t where t: "percent ?a = CHR ''%'' # t" using percent_Cons by blast
      have a: "?a = 194 \<or> ?a = 195" using big n256 by auto
      have b1: "percent_byte (CHR ''%'' # t @ percent ?b @ rest) = Some (?a, percent ?b @ rest)"
        using percent_byte_percent [of ?a "percent ?b @ rest"] a t by auto
      have b2: "percent_byte (percent ?b @ rest) = Some (?b, rest)"
        by (rule percent_byte_percent) linarith
      have m: "128 \<le> ?b \<and> ?b < 192" by simp
      have "char_of ((?a - 192) * 64 + (?b - 128)) = (char_of n :: char)" by simp
      with c have bk: "char_of ((?a - 192) * 64 + (?b - 128)) = c" by simp
      from False big have e: "encode_unit c = percent ?a @ percent ?b" by (simp add: encode_unit_def n_def Let_def)
      have "decodeURIComponent (CHR ''%'' # t @ percent ?b @ rest)
          = map_option (\<lambda>r. char_of ((?a - 192) * 64 + (?b - 128)) # r) (decodeURIComponent rest)"
        using a m b1 b2 by (subst decodeURIComponent.simps) auto
      then show ?thesis unfolding e t bk by simp
    qed
  qed
qed

lemma decode_encodeURIComponent: "decodeURIComponent (encodeURIComponent s) = Some s"
  by (induction s) (simp_all add: encodeURIComponent_def decode_encode_unit)

lemma encodeURIComponent_chars:
  assumes "c \<in> set (encodeURIComponent s)"
  shows "uri_unreserved c \<or> c = CHR ''%''"
proof -
  have d: "uri_unreserved (upper_digit d)" if "d < 16" for d
    using that by (auto simp: uri_unreserved_def word_char_def upper_digit_def Let_def of_char_of)
  have pct: "uri_unreserved x \<or> x = CHR ''%''" if "x \<in> set (percent b)" "b < 256" for x b
    using that d [of "b div 16"] d [of "b mod 16"] by (auto simp: percent_def)
  obtain u where "c \<in> set (encode_unit u)" using assms by (auto simp: encodeURIComponent_def)
  then have "uri_unreserved c \<or> c \<in> set (percent (of_char u))
      \<or> c \<in> set (percent (192 + of_char u div 64)) \<or> c \<in> set (percent (128 + of_char u mod 64))"
    by (auto simp: encode_unit_def Let_def split: if_splits)
  moreover have "(of_char u :: nat) < 256" by simp
  moreover from this have "192 + (of_char u :: nat) div 64 < 256" "128 + (of_char u :: nat) mod 64 < 256"
    by linarith+
  ultimately show ?thesis using pct by blast
qed

end
