(* ===== verification/Access_Service.thy ===== *)
theory Access_Service
  imports Access_Store Text_Codec Machines
begin

text \<open>
  Private access by invite code and signed session cookie:
  \<^verbatim>\<open>services/AccessService.ts\<close> of \<^verbatim>\<open>apps/server/src\<close>.
  HMAC and scrypt are parameters (\<open>crypto\<close>); random tokens, ids and the clock are
  arguments. The store is the interface \<^verbatim>\<open>AccessStore\<close>, a record of its
  operations over a state of any type; \<open>Access_Store\<close> states its laws and shows that the
  repository satisfies them.
\<close>

section \<open>Parameters\<close>

record crypto =
  hmacHex :: "string \<Rightarrow> string \<Rightarrow> string"
  hmacBase64url :: "string \<Rightarrow> string \<Rightarrow> string"
  scrypt :: "string \<Rightarrow> string \<Rightarrow> nat list"

record 's access_options =
  ao_store :: "'s access_store"
  ao_cookieName :: string
  ao_sessionSecret :: string
  ao_sessionTtlDays :: nat
  ao_secureCookies :: bool

definition createAccessService :: "'s access_options \<Rightarrow> string + 's access_options" where
  "createAccessService options =
     (if ao_sessionSecret options = [] then Inl ''ACCESS_SESSION_SECRET is required for private access.''
      else Inr options)"

definition INVITE_HASH_VERSION :: string where "INVITE_HASH_VERSION = ''scrypt:v1''"
definition INVITE_LOOKUP_HASH_VERSION :: string where "INVITE_LOOKUP_HASH_VERSION = ''hmac:sha256:v1''"
definition COOKIE_VERSION :: string where "COOKIE_VERSION = ''v1''"
definition SESSION_HASH_VERSION :: string where "SESSION_HASH_VERSION = ''hmac:sha256''"
definition DAY_MS :: int where "DAY_MS = 24 * 60 * 60 * 1000"

datatype access_rejection =
    InvalidCode | SessionLimitReached
  | MissingCookie | InvalidCookie | SessionNotFound | SessionRevoked | SessionExpired
  | InviteRevoked | InviteExpired

section \<open>Invite codes\<close>

definition normalizeInviteCode :: "string \<Rightarrow> string" where
  "normalizeInviteCode code = trim code"

definition createInviteCodeHash :: "crypto \<Rightarrow> string \<Rightarrow> string \<Rightarrow> string" where
  "createInviteCodeHash cr code salt =
     INVITE_HASH_VERSION @ '':'' @ salt @ '':'' @ hexEncode (scrypt cr (normalizeInviteCode code) salt)"

definition createInviteLookupHash :: "crypto \<Rightarrow> string \<Rightarrow> string \<Rightarrow> string" where
  "createInviteLookupHash cr code secret =
     INVITE_LOOKUP_HASH_VERSION @ '':'' @ hmacHex cr secret (normalizeInviteCode code)"

definition parseInviteCodeHash :: "string \<Rightarrow> (string \<times> string) option" where
  "parseInviteCodeHash codeHash =
     (case split_on CHR '':'' codeHash of
        algorithm # version # salt # digest # rest \<Rightarrow>
          if algorithm @ '':'' @ version \<noteq> INVITE_HASH_VERSION \<or> salt = [] \<or> digest = [] then None
          else Some (salt, digest)
      | _ \<Rightarrow> None)"

text \<open>The comparison of buffers is of equal lengths first, then of the bytes: equality.\<close>

definition verifyInviteCodeHash :: "crypto \<Rightarrow> string \<Rightarrow> string \<Rightarrow> bool" where
  "verifyInviteCodeHash cr code codeHash =
     (case parseInviteCodeHash codeHash of
        None \<Rightarrow> False
      | Some (salt, digest) \<Rightarrow> scrypt cr (normalizeInviteCode code) salt = hexDecode digest)"

definition findMatchingInvite :: "crypto \<Rightarrow> 's access_store \<Rightarrow> string \<Rightarrow> string \<Rightarrow> int \<Rightarrow> 's \<Rightarrow> invite_row option" where
  "findMatchingInvite cr store code sessionSecret now s =
     (case st_findUsableInviteByLookupHash store (createInviteLookupHash cr code sessionSecret) now s of
        Some invite \<Rightarrow> if verifyInviteCodeHash cr code (iv_code_hash invite) then Some invite else None
      | None \<Rightarrow>
          List.find (\<lambda>i. \<not> truthy_text (iv_code_lookup_hash i) \<and> verifyInviteCodeHash cr code (iv_code_hash i))
            (st_listUsableInvites store now s))"

section \<open>Cookies\<close>

definition sign :: "crypto \<Rightarrow> string \<Rightarrow> string \<Rightarrow> string" where
  "sign cr payload secret = hmacBase64url cr secret payload"

definition createSessionTokenHash :: "crypto \<Rightarrow> string \<Rightarrow> string \<Rightarrow> string" where
  "createSessionTokenHash cr token secret = SESSION_HASH_VERSION @ '':'' @ hmacHex cr secret token"

definition cookie_payload :: "string \<Rightarrow> string \<Rightarrow> string" where
  "cookie_payload sessionId token = COOKIE_VERSION @ ''.'' @ sessionId @ ''.'' @ token"

definition createCookieValue :: "crypto \<Rightarrow> string \<Rightarrow> string \<Rightarrow> string \<Rightarrow> string" where
  "createCookieValue cr sessionId token secret =
     cookie_payload sessionId token @ ''.'' @ sign cr (cookie_payload sessionId token) secret"

definition parseCookieValue :: "crypto \<Rightarrow> string \<Rightarrow> string \<Rightarrow> (string \<times> string) option" where
  "parseCookieValue cr cookieValue secret =
     (case split_on CHR ''.'' cookieValue of
        version # sessionId # token # signature # rest \<Rightarrow>
          if version \<noteq> COOKIE_VERSION \<or> sessionId = [] \<or> token = [] \<or> signature = [] then None
          else if signature \<noteq> sign cr (version @ ''.'' @ sessionId @ ''.'' @ token) secret then None
          else Some (sessionId, token)
      | _ \<Rightarrow> None)"

text \<open>\<^verbatim>\<open>undefined\<close>, \<^verbatim>\<open>null\<close> and a value.\<close>

datatype extracted = NoCookie | Undecodable | CookieValue string

fun find_cookie :: "string list \<Rightarrow> string \<Rightarrow> extracted" where
  "find_cookie [] nm = NoCookie"
| "find_cookie (part # parts) nm =
     (case split_on CHR ''='' (trim part) of
        rawName # rawValueParts \<Rightarrow>
          if rawName = nm then
            (case decodeURIComponent (join_with ''='' rawValueParts) of
               None \<Rightarrow> Undecodable
             | Some v \<Rightarrow> CookieValue v)
          else find_cookie parts nm
      | [] \<Rightarrow> find_cookie parts nm)"

definition extractCookie :: "string option \<Rightarrow> string \<Rightarrow> extracted" where
  "extractCookie cookieHeader nm =
     (if truthy_text cookieHeader then find_cookie (split_on CHR '';'' (the cookieHeader)) nm else NoCookie)"

definition set_cookie_tail :: "bool \<Rightarrow> string list" where
  "set_cookie_tail secureCookies = (if secureCookies then [''Secure''] else [])"

definition buildSetCookieHeader :: "(int \<Rightarrow> string) \<Rightarrow> string \<Rightarrow> string \<Rightarrow> int \<Rightarrow> int \<Rightarrow> bool \<Rightarrow> string" where
  "buildSetCookieHeader toUTCString nm val expiresAt now secureCookies =
     join_with ''; ''
       ([nm @ ''='' @ encodeURIComponent val, ''Path=/'', ''HttpOnly'', ''SameSite=Lax'',
         ''Expires='' @ toUTCString expiresAt,
         ''Max-Age='' @ string_of_int (max 0 ((expiresAt - now) div 1000))] @ set_cookie_tail secureCookies)"

definition buildClearCookieHeader :: "string \<Rightarrow> bool \<Rightarrow> string" where
  "buildClearCookieHeader nm secureCookies =
     join_with ''; ''
       ([nm @ ''='', ''Path=/'', ''HttpOnly'', ''SameSite=Lax'',
         ''Expires=Thu, 01 Jan 1970 00:00:00 GMT'', ''Max-Age=0''] @ set_cookie_tail secureCookies)"

section \<open>Login, validation, logout\<close>

record login_session =
  lg_id :: string
  lg_inviteLabel :: string
  lg_expiresAt :: int

text \<open>
  \<open>between\<close> is what other requests do to the store while the code is hashed; the lookup and
  the creation of the session are each one step.
\<close>

definition loginWithInviteCode ::
  "crypto \<Rightarrow> (int \<Rightarrow> string) \<Rightarrow> 's access_options \<Rightarrow> string \<Rightarrow> int \<Rightarrow> string \<Rightarrow> string \<Rightarrow> ('s \<Rightarrow> 's) \<Rightarrow> 's \<Rightarrow>
   's \<times> (access_rejection + string \<times> login_session)" where
  "loginWithInviteCode cr toUTCString options code now token newId between s =
     (case findMatchingInvite cr (ao_store options) code (ao_sessionSecret options) now s of
        None \<Rightarrow> (between s, Inl InvalidCode)
      | Some invite \<Rightarrow>
          (let expiresAt = now + int (ao_sessionTtlDays options) * DAY_MS;
               (s', session) = st_createSession (ao_store options) newId
                 \<lparr>in_inviteId = iv_id invite,
                  in_sessionTokenHash = createSessionTokenHash cr token (ao_sessionSecret options),
                  in_expiresAt = expiresAt, in_now = now\<rparr> (between s)
           in case session of
                None \<Rightarrow> (s', Inl SessionLimitReached)
              | Some rec \<Rightarrow>
                  (s', Inr (buildSetCookieHeader toUTCString (ao_cookieName options)
                              (createCookieValue cr (as_id rec) token (ao_sessionSecret options))
                              expiresAt now (ao_secureCookies options),
                            \<lparr>lg_id = as_id rec, lg_inviteLabel = as_inviteLabel rec,
                             lg_expiresAt = as_expiresAt rec\<rparr>))))"

record valid_session =
  vs_id :: string
  vs_inviteId :: string
  vs_inviteLabel :: string
  vs_expiresAt :: int

definition public_session :: "access_session_record \<Rightarrow> valid_session" where
  "public_session r =
     \<lparr>vs_id = as_id r, vs_inviteId = as_inviteId r, vs_inviteLabel = as_inviteLabel r,
      vs_expiresAt = as_expiresAt r\<rparr>"

definition session_check :: "int \<Rightarrow> access_session_record \<Rightarrow> access_rejection option" where
  "session_check now session =
     (if as_revokedAt session \<noteq> None then Some SessionRevoked
      else if as_expiresAt session \<le> now then Some SessionExpired
      else if as_inviteRevokedAt session \<noteq> None then Some InviteRevoked
      else if (case as_inviteExpiresAt session of None \<Rightarrow> False | Some e \<Rightarrow> e \<le> now) then Some InviteExpired
      else None)"

definition validateCookieHeader ::
  "crypto \<Rightarrow> 's access_options \<Rightarrow> string option \<Rightarrow> int \<Rightarrow> 's \<Rightarrow> access_rejection + valid_session" where
  "validateCookieHeader cr options cookieHeader now s =
     (case extractCookie cookieHeader (ao_cookieName options) of
        NoCookie \<Rightarrow> Inl MissingCookie
      | Undecodable \<Rightarrow> Inl InvalidCookie
      | CookieValue v \<Rightarrow>
          (case parseCookieValue cr v (ao_sessionSecret options) of
             None \<Rightarrow> Inl InvalidCookie
           | Some (sessionId, token) \<Rightarrow>
               (case st_findSessionById (ao_store options) sessionId s of
                  None \<Rightarrow> Inl SessionNotFound
                | Some session \<Rightarrow>
                    if as_sessionTokenHash session \<noteq> createSessionTokenHash cr token (ao_sessionSecret options)
                    then Inl InvalidCookie
                    else (case session_check now session of
                            Some reason \<Rightarrow> Inl reason
                          | None \<Rightarrow> Inr (public_session session)))))"

definition revokeCookieSession :: "crypto \<Rightarrow> 's access_options \<Rightarrow> string option \<Rightarrow> int \<Rightarrow> 's \<Rightarrow> 's" where
  "revokeCookieSession cr options cookieHeader now s =
     (case extractCookie cookieHeader (ao_cookieName options) of
        CookieValue v \<Rightarrow>
          if v = [] then s
          else (case parseCookieValue cr v (ao_sessionSecret options) of
                  None \<Rightarrow> s
                | Some (sessionId, token) \<Rightarrow> st_revokeSession (ao_store options) sessionId now s)
      | _ \<Rightarrow> s)"

end
