(* ===== verification/Access_Sessions.thy ===== *)
theory Access_Sessions
  imports Access_Service
begin

text \<open>
  The private-access service over the repository: what the cookie of a login gives until the session
  or its invite ends, what a logout takes away, and the limit on the sessions of an invite.
\<close>

section \<open>Cookies and the browser\<close>

text \<open>
  The browser keeps the name and the value of a \<^verbatim>\<open>Set-Cookie\<close> header and sends
  its cookies joined by a semicolon and a blank.
\<close>

definition cookie_pair :: "string \<times> string \<Rightarrow> string" where
  "cookie_pair c = fst c @ CHR ''='' # snd c"

definition cookie_header :: "(string \<times> string) list \<Rightarrow> string" where
  "cookie_header cs = join_with ''; '' (map cookie_pair cs)"

definition cookie_value_of :: "string \<Rightarrow> string" where
  "cookie_value_of header = tl (dropWhile (\<lambda>c. c \<noteq> CHR ''='') (hd (split_on CHR '';'' header)))"

definition wf_cookie_name :: "string \<Rightarrow> bool" where
  "wf_cookie_name n \<longleftrightarrow> n \<noteq> [] \<and> list_all (\<lambda>c. c \<noteq> CHR '';'' \<and> c \<noteq> CHR ''='' \<and> \<not> is_ws c) n"

definition wf_cookie :: "string \<times> string \<Rightarrow> bool" where
  "wf_cookie c \<longleftrightarrow> wf_cookie_name (fst c) \<and> list_all (\<lambda>c. c \<noteq> CHR '';'' \<and> \<not> is_ws c) (snd c)"

lemma cookie_pair_trim:
  assumes "wf_cookie c"
  shows "trim (cookie_pair c) = cookie_pair c" and "trim (CHR '' '' # cookie_pair c) = cookie_pair c"
proof -
  have ne: "cookie_pair c \<noteq> []" by (simp add: cookie_pair_def)
  have eq: "\<not> is_ws CHR ''=''" by code_simp
  have all: "\<not> is_ws x" if "x \<in> set (cookie_pair c)" for x
    using that assms eq by (auto simp: cookie_pair_def wf_cookie_def wf_cookie_name_def list_all_iff)
  show t: "trim (cookie_pair c) = cookie_pair c"
    by (rule trim_fix [OF ne]) (use all ne in auto)
  have "is_ws CHR '' ''" by code_simp
  then have "trimStart (CHR '' '' # cookie_pair c) = trimStart (cookie_pair c)" by (simp add: trimStart_def)
  with t show "trim (CHR '' '' # cookie_pair c) = cookie_pair c" by (simp add: trim_def)
qed

lemma find_cookie_step:
  assumes "wf_cookie c" and "trim part = cookie_pair c"
  shows "find_cookie (part # parts) nm =
    (if fst c = nm then (case decodeURIComponent (snd c) of None \<Rightarrow> Undecodable | Some v \<Rightarrow> CookieValue v)
     else find_cookie parts nm)"
proof -
  have "CHR ''='' \<notin> set (fst c)"
    using assms(1) by (auto simp: wf_cookie_def wf_cookie_name_def list_all_iff)
  then have "split_on CHR ''='' (trim part) = fst c # split_on CHR ''='' (snd c)"
    unfolding assms(2) cookie_pair_def by (rule split_on_piece)
  then show ?thesis by (simp add: join_split_on)
qed

definition cookie_of :: "(string \<times> string) list \<Rightarrow> string \<Rightarrow> extracted" where
  "cookie_of cs nm =
     (case map_of cs nm of
        None \<Rightarrow> NoCookie
      | Some v \<Rightarrow> (case decodeURIComponent v of None \<Rightarrow> Undecodable | Some x \<Rightarrow> CookieValue x))"

lemma cookie_of_Cons:
  "cookie_of (c # cs) nm =
    (if fst c = nm then (case decodeURIComponent (snd c) of None \<Rightarrow> Undecodable | Some v \<Rightarrow> CookieValue v)
     else cookie_of cs nm)"
  by (cases c) (simp add: cookie_of_def)

lemma find_cookie_blank:
  "list_all wf_cookie cs \<Longrightarrow> find_cookie (map (\<lambda>c. CHR '' '' # cookie_pair c) cs) nm = cookie_of cs nm"
proof (induction cs)
  case Nil
  then show ?case by (simp add: cookie_of_def)
next
  case (Cons c cs)
  then show ?case
    by (simp add: find_cookie_step [OF _ cookie_pair_trim(2)] cookie_of_Cons del: find_cookie.simps)
qed

lemma split_cookie_header:
  assumes "list_all wf_cookie (c # cs)"
  shows "split_on CHR '';'' (cookie_header (c # cs)) = cookie_pair c # map (\<lambda>c. CHR '' '' # cookie_pair c) cs"
  using assms
proof (induction cs arbitrary: c)
  case Nil
  then have "CHR '';'' \<notin> set (cookie_pair c)"
    by (auto simp: cookie_pair_def wf_cookie_def wf_cookie_name_def list_all_iff)
  then show ?case by (simp add: cookie_header_def split_on_plain)
next
  case (Cons d cs)
  then have "CHR '';'' \<notin> set (cookie_pair c)"
    by (auto simp: cookie_pair_def wf_cookie_def wf_cookie_name_def list_all_iff)
  note piece = split_on_piece [OF this]
  have rest: "split_on CHR '';'' (CHR '' '' # cookie_header (d # cs)) =
      (CHR '' '' # cookie_pair d) # map (\<lambda>c. CHR '' '' # cookie_pair c) cs"
    using Cons.IH [of d] Cons.prems by simp
  have "cookie_header (c # d # cs) = cookie_pair c @ CHR '';'' # CHR '' '' # cookie_header (d # cs)"
    by (simp add: cookie_header_def)
  then show ?case by (simp only: piece rest list.map)
qed

lemma extract_cookie_lookup:
  assumes "list_all wf_cookie cs"
  shows "extractCookie (Some (cookie_header cs)) nm = cookie_of cs nm"
proof (cases cs)
  case Nil
  then show ?thesis by (simp add: extractCookie_def cookie_header_def cookie_of_def)
next
  case (Cons c ds)
  have ne: "cookie_header (c # ds) \<noteq> []"
    by (cases ds) (simp_all add: cookie_header_def cookie_pair_def)
  have "find_cookie (cookie_pair c # map (\<lambda>c. CHR '' '' # cookie_pair c) ds) nm = cookie_of cs nm"
    using assms Cons
    by (simp add: find_cookie_step [OF _ cookie_pair_trim(1)] find_cookie_blank cookie_of_Cons del: find_cookie.simps)
  with split_cookie_header [of c ds] assms Cons ne show ?thesis by (simp add: extractCookie_def)
qed

text \<open>
  Reading a cookie from a request is a lookup by name. For the header a browser sends for any
  list of well-formed cookies, extractCookie returns the decoded value of the first cookie of that
  name, the undecodable marker when its escapes are malformed, and nothing when there is none; other
  cookies, in any order and with any text around an equals sign, do not interfere.
\<close>

lemma extractCookie_lookup:
  assumes "list_all wf_cookie cs"
  shows "extractCookie (Some (cookie_header cs)) nm = cookie_of cs nm"
  using assms by (rule extract_cookie_lookup)

lemma extractCookie_lookup_witness:
  "extractCookie (Some (cookie_header [(''theme'', ''a=b''), (''sid'', ''x%20y'')])) ''sid'' = CookieValue ''x y''"
proof -
  let ?cs = "[(''theme'', ''a=b''), (''sid'', ''x%20y'')]"
  have "cookie_of ?cs ''sid'' = CookieValue ''x y''" by code_simp
  moreover have "list_all wf_cookie ?cs" by code_simp
  ultimately show ?thesis using extractCookie_lookup by simp
qed

section \<open>Cookie values\<close>

definition plain_token :: "string \<Rightarrow> bool" where
  "plain_token t \<longleftrightarrow> t \<noteq> [] \<and> CHR ''.'' \<notin> set t"

lemma parse_createCookieValue:
  assumes "plain_token sid" and "plain_token token"
    and "plain_token (sign cr (cookie_payload sid token) secret)"
  shows "parseCookieValue cr (createCookieValue cr sid token secret) secret = Some (sid, token)"
proof -
  let ?sig = "sign cr (cookie_payload sid token) secret"
  have v1: "CHR ''.'' \<notin> set COOKIE_VERSION" by (simp add: COOKIE_VERSION_def)
  have "split_on CHR ''.'' (join_with ''.'' [COOKIE_VERSION, sid, token, ?sig]) = [COOKIE_VERSION, sid, token, ?sig]"
    by (rule split_on_join) (use v1 assms in \<open>auto simp: plain_token_def\<close>)
  moreover have "createCookieValue cr sid token secret = join_with ''.'' [COOKIE_VERSION, sid, token, ?sig]"
    by (simp add: createCookieValue_def cookie_payload_def)
  ultimately have "split_on CHR ''.'' (createCookieValue cr sid token secret) = [COOKIE_VERSION, sid, token, ?sig]"
    by (simp only:)
  with assms show ?thesis
    by (simp add: parseCookieValue_def plain_token_def cookie_payload_def)
qed

lemma encoded_value_no_semicolon: "CHR '';'' \<notin> set (encodeURIComponent v)"
proof
  assume "CHR '';'' \<in> set (encodeURIComponent v)"
  from encodeURIComponent_chars [OF this] have "uri_unreserved CHR '';''" by simp
  moreover have "\<not> uri_unreserved CHR '';''" by code_simp
  ultimately show False by blast
qed

lemma cookie_value_of_header:
  assumes "wf_cookie_name nm"
  shows "cookie_value_of (buildSetCookieHeader toUTCString nm v expiresAt now secure) = encodeURIComponent v"
proof -
  let ?pair = "nm @ CHR ''='' # encodeURIComponent v"
  have no: "CHR '';'' \<notin> set ?pair" and nm: "\<forall>c \<in> set nm. c \<noteq> CHR ''=''"
    using assms encoded_value_no_semicolon by (auto simp: wf_cookie_name_def list_all_iff)
  have "\<exists>rest. buildSetCookieHeader toUTCString nm v expiresAt now secure = ?pair @ CHR '';'' # rest"
    by (simp add: buildSetCookieHeader_def)
  then obtain rest where "buildSetCookieHeader toUTCString nm v expiresAt now secure = ?pair @ CHR '';'' # rest"
    by blast
  with split_on_piece [OF no] have "hd (split_on CHR '';'' (buildSetCookieHeader toUTCString nm v expiresAt now secure)) = ?pair"
    by (simp only: list.sel)
  moreover have "dropWhile (\<lambda>c. c \<noteq> CHR ''='') ?pair = CHR ''='' # encodeURIComponent v"
    using nm by (subst dropWhile_append2) auto
  ultimately show ?thesis by (simp add: cookie_value_of_def)
qed

section \<open>From login to logout, for any store that keeps its laws\<close>

context access_store_laws begin

lemma validate_found:
  assumes "extractCookie h (ao_cookieName options) = CookieValue v"
    and "parseCookieValue cr v (ao_sessionSecret options) = Some (sid, token)"
    and "ao_store options = store" and "st_findSessionById store sid s = Some r"
    and "as_sessionTokenHash r = createSessionTokenHash cr token (ao_sessionSecret options)"
  shows "validateCookieHeader cr options h t s =
    (case session_check t r of Some reason \<Rightarrow> Inl reason | None \<Rightarrow> Inr (public_session r))"
  using assms by (simp add: validateCookieHeader_def)

lemma validate_allowed:
  assumes "validateCookieHeader cr options h t s = Inr x" and "ao_store options = store"
  obtains v sid token r where "extractCookie h (ao_cookieName options) = CookieValue v"
    and "parseCookieValue cr v (ao_sessionSecret options) = Some (sid, token)"
    and "st_findSessionById store sid s = Some r"
    and "as_sessionTokenHash r = createSessionTokenHash cr token (ao_sessionSecret options)"
    and "session_check t r = None" and "x = public_session r"
  using assms by (auto simp: validateCookieHeader_def split: extracted.splits option.splits prod.splits if_splits)

lemma login_session:
  assumes "inv (between s)" and "fresh newId (between s)" and "ao_store options = store"
    and "loginWithInviteCode cr toUTCString options code now token newId between s = (s1, Inr (header, lg))"
  obtains r where "inv s1" and "st_findSessionById store newId s1 = Some r"
    and "as_sessionTokenHash r = createSessionTokenHash cr token (ao_sessionSecret options)"
    and "as_expiresAt r = now + int (ao_sessionTtlDays options) * DAY_MS"
    and "as_id r = newId" and "as_revokedAt r = None"
    and "lg = \<lparr>lg_id = newId, lg_inviteLabel = as_inviteLabel r, lg_expiresAt = as_expiresAt r\<rparr>"
    and "header = buildSetCookieHeader toUTCString (ao_cookieName options)
           (createCookieValue cr newId token (ao_sessionSecret options))
           (now + int (ao_sessionTtlDays options) * DAY_MS) now (ao_secureCookies options)"
proof -
  obtain invite where "findMatchingInvite cr store code (ao_sessionSecret options) now s = Some invite"
    using assms(3,4) by (auto simp: loginWithInviteCode_def split: option.splits)
  then obtain input r where r: "st_createSession store newId input (between s) = (s1, Some r)"
      and input: "in_sessionTokenHash input = createSessionTokenHash cr token (ao_sessionSecret options)"
        "in_expiresAt input = now + int (ao_sessionTtlDays options) * DAY_MS"
      and out: "lg = \<lparr>lg_id = as_id r, lg_inviteLabel = as_inviteLabel r, lg_expiresAt = as_expiresAt r\<rparr>"
        "header = buildSetCookieHeader toUTCString (ao_cookieName options)
           (createCookieValue cr (as_id r) token (ao_sessionSecret options))
           (now + int (ao_sessionTtlDays options) * DAY_MS) now (ao_secureCookies options)"
    using assms(3,4)
    by (auto simp: loginWithInviteCode_def Let_def split: option.splits prod.splits)
  from created [OF assms(1,2) r] input out show thesis by (intro that) auto
qed

lemma login_validates:
  assumes "inv (between s)" and "fresh newId (between s)" and "ao_store options = store"
    and "loginWithInviteCode cr toUTCString options code now token newId between s = (s1, Inr (header, lg))"
    and "other\<^sup>*\<^sup>* s1 s2"
    and "plain_token newId" and "plain_token token"
    and "\<And>p. plain_token (hmacBase64url cr (ao_sessionSecret options) p)"
    and "wf_cookie_name (ao_cookieName options)"
    and "list_all wf_cookie cs" and "map_of cs (ao_cookieName options) = Some (cookie_value_of header)"
  shows "\<exists>r. st_findSessionById store newId s2 = Some r
    \<and> as_expiresAt r = now + int (ao_sessionTtlDays options) * DAY_MS
    \<and> validateCookieHeader cr options (Some (cookie_header cs)) t s2 =
        (case session_check t r of Some reason \<Rightarrow> Inl reason | None \<Rightarrow> Inr (public_session r))"
proof -
  from login_session [OF assms(1-4)] obtain r where r: "inv s1" "st_findSessionById store newId s1 = Some r"
      "as_sessionTokenHash r = createSessionTokenHash cr token (ao_sessionSecret options)"
      "as_expiresAt r = now + int (ao_sessionTtlDays options) * DAY_MS"
    and h: "cookie_value_of header = encodeURIComponent (createCookieValue cr newId token (ao_sessionSecret options))"
    using cookie_value_of_header [OF assms(9)] by metis
  from others_session [OF assms(5) r(1,2)] obtain r' where r': "st_findSessionById store newId s2 = Some r'"
      "same_session r r'" by blast
  have "extractCookie (Some (cookie_header cs)) (ao_cookieName options) =
      CookieValue (createCookieValue cr newId token (ao_sessionSecret options))"
    unfolding extract_cookie_lookup [OF assms(10)] by (simp add: cookie_of_def assms(11) h decode_encodeURIComponent)
  moreover have "parseCookieValue cr (createCookieValue cr newId token (ao_sessionSecret options)) (ao_sessionSecret options)
      = Some (newId, token)"
    by (rule parse_createCookieValue) (use assms(6-8) in \<open>simp_all add: sign_def\<close>)
  moreover have "as_sessionTokenHash r' = createSessionTokenHash cr token (ao_sessionSecret options)"
    using r(3) r'(2) by (simp add: same_session_def)
  ultimately show ?thesis using validate_found [OF _ _ assms(3) r'(1)] r(4) r' by (auto simp: same_session_def)
qed

lemma logout_rejects:
  assumes "inv s" and "ao_store options = store"
    and "validateCookieHeader cr options h t0 s = Inr x"
    and "other\<^sup>*\<^sup>* (revokeCookieSession cr options h now s) s2"
  shows "validateCookieHeader cr options h t s2 = Inl SessionRevoked"
proof -
  obtain v sid token r where v: "extractCookie h (ao_cookieName options) = CookieValue v"
      "parseCookieValue cr v (ao_sessionSecret options) = Some (sid, token)"
    and r: "st_findSessionById store sid s = Some r"
      "as_sessionTokenHash r = createSessionTokenHash cr token (ao_sessionSecret options)"
    by (rule validate_allowed [OF assms(3,2)])
  have "v \<noteq> []" using v(2) by (auto simp: parseCookieValue_def)
  with v have "revokeCookieSession cr options h now s = st_revokeSession store sid now s"
    by (simp add: revokeCookieSession_def assms(2))
  with revoked [OF assms(1), of sid now] r have "inv (revokeCookieSession cr options h now s)"
    "st_findSessionById store sid (revokeCookieSession cr options h now s) = Some (r\<lparr>as_revokedAt := Some now\<rparr>)"
    by simp_all
  from others_session [OF assms(4) this] obtain r' where "st_findSessionById store sid s2 = Some r'"
    "same_session (r\<lparr>as_revokedAt := Some now\<rparr>) r'" by blast
  with r(2) validate_found [OF v assms(2) this(1)] show ?thesis
    by (simp add: same_session_def session_check_def)
qed

end

section \<open>The same for the repository\<close>

definition sample_crypto :: crypto where
  "sample_crypto =
     \<lparr>hmacHex = (\<lambda>key m. hexEncode (map of_char (take 2 key @ m))),
      hmacBase64url = (\<lambda>key m. ''S'' @ filter (\<lambda>c. c \<noteq> CHR ''.'') m),
      scrypt = (\<lambda>code salt. [7, 9] @ map of_char (code @ salt))\<rparr>"

definition sample_options :: "access_db access_options" where
  "sample_options =
     \<lparr>ao_store = accessRepository, ao_cookieName = ''sid'', ao_sessionSecret = ''key'',
      ao_sessionTtlDays = 1, ao_secureCookies = True\<rparr>"

definition sample_access_db :: access_db where
  "sample_access_db =
     fst (createInvite ''i1'' 5 ''team'' (createInviteCodeHash sample_crypto ''open'' ''salt'')
            (createInviteLookupHash sample_crypto ''open'' ''key'') 1 None
            \<lparr>invite_codes = [], access_sessions = []\<rparr>)"

definition sample_cookies :: "(string \<times> string) list" where
  "sample_cookies = [(''theme'', ''dark''), (''sid'', ''v1.s1.tok.Sv1s1tok'')]"

definition sample_header :: string where
  "sample_header = buildSetCookieHeader string_of_int ''sid''
     (createCookieValue sample_crypto ''s1'' ''tok'' ''key'') 86401000 1000 True"

definition sample_login_db :: access_db where
  "sample_login_db =
     \<lparr>invite_codes = map (\<lambda>i. i\<lparr>iv_last_used_at := Some 1000\<rparr>) (invite_codes sample_access_db),
      access_sessions =
        [\<lparr>sn_id = ''s1'', sn_invite_id = ''i1'',
          sn_token_hash = createSessionTokenHash sample_crypto ''tok'' ''key'',
          sn_expires_at = 86401000, sn_revoked_at = None\<rparr>]\<rparr>"

lemma sample_match:
  "findMatchingInvite sample_crypto accessRepository '' open '' ''key'' 1000 sample_access_db =
     Some (hd (invite_codes sample_access_db))"
  by code_simp

lemma sample_login_result:
  "loginWithInviteCode sample_crypto string_of_int sample_options '' open '' 1000 ''tok'' ''s1''
     (revokeInvite ''i0'' 900) sample_access_db =
   (sample_login_db,
     Inr (sample_header, \<lparr>lg_id = ''s1'', lg_inviteLabel = ''team'', lg_expiresAt = 86401000\<rparr>))"
  using sample_match
  by (simp add: loginWithInviteCode_def sample_options_def DAY_MS_def repository_simps createSession_def
    find_invite_def revokeInvite_def sample_access_db_def createInvite_def Let_def live_sessions_def
    sample_login_db_def findSessionById_def toSessionRecord_def sample_header_def)

lemma sample_login_cookie: "cookie_value_of sample_header = ''v1.s1.tok.Sv1s1tok''"
proof -
  have "cookie_value_of sample_header = encodeURIComponent (createCookieValue sample_crypto ''s1'' ''tok'' ''key'')"
    unfolding sample_header_def by (rule cookie_value_of_header) code_simp
  then show ?thesis by (rule trans) code_simp
qed

lemma sample_access_db_wf: "db_wf sample_access_db"
  by (simp add: db_wf_def sample_access_db_def createInvite_def Let_def)

lemma sample_sig: "plain_token (hmacBase64url sample_crypto k p)"
  by (simp add: plain_token_def sample_crypto_def)

text \<open>
  C14: A login's cookie validates. When a login succeeds, then in every later state of the tables,
  whatever other logins, logouts and invite changes happened in between, a request whose cookies
  include the value that the Set-Cookie header of the login carried is answered from the record of
  the session the login created, which is still stored, with the expiry it was given: it is allowed
  with that session unless the session was revoked or has expired or its invite was revoked or has
  expired. The hypotheses are a fresh session id, ids, tokens and signatures without dots, and
  well-formed cookies.
\<close>

theorem login_cookie_validates:
  assumes "db_wf (between db)" and "fresh_session newId (between db)"
    and "ao_store options = accessRepository"
    and "loginWithInviteCode cr toUTCString options code now token newId between db = (db1, Inr (header, lg))"
    and "evolves\<^sup>*\<^sup>* db1 db2"
    and "plain_token newId" and "plain_token token"
    and "\<And>p. plain_token (hmacBase64url cr (ao_sessionSecret options) p)"
    and "wf_cookie_name (ao_cookieName options)"
    and "list_all wf_cookie cs" and "map_of cs (ao_cookieName options) = Some (cookie_value_of header)"
  shows "\<exists>r. findSessionById newId db2 = Some r
    \<and> as_expiresAt r = now + int (ao_sessionTtlDays options) * DAY_MS
    \<and> validateCookieHeader cr options (Some (cookie_header cs)) t db2 =
        (case session_check t r of Some reason \<Rightarrow> Inl reason | None \<Rightarrow> Inr (public_session r))"
  using repository.login_validates [OF assms, of t] by (simp add: repository_simps)

lemma login_cookie_validates_witness:
  "\<exists>r. findSessionById ''s1'' (revokeInvite ''i2'' 3 sample_login_db) = Some r
    \<and> as_expiresAt r = 1000 + int (ao_sessionTtlDays sample_options) * DAY_MS
    \<and> validateCookieHeader sample_crypto sample_options (Some (cookie_header sample_cookies)) 5000
         (revokeInvite ''i2'' 3 sample_login_db) =
        (case session_check 5000 r of Some reason \<Rightarrow> Inl reason | None \<Rightarrow> Inr (public_session r))"
proof (rule login_cookie_validates [where between = "revokeInvite ''i0'' 900" and db = sample_access_db])
  show "db_wf (revokeInvite ''i0'' 900 sample_access_db)" by (rule revokeInvite_wf [OF sample_access_db_wf])
  show "fresh_session ''s1'' (revokeInvite ''i0'' 900 sample_access_db)"
    by (simp add: fresh_session_def revokeInvite_def sample_access_db_def createInvite_def Let_def)
  show "ao_store sample_options = accessRepository" by (simp add: sample_options_def)
  show "loginWithInviteCode sample_crypto string_of_int sample_options '' open '' 1000 ''tok'' ''s1''
      (revokeInvite ''i0'' 900) sample_access_db = (sample_login_db,
        Inr (sample_header, \<lparr>lg_id = ''s1'', lg_inviteLabel = ''team'', lg_expiresAt = 86401000\<rparr>))"
    by (rule sample_login_result)
  show "evolves\<^sup>*\<^sup>* sample_login_db (revokeInvite ''i2'' 3 sample_login_db)"
    by (intro r_into_rtranclp) (auto simp: evolves_def intro: db_revoke_invite)
  show "wf_cookie_name (ao_cookieName sample_options)" by code_simp
  show "list_all wf_cookie sample_cookies" by code_simp
  show "map_of sample_cookies (ao_cookieName sample_options) = Some (cookie_value_of sample_header)"
    unfolding sample_login_cookie by code_simp
qed (rule sample_sig | simp add: plain_token_def)+

text \<open>
  A logout ends the session for good. A request that was allowed by its cookie is rejected as
  revoked once the same cookie was used to log out, at every later time and in every later state of
  the tables.
\<close>

theorem logout_is_final:
  assumes "db_wf db" and "ao_store options = accessRepository"
    and "validateCookieHeader cr options h t0 db = Inr x"
    and "evolves\<^sup>*\<^sup>* (revokeCookieSession cr options h now db) db2"
  shows "validateCookieHeader cr options h t db2 = Inl SessionRevoked"
  using assms by (rule repository.logout_rejects)

lemma sample_login_wf: "db_wf sample_login_db"
  by (simp add: db_wf_def sample_login_db_def sample_access_db_def createInvite_def Let_def)

lemma sample_validates:
  "validateCookieHeader sample_crypto sample_options (Some (cookie_header sample_cookies)) 5000 sample_login_db =
     Inr \<lparr>vs_id = ''s1'', vs_inviteId = ''i1'', vs_inviteLabel = ''team'', vs_expiresAt = 86401000\<rparr>"
  by code_simp

lemma logout_is_final_witness:
  "validateCookieHeader sample_crypto sample_options (Some (cookie_header sample_cookies)) 9000
     (revokeCookieSession sample_crypto sample_options (Some (cookie_header sample_cookies)) 6000
        sample_login_db) = Inl SessionRevoked"
  by (rule logout_is_final [OF sample_login_wf _ sample_validates rtranclp.rtrancl_refl])
    (simp add: sample_options_def)

text \<open>
  What a valid cookie is. A request is allowed exactly when its cookie of the configured name
  decodes, has the version, an id, a token and the signature over the three under the server's
  secret, the session with that id is stored with the hash of that token, is not revoked and not yet
  expired, and its invite is neither revoked nor expired; the session handed on is that record.
\<close>

theorem validate_allows_iff:
  "validateCookieHeader cr options h t s = Inr x \<longleftrightarrow>
     (\<exists>v sid token r. extractCookie h (ao_cookieName options) = CookieValue v
        \<and> parseCookieValue cr v (ao_sessionSecret options) = Some (sid, token)
        \<and> st_findSessionById (ao_store options) sid s = Some r
        \<and> as_sessionTokenHash r = createSessionTokenHash cr token (ao_sessionSecret options)
        \<and> as_revokedAt r = None \<and> t < as_expiresAt r \<and> as_inviteRevokedAt r = None
        \<and> as_inviteExpiresAt r \<notin> Some ` {..t} \<and> x = public_session r)"
proof -
  have check: "session_check t r = None \<longleftrightarrow> as_revokedAt r = None \<and> t < as_expiresAt r
      \<and> as_inviteRevokedAt r = None \<and> as_inviteExpiresAt r \<notin> Some ` {..t}" for r
    by (cases "as_inviteExpiresAt r") (auto simp: session_check_def)
  have outcome: "(case session_check t r of None \<Rightarrow> Inr y | Some reason \<Rightarrow> Inl reason) = Inr x
      \<longleftrightarrow> session_check t r = None \<and> x = y" for r and y :: valid_session
    by (auto split: option.splits)
  show ?thesis
    unfolding validateCookieHeader_def
    by (cases "extractCookie h (ao_cookieName options)")
      (simp_all split: option.splits prod.splits add: outcome check)
qed

section \<open>The limit on sessions\<close>

inductive access_step :: "int \<times> access_db \<Rightarrow> int \<times> access_db \<Rightarrow> bool" where
  access_tick: "t \<le> t' \<Longrightarrow> access_step (t, db) (t', db)"
| access_stmt: "db_step t db db' \<Longrightarrow> access_step (t, db) (t, db')"

definition limits_ok :: "int \<times> access_db \<Rightarrow> bool" where
  "limits_ok s \<longleftrightarrow> db_wf (snd s)
     \<and> (\<forall>i \<in> set (invite_codes (snd s)). live_sessions (iv_id i) (fst s) (snd s) \<le> iv_max_sessions i)"

lemma length_filter_imp: "(\<And>x. P x \<Longrightarrow> Q x) \<Longrightarrow> length (filter P xs) \<le> length (filter Q xs)"
  by (induction xs) auto

lemma live_sessions_later: "t \<le> t' \<Longrightarrow> live_sessions iid t' db \<le> live_sessions iid t db"
  unfolding live_sessions_def by (rule length_filter_imp) auto

lemma live_sessions_sessions:
  "access_sessions db' = access_sessions db \<Longrightarrow> live_sessions iid t db' = live_sessions iid t db"
  by (simp add: live_sessions_def)

lemma live_sessions_revoke: "live_sessions iid t (revokeSession sid now db) \<le> live_sessions iid t db"
proof -
  have "length (filter (\<lambda>s. sn_invite_id s = iid \<and> sn_revoked_at s = None \<and> t < sn_expires_at s)
      (map (\<lambda>s. if sn_id s = sid then s\<lparr>sn_revoked_at := Some now\<rparr> else s) xs))
    \<le> length (filter (\<lambda>s. sn_invite_id s = iid \<and> sn_revoked_at s = None \<and> t < sn_expires_at s) xs)" for xs
    by (induction xs) auto
  then show ?thesis by (simp add: live_sessions_def revokeSession_def)
qed

lemma live_sessions_unknown:
  "db_wf db \<Longrightarrow> iid \<notin> iv_id ` set (invite_codes db) \<Longrightarrow> live_sessions iid t db = 0"
  by (auto simp: db_wf_def live_sessions_def filter_empty_conv)

lemma createSession_limits:
  assumes "limits_ok (t, db)" and "in_now input \<le> t" and "newId \<notin> sn_id ` set (access_sessions db)"
  shows "limits_ok (t, fst (createSession newId input db))"
proof (cases rule: createSession_cases [of newId input db])
  case 1
  with assms show ?thesis by simp
next
  case (2 invite)
  let ?db = "fst (createSession newId input db)"
  have wf: "db_wf db" and wf': "db_wf ?db"
    using assms createSession_wf by (auto simp: limits_ok_def)
  have count: "live_sessions iid t ?db \<le>
      live_sessions iid t db + (if iid = in_inviteId input then 1 else 0)" for iid
    by (simp add: live_sessions_def 2(4))
  have "live_sessions (iv_id j) t ?db \<le> iv_max_sessions j" if j: "j \<in> set (invite_codes ?db)" for j
  proof -
    obtain i where i: "i \<in> set (invite_codes db)" "iv_id j = iv_id i" "iv_max_sessions j = iv_max_sessions i"
      using j by (auto simp: 2(3))
    show ?thesis
    proof (cases "iv_id i = in_inviteId input")
      case True
      with db_wf_find_invite [OF wf i(1)] 2(1) have "i = invite" by simp
      with 2(2) live_sessions_later [OF assms(2), of "in_inviteId input" db] count [of "in_inviteId input"] True i
      show ?thesis by simp
    next
      case False
      with count [of "iv_id i"] assms(1) i show ?thesis by (auto simp: limits_ok_def)
    qed
  qed
  with wf' show ?thesis by (simp add: limits_ok_def)
qed

lemma db_step_limits: "db_step t db db' \<Longrightarrow> limits_ok (t, db) \<Longrightarrow> limits_ok (t, db')"
proof (induction rule: db_step.induct)
  case (db_create newId db input)
  then show ?case by (intro createSession_limits)
next
  case (db_revoke db sid now)
  then show ?case
    using live_sessions_revoke [of _ t sid now db] revokeSession_wf [of db sid now]
    by (force simp: limits_ok_def revokeSession_def intro: le_trans)
next
  case (db_invite newId db createdAt label codeHash lookupHash maxSessions expiresAt)
  then show ?case
    using live_sessions_unknown [of db newId t] createInvite_wf [of db newId]
    by (auto simp: limits_ok_def createInvite_def Let_def live_sessions_def)
next
  case (db_revoke_invite db iid now)
  then show ?case
    using revokeInvite_wf [of db iid now]
    by (auto simp: limits_ok_def revokeInvite_def live_sessions_def)
qed

lemma access_step_limits: "limits_ok s \<Longrightarrow> access_step s s' \<Longrightarrow> limits_ok s'"
  by (auto elim!: access_step.cases intro: db_step_limits)
    (auto simp: limits_ok_def intro: le_trans [OF live_sessions_later])

interpretation access_tables: step_invariant access_step limits_ok
  by unfold_locales (rule access_step_limits)

text \<open>
  C15: The session limit of an invite holds. From empty tables, after any interleaving of logins,
  logouts, new invites and revoked invites, with time running between them and each request working
  with the time it came in at, the unrevoked and unexpired sessions of an invite are never more than
  its maximum.
\<close>

theorem session_limit_holds:
  assumes "access_step\<^sup>*\<^sup>* (t0, \<lparr>invite_codes = [], access_sessions = []\<rparr>) (t, db)"
    and "i \<in> set (invite_codes db)"
  shows "live_sessions (iv_id i) t db \<le> iv_max_sessions i"
proof -
  have "limits_ok (t0, \<lparr>invite_codes = [], access_sessions = []\<rparr>)" by (simp add: limits_ok_def db_wf_def)
  from access_tables.inv_steps [OF assms(1) this] assms(2) show ?thesis by (simp add: limits_ok_def)
qed

lemma session_limit_holds_witness:
  "live_sessions ''i1'' 7 sample_access_db \<le> iv_max_sessions (hd (invite_codes sample_access_db))"
proof -
  let ?empty = "\<lparr>invite_codes = [], access_sessions = []\<rparr> :: access_db"
  have hd: "hd (invite_codes sample_access_db) \<in> set (invite_codes sample_access_db)"
    "iv_id (hd (invite_codes sample_access_db)) = ''i1''"
    by (simp_all add: sample_access_db_def createInvite_def Let_def)
  have "access_step (3, ?empty) (7, ?empty)" by (rule access_tick) simp
  moreover have "access_step (7, ?empty) (7, sample_access_db)"
    unfolding sample_access_db_def by (intro access_stmt db_invite) simp
  ultimately have "access_step\<^sup>*\<^sup>* (3, ?empty) (7, sample_access_db)" by simp
  from session_limit_holds [OF this hd(1)] hd(2) show ?thesis by simp
qed

section \<open>Invite codes\<close>

text \<open>
  A stored invite code hash accepts its code and nothing else that hashes differently. The hash
  made of a code and a salt is verified by another code exactly when scrypt gives both, trimmed, the
  same bytes under that salt; blanks around the code do not matter.
\<close>

theorem invite_hash_roundtrip:
  assumes "salt \<noteq> []" and "CHR '':'' \<notin> set salt"
    and "scrypt cr (normalizeInviteCode code) salt \<noteq> []"
    and "list_all (\<lambda>b. b < 256) (scrypt cr (normalizeInviteCode code) salt)"
  shows "verifyInviteCodeHash cr code' (createInviteCodeHash cr code salt)
    \<longleftrightarrow> scrypt cr (normalizeInviteCode code') salt = scrypt cr (normalizeInviteCode code) salt"
proof -
  let ?hex = "hexEncode (scrypt cr (normalizeInviteCode code) salt)"
  have nc: "CHR '':'' \<notin> set ?hex"
    using hexEncode_lower [OF assms(4)] by (auto simp: list_all_iff lower_hex_def Let_def)
  have "split_on CHR '':'' (join_with '':'' [''scrypt'', ''v1'', salt, ?hex]) = [''scrypt'', ''v1'', salt, ?hex]"
    by (rule split_on_join) (use assms(2) nc in auto)
  moreover have "createInviteCodeHash cr code salt = join_with '':'' [''scrypt'', ''v1'', salt, ?hex]"
    by (simp add: createInviteCodeHash_def INVITE_HASH_VERSION_def)
  ultimately have "split_on CHR '':'' (createInviteCodeHash cr code salt) = [''scrypt'', ''v1'', salt, ?hex]"
    by (simp only:)
  with assms show ?thesis
    by (simp add: verifyInviteCodeHash_def parseInviteCodeHash_def INVITE_HASH_VERSION_def hexDecode_hexEncode)
qed

lemma invite_hash_roundtrip_witness:
  "verifyInviteCodeHash sample_crypto '' open'' (createInviteCodeHash sample_crypto ''open'' ''salt'')
    \<longleftrightarrow> scrypt sample_crypto (normalizeInviteCode '' open'') ''salt''
        = scrypt sample_crypto (normalizeInviteCode ''open'') ''salt''"
  by (rule invite_hash_roundtrip) code_simp+

end
