(* ===== verification/Client_Room.thy ===== *)
theory Client_Room
  imports Shared_Types
begin

text \<open>
  The browser's copy of a room: the reducer of \<^verbatim>\<open>reducers/roomReducer.ts\<close> and the socket
  bindings of \<^verbatim>\<open>providers/roomSocketBindings.ts\<close> of \<^verbatim>\<open>apps/client/src\<close>
  that feed it. The clock is an argument; \<^verbatim>\<open>sessionStorage\<close> is a map that may refuse
  writes. The artificial acknowledgement delay of the end-to-end tests is zero here.
\<close>

section \<open>State\<close>

record client_room_state = room_state +
  cs_currentUserId :: "string option"
  cs_currentProblem :: "problem_detail option"
  cs_visibleTestCases :: "test_case list"
  cs_parameterNames :: "string list"
  cs_lastError :: "string option"
  cs_executionResult :: "execution_result option"
  cs_importStatus :: "(ImportStatus \<times> string option \<times> nat option) option"
  cs_hintText :: string
  cs_isHintStreaming :: bool
  cs_solution :: "string option"

text \<open>The initial \<^verbatim>\<open>createdAt\<close> and \<^verbatim>\<open>lastActivityAt\<close> are empty texts; here 0.\<close>

definition initialRoomState :: client_room_state where
  "initialRoomState =
     \<lparr>rs_roomCode = [], rs_mode = Collaboration, rs_maxUsers = 2, rs_users = [], rs_problemId = None,
      rs_language = Python, rs_hintsUsed = 0, rs_hintLimit = 0, rs_pendingHintRequest = None,
      rs_customTestCases = [], rs_submissionsUsed = 0, rs_submissionLimit = 20,
      rs_executionInProgress = False, rs_createdAt = 0, rs_lastActivityAt = 0,
      cs_currentUserId = None, cs_currentProblem = None, cs_visibleTestCases = [],
      cs_parameterNames = [], cs_lastError = None, cs_executionResult = None, cs_importStatus = None,
      cs_hintText = [], cs_isHintStreaming = False, cs_solution = None\<rparr>"

section \<open>The reducer\<close>

datatype room_action =
    UserJoinedAction user_joined_payload
  | UserLeftAction string
  | RoomSyncAction room_state
  | ProblemLoadedAction problem_loaded_payload
  | ProblemErrorAction string
  | ExecutionStartedAction ExecutionType
  | ExecutionResultAction execution_result
  | ExecutionErrorAction ExecutionErrorType string
  | HintPendingAction hint_pending_payload
  | HintChunkAction string
  | HintDoneAction string int
  | HintDeniedAction
  | HintErrorAction string
  | ImportStatusAction ImportStatus "string option" "nat option"
  | TestcaseAddedAction custom_test_case
  | TestcaseErrorAction string
  | SolutionRevealedAction string
  | EventRejectedAction string string
  | YjsTokenRotatedAction

definition newUser :: "user_joined_payload \<Rightarrow> room_user" where
  "newUser p = \<lparr>ru_id = uj_userId p, ru_displayName = uj_displayName p, ru_role = uj_role p, ru_connected = True\<rparr>"

definition seatUser :: "room_user \<Rightarrow> room_user list \<Rightarrow> room_user list" where
  "seatUser u us =
     (if List.find (\<lambda>v. ru_id v = ru_id u) us \<noteq> None
      then update_first (\<lambda>v. ru_id v = ru_id u) (\<lambda>_. u) us else us @ [u])"

definition markLeft :: "string \<Rightarrow> room_user list \<Rightarrow> room_user list" where
  "markLeft uid us = map (\<lambda>u. if ru_id u = uid then u\<lparr>ru_connected := False\<rparr> else u) us"

fun roomReducer :: "int \<Rightarrow> client_room_state \<Rightarrow> room_action \<Rightarrow> client_room_state" where
  "roomReducer now s (RoomSyncAction p) = (room_state.extend p (room_state.more s))\<lparr>cs_lastError := None\<rparr>"
| "roomReducer now s (UserJoinedAction p) =
     s\<lparr>rs_users := seatUser (newUser p) (rs_users s),
       cs_currentUserId := (if uj_reconnectToken p \<noteq> [] then Some (uj_userId p) else cs_currentUserId s)\<rparr>"
| "roomReducer now s (UserLeftAction uid) = s\<lparr>rs_users := markLeft uid (rs_users s)\<rparr>"
| "roomReducer now s (ProblemLoadedAction p) =
     s\<lparr>rs_problemId := Some (p_id (pd_problem (pl_problem p))),
       rs_hintLimit := HINT_LIMIT_BY_DIFFICULTY (p_difficulty (pd_problem (pl_problem p))),
       rs_hintsUsed := 0, rs_customTestCases := [], rs_pendingHintRequest := None,
       cs_currentProblem := Some (pl_problem p), cs_visibleTestCases := pl_visibleTestCases p,
       cs_parameterNames := pl_parameterNames p, cs_hintText := [], cs_isHintStreaming := False,
       cs_solution := None, cs_lastError := None, cs_executionResult := None, cs_importStatus := None\<rparr>"
| "roomReducer now s (ProblemErrorAction msg) = s\<lparr>cs_lastError := Some msg\<rparr>"
| "roomReducer now s (ImportStatusAction st msg retry) = s\<lparr>cs_importStatus := Some (st, msg, retry)\<rparr>"
| "roomReducer now s (HintPendingAction p) =
     s\<lparr>rs_pendingHintRequest := Some \<lparr>requestedBy = hp_requestedBy p, requestedAt = now\<rparr>\<rparr>"
| "roomReducer now s (HintErrorAction msg) =
     s\<lparr>rs_pendingHintRequest := None, cs_lastError := Some msg, cs_isHintStreaming := False\<rparr>"
| "roomReducer now s (ExecutionStartedAction ty) =
     s\<lparr>rs_executionInProgress := True, cs_executionResult := None, cs_lastError := None\<rparr>"
| "roomReducer now s (ExecutionResultAction res) =
     s\<lparr>rs_executionInProgress := False, cs_executionResult := Some res, cs_lastError := None\<rparr>"
| "roomReducer now s (ExecutionErrorAction ty msg) =
     s\<lparr>rs_executionInProgress := False, cs_lastError := Some msg\<rparr>"
| "roomReducer now s (HintChunkAction text) =
     s\<lparr>cs_hintText := cs_hintText s @ text, cs_isHintStreaming := True\<rparr>"
| "roomReducer now s (HintDoneAction fullHint left) =
     s\<lparr>rs_hintsUsed := rs_hintsUsed s + 1, rs_pendingHintRequest := None, cs_hintText := fullHint,
       cs_isHintStreaming := False\<rparr>"
| "roomReducer now s HintDeniedAction =
     s\<lparr>rs_pendingHintRequest := None, cs_lastError := Some ''Hint request denied.'', cs_isHintStreaming := False\<rparr>"
| "roomReducer now s (TestcaseAddedAction t) =
     s\<lparr>rs_customTestCases := rs_customTestCases s @ [t], cs_lastError := None\<rparr>"
| "roomReducer now s (TestcaseErrorAction msg) = s\<lparr>cs_lastError := Some msg\<rparr>"
| "roomReducer now s (SolutionRevealedAction solution) = s\<lparr>cs_solution := Some solution\<rparr>"
| "roomReducer now s (EventRejectedAction ev reason) = s\<lparr>cs_lastError := Some reason\<rparr>"
| "roomReducer now s YjsTokenRotatedAction = s"

section \<open>Socket bindings\<close>

record storage =
  items :: "(string \<times> string) list"
  writable :: bool

definition storeSessionValue :: "string \<Rightarrow> string \<Rightarrow> storage \<Rightarrow> storage" where
  "storeSessionValue payloadValue storageKey st =
     (if payloadValue = [] \<or> \<not> writable st then st
      else st\<lparr>items := AList.update storageKey payloadValue (items st)\<rparr>)"

text \<open>
  The listeners \<^verbatim>\<open>bindSocketHandlers\<close> registers: the action a message is dispatched as.
  A full room has no listener among them.
\<close>

fun dispatched :: "server_msg \<Rightarrow> room_action option" where
  "dispatched (UserJoined p) = Some (UserJoinedAction p)"
| "dispatched (UserLeft uid) = Some (UserLeftAction uid)"
| "dispatched RoomFull = None"
| "dispatched (RoomSync p) = Some (RoomSyncAction p)"
| "dispatched (ProblemLoaded p) = Some (ProblemLoadedAction p)"
| "dispatched (ProblemError msg) = Some (ProblemErrorAction msg)"
| "dispatched (ProblemImportStatus st msg retry) = Some (ImportStatusAction st msg retry)"
| "dispatched (ExecutionStarted ty) = Some (ExecutionStartedAction ty)"
| "dispatched (ExecutionResult res) = Some (ExecutionResultAction res)"
| "dispatched (ExecutionError ty msg) = Some (ExecutionErrorAction ty msg)"
| "dispatched (HintPending p) = Some (HintPendingAction p)"
| "dispatched HintDenied = Some HintDeniedAction"
| "dispatched (HintChunk text) = Some (HintChunkAction text)"
| "dispatched (HintDone fullHint left) = Some (HintDoneAction fullHint left)"
| "dispatched (HintError msg) = Some (HintErrorAction msg)"
| "dispatched (SolutionRevealed s) = Some (SolutionRevealedAction s)"
| "dispatched (TestcaseAdded t) = Some (TestcaseAddedAction t)"
| "dispatched (TestcaseError msg) = Some (TestcaseErrorAction msg)"
| "dispatched (EventRejected ev reason retry) = Some (EventRejectedAction ev reason)"
| "dispatched (YjsTokenRotated tok) = Some YjsTokenRotatedAction"

definition onMessage :: "int \<Rightarrow> server_msg \<Rightarrow> client_room_state \<Rightarrow> client_room_state" where
  "onMessage now msg s = (case dispatched msg of None \<Rightarrow> s | Some a \<Rightarrow> roomReducer now s a)"

fun stored :: "server_msg \<Rightarrow> storage \<Rightarrow> storage" where
  "stored (UserJoined p) st =
     storeSessionValue (uj_yjsToken p) ''yjsToken''
       (storeSessionValue (uj_reconnectToken p) ''reconnectToken'' st)"
| "stored (YjsTokenRotated tok) st = storeSessionValue tok ''yjsToken'' st"
| "stored _ st = st"

section \<open>Joining\<close>

text \<open>
  The marker on the socket object says for which connection a join was sent. \<open>None\<close> for the
  storage is a \<^verbatim>\<open>sessionStorage\<close> that throws when read; a socket that throws on
  emit is not modelled.
\<close>

record client_socket =
  cl_id :: "string option"
  cl_connected :: bool
  cl_marker :: "string option"

definition emitJoin :: "storage option \<Rightarrow> client_socket \<Rightarrow> client_socket \<times> (string \<times> string option) option" where
  "emitJoin st sock =
     (case st of
        None \<Rightarrow> (sock, None)
      | Some s \<Rightarrow>
          (let displayName = map_option trim (map_of (items s) ''displayName'') in
           if \<not> truthy_text displayName \<or> \<not> cl_connected sock \<or> \<not> truthy_text (cl_id sock)
              \<or> cl_marker sock = cl_id sock then (sock, None)
           else
             (let token = map_of (items s) ''reconnectToken'' in
              (sock\<lparr>cl_marker := cl_id sock\<rparr>,
               Some (the displayName, if truthy_text token then token else None)))))"

definition clearJoinMarker :: "client_socket \<Rightarrow> client_socket" where
  "clearJoinMarker sock = sock\<lparr>cl_marker := None\<rparr>"

definition onConnect :: "storage option \<Rightarrow> string \<Rightarrow> client_socket \<Rightarrow> client_socket \<times> (string \<times> string option) option" where
  "onConnect st sid sock = emitJoin st (sock\<lparr>cl_id := Some sid, cl_connected := True\<rparr>)"

definition onDisconnect :: "client_socket \<Rightarrow> client_socket" where
  "onDisconnect sock = clearJoinMarker (sock\<lparr>cl_id := None, cl_connected := False\<rparr>)"

section \<open>Lemmas\<close>

lemma seatUser_ids: "set (map ru_id (seatUser u us)) = insert (ru_id u) (set (map ru_id us))"
proof (cases "List.find (\<lambda>v. ru_id v = ru_id u) us = None")
  case True
  then show ?thesis by (simp add: seatUser_def)
next
  case False
  have "map ru_id (update_first (\<lambda>v. ru_id v = ru_id u) (\<lambda>_. u) vs) = map ru_id vs" for vs
    by (induction vs) auto
  moreover have "ru_id u \<in> set (map ru_id us)" using False unfolding find_None_mem by (metis imageI set_map)
  ultimately show ?thesis using False by (auto simp: seatUser_def simp del: set_map)
qed

lemma seatUser_distinct: "distinct (map ru_id us) \<Longrightarrow> distinct (map ru_id (seatUser u us))"
proof -
  assume d: "distinct (map ru_id us)"
  have "map ru_id (update_first (\<lambda>v. ru_id v = ru_id u) (\<lambda>_. u) vs) = map ru_id vs" for vs
    by (induction vs) auto
  with d show ?thesis by (auto simp: seatUser_def find_None_mem)
qed

lemma seatUser_set:
  assumes "distinct (map ru_id us)"
  shows "set (seatUser u us) = insert u {v \<in> set us. ru_id v \<noteq> ru_id u}"
proof (cases "List.find (\<lambda>v. ru_id v = ru_id u) us = None")
  case True
  then show ?thesis by (auto simp: seatUser_def find_None_mem)
next
  case False
  have "set (update_first (\<lambda>v. ru_id v = ru_id u) (\<lambda>_. u) vs) = insert u {v \<in> set vs. ru_id v \<noteq> ru_id u}"
    if "distinct (map ru_id vs)" "\<exists>v \<in> set vs. ru_id v = ru_id u" for vs
    using that by (induction vs) (auto simp: image_iff)
  with assms False show ?thesis by (simp add: seatUser_def find_None_mem)
qed

lemma markLeft_ids [simp]: "map ru_id (markLeft uid us) = map ru_id us"
  by (simp add: markLeft_def)

section \<open>Properties\<close>

text \<open>
  The client sends one join per connection. After it sent a join for a connection, repeated calls
  on the same connection send nothing, whatever is in the storage, until a disconnect; the next
  connection sends a join again when a name is stored.
\<close>

theorem one_join_per_connection:
  assumes "onConnect st sid sock = (sock', Some payload)"
    and "truthy_text (map_option trim (map_of (items s) ''displayName''))" and "sid2 \<noteq> []"
  shows "emitJoin st' sock' = (sock', None)
    \<and> snd (onConnect (Some s) sid2 (onDisconnect sock')) \<noteq> None"
proof
  have "cl_marker sock' = cl_id sock'"
    using assms(1) by (auto simp: onConnect_def emitJoin_def Let_def split: option.splits if_splits)
  then show "emitJoin st' sock' = (sock', None)" by (simp add: emitJoin_def Let_def split: option.split)
  show "snd (onConnect (Some s) sid2 (onDisconnect sock')) \<noteq> None"
    using assms(2,3) by (simp add: onConnect_def onDisconnect_def clearJoinMarker_def emitJoin_def Let_def)
qed

lemma one_join_per_connection_witness:
  "\<exists>sock'. onConnect (Some \<lparr>items = [(''displayName'', '' Ada '')], writable = True\<rparr>) ''s1''
       \<lparr>cl_id = None, cl_connected = False, cl_marker = None\<rparr> = (sock', Some (''Ada'', None))
     \<and> emitJoin None sock' = (sock', None)"
proof -
  let ?items = "\<lparr>items = [(''displayName'', '' Ada '')], writable = True\<rparr>"
  let ?sock = "\<lparr>cl_id = None, cl_connected = False, cl_marker = None\<rparr>"
  have a: "onConnect (Some ?items) ''s1'' ?sock =
      (\<lparr>cl_id = Some ''s1'', cl_connected = True, cl_marker = Some ''s1''\<rparr>, Some (''Ada'', None))"
    by code_simp
  have b: "truthy_text (map_option trim (map_of (items ?items) ''displayName''))" by code_simp
  from one_join_per_connection [OF a b, of "''s2''" None] a show ?thesis by blast
qed

end
