(* ===== verification/Room_Replica.thy ===== *)
theory Room_Replica
  imports Client_Room Room_Frames
begin

text \<open>
  Server and client together: what a member's browser shows of the room while the other member
  joins, leaves, runs code, asks for hints and changes problems. The messages a handler segment
  emits are delivered in order to the member's socket and go through its reducer.
\<close>

section \<open>Delivery\<close>

fun reaches :: "string \<Rightarrow> string \<Rightarrow> eff \<Rightarrow> server_msg list" where
  "reaches me code (ToSocket s m) = (if s = me then [m] else [])"
| "reaches me code (ToRoom c m) = (if c = code then [m] else [])"
| "reaches me code (ToOthers s c m) = (if s \<noteq> me \<and> c = code then [m] else [])"
| "reaches me code _ = []"

definition inbox :: "string \<Rightarrow> string \<Rightarrow> eff list \<Rightarrow> server_msg list" where
  "inbox me code effs = concat (map (reaches me code) effs)"

definition receive :: "int \<Rightarrow> string \<Rightarrow> string \<Rightarrow> eff list \<Rightarrow> client_room_state \<Rightarrow> client_room_state" where
  "receive now me code effs c = fold (onMessage now) (inbox me code effs) c"

lemma inbox_simps [simp]:
  "inbox me code [] = []"
  "inbox me code (e # es) = reaches me code e @ inbox me code es"
  by (simp_all add: inbox_def)

lemma inbox_append [simp]: "inbox me code (as @ bs) = inbox me code as @ inbox me code bs"
  by (simp add: inbox_def)

lemma receive_append: "receive now me code (as @ bs) c = receive now me code bs (receive now me code as c)"
  by (simp add: receive_def)

section \<open>The relation\<close>

text \<open>
  A member whose join waits for the active problem is arriving: the others are told when the query has answered. It may have left by then:
  a ghost is a member that was announced although it was not connected, until a sync or another announcement puts that right.
  Joins of this member itself may wait for the active problem too; the answer is its hydration. The copy is stale when the last thing it was
  told about the round of the active problem was a hydration that did not match the round as it was.
\<close>

record replica =
  rp_room :: room
  rp_arriving :: "room_user_internal list"
  rp_ghosts :: "string list"
  rp_hydrating :: nat
  rp_stale :: bool
  rp_client :: client_room_state

definition server_ok :: "room \<Rightarrow> bool" where
  "server_ok r \<longleftrightarrow> room_wf r \<and> roles_ok r \<and> tokens_ok r"

definition arriving_ok :: "room \<Rightarrow> room_user_internal list \<Rightarrow> bool" where
  "arriving_ok r arr \<longleftrightarrow>
     (\<forall>v \<in> set arr. \<forall>u \<in> set (users r). userId u = userId v \<longrightarrow> displayName u = displayName v \<and> role u = role v)"

definition announced :: "room \<Rightarrow> room_user_internal list \<Rightarrow> string list \<Rightarrow> room_user list" where
  "announced r arr ghosts = map publicUser (filter (\<lambda>u. userId u \<notin> userId ` set arr \<and> userId u \<notin> set ghosts) (users r))"

definition seats_shown :: "room \<Rightarrow> room_user_internal list \<Rightarrow> string list \<Rightarrow> room_user list \<Rightarrow> bool" where
  "seats_shown r arr ghosts us \<longleftrightarrow> distinct (map ru_id us) \<and> set (announced r arr ghosts) \<subseteq> set us
     \<and> {x \<in> set us. ru_connected x \<and> ru_id x \<notin> set ghosts} \<subseteq> publicUser ` set (users r)"

definition round_shown :: "room \<Rightarrow> client_room_state \<Rightarrow> bool" where
  "round_shown r c \<longleftrightarrow> rs_problemId c = problemId r \<and> rs_hintLimit c = hintLimit r
     \<and> rs_hintsUsed c = hintsUsed r \<and> rs_customTestCases c = customTestCases r"

definition card_shown :: "room \<Rightarrow> client_room_state \<Rightarrow> bool" where
  "card_shown r c \<longleftrightarrow> rs_roomCode c = roomCode r \<and> rs_mode c = mode r \<and> rs_maxUsers c = MAX_USERS
     \<and> rs_language c = language r \<and> rs_submissionLimit c = submissionLimit r"

definition replica_ok :: "replica \<Rightarrow> bool" where
  "replica_ok s \<longleftrightarrow> server_ok (rp_room s) \<and> arriving_ok (rp_room s) (rp_arriving s)
     \<and> seats_shown (rp_room s) (rp_arriving s) (rp_ghosts s) (rs_users (rp_client s))
     \<and> card_shown (rp_room s) (rp_client s)
     \<and> (rp_stale s \<or> round_shown (rp_room s) (rp_client s))"

text \<open>What the messages that reach the member do to its copy and to what is known of the copy.\<close>

fun is_sync :: "server_msg \<Rightarrow> bool" where
  "is_sync (RoomSync p) = True"
| "is_sync _ = False"

fun renews_round :: "server_msg \<Rightarrow> bool" where
  "renews_round (RoomSync p) = True"
| "renews_round (ProblemLoaded p) = True"
| "renews_round _ = False"

fun joined_id :: "server_msg \<Rightarrow> string list" where
  "joined_id (UserJoined p) = [uj_userId p]"
| "joined_id _ = []"

definition heard :: "int \<Rightarrow> room \<Rightarrow> server_msg list \<Rightarrow> replica \<Rightarrow> replica" where
  "heard now r' ms s =
     s\<lparr>rp_room := r',
       rp_ghosts := (if list_ex is_sync ms then [] else filter (\<lambda>g. g \<notin> set (concat (map joined_id ms))) (rp_ghosts s)),
       rp_stale := (rp_stale s \<and> \<not> list_ex renews_round ms),
       rp_client := fold (onMessage now) ms (rp_client s)\<rparr>"

definition deliver :: "int \<Rightarrow> string \<Rightarrow> room \<Rightarrow> eff list \<Rightarrow> replica \<Rightarrow> replica" where
  "deliver now me r' effs s = heard now r' (inbox me (roomCode (rp_room s)) effs) s"

text \<open>A hydration shows a round that nobody has used yet.\<close>

definition fresh_round :: "problem_detail \<Rightarrow> room \<Rightarrow> bool" where
  "fresh_round d r \<longleftrightarrow> problemId r = Some (p_id (pd_problem d))
     \<and> hintLimit r = HINT_LIMIT_BY_DIFFICULTY (p_difficulty (pd_problem d)) \<and> hintsUsed r = 0 \<and> customTestCases r = []"

definition stale_after :: "problem_detail option awaited \<Rightarrow> room \<Rightarrow> bool \<Rightarrow> bool" where
  "stale_after answer r stale = (case answer of Inr (Some d) \<Rightarrow> \<not> fresh_round d r | _ \<Rightarrow> stale)"

section \<open>Messages that show nothing of the members or the round\<close>

fun quiet :: "server_msg \<Rightarrow> bool" where
  "quiet (UserJoined _) = False"
| "quiet (UserLeft _) = False"
| "quiet (RoomSync _) = False"
| "quiet (ProblemLoaded _) = False"
| "quiet (HintDone _ _) = False"
| "quiet (TestcaseAdded _) = False"
| "quiet _ = True"

fun eff_quiet :: "eff \<Rightarrow> bool" where
  "eff_quiet (ToSocket _ m) = quiet m"
| "eff_quiet (ToRoom _ m) = quiet m"
| "eff_quiet (ToOthers _ _ m) = quiet m"
| "eff_quiet _ = True"

definition same_view :: "client_room_state \<Rightarrow> client_room_state \<Rightarrow> bool" where
  "same_view c c' \<longleftrightarrow> rs_users c' = rs_users c \<and> rs_problemId c' = rs_problemId c
     \<and> rs_hintLimit c' = rs_hintLimit c \<and> rs_hintsUsed c' = rs_hintsUsed c
     \<and> rs_customTestCases c' = rs_customTestCases c
     \<and> rs_roomCode c' = rs_roomCode c \<and> rs_mode c' = rs_mode c \<and> rs_maxUsers c' = rs_maxUsers c
     \<and> rs_language c' = rs_language c \<and> rs_submissionLimit c' = rs_submissionLimit c"

lemma same_view_refl [simp]: "same_view c c" by (simp add: same_view_def)

lemma same_view_trans: "same_view c d \<Longrightarrow> same_view d e \<Longrightarrow> same_view c e" by (simp add: same_view_def)

lemma quiet_message: "quiet m \<Longrightarrow> same_view c (onMessage now m c)"
  by (cases m) (simp_all add: onMessage_def same_view_def)

lemma quiet_inbox: "list_all eff_quiet effs \<Longrightarrow> list_all quiet (inbox me code effs)"
proof (induction effs)
  case (Cons e effs)
  then show ?case by (cases e) auto
qed simp

lemma quiet_fold: "list_all quiet ms \<Longrightarrow> same_view c (fold (onMessage now) ms c)"
  by (induction ms arbitrary: c) (auto intro: same_view_trans quiet_message)

lemma quiet_receive: "list_all eff_quiet effs \<Longrightarrow> same_view c (receive now me code effs c)"
  unfolding receive_def by (intro quiet_fold quiet_inbox)

text \<open>Same members and same round on the server, same view in the client: still in step.\<close>

definition same_round :: "room \<Rightarrow> room \<Rightarrow> bool" where
  "same_round r r' \<longleftrightarrow> problemId r' = problemId r \<and> hintLimit r' = hintLimit r \<and> hintsUsed r' = hintsUsed r
     \<and> customTestCases r' = customTestCases r"

lemma same_round_refl [simp]: "same_round r r" by (simp add: same_round_def)

text \<open>What no step changes.\<close>

definition same_card :: "room \<Rightarrow> room \<Rightarrow> bool" where
  "same_card r r' \<longleftrightarrow> roomCode r' = roomCode r \<and> mode r' = mode r \<and> submissionLimit r' = submissionLimit r"

lemma same_card_refl [simp]: "same_card r r" by (simp add: same_card_def)

lemma same_cardI: "same_seats r r' \<Longrightarrow> same_execution r r' \<Longrightarrow> same_card r r'"
  by (simp add: same_card_def same_seats_def same_execution_def)

lemma one_language: "(l :: SupportedLanguage) = l'" by (cases l; cases l') simp

lemma card_shown_cong: "same_card r r' \<Longrightarrow> card_shown r' c = card_shown r c"
  by (simp add: same_card_def card_shown_def one_language)

lemma same_view_shown:
  assumes "same_view c c'"
  shows "rs_users c' = rs_users c" "round_shown r c' = round_shown r c" "card_shown r c' = card_shown r c"
  using assms by (simp_all add: same_view_def round_shown_def card_shown_def)

lemma server_ok_same_seats: "same_seats r r' \<Longrightarrow> server_ok r' = server_ok r"
  by (simp add: server_ok_def same_seats_ok)

lemma shown_same_seats:
  "same_seats r r' \<Longrightarrow> seats_shown r' arr ghosts us = seats_shown r arr ghosts us"
  "same_seats r r' \<Longrightarrow> arriving_ok r' arr = arriving_ok r arr"
  by (simp_all add: same_seats_def seats_shown_def announced_def arriving_ok_def)

lemma quiet_known:
  "list_all quiet ms \<Longrightarrow> \<not> list_ex is_sync ms \<and> \<not> list_ex renews_round ms \<and> concat (map joined_id ms) = []"
proof (induction ms)
  case (Cons m ms)
  then show ?case by (cases m) auto
qed simp

lemma heard_quiet: "list_all quiet ms \<Longrightarrow> heard now r' ms s = s\<lparr>rp_room := r', rp_client := fold (onMessage now) ms (rp_client s)\<rparr>"
  using quiet_known [of ms] by (simp add: heard_def)

lemma deliver_quiet:
  "list_all eff_quiet effs \<Longrightarrow>
   deliver now me r' effs s = s\<lparr>rp_room := r', rp_client := receive now me (roomCode (rp_room s)) effs (rp_client s)\<rparr>"
  by (simp add: deliver_def heard_quiet quiet_inbox receive_def)

lemma replica_quiet:
  assumes "replica_ok s" and "same_seats (rp_room s) r'" and "same_card (rp_room s) r'" and "same_round (rp_room s) r'"
    and "list_all eff_quiet effs"
  shows "replica_ok (deliver now me r' effs s)"
  using assms(1,4) same_view_shown [OF quiet_receive [OF assms(5), of "rp_client s" now me "roomCode (rp_room s)"]]
    server_ok_same_seats [OF assms(2)] shown_same_seats [OF assms(2)] card_shown_cong [OF assms(3)]
  by (auto simp: deliver_quiet [OF assms(5)] replica_ok_def) (simp_all add: round_shown_def same_round_def)

text \<open>A sync shows the room as it is.\<close>

lemma sync_view:
  "rs_users (onMessage now (RoomSync (toSyncPayload r)) c) = map publicUser (users r)"
  "round_shown r (onMessage now (RoomSync (toSyncPayload r)) c)"
  "card_shown r (onMessage now (RoomSync (toSyncPayload r)) c)"
  by (simp_all add: onMessage_def round_shown_def card_shown_def toSyncPayload_def room_state.defs)

lemma publicUser_id [simp]: "ru_id (publicUser u) = userId u" "ru_connected (publicUser u) = connected u"
  by (simp_all add: publicUser_def)

lemma seats_shown_sync:
  "room_wf r \<Longrightarrow> seats_shown r arr ghosts (map publicUser (users r))"
  by (auto simp: seats_shown_def announced_def comp_def room_wfD(1))

section \<open>Executions\<close>

lemma execError_quiet [simp]: "list_all eff_quiet (execError sess t msg scope)"
  by (simp add: execError_def emitExecutionError_def emitScopedEvent_def)

lemma catch_effects_quiet [simp]: "list_all eff_quiet (catch_effects sess err)"
  by (simp add: catch_effects_def)

lemma finish_execution_round [simp]: "same_round r (finish_execution b now r)"
  by (simp add: same_round_def finish_execution_def)

lemma begin_execution_quiet:
  "begin_execution deps sess doc now r = (r', effs, k) \<Longrightarrow> list_all eff_quiet effs \<and> same_round r r'"
  by (auto simp: begin_execution_def same_round_def finish_execution_def Let_def split: check.splits if_splits)

lemma handleExecution_quiet:
  "handleExecution deps sess doc now r = (r', effs, k) \<Longrightarrow> list_all eff_quiet effs \<and> same_round r r'"
  by (auto simp: handleExecution_def dest: begin_execution_quiet split: if_splits)

lemma status_error_quiet: "emitJudge0StatusError sess response = Some effs \<Longrightarrow> list_all eff_quiet effs"
  by (auto simp: emitJudge0StatusError_def Let_def split: if_splits)

lemma execution_result_quiet: "emitExecutionResult stringify sess parsed ts = Some effs \<Longrightarrow> list_all eff_quiet effs"
  by (auto simp: emitExecutionResult_def split: if_splits option.splits)

lemma accepted_quiet:
  assumes "handleAcceptedExecutionResult parse stringify sess response ts nonce = Inr effs"
  shows "list_all eff_quiet effs"
  using assms
  by (auto simp: handleAcceptedExecutionResult_def Let_def dest: execution_result_quiet
      split: module_error.splits sum.splits parse_failure.splits option.splits)

lemma execution_failed_quiet:
  "execution_failed sess b now err r = (r', effs, k) \<Longrightarrow> list_all eff_quiet effs \<and> same_round r r'"
  by (auto simp: execution_failed_def)

lemma judge0Answered_quiet:
  assumes "judge0Answered parse stringify sess res nonce now a r = (r', effs, k)"
  shows "list_all eff_quiet effs \<and> same_round r r'"
  using assms
  by (auto simp: judge0Answered_def dest: execution_failed_quiet status_error_quiet accepted_quiet
      split: sum.splits option.splits)

lemma resume_exec_quiet:
  assumes "resume_exec env sess doc now k ans r = Some (r', effs, k')"
  shows "list_all eff_quiet effs \<and> same_round r r'"
  using assms
proof (cases rule: resume_exec_cases [OF assms])
  case (1 c)
  with assms show ?thesis by (auto simp: ipChecked_def dest: begin_execution_quiet split: if_splits)
next
  case (6 res nonce a)
  with assms show ?thesis using judge0Answered_quiet by fastforce
qed (auto simp: visibleLoaded_def resourcesLoaded_def slotAnswered_def quotaAnswered_def Let_def
       dest: execution_failed_quiet split: sum.splits option.splits prod.splits if_splits)

section \<open>Hints\<close>

definition hint_told :: "string \<Rightarrow> room \<Rightarrow> eff list \<Rightarrow> room \<Rightarrow> bool" where
  "hint_told code r effs r' \<longleftrightarrow>
     (same_round r r' \<and> list_all eff_quiet effs)
     \<or> (same_round r r' \<and> (\<exists>es fs. effs = es @ ToRoom code (RoomSync (toSyncPayload r')) # fs
           \<and> list_all eff_quiet es \<and> list_all eff_quiet fs))
     \<or> (problemId r' = problemId r \<and> hintLimit r' = hintLimit r \<and> customTestCases r' = customTestCases r
           \<and> hintsUsed r' = hintsUsed r + 1
           \<and> (\<exists>es fs t n. effs = es @ ToRoom code (HintDone t n) # fs
                \<and> list_all eff_quiet es \<and> list_all eff_quiet fs))"

lemma hint_told_quiet: "same_round r r' \<Longrightarrow> list_all eff_quiet effs \<Longrightarrow> hint_told code r effs r'"
  by (simp add: hint_told_def)

lemma hint_told_sync:
  "same_round r r' \<Longrightarrow> list_all eff_quiet fs \<Longrightarrow>
   hint_told code r (ToRoom code (RoomSync (toSyncPayload r')) # fs) r'"
  unfolding hint_told_def by (intro disjI2 disjI1 conjI exI [of _ "[]"] exI [of _ fs]) simp_all

lemma hint_told_done:
  "list_all eff_quiet es \<Longrightarrow> problemId r' = problemId r \<Longrightarrow> hintLimit r' = hintLimit r \<Longrightarrow>
   customTestCases r' = customTestCases r \<Longrightarrow> hintsUsed r' = hintsUsed r + 1 \<Longrightarrow>
   hint_told code r (es @ [ToRoom code (HintDone t n)]) r'"
  unfolding hint_told_def
  by (rule disjI2, rule disjI2, intro conjI, assumption+, rule exI [where x = es], rule exI [where x = "[]"],
      rule exI [where x = t], rule exI [where x = n], simp)

lemma rejectHintRequest_quiet [simp]: "list_all eff_quiet (rejectHintRequest sess msg)"
  by (simp add: rejectHintRequest_def emitScopedEvent_def)

lemma deliverCatch_quiet [simp]: "list_all eff_quiet (deliverCatch sess err)"
  by (simp add: deliverCatch_def)

lemma tell_denied_quiet [simp]: "list_all eff_quiet (tell_denied u)"
  by (simp add: tell_denied_def split: option.split)

lemma clear_told:
  "clearPendingHintRequest sess r = (x, r', effs) \<Longrightarrow>
   same_round r r' \<and> effs = [ToRoom (hs_roomCode sess) (RoomSync (toSyncPayload r'))]"
  by (auto simp: clearPendingHintRequest_def same_round_def Let_def)

lemma clear_tell_told:
  assumes "clearPendingHintRequest sess r = (x, r', effs)"
  shows "hint_told (hs_roomCode sess) r (effs @ tell_denied u) r'"
  using clear_told [OF assms] hint_told_sync [OF _ tell_denied_quiet [of u]] by simp

lemma sendPending_told:
  "sendPendingHintRequest sess now t r c = (r', c', effs) \<Longrightarrow> hint_told (hs_roomCode sess) r effs r'"
  by (auto simp: sendPendingHintRequest_def same_round_def Let_def
      intro: hint_told_quiet hint_told_sync split: option.splits if_splits)

lemma handleHintRequest_told:
  "handleHintRequest sess cd now lst t r c = (r', c', lst', effs, k) \<Longrightarrow> hint_told (hs_roomCode sess) r effs r'"
  by (auto simp: handleHintRequest_def Let_def intro: hint_told_quiet dest: sendPending_told
      split: option.splits if_splits prod.splits)

lemma handleHintApprove_told:
  "handleHintApprove sess r c = (r', c', effs, k) \<Longrightarrow> hint_told (hs_roomCode sess) r effs r'"
  by (auto simp: handleHintApprove_def intro: hint_told_quiet hint_told_sync tell_denied_quiet dest!: clear_told
      split: option.splits prod.splits)

lemma handleHintDeny_told:
  "handleHintDeny sess r c = (r', c', effs) \<Longrightarrow> hint_told (hs_roomCode sess) r effs r'"
  by (auto simp: handleHintDeny_def intro: hint_told_quiet clear_tell_told
      split: option.splits prod.splits)

lemma consentTimedOut_told:
  "consentTimedOut sess r = (r', c', effs) \<Longrightarrow> hint_told (hs_roomCode sess) r effs r'"
  by (auto simp: consentTimedOut_def intro: hint_told_quiet clear_tell_told
      split: option.splits prod.splits)

lemma handleRequesterDisconnect_told:
  "handleRequesterDisconnect sess r c = (r', c', effs) \<Longrightarrow> hint_told (hs_roomCode sess) r effs r'"
  by (auto simp: handleRequesterDisconnect_def intro: hint_told_quiet hint_told_sync tell_denied_quiet dest!: clear_told
      split: option.splits prod.splits if_splits)

lemma streamEnded_told:
  assumes "streamEnded deps sess g r = (r', effs)" and "list_all eff_quiet es"
  shows "hint_told (hs_roomCode sess) r (es @ effs) r'"
proof (cases "sanitizeLLMHint g (hd_maxLLMHintChars deps)")
  case (Inl e)
  with assms show ?thesis
    by (auto simp: streamEnded_def streamFailed_def same_round_def intro!: hint_told_quiet)
next
  case (Inr t)
  with assms show ?thesis
    by (auto simp: streamEnded_def emitHintDelivered_def Let_def intro!: hint_told_done)
qed

lemma streamEvent_told:
  assumes "streamEvent deps sess g ev r = (r', effs, k')"
  shows "hint_told (hs_roomCode sess) r effs r'"
proof (cases ev)
  case (Chunk c)
  with assms show ?thesis
    using streamEnded_told [of deps sess "g @ c" r _ _ "[ToRoom (hs_roomCode sess) (HintChunk c)]"]
    by (auto simp: streamEvent_def Let_def intro!: hint_told_quiet split: if_splits prod.splits)
next
  case StreamDone
  with assms show ?thesis
    using streamEnded_told [of deps sess g r _ _ "[]"] by (auto simp: streamEvent_def split: prod.splits)
next
  case (StreamError e)
  with assms show ?thesis
    by (auto simp: streamEvent_def streamFailed_def same_round_def intro!: hint_told_quiet)
qed

lemma storedHintAnswered_told:
  assumes "storedHintAnswered deps sess a r = (r', effs, k)"
  shows "hint_told (hs_roomCode sess) r effs r'"
proof (cases a)
  case (Inl err)
  with assms show ?thesis by (auto simp: storedHintAnswered_def intro: hint_told_quiet)
next
  case (Inr found)
  show ?thesis
  proof (cases found)
    case None
    with Inr assms show ?thesis
      by (auto simp: storedHintAnswered_def prepareLLMHintRequest_def intro: hint_told_quiet split: if_splits)
  next
    case (Some h)
    with Inr assms hint_told_done [of "[]" r' r] show ?thesis
      by (auto simp: storedHintAnswered_def deliverStoredHint_def emitHintDelivered_def Let_def)
  qed
qed

lemma llm_segments_quiet:
  "llmIpChecked sess a1 = (effs, k) \<Longrightarrow> list_all eff_quiet effs"
  "llmQuotaChecked deps sess a2 = (effs, k) \<Longrightarrow> list_all eff_quiet effs"
  "llmProblemLoaded deps sess a3 doc r = (effs, k) \<Longrightarrow> list_all eff_quiet effs"
  "llmSlotAnswered sess ms a4 = (effs, k) \<Longrightarrow> list_all eff_quiet effs"
  by (auto simp: llmIpChecked_def llmQuotaChecked_def llmProblemLoaded_def llmSlotAnswered_def Let_def
      split: sum.splits option.splits if_splits)

lemma llmReserved_quiet:
  "llmReserved sess a r = (r', effs, k) \<Longrightarrow> list_all eff_quiet effs \<and> same_round r r'"
  by (auto simp: llmReserved_def same_round_def split: sum.splits if_splits)

lemma resume_hint_told:
  assumes "resume_hint env sess doc k ans r = Some (r', effs, k')"
  shows "hint_told (hs_roomCode sess) r effs r'"
  using assms
proof (cases rule: resume_hint_cases [OF assms])
  case (1 a)
  with assms show ?thesis by (auto intro: storedHintAnswered_told)
next
  case (6 ms a)
  with assms show ?thesis by (auto dest!: llmReserved_quiet intro: hint_told_quiet)
next
  case (7 g ev)
  with assms show ?thesis by (auto intro: streamEvent_told)
qed (auto dest: llm_segments_quiet intro: hint_told_quiet)

text \<open>Delivery around one message that everyone gets.\<close>

lemma receive_around:
  assumes "list_all eff_quiet es" and "list_all eff_quiet fs"
  shows "\<exists>c1. same_view c c1 \<and>
    same_view (onMessage now m c1) (receive now me code (es @ ToRoom code m # fs) c)"
proof -
  let ?c1 = "receive now me code es c"
  have "receive now me code (es @ ToRoom code m # fs) c = receive now me code fs (onMessage now m ?c1)"
    by (simp add: receive_def)
  with quiet_receive [OF assms(1), of c now me code] quiet_receive [OF assms(2), of "onMessage now m ?c1" now me code]
  show ?thesis by auto
qed

text \<open>One message to the room among quiet ones.\<close>

lemma deliver_around:
  assumes "effs = es @ ToRoom (roomCode (rp_room s)) m # fs" and "list_all eff_quiet es" and "list_all eff_quiet fs"
  shows "\<exists>c1 c2. same_view (rp_client s) c1 \<and> same_view (onMessage now m c1) c2
    \<and> deliver now me r' effs s =
      s\<lparr>rp_room := r', rp_ghosts := (if is_sync m then [] else filter (\<lambda>g. g \<notin> set (joined_id m)) (rp_ghosts s)),
        rp_stale := (rp_stale s \<and> \<not> renews_round m), rp_client := c2\<rparr>"
proof -
  let ?code = "roomCode (rp_room s)"
  obtain c1 where "same_view (rp_client s) c1"
    "same_view (onMessage now m c1) (receive now me ?code effs (rp_client s))"
    using receive_around [OF assms(2,3), of "rp_client s" now m me ?code] assms(1) by auto
  moreover have "deliver now me r' effs s =
      s\<lparr>rp_room := r', rp_ghosts := (if is_sync m then [] else filter (\<lambda>g. g \<notin> set (joined_id m)) (rp_ghosts s)),
        rp_stale := (rp_stale s \<and> \<not> renews_round m), rp_client := receive now me ?code effs (rp_client s)\<rparr>"
    using quiet_known [OF quiet_inbox [OF assms(2), of me ?code]] quiet_known [OF quiet_inbox [OF assms(3), of me ?code]]
    by (simp add: deliver_def heard_def assms(1) receive_def)
  ultimately show ?thesis by blast
qed

lemma replica_synced:
  assumes "replica_ok s" and "same_seats (rp_room s) r'"
    and "effs = es @ ToRoom (roomCode (rp_room s)) (RoomSync (toSyncPayload r')) # fs" and "list_all eff_quiet es" and "list_all eff_quiet fs"
  shows "replica_ok (deliver now me r' effs s)"
proof -
  obtain c1 c2 where c: "same_view (onMessage now (RoomSync (toSyncPayload r')) c1) c2"
    "deliver now me r' effs s = s\<lparr>rp_room := r', rp_ghosts := [], rp_stale := False, rp_client := c2\<rparr>"
    using deliver_around [OF assms(3-5), of now me r'] by auto
  have "server_ok r'" "arriving_ok r' (rp_arriving s)"
    using assms(1) server_ok_same_seats [OF assms(2)] shown_same_seats(2) [OF assms(2)] by (simp_all add: replica_ok_def)
  then show ?thesis
    using seats_shown_sync [of r' "rp_arriving s" "[]"]
    by (simp add: c(2) replica_ok_def same_view_shown [OF c(1)] sync_view server_ok_def)
qed

lemma replica_hint:
  assumes ok: "replica_ok s" and seats: "same_seats (rp_room s) r'" and card: "same_card (rp_room s) r'"
    and told: "hint_told (roomCode (rp_room s)) (rp_room s) effs r'"
  shows "replica_ok (deliver now me r' effs s)"
proof -
  let ?r = "rp_room s" and ?c = "rp_client s" and ?code = "roomCode (rp_room s)"
  note same = server_ok_same_seats [OF seats] shown_same_seats [OF seats] card_shown_cong [OF card]
  consider (quiet) "same_round ?r r'" "list_all eff_quiet effs"
    | (sync) es fs where "effs = es @ ToRoom ?code (RoomSync (toSyncPayload r')) # fs"
        "list_all eff_quiet es" "list_all eff_quiet fs"
    | (delivered) es fs t n where "problemId r' = problemId ?r" "hintLimit r' = hintLimit ?r"
        "customTestCases r' = customTestCases ?r" "hintsUsed r' = hintsUsed ?r + 1"
        "effs = es @ ToRoom ?code (HintDone t n) # fs" "list_all eff_quiet es" "list_all eff_quiet fs"
    using told unfolding hint_told_def by blast
  then show ?thesis
  proof cases
    case quiet
    then show ?thesis by (intro replica_quiet [OF ok seats card])
  next
    case sync
    then show ?thesis by (rule replica_synced [OF ok seats])
  next
    case delivered
    obtain c1 c2 where c: "same_view ?c c1" "same_view (onMessage now (HintDone t n) c1) c2"
      "deliver now me r' effs s = s\<lparr>rp_room := r', rp_client := c2\<rparr>"
      using deliver_around [OF delivered(5-7), of now me r'] by auto
    have "rs_users c2 = rs_users ?c" "card_shown ?r c2 = card_shown ?r ?c" "round_shown ?r ?c \<Longrightarrow> round_shown r' c2"
      using c(1,2) delivered(1-4) by (simp_all add: same_view_def round_shown_def card_shown_def onMessage_def)
    with ok same show ?thesis by (auto simp: c(3) replica_ok_def)
  qed
qed

section \<open>Problems and test cases\<close>

lemma importStatus_quiet [simp]:
  "list_all eff_quiet (emitImportStatusToRoom sess st msg)"
  "list_all eff_quiet (emitImportStatusToSender sess msg2 retry)"
  by (simp_all add: emitImportStatusToRoom_def emitImportStatusToSender_def)

lemma importCatch_quiet [simp]: "list_all eff_quiet (importCatch sess err)"
  by (simp add: importCatch_def)

definition problem_told :: "string \<Rightarrow> room \<Rightarrow> eff list \<Rightarrow> room \<Rightarrow> bool" where
  "problem_told code r effs r' \<longleftrightarrow>
     (same_round r r' \<and> list_all eff_quiet effs)
     \<or> (\<exists>d fs. effs = ToRoom code (ProblemLoaded (loadedPayload d)) # fs \<and> list_all eff_quiet fs
           \<and> problemId r' = Some (p_id (pd_problem d))
           \<and> hintLimit r' = HINT_LIMIT_BY_DIFFICULTY (p_difficulty (pd_problem d))
           \<and> hintsUsed r' = 0 \<and> customTestCases r' = [])"

lemma detailLoaded_told:
  "detailLoaded sess now a doc r = (r', doc', effs) \<Longrightarrow> problem_told (ps_roomCode sess) r effs r'"
  by (auto simp: detailLoaded_def loadProblemIntoRoom_def switchProblem_def problem_told_def
      emitProblemLoadError_def emitScopedEvent_def Let_def split: sum.splits option.splits)

lemma importedLoaded_told:
  "importedLoaded deps sess now a doc r = (r', doc', effs, gen) \<Longrightarrow> problem_told (ps_roomCode sess) r effs r'"
  by (auto simp: importedLoaded_def loadProblemIntoRoom_def switchProblem_def problem_told_def Let_def
      split: sum.splits option.splits)

lemma problem_seats:
  "detailLoaded sess now a doc r = (r', doc', effs) \<Longrightarrow> same_seats r r'"
  "importedLoaded deps sess now a doc r = (r', doc', effs, gen) \<Longrightarrow> same_seats r r'"
  by (auto simp: detailLoaded_def importedLoaded_def loadProblemIntoRoom_def switchProblem_def same_seats_def
      Let_def split: sum.splits option.splits)

lemma problem_cards:
  "detailLoaded sess now a doc r = (r', doc', effs) \<Longrightarrow> same_card r r'"
  "importedLoaded deps sess now a doc r = (r', doc', effs, gen) \<Longrightarrow> same_card r r'"
  by (auto simp: detailLoaded_def importedLoaded_def loadProblemIntoRoom_def switchProblem_def same_card_def
      Let_def split: sum.splits option.splits)

lemma replica_problem:
  assumes ok: "replica_ok s" and seats: "same_seats (rp_room s) r'" and card: "same_card (rp_room s) r'"
    and told: "problem_told (roomCode (rp_room s)) (rp_room s) effs r'"
  shows "replica_ok (deliver now me r' effs s)"
proof -
  let ?r = "rp_room s" and ?c = "rp_client s" and ?code = "roomCode (rp_room s)"
  note same = server_ok_same_seats [OF seats] shown_same_seats [OF seats] card_shown_cong [OF card]
  consider (quiet) "same_round ?r r'" "list_all eff_quiet effs"
    | (load) d fs where "effs = [] @ ToRoom ?code (ProblemLoaded (loadedPayload d)) # fs" "list_all eff_quiet fs"
        "problemId r' = Some (p_id (pd_problem d))"
        "hintLimit r' = HINT_LIMIT_BY_DIFFICULTY (p_difficulty (pd_problem d))"
        "hintsUsed r' = 0" "customTestCases r' = []"
    using told unfolding problem_told_def by auto
  then show ?thesis
  proof cases
    case quiet
    then show ?thesis by (intro replica_quiet [OF ok seats card])
  next
    case load
    obtain c1 c2 where c: "same_view ?c c1" "same_view (onMessage now (ProblemLoaded (loadedPayload d)) c1) c2"
      "deliver now me r' effs s = s\<lparr>rp_room := r', rp_stale := False, rp_client := c2\<rparr>"
      using deliver_around [OF load(1) _ load(2), of now me r'] by auto
    have "rs_users c2 = rs_users ?c" "card_shown ?r c2 = card_shown ?r ?c" "round_shown r' c2"
      using c(1,2) load(3-6) by (simp_all add: same_view_def round_shown_def card_shown_def onMessage_def loadedPayload_def)
    with ok same show ?thesis by (auto simp: c(3) replica_ok_def)
  qed
qed

lemma replica_testcase:
  assumes ok: "replica_ok s"
    and step: "boilerplateLoaded sock (roomCode (rp_room s)) t payload a (rp_room s) = (r', effs)"
  shows "replica_ok (deliver now me r' effs s)"
proof -
  let ?r = "rp_room s" and ?c = "rp_client s" and ?code = "roomCode (rp_room s)"
  have seats: "same_seats ?r r'" and card: "same_card ?r r'"
    using boilerplateLoaded_shape [OF step] by (auto simp: tests_frame_def intro: same_cardI)
  note same = server_ok_same_seats [OF seats] shown_same_seats [OF seats] card_shown_cong [OF card]
  consider (quiet) "r' = ?r" "list_all eff_quiet effs"
    | (added) tc where "effs = [] @ ToRoom ?code (TestcaseAdded tc) # []" "problemId r' = problemId ?r"
        "hintLimit r' = hintLimit ?r" "hintsUsed r' = hintsUsed ?r" "customTestCases r' = customTestCases ?r @ [tc]"
    using step by (auto simp: boilerplateLoaded_def pushTestCase_def emitTestcaseError_def emitScopedEvent_def
      Let_def split: sum.splits option.splits if_splits)
  then show ?thesis
  proof cases
    case quiet
    then show ?thesis by (intro replica_quiet [OF ok seats card]) simp_all
  next
    case added
    obtain c1 c2 where c: "same_view ?c c1" "same_view (onMessage now (TestcaseAdded tc) c1) c2"
      "deliver now me r' effs s = s\<lparr>rp_room := r', rp_client := c2\<rparr>"
      using deliver_around [OF added(1), of now me r'] by auto
    have "rs_users c2 = rs_users ?c" "card_shown ?r c2 = card_shown ?r ?c" "round_shown ?r ?c \<Longrightarrow> round_shown r' c2"
      using c(1,2) added(2-5) by (simp_all add: same_view_def round_shown_def card_shown_def onMessage_def)
    with ok same show ?thesis by (auto simp: c(3) replica_ok_def)
  qed
qed

section \<open>Members\<close>

definition tell_joined :: "room \<Rightarrow> room_user_internal \<Rightarrow> server_msg" where
  "tell_joined r v = UserJoined \<lparr>uj_userId = userId v, uj_displayName = displayName v, uj_role = role v,
     uj_mode = mode r, uj_reconnectToken = [], uj_yjsToken = []\<rparr>"

lemma tell_joined_message:
  "rs_users (onMessage now (tell_joined r v) c) = seatUser (publicUser (v\<lparr>connected := True\<rparr>)) (rs_users c)"
  "round_shown r' (onMessage now (tell_joined r v) c) = round_shown r' c"
  "card_shown r' (onMessage now (tell_joined r v) c) = card_shown r' c"
  by (simp_all add: tell_joined_def onMessage_def newUser_def publicUser_def round_shown_def card_shown_def)

lemma presence_inbox:
  "sock_id sock \<noteq> me \<Longrightarrow> inbox me (roomCode r) (emitPresenceBroadcast sock r v) = [tell_joined r v]"
  by (simp add: emitPresenceBroadcast_def tell_joined_def)

lemma receive_presence:
  "sock_id sock \<noteq> me \<Longrightarrow> receive now me (roomCode r) (emitPresenceBroadcast sock r v) c = onMessage now (tell_joined r v) c"
  by (simp add: receive_def presence_inbox)

text \<open>Another member's join reaches this one only as the announcement.\<close>

definition arriving :: "join_k option \<Rightarrow> room_user_internal list" where
  "arriving k = (case k of Some (AwaitHydration (Some v)) \<Rightarrow> [v] | _ \<Rightarrow> [])"

lemma inbox_joined:
  assumes "emitJoinedPayload sock r u (Some u) = (effs, k)" and "sock_id sock \<noteq> me"
  shows "(arriving k = [] \<and> inbox me (roomCode r) effs = [tell_joined r u])
    \<or> (arriving k = [u] \<and> inbox me (roomCode r) effs = [])"
  using assms
  by (auto simp: emitJoinedPayload_def Let_def presence_inbox arriving_def split: if_splits)

lemma heard_nothing [simp]: "heard now r' [] s = s\<lparr>rp_room := r'\<rparr>"
  by (simp add: heard_def)

lemma heard_joined:
  "heard now r' [tell_joined r v] s = s\<lparr>rp_room := r', rp_ghosts := filter (\<lambda>g. g \<noteq> userId v) (rp_ghosts s),
     rp_client := onMessage now (tell_joined r v) (rp_client s)\<rparr>"
  by (simp add: heard_def tell_joined_def)

lemma seats_announce:
  assumes "server_ok r" and "seats_shown r (v # arr) ghosts us"
    and "u \<in> set (users r)" and "connected u" and "userId u = userId v" and "displayName u = displayName v"
    and "role u = role v"
  shows "seats_shown r arr (filter (\<lambda>g. g \<noteq> userId v) ghosts) (seatUser (publicUser (v\<lparr>connected := True\<rparr>)) us)"
proof -
  let ?x = "publicUser (v\<lparr>connected := True\<rparr>)" and ?gs = "filter (\<lambda>g. g \<noteq> userId v) ghosts"
  have x: "?x = publicUser u" using assms(4-7) by (simp add: publicUser_def)
  have d: "distinct (map ru_id us)" using assms(2) by (simp add: seats_shown_def)
  have uniq: "w = u" if "w \<in> set (users r)" "userId w = userId u" for w
    using that assms(1,3) by (auto simp: server_ok_def room_wf_def dest: inj_onD [of userId] simp: distinct_map)
  have "set (announced r arr ?gs) \<subseteq> set (seatUser ?x us)"
  proof
    fix y assume "y \<in> set (announced r arr ?gs)"
    then obtain w where w: "y = publicUser w" "w \<in> set (users r)" "userId w \<notin> userId ` set arr" "userId w \<notin> set ?gs"
      by (auto simp: announced_def)
    show "y \<in> set (seatUser ?x us)"
    proof (cases "userId w = userId u")
      case True
      with uniq [OF w(2)] w(1) x show ?thesis by (simp add: seatUser_set [OF d])
    next
      case False
      with w assms(5) have "y \<in> set (announced r (v # arr) ghosts)" by (auto simp: announced_def)
      with assms(2) have "y \<in> set us" by (auto simp: seats_shown_def)
      with False w(1) x show ?thesis by (simp add: seatUser_set [OF d])
    qed
  qed
  moreover have "{y \<in> set (seatUser ?x us). ru_connected y \<and> ru_id y \<notin> set ?gs} \<subseteq> publicUser ` set (users r)"
    using assms(2,3,5) x by (auto simp: seatUser_set [OF d] seats_shown_def)
  ultimately show ?thesis using seatUser_distinct [OF d] by (simp add: seats_shown_def)
qed

text \<open>A member announced after it left becomes a ghost.\<close>

lemma seats_ghost:
  assumes "seats_shown r (v # arr) ghosts us"
  shows "seats_shown r arr (userId v # ghosts) (seatUser (publicUser (v\<lparr>connected := True\<rparr>)) us)"
proof -
  have d: "distinct (map ru_id us)" using assms by (simp add: seats_shown_def)
  have "set (announced r arr (userId v # ghosts)) \<subseteq> {y \<in> set us. ru_id y \<noteq> userId v}"
    using assms by (auto simp: seats_shown_def announced_def)
  then show ?thesis
    using assms seatUser_distinct [OF d] by (auto simp: seats_shown_def seatUser_set [OF d])
qed

lemma same_id_same_user:
  "server_ok r \<Longrightarrow> u \<in> set (users r) \<Longrightarrow> w \<in> set (users r) \<Longrightarrow> userId w = userId u \<Longrightarrow> w = u"
  by (auto simp: server_ok_def room_wf_def distinct_map dest: inj_onD [of userId])

lemma replica_joined:
  assumes ok: "replica_ok s" and server: "server_ok r'" and card: "same_card (rp_room s) r'"
    and arr: "arriving_ok r' (u # rp_arriving s)"
    and seats: "seats_shown r' (u # rp_arriving s) (rp_ghosts s) (rs_users (rp_client s))"
    and round: "same_round (rp_room s) r'" and u: "u \<in> set (users r')" "connected u"
    and out: "emitJoinedPayload sock r' u (Some u) = (effs, k)" and me: "sock_id sock \<noteq> me"
  shows "replica_ok ((deliver now me r' effs s)\<lparr>rp_arriving := arriving k @ rp_arriving s\<rparr>)"
proof -
  let ?c = "rp_client s"
  have shown: "rp_stale s \<or> round_shown r' ?c" "card_shown r' ?c"
    using ok round card_shown_cong [OF card] by (auto simp: replica_ok_def round_shown_def same_round_def)
  have code: "roomCode r' = roomCode (rp_room s)" using card by (simp add: same_card_def)
  have arr': "arriving_ok r' (rp_arriving s)" using arr by (simp add: arriving_ok_def)
  note seats' = seats_announce [OF server seats u refl refl refl]
  from inbox_joined [OF out me] show ?thesis
  proof
    assume "arriving k = [] \<and> inbox me (roomCode r') effs = [tell_joined r' u]"
    then show ?thesis
      using server arr' seats' shown by (simp add: deliver_def code heard_joined replica_ok_def tell_joined_message)
  next
    assume "arriving k = [u] \<and> inbox me (roomCode r') effs = []"
    then show ?thesis
      using server arr seats shown by (simp add: deliver_def code replica_ok_def)
  qed
qed

lemma join_card:
  assumes "joinRateChecked uid tok t sock chk payload r = (r', cleared, effs, k)"
  shows "same_card r r'"
  using assms
  by (auto simp: joinRateChecked_def tryReconnectUser_def reconnectUser_def cancelGracePeriod_def admitNewUser_def addUser_def
      same_card_def Let_def split: if_splits option.splits prod.splits)

lemma arriving_ok_admitted:
  assumes "arriving_ok r arr" and "uid \<notin> userId ` set arr" and "addUser uid tok t nm rl sid r = (r', u)"
  shows "arriving_ok r' arr"
  using assms by (auto simp: arriving_ok_def addUser_def Let_def)

lemma arriving_ok_map:
  assumes "arriving_ok r arr" and "users r' = map f (users r)"
    and "\<And>w. userId (f w) = userId w \<and> displayName (f w) = displayName w \<and> role (f w) = role w"
  shows "arriving_ok r' arr"
  using assms by (auto simp: arriving_ok_def)

lemma replica_admitted:
  assumes ok: "replica_ok s" and fresh: "uid \<notin> userId ` set (users (rp_room s))" "uid \<notin> userId ` set (rp_arriving s)"
    and tok: "RECONNECT_TOKEN_PATTERN tok" and me: "sock_id sock \<noteq> me"
    and res: "admitNewUser uid tok t sock payload (rp_room s) = (r', cleared, effs, k)"
  shows "replica_ok ((deliver now me r' effs s)\<lparr>rp_arriving := arriving k @ rp_arriving s\<rparr>)"
proof (cases "isFull (rp_room s)")
  case True
  with res me ok show ?thesis by (auto simp: admitNewUser_def deliver_def arriving_def)
next
  case False
  let ?r = "rp_room s"
  obtain u where u: "addUser uid tok t (uj_name payload) (determineRole ?r) (sock_id sock) ?r = (r', u)"
      "emitJoinedPayload sock r' u (Some u) = (effs, k)"
    using res False by (auto simp: admitNewUser_def split: prod.splits)
  have r': "r' = ?r\<lparr>users := users ?r @ [u], lastActivityAt := t\<rparr>" and uid: "userId u = uid" "connected u"
    using u(1) by (auto simp: addUser_def Let_def)
  have server: "server_ok r'"
    using admitNewUser_frame [OF res fresh(1) tok] ok by (simp add: seat_frame_def server_ok_def replica_ok_def)
  have "arriving_ok r' (rp_arriving s)"
    using arriving_ok_admitted [OF _ fresh(2) u(1)] ok by (simp add: replica_ok_def)
  moreover have "userId w \<noteq> userId u" if "w \<in> set (users ?r)" for w
    using imageI [OF that, of userId] fresh(1) uid(1) by metis
  ultimately have "arriving_ok r' (u # rp_arriving s)"
    by (auto simp: arriving_ok_def r')
  moreover have "seats_shown r' (u # rp_arriving s) (rp_ghosts s) (rs_users (rp_client s))"
    using ok by (auto simp: seats_shown_def announced_def replica_ok_def r')
  ultimately show ?thesis
    using replica_joined [OF ok server _ _ _ _ _ uid(2) u(2) me] by (simp add: r' same_round_def same_card_def)
qed

lemma replica_reconnected:
  assumes ok: "replica_ok s" and v: "v \<in> set (users (rp_room s))" "\<not> connected v"
    and tok: "RECONNECT_TOKEN_PATTERN tok" and me: "sock_id sock \<noteq> me"
    and res: "reconnectUser tok t (userId v) (sock_id sock) (rp_room s) = Some (r', u, cleared)"
    and out: "emitJoinedPayload sock r' u (Some u) = (effs, k)"
  shows "replica_ok ((deliver now me r' effs s)\<lparr>rp_arriving := arriving k @ rp_arriving s\<rparr>)"
proof -
  let ?r = "rp_room s" and ?arr = "rp_arriving s" and ?gs = "rp_ghosts s"
  let ?again = "\<lambda>w. if userId w = userId v
      then w\<lparr>connected := True, socketId := Some (sock_id sock), reconnectToken := tok\<rparr> else w"
  have sok: "server_ok ?r" and arr: "arriving_ok ?r ?arr" and seats: "seats_shown ?r ?arr ?gs (rs_users (rp_client s))"
    using ok by (simp_all add: replica_ok_def)
  have server: "server_ok r'"
    using reconnectUser_frame [OF res tok] sok by (simp add: seat_frame_def server_ok_def)
  have us: "users r' = map ?again (users ?r)"
    using reconnectUser_users [OF _ res] sok by (simp add: server_ok_def)
  have same: "same_round ?r r'" "same_card ?r r'"
    using res by (auto simp: reconnectUser_def cancelGracePeriod_def same_round_def same_card_def Let_def split: option.splits)
  have u: "u \<in> set (users r')" "connected u" "userId u = userId v"
  proof -
    have "findUser (userId v) ?r = Some v"
      using find_distinct_key [of userId "users ?r" v] v(1) sok by (simp add: findUser_def server_ok_def room_wfD(1))
    then have "u = ?again v" using res by (auto simp: reconnectUser_def Let_def split: prod.splits)
    then show "u \<in> set (users r')" "connected u" "userId u = userId v" using v(1) us by auto
  qed
  have other: "userId w \<noteq> userId v" if "w \<in> set (users ?r)" "connected w" for w
    using same_id_same_user [OF sok v(1) that(1)] that(2) v(2) by auto
  have "arriving_ok r' ?arr" by (rule arriving_ok_map [OF arr us]) simp
  then have "arriving_ok r' (u # ?arr)"
    using same_id_same_user [OF server u(1)] by (auto simp: arriving_ok_def)
  moreover have "seats_shown r' (u # ?arr) ?gs (rs_users (rp_client s))"
  proof -
    have "set (announced r' (u # ?arr) ?gs) \<subseteq> set (announced ?r ?arr ?gs)"
      using u(3) by (auto simp: announced_def us)
    moreover have "publicUser ` {w \<in> set (users ?r). connected w} \<subseteq> publicUser ` set (users r')"
      using other by (force simp: us)
    moreover have "{x \<in> set (rs_users (rp_client s)). ru_connected x \<and> ru_id x \<notin> set ?gs}
        \<subseteq> publicUser ` {w \<in> set (users ?r). connected w}"
      using seats by (auto simp: seats_shown_def)
    ultimately show ?thesis using seats by (auto simp: seats_shown_def)
  qed
  ultimately show ?thesis
    using replica_joined [OF ok server same(2) _ _ same(1) u(1,2) out me] by blast
qed

lemma replica_join:
  assumes "replica_ok s" and "uid \<notin> userId ` set (users (rp_room s))" and "uid \<notin> userId ` set (rp_arriving s)"
    and "RECONNECT_TOKEN_PATTERN tok" and "sock_id sock \<noteq> me"
    and res: "joinRateChecked uid tok t sock chk payload (rp_room s) = (r', cleared, effs, k)"
  shows "replica_ok ((deliver now me r' effs s)\<lparr>rp_arriving := arriving k @ rp_arriving s\<rparr>)"
proof -
  consider (limited) "\<not> allowed chk"
    | (returning) token u where "tryReconnectUser tok t sock token (rp_room s) = Some (r', u, cleared)"
        "emitJoinedPayload sock r' u (Some u) = (effs, k)"
    | (new) "admitNewUser uid tok t sock payload (rp_room s) = (r', cleared, effs, k)"
    using res by (auto simp: joinRateChecked_def Let_def split: if_splits option.splits prod.splits)
  then show ?thesis
  proof cases
    case limited
    with res assms(1,5) show ?thesis
      by (auto simp: joinRateChecked_def emitJoinRejected_def deliver_def arriving_def)
  next
    case returning
    obtain v where v: "findByReconnectToken token (rp_room s) = Some v"
        "reconnectUser tok t (userId v) (sock_id sock) (rp_room s) = Some (r', u, cleared)"
      using returning(1) by (elim tryReconnectUser_cases)
    then have "v \<in> set (users (rp_room s))" "\<not> connected v"
      by (auto simp: findByReconnectToken_def dest: find_Some_mem)
    from replica_reconnected [OF assms(1) this assms(4,5) v(2) returning(2)] show ?thesis .
  next
    case new
    from replica_admitted [OF assms(1-5) new] show ?thesis .
  qed
qed

text \<open>This member's own join, a second one on its socket, ends in a sync.\<close>

definition awaits_hydration :: "join_k option \<Rightarrow> nat" where
  "awaits_hydration k = (case k of Some (AwaitHydration p) \<Rightarrow> 1 | _ \<Rightarrow> 0)"

lemma replica_own_payload:
  assumes "server_ok r'" and "arriving_ok r' (rp_arriving s)" and "roomCode r' = roomCode (rp_room s)"
    and out: "emitJoinedPayload sock r' u p = (effs, k)" and me: "sock_id sock = me"
  shows "replica_ok ((deliver now me r' effs s)\<lparr>rp_hydrating := n\<rparr>)"
proof -
  let ?m = "UserJoined \<lparr>uj_userId = userId u, uj_displayName = displayName u, uj_role = role u,
         uj_mode = mode r', uj_reconnectToken = reconnectToken u, uj_yjsToken = yjsToken r'\<rparr>"
  have "inbox me (roomCode r') effs = [?m, RoomSync (toSyncPayload r')]"
    using out me by (auto simp: emitJoinedPayload_def emitPresenceBroadcast_def Let_def split: if_splits option.splits)
  then have "deliver now me r' effs s = s\<lparr>rp_room := r', rp_ghosts := [], rp_stale := False,
      rp_client := onMessage now (RoomSync (toSyncPayload r')) (onMessage now ?m (rp_client s))\<rparr>"
    using assms(3) by (simp add: deliver_def heard_def)
  then show ?thesis
    using assms(1,2) seats_shown_sync [of r' "rp_arriving s" "[]"] by (simp add: replica_ok_def sync_view server_ok_def)
qed

lemma replica_hydrating [simp]: "replica_ok (s\<lparr>rp_hydrating := n\<rparr>) = replica_ok s"
  by (simp add: replica_ok_def)

lemma join_rejected_quiet [simp]: "list_all eff_quiet (emitJoinRejected sock msg retry)"
  by (simp add: emitJoinRejected_def)

lemma replica_join_again:
  assumes ok: "replica_ok s" and fresh: "uid \<notin> userId ` set (users (rp_room s))" "uid \<notin> userId ` set (rp_arriving s)"
    and tok: "RECONNECT_TOKEN_PATTERN tok" and me: "sock_id sock = me"
    and res: "joinRateChecked uid tok t sock chk payload (rp_room s) = (r', cleared, effs, k)"
  shows "replica_ok ((deliver now me r' effs s)\<lparr>rp_hydrating := n\<rparr>)"
proof -
  have server: "server_ok r'"
    using joinRateChecked_frame [OF res fresh(1) tok] ok by (simp add: seat_frame_def server_ok_def replica_ok_def)
  have code: "roomCode r' = roomCode (rp_room s)" using join_card [OF res] by (simp add: same_card_def)
  have arr: "arriving_ok (rp_room s) (rp_arriving s)" and sok: "server_ok (rp_room s)" using ok by (simp_all add: replica_ok_def)
  consider (quiet) "r' = rp_room s" "list_all eff_quiet effs"
    | (returning) token u where "tryReconnectUser tok t sock token (rp_room s) = Some (r', u, cleared)"
        "emitJoinedPayload sock r' u (Some u) = (effs, k)"
    | (new) u where "addUser uid tok t (uj_name payload) (determineRole (rp_room s)) (sock_id sock) (rp_room s) = (r', u)"
        "emitJoinedPayload sock r' u (Some u) = (effs, k)"
    using res by (auto simp: joinRateChecked_def admitNewUser_def Let_def split: if_splits option.splits prod.splits)
  then show ?thesis
  proof cases
    case quiet
    then show ?thesis using replica_quiet [OF ok] by simp
  next
    case returning
    obtain v :: room_user_internal where v: "reconnectUser tok t (userId v) (sock_id sock) (rp_room s) = Some (r', u, cleared)"
      using returning(1) by (elim tryReconnectUser_cases)
    have "users r' = map (\<lambda>w. if userId w = userId v
        then w\<lparr>connected := True, socketId := Some (sock_id sock), reconnectToken := tok\<rparr> else w) (users (rp_room s))"
      using reconnectUser_users [OF _ v] sok by (simp add: server_ok_def)
    from arriving_ok_map [OF arr this] have "arriving_ok r' (rp_arriving s)" by simp
    from replica_own_payload [OF server this code returning(2) me] show ?thesis .
  next
    case new
    from replica_own_payload [OF server arriving_ok_admitted [OF arr fresh(2) new(1)] code new(2) me] show ?thesis .
  qed
qed

lemma replica_join_start:
  assumes ok: "replica_ok s" and room: "lookup (getSocketRoomCode sock) = Some (rp_room s)"
    and res: "handleUserJoin sock lookup data = (effs, k)"
  shows "replica_ok ((deliver now me (rp_room s) effs s)\<lparr>rp_hydrating := n\<rparr>)"
proof -
  have q: ?thesis if "list_all eff_quiet effs" using replica_quiet [OF ok _ _ _ that, of "rp_room s"] by simp
  have own: ?thesis if "emitJoinedPayload sock (rp_room s) u None = (effs, k)" for u
  proof (cases "sock_id sock = me")
    case True
    from replica_own_payload [OF _ _ refl that True] ok show ?thesis by (simp add: replica_ok_def)
  next
    case False
    then have "inbox me (roomCode (rp_room s)) effs = []"
      using that by (auto simp: emitJoinedPayload_def Let_def split: if_splits)
    with ok show ?thesis by (simp add: deliver_def)
  qed
  show ?thesis
  proof (cases "validatePayloadOrReject userJoinSchema data (Some ''Invalid join payload.'') (\<lambda>msg. emitJoinRejected sock msg None)")
    case (Inl es)
    with res have "effs = es" by (simp add: handleUserJoin_def)
    moreover have "list_all eff_quiet es"
      using Inl by (auto simp: validatePayloadOrReject_def split: option.splits)
    ultimately show ?thesis using q by simp
  next
    case (Inr payload)
    show ?thesis
    proof (cases "findBySocketId (sock_id sock) (rp_room s)")
      case None
      with Inr res room have "effs = []" by (simp add: handleUserJoin_def)
      then show ?thesis using q by simp
    next
      case (Some u)
      with Inr res room have "emitJoinedPayload sock (rp_room s) u None = (effs, k)" by (simp add: handleUserJoin_def)
      then show ?thesis by (rule own)
    qed
  qed
qed

definition is_connected :: "string \<Rightarrow> room \<Rightarrow> bool" where
  "is_connected uid r = list_ex (\<lambda>u. userId u = uid \<and> connected u) (users r)"

lemma replica_arrived:
  assumes ok: "replica_ok s" and arr: "rp_arriving s = xs @ v # ys" and me: "sock_id sock \<noteq> me"
  shows "replica_ok ((deliver now me (rp_room s) (emitRoomHydration sock (rp_room s) (Some v) answer) s)
    \<lparr>rp_arriving := xs @ ys, rp_ghosts := (if is_connected (userId v) (rp_room s)
       then filter (\<lambda>g. g \<noteq> userId v) (rp_ghosts s) else userId v # rp_ghosts s)\<rparr>)"
proof -
  let ?r = "rp_room s" and ?c = "rp_client s" and ?gs = "rp_ghosts s"
  have "inbox me (roomCode ?r) (emitRoomHydration sock ?r (Some v) answer) = [tell_joined ?r v]"
    using me by (simp add: emitRoomHydration_def presence_inbox split: sum.split option.split)
  then have del: "deliver now me ?r (emitRoomHydration sock ?r (Some v) answer) s
      = s\<lparr>rp_ghosts := filter (\<lambda>g. g \<noteq> userId v) ?gs, rp_client := onMessage now (tell_joined ?r v) ?c\<rparr>"
    by (simp add: deliver_def heard_joined)
  have a: "arriving_ok ?r (xs @ ys)" "arriving_ok ?r (xs @ v # ys)"
    using ok by (auto simp: replica_ok_def arriving_ok_def arr)
  have sh: "seats_shown ?r (v # xs @ ys) ?gs (rs_users ?c)"
    using ok by (auto simp: replica_ok_def arr seats_shown_def announced_def)
  have sok: "server_ok ?r" using ok by (simp add: replica_ok_def)
  show ?thesis
  proof (cases "is_connected (userId v) ?r")
    case True
    then obtain u where u: "u \<in> set (users ?r)" "connected u" "userId u = userId v"
      by (auto simp: is_connected_def list_ex_iff)
    with a(2) have "displayName u = displayName v" "role u = role v" by (auto simp: arriving_ok_def)
    from seats_announce [OF sok sh u this] ok a(1) True show ?thesis
      by (simp add: replica_ok_def del tell_joined_message)
  next
    case False
    with seats_ghost [OF sh] ok a(1) show ?thesis by (simp add: replica_ok_def del tell_joined_message)
  qed
qed

lemma replica_hydrated:
  assumes ok: "replica_ok s" and me: "sock_id sock = me"
  shows "replica_ok ((deliver now me (rp_room s) (emitRoomHydration sock (rp_room s) presence answer) s)
    \<lparr>rp_hydrating := n, rp_stale := stale_after answer (rp_room s) (rp_stale s)\<rparr>)"
proof -
  let ?r = "rp_room s" and ?c = "rp_client s"
  have presence: "inbox me (roomCode ?r) (case presence of None \<Rightarrow> [] | Some v \<Rightarrow> emitPresenceBroadcast sock ?r v) = []"
    using me by (simp add: emitPresenceBroadcast_def split: option.split)
  show ?thesis
  proof (cases "\<exists>d. answer = Inr (Some d)")
    case True
    then obtain d where d: "answer = Inr (Some d)" by blast
    then have del: "deliver now me ?r (emitRoomHydration sock ?r presence answer) s
        = s\<lparr>rp_stale := False, rp_client := onMessage now (ProblemLoaded (loadedPayload d)) ?c\<rparr>"
      using me presence by (simp add: emitRoomHydration_def deliver_def heard_def)
    have "rs_users (onMessage now (ProblemLoaded (loadedPayload d)) ?c) = rs_users ?c"
      "card_shown ?r (onMessage now (ProblemLoaded (loadedPayload d)) ?c) = card_shown ?r ?c"
      "fresh_round d ?r \<Longrightarrow> round_shown ?r (onMessage now (ProblemLoaded (loadedPayload d)) ?c)"
      by (simp_all add: onMessage_def card_shown_def round_shown_def fresh_round_def loadedPayload_def)
    with ok show ?thesis by (auto simp: replica_ok_def del [unfolded d] d stale_after_def)
  next
    case False
    then have "emitRoomHydration sock ?r presence answer = (case presence of None \<Rightarrow> [] | Some v \<Rightarrow> emitPresenceBroadcast sock ?r v)"
      and "stale_after answer ?r (rp_stale s) = rp_stale s"
      by (auto simp: emitRoomHydration_def stale_after_def split: sum.splits option.splits)
    with presence ok show ?thesis by (simp add: deliver_def)
  qed
qed

lemma replica_leave:
  assumes ok: "replica_ok s" and me: "sock_id sock \<noteq> me"
    and room: "lookup (the (sock_roomCode sock)) = Some (rp_room s)"
    and res: "handleDisconnect sock lookup timer = Some (r', uid, effs)"
  shows "replica_ok (deliver now me r' effs s)"
proof -
  let ?r = "rp_room s" and ?arr = "rp_arriving s" and ?gs = "rp_ghosts s" and ?c = "rp_client s"
  let ?out = "\<lambda>w. if userId w = uid then w\<lparr>connected := False, socketId := None\<rparr> else w"
  have sok: "server_ok ?r" and arr: "arriving_ok ?r ?arr" and seats: "seats_shown ?r ?arr ?gs (rs_users ?c)"
    using ok by (simp_all add: replica_ok_def)
  obtain user where user: "findBySocketId (sock_id sock) ?r = Some user" "uid = userId user"
    and r': "r' = startGracePeriod uid timer (?r\<lparr>users := update_first
        (\<lambda>u. socketId u = Some (sock_id sock) \<and> connected u)
        (\<lambda>u. u\<lparr>connected := False, socketId := None\<rparr>) (users ?r)\<rparr>)"
    and effs: "effs = [ToOthers (sock_id sock) (roomCode ?r) (UserLeft uid)]"
    using res room by (elim handleDisconnect_result) auto
  have us: "users r' = map ?out (users ?r)"
    using handleDisconnect_users [OF _ user(1)] sok
    by (simp add: r' startGracePeriod_def user(2) server_ok_def)
  have server: "server_ok r'"
    using handleDisconnect_frame [OF res room] sok by (simp add: seat_frame_def server_ok_def)
  have del: "deliver now me r' effs s = s\<lparr>rp_room := r', rp_client := onMessage now (UserLeft uid) ?c\<rparr>"
    using me by (simp add: effs deliver_def heard_def)
  have "arriving_ok r' ?arr" by (rule arriving_ok_map [OF arr us]) simp
  moreover have "seats_shown r' ?arr ?gs (markLeft uid (rs_users ?c))"
  proof -
    have pub: "publicUser (?out w) = (if ru_id (publicUser w) = uid then (publicUser w)\<lparr>ru_connected := False\<rparr> else publicUser w)" for w
      by (simp add: publicUser_def)
    have "set (announced r' ?arr ?gs) \<subseteq> set (markLeft uid (rs_users ?c))"
    proof
      fix y assume "y \<in> set (announced r' ?arr ?gs)"
      then obtain w where w: "w \<in> set (users ?r)" "y = publicUser (?out w)" "userId (?out w) \<notin> userId ` set ?arr"
          "userId (?out w) \<notin> set ?gs"
        unfolding announced_def us by auto
      then have "userId w \<notin> userId ` set ?arr" "userId w \<notin> set ?gs" by (cases "userId w = uid"; simp)+
      with w(1) have "publicUser w \<in> set (announced ?r ?arr ?gs)" by (simp add: announced_def)
      with seats have "publicUser w \<in> set (rs_users ?c)" by (auto simp: seats_shown_def)
      then show "y \<in> set (markLeft uid (rs_users ?c))" unfolding w(2) pub markLeft_def by auto
    qed
    moreover have "{x \<in> set (markLeft uid (rs_users ?c)). ru_connected x \<and> ru_id x \<notin> set ?gs} \<subseteq> publicUser ` set (users r')"
    proof
      fix x assume "x \<in> {x \<in> set (markLeft uid (rs_users ?c)). ru_connected x \<and> ru_id x \<notin> set ?gs}"
      then obtain w0 where w0: "w0 \<in> set (rs_users ?c)"
          "x = (if ru_id w0 = uid then w0\<lparr>ru_connected := False\<rparr> else w0)" "ru_connected x" "ru_id x \<notin> set ?gs"
        unfolding markLeft_def set_map by blast
      have x: "x \<in> set (rs_users ?c)" "ru_connected x" "ru_id x \<noteq> uid"
        using w0 by (cases "ru_id w0 = uid"; simp)+
      with seats w0(4) obtain w where "w \<in> set (users ?r)" "x = publicUser w" by (auto simp: seats_shown_def)
      with x(3) have "w \<in> set (users r')" "x = publicUser w" by (force simp: us)+
      then show "x \<in> publicUser ` set (users r')" by blast
    qed
    ultimately show ?thesis using seats by (simp add: seats_shown_def)
  qed
  moreover have "same_round ?r r'" "same_card ?r r'" by (simp_all add: r' startGracePeriod_def same_round_def same_card_def)
  moreover have "rs_users (onMessage now (UserLeft uid) ?c) = markLeft uid (rs_users ?c)"
    "card_shown r' (onMessage now (UserLeft uid) ?c) = card_shown r' ?c" "round_shown r' (onMessage now (UserLeft uid) ?c) = round_shown r' ?c"
    by (simp_all add: onMessage_def card_shown_def round_shown_def)
  ultimately show ?thesis
    using server ok card_shown_cong [of ?r r'] by (auto simp: replica_ok_def del) (simp_all add: round_shown_def same_round_def)
qed

lemma replica_grace:
  assumes ok: "replica_ok s" and res: "graceExpired tok uid (rp_room s) = Removed r' effs"
  shows "replica_ok (deliver now me r' effs s)"
proof -
  let ?r = "rp_room s" and ?arr = "rp_arriving s" and ?gs = "rp_ghosts s" and ?c = "rp_client s"
  have sok: "server_ok ?r" and arr: "arriving_ok ?r ?arr" and seats: "seats_shown ?r ?arr ?gs (rs_users ?c)"
    using ok by (simp_all add: replica_ok_def)
  obtain gone where gone: "findUser uid ?r = Some gone" "\<not> connected gone"
    and r': "users r' = filter (\<lambda>u. userId u \<noteq> uid) (users ?r)" "same_round ?r r'" "same_card ?r r'"
    and effs: "list_all eff_quiet effs"
    using res by (auto simp: graceExpired_def removeDisconnectedUser_def gracePeriodFired_def findUser_def
      removeUser_def rotateYjsToken_def same_round_def same_card_def Let_def split: option.splits if_splits)
  have server: "server_ok r'"
    using graceExpired_frame [where tok = tok and uid = uid and r = ?r] res sok by (simp add: seat_frame_def server_ok_def)
  have g: "gone \<in> set (users ?r)" "userId gone = uid"
    using gone(1) by (auto simp: findUser_def dest: find_Some_mem)
  have other: "userId w \<noteq> uid" if "w \<in> set (users ?r)" "connected w" for w
    using same_id_same_user [OF sok g(1) that(1)] that(2) gone(2) g(2) by auto
  note c = quiet_receive [OF effs, of ?c now me "roomCode ?r"]
  have "arriving_ok r' ?arr"
    using arr unfolding arriving_ok_def r'(1) by auto
  moreover have "seats_shown r' ?arr ?gs (rs_users ?c)"
  proof -
    have "set (announced r' ?arr ?gs) \<subseteq> set (announced ?r ?arr ?gs)" by (auto simp: announced_def r'(1))
    moreover have "{x \<in> set (rs_users ?c). ru_connected x \<and> ru_id x \<notin> set ?gs} \<subseteq> publicUser ` set (users r')"
    proof
      fix x assume x: "x \<in> {x \<in> set (rs_users ?c). ru_connected x \<and> ru_id x \<notin> set ?gs}"
      with seats obtain w where w: "w \<in> set (users ?r)" "x = publicUser w" by (auto simp: seats_shown_def)
      with x other [of w] show "x \<in> publicUser ` set (users r')" by (auto simp: r'(1))
    qed
    ultimately show ?thesis using seats by (auto simp: seats_shown_def)
  qed
  ultimately show ?thesis
    using server ok same_view_shown [OF c] card_shown_cong [OF r'(3)] r'(2)
    by (auto simp: deliver_quiet [OF effs] replica_ok_def) (simp_all add: round_shown_def same_round_def)
qed

lemma replica_grace_kept:
  assumes ok: "replica_ok s" and res: "graceExpired tok uid (rp_room s) = Kept r'"
  shows "replica_ok (s\<lparr>rp_room := r'\<rparr>)"
proof -
  have r': "r' = gracePeriodFired uid (rp_room s)"
    using res by (auto simp: graceExpired_def removeDisconnectedUser_def Let_def split: option.splits if_splits)
  have "server_ok r'"
    using graceExpired_frame [where tok = tok and uid = uid and r = "rp_room s"] res ok by (simp add: seat_frame_def server_ok_def replica_ok_def)
  with ok show ?thesis
    by (simp add: replica_ok_def r' gracePeriodFired_def arriving_ok_def seats_shown_def announced_def round_shown_def card_shown_def)
qed

section \<open>Segments that only send\<close>

text \<open>The segments that send without changing the room.\<close>

inductive sends :: "environment \<Rightarrow> room \<Rightarrow> eff list \<Rightarrow> bool" for env r where
  rejected: "sends env r (auth_effects sock ev d)"
| select: "handleProblemSelect (env_is_uuid env) ps data = (effs, k) \<Longrightarrow> sends env r effs"
| import_start: "validateProblemImport (env_parse_url env) (env_problem env) ps data = (effs, k) \<Longrightarrow> sends env r effs"
| import_limit: "importLimitChecked ps url chk r = (effs, k) \<Longrightarrow> sends env r effs"
| import_quota: "importQuotaChecked (env_problem env) ps url can = (effs, k) \<Longrightarrow> sends env r effs"
| import_slot: "importSlotAnswered ps url a = (effs, k) \<Longrightarrow> sends env r effs"
| import_reserve: "importReserved ps url b = (effs, k) \<Longrightarrow> sends env r effs"
| scrape: "scraped ps c = (effs, k) \<Longrightarrow> sends env r effs"
| test_start: "testcaseAdd (env_stringify env) sock data r = (effs, tk) \<Longrightarrow> sends env r effs"
| reveal: "solutionReveal sock r = (effs, sk) \<Longrightarrow> sends env r effs"
| revealed: "sends env r (solutionLoaded sock (roomCode r) p)"

lemma rejected_payload_quiet:
  assumes "validatePayloadOrReject schema data msg emit = Inl effs" and "\<And>m. list_all eff_quiet (emit m)"
  shows "list_all eff_quiet effs"
  using assms by (auto simp: validatePayloadOrReject_def split: option.splits)

lemma scoped_quiet [simp]:
  "list_all eff_quiet (emitProblemLoadError ps msg)"
  "list_all eff_quiet (emitTestcaseError sock msg)"
  "list_all eff_quiet (emitSolutionError sock msg)"
  by (simp_all add: emitProblemLoadError_def emitTestcaseError_def emitSolutionError_def emitScopedEvent_def)

lemma sends_quiet: "sends env r effs \<Longrightarrow> list_all eff_quiet effs"
proof (induction rule: sends.induct)
  case (rejected sock ev d)
  then show ?case by (simp add: auth_effects_def split: auth_decision.split)
next
  case (select ps data effs k)
  then show ?case by (auto simp: handleProblemSelect_def dest: rejected_payload_quiet split: sum.splits)
next
  case (import_start ps data effs k)
  then show ?case by (auto simp: validateProblemImport_def dest: rejected_payload_quiet split: sum.splits if_splits)
next
  case (test_start sock data effs k)
  then show ?case
    by (auto simp: testcaseAdd_def Let_def dest: rejected_payload_quiet split: sum.splits if_splits)
qed (auto simp: importLimitChecked_def importQuotaChecked_def importSlotAnswered_def importReserved_def scraped_def
      solutionReveal_def solutionLoaded_def split: sum.splits option.splits if_splits)

section \<open>Steps\<close>

text \<open>
  What happens around the member on socket \<open>me\<close> while it stays: every segment of the handlers of
  both members, whoever's socket starts it, the timers, and the departure of the other member. A
  segment that leaves the room alone still sends; those are the last rules. The run ends with the
  member's own departure or with the room.
\<close>

inductive replica_step :: "environment \<Rightarrow> string \<Rightarrow> replica \<Rightarrow> replica \<Rightarrow> bool" for env me where
  joins: "uid \<notin> userId ` set (users (rp_room s)) \<Longrightarrow> uid \<notin> userId ` set (rp_arriving s) \<Longrightarrow>
    RECONNECT_TOKEN_PATTERN tok \<Longrightarrow> sock_id sock \<noteq> me \<Longrightarrow>
    joinRateChecked uid tok t sock chk payload (rp_room s) = (r', cleared, effs, k) \<Longrightarrow>
    replica_step env me s ((deliver now me r' effs s)\<lparr>rp_arriving := arriving k @ rp_arriving s\<rparr>)"
| joins_again: "uid \<notin> userId ` set (users (rp_room s)) \<Longrightarrow> uid \<notin> userId ` set (rp_arriving s) \<Longrightarrow>
    RECONNECT_TOKEN_PATTERN tok \<Longrightarrow> sock_id sock = me \<Longrightarrow>
    joinRateChecked uid tok t sock chk payload (rp_room s) = (r', cleared, effs, k) \<Longrightarrow>
    replica_step env me s ((deliver now me r' effs s)\<lparr>rp_hydrating := rp_hydrating s + awaits_hydration k\<rparr>)"
| join_starts: "lookup (getSocketRoomCode sock) = Some (rp_room s) \<Longrightarrow>
    handleUserJoin sock lookup data = (effs, k) \<Longrightarrow>
    replica_step env me s ((deliver now me (rp_room s) effs s)
      \<lparr>rp_hydrating := (if sock_id sock = me then rp_hydrating s + awaits_hydration k else rp_hydrating s)\<rparr>)"
| arrives: "rp_arriving s = xs @ v # ys \<Longrightarrow> sock_id sock \<noteq> me \<Longrightarrow>
    replica_step env me s ((deliver now me (rp_room s) (emitRoomHydration sock (rp_room s) (Some v) answer) s)
      \<lparr>rp_arriving := xs @ ys, rp_ghosts := (if is_connected (userId v) (rp_room s)
         then filter (\<lambda>g. g \<noteq> userId v) (rp_ghosts s) else userId v # rp_ghosts s)\<rparr>)"
| hydrates: "rp_hydrating s = Suc n \<Longrightarrow> sock_id sock = me \<Longrightarrow>
    replica_step env me s ((deliver now me (rp_room s) (emitRoomHydration sock (rp_room s) presence answer) s)
      \<lparr>rp_hydrating := n, rp_stale := stale_after answer (rp_room s) (rp_stale s)\<rparr>)"
| other_hydrates: "sock_id sock \<noteq> me \<Longrightarrow>
    replica_step env me s (deliver now me (rp_room s) (emitRoomHydration sock (rp_room s) None answer) s)"
| leaves: "sock_id sock \<noteq> me \<Longrightarrow> lookup (the (sock_roomCode sock)) = Some (rp_room s) \<Longrightarrow>
    handleDisconnect sock lookup timer = Some (r', uid, effs) \<Longrightarrow>
    replica_step env me s (deliver now me r' effs s)"
| removed: "graceExpired tok uid (rp_room s) = Removed r' effs \<Longrightarrow> replica_step env me s (deliver now me r' effs s)"
| kept: "graceExpired tok uid (rp_room s) = Kept r' \<Longrightarrow> replica_step env me s (s\<lparr>rp_room := r'\<rparr>)"
| executes: "handleExecution (env_exec env) sess doc t (rp_room s) = (r', effs, ek) \<Longrightarrow>
    replica_step env me s (deliver now me r' effs s)"
| execution_resumes: "resume_exec env sess doc t k ans (rp_room s) = Some (r', effs, k') \<Longrightarrow>
    replica_step env me s (deliver now me r' effs s)"
| asks_hint: "hs_roomCode hs = roomCode (rp_room s) \<Longrightarrow>
    handleHintRequest hs cooldown t lst timer (rp_room s) c = (r', c', lst', effs, hk) \<Longrightarrow>
    replica_step env me s (deliver now me r' effs s)"
| approves: "hs_roomCode hs = roomCode (rp_room s) \<Longrightarrow>
    handleHintApprove hs (rp_room s) c = (r', c', effs, hk) \<Longrightarrow>
    replica_step env me s (deliver now me r' effs s)"
| denies: "hs_roomCode hs = roomCode (rp_room s) \<Longrightarrow>
    handleHintDeny hs (rp_room s) c = (r', c', effs) \<Longrightarrow>
    replica_step env me s (deliver now me r' effs s)"
| consent_expires: "hs_roomCode hs = roomCode (rp_room s) \<Longrightarrow>
    consentTimedOut hs (rp_room s) = (r', c', effs) \<Longrightarrow>
    replica_step env me s (deliver now me r' effs s)"
| requester_gone: "hs_roomCode hs = roomCode (rp_room s) \<Longrightarrow>
    handleRequesterDisconnect hs (rp_room s) c = (r', c', effs) \<Longrightarrow>
    replica_step env me s (deliver now me r' effs s)"
| hint_resumes: "hs_roomCode hs = roomCode (rp_room s) \<Longrightarrow>
    resume_hint env hs doc hk hans (rp_room s) = Some (r', effs, hk') \<Longrightarrow>
    replica_step env me s (deliver now me r' effs s)"
| selects: "ps_roomCode ps = roomCode (rp_room s) \<Longrightarrow>
    detailLoaded ps t detail doc (rp_room s) = (r', doc', effs) \<Longrightarrow>
    replica_step env me s (deliver now me r' effs s)"
| imports_problem: "ps_roomCode ps = roomCode (rp_room s) \<Longrightarrow>
    importedLoaded (env_problem env) ps t detail doc (rp_room s) = (r', doc', effs, gen) \<Longrightarrow>
    replica_step env me s (deliver now me r' effs s)"
| adds_test: "boilerplateLoaded sock (roomCode (rp_room s)) t tpayload tans (rp_room s) = (r', effs) \<Longrightarrow>
    replica_step env me s (deliver now me r' effs s)"
| answers: "sends env (rp_room s) effs \<Longrightarrow> replica_step env me s (deliver now me (rp_room s) effs s)"

lemma execution_seats:
  "handleExecution deps sess doc t r = (r', effs, k) \<Longrightarrow> same_seats r r'"
  "resume_exec env sess doc t ek ans r = Some (r', effs, k') \<Longrightarrow> same_seats r r'"
  by (simp add: starts_frames [OF handleExecution_starts])
    (metis resume_exec_shape starts_frames continues_frames)

lemma starts_card: "starts r r' k \<Longrightarrow> same_card r r'"
  by (auto simp: starts_def finish_execution_def same_card_def split: option.splits)

lemma continues_card: "continues k r r' k' \<Longrightarrow> same_card r r'"
  by (auto simp: continues_def finish_execution_def same_card_def split: option.splits)

lemma execution_card:
  "handleExecution deps sess doc t r = (r', effs, k) \<Longrightarrow> same_card r r'"
  "resume_exec env sess doc t ek ans r = Some (r', effs, k') \<Longrightarrow> same_card r r'"
  by (simp add: starts_card [OF handleExecution_starts])
    (metis resume_exec_shape starts_card continues_card)

text \<open>Hints leave the members and the execution alone.\<close>

lemma hint_keeps:
  "handleHintRequest sess cd now lst t r c = (r', c', lst', effs, k) \<Longrightarrow> same_seats r r' \<and> same_card r r'"
  "handleHintApprove sess r c = (r', c', effs, k2) \<Longrightarrow> same_seats r r' \<and> same_card r r'"
  "handleHintDeny sess r c = (r', c', effs) \<Longrightarrow> same_seats r r' \<and> same_card r r'"
  "consentTimedOut sess r = (r', c', effs) \<Longrightarrow> same_seats r r' \<and> same_card r r'"
  "handleRequesterDisconnect sess r c = (r', c', effs) \<Longrightarrow> same_seats r r' \<and> same_card r r'"
  "resume_hint env sess doc hk ans r = Some (r', effs, hk') \<Longrightarrow> same_seats r r' \<and> same_card r r'"
  using handleHintRequest_frame [of sess cd now lst t r c r' c' lst' effs k]
    handleHintApprove_frame [of sess r c r' c' effs k2] handleHintDeny_frame [of sess r c r' c' effs]
    consentTimedOut_frame [of sess r r' c' effs] handleRequesterDisconnect_frame [of sess r c r' c' effs]
    resume_hint_shape [of env sess doc hk ans r r' effs hk']
  by (auto simp: hint_frame_def intro: same_cardI)

lemma replica_step_ok:
  assumes "replica_step env me s s'" and ok: "replica_ok s"
  shows "replica_ok s'"
  using assms(1)
proof cases
  case (joins uid tok sock t chk payload r' cleared effs k now)
  from replica_join [OF ok joins(2-6)] show ?thesis unfolding joins(1) .
next
  case (joins_again uid tok sock t chk payload r' cleared effs k now)
  from replica_join_again [OF ok joins_again(2-6)] show ?thesis unfolding joins_again(1) .
next
  case (join_starts lookup sock data effs k now)
  from replica_join_start [OF ok join_starts(2,3)] show ?thesis unfolding join_starts(1) .
next
  case (arrives xs v ys sock now answer)
  from replica_arrived [OF ok arrives(2,3)] show ?thesis unfolding arrives(1) .
next
  case (hydrates n sock now presence answer)
  from replica_hydrated [OF ok hydrates(3)] show ?thesis unfolding hydrates(1) .
next
  case (other_hydrates sock now answer)
  then have "inbox me (roomCode (rp_room s)) (emitRoomHydration sock (rp_room s) None answer) = []"
    by (simp add: emitRoomHydration_def split: sum.split option.split)
  with ok show ?thesis by (simp add: other_hydrates(1) deliver_def)
next
  case (leaves sock lookup timer r' uid effs now)
  from replica_leave [OF ok leaves(2-4)] show ?thesis unfolding leaves(1) .
next
  case (removed tok uid r' effs now)
  from replica_grace [OF ok removed(2)] show ?thesis unfolding removed(1) .
next
  case (kept tok uid r')
  from replica_grace_kept [OF ok kept(2)] show ?thesis unfolding kept(1) .
next
  case (executes sess doc t r' effs ek now)
  from replica_quiet [OF ok execution_seats(1) [OF executes(2)] execution_card(1) [OF executes(2)]]
    handleExecution_quiet [OF executes(2)]
  show ?thesis unfolding executes(1) by blast
next
  case (execution_resumes sess doc t k ans r' effs k' now)
  from replica_quiet [OF ok execution_seats(2) [OF execution_resumes(2)] execution_card(2) [OF execution_resumes(2)]]
    resume_exec_quiet [OF execution_resumes(2)]
  show ?thesis unfolding execution_resumes(1) by blast
next
  case (asks_hint hs cooldown t lst timer c r' c' lst' effs hk now)
  from replica_hint [OF ok] hint_keeps(1) [OF asks_hint(3)] handleHintRequest_told [OF asks_hint(3)]
  show ?thesis unfolding asks_hint(1) by (simp add: asks_hint(2))
next
  case (approves hs c r' c' effs hk now)
  from replica_hint [OF ok] hint_keeps(2) [OF approves(3)] handleHintApprove_told [OF approves(3)]
  show ?thesis unfolding approves(1) by (simp add: approves(2))
next
  case (denies hs c r' c' effs now)
  from replica_hint [OF ok] hint_keeps(3) [OF denies(3)] handleHintDeny_told [OF denies(3)]
  show ?thesis unfolding denies(1) by (simp add: denies(2))
next
  case (consent_expires hs r' c' effs now)
  from replica_hint [OF ok] hint_keeps(4) [OF consent_expires(3)] consentTimedOut_told [OF consent_expires(3)]
  show ?thesis unfolding consent_expires(1) by (simp add: consent_expires(2))
next
  case (requester_gone hs c r' c' effs now)
  from replica_hint [OF ok] hint_keeps(5) [OF requester_gone(3)] handleRequesterDisconnect_told [OF requester_gone(3)]
  show ?thesis unfolding requester_gone(1) by (simp add: requester_gone(2))
next
  case (hint_resumes hs doc hk hans r' effs hk' now)
  from replica_hint [OF ok] hint_keeps(6) [OF hint_resumes(3)] resume_hint_told [OF hint_resumes(3)]
  show ?thesis unfolding hint_resumes(1) by (simp add: hint_resumes(2))
next
  case (selects ps t detail doc r' doc' effs now)
  from replica_problem [OF ok problem_seats(1) [OF selects(3)] problem_cards(1) [OF selects(3)]] detailLoaded_told [OF selects(3)]
  show ?thesis unfolding selects(1) by (simp add: selects(2))
next
  case (imports_problem ps t detail doc r' doc' effs gen now)
  from replica_problem [OF ok problem_seats(2) [OF imports_problem(3)] problem_cards(2) [OF imports_problem(3)]]
    importedLoaded_told [OF imports_problem(3)]
  show ?thesis unfolding imports_problem(1) by (simp add: imports_problem(2))
next
  case (adds_test sock t tpayload tans r' effs now)
  from replica_testcase [OF ok adds_test(2)] show ?thesis unfolding adds_test(1) .
next
  case (answers effs now)
  from replica_quiet [OF ok _ _ _ sends_quiet [OF answers(2)], of "rp_room s"] show ?thesis unfolding answers(1) by simp
qed

interpretation replicas: step_invariant "replica_step env me" replica_ok for env me
  by unfold_locales (rule replica_step_ok)

text \<open>The copy right after a sync.\<close>

definition synced_replica :: "room \<Rightarrow> room_user_internal list \<Rightarrow> nat \<Rightarrow> int \<Rightarrow> client_room_state \<Rightarrow> replica" where
  "synced_replica r arr h now c =
     \<lparr>rp_room = r, rp_arriving = arr, rp_ghosts = [], rp_hydrating = h, rp_stale = False,
      rp_client = onMessage now (RoomSync (toSyncPayload r)) c\<rparr>"

lemma synced_replica_ok:
  "server_ok r \<Longrightarrow> arriving_ok r arr \<Longrightarrow> replica_ok (synced_replica r arr h now c)"
  using seats_shown_sync [of r arr "[]"] by (simp add: synced_replica_def replica_ok_def sync_view server_ok_def)

section \<open>Properties\<close>


lemma duo_server_ok: "server_ok duo"
proof -
  have "RECONNECT_TOKEN_PATTERN (sample_token CHR ''a'')" "RECONNECT_TOKEN_PATTERN (sample_token CHR ''b'')"
    by code_simp+
  moreover have "mode duo = Collaboration" by (simp add: duo_def addUser_def new_room_def Let_def)
  ultimately show ?thesis using duo_wf by (simp add: server_ok_def tokens_ok_def roles_ok_def duo_users)
qed


text \<open>
  Joining a room with a problem forgets its round. The sync of a join shows the hints used, the
  custom test cases and the pending hint request of the room; the message with the active problem
  that follows is the one that announces a new problem, and the reducer answers it by setting the
  hints to zero and dropping test cases and request, although the room still has them.
\<close>

theorem hydration_forgets_round:
  "let joined = receive now (sock_id sock) (roomCode r) (fst (emitJoinedPayload sock r u presence)) c;
       hydrated = receive now (sock_id sock) (roomCode r)
         (emitRoomHydration sock r presence (Inr (Some detail))) joined
   in rs_hintsUsed joined = hintsUsed r \<and> rs_customTestCases joined = customTestCases r
    \<and> rs_pendingHintRequest joined = pendingHintRequest r
    \<and> rs_hintsUsed hydrated = 0 \<and> rs_customTestCases hydrated = [] \<and> rs_pendingHintRequest hydrated = None"
proof -
  let ?joined = "receive now (sock_id sock) (roomCode r) (fst (emitJoinedPayload sock r u presence)) c"
  let ?hydrated = "receive now (sock_id sock) (roomCode r)
    (emitRoomHydration sock r presence (Inr (Some detail))) ?joined"
  have quiet_others: "inbox (sock_id sock) (roomCode r)
      (case presence of None \<Rightarrow> [] | Some v \<Rightarrow> emitPresenceBroadcast sock r v) = []"
    by (simp add: emitPresenceBroadcast_def split: option.split)
  have joined: "?joined = onMessage now (RoomSync (toSyncPayload r)) (onMessage now
      (UserJoined \<lparr>uj_userId = userId u, uj_displayName = displayName u, uj_role = role u,
         uj_mode = mode r, uj_reconnectToken = reconnectToken u, uj_yjsToken = yjsToken r\<rparr>) c)"
    by (simp add: emitJoinedPayload_def Let_def receive_def quiet_others)
  moreover have "?hydrated = onMessage now (ProblemLoaded (loadedPayload detail)) ?joined"
    by (simp add: emitRoomHydration_def receive_def quiet_others)
  ultimately show ?thesis
    by (simp add: Let_def onMessage_def toSyncPayload_def room_state.defs)
qed

text \<open>
  A member announced after it left is shown as present. When a member whose arrival waits for the
  active problem disconnects, the others are told first that it left and then that it joined: the
  room has it disconnected, and another member's browser lists it as connected.
\<close>

theorem announced_after_leaving:
  assumes "server_ok r" and "findBySocketId (sock_id sock) r = Some v"
    and "lookup (the (sock_roomCode sock)) = Some r"
    and "distinct (map ru_id (rs_users c))" and "sock_id sock \<noteq> me"
    and "handleDisconnect sock lookup timer = Some (r', uid, effs)"
  shows "publicUser v \<in> set (rs_users (receive now me (roomCode r)
      (effs @ emitRoomHydration sock r (Some v) answer) c))
    \<and> userId v \<notin> userId ` set (filter connected (users r'))"
proof
  have v: "connected v" using assms(2) by (auto simp: findBySocketId_def dest: find_Some_mem)
  obtain user where user: "findBySocketId (sock_id sock) r = Some user" "uid = userId user"
    and r': "r' = startGracePeriod uid timer (r\<lparr>users := update_first
        (\<lambda>u. socketId u = Some (sock_id sock) \<and> connected u)
        (\<lambda>u. u\<lparr>connected := False, socketId := None\<rparr>) (users r)\<rparr>)"
    and effs: "effs = [ToOthers (sock_id sock) (roomCode r) (UserLeft uid)]"
    using assms(3,6) by (elim handleDisconnect_result) auto
  have uid: "uid = userId v" using user assms(2) by simp
  have us: "users r' = map (\<lambda>w. if userId w = uid then w\<lparr>connected := False, socketId := None\<rparr> else w) (users r)"
    using handleDisconnect_users [OF _ user(1)] assms(1)
    by (simp add: r' startGracePeriod_def user(2) server_ok_def)
  show "userId v \<notin> userId ` set (filter connected (users r'))"
    by (auto simp: us uid split: if_splits)
  have "inbox me (roomCode r) (effs @ emitRoomHydration sock r (Some v) answer) = [UserLeft uid, tell_joined r v]"
    using assms(5) by (simp add: effs emitRoomHydration_def presence_inbox split: sum.split option.split)
  moreover have "v\<lparr>connected := True\<rparr> = v" using v by simp
  moreover have "distinct (map ru_id (markLeft uid (rs_users c)))" using assms(4) by simp
  ultimately show "publicUser v \<in> set (rs_users (receive now me (roomCode r)
      (effs @ emitRoomHydration sock r (Some v) answer) c))"
    using seatUser_set [of "markLeft uid (rs_users c)"]
    by (simp add: receive_def tell_joined_message) (simp add: onMessage_def)
qed

lemma announced_after_leaving_witness:
  "publicUser (users duo ! 1) \<in> set (rs_users (receive 9 ''s1'' (roomCode duo)
      ([ToOthers ''s2'' (roomCode duo) (UserLeft ''u2'')]
        @ emitRoomHydration \<lparr>sock_id = ''s2'', sock_roomCode = Some (roomCode duo), sock_clientIp = None\<rparr>
            duo (Some (users duo ! 1)) (Inr None)) initialRoomState))"
proof -
  let ?sock = "\<lparr>sock_id = ''s2'', sock_roomCode = Some (roomCode duo), sock_clientIp = None\<rparr>"
  have code: "roomCode duo \<noteq> []" by (simp add: duo_def addUser_def new_room_def Let_def)
  have f: "findBySocketId ''s2'' duo = Some (users duo ! 1)" "userId (users duo ! 1) = ''u2''"
    by (simp_all add: findBySocketId_def duo_users)
  obtain r' where "handleDisconnect ?sock (\<lambda>_. Some duo) 4 =
      Some (r', ''u2'', [ToOthers ''s2'' (roomCode duo) (UserLeft ''u2'')])"
    using code f by (simp add: handleDisconnect_def Let_def)
  from announced_after_leaving [OF duo_server_ok _ _ _ _ this, of "users duo ! 1" initialRoomState "''s1''"] f(1)
  show ?thesis by (simp add: initialRoomState_def)
qed

text \<open>
  A refused run hides the one in progress. A second run request that passed the middleware
  before the first execution began changes nothing in the room when its turn comes, and the error
  that answers it makes the requester's browser believe that no execution is in progress.
\<close>

theorem refused_run_hides_execution:
  assumes "executionInProgress r" and "begin_execution deps sess doc now r = (r', effs, k)"
  shows "r' = r \<and> k = None
    \<and> \<not> rs_executionInProgress (receive now (sock_id (es_sock sess)) (roomCode r) effs c)"
proof -
  obtain msg where "canExecute r = Refused msg"
    using assms(1) by (cases "canExecute r") (auto simp: canExecute_def split: if_splits)
  with assms(2) show ?thesis
    by (auto simp: begin_execution_def execError_def emitExecutionError_def emitScopedEvent_def receive_def onMessage_def)
qed

lemma refused_run_hides_execution_witness:
  "\<exists>effs. begin_execution \<lparr>ed_hasIpLimiter = False, ed_judge0ExecPerHour = None, ed_dailyLimit = 9, ed_maxCodeBytes = 100,
         ed_hasOperationLimiter = False\<rparr>
        \<lparr>es_sock = \<lparr>sock_id = ''s2'', sock_roomCode = None, sock_clientIp = None\<rparr>, es_roomCode = roomCode duo,
         es_type = Run\<rparr> None 7 (duo\<lparr>executionInProgress := True\<rparr>)
      = (duo\<lparr>executionInProgress := True\<rparr>, effs, None)
    \<and> \<not> rs_executionInProgress (receive 7 ''s2'' (roomCode duo) effs
          (onMessage 6 (RoomSync (toSyncPayload (duo\<lparr>executionInProgress := True\<rparr>))) initialRoomState))"
proof -
  let ?deps = "\<lparr>ed_hasIpLimiter = False, ed_judge0ExecPerHour = None, ed_dailyLimit = 9, ed_maxCodeBytes = 100,
         ed_hasOperationLimiter = False\<rparr>"
  let ?sess = "\<lparr>es_sock = \<lparr>sock_id = ''s2'', sock_roomCode = None, sock_clientIp = None\<rparr>,
    es_roomCode = roomCode duo, es_type = Run\<rparr>"
  let ?r = "duo\<lparr>executionInProgress := True\<rparr>"
  obtain r' effs k where b: "begin_execution ?deps ?sess None 7 ?r = (r', effs, k)"
    by (cases "begin_execution ?deps ?sess None 7 ?r") auto
  have "executionInProgress ?r" by simp
  from refused_run_hides_execution [OF this b] b show ?thesis by auto
qed

end
