(* ===== verification/Access_Gateway.thy ===== *)
theory Access_Gateway
  imports Access_Sessions Auth_Middleware Reliability_Store
begin

text \<open>
  Every way into the server, guarded by private access: the request hook of
  \<^verbatim>\<open>plugins/privateAccess.ts\<close>, the routes of \<^verbatim>\<open>routes/access.ts\<close>, and
  the handshake, the per-event check and the periodic check of \<^verbatim>\<open>ws/socketio.ts\<close>
  (\<^verbatim>\<open>apps/server/src\<close>). No service is \<open>None\<close>; \<open>up\<close> says whether the
  store answers or every call to it throws.
\<close>

section \<open>Validation as the callers see it\<close>

fun rejection_text :: "access_rejection \<Rightarrow> string" where
  "rejection_text InvalidCode = ''invalid_code''"
| "rejection_text SessionLimitReached = ''session_limit_reached''"
| "rejection_text MissingCookie = ''missing_cookie''"
| "rejection_text InvalidCookie = ''invalid_cookie''"
| "rejection_text SessionNotFound = ''session_not_found''"
| "rejection_text SessionRevoked = ''session_revoked''"
| "rejection_text SessionExpired = ''session_expired''"
| "rejection_text InviteRevoked = ''invite_revoked''"
| "rejection_text InviteExpired = ''invite_expired''"

text \<open>Whether the cookie gets past its signature, so that the store is asked about it.\<close>

definition reads_store :: "crypto \<Rightarrow> 's access_options \<Rightarrow> string option \<Rightarrow> bool" where
  "reads_store cr options cookie \<longleftrightarrow>
     (case extractCookie cookie (ao_cookieName options) of
        CookieValue v \<Rightarrow> parseCookieValue cr v (ao_sessionSecret options) \<noteq> None
      | _ \<Rightarrow> False)"

definition validate_guarded ::
  "bool \<Rightarrow> crypto \<Rightarrow> 's access_options option \<Rightarrow> string option \<Rightarrow> int \<Rightarrow> 's \<Rightarrow> string + valid_session" where
  "validate_guarded up cr service cookie now s =
     (case service of
        None \<Rightarrow> Inl ''service_unavailable''
      | Some options \<Rightarrow>
          if \<not> up \<and> reads_store cr options cookie then Inl ''service_unavailable''
          else (case validateCookieHeader cr options cookie now s of
                  Inl reason \<Rightarrow> Inl (rejection_text reason)
                | Inr session \<Rightarrow> Inr session))"

section \<open>Requests\<close>

definition path_of :: "string \<Rightarrow> string" where
  "path_of url = takeWhile (\<lambda>c. c \<noteq> CHR ''?'') url"

definition isPublicAccessPath :: "string \<Rightarrow> bool" where
  "isPublicAccessPath url \<longleftrightarrow>
     starts_with ''/api/access/'' (path_of url)
     \<or> path_of url \<in> {''/api/health'', ''/api/live'', ''/api/ready''}"

datatype http_reply = PassOn | Status nat string

definition privateAccessHook ::
  "bool \<Rightarrow> bool \<Rightarrow> crypto \<Rightarrow> 's access_options option \<Rightarrow> string \<Rightarrow> string option \<Rightarrow> int \<Rightarrow> 's \<Rightarrow> http_reply" where
  "privateAccessHook enablePrivateAccess up cr service url cookie now s =
     (if \<not> enablePrivateAccess then PassOn
      else if isPublicAccessPath url then PassOn
      else (case validate_guarded up cr service cookie now s of
              Inr session \<Rightarrow> PassOn
            | Inl reason \<Rightarrow> Status 401 ''Access required.''))"

section \<open>Access routes\<close>

record access_session_response =
  authenticated :: bool
  ar_label :: "string option"
  ar_expiresAt :: "string option"

definition not_authenticated :: access_session_response where
  "not_authenticated = \<lparr>authenticated = False, ar_label = None, ar_expiresAt = None\<rparr>"

definition authenticated_open :: access_session_response where
  "authenticated_open = \<lparr>authenticated = True, ar_label = None, ar_expiresAt = None\<rparr>"

definition getSession ::
  "(int \<Rightarrow> string) \<Rightarrow> bool \<Rightarrow> bool \<Rightarrow> crypto \<Rightarrow> 's access_options option \<Rightarrow> string option \<Rightarrow> int \<Rightarrow> 's \<Rightarrow>
   access_session_response" where
  "getSession toISOString enablePrivateAccess up cr service cookie now s =
     (if \<not> enablePrivateAccess then authenticated_open
      else (case validate_guarded up cr service cookie now s of
              Inl reason \<Rightarrow> not_authenticated
            | Inr session \<Rightarrow> \<lparr>authenticated = True, ar_label = Some (vs_inviteLabel session),
                             ar_expiresAt = Some (toISOString (vs_expiresAt session))\<rparr>))"

definition accessLoginSchema :: "js_unknown \<Rightarrow> string option" where
  "accessLoginSchema v =
     (case (is_object v, field ''code'' v) of
        (True, Some (JStr s)) \<Rightarrow>
          (let code = trim s in if 1 \<le> length code \<and> length code \<le> 128 then Some code else None)
      | _ \<Rightarrow> None)"

text \<open>The answer of the login route: an error with its status, or the session with its cookie.\<close>

datatype login_reply =
    LoginError nat string
  | LoggedIn access_session_response "string option"
  | LoginThrows

definition postLogin ::
  "(int \<Rightarrow> string) \<Rightarrow> (int \<Rightarrow> string) \<Rightarrow> bool \<Rightarrow> bool \<Rightarrow> crypto \<Rightarrow> 's access_options option \<Rightarrow> string option \<Rightarrow>
   js_unknown \<Rightarrow> int \<Rightarrow> string \<Rightarrow> string \<Rightarrow> ('s \<Rightarrow> 's) \<Rightarrow> 's \<Rightarrow> 's \<times> login_reply" where
  "postLogin toISOString toUTCString enablePrivateAccess up cr service cookie body now token newId between s =
     (if \<not> enablePrivateAccess then (s, LoggedIn authenticated_open None)
      else (case validate_guarded up cr service cookie now s of
              Inr session \<Rightarrow>
                (s, LoggedIn \<lparr>authenticated = True, ar_label = Some (vs_inviteLabel session),
                              ar_expiresAt = Some (toISOString (vs_expiresAt session))\<rparr> None)
            | Inl reason \<Rightarrow>
                (case accessLoginSchema body of
                   None \<Rightarrow> (s, LoginError 400 ''Invalid invite code.'')
                 | Some code \<Rightarrow>
                     (case service of
                        None \<Rightarrow> (s, LoginError 401 ''Invalid invite code.'')
                      | Some options \<Rightarrow>
                          if \<not> up then (s, LoginThrows)
                          else
                            (case loginWithInviteCode cr toUTCString options code now token newId between s of
                               (s', Inl rejected) \<Rightarrow>
                                 (s', if rejected = SessionLimitReached
                                      then LoginError 429 ''Invite session limit reached.''
                                      else LoginError 401 ''Invalid invite code.'')
                             | (s', Inr (cookieHeader, session)) \<Rightarrow>
                                 (s', LoggedIn \<lparr>authenticated = True, ar_label = Some (lg_inviteLabel session),
                                        ar_expiresAt = Some (toISOString (lg_expiresAt session))\<rparr>
                                        (Some cookieHeader)))))))"

text \<open>The state and the cookie the logout route sets; \<open>None\<close> when the store throws.\<close>

definition postLogout ::
  "bool \<Rightarrow> bool \<Rightarrow> crypto \<Rightarrow> 's access_options option \<Rightarrow> string option \<Rightarrow> int \<Rightarrow> 's \<Rightarrow> ('s \<times> string option) option" where
  "postLogout enablePrivateAccess up cr service cookie now s =
     (if \<not> enablePrivateAccess then Some (s, None)
      else (case service of
              None \<Rightarrow> Some (s, Some [])
            | Some options \<Rightarrow>
                if \<not> up \<and> reads_store cr options cookie then None
                else Some (revokeCookieSession cr options cookie now s,
                           Some (buildClearCookieHeader (ao_cookieName options) (ao_secureCookies options)))))"

section \<open>Sockets\<close>

record socket_config =
  sc_wsConnectionsPerMinute :: nat
  sc_joinAttemptsPerHour :: nat
  sc_importsPerHour :: nat
  sc_allowedOrigins :: "string list option"
  sc_trustedProxyIps :: "string list"
  sc_accessRevalidationIntervalMs :: int

record socket_deps =
  sd_wsConnectionsPerMinute :: "nat option"
  sd_joinAttemptsPerHour :: "nat option"
  sd_importsPerHour :: "nat option"
  sd_allowedOrigins :: "string list option"
  sd_trustedProxyIps :: "string list option"
  sd_accessRevalidationIntervalMs :: "int option"

definition resolveSocketIOConfig :: "socket_deps \<Rightarrow> socket_config" where
  "resolveSocketIOConfig deps =
     \<lparr>sc_wsConnectionsPerMinute = orElse (sd_wsConnectionsPerMinute deps) 20,
      sc_joinAttemptsPerHour = orElse (sd_joinAttemptsPerHour deps) 30,
      sc_importsPerHour = orElse (sd_importsPerHour deps) 10,
      sc_allowedOrigins = sd_allowedOrigins deps,
      sc_trustedProxyIps = orElse (sd_trustedProxyIps deps) [],
      sc_accessRevalidationIntervalMs = orElse (sd_accessRevalidationIntervalMs deps) 15000\<rparr>"

record handshake =
  hk_socketId :: string
  hk_cookie :: "string option"
  hk_roomCode :: header
  hk_origin :: "string option"
  hk_remoteAddress :: "string option"
  hk_forwardedFor :: header

definition handshake_ip :: "socket_config \<Rightarrow> handshake \<Rightarrow> string" where
  "handshake_ip config hk =
     extractClientIp (hk_remoteAddress hk) (hk_forwardedFor hk) (sc_trustedProxyIps config)"

definition msg_too_many_sockets :: "nat \<Rightarrow> string" where
  "msg_too_many_sockets n = ''Too many websocket connections. Try again in '' @ string_of_nat n @ ''s.''"

text \<open>
  \<open>validation\<close> is the answer of the access service, if there is one, and \<open>connectionCheck\<close>
  that of the rate limiter for the client's address.
\<close>

definition createHandshakeMiddleware ::
  "socket_config \<Rightarrow> (string + valid_session) option \<Rightarrow> rate_limit_check_result \<Rightarrow> handshake \<Rightarrow> string + socket_ctx" where
  "createHandshakeMiddleware config validation connectionCheck hk =
     (case validation of
        Some (Inl reason) \<Rightarrow> Inl ''Access required''
      | _ \<Rightarrow>
          (case hk_roomCode hk of
             Single code \<Rightarrow>
               if code = [] then Inl ''Missing required roomCode query parameter''
               else if sc_allowedOrigins config \<noteq> None
                       \<and> \<not> isOriginAllowed (hk_origin hk) (the (sc_allowedOrigins config))
               then Inl ''Origin not allowed''
               else if \<not> allowed connectionCheck then Inl (msg_too_many_sockets (retryAfter connectionCheck))
               else Inr \<lparr>sock_id = hk_socketId hk, sock_roomCode = Some (normalizeRoomCode code),
                         sock_clientIp = Some (handshake_ip config hk)\<rparr>
           | _ \<Rightarrow> Inl ''Missing required roomCode query parameter''))"

datatype gate_effect = AccessRequired string | DisconnectLater | EventRejection "eff list"

text \<open>
  \<^verbatim>\<open>validateSocketAccess\<close>: whether the socket may go on, and what it is told. The cookie is
  the one of the handshake.
\<close>

definition validateSocketAccess :: "string + valid_session \<Rightarrow> bool \<times> gate_effect list" where
  "validateSocketAccess validation =
     (case validation of
        Inr session \<Rightarrow> (True, [])
      | Inl reason \<Rightarrow> (False, [AccessRequired reason, DisconnectLater]))"

text \<open>
  The middleware of an event, in the order the connection registers it: private access first, then
  the room's permissions, looked up when the first has answered.
\<close>

definition event_gate ::
  "bool \<Rightarrow> crypto \<Rightarrow> 's access_options option \<Rightarrow> string option \<Rightarrow> int \<Rightarrow> 's \<Rightarrow>
   (string \<Rightarrow> room option) \<Rightarrow> socket_ctx \<Rightarrow> string \<Rightarrow> bool \<times> gate_effect list" where
  "event_gate up cr service cookie now s lookup sock ev =
     (let (goOn, effs) = (case service of
            None \<Rightarrow> (True, [])
          | Some options \<Rightarrow> validateSocketAccess (validate_guarded up cr service cookie now s))
      in if goOn then
           (let d = authMiddleware lookup sock ev
            in (d = Next, if auth_effects sock ev d = [] then effs else effs @ [EventRejection (auth_effects sock ev d)]))
         else (False, effs))"

text \<open>The callback of the interval timer; nothing happens on a closed socket.\<close>

definition registerAccessRevalidation ::
  "bool \<Rightarrow> bool \<Rightarrow> crypto \<Rightarrow> 's access_options option \<Rightarrow> string option \<Rightarrow> int \<Rightarrow> 's \<Rightarrow> gate_effect list" where
  "registerAccessRevalidation isConnected up cr service cookie now s =
     (case service of
        None \<Rightarrow> []
      | Some options \<Rightarrow>
          if isConnected then snd (validateSocketAccess (validate_guarded up cr service cookie now s)) else [])"

section \<open>Lemmas\<close>

lemma validate_guarded_rejects:
  "validateCookieHeader cr options h t s = Inl reason \<Longrightarrow>
   \<exists>reason0. validate_guarded up cr (Some options) h t s = Inl reason0"
  by (simp add: validate_guarded_def)

section \<open>Properties\<close>

text \<open>
  The handshake policy. A socket is accepted exactly when the access service, if there is one,
  accepts its cookie, the query has one nonempty room code, its origin is on the list if one is
  configured, and the connection is within the limit of its address; it then carries the normalized
  room code and that address.
\<close>

theorem handshake_policy:
  "createHandshakeMiddleware config validation chk hk = Inr sock \<longleftrightarrow>
     validation \<notin> Some ` range Inl
     \<and> sc_allowedOrigins config \<notin> Some ` {os. \<not> isOriginAllowed (hk_origin hk) os}
     \<and> allowed chk
     \<and> (\<exists>code. hk_roomCode hk = Single code \<and> code \<noteq> []
          \<and> sock = \<lparr>sock_id = hk_socketId hk, sock_roomCode = Some (normalizeRoomCode code),
                    sock_clientIp = Some (handshake_ip config hk)\<rparr>)"
  by (cases "hk_roomCode hk"; cases "sc_allowedOrigins config")
    (auto simp: createHandshakeMiddleware_def split: option.split sum.split)

text \<open>
  C27: A logout closes every door. Once a cookie that was accepted has been used to log out, it is
  useless in every later state of the tables and at every time, on every path: requests outside the
  public paths are answered with 401, the session route says not authenticated, a new socket is
  refused, and an event on a socket that is still open reaches no handler, its socket is told why and
  disconnected, also without an event at the next periodic check. Nothing of this depends on whether
  the store still answers.
\<close>

theorem logout_closes_every_door:
  assumes "db_wf db" and "ao_store options = accessRepository"
    and "validateCookieHeader cr options h t0 db = Inr x"
    and "postLogout True True cr (Some options) h now db = Some (db1, cleared)"
    and "evolves\<^sup>*\<^sup>* db1 db2" and "\<not> isPublicAccessPath url"
  shows "privateAccessHook True up cr (Some options) url h t db2 = Status 401 ''Access required.''
    \<and> getSession toISO True up cr (Some options) h t db2 = not_authenticated
    \<and> createHandshakeMiddleware config (Some (validate_guarded up cr (Some options) h t db2)) chk hk
        = Inl ''Access required''
    \<and> (\<exists>reason. event_gate up cr (Some options) h t db2 lookup sock ev = (False, [AccessRequired reason, DisconnectLater])
         \<and> registerAccessRevalidation True up cr (Some options) h t db2 = [AccessRequired reason, DisconnectLater])"
proof -
  have "db1 = revokeCookieSession cr options h now db" using assms(4) by (simp add: postLogout_def)
  with repository.logout_rejects [OF assms(1-3)] assms(5)
  have "validateCookieHeader cr options h t db2 = Inl SessionRevoked" by simp
  from validate_guarded_rejects [OF this] obtain reason0
    where "validate_guarded up cr (Some options) h t db2 = Inl reason0" by blast
  with assms(6) show ?thesis
    by (simp add: privateAccessHook_def getSession_def createHandshakeMiddleware_def event_gate_def
      validateSocketAccess_def registerAccessRevalidation_def)
qed

lemma logout_closes_every_door_witness:
  "privateAccessHook True True sample_crypto (Some sample_options) ''/api/rooms'' (Some (cookie_header sample_cookies))
     7000 (revokeCookieSession sample_crypto sample_options (Some (cookie_header sample_cookies)) 6000 sample_login_db)
   = Status 401 ''Access required.''"
proof -
  have store: "ao_store sample_options = accessRepository" by (simp add: sample_options_def)
  have out: "postLogout True True sample_crypto (Some sample_options) (Some (cookie_header sample_cookies)) 6000 sample_login_db
     = Some (revokeCookieSession sample_crypto sample_options (Some (cookie_header sample_cookies)) 6000 sample_login_db,
             Some (buildClearCookieHeader ''sid'' True))"
    by (simp add: postLogout_def sample_options_def)
  have "\<not> isPublicAccessPath ''/api/rooms''" by code_simp
  from logout_closes_every_door [OF sample_login_wf store sample_validates out rtranclp.rtrancl_refl this]
  show ?thesis by blast
qed

end
