(* ===== verification/Python_Harness.thy ===== *)
theory Python_Harness
  imports Execution_Service
begin

text \<open>
  The Python program that runs a submission, the template of
  \<^verbatim>\<open>services/pythonHarness.ts\<close> of \<^verbatim>\<open>apps/server/src\<close>, and how the
  holes of its template are filled. The user's code, the interpreter and the operating system are parameters: a
  child process is what became of it. Python's \<^verbatim>\<open>json.dumps\<close> and
  \<^verbatim>\<open>json.loads\<close> are \<open>dumps\<close> and \<open>loads\<close>, and \<open>num\<close> is the number
  a small integer is written as. The text of the template is in \<open>Harness_Template\<close>.
\<close>

section \<open>Filling the template\<close>

text \<open>
  The replacement text of \<^verbatim>\<open>String.replace\<close>: \<^verbatim>\<open>$$\<close>,
  \<^verbatim>\<open>$&\<close>, \<^verbatim>\<open>$`\<close> and \<^verbatim>\<open>$'\<close> are expanded.
\<close>

fun expand :: "string \<Rightarrow> string \<Rightarrow> string \<Rightarrow> string \<Rightarrow> string" where
  "expand before matched after [] = []"
| "expand before matched after [c] = [c]"
| "expand before matched after (c # d # s) =
     (if c = CHR ''$'' \<and> d = CHR ''$'' then CHR ''$'' # expand before matched after s
      else if c = CHR ''$'' \<and> d = CHR ''&'' then matched @ expand before matched after s
      else if c = CHR ''$'' \<and> d = CHR 0x60 then before @ expand before matched after s
      else if c = CHR ''$'' \<and> d = CHR 0x27 then after @ expand before matched after s
      else c # expand before matched after (d # s))"

definition js_replace :: "string \<Rightarrow> string \<Rightarrow> string \<Rightarrow> string" where
  "js_replace pat replacement s =
     (case indexOf pat s 0 of
        None \<Rightarrow> s
      | Some i \<Rightarrow>
          (let before = take i s; after = drop (i + length pat) s
           in before @ expand before pat after replacement @ after))"

definition USER_STDOUT_CHARS :: nat where "USER_STDOUT_CHARS = 16 * 1024"
definition CASE_ERROR_CHARS :: nat where "CASE_ERROR_CHARS = 8 * 1024"

definition inputs_json :: "(string \<times> json) list list \<Rightarrow> json" where
  "inputs_json inputs = JArr (map (\<lambda>i. JObj [(''input'', JObj i)]) inputs)"

section \<open>Bounded output\<close>

record bounded_stdout =
  bs_limit :: nat
  bs_size :: nat
  bs_parts :: "string list"
  bs_truncated :: bool

definition new_stdout :: "nat \<Rightarrow> bounded_stdout" where
  "new_stdout limit = \<lparr>bs_limit = limit, bs_size = 0, bs_parts = [], bs_truncated = False\<rparr>"

definition bs_write :: "string \<Rightarrow> bounded_stdout \<Rightarrow> bounded_stdout" where
  "bs_write s b =
     (let remaining = int (bs_limit b) - int (bs_size b);
          chunk = take (nat remaining) s;
          b1 = (if 0 < remaining
                then b\<lparr>bs_parts := bs_parts b @ [chunk], bs_size := bs_size b + length chunk\<rparr> else b)
      in if remaining < int (length s) then b1\<lparr>bs_truncated := True\<rparr> else b1)"

definition bs_getvalue :: "bounded_stdout \<Rightarrow> string" where
  "bs_getvalue b = concat (bs_parts b)"

definition py_truncate_text :: "string \<Rightarrow> nat \<Rightarrow> string \<times> bool" where
  "py_truncate_text s limit = (if length s \<le> limit then (s, False) else (take limit s, True))"

section \<open>The child\<close>

definition case_error_result :: "(nat \<Rightarrow> js_number) \<Rightarrow> nat \<Rightarrow> js_number \<Rightarrow> string \<Rightarrow> json" where
  "case_error_result num index elapsed err =
     (let (truncated, isTruncated) = py_truncate_text err CASE_ERROR_CHARS
      in JObj ([(''index'', JNum (num index)), (''status'', JStr ''error''), (''elapsed_ms'', JNum elapsed),
                (''error'', JStr truncated)]
               @ (if isTruncated then [(''error_truncated'', JBool True)] else [])))"

text \<open>What the user's code did: its value as JSON with its text, a value JSON cannot hold, or an exception.\<close>

datatype user_outcome = Returns json string | NotSerializable string | Raises string

definition safe_repr :: "string \<Rightarrow> string" where
  "safe_repr rep = fst (py_truncate_text rep CASE_ERROR_CHARS)"

definition case_result_json :: "(nat \<Rightarrow> js_number) \<Rightarrow> nat \<Rightarrow> js_number \<Rightarrow> user_outcome \<Rightarrow> json" where
  "case_result_json num index elapsed outcome =
     (case outcome of
        Returns v rep \<Rightarrow>
          JObj [(''index'', JNum (num index)), (''status'', JStr ''ok''), (''elapsed_ms'', JNum elapsed),
                (''got_json'', v), (''got_repr'', JStr (safe_repr rep))]
      | NotSerializable rep \<Rightarrow>
          JObj [(''index'', JNum (num index)), (''status'', JStr ''unserializable''),
                (''elapsed_ms'', JNum elapsed), (''got_repr'', JStr (safe_repr rep))]
      | Raises tb \<Rightarrow> case_error_result num index elapsed tb)"

definition captured :: "string list \<Rightarrow> bounded_stdout" where
  "captured prints = fold bs_write prints (new_stdout USER_STDOUT_CHARS)"

definition child_case ::
  "(nat \<Rightarrow> js_number) \<Rightarrow> nat \<Rightarrow> js_number \<Rightarrow> string list \<Rightarrow> user_outcome \<Rightarrow> json" where
  "child_case num index elapsed prints outcome =
     JObj [(''status'', JStr ''ok''), (''result'', case_result_json num index elapsed outcome),
           (''user_stdout'', JStr (bs_getvalue (captured prints))),
           (''user_stdout_truncated'', JBool (bs_truncated (captured prints)))]"

datatype preflight_outcome = Compiles | SyntaxFails string | RuntimeFails string

definition preflight_failure :: "string \<Rightarrow> string \<Rightarrow> json" where
  "preflight_failure st tb =
     (let (err, isTruncated) = py_truncate_text tb CASE_ERROR_CHARS
      in JObj ([(''status'', JStr st), (''error'', JStr err)]
               @ (if isTruncated then [(''error_truncated'', JBool True)] else [])))"

definition child_preflight :: "preflight_outcome \<Rightarrow> json" where
  "child_preflight outcome =
     (case outcome of
        Compiles \<Rightarrow> JObj [(''status'', JStr ''ok'')]
      | SyntaxFails tb \<Rightarrow> preflight_failure ''syntax_error'' tb
      | RuntimeFails tb \<Rightarrow> preflight_failure ''runtime_error'' tb)"

section \<open>The parent\<close>

text \<open>How a child process ended, with what it wrote.\<close>

datatype child_process =
    SpawnFails string
  | TimesOut string
  | ExitsBadly string string
  | Exits string string

definition child_error :: "string \<Rightarrow> string \<Rightarrow> json" where
  "child_error msg err = JObj [(''status'', JStr ''child_error''), (''error'', JStr msg), (''stderr'', JStr err)]"

definition run_child :: "(string \<Rightarrow> json option) \<Rightarrow> child_process \<Rightarrow> json" where
  "run_child loads p =
     (case p of
        SpawnFails tb \<Rightarrow> child_error tb []
      | TimesOut err \<Rightarrow> child_error ''Execution process timed out.'' err
      | ExitsBadly out err \<Rightarrow> child_error ''Execution process exited unexpectedly.'' err
      | Exits out err \<Rightarrow>
          if HARNESS_PAYLOAD_CHARS < length out then
            child_error ''Execution process produced too much harness output.'' err
          else (case loads out of
                  None \<Rightarrow> child_error ''Execution process returned invalid harness output.'' err
                | Some v \<Rightarrow> v))"

definition emit_tagged_payload :: "(json \<Rightarrow> string) \<Rightarrow> string \<Rightarrow> string \<Rightarrow> json \<Rightarrow> string" where
  "emit_tagged_payload dumps startTag endTag payload =
     startTag @ [newline] @ dumps payload @ [newline] @ endTag @ [newline]"

definition emit_error :: "(json \<Rightarrow> string) \<Rightarrow> string \<Rightarrow> string \<Rightarrow> json \<Rightarrow> string" where
  "emit_error dumps kind nonce err =
     emit_tagged_payload dumps (start_tag kind nonce) (end_tag kind nonce) (JObj [(''error'', err)])"

definition result_payload :: "json list \<Rightarrow> bounded_stdout \<Rightarrow> json" where
  "result_payload results out =
     JObj ([(''results'', JArr results), (''userStdout'', JStr (bs_getvalue out))]
           @ (if bs_truncated out then [(''metadata'', JObj [(''userStdoutTruncated'', JBool True)])] else []))"

definition emit_result :: "(json \<Rightarrow> string) \<Rightarrow> string \<Rightarrow> json list \<Rightarrow> bounded_stdout \<Rightarrow> string" where
  "emit_result dumps nonce results out =
     emit_tagged_payload dumps (start_tag ''RESULT'' nonce) (end_tag ''RESULT'' nonce) (result_payload results out)"

text \<open>\<^verbatim>\<open>str(value)\<close> of a parsed value; of a string it is the string.\<close>

definition py_str :: "(json \<Rightarrow> string) \<Rightarrow> json \<Rightarrow> string" where
  "py_str other v = (case v of JStr s \<Rightarrow> s | _ \<Rightarrow> other v)"

fun py_truthy :: "json \<Rightarrow> bool" where
  "py_truthy JNull = False"
| "py_truthy (JBool b) = b"
| "py_truthy (JNum x) = (number_val x \<noteq> Some 0)"
| "py_truthy (JStr s) = (s \<noteq> [])"
| "py_truthy (JArr vs) = (vs \<noteq> [])"
| "py_truthy (JObj kvs) = (kvs \<noteq> [])"

definition case_payload ::
  "(nat \<Rightarrow> js_number) \<Rightarrow> string \<Rightarrow> string \<Rightarrow> nat \<Rightarrow> (string \<times> json) list \<Rightarrow> json" where
  "case_payload num userCode methodName index input =
     JObj [(''mode'', JStr ''case''), (''index'', JNum (num index)), (''input'', JObj input),
           (''method_name'', JStr methodName), (''user_code'', JStr userCode)]"

definition preflight_payload :: "string \<Rightarrow> json" where
  "preflight_payload userCode = JObj [(''mode'', JStr ''preflight''), (''user_code'', JStr userCode)]"

text \<open>One round of the loop of \<^verbatim>\<open>_parent_main\<close>; \<open>None\<close> is an uncaught exception.\<close>

definition parent_case ::
  "(nat \<Rightarrow> js_number) \<Rightarrow> (json \<Rightarrow> string) \<Rightarrow> nat \<Rightarrow> json \<Rightarrow> json list \<times> bounded_stdout \<Rightarrow>
   (json list \<times> bounded_stdout) option" where
  "parent_case num other index childResult acc =
     (case childResult of
        JObj d \<Rightarrow>
          if map_of d ''status'' = Some (JStr ''ok'') then
            (case map_of d ''result'' of
               None \<Rightarrow> None
             | Some res \<Rightarrow>
                 (let out = bs_write (py_str other (case map_of d ''user_stdout'' of None \<Rightarrow> JStr [] | Some v \<Rightarrow> v))
                              (snd acc);
                      tr = (case map_of d ''user_stdout_truncated'' of None \<Rightarrow> False | Some v \<Rightarrow> py_truthy v)
                  in Some (fst acc @ [res], if tr then out\<lparr>bs_truncated := True\<rparr> else out)))
          else
            Some (fst acc @ [case_error_result num index 0
                    (py_str other (case map_of d ''error'' of
                       None \<Rightarrow> JStr ''Execution process failed.'' | Some v \<Rightarrow> v))], snd acc)
      | _ \<Rightarrow> None)"

fun parent_loop ::
  "(nat \<Rightarrow> js_number) \<Rightarrow> (json \<Rightarrow> string) \<Rightarrow> (nat \<Rightarrow> (string \<times> json) list \<Rightarrow> json) \<Rightarrow> nat \<Rightarrow>
   (string \<times> json) list list \<Rightarrow> json list \<times> bounded_stdout \<Rightarrow> (json list \<times> bounded_stdout) option" where
  "parent_loop num other run index [] acc = Some acc"
| "parent_loop num other run index (input # inputs) acc =
     (case parent_case num other index (run index input) acc of
        None \<Rightarrow> None
      | Some acc' \<Rightarrow> parent_loop num other run (Suc index) inputs acc')"

definition handle_preflight_failure :: "(json \<Rightarrow> string) \<Rightarrow> string \<Rightarrow> (string \<times> json) list \<Rightarrow> string option" where
  "handle_preflight_failure dumps nonce d =
     (let err = (case map_of d ''error'' of
                   None \<Rightarrow> JStr ''Execution failed before running test cases.'' | Some v \<Rightarrow> v);
          st = map_of d ''status''
      in if st = Some (JStr ''syntax_error'') then Some (emit_error dumps ''COMPILATION_ERROR'' nonce err)
         else if st = Some (JStr ''runtime_error'') \<or> st = Some (JStr ''child_error'')
         then Some (emit_error dumps ''RUNTIME_ERROR'' nonce err)
         else None)"

datatype harness_output = Printed string | Crashed

definition parent_main ::
  "(nat \<Rightarrow> js_number) \<Rightarrow> (json \<Rightarrow> string) \<Rightarrow> (json \<Rightarrow> string) \<Rightarrow> (string \<Rightarrow> json option) \<Rightarrow> (json \<Rightarrow> child_process) \<Rightarrow>
   string \<Rightarrow> (string \<times> json) list list \<Rightarrow> string \<Rightarrow> string \<Rightarrow> harness_output" where
  "parent_main num other dumps loads spawn userCode inputs methodName nonce =
     (case run_child loads (spawn (preflight_payload userCode)) of
        JObj d \<Rightarrow>
          (case handle_preflight_failure dumps nonce d of
             Some printed \<Rightarrow> Printed printed
           | None \<Rightarrow>
               (case parent_loop num other
                       (\<lambda>i input. run_child loads (spawn (case_payload num userCode methodName i input)))
                       0 inputs ([], new_stdout USER_STDOUT_CHARS) of
                  None \<Rightarrow> Crashed
                | Some (results, out) \<Rightarrow> Printed (emit_result dumps nonce results out)))
      | _ \<Rightarrow> Crashed)"

text \<open>
  The test cases stand in the program as JSON text and are read as a Python expression:
  \<^verbatim>\<open>null\<close>, \<^verbatim>\<open>true\<close> and \<^verbatim>\<open>false\<close> are names
  nobody defines, the rest means the same in both languages. The module is loaded in the parent and
  in every child before anything else runs. The module is the program with the literals of these values in its holes.
\<close>

fun python_reads :: "json \<Rightarrow> bool" where
  "python_reads JNull = False"
| "python_reads (JBool b) = False"
| "python_reads (JArr vs) = list_all python_reads vs"
| "python_reads (JObj kvs) = list_all (\<lambda>kv. python_reads (snd kv)) kvs"
| "python_reads _ = True"

definition harness_module ::
  "(nat \<Rightarrow> js_number) \<Rightarrow> (json \<Rightarrow> string) \<Rightarrow> (json \<Rightarrow> string) \<Rightarrow> (string \<Rightarrow> json option) \<Rightarrow> (json \<Rightarrow> child_process) \<Rightarrow>
   string \<Rightarrow> (string \<times> json) list list \<Rightarrow> string \<Rightarrow> string \<Rightarrow> harness_output" where
  "harness_module num other dumps loads spawn userCode inputs methodName nonce =
     (if \<not> python_reads (inputs_json inputs) then Crashed
      else parent_main num other dumps loads spawn userCode inputs methodName nonce)"

section \<open>What the user's code may use\<close>

text \<open>
  The module of the user runs with built-ins of its own: the names of a list, and an import that refuses some modules. A
  module and a built-in are values of a type of their own; \<open>builtins\<close> are those of the interpreter, \<open>real_import\<close> is
  its import, which may raise an error with a message.
\<close>

definition DENIED_IMPORT_ROOTS :: "string list" where
  "DENIED_IMPORT_ROOTS =
     [''ctypes'', ''importlib'', ''inspect'', ''multiprocessing'', ''os'', ''subprocess'', ''sys'']"

definition SAFE_BUILTIN_NAMES :: "string list" where
  "SAFE_BUILTIN_NAMES =
     [''__build_class__'', ''abs'', ''all'', ''any'', ''ArithmeticError'', ''AttributeError'', ''BaseException'',
      ''bool'', ''bytes'', ''callable'', ''chr'', ''classmethod'', ''complex'', ''dict'', ''divmod'',
      ''enumerate'', ''Exception'', ''filter'', ''float'', ''format'', ''frozenset'', ''hash'', ''hex'', ''id'',
      ''IndexError'', ''int'', ''isinstance'', ''issubclass'', ''iter'', ''KeyError'', ''len'', ''list'',
      ''LookupError'', ''map'', ''max'', ''min'', ''NameError'', ''next'', ''NotImplemented'',
      ''NotImplementedError'', ''object'', ''ord'', ''pow'', ''print'', ''property'', ''range'', ''repr'',
      ''reversed'', ''round'', ''RuntimeError'', ''set'', ''slice'', ''sorted'', ''staticmethod'',
      ''StopIteration'', ''str'', ''sum'', ''super'', ''tuple'', ''type'', ''TypeError'', ''ValueError'',
      ''ZeroDivisionError'', ''zip'']"

definition import_root :: "string \<Rightarrow> string" where
  "import_root name = takeWhile (\<lambda>c. c \<noteq> CHR ''.'') name"

definition guarded_import :: "(string \<Rightarrow> string + 'm) \<Rightarrow> string \<Rightarrow> string + 'm" where
  "guarded_import real_import name =
     (let root = import_root name
      in if root \<in> set DENIED_IMPORT_ROOTS then Inl (''Import of '' @ root @ '' is not available during execution'')
         else real_import name)"

datatype ('b, 'm) builtin_value = Builtin 'b | GuardedImport "string \<Rightarrow> string + 'm"

text \<open>\<open>None\<close> is the \<^verbatim>\<open>AttributeError\<close> of an interpreter that lacks one of the names.\<close>

fun pick_builtins :: "(string \<Rightarrow> 'b option) \<Rightarrow> string list \<Rightarrow> (string \<times> ('b, 'm) builtin_value) list option" where
  "pick_builtins builtins [] = Some []"
| "pick_builtins builtins (n # ns) =
     (case (builtins n, pick_builtins builtins ns) of
        (Some b, Some bs) \<Rightarrow> Some ((n, Builtin b) # bs)
      | _ \<Rightarrow> None)"

definition safe_builtins ::
  "(string \<Rightarrow> 'b option) \<Rightarrow> (string \<Rightarrow> string + 'm) \<Rightarrow> (string \<times> ('b, 'm) builtin_value) list option" where
  "safe_builtins builtins real_import =
     map_option (AList.update ''__import__'' (GuardedImport (guarded_import real_import))) (pick_builtins builtins SAFE_BUILTIN_NAMES)"

text \<open>The globals the module starts with, besides its built-ins.\<close>

definition module_globals :: "(string \<times> string) list" where
  "module_globals = [(''__file__'', ''script.py''), (''__name__'', ''__main__'')]"

lemma pick_builtins_keys: "pick_builtins builtins ns = Some bs \<Longrightarrow> map fst bs = ns"
  by (induction ns arbitrary: bs) (auto split: option.splits)

text \<open>
  A user's name for a built-in is one of the list or the guarded import; opening files, evaluating texts and
  looking up attributes by name are not among them.
\<close>

lemma safe_builtins_names:
  assumes "safe_builtins builtins real_import = Some bs"
  shows "set (map fst bs) = insert ''__import__'' (set SAFE_BUILTIN_NAMES)"
    and "map_of bs ''__import__'' = Some (GuardedImport (guarded_import real_import))"
proof -
  obtain cs where cs: "pick_builtins builtins SAFE_BUILTIN_NAMES = Some cs"
    and bs: "bs = AList.update ''__import__'' (GuardedImport (guarded_import real_import)) cs"
    using assms by (auto simp: safe_builtins_def)
  have "fst ` set cs = set SAFE_BUILTIN_NAMES" using pick_builtins_keys [OF cs] by (metis list.set_map)
  then show "set (map fst bs) = insert ''__import__'' (set SAFE_BUILTIN_NAMES)" by (simp add: bs dom_update)
  show "map_of bs ''__import__'' = Some (GuardedImport (guarded_import real_import))" by (simp add: bs update_conv')
qed

lemma unsafe_names:
  "list_all (\<lambda>n. n \<notin> set SAFE_BUILTIN_NAMES)
     [''open'', ''eval'', ''exec'', ''compile'', ''input'', ''getattr'', ''setattr'', ''vars'', ''globals'', ''__import__'']"
  by code_simp

text \<open>No spelling of a denied module gets past the guard, however many parts follow its name.\<close>

lemma guard_refuses:
  assumes "denied \<in> set DENIED_IMPORT_ROOTS"
  shows "guarded_import real_import denied = Inl (''Import of '' @ denied @ '' is not available during execution'')"
    and "guarded_import real_import (denied @ ''.'' @ rest) = Inl (''Import of '' @ denied @ '' is not available during execution'')"
proof -
  have "list_all (\<lambda>r. CHR ''.'' \<notin> set r) DENIED_IMPORT_ROOTS" by code_simp
  then have "CHR ''.'' \<notin> set denied" using assms by (simp add: list_all_iff)
  then have "takeWhile (\<lambda>c. c \<noteq> CHR ''.'') (denied @ t) = denied @ takeWhile (\<lambda>c. c \<noteq> CHR ''.'') t" for t
    by (induction denied) auto
  from this [of "[]"] this [of "''.'' @ rest"] have "import_root denied = denied" "import_root (denied @ ''.'' @ rest) = denied"
    by (simp_all add: import_root_def)
  then show "guarded_import real_import denied = Inl (''Import of '' @ denied @ '' is not available during execution'')"
    "guarded_import real_import (denied @ ''.'' @ rest) = Inl (''Import of '' @ denied @ '' is not available during execution'')"
    using assms by (simp_all add: guarded_import_def)
qed

section \<open>The child's main function\<close>

text \<open>
  What the child reads on its input and writes as its answer. \<open>load\<close> is what executing the module comes to, \<open>call\<close> what
  calling the method on the input does: the time it took, what it printed and how it ended. \<open>trace\<close> is the text of an exception
  outside the user's code. The parent always sends a number as the index.
\<close>

definition child_main ::
  "(string \<Rightarrow> json option) \<Rightarrow> string \<Rightarrow> (string \<Rightarrow> preflight_outcome) \<Rightarrow>
   (string \<Rightarrow> string \<Rightarrow> (string \<times> json) list \<Rightarrow> js_number \<times> string list \<times> user_outcome) \<Rightarrow> string \<Rightarrow> json" where
  "child_main loads trace load call stdin =
     (case loads stdin of
        Some (JObj kvs) \<Rightarrow>
          (if map_of kvs ''mode'' = Some (JStr ''preflight'') then
             (case map_of kvs ''user_code'' of
                Some (JStr code) \<Rightarrow> child_preflight (load code)
              | _ \<Rightarrow> child_preflight (RuntimeFails trace))
           else (case map_of kvs ''index'' of
                   Some (JNum x) \<Rightarrow>
                     (let (elapsed, prints, outcome) =
                        (case (map_of kvs ''user_code'', map_of kvs ''method_name'', map_of kvs ''input'') of
                           (Some (JStr code), Some (JStr methodName), Some (JObj input)) \<Rightarrow> call code methodName input
                         | _ \<Rightarrow> (0, [], Raises trace))
                      in child_case (\<lambda>_. x) 0 elapsed prints outcome)
                 | _ \<Rightarrow> preflight_failure ''runtime_error'' trace))
      | _ \<Rightarrow> preflight_failure ''runtime_error'' trace)"

text \<open>A child that is started, answers in time and exits.\<close>

definition finished_child ::
  "(json \<Rightarrow> string) \<Rightarrow> (string \<Rightarrow> json option) \<Rightarrow> string \<Rightarrow> (string \<Rightarrow> preflight_outcome) \<Rightarrow>
   (string \<Rightarrow> string \<Rightarrow> (string \<times> json) list \<Rightarrow> js_number \<times> string list \<times> user_outcome) \<Rightarrow> json \<Rightarrow> child_process" where
  "finished_child dumps loads trace load call payload = Exits (dumps (child_main loads trace load call (dumps payload))) []"

lemma child_main_case:
  assumes "loads (dumps (case_payload num userCode methodName i input)) = Some (case_payload num userCode methodName i input)"
    and "call userCode methodName input = (elapsed, prints, outcome)"
  shows "child_main loads trace load call (dumps (case_payload num userCode methodName i input))
    = child_case num i elapsed prints outcome"
  using assms
  by (simp add: child_main_def case_payload_def child_case_def case_result_json_def case_error_result_def
      split: user_outcome.split)

lemma child_main_preflight:
  assumes "loads (dumps (preflight_payload userCode)) = Some (preflight_payload userCode)"
  shows "child_main loads trace load call (dumps (preflight_payload userCode)) = child_preflight (load userCode)"
  using assms by (simp add: child_main_def preflight_payload_def)

end
