(* ===== verification/Harness_Template.thy ===== *)
theory Harness_Template
  imports Python_Harness
begin

text \<open>
  The text of the Python program, \<^verbatim>\<open>PYTHON_HARNESS_TEMPLATE\<close> of
  \<^verbatim>\<open>services/pythonHarness.ts\<close>, and how \<^verbatim>\<open>buildPythonHarness\<close> fills its holes: one
  replacement after the other, each of the first occurrence of its hole in what the ones before it left. The program that is run is the one the
  other theories model only if every hole got its own literal, and \<open>fills_plainly\<close> says when it did.
\<close>

section \<open>The text\<close>

definition py_lines :: "string list \<Rightarrow> string" where
  "py_lines ls = concat (map (\<lambda>l. l @ [newline]) ls)"

definition HARNESS_HEAD :: string where
  "HARNESS_HEAD = py_lines
    [''import __future__'',
     ''import builtins as _builtins'',
     ''import json as _json'',
     ''import os as _os'',
     ''import subprocess as _subprocess'',
     ''import sys as _sys'',
     ''import time as _time'',
     ''import traceback as _traceback'',
     [],
     ''_JSON_DUMPS = _json.dumps'',
     ''_JSON_LOADS = _json.loads'',
     ''_TRACEBACK_FORMAT_EXC = _traceback.format_exc'',
     ''_PERF_COUNTER = _time.perf_counter'',
     ''_REPR = repr'',
     ''_COMPILE = compile'',
     ''_EXEC = exec'',
     ''_REAL_IMPORT = _builtins.__import__'']"

definition HARNESS_NAMES :: string where
  "HARNESS_NAMES = py_lines
    [[],
     ''_DENIED_IMPORT_ROOTS = {'',
     ''    \"ctypes\",'',
     ''    \"importlib\",'',
     ''    \"inspect\",'',
     ''    \"multiprocessing\",'',
     ''    \"os\",'',
     ''    \"subprocess\",'',
     ''    \"sys\",'',
     ''}'',
     [],
     ''_SAFE_BUILTIN_NAMES = ('',
     ''    \"__build_class__\",'',
     ''    \"abs\",'',
     ''    \"all\",'',
     ''    \"any\",'',
     ''    \"ArithmeticError\",'',
     ''    \"AttributeError\",'',
     ''    \"BaseException\",'',
     ''    \"bool\",'',
     ''    \"bytes\",'',
     ''    \"callable\",'',
     ''    \"chr\",'',
     ''    \"classmethod\",'',
     ''    \"complex\",'',
     ''    \"dict\",'',
     ''    \"divmod\",'',
     ''    \"enumerate\",'',
     ''    \"Exception\",'',
     ''    \"filter\",'',
     ''    \"float\",'',
     ''    \"format\",'',
     ''    \"frozenset\",'',
     ''    \"hash\",'',
     ''    \"hex\",'',
     ''    \"id\",'',
     ''    \"IndexError\",'',
     ''    \"int\",'',
     ''    \"isinstance\",'',
     ''    \"issubclass\",'',
     ''    \"iter\",'',
     ''    \"KeyError\",'',
     ''    \"len\",'',
     ''    \"list\",'',
     ''    \"LookupError\",'',
     ''    \"map\",'',
     ''    \"max\",'',
     ''    \"min\",'',
     ''    \"NameError\",'',
     ''    \"next\",'',
     ''    \"NotImplemented\",'',
     ''    \"NotImplementedError\",'',
     ''    \"object\",'',
     ''    \"ord\",'',
     ''    \"pow\",'',
     ''    \"print\",'',
     ''    \"property\",'',
     ''    \"range\",'',
     ''    \"repr\",'',
     ''    \"reversed\",'',
     ''    \"round\",'',
     ''    \"RuntimeError\",'',
     ''    \"set\",'',
     ''    \"slice\",'',
     ''    \"sorted\",'',
     ''    \"staticmethod\",'',
     ''    \"StopIteration\",'',
     ''    \"str\",'',
     ''    \"sum\",'',
     ''    \"super\",'',
     ''    \"tuple\",'',
     ''    \"type\",'',
     ''    \"TypeError\",'',
     ''    \"ValueError\",'',
     ''    \"ZeroDivisionError\",'',
     ''    \"zip\",'',
     '')'']"

definition HARNESS_SUPPORT :: string where
  "HARNESS_SUPPORT = py_lines
    [[],
     [],
     ''class _BoundedStdout:'',
     ''    def __init__(self, limit):'',
     ''        self._limit = limit'',
     ''        self._size = 0'',
     ''        self._parts = []'',
     ''        self.truncated = False'',
     [],
     ''    def write(self, value):'',
     ''        text = str(value)'',
     ''        remaining = self._limit - self._size'',
     ''        if remaining > 0:'',
     ''            chunk = text[:remaining]'',
     ''            self._parts.append(chunk)'',
     ''            self._size += len(chunk)'',
     ''        if len(text) > remaining:'',
     ''            self.truncated = True'',
     ''        return len(text)'',
     [],
     ''    def flush(self):'',
     ''        return None'',
     [],
     ''    def getvalue(self):'',
     ''        return \"\".join(self._parts)'',
     [],
     [],
     ''def _truncate_text(value, limit):'',
     ''    text = str(value)'',
     ''    if len(text) <= limit:'',
     ''        return text, False'',
     ''    return text[:limit], True'',
     [],
     [],
     ''def _safe_repr(value):'',
     ''    try:'',
     ''        text = _REPR(value)'',
     ''    except BaseException:'',
     ''        text = \"<unrepresentable>\"'',
     ''    return _truncate_text(text, _CASE_ERROR_LIMIT)[0]'',
     [],
     [],
     ''def _guarded_import(name, globals=None, locals=None, fromlist=(), level=0):'',
     ''    root = name.split(\".\", 1)[0]'',
     ''    if root in _DENIED_IMPORT_ROOTS:'',
     ''        raise ImportError(f\"Import of {root} is not available during execution\")'',
     ''    return _REAL_IMPORT(name, globals, locals, fromlist, level)'',
     [],
     [],
     ''def _safe_builtins():'',
     ''    safe = {name: getattr(_builtins, name) for name in _SAFE_BUILTIN_NAMES}'',
     ''    safe[\"__import__\"] = _guarded_import'',
     ''    return safe'',
     [],
     [],
     ''def _compile_user_code(user_code):'',
     ''    return _COMPILE('',
     ''        user_code,'',
     ''        \"script.py\",'',
     ''        \"exec\",'',
     ''        flags=__future__.annotations.compiler_flag,'',
     ''        dont_inherit=True,'',
     ''    )'',
     [],
     [],
     ''def _execute_user_module(user_code):'',
     ''    user_globals = {'',
     ''        \"__builtins__\": _safe_builtins(),'',
     ''        \"__file__\": \"script.py\",'',
     ''        \"__name__\": \"__main__\",'',
     ''    }'',
     ''    compiled_user_code = _compile_user_code(user_code)'',
     ''    _EXEC(compiled_user_code, user_globals)'',
     ''    return user_globals'']"

definition HARNESS_CHILD :: string where
  "HARNESS_CHILD = py_lines
    [[],
     [],
     ''def _case_error_result(index, elapsed_ms, error):'',
     ''    truncated_error, is_truncated = _truncate_text(error, _CASE_ERROR_LIMIT)'',
     ''    result = {'',
     ''        \"index\": index,'',
     ''        \"status\": \"error\",'',
     ''        \"elapsed_ms\": elapsed_ms,'',
     ''        \"error\": truncated_error,'',
     ''    }'',
     ''    if is_truncated:'',
     ''        result[\"error_truncated\"] = True'',
     ''    return result'',
     [],
     [],
     ''def _child_failure_result(index, message):'',
     ''    return _case_error_result(index, 0, message)'',
     [],
     [],
     ''def _child_preflight(payload):'',
     ''    try:'',
     ''        _execute_user_module(payload[\"user_code\"])'',
     ''        return {\"status\": \"ok\"}'',
     ''    except SyntaxError:'',
     ''        error, truncated = _truncate_text(_TRACEBACK_FORMAT_EXC(), _CASE_ERROR_LIMIT)'',
     ''        result = {\"status\": \"syntax_error\", \"error\": error}'',
     ''        if truncated:'',
     ''            result[\"error_truncated\"] = True'',
     ''        return result'',
     ''    except BaseException:'',
     ''        error, truncated = _truncate_text(_TRACEBACK_FORMAT_EXC(), _CASE_ERROR_LIMIT)'',
     ''        result = {\"status\": \"runtime_error\", \"error\": error}'',
     ''        if truncated:'',
     ''            result[\"error_truncated\"] = True'',
     ''        return result'',
     [],
     [],
     ''def _child_case(payload, stdout_capture):'',
     ''    index = payload[\"index\"]'',
     ''    start = _PERF_COUNTER()'',
     ''    try:'',
     ''        user_globals = _execute_user_module(payload[\"user_code\"])'',
     ''        solution_class = user_globals[\"Solution\"]'',
     ''        solution = solution_class()'',
     ''        method = getattr(solution, payload[\"method_name\"])'',
     ''        got = method(**payload[\"input\"])'',
     ''        elapsed = (_PERF_COUNTER() - start) * 1000'',
     ''        try:'',
     ''            got_json = _JSON_LOADS(_JSON_DUMPS(got, allow_nan=False))'',
     ''            result = {'',
     ''                \"index\": index,'',
     ''                \"status\": \"ok\",'',
     ''                \"elapsed_ms\": elapsed,'',
     ''                \"got_json\": got_json,'',
     ''                \"got_repr\": _safe_repr(got),'',
     ''            }'',
     ''        except (TypeError, ValueError):'',
     ''            result = {'',
     ''                \"index\": index,'',
     ''                \"status\": \"unserializable\",'',
     ''                \"elapsed_ms\": elapsed,'',
     ''                \"got_repr\": _safe_repr(got),'',
     ''            }'',
     ''    except BaseException:'',
     ''        elapsed = (_PERF_COUNTER() - start) * 1000'',
     ''        result = _case_error_result(index, elapsed, _TRACEBACK_FORMAT_EXC())'',
     [],
     ''    return {'',
     ''        \"status\": \"ok\",'',
     ''        \"result\": result,'',
     ''        \"user_stdout\": stdout_capture.getvalue(),'',
     ''        \"user_stdout_truncated\": stdout_capture.truncated,'',
     ''    }'',
     [],
     [],
     ''def _child_main():'',
     ''    result_fd = _os.dup(1)'',
     ''    result_stdout = _os.fdopen(result_fd, \"w\")'',
     ''    devnull_fd = _os.open(_os.devnull, _os.O_WRONLY)'',
     ''    _os.dup2(devnull_fd, 1)'',
     ''    _os.close(devnull_fd)'',
     [],
     ''    stdout_capture = _BoundedStdout(_USER_STDOUT_LIMIT)'',
     ''    _sys.stdout = stdout_capture'',
     [],
     ''    try:'',
     ''        payload = _JSON_LOADS(_sys.stdin.read())'',
     ''        if payload.get(\"mode\") == \"preflight\":'',
     ''            result = _child_preflight(payload)'',
     ''        else:'',
     ''            result = _child_case(payload, stdout_capture)'',
     ''    except BaseException:'',
     ''        error, truncated = _truncate_text(_TRACEBACK_FORMAT_EXC(), _CASE_ERROR_LIMIT)'',
     ''        result = {\"status\": \"runtime_error\", \"error\": error}'',
     ''        if truncated:'',
     ''            result[\"error_truncated\"] = True'',
     [],
     ''    result_stdout.write(_JSON_DUMPS(result, allow_nan=False))'',
     ''    result_stdout.flush()'',
     [],
     [],
     ''def _script_path():'',
     ''    return _os.path.abspath(globals().get(\"__file__\", _sys.argv[0]))'']"

definition HARNESS_PARENT :: string where
  "HARNESS_PARENT = py_lines
    [[],
     [],
     ''def _run_child(payload):'',
     ''    try:'',
     ''        process = _subprocess.Popen('',
     ''            [_sys.executable, _script_path(), \"--codeshare-child\"],'',
     ''            stdin=_subprocess.PIPE,'',
     ''            stdout=_subprocess.PIPE,'',
     ''            stderr=_subprocess.PIPE,'',
     ''            text=True,'',
     ''        )'',
     ''        stdout, stderr = process.communicate('',
     ''            _JSON_DUMPS(payload, allow_nan=False),'',
     ''            timeout=_CHILD_TIMEOUT_SECONDS,'',
     ''        )'',
     ''    except _subprocess.TimeoutExpired:'',
     ''        process.kill()'',
     ''        stdout, stderr = process.communicate()'',
     ''        return {'',
     ''            \"status\": \"child_error\",'',
     ''            \"error\": \"Execution process timed out.\",'',
     ''            \"stderr\": stderr,'',
     ''        }'',
     ''    except BaseException:'',
     ''        return {'',
     ''            \"status\": \"child_error\",'',
     ''            \"error\": _TRACEBACK_FORMAT_EXC(),'',
     ''            \"stderr\": \"\",'',
     ''        }'',
     [],
     ''    if process.returncode != 0:'',
     ''        return {'',
     ''            \"status\": \"child_error\",'',
     ''            \"error\": \"Execution process exited unexpectedly.\",'',
     ''            \"stderr\": stderr,'',
     ''        }'',
     [],
     ''    if len(stdout) > _HARNESS_PAYLOAD_LIMIT:'',
     ''        return {'',
     ''            \"status\": \"child_error\",'',
     ''            \"error\": \"Execution process produced too much harness output.\",'',
     ''            \"stderr\": stderr,'',
     ''        }'',
     [],
     ''    try:'',
     ''        return _JSON_LOADS(stdout)'',
     ''    except BaseException:'',
     ''        return {'',
     ''            \"status\": \"child_error\",'',
     ''            \"error\": \"Execution process returned invalid harness output.\",'',
     ''            \"stderr\": stderr,'',
     ''        }'',
     [],
     [],
     ''def _emit_tagged_payload(start_tag, end_tag, payload):'',
     ''    _sys.stdout.write(start_tag + \"'' @ [CHR 0x5C] @ ''n\")'',
     ''    _sys.stdout.write(_JSON_DUMPS(payload, allow_nan=False))'',
     ''    _sys.stdout.write(\"'' @ [CHR 0x5C] @ ''n\" + end_tag + \"'' @ [CHR 0x5C] @ ''n\")'',
     ''    _sys.stdout.flush()'',
     [],
     [],
     ''def _emit_compilation_error(error):'',
     ''    _emit_tagged_payload('',
     ''        \"===HARNESS_COMPILATION_ERROR_\" + _NONCE + \"===\",'',
     ''        \"===END_HARNESS_COMPILATION_ERROR_\" + _NONCE + \"===\",'',
     ''        {\"error\": error},'',
     ''    )'',
     [],
     [],
     ''def _emit_runtime_error(error):'',
     ''    _emit_tagged_payload('',
     ''        \"===HARNESS_RUNTIME_ERROR_\" + _NONCE + \"===\",'',
     ''        \"===END_HARNESS_RUNTIME_ERROR_\" + _NONCE + \"===\",'',
     ''        {\"error\": error},'',
     ''    )'',
     [],
     [],
     ''def _emit_result(results, stdout_capture):'',
     ''    payload = {'',
     ''        \"results\": results,'',
     ''        \"userStdout\": stdout_capture.getvalue(),'',
     ''    }'',
     ''    if stdout_capture.truncated:'',
     ''        payload[\"metadata\"] = {\"userStdoutTruncated\": True}'',
     ''    _emit_tagged_payload('',
     ''        \"===HARNESS_RESULT_\" + _NONCE + \"===\",'',
     ''        \"===END_HARNESS_RESULT_\" + _NONCE + \"===\",'',
     ''        payload,'',
     ''    )'',
     [],
     [],
     ''def _handle_preflight_failure(result):'',
     ''    error = result.get(\"error\", \"Execution failed before running test cases.\")'',
     ''    if result.get(\"status\") == \"syntax_error\":'',
     ''        _emit_compilation_error(error)'',
     ''        return True'',
     ''    if result.get(\"status\") in {\"runtime_error\", \"child_error\"}:'',
     ''        _emit_runtime_error(error)'',
     ''        return True'',
     ''    return False'',
     [],
     [],
     ''def _parent_main():'',
     ''    preflight = _run_child({\"mode\": \"preflight\", \"user_code\": _USER_CODE})'',
     ''    if _handle_preflight_failure(preflight):'',
     ''        return'',
     [],
     ''    user_stdout = _BoundedStdout(_USER_STDOUT_LIMIT)'',
     ''    results = []'',
     [],
     ''    for index, test_case in enumerate(_TEST_CASES):'',
     ''        child_result = _run_child('',
     ''            {'',
     ''                \"mode\": \"case\",'',
     ''                \"index\": index,'',
     ''                \"input\": test_case[\"input\"],'',
     ''                \"method_name\": _METHOD_NAME,'',
     ''                \"user_code\": _USER_CODE,'',
     ''            }'',
     ''        )'',
     ''        if child_result.get(\"status\") == \"ok\":'',
     ''            results.append(child_result[\"result\"])'',
     ''            user_stdout.write(child_result.get(\"user_stdout\", \"\"))'',
     ''            if child_result.get(\"user_stdout_truncated\"):'',
     ''                user_stdout.truncated = True'',
     ''            continue'',
     [],
     ''        results.append('',
     ''            _child_failure_result('',
     ''                index,'',
     ''                child_result.get(\"error\", \"Execution process failed.\"),'',
     ''            )'',
     ''        )'',
     [],
     ''    _emit_result(results, user_stdout)'',
     [],
     [],
     ''if len(_sys.argv) > 1 and _sys.argv[1] == \"--codeshare-child\":'',
     ''    _child_main()'',
     ''else:'',
     ''    _parent_main()'']"

text \<open>The program with seven texts in its holes, in the order the holes stand.\<close>

definition harness_text ::
  "string \<Rightarrow> string \<Rightarrow> string \<Rightarrow> string \<Rightarrow> string \<Rightarrow> string \<Rightarrow> string \<Rightarrow> string" where
  "harness_text stdoutLimit errorLimit payloadLimit code cases methodName nonce =
     HARNESS_HEAD
     @ ''_USER_STDOUT_LIMIT = '' @ stdoutLimit @ newline # ''_CASE_ERROR_LIMIT = '' @ errorLimit
     @ newline # ''_HARNESS_PAYLOAD_LIMIT = '' @ payloadLimit @ newline # ''_CHILD_TIMEOUT_SECONDS = 10''
     @ newline # ''_USER_CODE = '' @ code @ newline # ''_TEST_CASES = '' @ cases
     @ newline # ''_METHOD_NAME = '' @ methodName @ newline # ''_NONCE = '' @ nonce
     @ newline # HARNESS_NAMES @ HARNESS_SUPPORT @ HARNESS_CHILD @ HARNESS_PARENT"

definition PYTHON_HARNESS_TEMPLATE :: string where
  "PYTHON_HARNESS_TEMPLATE =
     harness_text ''{user_stdout_limit}'' ''{case_error_limit}'' ''{harness_payload_limit}'' ''{user_code_json}''
       ''{test_cases_json}'' ''{method_name_json}'' ''{nonce_json}''"

definition buildPythonHarness ::
  "(json \<Rightarrow> string) \<Rightarrow> string \<Rightarrow> (string \<times> json) list list \<Rightarrow> string \<Rightarrow> string \<Rightarrow> string" where
  "buildPythonHarness stringify userCode inputs methodName nonce =
     (let t1 = js_replace ''{user_code_json}'' (stringify (JStr userCode)) PYTHON_HARNESS_TEMPLATE;
          t2 = js_replace ''{test_cases_json}'' (stringify (inputs_json inputs)) t1;
          t3 = js_replace ''{method_name_json}'' (stringify (JStr methodName)) t2;
          t4 = js_replace ''{nonce_json}'' (stringify (JStr nonce)) t3;
          t5 = js_replace ''{user_stdout_limit}'' (string_of_nat USER_STDOUT_CHARS) t4;
          t6 = js_replace ''{case_error_limit}'' (string_of_nat CASE_ERROR_CHARS) t5
      in js_replace ''{harness_payload_limit}'' (string_of_nat HARNESS_PAYLOAD_CHARS) t6)"

text \<open>The program that was meant: every literal in its own hole.\<close>

definition intended_program ::
  "(json \<Rightarrow> string) \<Rightarrow> string \<Rightarrow> (string \<times> json) list list \<Rightarrow> string \<Rightarrow> string \<Rightarrow> string" where
  "intended_program stringify userCode inputs methodName nonce =
     harness_text (string_of_nat USER_STDOUT_CHARS) (string_of_nat CASE_ERROR_CHARS) (string_of_nat HARNESS_PAYLOAD_CHARS)
       (stringify (JStr userCode)) (stringify (inputs_json inputs)) (stringify (JStr methodName)) (stringify (JStr nonce))"

text \<open>
  What becomes of a submission: its program is built and run. If the program is the intended one, its variables hold
  the values whose literals stand in it; what Python makes of any other text is the parameter \<open>run_other\<close>.
\<close>

definition harness_main ::
  "(nat \<Rightarrow> js_number) \<Rightarrow> (json \<Rightarrow> string) \<Rightarrow> (json \<Rightarrow> string) \<Rightarrow> (string \<Rightarrow> json option) \<Rightarrow> (json \<Rightarrow> child_process) \<Rightarrow>
   (json \<Rightarrow> string) \<Rightarrow> (string \<Rightarrow> harness_output) \<Rightarrow>
   string \<Rightarrow> (string \<times> json) list list \<Rightarrow> string \<Rightarrow> string \<Rightarrow> harness_output" where
  "harness_main num other dumps loads spawn stringify run_other userCode inputs methodName nonce =
     (let program = buildPythonHarness stringify userCode inputs methodName nonce
      in if program = intended_program stringify userCode inputs methodName nonce
         then harness_module num other dumps loads spawn userCode inputs methodName nonce
         else run_other program)"

section \<open>Filling holes\<close>

lemma expand_skip: "c \<noteq> CHR ''$'' \<Longrightarrow> expand before matched after (c # s) = c # expand before matched after s"
  by (cases s) simp_all

lemma expand_plain: "CHR ''$'' \<notin> set x \<Longrightarrow> expand before matched after (x @ s) = x @ expand before matched after s"
  by (induction x) (simp_all add: expand_skip [OF not_sym])

lemma js_replace_at:
  "indexOf pat (a @ pat @ b) 0 = Some (length a) \<Longrightarrow> js_replace pat r (a @ pat @ b) = a @ expand a pat b r @ b"
  by (simp add: js_replace_def)

text \<open>A replacement text without a pattern of \<^verbatim>\<open>String.replace\<close>; other dollar signs are kept.\<close>

fun plain_replacement :: "string \<Rightarrow> bool" where
  "plain_replacement (c # d # s) =
     (\<not> (c = CHR ''$'' \<and> d \<in> {CHR ''$'', CHR ''&'', CHR 0x60, CHR 0x27}) \<and> plain_replacement (d # s))"
| "plain_replacement s = True"

lemma expand_id: "plain_replacement r \<Longrightarrow> expand before matched after r = r"
  by (induction before matched after r rule: expand.induct) auto

lemma includes_str_boundary:
  assumes "includes_str h (x @ y)" and "h \<noteq> []" and "x \<noteq> []" and "last x \<notin> set h"
  shows "includes_str h x \<or> includes_str h y"
proof -
  obtain a b where "x @ y = a @ h @ b" using assms(1) by (auto simp: includes_str_iff)
  then consider us where "x = a @ us" "us @ y = h @ b" | us where "a = x @ us" "y = us @ h @ b"
    by (auto simp: append_eq_append_conv2)
  then show ?thesis
  proof cases
    case 1
    from 1(2) consider vs where "us = h @ vs" | vs where "h = us @ vs" "y = vs @ b"
      by (auto simp: append_eq_append_conv2)
    then show ?thesis
    proof cases
      case 1
      with \<open>x = a @ us\<close> show ?thesis by (auto simp: includes_str_iff)
    next
      case 2
      have "us = []"
      proof (rule ccontr)
        assume "us \<noteq> []"
        then have "last x \<in> set h" using \<open>x = a @ us\<close> 2(1) by simp
        with assms(4) show False by simp
      qed
      with 2 show ?thesis by (auto simp: includes_str_iff intro: exI [of _ "[]"])
    qed
  next
    case 2
    then show ?thesis by (auto simp: includes_str_iff)
  qed
qed

lemma includes_str_boundary':
  assumes "includes_str h (x @ c # y)" and "c \<notin> set h"
  shows "includes_str h x \<or> includes_str h y"
proof (cases "h = []")
  case True
  then show ?thesis by (auto simp: includes_str_iff)
next
  case False
  have "includes_str h ((x @ [c]) @ y)" using assms(1) by simp
  from includes_str_boundary [OF this False] assms(2) have "includes_str h (x @ [c]) \<or> includes_str h y" by simp
  moreover have "includes_str h x" if inc: "includes_str h (x @ [c])"
  proof -
    obtain a b where ab: "x @ [c] = a @ h @ b" using inc by (auto simp: includes_str_iff)
    have "b \<noteq> []"
    proof
      assume "b = []"
      with ab have "x @ [c] = a @ h" by simp
      then have "last h = c" using False by (metis last_appendR last_snoc)
      with False assms(2) show False by (metis last_in_set)
    qed
    then obtain b' e where "b = b' @ [e]" by (metis append_butlast_last_id)
    with ab have "x = a @ h @ b'" by simp
    then show ?thesis by (auto simp: includes_str_iff)
  qed
  ultimately show ?thesis by blast
qed

lemma first_hole:
  assumes "\<not> includes_str h before" and "h \<noteq> []" and "before \<noteq> []" and "last before \<notin> set h"
  shows "indexOf h (before @ h @ after) 0 = Some (length before)"
proof -
  have at: "occurs_at h (before @ h @ after) (length before)" by (simp add: occurs_at_def)
  then have "indexOf h (before @ h @ after) 0 \<noteq> None" unfolding indexOf_None by blast
  then obtain i where i: "indexOf h (before @ h @ after) 0 = Some i" by auto
  note f = indexOf_Some [OF i]
  have "\<not> i < length before"
  proof
    assume l: "i < length before"
    define us where "us = drop i before"
    have us: "us \<noteq> []" "last us = last before" "\<exists>a. before = a @ us"
      using l by (auto simp: us_def intro: append_take_drop_id [symmetric])
    have "take (length h) (us @ h @ after) = h"
      using f l by (simp add: occurs_at_def us_def)
    then obtain b where "us @ h @ after = h @ b" by (metis append_take_drop_id)
    then consider vs where "us = h @ vs" | vs where "h = us @ vs" by (auto simp: append_eq_append_conv2)
    then show False
    proof cases
      case 1
      with us(3) assms(1) show False by (auto simp: includes_str_iff)
    next
      case 2
      then have "last us \<in> set h" using us(1) by simp
      with us(2) assms(4) show False by simp
    qed
  qed
  moreover have "\<not> length before < i" using f at by blast
  ultimately show ?thesis using i by simp
qed

lemma hole_filled:
  assumes "\<not> includes_str h before" and "h \<noteq> []" and "before \<noteq> []" and "last before \<notin> set h" and "plain_replacement r"
  shows "js_replace h r (before @ h @ after) = before @ r @ after"
  by (simp add: js_replace_at [OF first_hole [OF assms(1-4)]] expand_id [OF assms(5)])

text \<open>
  No replacement text has a pattern, and none has a hole in it that is filled later and stands later in the program. The holes
  of the limits are filled last but stand first, so that a submission may name them.
\<close>

definition fills_plainly :: "(json \<Rightarrow> string) \<Rightarrow> string \<Rightarrow> (string \<times> json) list list \<Rightarrow> string \<Rightarrow> string \<Rightarrow> bool" where
  "fills_plainly stringify userCode inputs methodName nonce \<longleftrightarrow>
     (let code = stringify (JStr userCode); cases = stringify (inputs_json inputs);
          name = stringify (JStr methodName); non = stringify (JStr nonce)
      in plain_replacement code \<and> plain_replacement cases \<and> plain_replacement name \<and> plain_replacement non
         \<and> \<not> includes_str ''{test_cases_json}'' code
         \<and> \<not> includes_str ''{method_name_json}'' code \<and> \<not> includes_str ''{method_name_json}'' cases
         \<and> \<not> includes_str ''{nonce_json}'' code \<and> \<not> includes_str ''{nonce_json}'' cases \<and> \<not> includes_str ''{nonce_json}'' name)"

text \<open>The parts of the program before each hole.\<close>

definition limits_front :: "string \<Rightarrow> string \<Rightarrow> string \<Rightarrow> string" where
  "limits_front stdoutLimit errorLimit payloadLimit =
     HARNESS_HEAD
     @ ''_USER_STDOUT_LIMIT = '' @ stdoutLimit @ newline # ''_CASE_ERROR_LIMIT = '' @ errorLimit
     @ newline # ''_HARNESS_PAYLOAD_LIMIT = '' @ payloadLimit @ newline # ''_CHILD_TIMEOUT_SECONDS = 10''
     @ newline # ''_USER_CODE = ''"

definition hole_front :: string where
  "hole_front = limits_front ''{user_stdout_limit}'' ''{case_error_limit}'' ''{harness_payload_limit}''"

text \<open>A hole does not begin in a text without an opening brace.\<close>

lemma head_has_no_hole: "CHR 0x7B \<notin> set HARNESS_HEAD"
  by (simp add: HARNESS_HEAD_def py_lines_def newline_def)

lemma includes_str_skip: "CHR 0x7B \<notin> set x \<Longrightarrow> includes_str (CHR 0x7B # h) (x @ y) = includes_str (CHR 0x7B # h) y"
  by (induction x) (auto simp: starts_with_def)

lemma starts_with_Cons: "starts_with [] s" "\<not> starts_with (c # p) []" "starts_with (c # p) (d # s) \<longleftrightarrow> c = d \<and> starts_with p s"
  by (auto simp: starts_with_def)

lemmas hole_search = includes_str_skip [OF head_has_no_hole] newline_def limits_front_def starts_with_Cons

lemma front_free:
  "\<not> includes_str ''{user_code_json}'' hole_front" "\<not> includes_str ''{test_cases_json}'' hole_front"
  "\<not> includes_str ''{method_name_json}'' hole_front" "\<not> includes_str ''{nonce_json}'' hole_front"
  by (simp_all add: hole_front_def hole_search)

lemma front_ends: "hole_front \<noteq> []" "last hole_front = CHR '' ''"
  by (simp_all add: hole_front_def limits_front_def)

lemma value_holes:
  "CHR '' '' \<notin> set ''{user_code_json}''" "CHR '' '' \<notin> set ''{test_cases_json}''"
  "CHR '' '' \<notin> set ''{method_name_json}''" "CHR '' '' \<notin> set ''{nonce_json}''"
  "newline \<notin> set ''{test_cases_json}''" "newline \<notin> set ''{method_name_json}''" "newline \<notin> set ''{nonce_json}''"
  by code_simp+

lemma between_free:
  "\<not> includes_str ''{test_cases_json}'' ''_TEST_CASES = ''" "\<not> includes_str ''{method_name_json}'' ''_TEST_CASES = ''"
  "\<not> includes_str ''{nonce_json}'' ''_TEST_CASES = ''" "\<not> includes_str ''{method_name_json}'' ''_METHOD_NAME = ''"
  "\<not> includes_str ''{nonce_json}'' ''_METHOD_NAME = ''" "\<not> includes_str ''{nonce_json}'' ''_NONCE = ''"
  by code_simp+

lemma free_append_line:
  assumes "\<not> includes_str h x" and "\<not> includes_str h y" and "newline \<notin> set h"
  shows "\<not> includes_str h (x @ newline # y)"
  using includes_str_boundary' [of h x newline y] assms by blast

lemma free_append_front:
  assumes "\<not> includes_str h x" and "\<not> includes_str h y" and "x \<noteq> []" and "last x = CHR '' ''" and "CHR '' '' \<notin> set h" and "h \<noteq> []"
  shows "\<not> includes_str h (x @ y)"
  using includes_str_boundary [of h x y] assms by auto

lemma digit_chars:
  "digit_char 1 = CHR ''1''" "digit_char 2 = CHR ''2''" "digit_char 3 = CHR ''3''" "digit_char 4 = CHR ''4''"
  "digit_char 6 = CHR ''6''" "digit_char 8 = CHR ''8''" "digit_char 9 = CHR ''9''"
  by code_simp+

lemma limit_texts:
  "string_of_nat USER_STDOUT_CHARS = ''16384''" "string_of_nat CASE_ERROR_CHARS = ''8192''"
  "string_of_nat HARNESS_PAYLOAD_CHARS = ''262144''"
  by (simp_all add: USER_STDOUT_CHARS_def CASE_ERROR_CHARS_def HARNESS_PAYLOAD_CHARS_def string_of_nat.simps digit_chars [unfolded One_nat_def])

lemma limit_fronts:
  "\<not> includes_str ''{user_stdout_limit}'' (HARNESS_HEAD @ ''_USER_STDOUT_LIMIT = '')"
  "\<not> includes_str ''{case_error_limit}'' (HARNESS_HEAD @ ''_USER_STDOUT_LIMIT = '' @ string_of_nat USER_STDOUT_CHARS
     @ newline # ''_CASE_ERROR_LIMIT = '')"
  "\<not> includes_str ''{harness_payload_limit}'' (HARNESS_HEAD @ ''_USER_STDOUT_LIMIT = '' @ string_of_nat USER_STDOUT_CHARS
     @ newline # ''_CASE_ERROR_LIMIT = '' @ string_of_nat CASE_ERROR_CHARS @ newline # ''_HARNESS_PAYLOAD_LIMIT = '')"
  by (simp_all add: limit_texts hole_search)

lemma limits_plain:
  "plain_replacement (string_of_nat USER_STDOUT_CHARS)" "plain_replacement (string_of_nat CASE_ERROR_CHARS)"
  "plain_replacement (string_of_nat HARNESS_PAYLOAD_CHARS)"
  by (simp_all add: limit_texts)

lemma limits_filled:
  "js_replace ''{harness_payload_limit}'' (string_of_nat HARNESS_PAYLOAD_CHARS)
     (js_replace ''{case_error_limit}'' (string_of_nat CASE_ERROR_CHARS)
        (js_replace ''{user_stdout_limit}'' (string_of_nat USER_STDOUT_CHARS)
           (harness_text ''{user_stdout_limit}'' ''{case_error_limit}'' ''{harness_payload_limit}'' code cases name nonce)))
   = harness_text (string_of_nat USER_STDOUT_CHARS) (string_of_nat CASE_ERROR_CHARS) (string_of_nat HARNESS_PAYLOAD_CHARS)
       code cases name nonce"
  using hole_filled [OF limit_fronts(1) _ _ _ limits_plain(1)] hole_filled [OF limit_fronts(2) _ _ _ limits_plain(2)]
    hole_filled [OF limit_fronts(3) _ _ _ limits_plain(3)]
  by (simp add: harness_text_def)

lemma values_filled:
  assumes plain: "plain_replacement code" "plain_replacement cases" "plain_replacement name" "plain_replacement nonce"
    and free: "\<not> includes_str ''{test_cases_json}'' code" "\<not> includes_str ''{method_name_json}'' code"
      "\<not> includes_str ''{method_name_json}'' cases" "\<not> includes_str ''{nonce_json}'' code"
      "\<not> includes_str ''{nonce_json}'' cases" "\<not> includes_str ''{nonce_json}'' name"
  shows "js_replace ''{nonce_json}'' nonce (js_replace ''{method_name_json}'' name (js_replace ''{test_cases_json}'' cases
      (js_replace ''{user_code_json}'' code PYTHON_HARNESS_TEMPLATE)))
    = harness_text ''{user_stdout_limit}'' ''{case_error_limit}'' ''{harness_payload_limit}'' code cases name nonce"
proof -
  define tail where "tail = newline # HARNESS_NAMES @ HARNESS_SUPPORT @ HARNESS_CHILD @ HARNESS_PARENT"
  let ?c = "newline # ''_TEST_CASES = ''" and ?m = "newline # ''_METHOD_NAME = ''" and ?n = "newline # ''_NONCE = ''"
  have shape: "harness_text ''{user_stdout_limit}'' ''{case_error_limit}'' ''{harness_payload_limit}'' a b c d
      = hole_front @ a @ ?c @ b @ ?m @ c @ ?n @ d @ tail" for a b c d
    by (simp add: harness_text_def hole_front_def limits_front_def tail_def)
  have 1: "\<not> includes_str ''{test_cases_json}'' (hole_front @ code @ ?c)"
    by (rule free_append_front [OF front_free(2) _ front_ends value_holes(2)])
      (use free_append_line [OF free(1) between_free(1) value_holes(5)] in simp_all)
  have 2: "\<not> includes_str ''{method_name_json}'' (hole_front @ code @ ?c @ cases @ ?m)"
  proof (rule free_append_front [OF front_free(3) _ front_ends value_holes(3)])
    have "\<not> includes_str ''{method_name_json}'' (''_TEST_CASES = '' @ cases @ ?m)"
      by (rule free_append_front [OF between_free(2) _ _ _ value_holes(3)])
        (use free_append_line [OF free(3) between_free(4) value_holes(6)] in simp_all)
    from free_append_line [OF free(2) this value_holes(6)]
    show "\<not> includes_str ''{method_name_json}'' (code @ ?c @ cases @ ?m)" by simp
  qed simp
  have 3: "\<not> includes_str ''{nonce_json}'' (hole_front @ code @ ?c @ cases @ ?m @ name @ ?n)"
  proof (rule free_append_front [OF front_free(4) _ front_ends value_holes(4)])
    have "\<not> includes_str ''{nonce_json}'' (''_METHOD_NAME = '' @ name @ ?n)"
      by (rule free_append_front [OF between_free(5) _ _ _ value_holes(4)])
        (use free_append_line [OF free(6) between_free(6) value_holes(7)] in simp_all)
    from free_append_line [OF free(5) this value_holes(7)]
    have "\<not> includes_str ''{nonce_json}'' (''_TEST_CASES = '' @ cases @ ?m @ name @ ?n)"
      by (intro free_append_front [OF between_free(3) _ _ _ value_holes(4)]) simp_all
    from free_append_line [OF free(4) this value_holes(7)]
    show "\<not> includes_str ''{nonce_json}'' (code @ ?c @ cases @ ?m @ name @ ?n)" by simp
  qed simp
  note hole1 = hole_filled [OF front_free(1) _ front_ends(1) _ plain(1), of "?c @ ''{test_cases_json}'' @ ?m @ ''{method_name_json}'' @ ?n @ ''{nonce_json}'' @ tail"]
  note hole2 = hole_filled [OF 1 _ _ _ plain(2), of "?m @ ''{method_name_json}'' @ ?n @ ''{nonce_json}'' @ tail"]
  note hole3 = hole_filled [OF 2 _ _ _ plain(3), of "?n @ ''{nonce_json}'' @ tail"]
  note hole4 = hole_filled [OF 3 _ _ _ plain(4), of tail]
  show ?thesis
    unfolding PYTHON_HARNESS_TEMPLATE_def shape
    using hole1 hole2 hole3 hole4 by (simp add: front_ends)
qed

lemma filled_program:
  assumes "fills_plainly stringify userCode inputs methodName nonce"
  shows "buildPythonHarness stringify userCode inputs methodName nonce = intended_program stringify userCode inputs methodName nonce"
  using assms
  by (simp add: fills_plainly_def buildPythonHarness_def intended_program_def Let_def values_filled limits_filled)

lemma harness_main_filled:
  assumes "fills_plainly stringify userCode inputs methodName nonce"
  shows "harness_main num other dumps loads spawn stringify run_other userCode inputs methodName nonce
    = harness_module num other dumps loads spawn userCode inputs methodName nonce"
  by (simp add: harness_main_def filled_program [OF assms])

end
