(* ===== verification/Judge_Verdict.thy ===== *)
theory Judge_Verdict
  imports Harness_Template Text_Codec
begin

text \<open>
  The judge from end to end: the program of \<^verbatim>\<open>services/pythonHarness.ts\<close> runs a
  submission on every test case, the server of \<^verbatim>\<open>services/ExecutionService.ts\<close> finds,
  checks and grades what it printed. What became of each child process is its \<open>fate\<close>; the
  lemmas follow a fate from the child through the parent and the parser to the graded case.
\<close>

section \<open>Bounded output\<close>

definition bs_ok :: "nat \<Rightarrow> string \<Rightarrow> bounded_stdout \<Rightarrow> bool" where
  "bs_ok l written b \<longleftrightarrow>
     bs_limit b = l \<and> bs_size b = length (bs_getvalue b) \<and> bs_getvalue b = take l written
     \<and> bs_truncated b = (l < length written)"

lemma bs_ok_new: "bs_ok l [] (new_stdout l)"
  by (simp add: bs_ok_def new_stdout_def bs_getvalue_def)

lemma bs_ok_write: "bs_ok l w b \<Longrightarrow> bs_ok l (w @ s) (bs_write s b)"
  by (cases "length w < l")
    (auto simp: bs_ok_def bs_write_def bs_getvalue_def Let_def nat_diff_distrib min_def)

lemma bs_ok_writes: "bs_ok l w b \<Longrightarrow> bs_ok l (w @ concat ws) (fold bs_write ws b)"
  by (induction ws arbitrary: w b) (auto dest: bs_ok_write simp flip: append_assoc)

section \<open>Fates\<close>

datatype child_fate = Dies string | Finishes js_number "string list" user_outcome

text \<open>The process ended as its fate says: it failed one way or another, or it printed its answer.\<close>

definition meets_fate ::
  "(nat \<Rightarrow> js_number) \<Rightarrow> (json \<Rightarrow> string) \<Rightarrow> (string \<Rightarrow> json option) \<Rightarrow> nat \<Rightarrow> child_process \<Rightarrow> child_fate \<Rightarrow> bool" where
  "meets_fate num dumps loads i p f =
     (case f of
        Dies msg \<Rightarrow> (\<exists>err. run_child loads p = child_error msg err)
      | Finishes el prints outcome \<Rightarrow>
          (let answer = child_case num i el prints outcome
           in (\<exists>err. p = Exits (dumps answer) err) \<and> length (dumps answer) \<le> HARNESS_PAYLOAD_CHARS
              \<and> loads (dumps answer) = Some answer))"

text \<open>What the parent reports of a fate, and what it adds to the output of the user's code.\<close>

definition case_report :: "(nat \<Rightarrow> js_number) \<Rightarrow> nat \<Rightarrow> child_fate \<Rightarrow> json" where
  "case_report num i f =
     (case f of
        Dies msg \<Rightarrow> case_error_result num i 0 msg
      | Finishes el prints outcome \<Rightarrow> case_result_json num i el outcome)"

definition fate_output :: "child_fate \<Rightarrow> bounded_stdout \<Rightarrow> bounded_stdout" where
  "fate_output f b =
     (case f of
        Dies msg \<Rightarrow> b
      | Finishes el prints outcome \<Rightarrow>
          (let b1 = bs_write (bs_getvalue (captured prints)) b
           in if bs_truncated (captured prints) then b1\<lparr>bs_truncated := True\<rparr> else b1))"

lemma parent_case_fate:
  assumes "meets_fate num dumps loads i p f"
  shows "parent_case num other i (run_child loads p) acc
    = Some (fst acc @ [case_report num i f], fate_output f (snd acc))"
proof (cases f)
  case (Dies msg)
  with assms obtain err where "run_child loads p = child_error msg err" by (auto simp: meets_fate_def)
  with Dies show ?thesis
    by (simp add: parent_case_def child_error_def py_str_def case_report_def fate_output_def)
next
  case (Finishes el prints outcome)
  with assms have "run_child loads p = child_case num i el prints outcome"
    by (auto simp: meets_fate_def run_child_def Let_def)
  with Finishes show ?thesis
    by (simp add: parent_case_def child_case_def py_str_def case_report_def fate_output_def Let_def)
qed

lemma parent_loop_fates:
  assumes "\<And>k. k < length inputs \<Longrightarrow> meets_fate num dumps loads (i + k) (spawn (i + k) (inputs ! k)) (f (i + k))"
  shows "parent_loop num other (\<lambda>j input. run_child loads (spawn j input)) i inputs acc
    = Some (fst acc @ map (\<lambda>j. case_report num j (f j)) [i..<i + length inputs],
            fold (\<lambda>j. fate_output (f j)) [i..<i + length inputs] (snd acc))"
  using assms
proof (induction inputs arbitrary: i acc)
  case (Cons input inputs)
  from Cons.prems [of 0] have m: "meets_fate num dumps loads i (spawn i input) (f i)" by simp
  have ih: "meets_fate num dumps loads (Suc i + k) (spawn (Suc i + k) (inputs ! k)) (f (Suc i + k))"
    if "k < length inputs" for k
    using Cons.prems [of "Suc k"] that by simp
  show ?case
    by (simp add: parent_case_fate [OF m] Cons.IH [OF ih] upt_conv_Cons del: upt_Suc)
qed simp

section \<open>Reports pass the schema\<close>

definition fate_finite :: "child_fate \<Rightarrow> bool" where
  "fate_finite f =
     (case f of
        Dies msg \<Rightarrow> True
      | Finishes el prints outcome \<Rightarrow>
          number_val el \<noteq> None \<and> (case outcome of Returns v rep \<Rightarrow> jsonValueSchema v | _ \<Rightarrow> True))"

text \<open>A fate answers a test case: the call returned a value deeply equal to the expected output.\<close>

definition solves :: "child_fate \<Rightarrow> js_unknown \<Rightarrow> bool" where
  "solves f expectedOutput \<longleftrightarrow>
     (case (f, expectedOutput) of
        (Finishes el prints (Returns v rep), Some e) \<Rightarrow> isDeepStrictEqual v e
      | _ \<Rightarrow> False)"

definition graded_ok :: "harness_case \<Rightarrow> js_unknown \<Rightarrow> bool" where
  "graded_ok c expectedOutput \<longleftrightarrow>
     (\<exists>el g rep e. c = OkCase (hc_index c) el g rep \<and> expectedOutput = Some e \<and> isDeepStrictEqual g e)"

lemma number_val_0: "number_val 0 = Some 0"
  by (simp add: number_val_def)

lemma z_int_of_nat:
  assumes "number_val x = Some (of_nat i)" and "i \<le> 9007199254740991"
  shows "z_int (Some (JNum x)) = Some (int i)"
proof -
  have "quotient_of (of_nat i) = (int i, 1)"
    using quotient_of_int [of "int i"] by (simp add: of_int_def)
  with assms show ?thesis by (simp add: z_int_def)
qed

lemma case_report_schema:
  assumes i: "number_val (num i) = Some (of_nat i)" "i \<le> 9007199254740991" and f: "fate_finite f"
  shows "\<exists>c. harnessCaseSchema (case_report num i f) = Some c \<and> hc_index c = int i
    \<and> (\<forall>e. graded_ok c e = solves f e)"
proof (cases f)
  case (Dies msg)
  then show ?thesis
    using z_int_of_nat [OF i]
    by (cases "snd (py_truncate_text msg CASE_ERROR_CHARS)")
      (auto simp: case_report_def case_error_result_def harnessErrorCaseSchema_def z_optional_def
        number_val_0 graded_ok_def solves_def split: prod.split)
next
  case (Finishes el prints outcome)
  with f obtain q where "number_val el = Some q" by (auto simp: fate_finite_def)
  with f Finishes show ?thesis
    using z_int_of_nat [OF i]
    by (cases outcome)
      (auto simp: case_report_def case_result_json_def case_error_result_def harnessErrorCaseSchema_def
        harnessOkCaseSchema_def harnessUnserializableCaseSchema_def z_optional_def
        fate_finite_def graded_ok_def solves_def split: prod.split option.splits)
qed

lemma z_array_map:
  assumes "\<And>x. x \<in> set xs \<Longrightarrow> P x (the (g x)) \<and> g x \<noteq> None"
  shows "\<exists>cs. z_array g xs = Some cs \<and> list_all2 P xs cs"
  using assms
proof (induction xs)
  case (Cons x xs)
  then obtain cs where "z_array g xs = Some cs" "list_all2 P xs cs" by auto
  moreover from Cons.prems [of x] obtain c where "g x = Some c" "P x c" by auto
  ultimately show ?case by auto
qed simp

lemma reports_accepted:
  assumes "\<And>i. i < n \<Longrightarrow> number_val (num i) = Some (of_nat i) \<and> fate_finite (f i)" and "n \<le> 9007199254740991"
  shows "\<exists>cs. z_array harnessCaseSchema (map (\<lambda>i. case_report num i (f i)) [0..<n]) = Some cs
    \<and> length cs = n \<and> (\<forall>i < n. hc_index (cs ! i) = int i \<and> (\<forall>e. graded_ok (cs ! i) e = solves (f i) e))"
proof -
  let ?rep = "\<lambda>i. case_report num i (f i)"
  let ?P = "\<lambda>i c. hc_index c = int i \<and> (\<forall>e. graded_ok c e = solves (f i) e)"
  have "?P i (the (harnessCaseSchema (?rep i))) \<and> harnessCaseSchema (?rep i) \<noteq> None" if "i \<in> set [0..<n]" for i
    using case_report_schema [of num i "f i"] assms that by fastforce
  from z_array_map [of "[0..<n]" ?P "\<lambda>i. harnessCaseSchema (?rep i)", OF this]
  obtain cs where cs: "z_array (\<lambda>i. harnessCaseSchema (?rep i)) [0..<n] = Some cs" and l2: "list_all2 ?P [0..<n] cs"
    by blast
  have "z_array harnessCaseSchema (map ?rep xs) = z_array (\<lambda>i. harnessCaseSchema (?rep i)) xs" for xs
    by (induction xs) simp_all
  with cs l2 show ?thesis by (auto simp: list_all2_conv_all_nth)
qed

lemma graded_by_index:
  assumes len: "length cs = length tcs"
    and at: "\<And>i. i < length tcs \<Longrightarrow> hc_index (cs ! i) = int i \<and> (\<forall>e. graded_ok (cs ! i) e = solves (f i) e)"
  shows "\<exists>gs. gradeHarnessResults stringify cs tcs = Some gs
    \<and> map gr_passed gs = map (\<lambda>i. solves (f i) (tc_expectedOutput (tcs ! i))) [0..<length tcs]"
proof -
  have idx: "map hc_index cs = map int [0..<length tcs]"
    by (rule nth_equalityI) (simp_all add: len at)
  then obtain gs where gs: "gradeHarnessResults stringify cs tcs = Some gs"
    using gradeHarnessResults_None [of stringify cs tcs] by (cases "gradeHarnessResults stringify cs tcs") auto
  note g = gradeHarnessResults_Some [OF gs]
  have lg: "length gs = length tcs" using arg_cong [OF g(1), of length] by simp
  have "gr_passed (gs ! i) = solves (f i) (tc_expectedOutput (tcs ! i))" if i: "i < length tcs" for i
  proof -
    have "c = cs ! i" if "c \<in> set cs" "hc_index c = int i" for c
      using that at i len by (auto simp: in_set_conv_nth)
    then have "case_passes cs tcs i = graded_ok (cs ! i) (tc_expectedOutput (tcs ! i))"
      using at [OF i] i len by (auto simp: case_passes_def graded_ok_def in_set_conv_nth) (metis hc_index.simps(1))+
    with at [OF i] g(2) [OF i] show ?thesis by simp
  qed
  with gs lg show ?thesis by (intro exI [of _ gs] conjI nth_equalityI) simp_all
qed

section \<open>The block is read back\<close>

text \<open>
  What is used of \<^verbatim>\<open>json.dumps\<close> against \<^verbatim>\<open>JSON.parse\<close>: the text is
  one line without outer white space, of an object it starts with a brace, and reads as the value.
\<close>

definition one_line_codec :: "(json \<Rightarrow> string) \<Rightarrow> (string \<Rightarrow> json option) \<Rightarrow> json \<Rightarrow> bool" where
  "one_line_codec dumps parse v \<longleftrightarrow>
     newline \<notin> set (dumps v) \<and> trim (dumps v @ [newline]) = dumps v \<and> starts_with ''{'' (dumps v)
     \<and> parse (dumps v) = Some v"

lemma emitted_is_found:
  assumes "newline \<notin> set nonce" and "one_line_codec dumps parse (result_payload results out)"
    and "length (dumps (result_payload results out)) \<le> HARNESS_PAYLOAD_CHARS"
  shows "parseResult parse (emit_result dumps nonce results out) nonce = Inr (result_payload results out)"
proof -
  let ?b = "dumps (result_payload results out)" and ?S = "start_tag ''RESULT'' nonce" and ?E = "end_tag ''RESULT'' nonce"
  have k: "newline \<notin> set ''RESULT''" by code_simp
  from assms(2) obtain rest where b: "?b = CHR ''{'' # rest"
    unfolding one_line_codec_def by (cases ?b) (auto simp: starts_with_def)
  have "emit_result dumps nonce results out = [] @ tagged_block ?S ?b ?E"
    by (simp add: emit_result_def emit_tagged_payload_def tagged_block_def)
  moreover have "?b \<noteq> ?S" "?b \<noteq> ?E" "?E \<noteq> []" by (simp_all add: b start_tag_def end_tag_def)
  moreover have "ends_line []" by (simp add: ends_line_def)
  ultimately show ?thesis
    using parseTaggedJson_block [OF _ newline_tags(1) [OF assms(1) k] newline_tags(2) [OF assms(1) k] _ tags_differ,
        of "[]" ?b parse] assms(2,3)
    by (simp add: parseResult_def one_line_codec_def Let_def)
qed

lemma result_payload_schema:
  assumes "z_array harnessCaseSchema results = Some cs"
  shows "\<exists>ph. harnessResultSchema (result_payload results out) = Some ph \<and> ph_results ph = cs"
  using assms by (simp add: result_payload_def z_optional_def)

text \<open>
  Inputs with \<^verbatim>\<open>null\<close>, \<^verbatim>\<open>true\<close> or \<^verbatim>\<open>false\<close> cannot
  be judged: they are spliced into the Python program as JSON, where these are undefined names, so the
  program stops before it runs anything, prints no block, and every submission to the problem is
  answered without a result.
\<close>

lemma null_inputs_crash:
  assumes "fills_plainly stringify userCode inputs methodName nonce" and "input \<in> set inputs" and "(k, v) \<in> set input" and "v \<in> {JNull, JBool True, JBool False} \<or> v = JArr vs \<and> JNull \<in> set vs"
  shows "harness_main num other dumps loads spawn stringify run_other userCode inputs methodName nonce = Crashed
    \<and> parseResult parse [] nonce = Inl MissingMarkers"
proof -
  have "\<not> python_reads v" using assms(4) by (fastforce simp: list_all_iff)
  with assms(2,3) have "\<not> python_reads (inputs_json inputs)"
    by (fastforce simp: inputs_json_def list_all_iff)
  moreover have "findLastMarkerLine [] (start_tag ''RESULT'' nonce) = None"
    by (simp add: findLastMarkerLine_None start_line_Nil start_tag_def)
  ultimately show ?thesis
    by (simp add: harness_main_filled [OF assms(1)] harness_module_def parseResult_def parseTaggedJson_def)
qed

text \<open>A child that finishes meets the fate its call decides, as long as its answer is within the limit and both languages read it back.\<close>

lemma finished_child_meets_fate:
  assumes payload: "payload = case_payload num userCode methodName i input"
    and "loads (dumps payload) = Some payload" and "call userCode methodName input = (elapsed, prints, outcome)"
    and "loads (dumps (child_case num i elapsed prints outcome)) = Some (child_case num i elapsed prints outcome)"
    and "length (dumps (child_case num i elapsed prints outcome)) \<le> HARNESS_PAYLOAD_CHARS"
  shows "meets_fate num dumps loads i (finished_child dumps loads trace load call payload) (Finishes elapsed prints outcome)"
proof -
  have "child_main loads trace load call (dumps payload) = child_case num i elapsed prints outcome"
    unfolding payload by (rule child_main_case) (use assms in simp_all)
  then show ?thesis using assms(4,5) by (simp add: meets_fate_def finished_child_def Let_def)
qed

text \<open>The nonce of an execution: eight random bytes in hexadecimal. Its tags are lines of their own.\<close>

definition generateNonce :: "nat list \<Rightarrow> string" where
  "generateNonce bytes = hexEncode bytes"

definition buildHarness :: "(json \<Rightarrow> string) \<Rightarrow> string \<Rightarrow> test_case list \<Rightarrow> string \<Rightarrow> string \<Rightarrow> string" where
  "buildHarness stringify userCode testCases methodName nonce =
     buildPythonHarness stringify userCode (map tc_input testCases) methodName nonce"

lemma nonce_is_one_line:
  assumes "list_all (\<lambda>b. b < 256) bytes"
  shows "newline \<notin> set (generateNonce bytes)" and "length (generateNonce bytes) = 2 * length bytes"
proof -
  have "\<not> lower_hex newline" by (simp add: lower_hex_def newline_def)
  then show "newline \<notin> set (generateNonce bytes)" using hexEncode_lower [OF assms] by (auto simp: generateNonce_def list_all_iff)
  show "length (generateNonce bytes) = 2 * length bytes"
    unfolding generateNonce_def by (induction bytes) simp_all
qed

section \<open>Properties\<close>

definition run_payload :: "(nat \<Rightarrow> js_number) \<Rightarrow> (nat \<Rightarrow> child_fate) \<Rightarrow> nat \<Rightarrow> json" where
  "run_payload num f n =
     result_payload (map (\<lambda>i. case_report num i (f i)) [0..<n])
       (fold (\<lambda>i. fate_output (f i)) [0..<n] (new_stdout USER_STDOUT_CHARS))"

text \<open>
  C2: The judge's verdict is that of a reference judge which calls the solution on every input and
  compares. Whatever the child processes did, crash, hang, print without end or return something
  JSON cannot hold, the parent prints one block, the server finds it, its schema accepts it, and the
  graded list marks a test case passed exactly when the call of that case returned a value deeply
  equal to the expected output. The holes of the program must be filled plainly, which excludes a submission with a replacement pattern of
  \<^verbatim>\<open>String.replace\<close> or with the name of a later hole, the inputs must mean the same in Python as in JSON, the numbers of
  the answers must be finite, and the block must be within the payload limit.
\<close>

theorem judge_verdict:
  assumes fills: "fills_plainly stringify userCode (map tc_input tcs) methodName nonce"
    and reads: "python_reads (inputs_json (map tc_input tcs))"
    and preflight: "run_child loads (spawn (preflight_payload userCode)) = child_preflight Compiles"
    and fates: "\<forall>i < length tcs. meets_fate num dumps loads i
          (spawn (case_payload num userCode methodName i (tc_input (tcs ! i)))) (f i) \<and> fate_finite (f i)
          \<and> number_val (num i) = Some (of_nat i)"
    and size: "length tcs \<le> 9007199254740991" "newline \<notin> set nonce"
    and payload: "one_line_codec dumps parse (run_payload num f (length tcs))"
      "length (dumps (run_payload num f (length tcs))) \<le> HARNESS_PAYLOAD_CHARS"
  shows "\<exists>out v ph gs.
     harness_main num other dumps loads spawn stringify run_other userCode (map tc_input tcs) methodName nonce = Printed out
     \<and> parseResult parse out nonce = Inr v \<and> harnessResultSchema v = Some ph
     \<and> gradeHarnessResults stringify (ph_results ph) tcs = Some gs
     \<and> map gr_passed gs = map (\<lambda>i. solves (f i) (tc_expectedOutput (tcs ! i))) [0..<length tcs]"
proof -
  let ?n = "length tcs" and ?inputs = "map tc_input tcs"
  let ?results = "map (\<lambda>i. case_report num i (f i)) [0..<?n]"
  let ?out = "fold (\<lambda>i. fate_output (f i)) [0..<?n] (new_stdout USER_STDOUT_CHARS)"
  have "parent_loop num other (\<lambda>i input. run_child loads (spawn (case_payload num userCode methodName i input)))
      0 ?inputs ([], new_stdout USER_STDOUT_CHARS) = Some (?results, ?out)"
    using parent_loop_fates [of ?inputs num dumps loads 0 "\<lambda>i input. spawn (case_payload num userCode methodName i input)" f other]
      fates by simp
  with reads preflight have "harness_main num other dumps loads spawn stringify run_other userCode ?inputs methodName nonce
      = Printed (emit_result dumps nonce ?results ?out)"
    by (simp add: harness_main_filled [OF fills] harness_module_def parent_main_def child_preflight_def handle_preflight_failure_def)
  moreover have "parseResult parse (emit_result dumps nonce ?results ?out) nonce = Inr (result_payload ?results ?out)"
    by (rule emitted_is_found) (use size payload in \<open>simp_all add: run_payload_def\<close>)
  moreover obtain cs where cs: "z_array harnessCaseSchema ?results = Some cs"
    and at: "length cs = ?n" "\<forall>i < ?n. hc_index (cs ! i) = int i \<and> (\<forall>e. graded_ok (cs ! i) e = solves (f i) e)"
    using reports_accepted [of ?n num f] fates size(1) by blast
  moreover obtain ph where "harnessResultSchema (result_payload ?results ?out) = Some ph" "ph_results ph = cs"
    using result_payload_schema [OF cs] by blast
  moreover obtain gs where "gradeHarnessResults stringify cs tcs = Some gs"
      "map gr_passed gs = map (\<lambda>i. solves (f i) (tc_expectedOutput (tcs ! i))) [0..<?n]"
    using graded_by_index [of cs tcs f stringify] at by blast
  ultimately show ?thesis by blast
qed

text \<open>A run of one case whose solution returns the number it was given.\<close>

definition sample_answer :: json where
  "sample_answer = child_case (\<lambda>_. 0) 0 0 [] (Returns (JNum 7) ''7'')"

definition sample_payload :: json where
  "sample_payload = run_payload (\<lambda>_. 0) (\<lambda>_. Finishes 0 [] (Returns (JNum 7) ''7'')) 1"

definition sample_dumps :: "json \<Rightarrow> string" where
  "sample_dumps v = (if v = sample_answer then ''{a}'' else if v = sample_payload then ''{r}'' else ''{p}'')"

definition sample_loads :: "string \<Rightarrow> json option" where
  "sample_loads s =
     (if s = ''{a}'' then Some sample_answer else if s = ''{r}'' then Some sample_payload
      else Some (child_preflight Compiles))"

definition sample_spawn :: "json \<Rightarrow> child_process" where
  "sample_spawn p = (if p = preflight_payload ''code'' then Exits ''{p}'' [] else Exits ''{a}'' [])"

lemma number_val_7: "number_val 7 = Some (7 / 2 ^ 1074)"
  by (simp add: number_val_def)

definition sample_stringify :: "json \<Rightarrow> string" where
  "sample_stringify v =
     (case v of JStr s \<Rightarrow> CHR 0x22 # s @ [CHR 0x22] | _ \<Rightarrow> ''[{'' @ [CHR 0x22] @ ''input'' @ [CHR 0x22] @ '':{}}]'')"

lemma fills_sample: "fills_plainly sample_stringify ''code'' (map tc_input [sample_test True 7]) ''solve'' ''ab''"
  by (simp add: fills_plainly_def sample_stringify_def inputs_json_def starts_with_Cons)

theorem judge_verdict_witness:
  "\<exists>out v ph gs.
     harness_main (\<lambda>_. 0) (\<lambda>_. []) sample_dumps sample_loads sample_spawn sample_stringify (\<lambda>_. Crashed) ''code'' [[(''n'', JNum 7)]] ''solve'' ''ab''
       = Printed out
     \<and> parseResult sample_loads out ''ab'' = Inr v \<and> harnessResultSchema v = Some ph
     \<and> gradeHarnessResults sample_stringify (ph_results ph) [sample_test True 7] = Some gs \<and> map gr_passed gs = [True]"
proof -
  let ?f = "\<lambda>_. Finishes 0 [] (Returns (JNum 7) ''7'')" and ?tcs = "[sample_test True 7]"
  have ne: "sample_payload \<noteq> sample_answer"
    by (simp add: sample_payload_def sample_answer_def run_payload_def result_payload_def child_case_def)
  have tr: "trim (''{r}'' @ [newline]) = ''{r}''" "newline \<notin> set ''{r}''" "newline \<notin> set ''ab''" by code_simp+
  have 1: "python_reads (inputs_json (map tc_input ?tcs))" by (simp add: inputs_json_def sample_test_def)
  have 2: "run_child sample_loads (sample_spawn (preflight_payload ''code'')) = child_preflight Compiles"
    by (simp add: run_child_def sample_spawn_def sample_loads_def HARNESS_PAYLOAD_CHARS_def)
  have "meets_fate (\<lambda>_. 0) sample_dumps sample_loads 0
      (sample_spawn (case_payload (\<lambda>_. 0) ''code'' ''solve'' 0 (tc_input (?tcs ! 0)))) (?f 0)"
    by (simp add: meets_fate_def sample_spawn_def case_payload_def preflight_payload_def sample_dumps_def
      sample_loads_def HARNESS_PAYLOAD_CHARS_def flip: sample_answer_def)
  then have 3: "\<forall>i < length ?tcs. meets_fate (\<lambda>_. 0) sample_dumps sample_loads i
      (sample_spawn (case_payload (\<lambda>_. 0) ''code'' ''solve'' i (tc_input (?tcs ! i)))) (?f i)
      \<and> fate_finite (?f i) \<and> number_val 0 = Some (of_nat i)"
    by (simp add: fate_finite_def number_val_0 number_val_7)
  have p: "run_payload (\<lambda>_. 0) ?f (length ?tcs) = sample_payload" by (simp add: sample_payload_def)
  have d: "sample_dumps sample_payload = ''{r}''" using ne by (simp add: sample_dumps_def)
  have 4: "one_line_codec sample_dumps sample_loads (run_payload (\<lambda>_. 0) ?f (length ?tcs))"
    unfolding p using tr d by (simp add: one_line_codec_def sample_loads_def starts_with_def)
  have 5: "length (sample_dumps (run_payload (\<lambda>_. 0) ?f (length ?tcs))) \<le> HARNESS_PAYLOAD_CHARS"
    unfolding p d by (simp add: HARNESS_PAYLOAD_CHARS_def)
  have "length ?tcs \<le> 9007199254740991" by simp
  from judge_verdict [OF fills_sample 1 2 3 this tr(3) 4 5, where run_other = "\<lambda>_. Crashed"]
  show ?thesis by (simp add: sample_test_def solves_def)
qed

text \<open>
  C38: The captured output of the user's code is a prefix of what it printed, of at most the limit,
  and is marked truncated exactly when something is missing.
\<close>

theorem captured_output_is_a_prefix:
  "bs_getvalue (fold bs_write prints (new_stdout l)) = take l (concat prints)
   \<and> bs_truncated (fold bs_write prints (new_stdout l)) = (l < length (concat prints))"
  using bs_ok_writes [OF bs_ok_new, of l prints] by (simp add: bs_ok_def)


text \<open>
  What a filled hole of the program holds. A text without dollar signs replaces the first
  occurrence of the hole as it is. A text with a dollar sign before a quote, as in a Python string
  that ends with a dollar sign, does not: the rest of the program stands in its place.
\<close>

theorem filled_hole:
  assumes "indexOf pat (a @ pat @ b) 0 = Some (length a)"
    and "CHR ''$'' \<notin> set x" and "CHR ''$'' \<notin> set y"
  shows "js_replace pat x (a @ pat @ b) = a @ x @ b
    \<and> js_replace pat (x @ [CHR ''$'', CHR 0x27] @ y) (a @ pat @ b) = a @ x @ b @ y @ b"
  using expand_plain [OF assms(2), of a pat b "[]"] expand_plain [OF assms(3), of a pat b "[]"]
  by (simp add: js_replace_at [OF assms(1)] expand_plain assms)

theorem filled_hole_witness:
  "js_replace ''{h}'' (''x '' @ [CHR ''$'', CHR 0x27] @ '' y'') (''code = '' @ ''{h}'' @ '' end'')
   = ''code = x  end y end''"
proof -
  have "indexOf ''{h}'' (''code = '' @ ''{h}'' @ '' end'') 0 = Some (length ''code = '')" by code_simp
  from filled_hole [OF this, of "''x ''" "'' y''"] show ?thesis by simp
qed

end
