(* ===== verification/Yjs_Registry.thy ===== *)
theory Yjs_Registry
  imports Room_Manager "HOL-Library.Word"
begin

text \<open>
  The shared documents of \<^verbatim>\<open>apps/server/src/ws/yjsDocRegistry.ts\<close>: the registry of
  documents by room, the connections of each, sending and closing. Yjs, its awareness protocol and
  its encodings are parameters, the fields of a record of functions; a document and its awareness are
  values of types the library knows. JavaScript shares document objects by reference: they live in a
  heap, and the registry maps names to them.
\<close>

type_synonym bytes = "8 word list"

text \<open>
  What an awareness update reports: the clients added, updated and removed; \<open>None\<close> when no
  event is emitted. Functions that may throw return \<open>None\<close> for the value they do not produce.
\<close>

type_synonym awareness_change = "nat list \<times> nat list \<times> nat list"

record ('d, 'a) yjs_lib =
  newDoc :: 'd
  newAwareness :: 'a
  readVarUint :: "bytes \<Rightarrow> (nat \<times> bytes) option"
  readVarUint8Array :: "bytes \<Rightarrow> bytes option"
  readSyncMessage :: "bytes \<Rightarrow> 'd \<Rightarrow> 'd \<times> bytes list \<times> bytes option"
  applyAwareness :: "bytes \<Rightarrow> 'a \<Rightarrow> 'a \<times> awareness_change option \<times> bool"
  removeAwarenessStates :: "nat list \<Rightarrow> 'a \<Rightarrow> 'a \<times> awareness_change option"
  encodeAwarenessUpdate :: "nat list \<Rightarrow> 'a \<Rightarrow> bytes"
  awarenessStates :: "'a \<Rightarrow> nat list"
  writeUpdate :: "bytes \<Rightarrow> bytes"
  writeSyncStep1 :: "'d \<Rightarrow> bytes"
  encodedSize :: "'d \<Rightarrow> nat"

definition messageAwareness :: nat where "messageAwareness = 1"
definition messageSync :: nat where "messageSync = 0"

section \<open>Sockets\<close>

datatype ready_state = Connecting | Open | Closing | Closed

datatype ws_effect = WsSend nat bytes | WsClose nat "(nat \<times> string) option" | WsPing nat

record sockets =
  so_ready :: "nat \<Rightarrow> ready_state"
  so_out :: "ws_effect list"

definition not_closed :: "ready_state \<Rightarrow> bool" where
  "not_closed rs \<longleftrightarrow> rs = Connecting \<or> rs = Open"

text \<open>\<^verbatim>\<open>conn.close(code, reason)\<close> and \<^verbatim>\<open>conn.send(message)\<close> of the \<^verbatim>\<open>ws\<close> package: a send
  throws while connecting and is dropped after closing.\<close>

lemma not_closed_Closing [simp]: "\<not> not_closed Closing"
  by (simp add: not_closed_def)

definition ws_close :: "(nat \<times> string) option \<Rightarrow> nat \<Rightarrow> sockets \<Rightarrow> sockets" where
  "ws_close code c so =
     (if not_closed (so_ready so c)
      then so\<lparr>so_ready := (so_ready so)(c := Closing), so_out := so_out so @ [WsClose c code]\<rparr> else so)"

definition ws_send :: "bytes \<Rightarrow> nat \<Rightarrow> sockets \<Rightarrow> sockets option" where
  "ws_send msg c so =
     (case so_ready so c of
        Connecting \<Rightarrow> None
      | Open \<Rightarrow> Some (so\<lparr>so_out := so_out so @ [WsSend c msg]\<rparr>)
      | _ \<Rightarrow> Some so)"

section \<open>Documents\<close>

text \<open>\<^verbatim>\<open>WSSharedDoc\<close>: the connections, each with the awareness clients it controls.\<close>

record ('d, 'a) shared_doc =
  sd_name :: string
  sd_doc :: 'd
  sd_awareness :: 'a
  sd_conns :: "(nat \<times> nat list) list"

type_synonym ('d, 'a) doc_state = "('d, 'a) shared_doc \<times> sockets"

definition new_shared_doc :: "('d, 'a) yjs_lib \<Rightarrow> string \<Rightarrow> ('d, 'a) shared_doc" where
  "new_shared_doc lib nm = \<lparr>sd_name = nm, sd_doc = newDoc lib, sd_awareness = newAwareness lib, sd_conns = []\<rparr>"

definition has_conn :: "nat \<Rightarrow> ('d, 'a) shared_doc \<Rightarrow> bool" where
  "has_conn c d \<longleftrightarrow> map_of (sd_conns d) c \<noteq> None"

definition awareness_message :: "('d, 'a) yjs_lib \<Rightarrow> awareness_change \<Rightarrow> 'a \<Rightarrow> bytes" where
  "awareness_message lib ch aw =
     (case ch of (added, updated, removed) \<Rightarrow>
        of_nat messageAwareness # encodeAwarenessUpdate lib (added @ updated @ removed) aw)"

definition sync_message :: "('d, 'a) yjs_lib \<Rightarrow> bytes \<Rightarrow> bytes" where
  "sync_message lib update = of_nat messageSync # writeUpdate lib update"

text \<open>
  \<^verbatim>\<open>send\<close> to one connection, and to all of a list that are connections of the document when
  their turn comes; \<open>close\<close> is the closing of a connection.
\<close>

definition send_conn ::
  "(nat \<Rightarrow> ('d, 'a) doc_state \<Rightarrow> ('d, 'a) doc_state) \<Rightarrow> bytes \<Rightarrow> nat \<Rightarrow> ('d, 'a) doc_state \<Rightarrow> ('d, 'a) doc_state" where
  "send_conn close msg c s =
     (if \<not> not_closed (so_ready (snd s) c) then close c s
      else (case ws_send msg c (snd s) of None \<Rightarrow> close c s | Some so \<Rightarrow> (fst s, so)))"

primrec send_all ::
  "(nat \<Rightarrow> ('d, 'a) doc_state \<Rightarrow> ('d, 'a) doc_state) \<Rightarrow> bytes \<Rightarrow> nat list \<Rightarrow> ('d, 'a) doc_state \<Rightarrow> ('d, 'a) doc_state" where
  "send_all close msg [] s = s"
| "send_all close msg (c # cs) s =
     send_all close msg cs (if has_conn c (fst s) then send_conn close msg c s else s)"

text \<open>
  \<^verbatim>\<open>closeConn\<close>. Removing the awareness states of the connection emits an update, which is
  sent to the remaining connections, whose closed ones are closed in the same way. One unit of fuel
  per connection is enough.
\<close>

fun closeConnN ::
  "('d, 'a) yjs_lib \<Rightarrow> nat \<Rightarrow> (nat \<times> string) option \<Rightarrow> nat \<Rightarrow> ('d, 'a) doc_state \<Rightarrow> ('d, 'a) doc_state" where
  "closeConnN lib 0 code c s = s"
| "closeConnN lib (Suc n) code c s =
     (let s' = (case map_of (sd_conns (fst s)) c of
                  None \<Rightarrow> s
                | Some ids \<Rightarrow>
                    (let d = (fst s)\<lparr>sd_conns := AList.delete c (sd_conns (fst s))\<rparr>;
                         (aw, ev) = removeAwarenessStates lib ids (sd_awareness d);
                         s1 = (d\<lparr>sd_awareness := aw\<rparr>, snd s)
                     in case ev of
                          None \<Rightarrow> s1
                        | Some ch \<Rightarrow>
                            send_all (closeConnN lib n None) (awareness_message lib ch aw) (map fst (sd_conns d)) s1))
      in (fst s', ws_close code c (snd s')))"

definition closeConn ::
  "('d, 'a) yjs_lib \<Rightarrow> (nat \<times> string) option \<Rightarrow> nat \<Rightarrow> ('d, 'a) doc_state \<Rightarrow> ('d, 'a) doc_state" where
  "closeConn lib code c s = closeConnN lib (Suc (length (sd_conns (fst s)))) code c s"

definition broadcast :: "('d, 'a) yjs_lib \<Rightarrow> bytes \<Rightarrow> ('d, 'a) doc_state \<Rightarrow> ('d, 'a) doc_state" where
  "broadcast lib msg s = send_all (closeConn lib None) msg (map fst (sd_conns (fst s))) s"

text \<open>The listener of awareness updates: the origin controls the clients it added.\<close>

definition controlled_after :: "awareness_change \<Rightarrow> nat list \<Rightarrow> nat list" where
  "controlled_after ch ids =
     (case ch of (added, updated, removed) \<Rightarrow> filter (\<lambda>i. i \<notin> set removed) (ids @ filter (\<lambda>i. i \<notin> set ids) added))"

definition awareness_updated ::
  "('d, 'a) yjs_lib \<Rightarrow> awareness_change \<Rightarrow> nat \<Rightarrow> ('d, 'a) doc_state \<Rightarrow> ('d, 'a) doc_state" where
  "awareness_updated lib ch c s =
     (let d = (case map_of (sd_conns (fst s)) c of
                 None \<Rightarrow> fst s
               | Some ids \<Rightarrow>
                   (fst s)\<lparr>sd_conns := AList.update c (controlled_after ch ids) (sd_conns (fst s))\<rparr>)
      in broadcast lib (awareness_message lib ch (sd_awareness d)) (d, snd s))"

section \<open>The registry\<close>

record ('d, 'a) yjs_server =
  ys_docs :: "(string \<times> nat) list"
  ys_heap :: "nat \<Rightarrow> ('d, 'a) shared_doc"
  ys_next :: nat
  ys_socks :: sockets
  ys_bound :: "nat \<Rightarrow> nat option"

definition on_doc ::
  "nat \<Rightarrow> (('d, 'a) doc_state \<Rightarrow> ('d, 'a) doc_state) \<Rightarrow> ('d, 'a) yjs_server \<Rightarrow> ('d, 'a) yjs_server" where
  "on_doc i f st =
     (let s = f (ys_heap st i, ys_socks st)
      in st\<lparr>ys_heap := (ys_heap st)(i := fst s), ys_socks := snd s\<rparr>)"

definition getOrCreateSharedDoc ::
  "('d, 'a) yjs_lib \<Rightarrow> string \<Rightarrow> ('d, 'a) yjs_server \<Rightarrow> nat \<times> ('d, 'a) yjs_server" where
  "getOrCreateSharedDoc lib docName st =
     (case map_of (ys_docs st) docName of
        Some i \<Rightarrow> (i, st)
      | None \<Rightarrow>
          (ys_next st, st\<lparr>ys_docs := AList.update docName (ys_next st) (ys_docs st),
                          ys_heap := (ys_heap st)(ys_next st := new_shared_doc lib docName),
                          ys_next := Suc (ys_next st)\<rparr>))"

definition findSharedDoc :: "string \<Rightarrow> ('d, 'a) yjs_server \<Rightarrow> nat option" where
  "findSharedDoc docName st = map_of (ys_docs st) docName"

definition getSharedDocCount :: "('d, 'a) yjs_server \<Rightarrow> nat" where
  "getSharedDocCount st = length (ys_docs st)"

definition close_all :: "('d, 'a) yjs_lib \<Rightarrow> ('d, 'a) doc_state \<Rightarrow> ('d, 'a) doc_state" where
  "close_all lib s = fold (closeConn lib None) (map fst (sd_conns (fst s))) s"

definition destroySharedDoc ::
  "('d, 'a) yjs_lib \<Rightarrow> string \<Rightarrow> ('d, 'a) yjs_server \<Rightarrow> ('d, 'a) yjs_server" where
  "destroySharedDoc lib docName st =
     (case map_of (ys_docs st) docName of
        None \<Rightarrow> st
      | Some i \<Rightarrow>
          (let st' = on_doc i (close_all lib) st
           in st'\<lparr>ys_docs := AList.delete docName (ys_docs st')\<rparr>))"

definition destroyAllSharedDocs :: "('d, 'a) yjs_lib \<Rightarrow> ('d, 'a) yjs_server \<Rightarrow> ('d, 'a) yjs_server" where
  "destroyAllSharedDocs lib st = fold (destroySharedDoc lib) (map fst (ys_docs st)) st"


section \<open>Closing ends, and only takes away\<close>

text \<open>What closing and sending may do to a document and the sockets.\<close>

definition only_closes :: "('d, 'a) doc_state \<Rightarrow> ('d, 'a) doc_state \<Rightarrow> bool" where
  "only_closes s s' \<longleftrightarrow>
     sd_name (fst s') = sd_name (fst s) \<and> sd_doc (fst s') = sd_doc (fst s)
     \<and> length (sd_conns (fst s')) \<le> length (sd_conns (fst s))
     \<and> set (sd_conns (fst s')) \<subseteq> set (sd_conns (fst s))
     \<and> (distinct (map fst (sd_conns (fst s))) \<longrightarrow> distinct (map fst (sd_conns (fst s'))))
     \<and> (\<forall>k. so_ready (snd s') k = so_ready (snd s) k \<or> so_ready (snd s') k = Closing \<and> not_closed (so_ready (snd s) k))"

lemma only_closes_refl [simp]: "only_closes s s"
  by (simp add: only_closes_def)

lemma only_closes_trans: "only_closes s s1 \<Longrightarrow> only_closes s1 s2 \<Longrightarrow> only_closes s s2"
  unfolding only_closes_def by (elim conjE, intro conjI) (simp, simp, linarith, blast, blast, metis not_closed_Closing)

lemma ws_close_ready:
  "so_ready (ws_close code c so) k =
     (if k = c \<and> not_closed (so_ready so c) then Closing else so_ready so k)"
  by (simp add: ws_close_def)

lemma ws_send_ready: "ws_send msg c so = Some so' \<Longrightarrow> so_ready so' = so_ready so"
  by (auto simp: ws_send_def split: ready_state.splits)

lemma only_closes_ws_close: "only_closes s (fst s, ws_close code c (snd s))"
  by (auto simp: only_closes_def ws_close_ready)

lemma only_closes_send_conn:
  "only_closes s (close c s) \<Longrightarrow> only_closes s (send_conn close msg c s)"
  by (auto simp: send_conn_def split: option.split) (simp add: only_closes_def ws_send_ready)

lemma only_closes_send:
  assumes "\<And>c s. only_closes s (close c s)"
  shows "only_closes s (send_all close msg cs s)"
proof (induction cs arbitrary: s)
  case (Cons c cs)
  have "only_closes s (send_conn close msg c s)" using assms by (rule only_closes_send_conn)
  then show ?case using Cons.IH only_closes_trans by fastforce
qed simp

lemma only_closes_AList_delete:
  "only_closes s ((fst s)\<lparr>sd_conns := AList.delete c (sd_conns (fst s)), sd_awareness := aw\<rparr>, snd s)"
  using length_AList_delete_le [of c "sd_conns (fst s)"]
  by (auto simp: only_closes_def distinct_AList_delete mem_AList_delete)

lemma only_closes_closeConnN: "only_closes s (closeConnN lib n code c s)"
proof (induction n arbitrary: code c s)
  case (Suc n)
  show ?case
  proof (cases "map_of (sd_conns (fst s)) c")
    case None
    then show ?thesis using only_closes_ws_close [of s] by (simp add: Let_def)
  next
    case (Some ids)
    let ?d = "(fst s)\<lparr>sd_conns := AList.delete c (sd_conns (fst s))\<rparr>"
    obtain aw ev where r: "removeAwarenessStates lib ids (sd_awareness ?d) = (aw, ev)" by fastforce
    have 1: "only_closes s (?d\<lparr>sd_awareness := aw\<rparr>, snd s)"
      using only_closes_AList_delete [where s = s and c = c and aw = aw] by simp
    have 2: "only_closes (?d\<lparr>sd_awareness := aw\<rparr>, snd s)
        (send_all (closeConnN lib n None) msg cs (?d\<lparr>sd_awareness := aw\<rparr>, snd s))" for msg cs
      by (rule only_closes_send) (rule Suc.IH)
    show ?thesis
      using Some r only_closes_trans [OF 1 only_closes_ws_close]
        only_closes_trans [OF only_closes_trans [OF 1 2] only_closes_ws_close]
      by (cases ev) (simp_all add: Let_def)
  qed
qed simp

lemma only_closes_closeConn: "only_closes s (closeConn lib code c s)"
  unfolding closeConn_def by (rule only_closes_closeConnN)

lemma only_closes_broadcast: "only_closes s (broadcast lib msg s)"
  unfolding broadcast_def by (rule only_closes_send) (rule only_closes_closeConn)

text \<open>Enough fuel is enough: with more than one unit per connection the fuel does not matter.\<close>

lemma send_all_cong:
  assumes "\<And>c s. only_closes s (close c s)"
    and "\<And>c t. length (sd_conns (fst t)) \<le> l \<Longrightarrow> close c t = close' c t" and "length (sd_conns (fst s)) \<le> l"
  shows "send_all close msg cs s = send_all close' msg cs s"
  using assms(3)
proof (induction cs arbitrary: s)
  case (Cons c cs)
  have "send_conn close msg c s = send_conn close' msg c s"
    using assms(2) [OF Cons.prems] by (simp add: send_conn_def split: option.split)
  moreover have "only_closes s (send_conn close msg c s)"
    using assms(1) by (rule only_closes_send_conn)
  then have "length (sd_conns (fst (send_conn close msg c s))) \<le> l"
    using Cons.prems by (simp add: only_closes_def)
  ultimately show ?case using Cons by simp
qed simp

lemma length_AList_delete_less: "map_of m k = Some v \<Longrightarrow> length (AList.delete k m) < length m"
  using length_AList_delete_le [of k] by (induction m) (auto simp: less_Suc_eq_le)

lemma closeConnN_fuel:
  "length (sd_conns (fst s)) < n \<Longrightarrow> length (sd_conns (fst s)) < m \<Longrightarrow>
   closeConnN lib n code c s = closeConnN lib m code c s"
proof (induction n arbitrary: m code c s)
  case (Suc n)
  then obtain k where m: "m = Suc k" by (cases m) auto
  show ?case
  proof (cases "map_of (sd_conns (fst s)) c")
    case None
    then show ?thesis by (simp add: m)
  next
    case (Some ids)
    let ?d = "(fst s)\<lparr>sd_conns := AList.delete c (sd_conns (fst s))\<rparr>"
    obtain aw ev where r: "removeAwarenessStates lib ids (sd_awareness ?d) = (aw, ev)" by fastforce
    let ?s1 = "(?d\<lparr>sd_awareness := aw\<rparr>, snd s)"
    have "length (AList.delete c (sd_conns (fst s))) < length (sd_conns (fst s))"
      using Some by (rule length_AList_delete_less)
    then have l: "length (sd_conns (fst ?s1)) < n" "length (sd_conns (fst ?s1)) < k"
      using Suc.prems m by auto
    have "send_all (closeConnN lib n None) msg cs ?s1 = send_all (closeConnN lib k None) msg cs ?s1" for msg cs
    proof (rule send_all_cong [where l = "length (sd_conns (fst ?s1))"])
      fix c and t :: "('a, 'b) doc_state" assume "length (sd_conns (fst t)) \<le> length (sd_conns (fst ?s1))"
      with l show "closeConnN lib n None c t = closeConnN lib k None c t"
        by (intro Suc.IH) linarith+
    qed (simp_all only: only_closes_closeConnN order_refl)
    with Some r show ?thesis by (cases ev) (simp_all add: m Let_def)
  qed
qed simp

text \<open>
  \<^verbatim>\<open>closeConn\<close> as the code has it: it calls itself through the update listener. The equation
  has no fuel in it, so the recursion it describes always ends.
\<close>

definition removed_conn ::
  "('d, 'a) yjs_lib \<Rightarrow> nat \<Rightarrow> nat list \<Rightarrow> ('d, 'a) doc_state \<Rightarrow> ('d, 'a) doc_state \<times> awareness_change option" where
  "removed_conn lib c ids s =
     (let (aw, ev) = removeAwarenessStates lib ids (sd_awareness (fst s))
      in (((fst s)\<lparr>sd_conns := AList.delete c (sd_conns (fst s)), sd_awareness := aw\<rparr>, snd s), ev))"

lemma closeConn_rec:
  "closeConn lib code c s =
     (let s' = (case map_of (sd_conns (fst s)) c of
                  None \<Rightarrow> s
                | Some ids \<Rightarrow>
                    (case removed_conn lib c ids s of
                       (s1, None) \<Rightarrow> s1
                     | (s1, Some ch) \<Rightarrow> broadcast lib (awareness_message lib ch (sd_awareness (fst s1))) s1))
      in (fst s', ws_close code c (snd s')))"
proof (cases "map_of (sd_conns (fst s)) c")
  case None
  then show ?thesis by (simp add: closeConn_def)
next
  case (Some ids)
  obtain aw ev where r: "removeAwarenessStates lib ids (sd_awareness (fst s)) = (aw, ev)" by fastforce
  let ?s1 = "((fst s)\<lparr>sd_conns := AList.delete c (sd_conns (fst s)), sd_awareness := aw\<rparr>, snd s)"
  let ?n = "length (sd_conns (fst s))"
  have l: "length (sd_conns (fst ?s1)) < ?n" using length_AList_delete_less [OF Some] by simp
  have "send_all (closeConnN lib ?n None) msg cs ?s1 = send_all (closeConn lib None) msg cs ?s1" for msg cs
  proof (rule send_all_cong [where l = "length (sd_conns (fst ?s1))"])
    fix c' and t :: "('a, 'b) doc_state" assume "length (sd_conns (fst t)) \<le> length (sd_conns (fst ?s1))"
    with l show "closeConnN lib ?n None c' t = closeConn lib None c' t"
      unfolding closeConn_def by (intro closeConnN_fuel) linarith+
  qed (simp_all only: only_closes_closeConnN order_refl)
  with Some r show ?thesis
    by (cases ev) (simp_all add: closeConn_def removed_conn_def broadcast_def Let_def)
qed

lemma closeConn_conns: "c \<notin> fst ` set (sd_conns (fst (closeConn lib code c s)))"
proof (cases "map_of (sd_conns (fst s)) c")
  case None
  then show ?thesis by (simp add: closeConn_rec Let_def) (simp add: map_of_eq_None_iff)
next
  case (Some ids)
  obtain s1 ev where r: "removed_conn lib c ids s = (s1, ev)" by fastforce
  then have 1: "c \<notin> fst ` set (sd_conns (fst s1))"
    by (auto simp: removed_conn_def mem_AList_delete split: prod.splits)
  then have "c \<notin> fst ` set (sd_conns (fst (broadcast lib msg s1)))" for msg
    using only_closes_broadcast [of s1 lib msg] unfolding only_closes_def by blast
  with Some r 1 show ?thesis by (cases ev) (simp_all add: closeConn_rec Let_def)
qed

lemma closeConn_closed: "\<not> not_closed (so_ready (snd (closeConn lib code c s)) c)"
  by (simp add: closeConn_rec Let_def ws_close_ready)

section \<open>Open connections are kept and served\<close>

text \<open>
  From \<open>s\<close> to \<open>s'\<close> connections were only dropped, an open one never unless it is in
  \<open>C\<close>, and what was written stays written.
\<close>

definition keeps_open :: "nat set \<Rightarrow> ('d, 'a) doc_state \<Rightarrow> ('d, 'a) doc_state \<Rightarrow> bool" where
  "keeps_open C s s' \<longleftrightarrow>
     (\<exists>Q. sd_conns (fst s') = filter (\<lambda>p. Q (fst p)) (sd_conns (fst s))
        \<and> (\<forall>k. k \<notin> C \<and> so_ready (snd s) k = Open \<longrightarrow> Q k \<and> so_ready (snd s') k = Open))
     \<and> (\<exists>out. so_out (snd s') = so_out (snd s) @ out)"

lemma keeps_open_same_conns:
  "sd_conns (fst s') = sd_conns (fst s) \<Longrightarrow>
   \<forall>k. k \<notin> C \<and> so_ready (snd s) k = Open \<longrightarrow> so_ready (snd s') k = Open \<Longrightarrow>
   so_out (snd s') = so_out (snd s) @ out \<Longrightarrow> keeps_open C s s'"
  unfolding keeps_open_def by (intro conjI exI [of _ "\<lambda>_. True"]) auto

lemma keeps_open_refl [simp]: "keeps_open C s s"
  by (rule keeps_open_same_conns [where out = "[]"]) simp_all

lemma keeps_open_trans:
  assumes "keeps_open C s s1" and "keeps_open C s1 s2"
  shows "keeps_open C s s2"
proof -
  from assms(1) obtain Q o1 where 1: "sd_conns (fst s1) = filter (\<lambda>p. Q (fst p)) (sd_conns (fst s))"
    "\<forall>k. k \<notin> C \<and> so_ready (snd s) k = Open \<longrightarrow> Q k \<and> so_ready (snd s1) k = Open"
    "so_out (snd s1) = so_out (snd s) @ o1"
    unfolding keeps_open_def by blast
  from assms(2) obtain R o2 where 2: "sd_conns (fst s2) = filter (\<lambda>p. R (fst p)) (sd_conns (fst s1))"
    "\<forall>k. k \<notin> C \<and> so_ready (snd s1) k = Open \<longrightarrow> R k \<and> so_ready (snd s2) k = Open"
    "so_out (snd s2) = so_out (snd s1) @ o2"
    unfolding keeps_open_def by blast
  have "sd_conns (fst s2) = filter (\<lambda>p. Q (fst p) \<and> R (fst p)) (sd_conns (fst s))"
    by (simp add: 1(1) 2(1) conj_commute)
  with 1 2 show ?thesis unfolding keeps_open_def by (intro conjI exI [of _ "\<lambda>k. Q k \<and> R k"]) auto
qed

lemma keeps_open_send_conn:
  assumes "keeps_open {c} s (close c s)"
  shows "keeps_open {} s (send_conn close msg c s)"
proof (cases "so_ready (snd s) c = Open")
  case True
  then show ?thesis
    by (intro keeps_open_same_conns [where out = "[WsSend c msg]"]) (simp_all add: send_conn_def ws_send_def not_closed_def)
next
  case False
  then have "send_conn close msg c s = close c s"
    by (cases "so_ready (snd s) c") (simp_all add: send_conn_def ws_send_def not_closed_def)
  with assms False show ?thesis unfolding keeps_open_def by fastforce
qed

lemma keeps_open_send_all:
  assumes "\<And>c s. keeps_open {c} s (close c s)"
  shows "keeps_open {} s (send_all close msg cs s)"
proof (induction cs arbitrary: s)
  case (Cons c cs)
  have "keeps_open {} s (send_conn close msg c s)" using assms by (rule keeps_open_send_conn)
  then show ?case using Cons.IH keeps_open_trans by fastforce
qed simp

lemma keeps_open_mono: "keeps_open {} s s' \<Longrightarrow> keeps_open {c} s s'"
  unfolding keeps_open_def by fastforce

lemma keeps_open_removed:
  "removed_conn lib c ids s = (s1, ev) \<Longrightarrow> keeps_open {c} s s1"
  unfolding keeps_open_def removed_conn_def
  by (intro conjI exI [of _ "\<lambda>k. k \<noteq> c"]) (auto simp: AList.delete_eq split_def Let_def intro: filter_cong)

lemma keeps_open_ws_close: "keeps_open {c} s (fst s, ws_close code c (snd s))"
  by (rule keeps_open_same_conns [where out = "if not_closed (so_ready (snd s) c) then [WsClose c code] else []"])
    (auto simp: ws_close_def)

lemma keeps_open_closeConn: "keeps_open {c} s (closeConn lib code c s)"
proof (induction "length (sd_conns (fst s))" arbitrary: code c s rule: less_induct)
  case less
  show ?case
  proof (cases "map_of (sd_conns (fst s)) c")
    case None
    then show ?thesis using keeps_open_ws_close [of c s code] by (simp add: closeConn_rec Let_def)
  next
    case (Some ids)
    obtain s1 ev where r: "removed_conn lib c ids s = (s1, ev)" by fastforce
    have l: "length (sd_conns (fst s1)) < length (sd_conns (fst s))"
      using r length_AList_delete_less [OF Some] by (auto simp: removed_conn_def split: prod.splits)
    have small: "length (sd_conns (fst t)) \<le> length (sd_conns (fst s1)) \<Longrightarrow> keeps_open {} t (send_all (closeConn lib None) msg cs t)"
      for msg cs t
    proof (induction cs arbitrary: t)
      case (Cons c' cs)
      have "keeps_open {} t (send_conn (closeConn lib None) msg c' t)"
        by (rule keeps_open_send_conn) (rule less; use Cons.prems l in simp)
      moreover have "only_closes t (send_conn (closeConn lib None) msg c' t)"
        by (rule only_closes_send_conn) (rule only_closes_closeConn)
      then have "length (sd_conns (fst (send_conn (closeConn lib None) msg c' t))) \<le> length (sd_conns (fst s1))"
        using Cons.prems by (simp add: only_closes_def)
      ultimately show ?case using Cons keeps_open_trans by fastforce
    qed simp
    have "keeps_open {c} s (broadcast lib msg s1)" for msg
      unfolding broadcast_def
      by (rule keeps_open_trans [OF keeps_open_removed [OF r] keeps_open_mono]) (rule small, simp)
    with keeps_open_removed [OF r] Some r show ?thesis
      using keeps_open_ws_close keeps_open_trans by (cases ev) (simp_all add: closeConn_rec Let_def, blast+)
  qed
qed

lemma has_conn_iff: "has_conn k d \<longleftrightarrow> k \<in> fst ` set (sd_conns d)"
  by (simp add: has_conn_def map_of_eq_None_iff)

lemma keeps_open_gone: "keeps_open C s s' \<Longrightarrow> \<not> has_conn k (fst s) \<Longrightarrow> \<not> has_conn k (fst s')"
  by (auto simp: keeps_open_def has_conn_iff)

lemma keeps_open_has:
  "keeps_open C s s' \<Longrightarrow> k \<notin> C \<Longrightarrow> so_ready (snd s) k = Open \<Longrightarrow>
   so_ready (snd s') k = Open \<and> has_conn k (fst s') = has_conn k (fst s)"
  by (force simp: keeps_open_def has_conn_iff)

lemma keeps_open_out: "keeps_open C s s' \<Longrightarrow> set (so_out (snd s)) \<subseteq> set (so_out (snd s'))"
  by (auto simp: keeps_open_def)

lemma only_closes_ready:
  "only_closes s s' \<Longrightarrow> so_ready (snd s') k = Open \<Longrightarrow> so_ready (snd s) k = Open"
  unfolding only_closes_def by (metis ready_state.distinct(7))

text \<open>A message to all goes out to every open connection; the others are dropped.\<close>

definition served :: "bytes \<Rightarrow> nat \<Rightarrow> ('d, 'a) doc_state \<Rightarrow> ('d, 'a) doc_state \<Rightarrow> bool" where
  "served msg k s s' \<longleftrightarrow>
     (if so_ready (snd s) k = Open
      then has_conn k (fst s) \<longrightarrow> has_conn k (fst s') \<and> WsSend k msg \<in> set (so_out (snd s'))
      else \<not> has_conn k (fst s'))"

lemma served_later: "served msg k s s1 \<Longrightarrow> keeps_open {} s s1 \<Longrightarrow> keeps_open {} s1 s2 \<Longrightarrow> served msg k s s2"
  using keeps_open_out [of "{}" s1 s2] keeps_open_gone [of "{}" s1 s2 k] keeps_open_has [of "{}" s1 s2 k]
    keeps_open_has [of "{}" s s1 k]
  by (auto simp: served_def split: if_splits)

lemma served_before:
  "served msg k s1 s2 \<Longrightarrow> keeps_open {} s s1 \<Longrightarrow> only_closes s s1 \<Longrightarrow> served msg k s s2"
  using keeps_open_has [of "{}" s s1 k] only_closes_ready [of s s1 k]
  by (auto simp: served_def split: if_splits)

lemma served_conn: "served msg c s (send_conn (closeConn lib None) msg c s)"
proof (cases "so_ready (snd s) c = Open")
  case True
  then show ?thesis by (simp add: served_def send_conn_def ws_send_def not_closed_def)
next
  case False
  then have "send_conn (closeConn lib None) msg c s = closeConn lib None c s"
    by (cases "so_ready (snd s) c") (simp_all add: send_conn_def ws_send_def not_closed_def)
  with False show ?thesis using closeConn_conns by (simp add: served_def has_conn_iff)
qed

lemma send_all_serves: "k \<in> set cs \<Longrightarrow> served msg k s (send_all (closeConn lib None) msg cs s)"
proof (induction cs arbitrary: s)
  case (Cons c cs)
  define s1 where "s1 = (if has_conn c (fst s) then send_conn (closeConn lib None) msg c s else s)"
  define s2 where "s2 = send_all (closeConn lib None) msg cs s1"
  have k1: "keeps_open {} s s1"
    by (simp add: s1_def keeps_open_send_conn keeps_open_closeConn)
  have o1: "only_closes s s1"
    by (simp add: s1_def only_closes_send_conn only_closes_closeConn)
  have k2: "keeps_open {} s1 s2"
    unfolding s2_def by (rule keeps_open_send_all) (rule keeps_open_closeConn)
  have "served msg c s s1" using served_conn [of msg c s lib] by (simp add: s1_def served_def)
  then have "served msg c s s2" using k1 k2 by (rule served_later)
  moreover have "served msg k s s2" if "k \<in> set cs"
    using Cons.IH [OF that] k1 o1 unfolding s2_def by (rule served_before)
  ultimately show ?case using Cons.prems by (auto simp: s2_def s1_def)
qed simp

end
