(* ===== verification/Yjs_Connection.thy ===== *)
theory Yjs_Connection
  imports Yjs_Registry Text_Codec Access_Gateway
begin

text \<open>
  The document channel: who may connect (\<^verbatim>\<open>ws/yjs.ts\<close>), what a connection's messages
  do (\<^verbatim>\<open>ws/yjsConnection.ts\<close>), and the routing of upgrades
  (\<^verbatim>\<open>ws/upgrade.ts\<close>), all of \<^verbatim>\<open>apps/server/src\<close>. A message waits for
  the access service before it is handled, so its two segments are separate operations.
\<close>

section \<open>Upgrades\<close>

datatype upgrade_route = ToYjs | ToSocketIO | DestroySocket

definition registerUpgradeHandler :: "string option \<Rightarrow> upgrade_route" where
  "registerUpgradeHandler url =
     (let pathname = path_of (case url of None \<Rightarrow> [] | Some u \<Rightarrow> u)
      in if starts_with ''/ws/yjs'' pathname then ToYjs
         else if starts_with ''/ws/socket'' pathname then ToSocketIO
         else DestroySocket)"

section \<open>Room name and token of a request\<close>

text \<open>Decoding the room name throws on a malformed escape: \<open>None\<close>.\<close>

definition normalizeRoomName :: "string \<Rightarrow> string option" where
  "normalizeRoomName roomName = map_option (\<lambda>s. toLowerCase (trim s)) (decodeURIComponent roomName)"

definition extractRoomName :: "string option \<Rightarrow> string option" where
  "extractRoomName url =
     (if \<not> truthy_text url then Some ''default''
      else (let segments = filter (\<lambda>p. p \<noteq> []) (split_on CHR ''/'' (path_of (the url)))
            in if segments = [] then Some ''default'' else normalizeRoomName (last segments)))"

text \<open>
  \<^verbatim>\<open>URLSearchParams\<close>: names and values are form-decoded, what is no escape stays as it is.
  Bytes above 127 are written as one character outside ASCII.
\<close>

function form_decode :: "string \<Rightarrow> string" where
  "form_decode s =
     (case s of
        [] \<Rightarrow> []
      | c # cs \<Rightarrow>
          if c = CHR ''+'' then CHR '' '' # form_decode cs
          else (case (if c = CHR ''%'' then percent_byte s else None) of
                  None \<Rightarrow> c # form_decode cs
                | Some (n, rest) \<Rightarrow> (if n < 128 then char_of n else CHR 0xFD) # form_decode rest))"
  by pat_completeness auto
termination
  by (relation "measure length") (auto dest!: percent_byte_shorter split: if_splits)

declare form_decode.simps [simp del]

definition search_params :: "string \<Rightarrow> (string \<times> string) list" where
  "search_params q =
     map (\<lambda>p. (form_decode (takeWhile (\<lambda>c. c \<noteq> CHR ''='') p), form_decode (drop 1 (dropWhile (\<lambda>c. c \<noteq> CHR ''='') p))))
       (filter (\<lambda>p. p \<noteq> []) (split_on CHR ''&'' q))"

definition extractToken :: "string option \<Rightarrow> string option" where
  "extractToken url =
     (if \<not> truthy_text url then None
      else if CHR ''?'' \<notin> set (the url) then None
      else map_of (search_params (drop 1 (dropWhile (\<lambda>c. c \<noteq> CHR ''?'') (the url)))) ''token'')"

section \<open>A connection and its messages\<close>

definition direct_send :: "bytes \<Rightarrow> nat \<Rightarrow> ('d, 'a) doc_state \<Rightarrow> ('d, 'a) doc_state option" where
  "direct_send msg c s = map_option (\<lambda>so. (fst s, so)) (ws_send msg c (snd s))"

text \<open>The first messages to a new connection; a throw ends the handler (\<open>None\<close>).\<close>

definition greet :: "('d, 'a) yjs_lib \<Rightarrow> nat \<Rightarrow> ('d, 'a) doc_state \<Rightarrow> ('d, 'a) doc_state option" where
  "greet lib c s =
     (case direct_send (of_nat messageSync # writeSyncStep1 lib (sd_doc (fst s))) c s of
        None \<Rightarrow> None
      | Some s1 \<Rightarrow>
          (let clients = awarenessStates lib (sd_awareness (fst s1))
           in if clients = [] then Some s1
              else direct_send (of_nat messageAwareness # encodeAwarenessUpdate lib clients (sd_awareness (fst s1))) c s1))"

definition setupWSConnection :: "('d, 'a) yjs_lib \<Rightarrow> string \<Rightarrow> nat \<Rightarrow> ('d, 'a) yjs_server \<Rightarrow> ('d, 'a) yjs_server" where
  "setupWSConnection lib docName c st =
     (let (i, st1) = getOrCreateSharedDoc lib docName st;
          st2 = on_doc i (\<lambda>s. ((fst s)\<lparr>sd_conns := AList.update c [] (sd_conns (fst s))\<rparr>, snd s)) st1;
          st3 = st2\<lparr>ys_bound := (ys_bound st2)(c \<mapsto> i)\<rparr>
      in on_doc i (\<lambda>s. case greet lib c s of None \<Rightarrow> s | Some s' \<Rightarrow> s') st3)"

definition msg_document_too_large :: "nat \<times> string" where
  "msg_document_too_large = (1009, ''Document too large'')"

definition msg_invalid :: "nat \<times> string" where
  "msg_invalid = (1003, ''Invalid Yjs message'')"

definition check_size :: "('d, 'a) yjs_lib \<Rightarrow> nat \<Rightarrow> nat \<Rightarrow> ('d, 'a) doc_state \<Rightarrow> ('d, 'a) doc_state" where
  "check_size lib maxDocBytes c s =
     (if maxDocBytes < encodedSize lib (sd_doc (fst s)) then closeConn lib (Some msg_document_too_large) c s else s)"

definition sync_applied ::
  "('d, 'a) yjs_lib \<Rightarrow> bytes \<Rightarrow> nat \<Rightarrow> ('d, 'a) doc_state \<Rightarrow> ('d, 'a) doc_state option \<times> ('d, 'a) doc_state" where
  "sync_applied lib content c s =
     (let (d, updates, reply) = readSyncMessage lib content (sd_doc (fst s));
          s1 = fold (\<lambda>u. broadcast lib (sync_message lib u)) updates ((fst s)\<lparr>sd_doc := d\<rparr>, snd s)
      in (case reply of
            None \<Rightarrow> None
          | Some r \<Rightarrow> if r = [] then Some s1 else direct_send (of_nat messageSync # r) c s1, s1))"

definition awareness_applied ::
  "('d, 'a) yjs_lib \<Rightarrow> bytes \<Rightarrow> nat \<Rightarrow> ('d, 'a) doc_state \<Rightarrow> ('d, 'a) doc_state option \<times> ('d, 'a) doc_state" where
  "awareness_applied lib content c s =
     (case readVarUint8Array lib content of
        None \<Rightarrow> (None, s)
      | Some update \<Rightarrow>
          (let (aw, ev, ok) = applyAwareness lib update (sd_awareness (fst s));
               s1 = ((fst s)\<lparr>sd_awareness := aw\<rparr>, snd s);
               s2 = (case ev of None \<Rightarrow> s1 | Some ch \<Rightarrow> awareness_updated lib ch c s1)
           in (if ok then Some s2 else None, s2)))"

text \<open>The message listener; its \<^verbatim>\<open>catch\<close> closes the connection.\<close>

definition messageListener ::
  "('d, 'a) yjs_lib \<Rightarrow> nat \<Rightarrow> bytes \<Rightarrow> nat \<Rightarrow> ('d, 'a) doc_state \<Rightarrow> ('d, 'a) doc_state" where
  "messageListener lib maxDocBytes message c s =
     (case (case readVarUint lib message of
              None \<Rightarrow> (None, s)
            | Some (messageType, content) \<Rightarrow>
                if messageType = messageSync then sync_applied lib content c s
                else if messageType = messageAwareness then awareness_applied lib content c s
                else (Some s, s)) of
        (Some s1, _) \<Rightarrow> check_size lib maxDocBytes c s1
      | (None, s1) \<Rightarrow> closeConn lib (Some msg_invalid) c s1)"

definition on_bound ::
  "nat \<Rightarrow> (('d, 'a) doc_state \<Rightarrow> ('d, 'a) doc_state) \<Rightarrow> ('d, 'a) yjs_server \<Rightarrow> ('d, 'a) yjs_server" where
  "on_bound c f st = (case ys_bound st c of None \<Rightarrow> st | Some i \<Rightarrow> on_doc i f st)"

definition close_socket :: "nat \<times> string \<Rightarrow> nat \<Rightarrow> ('d, 'a) yjs_server \<Rightarrow> ('d, 'a) yjs_server" where
  "close_socket code c st = st\<lparr>ys_socks := ws_close (Some code) c (ys_socks st)\<rparr>"

definition msg_access_required :: "nat \<times> string" where
  "msg_access_required = (4401, ''Access required'')"

text \<open>A message once the access service has answered; no answer when there is no service.\<close>

definition handleIncomingMessage ::
  "('d, 'a) yjs_lib \<Rightarrow> nat \<Rightarrow> nat \<Rightarrow> (string + valid_session) option \<Rightarrow> bytes \<Rightarrow> nat \<Rightarrow>
   ('d, 'a) yjs_server \<Rightarrow> ('d, 'a) yjs_server" where
  "handleIncomingMessage lib maxMessageBytes maxDocBytes validation message c st =
     (case validation of
        Some (Inl reason) \<Rightarrow> close_socket msg_access_required c st
      | _ \<Rightarrow>
          if maxMessageBytes < length message then close_socket (1009, ''Message too large'') c st
          else on_bound c (messageListener lib maxDocBytes message c) st)"

text \<open>The socket is gone; the timer that pings it.\<close>

definition connection_closed :: "('d, 'a) yjs_lib \<Rightarrow> nat \<Rightarrow> ('d, 'a) yjs_server \<Rightarrow> ('d, 'a) yjs_server" where
  "connection_closed lib c st =
     on_bound c (closeConn lib None c)
       (st\<lparr>ys_socks := (ys_socks st)\<lparr>so_ready := (so_ready (ys_socks st))(c := Closed)\<rparr>\<rparr>)"

text \<open>One tick: whether the timer goes on, whether a pong is awaited, and the state.\<close>

definition ping_tick ::
  "('d, 'a) yjs_lib \<Rightarrow> bool \<Rightarrow> nat \<Rightarrow> ('d, 'a) doc_state \<Rightarrow> bool \<times> bool \<times> ('d, 'a) doc_state" where
  "ping_tick lib pongReceived c s =
     (if \<not> pongReceived then (False, False, closeConn lib None c s)
      else if \<not> has_conn c (fst s) then (False, pongReceived, s)
      else if so_ready (snd s) c = Connecting then (False, False, closeConn lib None c s)
      else (True, False,
            (fst s, if so_ready (snd s) c = Open then (snd s)\<lparr>so_out := so_out (snd s) @ [WsPing c]\<rparr> else snd s)))"

section \<open>The server\<close>

record yjs_options =
  yo_allowedOrigins :: "string list option"
  yo_maxMessageBytes :: "nat option"
  yo_maxDocBytes :: "nat option"

definition max_message_bytes :: "yjs_options \<Rightarrow> nat" where
  "max_message_bytes o1 = orElse (yo_maxMessageBytes o1) 32768"

definition max_doc_bytes :: "yjs_options \<Rightarrow> nat" where
  "max_doc_bytes o1 = orElse (yo_maxDocBytes o1) 65536"

text \<open>
  The first segment of the connection handler ends in a throw or at the question to the access
  service; the second has its answer. A token must equal the room's.
\<close>

datatype yjs_arrival = HandlerThrows | Arrived string "string option"

definition connection_arrives :: "string option \<Rightarrow> yjs_arrival" where
  "connection_arrives url =
     (case extractRoomName url of None \<Rightarrow> HandlerThrows | Some roomName \<Rightarrow> Arrived roomName (extractToken url))"

definition connection_admitted ::
  "('d, 'a) yjs_lib \<Rightarrow> yjs_options \<Rightarrow> (string + valid_session) option \<Rightarrow> string option \<Rightarrow> (string \<Rightarrow> room option) \<Rightarrow>
   string \<Rightarrow> string option \<Rightarrow> nat \<Rightarrow> ('d, 'a) yjs_server \<Rightarrow> ('d, 'a) yjs_server" where
  "connection_admitted lib opts validation origin findRoom roomName token c st =
     (case validation of
        Some (Inl reason) \<Rightarrow> close_socket msg_access_required c st
      | _ \<Rightarrow>
          if yo_allowedOrigins opts \<noteq> None \<and> \<not> isOriginAllowed origin (the (yo_allowedOrigins opts))
          then close_socket (4403, ''Forbidden'') c st
          else (case findRoom roomName of
                  None \<Rightarrow> close_socket (4401, ''Unauthorized'') c st
                | Some r \<Rightarrow>
                    if truthy_text token \<and> token = Some (yjsToken r) then setupWSConnection lib roomName c st
                    else close_socket (4401, ''Unauthorized'') c st))"

definition getDoc :: "string \<Rightarrow> ('d, 'a) yjs_server \<Rightarrow> nat option" where
  "getDoc code st = findSharedDoc (normalizeRoomCode code) st"

end
