(* ===== verification/Graceful_Shutdown.thy ===== *)
theory Graceful_Shutdown
  imports Room
begin

text \<open>
  Stopping the server: \<^verbatim>\<open>apps/server/src/lib/gracefulShutdown.ts\<close>. What a dependency
  does when it is closed is a parameter. One that returns a promise settles or throws after some
  milliseconds, and keeps the process alive meanwhile, or it never settles; then the parameter says
  after how long nothing that keeps the process alive is left, if ever. One that returns nothing
  completes or throws at once. Time is counted in milliseconds from the start of the shutdown.
\<close>

datatype close_behaviour = Settles nat | Throws nat | NeverSettles "nat option"

datatype sync_behaviour = Completes | Fails

definition at_once :: "sync_behaviour \<Rightarrow> close_behaviour" where
  "at_once b = (case b of Completes \<Rightarrow> Settles 0 | Fails \<Rightarrow> Throws 0)"

record shutdown_deps =
  stopBackgroundTasks :: "sync_behaviour option"
  httpServer_close :: close_behaviour
  io_close :: close_behaviour
  wss_close :: close_behaviour
  destroyAllDocs :: sync_behaviour
  resetRooms_step :: sync_behaviour
  closePool :: close_behaviour
  closeReliabilityStore :: "close_behaviour option"
  forceTimeoutMs :: "nat option"

text \<open>\<^verbatim>\<open>setTimeout\<close> takes a delay out of its range as one millisecond.\<close>

definition timer_delay :: "nat \<Rightarrow> nat" where
  "timer_delay ms = (if 1 \<le> ms \<and> ms \<le> 2147483647 then ms else 1)"

definition force_timeout :: "shutdown_deps \<Rightarrow> nat" where
  "force_timeout deps = timer_delay (orElse (forceTimeoutMs deps) 10000)"

text \<open>The steps of \<^verbatim>\<open>executeShutdown\<close>, in order: name, what it waits for, whether it runs.\<close>

definition shutdown_steps :: "shutdown_deps \<Rightarrow> (string \<times> close_behaviour \<times> bool) list" where
  "shutdown_steps deps =
     [(''stopBackgroundTasks'', at_once (orElse (stopBackgroundTasks deps) Completes), stopBackgroundTasks deps \<noteq> None),
      (''httpServer.close'', httpServer_close deps, True),
      (''io.close'', io_close deps, True),
      (''wss.close'', wss_close deps, True),
      (''destroyAllDocs'', at_once (destroyAllDocs deps), True),
      (''resetRooms'', at_once (resetRooms_step deps), True),
      (''closePool'', closePool deps, True),
      (''closeReliabilityStore'', orElse (closeReliabilityStore deps) (Settles 0), closeReliabilityStore deps \<noteq> None)]"

text \<open>
  \<^verbatim>\<open>safeStep\<close>: a failure is logged and does not stop the sequence. The steps begun, with
  their times, and when the sequence is through; or it is stuck in a step, and then when nothing keeps the
  process alive any more.
\<close>

datatype sequence_end = Through nat | Stuck "nat option"

fun run_steps :: "nat \<Rightarrow> (string \<times> close_behaviour \<times> bool) list \<Rightarrow> (nat \<times> string) list \<times> sequence_end" where
  "run_steps now [] = ([], Through now)"
| "run_steps now ((nm, behaviour, shouldRun) # steps) =
     (if \<not> shouldRun then run_steps now steps
      else (case behaviour of
              NeverSettles idle \<Rightarrow> ([(now, nm)], Stuck (map_option (\<lambda>d. now + d) idle))
            | Settles d \<Rightarrow> (let (begun, end) = run_steps (now + d) steps in ((now, nm) # begun, end))
            | Throws d \<Rightarrow> (let (begun, end) = run_steps (now + d) steps in ((now, nm) # begun, end))))"

datatype shutdown_end = Complete nat | ForceExit nat | RunsDry nat

text \<open>
  The sequence against the force timer, which is unreferenced: it ends the process only while something else
  keeps it alive. A process in which nothing does ends by itself, in the middle of the sequence. Steps that would
  begin later than the exit do not begin.
\<close>

definition executeShutdown :: "shutdown_deps \<Rightarrow> string list \<times> shutdown_end" where
  "executeShutdown deps =
     (let limit = force_timeout deps;
          (begun, end) = run_steps 0 (shutdown_steps deps);
          forced = (map snd (filter (\<lambda>b. fst b < limit) begun), ForceExit limit)
      in case end of
           Through t \<Rightarrow> if t < limit then (map snd begun, Complete t) else forced
         | Stuck None \<Rightarrow> forced
         | Stuck (Some t) \<Rightarrow> if t < limit then (map snd begun, RunsDry t) else forced)"

text \<open>
  The state of \<^verbatim>\<open>createGracefulShutdown\<close>: whether a shutdown has begun. A call while one is
  under way gets the same promise and begins nothing.
\<close>

record shutdown_state =
  shuttingDown :: bool
  executions :: nat

definition createGracefulShutdown :: shutdown_state where
  "createGracefulShutdown = \<lparr>shuttingDown = False, executions = 0\<rparr>"

definition shutdown :: "shutdown_state \<Rightarrow> shutdown_state" where
  "shutdown st = (if shuttingDown st then st else st\<lparr>shuttingDown := True, executions := Suc (executions st)\<rparr>)"

text \<open>
  Why the process stops, and its exit code: a signal exits with 0 when the shutdown is complete, an
  uncaught error or an unhandled rejection with 1, the force timer with 1. Nothing sets an exit code for a process
  that ends by itself, so that it is 0, also after an uncaught error, which has a listener.
\<close>

datatype stop_reason = Signal | UncaughtException | UnhandledRejection

definition exit_code :: "shutdown_deps \<Rightarrow> stop_reason \<Rightarrow> nat" where
  "exit_code deps why =
     (case snd (executeShutdown deps) of
        ForceExit t \<Rightarrow> 1
      | RunsDry t \<Rightarrow> 0
      | Complete t \<Rightarrow> (case why of Signal \<Rightarrow> 0 | _ \<Rightarrow> 1))"

section \<open>Lemmas\<close>

text \<open>How long the steps take together, if none waits for ever.\<close>

definition step_time :: "string \<times> close_behaviour \<times> bool \<Rightarrow> nat" where
  "step_time s = (case s of (nm, b, should) \<Rightarrow>
     if should then (case b of Settles d \<Rightarrow> d | Throws d \<Rightarrow> d | NeverSettles idle \<Rightarrow> 0) else 0)"

fun step_hangs :: "string \<times> close_behaviour \<times> bool \<Rightarrow> bool" where
  "step_hangs (nm, NeverSettles idle, should) = should"
| "step_hangs (nm, b, should) = False"

definition run_names :: "(string \<times> close_behaviour \<times> bool) list \<Rightarrow> string list" where
  "run_names steps = map fst (filter (\<lambda>s. snd (snd s)) steps)"

lemma run_steps_settled:
  "\<not> list_ex step_hangs steps \<Longrightarrow>
   map snd (fst (run_steps now steps)) = run_names steps
   \<and> snd (run_steps now steps) = Through (now + sum_list (map step_time steps))"
  by (induction now steps rule: run_steps.induct)
    (auto simp: step_time_def run_names_def split: close_behaviour.splits prod.splits)

lemma run_steps_stuck:
  "\<not> list_ex step_hangs before \<Longrightarrow>
   map snd (fst (run_steps now (before @ (nm, NeverSettles idle, True) # after))) = run_names before @ [nm]
   \<and> snd (run_steps now (before @ (nm, NeverSettles idle, True) # after))
     = Stuck (map_option (\<lambda>d. now + sum_list (map step_time before) + d) idle)"
  by (induction now before rule: run_steps.induct)
    (auto simp: step_time_def run_names_def add.assoc split: close_behaviour.splits prod.splits)

lemma run_steps_later: "b \<in> set (fst (run_steps now steps)) \<Longrightarrow> now \<le> fst b"
  by (induction now steps rule: run_steps.induct)
    (fastforce split: close_behaviour.splits prod.splits if_splits)+

text \<open>The steps begun before a time are the first ones.\<close>

lemma run_steps_prefix: "\<exists>rest. run_names steps = map snd (filter (\<lambda>b. fst b < limit) (fst (run_steps now steps))) @ rest"
proof (induction now steps rule: run_steps.induct)
  case (2 now nm behaviour shouldRun steps)
  have none: "filter (\<lambda>b. fst b < limit) (fst (run_steps t ss)) = []" if "limit \<le> t" for t ss
    using that run_steps_later [of _ t ss] by (fastforce simp: filter_empty_conv)
  show ?case
  proof (cases "shouldRun \<and> now < limit")
    case True
    then show ?thesis using 2(2,3) by (cases behaviour) (auto simp: run_names_def case_prod_unfold Let_def)
  next
    case False
    then show ?thesis using 2(1) none by (cases behaviour) (auto simp: run_names_def case_prod_unfold Let_def not_less)
  qed
qed (simp add: run_names_def)

lemma first_hanging_step:
  assumes "list_ex step_hangs steps"
  obtains before nm idle after where "steps = before @ (nm, NeverSettles idle, True) # after" and "\<not> list_ex step_hangs before"
proof -
  obtain before s after where s: "steps = before @ s # after" "step_hangs s" "\<forall>x \<in> set before. \<not> step_hangs x"
    using split_list_first_prop [of steps step_hangs] assms by (auto simp: list_ex_iff)
  then show thesis
    using that by (cases s rule: step_hangs.cases) (auto simp: list_ex_iff)
qed

text \<open>However it ends, it ends within the limit.\<close>

definition end_time :: "shutdown_end \<Rightarrow> nat" where
  "end_time e = (case e of Complete t \<Rightarrow> t | ForceExit t \<Rightarrow> t | RunsDry t \<Rightarrow> t)"

lemma shutdown_in_time: "end_time (snd (executeShutdown deps)) \<le> force_timeout deps"
  by (simp add: executeShutdown_def Let_def end_time_def split: prod.split sequence_end.split option.split)

section \<open>Properties\<close>

text \<open>
  C24: A shutdown ends within its time limit, whatever its dependencies do, and the steps it began are the
  first of the configured ones, in their order. It is complete exactly when every step settles, failing or not, and their
  times add up to less than the limit: all configured steps have run and a signal exits with 0, an error with 1. It
  ends by itself, with 0 whatever the reason, when a step never settles and, before the limit, nothing keeps the process alive. Otherwise
  the process is forced to exit at the limit with 1.
\<close>

theorem shutdown_ends:
  "(\<exists>rest. run_names (shutdown_steps deps) = fst (executeShutdown deps) @ rest)
   \<and> (case executeShutdown deps of
        (names, Complete t) \<Rightarrow>
          t < force_timeout deps \<and> names = run_names (shutdown_steps deps)
          \<and> \<not> list_ex step_hangs (shutdown_steps deps) \<and> t = sum_list (map step_time (shutdown_steps deps))
          \<and> exit_code deps Signal = 0 \<and> exit_code deps UncaughtException = 1 \<and> exit_code deps UnhandledRejection = 1
      | (names, RunsDry t) \<Rightarrow>
          t < force_timeout deps \<and> exit_code deps why = 0
          \<and> (\<exists>before nm d after. shutdown_steps deps = before @ (nm, NeverSettles (Some d), True) # after
               \<and> \<not> list_ex step_hangs before \<and> names = run_names before @ [nm]
               \<and> t = sum_list (map step_time before) + d)
      | (names, ForceExit t) \<Rightarrow>
          t = force_timeout deps \<and> exit_code deps why = 1
          \<and> (\<not> list_ex step_hangs (shutdown_steps deps)
               \<and> force_timeout deps \<le> sum_list (map step_time (shutdown_steps deps))
             \<or> (\<exists>before nm idle after. shutdown_steps deps = before @ (nm, NeverSettles idle, True) # after
                  \<and> \<not> list_ex step_hangs before
                  \<and> (case idle of None \<Rightarrow> True | Some d \<Rightarrow> force_timeout deps \<le> sum_list (map step_time before) + d))))"
proof (cases "list_ex step_hangs (shutdown_steps deps)")
  case True
  then obtain before nm idle after where s: "shutdown_steps deps = before @ (nm, NeverSettles idle, True) # after"
    "\<not> list_ex step_hangs before" by (rule first_hanging_step)
  note r = run_steps_stuck [OF s(2), of 0 nm idle after, folded s(1)]
  note p = run_steps_prefix [of "shutdown_steps deps" "force_timeout deps" 0]
  have names: "\<exists>rest. run_names (shutdown_steps deps) = (run_names before @ [nm]) @ rest"
    by (simp add: s(1) run_names_def)
  let ?limit = "force_timeout deps" and ?t = "\<lambda>d. sum_list (map step_time before) + d"
  show ?thesis
  proof (cases "\<exists>d. idle = Some d \<and> ?t d < ?limit")
    case True
    then obtain d where d: "idle = Some d" "?t d < ?limit" by blast
    have e: "executeShutdown deps = (run_names before @ [nm], RunsDry (?t d))"
      using r d by (simp add: executeShutdown_def Let_def case_prod_unfold)
    have "\<exists>before' nm' d' after. shutdown_steps deps = before' @ (nm', NeverSettles (Some d'), True) # after
        \<and> \<not> list_ex step_hangs before' \<and> run_names before @ [nm] = run_names before' @ [nm']
        \<and> ?t d = sum_list (map step_time before') + d'"
      using s d(1) by blast
    with names d(2) show ?thesis by (simp add: e exit_code_def)
  next
    case False
    then have e: "executeShutdown deps = (map snd (filter (\<lambda>b. fst b < ?limit) (fst (run_steps 0 (shutdown_steps deps)))), ForceExit ?limit)"
      using r by (auto simp: executeShutdown_def Let_def case_prod_unfold split: option.split)
    have "\<exists>before nm idle after. shutdown_steps deps = before @ (nm, NeverSettles idle, True) # after
        \<and> \<not> list_ex step_hangs before
        \<and> (case idle of None \<Rightarrow> True | Some d \<Rightarrow> ?limit \<le> sum_list (map step_time before) + d)"
      using s False by (intro exI conjI) (auto split: option.split)
    with p show ?thesis by (simp add: e exit_code_def)
  qed
next
  case False
  note r = run_steps_settled [OF False, of 0]
  note p = run_steps_prefix [of "shutdown_steps deps" "force_timeout deps" 0]
  show ?thesis
    using r p False
    by (cases "sum_list (map step_time (shutdown_steps deps)) < force_timeout deps")
      (auto simp: executeShutdown_def exit_code_def Let_def case_prod_unfold)
qed

end
