(* ===== verification/Yjs_Safety.thy ===== *)
theory Yjs_Safety
  imports Yjs_Connection Graceful_Shutdown Machines
begin

text \<open>
  The document channel and the room manager together: rooms come and go, connections arrive, send,
  are pinged and close, in any order. The destroy listener that \<^verbatim>\<open>ws/yjs.ts\<close>
  registers with the room manager ties the two.
\<close>

section \<open>Steps\<close>

record ('d, 'a) doc_world =
  dw_rooms :: room_manager
  dw_yjs :: "('d, 'a) yjs_server"

text \<open>\<^verbatim>\<open>registerRoomCleanupHook\<close>: the listener of destroyed rooms.\<close>

definition room_cleanup_hook ::
  "('d, 'a) yjs_lib \<Rightarrow> destroyed \<Rightarrow> ('d, 'a) yjs_server \<Rightarrow> ('d, 'a) yjs_server" where
  "room_cleanup_hook lib d st = fold (destroySharedDoc lib) (notified d) st"

definition empty_server :: "('d, 'a) yjs_server" where
  "empty_server = \<lparr>ys_docs = [], ys_heap = (\<lambda>_. undefined), ys_next = 0,
     ys_socks = \<lparr>so_ready = (\<lambda>_. Open), so_out = []\<rparr>, ys_bound = Map.empty\<rparr>"

definition same_rooms :: "room_manager \<Rightarrow> room_manager \<Rightarrow> bool" where
  "same_rooms m m' \<longleftrightarrow> map fst (rooms m') = map fst (rooms m) \<and> maxActiveRooms m' = maxActiveRooms m"

inductive doc_step :: "('d, 'a) yjs_lib \<Rightarrow> yjs_options \<Rightarrow> ('d, 'a) doc_world \<Rightarrow> ('d, 'a) doc_world \<Rightarrow> bool"
  for lib opts where
  room_created: "createRoom m rnd uuid tok now (dw_rooms w) = Inr (mgr, r) \<Longrightarrow>
    doc_step lib opts w (w\<lparr>dw_rooms := mgr\<rparr>)"
| room_destroyed: "destroyRoom code (dw_rooms w) = (mgr, d) \<Longrightarrow>
    doc_step lib opts w (w\<lparr>dw_rooms := mgr, dw_yjs := room_cleanup_hook lib d (dw_yjs w)\<rparr>)"
| room_changed: "same_rooms (dw_rooms w) mgr \<Longrightarrow> doc_step lib opts w (w\<lparr>dw_rooms := mgr\<rparr>)"
| connected: "connection_arrives url = Arrived roomName token \<Longrightarrow> ys_bound (dw_yjs w) c = None \<Longrightarrow>
    doc_step lib opts w (w\<lparr>dw_yjs := connection_admitted lib opts validation origin
      (\<lambda>n. getRoom n (dw_rooms w)) roomName token c (dw_yjs w)\<rparr>)"
| message: "doc_step lib opts w (w\<lparr>dw_yjs := handleIncomingMessage lib (max_message_bytes opts) (max_doc_bytes opts)
      validation msg c (dw_yjs w)\<rparr>)"
| closed: "doc_step lib opts w (w\<lparr>dw_yjs := connection_closed lib c (dw_yjs w)\<rparr>)"
| pinged: "doc_step lib opts w (w\<lparr>dw_yjs := on_bound c (\<lambda>s. snd (snd (ping_tick lib pong c s))) (dw_yjs w)\<rparr>)"
| send_failed: "doc_step lib opts w (w\<lparr>dw_yjs := on_bound c (closeConn lib None c) (dw_yjs w)\<rparr>)"
| revalidated: "doc_step lib opts w (w\<lparr>dw_yjs := close_socket msg_access_required c (dw_yjs w)\<rparr>)"
| stopped: "doc_step lib opts w (w\<lparr>dw_yjs := destroyAllSharedDocs lib (dw_yjs w)\<rparr>)"

section \<open>The invariant\<close>

definition docs_ok :: "('d, 'a) yjs_server \<Rightarrow> bool" where
  "docs_ok st \<longleftrightarrow>
     distinct (map fst (ys_docs st)) \<and> distinct (map snd (ys_docs st))
     \<and> (\<forall>(n, i) \<in> set (ys_docs st). i < ys_next st \<and> sd_name (ys_heap st i) = n)
     \<and> (\<forall>i < ys_next st. distinct (map fst (sd_conns (ys_heap st i)))
          \<and> (\<forall>c. has_conn c (ys_heap st i) \<longrightarrow> ys_bound st c = Some i))
     \<and> (\<forall>i < ys_next st. i \<notin> snd ` set (ys_docs st) \<longrightarrow> sd_conns (ys_heap st i) = [])
     \<and> (\<forall>c i. ys_bound st c = Some i \<longrightarrow> i < ys_next st)"

definition docs_in_rooms :: "room_manager \<Rightarrow> ('d, 'a) yjs_server \<Rightarrow> bool" where
  "docs_in_rooms mgr st \<longleftrightarrow> fst ` set (ys_docs st) \<subseteq> fst ` set (rooms mgr)"

lemma docs_okD:
  assumes "docs_ok st"
  shows "distinct (map fst (ys_docs st))" and "distinct (map snd (ys_docs st))"
    and "(n, i) \<in> set (ys_docs st) \<Longrightarrow> i < ys_next st \<and> sd_name (ys_heap st i) = n"
    and "i < ys_next st \<Longrightarrow> distinct (map fst (sd_conns (ys_heap st i)))"
    and "i < ys_next st \<Longrightarrow> has_conn c (ys_heap st i) \<Longrightarrow> ys_bound st c = Some i"
    and "i < ys_next st \<Longrightarrow> i \<notin> snd ` set (ys_docs st) \<Longrightarrow> sd_conns (ys_heap st i) = []"
    and "ys_bound st c = Some i \<Longrightarrow> i < ys_next st"
  using assms unfolding docs_ok_def by blast+

lemma docs_okI:
  assumes "distinct (map fst (ys_docs st))" and "distinct (map snd (ys_docs st))"
    and "\<And>n i. (n, i) \<in> set (ys_docs st) \<Longrightarrow> i < ys_next st \<and> sd_name (ys_heap st i) = n"
    and "\<And>i. i < ys_next st \<Longrightarrow> distinct (map fst (sd_conns (ys_heap st i)))"
    and "\<And>i c. i < ys_next st \<Longrightarrow> has_conn c (ys_heap st i) \<Longrightarrow> ys_bound st c = Some i"
    and "\<And>i. i < ys_next st \<Longrightarrow> i \<notin> snd ` set (ys_docs st) \<Longrightarrow> sd_conns (ys_heap st i) = []"
    and "\<And>c i. ys_bound st c = Some i \<Longrightarrow> i < ys_next st"
  shows "docs_ok st"
  using assms unfolding docs_ok_def by blast

text \<open>An operation on one document that adds no connection and keeps its name.\<close>

definition adds_no_conn :: "('d, 'a) doc_state \<Rightarrow> ('d, 'a) doc_state \<Rightarrow> bool" where
  "adds_no_conn s s' \<longleftrightarrow>
     sd_name (fst s') = sd_name (fst s) \<and> set (map fst (sd_conns (fst s'))) \<subseteq> set (map fst (sd_conns (fst s)))
     \<and> (distinct (map fst (sd_conns (fst s))) \<longrightarrow> distinct (map fst (sd_conns (fst s'))))"

lemma adds_no_conn_refl [simp]: "adds_no_conn s s"
  by (simp add: adds_no_conn_def)

lemma adds_no_conn_trans: "adds_no_conn s s1 \<Longrightarrow> adds_no_conn s1 s2 \<Longrightarrow> adds_no_conn s s2"
  unfolding adds_no_conn_def by (elim conjE, intro conjI) (simp, blast, blast)

lemma only_closes_adds: "only_closes s s' \<Longrightarrow> adds_no_conn s s'"
  by (auto simp: only_closes_def adds_no_conn_def)

lemma closeConn_adds: "adds_no_conn s (closeConn lib code c s)"
  by (rule only_closes_adds) (rule only_closes_closeConn)

lemma broadcast_adds: "adds_no_conn s (broadcast lib msg s)"
  by (rule only_closes_adds) (rule only_closes_broadcast)

lemma direct_send_adds: "direct_send msg c s = Some s' \<Longrightarrow> adds_no_conn s s'"
  by (auto simp: direct_send_def adds_no_conn_def)

lemma fold_broadcast_adds: "adds_no_conn s (fold (\<lambda>u. broadcast lib (f u)) us s)"
proof (induction us arbitrary: s)
  case (Cons u us)
  show ?case using adds_no_conn_trans [OF broadcast_adds [of s lib "f u"] Cons.IH] by simp
qed simp

lemma awareness_updated_adds: "adds_no_conn s (awareness_updated lib ch c s)"
proof -
  let ?d = "case map_of (sd_conns (fst s)) c of None \<Rightarrow> fst s
    | Some ids \<Rightarrow> (fst s)\<lparr>sd_conns := AList.update c (controlled_after ch ids) (sd_conns (fst s))\<rparr>"
  have "adds_no_conn s (?d, snd s)"
    by (auto simp: adds_no_conn_def dom_update distinct_update split: option.split)
      (force dest: map_of_SomeD)
  then show ?thesis unfolding awareness_updated_def Let_def by (rule adds_no_conn_trans) (rule broadcast_adds)
qed

lemma check_size_adds: "adds_no_conn s (check_size lib m c s)"
  by (simp add: check_size_def closeConn_adds)

lemma messageListener_adds: "adds_no_conn s (messageListener lib m msg c s)"
proof -
  have doc: "adds_no_conn s ((fst s)\<lparr>sd_doc := d\<rparr>, snd s)" "adds_no_conn s ((fst s)\<lparr>sd_awareness := aw\<rparr>, snd s)"
    for d and aw
    by (simp_all add: adds_no_conn_def)
  have sync: "adds_no_conn s s2 \<and> (r = Some s1 \<longrightarrow> adds_no_conn s s1)"
    if "sync_applied lib content c s = (r, s2)" for content r s1 s2
  proof -
    obtain d us reply where r: "readSyncMessage lib content (sd_doc (fst s)) = (d, us, reply)" by (metis prod_cases3)
    have "s2 = fold (\<lambda>u. broadcast lib (sync_message lib u)) us ((fst s)\<lparr>sd_doc := d\<rparr>, snd s)"
      using that r by (simp add: sync_applied_def Let_def)
    then have 2: "adds_no_conn s s2" using adds_no_conn_trans [OF doc(1) fold_broadcast_adds] by simp
    moreover have "r = Some s1 \<Longrightarrow> s1 = s2 \<or> (\<exists>m. direct_send m c s2 = Some s1)"
      using that r by (auto simp: sync_applied_def Let_def split: option.splits if_splits)
    ultimately show ?thesis using adds_no_conn_trans [OF 2 direct_send_adds] by blast
  qed
  have aware: "adds_no_conn s s2 \<and> (r = Some s1 \<longrightarrow> adds_no_conn s s1)"
    if "awareness_applied lib content c s = (r, s2)" for content r s1 s2
    using that doc(2) adds_no_conn_trans [OF doc(2) awareness_updated_adds]
    by (auto simp: awareness_applied_def Let_def split: prod.splits option.splits if_splits)
  let ?applied = "case readVarUint lib msg of None \<Rightarrow> (None, s)
    | Some (messageType, content) \<Rightarrow>
        if messageType = messageSync then sync_applied lib content c s
        else if messageType = messageAwareness then awareness_applied lib content c s else (Some s, s)"
  obtain r s2 where ap: "?applied = (r, s2)" by (cases ?applied) blast
  then have r: "adds_no_conn s s2 \<and> (r = Some s1 \<longrightarrow> adds_no_conn s s1)" for s1
    using sync aware by (auto split: option.splits if_splits prod.splits)
  show ?thesis
  proof (cases r)
    case None
    with ap r show ?thesis using adds_no_conn_trans [OF _ closeConn_adds] by (simp add: messageListener_def)
  next
    case (Some s1)
    with r [of s1] have "adds_no_conn s s1" by simp
    from adds_no_conn_trans [OF this check_size_adds] ap Some show ?thesis by (simp add: messageListener_def)
  qed
qed

lemma ping_tick_adds: "adds_no_conn s (snd (snd (ping_tick lib pong c s)))"
proof -
  have "adds_no_conn s (fst s, so)" for so by (simp add: adds_no_conn_def)
  then show ?thesis by (simp add: ping_tick_def closeConn_adds)
qed

lemma on_doc_docs [simp]: "ys_docs (on_doc i f st) = ys_docs st" "ys_next (on_doc i f st) = ys_next st"
    "ys_bound (on_doc i f st) = ys_bound st"
  by (simp_all add: on_doc_def Let_def)

lemma on_doc_ok:
  assumes ok: "docs_ok st" and i: "i < ys_next st" and f: "adds_no_conn (ys_heap st i, ys_socks st) (f (ys_heap st i, ys_socks st))"
  shows "docs_ok (on_doc i f st)"
proof -
  let ?d = "ys_heap st i" and ?d' = "fst (f (ys_heap st i, ys_socks st))"
  from f have n: "sd_name ?d' = sd_name ?d" and sub: "set (map fst (sd_conns ?d')) \<subseteq> set (map fst (sd_conns ?d))"
    and di: "distinct (map fst (sd_conns ?d)) \<longrightarrow> distinct (map fst (sd_conns ?d'))"
    by (simp_all add: adds_no_conn_def)
  from sub have hc: "has_conn c ?d' \<Longrightarrow> has_conn c ?d" for c by (auto simp: has_conn_iff)
  from sub have nil: "sd_conns ?d = [] \<Longrightarrow> sd_conns ?d' = []" by simp
  let ?st = "on_doc i f st"
  have heap: "ys_heap ?st j = (if j = i then ?d' else ys_heap st j)" for j by (simp add: on_doc_def Let_def)
  note D = docs_okD [OF ok]
  show ?thesis
  proof (rule docs_okI)
    fix n' j assume "(n', j) \<in> set (ys_docs ?st)"
    then have "(n', j) \<in> set (ys_docs st)" by simp
    from D(3) [OF this] show "j < ys_next ?st \<and> sd_name (ys_heap ?st j) = n'" using n by (cases "j = i") (simp_all add: heap)
  next
    fix j assume "j < ys_next ?st"
    then have "j < ys_next st" by simp
    from D(4) [OF this] show "distinct (map fst (sd_conns (ys_heap ?st j)))" using di by (cases "j = i") (simp_all add: heap)
  next
    fix j c assume "j < ys_next ?st" and h: "has_conn c (ys_heap ?st j)"
    then have "j < ys_next st" by simp
    moreover from h have "has_conn c (ys_heap st j)" using hc by (cases "j = i") (simp_all add: heap)
    ultimately show "ys_bound ?st c = Some j" using D(5) by simp
  next
    fix j assume "j < ys_next ?st" "j \<notin> snd ` set (ys_docs ?st)"
    then have "sd_conns (ys_heap st j) = []" using D(6) by simp
    then show "sd_conns (ys_heap ?st j) = []" using nil by (cases "j = i") (simp_all add: heap)
  qed (use D(1,2,7) in simp_all)
qed

lemma on_bound_ok:
  assumes "docs_ok st" and "\<And>s. adds_no_conn s (f s)"
  shows "docs_ok (on_bound c f st)"
proof (cases "ys_bound st c")
  case (Some i)
  with assms(1) have "i < ys_next st" unfolding docs_ok_def by blast
  from on_doc_ok [where f = f, OF assms(1) this assms(2)] Some show ?thesis by (simp add: on_bound_def)
qed (simp add: on_bound_def assms(1))

lemma on_bound_docs [simp]: "ys_docs (on_bound c f st) = ys_docs st"
  by (simp add: on_bound_def split: option.split)

lemma close_socket_ok [simp]: "docs_ok (close_socket code c st) = docs_ok st" "ys_docs (close_socket code c st) = ys_docs st"
  by (simp_all add: docs_ok_def close_socket_def)

lemma close_all_adds: "adds_no_conn s (close_all lib s)"
proof -
  have "adds_no_conn s (fold (closeConn lib None) cs s)" for cs
  proof (induction cs arbitrary: s)
    case (Cons c cs)
    show ?case using adds_no_conn_trans [OF closeConn_adds [of s lib None c] Cons.IH] by simp
  qed simp
  then show ?thesis by (simp add: close_all_def)
qed

lemma close_all_empties: "sd_conns (fst (close_all lib s)) = []"
proof -
  have "set (map fst (sd_conns (fst (fold (closeConn lib None) cs s)))) \<subseteq> set (map fst (sd_conns (fst s))) - set cs" for cs
  proof (induction cs arbitrary: s)
    case (Cons c cs)
    have "set (map fst (sd_conns (fst (closeConn lib None c s)))) \<subseteq> set (map fst (sd_conns (fst s))) - {c}"
      using closeConn_adds [of s lib None c] closeConn_conns [of c lib None s] by (auto simp: adds_no_conn_def)
    then show ?case using Cons.IH [of "closeConn lib None c s"] by (simp only: fold_Cons comp_apply list.set) blast
  qed simp
  from this [of "map fst (sd_conns (fst s))"] show ?thesis by (simp add: close_all_def)
qed

lemma destroySharedDoc_ok:
  assumes ok: "docs_ok st"
  shows "docs_ok (destroySharedDoc lib n st)"
    and "ys_docs (destroySharedDoc lib n st) = AList.delete n (ys_docs st)"
proof -
  show docs: "ys_docs (destroySharedDoc lib n st) = AList.delete n (ys_docs st)"
    by (auto simp: destroySharedDoc_def delete_id map_of_eq_None_iff split: option.split)
  show "docs_ok (destroySharedDoc lib n st)"
  proof (cases "map_of (ys_docs st) n")
    case None
    with ok show ?thesis by (simp add: destroySharedDoc_def)
  next
    case (Some i)
    then have mem: "(n, i) \<in> set (ys_docs st)" by (rule map_of_SomeD)
    note D = docs_okD [OF ok]
    let ?st1 = "on_doc i (close_all lib) st"
    have ok1: "docs_ok ?st1" using ok D(3) [OF mem] close_all_adds by (blast intro: on_doc_ok)
    note D1 = docs_okD [OF ok1]
    have st: "destroySharedDoc lib n st = ?st1\<lparr>ys_docs := AList.delete n (ys_docs st)\<rparr>"
      using Some by (simp add: destroySharedDoc_def)
    have nil: "sd_conns (ys_heap ?st1 i) = []" by (simp add: on_doc_def Let_def close_all_empties)
    show ?thesis
      unfolding st
    proof (rule docs_okI)
      fix j assume j: "j < ys_next (?st1\<lparr>ys_docs := AList.delete n (ys_docs st)\<rparr>)"
        "j \<notin> snd ` set (ys_docs (?st1\<lparr>ys_docs := AList.delete n (ys_docs st)\<rparr>))"
      show "sd_conns (ys_heap (?st1\<lparr>ys_docs := AList.delete n (ys_docs st)\<rparr>) j) = []"
      proof (cases "j = i")
        case False
        have "j \<notin> snd ` set (ys_docs ?st1)"
        proof
          assume "j \<in> snd ` set (ys_docs ?st1)"
          then obtain n' where n': "(n', j) \<in> set (ys_docs st)" by auto
          with j(2) have "n' = n" by (force simp: mem_AList_delete)
          with n' mem D(1) False show False by (simp add: eq_key_imp_eq_value)
        qed
        with D1(6) j(1) show ?thesis by simp
      qed (simp add: nil)
    next
      show "distinct (map snd (ys_docs (?st1\<lparr>ys_docs := AList.delete n (ys_docs st)\<rparr>)))"
        using D(2) by (simp add: AList.delete_eq distinct_map_filter)
    next
      fix m j assume "(m, j) \<in> set (ys_docs (?st1\<lparr>ys_docs := AList.delete n (ys_docs st)\<rparr>))"
      then have "(m, j) \<in> set (ys_docs ?st1)" by (simp add: mem_AList_delete)
      from D1(3) [OF this] show "j < ys_next (?st1\<lparr>ys_docs := AList.delete n (ys_docs st)\<rparr>)
          \<and> sd_name (ys_heap (?st1\<lparr>ys_docs := AList.delete n (ys_docs st)\<rparr>) j) = m" by simp
    next
      show "distinct (map fst (ys_docs (?st1\<lparr>ys_docs := AList.delete n (ys_docs st)\<rparr>)))"
        using D(1) by (simp add: distinct_AList_delete)
    next
      fix j k assume "j < ys_next (?st1\<lparr>ys_docs := AList.delete n (ys_docs st)\<rparr>)"
        "has_conn k (ys_heap (?st1\<lparr>ys_docs := AList.delete n (ys_docs st)\<rparr>) j)"
      with D1(5) [of j k] show "ys_bound (?st1\<lparr>ys_docs := AList.delete n (ys_docs st)\<rparr>) k = Some j" by simp
    next
      fix k j assume "ys_bound (?st1\<lparr>ys_docs := AList.delete n (ys_docs st)\<rparr>) k = Some j"
      with D1(7) [of k j] show "j < ys_next (?st1\<lparr>ys_docs := AList.delete n (ys_docs st)\<rparr>)" by simp
    next
      fix j assume "j < ys_next (?st1\<lparr>ys_docs := AList.delete n (ys_docs st)\<rparr>)"
      with D1(4) [of j] show "distinct (map fst (sd_conns (ys_heap (?st1\<lparr>ys_docs := AList.delete n (ys_docs st)\<rparr>) j)))"
        by simp
    qed
  qed
qed

lemma destroy_names_ok:
  "docs_ok st \<Longrightarrow> docs_ok (fold (destroySharedDoc lib) ns st)
    \<and> fst ` set (ys_docs (fold (destroySharedDoc lib) ns st)) = fst ` set (ys_docs st) - set ns"
proof (induction ns arbitrary: st)
  case (Cons n ns)
  have "fst ` set (ys_docs (destroySharedDoc lib n st)) = fst ` set (ys_docs st) - {n}"
    using destroySharedDoc_ok(2) [OF Cons.prems] by (force simp: mem_AList_delete)
  then show ?case using Cons.IH [OF destroySharedDoc_ok(1) [OF Cons.prems, of lib n]] by auto
qed simp

lemma greet_adds: "greet lib c s = Some s' \<Longrightarrow> adds_no_conn s s'"
  by (auto simp: greet_def Let_def direct_send_def adds_no_conn_def split: option.splits if_splits)

lemma AList_update_new: "k \<notin> fst ` set m \<Longrightarrow> AList.update k v m = m @ [(k, v)]"
  by (induction m) auto

lemma setupWSConnection_ok:
  assumes ok: "docs_ok st" and c: "ys_bound st c = None"
  shows "docs_ok (setupWSConnection lib n c st)"
    and "fst ` set (ys_docs (setupWSConnection lib n c st)) = insert n (fst ` set (ys_docs st))"
proof -
  obtain i st1 where g: "getOrCreateSharedDoc lib n st = (i, st1)" by fastforce
  note D = docs_okD [OF ok]
  have 1: "docs_ok st1 \<and> i < ys_next st1 \<and> ys_bound st1 = ys_bound st
      \<and> fst ` set (ys_docs st1) = insert n (fst ` set (ys_docs st))"
  proof (cases "map_of (ys_docs st) n")
    case (Some j)
    then have "(n, j) \<in> set (ys_docs st)" by (rule map_of_SomeD)
    with g Some ok D(3) show ?thesis by (force simp: getOrCreateSharedDoc_def)
  next
    case None
    let ?k = "ys_next st"
    from None have new: "n \<notin> fst ` set (ys_docs st)" by (simp add: map_of_eq_None_iff)
    have st1: "st1 = st\<lparr>ys_docs := ys_docs st @ [(n, ?k)], ys_heap := (ys_heap st)(?k := new_shared_doc lib n),
        ys_next := Suc ?k\<rparr>" and i: "i = ?k"
      using g None new by (auto simp: getOrCreateSharedDoc_def AList_update_new)
    have fresh: "?k \<notin> snd ` set (ys_docs st)" using D(3) by fastforce
    have "docs_ok st1"
    proof (rule docs_okI)
      fix j assume "j < ys_next st1"
      then show "distinct (map fst (sd_conns (ys_heap st1 j)))"
        using D(4) [of j] by (cases "j = ?k") (simp_all add: st1 new_shared_doc_def)
    next
      fix j k assume "j < ys_next st1" "has_conn k (ys_heap st1 j)"
      then show "ys_bound st1 k = Some j"
        using D(5) [of j k] by (cases "j = ?k") (simp_all add: st1 new_shared_doc_def has_conn_def)
    next
      fix j assume "j < ys_next st1" "j \<notin> snd ` set (ys_docs st1)"
      then show "sd_conns (ys_heap st1 j) = []" using D(6) [of j] by (simp add: st1)
    next
      fix m j assume "(m, j) \<in> set (ys_docs st1)"
      then show "j < ys_next st1 \<and> sd_name (ys_heap st1 j) = m"
        using D(3) [of m j] by (auto simp: st1 new_shared_doc_def)
    next
      fix k j assume "ys_bound st1 k = Some j"
      then show "j < ys_next st1" using D(7) [of k j] by (simp add: st1)
    qed (use D(1,2) new fresh in \<open>auto simp: st1\<close>)
    then show ?thesis by (simp add: st1 i)
  qed
  then have ok1: "docs_ok st1" and i: "i < ys_next st1" and b: "ys_bound st1 = ys_bound st" by simp_all
  note D1 = docs_okD [OF ok1]
  let ?add = "\<lambda>s. ((fst s)\<lparr>sd_conns := AList.update c [] (sd_conns (fst s))\<rparr>, snd s)"
  let ?st3 = "(on_doc i ?add st1)\<lparr>ys_bound := (ys_bound (on_doc i ?add st1))(c \<mapsto> i)\<rparr>"
  have r: "setupWSConnection lib n c st = on_doc i (\<lambda>s. case greet lib c s of None \<Rightarrow> s | Some s' \<Rightarrow> s') ?st3"
    by (simp add: setupWSConnection_def g)
  have greeted: "adds_no_conn s (case greet lib c s of None \<Rightarrow> s | Some s' \<Rightarrow> s')" for s
    by (cases "greet lib c s") (simp_all add: greet_adds)
  have 3: "docs_ok ?st3"
  proof (rule docs_okI)
    have heap: "ys_heap (on_doc i ?add st1) j = (if j = i then fst (?add (ys_heap st1 i, ys_socks st1)) else ys_heap st1 j)" for j
      by (simp add: on_doc_def Let_def)
    fix j assume j: "j < ys_next ?st3"
    show "distinct (map fst (sd_conns (ys_heap ?st3 j)))"
      using D1(4) j by (simp add: heap distinct_update)
    show "ys_bound ?st3 k = Some j" if "has_conn k (ys_heap ?st3 j)" for k
    proof (cases "k = c")
      case True
      have "\<not> has_conn c (ys_heap st1 j)" using D1(5) [of j c] j b c by auto
      with that True show ?thesis by (simp add: heap split: if_splits)
    next
      case False
      with that have "has_conn k (ys_heap st1 j)"
        by (auto simp: heap has_conn_def update_conv' split: if_splits)
      with D1(5) [of j k] j False show ?thesis by simp
    qed
    show "sd_conns (ys_heap ?st3 j) = []" if "j \<notin> snd ` set (ys_docs ?st3)"
    proof -
      have "map_of (ys_docs st1) n = Some i"
        using g by (auto simp: getOrCreateSharedDoc_def update_conv' split: option.splits)
      then have "i \<in> snd ` set (ys_docs st1)" by (force dest: map_of_SomeD)
      with that D1(6) [of j] j show ?thesis by (auto simp: heap)
    qed
  next
    fix m j assume "(m, j) \<in> set (ys_docs ?st3)"
    then show "j < ys_next ?st3 \<and> sd_name (ys_heap ?st3 j) = m"
      using D1(3) [of m j] by (cases "j = i") (simp_all add: on_doc_def Let_def)
  next
    fix k j assume "ys_bound ?st3 k = Some j"
    then show "j < ys_next ?st3" using D1(7) [of k j] i by (simp split: if_splits)
  qed (use D1(1,2) in simp_all)
  have "i < ys_next ?st3" using i by simp
  with 3 show "docs_ok (setupWSConnection lib n c st)"
    unfolding r by (rule on_doc_ok) (rule greeted)
  show "fst ` set (ys_docs (setupWSConnection lib n c st)) = insert n (fst ` set (ys_docs st))"
    using 1 by (simp add: r)
qed

definition doc_inv :: "('d, 'a) doc_world \<Rightarrow> bool" where
  "doc_inv w \<longleftrightarrow> docs_ok (dw_yjs w) \<and> docs_in_rooms (dw_rooms w) (dw_yjs w)"

lemma normalizeRoomName_fixed: "normalizeRoomName s = Some n \<Longrightarrow> normalizeRoomCode n = n"
  by (auto simp: normalizeRoomName_def normalizeRoomCode_def trim_toLowerCase)

lemma arrived_name: "connection_arrives url = Arrived n token \<Longrightarrow> normalizeRoomCode n = n"
proof -
  have "normalizeRoomCode ''default'' = ''default''" by code_simp
  then show "connection_arrives url = Arrived n token \<Longrightarrow> normalizeRoomCode n = n"
    by (auto simp: connection_arrives_def extractRoomName_def Let_def dest: normalizeRoomName_fixed
      split: option.splits if_splits)
qed

lemma createRoom_keys:
  "createRoom m rnd uuid tok now mgr = Inr (mgr', r) \<Longrightarrow> fst ` set (rooms mgr) \<subseteq> fst ` set (rooms mgr')"
  by (auto simp: createRoom_def Let_def dom_update split: if_splits) force

lemma destroyRoom_keys:
  assumes "destroyRoom code mgr = (mgr', d)"
  shows "fst ` set (rooms mgr) - set (notified d) \<subseteq> fst ` set (rooms mgr')"
  using assms by (auto simp: destroyRoom_def Let_def nothing_destroyed_def mem_AList_delete image_iff split: option.splits)

lemma admitted_inv:
  assumes inv: "docs_ok st" "docs_in_rooms mgr st" and n: "normalizeRoomCode n = n" and c: "ys_bound st c = None"
  shows "docs_ok (connection_admitted lib opts v origin (\<lambda>n. getRoom n mgr) n token c st)
    \<and> docs_in_rooms mgr (connection_admitted lib opts v origin (\<lambda>n. getRoom n mgr) n token c st)"
proof -
  have "n \<in> fst ` set (rooms mgr)" if "getRoom n mgr = Some r" for r
    using that n by (force simp: getRoom_def dest: map_of_SomeD)
  then have "docs_ok (setupWSConnection lib n c st) \<and> docs_in_rooms mgr (setupWSConnection lib n c st)"
    if "getRoom n mgr = Some r" for r
    using that inv(2) setupWSConnection_ok [OF inv(1) c, of lib n] by (simp add: docs_in_rooms_def)
  moreover have "docs_ok (close_socket k c st) \<and> docs_in_rooms mgr (close_socket k c st)" for k
    using inv by (simp add: docs_in_rooms_def)
  ultimately show ?thesis by (simp add: connection_admitted_def split: option.split sum.split)
qed

lemma handleIncomingMessage_inv:
  "docs_ok st \<Longrightarrow> docs_ok (handleIncomingMessage lib mm md v msg c st)"
  "ys_docs (handleIncomingMessage lib mm md v msg c st) = ys_docs st"
  by (auto simp: handleIncomingMessage_def intro!: on_bound_ok messageListener_adds split: option.splits sum.splits)

lemma socket_update_ok [simp]: "docs_ok (st\<lparr>ys_socks := so\<rparr>) = docs_ok st"
  by (simp add: docs_ok_def)

lemma doc_step_inv: "doc_inv w \<Longrightarrow> doc_step lib opts w w' \<Longrightarrow> doc_inv w'"
proof (erule doc_step.cases, goal_cases)
  case (1 m rnd uuid tok now w mgr r)
  with createRoom_keys [OF 1(4)] show ?case by (simp add: doc_inv_def docs_in_rooms_def) blast
next
  case (2 code w mgr d)
  then show ?case
    using destroyRoom_keys [OF 2(4)] destroy_names_ok [of "dw_yjs w" lib "notified d"]
    by (simp add: doc_inv_def docs_in_rooms_def room_cleanup_hook_def) blast
next
  case (3 w mgr)
  then have "fst ` set (rooms mgr) = fst ` set (rooms (dw_rooms w))"
    unfolding same_rooms_def by (metis set_map)
  with 3 show ?case by (simp add: doc_inv_def docs_in_rooms_def)
next
  case (4 url n token w c v origin)
  with admitted_inv [OF _ _ arrived_name [OF 4(4)] 4(5)] show ?case by (simp add: doc_inv_def)
next
  case (5 w v msg c)
  then show ?case by (simp add: doc_inv_def docs_in_rooms_def handleIncomingMessage_inv)
next
  case (6 w c)
  then show ?case by (simp add: doc_inv_def docs_in_rooms_def connection_closed_def on_bound_ok closeConn_adds)
next
  case (7 w c pong)
  then show ?case by (simp add: doc_inv_def docs_in_rooms_def on_bound_ok ping_tick_adds)
next
  case (8 w c)
  then show ?case by (simp add: doc_inv_def docs_in_rooms_def on_bound_ok closeConn_adds)
next
  case (9 w c)
  then show ?case by (simp add: doc_inv_def docs_in_rooms_def)
next
  case (10 w)
  then show ?case
    using destroy_names_ok [of "dw_yjs w" lib "map fst (ys_docs (dw_yjs w))"]
    by (auto simp: doc_inv_def docs_in_rooms_def destroyAllSharedDocs_def)
qed

interpretation documents: step_invariant "doc_step lib opts" doc_inv for lib opts
  by unfold_locales (rule doc_step_inv)

section \<open>What a message does\<close>

text \<open>The document as the library leaves it after a message.\<close>

definition applied_doc :: "('d, 'a) yjs_lib \<Rightarrow> bytes \<Rightarrow> 'd \<Rightarrow> 'd" where
  "applied_doc lib msg d =
     (case readVarUint lib msg of
        None \<Rightarrow> d
      | Some (t, content) \<Rightarrow> if t = messageSync then fst (readSyncMessage lib content d) else d)"

lemma closeConn_doc [simp]: "sd_doc (fst (closeConn lib code c s)) = sd_doc (fst s)"
  using only_closes_closeConn [of s lib code c] by (simp add: only_closes_def)

lemma broadcast_doc [simp]: "sd_doc (fst (broadcast lib msg s)) = sd_doc (fst s)"
  using only_closes_broadcast [of s lib msg] by (simp add: only_closes_def)

lemma fold_broadcast_doc [simp]: "sd_doc (fst (fold (\<lambda>u. broadcast lib (f u)) us s)) = sd_doc (fst s)"
  by (induction us arbitrary: s) simp_all

lemma check_size_doc [simp]: "sd_doc (fst (check_size lib m c s)) = sd_doc (fst s)"
  by (simp add: check_size_def)

lemma awareness_updated_doc [simp]: "sd_doc (fst (awareness_updated lib ch c s)) = sd_doc (fst s)"
  by (simp add: awareness_updated_def Let_def split: option.split)

text \<open>The listener closes the connection, or has checked the size of the document.\<close>

lemma messageListener_cases:
  obtains s1 where "sd_doc (fst s1) = applied_doc lib msg (sd_doc (fst s))"
    and "messageListener lib m msg c s = closeConn lib (Some msg_invalid) c s1
      \<or> messageListener lib m msg c s = check_size lib m c s1"
proof (cases "readVarUint lib msg")
  case None
  then show ?thesis by (intro that [of s]) (simp_all add: applied_doc_def messageListener_def)
next
  case (Some p)
  obtain t content where p: "p = (t, content)" by fastforce
  show ?thesis
  proof (cases "t = messageSync")
    case True
    obtain d us reply where r: "readSyncMessage lib content (sd_doc (fst s)) = (d, us, reply)" by (metis prod_cases3)
    let ?s1 = "fold (\<lambda>u. broadcast lib (sync_message lib u)) us ((fst s)\<lparr>sd_doc := d\<rparr>, snd s)"
    have d: "sd_doc (fst ?s1) = applied_doc lib msg (sd_doc (fst s))" by (simp add: applied_doc_def Some p True r)
    have sent: "direct_send b c ?s1 = Some s2 \<Longrightarrow> sd_doc (fst s2) = sd_doc (fst ?s1)" for b s2
      by (auto simp: direct_send_def)
    have l: "messageListener lib m msg c s = (case sync_applied lib content c s of
        (Some s1, _) \<Rightarrow> check_size lib m c s1 | (None, s1) \<Rightarrow> closeConn lib (Some msg_invalid) c s1)"
      by (simp add: messageListener_def Some p True)
    show ?thesis
    proof (cases "fst (sync_applied lib content c s)")
      case None
      then show ?thesis using that [OF d] by (auto simp: l sync_applied_def r Let_def split: option.splits if_splits)
    next
      case (Some s2)
      then have "sd_doc (fst s2) = sd_doc (fst ?s1)"
        using sent by (auto simp: sync_applied_def r Let_def split: option.splits if_splits)
      with that [of s2] d Some show ?thesis by (cases "sync_applied lib content c s") (simp add: l)
    qed
  next
    case False
    have d: "sd_doc (fst s) = applied_doc lib msg (sd_doc (fst s))" by (simp add: applied_doc_def Some p False)
    have aware: "sd_doc (fst s2) = sd_doc (fst s) \<and> (r = Some s1 \<longrightarrow> sd_doc (fst s1) = sd_doc (fst s))"
      if "awareness_applied lib content c s = (r, s2)" for r s1 s2
      using that by (auto simp: awareness_applied_def Let_def split: prod.splits option.splits if_splits)
    obtain r s2 where a: "awareness_applied lib content c s = (r, s2)" by (cases "awareness_applied lib content c s") blast
    show ?thesis
    proof (cases "t = messageAwareness")
      case True
      with False a have l: "messageListener lib m msg c s = (case r of
          Some s1 \<Rightarrow> check_size lib m c s1 | None \<Rightarrow> closeConn lib (Some msg_invalid) c s2)"
        by (simp add: messageListener_def Some p split: option.split)
      show ?thesis
      proof (cases r)
        case None
        with that [of s2] l d aware [OF a] show ?thesis by simp
      next
        case (Some s1)
        with that [of s1] l d aware [OF a, of s1] show ?thesis by simp
      qed
    next
      case no: False
      with False d show ?thesis by (intro that [of s]) (simp_all add: messageListener_def Some p)
    qed
  qed
qed

lemma messageListener_doc: "sd_doc (fst (messageListener lib m msg c s)) = applied_doc lib msg (sd_doc (fst s))"
  by (rule messageListener_cases [where lib = lib and msg = msg and s = s and m = m and c = c]) auto

lemma messageListener_evicts:
  assumes "m < encodedSize lib (applied_doc lib msg (sd_doc (fst s)))"
  shows "\<not> has_conn c (fst (messageListener lib m msg c s))
    \<and> \<not> not_closed (so_ready (snd (messageListener lib m msg c s)) c)"
proof (rule messageListener_cases [where lib = lib and msg = msg and s = s and m = m and c = c])
  fix s1 assume d: "sd_doc (fst s1) = applied_doc lib msg (sd_doc (fst s))"
    and l: "messageListener lib m msg c s = closeConn lib (Some msg_invalid) c s1
      \<or> messageListener lib m msg c s = check_size lib m c s1"
  from d l assms obtain code where "messageListener lib m msg c s = closeConn lib code c s1"
    by (auto simp: check_size_def)
  then show ?thesis by (simp add: has_conn_iff closeConn_conns closeConn_closed)
qed

section \<open>A sample library\<close>

text \<open>Documents are the bytes written to them; every sync message appends.\<close>

definition sample_lib :: "(bytes, nat list) yjs_lib" where
  "sample_lib = \<lparr>newDoc = [], newAwareness = [],
     readVarUint = (\<lambda>b. case b of [] \<Rightarrow> None | x # xs \<Rightarrow> Some (unat x, xs)), readVarUint8Array = Some,
     readSyncMessage = (\<lambda>b d. (d @ b, if b = [] then [] else [b], Some [])),
     applyAwareness = (\<lambda>b aw. (aw, None, True)), removeAwarenessStates = (\<lambda>ids aw. (aw, None)),
     encodeAwarenessUpdate = (\<lambda>ids aw. []), awarenessStates = (\<lambda>aw. aw), writeUpdate = (\<lambda>u. u),
     writeSyncStep1 = (\<lambda>d. d), encodedSize = length\<rparr>"

definition two_conns :: "(bytes, nat list) doc_state" where
  "two_conns = (\<lparr>sd_name = ''ab'', sd_doc = [], sd_awareness = [], sd_conns = [(1, []), (2, []), (3, [])]\<rparr>,
     \<lparr>so_ready = (\<lambda>_. Open)(3 := Closed), so_out = []\<rparr>)"

definition sample_doc_room :: room where
  "sample_doc_room = new_room ''ab'' Collaboration no_options ''tk'' 0"

definition sample_doc_world :: "(bytes, nat list) doc_world" where
  "sample_doc_world = \<lparr>dw_rooms = initial_manager\<lparr>rooms := [(''ab'', sample_doc_room)]\<rparr>, dw_yjs = empty_server\<rparr>"

definition no_yjs_options :: yjs_options where
  "no_yjs_options = \<lparr>yo_allowedOrigins = None, yo_maxMessageBytes = None, yo_maxDocBytes = None\<rparr>"

definition joined_world :: "(bytes, nat list) doc_world" where
  "joined_world = sample_doc_world\<lparr>dw_yjs := setupWSConnection sample_lib ''ab'' 1 empty_server\<rparr>"

lemma joined_step: "doc_step sample_lib no_yjs_options sample_doc_world joined_world"
proof -
  have arr: "connection_arrives (Some ''/ws/yjs/AB?token=tk'') = Arrived ''ab'' (Some ''tk'')" by code_simp
  have "normalizeRoomCode ''ab'' = ''ab''" by code_simp
  then have "connection_admitted sample_lib no_yjs_options None None (\<lambda>n. getRoom n (dw_rooms sample_doc_world))
      ''ab'' (Some ''tk'') 1 (dw_yjs sample_doc_world) = setupWSConnection sample_lib ''ab'' 1 empty_server"
    by (simp add: connection_admitted_def no_yjs_options_def getRoom_def sample_doc_world_def sample_doc_room_def
      new_room_def)
  moreover have "ys_bound (dw_yjs sample_doc_world) 1 = None" by (simp add: sample_doc_world_def empty_server_def)
  ultimately show ?thesis
    using doc_step.connected [OF arr, of sample_doc_world 1 sample_lib no_yjs_options None None]
    by (simp add: joined_world_def)
qed

section \<open>Properties\<close>

text \<open>
  A message sent to all connections of a document reaches every open one and keeps it; a
  connection that is not open any more is dropped.
\<close>

theorem broadcast_serves:
  assumes "has_conn k (fst s)"
  shows "if so_ready (snd s) k = Open
    then has_conn k (fst (broadcast lib msg s)) \<and> WsSend k msg \<in> set (so_out (snd (broadcast lib msg s)))
    else \<not> has_conn k (fst (broadcast lib msg s))"
proof -
  have "k \<in> set (map fst (sd_conns (fst s)))" using assms by (simp add: has_conn_iff)
  from send_all_serves [OF this, of msg s lib] assms show ?thesis
    by (simp add: broadcast_def served_def split: if_splits)
qed

theorem broadcast_serves_witness:
  "has_conn 2 (fst (broadcast sample_lib [7] two_conns)) \<and> \<not> has_conn 3 (fst (broadcast sample_lib [7] two_conns))"
proof -
  have "has_conn 2 (fst two_conns)" "has_conn 3 (fst two_conns)" by (simp_all add: two_conns_def has_conn_def)
  from this [THEN broadcast_serves, of sample_lib "[7]"] show ?thesis by (simp add: two_conns_def)
qed

text \<open>
  C6: Documents belong to rooms. Whatever rooms are created, destroyed or changed, and whatever
  connections arrive, send, hang or close, in any order: every shared document is that of a room that
  exists, and every connection belongs to exactly one document, which is registered under its name.
\<close>

theorem documents_belong_to_rooms:
  assumes "(doc_step lib opts)\<^sup>*\<^sup>* \<lparr>dw_rooms = mgr, dw_yjs = empty_server\<rparr> w"
  shows "fst ` set (ys_docs (dw_yjs w)) \<subseteq> fst ` set (rooms (dw_rooms w))
    \<and> (\<forall>i < ys_next (dw_yjs w). \<forall>c. has_conn c (ys_heap (dw_yjs w) i) \<longrightarrow>
         ys_bound (dw_yjs w) c = Some i \<and> (sd_name (ys_heap (dw_yjs w) i), i) \<in> set (ys_docs (dw_yjs w)))"
proof -
  have "doc_inv \<lparr>dw_rooms = mgr, dw_yjs = empty_server\<rparr>"
    by (simp add: doc_inv_def docs_ok_def docs_in_rooms_def empty_server_def)
  from documents.inv_steps [OF assms this] have ok: "docs_ok (dw_yjs w)" and r: "docs_in_rooms (dw_rooms w) (dw_yjs w)"
    by (simp_all add: doc_inv_def)
  note D = docs_okD [OF ok]
  have "ys_bound (dw_yjs w) c = Some i \<and> (sd_name (ys_heap (dw_yjs w) i), i) \<in> set (ys_docs (dw_yjs w))"
    if i: "i < ys_next (dw_yjs w)" and c: "has_conn c (ys_heap (dw_yjs w) i)" for i c
  proof -
    from c have "sd_conns (ys_heap (dw_yjs w) i) \<noteq> []" by (auto simp: has_conn_def)
    with D(6) [OF i] obtain n where "(n, i) \<in> set (ys_docs (dw_yjs w))" by fastforce
    with D(3) D(5) [OF i c] show ?thesis by blast
  qed
  with r show ?thesis by (simp add: docs_in_rooms_def)
qed

theorem documents_belong_to_rooms_witness:
  "(doc_step sample_lib no_yjs_options)\<^sup>*\<^sup>* sample_doc_world joined_world
   \<and> fst ` set (ys_docs (dw_yjs joined_world)) \<subseteq> {''ab''} \<and> getSharedDocCount (dw_yjs joined_world) = 1"
proof -
  have s: "(doc_step sample_lib no_yjs_options)\<^sup>*\<^sup>* sample_doc_world joined_world" using joined_step by blast
  then have "(doc_step sample_lib no_yjs_options)\<^sup>*\<^sup>*
      \<lparr>dw_rooms = initial_manager\<lparr>rooms := [(''ab'', sample_doc_room)]\<rparr>, dw_yjs = empty_server\<rparr> joined_world"
    by (simp add: sample_doc_world_def)
  from documents_belong_to_rooms [OF this] s show ?thesis
    by (simp add: joined_world_def sample_doc_world_def setupWSConnection_def getOrCreateSharedDoc_def empty_server_def
      getSharedDocCount_def)
qed

lemma close_all_closes:
  "c \<in> set cs \<Longrightarrow> \<not> not_closed (so_ready (snd (fold (closeConn lib None) cs s)) c)"
proof -
  have keeps: "\<not> not_closed (so_ready (snd s) c) \<Longrightarrow> \<not> not_closed (so_ready (snd (fold (closeConn lib None) cs s)) c)"
    for cs and s :: "('a, 'b) doc_state"
  proof (induction cs arbitrary: s)
    case (Cons k cs)
    from only_closes_closeConn [of s lib None k] Cons.prems
    have "\<not> not_closed (so_ready (snd (closeConn lib None k s)) c)"
      unfolding only_closes_def by (metis not_closed_Closing)
    then show ?case using Cons.IH by simp
  qed simp
  show "c \<in> set cs \<Longrightarrow> \<not> not_closed (so_ready (snd (fold (closeConn lib None) cs s)) c)"
  proof (induction cs arbitrary: s)
    case (Cons k cs)
    show ?case
    proof (cases "c = k")
      case True
      then show ?thesis using keeps [OF closeConn_closed] by simp
    qed (use Cons in simp)
  qed simp
qed

text \<open>
  Destroying a room takes its document with it: the document is not found any more, and every
  socket that was connected to it is closed.
\<close>

theorem destroyed_room_disconnects:
  assumes "destroyRoom code mgr = (mgr', d)" and "getRoom code mgr \<noteq> None"
    and "getDoc code st = Some i" and "has_conn c (ys_heap st i)"
  shows "getRoom code mgr' = None \<and> getDoc code (room_cleanup_hook lib d st) = None
    \<and> \<not> not_closed (so_ready (ys_socks (room_cleanup_hook lib d st)) c)"
proof -
  let ?n = "normalizeRoomCode code"
  from assms(1,2) have d: "notified d = [?n]" and m: "rooms mgr' = AList.delete ?n (rooms mgr)"
    by (auto simp: destroyRoom_def getRoom_def Let_def split: option.splits)
  have mem: "c \<in> set (map fst (sd_conns (ys_heap st i)))" using assms(4) by (simp add: has_conn_iff)
  have i: "map_of (ys_docs st) ?n = Some i" using assms(3) by (simp add: getDoc_def findSharedDoc_def)
  have "\<not> not_closed (so_ready (snd (close_all lib (ys_heap st i, ys_socks st))) c)"
    using close_all_closes [OF mem, of lib "(ys_heap st i, ys_socks st)"] by (simp add: close_all_def)
  then show ?thesis
    using i by (simp add: room_cleanup_hook_def d m getRoom_def getDoc_def findSharedDoc_def destroySharedDoc_def
      on_doc_def Let_def delete_conv')
qed

theorem destroyed_room_disconnects_witness:
  "\<not> not_closed (so_ready (ys_socks (room_cleanup_hook sample_lib
       (snd (destroyRoom ''AB'' (dw_rooms joined_world))) (dw_yjs joined_world))) 1)"
proof -
  obtain mgr' d where d: "destroyRoom ''AB'' (dw_rooms joined_world) = (mgr', d)" by fastforce
  have n: "normalizeRoomCode ''AB'' = ''ab''" by code_simp
  have 1: "getRoom ''AB'' (dw_rooms joined_world) \<noteq> None"
    by (simp add: joined_world_def sample_doc_world_def getRoom_def n)
  have 2: "getDoc ''AB'' (dw_yjs joined_world) = Some 0" "has_conn 1 (ys_heap (dw_yjs joined_world) 0)"
    by (simp_all add: joined_world_def setupWSConnection_def getOrCreateSharedDoc_def empty_server_def getDoc_def
      findSharedDoc_def n on_doc_def Let_def new_shared_doc_def has_conn_def greet_def direct_send_def ws_send_def sample_lib_def)
  from destroyed_room_disconnects [OF d 1 2, of sample_lib] show ?thesis by (simp add: d)
qed

text \<open>
  C7: A document over the size limit empties its room. A message that makes it too large costs its
  sender the connection but stays applied; from then on whoever sends a message that leaves the
  document as it is loses the connection too, and a message that the first sender's socket still
  delivers while it closes is applied as before.
\<close>

theorem oversized_document_evicts_everyone:
  assumes "maxDocBytes < encodedSize lib (applied_doc lib msg (sd_doc (fst s)))"
    and "applied_doc lib msg' (applied_doc lib msg (sd_doc (fst s))) = applied_doc lib msg (sd_doc (fst s))"
    and "s1 = messageListener lib maxDocBytes msg c s" and "s2 = messageListener lib maxDocBytes msg' c' s1"
  shows "\<not> has_conn c (fst s1) \<and> \<not> not_closed (so_ready (snd s1) c)
    \<and> \<not> has_conn c' (fst s2) \<and> \<not> not_closed (so_ready (snd s2) c')
    \<and> sd_doc (fst s2) = applied_doc lib msg (sd_doc (fst s))
    \<and> sd_doc (fst (messageListener lib maxDocBytes late c s2)) = applied_doc lib late (sd_doc (fst s2))"
proof -
  have d1: "sd_doc (fst s1) = applied_doc lib msg (sd_doc (fst s))" by (simp add: assms(3) messageListener_doc)
  have "maxDocBytes < encodedSize lib (applied_doc lib msg' (sd_doc (fst s1)))" using assms(1,2) d1 by simp
  from messageListener_evicts [OF this, of c'] messageListener_evicts [OF assms(1), of c] d1 assms(2)
  show ?thesis by (simp add: assms(3,4) messageListener_doc)
qed

theorem oversized_document_evicts_everyone_witness:
  "\<not> has_conn 2 (fst (messageListener sample_lib 2 [1] 2 (messageListener sample_lib 2 [0, 7, 7, 7] 1 two_conns)))"
proof -
  have 1: "2 < encodedSize sample_lib (applied_doc sample_lib [0, 7, 7, 7] (sd_doc (fst two_conns)))"
    by (simp add: applied_doc_def sample_lib_def two_conns_def messageSync_def)
  have 2: "applied_doc sample_lib [1] d = d" for d
    by (simp add: applied_doc_def sample_lib_def messageSync_def)
  from oversized_document_evicts_everyone [OF 1 2 refl refl, of 1 2] show ?thesis by blast
qed

text \<open>
  C5: One request stops the server. An upgrade to the document channel whose last path segment ends
  in a percent sign makes the connection handler throw before it looks at the access cookie, the
  origin or a token; the rejected promise of the handler is the kind of error the process answers with
  its shutdown, which ends it within the time limit, with exit code 1 unless it ends by itself on the way.
\<close>

theorem malformed_room_name_stops_server:
  assumes "set name \<inter> {CHR ''/'', CHR ''?'', CHR ''%''} = {}"
  shows "registerUpgradeHandler (Some (''/ws/yjs/'' @ name @ ''%'')) = ToYjs
    \<and> connection_arrives (Some (''/ws/yjs/'' @ name @ ''%'')) = HandlerThrows
    \<and> end_time (snd (executeShutdown deps)) \<le> force_timeout deps
    \<and> exit_code deps UnhandledRejection = (case snd (executeShutdown deps) of RunsDry t \<Rightarrow> 0 | _ \<Rightarrow> 1)"
proof -
  let ?u = "''/ws/yjs/'' @ name @ ''%''"
  have p: "path_of ?u = ?u" using assms by (auto simp: path_of_def takeWhile_eq_all_conv)
  have "split_on CHR ''/'' (name @ ''%'') = [name @ ''%'']" by (rule split_on_plain) (use assms in auto)
  then have split: "split_on CHR ''/'' ?u = ['''', ''ws'', ''yjs'', name @ ''%'']" by simp
  have "decodeURIComponent (xs @ ''%'') = None" if "CHR ''%'' \<notin> set xs" for xs
    using that
  proof (induction xs)
    case Nil
    then show ?case by (simp add: decodeURIComponent.simps)
  next
    case (Cons x xs)
    then have "x \<noteq> CHR ''%''" by auto
    from decodeURIComponent_plain [OF this] Cons show ?case by simp
  qed
  with assms have n: "normalizeRoomName (name @ ''%'') = None" by (simp add: normalizeRoomName_def)
  have "extractRoomName (Some ?u) = None"
    unfolding extractRoomName_def option.sel p split by (simp add: truthy_text_def n)
  moreover have "starts_with ''/ws/yjs'' ?u" by (simp add: starts_with_def)
  ultimately show ?thesis
    unfolding registerUpgradeHandler_def option.case p
    by (simp add: connection_arrives_def exit_code_def shutdown_in_time split: shutdown_end.split)
qed

theorem malformed_room_name_stops_server_witness:
  "connection_arrives (Some ''/ws/yjs/%'') = HandlerThrows"
  using malformed_room_name_stops_server [of "''''"] by simp

end
