(* ===== verification/Dependency_Clients.thy ===== *)
theory Dependency_Clients
  imports Circuit_Breaker Execution_Handler Hint_Service Text_Codec
begin

text \<open>
  The clients of \<^verbatim>\<open>apps/server/src/clients\<close> for Judge0 and Groq, on top of the circuit
  breaker: what a request carries, what becomes of every way it can end, and the reader of Groq's
  stream of server-sent events. The network is a parameter: the outcome of a \<^verbatim>\<open>fetch\<close> and
  the decoded pieces of a body.
\<close>

section \<open>Outcomes of a request\<close>

text \<open>A response has its status and its body as JSON, if it parses.\<close>

datatype fetch_outcome = TimedOut | NetworkFails | Responds nat "json option"

definition response_ok :: "nat \<Rightarrow> bool" where
  "response_ok st \<longleftrightarrow> 200 \<le> st \<and> st \<le> 299"

text \<open>Calling through the breaker: the call, and the breaker when it has settled.\<close>

definition through_breaker :: "breaker \<Rightarrow> (dependency_error + 'r) \<Rightarrow> breaker \<times> (dependency_error + 'r)" where
  "through_breaker b result =
     (case cb_execute b of
        Inl e \<Rightarrow> (b, Inl e)
      | Inr b1 \<Rightarrow> (cb_settle (\<not> isl result) b1, result))"

section \<open>Judge0\<close>

definition judge0_error :: "string \<Rightarrow> string \<Rightarrow> nat option \<Rightarrow> bool \<Rightarrow> dependency_error" where
  "judge0_error kind msg st timedOut =
     \<lparr>dependency = ''judge0'', operation = ''submit'', errorType = kind, err_message = msg,
      statusCode = st, isTimeout = timedOut\<rparr>"

text \<open>\<^verbatim>\<open>nullish().transform(value => value ?? null)\<close>; the outer option is acceptance.\<close>

definition z_nullish :: "(json \<Rightarrow> 'v option) \<Rightarrow> js_unknown \<Rightarrow> 'v option option" where
  "z_nullish f v =
     (case v of None \<Rightarrow> Some None | Some JNull \<Rightarrow> Some None
      | Some j \<Rightarrow> (case f j of None \<Rightarrow> None | Some x \<Rightarrow> Some (Some x)))"

definition z_default_string :: "string \<Rightarrow> js_unknown \<Rightarrow> string option" where
  "z_default_string d v = (case v of None \<Rightarrow> Some d | Some j \<Rightarrow> z_string j)"

definition judge0_status :: "js_unknown \<Rightarrow> int option" where
  "judge0_status v =
     (case v of
        Some (JObj kvs) \<Rightarrow>
          (case (z_int (map_of kvs ''id''), z_default_string [] (map_of kvs ''description'')) of
             (Some i, Some d) \<Rightarrow> Some i
           | _ \<Rightarrow> None)
      | _ \<Rightarrow> None)"

text \<open>The schema; of what it keeps only the fields the server uses are in the record.\<close>

definition judge0ResponseSchema :: "json \<Rightarrow> judge0_response option" where
  "judge0ResponseSchema v =
     (case v of
        JObj kvs \<Rightarrow>
          (case (z_nullish z_string (map_of kvs ''stdout''), z_nullish z_string (map_of kvs ''stderr''),
                 judge0_status (map_of kvs ''status''), z_nullish z_string (map_of kvs ''time''),
                 z_nullish (\<lambda>j. z_int (Some j)) (map_of kvs ''memory'')) of
             (Some out, Some err, Some st, Some t, Some mem) \<Rightarrow>
               Some \<lparr>j0_stdout = out, j0_stderr = err, j0_statusId = st\<rparr>
           | _ \<Rightarrow> None)
      | _ \<Rightarrow> None)"

definition judge0_request :: "fetch_outcome \<Rightarrow> dependency_error + judge0_response" where
  "judge0_request out =
     (case out of
        TimedOut \<Rightarrow> Inl (judge0_error ''timeout'' ''Judge0 request timed out.'' None True)
      | NetworkFails \<Rightarrow> Inl (judge0_error ''network_error'' ''Judge0 request failed.'' None False)
      | Responds st body \<Rightarrow>
          if \<not> response_ok st
          then Inl (judge0_error ''http_error'' (''Judge0 API error: '' @ string_of_nat st) (Some st) False)
          else (case body of
                  None \<Rightarrow> Inl (judge0_error ''unexpected_error'' ''Judge0 request failed.'' None False)
                | Some v \<Rightarrow>
                    (case judge0ResponseSchema v of
                       None \<Rightarrow> Inl (judge0_error ''invalid_response'' ''Judge0 response failed validation.'' None False)
                     | Some r \<Rightarrow> Inr r)))"

definition judge0_submit :: "breaker \<Rightarrow> fetch_outcome \<Rightarrow> breaker \<times> (dependency_error + judge0_response)" where
  "judge0_submit b out = through_breaker b (judge0_request out)"

definition judge0_body :: "(nat \<Rightarrow> js_number) \<Rightarrow> js_number \<Rightarrow> string \<Rightarrow> json" where
  "judge0_body num seconds sourceCode =
     JObj [(''source_code'', JStr sourceCode), (''language_id'', JNum (num 71)),
           (''cpu_time_limit'', JNum seconds), (''memory_limit'', JNum (num 256000))]"

definition judge0_headers :: "string \<Rightarrow> (string \<times> string) list" where
  "judge0_headers apiKey =
     [(''Content-Type'', ''application/json''), (''X-RapidAPI-Key'', apiKey),
      (''X-RapidAPI-Host'', ''judge0-ce.p.rapidapi.com'')]"

section \<open>Groq\<close>

record groq_config =
  gc_model :: string
  gc_maxTokens :: js_number
  gc_temperature :: js_number

definition groq_error :: "string \<Rightarrow> string \<Rightarrow> string \<Rightarrow> nat option \<Rightarrow> bool \<Rightarrow> dependency_error" where
  "groq_error op kind msg st timedOut =
     \<lparr>dependency = ''groq'', operation = op, errorType = kind, err_message = msg,
      statusCode = st, isTimeout = timedOut\<rparr>"

definition role_text :: "prompt_role \<Rightarrow> string" where
  "role_text r = (case r of SystemRole \<Rightarrow> ''system'' | AuthorRole \<Rightarrow> ''user'')"

definition messages_json :: "hint_message list \<Rightarrow> json" where
  "messages_json ms =
     JArr (map (\<lambda>m. JObj [(''role'', JStr (role_text (hm_role m))), (''content'', JStr (hm_content m))]) ms)"

definition groq_body :: "groq_config \<Rightarrow> hint_message list \<Rightarrow> bool \<Rightarrow> js_number option \<Rightarrow> js_number option \<Rightarrow> json" where
  "groq_body config ms stream temperature maxTokens =
     JObj [(''model'', JStr (gc_model config)), (''messages'', messages_json ms), (''stream'', JBool stream),
           (''max_tokens'', JNum (orElse maxTokens (gc_maxTokens config))),
           (''temperature'', JNum (orElse temperature (gc_temperature config)))]"

text \<open>
  Reading \<^verbatim>\<open>choices?.[0]?.(message|delta)?.content\<close>: \<open>None\<close> when the path goes
  through \<^verbatim>\<open>null\<close> at its start, which throws; the inner option is \<^verbatim>\<open>undefined\<close>.
\<close>

definition get_field :: "string \<Rightarrow> js_unknown \<Rightarrow> js_unknown" where
  "get_field k v = (case v of Some (JObj kvs) \<Rightarrow> map_of kvs k | _ \<Rightarrow> None)"

definition get_first :: "js_unknown \<Rightarrow> js_unknown" where
  "get_first v =
     (case v of
        Some (JArr (x # xs)) \<Rightarrow> Some x
      | Some (JStr (c # cs)) \<Rightarrow> Some (JStr [c])
      | Some (JObj kvs) \<Rightarrow> map_of kvs ''0''
      | _ \<Rightarrow> None)"

definition choice_content :: "string \<Rightarrow> json \<Rightarrow> js_unknown option" where
  "choice_content part v =
     (if v = JNull then None
      else Some (get_field ''content'' (get_field part (get_first (get_field ''choices'' (Some v))))))"

definition js_truthy :: "js_unknown \<Rightarrow> bool" where
  "js_truthy v =
     (case v of
        None \<Rightarrow> False
      | Some JNull \<Rightarrow> False
      | Some (JBool b) \<Rightarrow> b
      | Some (JNum x) \<Rightarrow> number_val x \<noteq> Some 0
      | Some (JStr s) \<Rightarrow> s \<noteq> []
      | Some _ \<Rightarrow> True)"

definition toGroqDependencyError :: "string \<Rightarrow> bool \<Rightarrow> dependency_error" where
  "toGroqDependencyError op timedOut =
     (if timedOut then groq_error op ''timeout'' ''Groq request timed out.'' None True
      else groq_error op ''network_error'' ''Groq request failed.'' None False)"

text \<open>\<^verbatim>\<open>complete\<close>; the content is returned as it is, whatever its type.\<close>

definition groq_complete_request :: "fetch_outcome \<Rightarrow> dependency_error + json" where
  "groq_complete_request out =
     (case out of
        TimedOut \<Rightarrow> Inl (toGroqDependencyError ''complete'' True)
      | NetworkFails \<Rightarrow> Inl (toGroqDependencyError ''complete'' False)
      | Responds st body \<Rightarrow>
          if \<not> response_ok st
          then Inl (groq_error ''complete'' ''http_error'' (''Groq API error: '' @ string_of_nat st) (Some st) False)
          else (case Option.bind body (choice_content ''message'') of
                  None \<Rightarrow> Inl (toGroqDependencyError ''complete'' False)
                | Some content \<Rightarrow>
                    if js_truthy content then Inr (the content)
                    else Inl (groq_error ''complete'' ''empty_response'' ''Groq API returned empty response'' None False)))"

definition groq_complete :: "breaker \<Rightarrow> fetch_outcome \<Rightarrow> breaker \<times> (dependency_error + json)" where
  "groq_complete b out = through_breaker b (groq_complete_request out)"

text \<open>
  \<^verbatim>\<open>streamCompletion\<close> up to the generator: the breaker sees the response's head only. A
  response without a body counts as an error.
\<close>

definition groq_stream_request :: "fetch_outcome \<Rightarrow> bool \<Rightarrow> dependency_error + unit" where
  "groq_stream_request out hasBody =
     (case out of
        TimedOut \<Rightarrow> Inl (toGroqDependencyError ''stream_completion'' True)
      | NetworkFails \<Rightarrow> Inl (toGroqDependencyError ''stream_completion'' False)
      | Responds st body \<Rightarrow>
          if \<not> response_ok st \<or> \<not> hasBody
          then Inl (groq_error ''stream_completion'' ''http_error'' (''Groq API error: '' @ string_of_nat st) (Some st) False)
          else Inr ())"

definition groq_stream :: "breaker \<Rightarrow> fetch_outcome \<Rightarrow> bool \<Rightarrow> breaker \<times> (dependency_error + unit)" where
  "groq_stream b out hasBody = through_breaker b (groq_stream_request out hasBody)"

section \<open>Groq's stream\<close>

text \<open>How a stream ends: on \<^verbatim>\<open>[DONE]\<close> or at its end, on a frame that is no JSON, or with a failing read.\<close>

datatype stream_end = Finished | InvalidFrame dependency_error | ReadFails

definition invalid_frame :: dependency_error where
  "invalid_frame =
     groq_error ''stream_completion'' ''invalid_response'' ''Groq stream returned invalid JSON data.'' None False"

text \<open>One complete line: nothing, a piece of text, or the end.\<close>

datatype frame_result = Skip | Piece json | Ends stream_end

definition read_frame :: "(string \<Rightarrow> json option) \<Rightarrow> string \<Rightarrow> frame_result" where
  "read_frame parse frame =
     (let line = trim frame
      in if \<not> starts_with ''data: '' line then Skip
         else (let data = drop 6 line
               in if data = ''[DONE]'' then Ends Finished
                  else (case Option.bind (parse data) (choice_content ''delta'') of
                          None \<Rightarrow> Ends (InvalidFrame invalid_frame)
                        | Some content \<Rightarrow> if js_truthy content then Piece (the content) else Skip)))"

fun read_frames :: "(string \<Rightarrow> json option) \<Rightarrow> string list \<Rightarrow> json list \<times> stream_end option" where
  "read_frames parse [] = ([], None)"
| "read_frames parse (f # fs) =
     (case read_frame parse f of
        Skip \<Rightarrow> read_frames parse fs
      | Piece v \<Rightarrow> (case read_frames parse fs of (vs, e) \<Rightarrow> (v # vs, e))
      | Ends e \<Rightarrow> ([], Some e))"

text \<open>
  \<^verbatim>\<open>readStreamChunks\<close> over the decoded chunks; after the last one the reader is done, or the
  next read fails.
\<close>

fun readStreamChunks :: "(string \<Rightarrow> json option) \<Rightarrow> bool \<Rightarrow> string \<Rightarrow> string list \<Rightarrow> json list \<times> stream_end" where
  "readStreamChunks parse fails buffer [] =
     (if fails then ([], ReadFails)
      else (case read_frames parse (butlast (split_on newline buffer)) of
              (vs, Some e) \<Rightarrow> (vs, e)
            | (vs, None) \<Rightarrow> (vs, Finished)))"
| "readStreamChunks parse fails buffer (chunk # chunks) =
     (let frames = split_on newline (buffer @ chunk)
      in case read_frames parse (butlast frames) of
           (vs, Some e) \<Rightarrow> (vs, e)
         | (vs, None) \<Rightarrow>
             (case readStreamChunks parse fails (last frames) chunks of (ws, e) \<Rightarrow> (vs @ ws, e)))"

section \<open>Lemmas\<close>

lemma split_on_append:
  "split_on c (x @ y) = butlast (split_on c x) @ split_on c (last (split_on c x) @ y)"
proof (induction x)
  case (Cons a x)
  obtain p ps where p: "split_on c x = p # ps" using split_on_nonempty [of c x] by (cases "split_on c x") auto
  show ?case
  proof (cases "a = c")
    case True
    then show ?thesis using Cons.IH p by simp
  next
    case False
    then show ?thesis using Cons.IH p by (cases ps) (auto split: list.splits)
  qed
qed simp

lemma read_frames_append:
  "read_frames parse (fs @ gs) =
     (case read_frames parse fs of
        (vs, Some e) \<Rightarrow> (vs, Some e)
      | (vs, None) \<Rightarrow> (case read_frames parse gs of (ws, e) \<Rightarrow> (vs @ ws, e)))"
proof (induction fs)
  case (Cons f fs)
  then show ?case
    by (auto split: frame_result.splits prod.splits option.splits)
qed (simp split: prod.split)

lemma last_split_plain: "c \<notin> set (last (split_on c x))"
proof (induction x)
  case (Cons a x)
  obtain p ps where "split_on c x = p # ps" using split_on_nonempty [of c x] by (cases "split_on c x") auto
  with Cons show ?case by (cases ps) auto
qed simp

text \<open>What a reader that had the whole text at once would give.\<close>

definition stream_spec :: "(string \<Rightarrow> json option) \<Rightarrow> bool \<Rightarrow> string \<Rightarrow> json list \<times> stream_end" where
  "stream_spec parse fails txt =
     (case read_frames parse (butlast (split_on newline txt)) of
        (vs, Some e) \<Rightarrow> (vs, e)
      | (vs, None) \<Rightarrow> (vs, if fails then ReadFails else Finished))"

lemma readStreamChunks_spec:
  "newline \<notin> set buffer \<Longrightarrow> readStreamChunks parse fails buffer chunks = stream_spec parse fails (buffer @ concat chunks)"
proof (induction chunks arbitrary: buffer)
  case Nil
  then show ?case by (simp add: stream_spec_def split_on_plain)
next
  case (Cons chunk chunks)
  let ?f = "split_on newline (buffer @ chunk)"
  have ih: "readStreamChunks parse fails (last ?f) chunks = stream_spec parse fails (last ?f @ concat chunks)"
    using Cons.IH [OF last_split_plain] .
  have s: "split_on newline (buffer @ concat (chunk # chunks)) =
      butlast ?f @ split_on newline (last ?f @ concat chunks)"
    using split_on_append [of newline "buffer @ chunk" "concat chunks"] by simp
  have "butlast (split_on newline (buffer @ concat (chunk # chunks))) =
      butlast ?f @ butlast (split_on newline (last ?f @ concat chunks))"
    unfolding s by (simp add: butlast_append)
  then show ?case
    by (auto simp: ih stream_spec_def Let_def read_frames_append split: prod.splits option.splits)
qed

section \<open>Properties\<close>

text \<open>
  C39: What a streamed answer yields does not depend on how the network cuts it: the pieces of text and
  the way the stream ends are those of a reader that has the whole text at once and reads its complete
  lines in order, up to the first end marker or line that is no JSON.
\<close>

theorem stream_cuts_do_not_matter:
  "readStreamChunks parse fails [] chunks = stream_spec parse fails (concat chunks)"
  by (simp add: readStreamChunks_spec)

text \<open>
  Every way a call of Judge0 can end: the breaker refuses it, or its error names the
  dependency, is a timeout exactly when the request timed out and carries the status exactly of an
  answer outside 200 to 299; a success needs such an answer with a body the schema accepts. The breaker
  counts exactly the calls that reached the network.
\<close>

lemma judge0_submit_cases:
  assumes "judge0_submit b out = (b', res)"
  shows "if cb_state b = Open then b' = b \<and> res = Inl (circuit_open_error (cb_name b))
    else b' = cb_settle (\<not> isl res) (b\<lparr>inFlight := inFlight b + 1\<rparr>)
      \<and> (case res of
           Inl e \<Rightarrow> dependency e = ''judge0'' \<and> isTimeout e = (out = TimedOut)
             \<and> (\<forall>st. statusCode e = Some st \<longleftrightarrow> \<not> response_ok st \<and> (\<exists>body. out = Responds st body))
         | Inr r \<Rightarrow> \<exists>st v. out = Responds st (Some v) \<and> response_ok st \<and> judge0ResponseSchema v = Some r)"
  using assms
  by (auto simp: judge0_submit_def through_breaker_def cb_execute_def judge0_request_def judge0_error_def
    split: fetch_outcome.splits option.splits if_splits)

end
