(* ===== verification/Test_Generator.thy ===== *)
theory Test_Generator
  imports Dependency_Clients Execution_Service
begin

text \<open>
  Generating hidden test cases with a language model:
  \<^verbatim>\<open>apps/server/src/services/TestCaseGeneratorService.ts\<close>. The model's answers and the
  repository's are parameters, and so are \<^verbatim>\<open>JSON.parse\<close> and
  \<^verbatim>\<open>JSON.stringify\<close>.
\<close>

section \<open>Prompts\<close>

record generation_context =
  gx_problemId :: string
  gx_title :: string
  gx_description :: string
  gx_constraints :: "string list"
  gx_parameterNames :: "string list"
  gx_methodName :: string
  gx_visible :: "((string \<times> json) list \<times> js_unknown) list"

definition GEN_TAGS :: "string list" where
  "GEN_TAGS = [''DESCRIPTION'', ''CONSTRAINTS'', ''VISIBLE_EXAMPLES'']"

definition generation_messages :: "string \<Rightarrow> generation_context \<Rightarrow> hint_message list" where
  "generation_messages visibleJson ctx =
     [\<lparr>hm_role = SystemRole, hm_content = join_with [newline]
         [''You are a test case generator for coding problems.'',
          ''Output ONLY a JSON array of test case objects. No explanation, no markdown fences.'',
          ''Each object has exactly two keys: \"input\" and \"expectedOutput\".'',
          ''\"input\" is an object whose keys are: '' @ join_with '', '' (gx_parameterNames ctx) @ ''.'',
          ''Include edge cases, boundary values, typical cases, and 1-2 stress tests with inputs at constraint upper bounds.'',
          ''For stress tests, use arrays of 1000-5000 elements (not larger, to stay within token limits).'']\<rparr>,
      \<lparr>hm_role = AuthorRole, hm_content = join_with [newline]
         [''Problem: '' @ gx_title ctx,
          ''Method: '' @ gx_methodName ctx @ ''('' @ join_with '', '' (gx_parameterNames ctx) @ '')'',
          buildDelimitedBlock ''DESCRIPTION'' (gx_description ctx) GEN_TAGS,
          buildDelimitedBlock ''CONSTRAINTS'' (join_with [newline] (gx_constraints ctx)) GEN_TAGS,
          buildDelimitedBlock ''VISIBLE_EXAMPLES'' visibleJson GEN_TAGS,
          ''Generate 10 hidden test cases as a JSON array.'']\<rparr>]"

definition verification_messages :: "(json \<Rightarrow> string) \<Rightarrow> generation_context \<Rightarrow> json \<Rightarrow> hint_message list" where
  "verification_messages stringify ctx input =
     [\<lparr>hm_role = SystemRole, hm_content = join_with [newline]
         [''You are a code solution verifier. Given a problem and test input, compute the correct output.'',
          ''Output ONLY the expected output as valid JSON. No explanation.'']\<rparr>,
      \<lparr>hm_role = AuthorRole, hm_content = join_with [newline]
         [''Problem: '' @ gx_title ctx @ '' -- Method: '' @ gx_methodName ctx
            @ ''('' @ join_with '', '' (gx_parameterNames ctx) @ '')'',
          buildDelimitedBlock ''DESCRIPTION'' (gx_description ctx) GEN_TAGS,
          ''Input: '' @ stringify input,
          ''What is the correct output?'']\<rparr>]"

section \<open>Reading the answer\<close>

text \<open>The first fenced block: \<^verbatim>\<open>/```(?:json)?\s*([\s\S]*?)```/\<close>.\<close>

definition fence :: string where "fence = replicate 3 (CHR 0x60)"

definition fence_match :: "string \<Rightarrow> string option" where
  "fence_match s =
     (case indexOf fence s 0 of
        None \<Rightarrow> None
      | Some i \<Rightarrow>
          (let rest = drop (i + 3) s;
               body = (if starts_with ''json'' rest then drop 4 rest else rest)
           in map_option (\<lambda>j. trimStart (take j body)) (indexOf fence body 0)))"

text \<open>\<open>None\<close> is a throw: no JSON, or no array.\<close>

definition parseGeneratedCases :: "(string \<Rightarrow> json option) \<Rightarrow> string \<Rightarrow> json list option" where
  "parseGeneratedCases parse raw =
     (let cleaned = trim raw;
          cleaned2 = (case fence_match cleaned of None \<Rightarrow> cleaned | Some t \<Rightarrow> trim t)
      in case parse cleaned2 of Some (JArr vs) \<Rightarrow> Some vs | _ \<Rightarrow> None)"

section \<open>Structural validation\<close>

fun inferValueType :: "js_unknown \<Rightarrow> string" where
  "inferValueType None = ''undefined''"
| "inferValueType (Some (JArr vs)) = ''array''"
| "inferValueType (Some JNull) = ''object''"
| "inferValueType (Some (JObj kvs)) = ''object''"
| "inferValueType (Some (JBool b)) = ''boolean''"
| "inferValueType (Some (JNum x)) = ''number''"
| "inferValueType (Some (JStr s)) = ''string''"

definition inferOutputType :: "((string \<times> json) list \<times> js_unknown) list \<Rightarrow> string option" where
  "inferOutputType visibleCases =
     (if visibleCases = [] then None
      else (let unique = remdups (map (\<lambda>c. inferValueType (snd c)) visibleCases)
            in if length unique = 1 then Some (hd unique) else None))"

text \<open>The keys of an input that is an object or an array, which is one too.\<close>

fun input_keys :: "json \<Rightarrow> string list option" where
  "input_keys (JObj kvs) = Some (map fst kvs)"
| "input_keys (JArr vs) = Some (map string_of_nat [0..<length vs])"
| "input_keys _ = None"

text \<open>Whether a case passes; reading a field of \<^verbatim>\<open>null\<close> throws.\<close>

definition case_ok :: "generation_context \<Rightarrow> json \<Rightarrow> bool option" where
  "case_ok ctx c =
     (if c = JNull then None
      else Some (case Option.bind (get_field ''input'' (Some c)) input_keys of
           None \<Rightarrow> False
         | Some keys \<Rightarrow>
             (case get_field ''expectedOutput'' (Some c) of
                None \<Rightarrow> False
              | Some JNull \<Rightarrow> False
              | Some expected \<Rightarrow>
                  length (remdups keys) = length (remdups (gx_parameterNames ctx))
                  \<and> list_all (\<lambda>k. k \<in> set keys) (gx_parameterNames ctx)
                  \<and> (case inferOutputType (gx_visible ctx) of
                       None \<Rightarrow> True | Some t \<Rightarrow> inferValueType (Some expected) = t))))"

fun filter_cases :: "generation_context \<Rightarrow> json list \<Rightarrow> json list option" where
  "filter_cases ctx [] = Some []"
| "filter_cases ctx (c # cs) =
     (case (case_ok ctx c, filter_cases ctx cs) of
        (Some ok, Some rest) \<Rightarrow> Some (if ok then c # rest else rest)
      | _ \<Rightarrow> None)"

definition structuralValidation :: "generation_context \<Rightarrow> nat \<Rightarrow> json list \<Rightarrow> json list option" where
  "structuralValidation ctx maxCases cs = map_option (take maxCases) (filter_cases ctx cs)"

section \<open>Verification\<close>

text \<open>The model's second answer to a case; \<open>None\<close> when the call failed.\<close>

definition verifyOneCase :: "(string \<Rightarrow> json option) \<Rightarrow> (json \<Rightarrow> string) \<Rightarrow> string option \<Rightarrow> json \<Rightarrow> bool" where
  "verifyOneCase parse stringify answer c =
     (case answer of
        None \<Rightarrow> False
      | Some raw \<Rightarrow>
          (case parse (trim raw) of
             None \<Rightarrow> False
           | Some v \<Rightarrow> Some (stringify v) = map_option stringify (get_field ''expectedOutput'' (Some c))))"

text \<open>Batches of four, the results of a batch in the order of its cases.\<close>

function verifyCases :: "(json \<Rightarrow> bool) \<Rightarrow> json list \<Rightarrow> json list" where
  "verifyCases verified cs =
     (if cs = [] then [] else filter verified (take 4 cs) @ verifyCases verified (drop 4 cs))"
  by pat_completeness auto
termination by (relation "measure (\<lambda>(v, cs). length cs)") auto

declare verifyCases.simps [simp del]

section \<open>An attempt\<close>

record generated_row =
  gw_problemId :: string
  gw_input :: json
  gw_expectedOutput :: json
  gw_isVisible :: bool
  gw_orderIndex :: int

text \<open>What the repository and the model answer during an attempt; \<open>None\<close> when a call fails.\<close>

record attempt_world =
  aw_countHidden :: "nat option"
  aw_generated :: "string option"
  aw_verify :: "json \<Rightarrow> string option"
  aw_maxOrderIndex :: "int option"
  aw_inserts :: bool

datatype attempt_result = Failed | Stored "generated_row list" | NothingStored

definition to_row :: "generation_context \<Rightarrow> int \<Rightarrow> json \<Rightarrow> nat \<Rightarrow> generated_row" where
  "to_row ctx startIndex c i =
     \<lparr>gw_problemId = gx_problemId ctx, gw_input = the (get_field ''input'' (Some c)),
      gw_expectedOutput = the (get_field ''expectedOutput'' (Some c)), gw_isVisible = False,
      gw_orderIndex = startIndex + int i\<rparr>"

definition attemptGeneration ::
  "(string \<Rightarrow> json option) \<Rightarrow> (json \<Rightarrow> string) \<Rightarrow> nat \<Rightarrow> generation_context \<Rightarrow> attempt_world \<Rightarrow> attempt_result" where
  "attemptGeneration parse stringify maxCases ctx w =
     (case aw_countHidden w of
        None \<Rightarrow> Failed
      | Some hidden \<Rightarrow>
          if 0 < hidden then NothingStored
          else (case Option.bind (Option.bind (aw_generated w) (parseGeneratedCases parse))
                                 (structuralValidation ctx maxCases) of
                  None \<Rightarrow> Failed
                | Some validated \<Rightarrow>
                    if validated = [] then NothingStored
                    else (let verified = verifyCases (\<lambda>c. verifyOneCase parse stringify (aw_verify w c) c) validated
                          in if verified = [] then NothingStored
                             else (case aw_maxOrderIndex w of
                                     None \<Rightarrow> Failed
                                   | Some m \<Rightarrow>
                                       if aw_inserts w
                                       then Stored (map (\<lambda>(c, i). to_row ctx (m + 1) c i) (zip verified [0..<length verified]))
                                       else Failed))))"

text \<open>Two attempts, the second when the first failed; what was stored.\<close>

definition generateForProblem ::
  "(string \<Rightarrow> json option) \<Rightarrow> (json \<Rightarrow> string) \<Rightarrow> nat \<Rightarrow> generation_context \<Rightarrow> attempt_world \<Rightarrow> attempt_world \<Rightarrow>
   attempt_result" where
  "generateForProblem parse stringify maxCases ctx w1 w2 =
     (case attemptGeneration parse stringify maxCases ctx w1 of
        Failed \<Rightarrow> attemptGeneration parse stringify maxCases ctx w2
      | r \<Rightarrow> r)"

section \<open>Lemmas\<close>

lemma verifyCases_filter: "verifyCases verified cs = filter verified cs"
  by (induction verified cs rule: verifyCases.induct)
    (metis append_take_drop_id filter.simps(1) filter_append verifyCases.simps)

lemma filter_cases_Some:
  "filter_cases ctx cs = Some vs \<Longrightarrow> set vs \<subseteq> {c \<in> set cs. case_ok ctx c = Some True}"
  by (induction cs arbitrary: vs) (auto split: option.splits if_splits)

text \<open>What a stored case must be.\<close>

definition sound_row :: "generation_context \<Rightarrow> generated_row \<Rightarrow> bool" where
  "sound_row ctx r \<longleftrightarrow>
     gw_problemId r = gx_problemId ctx \<and> \<not> gw_isVisible r \<and> gw_expectedOutput r \<noteq> JNull
     \<and> (\<exists>keys. input_keys (gw_input r) = Some keys \<and> set keys = set (gx_parameterNames ctx))
     \<and> inferOutputType (gx_visible ctx) \<in> {None, Some (inferValueType (Some (gw_expectedOutput r)))}"

lemma keys_equal:
  assumes "length (remdups xs) = length (remdups ys)" and "list_all (\<lambda>k. k \<in> set xs) ys"
  shows "set xs = set ys"
proof -
  have "set ys \<subseteq> set xs" using assms(2) by (auto simp: list_all_iff)
  moreover have "card (set xs) = card (set ys)" using assms(1) by (simp add: length_remdups_card_conv)
  ultimately show ?thesis by (metis List.finite_set card_subset_eq)
qed

lemma case_ok_row: "case_ok ctx c = Some True \<Longrightarrow> sound_row ctx (to_row ctx n c i)"
  by (cases "inferOutputType (gx_visible ctx)")
    (auto simp: case_ok_def sound_row_def to_row_def bind_eq_Some_conv dest: keys_equal
      split: option.splits json.splits if_splits)

text \<open>The model, asked again, gave the stored output.\<close>

definition confirmed_row ::
  "(string \<Rightarrow> json option) \<Rightarrow> (json \<Rightarrow> string) \<Rightarrow> attempt_world \<Rightarrow> generated_row \<Rightarrow> bool" where
  "confirmed_row parse stringify w r \<longleftrightarrow>
     (\<exists>c raw v. aw_verify w c = Some raw \<and> get_field ''input'' (Some c) = Some (gw_input r)
        \<and> parse (trim raw) = Some v \<and> stringify v = stringify (gw_expectedOutput r))"

lemma confirmed_to_row:
  "verifyOneCase parse stringify (aw_verify w c) c \<Longrightarrow> case_ok ctx c = Some True \<Longrightarrow>
   confirmed_row parse stringify w (to_row ctx n c i)"
  by (fastforce simp: verifyOneCase_def confirmed_row_def to_row_def case_ok_def bind_eq_Some_conv
    split: option.splits if_splits)

lemma attempt_stored:
  assumes "attemptGeneration parse stringify maxCases ctx w = Stored rows"
  shows "aw_countHidden w = Some 0 \<and> rows \<noteq> [] \<and> length rows \<le> maxCases
    \<and> list_all (\<lambda>r. sound_row ctx r \<and> confirmed_row parse stringify w r) rows
    \<and> (\<exists>m. aw_maxOrderIndex w = Some m \<and> map gw_orderIndex rows = map (\<lambda>i. m + 1 + int i) [0..<length rows])"
proof -
  from assms obtain raw cs vs where hidden: "aw_countHidden w = Some 0"
    and cs: "filter_cases ctx cs = Some vs"
    and rows: "\<exists>m verified. aw_maxOrderIndex w = Some m
      \<and> verified = filter (\<lambda>c. verifyOneCase parse stringify (aw_verify w c) c) (take maxCases vs)
      \<and> verified \<noteq> [] \<and> rows = map (\<lambda>(c, i). to_row ctx (m + 1) c i) (zip verified [0..<length verified])"
    by (auto simp: attemptGeneration_def structuralValidation_def verifyCases_filter Let_def bind_eq_Some_conv
      split: option.splits if_splits)
  then obtain m verified where m: "aw_maxOrderIndex w = Some m" and ne: "verified \<noteq> []"
    and v: "verified = filter (\<lambda>c. verifyOneCase parse stringify (aw_verify w c) c) (take maxCases vs)"
    and r: "rows = map (\<lambda>(c, i). to_row ctx (m + 1) c i) (zip verified [0..<length verified])" by blast
  have "set verified \<subseteq> set vs" using v by (auto dest: in_set_takeD)
  then have ok: "\<forall>c \<in> set verified. case_ok ctx c = Some True" using filter_cases_Some [OF cs] by blast
  have "length verified \<le> maxCases" using v by (simp add: le_trans [OF length_filter_le])
  moreover have "list_all (\<lambda>r. sound_row ctx r \<and> confirmed_row parse stringify w r) rows"
    unfolding r list_all_iff using ok v by (auto simp: case_ok_row intro!: confirmed_to_row dest!: set_zip_leftD)
  moreover have "map gw_orderIndex rows = map (\<lambda>i. m + 1 + int i) [0..<length rows]"
    by (rule nth_equalityI) (simp_all add: r to_row_def)
  ultimately show ?thesis using hidden m ne by (simp add: r)
qed

section \<open>Properties\<close>

text \<open>
  C40: Generated tests are fit to judge with. What is stored, whatever the model answered, is at most the
  configured number of cases, all hidden, numbered on from the last test; each has exactly the
  problem's parameters as its input, an output that is not null and of the type of the visible ones if
  these agree, and an output the model gave again when it was asked for that input alone. Nothing is
  stored for a problem that has hidden tests, and nothing by more than one attempt.
\<close>

theorem generated_cases_sound:
  assumes "generateForProblem parse stringify maxCases ctx w1 w2 = Stored rows"
  shows "0 < length rows \<and> length rows \<le> maxCases
    \<and> (\<exists>w \<in> {w1, w2}. aw_countHidden w = Some 0
         \<and> list_all (\<lambda>r. sound_row ctx r \<and> confirmed_row parse stringify w r) rows
         \<and> (\<exists>m. aw_maxOrderIndex w = Some m \<and> map gw_orderIndex rows = map (\<lambda>i. m + 1 + int i) [0..<length rows]))
    \<and> (attemptGeneration parse stringify maxCases ctx w1 = Stored rows
       \<or> attemptGeneration parse stringify maxCases ctx w1 = Failed)"
proof -
  from assms consider "attemptGeneration parse stringify maxCases ctx w1 = Stored rows"
    | "attemptGeneration parse stringify maxCases ctx w1 = Failed"
      "attemptGeneration parse stringify maxCases ctx w2 = Stored rows"
    by (auto simp: generateForProblem_def split: attempt_result.splits)
  then show ?thesis
  proof cases
    case 1
    from attempt_stored [OF 1] 1 show ?thesis by simp
  next
    case 2
    from attempt_stored [OF 2(2)] 2(1) show ?thesis by simp
  qed
qed

definition sample_case :: json where
  "sample_case = JObj [(''input'', JObj [(''n'', JNum 7)]), (''expectedOutput'', JNum 9)]"

definition sample_context :: generation_context where
  "sample_context = \<lparr>gx_problemId = ''p'', gx_title = ''T'', gx_description = [], gx_constraints = [],
     gx_parameterNames = [''n''], gx_methodName = ''f'', gx_visible = [([(''n'', JNum 1)], Some (JNum 2))]\<rparr>"

definition sample_attempt :: attempt_world where
  "sample_attempt = \<lparr>aw_countHidden = Some 0, aw_generated = Some ''cases'', aw_verify = (\<lambda>c. Some ''out''),
     aw_maxOrderIndex = Some 2, aw_inserts = True\<rparr>"

definition sample_json_parse :: "string \<Rightarrow> json option" where
  "sample_json_parse s = (if s = ''cases'' then Some (JArr [sample_case, JObj []]) else Some (JNum 9))"

theorem generated_cases_sound_witness:
  "\<exists>r. generateForProblem sample_json_parse (\<lambda>v. if v = JNum 9 then ''9'' else []) 10 sample_context
       sample_attempt sample_attempt = Stored [r]
     \<and> gw_orderIndex r = 3 \<and> sound_row sample_context r"
proof -
  let ?s = "\<lambda>v. if v = JNum 9 then ''9'' else []"
  have t: "trim ''cases'' = ''cases''" "trim ''out'' = ''out''" "fence_match ''cases'' = None" by code_simp+
  have p: "parseGeneratedCases sample_json_parse ''cases'' = Some [sample_case, JObj []]"
    by (simp add: parseGeneratedCases_def t sample_json_parse_def)
  have f: "filter_cases sample_context [sample_case, JObj []] = Some [sample_case]"
    by (simp add: case_ok_def sample_case_def sample_context_def get_field_def inferOutputType_def)
  have sv: "structuralValidation sample_context 10 [sample_case, JObj []] = Some [sample_case]"
    unfolding structuralValidation_def f by simp
  have v: "verifyOneCase sample_json_parse ?s (Some ''out'') sample_case"
    by (simp add: verifyOneCase_def t sample_json_parse_def sample_case_def get_field_def)
  have g: "generateForProblem sample_json_parse ?s 10 sample_context sample_attempt sample_attempt
      = Stored [to_row sample_context 3 sample_case 0]"
    using v by (simp add: generateForProblem_def attemptGeneration_def sample_attempt_def p sv verifyCases_filter)
  from generated_cases_sound [OF g] g show ?thesis by (auto simp: to_row_def)
qed

end
