(* ===== verification/Http_Routes.thy ===== *)
theory Http_Routes
  imports Health Circuit_Breaker Room_Handler Execution_Service
begin

text \<open>
  The public HTTP routes of \<^verbatim>\<open>apps/server/src/routes\<close>: creating and looking up rooms
  (\<^verbatim>\<open>rooms.ts\<close>), liveness, readiness and health (\<^verbatim>\<open>health.ts\<close>), and the
  headers of every answer (\<^verbatim>\<open>plugins/securityHeaders.ts\<close>). Rate limits of the routes
  are a plugin; the probes of the database and of the store are arguments.
\<close>

section \<open>Rooms\<close>

record room_create_request =
  rq_mode :: RoomMode
  rq_displayName :: string

definition z_mode :: "js_unknown \<Rightarrow> RoomMode option" where
  "z_mode v =
     (case v of
        Some (JStr s) \<Rightarrow>
          if s = ''collaboration'' then Some Collaboration
          else if s = ''interview'' then Some Interview else None
      | _ \<Rightarrow> None)"

definition roomCreateSchema :: "js_unknown \<Rightarrow> room_create_request option" where
  "roomCreateSchema v =
     (case v of
        Some (JObj kvs) \<Rightarrow>
          (case (z_mode (map_of kvs ''mode''), map_of kvs ''displayName'') of
             (Some m, Some (JStr s)) \<Rightarrow>
               (let nm = trim s
                in if 1 \<le> length nm \<and> length nm \<le> 30 then Some \<lparr>rq_mode = m, rq_displayName = nm\<rparr> else None)
           | _ \<Rightarrow> None)
      | _ \<Rightarrow> None)"

datatype room_reply = RoomBadRequest | RoomAtCapacity string | RoomCreated string

definition postRooms ::
  "js_unknown \<Rightarrow> (nat \<Rightarrow> nat) \<Rightarrow> string \<Rightarrow> string \<Rightarrow> int \<Rightarrow> room_manager \<Rightarrow> room_manager \<times> nat \<times> room_reply" where
  "postRooms body rnd uuid token now mgr =
     (case roomCreateSchema body of
        None \<Rightarrow> (mgr, 400, RoomBadRequest)
      | Some data \<Rightarrow>
          (case createRoom (rq_mode data) rnd uuid token now mgr of
             Inl e \<Rightarrow> (mgr, 503, RoomAtCapacity ''Server is at capacity. Please try again later.'')
           | Inr (mgr', r) \<Rightarrow> (mgr', 201, RoomCreated (roomCode r))))"

record room_info_response =
  ri_exists :: bool
  ri_mode :: "RoomMode option"
  ri_userCount :: "nat option"
  ri_maxUsers :: "nat option"

definition getRoomInfo :: "string \<Rightarrow> room_manager \<Rightarrow> room_info_response" where
  "getRoomInfo code mgr =
     (case getRoom code mgr of
        None \<Rightarrow> \<lparr>ri_exists = False, ri_mode = None, ri_userCount = None, ri_maxUsers = None\<rparr>
      | Some r \<Rightarrow> \<lparr>ri_exists = True, ri_mode = Some (mode r), ri_userCount = Some (occupiedUserCount r),
                   ri_maxUsers = Some MAX_USERS\<rparr>)"

section \<open>Health\<close>

record dependency_health =
  dh_available :: bool
  dh_circuitState :: circuit_state

definition toDependencyHealth :: "circuit_state option \<Rightarrow> dependency_health option" where
  "toDependencyHealth st =
     map_option (\<lambda>s. \<lparr>dh_available = (s \<noteq> Open), dh_circuitState = s\<rparr>) st"

datatype health_status = HealthOk | HealthDegraded

record health_response =
  hr_status :: health_status
  hr_roomCount :: nat
  hr_dbConnected :: bool
  hr_shuttingDown :: bool
  hr_maxActiveRooms :: nat
  hr_roomCapacityUsed :: rat
  hr_judge0 :: "dependency_health option"
  hr_groq :: "dependency_health option"
  hr_storeAvailable :: "bool option"

record health_probe =
  hp_dbConnected :: bool
  hp_judge0 :: "circuit_state option"
  hp_groq :: "circuit_state option"
  hp_storeAvailable :: "bool option"
  hp_shuttingDown :: bool

text \<open>\<^verbatim>\<open>Math.round(x * 1000) / 1000\<close>.\<close>

definition round_3 :: "rat \<Rightarrow> rat" where
  "round_3 x = of_int \<lfloor>x * 1000 + 1 / 2\<rfloor> / 1000"

definition buildHealthResponse :: "health_probe \<Rightarrow> room_manager \<Rightarrow> health_response" where
  "buildHealthResponse p mgr =
     (let capacity = getCapacitySnapshot mgr;
          isDegraded = (hp_shuttingDown p \<or> \<not> hp_dbConnected p \<or> hp_judge0 p = Some Open
                        \<or> hp_storeAvailable p = Some False)
      in \<lparr>hr_status = (if isDegraded then HealthDegraded else HealthOk), hr_roomCount = activeRooms capacity,
          hr_dbConnected = hp_dbConnected p, hr_shuttingDown = hp_shuttingDown p,
          hr_maxActiveRooms = cs_maxActiveRooms capacity,
          hr_roomCapacityUsed = round_3 (roomCapacityUsed capacity),
          hr_judge0 = toDependencyHealth (hp_judge0 p), hr_groq = toDependencyHealth (hp_groq p),
          hr_storeAvailable = hp_storeAvailable p\<rparr>)"

definition getLive :: "health_probe \<Rightarrow> nat \<times> string" where
  "getLive p = (if hp_shuttingDown p then (503, ''shutting_down'') else (200, ''alive''))"

definition getReady :: "health_probe \<Rightarrow> room_manager \<Rightarrow> nat \<times> health_response" where
  "getReady p mgr =
     (let response = buildHealthResponse p mgr
      in (if hr_status response = HealthOk then 200 else 503, response))"

section \<open>Security headers\<close>

definition websocketOriginFor :: "string \<Rightarrow> string option" where
  "websocketOriginFor origin =
     (if starts_with ''http://'' origin then Some (''ws://'' @ drop 7 origin)
      else if starts_with ''https://'' origin then Some (''wss://'' @ drop 8 origin)
      else None)"

definition self_source :: string where
  "self_source = [CHR 0x27] @ ''self'' @ [CHR 0x27]"

definition quoted :: "string \<Rightarrow> string" where
  "quoted s = [CHR 0x27] @ s @ [CHR 0x27]"

text \<open>The set of sources in the order they were first added.\<close>

definition add_source :: "string \<Rightarrow> string list \<Rightarrow> string list" where
  "add_source s sources = (if s \<in> set sources then sources else sources @ [s])"

definition connect_sources :: "string list \<Rightarrow> string list" where
  "connect_sources origins =
     fold (\<lambda>origin sources.
             (let s1 = add_source origin sources
              in case websocketOriginFor origin of None \<Rightarrow> s1 | Some w \<Rightarrow> if w = [] then s1 else add_source w s1))
          origins [self_source]"

definition buildContentSecurityPolicy :: "string list \<Rightarrow> string" where
  "buildContentSecurityPolicy origins =
     join_with ''; ''
       [''default-src '' @ quoted ''self'', ''base-uri '' @ quoted ''self'', ''frame-ancestors '' @ quoted ''none'',
        ''object-src '' @ quoted ''none'', ''script-src '' @ quoted ''self'',
        ''style-src '' @ quoted ''self'' @ '' '' @ quoted ''unsafe-inline'',
        ''img-src '' @ quoted ''self'' @ '' data:'', ''font-src '' @ quoted ''self'',
        ''connect-src '' @ join_with '' '' (connect_sources origins), ''worker-src '' @ quoted ''self'' @ '' blob:'']"

definition security_headers :: "bool \<Rightarrow> string list \<Rightarrow> (string \<times> string) list" where
  "security_headers production origins =
     [(''Content-Security-Policy'', buildContentSecurityPolicy origins),
      (''Cross-Origin-Opener-Policy'', ''same-origin''), (''Cross-Origin-Resource-Policy'', ''same-origin''),
      (''Permissions-Policy'', ''camera=(), microphone=(), geolocation=()''),
      (''Referrer-Policy'', ''no-referrer''), (''X-Content-Type-Options'', ''nosniff''), (''X-Frame-Options'', ''DENY'')]
     @ (if production then [(''Strict-Transport-Security'', ''max-age=63072000; includeSubDomains; preload'')] else [])"

section \<open>Lemmas\<close>

lemma round_3_unit: "0 \<le> x \<Longrightarrow> x \<le> 1 \<Longrightarrow> 0 \<le> round_3 x \<and> round_3 x \<le> 1"
proof -
  assume x: "0 \<le> x" "x \<le> 1"
  then have "0 \<le> \<lfloor>x * 1000 + 1 / 2\<rfloor>" by simp
  moreover have "\<lfloor>x * 1000 + 1 / 2\<rfloor> < 1001" using x by (simp add: floor_less_iff)
  ultimately show ?thesis by (simp add: round_3_def)
qed

lemma capacity_unit: "manager_wf mgr \<Longrightarrow> 0 \<le> roomCapacityUsed (getCapacitySnapshot mgr)
    \<and> roomCapacityUsed (getCapacitySnapshot mgr) \<le> 1"
  by (auto simp: getCapacitySnapshot_def manager_wf_def divide_le_eq_1)

section \<open>Properties\<close>

text \<open>
  Creating a room over HTTP. A request is answered with 400 exactly when its body is no valid
  request, with 503 exactly when the server is full, and both leave the rooms as they were; otherwise
  with 201 and a code under which the room is at once found, with the mode asked for and nobody in it,
  while every other room is found as before.
\<close>

theorem created_room_is_found:
  assumes wf: "manager_wf mgr" and draws: "\<forall>k. rnd k < 32" and u: "uuid_text uuid"
  shows "case postRooms body rnd uuid token now mgr of
      (mgr', st, RoomBadRequest) \<Rightarrow> st = 400 \<and> mgr' = mgr \<and> roomCreateSchema body = None
    | (mgr', st, RoomAtCapacity e) \<Rightarrow> st = 503 \<and> mgr' = mgr \<and> length (rooms mgr) = maxActiveRooms mgr
    | (mgr', st, RoomCreated code) \<Rightarrow> st = 201 \<and> length (rooms mgr) < maxActiveRooms mgr \<and> manager_wf mgr'
        \<and> (\<exists>data. roomCreateSchema body = Some data \<and> getRoomInfo code mgr' =
             \<lparr>ri_exists = True, ri_mode = Some (rq_mode data), ri_userCount = Some 0, ri_maxUsers = Some 2\<rparr>)
        \<and> (\<forall>c. normalizeRoomCode c = code \<or> getRoomInfo c mgr' = getRoomInfo c mgr)"
proof (cases "roomCreateSchema body")
  case None
  then show ?thesis by (simp add: postRooms_def)
next
  case (Some data)
  show ?thesis
  proof (cases "createRoom (rq_mode data) rnd uuid token now mgr")
    case (Inl e)
    have "length (rooms mgr) = maxActiveRooms mgr"
      using Inl wf by (simp add: createRoom_def manager_wf_def Let_def split: if_splits)
    with Some Inl show ?thesis by (simp add: postRooms_def)
  next
    case (Inr p)
    obtain mgr' r where p: "p = (mgr', r)" by (cases p)
    note c = createRoom_found [OF wf draws u Inr [unfolded p]]
    have c1: "mode r = rq_mode data" "users r = []" using c by simp_all
    have c2: "getRoom (roomCode r) mgr' = Some r" "length (rooms mgr) < maxActiveRooms mgr" "manager_wf mgr'"
      using c by blast+
    have other: "normalizeRoomCode k = roomCode r \<or> getRoomInfo k mgr' = getRoomInfo k mgr" for k
    proof -
      have "normalizeRoomCode k = roomCode r \<or> getRoom k mgr' = getRoom k mgr" using c by blast
      then show ?thesis by (auto simp: getRoomInfo_def)
    qed
    have "getRoomInfo (roomCode r) mgr' =
        \<lparr>ri_exists = True, ri_mode = Some (rq_mode data), ri_userCount = Some 0, ri_maxUsers = Some 2\<rparr>"
      by (simp add: getRoomInfo_def c1 c2(1) occupiedUserCount_def MAX_USERS_def)
    then show ?thesis using c2 other by (simp add: postRooms_def Some Inr p)
  qed
qed

theorem created_room_is_found_witness:
  "\<exists>code. snd (postRooms (Some (JObj [(''mode'', JStr ''interview''), (''displayName'', JStr ''Ann'')]))
      (\<lambda>_. 3) ''00000000-0000-4000-8000-000000000000'' ''t'' 7 initial_manager) = (201, RoomCreated code)"
proof -
  let ?b = "Some (JObj [(''mode'', JStr ''interview''), (''displayName'', JStr ''Ann'')])"
  have u: "uuid_text ''00000000-0000-4000-8000-000000000000''" by code_simp
  have d: "\<forall>k. (\<lambda>_. 3 :: nat) k < 32" by simp
  have s: "roomCreateSchema ?b \<noteq> None" by code_simp
  show ?thesis
    using created_room_is_found [OF manager_wf_initial d u, of ?b "''t''" 7] s
    by (auto simp: initial_manager_def split: prod.splits room_reply.splits)
qed

text \<open>
  Readiness. The server reports itself ready with 200, and else not ready with 503, exactly when
  it is not shutting down, its database answers, the breaker of Judge0 is not open and its store is not
  known to be unavailable; the capacity it reports is between 0 and 1.
\<close>

theorem ready_iff:
  assumes "manager_wf mgr"
  shows "(fst (getReady p mgr) = 200 \<longleftrightarrow> \<not> hp_shuttingDown p \<and> hp_dbConnected p
           \<and> hp_judge0 p \<noteq> Some Open \<and> hp_storeAvailable p \<noteq> Some False)
    \<and> fst (getReady p mgr) \<in> {200, 503}
    \<and> 0 \<le> hr_roomCapacityUsed (snd (getReady p mgr)) \<and> hr_roomCapacityUsed (snd (getReady p mgr)) \<le> 1"
  using round_3_unit capacity_unit [OF assms] by (simp add: getReady_def buildHealthResponse_def Let_def)

theorem ready_iff_witness:
  "fst (getReady \<lparr>hp_dbConnected = True, hp_judge0 = Some Closed, hp_groq = Some Open,
      hp_storeAvailable = None, hp_shuttingDown = False\<rparr> initial_manager) = 200"
  using ready_iff [OF manager_wf_initial, of "\<lparr>hp_dbConnected = True, hp_judge0 = Some Closed,
      hp_groq = Some Open, hp_storeAvailable = None, hp_shuttingDown = False\<rparr>"] by simp

end
