(* ===== verification/Problem_Store.thy ===== *)
theory Problem_Store
  imports Shared_Types
begin

text \<open>
  The problem tables and the statements over them: the repositories of problems, test cases,
  boilerplate templates and hints in \<^verbatim>\<open>packages/db/src/repositories\<close>, with the row
  types of \<^verbatim>\<open>packages/db/src/types.ts\<close> and the constraints of the SQL migrations.

  A query is a function of the tables; a statement returns the tables updated, or the constraint it
  violates, and then has no effect. Ids and times, which the database draws, are arguments. A column
  with a \<^verbatim>\<open>CHECK ... IN\<close> has an enumeration as its type and the insert rejects every other
  text. The order in which JSONB keeps the members of an object is not modelled.
\<close>

section \<open>Tables\<close>

record problem_row =
  pr_id :: string
  pr_slug :: string
  pr_title :: string
  pr_difficulty :: Difficulty
  pr_category :: string
  pr_description :: string
  pr_constraints :: "string list"
  pr_solution :: "string option"
  pr_time_limit_ms :: nat
  pr_source :: ProblemSource
  pr_source_url :: "string option"
  pr_deleted_at :: "string option"
  pr_created_at :: string
  pr_updated_at :: string

record test_case_row =
  tr_id :: string
  tr_problem_id :: string
  tr_input :: "(string \<times> json) list"
  tr_expected_output :: json
  tr_is_visible :: bool
  tr_order_index :: nat

record boilerplate_row =
  bt_id :: string
  bt_problem_id :: string
  bt_language :: string
  bt_template :: string
  bt_method_name :: string
  bt_parameter_names :: "string list"

record hint_row =
  ht_id :: string
  ht_problem_id :: string
  ht_hint_text :: string
  ht_order_index :: nat

record problem_tables =
  tb_problems :: "problem_row list"
  tb_test_cases :: "test_case_row list"
  tb_boilerplates :: "boilerplate_row list"
  tb_hints :: "hint_row list"

definition empty_tables :: problem_tables where
  "empty_tables = \<lparr>tb_problems = [], tb_test_cases = [], tb_boilerplates = [], tb_hints = []\<rparr>"

datatype db_error =
    NotNullViolation string
  | CheckViolation string
  | UniqueViolation string
  | ForeignKeyViolation string
  | ConnectionLost

section \<open>Rows to application types\<close>

definition toProblem :: "problem_row \<Rightarrow> problem" where
  "toProblem row =
     \<lparr>p_id = pr_id row, p_slug = pr_slug row, p_title = pr_title row, p_difficulty = pr_difficulty row,
      p_category = pr_category row, p_description = pr_description row, p_constraints = pr_constraints row,
      p_solution = pr_solution row, p_timeLimitMs = pr_time_limit_ms row, p_source = pr_source row,
      p_sourceUrl = pr_source_url row, p_deletedAt = pr_deleted_at row, p_createdAt = pr_created_at row,
      p_updatedAt = pr_updated_at row\<rparr>"

definition toTestCase :: "test_case_row \<Rightarrow> test_case" where
  "toTestCase row =
     \<lparr>tc_id = tr_id row, tc_problemId = tr_problem_id row, tc_input = tr_input row,
      tc_expectedOutput = Some (tr_expected_output row), tc_isVisible = tr_is_visible row,
      tc_orderIndex = tr_order_index row\<rparr>"

definition toBoilerplate :: "boilerplate_row \<Rightarrow> boilerplate_template" where
  "toBoilerplate row =
     \<lparr>bp_id = bt_id row, bp_problemId = bt_problem_id row, bp_language = bt_language row,
      bp_template = bt_template row, bp_methodName = bt_method_name row,
      bp_parameterNames = bt_parameter_names row\<rparr>"

definition toHint :: "hint_row \<Rightarrow> hint" where
  "toHint row =
     \<lparr>h_id = ht_id row, h_problemId = ht_problem_id row, h_hintText = ht_hint_text row,
      h_orderIndex = ht_order_index row\<rparr>"

definition getFirstOrNull :: "'r list \<Rightarrow> ('r \<Rightarrow> 'm) \<Rightarrow> 'm option" where
  "getFirstOrNull rows mapper = (case rows of [] \<Rightarrow> None | r # rs \<Rightarrow> Some (mapper r))"

section \<open>Problems\<close>

definition active :: "problem_row \<Rightarrow> bool" where
  "active row \<longleftrightarrow> pr_deleted_at row = None"

record problem_list_item =
  li_id :: string
  li_slug :: string
  li_title :: string
  li_difficulty :: Difficulty
  li_category :: string

definition difficulty_text :: "Difficulty \<Rightarrow> string" where
  "difficulty_text d = (case d of Easy \<Rightarrow> ''easy'' | Medium \<Rightarrow> ''medium'' | Hard \<Rightarrow> ''hard'')"

definition difficulty_of :: "string \<Rightarrow> Difficulty option" where
  "difficulty_of s = List.find (\<lambda>d. difficulty_text d = s) [Easy, Medium, Hard]"

definition source_of :: "string \<Rightarrow> ProblemSource option" where
  "source_of s =
     (if s = ''curated'' then Some Curated else if s = ''user_submitted'' then Some UserSubmitted else None)"

text \<open>
  An absent or empty filter is no filter. \<open>collate\<close> is the key the database's collation
  compares texts by.
\<close>

definition filter_ok :: "string option \<Rightarrow> string \<Rightarrow> bool" where
  "filter_ok f value = (truthy_text f \<longrightarrow> f = Some value)"

definition findAll ::
  "(string \<Rightarrow> 'k :: linorder) \<Rightarrow> string option \<Rightarrow> string option \<Rightarrow> problem_tables \<Rightarrow> problem_list_item list" where
  "findAll collate category difficulty db =
     map (\<lambda>r. \<lparr>li_id = pr_id r, li_slug = pr_slug r, li_title = pr_title r, li_difficulty = pr_difficulty r,
                li_category = pr_category r\<rparr>)
       (sort_key (\<lambda>r. collate (pr_category r)) (sort_key (\<lambda>r. collate (pr_title r))
          (filter (\<lambda>r. filter_ok category (pr_category r) \<and> filter_ok difficulty (difficulty_text (pr_difficulty r))
                       \<and> active r) (tb_problems db))))"

definition findById :: "string \<Rightarrow> problem_tables \<Rightarrow> problem option" where
  "findById pid db = getFirstOrNull (filter (\<lambda>r. pr_id r = pid \<and> active r) (tb_problems db)) toProblem"

definition findBySlug :: "string \<Rightarrow> problem_tables \<Rightarrow> problem option" where
  "findBySlug slug db = getFirstOrNull (filter (\<lambda>r. pr_slug r = slug \<and> active r) (tb_problems db)) toProblem"

definition findBySlugIncludingDeleted :: "string \<Rightarrow> problem_tables \<Rightarrow> problem option" where
  "findBySlugIncludingDeleted slug db =
     getFirstOrNull (filter (\<lambda>r. pr_slug r = slug) (tb_problems db)) toProblem"

definition findBySourceUrl :: "string \<Rightarrow> problem_tables \<Rightarrow> problem option" where
  "findBySourceUrl url db =
     getFirstOrNull (filter (\<lambda>r. pr_source_url r = Some url \<and> active r) (tb_problems db)) toProblem"

definition findBySourceUrlIncludingDeleted :: "string \<Rightarrow> problem_tables \<Rightarrow> problem option" where
  "findBySourceUrlIncludingDeleted url db =
     getFirstOrNull (filter (\<lambda>r. pr_source_url r = Some url) (tb_problems db)) toProblem"

record new_problem =
  np_slug :: string
  np_title :: string
  np_difficulty :: string
  np_category :: string
  np_description :: string
  np_constraints :: "string list"
  np_solution :: "string option"
  np_timeLimitMs :: nat
  np_source :: string
  np_sourceUrl :: "string option"

definition createProblem ::
  "string \<Rightarrow> string \<Rightarrow> new_problem \<Rightarrow> problem_tables \<Rightarrow> db_error + problem_tables \<times> problem" where
  "createProblem newId now d db =
     (case difficulty_of (np_difficulty d) of
        None \<Rightarrow> Inl (CheckViolation ''problems_difficulty_check'')
      | Some df \<Rightarrow>
          (case source_of (np_source d) of
             None \<Rightarrow> Inl (CheckViolation ''problems_source_check'')
           | Some src \<Rightarrow>
               if src \<noteq> UserSubmitted \<and> np_solution d = None then Inl (CheckViolation ''curated_has_solution'')
               else if newId \<in> pr_id ` set (tb_problems db) then Inl (UniqueViolation ''problems_pkey'')
               else if np_slug d \<in> pr_slug ` set (tb_problems db) then Inl (UniqueViolation ''problems_slug_key'')
               else (let row = \<lparr>pr_id = newId, pr_slug = np_slug d, pr_title = np_title d, pr_difficulty = df,
                                pr_category = np_category d, pr_description = np_description d,
                                pr_constraints = np_constraints d, pr_solution = np_solution d,
                                pr_time_limit_ms = np_timeLimitMs d, pr_source = src,
                                pr_source_url = np_sourceUrl d, pr_deleted_at = None,
                                pr_created_at = now, pr_updated_at = now\<rparr>
                     in Inr (db\<lparr>tb_problems := tb_problems db @ [row]\<rparr>, toProblem row))))"

text \<open>Deleting cascades to the rows that refer to the problem.\<close>

definition deleteById :: "string \<Rightarrow> problem_tables \<Rightarrow> problem_tables" where
  "deleteById pid db =
     \<lparr>tb_problems = filter (\<lambda>r. pr_id r \<noteq> pid) (tb_problems db),
      tb_test_cases = filter (\<lambda>r. tr_problem_id r \<noteq> pid) (tb_test_cases db),
      tb_boilerplates = filter (\<lambda>r. bt_problem_id r \<noteq> pid) (tb_boilerplates db),
      tb_hints = filter (\<lambda>r. ht_problem_id r \<noteq> pid) (tb_hints db)\<rparr>"

text \<open>An update of the rows a condition selects, with the trigger that sets \<^verbatim>\<open>updated_at\<close>.\<close>

definition update_problems ::
  "string \<Rightarrow> (problem_row \<Rightarrow> bool) \<Rightarrow> (problem_row \<Rightarrow> problem_row) \<Rightarrow> problem_tables \<Rightarrow> problem_tables" where
  "update_problems now sel f db =
     db\<lparr>tb_problems := map (\<lambda>r. if sel r then (f r)\<lparr>pr_updated_at := now\<rparr> else r) (tb_problems db)\<rparr>"

definition softDeleteById :: "string \<Rightarrow> string \<Rightarrow> problem_tables \<Rightarrow> problem_tables" where
  "softDeleteById now pid db = update_problems now (\<lambda>r. pr_id r = pid) (pr_deleted_at_update (\<lambda>_. Some now)) db"

definition restoreById :: "string \<Rightarrow> string \<Rightarrow> problem_tables \<Rightarrow> problem_tables" where
  "restoreById now pid db = update_problems now (\<lambda>r. pr_id r = pid) (pr_deleted_at_update (\<lambda>_. None)) db"

section \<open>Cleaning up after end-to-end tests\<close>

definition E2E_IMPORT_CATEGORIES :: "string list" where
  "E2E_IMPORT_CATEGORIES = [''Imported'', ''E2E Imported'']"

definition e2e_matching :: "problem_row \<Rightarrow> bool" where
  "e2e_matching r \<longleftrightarrow>
     pr_source r = UserSubmitted \<and> starts_with ''Imported '' (pr_title r)
     \<and> (case pr_source_url r of None \<Rightarrow> False | Some u \<Rightarrow> starts_with ''https://leetcode.com/problems/'' u)
     \<and> pr_category r \<in> set E2E_IMPORT_CATEGORIES"

record e2e_summary =
  totalMatchingProblems :: nat
  activeMatchingProblems :: nat
  matchingTestCases :: nat
  matchingBoilerplates :: nat
  matchingHints :: nat

definition summarizeE2eImportedProblems :: "problem_tables \<Rightarrow> e2e_summary" where
  "summarizeE2eImportedProblems db =
     (let matching = filter e2e_matching (tb_problems db);
          ids = map pr_id matching
      in \<lparr>totalMatchingProblems = length matching,
          activeMatchingProblems = length (filter active matching),
          matchingTestCases = length (filter (\<lambda>r. tr_problem_id r \<in> set ids) (tb_test_cases db)),
          matchingBoilerplates = length (filter (\<lambda>r. bt_problem_id r \<in> set ids) (tb_boilerplates db)),
          matchingHints = length (filter (\<lambda>r. ht_problem_id r \<in> set ids) (tb_hints db))\<rparr>)"

definition softDeleteE2eImportedProblems :: "string \<Rightarrow> problem_tables \<Rightarrow> problem_tables \<times> nat" where
  "softDeleteE2eImportedProblems now db =
     (let ids = map pr_id (filter (\<lambda>r. e2e_matching r \<and> active r) (tb_problems db))
      in (update_problems now (\<lambda>r. pr_id r \<in> set ids) (pr_deleted_at_update (\<lambda>_. Some now)) db,
          length (filter (\<lambda>r. pr_id r \<in> set ids) (tb_problems db))))"

section \<open>Test cases\<close>

record new_test_case =
  nt_input :: "(string \<times> json) list"
  nt_expectedOutput :: js_unknown
  nt_isVisible :: bool
  nt_orderIndex :: nat

definition findByProblemId :: "string \<Rightarrow> problem_tables \<Rightarrow> test_case list" where
  "findByProblemId pid db =
     map toTestCase (sort_key tr_order_index (filter (\<lambda>r. tr_problem_id r = pid) (tb_test_cases db)))"

definition findVisible :: "string \<Rightarrow> problem_tables \<Rightarrow> test_case list" where
  "findVisible pid db =
     map toTestCase
       (sort_key tr_order_index (filter (\<lambda>r. tr_problem_id r = pid \<and> tr_is_visible r) (tb_test_cases db)))"

definition case_row :: "string \<Rightarrow> string \<Rightarrow> new_test_case \<Rightarrow> json \<Rightarrow> test_case_row" where
  "case_row newId pid d out =
     \<lparr>tr_id = newId, tr_problem_id = pid, tr_input = nt_input d, tr_expected_output = out,
      tr_is_visible = nt_isVisible d, tr_order_index = nt_orderIndex d\<rparr>"

text \<open>\<^verbatim>\<open>JSON.stringify(undefined)\<close> is \<^verbatim>\<open>undefined\<close>, which is sent as NULL.\<close>

definition createTestCase ::
  "string \<Rightarrow> string \<Rightarrow> new_test_case \<Rightarrow> problem_tables \<Rightarrow> db_error + problem_tables" where
  "createTestCase newId pid d db =
     (case nt_expectedOutput d of
        None \<Rightarrow> Inl (NotNullViolation ''expected_output'')
      | Some out \<Rightarrow>
          if newId \<in> tr_id ` set (tb_test_cases db) then Inl (UniqueViolation ''test_cases_pkey'')
          else if (pid, nt_orderIndex d) \<in> (\<lambda>r. (tr_problem_id r, tr_order_index r)) ` set (tb_test_cases db)
          then Inl (UniqueViolation ''test_cases_problem_id_order_index_key'')
          else if pid \<notin> pr_id ` set (tb_problems db) then Inl (ForeignKeyViolation ''test_cases_problem_id_fkey'')
          else Inr (db\<lparr>tb_test_cases := tb_test_cases db @ [case_row newId pid d out]\<rparr>))"

definition countHidden :: "string \<Rightarrow> problem_tables \<Rightarrow> nat" where
  "countHidden pid db = length (filter (\<lambda>r. tr_problem_id r = pid \<and> \<not> tr_is_visible r) (tb_test_cases db))"

definition maxOrderIndex :: "string \<Rightarrow> problem_tables \<Rightarrow> int" where
  "maxOrderIndex pid db =
     fold (\<lambda>r m. max m (int (tr_order_index r))) (filter (\<lambda>r. tr_problem_id r = pid) (tb_test_cases db)) (- 1)"

text \<open>One statement: a row whose place is taken is skipped, any other violation undoes all rows.\<close>

fun createMany :: "(nat \<Rightarrow> string) \<Rightarrow> nat \<Rightarrow> string \<Rightarrow> new_test_case list \<Rightarrow> problem_tables \<Rightarrow> db_error + problem_tables" where
  "createMany ids n pid [] db = Inr db"
| "createMany ids n pid (d # ds) db =
     (case createTestCase (ids n) pid d db of
        Inl (UniqueViolation c) \<Rightarrow>
          if c = ''test_cases_problem_id_order_index_key'' then createMany ids (Suc n) pid ds db
          else Inl (UniqueViolation c)
      | Inl e \<Rightarrow> Inl e
      | Inr db' \<Rightarrow> createMany ids (Suc n) pid ds db')"

section \<open>Boilerplate templates and hints\<close>

record new_boilerplate =
  nb_language :: string
  nb_template :: string
  nb_methodName :: string
  nb_parameterNames :: "string list"

definition findByProblemAndLanguage :: "string \<Rightarrow> string \<Rightarrow> problem_tables \<Rightarrow> boilerplate_template option" where
  "findByProblemAndLanguage pid lang db =
     getFirstOrNull (filter (\<lambda>r. bt_problem_id r = pid \<and> bt_language r = lang) (tb_boilerplates db)) toBoilerplate"

definition createBoilerplate ::
  "string \<Rightarrow> string \<Rightarrow> new_boilerplate \<Rightarrow> problem_tables \<Rightarrow> db_error + problem_tables" where
  "createBoilerplate newId pid d db =
     (if newId \<in> bt_id ` set (tb_boilerplates db) then Inl (UniqueViolation ''boilerplate_templates_pkey'')
      else if (pid, nb_language d) \<in> (\<lambda>r. (bt_problem_id r, bt_language r)) ` set (tb_boilerplates db)
      then Inl (UniqueViolation ''boilerplate_templates_problem_id_language_key'')
      else if pid \<notin> pr_id ` set (tb_problems db)
      then Inl (ForeignKeyViolation ''boilerplate_templates_problem_id_fkey'')
      else Inr (db\<lparr>tb_boilerplates := tb_boilerplates db @
             [\<lparr>bt_id = newId, bt_problem_id = pid, bt_language = nb_language d, bt_template = nb_template d,
               bt_method_name = nb_methodName d, bt_parameter_names = nb_parameterNames d\<rparr>]\<rparr>))"

text \<open>
  \<^verbatim>\<open>LIKE 'from __future__ import annotations%'\<close>, whose underscores stand for any
  character, and the replacement of the line by \<^verbatim>\<open>regexp_replace\<close>.
\<close>

fun like_prefix :: "string \<Rightarrow> string \<Rightarrow> bool" where
  "like_prefix [] s = True"
| "like_prefix (c # cs) [] = False"
| "like_prefix (c # cs) (x # xs) = ((c = CHR ''_'' \<or> c = x) \<and> like_prefix cs xs)"

definition future_import :: string where
  "future_import = ''from __future__ import annotations''"

fun drop_line_breaks :: "nat \<Rightarrow> string \<Rightarrow> string" where
  "drop_line_breaks (Suc n) (c # d # s) =
     (if c = newline then drop_line_breaks n (d # s)
      else if c = CHR 0x0D \<and> d = newline then drop_line_breaks n s
      else c # d # s)"
| "drop_line_breaks (Suc n) [c] = (if c = newline then [] else [c])"
| "drop_line_breaks n s = s"

definition strip_future_import :: "string \<Rightarrow> string" where
  "strip_future_import t =
     (let rest = drop (length future_import) t
      in if starts_with future_import t \<and> drop_line_breaks 1 rest \<noteq> rest then drop_line_breaks 2 rest else t)"

definition future_rows :: "string \<Rightarrow> boilerplate_row \<Rightarrow> bool" where
  "future_rows lang r \<longleftrightarrow> bt_language r = lang \<and> like_prefix future_import (bt_template r)"

definition countLeadingFutureAnnotationsImports :: "string \<Rightarrow> problem_tables \<Rightarrow> nat" where
  "countLeadingFutureAnnotationsImports lang db = length (filter (future_rows lang) (tb_boilerplates db))"

definition cleanLeadingFutureAnnotationsImports :: "string \<Rightarrow> problem_tables \<Rightarrow> problem_tables \<times> nat" where
  "cleanLeadingFutureAnnotationsImports lang db =
     (db\<lparr>tb_boilerplates :=
           map (\<lambda>r. if future_rows lang r then r\<lparr>bt_template := strip_future_import (bt_template r)\<rparr> else r)
             (tb_boilerplates db)\<rparr>,
      countLeadingFutureAnnotationsImports lang db)"

record new_hint =
  nh_hintText :: string
  nh_orderIndex :: nat

definition findHints :: "string \<Rightarrow> problem_tables \<Rightarrow> hint list" where
  "findHints pid db = map toHint (sort_key ht_order_index (filter (\<lambda>r. ht_problem_id r = pid) (tb_hints db)))"

definition createHint :: "string \<Rightarrow> string \<Rightarrow> new_hint \<Rightarrow> problem_tables \<Rightarrow> db_error + problem_tables" where
  "createHint newId pid d db =
     (if newId \<in> ht_id ` set (tb_hints db) then Inl (UniqueViolation ''hints_pkey'')
      else if (pid, nh_orderIndex d) \<in> (\<lambda>r. (ht_problem_id r, ht_order_index r)) ` set (tb_hints db)
      then Inl (UniqueViolation ''hints_problem_id_order_index_key'')
      else if pid \<notin> pr_id ` set (tb_problems db) then Inl (ForeignKeyViolation ''hints_problem_id_fkey'')
      else Inr (db\<lparr>tb_hints := tb_hints db @
             [\<lparr>ht_id = newId, ht_problem_id = pid, ht_hint_text = nh_hintText d, ht_order_index = nh_orderIndex d\<rparr>]\<rparr>))"

end
