(* ===== verification/Store_Rollback.thy ===== *)
theory Store_Rollback
  imports Problem_Store
begin

text \<open>
  Inserting a problem with the rows that belong to it, one statement after the other, and taking the
  problem out again when one of them fails: the shape shared by the import of a problem
  (\<^verbatim>\<open>persistImportedProblem\<close> of \<^verbatim>\<open>services/ScraperService.ts\<close>) and by the seeding of
  the database (\<^verbatim>\<open>packages/db/src/seeds/seed.ts\<close>), with what makes it leave no trace.
\<close>

section \<open>Statements in sequence\<close>

text \<open>
  What the database brings to a run: whether the connection is lost at the n-th statement and at the
  deletion that undoes the others, the ids it draws and its clock. A statement that finds the connection lost has no effect.
\<close>

record db_env =
  de_down :: "nat \<Rightarrow> bool"
  de_undo_fails :: bool
  de_id :: "nat \<Rightarrow> string"
  de_now :: string

definition on_line :: "db_env \<Rightarrow> nat \<Rightarrow> (db_error + 'a) \<Rightarrow> db_error + 'a" where
  "on_line env n r = (if de_down env n then Inl ConnectionLost else r)"

datatype insert_step =
    InsertCase new_test_case
  | InsertBoilerplate new_boilerplate
  | InsertHint new_hint

definition perform :: "db_env \<Rightarrow> nat \<Rightarrow> string \<Rightarrow> insert_step \<Rightarrow> problem_tables \<Rightarrow> db_error + problem_tables" where
  "perform env n pid st db =
     on_line env n
       (case st of
          InsertCase d \<Rightarrow> createTestCase (de_id env n) pid d db
        | InsertBoilerplate d \<Rightarrow> createBoilerplate (de_id env n) pid d db
        | InsertHint d \<Rightarrow> createHint (de_id env n) pid d db)"

text \<open>Steps until one fails: the tables reached, and the error.\<close>

fun perform_all :: "(nat \<Rightarrow> 'c \<Rightarrow> 's \<Rightarrow> 'e + 's) \<Rightarrow> nat \<Rightarrow> 'c list \<Rightarrow> 's \<Rightarrow> 's \<times> 'e option" where
  "perform_all f n [] s = (s, None)"
| "perform_all f n (c # cs) s =
     (case f n c s of Inl e \<Rightarrow> (s, Some e) | Inr s' \<Rightarrow> perform_all f (Suc n) cs s')"

text \<open>
  The problem is statement \<open>n\<close>, its rows are the statements after it.
\<close>

definition insert_problem ::
  "db_env \<Rightarrow> nat \<Rightarrow> new_problem \<Rightarrow> insert_step list \<Rightarrow> problem_tables \<Rightarrow> problem_tables \<times> (db_error + problem)" where
  "insert_problem env n d steps db =
     (case on_line env n (createProblem (de_id env n) (de_now env) d db) of
        Inl e \<Rightarrow> (db, Inl e)
      | Inr (db1, p) \<Rightarrow>
          (case perform_all (\<lambda>k st. perform env k (p_id p) st) (Suc n) steps db1 of
             (db2, None) \<Rightarrow> (db2, Inr p)
           | (db2, Some e) \<Rightarrow>
               if de_undo_fails env then (db2, Inl ConnectionLost) else (deleteById (p_id p) db2, Inl e)))"

section \<open>The constraints of the schema\<close>

definition tables_ok :: "problem_tables \<Rightarrow> bool" where
  "tables_ok db \<longleftrightarrow>
     distinct (map pr_id (tb_problems db)) \<and> distinct (map pr_slug (tb_problems db))
     \<and> (\<forall>r \<in> set (tb_problems db). pr_source r = UserSubmitted \<or> pr_solution r \<noteq> None)
     \<and> distinct (map tr_id (tb_test_cases db))
     \<and> distinct (map (\<lambda>r. (tr_problem_id r, tr_order_index r)) (tb_test_cases db))
     \<and> tr_problem_id ` set (tb_test_cases db) \<subseteq> pr_id ` set (tb_problems db)
     \<and> distinct (map bt_id (tb_boilerplates db))
     \<and> distinct (map (\<lambda>r. (bt_problem_id r, bt_language r)) (tb_boilerplates db))
     \<and> bt_problem_id ` set (tb_boilerplates db) \<subseteq> pr_id ` set (tb_problems db)
     \<and> distinct (map ht_id (tb_hints db))
     \<and> distinct (map (\<lambda>r. (ht_problem_id r, ht_order_index r)) (tb_hints db))
     \<and> ht_problem_id ` set (tb_hints db) \<subseteq> pr_id ` set (tb_problems db)"

lemma tables_ok_empty: "tables_ok empty_tables"
  by (simp add: tables_ok_def empty_tables_def)

lemma tables_ok_foreign:
  assumes "tables_ok db" and "pid \<notin> pr_id ` set (tb_problems db)"
  shows "pid \<notin> tr_problem_id ` set (tb_test_cases db)" "pid \<notin> bt_problem_id ` set (tb_boilerplates db)"
    "pid \<notin> ht_problem_id ` set (tb_hints db)"
  using assms unfolding tables_ok_def by blast+

lemma createProblem_cases:
  assumes "createProblem newId now d db = Inr (db', p)"
  obtains row where "db' = db\<lparr>tb_problems := tb_problems db @ [row]\<rparr>" "p = toProblem row" "pr_id row = newId"
    "pr_slug row = np_slug d" "pr_deleted_at row = None" "newId \<notin> pr_id ` set (tb_problems db)"
    "np_slug d \<notin> pr_slug ` set (tb_problems db)" "pr_source row = UserSubmitted \<or> pr_solution row \<noteq> None"
  using assms by (auto simp: createProblem_def Let_def split: option.splits if_splits)

lemma createTestCase_cases:
  assumes "createTestCase newId pid d db = Inr db'"
  obtains out where "nt_expectedOutput d = Some out"
    "db' = db\<lparr>tb_test_cases := tb_test_cases db @ [case_row newId pid d out]\<rparr>"
    "newId \<notin> tr_id ` set (tb_test_cases db)" "pid \<in> pr_id ` set (tb_problems db)"
    "(pid, nt_orderIndex d) \<notin> (\<lambda>r. (tr_problem_id r, tr_order_index r)) ` set (tb_test_cases db)"
  using assms by (auto simp: createTestCase_def split: option.splits if_splits)

lemma createProblem_ok:
  assumes "tables_ok db" and "createProblem newId now d db = Inr (db', p)"
  shows "tables_ok db'"
  using assms(2)
proof (rule createProblem_cases)
  fix row
  assume r: "db' = db\<lparr>tb_problems := tb_problems db @ [row]\<rparr>" "pr_id row = newId" "pr_slug row = np_slug d"
    "newId \<notin> pr_id ` set (tb_problems db)" "np_slug d \<notin> pr_slug ` set (tb_problems db)"
    "pr_source row = UserSubmitted \<or> pr_solution row \<noteq> None"
  with assms(1) show ?thesis unfolding tables_ok_def by (simp add: r) blast
qed

lemma createTestCase_ok:
  assumes "tables_ok db" and "createTestCase newId pid d db = Inr db'"
  shows "tables_ok db'"
  using assms(2)
proof (rule createTestCase_cases)
  fix out
  assume r: "db' = db\<lparr>tb_test_cases := tb_test_cases db @ [case_row newId pid d out]\<rparr>"
    "newId \<notin> tr_id ` set (tb_test_cases db)" "pid \<in> pr_id ` set (tb_problems db)"
    "(pid, nt_orderIndex d) \<notin> (\<lambda>r. (tr_problem_id r, tr_order_index r)) ` set (tb_test_cases db)"
  with assms(1) show ?thesis unfolding tables_ok_def by (simp add: case_row_def)
qed

lemma createBoilerplate_cases:
  assumes "createBoilerplate newId pid d db = Inr db'"
  obtains row where "db' = db\<lparr>tb_boilerplates := tb_boilerplates db @ [row]\<rparr>" "bt_id row = newId"
    "bt_problem_id row = pid" "bt_language row = nb_language d" "newId \<notin> bt_id ` set (tb_boilerplates db)"
    "pid \<in> pr_id ` set (tb_problems db)" "(pid, nb_language d) \<notin> (\<lambda>r. (bt_problem_id r, bt_language r)) ` set (tb_boilerplates db)"
  using assms by (auto simp: createBoilerplate_def split: if_splits)

lemma createBoilerplate_ok:
  assumes "tables_ok db" and "createBoilerplate newId pid d db = Inr db'"
  shows "tables_ok db'"
  using assms(2)
proof (rule createBoilerplate_cases)
  fix row
  assume r: "db' = db\<lparr>tb_boilerplates := tb_boilerplates db @ [row]\<rparr>" "bt_id row = newId"
    "bt_problem_id row = pid" "bt_language row = nb_language d" "newId \<notin> bt_id ` set (tb_boilerplates db)"
    "pid \<in> pr_id ` set (tb_problems db)" "(pid, nb_language d) \<notin> (\<lambda>r. (bt_problem_id r, bt_language r)) ` set (tb_boilerplates db)"
  with assms(1) show ?thesis unfolding tables_ok_def by (simp add: r)
qed

lemma createHint_cases:
  assumes "createHint newId pid d db = Inr db'"
  obtains row where "db' = db\<lparr>tb_hints := tb_hints db @ [row]\<rparr>" "ht_id row = newId"
    "ht_problem_id row = pid" "ht_order_index row = nh_orderIndex d" "newId \<notin> ht_id ` set (tb_hints db)"
    "pid \<in> pr_id ` set (tb_problems db)" "(pid, nh_orderIndex d) \<notin> (\<lambda>r. (ht_problem_id r, ht_order_index r)) ` set (tb_hints db)"
  using assms by (auto simp: createHint_def split: if_splits)

lemma createHint_ok:
  assumes "tables_ok db" and "createHint newId pid d db = Inr db'"
  shows "tables_ok db'"
  using assms(2)
proof (rule createHint_cases)
  fix row
  assume r: "db' = db\<lparr>tb_hints := tb_hints db @ [row]\<rparr>" "ht_id row = newId"
    "ht_problem_id row = pid" "ht_order_index row = nh_orderIndex d" "newId \<notin> ht_id ` set (tb_hints db)"
    "pid \<in> pr_id ` set (tb_problems db)" "(pid, nh_orderIndex d) \<notin> (\<lambda>r. (ht_problem_id r, ht_order_index r)) ` set (tb_hints db)"
  with assms(1) show ?thesis unfolding tables_ok_def by (simp add: r)
qed

lemma perform_ok: "tables_ok db \<Longrightarrow> perform env n pid st db = Inr db' \<Longrightarrow> tables_ok db'"
  by (auto simp: perform_def on_line_def split: if_splits insert_step.splits
      intro: createTestCase_ok createBoilerplate_ok createHint_ok)

lemma distinct_map_filter_key: "distinct (map f xs) \<Longrightarrow> distinct (map f (filter P xs))"
  by (simp add: distinct_map_filter)

lemma deleteById_ok: "tables_ok db \<Longrightarrow> tables_ok (deleteById pid db)"
  unfolding tables_ok_def by (simp add: deleteById_def distinct_map_filter_key) blast

lemma map_problems_ok:
  assumes "tables_ok db" and g: "\<And>r. pr_id (g r) = pr_id r" "\<And>r. pr_slug (g r) = pr_slug r"
    "\<And>r. pr_source (g r) = pr_source r" "\<And>r. pr_solution (g r) = pr_solution r"
  shows "tables_ok (db\<lparr>tb_problems := map g (tb_problems db)\<rparr>)"
  using assms(1) unfolding tables_ok_def by (simp add: g o_def image_image)

lemma update_problems_ok:
  assumes "tables_ok db" and "\<And>r. pr_id (f r) = pr_id r" and "\<And>r. pr_slug (f r) = pr_slug r"
    and "\<And>r. pr_source (f r) = pr_source r" and "\<And>r. pr_solution (f r) = pr_solution r"
  shows "tables_ok (update_problems now sel f db)"
  unfolding update_problems_def by (rule map_problems_ok [OF assms(1)]) (simp_all add: assms(2-))

lemma restore_row:
  assumes "r \<in> set (tb_problems db)"
  shows "(if pr_id r = pid then r\<lparr>pr_deleted_at := None, pr_updated_at := now\<rparr> else r)
    \<in> set (tb_problems (restoreById now pid db))"
  using assms by (simp add: restoreById_def update_problems_def)

section \<open>Undoing by the cascade\<close>

text \<open>
  The interface: a store in which a keyed object is created, gets parts, and is deleted with
  all of its parts.
\<close>

locale cascade_store =
  fixes ok :: "'s \<Rightarrow> bool"
    and create :: "'p \<Rightarrow> 's \<Rightarrow> 'e + 's \<times> 'k"
    and add :: "nat \<Rightarrow> 'k \<Rightarrow> 'c \<Rightarrow> 's \<Rightarrow> 'e + 's"
    and del :: "'k \<Rightarrow> 's \<Rightarrow> 's"
  assumes create_ok: "ok s \<Longrightarrow> create p s = Inr (s', k) \<Longrightarrow> ok s'"
    and add_ok: "ok s \<Longrightarrow> add n k c s = Inr s' \<Longrightarrow> ok s'"
    and del_create: "ok s \<Longrightarrow> create p s = Inr (s', k) \<Longrightarrow> del k s' = s"
    and del_add: "add n k c s = Inr s' \<Longrightarrow> del k s' = del k s"
begin

lemma del_all: "del k (fst (perform_all (\<lambda>n. add n k) n cs s)) = del k s"
  by (induction cs arbitrary: n s) (auto split: sum.splits dest: del_add)

lemma ok_all: "ok s \<Longrightarrow> ok (fst (perform_all (\<lambda>n. add n k) n cs s))"
  by (induction cs arbitrary: n s) (auto split: sum.splits dest: add_ok)

lemma rollback:
  assumes "ok s" and "create p s = Inr (s', k)"
  shows "del k (fst (perform_all (\<lambda>n. add n k) n cs s')) = s"
    and "ok (fst (perform_all (\<lambda>n. add n k) n cs s'))"
  using del_create [OF assms] del_all ok_all [OF create_ok [OF assms]] by simp_all

end

definition create_key :: "string \<Rightarrow> string \<Rightarrow> new_problem \<Rightarrow> problem_tables \<Rightarrow> db_error + problem_tables \<times> string" where
  "create_key newId now d db =
     (case createProblem newId now d db of Inl e \<Rightarrow> Inl e | Inr (db', p) \<Rightarrow> Inr (db', p_id p))"

lemma deleteById_create:
  assumes "tables_ok db" and "createProblem newId now d db = Inr (db', p)"
  shows "deleteById (p_id p) db' = db"
  using assms(2)
proof (rule createProblem_cases)
  fix row
  assume r: "db' = db\<lparr>tb_problems := tb_problems db @ [row]\<rparr>" "p = toProblem row" "pr_id row = newId"
    "newId \<notin> pr_id ` set (tb_problems db)"
  note f = tables_ok_foreign [OF assms(1) r(4)]
  have keep: "filter (\<lambda>r. k r \<noteq> newId) xs = xs" if "newId \<notin> k ` set xs" for k :: "'a \<Rightarrow> string" and xs
    using that by (auto simp: filter_id_conv)
  show ?thesis
    using keep [OF r(4)] keep [OF f(1)] keep [OF f(2)] keep [OF f(3)] r(3)
    by (simp add: r(1,2) deleteById_def toProblem_def)
qed

lemma deleteById_perform: "perform env n pid st db = Inr db' \<Longrightarrow> deleteById pid db' = deleteById pid db"
  by (auto simp: perform_def on_line_def deleteById_def createTestCase_def createBoilerplate_def createHint_def
      case_row_def split: if_splits insert_step.splits option.splits)

interpretation problems: cascade_store tables_ok "create_key newId now" "perform env" deleteById
proof unfold_locales
  show "tables_ok s'" if "tables_ok s" "create_key newId now p s = Inr (s', k)" for s s' p k
    using that createProblem_ok by (auto simp: create_key_def split: sum.splits prod.splits)
  show "tables_ok s'" if "tables_ok s" "perform env n k c s = Inr s'" for s s' n k c
    using perform_ok that .
  show "deleteById k s' = s" if "tables_ok s" "create_key newId now p s = Inr (s', k)" for s s' p k
    using that deleteById_create by (auto simp: create_key_def split: sum.splits prod.splits)
  show "deleteById k s' = deleteById k s" if "perform env n k c s = Inr s'" for s s' n k c
    using deleteById_perform that .
qed

section \<open>A problem inserted with its rows\<close>

fun cases_of :: "insert_step list \<Rightarrow> new_test_case list" where
  "cases_of [] = []"
| "cases_of (InsertCase d # ss) = d # cases_of ss"
| "cases_of (_ # ss) = cases_of ss"

definition case_fields :: "test_case \<Rightarrow> (string \<times> json) list \<times> js_unknown \<times> bool \<times> nat" where
  "case_fields t = (tc_input t, tc_expectedOutput t, tc_isVisible t, tc_orderIndex t)"

definition new_case_fields :: "new_test_case \<Rightarrow> (string \<times> json) list \<times> js_unknown \<times> bool \<times> nat" where
  "new_case_fields d = (nt_input d, nt_expectedOutput d, nt_isVisible d, nt_orderIndex d)"

lemma insort_key_map: "insort_key f (g x) (map g xs) = map g (insort_key (\<lambda>y. f (g y)) x xs)"
  by (induction xs) auto

lemma sort_key_map: "sort_key f (map g xs) = map g (sort_key (\<lambda>y. f (g y)) xs)"
  by (induction xs) (simp_all add: insort_key_map)

lemma perform_keeps:
  assumes "perform env n pid st db = Inr db'"
  shows "tb_problems db' = tb_problems db"
    and "map (\<lambda>r. case_fields (toTestCase r)) (filter (\<lambda>r. tr_problem_id r = pid) (tb_test_cases db')) =
         map (\<lambda>r. case_fields (toTestCase r)) (filter (\<lambda>r. tr_problem_id r = pid) (tb_test_cases db))
         @ map new_case_fields (cases_of [st])"
  using assms
  by (auto simp: perform_def on_line_def createTestCase_def createBoilerplate_def createHint_def case_row_def
      case_fields_def new_case_fields_def toTestCase_def split: if_splits insert_step.splits option.splits)

lemma perform_all_rows:
  assumes "perform_all (\<lambda>k st. perform env k pid st) n steps db = (db', None)"
  shows "tb_problems db' = tb_problems db
    \<and> map (\<lambda>r. case_fields (toTestCase r)) (filter (\<lambda>r. tr_problem_id r = pid) (tb_test_cases db')) =
      map (\<lambda>r. case_fields (toTestCase r)) (filter (\<lambda>r. tr_problem_id r = pid) (tb_test_cases db))
      @ map new_case_fields (cases_of steps)"
  using assms
proof (induction steps arbitrary: n db)
  case Nil
  then show ?case by simp
next
  case (Cons st steps)
  obtain db1 where p: "perform env n pid st db = Inr db1"
    and rest: "perform_all (\<lambda>k st. perform env k pid st) (Suc n) steps db1 = (db', None)"
    using Cons.prems by (auto split: sum.splits)
  have "cases_of (st # steps) = cases_of [st] @ cases_of steps" by (cases st) auto
  with Cons.IH [OF rest] perform_keeps [OF p] show ?case by simp
qed

lemma order_of_fields: "snd (snd (snd (case_fields (toTestCase r)))) = tr_order_index r"
    "snd (snd (snd (new_case_fields d))) = nt_orderIndex d"
  by (simp_all add: case_fields_def toTestCase_def new_case_fields_def)

lemma findByProblemId_rows:
  assumes "map (\<lambda>r. case_fields (toTestCase r)) (filter (\<lambda>r. tr_problem_id r = pid) (tb_test_cases db))
           = map new_case_fields ds"
  shows "map case_fields (findByProblemId pid db) = map new_case_fields (sort_key nt_orderIndex ds)"
proof -
  let ?k = "\<lambda>x :: (string \<times> json) list \<times> js_unknown \<times> bool \<times> nat. snd (snd (snd x))"
  have "map case_fields (findByProblemId pid db)
      = sort_key ?k (map (\<lambda>r. case_fields (toTestCase r)) (filter (\<lambda>r. tr_problem_id r = pid) (tb_test_cases db)))"
    by (simp add: findByProblemId_def sort_key_map order_of_fields o_def)
  also have "\<dots> = map new_case_fields (sort_key nt_orderIndex ds)"
    by (simp add: assms sort_key_map order_of_fields)
  finally show ?thesis .
qed

lemma findById_new:
  assumes "pr_id row \<notin> pr_id ` set rows" and "tb_problems db = rows @ [row]" and "pr_deleted_at row = None"
  shows "findById (pr_id row) db = Some (toProblem row)"
proof -
  have "filter (\<lambda>r. pr_id r = pr_id row \<and> active r) rows = []" using assms(1) unfolding filter_empty_conv by (metis image_eqI)
  then show ?thesis using assms(2,3) by (simp add: findById_def getFirstOrNull_def active_def)
qed

lemma insert_problem_success:
  assumes ok: "tables_ok db" and r: "insert_problem env n d steps db = (db', Inr p)"
  shows "tables_ok db' \<and> deleteById (p_id p) db' = db \<and> findById (p_id p) db' = Some p \<and> p_slug p = np_slug d
    \<and> map case_fields (findByProblemId (p_id p) db') = map new_case_fields (sort_key nt_orderIndex (cases_of steps))
    \<and> (\<exists>row. tb_problems db' = tb_problems db @ [row] \<and> p = toProblem row \<and> pr_deleted_at row = None)"
proof -
  obtain db1 where c: "createProblem (de_id env n) (de_now env) d db = Inr (db1, p)"
    and pa: "perform_all (\<lambda>k st. perform env k (p_id p) st) (Suc n) steps db1 = (db', None)"
    using r by (auto simp: insert_problem_def on_line_def split: if_splits sum.splits prod.splits option.splits)
  obtain row where row: "db1 = db\<lparr>tb_problems := tb_problems db @ [row]\<rparr>" "p = toProblem row"
    "pr_id row = de_id env n" "pr_slug row = np_slug d" "pr_deleted_at row = None"
    "de_id env n \<notin> pr_id ` set (tb_problems db)"
    using c by (rule createProblem_cases) blast
  have pid: "p_id p = pr_id row" by (simp add: row(2) toProblem_def)
  have k: "create_key (de_id env n) (de_now env) d db = Inr (db1, p_id p)" by (simp add: create_key_def c)
  note undo = problems.rollback [OF ok k, of env "Suc n" steps, unfolded pa fst_conv]
  have "filter (\<lambda>r. tr_problem_id r = p_id p) (tb_test_cases db1) = []"
    using tables_ok_foreign(1) [OF ok row(6)] row(1,3) pid unfolding filter_empty_conv by force
  with perform_all_rows [OF pa] have rows: "tb_problems db' = tb_problems db @ [row]"
    "map (\<lambda>r. case_fields (toTestCase r)) (filter (\<lambda>r. tr_problem_id r = p_id p) (tb_test_cases db'))
      = map new_case_fields (cases_of steps)" by (simp_all add: row(1))
  have "findById (p_id p) db' = Some p"
    using findById_new [OF _ rows(1) row(5)] row(2,3,6) pid by simp
  moreover have "p_slug p = np_slug d" by (simp add: row(2,4) toProblem_def)
  ultimately show ?thesis using undo findByProblemId_rows [OF rows(2)] rows(1) row(2,5) by blast
qed

lemma insert_problem_failure:
  assumes ok: "tables_ok db" and up: "\<not> de_undo_fails env"
    and r: "insert_problem env n d steps db = (db', Inl e)"
  shows "db' = db"
proof (cases "on_line env n (createProblem (de_id env n) (de_now env) d db)")
  case (Inl e')
  with r show ?thesis by (simp add: insert_problem_def)
next
  case (Inr a)
  then obtain db1 p where a: "createProblem (de_id env n) (de_now env) d db = Inr (db1, p)" "a = (db1, p)"
    by (cases a) (auto simp: on_line_def split: if_splits)
  have k: "create_key (de_id env n) (de_now env) d db = Inr (db1, p_id p)" by (simp add: create_key_def a)
  let ?run = "perform_all (\<lambda>k st. perform env k (p_id p) st) (Suc n) steps db1"
  obtain db2 o2 where pa: "?run = (db2, o2)" by (cases ?run)
  have "deleteById (p_id p) db2 = db"
    using problems.rollback(1) [OF ok k, of env "Suc n" steps] by (simp add: pa)
  moreover from this have "db' = deleteById (p_id p) db2"
    using r up unfolding insert_problem_def Inr a(2)
    by (cases o2) (simp_all add: pa on_line_def)
  ultimately show ?thesis by simp
qed

end
