(* ===== verification/Db_Scripts.thy ===== *)
theory Db_Scripts
  imports Store_Rollback "HOL-Library.List_Lexorder" "HOL-Library.Char_ord"
begin

text \<open>
  The programs that are run against the database by hand or on deployment, in
  \<^verbatim>\<open>packages/db/src\<close>: seeding (\<^verbatim>\<open>seeds/seed.ts\<close>), migrating
  (\<^verbatim>\<open>migrations/migrate.ts\<close>) and cleaning up (\<^verbatim>\<open>scripts\<close>). The fixtures and
  the SQL of a migration are arguments; logging is left out.
\<close>

section \<open>Seeding\<close>

record fixture =
  fx_problem :: new_problem
  fx_testCases :: "new_test_case list"
  fx_boilerplate :: new_boilerplate
  fx_hints :: "new_hint list"

definition fixture_steps :: "fixture \<Rightarrow> insert_step list" where
  "fixture_steps fx = map InsertCase (fx_testCases fx) @ [InsertBoilerplate (fx_boilerplate fx)] @ map InsertHint (fx_hints fx)"

text \<open>Statement 0 looks the problem up, statement 1 restores it, and from 2 on it is inserted.\<close>

definition seed_fixture :: "db_env \<Rightarrow> fixture \<Rightarrow> problem_tables \<Rightarrow> problem_tables \<times> db_error option" where
  "seed_fixture env fx db =
     (case on_line env 0 (Inr (findBySlugIncludingDeleted (np_slug (fx_problem fx)) db)) of
        Inl e \<Rightarrow> (db, Some e)
      | Inr (Some existing) \<Rightarrow>
          if p_deletedAt existing \<noteq> None then
            (case on_line env 1 (Inr (restoreById (de_now env) (p_id existing) db)) of
               Inl e \<Rightarrow> (db, Some e) | Inr db' \<Rightarrow> (db', None))
          else (db, None)
      | Inr None \<Rightarrow>
          (case insert_problem env 2 (fx_problem fx) (fixture_steps fx) db of
             (db', Inl e) \<Rightarrow> (db', Some e) | (db', Inr p) \<Rightarrow> (db', None)))"

text \<open>The k-th fixture meets the database as \<open>envs k\<close>.\<close>

fun seed :: "(nat \<Rightarrow> db_env) \<Rightarrow> nat \<Rightarrow> fixture list \<Rightarrow> problem_tables \<Rightarrow> problem_tables \<times> db_error option" where
  "seed envs k [] db = (db, None)"
| "seed envs k (fx # fxs) db =
     (case seed_fixture (envs k) fx db of
        (db', Some e) \<Rightarrow> (db', Some e)
      | (db', None) \<Rightarrow> seed envs (Suc k) fxs db')"

section \<open>Migrating\<close>

text \<open>
  The schema, of which nothing is assumed, and the names in the table \<^verbatim>\<open>_migrations\<close>. A
  migration runs in a transaction: when it fails the schema is as before it.
\<close>

record 's migration_db =
  md_schema :: 's
  md_names :: "string list"

definition ends_with :: "string \<Rightarrow> string \<Rightarrow> bool" where
  "ends_with suffix s \<longleftrightarrow> starts_with (rev suffix) (rev s)"

definition migration_files :: "string list \<Rightarrow> string list" where
  "migration_files entries = sort (filter (ends_with ''.sql'') entries)"

record 'e migration_result =
  mr_applied :: nat
  mr_skipped :: nat
  mr_error :: "'e option"

fun apply_migrations ::
  "(string \<Rightarrow> 's \<Rightarrow> 'e + 's) \<Rightarrow> string set \<Rightarrow> nat \<Rightarrow> nat \<Rightarrow> string list \<Rightarrow> 's migration_db
   \<Rightarrow> 's migration_db \<times> 'e migration_result" where
  "apply_migrations run appliedSet a s [] db = (db, \<lparr>mr_applied = a, mr_skipped = s, mr_error = None\<rparr>)"
| "apply_migrations run appliedSet a s (file # files) db =
     (if file \<in> appliedSet then apply_migrations run appliedSet a (Suc s) files db
      else (case run file (md_schema db) of
              Inl e \<Rightarrow> (db, \<lparr>mr_applied = a, mr_skipped = s, mr_error = Some e\<rparr>)
            | Inr schema \<Rightarrow>
                apply_migrations run appliedSet (Suc a) s files
                  \<lparr>md_schema = schema, md_names = md_names db @ [file]\<rparr>))"

definition migrate ::
  "(string \<Rightarrow> 's \<Rightarrow> 'e + 's) \<Rightarrow> string list \<Rightarrow> 's migration_db \<Rightarrow> 's migration_db \<times> 'e migration_result" where
  "migrate run entries db = apply_migrations run (set (md_names db)) 0 0 (migration_files entries) db"

section \<open>Cleaning up\<close>

definition countActiveUserSubmittedProblems :: "problem_tables \<Rightarrow> nat" where
  "countActiveUserSubmittedProblems db =
     length (filter (\<lambda>r. pr_source r = UserSubmitted \<and> active r) (tb_problems db))"

record e2e_cleanup =
  ec_summary :: e2e_summary
  ec_softDeletedProblemCount :: nat
  ec_remaining :: nat

definition cleanE2eImports :: "bool \<Rightarrow> string \<Rightarrow> problem_tables \<Rightarrow> problem_tables \<times> e2e_cleanup" where
  "cleanE2eImports dryRun now db =
     (let summary = summarizeE2eImportedProblems db;
          (db', cleanup) = (if dryRun then (db, 0) else softDeleteE2eImportedProblems now db)
      in (db', \<lparr>ec_summary = summary, ec_softDeletedProblemCount = cleanup,
                ec_remaining = countActiveUserSubmittedProblems db'\<rparr>))"

definition cleanPythonFutureImports :: "bool \<Rightarrow> problem_tables \<Rightarrow> problem_tables \<times> nat \<times> nat" where
  "cleanPythonFutureImports dryRun db =
     (let matching = countLeadingFutureAnnotationsImports ''python'' db;
          (db', cleaned) = (if dryRun then (db, 0) else cleanLeadingFutureAnnotationsImports ''python'' db)
      in (db', matching, cleaned))"

text \<open>The exit code is 1 when the argument is missing.\<close>

definition softDeleteProblem :: "string option \<Rightarrow> string \<Rightarrow> problem_tables \<Rightarrow> problem_tables \<times> nat" where
  "softDeleteProblem arg now db =
     (case map_option trim arg of
        None \<Rightarrow> (db, 1)
      | Some pid \<Rightarrow> if pid = [] then (db, 1) else (softDeleteById now pid db, 0))"

section \<open>Lemmas on seeding\<close>

definition seeded :: "string \<Rightarrow> problem_tables \<Rightarrow> bool" where
  "seeded slug db \<longleftrightarrow> (\<exists>r \<in> set (tb_problems db). pr_slug r = slug \<and> active r)"

lemma find_slug_unique:
  assumes "distinct (map pr_slug rows)" and "r \<in> set rows"
  shows "filter (\<lambda>x. pr_slug x = pr_slug r) rows = [r]"
  using assms by (induction rows) (auto simp: filter_empty_conv image_iff)

lemma seeded_row:
  assumes "tables_ok db" and "seeded slug db"
  obtains r where "pr_slug r = slug" "active r" "filter (\<lambda>x. pr_slug x = slug) (tb_problems db) = [r]"
proof -
  obtain r where r: "r \<in> set (tb_problems db)" "pr_slug r = slug" "active r"
    using assms(2) by (auto simp: seeded_def)
  then show ?thesis using that find_slug_unique [of "tb_problems db" r] assms(1) by (simp add: tables_ok_def)
qed

lemma seeded_found:
  assumes "tables_ok db" and "seeded slug db"
  shows "\<exists>p. findBySlug slug db = Some p"
proof -
  obtain r where r: "active r" "filter (\<lambda>x. pr_slug x = slug) (tb_problems db) = [r]"
    using assms by (rule seeded_row)
  have "filter (\<lambda>x. pr_slug x = slug \<and> active x) (tb_problems db) = filter active [r]"
    by (simp only: r(2) [symmetric] filter_filter)
  then show ?thesis using r(1) by (simp add: findBySlug_def getFirstOrNull_def)
qed

lemma seeded_skipped:
  assumes "tables_ok db" and "seeded (np_slug (fx_problem fx)) db" and "\<not> de_down env 0"
  shows "seed_fixture env fx db = (db, None)"
  using assms(1,2)
proof (rule seeded_row)
  fix r
  assume "active r" "filter (\<lambda>x. pr_slug x = np_slug (fx_problem fx)) (tb_problems db) = [r]"
  then show ?thesis
    using assms(3)
    by (simp add: seed_fixture_def on_line_def findBySlugIncludingDeleted_def getFirstOrNull_def toProblem_def active_def)
qed

lemma restoreById_ok: "tables_ok db \<Longrightarrow> tables_ok (restoreById now pid db)"
  unfolding restoreById_def by (rule update_problems_ok) simp_all

lemma found_row:
  assumes "findBySlugIncludingDeleted slug db = Some p"
  obtains r where "r \<in> set (tb_problems db)" "pr_slug r = slug" "p = toProblem r"
proof -
  obtain r rs where f: "filter (\<lambda>r. pr_slug r = slug) (tb_problems db) = r # rs" "p = toProblem r"
    using assms by (auto simp: findBySlugIncludingDeleted_def getFirstOrNull_def split: list.splits)
  have "r \<in> set (filter (\<lambda>r. pr_slug r = slug) (tb_problems db))" by (simp add: f(1))
  then show ?thesis using that [of r] f(2) by simp
qed

lemma restore_seeded: "seeded slug db \<Longrightarrow> seeded slug (restoreById now pid db)"
proof -
  assume "seeded slug db"
  then obtain r where r: "r \<in> set (tb_problems db)" "pr_slug r = slug" "active r" by (auto simp: seeded_def)
  show ?thesis
    unfolding seeded_def by (rule bexI [OF _ restore_row [OF r(1)]]) (use r in \<open>simp add: active_def\<close>)
qed

lemma restore_found:
  assumes "findBySlugIncludingDeleted slug db = Some p"
  shows "seeded slug (restoreById now (p_id p) db)"
  using assms
proof (rule found_row)
  fix r
  assume r: "r \<in> set (tb_problems db)" "pr_slug r = slug" "p = toProblem r"
  show ?thesis
    unfolding seeded_def
    by (rule bexI [OF _ restore_row [OF r(1)]]) (use r in \<open>simp add: active_def toProblem_def\<close>)
qed

lemma seed_fixture_seeded:
  assumes ok: "tables_ok db" and s: "seed_fixture env fx db = (db', None)"
  shows "tables_ok db'" and "seeded (np_slug (fx_problem fx)) db'"
    and "seeded slug db \<Longrightarrow> seeded slug db'"
proof -
  let ?slug = "np_slug (fx_problem fx)"
  have "tables_ok db' \<and> seeded ?slug db' \<and> (seeded slug db \<longrightarrow> seeded slug db')"
  proof (cases "findBySlugIncludingDeleted ?slug db")
    case None
    then obtain p where i: "insert_problem env 2 (fx_problem fx) (fixture_steps fx) db = (db', Inr p)"
      using s by (auto simp: seed_fixture_def on_line_def split: if_splits prod.splits sum.splits)
    obtain row where "tables_ok db'" "p_slug p = ?slug" "tb_problems db' = tb_problems db @ [row]"
      "p = toProblem row" "pr_deleted_at row = None"
      using insert_problem_success [OF ok i] by blast
    then show ?thesis by (auto simp: seeded_def active_def toProblem_def)
  next
    case (Some p)
    consider "p_deletedAt p \<noteq> None" "db' = restoreById (de_now env) (p_id p) db" | "p_deletedAt p = None" "db' = db"
      using s Some by (auto simp: seed_fixture_def on_line_def split: if_splits)
    then show ?thesis
    proof cases
      case 1
      then show ?thesis using ok restoreById_ok restore_found [OF Some] restore_seeded by simp
    next
      case 2
      have "seeded ?slug db"
        using found_row [OF Some] 2(1) unfolding seeded_def active_def by (metis toProblem_def problem.select_convs(12))
      then show ?thesis using ok 2(2) by simp
    qed
  qed
  then show "tables_ok db'" "seeded ?slug db'" "seeded slug db \<Longrightarrow> seeded slug db'" by blast+
qed

lemma seed_seeded:
  "tables_ok db \<Longrightarrow> seed envs k fxs db = (db', None) \<Longrightarrow>
   tables_ok db' \<and> (\<forall>slug. (seeded slug db \<or> slug \<in> (\<lambda>fx. np_slug (fx_problem fx)) ` set fxs) \<longrightarrow> seeded slug db')"
proof (induction fxs arbitrary: k db)
  case Nil
  then show ?case by simp
next
  case (Cons fx fxs)
  obtain db1 where o: "seed_fixture (envs k) fx db = (db1, None)" and r: "seed envs (Suc k) fxs db1 = (db', None)"
    using Cons.prems(2) by (auto split: prod.splits option.splits)
  note f = seed_fixture_seeded [OF Cons.prems(1) o]
  show ?case using Cons.IH [OF f(1) r] f(2,3) by auto
qed

lemma seed_again:
  "tables_ok db \<Longrightarrow> (\<forall>k. \<not> de_down (envs k) 0) \<Longrightarrow> (\<forall>fx \<in> set fxs. seeded (np_slug (fx_problem fx)) db) \<Longrightarrow>
   seed envs k fxs db = (db, None)"
  by (induction fxs arbitrary: k) (simp_all add: seeded_skipped)

section \<open>Properties\<close>

text \<open>
  Seeding. When a run of the seeding succeeds, every fixture's problem is in the database and not
  deleted, the schema's constraints still hold, and running the seeding again, on a database that
  answers, changes nothing.
\<close>

theorem seeding_is_idempotent:
  assumes "tables_ok db" and "seed envs 0 fixtures db = (db', None)" and "fx \<in> set fixtures"
    and "\<forall>k. \<not> de_down (again k) 0"
  shows "tables_ok db' \<and> (\<exists>p. findBySlug (np_slug (fx_problem fx)) db' = Some p)
    \<and> seed again 0 fixtures db' = (db', None)"
proof -
  have ok: "tables_ok db'" and all: "seeded (np_slug (fx_problem f)) db'" if "f \<in> set fixtures" for f
    using seed_seeded [OF assms(1,2)] that assms(3) by auto
  show ?thesis
    using ok [OF assms(3)] seeded_found [OF ok [OF assms(3)] all [OF assms(3)]]
      seed_again [OF ok [OF assms(3)] assms(4)] all by blast
qed

definition sample_fixture :: fixture where
  "sample_fixture =
     \<lparr>fx_problem = \<lparr>np_slug = ''two-sum'', np_title = ''Two Sum'', np_difficulty = ''easy'', np_category = ''Arrays'',
        np_description = ''d'', np_constraints = [], np_solution = Some ''s'', np_timeLimitMs = 5000,
        np_source = ''curated'', np_sourceUrl = None\<rparr>,
      fx_testCases = [\<lparr>nt_input = [], nt_expectedOutput = Some (JBool True), nt_isVisible = True, nt_orderIndex = 0\<rparr>],
      fx_boilerplate = \<lparr>nb_language = ''python'', nb_template = ''t'', nb_methodName = ''f'', nb_parameterNames = [''x'']\<rparr>,
      fx_hints = [\<lparr>nh_hintText = ''h'', nh_orderIndex = 0\<rparr>]\<rparr>"

definition sample_env :: db_env where
  "sample_env = \<lparr>de_down = (\<lambda>_. False), de_undo_fails = False, de_id = string_of_nat, de_now = ''2024''\<rparr>"

lemma sample_seed: "snd (seed (\<lambda>_. sample_env) 0 [sample_fixture] empty_tables) = None"
  by (simp add: sample_fixture_def sample_env_def seed_fixture_def on_line_def findBySlugIncludingDeleted_def
     getFirstOrNull_def empty_tables_def insert_problem_def fixture_steps_def createProblem_def difficulty_of_def source_of_def
     difficulty_text_def toProblem_def perform_def createTestCase_def createBoilerplate_def createHint_def case_row_def Let_def)

theorem seeding_is_idempotent_witness:
  "let db' = fst (seed (\<lambda>_. sample_env) 0 [sample_fixture] empty_tables)
   in seed (\<lambda>_. sample_env) 0 [sample_fixture] db' = (db', None)"
  using seeding_is_idempotent [OF tables_ok_empty, of "\<lambda>_. sample_env" "[sample_fixture]"
      "fst (seed (\<lambda>_. sample_env) 0 [sample_fixture] empty_tables)" sample_fixture "\<lambda>_. sample_env"] sample_seed
  by (simp add: sample_env_def Let_def prod_eq_iff)

text \<open>Running migrations one after the other, and the files that are still to be run.\<close>

fun run_list :: "(string \<Rightarrow> 's \<Rightarrow> 'e + 's) \<Rightarrow> string list \<Rightarrow> 's \<Rightarrow> 'e + 's" where
  "run_list run [] s = Inr s"
| "run_list run (f # fs) s = (case run f s of Inl e \<Rightarrow> Inl e | Inr s' \<Rightarrow> run_list run fs s')"

definition pending :: "string list \<Rightarrow> 's migration_db \<Rightarrow> string list" where
  "pending entries db = filter (\<lambda>f. f \<notin> set (md_names db)) (migration_files entries)"

lemma apply_migrations_spec:
  "apply_migrations run S a s files db = (db', r) \<Longrightarrow>
   \<exists>ran rest. filter (\<lambda>f. f \<notin> S) files = ran @ rest \<and> md_names db' = md_names db @ ran
     \<and> run_list run ran (md_schema db) = Inr (md_schema db') \<and> mr_applied r = a + length ran
     \<and> (mr_error r = None \<longleftrightarrow> rest = []) \<and> (\<forall>e. mr_error r = Some e \<longrightarrow> run (hd rest) (md_schema db') = Inl e)"
proof (induction files arbitrary: a s db)
  case Nil
  then show ?case by (auto intro!: exI [of _ "[]"])
next
  case (Cons f files)
  show ?case
  proof (cases "f \<in> S")
    case True
    with Cons.prems Cons.IH [of a "Suc s" db] show ?thesis by simp
  next
    case False
    show ?thesis
    proof (cases "run f (md_schema db)")
      case (Inl e)
      with Cons.prems False have "db' = db" "r = \<lparr>mr_applied = a, mr_skipped = s, mr_error = Some e\<rparr>" by simp_all
      with Inl False show ?thesis
        by (intro exI [of _ "[]"] exI [of _ "f # filter (\<lambda>f. f \<notin> S) files"]) simp
    next
      case (Inr schema)
      with Cons.prems False have
        "apply_migrations run S (Suc a) s files \<lparr>md_schema = schema, md_names = md_names db @ [f]\<rparr> = (db', r)" by simp
      from Cons.IH [OF this] obtain ran rest where
        "filter (\<lambda>f. f \<notin> S) files = ran @ rest" "md_names db' = md_names db @ [f] @ ran"
        "run_list run ran schema = Inr (md_schema db')" "mr_applied r = Suc a + length ran"
        "mr_error r = None \<longleftrightarrow> rest = []" "\<forall>e. mr_error r = Some e \<longrightarrow> run (hd rest) (md_schema db') = Inl e"
        by auto
      with Inr False show ?thesis by (intro exI [of _ "f # ran"] exI [of _ rest]) simp
    qed
  qed
qed

lemma filter_rest:
  assumes "distinct fs" and "filter (\<lambda>f. f \<notin> A) fs = xs @ ys"
  shows "filter (\<lambda>f. f \<notin> A \<and> f \<notin> set xs) fs = ys"
proof -
  have "distinct (xs @ ys)" using assms by (metis distinct_filter)
  then have "filter (\<lambda>f. f \<notin> set xs) (xs @ ys) = ys"
    by (auto simp: filter_empty_conv filter_id_conv)
  then show ?thesis by (simp add: assms(2) [symmetric] conj_commute)
qed

text \<open>
  Migrations. A run applies the pending files in their order up to the first that fails, each
  together with the record of it, and leaves the schema as that file found it; the next run continues
  with exactly the files that remain, so that no migration is ever applied twice.
\<close>

theorem migrations_resume:
  assumes "distinct entries" and "migrate run entries db = (db', r)"
  shows "\<exists>ran rest. pending entries db = ran @ rest \<and> pending entries db' = rest
    \<and> md_names db' = md_names db @ ran \<and> run_list run ran (md_schema db) = Inr (md_schema db')
    \<and> mr_applied r = length ran \<and> (mr_error r = None \<longleftrightarrow> rest = [])
    \<and> (\<forall>e. mr_error r = Some e \<longrightarrow> run (hd rest) (md_schema db') = Inl e)"
proof -
  have d: "distinct (migration_files entries)" using assms(1) by (simp add: migration_files_def)
  obtain ran rest where p: "pending entries db = ran @ rest" "md_names db' = md_names db @ ran"
    "run_list run ran (md_schema db) = Inr (md_schema db')" "mr_applied r = length ran"
    "mr_error r = None \<longleftrightarrow> rest = []" "\<forall>e. mr_error r = Some e \<longrightarrow> run (hd rest) (md_schema db') = Inl e"
    using apply_migrations_spec [OF assms(2) [unfolded migrate_def]] by (auto simp: pending_def)
  have "pending entries db' = rest"
    using filter_rest [OF d p(1) [unfolded pending_def]] by (simp add: pending_def p(2))
  then show ?thesis using p by (intro exI [of _ ran] exI [of _ rest]) simp
qed

lemma sample_files: "migration_files [''a.sql'', ''migrate.ts''] = [''a.sql'']"
  by code_simp

theorem migrations_resume_witness:
  "\<exists>ran rest. pending [''a.sql'', ''migrate.ts''] (\<lparr>md_schema = 0, md_names = []\<rparr> :: nat migration_db) = ran @ rest
    \<and> pending [''a.sql'', ''migrate.ts''] (\<lparr>md_schema = Suc 0, md_names = [''a.sql'']\<rparr> :: nat migration_db) = rest
    \<and> length ran = 1"
proof -
  let ?es = "[''a.sql'', ''migrate.ts'']"
  let ?run = "\<lambda>f n. Inr (Suc n) :: unit + nat"
  have d: "distinct ?es" by simp
  have v: "migrate ?run ?es \<lparr>md_schema = 0, md_names = []\<rparr>
      = (\<lparr>md_schema = Suc 0, md_names = [''a.sql'']\<rparr>, \<lparr>mr_applied = Suc 0, mr_skipped = 0, mr_error = None\<rparr>)"
    by (simp add: migrate_def sample_files)
  show ?thesis using migrations_resume [OF d v] by auto
qed

section \<open>Cleaning up\<close>

lemma filter_map_none: "(\<And>r. \<not> P (g r)) \<Longrightarrow> filter P (map g xs) = []"
  by (induction xs) simp_all

lemma length_filter_marked:
  "(\<And>r. Q (g r) \<longleftrightarrow> Q r \<and> \<not> P r) \<Longrightarrow> (\<And>r. P r \<Longrightarrow> Q r) \<Longrightarrow>
   length (filter Q (map g xs)) + length (filter P xs) = length (filter Q xs)"
  by (induction xs) auto

lemma length_filter_key:
  assumes "distinct (map k xs)"
  shows "filter (\<lambda>r. k r \<in> set (map k (filter P xs))) xs = filter P xs"
proof (rule filter_cong [OF refl])
  fix r assume r: "r \<in> set xs"
  have "inj_on k (set xs)" using assms by (simp add: distinct_map)
  with r show "k r \<in> set (map k (filter P xs)) \<longleftrightarrow> P r" by (auto dest: inj_onD)
qed

text \<open>
  Cleaning up after end-to-end tests. Outside a dry run every problem imported by such a test is
  marked deleted, as many of them as were active are counted, no other problem is touched and no row
  is lost; the number of active problems users submitted drops by exactly that count.
\<close>

theorem cleanup_is_exact:
  assumes "tables_ok db" and "cleanE2eImports False now db = (db', c)"
  shows "tables_ok db' \<and> ec_softDeletedProblemCount c = activeMatchingProblems (ec_summary c)
    \<and> activeMatchingProblems (summarizeE2eImportedProblems db') = 0
    \<and> map pr_id (tb_problems db') = map pr_id (tb_problems db)
    \<and> filter (\<lambda>r. \<not> e2e_matching r) (tb_problems db') = filter (\<lambda>r. \<not> e2e_matching r) (tb_problems db)
    \<and> ec_remaining c + ec_softDeletedProblemCount c = countActiveUserSubmittedProblems db"
proof -
  let ?P = "\<lambda>r. e2e_matching r \<and> active r"
  let ?g = "\<lambda>r. if ?P r then r\<lparr>pr_deleted_at := Some now, pr_updated_at := now\<rparr> else r"
  have d: "distinct (map pr_id (tb_problems db))" using assms(1) by (simp add: tables_ok_def)
  have sel: "pr_id r \<in> set (map pr_id (filter ?P (tb_problems db))) \<longleftrightarrow> ?P r" if "r \<in> set (tb_problems db)" for r
    using d that by (auto simp: distinct_map dest: inj_onD)
  let ?ids = "set (map pr_id (filter ?P (tb_problems db)))"
  have run: "softDeleteE2eImportedProblems now db
      = (db\<lparr>tb_problems := map ?g (tb_problems db)\<rparr>, length (filter ?P (tb_problems db)))"
    unfolding softDeleteE2eImportedProblems_def update_problems_def Let_def length_filter_key [OF d]
    using sel by (simp cong: map_cong del: set_map set_filter)
  have c: "c = \<lparr>ec_summary = summarizeE2eImportedProblems db, ec_softDeletedProblemCount = length (filter ?P (tb_problems db)),
      ec_remaining = countActiveUserSubmittedProblems db'\<rparr>" and db': "db' = db\<lparr>tb_problems := map ?g (tb_problems db)\<rparr>"
    using assms(2) by (auto simp: cleanE2eImports_def run Let_def)
  have ok: "tables_ok db'" unfolding db' by (rule map_problems_ok [OF assms(1)]) simp_all
  have m: "e2e_matching (?g r) = e2e_matching r" "active (?g r) \<longleftrightarrow> active r \<and> \<not> e2e_matching r"
    "pr_source (?g r) = pr_source r" "pr_id (?g r) = pr_id r" for r
    by (simp add: e2e_matching_def, auto simp: active_def)
  have user: "e2e_matching r \<Longrightarrow> pr_source r = UserSubmitted" for r by (simp add: e2e_matching_def)
  have others: "filter (\<lambda>r. \<not> e2e_matching r) (map ?g rows) = filter (\<lambda>r. \<not> e2e_matching r) rows" for rows
    by (induction rows) (simp_all add: m(1))
  have count: "length (filter (\<lambda>r. pr_source r = UserSubmitted \<and> active r) (map ?g rows)) + length (filter ?P rows)
      = length (filter (\<lambda>r. pr_source r = UserSubmitted \<and> active r) rows)" for rows
  proof (rule length_filter_marked)
    show "pr_source (?g r) = UserSubmitted \<and> active (?g r) \<longleftrightarrow> (pr_source r = UserSubmitted \<and> active r) \<and> \<not> ?P r" for r
      unfolding m(2,3) by blast
    show "?P r \<Longrightarrow> pr_source r = UserSubmitted \<and> active r" for r using user [of r] by blast
  qed
  have "\<not> (e2e_matching (?g r) \<and> active (?g r))" for r using m(1,2) [of r] by blast
  then have none: "filter active (filter e2e_matching (map ?g rows)) = []" for rows
    unfolding filter_filter by (rule filter_map_none)
  have ids: "map pr_id (map ?g rows) = map pr_id rows" for rows by (induction rows) (simp_all add: m(4))
  have tb: "tb_problems db' = map ?g (tb_problems db)" by (simp add: db')
  have "activeMatchingProblems (summarizeE2eImportedProblems db') = 0"
    unfolding summarizeE2eImportedProblems_def Let_def tb none by simp
  moreover have "length (filter ?P (tb_problems db)) = activeMatchingProblems (summarizeE2eImportedProblems db)"
    by (simp add: summarizeE2eImportedProblems_def Let_def conj_commute)
  moreover have "ec_remaining c + ec_softDeletedProblemCount c = countActiveUserSubmittedProblems db"
    unfolding c countActiveUserSubmittedProblems_def tb using count by simp
  ultimately show ?thesis using ok unfolding c tb others ids by simp
qed

theorem cleanup_is_exact_witness:
  "ec_softDeletedProblemCount (snd (cleanE2eImports False ''2024'' empty_tables)) = 0"
  using cleanup_is_exact [OF tables_ok_empty, of "''2024''"]
  by (cases "cleanE2eImports False ''2024'' empty_tables")
    (auto simp: countActiveUserSubmittedProblems_def empty_tables_def)

end
