(* ===== verification/Scraper_Parsers.thy ===== *)
theory Scraper_Parsers
  imports Dependency_Clients Problem_Store
begin

text \<open>
  Reading a problem page of LeetCode: \<^verbatim>\<open>apps/server/src/services/scraper/parsers.ts\<close>.
  Each regular expression is the function it computes; \<^verbatim>\<open>JSON.parse\<close> and
  \<^verbatim>\<open>Number\<close> are parameters. A thrown error is its message.
\<close>

datatype parse_error = Message string | JsonSyntax | TypeError

section \<open>Replacing\<close>

text \<open>Replacing every occurrence of a text, with or without regard to case.\<close>

function replace_all :: "(string \<Rightarrow> string) \<Rightarrow> string \<Rightarrow> string \<Rightarrow> string \<Rightarrow> string" where
  "replace_all fold_case pat r s =
     (case s of
        [] \<Rightarrow> []
      | c # cs \<Rightarrow>
          if pat \<noteq> [] \<and> starts_with pat (fold_case s) then r @ replace_all fold_case pat r (drop (length pat) s)
          else c # replace_all fold_case pat r cs)"
  by pat_completeness auto
termination by (relation "measure (\<lambda>(f, p, r, s). length s)") auto

declare replace_all.simps [simp del]

definition replace_exact :: "string \<Rightarrow> string \<Rightarrow> string \<Rightarrow> string" where
  "replace_exact pat r s = replace_all (\<lambda>x. x) pat r s"

definition replace_ci :: "string \<Rightarrow> string \<Rightarrow> string \<Rightarrow> string" where
  "replace_ci pat r s = replace_all toLowerCase pat r s"

definition decodeHtmlEntities :: "string \<Rightarrow> string" where
  "decodeHtmlEntities t =
     replace_exact ''&#39;'' [CHR 0x27]
       (replace_exact ''&quot;'' [CHR 0x22]
         (replace_exact ''&amp;'' ''&''
           (replace_exact ''&gt;'' ''>''
             (replace_exact ''&lt;'' ''<''
               (replace_exact ''&nbsp;'' '' '' t)))))"

text \<open>\<^verbatim>\<open>/<[^>]+>/g\<close> replaced by nothing.\<close>

function strip_markup :: "string \<Rightarrow> string" where
  "strip_markup s =
     (case s of
        [] \<Rightarrow> []
      | c # cs \<Rightarrow>
          if c = CHR ''<'' \<and> takeWhile (\<lambda>x. x \<noteq> CHR ''>'') cs \<noteq> [] \<and> dropWhile (\<lambda>x. x \<noteq> CHR ''>'') cs \<noteq> []
          then strip_markup (tl (dropWhile (\<lambda>x. x \<noteq> CHR ''>'') cs))
          else c # strip_markup cs)"
  by pat_completeness auto
termination
  by (relation "measure length") (auto simp: less_Suc_eq_le intro: le_trans [OF diff_le_self length_dropWhile_le])

declare strip_markup.simps [simp del]

definition stripTags :: "string \<Rightarrow> string" where
  "stripTags t = decodeHtmlEntities (strip_markup t)"

text \<open>
  An element \<^verbatim>\<open><tag>...</tag>\<close>, lazily and in any case; \<open>one_line\<close> when its
  content may not contain a line break.
\<close>

definition open_tag :: "string \<Rightarrow> string" where "open_tag t = ''<'' @ t @ ''>''"
definition close_tag :: "string \<Rightarrow> string" where "close_tag t = ''</'' @ t @ ''>''"

definition line_break :: "char \<Rightarrow> bool" where
  "line_break c \<longleftrightarrow> c = newline \<or> c = CHR 0x0D"

definition element_at :: "bool \<Rightarrow> string \<Rightarrow> string \<Rightarrow> (string \<times> string) option" where
  "element_at one_line t s =
     (if \<not> starts_with (open_tag t) (toLowerCase s) then None
      else (let rest = drop (length (open_tag t)) s
            in case indexOf (close_tag t) (toLowerCase rest) 0 of
                 None \<Rightarrow> None
               | Some i \<Rightarrow>
                   if one_line \<and> list_ex line_break (take i rest) then None
                   else Some (take i rest, drop (i + length (close_tag t)) rest)))"

lemma element_at_shorter:
  assumes "element_at b t s = Some (x, rest)"
  shows "length rest < length s"
proof -
  have "starts_with (open_tag t) (toLowerCase s)" using assms by (simp add: element_at_def split: if_splits)
  then have "s \<noteq> []" by (auto simp: open_tag_def starts_with_def toLowerCase_def)
  moreover obtain i where "rest = drop (i + length (close_tag t)) (drop (length (open_tag t)) s)"
    using assms by (auto simp: element_at_def Let_def split: if_splits option.splits)
  ultimately show ?thesis by (simp add: open_tag_def close_tag_def)
qed

function replace_element :: "bool \<Rightarrow> string \<Rightarrow> (string \<Rightarrow> string) \<Rightarrow> string \<Rightarrow> string" where
  "replace_element one_line t f s =
     (case s of
        [] \<Rightarrow> []
      | c # cs \<Rightarrow>
          (case element_at one_line t s of
             None \<Rightarrow> c # replace_element one_line t f cs
           | Some (x, rest) \<Rightarrow> f x @ replace_element one_line t f rest))"
  by pat_completeness auto
termination by (relation "measure (\<lambda>(b, t, f, s). length s)") (auto dest!: element_at_shorter)

declare replace_element.simps [simp del]

function all_elements :: "string \<Rightarrow> string \<Rightarrow> string list" where
  "all_elements t s =
     (case s of
        [] \<Rightarrow> []
      | c # cs \<Rightarrow>
          (case element_at False t s of
             None \<Rightarrow> all_elements t cs
           | Some (x, rest) \<Rightarrow> x # all_elements t rest))"
  by pat_completeness auto
termination by (relation "measure (\<lambda>(t, s). length s)") (auto dest!: element_at_shorter)

declare all_elements.simps [simp del]

text \<open>\<^verbatim>\<open>/<br\s*\/?>/gi\<close>.\<close>

definition br_at :: "string \<Rightarrow> string option" where
  "br_at s =
     (if \<not> starts_with ''<br'' (toLowerCase s) then None
      else (let r1 = dropWhile is_ws (drop 3 s);
                r2 = (case r1 of x # xs \<Rightarrow> if x = CHR ''/'' then xs else r1 | [] \<Rightarrow> r1)
            in case r2 of x # xs \<Rightarrow> if x = CHR ''>'' then Some xs else None | [] \<Rightarrow> None))"

lemma br_at_shorter: "br_at s = Some rest \<Longrightarrow> length rest < length s"
proof -
  assume e: "br_at s = Some rest"
  then have s: "starts_with ''<br'' (toLowerCase s)" by (simp add: br_at_def split: if_splits)
  then have "s \<noteq> []" by (auto simp: starts_with_def toLowerCase_def)
  moreover have "length (dropWhile is_ws (drop 3 s)) \<le> length s - 3"
    by (metis length_drop length_dropWhile_le)
  ultimately show ?thesis using e
    by (auto simp: br_at_def Let_def split: if_splits list.splits)
qed

function replace_br :: "string \<Rightarrow> string" where
  "replace_br s =
     (case s of
        [] \<Rightarrow> []
      | c # cs \<Rightarrow> (case br_at s of None \<Rightarrow> c # replace_br cs | Some rest \<Rightarrow> newline # replace_br rest))"
  by pat_completeness auto
termination by (relation "measure length") (auto dest!: br_at_shorter)

declare replace_br.simps [simp del]

text \<open>\<^verbatim>\<open>/[ \t]+\n/g\<close> to a line break, and three or more line breaks to two.\<close>

definition blank :: "char \<Rightarrow> bool" where
  "blank c \<longleftrightarrow> c = CHR '' '' \<or> c = CHR 0x09"

fun trim_line_ends :: "string \<Rightarrow> string" where
  "trim_line_ends [] = []"
| "trim_line_ends (c # cs) =
     (if blank c \<and> (case dropWhile blank cs of x # xs \<Rightarrow> x = newline | [] \<Rightarrow> False) then trim_line_ends cs
      else c # trim_line_ends cs)"

fun squeeze_breaks :: "nat \<Rightarrow> string \<Rightarrow> string" where
  "squeeze_breaks n [] = []"
| "squeeze_breaks n (c # cs) =
     (if c = newline then (if n < 2 then c # squeeze_breaks (Suc n) cs else squeeze_breaks n cs)
      else c # squeeze_breaks 0 cs)"

definition two_breaks :: string where "two_breaks = [newline, newline]"

section \<open>The page\<close>

definition htmlToProblemText :: "string \<Rightarrow> string" where
  "htmlToProblemText html =
     (let h1 = replace_element True ''sup'' (\<lambda>x. ''^'' @ x) html;
          h2 = replace_element False ''code'' (\<lambda>x. [CHR 0x60] @ stripTags x @ [CHR 0x60]) h1;
          h3 = replace_element False ''pre'' (\<lambda>x. two_breaks @ trim (stripTags x) @ two_breaks) h2;
          h4 = replace_element False ''li'' (\<lambda>x. ''- '' @ trim (stripTags x) @ [newline]) h3;
          h5 = replace_ci ''</p>'' two_breaks h4;
          h6 = replace_br h5;
          h7 = strip_markup h6
      in decodeHtmlEntities (trim (squeeze_breaks 0 (trim_line_ends h7))))"

text \<open>The constraints section: its list, and the page with the first one removed.\<close>

definition constraints_head :: string where
  "constraints_head = ''<p><strong>constraints:</strong></p>''"

definition constraints_at :: "string \<Rightarrow> (string \<times> string) option" where
  "constraints_at s =
     (if \<not> starts_with constraints_head (toLowerCase s) then None
      else element_at False ''ul'' (dropWhile is_ws (drop (length constraints_head) s)))"

fun find_constraints :: "string \<Rightarrow> (string \<times> string \<times> string) option" where
  "find_constraints [] = None"
| "find_constraints (c # cs) =
     (case constraints_at (c # cs) of
        Some (items, rest) \<Rightarrow> Some ([], items, rest)
      | None \<Rightarrow> map_option (\<lambda>(before, items, rest). (c # before, items, rest)) (find_constraints cs))"

definition extractConstraints :: "string \<Rightarrow> string list" where
  "extractConstraints content =
     (case find_constraints content of
        None \<Rightarrow> []
      | Some (before, items, rest) \<Rightarrow> map (\<lambda>x. trim (stripTags x)) (all_elements ''li'' items))"

definition stripConstraintsSection :: "string \<Rightarrow> string" where
  "stripConstraintsSection content =
     (case find_constraints content of None \<Rightarrow> content | Some (before, items, rest) \<Rightarrow> before @ rest)"

record example_block =
  eb_input :: string
  eb_output :: string

definition msg_examples :: string where
  "msg_examples = ''Failed to parse imported example test cases.''"

text \<open>
  \<^verbatim>\<open>/Input:\s*([\s\S]*?)\s*Output:\s*([\s\S]*?)(?:\s*Explanation:|$)/i\<close>, its groups
  trimmed.
\<close>

definition parse_example :: "string \<Rightarrow> parse_error + example_block" where
  "parse_example block =
     (let cleaned = trim (filter (\<lambda>c. c \<noteq> CHR 0x0D) block);
          lower = toLowerCase cleaned
      in case indexOf ''input:'' lower 0 of
           None \<Rightarrow> Inl (Message msg_examples)
         | Some i \<Rightarrow>
             (case indexOf ''output:'' lower (i + 6) of
                None \<Rightarrow> Inl (Message msg_examples)
              | Some j \<Rightarrow>
                  (let end = (case indexOf ''explanation:'' lower (j + 7) of None \<Rightarrow> length cleaned | Some k \<Rightarrow> k)
                   in Inr \<lparr>eb_input = trim (take (j - (i + 6)) (drop (i + 6) cleaned)),
                           eb_output = trim (take (end - (j + 7)) (drop (j + 7) cleaned))\<rparr>)))"

fun sum_map :: "('a \<Rightarrow> 'e + 'b) \<Rightarrow> 'a list \<Rightarrow> 'e + 'b list" where
  "sum_map f [] = Inr []"
| "sum_map f (x # xs) =
     (case f x of Inl e \<Rightarrow> Inl e
      | Inr y \<Rightarrow> (case sum_map f xs of Inl e \<Rightarrow> Inl e | Inr ys \<Rightarrow> Inr (y # ys)))"

definition extractExampleBlocks :: "string \<Rightarrow> parse_error + example_block list" where
  "extractExampleBlocks content =
     sum_map parse_example (map (\<lambda>x. trim (stripTags x)) (all_elements ''pre'' content))"

section \<open>Values\<close>

record split_state =
  sp_parts :: "string list"
  sp_current :: string
  sp_square :: int
  sp_curly :: int
  sp_paren :: int
  sp_quote :: "char option"
  sp_escaped :: bool

definition backslash :: char where "backslash = CHR 0x5C"
definition double_quote :: char where "double_quote = CHR 0x22"
definition single_quote :: char where "single_quote = CHR 0x27"

definition split_step :: "char \<Rightarrow> char \<Rightarrow> split_state \<Rightarrow> split_state" where
  "split_step delimiter c st0 =
     (let st = st0\<lparr>sp_current := sp_current st0 @ [c]\<rparr>
      in case sp_quote st of
           Some q \<Rightarrow>
             if sp_escaped st then st\<lparr>sp_escaped := False\<rparr>
             else if c = backslash then st\<lparr>sp_escaped := True\<rparr>
             else if c = q then st\<lparr>sp_quote := None\<rparr>
             else st
         | None \<Rightarrow>
             if c = double_quote \<or> c = single_quote then st\<lparr>sp_quote := Some c\<rparr>
             else
               (let st1 = (if c = CHR ''['' then st\<lparr>sp_square := sp_square st + 1\<rparr>
                           else if c = CHR '']'' then st\<lparr>sp_square := sp_square st - 1\<rparr>
                           else if c = CHR ''{'' then st\<lparr>sp_curly := sp_curly st + 1\<rparr>
                           else if c = CHR ''}'' then st\<lparr>sp_curly := sp_curly st - 1\<rparr>
                           else if c = CHR ''('' then st\<lparr>sp_paren := sp_paren st + 1\<rparr>
                           else if c = CHR '')'' then st\<lparr>sp_paren := sp_paren st - 1\<rparr>
                           else st)
                in if c = delimiter \<and> sp_square st1 = 0 \<and> sp_curly st1 = 0 \<and> sp_paren st1 = 0
                   then st1\<lparr>sp_parts := sp_parts st1 @ [trim (butlast (sp_current st1))], sp_current := []\<rparr>
                   else st1))"

definition split_start :: split_state where
  "split_start = \<lparr>sp_parts = [], sp_current = [], sp_square = 0, sp_curly = 0, sp_paren = 0,
                  sp_quote = None, sp_escaped = False\<rparr>"

definition splitTopLevel :: "string \<Rightarrow> char \<Rightarrow> string list" where
  "splitTopLevel source delimiter =
     (let st = fold (split_step delimiter) source split_start
      in if trim (sp_current st) \<noteq> [] then sp_parts st @ [trim (sp_current st)] else sp_parts st)"

definition digit :: "char \<Rightarrow> bool" where
  "digit c \<longleftrightarrow> c \<in> set ''0123456789''"

text \<open>\<^verbatim>\<open>/^-?\d+(?:\.\d+)?$/\<close>.\<close>

definition number_text :: "string \<Rightarrow> bool" where
  "number_text s =
     (let s1 = (case s of c # cs \<Rightarrow> if c = CHR ''-'' then cs else s | [] \<Rightarrow> s)
      in takeWhile digit s1 \<noteq> [] \<and>
         (case dropWhile digit s1 of
            [] \<Rightarrow> True
          | c # cs \<Rightarrow> c = CHR ''.'' \<and> cs \<noteq> [] \<and> list_all digit cs))"

definition enclosed_by :: "char \<Rightarrow> string \<Rightarrow> bool" where
  "enclosed_by q s \<longleftrightarrow> s \<noteq> [] \<and> hd s = q \<and> last s = q"

definition parseScalarValue :: "(string \<Rightarrow> js_number) \<Rightarrow> string \<Rightarrow> parse_error + json" where
  "parseScalarValue number raw =
     (let trimmed = trim raw
      in if trimmed = ''true'' then Inr (JBool True)
         else if trimmed = ''false'' then Inr (JBool False)
         else if trimmed = ''null'' then Inr JNull
         else if number_text trimmed then Inr (JNum (number trimmed))
         else if enclosed_by double_quote trimmed \<or> enclosed_by single_quote trimmed
         then Inr (JStr (butlast (tl trimmed)))
         else Inl (Message (''Unsupported imported value: '' @ trimmed)))"

definition parseLeetCodeValue ::
  "(string \<Rightarrow> json option) \<Rightarrow> (string \<Rightarrow> js_number) \<Rightarrow> string \<Rightarrow> parse_error + json" where
  "parseLeetCodeValue parse_json number raw =
     (let trimmed = trim raw
      in if starts_with ''['' trimmed \<or> starts_with ''{'' trimmed
         then (case parse_json trimmed of None \<Rightarrow> Inl JsonSyntax | Some v \<Rightarrow> Inr v)
         else parseScalarValue number trimmed)"

text \<open>\<^verbatim>\<open>replace(/\s+/g, " ")\<close>: the flag says whether the last character was a space.\<close>

fun collapse_ws :: "bool \<Rightarrow> string \<Rightarrow> string" where
  "collapse_ws b [] = []"
| "collapse_ws b (c # cs) =
     (if is_ws c then (if b then collapse_ws True cs else CHR '' '' # collapse_ws True cs)
      else c # collapse_ws False cs)"

definition equals_sign :: char where "equals_sign = CHR ''=''"

definition parse_assignment ::
  "(string \<Rightarrow> json option) \<Rightarrow> (string \<Rightarrow> js_number) \<Rightarrow> string \<Rightarrow> parse_error + string \<times> json" where
  "parse_assignment parse_json number a =
     (if equals_sign \<notin> set a then Inl (Message ''Failed to parse imported example inputs.'')
      else (let nm = trim (takeWhile (\<lambda>c. c \<noteq> equals_sign) a);
                value = trim (tl (dropWhile (\<lambda>c. c \<noteq> equals_sign) a))
            in case parseLeetCodeValue parse_json number value of Inl e \<Rightarrow> Inl e | Inr v \<Rightarrow> Inr (nm, v)))"

text \<open>\<^verbatim>\<open>Object.fromEntries\<close>: a later entry replaces the value of an earlier one.\<close>

definition from_entries :: "(string \<times> json) list \<Rightarrow> (string \<times> json) list" where
  "from_entries kvs = fold (\<lambda>(k, v) r. AList.update k v r) kvs []"

text \<open>\<^verbatim>\<open>in\<close> also finds what every object inherits.\<close>

definition object_prototype :: "string list" where
  "object_prototype =
     [''constructor'', ''__defineGetter__'', ''__defineSetter__'', ''hasOwnProperty'', ''__lookupGetter__'',
      ''__lookupSetter__'', ''isPrototypeOf'', ''propertyIsEnumerable'', ''toString'', ''valueOf'',
      ''__proto__'', ''toLocaleString'']"

definition has_property :: "string \<Rightarrow> (string \<times> json) list \<Rightarrow> bool" where
  "has_property k r \<longleftrightarrow> k \<in> set (map fst r) \<or> k \<in> set object_prototype"

definition missing_parameter :: "string \<Rightarrow> parse_error" where
  "missing_parameter nm =
     Message (''Imported example is missing parameter '' @ [double_quote] @ nm @ [double_quote] @ ''.'')"

definition parseInputAssignments ::
  "(string \<Rightarrow> json option) \<Rightarrow> (string \<Rightarrow> js_number) \<Rightarrow> string \<Rightarrow> string list
   \<Rightarrow> parse_error + (string \<times> json) list" where
  "parseInputAssignments parse_json number input parameterNames =
     (let normalized = trim (collapse_ws False input);
          assignments = splitTopLevel normalized (CHR '','')
      in case sum_map (parse_assignment parse_json number) assignments of
           Inl e \<Rightarrow> Inl e
         | Inr parsed \<Rightarrow>
             (let inputRecord = from_entries parsed
              in case List.find (\<lambda>nm. \<not> has_property nm inputRecord) parameterNames of
                   Some nm \<Rightarrow> Inl (missing_parameter nm)
                 | None \<Rightarrow> Inr inputRecord))"

section \<open>Metadata and boilerplate\<close>

text \<open>\<^verbatim>\<open>value?.trim()\<close>.\<close>

definition optional_trim :: "js_unknown \<Rightarrow> parse_error + string option" where
  "optional_trim v =
     (case v of None \<Rightarrow> Inr None | Some JNull \<Rightarrow> Inr None | Some (JStr s) \<Rightarrow> Inr (Some (trim s)) | _ \<Rightarrow> Inl TypeError)"

definition param_name :: "json \<Rightarrow> parse_error + string option" where
  "param_name p = (if p = JNull then Inl TypeError else optional_trim (get_field ''name'' (Some p)))"

record metadata =
  md_methodName :: string
  md_parameterNames :: "string list"

definition parseMetadata :: "(string \<Rightarrow> json option) \<Rightarrow> string \<Rightarrow> parse_error + metadata" where
  "parseMetadata parse_json metaData =
     (case parse_json metaData of
        None \<Rightarrow> Inl JsonSyntax
      | Some JNull \<Rightarrow> Inl TypeError
      | Some v \<Rightarrow>
          (case optional_trim (get_field ''name'' (Some v)) of
             Inl e \<Rightarrow> Inl e
           | Inr methodName \<Rightarrow>
               (case (case get_field ''params'' (Some v) of
                        None \<Rightarrow> Inr [] | Some JNull \<Rightarrow> Inr [] | Some (JArr ps) \<Rightarrow> sum_map param_name ps
                      | _ \<Rightarrow> Inl TypeError) of
                  Inl e \<Rightarrow> Inl e
                | Inr names \<Rightarrow>
                    (let parameterNames = map the (filter truthy_text names)
                     in if \<not> truthy_text methodName \<or> parameterNames = []
                        then Inl (Message ''Imported problem is missing callable metadata.'')
                        else Inr \<lparr>md_methodName = the methodName, md_parameterNames = parameterNames\<rparr>))))"

record code_snippet =
  snip_langSlug :: string
  snip_code :: string

definition selectPythonBoilerplate :: "code_snippet list \<Rightarrow> parse_error + string" where
  "selectPythonBoilerplate snippets =
     (let snippet = (case List.find (\<lambda>i. snip_langSlug i = ''python3'') snippets of
                       Some i \<Rightarrow> Some i | None \<Rightarrow> List.find (\<lambda>i. snip_langSlug i = ''python'') snippets)
      in case snippet of
           None \<Rightarrow> Inl (Message ''Imported problem does not include Python boilerplate.'')
         | Some i \<Rightarrow>
             if trim (snip_code i) = [] then Inl (Message ''Imported problem does not include Python boilerplate.'')
             else Inr (snip_code i))"

end
