(* ===== verification/Scraper_Roundtrip.thy ===== *)
theory Scraper_Roundtrip
  imports Scraper_Parsers
begin

text \<open>
  Reading back the examples of a problem page: the splitter of
  \<^verbatim>\<open>scraper/parsers.ts\<close> against a grammar of nested texts, and the round trip of a
  printed list of assignments.
\<close>

section \<open>Nested texts\<close>

definition brackets :: "(char \<times> char) list" where
  "brackets = [(CHR ''['', CHR '']''), (CHR ''{'', CHR ''}''), (CHR ''('', CHR '')'')]"

definition plain_char :: "char \<Rightarrow> bool" where
  "plain_char c \<longleftrightarrow> c \<notin> {double_quote, single_quote} \<union> set (map fst brackets) \<union> set (map snd brackets)"

fun quoted_body :: "char \<Rightarrow> string \<Rightarrow> bool" where
  "quoted_body q [] = True"
| "quoted_body q [c] = (c \<noteq> q \<and> c \<noteq> backslash)"
| "quoted_body q (c # d # s) =
     (if c = backslash then quoted_body q s else c \<noteq> q \<and> quoted_body q (d # s))"

text \<open>
  Texts in which quotes and brackets match, with the delimiter only inside of them: \<open>outer\<close> is
  false inside of brackets.
\<close>

inductive nested :: "char \<Rightarrow> bool \<Rightarrow> string \<Rightarrow> bool" for d where
  nested_nil: "nested d outer []"
| nested_plain: "plain_char c \<Longrightarrow> outer \<longrightarrow> c \<noteq> d \<Longrightarrow> nested d outer s \<Longrightarrow> nested d outer (c # s)"
| nested_text: "q = double_quote \<or> q = single_quote \<Longrightarrow> quoted_body q b \<Longrightarrow> nested d outer s
    \<Longrightarrow> nested d outer (q # b @ q # s)"
| nested_group: "(l, r) \<in> set brackets \<Longrightarrow> nested d False b \<Longrightarrow> nested d outer s \<Longrightarrow> nested d outer (l # b @ r # s)"

lemma nested_append: "nested d outer s \<Longrightarrow> nested d outer t \<Longrightarrow> nested d outer (s @ t)"
  by (induction rule: nested.induct) (auto intro: nested.intros)

lemma nested_plains: "(\<forall>c \<in> set s. plain_char c \<and> c \<noteq> d) \<Longrightarrow> nested d outer s"
  by (induction s) (auto intro: nested.intros)

section \<open>The splitter on nested texts\<close>

definition at_rest :: "split_state \<Rightarrow> bool" where
  "at_rest st \<longleftrightarrow> sp_quote st = None \<and> \<not> sp_escaped st \<and> 0 \<le> sp_square st \<and> 0 \<le> sp_curly st \<and> 0 \<le> sp_paren st"

definition outside :: "split_state \<Rightarrow> bool" where
  "outside st \<longleftrightarrow> sp_square st = 0 \<and> sp_curly st = 0 \<and> sp_paren st = 0"

lemma fold_quoted:
  "quoted_body q b \<Longrightarrow> sp_quote st = Some q \<Longrightarrow> \<not> sp_escaped st \<Longrightarrow>
   fold (split_step d) b st = st\<lparr>sp_current := sp_current st @ b\<rparr>"
proof (induction q b arbitrary: st rule: quoted_body.induct)
  case (1 q)
  then show ?case by simp
next
  case (2 q c)
  then show ?case by (simp add: split_step_def Let_def)
next
  case (3 q c d' s)
  show ?case
  proof (cases "c = backslash")
    case True
    with 3 show ?thesis by (simp add: split_step_def Let_def)
  next
    case False
    have step: "split_step d c st = st\<lparr>sp_current := sp_current st @ [c]\<rparr>"
      using 3 False by (simp add: split_step_def Let_def)
    show ?thesis
      using 3(2) [OF False, of "st\<lparr>sp_current := sp_current st @ [c]\<rparr>"] 3(3-5) False
      by (simp add: step del: fold_simps(2))
  qed
qed

lemma step_plain:
  "plain_char c \<Longrightarrow> sp_quote st = None \<Longrightarrow> c \<noteq> d \<or> \<not> outside st \<Longrightarrow>
   split_step d c st = st\<lparr>sp_current := sp_current st @ [c]\<rparr>"
  by (auto simp: split_step_def plain_char_def brackets_def outside_def Let_def)

lemma step_delimiter:
  "plain_char d \<Longrightarrow> sp_quote st = None \<Longrightarrow> outside st \<Longrightarrow>
   split_step d d st = st\<lparr>sp_parts := sp_parts st @ [trim (sp_current st)], sp_current := []\<rparr>"
  by (auto simp: split_step_def plain_char_def brackets_def outside_def Let_def)

lemma step_quote:
  "q = double_quote \<or> q = single_quote \<Longrightarrow> sp_quote st = None \<Longrightarrow>
   split_step d q st = st\<lparr>sp_current := sp_current st @ [q], sp_quote := Some q\<rparr>"
  by (auto simp: split_step_def Let_def)

lemma step_unquote:
  "q = double_quote \<or> q = single_quote \<Longrightarrow> sp_quote st = Some q \<Longrightarrow> \<not> sp_escaped st \<Longrightarrow>
   split_step d q st = st\<lparr>sp_current := sp_current st @ [q], sp_quote := None\<rparr>"
  by (auto simp: split_step_def Let_def double_quote_def single_quote_def backslash_def)

definition deeper :: "char \<Rightarrow> int \<Rightarrow> split_state \<Rightarrow> split_state" where
  "deeper l k st =
     (if l = CHR ''['' then st\<lparr>sp_square := sp_square st + k\<rparr>
      else if l = CHR ''{'' then st\<lparr>sp_curly := sp_curly st + k\<rparr>
      else st\<lparr>sp_paren := sp_paren st + k\<rparr>)"

lemma bracket_cases:
  assumes "(l, r) \<in> set brackets" and "plain_char d"
  obtains "l = CHR ''[''" "r = CHR '']''" "l \<noteq> d" "r \<noteq> d"
    | "l = CHR ''{''" "r = CHR ''}''" "l \<noteq> d" "r \<noteq> d"
    | "l = CHR ''(''" "r = CHR '')''" "l \<noteq> d" "r \<noteq> d"
proof -
  have "(l, r) = (CHR ''['', CHR '']'') \<or> (l, r) = (CHR ''{'', CHR ''}'') \<or> (l, r) = (CHR ''('', CHR '')'')"
    using assms(1) by (simp only: brackets_def list.set insert_iff empty_iff simp_thms)
  moreover have "l \<noteq> d" "r \<noteq> d"
    using assms image_eqI [of l fst "(l, r)" "set brackets"] image_eqI [of r snd "(l, r)" "set brackets"]
    by (auto simp only: plain_char_def set_map fst_conv snd_conv)
  ultimately show ?thesis using that by (simp only: prod.inject) blast
qed

lemma step_open:
  "(l, r) \<in> set brackets \<Longrightarrow> plain_char d \<Longrightarrow> sp_quote st = None \<Longrightarrow>
   split_step d l st = (deeper l 1 st)\<lparr>sp_current := sp_current st @ [l]\<rparr>"
  by (erule bracket_cases, assumption; simp add: split_step_def deeper_def double_quote_def single_quote_def)

lemma step_close:
  "(l, r) \<in> set brackets \<Longrightarrow> plain_char d \<Longrightarrow> sp_quote st = None \<Longrightarrow>
   split_step d r st = (deeper l (- 1) st)\<lparr>sp_current := sp_current st @ [r]\<rparr>"
  by (erule bracket_cases, assumption; simp add: split_step_def deeper_def double_quote_def single_quote_def)
lemma deeper_back: "(deeper l (- 1) ((deeper l 1 st)\<lparr>sp_current := x\<rparr>))\<lparr>sp_current := y\<rparr> = st\<lparr>sp_current := y\<rparr>"
  by (simp add: deeper_def)

lemma at_rest_deeper: "at_rest st \<Longrightarrow> at_rest ((deeper l 1 st)\<lparr>sp_current := x\<rparr>)
    \<and> \<not> outside ((deeper l 1 st)\<lparr>sp_current := x\<rparr>)"
  by (auto simp: at_rest_def outside_def deeper_def)

lemma at_rest_current: "at_rest (st\<lparr>sp_current := x\<rparr>) = at_rest st" "outside (st\<lparr>sp_current := x\<rparr>) = outside st"
  by (simp_all add: at_rest_def outside_def)

lemma deeper_current: "sp_current (deeper l k st) = sp_current st"
  by (simp add: deeper_def)

lemma quote_none: "sp_quote st = None \<Longrightarrow> st\<lparr>sp_current := x, sp_quote := None\<rparr> = st\<lparr>sp_current := x\<rparr>"
  by (cases st) simp

lemma quote_first: "st\<lparr>sp_quote := q, sp_current := x\<rparr> = st\<lparr>sp_current := x, sp_quote := q\<rparr>"
  by simp

lemma fold_nested:
  assumes d: "plain_char d"
  shows "nested d outer s \<Longrightarrow> at_rest st \<Longrightarrow> outer \<or> \<not> outside st \<Longrightarrow>
    fold (split_step d) s st = st\<lparr>sp_current := sp_current st @ s\<rparr>"
proof (induction arbitrary: st rule: nested.induct)
  case (nested_nil outer)
  then show ?case by simp
next
  case (nested_plain c outer s)
  have "split_step d c st = st\<lparr>sp_current := sp_current st @ [c]\<rparr>"
    using nested_plain by (intro step_plain) (auto simp: at_rest_def)
  with nested_plain.IH [of "st\<lparr>sp_current := sp_current st @ [c]\<rparr>"] nested_plain.prems show ?case
    by (simp add: at_rest_current)
next
  case (nested_text q b outer s)
  have r: "sp_quote st = None" "\<not> sp_escaped st" using nested_text.prems by (simp_all add: at_rest_def)
  have "fold (split_step d) (q # b @ [q]) st = st\<lparr>sp_current := sp_current st @ q # b @ [q]\<rparr>"
    using step_quote [OF nested_text.hyps(1) r(1), of d]
      fold_quoted [OF nested_text.hyps(2), of "st\<lparr>sp_current := sp_current st @ [q], sp_quote := Some q\<rparr>" d]
      step_unquote [OF nested_text.hyps(1), of "st\<lparr>sp_current := sp_current st @ q # b, sp_quote := Some q\<rparr>" d] r
      quote_none [OF r(1)]
    by (simp add: quote_first)
  with nested_text.IH [of "st\<lparr>sp_current := sp_current st @ q # b @ [q]\<rparr>"] nested_text.prems show ?case
    by (simp add: at_rest_current)
next
  case (nested_group l r b outer s)
  let ?in = "(deeper l 1 st)\<lparr>sp_current := sp_current st @ [l]\<rparr>"
  have q: "sp_quote st = None" using nested_group.prems by (simp add: at_rest_def)
  have i: "at_rest ?in" "\<not> outside ?in" using at_rest_deeper nested_group.prems(1) by blast+
  have b: "fold (split_step d) b ?in = ?in\<lparr>sp_current := sp_current ?in @ b\<rparr>"
    using nested_group.IH(1) [OF i(1)] i(2) by simp
  have "sp_quote (?in\<lparr>sp_current := sp_current ?in @ b\<rparr>) = None" using i(1) by (simp add: at_rest_def)
  note close = step_close [OF nested_group.hyps(1) d this]
  have "fold (split_step d) (l # b @ [r]) st = st\<lparr>sp_current := sp_current st @ l # b @ [r]\<rparr>"
    using step_open [OF nested_group.hyps(1) d q] b close
    by (simp add: deeper_current) (simp add: deeper_def)
  with nested_group.IH(2) [of "st\<lparr>sp_current := sp_current st @ l # b @ [r]\<rparr>"] nested_group.prems show ?case
    by (simp add: at_rest_current)
qed

section \<open>Splitting what was joined\<close>

text \<open>A text that whitespace reduction and trimming leave alone.\<close>

definition tidy :: "string \<Rightarrow> bool" where
  "tidy s \<longleftrightarrow> s \<noteq> [] \<and> \<not> is_ws (hd s) \<and> \<not> is_ws (last s) \<and> collapse_ws False s = s"

lemma tidy_trim: "tidy s \<Longrightarrow> trim s = s"
  by (simp add: tidy_def trim_fix)

lemma trim_space: "trim (CHR '' '' # s) = trim s"
  by (simp add: trim_def trimStart_def is_ws_def)

lemma trim_before_space:
  assumes "tidy s"
  shows "trim (s @ '' '') = s"
proof -
  have "trimStart (s @ '' '') = s @ '' ''" using assms by (simp add: tidy_def trimStart_fix)
  moreover have "trimStart (CHR '' '' # rev s) = trimStart (rev s)" by (simp add: trimStart_def is_ws_def)
  moreover have "trimStart (rev s) = rev s" using assms by (simp add: tidy_def trimStart_fix hd_rev)
  ultimately show ?thesis by (simp add: trim_def)
qed

definition space_or_none :: "string \<Rightarrow> bool" where
  "space_or_none s \<longleftrightarrow> s = [] \<or> s = '' ''"

lemma trim_after_space: "space_or_none pre \<Longrightarrow> tidy s \<Longrightarrow> trim (pre @ s) = s"
  by (auto simp: space_or_none_def trim_space tidy_trim)

lemma split_join:
  assumes d: "plain_char d" "d \<noteq> CHR '' ''"
  shows "\<forall>p \<in> set ps. nested d True p \<and> tidy p \<Longrightarrow> ps \<noteq> [] \<Longrightarrow> at_rest st \<Longrightarrow> outside st \<Longrightarrow>
    space_or_none (sp_current st) \<Longrightarrow>
    (let st' = fold (split_step d) (join_with [d, CHR '' ''] ps) st
     in trim (sp_current st') \<noteq> [] \<and> sp_parts st' @ [trim (sp_current st')] = sp_parts st @ ps)"
proof (induction ps arbitrary: st rule: induct_list012)
  case 1
  then show ?case by simp
next
  case (2 p)
  have "fold (split_step d) p st = st\<lparr>sp_current := sp_current st @ p\<rparr>"
    using fold_nested [OF d(1), of True p st] 2 by simp
  moreover have "trim (sp_current st @ p) = p" "p \<noteq> []"
    using 2 trim_after_space by (auto simp: tidy_def)
  ultimately show ?case by simp
next
  case (3 p p' ps)
  let ?st1 = "st\<lparr>sp_current := sp_current st @ p\<rparr>"
  let ?st2 = "?st1\<lparr>sp_parts := sp_parts st @ [p], sp_current := []\<rparr>"
  let ?st3 = "?st2\<lparr>sp_current := '' ''\<rparr>"
  have s1: "fold (split_step d) p st = ?st1"
    using fold_nested [OF d(1), of True p st] 3 by simp
  have t: "trim (sp_current st @ p) = p" using 3 trim_after_space by simp
  have q: "sp_quote st = None" using 3(5) by (simp add: at_rest_def)
  have s2: "split_step d d ?st1 = ?st2"
    using step_delimiter [OF d(1), of ?st1] 3(6) q t by (simp add: outside_def)
  have sp: "plain_char (CHR '' '')" by code_simp
  have s3: "split_step d (CHR '' '') ?st2 = ?st3"
    using step_plain [OF sp, of ?st2 d] d(2) q by simp
  have r: "at_rest ?st3" "outside ?st3" using 3(5,6) by (simp_all add: at_rest_def outside_def)
  have "fold (split_step d) (join_with [d, CHR '' ''] (p # p' # ps)) st
      = fold (split_step d) (join_with [d, CHR '' ''] (p' # ps)) ?st3"
    by (simp only: join_with.simps fold_append o_apply append.simps fold_simps s1 s2 s3)
  moreover have "sp_parts ?st3 @ p' # ps = sp_parts st @ p # p' # ps" by simp
  ultimately show ?case
    using 3(2) [OF _ _ r] 3(3) by (simp add: space_or_none_def Let_def)
qed

lemma splitTopLevel_join:
  assumes "plain_char d" and "d \<noteq> CHR '' ''" and "\<forall>p \<in> set ps. nested d True p \<and> tidy p"
  shows "splitTopLevel (join_with [d, CHR '' ''] ps) d = ps"
proof (cases "ps = []")
  case True
  then show ?thesis by (simp add: splitTopLevel_def split_start_def trim_def trimStart_def)
next
  case False
  have "at_rest split_start" "outside split_start" "space_or_none (sp_current split_start)"
    by (simp_all add: at_rest_def outside_def split_start_def space_or_none_def)
  from split_join [OF assms False this] show ?thesis
    by (simp add: splitTopLevel_def Let_def) (simp add: split_start_def)
qed

section \<open>Assignments\<close>

definition show_assignment :: "string \<Rightarrow> string \<Rightarrow> string" where
  "show_assignment nm v = nm @ '' = '' @ v"

definition good_name :: "string \<Rightarrow> bool" where
  "good_name nm \<longleftrightarrow> nm \<noteq> [] \<and> list_all word_char nm"

lemma word_char_plain: "word_char c \<Longrightarrow> plain_char c \<and> c \<noteq> CHR '','' \<and> c \<noteq> equals_sign \<and> \<not> is_ws c"
  by (auto simp: word_char_def plain_char_def brackets_def double_quote_def single_quote_def equals_sign_def
      is_ws_def Let_def)

lemma collapse_no_ws: "(\<forall>c \<in> set xs. \<not> is_ws c) \<Longrightarrow> xs \<noteq> [] \<Longrightarrow> collapse_ws b (xs @ ys) = xs @ collapse_ws False ys"
proof (induction xs arbitrary: b)
  case (Cons c xs)
  then show ?case by (cases xs) auto
qed simp

lemma collapse_head: "s \<noteq> [] \<Longrightarrow> \<not> is_ws (hd s) \<Longrightarrow> collapse_ws b s = collapse_ws False s"
  by (cases s) auto

lemma collapse_append:
  assumes "xs \<noteq> []" and "\<not> is_ws (last xs)"
  shows "collapse_ws b (xs @ ys) = collapse_ws b xs @ collapse_ws False ys"
  using assms
proof (induction xs arbitrary: b)
  case (Cons c xs)
  then show ?case by (cases "xs = []") auto
qed simp

lemma tidy_join2: "tidy s \<Longrightarrow> tidy t \<Longrightarrow> m \<noteq> [] \<Longrightarrow> \<not> is_ws (last m) \<Longrightarrow> collapse_ws False m = m \<Longrightarrow>
    tidy (s @ m @ CHR '' '' # t)"
  using collapse_head [of t True]
  by (auto simp: tidy_def collapse_append is_ws_def Let_def)

lemma tidy_name: "good_name nm \<Longrightarrow> tidy nm"
  using collapse_no_ws [of nm False "[]"] word_char_plain hd_in_set [of nm] last_in_set [of nm]
  by (auto simp: good_name_def tidy_def list_all_iff)

lemma tidy_assignment: "good_name nm \<Longrightarrow> tidy v \<Longrightarrow> tidy (show_assignment nm v)"
  using tidy_join2 [OF tidy_name, of nm v "'' =''"] by (simp add: show_assignment_def is_ws_def Let_def)

lemma nested_assignment:
  assumes "good_name nm" and "nested (CHR '','') True v"
  shows "nested (CHR '','') True (show_assignment nm v)"
proof -
  have "nested (CHR '','') True nm"
    by (rule nested_plains) (use assms(1) word_char_plain in \<open>auto simp: good_name_def list_all_iff\<close>)
  moreover have "nested (CHR '','') True '' = ''"
    by (rule nested_plains) (simp add: plain_char_def brackets_def double_quote_def single_quote_def)
  ultimately show ?thesis using assms(2) by (simp only: show_assignment_def) (intro nested_append)
qed

lemma tidy_assignments:
  "\<forall>p \<in> set ps. tidy p \<Longrightarrow> ps \<noteq> [] \<Longrightarrow> tidy (join_with '', '' ps)"
proof (induction ps rule: induct_list012)
  case (3 p p' ps)
  then show ?case using tidy_join2 [of p "join_with '', '' (p' # ps)" "'',''"] by (simp add: is_ws_def Let_def)
qed simp_all

lemma parse_show_assignment:
  assumes "good_name nm" and "tidy v" and "parseLeetCodeValue parse_json number v = Inr j"
  shows "parse_assignment parse_json number (show_assignment nm v) = Inr (nm, j)"
proof -
  have e: "\<forall>c \<in> set nm. c \<noteq> equals_sign"
    using assms(1) word_char_plain by (auto simp: good_name_def list_all_iff)
  have "takeWhile (\<lambda>c. c \<noteq> equals_sign) (show_assignment nm v) = nm @ '' ''"
    and "dropWhile (\<lambda>c. c \<noteq> equals_sign) (show_assignment nm v) = ''= '' @ v"
    using e by (simp_all add: show_assignment_def equals_sign_def)
  moreover have "trim (nm @ '' '') = nm"
    using trim_before_space [OF tidy_name [OF assms(1)]] .
  moreover have "trim ('' '' @ v) = v" using trim_space tidy_trim [OF assms(2)] by simp
  moreover have "equals_sign \<in> set (show_assignment nm v)" by (simp add: show_assignment_def equals_sign_def)
  ultimately show ?thesis using assms(3) by (simp add: parse_assignment_def)
qed

lemma sum_map_all: "(\<forall>x \<in> set xs. f (g x) = Inr (h x)) \<Longrightarrow> sum_map f (map g xs) = Inr (map h xs)"
  by (induction xs) simp_all

lemma update_new: "k \<notin> set (map fst r) \<Longrightarrow> AList.update k v r = r @ [(k, v)]"
  by (induction r) auto

lemma from_entries_distinct: "distinct (map fst kvs) \<Longrightarrow> from_entries kvs = kvs"
proof -
  have "distinct (map fst (r @ kvs)) \<Longrightarrow> fold (\<lambda>(k, v) r. AList.update k v r) kvs r = r @ kvs" for r
    by (induction kvs arbitrary: r) (auto simp: update_new)
  from this [of "[]"] show "distinct (map fst kvs) \<Longrightarrow> from_entries kvs = kvs" by (simp add: from_entries_def)
qed

text \<open>
  C13: Reading an example's input. From assignments printed one after the other, \<open>name = value\<close>,
  the parser gets back every name with its value in the order of the page, whatever commas, brackets
  and quotes the values hold inside of them; it refuses the input exactly when a parameter of the
  function has no assignment, naming the first such parameter.
\<close>

theorem assignments_roundtrip:
  assumes vals: "\<forall>(nm, v, j) \<in> set as. good_name nm \<and> nested (CHR '','') True v \<and> tidy v
      \<and> parseLeetCodeValue parse_json number v = Inr j"
    and names: "distinct (map fst as)" and plain: "set params \<inter> set object_prototype = {}"
  shows "parseInputAssignments parse_json number
      (join_with '', '' (map (\<lambda>(nm, v, j). show_assignment nm v) as)) params =
    (case List.find (\<lambda>nm. nm \<notin> fst ` set as) params of
       None \<Rightarrow> Inr (map (\<lambda>(nm, v, j). (nm, j)) as) | Some nm \<Rightarrow> Inl (missing_parameter nm))"
proof -
  let ?ps = "map (\<lambda>(nm, v, j). show_assignment nm v) as"
  have ok: "\<forall>p \<in> set ?ps. nested (CHR '','') True p \<and> tidy p"
    using vals nested_assignment tidy_assignment by (auto split: prod.splits)
  have "trim (collapse_ws False (join_with '', '' ?ps)) = join_with '', '' ?ps"
  proof (cases "as = []")
    case True
    then show ?thesis by (simp add: trim_def trimStart_def)
  next
    case False
    then have t: "tidy (join_with '', '' ?ps)" using ok tidy_assignments [of ?ps] by simp
    then show ?thesis using tidy_trim [OF t] by (simp add: tidy_def)
  qed
  moreover have "splitTopLevel (join_with '', '' ?ps) (CHR '','') = ?ps"
    by (rule splitTopLevel_join) (use ok in \<open>simp_all add: plain_char_def brackets_def double_quote_def single_quote_def\<close>)
  moreover have "sum_map (parse_assignment parse_json number) ?ps = Inr (map (\<lambda>(nm, v, j). (nm, j)) as)"
    by (rule sum_map_all) (use vals parse_show_assignment in \<open>auto split: prod.splits\<close>)
  moreover have "from_entries (map (\<lambda>(nm, v, j). (nm, j)) as) = map (\<lambda>(nm, v, j). (nm, j)) as"
    by (rule from_entries_distinct) (use names in \<open>simp add: o_def case_prod_beta\<close>)
  moreover have "List.find (\<lambda>nm. \<not> has_property nm (map (\<lambda>(nm, v, j). (nm, j)) as)) params
      = List.find (\<lambda>nm. nm \<notin> fst ` set as) params"
    using plain by (intro find_cong) (auto simp: has_property_def image_image case_prod_beta)
  ultimately show ?thesis by (simp add: parseInputAssignments_def Let_def)
qed

text \<open>Whitespace inside of a string is reduced as well.\<close>

lemma strings_lose_spaces:
  "parseInputAssignments parse_json number (''s = '' @ [double_quote] @ ''a  b'' @ [double_quote]) [''s'']
   = Inr [(''s'', JStr ''a b'')]"
  by code_simp


theorem assignments_roundtrip_witness:
  "parseInputAssignments (\<lambda>_. Some (JArr [])) (\<lambda>_. 0) (join_with '', '' [show_assignment ''nums'' ''[2,7]'',
      show_assignment ''target'' ''9'']) [''nums'', ''target'']
   = Inr [(''nums'', JArr []), (''target'', JNum 0)]"
proof -
  let ?as = "[(''nums'', ''[2,7]'', JArr []), (''target'', ''9'', JNum 0)]"
  have "nested (CHR '','') False ''2,7''"
    by (intro nested_plain nested_nil) (simp_all add: plain_char_def brackets_def double_quote_def single_quote_def)
  then have n: "nested (CHR '','') True ''[2,7]''"
    using nested_group [of "CHR ''[''" "CHR '']''" "CHR '',''" "''2,7''" True "[]"] nested_nil
    by (simp add: brackets_def)
  have m: "nested (CHR '','') True ''9''"
    by (intro nested_plain nested_nil) (simp_all add: plain_char_def brackets_def double_quote_def single_quote_def)
  have t: "good_name ''nums''" "good_name ''target''" "tidy ''[2,7]''" "tidy ''9''" by code_simp+
  have v: "parseLeetCodeValue (\<lambda>_. Some (JArr [])) (\<lambda>_. 0) ''[2,7]'' = Inr (JArr [])"
    "parseLeetCodeValue (\<lambda>_. Some (JArr [])) (\<lambda>_. 0) ''9'' = Inr (JNum 0)" by code_simp+
  show ?thesis
    using assignments_roundtrip [of ?as "\<lambda>_. Some (JArr [])" "\<lambda>_. 0" "[''nums'', ''target'']"] n m t v
    by (simp add: object_prototype_def)
qed

end
