(* ===== verification/Problem_Import.thy ===== *)
theory Problem_Import
  imports Scraper_Parsers Store_Rollback Leetcode_Url
begin

text \<open>
  Importing a problem from a link: \<^verbatim>\<open>services/ScraperService.ts\<close> and
  \<^verbatim>\<open>services/scraper/questionClient.ts\<close> of \<^verbatim>\<open>apps/server/src\<close>, over the
  problem tables. The answer of LeetCode is an argument, with a question's fields of the types
  its interface declares.
\<close>

section \<open>Fetching the question\<close>

record question_data =
  qd_title :: string
  qd_difficulty :: string
  qd_categoryTitle :: "string option"
  qd_content :: string
  qd_metaData :: string
  qd_codeSnippets :: "code_snippet list"

text \<open>A body that cannot be read as JSON, or whose \<^verbatim>\<open>data\<close> cannot be accessed, raises.\<close>

datatype question_body = BodyRaises parse_error | NoQuestion | Question question_data
datatype question_fetch = FetchAborts | FetchRaises | FetchAnswers nat question_body

datatype import_error =
    BadUrl string
  | Dependency dependency_error
  | Raised parse_error
  | Database db_error

definition leetcode_error :: "string \<Rightarrow> string \<Rightarrow> string \<Rightarrow> nat option \<Rightarrow> bool \<Rightarrow> dependency_error" where
  "leetcode_error op kind msg st timedOut =
     \<lparr>dependency = ''leetcode'', operation = op, errorType = kind, err_message = msg,
      statusCode = st, isTimeout = timedOut\<rparr>"

definition toLeetCodeDependencyError :: "bool \<Rightarrow> string \<Rightarrow> string \<Rightarrow> dependency_error" where
  "toLeetCodeDependencyError aborted op msg =
     (if aborted then leetcode_error op ''timeout'' msg None True
      else leetcode_error op ''network_error'' msg None False)"

definition question_headers :: "string \<Rightarrow> (string \<times> string) list" where
  "question_headers slug =
     [(''content-type'', ''application/json''), (''referer'', ''https://leetcode.com/problems/'' @ slug @ ''/''),
      (''user-agent'', ''CodeShare Importer/1.0'')]"

definition fetchQuestionData :: "question_fetch \<Rightarrow> import_error + question_data" where
  "fetchQuestionData out =
     (case out of
        FetchAborts \<Rightarrow>
          Inl (Dependency (toLeetCodeDependencyError True ''fetch_question'' ''LeetCode request failed.''))
      | FetchRaises \<Rightarrow>
          Inl (Dependency (toLeetCodeDependencyError False ''fetch_question'' ''LeetCode request failed.''))
      | FetchAnswers st body \<Rightarrow>
          if \<not> response_ok st
          then Inl (Dependency (leetcode_error ''fetch_question'' ''http_error''
                      ''Failed to fetch problem from LeetCode.'' (Some st) False))
          else (case body of
                  BodyRaises e \<Rightarrow> Inl (Raised e)
                | NoQuestion \<Rightarrow>
                    Inl (Dependency (leetcode_error ''fetch_question'' ''invalid_response''
                           ''Problem not found on LeetCode.'' None False))
                | Question q \<Rightarrow> Inr q))"

text \<open>\<open>engine\<close> is the message of an error the engine raises.\<close>

definition parse_message :: "(parse_error \<Rightarrow> string) \<Rightarrow> parse_error \<Rightarrow> string" where
  "parse_message engine e = (case e of Message m \<Rightarrow> m | _ \<Rightarrow> engine e)"

definition wrapLeetCodeParse ::
  "(parse_error \<Rightarrow> string) \<Rightarrow> string \<Rightarrow> (parse_error + 'a) \<Rightarrow> import_error + 'a" where
  "wrapLeetCodeParse engine op r =
     (case r of
        Inl e \<Rightarrow> Inl (Dependency (leetcode_error op ''parse_error'' (parse_message engine e) None False))
      | Inr x \<Rightarrow> Inr x)"

section \<open>Reading it\<close>

record parsed_problem =
  pq_methodName :: string
  pq_parameterNames :: "string list"
  pq_boilerplate :: string
  pq_parsedExamples :: "new_test_case list"

text \<open>The readers of values: \<^verbatim>\<open>JSON.parse\<close>, \<^verbatim>\<open>Number\<close> and the engine's messages.\<close>

record readers =
  rd_parse_json :: "string \<Rightarrow> json option"
  rd_number :: "string \<Rightarrow> js_number"
  rd_engine :: "parse_error \<Rightarrow> string"

definition parsed_example :: "readers \<Rightarrow> string list \<Rightarrow> nat \<times> example_block \<Rightarrow> parse_error + new_test_case" where
  "parsed_example rd parameterNames ie =
     (case parseInputAssignments (rd_parse_json rd) (rd_number rd) (eb_input (snd ie)) parameterNames of
        Inl e \<Rightarrow> Inl e
      | Inr input \<Rightarrow>
          (case parseLeetCodeValue (rd_parse_json rd) (rd_number rd) (eb_output (snd ie)) of
             Inl e \<Rightarrow> Inl e
           | Inr out \<Rightarrow> Inr \<lparr>nt_input = input, nt_expectedOutput = Some out, nt_isVisible = True,
                             nt_orderIndex = fst ie\<rparr>))"

definition buildParsedExamples :: "readers \<Rightarrow> example_block list \<Rightarrow> string list \<Rightarrow> parse_error + new_test_case list" where
  "buildParsedExamples rd examples parameterNames =
     sum_map (parsed_example rd parameterNames) (zip [0..<length examples] examples)"

definition sum_bind :: "('e + 'a) \<Rightarrow> ('a \<Rightarrow> 'e + 'b) \<Rightarrow> 'e + 'b" where
  "sum_bind r f = (case r of Inl e \<Rightarrow> Inl e | Inr x \<Rightarrow> f x)"

definition parseImportedProblem :: "readers \<Rightarrow> question_data \<Rightarrow> import_error + parsed_problem" where
  "parseImportedProblem rd q =
     sum_bind (wrapLeetCodeParse (rd_engine rd) ''parse_metadata'' (parseMetadata (rd_parse_json rd) (qd_metaData q)))
       (\<lambda>md. sum_bind (wrapLeetCodeParse (rd_engine rd) ''select_boilerplate'' (selectPythonBoilerplate (qd_codeSnippets q)))
       (\<lambda>boilerplate. sum_bind (wrapLeetCodeParse (rd_engine rd) ''parse_examples''
                                 (map_sum (\<lambda>e. e) (take 3) (extractExampleBlocks (qd_content q))))
       (\<lambda>visible.
          if visible = []
          then Inl (Dependency (leetcode_error ''parse_examples'' ''invalid_response''
                      ''Imported problem did not include visible examples.'' None False))
          else sum_bind (wrapLeetCodeParse (rd_engine rd) ''parse_examples''
                           (buildParsedExamples rd visible (md_parameterNames md)))
            (\<lambda>examples. Inr \<lparr>pq_methodName = md_methodName md, pq_parameterNames = md_parameterNames md,
                             pq_boilerplate = boilerplate, pq_parsedExamples = examples\<rparr>))))"

section \<open>Storing it\<close>

definition DEFAULT_TIME_LIMIT_MS :: nat where "DEFAULT_TIME_LIMIT_MS = 5000"

definition import_category :: "string option \<Rightarrow> string" where
  "import_category title =
     (case map_option trim title of None \<Rightarrow> ''Imported'' | Some c \<Rightarrow> if c = [] then ''Imported'' else c)"

definition imported_row :: "leetcode_url \<Rightarrow> question_data \<Rightarrow> new_problem" where
  "imported_row u q =
     \<lparr>np_slug = lc_slug u, np_title = qd_title q, np_difficulty = toLowerCase (qd_difficulty q),
      np_category = import_category (qd_categoryTitle q),
      np_description = htmlToProblemText (stripConstraintsSection (qd_content q)),
      np_constraints = extractConstraints (qd_content q), np_solution = None,
      np_timeLimitMs = DEFAULT_TIME_LIMIT_MS, np_source = ''user_submitted'',
      np_sourceUrl = Some (lc_canonicalUrl u)\<rparr>"

definition import_steps :: "parsed_problem \<Rightarrow> insert_step list" where
  "import_steps pq =
     map InsertCase (pq_parsedExamples pq)
     @ [InsertBoilerplate \<lparr>nb_language = ''python'', nb_template = pq_boilerplate pq,
                           nb_methodName = pq_methodName pq, nb_parameterNames = pq_parameterNames pq\<rparr>]"

definition persistImportedProblem ::
  "db_env \<Rightarrow> leetcode_url \<Rightarrow> question_data \<Rightarrow> parsed_problem \<Rightarrow> problem_tables
   \<Rightarrow> problem_tables \<times> (import_error + problem)" where
  "persistImportedProblem env u q pq db =
     (case insert_problem env 3 (imported_row u q) (import_steps pq) db of
        (db', r) \<Rightarrow> (db', map_sum Database (\<lambda>p. p) r))"

text \<open>Statement 0 looks for the link, 1 for the slug, 2 restores, and from 3 on the problem is inserted.\<close>

definition findExistingProblem ::
  "db_env \<Rightarrow> leetcode_url \<Rightarrow> problem_tables \<Rightarrow> db_error + problem option" where
  "findExistingProblem env u db =
     sum_bind (on_line env 0 (Inr (findBySourceUrlIncludingDeleted (lc_canonicalUrl u) db)))
       (\<lambda>r. case r of
              Some p \<Rightarrow> Inr (Some p)
            | None \<Rightarrow> on_line env 1 (Inr (findBySlugIncludingDeleted (lc_slug u) db)))"

definition restoreDeletedProblem :: "db_env \<Rightarrow> problem \<Rightarrow> problem_tables \<Rightarrow> db_error + problem_tables" where
  "restoreDeletedProblem env p db =
     (if p_deletedAt p \<noteq> None then on_line env 2 (Inr (restoreById (de_now env) (p_id p) db)) else Inr db)"

definition importFromUrl ::
  "(string \<Rightarrow> (string \<times> string) option) \<Rightarrow> readers \<Rightarrow> db_env \<Rightarrow> question_fetch \<Rightarrow> string \<Rightarrow> problem_tables
   \<Rightarrow> problem_tables \<times> (import_error + problem)" where
  "importFromUrl parse_url rd env out url db =
     (case normalizeLeetCodeUrl parse_url url of
        None \<Rightarrow> (db, Inl (BadUrl ''URL must be a valid LeetCode problem URL.''))
      | Some u \<Rightarrow>
          (case findExistingProblem env u db of
             Inl e \<Rightarrow> (db, Inl (Database e))
           | Inr (Some existing) \<Rightarrow>
               (case restoreDeletedProblem env existing db of
                  Inl e \<Rightarrow> (db, Inl (Database e)) | Inr db' \<Rightarrow> (db', Inr existing))
           | Inr None \<Rightarrow>
               (case fetchQuestionData out of
                  Inl e \<Rightarrow> (db, Inl e)
                | Inr q \<Rightarrow>
                    (case parseImportedProblem rd q of
                       Inl e \<Rightarrow> (db, Inl e)
                     | Inr pq \<Rightarrow> persistImportedProblem env u q pq db))))"

section \<open>Lemmas\<close>

lemma sum_bind_Inr: "sum_bind r f = Inr y \<longleftrightarrow> (\<exists>x. r = Inr x \<and> f x = Inr y)"
  by (auto simp: sum_bind_def split: sum.splits)

lemma sum_map_length: "sum_map f xs = Inr ys \<Longrightarrow> length ys = length xs"
  by (induction xs arbitrary: ys) (auto split: sum.splits)

lemma sum_map_nth: "sum_map f xs = Inr ys \<Longrightarrow> i < length xs \<Longrightarrow> f (xs ! i) = Inr (ys ! i)"
proof (induction xs arbitrary: i ys)
  case (Cons x xs)
  then show ?case by (cases i) (auto split: sum.splits)
qed simp

lemma parsed_example_fields:
  "parsed_example rd ns ie = Inr d \<Longrightarrow> nt_isVisible d \<and> nt_orderIndex d = fst ie \<and> nt_expectedOutput d \<noteq> None"
  by (auto simp: parsed_example_def split: sum.splits)

lemma buildParsedExamples_fields:
  assumes "buildParsedExamples rd es ns = Inr ds"
  shows "length ds = length es \<and> (\<forall>i < length ds. nt_isVisible (ds ! i) \<and> nt_orderIndex (ds ! i) = i)"
proof -
  have len: "length ds = length es"
    using assms sum_map_length by (fastforce simp: buildParsedExamples_def)
  have "nt_isVisible (ds ! i) \<and> nt_orderIndex (ds ! i) = i" if "i < length ds" for i
  proof -
    have "parsed_example rd ns (zip [0..<length es] es ! i) = Inr (ds ! i)"
      using assms that len by (intro sum_map_nth) (simp_all add: buildParsedExamples_def)
    from parsed_example_fields [OF this] show ?thesis using that len by simp
  qed
  with len show ?thesis by blast
qed

lemma parseImportedProblem_examples:
  assumes "parseImportedProblem rd q = Inr pq"
  shows "1 \<le> length (pq_parsedExamples pq) \<and> length (pq_parsedExamples pq) \<le> 3
    \<and> (\<forall>i < length (pq_parsedExamples pq). nt_isVisible (pq_parsedExamples pq ! i)
         \<and> nt_orderIndex (pq_parsedExamples pq ! i) = i)"
proof -
  let ?w = "wrapLeetCodeParse (rd_engine rd) ''parse_examples''
        (map_sum (\<lambda>e. e) (take 3) (extractExampleBlocks (qd_content q)))"
  obtain es where es: "?w = Inr es"
    using assms by (cases ?w) (auto simp: parseImportedProblem_def sum_bind_def split: sum.splits)
  have ne: "es \<noteq> []"
    using assms es by (auto simp: parseImportedProblem_def sum_bind_Inr)
  obtain md :: metadata where b: "wrapLeetCodeParse (rd_engine rd) ''parse_examples''
        (buildParsedExamples rd es (md_parameterNames md)) = Inr (pq_parsedExamples pq)"
    using assms es ne by (auto simp: parseImportedProblem_def sum_bind_Inr)
  have "length es \<le> 3" using es by (auto simp: wrapLeetCodeParse_def map_sum_def split: sum.splits)
  moreover have "buildParsedExamples rd es (md_parameterNames md) = Inr (pq_parsedExamples pq)"
    using b by (auto simp: wrapLeetCodeParse_def split: sum.splits)
  moreover have "1 \<le> length es" using ne by (cases es) simp_all
  ultimately show ?thesis using buildParsedExamples_fields by fastforce
qed

lemma sorted_examples:
  "(\<forall>i < length ds. nt_orderIndex (ds ! i) = i) \<Longrightarrow> sort_key nt_orderIndex ds = ds"
  by (rule sort_key_id_if_sorted) (simp add: sorted_iff_nth_mono)

lemma cases_of_import: "cases_of (import_steps pq) = pq_parsedExamples pq"
proof -
  have "cases_of (map InsertCase ds @ [InsertBoilerplate b]) = ds" for ds b by (induction ds) auto
  then show ?thesis by (simp add: import_steps_def)
qed


lemma found_source_row:
  assumes "findExistingProblem env u db = Inr (Some p)"
  obtains r where "r \<in> set (tb_problems db)" "p = toProblem r"
    "pr_source_url r = Some (lc_canonicalUrl u) \<or> pr_slug r = lc_slug u"
proof -
  have "\<exists>r. r \<in> set (tb_problems db) \<and> p = toProblem r \<and> P r"
    if f: "getFirstOrNull (filter P (tb_problems db)) toProblem = Some p" for P
  proof -
    obtain r rs where "filter P (tb_problems db) = r # rs" "p = toProblem r"
      using f by (auto simp: getFirstOrNull_def split: list.splits)
    then have "r \<in> set (filter P (tb_problems db))" by simp
    with \<open>p = toProblem r\<close> show ?thesis by auto
  qed
  then show ?thesis
    using assms that
    by (auto simp: findExistingProblem_def sum_bind_Inr on_line_def findBySourceUrlIncludingDeleted_def
        findBySlugIncludingDeleted_def split: option.splits if_splits)
qed

lemma restoreDeleted_active:
  assumes "r \<in> set (tb_problems db)" and "restoreDeletedProblem env (toProblem r) db = Inr db'"
  shows "findById (pr_id r) db' \<noteq> None"
proof -
  have "\<exists>r' \<in> set (tb_problems db'). pr_id r' = pr_id r \<and> active r'"
  proof (cases "active r")
    case True
    then show ?thesis using assms by (auto simp: restoreDeletedProblem_def toProblem_def active_def)
  next
    case False
    then have "db' = restoreById (de_now env) (pr_id r) db"
      using assms(2) by (auto simp: restoreDeletedProblem_def toProblem_def active_def on_line_def split: if_splits)
    with restore_row [OF assms(1), of "pr_id r" "de_now env"] show ?thesis
      by (intro bexI [of _ "r\<lparr>pr_deleted_at := None, pr_updated_at := de_now env\<rparr>"]) (simp_all add: active_def)
  qed
  then show ?thesis
    by (auto simp: findById_def getFirstOrNull_def filter_empty_conv split: list.splits)
qed

lemma restoreDeleted_ok:
  "tables_ok db \<Longrightarrow> restoreDeletedProblem env p db = Inr db' \<Longrightarrow> tables_ok db'"
  by (auto simp: restoreDeletedProblem_def on_line_def restoreById_def split: if_splits intro!: update_problems_ok)

section \<open>Properties\<close>

text \<open>
  C12: Importing leaves no trace of a failure. When an import fails - on the link, on the database, on
  LeetCode's answer, on reading the page or half-way through storing it - the tables are exactly as
  before, provided that the deletion which undoes a half-stored problem gets through. When it succeeds,
  the problem it returns is in the database and not deleted; a new one has the link's slug and between
  one and three visible test cases in the order of the page, and taking it out again gives back the
  tables as they were.
\<close>

theorem import_is_atomic:
  assumes ok: "tables_ok db" and undo: "\<not> de_undo_fails env"
    and run: "importFromUrl parse_url rd env out url db = (db', r)"
  shows "case r of
      Inl e \<Rightarrow> db' = db
    | Inr p \<Rightarrow> tables_ok db' \<and> findById (p_id p) db' \<noteq> None
        \<and> (\<exists>u. normalizeLeetCodeUrl parse_url url = Some u
            \<and> (findExistingProblem env u db = Inr (Some p)
               \<or> deleteById (p_id p) db' = db \<and> p_slug p = lc_slug u
                 \<and> (\<exists>cases. 1 \<le> length cases \<and> length cases \<le> 3 \<and> (\<forall>i < length cases. nt_isVisible (cases ! i))
                      \<and> map case_fields (findByProblemId (p_id p) db') = map new_case_fields cases)))"
proof (cases "normalizeLeetCodeUrl parse_url url")
  case None
  with run show ?thesis by (auto simp: importFromUrl_def)
next
  case (Some u)
  show ?thesis
  proof (cases "findExistingProblem env u db")
    case (Inl e)
    with run Some show ?thesis by (auto simp: importFromUrl_def)
  next
    case (Inr found)
    show ?thesis
    proof (cases found)
      case None
      show ?thesis
      proof (cases r)
        case (Inl e)
        have "db' = db"
          using run Some Inr None Inl insert_problem_failure [OF ok undo]
          by (auto simp: importFromUrl_def persistImportedProblem_def map_sum_def split: sum.splits prod.splits)
        with Inl show ?thesis by simp
      next
        case (Inr p)
        obtain q pq where pq: "parseImportedProblem rd q = Inr pq"
          and i: "insert_problem env 3 (imported_row u q) (import_steps pq) db = (db', Inr p)"
          using run Some \<open>findExistingProblem env u db = Inr found\<close> None Inr
          by (auto simp: importFromUrl_def persistImportedProblem_def map_sum_def split: sum.splits prod.splits)
        note s = insert_problem_success [OF ok i] and ex = parseImportedProblem_examples [OF pq]
        have "sort_key nt_orderIndex (pq_parsedExamples pq) = pq_parsedExamples pq"
          using ex sorted_examples by blast
        then show ?thesis
          using s ex Some Inr by (auto simp: cases_of_import imported_row_def intro!: exI [of _ "pq_parsedExamples pq"])
      qed
    next
      case (Some p)
      obtain row where row: "row \<in> set (tb_problems db)" "p = toProblem row"
        using Inr Some by (auto elim: found_source_row)
      show ?thesis
        using run \<open>normalizeLeetCodeUrl parse_url url = Some u\<close> Inr Some restoreDeleted_ok [OF ok, of env p]
          restoreDeleted_active [OF row(1), of env, folded row(2)] row(2)
        by (auto simp: importFromUrl_def toProblem_def split: sum.splits)
    qed
  qed
qed


definition quiet_env :: db_env where
  "quiet_env = \<lparr>de_down = (\<lambda>_. False), de_undo_fails = False, de_id = string_of_nat, de_now = ''now''\<rparr>"

definition sample_row :: problem_row where
  "sample_row =
     \<lparr>pr_id = ''i'', pr_slug = ''echo'', pr_title = ''Echo'', pr_difficulty = Easy, pr_category = ''c'',
      pr_description = ''d'', pr_constraints = [], pr_solution = None, pr_time_limit_ms = 5000,
      pr_source = UserSubmitted, pr_source_url = None, pr_deleted_at = Some ''then'',
      pr_created_at = ''then'', pr_updated_at = ''then''\<rparr>"

definition sample_tables :: problem_tables where
  "sample_tables = empty_tables\<lparr>tb_problems := [sample_row]\<rparr>"

lemma sample_tables_ok: "tables_ok sample_tables"
  by (simp add: tables_ok_def sample_tables_def empty_tables_def sample_row_def)

definition sample_readers :: readers where
  "sample_readers = \<lparr>rd_parse_json = (\<lambda>_. None), rd_number = (\<lambda>_. 0), rd_engine = (\<lambda>_. [])\<rparr>"

lemma sample_url: "normalizeLeetCodeUrl (\<lambda>_. Some (''leetcode.com'', ''/problems/echo/'')) ''leetcode.com/problems/echo''
    = Some \<lparr>lc_slug = ''echo'', lc_canonicalUrl = ''https://leetcode.com/problems/echo/''\<rparr>"
  by code_simp

lemma sample_import: "importFromUrl (\<lambda>_. Some (''leetcode.com'', ''/problems/echo/'')) sample_readers quiet_env
      FetchRaises ''leetcode.com/problems/echo'' sample_tables
    = (restoreById ''now'' ''i'' sample_tables, Inr (toProblem sample_row))"
  by (simp add: importFromUrl_def sample_url findExistingProblem_def sum_bind_def on_line_def quiet_env_def
      findBySourceUrlIncludingDeleted_def findBySlugIncludingDeleted_def getFirstOrNull_def sample_tables_def
      sample_row_def empty_tables_def restoreDeletedProblem_def toProblem_def)

theorem import_is_atomic_witness:
  "tables_ok (restoreById ''now'' ''i'' sample_tables) \<and> findById ''i'' (restoreById ''now'' ''i'' sample_tables) \<noteq> None"
proof -
  have "\<not> de_undo_fails quiet_env" by (simp add: quiet_env_def)
  from import_is_atomic [OF sample_tables_ok this sample_import]
  show ?thesis by (simp add: toProblem_def sample_row_def)
qed

end
