(* ===== verification/Decimal_Text.thy ===== *)
theory Decimal_Text
  imports Prelude
begin

text \<open>
  The decimal text of a number determines the number and consists of digits: what the keys built from
  numbers (of the Redis store, of the client's lists) rest on.
\<close>

lemma digit_code: "d < 10 \<Longrightarrow> of_char (digit_char d) = 48 + d"
  by (simp add: digit_char_def)

fun decimal_value :: "string \<Rightarrow> nat \<Rightarrow> nat" where
  "decimal_value [] n = n"
| "decimal_value (c # cs) n = decimal_value cs (10 * n + (of_char c - 48))"

lemma decimal_value_snoc: "decimal_value (s @ [c]) n = 10 * decimal_value s n + (of_char c - 48)"
  by (induction s n rule: decimal_value.induct) simp_all

lemma decimal_value_string: "decimal_value (string_of_nat n) 0 = n"
proof (induction n rule: string_of_nat.induct)
  case (1 n)
  show ?case
  proof (cases "n < 10")
    case True
    then show ?thesis by (simp add: string_of_nat.simps [of n] digit_code)
  next
    case False
    with 1 have "decimal_value (string_of_nat n) 0 = 10 * (n div 10) + n mod 10"
      by (simp add: string_of_nat.simps [of n] decimal_value_snoc digit_code)
    then show ?thesis by simp
  qed
qed

lemma string_of_nat_inj: "string_of_nat m = string_of_nat n \<longleftrightarrow> m = n"
  using decimal_value_string by metis

lemma string_of_nat_codes: "c \<in> set (string_of_nat n) \<Longrightarrow> 48 \<le> (of_char c :: nat) \<and> (of_char c :: nat) \<le> 57"
proof (induction n rule: string_of_nat.induct)
  case (1 n)
  have "(of_char (digit_char (n mod 10)) :: nat) = 48 + n mod 10" by (rule digit_code) simp
  moreover have "(of_char (digit_char n) :: nat) = 48 + n" if "n < 10" using that by (rule digit_code)
  moreover have "n mod 10 < 10" by simp
  ultimately show ?case
    using 1 by (cases "n < 10") (auto simp: string_of_nat.simps [of n])
qed

lemma string_of_nat_nonempty [simp]: "string_of_nat n \<noteq> []"
  by (simp add: string_of_nat.simps [of n])

lemma string_of_nat_chars: "CHR '':'' \<notin> set (string_of_nat n) \<and> CHR ''-'' \<notin> set (string_of_nat n)"
  by (auto dest: string_of_nat_codes)

lemma last_string_of_nat: "last (string_of_nat n) \<noteq> CHR ''}''"
proof
  assume "last (string_of_nat n) = CHR ''}''"
  then have "CHR ''}'' \<in> set (string_of_nat n)" by (metis last_in_set string_of_nat_nonempty)
  then show False by (auto dest: string_of_nat_codes)
qed

lemma string_of_int_inj: "string_of_int i = string_of_int j \<Longrightarrow> i = j"
proof -
  have m: "CHR ''-'' # s \<noteq> string_of_nat n" for s n
    using string_of_nat_chars [of n] by (metis list.set_intros(1))
  show "string_of_int i = string_of_int j \<Longrightarrow> i = j"
    using m [symmetric] m by (auto simp: string_of_int_def string_of_nat_inj split: if_splits)
qed

end
