(* ===== verification/Redis_Store.thy ===== *)
theory Redis_Store
  imports Reliability_Store Decimal_Text
begin

text \<open>
  The Redis store of \<^verbatim>\<open>apps/server/src/lib/reliabilityStore.ts\<close>, and how it compares
  with the one in memory. Redis itself is modelled as documented for the commands used: a key holds a
  number and a time of expiry and is gone from that time on; a script runs without interleaving. The
  clock of Redis is an argument, \<open>iso_day\<close> the text of a day in a key.
\<close>

section \<open>Redis\<close>

record redis_value =
  rv_value :: int
  rv_expires :: "int option"

type_synonym redis_db = "(string \<times> redis_value) list"

definition alive :: "int \<Rightarrow> redis_value \<Rightarrow> bool" where
  "alive clock v \<longleftrightarrow> (case rv_expires v of None \<Rightarrow> True | Some e \<Rightarrow> clock < e)"

definition redis_at :: "int \<Rightarrow> redis_db \<Rightarrow> redis_db" where
  "redis_at clock db = filter (\<lambda>(k, v). alive clock v) db"

text \<open>The script: increment, set the expiry of a fresh key, compare with the limit.\<close>

definition RESERVE_SCRIPT :: "string \<Rightarrow> int \<Rightarrow> int \<Rightarrow> int \<Rightarrow> redis_db \<Rightarrow> redis_db \<times> (int \<times> int \<times> int)" where
  "RESERVE_SCRIPT key limit ttl clock db =
     (let old = map_of (redis_at clock db) key;
          current = (case old of None \<Rightarrow> 1 | Some v \<Rightarrow> rv_value v + 1);
          expires = (if current = 1 then Some (clock + ttl) else Option.bind old rv_expires);
          db' = AList.update key \<lparr>rv_value = current, rv_expires = expires\<rparr> (redis_at clock db);
          pttl = (case expires of None \<Rightarrow> - 1 | Some e \<Rightarrow> e - clock)
      in (db', if limit < current then (0, current - 1, pttl) else (1, current, pttl)))"

section \<open>The store\<close>

text \<open>Whether Redis can be reached, and its clock.\<close>

record redis_world =
  rw_online :: bool
  rw_clock :: int

definition redisKey :: "string list \<Rightarrow> string" where
  "redisKey parts = join_with '':'' (''codeshare'' # parts)"

fun resource_text :: "daily_quota_resource \<Rightarrow> string" where
  "resource_text Judge0 = ''judge0''"
| "resource_text Imports = ''imports''"
| "resource_text Llm = ''llm''"

definition dailyQuotaKey :: "(int \<Rightarrow> string) \<Rightarrow> daily_quota_resource \<Rightarrow> int \<Rightarrow> string" where
  "dailyQuotaKey iso_day resource now = redisKey [''daily'', resource_text resource, iso_day (utcDayKey now)]"

record reserve_result =
  rr_allowed :: bool
  rr_used :: int
  rr_ttlMs :: int

text \<open>\<open>None\<close>: the client raises.\<close>

definition redis_reserve ::
  "redis_world \<Rightarrow> string \<Rightarrow> nat \<Rightarrow> int \<Rightarrow> redis_db \<Rightarrow> redis_db \<times> reserve_result option" where
  "redis_reserve w key limit ttlMs db =
     (if \<not> rw_online w then (db, None)
      else (case RESERVE_SCRIPT key (int limit) (max 1 ttlMs) (rw_clock w) db of
              (db', flag, used, ttl) \<Rightarrow>
                (db', Some \<lparr>rr_allowed = (flag = 1), rr_used = used, rr_ttlMs = (if 0 < ttl then ttl else 1)\<rparr>)))"

definition windowStart :: "fixed_window_options \<Rightarrow> int" where
  "windowStart q = fw_now q div fw_windowMs q * fw_windowMs q"

definition fixedWindowKey :: "fixed_window_options \<Rightarrow> string" where
  "fixedWindowKey q = redisKey [''fixed'', fw_bucket q, fw_key q, string_of_int (windowStart q)]"

definition redis_consumeFixedWindow ::
  "redis_world \<Rightarrow> fixed_window_options \<Rightarrow> redis_db \<Rightarrow> redis_db \<times> rate_limit_check_result option" where
  "redis_consumeFixedWindow w q db =
     (case redis_reserve w (fixedWindowKey q) (fw_limit q) (windowStart q + fw_windowMs q - fw_now q) db of
        (db', r) \<Rightarrow>
          (db', map_option (\<lambda>r. \<lparr>allowed = rr_allowed r,
                                retryAfter = (if rr_allowed r then 0 else retryAfterSeconds (rr_ttlMs r))\<rparr>) r))"

definition redis_reserveDailyQuota ::
  "redis_world \<Rightarrow> (int \<Rightarrow> string) \<Rightarrow> daily_quota_resource \<Rightarrow> nat \<Rightarrow> int \<Rightarrow> redis_db
   \<Rightarrow> redis_db \<times> daily_quota_reservation option" where
  "redis_reserveDailyQuota w iso_day resource limit now db =
     (case redis_reserve w (dailyQuotaKey iso_day resource now) limit (msUntilNextUtcDay now + 86400000) db of
        (db', r) \<Rightarrow>
          (db', map_option (\<lambda>r. \<lparr>res_allowed = rr_allowed r,
                                res_retryAfter = (if rr_allowed r then 0 else retryAfterSeconds (rr_ttlMs r)),
                                res_used = nat (rr_used r), res_limit = limit\<rparr>) r))"

definition redis_getUsageSnapshot ::
  "redis_world \<Rightarrow> (int \<Rightarrow> string) \<Rightarrow> int \<Rightarrow> redis_db \<Rightarrow> daily_counter_map option" where
  "redis_getUsageSnapshot w iso_day now db =
     (if \<not> rw_online w then None
      else Some (fold (\<lambda>r c. set_counter r
                      (case map_of (redis_at (rw_clock w) db) (dailyQuotaKey iso_day r now) of
                         None \<Rightarrow> 0 | Some v \<Rightarrow> nat (rv_value v)) c)
                   [Judge0, Imports, Llm] blankDailyCounters))"

record store_health =
  sh_available :: bool
  sh_error :: "string option"

definition redis_health :: "redis_world \<Rightarrow> string \<Rightarrow> store_health" where
  "redis_health w err =
     (if rw_online w then \<lparr>sh_available = True, sh_error = None\<rparr> else \<lparr>sh_available = False, sh_error = Some err\<rparr>)"

definition redis_clear :: "redis_world \<Rightarrow> redis_db \<Rightarrow> redis_db option" where
  "redis_clear w db =
     (if \<not> rw_online w then None
      else Some (filter (\<lambda>(k, v). \<not> starts_with ''codeshare:'' k) (redis_at (rw_clock w) db)))"

datatype store_choice = MemoryStore | RedisStore string | StoreRejected string

definition createReliabilityStore :: "string \<Rightarrow> string option \<Rightarrow> bool \<Rightarrow> store_choice" where
  "createReliabilityStore kind redisUrl connects =
     (if kind = ''memory'' then MemoryStore
      else if \<not> truthy_text redisUrl then StoreRejected ''REDIS_URL is required when RELIABILITY_STORE=redis.''
      else if connects then RedisStore (the redisUrl)
      else StoreRejected ''connection failed'')"

section \<open>Keys\<close>

lemma string_of_int_chars: "CHR '':'' \<notin> set (string_of_int i)"
  using string_of_nat_chars by (simp add: string_of_int_def)

lemma split_at_colon:
  "CHR '':'' \<notin> set a \<Longrightarrow> CHR '':'' \<notin> set a' \<Longrightarrow> a @ '':'' @ x = a' @ '':'' @ x' \<Longrightarrow> a = a' \<and> x = x'"
  using window_key_inj [of a a' x x'] by (simp add: window_key_def)

lemma split_at_last_colon:
  assumes "CHR '':'' \<notin> set b" and "CHR '':'' \<notin> set b'" and "x @ '':'' @ b = x' @ '':'' @ b'"
  shows "x = x' \<and> b = b'"
proof -
  have "rev b @ '':'' @ rev x = rev b' @ '':'' @ rev x'" using arg_cong [OF assms(3), of rev] by simp
  then have "rev b = rev b' \<and> rev x = rev x'" using split_at_colon assms(1,2) by (metis set_rev)
  then show ?thesis by simp
qed

lemma fixedWindowKey_eq:
  assumes "CHR '':'' \<notin> set (fw_bucket q)" and "CHR '':'' \<notin> set (fw_bucket q')"
    and "fixedWindowKey q = fixedWindowKey q'"
  shows "same_window (fw_bucket q) (fw_key q) q' \<and> windowStart q = windowStart q'"
proof -
  have "fw_bucket q @ '':'' @ fw_key q @ '':'' @ string_of_int (windowStart q)
      = fw_bucket q' @ '':'' @ fw_key q' @ '':'' @ string_of_int (windowStart q')"
    using assms(3) by (simp add: fixedWindowKey_def redisKey_def)
  from split_at_colon [OF assms(1,2) this] have f: "fw_bucket q = fw_bucket q'"
    "fw_key q @ '':'' @ string_of_int (windowStart q) = fw_key q' @ '':'' @ string_of_int (windowStart q')"
    by simp_all
  from split_at_last_colon [OF string_of_int_chars string_of_int_chars f(2)]
  have "fw_key q = fw_key q'" "string_of_int (windowStart q) = string_of_int (windowStart q')" by simp_all
  then show ?thesis using f(1) string_of_int_inj by (simp add: same_window_def)
qed

definition day_key :: "(int \<Rightarrow> string) \<Rightarrow> daily_quota_resource \<Rightarrow> int \<Rightarrow> string" where
  "day_key iso_day r d = redisKey [''daily'', resource_text r, iso_day d]"

lemma dailyQuotaKey_day: "dailyQuotaKey iso_day r now = day_key iso_day r (utcDayKey now)"
  by (simp add: dailyQuotaKey_def day_key_def)

lemma resource_text_no_colon: "CHR '':'' \<notin> set (resource_text x)" by (cases x) simp_all

lemma resource_text_inj: "resource_text r = resource_text r' \<Longrightarrow> r = r'" by (cases r; cases r') simp_all

lemma day_key_eq:
  assumes "inj iso_day" and "day_key iso_day r d = day_key iso_day r' d'"
  shows "r = r' \<and> d = d'"
proof -
  have "resource_text r @ '':'' @ iso_day d = resource_text r' @ '':'' @ iso_day d'"
    using assms(2) by (simp add: day_key_def redisKey_def)
  from split_at_colon [OF resource_text_no_colon resource_text_no_colon this]
  show ?thesis using resource_text_inj injD [OF assms(1)] by blast
qed

section \<open>Both stores grant the same quotas\<close>

text \<open>The outcomes of reservations made one after the other, each a resource and a time.\<close>

fun memory_outcomes ::
  "(daily_quota_resource \<Rightarrow> nat) \<Rightarrow> (daily_quota_resource \<times> int) list \<Rightarrow> memory_store \<Rightarrow> bool list" where
  "memory_outcomes limits [] s = []"
| "memory_outcomes limits ((r, now) # qs) s =
     (let (s', res) = reserveDailyQuota r (limits r) now s in res_allowed res # memory_outcomes limits qs s')"

text \<open>Redis's clock is \<open>skew\<close> ahead of the server's.\<close>

definition world_at :: "int \<Rightarrow> int \<Rightarrow> redis_world" where
  "world_at skew now = \<lparr>rw_online = True, rw_clock = now + skew\<rparr>"

fun redis_outcomes ::
  "int \<Rightarrow> (int \<Rightarrow> string) \<Rightarrow> (daily_quota_resource \<Rightarrow> nat) \<Rightarrow> (daily_quota_resource \<times> int) list \<Rightarrow> redis_db
   \<Rightarrow> bool option list" where
  "redis_outcomes skew iso_day limits [] db = []"
| "redis_outcomes skew iso_day limits ((r, now) # qs) db =
     (let (db', res) = redis_reserveDailyQuota (world_at skew now) iso_day r (limits r) now db
      in map_option res_allowed res # redis_outcomes skew iso_day limits qs db')"

text \<open>
  The relation between the two: Redis counts refused attempts too, and the counter of a day that is
  not over yet expires only after the day.
\<close>

definition counts_as :: "int \<Rightarrow> nat \<Rightarrow> int \<Rightarrow> redis_value option \<Rightarrow> nat \<Rightarrow> bool" where
  "counts_as skew limit d v used \<longleftrightarrow>
     (case v of
        None \<Rightarrow> used = 0
      | Some v \<Rightarrow> 1 \<le> rv_value v \<and> used = min (nat (rv_value v)) limit
          \<and> (\<exists>e. rv_expires v = Some e \<and> (d + 1) * MS_PER_DAY + skew < e))"

definition agree ::
  "int \<Rightarrow> (int \<Rightarrow> string) \<Rightarrow> (daily_quota_resource \<Rightarrow> nat) \<Rightarrow> int \<Rightarrow> redis_db \<Rightarrow> memory_store \<Rightarrow> bool" where
  "agree skew iso_day limits day db s \<longleftrightarrow>
     (\<forall>r d. day \<le> d \<longrightarrow> counts_as skew (limits r) d (map_of db (day_key iso_day r d)) (used_of r d s))"

lemma map_of_redis_at:
  "map_of (redis_at clock db) k = (case map_of db k of None \<Rightarrow> None | Some v \<Rightarrow> if alive clock v then Some v else None)"
  if "distinct (map fst db)"
  using that
proof (induction db)
  case (Cons kv db)
  have "map_of db (fst kv) = None" using Cons.prems by (simp add: map_of_eq_None_iff)
  then show ?case using Cons by (cases kv) (auto simp: redis_at_def split: option.splits)
qed (simp add: redis_at_def)

lemma distinct_redis_at: "distinct (map fst db) \<Longrightarrow> distinct (map fst (redis_at clock db))"
  by (simp add: redis_at_def distinct_map_filter)

lemma before_day_end: "utcDayKey now \<le> d \<Longrightarrow> now < (d + 1) * MS_PER_DAY"
proof -
  assume "utcDayKey now \<le> d"
  then have "(now div 86400000 + 1) * 86400000 \<le> (d + 1) * 86400000" by (simp add: utcDayKey_def MS_PER_DAY_def)
  moreover have "now < (now div 86400000 + 1) * 86400000" by presburger
  ultimately show ?thesis by (simp add: MS_PER_DAY_def)
qed

lemma counts_as_alive:
  assumes "counts_as skew limit d v used" and "utcDayKey now \<le> d"
  shows "(case v of None \<Rightarrow> None | Some v \<Rightarrow> if alive (now + skew) v then Some v else None) = v"
proof (cases v)
  case (Some x)
  with assms(1) obtain e where "rv_expires x = Some e" "(d + 1) * MS_PER_DAY + skew < e"
    by (auto simp: counts_as_def)
  with before_day_end [OF assms(2)] Some show ?thesis by (simp add: alive_def)
qed simp

text \<open>What a reservation makes of the value of its key.\<close>

definition bumped :: "int \<Rightarrow> int \<Rightarrow> redis_value option \<Rightarrow> redis_value" where
  "bumped clock ttl v =
     (case v of
        None \<Rightarrow> \<lparr>rv_value = 1, rv_expires = Some (clock + ttl)\<rparr>
      | Some v \<Rightarrow> \<lparr>rv_value = rv_value v + 1,
                  rv_expires = (if rv_value v + 1 = 1 then Some (clock + ttl) else rv_expires v)\<rparr>)"

lemma script_bumps:
  "fst (RESERVE_SCRIPT key limit ttl clock db) =
     AList.update key (bumped clock ttl (map_of (redis_at clock db) key)) (redis_at clock db)"
  "fst (snd (RESERVE_SCRIPT key limit ttl clock db)) =
     (if limit < rv_value (bumped clock ttl (map_of (redis_at clock db) key)) then 0 else 1)"
  by (auto simp: RESERVE_SCRIPT_def bumped_def Let_def split: option.splits)

lemma redis_reserve_online:
  fixes skew now ttl db key
  defines "v \<equiv> bumped (now + skew) (max 1 ttl) (map_of (redis_at (now + skew) db) key)"
  shows "fst (redis_reserve (world_at skew now) key limit ttl db) = AList.update key v (redis_at (now + skew) db)"
    and "map_option rr_allowed (snd (redis_reserve (world_at skew now) key limit ttl db)) = Some (rv_value v \<le> int limit)"
proof -
  obtain db' flag used t where e: "RESERVE_SCRIPT key (int limit) (max 1 ttl) (now + skew) db = (db', flag, used, t)"
    by (metis prod_cases4)
  from script_bumps [of key "int limit" "max 1 ttl" "now + skew" db, unfolded e fst_conv snd_conv]
  have "db' = AList.update key v (redis_at (now + skew) db)" "flag = (if int limit < rv_value v then 0 else 1)"
    by (simp_all add: v_def)
  then show "fst (redis_reserve (world_at skew now) key limit ttl db) = AList.update key v (redis_at (now + skew) db)"
    "map_option rr_allowed (snd (redis_reserve (world_at skew now) key limit ttl db)) = Some (rv_value v \<le> int limit)"
    by (simp_all add: redis_reserve_def world_at_def e)
qed

lemma counts_as_bumped:
  assumes "counts_as skew limit d v used" and "utcDayKey now = d"
  shows "counts_as skew limit d (Some (bumped (now + skew) (max 1 (msUntilNextUtcDay now + 86400000)) v))
      (used + (if used < limit then 1 else 0))"
    and "rv_value (bumped (now + skew) (max 1 (msUntilNextUtcDay now + 86400000)) v) \<le> int limit \<longleftrightarrow> used < limit"
proof -
  have t: "(d + 1) * MS_PER_DAY + skew < now + skew + (msUntilNextUtcDay now + 86400000)"
    using msUntilNextUtcDay_bounds [of now] before_day_end [of now d] assms(2)
    unfolding msUntilNextUtcDay_def by (simp add: MS_PER_DAY_def max_def)
  have m: "max 1 (msUntilNextUtcDay now + 86400000) = msUntilNextUtcDay now + 86400000"
    using msUntilNextUtcDay_bounds [of now] by simp
  show "counts_as skew limit d (Some (bumped (now + skew) (max 1 (msUntilNextUtcDay now + 86400000)) v))
      (used + (if used < limit then 1 else 0))"
    using assms(1) t m by (auto simp: counts_as_def bumped_def min_def nat_add_distrib split: option.splits)
  show "rv_value (bumped (now + skew) (max 1 (msUntilNextUtcDay now + 86400000)) v) \<le> int limit \<longleftrightarrow> used < limit"
    using assms(1) by (auto simp: counts_as_def bumped_def min_def split: option.splits if_splits)
qed


lemma redis_at_today:
  assumes "distinct (map fst db)" and "agree skew iso_day limits day db s" and "day \<le> d" and "utcDayKey now \<le> d"
  shows "map_of (redis_at (now + skew) db) (day_key iso_day r d) = map_of db (day_key iso_day r d)"
proof -
  have "counts_as skew (limits r) d (map_of db (day_key iso_day r d)) (used_of r d s)"
    using assms(2,3) by (simp add: agree_def)
  from counts_as_alive [OF this assms(4)] show ?thesis by (simp add: map_of_redis_at [OF assms(1)])
qed

lemma agree_step:
  assumes inj: "inj iso_day" and d: "distinct (map fst db)" and a: "agree skew iso_day limits day db s"
    and le: "day \<le> utcDayKey now"
  shows "agree skew iso_day limits (utcDayKey now)
           (fst (redis_reserveDailyQuota (world_at skew now) iso_day r (limits r) now db))
           (fst (reserveDailyQuota r (limits r) now s))"
    and "distinct (map fst (fst (redis_reserveDailyQuota (world_at skew now) iso_day r (limits r) now db)))"
    and "map_option res_allowed (snd (redis_reserveDailyQuota (world_at skew now) iso_day r (limits r) now db))
         = Some (res_allowed (snd (reserveDailyQuota r (limits r) now s)))"
proof -
  let ?day = "utcDayKey now" and ?ttl = "msUntilNextUtcDay now + 86400000"
  let ?k = "day_key iso_day r ?day"
  let ?v = "bumped (now + skew) (max 1 ?ttl) (map_of db ?k)"
  let ?rr = "redis_reserve (world_at skew now) ?k (limits r) ?ttl db"
  have f: "fst (redis_reserveDailyQuota (world_at skew now) iso_day r (limits r) now db) = fst ?rr"
    "map_option res_allowed (snd (redis_reserveDailyQuota (world_at skew now) iso_day r (limits r) now db))
     = map_option rr_allowed (snd ?rr)"
    by (simp_all add: redis_reserveDailyQuota_def dailyQuotaKey_day case_prod_beta option.map_comp o_def)
  have v: "fst ?rr = AList.update ?k ?v (redis_at (now + skew) db)"
    "map_option rr_allowed (snd ?rr) = Some (rv_value ?v \<le> int (limits r))"
    using redis_reserve_online [of skew now ?k "limits r" ?ttl db] redis_at_today [OF d a le order.refl] by simp_all
  have c: "counts_as skew (limits r) ?day (map_of db ?k) (used_of r ?day s)" using a le by (simp add: agree_def)
  note b = counts_as_bumped [OF c refl]
  have m: "fst (reserveDailyQuota r (limits r) now s) = fst (reserve r (limits r) now s)"
    "res_allowed (snd (reserveDailyQuota r (limits r) now s)) = snd (reserve r (limits r) now s)"
    by (simp_all add: reserve_def case_prod_beta)
  show "map_option res_allowed (snd (redis_reserveDailyQuota (world_at skew now) iso_day r (limits r) now db))
      = Some (res_allowed (snd (reserveDailyQuota r (limits r) now s)))"
    using b(2) by (simp add: f v m reserve_allowed)
  show "distinct (map fst (fst (redis_reserveDailyQuota (world_at skew now) iso_day r (limits r) now db)))"
    unfolding f v using distinct_redis_at [OF d] by (rule distinct_update)
  show "agree skew iso_day limits ?day
      (fst (redis_reserveDailyQuota (world_at skew now) iso_day r (limits r) now db))
      (fst (reserveDailyQuota r (limits r) now s))"
    unfolding agree_def
  proof (intro allI impI)
    fix r' d' assume d': "?day \<le> d'"
    have same: "day_key iso_day r' d' = ?k \<longleftrightarrow> r' = r \<and> d' = ?day" using day_key_eq [OF inj] by blast
    have old: "counts_as skew (limits r') d' (map_of db (day_key iso_day r' d')) (used_of r' d' s)"
      using a le d' by (simp add: agree_def)
    have at: "map_of (redis_at (now + skew) db) (day_key iso_day r' d') = map_of db (day_key iso_day r' d')"
      using redis_at_today [OF d a order_trans [OF le d'] d'] .
    show "counts_as skew (limits r') d'
        (map_of (fst (redis_reserveDailyQuota (world_at skew now) iso_day r (limits r) now db)) (day_key iso_day r' d'))
        (used_of r' d' (fst (reserveDailyQuota r (limits r) now s)))"
    proof (cases "r' = r \<and> d' = ?day")
      case True
      then show ?thesis using b(1) by (simp add: f v m map_of_AList_update reserve_used reserve_allowed)
    next
      case False
      then have "day_key iso_day r' d' \<noteq> ?k" using same by blast
      then show ?thesis using old at False by (auto simp: f v m map_of_AList_update reserve_used)
    qed
  qed
qed

lemma outcomes_agree:
  assumes "inj iso_day"
  shows "distinct (map fst db) \<Longrightarrow> agree skew iso_day limits day db s \<Longrightarrow> sorted (map snd qs) \<Longrightarrow>
    \<forall>q \<in> set qs. day \<le> utcDayKey (snd q) \<Longrightarrow>
    redis_outcomes skew iso_day limits qs db = map Some (memory_outcomes limits qs s)"
proof (induction qs arbitrary: day db s)
  case (Cons q qs)
  obtain r now where q: "q = (r, now)" by (cases q)
  have le: "day \<le> utcDayKey now" using Cons.prems(4) q by simp
  note st = agree_step [OF assms Cons.prems(1,2) le, of r]
  have later: "utcDayKey now \<le> utcDayKey (snd p)" if "p \<in> set qs" for p
    using Cons.prems(3) that q by (auto simp: utcDayKey_def MS_PER_DAY_def intro: zdiv_mono1)
  show ?case
    using Cons.IH [OF st(2) st(1)] Cons.prems(3) later st(3) q by (simp add: case_prod_beta)
qed simp

section \<open>Windows in Redis\<close>

fun redis_consume_all ::
  "int \<Rightarrow> fixed_window_options list \<Rightarrow> redis_db \<Rightarrow> rate_limit_check_result option list" where
  "redis_consume_all skew [] db = []"
| "redis_consume_all skew (q # qs) db =
     (let (db', result) = redis_consumeFixedWindow (world_at skew (fw_now q)) q db
      in result # redis_consume_all skew qs db')"

definition redis_results_of ::
  "string \<Rightarrow> string \<Rightarrow> int \<Rightarrow> fixed_window_options list \<Rightarrow> redis_db \<Rightarrow> bool option list" where
  "redis_results_of b k skew qs db =
     map (map_option allowed \<circ> snd) (filter (\<lambda>(q, r). same_window b k q) (zip qs (redis_consume_all skew qs db)))"

definition aligned_key :: "string \<Rightarrow> string \<Rightarrow> int \<Rightarrow> string" where
  "aligned_key b k start = redisKey [''fixed'', b, k, string_of_int start]"

text \<open>The counter of a window that ends at \<open>e\<close> after \<open>n\<close> attempts.\<close>

definition attempts :: "int \<Rightarrow> string \<Rightarrow> redis_db \<Rightarrow> nat \<Rightarrow> bool" where
  "attempts until key db n \<longleftrightarrow> distinct (map fst db) \<and>
     (case map_of db key of
        None \<Rightarrow> n = 0
      | Some v \<Rightarrow> 0 < n \<and> rv_value v = int n \<and> rv_expires v = Some until)"

lemma attempts_at: "attempts until key db n \<Longrightarrow> clock < until \<Longrightarrow> map_of (redis_at clock db) key = map_of db key"
  by (cases "map_of db key") (simp_all add: attempts_def map_of_redis_at alive_def del: map_of_eq_Some_iff)

lemma consume_aligned:
  "fst (redis_consumeFixedWindow w q db) =
     fst (redis_reserve w (fixedWindowKey q) (fw_limit q) (windowStart q + fw_windowMs q - fw_now q) db)"
  "map_option allowed (snd (redis_consumeFixedWindow w q db)) =
     map_option rr_allowed (snd (redis_reserve w (fixedWindowKey q) (fw_limit q) (windowStart q + fw_windowMs q - fw_now q) db))"
  by (simp_all add: redis_consumeFixedWindow_def case_prod_beta option.map_comp o_def)

lemma consume_same:
  assumes a: "attempts (e + skew) (fixedWindowKey q) db n" and t: "fw_now q < e" "windowStart q + fw_windowMs q = e"
  shows "attempts (e + skew) (fixedWindowKey q) (fst (redis_consumeFixedWindow (world_at skew (fw_now q)) q db)) (Suc n)"
    and "map_option allowed (snd (redis_consumeFixedWindow (world_at skew (fw_now q)) q db)) = Some (n < fw_limit q)"
proof -
  have at: "map_of (redis_at (fw_now q + skew) db) (fixedWindowKey q) = map_of db (fixedWindowKey q)"
    using attempts_at [OF a] t(1) by simp
  have d: "distinct (map fst db)" using a by (simp add: attempts_def)
  note r = redis_reserve_online [of skew "fw_now q" "fixedWindowKey q" "fw_limit q" "e - fw_now q" db, unfolded at]
  have v: "rv_value (bumped (fw_now q + skew) (max 1 (e - fw_now q)) (map_of db (fixedWindowKey q))) = int (Suc n)"
    "rv_expires (bumped (fw_now q + skew) (max 1 (e - fw_now q)) (map_of db (fixedWindowKey q))) = Some (e + skew)"
    using a t(1) by (cases "map_of db (fixedWindowKey q)";
        simp add: attempts_def bumped_def del: map_of_eq_Some_iff)+
  show "attempts (e + skew) (fixedWindowKey q) (fst (redis_consumeFixedWindow (world_at skew (fw_now q)) q db)) (Suc n)"
    using distinct_update [OF distinct_redis_at [OF d]] v
    by (simp add: consume_aligned t(2) r(1) attempts_def map_of_AList_update)
  show "map_option allowed (snd (redis_consumeFixedWindow (world_at skew (fw_now q)) q db)) = Some (n < fw_limit q)"
    using v by (simp add: consume_aligned t(2) r(2)) linarith
qed

lemma consume_other:
  assumes "attempts until key db n" and "fw_now q + skew < until" and "fixedWindowKey q \<noteq> key"
  shows "attempts until key (fst (redis_consumeFixedWindow (world_at skew (fw_now q)) q db)) n"
proof -
  have d: "distinct (map fst db)" using assms(1) by (simp add: attempts_def)
  show ?thesis
    using assms distinct_update [OF distinct_redis_at [OF d]] attempts_at [OF assms(1,2)]
    by (simp add: consume_aligned redis_reserve_online(1) attempts_def map_of_AList_update)
qed

lemma redis_results_Cons:
  "redis_results_of b k skew (q # qs) db =
   (if same_window b k q
    then [map_option allowed (snd (redis_consumeFixedWindow (world_at skew (fw_now q)) q db))] else [])
   @ redis_results_of b k skew qs (fst (redis_consumeFixedWindow (world_at skew (fw_now q)) q db))"
  by (simp add: redis_results_of_def case_prod_beta)

lemma aligned_results:
  assumes b: "CHR '':'' \<notin> set b"
  shows "attempts (e + skew) (aligned_key b k start) db n \<Longrightarrow>
    \<forall>q \<in> set qs. CHR '':'' \<notin> set (fw_bucket q) \<and> fw_now q < e \<Longrightarrow>
    \<forall>q \<in> set qs. same_window b k q \<longrightarrow> fw_limit q = L \<and> windowStart q = start \<and> start + fw_windowMs q = e \<Longrightarrow>
    redis_results_of b k skew qs db =
      (let m = length (filter (same_window b k) qs)
       in map Some (replicate (min m (L - n)) True @ replicate (m - (L - n)) False))"
proof (induction qs arbitrary: db n)
  case Nil
  then show ?case by (simp add: redis_results_of_def)
next
  case (Cons q qs)
  have key: "fixedWindowKey x = aligned_key (fw_bucket x) (fw_key x) (windowStart x)" for x
    by (simp add: fixedWindowKey_def aligned_key_def)
  show ?case
  proof (cases "same_window b k q")
    case True
    then have q: "fixedWindowKey q = aligned_key b k start" "fw_limit q = L" "fw_now q < e"
      "windowStart q + fw_windowMs q = e"
      using Cons.prems(2,3) by (auto simp: key same_window_def)
    note c = consume_same [OF Cons.prems(1) [folded q(1)] q(3,4), unfolded q(1,2)]
    show ?thesis
    proof (cases "n < L")
      case True
      then have "L - n = Suc (L - Suc n)" by simp
      with Cons.IH [OF c(1)] Cons.prems(2,3) c(2) True \<open>same_window b k q\<close> show ?thesis
        by (simp add: redis_results_Cons Let_def)
    next
      case False
      with Cons.IH [OF c(1)] Cons.prems(2,3) c(2) \<open>same_window b k q\<close> show ?thesis
        by (simp add: redis_results_Cons Let_def)
    qed
  next
    case False
    let ?q = "\<lparr>fw_bucket = b, fw_key = k, fw_limit = L, fw_windowMs = 1, fw_now = start\<rparr>"
    have "fixedWindowKey ?q = aligned_key b k start" by (simp add: key windowStart_def)
    then have "fixedWindowKey q \<noteq> aligned_key b k start"
      using fixedWindowKey_eq [of ?q q] b Cons.prems(2) False by auto
    from consume_other [OF Cons.prems(1) _ this, of skew] Cons.prems(2)
    have "attempts (e + skew) (aligned_key b k start)
        (fst (redis_consumeFixedWindow (world_at skew (fw_now q)) q db)) n" by simp
    from Cons.IH [OF this] Cons.prems(2,3) False show ?thesis by (simp add: redis_results_Cons)
  qed
qed

section \<open>Properties\<close>

text \<open>
  C22: The two stores grant the same daily quotas. For requests that come in the order of their times,
  with limits fixed per resource, the store in Redis allows exactly those reservations that the store
  in memory allows, across the change of days and whatever constant the two clocks are apart - although
  Redis goes on counting the attempts it refuses.
\<close>

theorem stores_grant_the_same_quotas:
  assumes "inj iso_day" and "sorted (map snd qs)"
  shows "redis_outcomes skew iso_day limits qs [] = map Some (memory_outcomes limits qs new_memory_store)"
proof (cases qs)
  case (Cons q rest)
  have "agree skew iso_day limits (utcDayKey (snd q)) [] new_memory_store"
    by (simp add: agree_def counts_as_def used_of_def new_memory_store_def)
  moreover have "\<forall>p \<in> set qs. utcDayKey (snd q) \<le> utcDayKey (snd p)"
    using assms(2) Cons by (auto simp: utcDayKey_def MS_PER_DAY_def intro: zdiv_mono1)
  ultimately show ?thesis using outcomes_agree [OF assms(1)] assms(2) by simp
qed simp

definition sample_day :: "int \<Rightarrow> string" where "sample_day d = string_of_int d"

theorem stores_grant_the_same_quotas_witness:
  "redis_outcomes 5 sample_day (\<lambda>_. 1) [(Llm, 0), (Llm, 7), (Judge0, 8), (Llm, 86400000)] []
   = map Some (memory_outcomes (\<lambda>_. 1) [(Llm, 0), (Llm, 7), (Judge0, 8), (Llm, 86400000)] new_memory_store)"
proof -
  have "inj sample_day" by (rule injI) (simp add: sample_day_def string_of_int_inj)
  then show ?thesis by (rule stores_grant_the_same_quotas) simp
qed


text \<open>
  Windows in Redis are exact as well, but they are cut at the multiples of their length: within
  such a window a client's first \<^verbatim>\<open>limit\<close> requests in a bucket are allowed and every later
  one is refused, whatever other clients or buckets consume in between.
\<close>

theorem redis_window_exact:
  assumes "CHR '':'' \<notin> set b" and "map_of db (aligned_key b k start) = None" and "distinct (map fst db)"
    and "\<forall>q \<in> set qs. CHR '':'' \<notin> set (fw_bucket q) \<and> fw_now q < e"
    and "\<forall>q \<in> set qs. same_window b k q \<longrightarrow> fw_limit q = L \<and> windowStart q = start \<and> start + fw_windowMs q = e"
  shows "redis_results_of b k skew qs db =
      (let n = length (filter (same_window b k) qs)
       in map Some (replicate (min n L) True @ replicate (n - L) False))"
  using aligned_results [OF assms(1) _ assms(4,5), of skew db 0] assms(2,3) by (simp add: attempts_def)

definition sample_request :: "int \<Rightarrow> fixed_window_options" where
  "sample_request now = \<lparr>fw_bucket = ''join'', fw_key = ''::1'', fw_limit = 1, fw_windowMs = 10, fw_now = now\<rparr>"

theorem redis_window_exact_witness:
  "redis_results_of ''join'' ''::1'' 3 [sample_request 21, sample_request 29] [] = map Some [True, False]"
  using redis_window_exact [of "''join''" "[]" "''::1''" 20 "[sample_request 21, sample_request 29]" 30 1 3]
  by (simp add: sample_request_def same_window_def windowStart_def)

text \<open>
  Around such a multiple Redis lets twice the limit through at once, which the memory store does not,
  and after refused attempts the two report different usage.
\<close>

lemma windows_differ_redis:
  "redis_results_of ''join'' ''::1'' 0 [sample_request 29, sample_request 30] [] = [Some True, Some True]"
  by code_simp

lemma windows_differ_memory:
  "results_of ''join'' ''::1'' [sample_request 29, sample_request 30] new_memory_store = [True, False]"
  by code_simp

lemma refused_attempts_count:
  "let q = (\<lambda>db. fst (redis_reserveDailyQuota (world_at 0 5) sample_day Llm 2 5 db));
       key = dailyQuotaKey sample_day Llm 5
   in map_option rv_value (map_of (redis_at 5 (q (q (q [])))) key) = Some 3"
proof -
  let ?k = "dailyQuotaKey sample_day Llm 5" and ?e = "msUntilNextUtcDay 5 + 86400000"
  have e: "5 < 5 + max 1 ?e" by simp
  have r: "fst (redis_reserveDailyQuota (world_at 0 5) sample_day Llm 2 5 db)
      = AList.update ?k (bumped 5 (max 1 ?e) (map_of (redis_at 5 db) ?k)) (redis_at 5 db)" for db
    using redis_reserve_online(1) [of 0 5 ?k 2 ?e db] by (simp add: redis_reserveDailyQuota_def case_prod_beta)
  show ?thesis using e by (simp add: r redis_at_def alive_def bumped_def Let_def)
qed

lemma refused_attempts_do_not_count:
  "let m = (\<lambda>s. fst (reserveDailyQuota Llm 2 5 s)) in used_of Llm 0 (m (m (m new_memory_store))) = 2"
proof -
  have "fst (reserveDailyQuota Llm 2 5 s) = fst (reserve Llm 2 5 s)" for s
    by (simp add: reserve_def case_prod_beta)
  moreover have "used_of Llm 0 new_memory_store = 0" by (simp add: used_of_def new_memory_store_def)
  ultimately show ?thesis by (simp add: reserve_used reserve_allowed utcDayKey_def MS_PER_DAY_def Let_def)
qed

end
