(* ===== verification/Js_Number.thy ===== *)
theory Js_Number
  imports Text_Codec "HOL-Library.Log_Nat"
begin

text \<open>
  Numbers as JavaScript computes them where rounding matters: the double nearest to a rational
  (ties to even), and \<^verbatim>\<open>Number(text)\<close> with its grammar. A number is its exact
  value, a rational; \<open>None\<close> stands for the results that are not finite (\<^verbatim>\<open>NaN\<close> and
  the infinities).
\<close>

section \<open>Rounding to a double\<close>

definition pow2 :: "int \<Rightarrow> rat" where
  "pow2 k = (if 0 \<le> k then 2 ^ nat k else 1 / 2 ^ nat (- k))"

lemma pow2_powi: "pow2 k = 2 powi k"
  by (simp add: pow2_def power_int_def field_simps)

lemma pow2_pos [simp]: "0 < pow2 k"
  by (simp add: pow2_powi)

lemma pow2_nonzero [simp]: "pow2 k \<noteq> 0"
  by (simp add: pow2_powi)

lemma pow2_add: "pow2 (a + b) = pow2 a * pow2 b"
  by (simp add: pow2_powi power_int_add)

lemma pow2_mono: "a \<le> b \<Longrightarrow> pow2 a \<le> pow2 b"
  by (simp add: pow2_powi power_int_increasing)

lemma pow2_less_imp_less: "pow2 a < pow2 b \<Longrightarrow> a < b"
  using pow2_mono [of b a] by (meson leD leI)

text \<open>The exponent of a positive number: the \<open>k\<close> with \<open>2\<^sup>k \<le> r < 2\<^sup>k\<^sup>+\<^sup>1\<close>.\<close>

definition exponent :: "rat \<Rightarrow> int" where
  "exponent r =
     (let (n, d) = quotient_of r; k = bitlen n - bitlen d in if r < pow2 k then k - 1 else k)"

lemma bitlen_pow2: "0 < n \<Longrightarrow> pow2 (bitlen n - 1) \<le> of_int n \<and> of_int n < pow2 (bitlen n)"
proof -
  assume n: "0 < n"
  then have "1 \<le> bitlen n" by (metis bitlen_eq_zero_iff bitlen_nonneg int_one_le_iff_zero_less
        linorder_not_le order_le_less)
  moreover have "(2::rat) ^ nat (bitlen n - 1) \<le> of_int n" "of_int n < (2::rat) ^ nat (bitlen n)"
    using bitlen_bounds [OF n] by (metis of_int_le_iff of_int_numeral of_int_power,
        metis of_int_less_iff of_int_numeral of_int_power)
  ultimately show ?thesis by (simp add: pow2_def)
qed

lemma exponent_bounds:
  assumes r: "0 < r"
  shows "pow2 (exponent r) \<le> r" and "r < pow2 (exponent r + 1)"
proof -
  obtain n d where q: "quotient_of r = (n, d)" by fastforce
  have d: "0 < d" by (rule quotient_of_denom_pos [OF q])
  have rq: "r = of_int n / of_int d" by (rule quotient_of_div [OF q])
  have n: "0 < n" using r rq d by (simp add: zero_less_divide_iff)
  let ?k = "bitlen n - bitlen d"
  note bn = bitlen_pow2 [OF n] and bd = bitlen_pow2 [OF d]
  have "pow2 (?k - 1) * of_int d < pow2 (?k - 1) * pow2 (bitlen d)"
    using bd by simp
  also have "\<dots> = pow2 (bitlen n - 1)" by (simp flip: pow2_add)
  also have "\<dots> \<le> of_int n" using bn by simp
  finally have lo: "pow2 (?k - 1) \<le> r" using d by (simp add: rq field_simps)
  have "of_int n < pow2 (bitlen n)" using bn by simp
  also have "\<dots> = pow2 (?k + 1) * pow2 (bitlen d - 1)" by (simp flip: pow2_add)
  also have "\<dots> \<le> pow2 (?k + 1) * of_int d" using bd by simp
  finally have hi: "r < pow2 (?k + 1)" using d by (simp add: rq field_simps)
  show "pow2 (exponent r) \<le> r" "r < pow2 (exponent r + 1)"
    using lo hi by (auto simp: exponent_def q Let_def)
qed

definition roundHalfEven :: "rat \<Rightarrow> int" where
  "roundHalfEven x =
     (let f = \<lfloor>x\<rfloor>; d = x - of_int f
      in if d < 1 / 2 \<or> d = 1 / 2 \<and> even f then f else f + 1)"

definition toDouble :: "rat \<Rightarrow> rat option" where
  "toDouble r =
     (if r = 0 then Some 0
      else let a = \<bar>r\<bar>; u = pow2 (max (exponent a - 52) (- 1074));
               v = of_int (roundHalfEven (a / u)) * u
           in if pow2 1024 \<le> v then None else Some (if r < 0 then - v else v))"

lemma roundHalfEven_error: "\<bar>of_int (roundHalfEven x) - x\<bar> \<le> 1 / 2"
proof -
  have "of_int \<lfloor>x\<rfloor> \<le> x" "x < of_int \<lfloor>x\<rfloor> + 1" by linarith+
  then show ?thesis unfolding roundHalfEven_def Let_def by (auto split: if_splits)
qed

text \<open>Half a unit in the last place is at most the \<open>2\<^sup>5\<^sup>3\<close>-th part of a normal number.\<close>

lemma roundHalfEven_near: "\<bar>x - of_int m\<bar> < 1 / 2 \<Longrightarrow> roundHalfEven x = m"
proof -
  assume n: "\<bar>x - of_int m\<bar> < 1 / 2"
  have "\<bar>of_int (roundHalfEven x) - x\<bar> \<le> 1 / 2" by (rule roundHalfEven_error)
  with n have "\<bar>of_int (roundHalfEven x) - (of_int m :: rat)\<bar> < 1" by linarith
  then have "\<bar>(of_int (roundHalfEven x - m) :: rat)\<bar> < 1" by simp
  then have "\<bar>roundHalfEven x - m\<bar> < 1" by linarith
  then show ?thesis by linarith
qed

lemma roundHalfEven_of_int [simp]: "roundHalfEven (of_int m) = m"
  by (rule roundHalfEven_near) simp

text \<open>The integers of up to 53 bits are doubles.\<close>

lemma toDouble_nat_aux:
  assumes n: "0 < n" and b: "n < 2 ^ 53"
  defines "u \<equiv> pow2 (max (exponent (of_int n) - 52) (- 1074))"
  shows "of_int (roundHalfEven (of_int n / u)) * u = of_int n"
proof -
  let ?e = "exponent (of_int n)"
  have "pow2 0 \<le> of_int n" using n by (simp add: pow2_def)
  also have "\<dots> < pow2 (?e + 1)" using n by (intro exponent_bounds) simp
  finally have e0: "0 \<le> ?e" by (auto dest: pow2_less_imp_less)
  have "pow2 ?e \<le> of_int n" using n by (intro exponent_bounds) simp
  also have "(of_int n :: rat) < of_int (2 ^ 53)" using b by (simp only: of_int_less_iff)
  also have "\<dots> = pow2 53" by (simp add: pow2_def)
  finally have e1: "?e \<le> 52" by (auto dest: pow2_less_imp_less)
  have u: "u = 1 / 2 ^ nat (52 - ?e)"
    using e0 e1 by (auto simp: u_def pow2_def)
  then have "of_int n / u = of_int (n * 2 ^ nat (52 - ?e))" by simp
  then have "roundHalfEven (of_int n / u) = n * 2 ^ nat (52 - ?e)"
    by (metis roundHalfEven_of_int)
  with u show ?thesis by simp
qed

lemma toDouble_of_int:
  assumes "\<bar>n\<bar> < 2 ^ 53"
  shows "toDouble (of_int n) = Some (of_int n)"
proof (cases "n = 0")
  case False
  then have n: "0 < \<bar>n\<bar>" by simp
  have "(of_int \<bar>n\<bar> :: rat) < of_int (2 ^ 53)" using assms by (simp only: of_int_less_iff)
  also have "\<dots> = pow2 53" by (simp add: pow2_def)
  also have "\<dots> \<le> pow2 1024" by (rule pow2_mono) simp
  finally have "\<not> pow2 1024 \<le> of_int \<bar>n\<bar>" by simp
  with toDouble_nat_aux [OF n assms] False show ?thesis
    by (auto simp: toDouble_def Let_def)
qed (simp add: toDouble_def)

lemma toDouble_numeral [simp]:
  "(numeral k :: int) < 2 ^ 53 \<Longrightarrow> toDouble (numeral k) = Some (numeral k)"
  using toDouble_of_int [of "numeral k"] by simp

lemma toDouble_0_1 [simp]: "toDouble 0 = Some 0" "toDouble 1 = Some 1"
  using toDouble_of_int [of 0] toDouble_of_int [of 1] by simp_all

text \<open>Rounding a normal number moves it by at most half a unit in the last place.\<close>

lemma ulp_le:
  assumes "pow2 (- 1022) \<le> r"
  shows "pow2 (max (exponent r - 52) (- 1074)) \<le> r * pow2 (- 52)"
proof -
  have r: "0 < r" using assms pow2_pos [of "- 1022"] by linarith
  have "pow2 (- 1022) < pow2 (exponent r + 1)"
    using assms exponent_bounds(2) [OF r] by linarith
  then have "- 1022 \<le> exponent r" using pow2_less_imp_less by fastforce
  then have "max (exponent r - 52) (- 1074) = exponent r + (- 52)" by simp
  then have "pow2 (max (exponent r - 52) (- 1074)) = pow2 (exponent r) * pow2 (- 52)"
    by (simp only: pow2_add)
  also have "\<dots> \<le> r * pow2 (- 52)"
    using exponent_bounds(1) [OF r] by (intro mult_right_mono) (simp_all add: less_imp_le)
  finally show ?thesis .
qed

lemma toDouble_error:
  assumes lo: "pow2 (- 1022) \<le> r" and hi: "r \<le> pow2 1022"
  obtains v where "toDouble r = Some v" and "\<bar>v - r\<bar> \<le> r * pow2 (- 53)"
proof -
  let ?u = "pow2 (max (exponent r - 52) (- 1074))"
  let ?v = "of_int (roundHalfEven (r / ?u)) * ?u"
  have r: "0 < r" using lo pow2_pos [of "- 1022"] by linarith
  have u: "0 < ?u" by simp
  have "?v - r = (of_int (roundHalfEven (r / ?u)) - r / ?u) * ?u"
    using u by (simp add: field_simps)
  then have "\<bar>?v - r\<bar> = \<bar>of_int (roundHalfEven (r / ?u)) - r / ?u\<bar> * ?u"
    using u by (simp only: abs_mult abs_of_pos)
  also have "\<dots> \<le> 1 / 2 * ?u"
    using u by (intro mult_right_mono roundHalfEven_error less_imp_le)
  also have "\<dots> \<le> 1 / 2 * (r * pow2 (- 52))" using ulp_le [OF lo] by simp
  also have "\<dots> = r * pow2 (- 53)" by (simp add: pow2_def)
  finally have e: "\<bar>?v - r\<bar> \<le> r * pow2 (- 53)" .
  also have "\<dots> \<le> r" using r by (simp add: pow2_def)
  finally have "?v \<le> 2 * r" by linarith
  also have "\<dots> \<le> pow2 1 * pow2 1022" using hi by (simp add: pow2_def)
  also have "\<dots> = pow2 1023" by (simp flip: pow2_add)
  also have "\<dots> < pow2 1024" by (simp add: pow2_def)
  finally have "toDouble r = Some ?v" using r by (simp add: toDouble_def Let_def)
  with e show thesis by (rule that [rotated])
qed

section \<open>The text of a number\<close>

definition is_digit :: "char \<Rightarrow> bool" where
  "is_digit c \<longleftrightarrow> (let n = of_char c :: nat in 48 \<le> n \<and> n \<le> 57)"

definition digit_val :: "char \<Rightarrow> nat option" where
  "digit_val c =
     (let n = of_char (lower_char c) :: nat
      in if 48 \<le> n \<and> n \<le> 57 then Some (n - 48)
         else if 97 \<le> n \<and> n \<le> 122 then Some (n - 87) else None)"

fun based :: "nat \<Rightarrow> nat \<Rightarrow> string \<Rightarrow> nat option" where
  "based b acc [] = Some acc"
| "based b acc (c # s) =
     (case digit_val c of None \<Rightarrow> None
      | Some d \<Rightarrow> if d < b then based b (acc * b + d) s else None)"

definition based_literal :: "nat \<Rightarrow> string \<Rightarrow> rat option" where
  "based_literal b s = (if s = [] then None else map_option of_nat (based b 0 s))"

definition exponent_part :: "string \<Rightarrow> int option" where
  "exponent_part s =
     (case s of [] \<Rightarrow> Some 0
      | c # t \<Rightarrow>
          if c \<noteq> CHR ''e'' \<and> c \<noteq> CHR ''E'' then None
          else let (g, ds) = (case t of [] \<Rightarrow> (1, [])
                              | h # t' \<Rightarrow> if h = CHR ''-'' then (- 1, t')
                                         else if h = CHR ''+'' then (1, t') else (1, t))
               in if ds = [] then None else map_option (\<lambda>n. g * int n) (based 10 0 ds))"

definition unsigned_decimal :: "string \<Rightarrow> rat option" where
  "unsigned_decimal s =
     (let i = takeWhile is_digit s; r = dropWhile is_digit s;
          (f, r') = (case r of [] \<Rightarrow> ([], r)
                     | c # t \<Rightarrow> if c = CHR ''.'' then (takeWhile is_digit t, dropWhile is_digit t)
                               else ([], r))
      in if i = [] \<and> f = [] then None
         else case (based 10 0 (i @ f), exponent_part r') of
             (Some m, Some e) \<Rightarrow>
               (let k = e - int (length f)
                in Some (if 0 \<le> k then of_nat m * 10 ^ nat k else of_nat m / 10 ^ nat (- k)))
           | _ \<Rightarrow> None)"

definition exact_number :: "string \<Rightarrow> rat option" where
  "exact_number t =
     (case t of
        [] \<Rightarrow> Some 0
      | c # s \<Rightarrow>
          if c = CHR ''0'' \<and> s \<noteq> [] \<and> hd s \<in> set ''xX'' then based_literal 16 (tl s)
          else if c = CHR ''0'' \<and> s \<noteq> [] \<and> hd s \<in> set ''oO'' then based_literal 8 (tl s)
          else if c = CHR ''0'' \<and> s \<noteq> [] \<and> hd s \<in> set ''bB'' then based_literal 2 (tl s)
          else if c = CHR ''-'' then map_option uminus (unsigned_decimal s)
          else if c = CHR ''+'' then unsigned_decimal s
          else unsigned_decimal t)"

text \<open>
  \<^verbatim>\<open>Number(s)\<close> where it is finite. \<^verbatim>\<open>"Infinity"\<close> is none of these
  literals, so it gives \<open>None\<close> as well.
\<close>

definition js_Number :: "string \<Rightarrow> rat option" where
  "js_Number s = Option.bind (exact_number (trim s)) toDouble"

definition isSafeInteger :: "rat \<Rightarrow> bool" where
  "isSafeInteger r \<longleftrightarrow> of_int \<lfloor>r\<rfloor> = r \<and> \<bar>r\<bar> \<le> 9007199254740991"

lemma based_examples: "based 10 0 ''3001'' = Some 3001" "based 16 0 ''1F'' = Some 31" "based 10 0 ''12px'' = None"
  by (simp_all add: digit_val_def lower_char_def)

lemma exact_number_examples:
  "exact_number ''3001'' = Some 3001"
  "exact_number ''1e3'' = Some 1000"
  "exact_number [] = Some 0"
  "exact_number ''0x10'' = Some 16" "exact_number ''12px'' = None" "exact_number ''Infinity'' = None"
  "exact_number ''.'' = None" "exact_number ''-.5'' = Some (- 1 / 2)"
  by (simp_all add: exact_number_def unsigned_decimal_def exponent_part_def based_literal_def
      digit_val_def is_digit_def lower_char_def)

end
