(* ===== verification/Configuration.thy ===== *)
theory Configuration
  imports Js_Number Shared_Types
begin

text \<open>
  The configuration the server starts with (\<^verbatim>\<open>apps/server/src/config.ts\<close>): the
  schema of the environment, its parsing, and the three combinations that are refused. The schema
  is data, as \<^verbatim>\<open>z.object\<close> has it: a list of named fields, each with the kind of
  value it accepts and its default. A configuration is the map from field names to values.

  \<^verbatim>\<open>url\<close> is zod's URL check, with the text it keeps where it accepts. zod takes
  integers up to \<^verbatim>\<open>Number.MAX_SAFE_INTEGER\<close>.
\<close>

section \<open>The schema\<close>

datatype field_schema =
    Url "string option"
  | Text nat "string option"
  | Secret
  | Positive int
  | NonNegative int
  | Within int int string
  | OneOf "string list" string
  | Boolean bool
  | Csv "string list"

datatype cfg_value =
    CMissing | CText string | CNum rat | CBool bool | CList "string list"

definition IMPORTS_DAILY :: int where "IMPORTS_DAILY = 50"
definition JUDGE0_REQUEST_MS :: int where "JUDGE0_REQUEST_MS = 30 * 1000"

definition optionalSecret :: "string option \<Rightarrow> cfg_value" where
  "optionalSecret v =
     (case map_option trim v of
        None \<Rightarrow> CMissing
      | Some t \<Rightarrow> if t \<noteq> [] then CText t else CMissing)"

definition csvString :: "string \<Rightarrow> string list" where
  "csvString s = filter (\<lambda>e. e \<noteq> []) (map trim (split_on CHR '','' s))"

definition numberWhere :: "(rat \<Rightarrow> bool) \<Rightarrow> string \<Rightarrow> cfg_value option" where
  "numberWhere ok s =
     (case js_Number s of None \<Rightarrow> None | Some x \<Rightarrow> if ok x then Some (CNum x) else None)"

text \<open>What a field makes of a variable that is set; \<open>None\<close> is an issue.\<close>

fun present_field :: "(string \<Rightarrow> string option) \<Rightarrow> field_schema \<Rightarrow> string \<Rightarrow> cfg_value option" where
  "present_field url (Url d) s = map_option CText (url s)"
| "present_field url (Text n d) s = (if n \<le> length s then Some (CText s) else None)"
| "present_field url Secret s = Some (optionalSecret (Some s))"
| "present_field url (Positive d) s = numberWhere (\<lambda>x. isSafeInteger x \<and> 0 < x) s"
| "present_field url (NonNegative d) s = numberWhere (\<lambda>x. isSafeInteger x \<and> 0 \<le> x) s"
| "present_field url (Within a b d) s = numberWhere (\<lambda>x. of_int a \<le> x \<and> x \<le> of_int b) s"
| "present_field url (OneOf cs d) s = (if s \<in> set cs then Some (CText s) else None)"
| "present_field url (Boolean d) s =
     (if s = ''true'' then Some (CBool True) else if s = ''false'' then Some (CBool False) else None)"
| "present_field url (Csv d) s = Some (CList (csvString s))"

text \<open>What it makes of one that is not set: its default, or an issue where it has none.\<close>

fun absent_field :: "field_schema \<Rightarrow> cfg_value option" where
  "absent_field (Url d) = map_option CText d"
| "absent_field (Text n d) = map_option CText d"
| "absent_field Secret = Some (optionalSecret None)"
| "absent_field (Positive d) = Some (CNum (of_int d))"
| "absent_field (NonNegative d) = Some (CNum (of_int d))"
| "absent_field (Within a b d) = map_option CNum (js_Number d)"
| "absent_field (OneOf cs d) = Some (CText d)"
| "absent_field (Boolean d) = Some (CBool d)"
| "absent_field (Csv d) = Some (CList d)"

definition parse_field :: "(string \<Rightarrow> string option) \<Rightarrow> field_schema \<Rightarrow> string option \<Rightarrow> cfg_value option" where
  "parse_field url f v = (case v of None \<Rightarrow> absent_field f | Some s \<Rightarrow> present_field url f s)"

definition envSchema :: "(string \<times> field_schema) list" where
  "envSchema = [
     (''DATABASE_URL'', Url None),
     (''JUDGE0_API_URL'', Url None),
     (''JUDGE0_API_KEY'', Text 1 None),
     (''JUDGE0_DAILY_LIMIT'', Positive 100),
     (''GROQ_API_KEY'', Secret),
     (''GROQ_MODEL'', Text 0 (Some ''llama-3.3-70b-versatile'')),
     (''GROQ_API_URL'', Url (Some ''https://api.groq.com/openai/v1/chat/completions'')),
     (''LEETCODE_GRAPHQL_URL'', Url (Some ''https://leetcode.com/graphql'')),
     (''PORT'', Positive 3001),
     (''NODE_ENV'', OneOf [''development'', ''production'', ''test''] ''development''),
     (''CORS_ORIGIN'', Text 0 (Some ''http://localhost:5173'')),
     (''ALLOWED_ORIGINS'', Csv [''http://localhost:5173'']),
     (''LOG_LEVEL'', OneOf [''fatal'', ''error'', ''warn'', ''info'', ''debug'', ''trace''] ''info''),
     (''RATE_LIMIT_ROOM_CREATE'', Positive 10),
     (''RATE_LIMIT_WS_CONNECT'', Positive 20),
     (''RATE_LIMIT_JOIN'', Positive 30),
     (''RATE_LIMIT_IMPORT'', Positive 10),
     (''RATE_LIMIT_ACCESS_LOGIN'', Positive 10),
     (''RATE_LIMIT_ROOM_LOOKUP'', Positive 60),
     (''RELIABILITY_STORE'', OneOf [''memory'', ''redis''] ''memory''),
     (''REDIS_URL'', Secret),
     (''REDIS_CONNECT_TIMEOUT_MS'', Positive 1000),
     (''TRUSTED_PROXY_IPS'', Csv []),
     (''ENABLE_PRIVATE_ACCESS'', Boolean False),
     (''ACCESS_SESSION_SECRET'', Secret),
     (''ACCESS_SESSION_TTL_DAYS'', Positive 30),
     (''ACCESS_COOKIE_NAME'', Text 1 (Some ''codeshare_access'')),
     (''ACCESS_REVALIDATION_INTERVAL_MS'', Positive 15000),
     (''ENABLE_PROBLEM_IMPORT'', Boolean False),
     (''ENABLE_LLM_HINT_FALLBACK'', Boolean False),
     (''ENABLE_IMPORTED_PROBLEM_HINTS'', Boolean False),
     (''MAX_SOCKET_EVENT_BYTES'', Positive 16384),
     (''MAX_CODE_BYTES'', Positive 65536),
     (''MAX_YJS_MESSAGE_BYTES'', Positive 32768),
     (''MAX_YJS_DOC_BYTES'', Positive 65536),
     (''MAX_LLM_CALLS_PER_ROOM'', Positive 15),
     (''LLM_CALLS_PER_HOUR_PER_IP'', Positive 20),
     (''LLM_DAILY_LIMIT'', Positive 500),
     (''MAX_LLM_PROMPT_CHARS'', Positive 12000),
     (''MAX_LLM_HINT_CHARS'', Positive 1500),
     (''MAX_ACTIVE_ROOMS'', Positive 500),
     (''ROOM_IDLE_TTL_MS'', Positive (30 * 60 * 1000)),
     (''ROOM_SWEEP_INTERVAL_MS'', Positive 60000),
     (''ROOM_GRACE_PERIOD_MS'', Positive GRACE_PERIOD_MS),
     (''ROOM_HINT_CONSENT_MS'', Positive HINT_CONSENT_MS),
     (''ROOM_HINT_COOLDOWN_MS'', Positive 5000),
     (''ROOM_MAX_SUBMISSIONS'', Positive (int MAX_SUBMISSIONS)),
     (''ROOM_MAX_IMPORTS'', Positive (int MAX_IMPORTS)),
     (''ROOM_MAX_CUSTOM_TEST_CASES'', Positive (int MAX_CUSTOM_TEST_CASES)),
     (''IMPORTS_DAILY_LIMIT'', Positive IMPORTS_DAILY),
     (''JUDGE0_EXEC_PER_HOUR_PER_IP'', Positive 30),
     (''JUDGE0_MAX_IN_FLIGHT'', Positive 4),
     (''JUDGE0_MAX_QUEUE'', NonNegative 20),
     (''IMPORT_MAX_IN_FLIGHT'', Positive 2),
     (''IMPORT_MAX_QUEUE'', NonNegative 10),
     (''LLM_MAX_IN_FLIGHT'', Positive 2),
     (''LLM_MAX_QUEUE'', NonNegative 10),
     (''JUDGE0_REQUEST_TIMEOUT_MS'', Positive JUDGE0_REQUEST_MS),
     (''GROQ_MAX_TOKENS'', Positive 512),
     (''GROQ_TEMPERATURE'', Within 0 2 ''0.6''),
     (''GROQ_REQUEST_TIMEOUT_MS'', Positive 15000),
     (''LEETCODE_REQUEST_TIMEOUT_MS'', Positive 10000),
     (''JUDGE0_CB_FAILURE_THRESHOLD'', Positive 5),
     (''JUDGE0_CB_RESET_TIMEOUT_MS'', Positive 30000),
     (''GROQ_CB_FAILURE_THRESHOLD'', Positive 5),
     (''GROQ_CB_RESET_TIMEOUT_MS'', Positive 30000),
     (''ENABLE_LLM_TEST_GENERATION'', Boolean False),
     (''LLM_TEST_GENERATION_MAX_CASES'', Positive 12),
     (''LLM_TEST_GEN_TEMPERATURE'', Within 0 2 ''0.3''),
     (''LLM_TEST_GEN_MAX_TOKENS'', Positive 4096),
     (''LLM_VERIFY_TEMPERATURE'', Within 0 2 ''0.1''),
     (''LLM_VERIFY_MAX_TOKENS'', Positive 256)]"

section \<open>Loading\<close>

type_synonym process_env = "string \<rightharpoonup> string"
type_synonym config = "(string \<times> cfg_value) list"

definition parse_fields ::
  "(string \<Rightarrow> string option) \<Rightarrow> process_env \<Rightarrow> (string \<times> field_schema) list \<Rightarrow> (string \<times> cfg_value option) list" where
  "parse_fields url env fs = map (\<lambda>(k, f). (k, parse_field url f (env k))) fs"

text \<open>
  \<open>Inl\<close> is the issues' paths, in the order of the schema; \<open>Inr\<close> the parsed configuration. A field with two
  issues, as a negative fraction has, is named once.
\<close>

definition safeParse :: "(string \<Rightarrow> string option) \<Rightarrow> process_env \<Rightarrow> string list + config" where
  "safeParse url env =
     (let rs = parse_fields url env envSchema; bad = map fst (filter (\<lambda>(k, r). r = None) rs)
      in if bad \<noteq> [] then Inl bad else Inr (map (\<lambda>(k, r). (k, the r)) rs))"

text \<open>The process either starts or exits with status 1 after one log line: its event or reason and its fields.\<close>

datatype startup = Exits string "string list" | Starts config

definition loadConfig :: "(string \<Rightarrow> string option) \<Rightarrow> process_env \<Rightarrow> startup" where
  "loadConfig url env =
     (case safeParse url env of
        Inl bad \<Rightarrow> Exits ''bootstrap_validation_failed'' bad
      | Inr c \<Rightarrow>
          if map_of c ''NODE_ENV'' = Some (CText ''production'')
             \<and> map_of c ''ALLOWED_ORIGINS'' = Some (CList [])
          then Exits ''production_origins_empty'' [''ALLOWED_ORIGINS'']
          else if map_of c ''ENABLE_PRIVATE_ACCESS'' = Some (CBool True)
             \<and> map_of c ''ACCESS_SESSION_SECRET'' = Some CMissing
          then Exits ''private_access_secret_missing'' [''ACCESS_SESSION_SECRET'']
          else if map_of c ''RELIABILITY_STORE'' = Some (CText ''redis'')
             \<and> map_of c ''REDIS_URL'' = Some CMissing
          then Exits ''redis_url_missing'' [''REDIS_URL'']
          else Starts c)"

section \<open>A started server is well configured\<close>

text \<open>The values of a field's type, as \<^verbatim>\<open>z.infer\<close> and the schema's checks give them.\<close>

fun value_ok :: "field_schema \<Rightarrow> cfg_value \<Rightarrow> bool" where
  "value_ok (Url d) v = (case v of CText s \<Rightarrow> True | _ \<Rightarrow> False)"
| "value_ok (Text n d) v = (case v of CText s \<Rightarrow> n \<le> length s | _ \<Rightarrow> False)"
| "value_ok Secret v = (case v of CMissing \<Rightarrow> True | CText s \<Rightarrow> s \<noteq> [] \<and> trim s = s | _ \<Rightarrow> False)"
| "value_ok (Positive d) v = (case v of CNum x \<Rightarrow> isSafeInteger x \<and> 0 < x | _ \<Rightarrow> False)"
| "value_ok (NonNegative d) v = (case v of CNum x \<Rightarrow> isSafeInteger x \<and> 0 \<le> x | _ \<Rightarrow> False)"
| "value_ok (Within a b d) v = (case v of CNum x \<Rightarrow> of_int a \<le> x \<and> x \<le> of_int b | _ \<Rightarrow> False)"
| "value_ok (OneOf cs d) v = (case v of CText s \<Rightarrow> s \<in> set cs | _ \<Rightarrow> False)"
| "value_ok (Boolean d) v = (case v of CBool b \<Rightarrow> True | _ \<Rightarrow> False)"
| "value_ok (Csv d) v = (case v of CList es \<Rightarrow> [] \<notin> set es \<and> map trim es = es | _ \<Rightarrow> False)"

fun config_typed :: "(string \<times> field_schema) list \<Rightarrow> config \<Rightarrow> bool" where
  "config_typed [] [] = True"
| "config_typed ((k, f) # fs) ((k', v) # c) = (k = k' \<and> value_ok f v \<and> config_typed fs c)"
| "config_typed _ _ = False"

lemma csvString_trimmed: "map trim (csvString s) = csvString s" "[] \<notin> set (csvString s)"
  by (auto simp: csvString_def intro!: map_idI)

lemma present_field_ok: "present_field url f s = Some v \<Longrightarrow> value_ok f v"
  by (cases f) (auto simp: numberWhere_def optionalSecret_def csvString_trimmed split: if_splits option.splits)

text \<open>A default has the field's type.\<close>

fun default_ok :: "field_schema \<Rightarrow> bool" where
  "default_ok (Text n d) = (case d of None \<Rightarrow> True | Some s \<Rightarrow> n \<le> length s)"
| "default_ok (Positive d) = (0 < d \<and> d \<le> 9007199254740991)"
| "default_ok (NonNegative d) = (0 \<le> d \<and> d \<le> 9007199254740991)"
| "default_ok (Within a b d) =
     (case exact_number (trim d) of Some x \<Rightarrow> a \<le> 0 \<and> 1 / 1000 \<le> x \<and> 2 * x \<le> of_int b \<and> x \<le> 1 | None \<Rightarrow> False)"
| "default_ok (OneOf cs d) = (d \<in> set cs)"
| "default_ok (Csv d) = ([] \<notin> set d \<and> map trim d = d)"
| "default_ok _ = True"

lemma small_double:
  assumes "1 / 1000 \<le> x" and "x \<le> 1"
  obtains v where "toDouble x = Some v" and "0 < v" and "v \<le> 2 * x"
proof -
  have "pow2 (- 1022) \<le> pow2 (- 10)" by (rule pow2_mono) simp
  also have "\<dots> \<le> x" using assms by (simp add: pow2_def)
  finally have lo: "pow2 (- 1022) \<le> x" .
  have "x \<le> pow2 0" using assms by (simp add: pow2_def)
  also have "\<dots> \<le> pow2 1022" by (rule pow2_mono) simp
  finally have hi: "x \<le> pow2 1022" .
  obtain v where v: "toDouble x = Some v" "\<bar>v - x\<bar> \<le> x * pow2 (- 53)"
    using toDouble_error [OF lo hi] .
  have "x * pow2 (- 53) < x * 1" using assms by (intro mult_strict_left_mono) (simp_all add: pow2_def)
  with v assms show thesis by (intro that [OF v(1)]) linarith+
qed

lemma absent_field_ok: "default_ok f \<Longrightarrow> absent_field f = Some v \<Longrightarrow> value_ok f v"
proof (induction f)
  case (Within a b d)
  then obtain x where x: "exact_number (trim d) = Some x" "a \<le> 0" "1 / 1000 \<le> x" "2 * x \<le> of_int b" "x \<le> 1"
    by (auto split: option.splits)
  obtain w where "toDouble x = Some w" "0 < w" "w \<le> 2 * x" by (rule small_double [OF x(3,5)])
  moreover have "(of_int a :: rat) \<le> 0" using x(2) by simp
  ultimately show ?case using Within x by (auto simp: js_Number_def)
qed (auto simp: optionalSecret_def isSafeInteger_def split: option.splits)

lemma parse_field_ok: "default_ok f \<Longrightarrow> parse_field url f v = Some w \<Longrightarrow> value_ok f w"
  by (auto simp: parse_field_def intro: present_field_ok absent_field_ok split: option.splits)

lemma defaults_ok: "list_all (\<lambda>(k, f). default_ok f) envSchema"
  by (simp add: envSchema_def IMPORTS_DAILY_def JUDGE0_REQUEST_MS_def GRACE_PERIOD_MS_def HINT_CONSENT_MS_def
      MAX_SUBMISSIONS_def MAX_IMPORTS_def MAX_CUSTOM_TEST_CASES_def trim_def trimStart_def is_ws_def
      exact_number_def unsigned_decimal_def exponent_part_def is_digit_def digit_val_def lower_char_def)

lemma parse_fields_typed:
  "list_all (\<lambda>(k, f). default_ok f) fs \<Longrightarrow> list_all (\<lambda>(k, r). r \<noteq> None) (parse_fields url env fs) \<Longrightarrow>
   config_typed fs (map (\<lambda>(k, r). (k, the r)) (parse_fields url env fs))"
  by (induction fs) (auto simp: parse_fields_def intro: parse_field_ok)

lemma safeParse_typed: "safeParse url env = Inr c \<Longrightarrow> config_typed envSchema c"
  using parse_fields_typed [OF defaults_ok, of url env]
  by (auto simp: safeParse_def Let_def filter_empty_conv list_all_iff split_beta split: if_splits)

lemma loadConfig_Starts:
  "loadConfig url env = Starts c \<Longrightarrow>
   safeParse url env = Inr c
   \<and> \<not> (map_of c ''NODE_ENV'' = Some (CText ''production'') \<and> map_of c ''ALLOWED_ORIGINS'' = Some (CList []))
   \<and> \<not> (map_of c ''ENABLE_PRIVATE_ACCESS'' = Some (CBool True) \<and> map_of c ''ACCESS_SESSION_SECRET'' = Some CMissing)
   \<and> \<not> (map_of c ''RELIABILITY_STORE'' = Some (CText ''redis'') \<and> map_of c ''REDIS_URL'' = Some CMissing)"
  by (auto simp: loadConfig_def split: sum.splits if_splits)

definition invalid_fields :: "(string \<Rightarrow> string option) \<Rightarrow> process_env \<Rightarrow> string list" where
  "invalid_fields url env = map fst (filter (\<lambda>(k, f). parse_field url f (env k) = None) envSchema)"

lemma safeParse_eq:
  "safeParse url env =
   (if invalid_fields url env \<noteq> [] then Inl (invalid_fields url env)
    else Inr (map (\<lambda>(k, r). (k, the r)) (parse_fields url env envSchema)))"
proof -
  have "map fst (filter (\<lambda>(k, r). r = None) (parse_fields url env fs))
        = map fst (filter (\<lambda>(k, f). parse_field url f (env k) = None) fs)" for fs
    by (induction fs) (auto simp: parse_fields_def)
  then show ?thesis by (simp only: safeParse_def invalid_fields_def Let_def)
qed

lemma safeParse_issues: "safeParse url env = Inl bad \<longleftrightarrow> bad = invalid_fields url env \<and> bad \<noteq> []"
  by (auto simp: safeParse_eq)


text \<open>
  The number of an empty variable is 0. Where 0 is allowed (the three queue lengths) the line
  \<^verbatim>\<open>JUDGE0_MAX_QUEUE=\<close> of an environment file therefore gives a queue of length 0 and not
  the default; where it is not, the server does not start.
\<close>

lemma empty_variable:
  "present_field url (NonNegative d) [] = Some (CNum 0)" "present_field url (Positive d) [] = None"
  by (simp_all add: numberWhere_def js_Number_def exact_number_def trim_def trimStart_def isSafeInteger_def)

text \<open>The minimal environment starts a server with the documented defaults.\<close>

definition minimal_env :: process_env where
  "minimal_env = [''DATABASE_URL'' \<mapsto> ''postgresql://db'', ''JUDGE0_API_URL'' \<mapsto> ''https://judge'', ''JUDGE0_API_KEY'' \<mapsto> ''k'']"

lemma small_double_some: "1 / 1000 \<le> x \<Longrightarrow> x \<le> 1 \<Longrightarrow> toDouble x \<noteq> None"
  by (metis small_double option.distinct(1))

lemma temperatures_round: "toDouble (3 / 5) \<noteq> None" "toDouble (3 / 10) \<noteq> None" "toDouble (1 / 10) \<noteq> None"
  by (rule small_double_some; simp)+

lemma minimal_env_starts: "invalid_fields Some minimal_env = []"
  using temperatures_round
  by (simp add: invalid_fields_def envSchema_def minimal_env_def parse_field_def js_Number_def
      exact_number_def unsigned_decimal_def exponent_part_def is_digit_def digit_val_def lower_char_def
      trim_def trimStart_def is_ws_def)

end
