(* ===== verification/Server_Startup.thy ===== *)
theory Server_Startup
  imports Configuration Room_Manager Operation_Limiter Redis_Store Access_Sessions
begin

text \<open>
  How the server is put together (\<^verbatim>\<open>apps/server/src/index.ts\<close>,
  \<^verbatim>\<open>server.ts\<close>): what each component is given of the configuration, which optional
  parts exist, and which routes are registered. A number of the configuration is an integer in every field read
  here.
\<close>

section \<open>Reading the configuration\<close>

definition cfg_int :: "config \<Rightarrow> string \<Rightarrow> int" where
  "cfg_int c k = (case map_of c k of Some (CNum x) \<Rightarrow> \<lfloor>x\<rfloor> | _ \<Rightarrow> 0)"

definition cfg_num :: "config \<Rightarrow> string \<Rightarrow> rat" where
  "cfg_num c k = (case map_of c k of Some (CNum x) \<Rightarrow> x | _ \<Rightarrow> 0)"

definition cfg_text :: "config \<Rightarrow> string \<Rightarrow> string option" where
  "cfg_text c k = (case map_of c k of Some (CText s) \<Rightarrow> Some s | _ \<Rightarrow> None)"

definition cfg_bool :: "config \<Rightarrow> string \<Rightarrow> bool" where
  "cfg_bool c k = (map_of c k = Some (CBool True))"

definition cfg_list :: "config \<Rightarrow> string \<Rightarrow> string list" where
  "cfg_list c k = (case map_of c k of Some (CList es) \<Rightarrow> es | _ \<Rightarrow> [])"

lemma config_field:
  "config_typed fs c \<Longrightarrow> map_of fs k = Some f \<Longrightarrow> \<exists>v. map_of c k = Some v \<and> value_ok f v"
  by (induction fs c rule: config_typed.induct) (auto split: if_splits)

lemma positive_field:
  assumes "config_typed envSchema c" and "map_of envSchema k = Some (Positive d)"
  shows "0 < cfg_int c k" and "cfg_int c k \<le> 9007199254740991"
proof -
  obtain v where "map_of c k = Some v" "value_ok (Positive d) v" using config_field [OF assms] by blast
  then obtain x where x: "map_of c k = Some (CNum x)" "isSafeInteger x" "0 < x" by (cases v) auto
  define n where "n = \<lfloor>x\<rfloor>"
  from x have "x = of_int n" "\<bar>x\<bar> \<le> of_int 9007199254740991" by (auto simp: isSafeInteger_def n_def)
  with x show "0 < cfg_int c k" "cfg_int c k \<le> 9007199254740991"
    by (simp_all add: cfg_int_def del: of_int_numeral)
qed

lemma nonnegative_field:
  assumes "config_typed envSchema c" and "map_of envSchema k = Some (NonNegative d)"
  shows "0 \<le> cfg_int c k"
proof -
  obtain v where "map_of c k = Some v" "value_ok (NonNegative d) v" using config_field [OF assms] by blast
  then obtain x where "map_of c k = Some (CNum x)" "0 \<le> x" by (cases v) auto
  then show ?thesis by (simp add: cfg_int_def)
qed

lemma within_field:
  assumes "config_typed envSchema c" and "map_of envSchema k = Some (Within a b d)"
  shows "of_int a \<le> cfg_num c k" and "cfg_num c k \<le> of_int b"
proof -
  obtain v where "map_of c k = Some v" "value_ok (Within a b d) v" using config_field [OF assms] by blast
  then obtain x where "map_of c k = Some (CNum x)" "of_int a \<le> x" "x \<le> of_int b" by (cases v) auto
  then show "of_int a \<le> cfg_num c k" "cfg_num c k \<le> of_int b" by (simp_all add: cfg_num_def)
qed

section \<open>The components\<close>

definition startLimiter :: "config \<Rightarrow> string \<Rightarrow> string \<Rightarrow> string \<Rightarrow> string + 'j limiter" where
  "startLimiter c nm inFlightKey queueKey = new_limiter nm (cfg_int c inFlightKey) (cfg_int c queueKey)"

definition judge0_limiter :: "config \<Rightarrow> string + 'j limiter" where
  "judge0_limiter c = startLimiter c ''judge0'' ''JUDGE0_MAX_IN_FLIGHT'' ''JUDGE0_MAX_QUEUE''"

definition imports_limiter :: "config \<Rightarrow> string + 'j limiter" where
  "imports_limiter c = startLimiter c ''imports'' ''IMPORT_MAX_IN_FLIGHT'' ''IMPORT_MAX_QUEUE''"

definition llm_limiter :: "config \<Rightarrow> string + 'j limiter" where
  "llm_limiter c = startLimiter c ''llm'' ''LLM_MAX_IN_FLIGHT'' ''LLM_MAX_QUEUE''"

definition startReliabilityStore :: "config \<Rightarrow> bool \<Rightarrow> store_choice" where
  "startReliabilityStore c connects =
     createReliabilityStore (the (cfg_text c ''RELIABILITY_STORE'')) (cfg_text c ''REDIS_URL'') connects"

definition startRoomManager :: "config \<Rightarrow> room_manager \<Rightarrow> room_manager" where
  "startRoomManager c =
     configureDefaults
       \<lparr>opt_submissionLimit = Some (nat (cfg_int c ''ROOM_MAX_SUBMISSIONS'')),
        opt_importLimit = Some (nat (cfg_int c ''ROOM_MAX_IMPORTS'')),
        opt_customTestCaseLimit = Some (nat (cfg_int c ''ROOM_MAX_CUSTOM_TEST_CASES'')),
        opt_gracePeriodMs = Some (cfg_int c ''ROOM_GRACE_PERIOD_MS'')\<rparr>
       (Some (nat (cfg_int c ''MAX_ACTIVE_ROOMS''))) (Some (cfg_int c ''ROOM_IDLE_TTL_MS''))"

definition startAccessService :: "'s access_store \<Rightarrow> config \<Rightarrow> (string + 's access_options) option" where
  "startAccessService store c =
     (if cfg_bool c ''ENABLE_PRIVATE_ACCESS''
      then Some (createAccessService
        \<lparr>ao_store = store, ao_cookieName = the (cfg_text c ''ACCESS_COOKIE_NAME''),
         ao_sessionSecret = (case cfg_text c ''ACCESS_SESSION_SECRET'' of None \<Rightarrow> [] | Some s \<Rightarrow> s),
         ao_sessionTtlDays = nat (cfg_int c ''ACCESS_SESSION_TTL_DAYS''),
         ao_secureCookies = (cfg_text c ''NODE_ENV'' = Some ''production'')\<rparr>)
      else None)"

text \<open>The model client exists with a key, the generator of test cases with the client and its switch.\<close>

definition has_groq :: "config \<Rightarrow> bool" where
  "has_groq c = truthy_text (cfg_text c ''GROQ_API_KEY'')"

definition has_generator :: "config \<Rightarrow> bool" where
  "has_generator c \<longleftrightarrow> has_groq c \<and> cfg_bool c ''ENABLE_LLM_TEST_GENERATION''"

record generator_options =
  go_maxCases :: nat
  go_genTemperature :: rat
  go_genMaxTokens :: nat
  go_verifyTemperature :: rat
  go_verifyMaxTokens :: nat

definition startTestCaseGenerator :: "config \<Rightarrow> generator_options option" where
  "startTestCaseGenerator c =
     (if has_generator c
      then Some \<lparr>go_maxCases = nat (cfg_int c ''LLM_TEST_GENERATION_MAX_CASES''),
                 go_genTemperature = cfg_num c ''LLM_TEST_GEN_TEMPERATURE'',
                 go_genMaxTokens = nat (cfg_int c ''LLM_TEST_GEN_MAX_TOKENS''),
                 go_verifyTemperature = cfg_num c ''LLM_VERIFY_TEMPERATURE'',
                 go_verifyMaxTokens = nat (cfg_int c ''LLM_VERIFY_MAX_TOKENS'')\<rparr>
      else None)"

datatype route_group = HealthRoutes | AccessRoutes | RoomRoutes | ProblemRoutes | DevLogRoutes | TestRoutes

definition registered_routes :: "config \<Rightarrow> route_group list" where
  "registered_routes c =
     [HealthRoutes, AccessRoutes, RoomRoutes, ProblemRoutes]
     @ (if cfg_text c ''NODE_ENV'' \<noteq> Some ''production'' then [DevLogRoutes] else [])
     @ (if cfg_text c ''NODE_ENV'' = Some ''test'' then [TestRoutes] else [])"

lemma production_routes:
  "cfg_text c ''NODE_ENV'' = Some ''production'' \<Longrightarrow> DevLogRoutes \<notin> set (registered_routes c) \<and> TestRoutes \<notin> set (registered_routes c)"
  by (simp add: registered_routes_def)

lemma schema_fields:
  "map_of envSchema ''JUDGE0_MAX_IN_FLIGHT'' = Some (Positive 4)" "map_of envSchema ''JUDGE0_MAX_QUEUE'' = Some (NonNegative 20)"
  "map_of envSchema ''IMPORT_MAX_IN_FLIGHT'' = Some (Positive 2)" "map_of envSchema ''IMPORT_MAX_QUEUE'' = Some (NonNegative 10)"
  "map_of envSchema ''LLM_MAX_IN_FLIGHT'' = Some (Positive 2)" "map_of envSchema ''LLM_MAX_QUEUE'' = Some (NonNegative 10)"
  "map_of envSchema ''RELIABILITY_STORE'' = Some (OneOf [''memory'', ''redis''] ''memory'')"
  "map_of envSchema ''REDIS_URL'' = Some Secret" "map_of envSchema ''ACCESS_SESSION_SECRET'' = Some Secret"
  "map_of envSchema ''MAX_ACTIVE_ROOMS'' = Some (Positive 500)"
  "map_of envSchema ''NODE_ENV'' = Some (OneOf [''development'', ''production'', ''test''] ''development'')"
  "map_of envSchema ''ENABLE_PRIVATE_ACCESS'' = Some (Boolean False)"
  "map_of envSchema ''LLM_TEST_GENERATION_MAX_CASES'' = Some (Positive 12)"
  "map_of envSchema ''LLM_TEST_GEN_TEMPERATURE'' = Some (Within 0 2 ''0.3'')"
  "map_of envSchema ''LLM_TEST_GEN_MAX_TOKENS'' = Some (Positive 4096)"
  "map_of envSchema ''LLM_VERIFY_TEMPERATURE'' = Some (Within 0 2 ''0.1'')"
  "map_of envSchema ''LLM_VERIFY_MAX_TOKENS'' = Some (Positive 256)"
  "map_of envSchema ''ENABLE_LLM_TEST_GENERATION'' = Some (Boolean False)"
  "map_of envSchema ''GROQ_API_KEY'' = Some Secret"
  by code_simp+

lemma startLimiter_builds:
  assumes "config_typed envSchema c" and "map_of envSchema a = Some (Positive d)" and "map_of envSchema b = Some (NonNegative e)"
  shows "\<exists>l :: 'j limiter. startLimiter c nm a b = Inr l \<and> lim_inv l"
proof -
  have "0 < cfg_int c a" "0 \<le> cfg_int c b"
    using positive_field [OF assms(1,2)] nonnegative_field [OF assms(1,3)] by simp_all
  then show ?thesis by (auto simp: startLimiter_def new_limiter_def lim_inv_def)
qed

lemma enum_field:
  assumes "config_typed envSchema c" and "map_of envSchema k = Some (OneOf cs d)"
  obtains s where "cfg_text c k = Some s" and "s \<in> set cs"
proof -
  obtain v where "map_of c k = Some v" "value_ok (OneOf cs d) v" using config_field [OF assms] by blast
  then show thesis using that by (cases v) (auto simp: cfg_text_def)
qed

lemma secret_field:
  assumes "config_typed envSchema c" and "map_of envSchema k = Some Secret" and "map_of c k \<noteq> Some CMissing"
  shows "truthy_text (cfg_text c k)"
proof -
  obtain v where "map_of c k = Some v" "value_ok Secret v" using config_field [OF assms(1,2)] by blast
  then show ?thesis using assms(3) by (cases v) (auto simp: cfg_text_def)
qed

lemma generator_options_ok:
  assumes "config_typed envSchema c"
  shows "case startTestCaseGenerator c of
      None \<Rightarrow> \<not> (truthy_text (cfg_text c ''GROQ_API_KEY'') \<and> cfg_bool c ''ENABLE_LLM_TEST_GENERATION'')
    | Some g \<Rightarrow> truthy_text (cfg_text c ''GROQ_API_KEY'') \<and> cfg_bool c ''ENABLE_LLM_TEST_GENERATION''
        \<and> 0 < go_maxCases g \<and> 0 < go_genMaxTokens g \<and> 0 < go_verifyMaxTokens g
        \<and> 0 \<le> go_genTemperature g \<and> go_genTemperature g \<le> 2 \<and> 0 \<le> go_verifyTemperature g \<and> go_verifyTemperature g \<le> 2"
  using positive_field(1) [OF assms schema_fields(13)] positive_field(1) [OF assms schema_fields(15)]
    positive_field(1) [OF assms schema_fields(17)] within_field [OF assms schema_fields(14)] within_field [OF assms schema_fields(16)]
  by (simp add: startTestCaseGenerator_def has_generator_def has_groq_def)

text \<open>C33: a configuration that is accepted never makes a component refuse to be built: the three limiters exist and
satisfy their invariant, the reliability store is the one chosen (when Redis can be reached), the access service exists whenever
private access is on, the generator of test cases exists exactly with a key and its switch and has positive limits and temperatures
from 0 to 2, and the room manager admits at least one room.\<close>

theorem accepted_config_builds_every_component:
  assumes "loadConfig url env = Starts c"
  shows "(\<exists>(j :: 'j limiter) (i :: 'j limiter) (l :: 'j limiter). judge0_limiter c = Inr j \<and> imports_limiter c = Inr i \<and> llm_limiter c = Inr l
            \<and> lim_inv j \<and> lim_inv i \<and> lim_inv l)
    \<and> startReliabilityStore c True
        = (if cfg_text c ''RELIABILITY_STORE'' = Some ''memory'' then MemoryStore else RedisStore (the (cfg_text c ''REDIS_URL'')))
    \<and> (case startAccessService store c of None \<Rightarrow> \<not> cfg_bool c ''ENABLE_PRIVATE_ACCESS''
       | Some r \<Rightarrow> r = Inr (projr r))
    \<and> (case startTestCaseGenerator c of
         None \<Rightarrow> \<not> (truthy_text (cfg_text c ''GROQ_API_KEY'') \<and> cfg_bool c ''ENABLE_LLM_TEST_GENERATION'')
       | Some g \<Rightarrow> truthy_text (cfg_text c ''GROQ_API_KEY'') \<and> cfg_bool c ''ENABLE_LLM_TEST_GENERATION''
           \<and> 0 < go_maxCases g \<and> 0 < go_genMaxTokens g \<and> 0 < go_verifyMaxTokens g
           \<and> 0 \<le> go_genTemperature g \<and> go_genTemperature g \<le> 2 \<and> 0 \<le> go_verifyTemperature g \<and> go_verifyTemperature g \<le> 2)
    \<and> 0 < maxActiveRooms (startRoomManager c mgr)"
proof -
  have g: "safeParse url env = Inr c"
    "\<not> (map_of c ''ENABLE_PRIVATE_ACCESS'' = Some (CBool True) \<and> map_of c ''ACCESS_SESSION_SECRET'' = Some CMissing)"
    "\<not> (map_of c ''RELIABILITY_STORE'' = Some (CText ''redis'') \<and> map_of c ''REDIS_URL'' = Some CMissing)"
    using loadConfig_Starts [OF assms] by blast+
  have t: "config_typed envSchema c" by (rule safeParse_typed [OF g(1)])
  have lim: "\<exists>j :: 'j limiter. judge0_limiter c = Inr j \<and> lim_inv j" "\<exists>j :: 'j limiter. imports_limiter c = Inr j \<and> lim_inv j"
    "\<exists>j :: 'j limiter. llm_limiter c = Inr j \<and> lim_inv j"
    unfolding judge0_limiter_def imports_limiter_def llm_limiter_def
    by (rule startLimiter_builds [OF t]; rule schema_fields)+
  obtain kind where k: "cfg_text c ''RELIABILITY_STORE'' = Some kind" "kind \<in> set [''memory'', ''redis'']"
    by (rule enum_field [OF t schema_fields(7)])
  have store: "startReliabilityStore c True
      = (if cfg_text c ''RELIABILITY_STORE'' = Some ''memory'' then MemoryStore else RedisStore (the (cfg_text c ''REDIS_URL'')))"
  proof (cases "kind = ''memory''")
    case False
    with k have "map_of c ''RELIABILITY_STORE'' = Some (CText ''redis'')"
      by (auto simp: cfg_text_def split: option.splits cfg_value.splits)
    with g(3) have "map_of c ''REDIS_URL'' \<noteq> Some CMissing" by blast
    then have "truthy_text (cfg_text c ''REDIS_URL'')" by (rule secret_field [OF t schema_fields(8)])
    with False k show ?thesis by (simp add: startReliabilityStore_def createReliabilityStore_def)
  qed (simp add: startReliabilityStore_def createReliabilityStore_def k)
  have access: "case startAccessService store c of None \<Rightarrow> \<not> cfg_bool c ''ENABLE_PRIVATE_ACCESS'' | Some r \<Rightarrow> r = Inr (projr r)"
  proof (cases "cfg_bool c ''ENABLE_PRIVATE_ACCESS''")
    case True
    with g(2) have "map_of c ''ACCESS_SESSION_SECRET'' \<noteq> Some CMissing" by (simp add: cfg_bool_def)
    then have "truthy_text (cfg_text c ''ACCESS_SESSION_SECRET'')" by (rule secret_field [OF t schema_fields(9)])
    with True show ?thesis
      by (auto simp: startAccessService_def createAccessService_def truthy_text_def)
  qed (simp add: startAccessService_def)
  have "0 < maxActiveRooms (startRoomManager c mgr)"
    using positive_field(1) [OF t schema_fields(10)] by (simp add: startRoomManager_def configureDefaults_def orElse_def)
  moreover note generator_options_ok [OF t]
  ultimately show ?thesis using lim store access by blast
qed

lemma parsed_field:
  "map_of (map (\<lambda>(k, r). (k, the r)) (parse_fields url env fs)) k = map_option (\<lambda>f. the (parse_field url f (env k))) (map_of fs k)"
  by (induction fs) (auto simp: parse_fields_def)

lemma minimal_env_config: "\<exists>c. loadConfig Some minimal_env = Starts c"
proof -
  have s: "safeParse Some minimal_env = Inr (map (\<lambda>(k, r). (k, the r)) (parse_fields Some minimal_env envSchema))" (is "_ = Inr ?c")
    by (simp add: safeParse_eq minimal_env_starts)
  have "minimal_env ''NODE_ENV'' = None" "minimal_env ''ENABLE_PRIVATE_ACCESS'' = None" "minimal_env ''RELIABILITY_STORE'' = None"
    by (simp_all add: minimal_env_def)
  then have "map_of ?c ''NODE_ENV'' = Some (CText ''development'')" "map_of ?c ''ENABLE_PRIVATE_ACCESS'' = Some (CBool False)"
    "map_of ?c ''RELIABILITY_STORE'' = Some (CText ''memory'')"
    by (simp_all only: parsed_field schema_fields option.map) (simp_all add: parse_field_def)
  with s show ?thesis by (simp add: loadConfig_def)
qed

text \<open>An environment with a key and the switch starts a server that has the generator.\<close>

definition generator_env :: process_env where
  "generator_env = minimal_env(''GROQ_API_KEY'' \<mapsto> ''k'', ''ENABLE_LLM_TEST_GENERATION'' \<mapsto> ''true'')"

lemma generator_exists: "\<exists>c. loadConfig Some generator_env = Starts c \<and> startTestCaseGenerator c \<noteq> None"
proof -
  have "parse_field Some f (generator_env k) \<noteq> None" if "(k, f) \<in> set envSchema" for k f
  proof (cases "k = ''GROQ_API_KEY'' \<or> k = ''ENABLE_LLM_TEST_GENERATION''")
    case True
    have "distinct (map fst envSchema)" by code_simp
    then have "map_of envSchema k = Some f" using that by (rule map_of_is_SomeI)
    with True show ?thesis
      using schema_fields(18,19) by (auto simp: generator_env_def parse_field_def)
  next
    case False
    then have "generator_env k = minimal_env k" by (simp add: generator_env_def)
    then show ?thesis using minimal_env_starts that by (auto simp: invalid_fields_def filter_empty_conv)
  qed
  then have "invalid_fields Some generator_env = []" by (auto simp: invalid_fields_def filter_empty_conv)
  then have s: "safeParse Some generator_env = Inr (map (\<lambda>(k, r). (k, the r)) (parse_fields Some generator_env envSchema))" (is "_ = Inr ?c")
    by (simp add: safeParse_eq)
  have "generator_env ''NODE_ENV'' = None" "generator_env ''ENABLE_PRIVATE_ACCESS'' = None" "generator_env ''RELIABILITY_STORE'' = None"
    "generator_env ''GROQ_API_KEY'' = Some ''k''" "generator_env ''ENABLE_LLM_TEST_GENERATION'' = Some ''true''"
    by (simp_all add: generator_env_def minimal_env_def)
  then have "map_of ?c ''NODE_ENV'' = Some (CText ''development'')" "map_of ?c ''ENABLE_PRIVATE_ACCESS'' = Some (CBool False)"
    "map_of ?c ''RELIABILITY_STORE'' = Some (CText ''memory'')" "map_of ?c ''GROQ_API_KEY'' = Some (optionalSecret (Some ''k''))"
    "map_of ?c ''ENABLE_LLM_TEST_GENERATION'' = Some (CBool True)"
    by (simp_all only: parsed_field schema_fields option.map) (simp_all add: parse_field_def)
  moreover have "optionalSecret (Some ''k'') = CText ''k''" by code_simp
  ultimately have "loadConfig Some generator_env = Starts ?c" "has_generator ?c"
    using s by (simp_all add: loadConfig_def has_generator_def has_groq_def cfg_text_def cfg_bool_def truthy_text_def)
  then show ?thesis by (auto simp: startTestCaseGenerator_def)
qed

theorem accepted_config_builds_every_component_witness:
  "\<exists>c. loadConfig Some minimal_env = Starts c \<and> 0 < maxActiveRooms (startRoomManager c initial_manager)"
  using minimal_env_config accepted_config_builds_every_component [of Some minimal_env _ _ initial_manager] by blast

end
