(* ===== verification/Load_Metrics.thy ===== *)
theory Load_Metrics
  imports Js_Number
begin

text \<open>
  The measurements of the load tests (\<^verbatim>\<open>load-tests/src/lib/metrics.ts\<close> and
  \<^verbatim>\<open>assertions.ts\<close>). Samples are finite numbers, given by their exact values;
  products and quotients are rounded to doubles as JavaScript rounds them.
\<close>

section \<open>Percentiles\<close>

type_synonym tracker = "rat list"

definition record_sample :: "rat \<Rightarrow> tracker \<Rightarrow> tracker" where
  "record_sample x s = s @ [x]"

definition tracker_max :: "tracker \<Rightarrow> rat" where
  "tracker_max s = (if s = [] then 0 else Max (set s))"

definition tracker_count :: "tracker \<Rightarrow> nat" where
  "tracker_count s = length s"

definition tracker_reset :: "tracker \<Rightarrow> tracker" where
  "tracker_reset s = []"

text \<open>
  \<^verbatim>\<open>Math.ceil(p * n) - 1\<close>: the product is a double. A finite product is all that
  occurs; for another one the index is 0.
\<close>

definition rank_index :: "rat \<Rightarrow> nat \<Rightarrow> int" where
  "rank_index p n = (case toDouble (p * of_nat n) of None \<Rightarrow> 0 | Some x \<Rightarrow> \<lceil>x\<rceil> - 1)"

definition percentile :: "rat \<Rightarrow> tracker \<Rightarrow> rat" where
  "percentile p s = (if s = [] then 0 else sort s ! nat (max 0 (rank_index p (length s))))"

text \<open>The doubles of the literals \<^verbatim>\<open>0.5\<close> and \<^verbatim>\<open>0.95\<close>; the second is a little below 19/20.\<close>

definition p50 :: "tracker \<Rightarrow> rat" where
  "p50 s = percentile (1 / 2) s"

definition p95_literal :: rat where
  "p95_literal = 8556839292003942 / 2 ^ 53"

definition p95 :: "tracker \<Rightarrow> rat" where
  "p95 s = percentile p95_literal s"

lemma exponent_unique: "pow2 k \<le> r \<Longrightarrow> r < pow2 (k + 1) \<Longrightarrow> exponent r = k"
proof -
  assume lo: "pow2 k \<le> r" and hi: "r < pow2 (k + 1)"
  have r: "0 < r" using lo pow2_pos [of k] by linarith
  note b = exponent_bounds [OF r]
  have "pow2 k < pow2 (exponent r + 1)" "pow2 (exponent r) < pow2 (k + 1)" using b lo hi by linarith+
  then have "k < exponent r + 1" "exponent r < k + 1" by (auto dest: pow2_less_imp_less)
  then show ?thesis by linarith
qed

text \<open>A number close enough to a multiple of one half is rounded to it.\<close>

lemma toDouble_half:
  assumes lo: "1 / 2 \<le> x" and hi: "x < pow2 50"
    and near: "\<bar>x - of_int k / 2\<bar> < pow2 (exponent x - 53)"
  shows "toDouble x = Some (of_int k / 2)"
proof -
  let ?e = "exponent x"
  have x: "0 < x" using lo by linarith
  note b = exponent_bounds [OF x]
  have "pow2 (- 1) < pow2 (?e + 1)" using b lo by (simp add: pow2_def [of "- 1"])
  then have e0: "- 1 \<le> ?e" using pow2_less_imp_less by fastforce
  have "pow2 ?e < pow2 50" using b hi by linarith
  then have e1: "?e < 50" by (rule pow2_less_imp_less)
  define u where "u = pow2 (?e - 52)"
  have u0: "0 < u" by (simp add: u_def)
  have u: "u = 1 / 2 ^ nat (52 - ?e)" using e1 by (auto simp: u_def pow2_def)
  have u': "u = pow2 1 * pow2 (?e - 53)" by (simp add: u_def flip: pow2_add)
  have s: "nat (52 - ?e) = Suc (nat (51 - ?e))" using e1 by linarith
  have i: "of_int k / 2 / u = of_int (k * 2 ^ nat (51 - ?e))" by (simp add: u s)
  have "\<bar>x / u - of_int (k * 2 ^ nat (51 - ?e))\<bar> = \<bar>x - of_int k / 2\<bar> / u"
    using u0 by (simp only: i [symmetric] diff_divide_distrib [symmetric] abs_divide abs_of_pos)
  also have "\<dots> < 1 / 2" using near u0 by (simp add: u' pow2_def [of 1] field_simps)
  finally have "roundHalfEven (x / u) = k * 2 ^ nat (51 - ?e)" by (rule roundHalfEven_near)
  then have v: "of_int (roundHalfEven (x / u)) * u = of_int k / 2" using u0 i by (simp add: field_simps)
  have "pow2 (?e - 53) \<le> pow2 0" using e1 by (intro pow2_mono) simp
  then have "of_int k / 2 < pow2 50 + pow2 0" using near hi by linarith
  also have "\<dots> \<le> pow2 50 + pow2 50" by (intro add_left_mono pow2_mono) simp
  also have "\<dots> = pow2 51" by (simp add: pow2_def)
  also have "\<dots> \<le> pow2 1024" by (rule pow2_mono) simp
  finally have "\<not> pow2 1024 \<le> of_int k / 2" by simp
  moreover have "max (?e - 52) (- 1074) = ?e - 52" using e0 by simp
  ultimately show ?thesis using v x by (simp add: toDouble_def Let_def u_def)
qed

lemma p95_literal_is_double: "toDouble (95 / 100) = Some p95_literal"
proof -
  have "exponent (19 / 20) = - 1" by (rule exponent_unique) (simp_all add: pow2_def)
  moreover have "roundHalfEven (19 / 20 / pow2 (- 53)) = 8556839292003942"
    by (rule roundHalfEven_near) (simp add: pow2_def)
  moreover have "(8556839292003942 :: rat) * pow2 (- 53) < pow2 1024"
    using pow2_mono [of 0 1024] by (simp add: pow2_def [of 0] pow2_def [of "- 53"])
  ultimately show ?thesis by (simp add: toDouble_def Let_def p95_literal_def pow2_def [of "- 53"])
qed

text \<open>The median's index.\<close>

lemma half_rank: "0 < n \<Longrightarrow> n < 2 ^ 40 \<Longrightarrow> rank_index (1 / 2) n = \<lceil>of_nat n / (2 :: rat)\<rceil> - 1"
proof -
  assume n: "0 < n" "n < 2 ^ 40"
  let ?x = "of_int (int n) / (2 :: rat)"
  have "(of_nat n :: rat) < of_nat (2 ^ 40)" using n by (simp only: of_nat_less_iff)
  also have "\<dots> \<le> pow2 50" by (simp add: pow2_def)
  finally have "?x < pow2 50" by simp
  moreover have "1 / 2 \<le> ?x" using n by simp
  ultimately have "toDouble ?x = Some ?x" by (intro toDouble_half) simp_all
  then show ?thesis by (simp add: rank_index_def)
qed

text \<open>The 95th percentile's: exact although the literal is not.\<close>

lemma p95_rank_double:
  assumes n: "0 < n" "n < 2 ^ 40"
  obtains v where "toDouble (p95_literal * of_nat n) = Some v" and "\<lceil>v\<rceil> = \<lceil>19 * of_nat n / (20 :: rat)\<rceil>"
proof -
  let ?x = "p95_literal * of_nat n" and ?y = "19 * of_nat n / (20 :: rat)"
  have n1: "(1 :: rat) \<le> of_nat n" using n by simp
  have nb: "(of_nat n :: rat) < 2 ^ 40" using n by (metis of_nat_less_iff of_nat_numeral of_nat_power)
  have d: "?y - ?x = of_nat n * (2 / 5 / 2 ^ 53)" by (simp add: p95_literal_def field_simps)
  have lo: "1 / 2 \<le> ?x" using n1 by (simp add: p95_literal_def field_simps)
  have hi: "?x < 2 ^ 40" using nb by (simp add: p95_literal_def field_simps)
  then have hi50: "?x < pow2 50" by (simp add: pow2_def)
  show thesis
  proof (cases "\<exists>m. ?y = of_int m")
    case True
    then obtain m where m: "?y = of_int m" ..
    have "?x < pow2 (exponent ?x + 1)" using lo by (intro exponent_bounds) linarith
    also have "\<dots> = pow2 54 * pow2 (exponent ?x - 53)" by (simp add: add.commute flip: pow2_add)
    finally have "?x / 2 ^ 54 < pow2 (exponent ?x - 53)" by (simp add: pow2_def [of 54] field_simps)
    moreover have "?y - ?x < ?x / 2 ^ 54" using n1 unfolding d by (simp add: p95_literal_def field_simps)
    moreover have "0 \<le> ?y - ?x" unfolding d by simp
    ultimately have "\<bar>?x - of_int (2 * m) / 2\<bar> < pow2 (exponent ?x - 53)" using m by simp
    from toDouble_half [OF lo hi50 this] m have "toDouble ?x = Some ?y" by simp
    then show ?thesis by (rule that [OF _ refl])
  next
    case False
    have "pow2 (- 1022) \<le> pow2 (- 1)" by (rule pow2_mono) simp
    also have "\<dots> \<le> ?x" using lo by (simp add: pow2_def)
    finally have "pow2 (- 1022) \<le> ?x" .
    moreover have "?x \<le> pow2 1022" using hi50 pow2_mono [of 50 1022] by simp
    ultimately obtain v where v: "toDouble ?x = Some v" "\<bar>v - ?x\<bar> \<le> ?x * pow2 (- 53)"
      by (rule toDouble_error)
    have "?x * pow2 (- 53) < 1 / 100" using hi by (simp add: pow2_def)
    moreover have "?y - ?x < 1 / 100" using nb unfolding d by simp
    moreover have "0 \<le> ?y - ?x" unfolding d by simp
    ultimately have near: "\<bar>v - ?y\<bar> < 1 / 20" using v(2) by linarith
    define c where "c = \<lceil>?y\<rceil>"
    have c: "of_int c - 1 < ?y" "?y \<le> of_int c" unfolding c_def by linarith+
    then have "(20 * of_int c - 20 :: rat) < 19 * of_nat n" "(19 * of_nat n :: rat) < 20 * of_int c"
      using False by (auto simp: field_simps less_le)
    then have "of_int (20 * c - 20) < (of_int (19 * int n) :: rat)" "(of_int (19 * int n) :: rat) < of_int (20 * c)"
      by simp_all
    then have "20 * c - 19 \<le> 19 * int n" "19 * int n \<le> 20 * c - 1" unfolding of_int_less_iff by linarith+
    then have "of_int (20 * c - 19) \<le> (of_int (19 * int n) :: rat)" "(of_int (19 * int n) :: rat) \<le> of_int (20 * c - 1)"
      unfolding of_int_le_iff .
    then have "of_int c - 1 + 1 / 20 \<le> ?y" "?y \<le> of_int c - 1 / 20" by (simp_all add: field_simps)
    with near have "of_int c - 1 < v" "v \<le> of_int c" by linarith+
    then have "\<lceil>v\<rceil> = c" by (simp add: ceiling_unique)
    with v(1) show ?thesis unfolding c_def by (rule that)
  qed
qed

text \<open>How many elements of a sorted list lie below the one at an index.\<close>

lemma sorted_below:
  assumes "sorted xs" and i: "i < length xs"
  shows "Suc i \<le> length (filter (\<lambda>x. x \<le> xs ! i) xs)" and "length (filter (\<lambda>x. x < xs ! i) xs) \<le> i"
proof -
  have le: "\<forall>x \<in> set (take (Suc i) xs). x \<le> xs ! i"
    using assms by (auto simp: in_set_conv_nth sorted_iff_nth_mono)
  have ge: "\<forall>x \<in> set (drop i xs). \<not> x < xs ! i"
    using assms by (auto simp: in_set_conv_nth sorted_iff_nth_mono not_less)
  have f: "filter P xs = filter P (take k xs) @ filter P (drop k xs)" for P k
    by (metis append_take_drop_id filter_append)
  show "Suc i \<le> length (filter (\<lambda>x. x \<le> xs ! i) xs)"
    using i le by (subst f [of _ "Suc i"]) (simp add: filter_id_conv [THEN iffD2])
  show "length (filter (\<lambda>x. x < xs ! i) xs) \<le> i"
    using i ge by (subst f [of _ i]) (simp add: filter_False le_trans [OF length_filter_le])
qed

lemma length_filter_sort: "length (filter P (sort xs)) = length (filter P xs)"
  by (metis filter_sort length_sort)

text \<open>over fewer than 2^40 samples the two percentiles are the nearest-rank percentiles, although 0.95 is not a double:
at least 95% of the samples are at most the 95th percentile and fewer than 95% are below it, and at least
half of them are at most the median and fewer than half below it.\<close>

theorem percentiles_are_nearest_ranks:
  assumes "s \<noteq> []" and "length s < 2 ^ 40"
  shows "19 * length s \<le> 20 * length (filter (\<lambda>x. x \<le> p95 s) s)
       \<and> 20 * length (filter (\<lambda>x. x < p95 s) s) < 19 * length s
       \<and> length s \<le> 2 * length (filter (\<lambda>x. x \<le> p50 s) s)
       \<and> 2 * length (filter (\<lambda>x. x < p50 s) s) < length s"
proof -
  let ?n = "length s"
  have n: "0 < ?n" using assms by simp
  obtain v where "toDouble (p95_literal * of_nat ?n) = Some v" "\<lceil>v\<rceil> = \<lceil>19 * of_nat ?n / (20 :: rat)\<rceil>"
    by (rule p95_rank_double [OF n assms(2)])
  then have r95: "rank_index p95_literal ?n = \<lceil>19 * of_nat ?n / (20 :: rat)\<rceil> - 1" by (simp add: rank_index_def)
  have r50: "rank_index (1 / 2) ?n = \<lceil>of_nat ?n / (2 :: rat)\<rceil> - 1" by (rule half_rank [OF n assms(2)])
  have below: "b * length s \<le> a * length (filter (\<lambda>x. x \<le> percentile p s) s)
      \<and> a * length (filter (\<lambda>x. x < percentile p s) s) < b * length s"
    if r: "rank_index p ?n = \<lceil>of_nat b * of_nat ?n / (of_nat a :: rat)\<rceil> - 1" and ab: "0 < b" "b < a" for a b p
  proof -
    define c where "c = \<lceil>of_nat b * of_nat ?n / (of_nat a :: rat)\<rceil>"
    have "of_int c - 1 < of_nat b * of_nat ?n / (of_nat a :: rat)" "of_nat b * of_nat ?n / (of_nat a :: rat) \<le> of_int c"
      unfolding c_def by linarith+
    then have "(of_int c - 1) * of_nat a < (of_nat b * of_nat ?n :: rat)" "(of_nat b * of_nat ?n :: rat) \<le> of_int c * of_nat a"
      using ab by (simp_all add: pos_less_divide_eq pos_divide_le_eq)
    then have "of_int ((c - 1) * int a) < (of_int (int (b * ?n)) :: rat)" "(of_int (int (b * ?n)) :: rat) \<le> of_int (c * int a)"
      by simp_all
    then have c: "(c - 1) * int a < int (b * ?n)" "int (b * ?n) \<le> c * int a"
      unfolding of_int_less_iff of_int_le_iff .
    have "0 < c * int a" using c(2) ab n by (metis nat_0_less_mult_iff of_nat_0_less_iff order_less_le_trans)
    then have "0 < c" using ab by (simp add: zero_less_mult_iff)
    then obtain i where i: "c = int (Suc i)" by (metis Suc_pred' zero_less_imp_eq_int)
    have ia: "i * a < b * ?n" "b * ?n \<le> Suc i * a"
    proof -
      have "int (i * a) < int (b * ?n)" "int (b * ?n) \<le> int (Suc i * a)" using c by (simp_all add: i algebra_simps)
      then show "i * a < b * ?n" "b * ?n \<le> Suc i * a" by (simp_all only: of_nat_less_iff of_nat_le_iff)
    qed
    have "i * a < a * ?n" using ia(1) ab by (metis less_imp_le_nat mult_le_mono1 order_less_le_trans)
    then have i_lt: "i < length (sort s)" using ab by simp
    have "percentile p s = sort s ! i" using r assms(1) i by (simp add: percentile_def c_def [symmetric])
    with sorted_below [OF sorted_sort i_lt] have
      "Suc i \<le> length (filter (\<lambda>x. x \<le> percentile p s) s)" "length (filter (\<lambda>x. x < percentile p s) s) \<le> i"
      by (simp_all only: length_filter_sort)
    then have "Suc i * a \<le> a * length (filter (\<lambda>x. x \<le> percentile p s) s)"
      "a * length (filter (\<lambda>x. x < percentile p s) s) \<le> i * a" by (simp_all only: mult.commute mult_le_mono2)
    with ia show ?thesis by linarith
  qed
  from below [of p95_literal 19 20] below [of "1 / 2" 1 2] r95 r50 show ?thesis
    by (simp add: p95_def p50_def)
qed

theorem percentiles_are_nearest_ranks_witness:
  "19 * length [3, 1, 2 :: rat] \<le> 20 * length (filter (\<lambda>x. x \<le> p95 [3, 1, 2]) [3, 1, 2])"
  using percentiles_are_nearest_ranks [of "[3, 1, 2]"] by simp

section \<open>Memory and throughput\<close>

record memory_sample =
  heapUsedMB :: rat
  rssMB :: rat
  sampledAt :: int

text \<open>A request either fails, with a message, or gives a status and a body.\<close>

datatype 'b fetched = FetchFails string | Fetched int 'b

definition response_ok :: "int \<Rightarrow> bool" where
  "response_ok status \<longleftrightarrow> 200 \<le> status \<and> status \<le> 299"

definition sample_memory ::
  "(rat \<times> rat) fetched \<Rightarrow> int \<Rightarrow> memory_sample list \<Rightarrow> string + memory_sample list" where
  "sample_memory res now samples =
     (case res of
        FetchFails e \<Rightarrow> Inl e
      | Fetched status (heap, rss) \<Rightarrow>
          if \<not> response_ok status then Inl (''Health endpoint returned '' @ string_of_int status)
          else Inr (samples @ [\<lparr>heapUsedMB = heap, rssMB = rss, sampledAt = now\<rparr>]))"

definition baseline :: "memory_sample list \<Rightarrow> rat" where
  "baseline s = (if s = [] then 0 else heapUsedMB (hd s))"

definition peak :: "memory_sample list \<Rightarrow> rat" where
  "peak s = (if s = [] then 0 else Max (set (map heapUsedMB s)))"

definition latest :: "memory_sample list \<Rightarrow> rat" where
  "latest s = (if s = [] then 0 else heapUsedMB (s ! (length s - 1)))"

definition growth :: "memory_sample list \<Rightarrow> rat option" where
  "growth s = toDouble (latest s - baseline s)"

lemma peak_bounds: "s \<noteq> [] \<Longrightarrow> baseline s \<le> peak s \<and> latest s \<le> peak s"
  by (auto simp: baseline_def peak_def latest_def)

lemma growth_of_one: "growth [x] = Some 0"
  by (simp add: growth_def latest_def baseline_def)

type_synonym throughput = "int list"

definition increment :: "int \<Rightarrow> throughput \<Rightarrow> throughput" where
  "increment now ts = ts @ [now]"

definition ratePerSecond :: "int \<Rightarrow> int \<Rightarrow> throughput \<Rightarrow> rat option" where
  "ratePerSecond windowMs now ts =
     (let cutoff = now - windowMs; n = length (filter (\<lambda>t. cutoff \<le> t) ts)
      in Option.bind (toDouble (of_int windowMs / 1000)) (\<lambda>w. toDouble (of_nat n / w)))"

definition total :: "throughput \<Rightarrow> nat" where
  "total ts = length ts"

lemma rate_default_window:
  "length ts < 2 ^ 53 \<Longrightarrow>
   ratePerSecond 1000 now ts = Some (of_nat (length (filter (\<lambda>t. now - 1000 \<le> t) ts)))"
proof -
  let ?k = "length (filter (\<lambda>t. now - 1000 \<le> t) ts)"
  assume "length ts < 2 ^ 53"
  then have "?k < 2 ^ 53" using length_filter_le [of "\<lambda>t. now - 1000 \<le> t" ts] by linarith
  then have "toDouble (of_int (int ?k)) = Some (of_int (int ?k))"
    by (intro toDouble_of_int) simp
  then show ?thesis by (simp add: ratePerSecond_def Let_def)
qed

section \<open>Assertions\<close>

record Assertion =
  a_id :: string
  a_nfrId :: string
  a_description :: string
  a_target :: string
  a_actual :: string
  a_passed :: bool

text \<open>\<^verbatim>\<open>num\<close> is the text JavaScript gives a number.\<close>

definition assertBelow :: "(rat \<Rightarrow> string) \<Rightarrow> string \<Rightarrow> string \<Rightarrow> string \<Rightarrow> rat \<Rightarrow> rat \<Rightarrow> Assertion" where
  "assertBelow num i nfr d actual threshold =
     \<lparr>a_id = i, a_nfrId = nfr, a_description = d, a_target = ''< '' @ num threshold,
      a_actual = num actual, a_passed = (actual < threshold)\<rparr>"

definition assertAbove :: "(rat \<Rightarrow> string) \<Rightarrow> string \<Rightarrow> string \<Rightarrow> string \<Rightarrow> rat \<Rightarrow> rat \<Rightarrow> Assertion" where
  "assertAbove num i nfr d actual threshold =
     \<lparr>a_id = i, a_nfrId = nfr, a_description = d, a_target = ''> '' @ num threshold,
      a_actual = num actual, a_passed = (actual > threshold)\<rparr>"

definition assertWithin ::
  "(rat \<Rightarrow> string) \<Rightarrow> string \<Rightarrow> string \<Rightarrow> string \<Rightarrow> rat \<Rightarrow> rat \<Rightarrow> rat \<Rightarrow> Assertion" where
  "assertWithin num i nfr d actual target tolerance =
     \<lparr>a_id = i, a_nfrId = nfr, a_description = d, a_target = num target @ '' +/- '' @ num tolerance,
      a_actual = num actual,
      a_passed = (case toDouble (actual - target) of Some x \<Rightarrow> \<bar>x\<bar> \<le> tolerance | None \<Rightarrow> False)\<rparr>"

definition assertNoFailures :: "string \<Rightarrow> string \<Rightarrow> string \<Rightarrow> nat \<Rightarrow> nat \<Rightarrow> Assertion" where
  "assertNoFailures i nfr d failures tot =
     \<lparr>a_id = i, a_nfrId = nfr, a_description = d, a_target = ''0 failures of '' @ string_of_nat tot,
      a_actual = string_of_nat failures @ '' failures'', a_passed = (failures = 0)\<rparr>"

text \<open>On values of one type other than NaN, \<^verbatim>\<open>===\<close> is equality; \<^verbatim>\<open>str\<close> is \<^verbatim>\<open>String\<close>.\<close>

definition assertEqual :: "('a \<Rightarrow> string) \<Rightarrow> string \<Rightarrow> string \<Rightarrow> string \<Rightarrow> 'a \<Rightarrow> 'a \<Rightarrow> Assertion" where
  "assertEqual str i nfr d actual expected =
     \<lparr>a_id = i, a_nfrId = nfr, a_description = d, a_target = str expected,
      a_actual = str actual, a_passed = (actual = expected)\<rparr>"

end
