(* ===== verification/Load_Runner.thy ===== *)
theory Load_Runner
  imports Load_Metrics
begin

text \<open>
  The load test runner (\<^verbatim>\<open>load-tests/src\<close>): the client of the server's health and
  test routes, the choice and the execution of the scenarios, the report over the requirements, the
  waiters for terminal events, and the command line around them. A request is what
  \<^verbatim>\<open>fetch\<close> makes of it; a scenario is the function it runs; log lines and console
  output are left out.
\<close>

section \<open>Scenarios and their choice\<close>

record RunConfig =
  rc_serverUrl :: string
  rc_stubUrl :: string
  rc_scenarios :: "string list option"
  rc_jsonOutput :: "string option"
  rc_realJudge0 :: "bool option"

record ScenarioResult =
  r_id :: string
  r_name :: string
  r_durationMs :: rat
  r_assertions :: "Assertion list"
  r_passed :: bool

record Scenario =
  s_id :: string
  s_name :: string
  s_requiresProblemData :: "bool option"
  s_run :: "RunConfig \<Rightarrow> string + ScenarioResult"

text \<open>
  \<^verbatim>\<open>toUpperCase\<close>: one code unit becomes two for the sharp s; the two whose capital lies
  above 255 are kept.
\<close>

definition upper_chars :: "char \<Rightarrow> string" where
  "upper_chars c =
     (let n = of_char c :: nat
      in if n = 223 then ''SS''
         else if (97 \<le> n \<and> n \<le> 122) \<or> (224 \<le> n \<and> n \<le> 254 \<and> n \<noteq> 247) then [char_of (n - 32)]
         else [c])"

definition toUpperCase :: "string \<Rightarrow> string" where
  "toUpperCase s = concat (map upper_chars s)"

definition parseScenarioIds :: "string option \<Rightarrow> string list option" where
  "parseScenarioIds v = map_option (\<lambda>s. map (\<lambda>i. toUpperCase (trim i)) (split_on CHR '','' s)) v"

definition selectScenarios :: "Scenario list \<Rightarrow> string list option \<Rightarrow> Scenario list" where
  "selectScenarios ss req =
     (case req of
        None \<Rightarrow> ss
      | Some ids \<Rightarrow>
          if ids = [] then ss
          else filter (\<lambda>s. toUpperCase (s_id s) \<in> set (map (\<lambda>i. toUpperCase (trim i)) ids)) ss)"

definition selectedScenariosRequireProblemData :: "Scenario list \<Rightarrow> bool" where
  "selectedScenariosRequireProblemData ss \<longleftrightarrow> list_ex (\<lambda>s. s_requiresProblemData s = Some True) ss"

section \<open>The server's routes\<close>

definition fetchHealth :: "'h fetched \<Rightarrow> string + 'h" where
  "fetchHealth res =
     (case res of FetchFails e \<Rightarrow> Inl e
      | Fetched st h \<Rightarrow> if response_ok st then Inr h else Inl (''Health check failed: '' @ string_of_int st))"

definition triggerGC :: "bool fetched \<Rightarrow> string + bool" where
  "triggerGC res =
     (case res of FetchFails e \<Rightarrow> Inl e
      | Fetched st triggered \<Rightarrow> Inr (if response_ok st then triggered else False))"

definition resetTestState :: "unit fetched \<Rightarrow> string option" where
  "resetTestState res =
     (case res of FetchFails e \<Rightarrow> Some e
      | Fetched st u \<Rightarrow> if response_ok st then None else Some (''Test reset failed: '' @ string_of_int st))"

definition resetTestStateIfAvailable :: "unit fetched \<Rightarrow> string + bool" where
  "resetTestStateIfAvailable res =
     (case res of FetchFails e \<Rightarrow> Inl e
      | Fetched st u \<Rightarrow>
          if response_ok st then Inr True
          else if st = 403 \<or> st = 404 then Inr False
          else Inl (''Test reset failed: '' @ string_of_int st))"

text \<open>The bodies of the problem list are the ids of its problems.\<close>

definition validateProblemData :: "string \<Rightarrow> string list fetched \<Rightarrow> string option" where
  "validateProblemData url res =
     (case res of
        FetchFails e \<Rightarrow> Some (''Cannot reach problem catalog at '' @ url @ ''/api/problems. ''
                             @ ''Ensure the server is running and DB is seeded.'')
      | Fetched st ids \<Rightarrow>
          if \<not> response_ok st
          then Some (''Problem catalog returned '' @ string_of_int st @ ''. ''
                     @ ''Database may need seeding. Run 'pnpm db:seed' or use --auto-start.'')
          else if ids = [] then Some ''No problems in database. Run 'pnpm db:seed' or use --auto-start.''
          else None)"

definition fetchFirstProblemId :: "string list fetched \<Rightarrow> string + string" where
  "fetchFirstProblemId res =
     (case res of
        FetchFails e \<Rightarrow> Inl e
      | Fetched st ids \<Rightarrow>
          if \<not> response_ok st then Inl (''Failed to fetch problems: '' @ string_of_int st)
          else if ids = [] then Inl ''No problems found in database'' else Inr (hd ids))"

text \<open>
  Polling until the deadline: \<open>probe k\<close> is the \<open>k\<close>-th answer and the time it takes. Fuel counts the
  requests; \<open>None\<close> is fuel used up, \<open>Some None\<close> success.
\<close>

fun poll :: "(nat \<Rightarrow> unit fetched \<times> int) \<Rightarrow> int \<Rightarrow> int \<Rightarrow> nat \<Rightarrow> nat \<Rightarrow> int \<Rightarrow> bool option" where
  "poll probe deadline interval 0 k now = None"
| "poll probe deadline interval (Suc fuel) k now =
     (if \<not> now < deadline then Some False
      else case probe k of
          (Fetched st u, d) \<Rightarrow>
            if response_ok st then Some True else poll probe deadline interval fuel (Suc k) (now + d + interval)
        | (FetchFails e, d) \<Rightarrow> poll probe deadline interval fuel (Suc k) (now + d + interval))"

definition waitForHealthy :: "(nat \<Rightarrow> unit fetched \<times> int) \<Rightarrow> int \<Rightarrow> int \<Rightarrow> nat \<Rightarrow> int \<Rightarrow> string option option" where
  "waitForHealthy probe timeout interval fuel now =
     (case poll probe (now + timeout) interval fuel 0 now of
        None \<Rightarrow> None
      | Some True \<Rightarrow> Some None
      | Some False \<Rightarrow> Some (Some (''Server not healthy after '' @ string_of_int timeout @ ''ms'')))"

lemma poll_returns:
  assumes d: "\<And>k. 0 \<le> snd (probe k)" and i: "0 < interval" and f: "nat (deadline - now) < fuel"
  shows "poll probe deadline interval fuel k now \<noteq> None"
  using f
proof (induction fuel arbitrary: k now)
  case (Suc fuel)
  have "nat (deadline - (now + snd (probe k) + interval)) < fuel" if "now < deadline"
    using Suc.prems d [of k] i that by linarith
  with Suc.IH show ?case by (auto split: fetched.split prod.split)
qed simp

section \<open>Executing the scenarios\<close>

text \<open>
  The state is whether a reset is still attempted and how many were requested; \<open>reset k\<close> is the answer
  to the \<open>k\<close>-th. A thrown error leaves the flag as it was.
\<close>

type_synonym reset_state = "bool \<times> nat"

definition maybeReset :: "(nat \<Rightarrow> unit fetched) \<Rightarrow> reset_state \<Rightarrow> string option \<times> reset_state" where
  "maybeReset reset st =
     (let (should, k) = st
      in if \<not> should then (None, st)
         else case resetTestStateIfAvailable (reset k) of
             Inl e \<Rightarrow> (Some e, (should, Suc k))
           | Inr b \<Rightarrow> (None, (b, Suc k)))"

text \<open>A scenario that throws is recorded with one failed assertion, for no requirement.\<close>

definition error_result :: "Scenario \<Rightarrow> string \<Rightarrow> ScenarioResult" where
  "error_result s e =
     \<lparr>r_id = s_id s, r_name = s_name s, r_durationMs = 0,
      r_assertions = [\<lparr>a_id = s_id s @ ''-error'', a_nfrId = [],
        a_description = ''Scenario completed without throwing'', a_target = ''no error'', a_actual = e, a_passed = False\<rparr>],
      r_passed = False\<rparr>"

definition scenario_result :: "RunConfig \<Rightarrow> Scenario \<Rightarrow> ScenarioResult" where
  "scenario_result cfg s = (case s_run s cfg of Inr r \<Rightarrow> r | Inl e \<Rightarrow> error_result s e)"

fun scenario_loop ::
  "(nat \<Rightarrow> unit fetched) \<Rightarrow> RunConfig \<Rightarrow> bool \<Rightarrow> Scenario list \<Rightarrow> reset_state \<Rightarrow> ScenarioResult list
   \<Rightarrow> string option \<times> reset_state \<times> ScenarioResult list" where
  "scenario_loop reset cfg first [] st rs = (None, st, rs)"
| "scenario_loop reset cfg first (s # ss) st rs =
     (case (if first then (None, st) else maybeReset reset st) of
        (Some e, st') \<Rightarrow> (Some e, st', rs)
      | (None, st') \<Rightarrow> scenario_loop reset cfg False ss st' (rs @ [scenario_result cfg s]))"

text \<open>The results or the error that leaves the function, with the number of reset requests.\<close>

definition executeScenarioSequence ::
  "(nat \<Rightarrow> unit fetched) \<Rightarrow> Scenario list \<Rightarrow> RunConfig \<Rightarrow> (string + ScenarioResult list) \<times> nat" where
  "executeScenarioSequence reset selected cfg =
     (case maybeReset reset (True, 0) of
        (Some e, st) \<Rightarrow> (Inl e, snd st)
      | (None, st) \<Rightarrow>
          (let (err, st1, rs) = scenario_loop reset cfg True selected st [];
               (err2, st2) = maybeReset reset st1
           in (case err2 of Some e \<Rightarrow> Inl e
               | None \<Rightarrow> (case err of Some e \<Rightarrow> Inl e | None \<Rightarrow> Inr rs), snd st2)))"

lemma scenario_loop_results:
  "fst (scenario_loop reset cfg first ss st rs) = None \<Longrightarrow>
   snd (snd (scenario_loop reset cfg first ss st rs)) = rs @ map (scenario_result cfg) ss"
  by (induction reset cfg first ss st rs rule: scenario_loop.induct) (auto split: prod.splits option.splits if_splits)

lemma executeScenarioSequence_results:
  "fst (executeScenarioSequence reset selected cfg) = Inr rs \<Longrightarrow> rs = map (scenario_result cfg) selected"
  using scenario_loop_results [of reset cfg True selected]
  by (auto simp: executeScenarioSequence_def Let_def split: prod.splits option.splits)
    (metis append_Nil fst_conv snd_conv)+

text \<open>A server without the test routes is asked once.\<close>

lemma loop_without_reset: "scenario_loop reset cfg first ss (False, k) rs = (None, (False, k), rs @ map (scenario_result cfg) ss)"
  by (induction ss arbitrary: first rs) (simp_all add: maybeReset_def)

lemma reset_unavailable_asked_once:
  assumes "reset 0 = Fetched 404 ()"
  shows "executeScenarioSequence reset selected cfg = (Inr (map (scenario_result cfg) selected), 1)"
proof -
  have "maybeReset reset (True, 0) = (None, (False, 1))"
    using assms by (simp add: maybeReset_def resetTestStateIfAvailable_def response_ok_def)
  then show ?thesis by (simp add: executeScenarioSequence_def loop_without_reset) (simp add: maybeReset_def)
qed

text \<open>A server with them is asked before each scenario and at the end.\<close>

lemma reset_ok: "\<forall>k. reset k = Fetched 200 () \<Longrightarrow> maybeReset reset (True, k) = (None, (True, Suc k))"
  by (simp add: maybeReset_def resetTestStateIfAvailable_def response_ok_def)

lemma loop_with_reset:
  "\<forall>k. reset k = Fetched 200 () \<Longrightarrow>
   scenario_loop reset cfg first ss (True, k) rs =
   (None, (True, k + length ss - (if first \<and> ss \<noteq> [] then 1 else 0)), rs @ map (scenario_result cfg) ss)"
  by (induction ss arbitrary: first k rs) (simp_all add: reset_ok)

lemma reset_before_each_scenario:
  assumes "\<forall>k. reset k = Fetched 200 ()" and "selected \<noteq> []"
  shows "executeScenarioSequence reset selected cfg =
    (Inr (map (scenario_result cfg) selected), length selected + 1)"
  using assms by (simp add: executeScenarioSequence_def reset_ok loop_with_reset)

section \<open>The report over the requirements\<close>

definition NFR :: "(string \<times> string \<times> (string \<times> nat) list) list" where
  "NFR = [
     (''NFR-1.1'', ''Real-time latency (Yjs + Socket.io events)'',
       [(''yjsSyncP95Ms'', 100), (''charSyncP50Ms'', 100), (''charSyncP95Ms'', 100),
        (''socketEventP50Ms'', 100), (''socketEventP95Ms'', 100), (''bulkSyncMs'', 2000)]),
     (''NFR-1.2'', ''Code execution end-to-end latency'',
       [(''executionE2eMs'', 30000), (''broadcastDeltaMs'', 500)]),
     (''NFR-1.3'', ''Room creation + connection combined latency'',
       [(''combinedE2eMs'', 2000), (''roomCreateP95Ms'', 500), (''connectP95Ms'', 1500)]),
     (''NFR-2.1'', ''Resource capacity and memory bounds'',
       [(''concurrentRooms'', 20), (''maxHeapMb'', 512), (''soakHeapGrowthMb'', 100), (''soakHeapDriftMb'', 50)]),
     (''NFR-3.3'', ''Reconnection token security'', []),
     (''NFR-3.6'', ''Non-member rejection under load'', [(''nonMemberDropP95Ms'', 20)]),
     (''NFR-4.1'', ''IP-based rate limit enforcement'', [(''rejectionP95Ms'', 20)]),
     (''NFR-4.2'', ''Per-room limits (exec, imports, test cases)'', [(''roomLimitRejectionP95Ms'', 50)]),
     (''NFR-4.3'', ''Global limits (Judge0/day, imports/day)'', []),
     (''NFR-5.1'', ''Execution correctness under concurrent load'', []),
     (''NFR-5.2'', ''Reconnection within grace period'', [(''reconnectLatencyP95Ms'', 2000)])]"

definition SCENARIO_NFR_MAP :: "(string \<times> string list) list" where
  "SCENARIO_NFR_MAP = [
     (''LT-1'', [''NFR-1.1'', ''NFR-2.1'']), (''LT-2'', [''NFR-1.3'']), (''LT-3'', [''NFR-1.3'']),
     (''LT-4'', [''NFR-1.1'']), (''LT-5'', [''NFR-1.2'', ''NFR-5.1'']), (''LT-6'', [''NFR-1.1'']),
     (''LT-7'', [''NFR-2.1'']), (''LT-8'', [''NFR-4.1'']), (''LT-9'', [''NFR-3.3'', ''NFR-5.2'']),
     (''LT-10'', [''NFR-3.6'']), (''LT-11'', [''NFR-4.2'']), (''LT-12'', [''NFR-4.3''])]"

definition UNCOVERED_NFRS :: "string list" where
  "UNCOVERED_NFRS = []"

datatype nfr_status = PASS | FAIL | SKIP | UNCOVERED

record NfrCoverageEntry =
  e_nfrId :: string
  e_title :: string
  e_status :: nfr_status
  e_testedBy :: "string list"
  e_assertions :: "(string \<times> bool) list"

definition add_tester :: "string \<Rightarrow> NfrCoverageEntry \<Rightarrow> NfrCoverageEntry" where
  "add_tester rid e = (if rid \<in> set (e_testedBy e) then e else e\<lparr>e_testedBy := e_testedBy e @ [rid]\<rparr>)"

definition add_assertion :: "Assertion \<Rightarrow> NfrCoverageEntry \<Rightarrow> NfrCoverageEntry" where
  "add_assertion a e = e\<lparr>e_assertions := e_assertions e @ [(a_id a, a_passed a)]\<rparr>"

definition collect_result :: "NfrCoverageEntry list \<Rightarrow> ScenarioResult \<Rightarrow> NfrCoverageEntry list" where
  "collect_result cov r =
     (let cov1 = foldl (\<lambda>c n. update_first (\<lambda>e. e_nfrId e = n) (add_tester (r_id r)) c) cov
                   (case map_of SCENARIO_NFR_MAP (r_id r) of None \<Rightarrow> [] | Some ns \<Rightarrow> ns)
      in foldl (\<lambda>c a. update_first (\<lambda>e. e_nfrId e = a_nfrId a) (add_assertion a) c) cov1 (r_assertions r))"

definition decide_status :: "NfrCoverageEntry \<Rightarrow> NfrCoverageEntry" where
  "decide_status e =
     e\<lparr>e_status := if e_nfrId e \<in> set UNCOVERED_NFRS then UNCOVERED
                   else if e_assertions e = [] then SKIP
                   else if list_all snd (e_assertions e) then PASS else FAIL\<rparr>"

definition initial_coverage :: "NfrCoverageEntry list" where
  "initial_coverage =
     map (\<lambda>(n, t, th). \<lparr>e_nfrId = n, e_title = t, e_status = SKIP, e_testedBy = [], e_assertions = []\<rparr>) NFR"

definition buildNfrCoverage :: "ScenarioResult list \<Rightarrow> NfrCoverageEntry list" where
  "buildNfrCoverage results = map decide_status (foldl collect_result initial_coverage results)"

lemma add_fields [simp]:
  "e_nfrId (add_tester r e) = e_nfrId e" "e_assertions (add_tester r e) = e_assertions e"
  "e_nfrId (add_assertion a e) = e_nfrId e"
  "e_assertions (add_assertion a e) = e_assertions e @ [(a_id a, a_passed a)]"
  by (simp_all add: add_tester_def add_assertion_def)

text \<open>The ids never change, and an entry collects the assertions that name it, in order.\<close>

definition view :: "NfrCoverageEntry list \<Rightarrow> (string \<times> (string \<times> bool) list) list" where
  "view cov = map (\<lambda>e. (e_nfrId e, e_assertions e)) cov"

definition naming :: "string \<Rightarrow> ScenarioResult list \<Rightarrow> (string \<times> bool) list" where
  "naming n rs = map (\<lambda>a. (a_id a, a_passed a)) (filter (\<lambda>a. a_nfrId a = n) (concat (map r_assertions rs)))"

lemma view_tester: "view (update_first P (add_tester r) c) = view c"
  by (induction c) (auto simp: view_def)

lemma view_testers: "view (foldl (\<lambda>c n. update_first (P n) (add_tester r) c) cov ns) = view cov"
  by (induction ns arbitrary: cov) (simp_all add: view_tester)

lemma view_assertion:
  "distinct (map fst (view c)) \<Longrightarrow>
   view (update_first (\<lambda>e. e_nfrId e = a_nfrId a) (add_assertion a) c)
   = map (\<lambda>(n, as). (n, if n = a_nfrId a then as @ [(a_id a, a_passed a)] else as)) (view c)"
proof -
  assume "distinct (map fst (view c))"
  then have "distinct (map e_nfrId c)" by (simp add: view_def comp_def)
  then have "update_first (\<lambda>e. e_nfrId e = a_nfrId a) (add_assertion a) c
      = map (\<lambda>e. if e_nfrId e = a_nfrId a then add_assertion a e else e) c"
    by (rule update_first_distinct_key) simp
  then show ?thesis by (simp add: view_def)
qed

lemma keys_map: "map fst (map (\<lambda>(n, as). (n, f n as)) xs) = map fst xs"
  by (simp add: comp_def split_beta)

lemma view_assertions:
  "distinct (map fst (view cov)) \<Longrightarrow>
   view (foldl (\<lambda>c a. update_first (\<lambda>e. e_nfrId e = a_nfrId a) (add_assertion a) c) cov as)
   = map (\<lambda>(n, bs). (n, bs @ map (\<lambda>a. (a_id a, a_passed a)) (filter (\<lambda>a. a_nfrId a = n) as))) (view cov)"
proof (induction as arbitrary: cov)
  case (Cons a as)
  note v = view_assertion [OF Cons.prems, of a]
  have "distinct (map fst (view (update_first (\<lambda>e. e_nfrId e = a_nfrId a) (add_assertion a) cov)))"
    using Cons.prems by (simp only: v keys_map)
  from Cons.IH [OF this] show ?case by (auto simp: v split_beta)
qed (simp add: split_beta)

lemma view_collect:
  "distinct (map fst (view cov)) \<Longrightarrow>
   view (foldl collect_result cov rs) = map (\<lambda>(n, bs). (n, bs @ naming n rs)) (view cov)"
proof (induction rs arbitrary: cov)
  case (Cons r rs)
  have v: "view (collect_result cov r) = map (\<lambda>(n, bs). (n, bs @ naming n [r])) (view cov)"
    using Cons.prems by (simp add: collect_result_def Let_def view_assertions view_testers naming_def)
  then have "distinct (map fst (view (collect_result cov r)))" using Cons.prems by (simp only: v keys_map)
  then show ?case using v by (simp add: Cons.IH) (auto simp: naming_def split_beta)
qed (simp add: naming_def split_beta)

text \<open>The status an entry must have for the assertions that name it.\<close>

definition status_of :: "(string \<times> bool) list \<Rightarrow> nfr_status" where
  "status_of as = (if as = [] then SKIP else if list_all snd as then PASS else FAIL)"

lemma view_initial: "view initial_coverage = map (\<lambda>(n, t, th). (n, [])) NFR"
  by (simp add: view_def initial_coverage_def split_beta)

lemma NFR_distinct: "distinct (map fst NFR)"
  by (simp add: NFR_def)

text \<open>the report has one line per requirement, in the order of the table, and its status depends on
nothing but the assertions that name the requirement: PASS when there are some and all passed,
FAIL when one failed, SKIP when there are none.\<close>

theorem report_is_exact:
  "map (\<lambda>e. (e_nfrId e, e_status e, e_assertions e)) (buildNfrCoverage results)
   = map (\<lambda>(n, t, th). (n, status_of (naming n results), naming n results)) NFR"
proof -
  let ?c = "foldl collect_result initial_coverage results"
  have "distinct (map fst (view initial_coverage))"
    using NFR_distinct by (simp add: view_initial comp_def split_beta)
  then have v: "view ?c = map (\<lambda>(n, t, th). (n, naming n results)) NFR"
    by (simp add: view_collect view_initial split_beta)
  have "map (\<lambda>e. (e_nfrId e, e_status e, e_assertions e)) (buildNfrCoverage results)
      = map (\<lambda>(n, as). (n, status_of as, as)) (view ?c)"
    by (simp add: buildNfrCoverage_def decide_status_def view_def status_of_def UNCOVERED_NFRS_def)
  then show ?thesis by (simp add: v split_beta)
qed

text \<open>
  A scenario that throws leaves no assertion for its requirements, so a requirement two scenarios test can be
  reported as passed although one of them never ran to its end.
\<close>

lemma thrown_scenario_not_counted: "n \<noteq> [] \<Longrightarrow> naming n (rs @ [error_result s e]) = naming n rs"
  by (simp add: naming_def error_result_def)

definition overall_passed :: "ScenarioResult list \<Rightarrow> bool" where
  "overall_passed rs \<longleftrightarrow> length (filter r_passed rs) = length rs"

record nfr_summary =
  passed_count :: nat
  failed_count :: nat
  skipped_count :: nat
  uncovered_count :: nat

definition summarise :: "NfrCoverageEntry list \<Rightarrow> nfr_summary" where
  "summarise cov =
     (let n = (\<lambda>st. length (filter (\<lambda>e. e_status e = st) cov))
      in \<lparr>passed_count = n PASS, failed_count = n FAIL, skipped_count = n SKIP, uncovered_count = n UNCOVERED\<rparr>)"

lemma summary_counts_all:
  "passed_count (summarise c) + failed_count (summarise c) + skipped_count (summarise c)
   + uncovered_count (summarise c) = length c"
proof (induction c)
  case (Cons e c)
  then show ?case by (cases "e_status e") (simp_all add: summarise_def)
qed (simp add: summarise_def)

section \<open>Waiting for a terminal event\<close>

text \<open>Events with the milliseconds since the wait began; \<open>'r\<close> and \<open>'e\<close> are the payloads.\<close>

datatype ('r, 'e) exec_event = ExecStarted | ExecResult 'r rat | ExecError 'e rat | ExecTimeout

datatype ('r, 'e) exec_wait =
    Awaiting bool
  | GotResult bool 'r rat
  | GotError bool 'e rat
  | TimedOut

fun exec_step :: "('r, 'e) exec_wait \<Rightarrow> ('r, 'e) exec_event \<Rightarrow> ('r, 'e) exec_wait" where
  "exec_step (Awaiting b) ExecStarted = Awaiting True"
| "exec_step (Awaiting b) (ExecResult r t) = GotResult b r t"
| "exec_step (Awaiting b) (ExecError e t) = GotError b e t"
| "exec_step (Awaiting b) ExecTimeout = TimedOut"
| "exec_step w ev = w"

definition waitForExecutionAttemptOutcome :: "('r, 'e) exec_event list \<Rightarrow> ('r, 'e) exec_wait" where
  "waitForExecutionAttemptOutcome evs = foldl exec_step (Awaiting False) evs"

datatype import_event = ImportSays string "string option" rat | ImportTimeout
datatype import_wait = ImportAwaiting | ImportGot string "string option" rat | ImportTimedOut

fun import_step :: "import_wait \<Rightarrow> import_event \<Rightarrow> import_wait" where
  "import_step ImportAwaiting (ImportSays st m t) =
     (if st = ''scraping'' then ImportAwaiting else ImportGot st m t)"
| "import_step ImportAwaiting ImportTimeout = ImportTimedOut"
| "import_step w ev = w"

definition waitForImportTerminalStatus :: "import_event list \<Rightarrow> import_wait" where
  "waitForImportTerminalStatus evs = foldl import_step ImportAwaiting evs"

lemma exec_settled: "\<forall>b. w \<noteq> Awaiting b \<Longrightarrow> foldl exec_step w evs = w"
proof (induction evs)
  case (Cons ev evs)
  then have "exec_step w ev = w" by (cases w) (auto dest: spec)
  with Cons show ?case by simp
qed simp

lemma exec_started_prefix: "foldl exec_step (Awaiting b) (replicate n ExecStarted) = Awaiting (b \<or> 0 < n)"
  by (induction n arbitrary: b) auto

lemma first_result_wins:
  "waitForExecutionAttemptOutcome (replicate n ExecStarted @ ExecResult r t # evs) = GotResult (0 < n) r t"
  by (simp add: waitForExecutionAttemptOutcome_def exec_started_prefix exec_settled)

lemma import_settled: "w \<noteq> ImportAwaiting \<Longrightarrow> foldl import_step w evs = w"
proof (induction evs)
  case (Cons ev evs)
  then have "import_step w ev = w" by (cases w) simp_all
  with Cons show ?case by simp
qed simp

lemma scraping_is_skipped:
  "st \<noteq> ''scraping'' \<Longrightarrow>
   waitForImportTerminalStatus (replicate n (ImportSays ''scraping'' m t) @ ImportSays st m' t' # evs) = ImportGot st m' t'"
proof -
  assume "st \<noteq> ''scraping''"
  moreover have "foldl import_step ImportAwaiting (replicate n (ImportSays ''scraping'' m t)) = ImportAwaiting"
    by (induction n) simp_all
  ultimately show ?thesis by (simp add: waitForImportTerminalStatus_def import_settled)
qed

end
