(* ===== verification/Client_Widgets.thy ===== *)
theory Client_Widgets
  imports Client_Room
begin

text \<open>
  The parts of the client's user interface that keep a state of their own
  (\<^verbatim>\<open>apps/client/src/components\<close>, \<^verbatim>\<open>hooks/useLayoutState.ts\<close>): the
  drop-down list, the layout of the solver page and its copy in local storage, the form for test cases, the
  list of custom test cases, and the text of a problem. What is rendered beside that (markup, styles,
  focus) is left out.
\<close>

section \<open>The drop-down list\<close>

record select_props =
  sp_options :: "(string \<times> string) list"
  sp_value :: string
  sp_placeholder :: "string option"
  sp_disabled :: bool

record select_state =
  sel_open :: bool
  sel_focused :: int

datatype select_key = KEnter | KSpace | KArrowDown | KArrowUp | KEscape | KTab | KHome | KEnd | KOther

text \<open>Reading a property of an option that does not exist.\<close>

datatype select_error = UndefinedOption

definition hasPlaceholder :: "select_props \<Rightarrow> bool" where
  "hasPlaceholder p \<longleftrightarrow> truthy_text (sp_placeholder p)"

definition minIndex :: "select_props \<Rightarrow> int" where
  "minIndex p = (if hasPlaceholder p then - 1 else 0)"

definition maxIndex :: "select_props \<Rightarrow> int" where
  "maxIndex p = int (length (sp_options p)) - 1"

definition findOption :: "select_props \<Rightarrow> int" where
  "findOption p =
     (let i = length (takeWhile (\<lambda>o'. fst o' \<noteq> sp_value p) (sp_options p))
      in if i < length (sp_options p) then int i else - 1)"

definition closed_select :: select_state where
  "closed_select = \<lparr>sel_open = False, sel_focused = - 1\<rparr>"

definition openSelect :: "select_props \<Rightarrow> select_state \<Rightarrow> select_state" where
  "openSelect p s =
     (if sp_disabled p then s
      else (let idx = findOption p
            in \<lparr>sel_open = True, sel_focused = (if 0 \<le> idx then idx else minIndex p)\<rparr>))"

text \<open>The new state and the value \<^verbatim>\<open>onChange\<close> is called with, if it is called.\<close>

fun handleTriggerKeyDown ::
  "select_props \<Rightarrow> select_key \<Rightarrow> select_state \<Rightarrow> select_error + select_state \<times> string option" where
  "handleTriggerKeyDown p KArrowDown s =
     Inr (if \<not> sel_open s then openSelect p s
          else s\<lparr>sel_focused := if maxIndex p \<le> sel_focused s then minIndex p else sel_focused s + 1\<rparr>, None)"
| "handleTriggerKeyDown p KArrowUp s =
     Inr (if \<not> sel_open s then openSelect p s
          else s\<lparr>sel_focused := if sel_focused s \<le> minIndex p then maxIndex p else sel_focused s - 1\<rparr>, None)"
| "handleTriggerKeyDown p KEscape s = Inr (if sel_open s then closed_select else s, None)"
| "handleTriggerKeyDown p KTab s = Inr (if sel_open s then closed_select else s, None)"
| "handleTriggerKeyDown p KHome s = Inr (if sel_open s then s\<lparr>sel_focused := minIndex p\<rparr> else s, None)"
| "handleTriggerKeyDown p KEnd s = Inr (if sel_open s then s\<lparr>sel_focused := maxIndex p\<rparr> else s, None)"
| "handleTriggerKeyDown p KOther s = Inr (s, None)"
| "handleTriggerKeyDown p k s =
     (if sel_open s \<and> sel_focused s = - 1 \<and> hasPlaceholder p then Inr (closed_select, Some [])
      else if sel_open s \<and> 0 \<le> sel_focused s
      then (if nat (sel_focused s) < length (sp_options p)
            then Inr (closed_select, Some (fst (sp_options p ! nat (sel_focused s)))) else Inl UndefinedOption)
      else Inr (openSelect p s, None))"

definition clickTrigger :: "select_props \<Rightarrow> select_state \<Rightarrow> select_state" where
  "clickTrigger p s = (if sel_open s then closed_select else openSelect p s)"

definition clickOutside :: "select_state \<Rightarrow> select_state" where
  "clickOutside s = (if sel_open s then closed_select else s)"

fun press_keys :: "select_props \<Rightarrow> select_key list \<Rightarrow> select_state \<Rightarrow> select_error + select_state \<times> string list" where
  "press_keys p [] s = Inr (s, [])"
| "press_keys p (k # ks) s =
     (case handleTriggerKeyDown p k s of
        Inl e \<Rightarrow> Inl e
      | Inr (s', c) \<Rightarrow>
          (case press_keys p ks s' of
             Inl e \<Rightarrow> Inl e
           | Inr (s'', cs) \<Rightarrow> Inr (s'', (case c of None \<Rightarrow> cs | Some v \<Rightarrow> v # cs))))"

definition focus_ok :: "select_props \<Rightarrow> select_state \<Rightarrow> bool" where
  "focus_ok p s \<longleftrightarrow>
     (if sel_open s then minIndex p \<le> sel_focused s \<and> sel_focused s \<le> maxIndex p else sel_focused s = - 1)"

text \<open>The values the list can report: those of its options, and the empty one with a placeholder.\<close>

definition choices :: "select_props \<Rightarrow> string list" where
  "choices p = (if hasPlaceholder p then [[]] else []) @ map fst (sp_options p)"

lemma choices_range: "choices p \<noteq> [] \<Longrightarrow> minIndex p \<le> maxIndex p"
  by (cases "sp_options p") (auto simp: choices_def minIndex_def maxIndex_def split: if_splits)

lemma findOption_range: "- 1 \<le> findOption p" "findOption p \<le> maxIndex p"
  by (auto simp: findOption_def Let_def maxIndex_def)

lemma openSelect_ok: "choices p \<noteq> [] \<Longrightarrow> focus_ok p s \<Longrightarrow> focus_ok p (openSelect p s)"
  using findOption_range [of p] choices_range [of p]
  by (auto simp: openSelect_def focus_ok_def Let_def minIndex_def)

lemma closed_ok [simp]: "focus_ok p closed_select"
  by (simp add: focus_ok_def closed_select_def)

lemma activate_ok:
  assumes "choices p \<noteq> []" and "focus_ok p s" and "k = KEnter \<or> k = KSpace"
  shows "\<exists>s' c. handleTriggerKeyDown p k s = Inr (s', c) \<and> focus_ok p s' \<and> (\<forall>v. c = Some v \<longrightarrow> v \<in> set (choices p))"
proof (cases "sel_open s")
  case False
  with assms openSelect_ok [OF assms(1,2)] show ?thesis by auto
next
  case True
  show ?thesis
  proof (cases "sel_focused s = - 1 \<and> hasPlaceholder p")
    case True': True
    with True assms(3) have "handleTriggerKeyDown p k s = Inr (closed_select, Some [])" by auto
    moreover have "[] \<in> set (choices p)" using True' by (simp add: choices_def)
    ultimately show ?thesis by simp
  next
    case False
    have r: "0 \<le> sel_focused s" "nat (sel_focused s) < length (sp_options p)"
      using assms(2) True False by (auto simp: focus_ok_def minIndex_def maxIndex_def split: if_splits)
    then have "handleTriggerKeyDown p k s = Inr (closed_select, Some (fst (sp_options p ! nat (sel_focused s))))"
      using True assms(3) by auto
    moreover have "fst (sp_options p ! nat (sel_focused s)) \<in> set (choices p)"
      using r by (simp add: choices_def)
    ultimately show ?thesis by simp
  qed
qed

lemma key_ok:
  assumes c: "choices p \<noteq> []" and s: "focus_ok p s"
  shows "\<exists>s' c. handleTriggerKeyDown p k s = Inr (s', c) \<and> focus_ok p s' \<and> (\<forall>v. c = Some v \<longrightarrow> v \<in> set (choices p))"
proof (cases "k = KEnter \<or> k = KSpace")
  case True
  with activate_ok [OF c s] show ?thesis by blast
next
  case False
  with s choices_range [OF c] openSelect_ok [OF c s] show ?thesis
    by (cases k) (auto simp: focus_ok_def closed_select_def)
qed

text \<open>whatever keys are pressed, a list with something to choose never fails, keeps its focus on an entry while
it is open, and reports only values of its entries.\<close>

theorem select_keys_safe:
  assumes "choices p \<noteq> []"
  shows "\<exists>s cs. press_keys p ks closed_select = Inr (s, cs) \<and> focus_ok p s \<and> set cs \<subseteq> set (choices p)"
proof -
  have "\<exists>s' cs. press_keys p ks s = Inr (s', cs) \<and> focus_ok p s' \<and> set cs \<subseteq> set (choices p)" if "focus_ok p s" for s
    using that
  proof (induction ks arbitrary: s)
    case (Cons k ks)
    obtain s1 c where k: "handleTriggerKeyDown p k s = Inr (s1, c)" "focus_ok p s1"
      "\<forall>v. c = Some v \<longrightarrow> v \<in> set (choices p)"
      using key_ok [OF assms Cons.prems] by blast
    obtain s2 cs where "press_keys p ks s1 = Inr (s2, cs)" "focus_ok p s2" "set cs \<subseteq> set (choices p)"
      using Cons.IH [OF k(2)] by blast
    with k show ?case by (auto split: option.split)
  qed simp
  then show ?thesis by simp
qed

definition mode_select :: select_props where
  "mode_select =
     \<lparr>sp_options = [(''collaboration'', ''Collaboration''), (''interview'', ''Mock Interview'')],
      sp_value = ''collaboration'', sp_placeholder = None, sp_disabled = False\<rparr>"

theorem select_keys_safe_witness:
  "press_keys mode_select [KSpace, KArrowUp, KEnter] closed_select = Inr (closed_select, [''interview'']) \<and>
   (\<exists>s cs. press_keys mode_select [KSpace, KArrowUp, KEnter] closed_select = Inr (s, cs) \<and> focus_ok mode_select s)"
  using select_keys_safe [of mode_select "[KSpace, KArrowUp, KEnter]"]
  by (auto simp: mode_select_def choices_def hasPlaceholder_def openSelect_def closed_select_def findOption_def
      minIndex_def maxIndex_def Let_def)

text \<open>A list with nothing to choose opens with its focus on an entry that does not exist, and the next Enter fails.\<close>

lemma empty_select_fails:
  "press_keys \<lparr>sp_options = [], sp_value = [], sp_placeholder = None, sp_disabled = False\<rparr> [KEnter, KEnter] closed_select
   = Inl UndefinedOption"
  by (simp add: openSelect_def closed_select_def findOption_def minIndex_def hasPlaceholder_def)

section \<open>The layout of the solver page\<close>

datatype results_tab = TestcasesTab | ResultsTab

record layout_state =
  problemCollapsed :: bool
  resultsCollapsed :: bool
  activeResultsTab :: results_tab

definition DEFAULT_LAYOUT :: layout_state where
  "DEFAULT_LAYOUT = \<lparr>problemCollapsed = False, resultsCollapsed = False, activeResultsTab = TestcasesTab\<rparr>"

fun tab_name :: "results_tab \<Rightarrow> string" where
  "tab_name TestcasesTab = ''testcases''"
| "tab_name ResultsTab = ''results''"

definition layout_json :: "layout_state \<Rightarrow> json" where
  "layout_json l =
     JObj [(''problemCollapsed'', JBool (problemCollapsed l)), (''resultsCollapsed'', JBool (resultsCollapsed l)),
           (''activeResultsTab'', JStr (tab_name (activeResultsTab l)))]"

definition layout_of_json :: "json \<Rightarrow> layout_state option" where
  "layout_of_json v =
     (case v of
        JObj fs \<Rightarrow>
          (case (map_of fs ''problemCollapsed'', map_of fs ''resultsCollapsed'', map_of fs ''activeResultsTab'') of
             (Some (JBool a), Some (JBool b), Some (JStr t)) \<Rightarrow>
               if t = ''testcases'' then Some \<lparr>problemCollapsed = a, resultsCollapsed = b, activeResultsTab = TestcasesTab\<rparr>
               else if t = ''results'' then Some \<lparr>problemCollapsed = a, resultsCollapsed = b, activeResultsTab = ResultsTab\<rparr>
               else None
           | _ \<Rightarrow> None)
      | _ \<Rightarrow> None)"

text \<open>
  The storage: \<open>None\<close> when access to it throws, else the item. \<^verbatim>\<open>parse\<close> is
  \<^verbatim>\<open>JSON.parse\<close>, which throws on other text, and \<^verbatim>\<open>stringify\<close>
  \<^verbatim>\<open>JSON.stringify\<close>.
\<close>

definition readFromStorage :: "(string \<Rightarrow> json option) \<Rightarrow> string option option \<Rightarrow> layout_state" where
  "readFromStorage parse st =
     (case st of
        None \<Rightarrow> DEFAULT_LAYOUT
      | Some raw \<Rightarrow>
          if \<not> truthy_text raw then DEFAULT_LAYOUT
          else case parse (the raw) of
              None \<Rightarrow> DEFAULT_LAYOUT
            | Some v \<Rightarrow> (case layout_of_json v of None \<Rightarrow> DEFAULT_LAYOUT | Some l \<Rightarrow> l))"

definition writeToStorage :: "(json \<Rightarrow> string) \<Rightarrow> layout_state \<Rightarrow> string option option \<Rightarrow> string option option" where
  "writeToStorage stringify l st = map_option (\<lambda>_. Some (stringify (layout_json l))) st"

type_synonym layout_and_storage = "layout_state \<times> string option option"

definition updateLayout ::
  "(json \<Rightarrow> string) \<Rightarrow> (layout_state \<Rightarrow> layout_state) \<Rightarrow> layout_and_storage \<Rightarrow> layout_and_storage" where
  "updateLayout stringify f ls = (f (fst ls), writeToStorage stringify (f (fst ls)) (snd ls))"

definition toggleProblemPanel :: "(json \<Rightarrow> string) \<Rightarrow> layout_and_storage \<Rightarrow> layout_and_storage" where
  "toggleProblemPanel stringify = updateLayout stringify (\<lambda>l. l\<lparr>problemCollapsed := \<not> problemCollapsed l\<rparr>)"

definition toggleResultsPanel :: "(json \<Rightarrow> string) \<Rightarrow> layout_and_storage \<Rightarrow> layout_and_storage" where
  "toggleResultsPanel stringify = updateLayout stringify (\<lambda>l. l\<lparr>resultsCollapsed := \<not> resultsCollapsed l\<rparr>)"

definition expandResultsPanel :: "(json \<Rightarrow> string) \<Rightarrow> layout_and_storage \<Rightarrow> layout_and_storage" where
  "expandResultsPanel stringify ls =
     (if \<not> resultsCollapsed (fst ls) then ls
      else updateLayout stringify (\<lambda>l. l\<lparr>resultsCollapsed := False\<rparr>) ls)"

definition setActiveResultsTab :: "(json \<Rightarrow> string) \<Rightarrow> results_tab \<Rightarrow> layout_and_storage \<Rightarrow> layout_and_storage" where
  "setActiveResultsTab stringify tab ls =
     (if activeResultsTab (fst ls) = tab then ls
      else updateLayout stringify (\<lambda>l. l\<lparr>activeResultsTab := tab\<rparr>) ls)"

datatype layout_op = ToggleProblem | ToggleResults | ExpandResults | SetTab results_tab

fun layout_step :: "(json \<Rightarrow> string) \<Rightarrow> layout_op \<Rightarrow> layout_and_storage \<Rightarrow> layout_and_storage" where
  "layout_step sf ToggleProblem ls = toggleProblemPanel sf ls"
| "layout_step sf ToggleResults ls = toggleResultsPanel sf ls"
| "layout_step sf ExpandResults ls = expandResultsPanel sf ls"
| "layout_step sf (SetTab t) ls = setActiveResultsTab sf t ls"

lemma layout_json_roundtrip [simp]: "layout_of_json (layout_json l) = Some l"
  by (cases "activeResultsTab l") (simp_all add: layout_json_def layout_of_json_def)

definition in_sync :: "(string \<Rightarrow> json option) \<Rightarrow> layout_and_storage \<Rightarrow> bool" where
  "in_sync parse ls \<longleftrightarrow> readFromStorage parse (snd ls) = fst ls"

lemma write_in_sync:
  assumes "\<And>v. parse (stringify v) = Some v" and "\<And>v. stringify v \<noteq> []" and "st \<noteq> None"
  shows "in_sync parse (l, writeToStorage stringify l st)"
  using assms by (auto simp: in_sync_def readFromStorage_def writeToStorage_def)

text \<open>With a storage that works, what is stored is always the layout that is shown, so that the page comes back with it.\<close>

lemma layout_survives_reload:
  assumes "\<And>v. parse (stringify v) = Some v" and "\<And>v. stringify v \<noteq> []" and "st \<noteq> None"
  shows "in_sync parse (foldl (\<lambda>ls op. layout_step stringify op ls) (readFromStorage parse st, st) ops)"
proof -
  have step: "in_sync parse (layout_step stringify op ls) \<and> snd (layout_step stringify op ls) \<noteq> None"
    if "in_sync parse ls" "snd ls \<noteq> None" for op ls
    using that write_in_sync [of parse stringify, OF assms(1,2)]
    by (cases op) (auto simp: toggleProblemPanel_def toggleResultsPanel_def expandResultsPanel_def
        setActiveResultsTab_def updateLayout_def writeToStorage_def)
  have "in_sync parse (foldl (\<lambda>ls op. layout_step stringify op ls) ls ops)"
    if "in_sync parse ls" "snd ls \<noteq> None" for ls
    using that step by (induction ops arbitrary: ls) simp_all
  then show ?thesis using assms(3) by (simp add: in_sync_def)
qed

text \<open>
  The panel itself has a state too, and it starts expanded whatever was stored. A toggle flips both, so where they
  disagree at the start they disagree for good: after a reload with a collapsed panel stored, the button says
  Show where the panel is open and Hide where it is closed.
\<close>

definition handleTogglePanel ::
  "(layout_and_storage \<Rightarrow> layout_and_storage) \<Rightarrow> bool \<times> layout_and_storage \<Rightarrow> bool \<times> layout_and_storage" where
  "handleTogglePanel toggle pl = (\<not> fst pl, toggle (snd pl))"

lemma panel_disagreement_is_kept:
  "(fst (handleTogglePanel (toggleProblemPanel sf) pl)
      = problemCollapsed (fst (snd (handleTogglePanel (toggleProblemPanel sf) pl))))
   = (fst pl = problemCollapsed (fst (snd pl)))"
  by (auto simp: handleTogglePanel_def toggleProblemPanel_def updateLayout_def)

end
