(* ===== verification/Client_Panels.thy ===== *)
theory Client_Panels
  imports Client_Room Decimal_Text
begin

text \<open>
  What the panels of the solver page compute (\<^verbatim>\<open>apps/client/src/components\<close>): the pieces of a
  problem's description, the keys of the custom test cases, the form that adds one, which result is shown, and
  what the hint panel offers.
\<close>

section \<open>The description of a problem\<close>

text \<open>
  \<^verbatim>\<open>text.split(/(`[^`]+`)/g)\<close>: pieces of text and, between them, the code spans with their
  backticks. The first argument is the piece of text read so far.
\<close>

abbreviation (input) tick :: char where "tick \<equiv> CHR 0x60"

function split_code :: "string \<Rightarrow> string \<Rightarrow> string list" where
  "split_code acc [] = [acc]"
| "split_code acc (c # s) =
     (let body = takeWhile (\<lambda>x. x \<noteq> tick) s; rest = dropWhile (\<lambda>x. x \<noteq> tick) s
      in if c = tick \<and> body \<noteq> [] \<and> rest \<noteq> []
         then acc # (tick # body @ [tick]) # split_code [] (tl rest)
         else split_code (acc @ [c]) s)"
  by pat_completeness auto
termination
proof (relation "measure (\<lambda>(acc, s). length s)", goal_cases)
  case (2 acc c s body rest)
  have "length (dropWhile (\<lambda>x. x \<noteq> tick) s) \<le> length s" by (rule length_dropWhile_le)
  with 2 show ?case by simp
qed simp_all

datatype piece = CodePiece string | TextPiece string

text \<open>A piece that begins and ends with a backtick is shown as code, without its first and last character.\<close>

definition piece_of :: "string \<Rightarrow> piece" where
  "piece_of p =
     (if p \<noteq> [] \<and> hd p = tick \<and> last p = tick then CodePiece (tl (butlast p)) else TextPiece p)"

definition renderDescription :: "string \<Rightarrow> piece list" where
  "renderDescription t = map piece_of (split_code [] t)"

declare split_code.simps(2) [simp del]

lemma split_code_span:
  "c = tick \<Longrightarrow> takeWhile (\<lambda>x. x \<noteq> tick) s \<noteq> [] \<Longrightarrow> dropWhile (\<lambda>x. x \<noteq> tick) s \<noteq> [] \<Longrightarrow>
   split_code acc (c # s) =
   acc # (tick # takeWhile (\<lambda>x. x \<noteq> tick) s @ [tick]) # split_code [] (tl (dropWhile (\<lambda>x. x \<noteq> tick) s))"
  by (subst split_code.simps(2)) (simp only: Let_def simp_thms if_True)

lemma split_code_text:
  "\<not> (c = tick \<and> takeWhile (\<lambda>x. x \<noteq> tick) s \<noteq> [] \<and> dropWhile (\<lambda>x. x \<noteq> tick) s \<noteq> []) \<Longrightarrow>
   split_code acc (c # s) = split_code (acc @ [c]) s"
  by (subst split_code.simps(2)) (simp only: Let_def if_False)

lemma tick_tl: "dropWhile (\<lambda>x. x \<noteq> tick) s \<noteq> [] \<Longrightarrow> takeWhile (\<lambda>x. x \<noteq> tick) s @ tick # tl (dropWhile (\<lambda>x. x \<noteq> tick) s) = s"
  by (induction s) auto

lemma split_code_concat: "concat (split_code acc s) = acc @ s"
proof (induction acc s rule: split_code.induct)
  case (2 acc c s)
  let ?body = "takeWhile (\<lambda>x. x \<noteq> tick) s" and ?rest = "dropWhile (\<lambda>x. x \<noteq> tick) s"
  show ?case
  proof (cases "c = tick \<and> ?body \<noteq> [] \<and> ?rest \<noteq> []")
    case True
    from "2.IH"(1) [OF refl refl True] have "concat (split_code [] (tl ?rest)) = tl ?rest" by (simp only: append_Nil)
    moreover have "split_code acc (c # s) = acc # (tick # ?body @ [tick]) # split_code [] (tl ?rest)"
      using True by (intro split_code_span) simp_all
    ultimately have "concat (split_code acc (c # s)) = acc @ tick # (?body @ tick # tl ?rest)" by simp
    moreover have "?body @ tick # tl ?rest = s" using True by (intro tick_tl) simp
    ultimately show ?thesis using True by (simp only: append_Cons)
  next
    case False
    from "2.IH"(2) [OF refl refl False] show ?thesis
      by (simp only: split_code_text [OF False] append_assoc append.simps)
  qed
qed simp

text \<open>Nothing of the description is lost in the split, and a text without backticks is one piece.\<close>

lemma description_pieces_join: "concat (split_code [] t) = t"
  by (simp add: split_code_concat)

lemma split_code_plain: "tick \<notin> set s \<Longrightarrow> split_code acc s = [acc @ s]"
  by (induction s arbitrary: acc) (simp_all add: split_code_text)

lemma renderDescription_plain: "tick \<notin> set t \<Longrightarrow> renderDescription t = [TextPiece t]"
  by (cases t) (auto simp: renderDescription_def split_code_plain piece_of_def)

lemma renderDescription_span:
  assumes "tick \<notin> set a" and "tick \<notin> set b" and "b \<noteq> []"
  shows "renderDescription (a @ tick # b @ tick # c) = TextPiece a # CodePiece b # renderDescription c"
proof -
  have "takeWhile (\<lambda>x. x \<noteq> tick) (b @ tick # c) = b" "dropWhile (\<lambda>x. x \<noteq> tick) (b @ tick # c) = tick # c"
    using assms(2) by (induction b) auto
  then have span: "split_code acc (tick # b @ tick # c) = acc # (tick # b @ [tick]) # split_code [] c" for acc
    using assms(3) by (subst split_code_span) simp_all
  have "split_code acc (a @ tick # b @ tick # c) = (acc @ a) # (tick # b @ [tick]) # split_code [] c" for acc
    using assms(1)
  proof (induction a arbitrary: acc)
    case (Cons x a)
    then have "split_code acc (x # a @ tick # b @ tick # c) = split_code (acc @ [x]) (a @ tick # b @ tick # c)"
      by (intro split_code_text) auto
    with Cons show ?case by simp
  qed (simp add: span)
  moreover have "piece_of a = TextPiece a" using assms(1) by (cases a) (auto simp: piece_of_def)
  ultimately show ?thesis by (simp add: renderDescription_def piece_of_def)
qed

text \<open>A lone backtick is taken for a code span of no text and disappears.\<close>

lemma lone_backtick_disappears: "renderDescription [tick] = [CodePiece []]"
  by (simp add: renderDescription_def split_code_text piece_of_def)

section \<open>The keys of the custom test cases\<close>

text \<open>\<open>base\<close> is the JSON text of a case, which ends with a brace; \<open>seen\<close> counts the cases before.\<close>

fun keyed :: "string list \<Rightarrow> (string \<rightharpoonup> nat) \<Rightarrow> string list" where
  "keyed [] seen = []"
| "keyed (base # bs) seen =
     (let count = (case seen base of None \<Rightarrow> 0 | Some n \<Rightarrow> n)
      in (if count = 0 then base else base @ ''#'' @ string_of_nat (count + 1))
         # keyed bs (seen(base \<mapsto> count + 1)))"

definition buildKeyedCustomTestCases :: "(custom_test_case \<Rightarrow> string) \<Rightarrow> custom_test_case list \<Rightarrow> (string \<times> custom_test_case) list" where
  "buildKeyedCustomTestCases json_text cases = zip (keyed (map json_text cases) (\<lambda>_. None)) cases"

definition key_for :: "string \<Rightarrow> nat \<Rightarrow> string" where
  "key_for base count = (if count = 0 then base else base @ ''#'' @ string_of_nat (count + 1))"

lemma keyed_keys:
  "i < length bs \<Longrightarrow> keyed bs seen ! i =
   key_for (bs ! i) (length (filter (\<lambda>b. b = bs ! i) (take i bs)) + (case seen (bs ! i) of None \<Rightarrow> 0 | Some n \<Rightarrow> n))"
proof (induction bs arbitrary: i seen)
  case (Cons b bs)
  show ?case
  proof (cases i)
    case 0
    then show ?thesis by (simp add: key_for_def Let_def)
  next
    case (Suc j)
    with Cons.prems have "j < length bs" by simp
    from Cons.IH [OF this] Suc show ?thesis by (simp add: Let_def)
  qed
qed simp

lemma length_keyed [simp]: "length (keyed bs seen) = length bs"
  by (induction bs arbitrary: seen) (simp_all add: Let_def)

lemma split_at_char: "c \<notin> set x \<Longrightarrow> c \<notin> set y \<Longrightarrow> x @ c # u = y @ c # v \<Longrightarrow> x = y \<and> u = v"
proof (induction x arbitrary: y)
  case Nil
  then show ?case by (cases y) simp_all
next
  case (Cons a x)
  then show ?case by (cases y) auto
qed

lemma key_for_inj:
  assumes "b \<noteq> [] \<and> last b = CHR ''}''" and "b' \<noteq> [] \<and> last b' = CHR ''}''" and "key_for b m = key_for b' n"
  shows "b = b' \<and> m = n"
proof -
  have hash: "CHR ''#'' \<notin> set (string_of_nat k)" for k by (auto dest: string_of_nat_codes)
  have pure: "b1 \<noteq> b2 @ ''#'' @ string_of_nat k" if "last b1 = CHR ''}''" for b1 b2 k
    using that last_string_of_nat [of k] by auto
  have split: "b1 = b2 \<and> string_of_nat k = string_of_nat l"
    if "b1 @ ''#'' @ string_of_nat k = b2 @ ''#'' @ string_of_nat l" for b1 b2 k l
  proof -
    from that have "rev (string_of_nat k) @ CHR ''#'' # rev b1 = rev (string_of_nat l) @ CHR ''#'' # rev b2"
      by (metis (no_types) append_Cons append_Nil append_assoc rev_append rev.simps(2) rev_rev_ident)
    then have "rev (string_of_nat k) = rev (string_of_nat l) \<and> rev b1 = rev b2"
      using hash [of k] hash [of l] by (intro split_at_char) simp_all
    then show ?thesis by simp
  qed
  show ?thesis
  proof (cases "m = 0"; cases "n = 0")
    assume "m \<noteq> 0" "n \<noteq> 0"
    with assms(3) have "b @ ''#'' @ string_of_nat (m + 1) = b' @ ''#'' @ string_of_nat (n + 1)"
      by (simp only: key_for_def if_False)
    from split [OF this] show ?thesis by (simp add: string_of_nat_inj)
  next
    assume "m \<noteq> 0" "n = 0"
    then have "key_for b m = b @ ''#'' @ string_of_nat (m + 1)" "key_for b' n = b'" by (simp_all add: key_for_def)
    with assms(3) have "b' = b @ ''#'' @ string_of_nat (m + 1)" by metis
    with pure [of b' b] assms(2) show ?thesis by blast
  next
    assume "m = 0" "n \<noteq> 0"
    then have "key_for b' n = b' @ ''#'' @ string_of_nat (n + 1)" "key_for b m = b" by (simp_all add: key_for_def)
    with assms(3) have "b = b' @ ''#'' @ string_of_nat (n + 1)" by metis
    with pure [of b b'] assms(1) show ?thesis by blast
  next
    assume "m = 0" "n = 0"
    with assms(3) show ?thesis by (simp add: key_for_def)
  qed
qed

text \<open>The keys of the listed test cases are pairwise different, also where the same case was added twice.\<close>

lemma custom_case_keys_distinct:
  assumes "\<And>c. json_text c \<noteq> [] \<and> last (json_text c) = CHR ''}''"
  shows "distinct (map fst (buildKeyedCustomTestCases json_text cases))"
proof -
  let ?bs = "map json_text cases"
  have "keyed ?bs (\<lambda>_. None) ! i \<noteq> keyed ?bs (\<lambda>_. None) ! j" if ij: "i < j" "j < length ?bs" for i j
  proof
    assume eq: "keyed ?bs (\<lambda>_. None) ! i = keyed ?bs (\<lambda>_. None) ! j"
    let ?n = "\<lambda>i. length (filter (\<lambda>b. b = ?bs ! i) (take i ?bs))"
    have "?bs ! i \<noteq> [] \<and> last (?bs ! i) = CHR ''}''" "?bs ! j \<noteq> [] \<and> last (?bs ! j) = CHR ''}''"
      using assms ij by simp_all
    moreover have "key_for (?bs ! i) (?n i) = key_for (?bs ! j) (?n j)"
      using eq ij by (simp add: keyed_keys)
    ultimately have same: "?bs ! i = ?bs ! j" "?n i = ?n j" using key_for_inj by blast+
    let ?t = "take j ?bs"
    have "drop i ?t = ?t ! i # drop (Suc i) ?t" using ij by (intro Cons_nth_drop_Suc [symmetric]) simp
    then have d: "drop i ?t = ?bs ! i # drop (Suc i) ?t" using ij by simp
    have "filter (\<lambda>b. b = ?bs ! i) ?t = filter (\<lambda>b. b = ?bs ! i) (take i ?t) @ filter (\<lambda>b. b = ?bs ! i) (drop i ?t)"
      by (metis append_take_drop_id filter_append)
    moreover have "take i ?t = take i ?bs" using ij by (simp add: min_def)
    ultimately have "length (filter (\<lambda>b. b = ?bs ! i) ?t) \<ge> Suc (?n i)" by (simp only: d) simp
    then have "?n j \<ge> Suc (?n i)" by (simp only: same(1))
    with same(2) show False by simp
  qed
  then have "distinct (keyed ?bs (\<lambda>_. None))"
    unfolding distinct_conv_nth by (metis length_keyed nat_neq_iff)
  then show ?thesis by (simp add: buildKeyedCustomTestCases_def)
qed

section \<open>The form for a test case\<close>

text \<open>
  The fields by name, with \<^verbatim>\<open>__expected\<close> for the expected output. \<open>parse\<close> is
  \<^verbatim>\<open>JSON.parse\<close>, which throws on other text and on a missing field.
\<close>

record testcase_form =
  form_values :: "(string \<times> string) list"
  form_error :: "string option"

definition buildInitialValues :: "string list \<Rightarrow> (string \<times> string) list" where
  "buildInitialValues names = AList.update ''__expected'' [] (foldl (\<lambda>vs n. AList.update n [] vs) [] names)"

definition initial_form :: "string list \<Rightarrow> testcase_form" where
  "initial_form names = \<lparr>form_values = buildInitialValues names, form_error = None\<rparr>"

definition handleValueChange :: "string \<Rightarrow> string \<Rightarrow> testcase_form \<Rightarrow> testcase_form" where
  "handleValueChange n v f = f\<lparr>form_values := AList.update n v (form_values f), form_error := None\<rparr>"

definition parse_value :: "(string \<Rightarrow> json option) \<Rightarrow> testcase_form \<Rightarrow> string \<Rightarrow> json option" where
  "parse_value parse f n = Option.bind (map_of (form_values f) n) parse"

text \<open>The inputs by name, or the first name whose value is not JSON.\<close>

fun collect_inputs ::
  "(string \<Rightarrow> json option) \<Rightarrow> testcase_form \<Rightarrow> string list \<Rightarrow> (string \<times> json) list \<Rightarrow> string + (string \<times> json) list" where
  "collect_inputs parse f [] acc = Inr acc"
| "collect_inputs parse f (n # ns) acc =
     (case parse_value parse f n of
        None \<Rightarrow> Inl n
      | Some v \<Rightarrow> collect_inputs parse f ns (AList.update n v acc))"

definition submitTestCase ::
  "(string \<Rightarrow> json option) \<Rightarrow> string list \<Rightarrow> testcase_form \<Rightarrow> testcase_form \<times> custom_test_case option" where
  "submitTestCase parse names f =
     (case collect_inputs parse f names [] of
        Inl n \<Rightarrow> (f\<lparr>form_error := Some (n @ '' must be valid JSON.'')\<rparr>, None)
      | Inr input \<Rightarrow>
          (case parse_value parse f ''__expected'' of
             None \<Rightarrow> (f\<lparr>form_error := Some ''Expected Output must be valid JSON.''\<rparr>, None)
           | Some v \<Rightarrow>
               (initial_form names, Some \<lparr>ct_input = input, ct_expectedOutput = Some v\<rparr>)))"

lemma collect_inputs_dom:
  "collect_inputs parse f ns acc = Inr input \<Longrightarrow> fst ` set input = fst ` set acc \<union> set ns"
proof (induction ns arbitrary: acc)
  case (Cons n ns)
  then obtain v where "collect_inputs parse f ns (AList.update n v acc) = Inr input"
    by (auto split: option.splits)
  from Cons.IH [OF this] show ?case by (simp add: dom_update)
qed simp

lemma collect_inputs_values:
  "collect_inputs parse f ns acc = Inr input \<Longrightarrow> n \<in> set ns \<Longrightarrow> map_of input n = parse_value parse f n"
proof (induction ns arbitrary: acc)
  case (Cons m ns)
  then obtain v where v: "parse_value parse f m = Some v" "collect_inputs parse f ns (AList.update m v acc) = Inr input"
    by (auto split: option.splits)
  have keep: "map_of input k = map_of acc' k" if "collect_inputs parse f ns acc' = Inr input" "k \<notin> set ns" for k acc'
    using that by (induction ns arbitrary: acc') (auto simp: update_conv' split: option.splits)
  show ?case
  proof (cases "n \<in> set ns")
    case True
    with Cons.IH v(2) show ?thesis by blast
  next
    case False
    with Cons.prems(2) have "n = m" by simp
    with keep [OF v(2) False] v(1) show ?thesis by (simp add: update_conv')
  qed
qed simp

text \<open>A case is sent only with a value for every parameter, each the parsed text of its field, and nothing else.\<close>

lemma submitted_case_complete:
  assumes "submitTestCase parse names f = (f', Some t)"
  shows "fst ` set (ct_input t) = set names \<and> f' = initial_form names
    \<and> ct_expectedOutput t = parse_value parse f ''__expected''"
proof -
  from assms obtain input v where i: "collect_inputs parse f names [] = Inr input" "parse_value parse f ''__expected'' = Some v"
    and f': "f' = initial_form names" "t = \<lparr>ct_input = input, ct_expectedOutput = Some v\<rparr>"
    by (auto simp: submitTestCase_def split: sum.splits option.splits)
  from collect_inputs_dom [OF i(1)] i(2) f' show ?thesis by simp
qed

section \<open>What is shown of a result\<close>

datatype result_view = RunningView | LastErrorView string | NoResultView | RunView run_result | SubmitView submit_result

definition resultsView :: "execution_result option \<Rightarrow> bool \<Rightarrow> string option \<Rightarrow> result_view" where
  "resultsView res inProgress lastError =
     (if inProgress then RunningView
      else if truthy_text lastError then LastErrorView (the lastError)
      else case res of None \<Rightarrow> NoResultView | Some (RunResult r) \<Rightarrow> RunView r | Some (SubmitResult r) \<Rightarrow> SubmitView r)"

section \<open>What the hint panel offers\<close>

record hint_panel =
  hint_available :: bool
  canRequestHint :: bool
  waitingForPartner :: bool
  consentCard :: bool
  hasCompletedHint :: bool
  hintsRemaining :: nat

definition problemHintStatus ::
  "nat \<Rightarrow> nat \<Rightarrow> pending_hint_request option \<Rightarrow> bool \<Rightarrow> bool \<Rightarrow> string \<Rightarrow> string option \<Rightarrow> RoomMode \<Rightarrow> hint_panel" where
  "problemHintStatus used limit pending streaming executing shown currentUserId mode =
     (let isRequester = (case pending of None \<Rightarrow> False | Some p \<Rightarrow> Some (requestedBy p) = currentUserId)
      in \<lparr>hint_available = (mode = Collaboration),
          canRequestHint = (pending = None \<and> \<not> streaming \<and> \<not> executing \<and> 0 < limit - used),
          waitingForPartner = (pending \<noteq> None \<and> isRequester),
          consentCard = (pending \<noteq> None \<and> \<not> isRequester),
          hasCompletedHint = (\<not> streaming \<and> trim shown \<noteq> []),
          hintsRemaining = limit - used\<rparr>)"

text \<open>The requester is never offered the consent, and a hint is offered only below the limit.\<close>

lemma hint_panel_correct:
  "(let h = problemHintStatus u l p st ex t me mode
    in \<not> (waitingForPartner h \<and> consentCard h) \<and> (canRequestHint h \<longrightarrow> u < l)
       \<and> (\<forall>q. p = Some q \<and> me = Some (requestedBy q) \<longrightarrow> \<not> consentCard h))"
  by (auto simp: problemHintStatus_def Let_def)

end
