(* ===== verification/Client_Pages.thy ===== *)
theory Client_Pages
  imports Client_Room Room_Code Leetcode_Url Problem_Store
begin

text \<open>
  The pages and dialogs of the client (\<^verbatim>\<open>apps/client/src/pages\<close>,
  \<^verbatim>\<open>components\<close>, \<^verbatim>\<open>lib/api.ts\<close>,
  \<^verbatim>\<open>hooks/useProblems.ts\<close>, \<^verbatim>\<open>providers\<close>): what they keep, what they ask
  the server and what they show for its answers. A handler that awaits the server is split there: one
  definition up to the request, one for the answer. Rendering, focus and log lines are left out.
\<close>

section \<open>Requests\<close>

text \<open>A response: its status and the body it carries, if the body can be read.\<close>

record 'b response =
  resp_status :: int
  resp_body :: "'b option"

definition resp_ok :: "'b response \<Rightarrow> bool" where
  "resp_ok r \<longleftrightarrow> 200 \<le> resp_status r \<and> resp_status r \<le> 299"

text \<open>\<open>Inl\<close> is the message of the error that is thrown; an unreadable body throws its parse error.\<close>

definition parseJsonResponse :: "string \<Rightarrow> 'b response \<Rightarrow> string + 'b" where
  "parseJsonResponse failureMessage r =
     (if resp_ok r then (case resp_body r of Some b \<Rightarrow> Inr b | None \<Rightarrow> Inl ''Unexpected end of JSON input'')
      else Inl (failureMessage @ '': '' @ string_of_int (resp_status r)))"

text \<open>The query of the problem list: \<open>enc\<close> is the encoding of \<^verbatim>\<open>URLSearchParams\<close>.\<close>

definition problems_url :: "(string \<Rightarrow> string) \<Rightarrow> string option \<Rightarrow> string option \<Rightarrow> string" where
  "problems_url enc category difficulty =
     (let ps = (if truthy_text category then [''category='' @ enc (the category)] else [])
             @ (if truthy_text difficulty then [''difficulty='' @ enc (the difficulty)] else [])
      in ''/api/problems'' @ (if ps = [] then [] else ''?'' @ join_with ''&'' ps))"

definition loginResult :: "('b + string option) response \<Rightarrow> string + 'b" where
  "loginResult r =
     (case (resp_ok r, resp_body r) of
        (True, Some (Inl b)) \<Rightarrow> Inr b
      | (True, _) \<Rightarrow> Inl ''Unexpected end of JSON input''
      | (False, Some (Inr (Some e))) \<Rightarrow> Inl e
      | (False, _) \<Rightarrow> Inl ''Invalid invite code.'')"

section \<open>The list of problems\<close>

record 'p problems_state =
  up_problems :: "'p list"
  up_loading :: bool
  up_error :: "string option"
  up_active :: bool

definition useProblems_start :: "'p problems_state" where
  "useProblems_start = \<lparr>up_problems = [], up_loading = True, up_error = None, up_active = True\<rparr>"

definition useProblems_unmount :: "'p problems_state \<Rightarrow> 'p problems_state" where
  "useProblems_unmount s = s\<lparr>up_active := False\<rparr>"

definition useProblems_answer :: "string + 'p list \<Rightarrow> 'p problems_state \<Rightarrow> 'p problems_state" where
  "useProblems_answer res s =
     (if \<not> up_active s then s
      else case res of
          Inr ps \<Rightarrow> s\<lparr>up_problems := ps, up_error := None, up_loading := False\<rparr>
        | Inl e \<Rightarrow> s\<lparr>up_problems := [], up_error := Some e, up_loading := False\<rparr>)"

lemma late_answer_ignored: "useProblems_answer res (useProblems_unmount s) = useProblems_unmount s"
  by (simp add: useProblems_answer_def useProblems_unmount_def)

section \<open>Joining by a code\<close>

record room_info =
  ri_exists :: bool
  ri_mode :: "RoomMode option"
  ri_userCount :: "nat option"
  ri_maxUsers :: "nat option"

definition room_is_full :: "room_info \<Rightarrow> bool" where
  "room_is_full i =
     (case (ri_userCount i, ri_maxUsers i) of (Some n, Some m) \<Rightarrow> m \<le> n | _ \<Rightarrow> False)"

subsection \<open>The dialog inside a room\<close>

datatype join_status = Idle | Checking | NotFound | Full | JoinError

record join_dialog =
  jd_roomCode :: string
  jd_status :: join_status

definition dialog_opened :: join_dialog where
  "dialog_opened = \<lparr>jd_roomCode = [], jd_status = Idle\<rparr>"

definition ascii_letter :: "char \<Rightarrow> bool" where
  "ascii_letter c \<longleftrightarrow> (let n = of_char c :: nat in (65 \<le> n \<and> n \<le> 90) \<or> (97 \<le> n \<and> n \<le> 122))"

definition dialogInputChange :: "string \<Rightarrow> join_dialog \<Rightarrow> join_dialog" where
  "dialogInputChange typed d =
     \<lparr>jd_roomCode = take 6 (toLowerCase (filter ascii_letter typed)),
      jd_status = (if jd_status d \<noteq> Idle \<and> jd_status d \<noteq> Checking then Idle else jd_status d)\<rparr>"

definition formattedCode :: "join_dialog \<Rightarrow> string" where
  "formattedCode d =
     (if 3 < length (jd_roomCode d) then take 3 (jd_roomCode d) @ ''-'' @ drop 3 (jd_roomCode d) else jd_roomCode d)"

text \<open>The code the server is asked for, if one is.\<close>

definition dialogJoin :: "join_dialog \<Rightarrow> join_dialog \<times> string option" where
  "dialogJoin d =
     (if length (jd_roomCode d) \<noteq> 6 then (d, None)
      else (d\<lparr>jd_status := Checking\<rparr>, Some (take 3 (jd_roomCode d) @ ''-'' @ drop 3 (jd_roomCode d))))"

text \<open>Its answer: the dialog, or the page that is opened.\<close>

definition dialogAnswer :: "string \<Rightarrow> string + room_info \<Rightarrow> join_dialog \<Rightarrow> join_dialog + string" where
  "dialogAnswer code res d =
     (case res of
        Inl e \<Rightarrow> Inl (d\<lparr>jd_status := JoinError\<rparr>)
      | Inr i \<Rightarrow>
          if \<not> ri_exists i then Inl (d\<lparr>jd_status := NotFound\<rparr>)
          else if room_is_full i then Inl (d\<lparr>jd_status := Full\<rparr>)
          else Inr (''/room/'' @ code))"

lemma ascii_letter_lower: "ascii_letter c \<Longrightarrow> ascii_letter (lower_char c)"
  by (auto simp: ascii_letter_def lower_char_def Let_def)

lemma dialog_letters:
  assumes "dialogJoin (dialogInputChange typed d) = (d', Some code)" and "c \<in> set code"
  shows "ascii_letter c \<or> c = CHR ''-''"
proof -
  let ?r = "jd_roomCode (dialogInputChange typed d)"
  have "ascii_letter x" if "x \<in> set ?r" for x
    using that in_set_takeD ascii_letter_lower
    by (fastforce simp: dialogInputChange_def toLowerCase_def)
  moreover have "code = take 3 ?r @ ''-'' @ drop 3 ?r" using assms(1) by (auto simp: dialogJoin_def split: if_splits)
  ultimately show ?thesis using assms(2) by (auto dest: in_set_takeD in_set_dropD)
qed

text \<open>a room code may have digits from 2 to 7, and the home page takes every code; the dialog inside a room drops
every digit that is typed, so it never asks the server for a code that has one.\<close>

theorem join_dialog_cannot_name_every_room:
  assumes "roomCodePattern code" and "d \<in> set code" and "d \<in> set ''234567''"
  shows "snd (dialogJoin (dialogInputChange typed dlg)) \<noteq> Some code
    \<and> normalizeRoomCodeInput code = Some code \<and> roomCodeSchema code = Some code"
proof -
  have "\<not> ascii_letter d \<and> d \<noteq> CHR ''-''" using assms(3) by (auto simp: ascii_letter_def)
  then have "snd (dialogJoin (dialogInputChange typed dlg)) \<noteq> Some code"
    using dialog_letters [of typed dlg _ code d] assms(2) by (metis prod.collapse)
  moreover have "normalizeRoomCodeInput code = Some code \<and> roomCodeSchema code = Some code"
    using normalizeRoomCodeInput_code [OF assms(1)] roomCodePattern_normalized [OF assms(1)] assms(1)
    by (simp add: roomCodeSchema_def normalizeRoomCode_def)
  ultimately show ?thesis by simp
qed

theorem join_dialog_cannot_name_every_room_witness:
  "snd (dialogJoin (dialogInputChange ''ab2-cde'' dialog_opened)) \<noteq> Some ''ab2-cde''"
  using join_dialog_cannot_name_every_room [of "''ab2-cde''" "CHR ''2''" "''ab2-cde''" dialog_opened]
  by (simp add: roomCodePattern_def ALPHABET_def)

subsection \<open>The page of an invitation link\<close>

record join_page =
  jp_info :: "room_info option"
  jp_loading :: bool
  jp_error :: "string option"

definition joinPage_start :: join_page where
  "joinPage_start = \<lparr>jp_info = None, jp_loading = True, jp_error = None\<rparr>"

text \<open>The answer for the code that is still shown, or of a request that was aborted because another code is.\<close>

definition joinPage_answer :: "bool \<Rightarrow> string + room_info \<Rightarrow> join_page \<Rightarrow> join_page" where
  "joinPage_answer aborted res p =
     (if aborted then p
      else case res of
          Inr i \<Rightarrow> p\<lparr>jp_info := Some i, jp_loading := False\<rparr>
        | Inl e \<Rightarrow> p\<lparr>jp_error := Some ''Failed to check room.'', jp_loading := False\<rparr>)"

datatype join_view = CheckingView | RoomNotFoundView | RoomFullView nat nat | JoinFormView string "string option"

definition joinPage_view :: "join_page \<Rightarrow> join_view" where
  "joinPage_view p =
     (if jp_loading p then CheckingView
      else case jp_info p of
          None \<Rightarrow> RoomNotFoundView
        | Some i \<Rightarrow>
            if truthy_text (jp_error p) \<or> \<not> ri_exists i then RoomNotFoundView
            else if room_is_full i then RoomFullView (the (ri_userCount i)) (the (ri_maxUsers i))
            else JoinFormView (if ri_mode i = Some Interview then ''Mock Interview'' else ''Collaboration'')
                              (if ri_mode i = Some Interview then Some ''You'll join as Candidate'' else None))"

text \<open>The page opened on Join, if the name can be stored.\<close>

definition joinPage_join :: "string \<Rightarrow> string \<Rightarrow> storage \<Rightarrow> storage \<times> string option" where
  "joinPage_join roomCode displayName st =
     (let t = trim displayName in
      if t = [] \<or> roomCode = [] \<or> \<not> writable st then (st, None)
      else (st\<lparr>items := AList.update ''displayName'' t (items st)\<rparr>, Some (''/room/'' @ roomCode @ ''/session'')))"

text \<open>A server that cannot be reached is shown as a room that does not exist.\<close>

lemma failure_shown_as_missing_room:
  "joinPage_view (joinPage_answer False (Inl e) joinPage_start) = RoomNotFoundView"
  by (simp add: joinPage_view_def joinPage_answer_def joinPage_start_def)

text \<open>The form is offered only for a room the server says exists and is not full.\<close>

lemma join_form_only_for_open_rooms:
  "joinPage_view p = JoinFormView a b \<Longrightarrow> \<exists>i. jp_info p = Some i \<and> ri_exists i \<and> \<not> room_is_full i"
  by (auto simp: joinPage_view_def split: if_splits option.splits)

subsection \<open>The home page\<close>

datatype home_tab = CreateTab | JoinTab

record home_page =
  hm_displayName :: string
  hm_mode :: RoomMode
  hm_loading :: bool
  hm_error :: "string option"
  hm_tab :: home_tab
  hm_codeInput :: string
  hm_codeStripped :: string

definition home_start :: home_page where
  "home_start =
     \<lparr>hm_displayName = [], hm_mode = Collaboration, hm_loading = False, hm_error = None, hm_tab = CreateTab,
      hm_codeInput = [], hm_codeStripped = []\<rparr>"

definition handleTabSwitch :: "home_tab \<Rightarrow> home_page \<Rightarrow> home_page" where
  "handleTabSwitch t h = h\<lparr>hm_tab := t, hm_error := None\<rparr>"

definition handleRoomCodeChange :: "string \<Rightarrow> home_page \<Rightarrow> home_page" where
  "handleRoomCodeChange raw h =
     (let stripped = stripRoomCodeInput raw
      in h\<lparr>hm_codeStripped := stripped, hm_codeInput := formatRoomCode stripped, hm_error := None\<rparr>)"

definition handleCreate :: "home_page \<Rightarrow> home_page \<times> (RoomMode \<times> string) option" where
  "handleCreate h =
     (let t = trim (hm_displayName h) in
      if t = [] then (h, None) else (h\<lparr>hm_loading := True, hm_error := None\<rparr>, Some (hm_mode h, t)))"

definition createAnswer :: "string \<Rightarrow> string + string \<Rightarrow> storage \<Rightarrow> home_page \<Rightarrow> home_page \<times> storage \<times> string option" where
  "createAnswer name res st h =
     (case res of
        Inr code \<Rightarrow>
          if writable st
          then (h, st\<lparr>items := AList.update ''displayName'' name (items st)\<rparr>, Some (''/room/'' @ code @ ''/session''))
          else (h\<lparr>hm_error := Some ''Failed to create room. Please try again.'', hm_loading := False\<rparr>, st, None)
      | Inl e \<Rightarrow> (h\<lparr>hm_error := Some ''Failed to create room. Please try again.'', hm_loading := False\<rparr>, st, None))"

definition handleHomeJoin :: "home_page \<Rightarrow> home_page \<times> (string \<times> string) option" where
  "handleHomeJoin h =
     (let t = trim (hm_displayName h) in
      if t = [] then (h, None)
      else case normalizeRoomCodeInput (hm_codeInput h) of
          None \<Rightarrow> (h\<lparr>hm_error := Some ''Invalid room code format.''\<rparr>, None)
        | Some code \<Rightarrow> (h\<lparr>hm_loading := True, hm_error := None\<rparr>, Some (code, t)))"

definition homeJoinAnswer ::
  "string \<Rightarrow> string \<Rightarrow> string + room_info \<Rightarrow> storage \<Rightarrow> home_page \<Rightarrow> home_page \<times> storage \<times> string option" where
  "homeJoinAnswer code name res st h =
     (let failed = (\<lambda>msg. (h\<lparr>hm_error := Some msg, hm_loading := False\<rparr>, st, None))
      in case res of
           Inl e \<Rightarrow> failed ''Failed to join room. Please try again.''
         | Inr i \<Rightarrow>
             if \<not> ri_exists i then failed ''Room not found. Check the code and try again.''
             else if room_is_full i then failed ''Room is full.''
             else if \<not> writable st then failed ''Failed to join room. Please try again.''
             else (h, st\<lparr>items := AList.update ''displayName'' name (items st)\<rparr>, Some (''/room/'' @ code @ ''/session'')))"

text \<open>What is typed for a valid code, in any case and with or without the dash, asks the server for that code.\<close>

lemma home_join_asks_for_the_code:
  assumes "roomCodePattern code" and "trim (hm_displayName h) \<noteq> []"
  shows "snd (handleHomeJoin (handleRoomCodeChange code h)) = Some (code, trim (hm_displayName h))"
proof -
  have n: "normalizeRoomCodeInput code = Some code" by (rule normalizeRoomCodeInput_code [OF assms(1)])
  then have "formatRoomCode (stripRoomCodeInput code) = code"
    by (auto simp: normalizeRoomCodeInput_def Let_def split: if_splits)
  with n assms(2) show ?thesis by (simp add: handleHomeJoin_def handleRoomCodeChange_def Let_def)
qed

section \<open>The gate of the private demo\<close>

datatype access_state = AccChecking | AccAuthorized | AccLocked | AccUnavailable

record access_gate =
  ag_state :: access_state
  ag_code :: string
  ag_error :: "string option"
  ag_submitting :: bool

definition gate_mounted :: access_gate where
  "gate_mounted = \<lparr>ag_state = AccChecking, ag_code = [], ag_error = None, ag_submitting = False\<rparr>"

text \<open>Answers are \<open>Inr\<close> with whether the session is authenticated, or the error.\<close>

datatype gate_event =
    SessionAnswer "string + bool"
  | RetryPressed
  | AccessRequired
  | CodeTyped string
  | SubmitPressed
  | LoginAnswer "string + bool"

fun gate_step :: "gate_event \<Rightarrow> access_gate \<Rightarrow> access_gate" where
  "gate_step (SessionAnswer (Inr b)) g = g\<lparr>ag_state := if b then AccAuthorized else AccLocked\<rparr>"
| "gate_step (SessionAnswer (Inl e)) g = g\<lparr>ag_state := AccUnavailable\<rparr>"
| "gate_step RetryPressed g = g\<lparr>ag_state := AccChecking, ag_error := None\<rparr>"
| "gate_step AccessRequired g =
     g\<lparr>ag_code := [], ag_error := Some ''Access expired. Enter your invite code again.'', ag_state := AccLocked\<rparr>"
| "gate_step (CodeTyped c) g = g\<lparr>ag_code := c, ag_error := None\<rparr>"
| "gate_step SubmitPressed g =
     (if trim (ag_code g) = [] then g else g\<lparr>ag_submitting := True, ag_error := None\<rparr>)"
| "gate_step (LoginAnswer (Inr b)) g =
     g\<lparr>ag_state := if b then AccAuthorized else AccLocked,
       ag_error := if b then ag_error g else Some ''Invalid invite code.'', ag_submitting := False\<rparr>"
| "gate_step (LoginAnswer (Inl e)) g = g\<lparr>ag_error := Some e, ag_submitting := False\<rparr>"

fun grants :: "gate_event \<Rightarrow> bool" where
  "grants (SessionAnswer (Inr b)) = b"
| "grants (LoginAnswer (Inr b)) = b"
| "grants _ = False"

text \<open>The application is shown only after an answer of the server that says so, with no expiry since.\<close>

lemma gate_opens_only_on_an_answer:
  "ag_state (foldl (\<lambda>g e. gate_step e g) gate_mounted es) = AccAuthorized \<Longrightarrow>
   \<exists>pre e post. es = pre @ e # post \<and> grants e \<and> AccessRequired \<notin> set post"
proof (induction es rule: rev_induct)
  case (snoc e es)
  show ?case
  proof (cases "grants e")
    case True
    then show ?thesis by (metis empty_iff list.set(1))
  next
    case False
    let ?g = "foldl (\<lambda>g e. gate_step e g) gate_mounted es"
    have "ag_state (gate_step e ?g) = AccAuthorized" using snoc.prems by simp
    with False have "ag_state ?g = AccAuthorized \<and> e \<noteq> AccessRequired"
      by (cases "(e, ?g)" rule: gate_step.cases) (auto split: if_splits)
    with snoc.IH obtain pre e' post where "es = pre @ e' # post" "grants e'" "AccessRequired \<notin> set post" by blast
    then have "es @ [e] = pre @ e' # (post @ [e])" "AccessRequired \<notin> set (post @ [e])"
      using \<open>ag_state ?g = AccAuthorized \<and> e \<noteq> AccessRequired\<close> by auto
    with \<open>grants e'\<close> show ?thesis by blast
  qed
qed (simp add: gate_mounted_def)

end
