(* ===== verification/Client_Problems.thy ===== *)
theory Client_Problems
  imports Client_Pages Room_Replica Problem_Handler Auth_Middleware Testcase_Handler
begin

text \<open>
  The client's pages inside a room (\<^verbatim>\<open>apps/client/src/pages\<close>: the list of problems and the
  solver, \<^verbatim>\<open>components/ImportDialog.tsx\<close>,
  \<^verbatim>\<open>ProblemSelector.tsx\<close>, \<^verbatim>\<open>providers\<close>), and what the
  server's messages give to them: who gets to see a problem's solution.
\<close>

section \<open>Choosing a problem\<close>

text \<open>What both lists know of the room when a problem is clicked.\<close>

record problem_list_page =
  pp_category :: string
  pp_difficulty :: string
  pp_query :: string
  pp_pending :: "problem_list_item option"
  pp_showImport :: bool

record room_view =
  rv_hasSocket :: bool
  rv_connected :: bool
  rv_state :: client_room_state

definition currentUser :: "client_room_state \<Rightarrow> room_user option" where
  "currentUser s = List.find (\<lambda>u. Some (ru_id u) = cs_currentUserId s) (rs_users s)"

definition has_role :: "UserRole \<Rightarrow> client_room_state \<Rightarrow> bool" where
  "has_role r s = (case currentUser s of None \<Rightarrow> False | Some u \<Rightarrow> ru_role u = r)"

definition hasJoinedRoom :: "client_room_state \<Rightarrow> bool" where
  "hasJoinedRoom s \<longleftrightarrow> truthy_text (cs_currentUserId s)"

definition selectionDisabled :: "room_view \<Rightarrow> bool" where
  "selectionDisabled v \<longleftrightarrow>
     \<not> rv_hasSocket v \<or> rs_executionInProgress (rv_state v) \<or> \<not> rv_connected v \<or> \<not> hasJoinedRoom (rv_state v)"

definition importDisabled :: "client_room_state \<Rightarrow> bool" where
  "importDisabled s \<longleftrightarrow> rs_executionInProgress s \<or> cs_isHintStreaming s"

definition canImport :: "client_room_state \<Rightarrow> bool" where
  "canImport s \<longleftrightarrow> rs_mode s = Collaboration \<or> has_role Interviewer s"

text \<open>The distinct categories; \<open>sort\<close> is that of JavaScript, by code units, the order of HOL's strings as lists of codes.\<close>

definition char_codes :: "string \<Rightarrow> nat list" where
  "char_codes s = map of_char s"

fun code_le :: "nat list \<Rightarrow> nat list \<Rightarrow> bool" where
  "code_le [] ys = True"
| "code_le (x # xs) [] = False"
| "code_le (x # xs) (y # ys) = (x < y \<or> x = y \<and> code_le xs ys)"

fun insert_sorted :: "string \<Rightarrow> string list \<Rightarrow> string list" where
  "insert_sorted s [] = [s]"
| "insert_sorted s (t # ts) = (if code_le (char_codes s) (char_codes t) then s # t # ts else t # insert_sorted s ts)"

definition page_categories :: "problem_list_item list \<Rightarrow> string list" where
  "page_categories ps = foldr insert_sorted (remdups (map li_category ps)) []"

definition page_filtered :: "problem_list_page \<Rightarrow> problem_list_item list \<Rightarrow> problem_list_item list" where
  "page_filtered pg ps =
     filter (\<lambda>p. (pp_category pg = [] \<or> li_category p = pp_category pg)
                \<and> (pp_difficulty pg = [] \<or> difficulty_text (li_difficulty p) = pp_difficulty pg)
                \<and> (pp_query pg = [] \<or> includes_str (toLowerCase (pp_query pg)) (toLowerCase (li_title p)))) ps"

datatype select_effect = Nothing | OpenSolver | AskConfirm | EmitSelect string

definition handleSelect ::
  "room_view \<Rightarrow> problem_list_item \<Rightarrow> problem_list_page \<Rightarrow> problem_list_page \<times> select_effect" where
  "handleSelect v p pg =
     (let s = rv_state v in
      if selectionDisabled v then (pg, Nothing)
      else if has_role Candidate s \<and> rs_mode s = Interview then (pg, Nothing)
      else if Some (li_id p) = rs_problemId s then (pg, OpenSolver)
      else if truthy_text (rs_problemId s) then (pg\<lparr>pp_pending := Some p\<rparr>, AskConfirm)
      else (pg, EmitSelect (li_id p)))"

definition confirmSelect :: "room_view \<Rightarrow> problem_list_page \<Rightarrow> problem_list_page \<times> select_effect" where
  "confirmSelect v pg =
     (case pp_pending pg of
        None \<Rightarrow> (pg, Nothing)
      | Some p \<Rightarrow>
          if selectionDisabled v then (pg\<lparr>pp_pending := None\<rparr>, Nothing)
          else (pg\<lparr>pp_pending := None\<rparr>, EmitSelect (li_id p)))"

definition cancelSelect :: "problem_list_page \<Rightarrow> problem_list_page" where
  "cancelSelect pg = pg\<lparr>pp_pending := None\<rparr>"

text \<open>The selector of the solver page: the same without the role, the route and the search.\<close>

definition selectorSelect ::
  "bool \<Rightarrow> bool \<Rightarrow> bool \<Rightarrow> string option \<Rightarrow> problem_list_item \<Rightarrow> problem_list_item option
   \<Rightarrow> problem_list_item option \<times> select_effect" where
  "selectorSelect hasSocket executing disabled current p pending =
     (if \<not> hasSocket \<or> executing \<or> disabled then (pending, Nothing)
      else if Some (li_id p) = current then (pending, Nothing)
      else if truthy_text current then (Some p, AskConfirm)
      else (pending, EmitSelect (li_id p)))"

definition selectorConfirm ::
  "bool \<Rightarrow> bool \<Rightarrow> problem_list_item option \<Rightarrow> problem_list_item option \<times> select_effect" where
  "selectorConfirm executing disabled pending =
     (case pending of
        None \<Rightarrow> (None, Nothing)
      | Some p \<Rightarrow> (None, if executing \<or> disabled then Nothing else EmitSelect (li_id p)))"

text \<open>
  A problem that is set is replaced only after a question, and nothing is sent while an execution runs, the
  connection is down or the join is not answered.
\<close>

lemma select_needs_confirmation:
  "snd (handleSelect v p pg) = EmitSelect i \<Longrightarrow>
   i = li_id p \<and> \<not> truthy_text (rs_problemId (rv_state v)) \<and> \<not> selectionDisabled v
   \<and> \<not> (has_role Candidate (rv_state v) \<and> rs_mode (rv_state v) = Interview)"
  by (auto simp: handleSelect_def Let_def split: if_splits)

lemma confirm_guarded: "snd (confirmSelect v pg) = EmitSelect i \<Longrightarrow> \<not> selectionDisabled v"
  by (auto simp: confirmSelect_def split: option.splits if_splits)

section \<open>Importing\<close>

record import_dialog =
  im_url :: string
  im_error :: "string option"
  im_preview :: "string option"

definition import_dialog_closed :: import_dialog where
  "import_dialog_closed = \<lparr>im_url = [], im_error = None, im_preview = None\<rparr>"

definition importUrlChange ::
  "(string \<Rightarrow> (string \<times> string) option) \<Rightarrow> string \<Rightarrow> import_dialog \<Rightarrow> import_dialog" where
  "importUrlChange parse_url typed d =
     \<lparr>im_url = typed, im_error = None, im_preview = map_option lc_canonicalUrl (normalizeLeetCodeUrl parse_url typed)\<rparr>"

definition importSubmit ::
  "(string \<Rightarrow> (string \<times> string) option) \<Rightarrow> string option \<Rightarrow> import_dialog \<Rightarrow> import_dialog \<times> string option" where
  "importSubmit parse_url disabledReason d =
     (if truthy_text disabledReason then (d\<lparr>im_error := disabledReason\<rparr>, None)
      else case normalizeLeetCodeUrl parse_url (trim (im_url d)) of
          None \<Rightarrow> (d\<lparr>im_error := Some ''Paste a valid LeetCode problem URL.''\<rparr>, None)
        | Some r \<Rightarrow> (d\<lparr>im_error := None\<rparr>, Some (lc_canonicalUrl r)))"

definition import_status_message :: "(ImportStatus \<times> string option \<times> nat option) option \<Rightarrow> string option" where
  "import_status_message st =
     (case st of
        None \<Rightarrow> None
      | Some (Scraping, m, r) \<Rightarrow> Some ''Importing from LeetCode...''
      | Some (Saved, m, r) \<Rightarrow> Some ''Problem imported and loaded.''
      | Some (Failed, m, r) \<Rightarrow> Some (case m of None \<Rightarrow> ''Import failed.'' | Some t \<Rightarrow> t))"

definition handleImportProblem :: "client_room_state \<Rightarrow> string \<Rightarrow> string option" where
  "handleImportProblem s url = (if importDisabled s \<or> \<not> hasJoinedRoom s then None else Some url)"

text \<open>While an import is shown as running the dialog cannot send one.\<close>

definition isSubmitting :: "client_room_state \<Rightarrow> bool" where
  "isSubmitting s = (case cs_importStatus s of Some (Scraping, m, r) \<Rightarrow> True | _ \<Rightarrow> False)"

definition submitDisabled :: "string option \<Rightarrow> client_room_state \<Rightarrow> bool" where
  "submitDisabled disabledReason s \<longleftrightarrow> isSubmitting s \<or> disabledReason \<noteq> None"

text \<open>The preview is what a submission sends.\<close>

lemma preview_is_sent:
  "snd (importSubmit parse_url None (importUrlChange parse_url typed d)) = im_preview (importUrlChange parse_url typed d)"
  by (auto simp: importSubmit_def importUrlChange_def normalizeLeetCodeUrl_def split: option.split)

section \<open>The buttons of the solver page\<close>

record solver_flags =
  editorReadOnly :: bool
  actionsDisabled :: bool
  canRevealSolution :: bool
  revealDisabled :: bool
  sv_canImport :: bool
  sv_importDisabled :: bool
  canAddTestCase :: bool
  problemEmptyMessage :: string

definition solver_flags_of :: "bool \<Rightarrow> client_room_state \<Rightarrow> solver_flags" where
  "solver_flags_of online s =
     (let none = \<not> truthy_text (rs_problemId s);
          actions = rs_executionInProgress s \<or> none \<or> \<not> online;
          available = (case cs_currentProblem s of None \<Rightarrow> False | Some d \<Rightarrow> truthy_text (p_solution (pd_problem d)))
      in \<lparr>editorReadOnly = (none \<or> \<not> online), actionsDisabled = actions,
          canRevealSolution = (rs_mode s = Interview \<and> has_role Interviewer s),
          revealDisabled = (actions \<or> \<not> available),
          sv_canImport = canImport s, sv_importDisabled = importDisabled s,
          canAddTestCase = (length (rs_customTestCases s) < MAX_CUSTOM_TEST_CASES),
          problemEmptyMessage =
            (if has_role Candidate s \<and> rs_mode s = Interview
             then ''Waiting for the interviewer to select a problem.'' else ''Select a problem to begin.'')\<rparr>)"

section \<open>The connections\<close>

record socket_view =
  sk_connected :: bool
  sk_error :: "string option"

datatype socket_notice = SocketConnected | SocketDisconnected | SocketConnectError string

fun socket_notice_step :: "socket_view \<Rightarrow> socket_notice \<Rightarrow> socket_view" where
  "socket_notice_step v SocketConnected = \<lparr>sk_connected = True, sk_error = None\<rparr>"
| "socket_notice_step v SocketDisconnected = v\<lparr>sk_connected := False\<rparr>"
| "socket_notice_step v (SocketConnectError m) = v\<lparr>sk_connected := False, sk_error := Some m\<rparr>"

text \<open>The document's connection: for the room in lower case, with the token of the session.\<close>

definition yjs_token_of :: "string option \<Rightarrow> storage option \<Rightarrow> string option" where
  "yjs_token_of currentUserId st =
     (if truthy_text currentUserId then Option.bind st (\<lambda>s. map_of (items s) ''yjsToken'') else None)"

definition yjsProvider :: "string \<Rightarrow> string option \<Rightarrow> storage option \<Rightarrow> (string \<times> string) option" where
  "yjsProvider rcode currentUserId st =
     (let token = yjs_token_of currentUserId st
      in if rcode = [] \<or> \<not> truthy_text token then None else Some (toLowerCase rcode, the token))"

datatype session_page = GoHome | GoJoinPage string | RoomSession

definition roomSessionPage :: "string \<Rightarrow> string option \<Rightarrow> session_page" where
  "roomSessionPage rcode storedName =
     (if rcode = [] then GoHome
      else if \<not> truthy_text (map_option trim storedName) then GoJoinPage (''/room/'' @ rcode)
      else RoomSession)"

definition header_navigate :: "string \<Rightarrow> bool \<Rightarrow> string" where
  "header_navigate rcode isSolverActive =
     (let base = ''/room/'' @ rcode @ ''/session'' in if isSolverActive then base else base @ ''/solve'')"

lemma yjs_needs_join: "yjsProvider code None st = None"
  by (simp add: yjsProvider_def yjs_token_of_def)

text \<open>After the token is rotated the stored one is used.\<close>

lemma rotated_token_is_used:
  assumes "writable s" and "tok \<noteq> []" and "code \<noteq> []" and "uid \<noteq> []"
  shows "yjsProvider code (Some uid) (Some (stored (YjsTokenRotated tok) s)) = Some (toLowerCase code, tok)"
  using assms by (simp add: yjsProvider_def yjs_token_of_def storeSessionValue_def update_conv')

section \<open>Who sees the solution\<close>

lemma the_only_row:
  "row \<in> set xs \<Longrightarrow> P row \<Longrightarrow> distinct (map k xs) \<Longrightarrow> filter (\<lambda>x. k x = k row \<and> P x) xs = [row]"
proof (induction xs)
  case (Cons x xs)
  show ?case
  proof (cases "x = row")
    case True
    with Cons.prems have "filter (\<lambda>x. k x = k row \<and> P x) xs = []" by (auto simp: filter_empty_conv) (metis imageI)
    with True Cons.prems show ?thesis by simp
  next
    case False
    with Cons show ?thesis by (auto simp: image_iff)
  qed
qed simp

text \<open>C34: in an interview the middleware refuses a candidate's request to reveal the solution, yet the message that
loads a problem is sent to the whole room with the solution of the problem's row in it: every member's browser
holds the solution before anything is revealed.\<close>

theorem every_load_discloses_the_solution:
  assumes "row \<in> set (tb_problems db)" and "Problem_Store.active row" and "distinct (map pr_id (tb_problems db))"
    and "getById (\<lambda>i. findById i db) vis bp (pr_id row) = Some detail"
    and "sock_roomCode sock = Some code" and "code \<noteq> []" and "lookup code = Some r"
    and "member_of sock r = Some u" and "mode r = Interview" and "role u = Candidate"
  shows "authMiddleware lookup sock (event_name SOLUTION_REVEAL) = Reject msg_interviewer_only
    \<and> (\<exists>r' doc' pl. loadProblemIntoRoom sess detail now doc r = (r', doc', [ToRoom (ps_roomCode sess) (ProblemLoaded pl)])
         \<and> p_solution (pd_problem (pl_problem pl)) = pr_solution row)
    \<and> map_option (\<lambda>d. p_solution (pd_problem d))
        (cs_currentProblem (onMessage t (ProblemLoaded (loadedPayload detail)) cs)) = Some (pr_solution row)"
proof -
  have "filter (\<lambda>x. pr_id x = pr_id row \<and> Problem_Store.active x) (tb_problems db) = [row]"
    using assms(1-3) by (rule the_only_row)
  then have "pd_problem detail = toProblem row"
    using assms(4) by (auto simp: getById_def findById_def getFirstOrNull_def split: option.splits)
  moreover have "p_solution (toProblem row) = pr_solution row" by (simp add: toProblem_def)
  moreover have "authMiddleware lookup sock (event_name SOLUTION_REVEAL) = Reject msg_interviewer_only"
    using assms(5-10) by (simp add: authMiddleware_def member_of_def member_check_def event_sets)
  ultimately show ?thesis
    by (auto simp: loadProblemIntoRoom_def loadedPayload_def Let_def onMessage_def)
qed

definition sample_row :: problem_row where
  "sample_row = \<lparr>pr_id = ''p1'', pr_slug = ''two-sum'', pr_title = ''Two Sum'', pr_difficulty = Easy,
     pr_category = ''arrays'', pr_description = [], pr_constraints = [], pr_solution = Some ''use a map'',
     pr_time_limit_ms = 5000, pr_source = Curated, pr_source_url = None, pr_deleted_at = None,
     pr_created_at = [], pr_updated_at = []\<rparr>"

definition candidate_room :: room where
  "candidate_room = fst (addUser ''u2'' ''t2'' 0 ''Bob'' Candidate ''s2'' (new_room ''aaa-aaa'' Interview no_options ''y'' 0))"

definition candidate_socket :: socket_ctx where
  "candidate_socket = \<lparr>sock_id = ''s2'', sock_roomCode = Some ''aaa-aaa'', sock_clientIp = None\<rparr>"

theorem every_load_discloses_the_solution_witness:
  "map_option (\<lambda>d. p_solution (pd_problem d))
     (cs_currentProblem (onMessage 0 (ProblemLoaded (loadedPayload
        (the (getById (\<lambda>i. findById i (empty_tables\<lparr>tb_problems := [sample_row]\<rparr>)) (\<lambda>i. []) (\<lambda>i l. None) ''p1''))))
        initialRoomState))
   = Some (Some ''use a map'')"
proof -
  let ?db = "empty_tables\<lparr>tb_problems := [sample_row]\<rparr>"
  have row: "sample_row \<in> set (tb_problems ?db)" "Problem_Store.active sample_row" "distinct (map pr_id (tb_problems ?db))"
    by (simp_all add: Problem_Store.active_def sample_row_def)
  obtain detail where d: "getById (\<lambda>i. findById i ?db) (\<lambda>i. []) (\<lambda>i l. None) (pr_id sample_row) = Some detail"
    by (auto simp: getById_def findById_def getFirstOrNull_def Problem_Store.active_def sample_row_def)
  obtain u where u: "member_of candidate_socket candidate_room = Some u" "role u = Candidate"
    by (simp add: member_of_def candidate_socket_def candidate_room_def addUser_def new_room_def Let_def)
  have m: "mode candidate_room = Interview" by (simp add: candidate_room_def addUser_def new_room_def Let_def)
  have s: "sock_roomCode candidate_socket = Some ''aaa-aaa''" "''aaa-aaa'' \<noteq> []"
    by (simp_all add: candidate_socket_def)
  from every_load_discloses_the_solution [OF row d s _ u(1) m u(2), of "\<lambda>c. Some candidate_room"] d
  show ?thesis by (simp add: sample_row_def)
qed

section \<open>An import that is turned away\<close>

text \<open>Messages after which an import is shown as before.\<close>

fun leaves_import :: "server_msg \<Rightarrow> bool" where
  "leaves_import (ProblemImportStatus st msg retry) = False"
| "leaves_import (ProblemLoaded pl) = False"
| "leaves_import m = True"

lemma sync_keeps_import: "cs_importStatus (room_state.extend p (room_state.more c)) = cs_importStatus c"
  by (cases c) (simp add: room_state.defs)

lemma leaves_import_status: "leaves_import m \<Longrightarrow> isSubmitting (onMessage now m c) = isSubmitting c"
  by (cases m) (simp_all add: onMessage_def isSubmitting_def sync_keeps_import)

text \<open>The two ways in which an import ends after it was announced to the room and before anything is fetched.\<close>

definition turned_away :: "problem_session \<Rightarrow> string \<Rightarrow> string option \<Rightarrow> eff list" where
  "turned_away sess url busy =
     fst (importQuotaChecked \<lparr>pb_importsPerHour = 10, pb_enableProblemImport = True, pb_importsDailyLimit = 50,
       pb_hasGenerateTestCases = True, pb_hasImportLimiter = True\<rparr> sess url True)
     @ (case busy of
          Some operation \<Rightarrow> fst (importSlotAnswered sess url (Inl (OperationLimit operation)))
        | None \<Rightarrow> fst (importReserved sess url (Inr False)))"

text \<open>
  C35: an import that is turned away because the service is busy, or because the quota of the day was used up in the
  meantime, ends for the member who asked for it, but not for the other one: the start was announced to the whole room and the end
  is told to the sender only. The other member's dialog shows the import as running, and its
  button stays disabled, through every message that is not about an import or a loaded problem.
\<close>

theorem refused_import_blocks_the_other_member:
  assumes "me \<noteq> sock_id (ps_sock sess)" and "list_all leaves_import ms"
  shows "submitDisabled None (fold (onMessage t) ms (receive now me (ps_roomCode sess) (turned_away sess url busy) c))
    \<and> \<not> submitDisabled None (receive now (sock_id (ps_sock sess)) (ps_roomCode sess) (turned_away sess url busy) c)"
proof -
  have "isSubmitting (receive now me (ps_roomCode sess) (turned_away sess url busy) c)"
    using assms(1)
    by (cases busy) (simp_all add: turned_away_def importQuotaChecked_def importSlotAnswered_def importReserved_def
        importCatch_def emitImportStatusToRoom_def emitImportStatusToSender_def receive_def onMessage_def isSubmitting_def)
  then have "isSubmitting (fold (onMessage t) ms (receive now me (ps_roomCode sess) (turned_away sess url busy) c))"
    using assms(2) by (induction ms rule: rev_induct) (simp_all add: leaves_import_status)
  moreover have "\<not> isSubmitting (receive now (sock_id (ps_sock sess)) (ps_roomCode sess) (turned_away sess url busy) c)"
    by (cases busy) (simp_all add: turned_away_def importQuotaChecked_def importSlotAnswered_def importReserved_def
        importCatch_def emitImportStatusToRoom_def emitImportStatusToSender_def receive_def onMessage_def isSubmitting_def)
  ultimately show ?thesis by (simp add: submitDisabled_def)
qed

theorem refused_import_blocks_the_other_member_witness:
  "submitDisabled None (receive 0 ''s1'' ''aaa-aaa''
     (turned_away \<lparr>ps_sock = candidate_socket, ps_roomCode = ''aaa-aaa''\<rparr> ''u'' (Some ''imports'')) initialRoomState)"
  using refused_import_blocks_the_other_member
    [of "''s1''" "\<lparr>ps_sock = candidate_socket, ps_roomCode = ''aaa-aaa''\<rparr>" "[]" 0 0 "''u''" "Some ''imports''" initialRoomState]
  by (simp add: candidate_socket_def)

end
