(* ===== verification/Logging.thy ===== *)
theory Logging
  imports Text_Codec
begin

text \<open>
  What the four loggers of the repository do to what they are given, before it is written:
  \<^verbatim>\<open>packages/db/src/logger.ts\<close>, \<^verbatim>\<open>load-tests/src/lib/logger.ts\<close>,
  \<^verbatim>\<open>packages/shared/src/logging.ts\<close> with
  \<^verbatim>\<open>apps/client/src/lib/logger.ts\<close>, the route that takes the client's lines in, and the
  helpers of \<^verbatim>\<open>apps/server/src/lib/logger.ts\<close>. Times are texts that are given; writing
  to files and consoles is left out, and pino, which redacts the server's own lines, is not modelled.
\<close>

section \<open>Contexts\<close>

text \<open>
  The values of a context: an error object, an array, an object with its own fields, and the values without parts. An object
  without fields of its own, as a date, is an empty record.
\<close>

datatype ctx =
    CError string string "string option"
  | CUndefined
  | CNull
  | CBoolean bool
  | CNumber js_number
  | CString string
  | CList "ctx list"
  | CRecord "(string \<times> ctx) list"

definition REDACTED :: string where "REDACTED = ''[REDACTED]''"

definition SENSITIVE_KEYS :: "string list" where
  "SENSITIVE_KEYS =
     [''api_key'', ''apikey'', ''authorization'', ''cookie'', ''private_key'', ''reconnecttoken'', ''reconnect_token'',
      ''set-cookie'', ''token'', ''yjstoken'', ''yjs_token'']"

definition dashes_to_underscores :: "string \<Rightarrow> string" where
  "dashes_to_underscores s = map (\<lambda>c. if c = CHR ''-'' then CHR ''_'' else c) s"

definition isSensitiveKey :: "string \<Rightarrow> bool" where
  "isSensitiveKey key \<longleftrightarrow> toLowerCase (dashes_to_underscores key) \<in> set SENSITIVE_KEYS"

definition error_fields :: "string \<Rightarrow> string \<Rightarrow> string option \<Rightarrow> ctx" where
  "error_fields name msg stack =
     CRecord [(''name'', CString name), (''message'', CString msg),
              (''stack'', case stack of None \<Rightarrow> CUndefined | Some s \<Rightarrow> CString s)]"

fun sanitizeValue :: "string \<Rightarrow> ctx \<Rightarrow> ctx" where
  "sanitizeValue key (CError n m st) = (if isSensitiveKey key then CString REDACTED else error_fields n m st)"
| "sanitizeValue key (CList vs) = (if isSensitiveKey key then CString REDACTED else CList (map (sanitizeValue key) vs))"
| "sanitizeValue key (CRecord fs) =
     (if isSensitiveKey key then CString REDACTED else CRecord (map (\<lambda>(k, v). (k, sanitizeValue k v)) fs))"
| "sanitizeValue key v = (if isSensitiveKey key then CString REDACTED else v)"

definition sanitizeRecord :: "(string \<times> ctx) list \<Rightarrow> (string \<times> ctx) list" where
  "sanitizeRecord fs = map (\<lambda>(k, v). (k, sanitizeValue k v)) fs"

text \<open>The fields of an entry; those of the context come last and replace one of the same name in its place.\<close>

definition log_entry ::
  "string \<Rightarrow> string \<Rightarrow> string \<Rightarrow> string \<Rightarrow> string \<Rightarrow> (string \<times> ctx) list \<Rightarrow> (string \<times> ctx) list" where
  "log_entry timestamp level event service environment context =
     foldl (\<lambda>es (k, v). AList.update k v es)
       [(''timestamp'', CString timestamp), (''level'', CString level), (''event'', CString event),
        (''service'', CString service), (''environment'', CString environment)] context"

definition createDbLogEntry ::
  "string \<Rightarrow> string \<Rightarrow> string \<Rightarrow> string \<Rightarrow> (string \<times> ctx) list \<Rightarrow> (string \<times> ctx) list" where
  "createDbLogEntry timestamp level event environment context =
     log_entry timestamp level event ''codeshare-db'' environment (sanitizeRecord context)"

text \<open>The load tests' entry: the same without redaction.\<close>

fun plainValue :: "ctx \<Rightarrow> ctx" where
  "plainValue (CError n m st) = error_fields n m st"
| "plainValue (CList vs) = CList (map plainValue vs)"
| "plainValue (CRecord fs) = CRecord (map (\<lambda>(k, v). (k, plainValue v)) fs)"
| "plainValue v = v"

definition createLoadTestLogEntry ::
  "string \<Rightarrow> string \<Rightarrow> string \<Rightarrow> string \<Rightarrow> (string \<times> ctx) list \<Rightarrow> (string \<times> ctx) list" where
  "createLoadTestLogEntry timestamp level event environment context =
     log_entry timestamp level event ''codeshare-load-tests'' environment (map (\<lambda>(k, v). (k, plainValue v)) context)"

text \<open>Every field of a sensitive name, at every depth, is redacted, and no error object is left.\<close>

fun clean :: "ctx \<Rightarrow> bool" where
  "clean (CError n m st) = False"
| "clean (CList vs) = list_all clean vs"
| "clean (CRecord fs) =
     list_all (\<lambda>(k, v). clean v \<and> (isSensitiveKey k \<longrightarrow> v = CString REDACTED)) fs"
| "clean v = True"

lemma plain_keys: "\<not> isSensitiveKey ''name''" "\<not> isSensitiveKey ''message''" "\<not> isSensitiveKey ''stack''"
  by (simp_all add: isSensitiveKey_def dashes_to_underscores_def toLowerCase_def lower_char_def SENSITIVE_KEYS_def)

lemma sanitizeValue_sensitive: "isSensitiveKey k \<Longrightarrow> sanitizeValue k v = CString REDACTED"
  by (cases v) simp_all

lemma sanitizeValue_clean: "clean (sanitizeValue k v)"
proof (induction k v rule: sanitizeValue.induct)
  case (1 key n m st)
  then show ?case using plain_keys by (auto simp: error_fields_def split: option.split)
next
  case (2 key vs)
  then show ?case by (auto simp: list_all_iff)
next
  case (3 key fs)
  then show ?case by (auto simp: list_all_iff sanitizeValue_sensitive)
qed simp_all

definition entry_values :: "(string \<times> ctx) list \<Rightarrow> bool" where
  "entry_values es = list_all (\<lambda>(k, v). clean v \<and> (isSensitiveKey k \<longrightarrow> v = CString REDACTED)) es"

lemma entry_values_update:
  "entry_values es \<Longrightarrow> clean v \<Longrightarrow> (isSensitiveKey k \<longrightarrow> v = CString REDACTED) \<Longrightarrow> entry_values (AList.update k v es)"
  by (induction es) (auto simp: entry_values_def)

lemma entry_values_fold:
  "entry_values es \<Longrightarrow> entry_values fs \<Longrightarrow> entry_values (foldl (\<lambda>es (k, v). AList.update k v es) es fs)"
proof (induction fs arbitrary: es)
  case (Cons f fs)
  obtain k v where f: "f = (k, v)" by (cases f)
  have fv: "clean v" "isSensitiveKey k \<longrightarrow> v = CString REDACTED" and fs: "entry_values fs"
    using Cons.prems(2) by (simp_all add: entry_values_def f)
  from Cons.IH [OF entry_values_update [OF Cons.prems(1) fv] fs] show ?case by (simp add: f)
qed simp

lemma entry_keys_plain:
  "\<not> isSensitiveKey ''timestamp''" "\<not> isSensitiveKey ''level''" "\<not> isSensitiveKey ''event''"
  "\<not> isSensitiveKey ''service''" "\<not> isSensitiveKey ''environment''"
  by (simp_all add: isSensitiveKey_def dashes_to_underscores_def toLowerCase_def lower_char_def SENSITIVE_KEYS_def)

lemma db_entries_are_redacted: "entry_values (createDbLogEntry t l e env context)"
  unfolding createDbLogEntry_def log_entry_def
  by (rule entry_values_fold)
    (auto simp: entry_values_def entry_keys_plain sanitizeRecord_def list_all_iff sanitizeValue_clean sanitizeValue_sensitive)

text \<open>C37: every entry of the database's log is redacted, at every depth, under every name that is sensitive for
\<^verbatim>\<open>isSensitiveKey\<close>; but no spelling of set-cookie is: the name is written with an underscore before it is
looked for, and the set has it with a dash.\<close>

theorem redaction_complete_but_for_set_cookie:
  "entry_values (createDbLogEntry t l e env context)
   \<and> ''set-cookie'' \<in> set SENSITIVE_KEYS
   \<and> toLowerCase (dashes_to_underscores key) \<noteq> ''set-cookie''
   \<and> map_of (createDbLogEntry t l e env [(''Set-Cookie'', CString v)]) ''Set-Cookie'' = Some (CString v)"
proof -
  have dash: "CHR ''-'' \<notin> set (toLowerCase (dashes_to_underscores key))"
  proof
    assume "CHR ''-'' \<in> set (toLowerCase (dashes_to_underscores key))"
    then obtain c where "CHR ''-'' = lower_char c" "c \<noteq> CHR ''-''"
      by (auto simp: toLowerCase_def dashes_to_underscores_def split: if_splits)
    then show False
      by (auto simp: lower_char_def Let_def split: if_splits dest: arg_cong [of _ _ "of_char :: char \<Rightarrow> nat"])
  qed
  then have "toLowerCase (dashes_to_underscores key) \<noteq> ''set-cookie''" by (metis list.set_intros(1) list.set_intros(2))
  moreover have "\<not> isSensitiveKey ''Set-Cookie''"
    by (simp add: isSensitiveKey_def dashes_to_underscores_def toLowerCase_def lower_char_def SENSITIVE_KEYS_def)
  ultimately show ?thesis
    using db_entries_are_redacted
    by (simp add: createDbLogEntry_def log_entry_def sanitizeRecord_def SENSITIVE_KEYS_def)
qed

section \<open>The client's lines\<close>

datatype log_level = LogDebug | LogInfo | LogWarn | LogError

record client_log_payload =
  lp_level :: log_level
  lp_event :: string
  lp_timestamp :: "string option"
  lp_request_id :: "string option"
  lp_socket_id :: "string option"
  lp_room_code :: "string option"
  lp_route :: "string option"
  lp_error_type :: "string option"
  lp_error_message :: "string option"
  lp_context :: "(string \<times> json) list option"

text \<open>The pattern \<^verbatim>\<open>^[a-z0-9]+(?:_[a-z0-9]+)*$\<close>.\<close>

definition event_char :: "char \<Rightarrow> bool" where
  "event_char c \<longleftrightarrow> (let n = of_char c :: nat in (97 \<le> n \<and> n \<le> 122) \<or> (48 \<le> n \<and> n \<le> 57))"

definition logEvent :: "string \<Rightarrow> string option" where
  "logEvent s =
     (let t = trim s
      in if list_all (\<lambda>p. p \<noteq> [] \<and> list_all event_char p) (split_on CHR ''_'' t) then Some t else None)"

text \<open>An optional text that must not be blank, trimmed; \<open>None\<close> is an issue.\<close>

definition optional_text :: "string option \<Rightarrow> string option option" where
  "optional_text v =
     (case v of None \<Rightarrow> Some None | Some s \<Rightarrow> (let t = trim s in if t = [] then None else Some (Some t)))"

text \<open>\<open>datetime\<close> is zod's check of an ISO date and time.\<close>

definition clientLogPayload :: "(string \<Rightarrow> bool) \<Rightarrow> client_log_payload \<Rightarrow> client_log_payload option" where
  "clientLogPayload datetime p =
     (case (logEvent (lp_event p), optional_text (lp_request_id p), optional_text (lp_socket_id p),
            optional_text (lp_room_code p), optional_text (lp_route p), optional_text (lp_error_type p),
            optional_text (lp_error_message p)) of
        (Some ev, Some rid, Some sid, Some rc, Some rt, Some et, Some em) \<Rightarrow>
          if (case lp_timestamp p of None \<Rightarrow> True | Some t \<Rightarrow> datetime t)
          then Some (p\<lparr>lp_event := ev, lp_request_id := rid, lp_socket_id := sid, lp_room_code := rc, lp_route := rt,
                       lp_error_type := et, lp_error_message := em\<rparr>)
          else None
      | _ \<Rightarrow> None)"

record browser_log_input =
  bi_event :: string
  bi_roomCode :: "string option"
  bi_socketId :: "string option"
  bi_requestId :: "string option"
  bi_error :: "(string \<times> string) option"
  bi_context :: "(string \<times> json) list option"

text \<open>What sending a line to the server comes to: an error has a name and a message, anything else thrown has not.\<close>

datatype sending = NoTransport | Sent | SendFails string string | SendThrowsOther

text \<open>\<^verbatim>\<open>/failed to fetch|load failed/i\<close> on a \<^verbatim>\<open>TypeError\<close>.\<close>

definition isIgnorableTransportFailure :: "sending \<Rightarrow> bool" where
  "isIgnorableTransportFailure r =
     (case r of
        SendFails name msg \<Rightarrow>
          name = ''TypeError'' \<and> (includes_str ''failed to fetch'' (toLowerCase msg) \<or> includes_str ''load failed'' (toLowerCase msg))
      | _ \<Rightarrow> False)"

definition payload_of :: "log_level \<Rightarrow> string \<Rightarrow> string option \<Rightarrow> browser_log_input \<Rightarrow> client_log_payload" where
  "payload_of level timestamp route i =
     \<lparr>lp_level = level, lp_event = bi_event i, lp_timestamp = Some timestamp, lp_request_id = bi_requestId i,
      lp_socket_id = bi_socketId i, lp_room_code = bi_roomCode i, lp_route = route,
      lp_error_type = map_option fst (bi_error i), lp_error_message = map_option snd (bi_error i), lp_context = bi_context i\<rparr>"

definition fallback_payload :: "string \<Rightarrow> string option \<Rightarrow> string \<Rightarrow> sending \<Rightarrow> client_log_payload" where
  "fallback_payload timestamp route event r =
     \<lparr>lp_level = LogError, lp_event = ''client_log_ingest_failed'', lp_timestamp = Some timestamp, lp_request_id = None,
      lp_socket_id = None, lp_room_code = None, lp_route = route,
      lp_error_type = Some (case r of SendFails n m \<Rightarrow> n | _ \<Rightarrow> ''UnknownError''),
      lp_error_message = Some (case r of SendFails n m \<Rightarrow> m | _ \<Rightarrow> ''Client log ingest failed''),
      lp_context = Some [(''original_event'', JStr event)]\<rparr>"

text \<open>The lines on the console, and whether the logger's promise is kept or rejected.\<close>

definition browser_write ::
  "(string \<Rightarrow> bool) \<Rightarrow> bool \<Rightarrow> log_level \<Rightarrow> string \<Rightarrow> string option \<Rightarrow> browser_log_input \<Rightarrow> sending
   \<Rightarrow> client_log_payload list \<times> bool" where
  "browser_write datetime development level timestamp route i r =
     (case clientLogPayload datetime (payload_of level timestamp route i) of
        None \<Rightarrow> ([], False)
      | Some p \<Rightarrow>
          if \<not> development \<or> r = NoTransport \<or> r = Sent \<or> isIgnorableTransportFailure r then ([p], True)
          else (case clientLogPayload datetime (fallback_payload timestamp route (bi_event i) r) of
                  None \<Rightarrow> ([p], False)
                | Some f \<Rightarrow> ([p, f], True)))"

text \<open>The route that takes them in: the status and the entry it appends, with a timestamp.\<close>

definition devLogRoute :: "(string \<Rightarrow> bool) \<Rightarrow> string \<Rightarrow> client_log_payload \<Rightarrow> int \<times> client_log_payload option" where
  "devLogRoute datetime now body =
     (case clientLogPayload datetime body of
        None \<Rightarrow> (400, None)
      | Some p \<Rightarrow> (202, Some (p\<lparr>lp_timestamp := (case lp_timestamp p of None \<Rightarrow> Some now | Some t \<Rightarrow> Some t)\<rparr>)))"

text \<open>
  An error without a message is not logged: the payload is refused and the logger rejects, which its callers do not
  handle.
\<close>

lemma blank_message_refused: "optional_text (lp_error_message p) = None \<Longrightarrow> clientLogPayload datetime p = None"
  unfolding clientLogPayload_def by (simp split: option.split)

lemma empty_message_is_not_logged:
  "bi_error i = Some (name, msg) \<Longrightarrow> trim msg = [] \<Longrightarrow>
   browser_write datetime development level timestamp route i r = ([], False)"
  using blank_message_refused [of "payload_of level timestamp route i" datetime]
  by (simp add: browser_write_def payload_of_def optional_text_def)

lemma logEvent_idem: "logEvent s = Some t \<Longrightarrow> logEvent t = Some t"
  by (auto simp: logEvent_def Let_def split: if_splits)

lemma optional_text_idem: "optional_text v = Some w \<Longrightarrow> optional_text w = Some w"
  by (auto simp: optional_text_def Let_def split: option.splits if_splits)

text \<open>What the client's logger wrote passes the check of the route unchanged.\<close>

lemma written_lines_are_accepted:
  assumes "clientLogPayload datetime p = Some q"
  shows "clientLogPayload datetime q = Some q"
proof -
  from assms obtain ev rid sid rc rt et em where
    f: "logEvent (lp_event p) = Some ev" "optional_text (lp_request_id p) = Some rid"
      "optional_text (lp_socket_id p) = Some sid" "optional_text (lp_room_code p) = Some rc"
      "optional_text (lp_route p) = Some rt" "optional_text (lp_error_type p) = Some et"
      "optional_text (lp_error_message p) = Some em"
    and q: "q = p\<lparr>lp_event := ev, lp_request_id := rid, lp_socket_id := sid, lp_room_code := rc, lp_route := rt,
                   lp_error_type := et, lp_error_message := em\<rparr>"
    and t: "case lp_timestamp p of None \<Rightarrow> True | Some t \<Rightarrow> datetime t"
    by (auto simp: clientLogPayload_def split: option.splits if_splits)
  show ?thesis
    using f(2-7) [THEN optional_text_idem] logEvent_idem [OF f(1)] t by (simp add: clientLogPayload_def q)
qed

section \<open>The server's helpers\<close>

text \<open>\<open>digest\<close> is the hexadecimal SHA-256 of a text.\<close>

definition roomCodeLogFields :: "(string \<Rightarrow> string) \<Rightarrow> string option \<Rightarrow> string \<Rightarrow> (string \<times> string) list" where
  "roomCodeLogFields digest roomCode environment =
     (if \<not> truthy_text roomCode then []
      else if environment = ''development'' then [(''room_code'', the roomCode)]
      else [(''room_code_hash'', take 16 (digest (the roomCode)))])"

definition requestIdLogField :: "js_unknown \<Rightarrow> (string \<times> string) list" where
  "requestIdLogField v = (case v of Some (JStr i) \<Rightarrow> [(''request_id'', i)] | _ \<Rightarrow> [])"

text \<open>The level of the line of a finished request; the ingest route itself is not logged.\<close>

definition request_log_level :: "string \<Rightarrow> int \<Rightarrow> log_level option" where
  "request_log_level route status =
     (if route = ''/api/dev/logs/client'' then None
      else Some (if 500 \<le> status then LogError else if 400 \<le> status then LogWarn else LogInfo))"

text \<open>Outside development a room's code does not reach the log.\<close>

lemma room_code_is_hashed:
  "environment \<noteq> ''development'' \<Longrightarrow> ''room_code'' \<notin> fst ` set (roomCodeLogFields digest roomCode environment)"
  by (simp add: roomCodeLogFields_def)

end
