(* ===== verification/Invite_Script.thy ===== *)
theory Invite_Script
  imports Access_Service Js_Number
begin

text \<open>
  The command that creates, lists and revokes invitations
  (\<^verbatim>\<open>apps/server/src/scripts/invites.ts\<close>): its arguments, and what each command does to the
  tables and prints. The random code, the salt, the id and times of a row, and the parsing of a date are given; the
  database checks that \<^verbatim>\<open>max_sessions\<close> is a positive integer of 32 bits, that a code's lookup
  hash is new and that its hash is.
\<close>

section \<open>Arguments\<close>

datatype invite_command = CreateCmd | ListCmd | RevokeCmd

record invite_args =
  ia_command :: invite_command
  ia_label :: "string option"
  ia_id :: "string option"
  ia_code :: "string option"
  ia_maxSessions :: "rat option"
  ia_expiresAt :: "int option"

text \<open>The element after the first one that is the option's name, if there is one.\<close>

fun readOption :: "string list \<Rightarrow> string \<Rightarrow> string option" where
  "readOption [] name = None"
| "readOption (a # as) name =
     (if a = name then (case as of [] \<Rightarrow> None | v # vs \<Rightarrow> Some v) else readOption as name)"

definition parseOptionalDate :: "(string \<Rightarrow> int option) \<Rightarrow> string option \<Rightarrow> string + int option" where
  "parseOptionalDate date v =
     (if \<not> truthy_text v then Inr None
      else case date (the v) of
          None \<Rightarrow> Inl (''Invalid --expires-at value: '' @ the v)
        | Some t \<Rightarrow> Inr (Some t))"

definition command_of :: "string \<Rightarrow> invite_command option" where
  "command_of s =
     (if s = ''create'' then Some CreateCmd else if s = ''list'' then Some ListCmd
      else if s = ''revoke'' then Some RevokeCmd else None)"

definition parseArgs :: "(string \<Rightarrow> int option) \<Rightarrow> string list \<Rightarrow> string + invite_args" where
  "parseArgs date argv =
     (case (case argv of [] \<Rightarrow> None | a # as \<Rightarrow> command_of a) of
        None \<Rightarrow> Inl ''Usage: pnpm --filter @codeshare/server invite -- create|list|revoke''
      | Some cmd \<Rightarrow>
          (case parseOptionalDate date (readOption argv ''--expires-at'') of
             Inl e \<Rightarrow> Inl e
           | Inr expires \<Rightarrow>
               Inr \<lparr>ia_command = cmd, ia_label = readOption argv ''--label'', ia_id = readOption argv ''--id'',
                    ia_code = readOption argv ''--code'',
                    ia_maxSessions = (case readOption argv ''--max-sessions'' of None \<Rightarrow> Some 3 | Some s \<Rightarrow> js_Number s),
                    ia_expiresAt = expires\<rparr>))"

section \<open>Commands\<close>

record printed_invite =
  pi_id :: string
  pi_label :: string
  pi_maxSessions :: nat
  pi_expiresAt :: "int option"

datatype invite_output =
    CreatedInvite printed_invite string
  | ListedInvites "(printed_invite \<times> int option \<times> int option) list"
  | RevokedInvite string

definition printed :: "invite_row \<Rightarrow> printed_invite" where
  "printed r = \<lparr>pi_id = iv_id r, pi_label = iv_label r, pi_maxSessions = iv_max_sessions r, pi_expiresAt = iv_expires_at r\<rparr>"

text \<open>What the run is given beside its arguments.\<close>

record invite_env =
  ie_crypto :: crypto
  ie_secret :: "string option"
  ie_randomCode :: string
  ie_salt :: string
  ie_newId :: string
  ie_now :: int

definition session_limit :: "rat option \<Rightarrow> nat option" where
  "session_limit x =
     (case x of None \<Rightarrow> None
      | Some q \<Rightarrow> if of_int \<lfloor>q\<rfloor> = q \<and> 0 < q \<and> q \<le> 2147483647 then Some (nat \<lfloor>q\<rfloor>) else None)"

definition insertInvite ::
  "invite_env \<Rightarrow> string \<Rightarrow> string \<Rightarrow> string \<Rightarrow> rat option \<Rightarrow> int option \<Rightarrow> access_db \<Rightarrow> string + access_db \<times> invite_row" where
  "insertInvite env label codeHash lookup maxS expires db =
     (case session_limit maxS of
        None \<Rightarrow> Inl ''invalid max_sessions''
      | Some n \<Rightarrow>
          if list_ex (\<lambda>i. iv_code_hash i = codeHash \<or> iv_code_lookup_hash i = Some lookup) (invite_codes db)
          then Inl ''duplicate key value violates unique constraint''
          else Inr (createInvite (ie_newId env) (ie_now env) label codeHash lookup n expires db))"

definition createInviteCmd :: "invite_env \<Rightarrow> invite_args \<Rightarrow> access_db \<Rightarrow> string + access_db \<times> invite_output" where
  "createInviteCmd env a db =
     (if \<not> truthy_text (ia_label a) then Inl ''create requires --label''
      else (let code = (case ia_code a of None \<Rightarrow> ie_randomCode env | Some c \<Rightarrow> c);
                secret = map_option trim (ie_secret env)
            in if \<not> truthy_text secret then Inl ''ACCESS_SESSION_SECRET is required to create private access invites.''
               else case insertInvite env (the (ia_label a)) (createInviteCodeHash (ie_crypto env) code (ie_salt env))
                           (createInviteLookupHash (ie_crypto env) code (the secret)) (ia_maxSessions a) (ia_expiresAt a) db of
                   Inl e \<Rightarrow> Inl e
                 | Inr (db', r) \<Rightarrow> Inr (db', CreatedInvite (printed r) code)))"

definition revokeInviteCmd :: "invite_env \<Rightarrow> invite_args \<Rightarrow> access_db \<Rightarrow> string + access_db \<times> invite_output" where
  "revokeInviteCmd env a db =
     (if \<not> truthy_text (ia_id a) then Inl ''revoke requires --id''
      else Inr (revokeInvite (the (ia_id a)) (ie_now env) db, RevokedInvite (the (ia_id a))))"

definition invite_main ::
  "(string \<Rightarrow> int option) \<Rightarrow> invite_env \<Rightarrow> string list \<Rightarrow> access_db \<Rightarrow> string + access_db \<times> invite_output" where
  "invite_main date env argv db =
     (case parseArgs date argv of
        Inl e \<Rightarrow> Inl e
      | Inr a \<Rightarrow>
          (case ia_command a of
             CreateCmd \<Rightarrow> createInviteCmd env a db
           | ListCmd \<Rightarrow> Inr (db, ListedInvites (map (\<lambda>r. (printed r, iv_revoked_at r, iv_last_used_at r)) (listInvites db)))
           | RevokeCmd \<Rightarrow> revokeInviteCmd env a db))"

section \<open>What is printed can be used\<close>

lemma find_append_new:
  "\<not> list_ex P xs \<Longrightarrow> List.find (\<lambda>x. P x \<and> Q x) (xs @ [r]) = (if P r \<and> Q r then Some r else None)"
  by (induction xs) auto

text \<open>The code a created invitation is printed with finds that invitation for the server's secret, until it expires.\<close>

lemma created_code_finds_its_invite:
  assumes "createInviteCmd env a db = Inr (db', CreatedInvite p code)" and "ie_secret env = Some s"
    and "case ia_expiresAt a of None \<Rightarrow> True | Some e \<Rightarrow> now < e"
  shows "map_option iv_id (findUsableInviteByLookupHash (createInviteLookupHash (ie_crypto env) code (trim s)) now db')
    = Some (pi_id p)"
proof -
  let ?h = "createInviteLookupHash (ie_crypto env) code (trim s)"
  from assms(1,2) obtain n where "db' = fst (createInvite (ie_newId env) (ie_now env) (the (ia_label a))
        (createInviteCodeHash (ie_crypto env) code (ie_salt env)) ?h n (ia_expiresAt a) db)"
    and p: "pi_id p = ie_newId env"
    and new: "\<not> list_ex (\<lambda>i. iv_code_lookup_hash i = Some ?h) (invite_codes db)"
    by (auto simp: createInviteCmd_def insertInvite_def createInvite_def printed_def Let_def list_ex_iff
        split: if_splits sum.splits option.splits)
  then show ?thesis
    using assms(3) find_append_new [OF new]
    by (simp add: findUsableInviteByLookupHash_def createInvite_def usable_def Let_def)
qed

lemma unknown_command_changes_nothing: "command_of c = None \<Longrightarrow> \<exists>e. invite_main date env (c # as) db = Inl e"
  by (simp add: invite_main_def parseArgs_def)

end
