(* ===== verification/Js_Literal.thy ===== *)
theory Js_Literal
  imports Js_Number Js_Values
begin

unbundle bit_operations_syntax

text \<open>
  The numbers a program text writes down: the 64 bits of the double nearest to a decimal. The sign of a
  number is its bit 63, its exponent the eleven bits below, and rounding up to the next power of two carries into the
  exponent.
\<close>

definition double_bits :: "rat \<Rightarrow> js_number" where
  "double_bits r =
     (if r = 0 then 0
      else let e = exponent \<bar>r\<bar>; m = roundHalfEven (\<bar>r\<bar> / pow2 (e - 52))
           in word_of_nat ((if r < 0 then 2 ^ 63 else 0) + (nat (e + 1022) * 2 ^ 52 + nat m)))"

definition jdec :: "int \<Rightarrow> nat \<Rightarrow> json" where
  "jdec n k = JNum (double_bits (of_int n / 10 ^ k))"

definition jint :: "int \<Rightarrow> json" where
  "jint n = JNum (double_bits (of_int n))"

definition jints :: "int list \<Rightarrow> json" where
  "jints ns = JArr (map jint ns)"

definition jstrs :: "string list \<Rightarrow> json" where
  "jstrs ss = JArr (map JStr ss)"

section \<open>The bits have the value of the number\<close>

lemma number_val_fields:
  assumes "E < 2047" and "f < 2 ^ 52" and "0 < E"
  shows "number_val (word_of_nat ((if s then 2 ^ 63 else 0) + (E * 2 ^ 52 + f)))
       = Some ((if s then - 1 else 1) * (of_nat (2 ^ 52 + f) * pow2 (int E - 1075)))"
proof -
  define n where "n = (if s then 2 ^ 63 else 0) + (E * 2 ^ 52 + f)"
  define w :: js_number where "w = word_of_nat n"
  have "E * 2 ^ 52 + f < 2047 * 2 ^ 52" using assms by simp
  then have lt: "n < 2 ^ 64" "E * 2 ^ 52 + f < 2 ^ 63" by (auto simp: n_def)
  from lt(1) have u: "unat w = n" by (simp add: w_def unat_of_nat)
  have "n mod 2 ^ 52 = f" using assms(2) by (cases s) (simp_all add: n_def mod_add_eq [symmetric])
  then have f: "unat (take_bit 52 w) = f" unfolding unsigned_take_bit_eq u by (simp add: take_bit_eq_mod)
  have "n div 2 ^ 52 = (if s then 2 ^ 11 else 0) + E" using assms(2) by (cases s) (simp_all add: n_def)
  then have "n div 2 ^ 52 mod 2 ^ 11 = E" using assms(1) by (cases s) simp_all
  then have e: "unat (take_bit 11 (drop_bit 52 w)) = E"
    unfolding unsigned_take_bit_eq unat_drop_bit_eq u by (simp add: take_bit_eq_mod drop_bit_eq_div)
  have "n div 2 ^ 63 = (if s then 1 else 0)" using lt(2) by (cases s) (simp_all add: n_def)
  moreover have "bit (unat w) 63 = bit w 63" by (simp add: bit_unsigned_iff)
  ultimately have b: "bit w 63 = s" unfolding u bit_iff_odd by (cases s) auto
  show ?thesis
    unfolding n_def [symmetric] w_def [symmetric]
    using assms by (auto simp: number_val_def Let_def e f b pow2_def nat_diff_distrib)
qed

text \<open>The mantissa of a normal number, and where rounding carries.\<close>

lemma mantissa_bounds:
  assumes "0 < a" and "e = exponent a"
  shows "2 ^ 52 \<le> roundHalfEven (a / pow2 (e - 52))" and "roundHalfEven (a / pow2 (e - 52)) \<le> 2 ^ 53"
proof -
  let ?x = "a / pow2 (e - 52)"
  have "pow2 e = pow2 52 * pow2 (e - 52)" "pow2 (e + 1) = pow2 53 * pow2 (e - 52)" by (simp_all add: add.commute flip: pow2_add)
  then have "of_int (2 ^ 52) \<le> ?x" "?x < of_int (2 ^ 53)"
    using exponent_bounds [OF assms(1)] by (simp_all add: assms(2) pos_le_divide_eq pos_divide_less_eq pow2_def)
  then have "2 ^ 52 \<le> \<lfloor>?x\<rfloor>" "\<lfloor>?x\<rfloor> < 2 ^ 53" by (simp_all only: le_floor_iff floor_less_iff)
  then show "2 ^ 52 \<le> roundHalfEven ?x" "roundHalfEven ?x \<le> 2 ^ 53"
    unfolding roundHalfEven_def Let_def by (auto split: if_splits)
qed

lemma number_val_mantissa:
  assumes "2 ^ 52 \<le> m" and "m \<le> 2 ^ 53" and "- 1022 \<le> e" and "e \<le> 1000"
  shows "number_val (word_of_nat ((if s then 2 ^ 63 else 0) + (nat (e + 1022) * 2 ^ 52 + nat m)))
       = Some ((if s then - 1 else 1) * (of_int m * pow2 (e - 52)))"
proof (cases "m = 2 ^ 53")
  case True
  have "nat (e + 1022) * 2 ^ 52 + nat m = nat (e + 1024) * 2 ^ 52 + 0"
    using assms(3) by (simp add: True nat_add_distrib algebra_simps)
  moreover have "pow2 (e - 51) = 2 * pow2 (e - 52)"
    using pow2_add [of 1 "e - 52"] by (simp add: pow2_def)
  ultimately show ?thesis
    using number_val_fields [of "nat (e + 1024)" 0 s] assms(3,4) by (simp add: True algebra_simps)
next
  case False
  define f where "f = nat (m - 2 ^ 52)"
  have m: "m = 2 ^ 52 + int f" using assms(1) by (simp add: f_def)
  have "nat (e + 1022) * 2 ^ 52 + nat m = nat (e + 1023) * 2 ^ 52 + f"
    using assms(3) by (simp add: m nat_add_distrib algebra_simps)
  moreover have "f < 2 ^ 52" using False assms(2) m by simp
  ultimately show ?thesis
    using number_val_fields [of "nat (e + 1023)" f s] assms(3,4) by (simp add: m algebra_simps)
qed

text \<open>What stands in the program text is the double nearest to it.\<close>

lemma double_bits_val:
  assumes "r = 0 \<or> pow2 (- 1022) \<le> \<bar>r\<bar> \<and> \<bar>r\<bar> < pow2 53"
  shows "number_val (double_bits r) = toDouble r"
proof (cases "r = 0")
  case False
  define e where "e = exponent \<bar>r\<bar>"
  define m where "m = roundHalfEven (\<bar>r\<bar> / pow2 (e - 52))"
  have a: "0 < \<bar>r\<bar>" using False by simp
  have "pow2 (- 1022) < pow2 (e + 1)" "pow2 e < pow2 53"
    using exponent_bounds [OF a] False assms by (auto simp: e_def)
  then have e: "- 1022 \<le> e" "e \<le> 52" by (auto dest: pow2_less_imp_less)
  have m: "2 ^ 52 \<le> m" "m \<le> 2 ^ 53" using mantissa_bounds [OF a e_def] by (simp_all add: m_def)
  have "of_int m * pow2 (e - 52) \<le> of_int (2 ^ 53) * pow2 (e - 52)" using m(2) by (simp only: mult_right_mono of_int_le_iff less_imp_le pow2_pos)
  also have "\<dots> = pow2 53 * pow2 (e - 52)" by (simp add: pow2_def [of 53])
  also have "\<dots> = pow2 (e + 1)" by (simp add: add.commute flip: pow2_add)
  also have "\<dots> < pow2 1024" 
    using e(2) by (intro le_less_trans [OF pow2_mono [of "e + 1" 53]]) (simp_all add: pow2_def)
  finally have "\<not> pow2 1024 \<le> of_int m * pow2 (e - 52)" by simp
  moreover have "max (exponent \<bar>r\<bar> - 52) (- 1074) = e - 52" using e(1) by (simp add: e_def)
  ultimately have t: "toDouble r = Some (if r < 0 then - (of_int m * pow2 (e - 52)) else of_int m * pow2 (e - 52))"
    using False unfolding toDouble_def Let_def by (simp only: m_def [symmetric] if_False simp_thms)
  have "number_val (double_bits r) = Some ((if r < 0 then - 1 else 1) * (of_int m * pow2 (e - 52)))"
    using number_val_mantissa [OF m e(1), of "r < 0"] e(2) False
    unfolding double_bits_def Let_def e_def [symmetric] m_def [symmetric] by (simp only: if_False simp_thms)
  with t show ?thesis by simp
qed (simp add: double_bits_def toDouble_def number_val_def)

corollary jint_val:
  assumes "\<bar>n\<bar> < 2 ^ 53"
  shows "\<exists>x. jint n = JNum x \<and> number_val x = Some (of_int n)"
proof -
  have "n = 0 \<or> pow2 (- 1022) \<le> \<bar>of_int n\<bar>"
    using pow2_mono [of "- 1022" 0] by (cases "n = 0") (auto simp: pow2_def simp flip: of_int_abs)
  moreover have "\<bar>of_int n :: rat\<bar> < pow2 53"
    using assms by (simp add: pow2_def flip: of_int_abs) 
  ultimately show ?thesis using double_bits_val [of "of_int n"] toDouble_of_int [OF assms] by (auto simp: jint_def)
qed

end
