(* ===== verification/Seed_Base.thy ===== *)
theory Seed_Base
  imports Js_Literal Db_Scripts Python_Harness Hint_Handler
begin

text \<open>
  What is asked of the problems that \<^verbatim>\<open>packages/db/src/seeds/data\<close> ships, and how their
  test cases are written down. The numbers are those of the program text, see \<^verbatim>\<open>Js_Literal\<close>.
\<close>

abbreviation quo where "quo \<equiv> [CHR 0x27]"

definition fx_case :: "(string \<times> json) list \<Rightarrow> json \<Rightarrow> bool \<Rightarrow> nat \<Rightarrow> new_test_case" where
  "fx_case i e v n = \<lparr>nt_input = i, nt_expectedOutput = Some e, nt_isVisible = v, nt_orderIndex = n\<rparr>"

lemma fx_case_simps [simp]:
  "nt_input (fx_case i e v n) = i" "nt_expectedOutput (fx_case i e v n) = Some e"
  "nt_isVisible (fx_case i e v n) = v" "nt_orderIndex (fx_case i e v n) = n"
  by (simp_all add: fx_case_def)

lemma python_reads_lits [simp]:
  "python_reads (jint n)" "python_reads (jdec n k)" "python_reads (jints ns)" "python_reads (jstrs ss)"
  by (simp_all add: jint_def jdec_def jints_def jstrs_def list_all_iff)

definition fx_slug :: "fixture \<Rightarrow> string" where
  "fx_slug fx = np_slug (fx_problem fx)"

definition case_inputs :: "fixture \<Rightarrow> (string \<times> json) list list" where
  "case_inputs fx = map nt_input (fx_testCases fx)"

definition visible_first :: "new_test_case list \<Rightarrow> bool" where
  "visible_first cs \<longleftrightarrow>
     nt_isVisible (hd cs) \<and> \<not> nt_isVisible (last cs) \<and> takeWhile nt_isVisible cs = filter nt_isVisible cs"

text \<open>
  The rows of a fixture can be stored, there are test cases of both kinds, the shown ones first, in the order
  of their indexes, and a hint for every request a room may make.
\<close>

definition good_fixture :: "fixture \<Rightarrow> bool" where
  "good_fixture fx \<longleftrightarrow>
     np_source (fx_problem fx) = ''curated'' \<and> np_solution (fx_problem fx) \<noteq> None
     \<and> map nt_orderIndex (fx_testCases fx) = [0..<length (fx_testCases fx)]
     \<and> list_all (\<lambda>t. nt_expectedOutput t \<noteq> None) (fx_testCases fx)
     \<and> visible_first (fx_testCases fx)
     \<and> nb_language (fx_boilerplate fx) = ''python''
     \<and> map nh_orderIndex (fx_hints fx) = [0..<length (fx_hints fx)]
     \<and> (case difficulty_of (np_difficulty (fx_problem fx)) of
          None \<Rightarrow> False | Some d \<Rightarrow> length (fx_hints fx) = HINT_LIMIT_BY_DIFFICULTY d)"

definition keys_match :: "fixture \<Rightarrow> bool" where
  "keys_match fx \<longleftrightarrow> list_all (\<lambda>i. map fst i = nb_parameterNames (fx_boilerplate fx)) (case_inputs fx)"

definition readable :: "fixture \<Rightarrow> bool" where
  "readable fx \<longleftrightarrow> python_reads (inputs_json (case_inputs fx))"

lemma readable_iff: "readable fx = list_all (list_all (\<lambda>kv. python_reads (snd kv))) (case_inputs fx)"
  by (simp add: readable_def inputs_json_def list_all_iff)

definition seed_facts :: "fixture \<Rightarrow> string \<times> bool \<times> bool \<times> bool" where
  "seed_facts fx = (fx_slug fx, good_fixture fx, keys_match fx, readable fx)"

text \<open>Selecting a field need not look at the texts in the others.\<close>

lemma seed_congs:
  "\<lparr>np_slug = a, np_title = b, np_difficulty = c, np_category = d, np_description = e, np_constraints = f, np_solution = g,
    np_timeLimitMs = h, np_source = i, np_sourceUrl = j\<rparr> =
   \<lparr>np_slug = a, np_title = b, np_difficulty = c, np_category = d, np_description = e, np_constraints = f, np_solution = g,
    np_timeLimitMs = h, np_source = i, np_sourceUrl = j\<rparr>"
  "\<lparr>nb_language = k, nb_template = l, nb_methodName = m, nb_parameterNames = n\<rparr> =
   \<lparr>nb_language = k, nb_template = l, nb_methodName = m, nb_parameterNames = n\<rparr>"
  "\<lparr>nh_hintText = p, nh_orderIndex = q\<rparr> = \<lparr>nh_hintText = p, nh_orderIndex = q\<rparr>"
  by (rule refl)+

lemmas seed_evaluation =
  seed_facts_def fx_slug_def good_fixture_def keys_match_def readable_iff case_inputs_def visible_first_def
  difficulty_of_def difficulty_text_def upt_rec

end
