(* ===== verification/Seed_Store.thy ===== *)
theory Seed_Store
  imports Seed_Base
begin

text \<open>
  Seeding a database that answers: a list of fixtures that can be stored is stored completely. The rows of
  a fixture need ids nobody has and places (a test case's index, a template's language, a hint's index) nobody took.
\<close>

section \<open>Ids and places\<close>

definition table_ids :: "problem_tables \<Rightarrow> string set" where
  "table_ids db =
     pr_id ` set (tb_problems db) \<union> tr_id ` set (tb_test_cases db) \<union> bt_id ` set (tb_boilerplates db)
     \<union> ht_id ` set (tb_hints db)"

datatype place = CaseAt nat | TemplateFor string | HintAt nat

fun step_place :: "insert_step \<Rightarrow> place" where
  "step_place (InsertCase d) = CaseAt (nt_orderIndex d)"
| "step_place (InsertBoilerplate d) = TemplateFor (nb_language d)"
| "step_place (InsertHint d) = HintAt (nh_orderIndex d)"

fun step_ok :: "insert_step \<Rightarrow> bool" where
  "step_ok (InsertCase d) = (nt_expectedOutput d \<noteq> None)"
| "step_ok st = True"

definition taken :: "string \<Rightarrow> problem_tables \<Rightarrow> place set" where
  "taken pid db =
     set (map (\<lambda>r. CaseAt (tr_order_index r)) (filter (\<lambda>r. tr_problem_id r = pid) (tb_test_cases db)))
     \<union> set (map (\<lambda>r. TemplateFor (bt_language r)) (filter (\<lambda>r. bt_problem_id r = pid) (tb_boilerplates db)))
     \<union> set (map (\<lambda>r. HintAt (ht_order_index r)) (filter (\<lambda>r. ht_problem_id r = pid) (tb_hints db)))"

lemma takenI:
  "r \<in> set (tb_test_cases db) \<Longrightarrow> CaseAt (tr_order_index r) \<in> taken (tr_problem_id r) db"
  "b \<in> set (tb_boilerplates db) \<Longrightarrow> TemplateFor (bt_language b) \<in> taken (bt_problem_id b) db"
  "h \<in> set (tb_hints db) \<Longrightarrow> HintAt (ht_order_index h) \<in> taken (ht_problem_id h) db"
  unfolding taken_def by auto

lemma taken_new:
  assumes "pid \<notin> tr_problem_id ` set (tb_test_cases db)" and "pid \<notin> bt_problem_id ` set (tb_boilerplates db)"
    and "pid \<notin> ht_problem_id ` set (tb_hints db)"
  shows "taken pid db = {}"
  using assms unfolding taken_def by auto

text \<open>The rows of a problem, in the order they were inserted.\<close>

definition rows_of :: "string \<Rightarrow> problem_tables \<Rightarrow> test_case_row list \<times> boilerplate_row list \<times> hint_row list" where
  "rows_of pid db =
     (filter (\<lambda>r. tr_problem_id r = pid) (tb_test_cases db), filter (\<lambda>r. bt_problem_id r = pid) (tb_boilerplates db),
      filter (\<lambda>r. ht_problem_id r = pid) (tb_hints db))"

lemma queries_of_rows:
  "findByProblemId pid db = map toTestCase (sort_key tr_order_index (fst (rows_of pid db)))"
  "findByProblemAndLanguage pid lang db
     = getFirstOrNull (filter (\<lambda>r. bt_language r = lang) (fst (snd (rows_of pid db)))) toBoilerplate"
  "findHints pid db = map toHint (sort_key ht_order_index (snd (snd (rows_of pid db))))"
  by (simp_all add: findByProblemId_def findByProblemAndLanguage_def findHints_def rows_of_def conj_commute)

fun boilerplates_of :: "insert_step list \<Rightarrow> new_boilerplate list" where
  "boilerplates_of [] = []"
| "boilerplates_of (InsertBoilerplate d # ss) = d # boilerplates_of ss"
| "boilerplates_of (_ # ss) = boilerplates_of ss"

fun hints_of :: "insert_step list \<Rightarrow> new_hint list" where
  "hints_of [] = []"
| "hints_of (InsertHint d # ss) = d # hints_of ss"
| "hints_of (_ # ss) = hints_of ss"

definition boilerplate_fields :: "boilerplate_row \<Rightarrow> string \<times> string \<times> string \<times> string list" where
  "boilerplate_fields r = (bt_language r, bt_template r, bt_method_name r, bt_parameter_names r)"

definition new_boilerplate_fields :: "new_boilerplate \<Rightarrow> string \<times> string \<times> string \<times> string list" where
  "new_boilerplate_fields d = (nb_language d, nb_template d, nb_methodName d, nb_parameterNames d)"

definition hint_fields :: "hint_row \<Rightarrow> string \<times> nat" where
  "hint_fields r = (ht_hint_text r, ht_order_index r)"

definition new_hint_fields :: "new_hint \<Rightarrow> string \<times> nat" where
  "new_hint_fields d = (nh_hintText d, nh_orderIndex d)"

lemma perform_parts:
  assumes "perform env n pid st db = Inr db'"
  shows "map boilerplate_fields (fst (snd (rows_of pid db')))
      = map boilerplate_fields (fst (snd (rows_of pid db))) @ map new_boilerplate_fields (boilerplates_of [st])
    \<and> map hint_fields (snd (snd (rows_of pid db')))
      = map hint_fields (snd (snd (rows_of pid db))) @ map new_hint_fields (hints_of [st])"
  using assms
  by (auto simp: perform_def on_line_def createTestCase_def createBoilerplate_def createHint_def rows_of_def
      boilerplate_fields_def new_boilerplate_fields_def hint_fields_def new_hint_fields_def
      split: if_splits insert_step.splits option.splits)

lemma perform_all_parts:
  assumes "perform_all (\<lambda>k st. perform env k pid st) n steps db = (db', None)"
  shows "map boilerplate_fields (fst (snd (rows_of pid db')))
      = map boilerplate_fields (fst (snd (rows_of pid db))) @ map new_boilerplate_fields (boilerplates_of steps)
    \<and> map hint_fields (snd (snd (rows_of pid db')))
      = map hint_fields (snd (snd (rows_of pid db))) @ map new_hint_fields (hints_of steps)"
  using assms
proof (induction steps arbitrary: n db)
  case (Cons st steps)
  obtain db1 where p: "perform env n pid st db = Inr db1"
    and rest: "perform_all (\<lambda>k st. perform env k pid st) (Suc n) steps db1 = (db', None)"
    using Cons.prems by (auto split: sum.splits)
  have "boilerplates_of (st # steps) = boilerplates_of [st] @ boilerplates_of steps"
    "hints_of (st # steps) = hints_of [st] @ hints_of steps" by (cases st; simp)+
  with Cons.IH [OF rest] perform_parts [OF p] show ?case by simp
qed simp

lemma perform_total:
  assumes "\<not> de_down env n" and "de_id env n \<notin> table_ids db" and "pid \<in> pr_id ` set (tb_problems db)"
    and "step_place st \<notin> taken pid db" and "step_ok st"
  obtains db' where "perform env n pid st db = Inr db'" "table_ids db' = insert (de_id env n) (table_ids db)"
    "taken pid db' = insert (step_place st) (taken pid db)" "tb_problems db' = tb_problems db"
    "\<And>q. q \<noteq> pid \<Longrightarrow> rows_of q db' = rows_of q db"
proof (cases st)
  case (InsertCase d)
  with assms(5) obtain out where o: "nt_expectedOutput d = Some out" by auto
  have "(pid, nt_orderIndex d) \<notin> (\<lambda>r. (tr_problem_id r, tr_order_index r)) ` set (tb_test_cases db)"
    using assms(4) takenI(1) by (fastforce simp: InsertCase)
  with assms(1-3) o have "perform env n pid st db
      = Inr (db\<lparr>tb_test_cases := tb_test_cases db @ [case_row (de_id env n) pid d out]\<rparr>)"
    by (auto simp: perform_def on_line_def createTestCase_def InsertCase table_ids_def)
  then show ?thesis
    by (rule that) (auto simp: table_ids_def taken_def case_row_def InsertCase rows_of_def)
next
  case (InsertBoilerplate d)
  have "(pid, nb_language d) \<notin> (\<lambda>r. (bt_problem_id r, bt_language r)) ` set (tb_boilerplates db)"
    using assms(4) takenI(2) by (fastforce simp: InsertBoilerplate)
  with assms(1-3) have "perform env n pid st db
      = Inr (db\<lparr>tb_boilerplates := tb_boilerplates db @
             [\<lparr>bt_id = de_id env n, bt_problem_id = pid, bt_language = nb_language d, bt_template = nb_template d,
               bt_method_name = nb_methodName d, bt_parameter_names = nb_parameterNames d\<rparr>]\<rparr>)"
    by (auto simp: perform_def on_line_def createBoilerplate_def InsertBoilerplate table_ids_def)
  then show ?thesis by (rule that) (auto simp: table_ids_def taken_def InsertBoilerplate rows_of_def)
next
  case (InsertHint d)
  have "(pid, nh_orderIndex d) \<notin> (\<lambda>r. (ht_problem_id r, ht_order_index r)) ` set (tb_hints db)"
    using assms(4) takenI(3) by (fastforce simp: InsertHint)
  with assms(1-3) have "perform env n pid st db
      = Inr (db\<lparr>tb_hints := tb_hints db @ [\<lparr>ht_id = de_id env n, ht_problem_id = pid, ht_hint_text = nh_hintText d,
               ht_order_index = nh_orderIndex d\<rparr>]\<rparr>)"
    by (auto simp: perform_def on_line_def createHint_def InsertHint table_ids_def)
  then show ?thesis by (rule that) (auto simp: table_ids_def taken_def InsertHint rows_of_def)
qed

lemma perform_all_total:
  assumes "\<forall>k. \<not> de_down env k" and "inj (de_id env)" and "pid \<in> pr_id ` set (tb_problems db)"
    and "\<forall>k \<ge> n. de_id env k \<notin> table_ids db" and "distinct (map step_place steps)"
    and "step_place ` set steps \<inter> taken pid db = {}" and "list_all step_ok steps"
  shows "\<exists>db'. perform_all (\<lambda>k st. perform env k pid st) n steps db = (db', None)
    \<and> table_ids db' \<subseteq> table_ids db \<union> range (de_id env) \<and> tb_problems db' = tb_problems db
    \<and> (\<forall>q. q \<noteq> pid \<longrightarrow> rows_of q db' = rows_of q db)"
  using assms(3-)
proof (induction steps arbitrary: n db)
  case (Cons st steps)
  then have "de_id env n \<notin> table_ids db" "step_place st \<notin> taken pid db" "step_ok st" by auto
  then obtain db1 where p: "perform env n pid st db = Inr db1" "table_ids db1 = insert (de_id env n) (table_ids db)"
    "taken pid db1 = insert (step_place st) (taken pid db)" "tb_problems db1 = tb_problems db"
    "\<And>q. q \<noteq> pid \<Longrightarrow> rows_of q db1 = rows_of q db"
    using perform_total [of env n db pid st] assms(1) Cons.prems(1) by metis
  have "\<forall>k \<ge> Suc n. de_id env k \<notin> table_ids db1"
    using Cons.prems(2) assms(2) by (auto simp: p(2) inj_eq)
  then obtain db' where "perform_all (\<lambda>k st. perform env k pid st) (Suc n) steps db1 = (db', None)"
    "table_ids db' \<subseteq> table_ids db1 \<union> range (de_id env)" "tb_problems db' = tb_problems db1"
    "\<forall>q. q \<noteq> pid \<longrightarrow> rows_of q db' = rows_of q db1"
    using Cons.IH [of db1 "Suc n"] Cons.prems p(3,4) by auto
  with p show ?case by auto
qed simp

section \<open>A fixture\<close>

lemma good_fixture_steps:
  assumes "good_fixture fx"
  shows "distinct (map step_place (fixture_steps fx))" and "list_all step_ok (fixture_steps fx)"
proof -
  let ?cs = "fx_testCases fx" and ?hs = "fx_hints fx"
  have o: "map nt_orderIndex ?cs = [0..<length ?cs]" "map nh_orderIndex ?hs = [0..<length ?hs]"
    using assms by (simp_all add: good_fixture_def)
  have "map step_place (fixture_steps fx) =
      map CaseAt (map nt_orderIndex ?cs) @ [TemplateFor (nb_language (fx_boilerplate fx))]
      @ map HintAt (map nh_orderIndex ?hs)"
    by (simp add: fixture_steps_def)
  also have "distinct \<dots>" unfolding o by (auto simp: distinct_map inj_on_def)
  finally show "distinct (map step_place (fixture_steps fx))" .
  show "list_all step_ok (fixture_steps fx)"
    using assms by (auto simp: fixture_steps_def good_fixture_def list_all_iff)
qed

lemma cases_of_fixture: "cases_of (fixture_steps fx) = fx_testCases fx"
proof -
  have "cases_of (map InsertCase cs @ ss) = cs @ cases_of ss" for cs ss by (induction cs) auto
  moreover have "cases_of (map InsertHint hs) = []" for hs by (induction hs) auto
  ultimately show ?thesis by (simp add: fixture_steps_def)
qed

lemma parts_of_fixture:
  "boilerplates_of (fixture_steps fx) = [fx_boilerplate fx]" "hints_of (fixture_steps fx) = fx_hints fx"
proof -
  have "boilerplates_of (map InsertCase cs @ ss) = boilerplates_of ss" "hints_of (map InsertCase cs @ ss) = hints_of ss" for cs ss
    by (induction cs) auto
  moreover have "boilerplates_of (map InsertHint hs) = []" "hints_of (map InsertHint hs) = hs" for hs by (induction hs) auto
  ultimately show "boilerplates_of (fixture_steps fx) = [fx_boilerplate fx]" "hints_of (fixture_steps fx) = fx_hints fx"
    by (simp_all add: fixture_steps_def)
qed

text \<open>The columns of a problem's row that come from what was written down, and that it is not deleted.\<close>

definition problem_fields ::
  "problem_row \<Rightarrow> (string \<times> string \<times> Difficulty option \<times> string \<times> string) \<times> string list \<times> string option \<times> nat
   \<times> ProblemSource option \<times> string option \<times> string option" where
  "problem_fields r =
     ((pr_slug r, pr_title r, Some (pr_difficulty r), pr_category r, pr_description r), pr_constraints r, pr_solution r,
      pr_time_limit_ms r, Some (pr_source r), pr_source_url r, pr_deleted_at r)"

definition new_problem_fields ::
  "new_problem \<Rightarrow> (string \<times> string \<times> Difficulty option \<times> string \<times> string) \<times> string list \<times> string option \<times> nat
   \<times> ProblemSource option \<times> string option \<times> string option" where
  "new_problem_fields d =
     ((np_slug d, np_title d, difficulty_of (np_difficulty d), np_category d, np_description d), np_constraints d, np_solution d,
      np_timeLimitMs d, source_of (np_source d), np_sourceUrl d, None)"

lemma good_fixture_creates:
  assumes "good_fixture fx" and "newId \<notin> pr_id ` set (tb_problems db)" and "fx_slug fx \<notin> pr_slug ` set (tb_problems db)"
  obtains row where "createProblem newId now (fx_problem fx) db = Inr (db\<lparr>tb_problems := tb_problems db @ [row]\<rparr>, toProblem row)"
    "pr_id row = newId" "problem_fields row = new_problem_fields (fx_problem fx)"
  using assms
  by (auto simp: good_fixture_def createProblem_def Let_def source_of_def fx_slug_def problem_fields_def new_problem_fields_def
      split: option.splits)

text \<open>A fixture is stored when its problem is, and reading its rows gives those that were written down.\<close>

definition stores :: "problem_tables \<Rightarrow> problem_row \<Rightarrow> fixture \<Rightarrow> bool" where
  "stores db row fx \<longleftrightarrow>
     problem_fields row = new_problem_fields (fx_problem fx)
     \<and> map case_fields (findByProblemId (pr_id row) db) = map new_case_fields (fx_testCases fx)
     \<and> map boilerplate_fields (fst (snd (rows_of (pr_id row) db))) = [new_boilerplate_fields (fx_boilerplate fx)]
     \<and> map hint_fields (snd (snd (rows_of (pr_id row) db))) = map new_hint_fields (fx_hints fx)"

lemma stores_slug: "stores db row fx \<Longrightarrow> pr_slug row = fx_slug fx"
  by (simp add: stores_def problem_fields_def new_problem_fields_def fx_slug_def)

lemma stores_cong: "rows_of (pr_id row) db' = rows_of (pr_id row) db \<Longrightarrow> stores db' row fx = stores db row fx"
  by (simp add: stores_def queries_of_rows)

text \<open>The fixture is stored, under a new id, and the rows of the problems that were there are as they were.\<close>

lemma seed_fixture_total:
  assumes ok: "tables_ok db" and good: "good_fixture fx" and slug: "fx_slug fx \<notin> pr_slug ` set (tb_problems db)"
    and up: "\<forall>k. \<not> de_down env k" and ids: "inj (de_id env)" "\<forall>k. de_id env k \<notin> table_ids db"
  obtains db' row where "seed_fixture env fx db = (db', None)" "tables_ok db'"
    "tb_problems db' = tb_problems db @ [row]" "stores db' row fx"
    "table_ids db' \<subseteq> table_ids db \<union> range (de_id env)"
    "\<And>q. q \<in> pr_id ` set (tb_problems db) \<Longrightarrow> rows_of q db' = rows_of q db"
proof -
  let ?id = "de_id env 2"
  have new: "?id \<notin> pr_id ` set (tb_problems db)" using ids(2) by (auto simp: table_ids_def)
  obtain row where c: "createProblem ?id (de_now env) (fx_problem fx) db
      = Inr (db\<lparr>tb_problems := tb_problems db @ [row]\<rparr>, toProblem row)" "pr_id row = ?id"
      "problem_fields row = new_problem_fields (fx_problem fx)"
    by (rule good_fixture_creates [OF good new slug])
  let ?db1 = "db\<lparr>tb_problems := tb_problems db @ [row]\<rparr>"
  note foreign = tables_ok_foreign [OF ok new]
  have "taken ?id ?db1 = {}" by (rule taken_new) (use foreign in simp_all)
  moreover have t1: "table_ids ?db1 = insert ?id (table_ids db)" by (auto simp: table_ids_def c(2))
  moreover have "\<forall>k \<ge> 3. de_id env k \<notin> table_ids ?db1" using ids by (auto simp: t1 inj_eq)
  moreover have "?id \<in> pr_id ` set (tb_problems ?db1)" by (simp add: c(2))
  ultimately obtain db' where all: "perform_all (\<lambda>k st. perform env k ?id st) (3) (fixture_steps fx) ?db1 = (db', None)"
    "table_ids db' \<subseteq> table_ids ?db1 \<union> range (de_id env)" "tb_problems db' = tb_problems ?db1"
    "\<forall>q. q \<noteq> ?id \<longrightarrow> rows_of q db' = rows_of q ?db1"
    using perform_all_total [OF up ids(1), of ?id ?db1 "3" "fixture_steps fx"] good_fixture_steps [OF good] by auto
  have pid: "p_id (toProblem row) = ?id" by (simp add: toProblem_def c(2))
  have ins: "insert_problem env 2 (fx_problem fx) (fixture_steps fx) db = (db', Inr (toProblem row))"
    using up by (simp add: insert_problem_def on_line_def c(1) pid all(1))
  have "filter (\<lambda>r. pr_slug r = fx_slug fx) (tb_problems db) = []" using slug unfolding filter_empty_conv by (metis image_eqI)
  then have "findBySlugIncludingDeleted (fx_slug fx) db = None" by (simp add: findBySlugIncludingDeleted_def getFirstOrNull_def)
  then have s: "seed_fixture env fx db = (db', None)"
    using up by (simp add: seed_fixture_def on_line_def fx_slug_def ins)
  have f: "tables_ok db'" "map case_fields (findByProblemId ?id db')
      = map new_case_fields (sort_key nt_orderIndex (fx_testCases fx))"
    using insert_problem_success [OF ok ins] by (simp_all add: cases_of_fixture pid)
  have "sorted (map nt_orderIndex (fx_testCases fx))" using good by (simp add: good_fixture_def)
  then have "sort_key nt_orderIndex (fx_testCases fx) = fx_testCases fx" by (rule sort_key_id_if_sorted)
  moreover have "rows_of ?id ?db1 = ([], [], [])"
    using foreign by (simp add: rows_of_def filter_empty_conv) (metis imageI)
  ultimately have st: "stores db' row fx"
    using perform_all_parts [OF all(1)] f(2) c(2,3) by (simp add: stores_def parts_of_fixture)
  have keep: "rows_of q db' = rows_of q db" if "q \<in> pr_id ` set (tb_problems db)" for q
  proof -
    have "q \<noteq> ?id" using that new by blast
    with all(4) have "rows_of q db' = rows_of q ?db1" by blast
    then show ?thesis by (simp add: rows_of_def)
  qed
  show ?thesis
    by (rule that [OF s f(1) _ st _ keep]) (use all(2,3) t1 in auto)
qed

section \<open>A list of fixtures\<close>

lemma seed_total:
  assumes "tables_ok db" and "list_all good_fixture fxs" and "distinct (map fx_slug fxs)"
    and "set (map fx_slug fxs) \<inter> pr_slug ` set (tb_problems db) = {}"
    and up: "\<forall>k n. \<not> de_down (envs k) n" and inj: "inj (\<lambda>(k, n). de_id (envs k) n)"
    and "\<forall>j \<ge> k. \<forall>n. de_id (envs j) n \<notin> table_ids db"
  shows "\<exists>db' rows. seed envs k fxs db = (db', None) \<and> tables_ok db' \<and> tb_problems db' = tb_problems db @ rows
    \<and> list_all2 (stores db') rows fxs
    \<and> (\<forall>q \<in> pr_id ` set (tb_problems db). rows_of q db' = rows_of q db)"
  using assms(1-4,7)
proof (induction fxs arbitrary: k db)
  case (Cons fx fxs)
  have i: "inj (de_id (envs k))" using injD [OF inj, of "(k, _)" "(k, _)"] by (auto intro!: injI)
  obtain db1 row where f: "seed_fixture (envs k) fx db = (db1, None)" "tables_ok db1"
    "tb_problems db1 = tb_problems db @ [row]" "stores db1 row fx"
    "table_ids db1 \<subseteq> table_ids db \<union> range (de_id (envs k))"
    "\<And>q. q \<in> pr_id ` set (tb_problems db) \<Longrightarrow> rows_of q db1 = rows_of q db"
    using seed_fixture_total [OF Cons.prems(1), of fx "envs k"] Cons.prems up i by auto
  have "de_id (envs j) n \<notin> table_ids db1" if "Suc k \<le> j" for j n
  proof -
    have "de_id (envs j) n \<noteq> de_id (envs k) m" for m
      using injD [OF inj, of "(j, n)" "(k, m)"] that by auto
    moreover have "de_id (envs j) n \<notin> table_ids db" using Cons.prems(5) that by simp
    ultimately show ?thesis using f(5) by blast
  qed
  moreover have "set (map fx_slug fxs) \<inter> pr_slug ` set (tb_problems db1) = {}"
    using Cons.prems(3,4) stores_slug [OF f(4)] by (auto simp: f(3))
  ultimately obtain db' rows where r: "seed envs (Suc k) fxs db1 = (db', None)" "tables_ok db'"
    "tb_problems db' = tb_problems db1 @ rows" "list_all2 (stores db') rows fxs"
    "\<forall>q \<in> pr_id ` set (tb_problems db1). rows_of q db' = rows_of q db1"
    using Cons.IH [OF f(2), of "Suc k"] Cons.prems(2,3) by auto
  have "rows_of (pr_id row) db' = rows_of (pr_id row) db1" using f(3) r(5) by simp
  then have "stores db' row fx" using f(4) stores_cong by blast
  with f r show ?case by (intro exI [of _ db'] exI [of _ "row # rows"]) auto
qed simp

section \<open>What the queries answer\<close>

lemma sort_hints:
  assumes "map hint_fields rows = map new_hint_fields hs" and "sorted (map nh_orderIndex hs)"
  shows "map (\<lambda>h. (h_hintText h, h_orderIndex h)) (map toHint (sort_key ht_order_index rows)) = map new_hint_fields hs"
proof -
  have "map ht_order_index rows = map snd (map hint_fields rows)" by (simp add: hint_fields_def)
  also have "\<dots> = map nh_orderIndex hs" by (simp add: assms(1) new_hint_fields_def)
  finally have "sort_key ht_order_index rows = rows" using assms(2) by (simp add: sort_key_id_if_sorted)
  moreover have "map (\<lambda>h. (h_hintText h, h_orderIndex h)) (map toHint rows) = map hint_fields rows"
    by (simp add: hint_fields_def toHint_def)
  ultimately show ?thesis using assms(1) by simp
qed

lemma stored_hints:
  assumes "stores db row fx" and "good_fixture fx"
  shows "map (\<lambda>h. (h_hintText h, h_orderIndex h)) (findHints (pr_id row) db) = map new_hint_fields (fx_hints fx)"
proof -
  have "map nh_orderIndex (fx_hints fx) = [0..<length (fx_hints fx)]" using assms(2) by (simp add: good_fixture_def)
  then have "sorted (map nh_orderIndex (fx_hints fx))" by simp
  from sort_hints [OF _ this] assms(1) show ?thesis by (simp add: stores_def queries_of_rows del: map_map)
qed

lemma stored_boilerplate:
  assumes "stores db row fx"
  shows "map_option (\<lambda>b. (bp_language b, bp_template b, bp_methodName b, bp_parameterNames b))
      (findByProblemAndLanguage (pr_id row) (nb_language (fx_boilerplate fx)) db)
    = Some (new_boilerplate_fields (fx_boilerplate fx))"
proof -
  from assms obtain r where "fst (snd (rows_of (pr_id row) db)) = [r]" "boilerplate_fields r = new_boilerplate_fields (fx_boilerplate fx)"
    by (auto simp: stores_def)
  then show ?thesis
    by (simp add: queries_of_rows getFirstOrNull_def toBoilerplate_def boilerplate_fields_def new_boilerplate_fields_def)
qed

lemma stored_problem:
  assumes "distinct (map pr_slug (tb_problems db))" and "row \<in> set (tb_problems db)" and "stores db row fx"
  shows "findBySlug (np_slug (fx_problem fx)) db = Some (toProblem row)"
proof -
  have "pr_slug row = np_slug (fx_problem fx)" "Problem_Store.active row"
    using assms(3) by (simp_all add: stores_def problem_fields_def new_problem_fields_def Problem_Store.active_def)
  moreover have "filter (\<lambda>r. pr_slug r = pr_slug row \<and> Problem_Store.active r) rows = [row]"
    if "distinct (map pr_slug rows)" "row \<in> set rows" for rows
    using that \<open>Problem_Store.active row\<close>
  proof (induction rows)
    case (Cons r rows)
    have "filter (\<lambda>r. pr_slug r = pr_slug row \<and> Problem_Store.active r) rows = []" if "row = r"
      using Cons.prems(1) that by (auto simp: filter_empty_conv dest: sym)
    with Cons show ?case by (auto simp: image_iff)
  qed simp
  ultimately show ?thesis using assms(1,2) by (simp add: findBySlug_def getFirstOrNull_def)
qed

end
