(* ===== verification/Seed_Arrays.thy ===== *)
theory Seed_Arrays
  imports Seed_Base
begin

text \<open>The problems of \<^verbatim>\<open>arrays-hashing.ts\<close>, \<^verbatim>\<open>two-pointers.ts\<close>, \<^verbatim>\<open>sliding-window.ts\<close> under
  \<^verbatim>\<open>packages/db/src/seeds/data\<close>, in the order of the files.\<close>

section \<open>arrays hashing\<close>

definition contains_duplicate_fixture :: fixture where
  "contains_duplicate_fixture =
     \<lparr>fx_problem = \<lparr>np_slug = ''contains-duplicate'', np_title = ''Contains Duplicate'', np_difficulty = ''easy'',
        np_category = ''Arrays & Hashing'',
        np_description = ''Given an integer array `nums`, return `true` if any value appears at least twice in the array, and return `false` if every element is distinct.'',
        np_constraints = [''1 <= nums.length <= 10^5'', ''-10^9 <= nums[i] <= 10^9''],
        np_solution = Some ''Use a hash set. Iterate through the array and check if the current element already exists in the set. If it does, return true. Otherwise, add it to the set. If the loop completes, return false.'',
        np_timeLimitMs = 5000, np_source = ''curated'', np_sourceUrl = Some ''https://leetcode.com/problems/contains-duplicate/''\<rparr>,
      fx_testCases = [
          fx_case [(''nums'', jints [1, 2, 3, 1])] (JBool True) True 0,
          fx_case [(''nums'', jints [1, 2, 3, 4])] (JBool False) True 1,
          fx_case [(''nums'', jints [1, 1, 1, 3, 3, 4, 3, 2, 4, 2])] (JBool True) True 2,
          fx_case [(''nums'', jints [1])] (JBool False) False 3,
          fx_case [(''nums'', jints [0, 0])] (JBool True) False 4,
          fx_case [(''nums'', jints [- 1, - 2, - 3, - 1])] (JBool True) False 5,
          fx_case [(''nums'', jints [1, 2, 3, 4, 5, 6, 7, 8, 9, 10])] (JBool False) False 6,
          fx_case [(''nums'', jints [1000000000, - 1000000000])] (JBool False) False 7],
      fx_boilerplate = \<lparr>nb_language = ''python'', nb_template = ''class Solution:\<newline>    def containsDuplicate(self, nums: List[int]) -> bool:\<newline>        pass'',
        nb_methodName = ''containsDuplicate'', nb_parameterNames = [''nums'']\<rparr>,
      fx_hints = [
        \<lparr>nh_hintText = ''Think about a data structure that supports O(1) lookup. As you iterate, check if you've already seen the current element.'', nh_orderIndex = 0\<rparr>]\<rparr>"

definition valid_anagram_fixture :: fixture where
  "valid_anagram_fixture =
     \<lparr>fx_problem = \<lparr>np_slug = ''valid-anagram'', np_title = ''Valid Anagram'', np_difficulty = ''easy'',
        np_category = ''Arrays & Hashing'',
        np_description = ''Given two strings `s` and `t`, return `true` if `t` is an anagram of `s`, and `false` otherwise.\<newline>\<newline>An anagram is a word or phrase formed by rearranging the letters of a different word or phrase, typically using all the original letters exactly once.'',
        np_constraints = [''1 <= s.length, t.length <= 5 * 10^4'', ''s and t consist of lowercase English letters.''],
        np_solution = Some ''Count the frequency of each character in both strings using a hash map or array of size 26. Compare the frequency counts -- if they match, the strings are anagrams.'',
        np_timeLimitMs = 5000, np_source = ''curated'', np_sourceUrl = Some ''https://leetcode.com/problems/valid-anagram/''\<rparr>,
      fx_testCases = [
          fx_case [(''s'', JStr ''anagram''), (''t'', JStr ''nagaram'')] (JBool True) True 0,
          fx_case [(''s'', JStr ''rat''), (''t'', JStr ''car'')] (JBool False) True 1,
          fx_case [(''s'', JStr ''a''), (''t'', JStr ''a'')] (JBool True) True 2,
          fx_case [(''s'', JStr ''ab''), (''t'', JStr ''ba'')] (JBool True) False 3,
          fx_case [(''s'', JStr ''aacc''), (''t'', JStr ''ccac'')] (JBool False) False 4,
          fx_case [(''s'', JStr []), (''t'', JStr [])] (JBool True) False 5,
          fx_case [(''s'', JStr ''abc''), (''t'', JStr ''abcd'')] (JBool False) False 6,
          fx_case [(''s'', JStr ''listen''), (''t'', JStr ''silent'')] (JBool True) False 7],
      fx_boilerplate = \<lparr>nb_language = ''python'', nb_template = ''class Solution:\<newline>    def isAnagram(self, s: str, t: str) -> bool:\<newline>        pass'',
        nb_methodName = ''isAnagram'', nb_parameterNames = [''s'', ''t'']\<rparr>,
      fx_hints = [
        \<lparr>nh_hintText = ''Count the frequency of each character in both strings. If the frequency counts match, the strings are anagrams.'', nh_orderIndex = 0\<rparr>]\<rparr>"

definition two_sum_fixture :: fixture where
  "two_sum_fixture =
     \<lparr>fx_problem = \<lparr>np_slug = ''two-sum'', np_title = ''Two Sum'', np_difficulty = ''easy'',
        np_category = ''Arrays & Hashing'',
        np_description = ''Given an array of integers `nums` and an integer `target`, return indices of the two numbers such that they add up to `target`.\<newline>\<newline>You may assume that each input would have exactly one solution, and you may not use the same element twice.\<newline>\<newline>You can return the answer in any order.'',
        np_constraints = [''2 <= nums.length <= 10^4'', ''-10^9 <= nums[i] <= 10^9'', ''-10^9 <= target <= 10^9'', ''Only one valid answer exists.''],
        np_solution = Some ''Use a hash map to store each number's index as you iterate. For each number, check if target - num already exists in the map. If it does, return both indices.'',
        np_timeLimitMs = 5000, np_source = ''curated'', np_sourceUrl = Some ''https://leetcode.com/problems/two-sum/''\<rparr>,
      fx_testCases = [
          fx_case [(''nums'', jints [2, 7, 11, 15]), (''target'', jint 9)] (jints [0, 1]) True 0,
          fx_case [(''nums'', jints [3, 2, 4]), (''target'', jint 6)] (jints [1, 2]) True 1,
          fx_case [(''nums'', jints [3, 3]), (''target'', jint 6)] (jints [0, 1]) True 2,
          fx_case [(''nums'', jints [1, 5, 3, 7]), (''target'', jint 8)] (jints [1, 2]) False 3,
          fx_case [(''nums'', jints [- 1, - 2, - 3, - 4, - 5]), (''target'', jint (- 8))] (jints [2, 4]) False 4,
          fx_case [(''nums'', jints [0, 4, 3, 0]), (''target'', jint 0)] (jints [0, 3]) False 5,
          fx_case [(''nums'', jints [1, 2]), (''target'', jint 3)] (jints [0, 1]) False 6,
          fx_case [(''nums'', jints [5, 75, 25]), (''target'', jint 100)] (jints [1, 2]) False 7],
      fx_boilerplate = \<lparr>nb_language = ''python'', nb_template = ''class Solution:\<newline>    def twoSum(self, nums: List[int], target: int) -> List[int]:\<newline>        pass'',
        nb_methodName = ''twoSum'', nb_parameterNames = [''nums'', ''target'']\<rparr>,
      fx_hints = [
        \<lparr>nh_hintText = ''Try using a hash map to store each number's index as you iterate. For each number, check if `target - num` already exists in the map.'', nh_orderIndex = 0\<rparr>]\<rparr>"

definition group_anagrams_fixture :: fixture where
  "group_anagrams_fixture =
     \<lparr>fx_problem = \<lparr>np_slug = ''group-anagrams'', np_title = ''Group Anagrams'', np_difficulty = ''medium'',
        np_category = ''Arrays & Hashing'',
        np_description = ''Given an array of strings `strs`, group the anagrams together. You can return the answer in any order.\<newline>\<newline>An anagram is a word or phrase formed by rearranging the letters of a different word or phrase, typically using all the original letters exactly once.'',
        np_constraints = [''1 <= strs.length <= 10^4'', ''0 <= strs[i].length <= 100'', ''strs[i] consists of lowercase English letters.''],
        np_solution = Some ''Use a hash map where the key is the sorted version of each string (or a character frequency tuple). Group strings that share the same key.'',
        np_timeLimitMs = 5000, np_source = ''curated'', np_sourceUrl = Some ''https://leetcode.com/problems/group-anagrams/''\<rparr>,
      fx_testCases = [
          fx_case [(''strs'', jstrs [''eat'', ''tea'', ''tan'', ''ate'', ''nat'', ''bat''])] (JArr [jstrs [''bat''],
            jstrs [''nat'', ''tan''], jstrs [''ate'', ''eat'', ''tea'']]) True 0,
          fx_case [(''strs'', jstrs [[]])] (JArr [jstrs [[]]]) True 1,
          fx_case [(''strs'', jstrs [''a''])] (JArr [jstrs [''a'']]) True 2,
          fx_case [(''strs'', jstrs [''abc'', ''bca'', ''cab'', ''xyz'', ''zyx''])] (JArr [jstrs [''abc'', ''bca'',
            ''cab''], jstrs [''xyz'', ''zyx'']]) False 3,
          fx_case [(''strs'', jstrs [[], []])] (JArr [jstrs [[], []]]) False 4,
          fx_case [(''strs'', jstrs [''ab'', ''ba'', ''abc'', ''cba''])] (JArr [jstrs [''ab'', ''ba''],
            jstrs [''abc'', ''cba'']]) False 5,
          fx_case [(''strs'', jstrs [''a'', ''b'', ''c''])] (JArr [jstrs [''a''], jstrs [''b''],
            jstrs [''c'']]) False 6,
          fx_case [(''strs'', jstrs [''listen'', ''silent'', ''hello''])] (JArr [jstrs [''listen'', ''silent''],
            jstrs [''hello'']]) False 7],
      fx_boilerplate = \<lparr>nb_language = ''python'', nb_template = ''class Solution:\<newline>    def groupAnagrams(self, strs: List[str]) -> List[List[str]]:\<newline>        pass'',
        nb_methodName = ''groupAnagrams'', nb_parameterNames = [''strs'']\<rparr>,
      fx_hints = [
        \<lparr>nh_hintText = ''Two strings are anagrams if and only if their sorted versions are equal. Can you use this as a key?'', nh_orderIndex = 0\<rparr>,
        \<lparr>nh_hintText = ''Use a hash map with the sorted string as the key. Append each original string to the list corresponding to its sorted key.'', nh_orderIndex = 1\<rparr>]\<rparr>"

definition top_k_frequent_elements_fixture :: fixture where
  "top_k_frequent_elements_fixture =
     \<lparr>fx_problem = \<lparr>np_slug = ''top-k-frequent-elements'', np_title = ''Top K Frequent Elements'', np_difficulty = ''medium'',
        np_category = ''Arrays & Hashing'',
        np_description = ''Given an integer array `nums` and an integer `k`, return the `k` most frequent elements. You may return the answer in any order.'',
        np_constraints = [''1 <= nums.length <= 10^5'', ''-10^4 <= nums[i] <= 10^4'', ''k is in the range [1, the number of unique elements in the array].'', ''It is guaranteed that the answer is unique.''],
        np_solution = Some ''Count frequencies using a hash map. Then use bucket sort: create an array of size n+1 where index i contains elements with frequency i. Iterate buckets from high to low to collect the top k elements.'',
        np_timeLimitMs = 5000, np_source = ''curated'', np_sourceUrl = Some ''https://leetcode.com/problems/top-k-frequent-elements/''\<rparr>,
      fx_testCases = [
          fx_case [(''nums'', jints [1, 1, 1, 2, 2, 3]), (''k'', jint 2)] (jints [1, 2]) True 0,
          fx_case [(''nums'', jints [1]), (''k'', jint 1)] (jints [1]) True 1,
          fx_case [(''nums'', jints [4, 1, - 1, 2, - 1, 2, 3]), (''k'', jint 2)] (jints [- 1, 2]) True 2,
          fx_case [(''nums'', jints [1, 2]), (''k'', jint 2)] (jints [1, 2]) False 3,
          fx_case [(''nums'', jints [3, 0, 1, 0]), (''k'', jint 1)] (jints [0]) False 4,
          fx_case [(''nums'', jints [5, 5, 5, 5]), (''k'', jint 1)] (jints [5]) False 5,
          fx_case [(''nums'', jints [1, 1, 2, 2, 3, 3]), (''k'', jint 3)] (jints [1, 2, 3]) False 6,
          fx_case [(''nums'', jints [- 1, - 1, - 2, - 2, - 3]), (''k'', jint 2)] (jints [- 1, - 2]) False 7],
      fx_boilerplate = \<lparr>nb_language = ''python'', nb_template = ''class Solution:\<newline>    def topKFrequent(self, nums: List[int], k: int) -> List[int]:\<newline>        pass'',
        nb_methodName = ''topKFrequent'', nb_parameterNames = [''nums'', ''k'']\<rparr>,
      fx_hints = [
        \<lparr>nh_hintText = ''First count the frequency of each element using a hash map.'', nh_orderIndex = 0\<rparr>,
        \<lparr>nh_hintText = ''Use bucket sort: create buckets indexed by frequency. Place elements into buckets based on their count, then collect from highest to lowest frequency.'', nh_orderIndex = 1\<rparr>]\<rparr>"

definition product_of_array_except_self_fixture :: fixture where
  "product_of_array_except_self_fixture =
     \<lparr>fx_problem = \<lparr>np_slug = ''product-of-array-except-self'', np_title = ''Product of Array Except Self'', np_difficulty = ''medium'',
        np_category = ''Arrays & Hashing'',
        np_description = ''Given an integer array `nums`, return an array `answer` such that `answer[i]` is equal to the product of all the elements of `nums` except `nums[i]`.\<newline>\<newline>The product of any prefix or suffix of `nums` is guaranteed to fit in a 32-bit integer.\<newline>\<newline>You must write an algorithm that runs in O(n) time and without using the division operation.'',
        np_constraints = [''2 <= nums.length <= 10^5'', ''-30 <= nums[i] <= 30'', ''The product of any prefix or suffix of nums is guaranteed to fit in a 32-bit integer.''],
        np_solution = Some ''Use two passes. First pass (left to right): compute prefix products. Second pass (right to left): multiply each position by the suffix product. This gives the product of all elements except self without division.'',
        np_timeLimitMs = 5000, np_source = ''curated'', np_sourceUrl = Some ''https://leetcode.com/problems/product-of-array-except-self/''\<rparr>,
      fx_testCases = [
          fx_case [(''nums'', jints [1, 2, 3, 4])] (jints [24, 12, 8, 6]) True 0,
          fx_case [(''nums'', jints [- 1, 1, 0, - 3, 3])] (jints [0, 0, 9, 0, 0]) True 1,
          fx_case [(''nums'', jints [2, 3])] (jints [3, 2]) True 2,
          fx_case [(''nums'', jints [1, 1, 1, 1])] (jints [1, 1, 1, 1]) False 3,
          fx_case [(''nums'', jints [0, 0])] (jints [0, 0]) False 4,
          fx_case [(''nums'', jints [1, 0, 3, 4])] (jints [0, 12, 0, 0]) False 5,
          fx_case [(''nums'', jints [- 1, - 1, - 1])] (jints [1, 1, 1]) False 6,
          fx_case [(''nums'', jints [5, 1, 2, 3])] (jints [6, 30, 15, 10]) False 7],
      fx_boilerplate = \<lparr>nb_language = ''python'', nb_template = ''class Solution:\<newline>    def productExceptSelf(self, nums: List[int]) -> List[int]:\<newline>        pass'',
        nb_methodName = ''productExceptSelf'', nb_parameterNames = [''nums'']\<rparr>,
      fx_hints = [
        \<lparr>nh_hintText = ''Think about computing prefix and suffix products separately.'', nh_orderIndex = 0\<rparr>,
        \<lparr>nh_hintText = ''For each index i, the answer is the product of all elements to the left of i multiplied by the product of all elements to the right of i. Compute these in two passes.'', nh_orderIndex = 1\<rparr>]\<rparr>"

definition valid_sudoku_fixture :: fixture where
  "valid_sudoku_fixture =
     \<lparr>fx_problem = \<lparr>np_slug = ''valid-sudoku'', np_title = ''Valid Sudoku'', np_difficulty = ''medium'',
        np_category = ''Arrays & Hashing'',
        np_description = ''Determine if a `9 x 9` Sudoku board is valid. Only the filled cells need to be validated according to the following rules:\<newline>\<newline>1. Each row must contain the digits `1-9` without repetition.\<newline>2. Each column must contain the digits `1-9` without repetition.\<newline>3. Each of the nine `3 x 3` sub-boxes of the grid must contain the digits `1-9` without repetition.\<newline>\<newline>Note: A Sudoku board (partially filled) could be valid but is not necessarily solvable. Only the filled cells need to be validated according to the mentioned rules.'',
        np_constraints = [''board.length == 9'', ''board[i].length == 9'', ''board[i][j] is a digit 1-9 or '.'.''],
        np_solution = Some ''Use three sets of hash sets: one per row, one per column, one per 3x3 box. Iterate through each cell; for filled cells, check if the digit already exists in the corresponding row, column, or box set. If so, return false.'',
        np_timeLimitMs = 5000, np_source = ''curated'', np_sourceUrl = Some ''https://leetcode.com/problems/valid-sudoku/''\<rparr>,
      fx_testCases = [
          fx_case [(''board'', JArr [jstrs [''5'', ''3'', ''.'', ''.'', ''7'', ''.'', ''.'', ''.'', ''.''],
            jstrs [''6'', ''.'', ''.'', ''1'', ''9'', ''5'', ''.'', ''.'', ''.''], jstrs [''.'', ''9'', ''8'', ''.'',
            ''.'', ''.'', ''.'', ''6'', ''.''], jstrs [''8'', ''.'', ''.'', ''.'', ''6'', ''.'', ''.'', ''.'',
            ''3''], jstrs [''4'', ''.'', ''.'', ''8'', ''.'', ''3'', ''.'', ''.'', ''1''], jstrs [''7'', ''.'',
            ''.'', ''.'', ''2'', ''.'', ''.'', ''.'', ''6''], jstrs [''.'', ''6'', ''.'', ''.'', ''.'', ''.'', ''2'',
            ''8'', ''.''], jstrs [''.'', ''.'', ''.'', ''4'', ''1'', ''9'', ''.'', ''.'', ''5''], jstrs [''.'',
            ''.'', ''.'', ''.'', ''8'', ''.'', ''.'', ''7'', ''9'']])] (JBool True) True 0,
          fx_case [(''board'', JArr [jstrs [''8'', ''3'', ''.'', ''.'', ''7'', ''.'', ''.'', ''.'', ''.''],
            jstrs [''6'', ''.'', ''.'', ''1'', ''9'', ''5'', ''.'', ''.'', ''.''], jstrs [''.'', ''9'', ''8'', ''.'',
            ''.'', ''.'', ''.'', ''6'', ''.''], jstrs [''8'', ''.'', ''.'', ''.'', ''6'', ''.'', ''.'', ''.'',
            ''3''], jstrs [''4'', ''.'', ''.'', ''8'', ''.'', ''3'', ''.'', ''.'', ''1''], jstrs [''7'', ''.'',
            ''.'', ''.'', ''2'', ''.'', ''.'', ''.'', ''6''], jstrs [''.'', ''6'', ''.'', ''.'', ''.'', ''.'', ''2'',
            ''8'', ''.''], jstrs [''.'', ''.'', ''.'', ''4'', ''1'', ''9'', ''.'', ''.'', ''5''], jstrs [''.'',
            ''.'', ''.'', ''.'', ''8'', ''.'', ''.'', ''7'', ''9'']])] (JBool False) True 1,
          fx_case [(''board'', JArr [jstrs [''.'', ''.'', ''.'', ''.'', ''.'', ''.'', ''.'', ''.'', ''.''],
            jstrs [''.'', ''.'', ''.'', ''.'', ''.'', ''.'', ''.'', ''.'', ''.''], jstrs [''.'', ''.'', ''.'', ''.'',
            ''.'', ''.'', ''.'', ''.'', ''.''], jstrs [''.'', ''.'', ''.'', ''.'', ''.'', ''.'', ''.'', ''.'',
            ''.''], jstrs [''.'', ''.'', ''.'', ''.'', ''.'', ''.'', ''.'', ''.'', ''.''], jstrs [''.'', ''.'',
            ''.'', ''.'', ''.'', ''.'', ''.'', ''.'', ''.''], jstrs [''.'', ''.'', ''.'', ''.'', ''.'', ''.'', ''.'',
            ''.'', ''.''], jstrs [''.'', ''.'', ''.'', ''.'', ''.'', ''.'', ''.'', ''.'', ''.''], jstrs [''.'',
            ''.'', ''.'', ''.'', ''.'', ''.'', ''.'', ''.'', ''.'']])] (JBool True) False 2,
          fx_case [(''board'', JArr [jstrs [''1'', ''2'', ''3'', ''4'', ''5'', ''6'', ''7'', ''8'', ''9''],
            jstrs [''.'', ''.'', ''.'', ''.'', ''.'', ''.'', ''.'', ''.'', ''.''], jstrs [''.'', ''.'', ''.'', ''.'',
            ''.'', ''.'', ''.'', ''.'', ''.''], jstrs [''.'', ''.'', ''.'', ''.'', ''.'', ''.'', ''.'', ''.'',
            ''.''], jstrs [''.'', ''.'', ''.'', ''.'', ''.'', ''.'', ''.'', ''.'', ''.''], jstrs [''.'', ''.'',
            ''.'', ''.'', ''.'', ''.'', ''.'', ''.'', ''.''], jstrs [''.'', ''.'', ''.'', ''.'', ''.'', ''.'', ''.'',
            ''.'', ''.''], jstrs [''.'', ''.'', ''.'', ''.'', ''.'', ''.'', ''.'', ''.'', ''.''], jstrs [''.'',
            ''.'', ''.'', ''.'', ''.'', ''.'', ''.'', ''.'', ''.'']])] (JBool True) False 3,
          fx_case [(''board'', JArr [jstrs [''1'', ''.'', ''.'', ''.'', ''.'', ''.'', ''.'', ''.'', ''1''],
            jstrs [''.'', ''.'', ''.'', ''.'', ''.'', ''.'', ''.'', ''.'', ''.''], jstrs [''.'', ''.'', ''.'', ''.'',
            ''.'', ''.'', ''.'', ''.'', ''.''], jstrs [''.'', ''.'', ''.'', ''.'', ''.'', ''.'', ''.'', ''.'',
            ''.''], jstrs [''.'', ''.'', ''.'', ''.'', ''.'', ''.'', ''.'', ''.'', ''.''], jstrs [''.'', ''.'',
            ''.'', ''.'', ''.'', ''.'', ''.'', ''.'', ''.''], jstrs [''.'', ''.'', ''.'', ''.'', ''.'', ''.'', ''.'',
            ''.'', ''.''], jstrs [''.'', ''.'', ''.'', ''.'', ''.'', ''.'', ''.'', ''.'', ''.''], jstrs [''.'',
            ''.'', ''.'', ''.'', ''.'', ''.'', ''.'', ''.'', ''.'']])] (JBool False) False 4,
          fx_case [(''board'', JArr [jstrs [''1'', ''.'', ''.'', ''.'', ''.'', ''.'', ''.'', ''.'', ''.''],
            jstrs [''.'', ''.'', ''.'', ''.'', ''.'', ''.'', ''.'', ''.'', ''.''], jstrs [''.'', ''.'', ''.'', ''.'',
            ''.'', ''.'', ''.'', ''.'', ''.''], jstrs [''.'', ''.'', ''.'', ''.'', ''.'', ''.'', ''.'', ''.'',
            ''.''], jstrs [''.'', ''.'', ''.'', ''.'', ''.'', ''.'', ''.'', ''.'', ''.''], jstrs [''.'', ''.'',
            ''.'', ''.'', ''.'', ''.'', ''.'', ''.'', ''.''], jstrs [''.'', ''.'', ''.'', ''.'', ''.'', ''.'', ''.'',
            ''.'', ''.''], jstrs [''.'', ''.'', ''.'', ''.'', ''.'', ''.'', ''.'', ''.'', ''.''], jstrs [''1'',
            ''.'', ''.'', ''.'', ''.'', ''.'', ''.'', ''.'', ''.'']])] (JBool False) False 5,
          fx_case [(''board'', JArr [jstrs [''1'', ''.'', ''.'', ''.'', ''.'', ''.'', ''.'', ''.'', ''.''],
            jstrs [''.'', ''1'', ''.'', ''.'', ''.'', ''.'', ''.'', ''.'', ''.''], jstrs [''.'', ''.'', ''1'', ''.'',
            ''.'', ''.'', ''.'', ''.'', ''.''], jstrs [''.'', ''.'', ''.'', ''.'', ''.'', ''.'', ''.'', ''.'',
            ''.''], jstrs [''.'', ''.'', ''.'', ''.'', ''.'', ''.'', ''.'', ''.'', ''.''], jstrs [''.'', ''.'',
            ''.'', ''.'', ''.'', ''.'', ''.'', ''.'', ''.''], jstrs [''.'', ''.'', ''.'', ''.'', ''.'', ''.'', ''.'',
            ''.'', ''.''], jstrs [''.'', ''.'', ''.'', ''.'', ''.'', ''.'', ''.'', ''.'', ''.''], jstrs [''.'',
            ''.'', ''.'', ''.'', ''.'', ''.'', ''.'', ''.'', ''.'']])] (JBool False) False 6,
          fx_case [(''board'', JArr [jstrs [''.'', ''.'', ''4'', ''.'', ''.'', ''.'', ''6'', ''3'', ''.''],
            jstrs [''.'', ''.'', ''.'', ''.'', ''.'', ''.'', ''.'', ''.'', ''.''], jstrs [''5'', ''.'', ''.'', ''.'',
            ''.'', ''.'', ''.'', ''9'', ''.''], jstrs [''.'', ''.'', ''.'', ''5'', ''6'', ''.'', ''.'', ''.'',
            ''.''], jstrs [''4'', ''.'', ''3'', ''.'', ''.'', ''.'', ''.'', ''.'', ''1''], jstrs [''.'', ''.'',
            ''.'', ''7'', ''.'', ''.'', ''.'', ''.'', ''.''], jstrs [''.'', ''.'', ''.'', ''5'', ''.'', ''.'', ''.'',
            ''.'', ''.''], jstrs [''.'', ''.'', ''.'', ''.'', ''.'', ''.'', ''.'', ''.'', ''.''], jstrs [''.'',
            ''.'', ''.'', ''.'', ''.'', ''.'', ''.'', ''.'', ''.'']])] (JBool False) False 7],
      fx_boilerplate = \<lparr>nb_language = ''python'', nb_template = ''class Solution:\<newline>    def isValidSudoku(self, board: List[List[str]]) -> bool:\<newline>        pass'',
        nb_methodName = ''isValidSudoku'', nb_parameterNames = [''board'']\<rparr>,
      fx_hints = [
        \<lparr>nh_hintText = ''You need to check three things: no duplicates in any row, column, or 3x3 box.'', nh_orderIndex = 0\<rparr>,
        \<lparr>nh_hintText = ''Use hash sets to track seen digits. For each cell (r, c), the box index is (r // 3) * 3 + (c // 3).'', nh_orderIndex = 1\<rparr>]\<rparr>"

definition longest_consecutive_sequence_fixture :: fixture where
  "longest_consecutive_sequence_fixture =
     \<lparr>fx_problem = \<lparr>np_slug = ''longest-consecutive-sequence'', np_title = ''Longest Consecutive Sequence'', np_difficulty = ''medium'',
        np_category = ''Arrays & Hashing'',
        np_description = ''Given an unsorted array of integers `nums`, return the length of the longest consecutive elements sequence.\<newline>\<newline>You must write an algorithm that runs in O(n) time.'',
        np_constraints = [''0 <= nums.length <= 10^5'', ''-10^9 <= nums[i] <= 10^9''],
        np_solution = Some ''Put all numbers in a hash set. For each number, check if it's the start of a sequence (num - 1 not in set). If so, count how long the consecutive sequence is. Track the maximum length.'',
        np_timeLimitMs = 5000, np_source = ''curated'', np_sourceUrl = Some ''https://leetcode.com/problems/longest-consecutive-sequence/''\<rparr>,
      fx_testCases = [
          fx_case [(''nums'', jints [100, 4, 200, 1, 3, 2])] (jint 4) True 0,
          fx_case [(''nums'', jints [0, 3, 7, 2, 5, 8, 4, 6, 0, 1])] (jint 9) True 1,
          fx_case [(''nums'', JArr [])] (jint 0) True 2,
          fx_case [(''nums'', jints [1])] (jint 1) False 3,
          fx_case [(''nums'', jints [1, 2, 3, 4, 5])] (jint 5) False 4,
          fx_case [(''nums'', jints [5, 4, 3, 2, 1])] (jint 5) False 5,
          fx_case [(''nums'', jints [1, 3, 5, 7])] (jint 1) False 6,
          fx_case [(''nums'', jints [0, 0, 0])] (jint 1) False 7],
      fx_boilerplate = \<lparr>nb_language = ''python'', nb_template = ''class Solution:\<newline>    def longestConsecutive(self, nums: List[int]) -> int:\<newline>        pass'',
        nb_methodName = ''longestConsecutive'', nb_parameterNames = [''nums'']\<rparr>,
      fx_hints = [
        \<lparr>nh_hintText = ''Think about which numbers could be the start of a consecutive sequence. A number is the start if num - 1 is not in the array.'', nh_orderIndex = 0\<rparr>,
        \<lparr>nh_hintText = ''Put all numbers into a hash set for O(1) lookup. For each starting number, count consecutive elements (num+1, num+2, ...) that exist in the set.'', nh_orderIndex = 1\<rparr>]\<rparr>"

definition encode_and_decode_strings_fixture :: fixture where
  "encode_and_decode_strings_fixture =
     \<lparr>fx_problem = \<lparr>np_slug = ''encode-and-decode-strings'', np_title = ''Encode and Decode Strings'', np_difficulty = ''medium'',
        np_category = ''Arrays & Hashing'',
        np_description = ''Design an algorithm to encode a list of strings to a single string. The encoded string is then decoded back to the original list of strings.\<newline>\<newline>Implement the `encode` and `decode` methods.'',
        np_constraints = [''0 <= strs.length <= 200'', ''0 <= strs[i].length <= 200'', ''strs[i] contains any possible characters out of 256 valid ASCII characters.''],
        np_solution = Some ''Use length-prefix encoding. For each string, prepend its length followed by a delimiter (e.g., '#'). To decode, read the length, skip the delimiter, then extract that many characters.'',
        np_timeLimitMs = 5000, np_source = ''curated'', np_sourceUrl = None\<rparr>,
      fx_testCases = [
          fx_case [(''strs'', jstrs [''hello'', ''world''])] (jstrs [''hello'', ''world'']) True 0,
          fx_case [(''strs'', jstrs [[]])] (jstrs [[]]) True 1,
          fx_case [(''strs'', JArr [])] (JArr []) True 2,
          fx_case [(''strs'', jstrs [''a'', ''b'', ''c''])] (jstrs [''a'', ''b'', ''c'']) False 3,
          fx_case [(''strs'', jstrs [''we'', ''say'', '':'', ''yes''])] (jstrs [''we'', ''say'', '':'',
            ''yes'']) False 4,
          fx_case [(''strs'', jstrs [''#'', ''##'', ''###''])] (jstrs [''#'', ''##'', ''###'']) False 5,
          fx_case [(''strs'', jstrs [[], [], []])] (jstrs [[], [], []]) False 6,
          fx_case [(''strs'', jstrs [''abc123'', ''!@#$%^''])] (jstrs [''abc123'', ''!@#$%^'']) False 7],
      fx_boilerplate = \<lparr>nb_language = ''python'', nb_template = ''class Solution:\<newline>    def encode(self, strs: List[str]) -> str:\<newline>        pass\<newline>\<newline>    def decode(self, s: str) -> List[str]:\<newline>        pass'',
        nb_methodName = ''encode'', nb_parameterNames = [''strs'']\<rparr>,
      fx_hints = [
        \<lparr>nh_hintText = ''You need a way to separate strings that works even if the strings contain any character. Think about how HTTP headers encode variable-length data.'', nh_orderIndex = 0\<rparr>,
        \<lparr>nh_hintText = ''Use length-prefix encoding: for each string, prepend its length followed by a special delimiter like '#'. To decode, read the number, skip the '#', then take the next N characters.'', nh_orderIndex = 1\<rparr>]\<rparr>"

definition arraysHashingProblems :: "fixture list" where
  "arraysHashingProblems =
     [contains_duplicate_fixture,
      valid_anagram_fixture,
      two_sum_fixture,
      group_anagrams_fixture,
      top_k_frequent_elements_fixture,
      product_of_array_except_self_fixture,
      valid_sudoku_fixture,
      longest_consecutive_sequence_fixture,
      encode_and_decode_strings_fixture]"

lemma arraysHashingProblems_facts:
  "map seed_facts arraysHashingProblems =
     [(''contains-duplicate'', True, True, True),
      (''valid-anagram'', True, True, True),
      (''two-sum'', True, True, True),
      (''group-anagrams'', True, True, True),
      (''top-k-frequent-elements'', True, True, True),
      (''product-of-array-except-self'', True, True, True),
      (''valid-sudoku'', True, True, True),
      (''longest-consecutive-sequence'', True, True, True),
      (''encode-and-decode-strings'', True, True, True)]"
  by (simp add: arraysHashingProblems_def seed_evaluation cong: seed_congs add:
      contains_duplicate_fixture_def
      valid_anagram_fixture_def
      two_sum_fixture_def
      group_anagrams_fixture_def
      top_k_frequent_elements_fixture_def
      product_of_array_except_self_fixture_def
      valid_sudoku_fixture_def
      longest_consecutive_sequence_fixture_def
      encode_and_decode_strings_fixture_def)


section \<open>two pointers\<close>

definition valid_palindrome_fixture :: fixture where
  "valid_palindrome_fixture =
     \<lparr>fx_problem = \<lparr>np_slug = ''valid-palindrome'', np_title = ''Valid Palindrome'', np_difficulty = ''easy'',
        np_category = ''Two Pointers'',
        np_description = ''A phrase is a palindrome if, after converting all uppercase letters into lowercase letters and removing all non-alphanumeric characters, it reads the same forward and backward. Alphanumeric characters include letters and numbers.\<newline>\<newline>Given a string `s`, return `true` if it is a palindrome, or `false` otherwise.'',
        np_constraints = [''1 <= s.length <= 2 * 10^5'', ''s consists only of printable ASCII characters.''],
        np_solution = Some ''Use two pointers starting from both ends. Skip non-alphanumeric characters. Compare characters (case-insensitive) moving inward. If all comparisons match, it's a palindrome.'',
        np_timeLimitMs = 5000, np_source = ''curated'', np_sourceUrl = Some ''https://leetcode.com/problems/valid-palindrome/''\<rparr>,
      fx_testCases = [
          fx_case [(''s'', JStr ''A man, a plan, a canal: Panama'')] (JBool True) True 0,
          fx_case [(''s'', JStr ''race a car'')] (JBool False) True 1,
          fx_case [(''s'', JStr '' '')] (JBool True) True 2,
          fx_case [(''s'', JStr ''a'')] (JBool True) False 3,
          fx_case [(''s'', JStr ''ab'')] (JBool False) False 4,
          fx_case [(''s'', JStr ''0P'')] (JBool False) False 5,
          fx_case [(''s'', JStr ''.,!'')] (JBool True) False 6,
          fx_case [(''s'', JStr ''abcba'')] (JBool True) False 7],
      fx_boilerplate = \<lparr>nb_language = ''python'', nb_template = ''class Solution:\<newline>    def isPalindrome(self, s: str) -> bool:\<newline>        pass'',
        nb_methodName = ''isPalindrome'', nb_parameterNames = [''s'']\<rparr>,
      fx_hints = [
        \<lparr>nh_hintText = ''Use two pointers, one at the start and one at the end. Skip non-alphanumeric characters and compare in a case-insensitive manner.'', nh_orderIndex = 0\<rparr>]\<rparr>"

definition two_sum_ii_input_array_is_sorted_fixture :: fixture where
  "two_sum_ii_input_array_is_sorted_fixture =
     \<lparr>fx_problem = \<lparr>np_slug = ''two-sum-ii-input-array-is-sorted'', np_title = ''Two Sum II - Input Array Is Sorted'', np_difficulty = ''medium'',
        np_category = ''Two Pointers'',
        np_description = ''Given a 1-indexed array of integers `numbers` that is already sorted in non-decreasing order, find two numbers such that they add up to a specific `target` number.\<newline>\<newline>Return the indices of the two numbers, `index1` and `index2`, added by one as an integer array `[index1, index2]` of length 2.\<newline>\<newline>You may not use the same element twice. Your solution must use only constant extra space.'',
        np_constraints = [''2 <= numbers.length <= 3 * 10^4'', ''-1000 <= numbers[i] <= 1000'', ''numbers is sorted in non-decreasing order.'', ''-1000 <= target <= 1000'', ''The tests are generated such that there is exactly one solution.''],
        np_solution = Some ''Use two pointers at the start and end. If the sum is too large, move the right pointer left. If too small, move the left pointer right. Return when the sum matches the target.'',
        np_timeLimitMs = 5000, np_source = ''curated'', np_sourceUrl = Some ''https://leetcode.com/problems/two-sum-ii-input-array-is-sorted/''\<rparr>,
      fx_testCases = [
          fx_case [(''numbers'', jints [2, 7, 11, 15]), (''target'', jint 9)] (jints [1, 2]) True 0,
          fx_case [(''numbers'', jints [2, 3, 4]), (''target'', jint 6)] (jints [1, 3]) True 1,
          fx_case [(''numbers'', jints [- 1, 0]), (''target'', jint (- 1))] (jints [1, 2]) True 2,
          fx_case [(''numbers'', jints [1, 2, 3, 4, 5]), (''target'', jint 9)] (jints [4, 5]) False 3,
          fx_case [(''numbers'', jints [1, 3, 5, 7, 9]), (''target'', jint 10)] (jints [1, 5]) False 4,
          fx_case [(''numbers'', jints [- 5, - 3, 0, 2, 8]), (''target'', jint (- 3))] (jints [1, 4]) False 5,
          fx_case [(''numbers'', jints [1, 1]), (''target'', jint 2)] (jints [1, 2]) False 6,
          fx_case [(''numbers'', jints [5, 25, 75]), (''target'', jint 100)] (jints [2, 3]) False 7],
      fx_boilerplate = \<lparr>nb_language = ''python'', nb_template = ''class Solution:\<newline>    def twoSum(self, numbers: List[int], target: int) -> List[int]:\<newline>        pass'',
        nb_methodName = ''twoSum'', nb_parameterNames = [''numbers'', ''target'']\<rparr>,
      fx_hints = [
        \<lparr>nh_hintText = ''Since the array is sorted, you can use two pointers. Start one at the beginning and one at the end.'', nh_orderIndex = 0\<rparr>,
        \<lparr>nh_hintText = ''If the sum of the two pointed-to values is less than the target, move the left pointer right. If greater, move the right pointer left.'', nh_orderIndex = 1\<rparr>]\<rparr>"

definition n3sum_fixture :: fixture where
  "n3sum_fixture =
     \<lparr>fx_problem = \<lparr>np_slug = ''3sum'', np_title = ''3Sum'', np_difficulty = ''medium'',
        np_category = ''Two Pointers'',
        np_description = ''Given an integer array `nums`, return all the triplets `[nums[i], nums[j], nums[k]]` such that `i != j`, `i != k`, and `j != k`, and `nums[i] + nums[j] + nums[k] == 0`.\<newline>\<newline>Notice that the solution set must not contain duplicate triplets.'',
        np_constraints = [''3 <= nums.length <= 3000'', ''-10^5 <= nums[i] <= 10^5''],
        np_solution = Some ''Sort the array. For each element, use two pointers on the remaining array to find pairs that sum to the negation of the current element. Skip duplicates at each level to avoid duplicate triplets.'',
        np_timeLimitMs = 5000, np_source = ''curated'', np_sourceUrl = Some ''https://leetcode.com/problems/3sum/''\<rparr>,
      fx_testCases = [
          fx_case [(''nums'', jints [- 1, 0, 1, 2, - 1, - 4])] (JArr [jints [- 1, - 1, 2], jints [- 1, 0, 1]]) True 0,
          fx_case [(''nums'', jints [0, 1, 1])] (JArr []) True 1,
          fx_case [(''nums'', jints [0, 0, 0])] (JArr [jints [0, 0, 0]]) True 2,
          fx_case [(''nums'', jints [- 2, 0, 1, 1, 2])] (JArr [jints [- 2, 0, 2], jints [- 2, 1, 1]]) False 3,
          fx_case [(''nums'', jints [1, 2, - 2, - 1])] (JArr []) False 4,
          fx_case [(''nums'', jints [- 1, 0, 1, 0])] (JArr [jints [- 1, 0, 1]]) False 5,
          fx_case [(''nums'', jints [- 4, - 2, - 2, - 2, 0, 1, 2, 2, 2, 3, 3, 4, 4, 6, 6])] (JArr [jints [- 4, - 2,
            6], jints [- 4, 0, 4], jints [- 4, 1, 3], jints [- 4, 2, 2], jints [- 2, - 2, 4], jints [- 2, 0,
            2]]) False 6,
          fx_case [(''nums'', jints [3, - 2, 1, 0])] (JArr []) False 7],
      fx_boilerplate = \<lparr>nb_language = ''python'', nb_template = ''class Solution:\<newline>    def threeSum(self, nums: List[int]) -> List[List[int]]:\<newline>        pass'',
        nb_methodName = ''threeSum'', nb_parameterNames = [''nums'']\<rparr>,
      fx_hints = [
        \<lparr>nh_hintText = ''Sort the array first. Then for each element, use a two-pointer approach on the remaining elements to find pairs that sum to the negation of the current element.'', nh_orderIndex = 0\<rparr>,
        \<lparr>nh_hintText = ''To avoid duplicates, skip elements that are the same as the previous one during iteration, and do the same for the left and right pointers.'', nh_orderIndex = 1\<rparr>]\<rparr>"

definition container_with_most_water_fixture :: fixture where
  "container_with_most_water_fixture =
     \<lparr>fx_problem = \<lparr>np_slug = ''container-with-most-water'', np_title = ''Container With Most Water'', np_difficulty = ''medium'',
        np_category = ''Two Pointers'',
        np_description = ''You are given an integer array `height` of length `n`. There are `n` vertical lines drawn such that the two endpoints of the `ith` line are `(i, 0)` and `(i, height[i])`.\<newline>\<newline>Find two lines that together with the x-axis form a container, such that the container contains the most water.\<newline>\<newline>Return the maximum amount of water a container can store.\<newline>\<newline>Notice that you may not slant the container.'',
        np_constraints = [''n == height.length'', ''2 <= n <= 10^5'', ''0 <= height[i] <= 10^4''],
        np_solution = Some ''Use two pointers at both ends. Calculate the area as min(height[left], height[right]) * (right - left). Move the pointer with the smaller height inward, since moving the taller one can only decrease or maintain the area.'',
        np_timeLimitMs = 5000, np_source = ''curated'', np_sourceUrl = Some ''https://leetcode.com/problems/container-with-most-water/''\<rparr>,
      fx_testCases = [
          fx_case [(''height'', jints [1, 8, 6, 2, 5, 4, 8, 3, 7])] (jint 49) True 0,
          fx_case [(''height'', jints [1, 1])] (jint 1) True 1,
          fx_case [(''height'', jints [4, 3, 2, 1, 4])] (jint 16) True 2,
          fx_case [(''height'', jints [1, 2, 1])] (jint 2) False 3,
          fx_case [(''height'', jints [2, 3, 4, 5, 18, 17, 6])] (jint 17) False 4,
          fx_case [(''height'', jints [1, 2, 3, 4, 5])] (jint 6) False 5,
          fx_case [(''height'', jints [5, 4, 3, 2, 1])] (jint 6) False 6,
          fx_case [(''height'', jints [10000, 10000])] (jint 10000) False 7],
      fx_boilerplate = \<lparr>nb_language = ''python'', nb_template = ''class Solution:\<newline>    def maxArea(self, height: List[int]) -> int:\<newline>        pass'',
        nb_methodName = ''maxArea'', nb_parameterNames = [''height'']\<rparr>,
      fx_hints = [
        \<lparr>nh_hintText = ''Start with two pointers at both ends of the array. The area is limited by the shorter line.'', nh_orderIndex = 0\<rparr>,
        \<lparr>nh_hintText = ''Always move the pointer pointing to the shorter line inward. Moving the taller line's pointer can never increase the area since the width decreases and the height is capped by the shorter line.'', nh_orderIndex = 1\<rparr>]\<rparr>"

definition trapping_rain_water_fixture :: fixture where
  "trapping_rain_water_fixture =
     \<lparr>fx_problem = \<lparr>np_slug = ''trapping-rain-water'', np_title = ''Trapping Rain Water'', np_difficulty = ''hard'',
        np_category = ''Two Pointers'',
        np_description = ''Given `n` non-negative integers representing an elevation map where the width of each bar is `1`, compute how much water it can trap after raining.'',
        np_constraints = [''n == height.length'', ''1 <= n <= 2 * 10^4'', ''0 <= height[i] <= 10^5''],
        np_solution = Some ''Use two pointers from both ends with leftMax and rightMax trackers. At each step, process the side with the smaller max. Water at each position equals max - height[i]. This works because the water level at any position is determined by the minimum of the maximum heights on both sides.'',
        np_timeLimitMs = 5000, np_source = ''curated'', np_sourceUrl = Some ''https://leetcode.com/problems/trapping-rain-water/''\<rparr>,
      fx_testCases = [
          fx_case [(''height'', jints [0, 1, 0, 2, 1, 0, 1, 3, 2, 1, 2, 1])] (jint 6) True 0,
          fx_case [(''height'', jints [4, 2, 0, 3, 2, 5])] (jint 9) True 1,
          fx_case [(''height'', jints [1, 0, 1])] (jint 1) True 2,
          fx_case [(''height'', jints [3, 0, 0, 2, 0, 4])] (jint 10) False 3,
          fx_case [(''height'', jints [0])] (jint 0) False 4,
          fx_case [(''height'', jints [1, 2, 3, 4, 5])] (jint 0) False 5,
          fx_case [(''height'', jints [5, 4, 3, 2, 1])] (jint 0) False 6,
          fx_case [(''height'', jints [5, 2, 1, 2, 1, 5])] (jint 14) False 7],
      fx_boilerplate = \<lparr>nb_language = ''python'', nb_template = ''class Solution:\<newline>    def trap(self, height: List[int]) -> int:\<newline>        pass'',
        nb_methodName = ''trap'', nb_parameterNames = [''height'']\<rparr>,
      fx_hints = [
        \<lparr>nh_hintText = ''The water trapped at each index depends on the minimum of the maximum heights to its left and right.'', nh_orderIndex = 0\<rparr>,
        \<lparr>nh_hintText = ''Use two pointers from both ends. Track the maximum height seen from each side. Process the side with the smaller maximum.'', nh_orderIndex = 1\<rparr>,
        \<lparr>nh_hintText = ''At each position, the water trapped is max_height_from_that_side - height[i]. Always advance the pointer on the side with the smaller max, since that side determines the water level.'', nh_orderIndex = 2\<rparr>]\<rparr>"

definition twoPointersProblems :: "fixture list" where
  "twoPointersProblems =
     [valid_palindrome_fixture,
      two_sum_ii_input_array_is_sorted_fixture,
      n3sum_fixture,
      container_with_most_water_fixture,
      trapping_rain_water_fixture]"

lemma twoPointersProblems_facts:
  "map seed_facts twoPointersProblems =
     [(''valid-palindrome'', True, True, True),
      (''two-sum-ii-input-array-is-sorted'', True, True, True),
      (''3sum'', True, True, True),
      (''container-with-most-water'', True, True, True),
      (''trapping-rain-water'', True, True, True)]"
  by (simp add: twoPointersProblems_def seed_evaluation cong: seed_congs add:
      valid_palindrome_fixture_def
      two_sum_ii_input_array_is_sorted_fixture_def
      n3sum_fixture_def
      container_with_most_water_fixture_def
      trapping_rain_water_fixture_def)


section \<open>sliding window\<close>

definition best_time_to_buy_and_sell_stock_fixture :: fixture where
  "best_time_to_buy_and_sell_stock_fixture =
     \<lparr>fx_problem = \<lparr>np_slug = ''best-time-to-buy-and-sell-stock'', np_title = ''Best Time to Buy and Sell Stock'', np_difficulty = ''easy'',
        np_category = ''Sliding Window'',
        np_description = ''You are given an array `prices` where `prices[i]` is the price of a given stock on the `ith` day.\<newline>\<newline>You want to maximize your profit by choosing a single day to buy one stock and choosing a different day in the future to sell that stock.\<newline>\<newline>Return the maximum profit you can achieve from this transaction. If you cannot achieve any profit, return `0`.'',
        np_constraints = [''1 <= prices.length <= 10^5'', ''0 <= prices[i] <= 10^4''],
        np_solution = Some ''Track the minimum price seen so far. For each day, calculate the profit if selling on that day (current price - min price so far). Track the maximum profit.'',
        np_timeLimitMs = 5000, np_source = ''curated'', np_sourceUrl = Some ''https://leetcode.com/problems/best-time-to-buy-and-sell-stock/''\<rparr>,
      fx_testCases = [
          fx_case [(''prices'', jints [7, 1, 5, 3, 6, 4])] (jint 5) True 0,
          fx_case [(''prices'', jints [7, 6, 4, 3, 1])] (jint 0) True 1,
          fx_case [(''prices'', jints [1, 2])] (jint 1) True 2,
          fx_case [(''prices'', jints [2, 1])] (jint 0) False 3,
          fx_case [(''prices'', jints [1])] (jint 0) False 4,
          fx_case [(''prices'', jints [3, 3, 3])] (jint 0) False 5,
          fx_case [(''prices'', jints [1, 4, 2, 7])] (jint 6) False 6,
          fx_case [(''prices'', jints [2, 4, 1, 7])] (jint 6) False 7],
      fx_boilerplate = \<lparr>nb_language = ''python'', nb_template = ''class Solution:\<newline>    def maxProfit(self, prices: List[int]) -> int:\<newline>        pass'',
        nb_methodName = ''maxProfit'', nb_parameterNames = [''prices'']\<rparr>,
      fx_hints = [
        \<lparr>nh_hintText = ''Keep track of the minimum price you've seen so far. At each step, the maximum profit is the current price minus that minimum.'', nh_orderIndex = 0\<rparr>]\<rparr>"

definition longest_substring_without_repeating_characters_fixture :: fixture where
  "longest_substring_without_repeating_characters_fixture =
     \<lparr>fx_problem = \<lparr>np_slug = ''longest-substring-without-repeating-characters'', np_title = ''Longest Substring Without Repeating Characters'', np_difficulty = ''medium'',
        np_category = ''Sliding Window'',
        np_description = ''Given a string `s`, find the length of the longest substring without repeating characters.'',
        np_constraints = [''0 <= s.length <= 5 * 10^4'', ''s consists of English letters, digits, symbols and spaces.''],
        np_solution = Some ''Use a sliding window with a hash set. Expand the right pointer adding characters. When a duplicate is found, shrink from the left until the duplicate is removed. Track the maximum window size.'',
        np_timeLimitMs = 5000, np_source = ''curated'', np_sourceUrl = Some ''https://leetcode.com/problems/longest-substring-without-repeating-characters/''\<rparr>,
      fx_testCases = [
          fx_case [(''s'', JStr ''abcabcbb'')] (jint 3) True 0,
          fx_case [(''s'', JStr ''bbbbb'')] (jint 1) True 1,
          fx_case [(''s'', JStr ''pwwkew'')] (jint 3) True 2,
          fx_case [(''s'', JStr [])] (jint 0) False 3,
          fx_case [(''s'', JStr '' '')] (jint 1) False 4,
          fx_case [(''s'', JStr ''dvdf'')] (jint 3) False 5,
          fx_case [(''s'', JStr ''abcdef'')] (jint 6) False 6,
          fx_case [(''s'', JStr ''aab'')] (jint 2) False 7],
      fx_boilerplate = \<lparr>nb_language = ''python'', nb_template = ''class Solution:\<newline>    def lengthOfLongestSubstring(self, s: str) -> int:\<newline>        pass'',
        nb_methodName = ''lengthOfLongestSubstring'', nb_parameterNames = [''s'']\<rparr>,
      fx_hints = [
        \<lparr>nh_hintText = ''Use a sliding window approach. Maintain a set of characters in the current window.'', nh_orderIndex = 0\<rparr>,
        \<lparr>nh_hintText = ''When you encounter a duplicate character, shrink the window from the left by removing characters until the duplicate is gone.'', nh_orderIndex = 1\<rparr>]\<rparr>"

definition longest_repeating_character_replacement_fixture :: fixture where
  "longest_repeating_character_replacement_fixture =
     \<lparr>fx_problem = \<lparr>np_slug = ''longest-repeating-character-replacement'', np_title = ''Longest Repeating Character Replacement'', np_difficulty = ''medium'',
        np_category = ''Sliding Window'',
        np_description = ''You are given a string `s` and an integer `k`. You can choose any character of the string and change it to any other uppercase English letter. You can perform this operation at most `k` times.\<newline>\<newline>Return the length of the longest substring containing the same letter you can get after performing the above operations.'',
        np_constraints = [''1 <= s.length <= 10^5'', ''s consists of only uppercase English letters.'', ''0 <= k <= s.length''],
        np_solution = Some ''Use a sliding window with a frequency map. Track the count of the most frequent character in the window. If window_size - max_freq > k, shrink the window from the left. The answer is the maximum valid window size.'',
        np_timeLimitMs = 5000, np_source = ''curated'', np_sourceUrl = Some ''https://leetcode.com/problems/longest-repeating-character-replacement/''\<rparr>,
      fx_testCases = [
          fx_case [(''s'', JStr ''ABAB''), (''k'', jint 2)] (jint 4) True 0,
          fx_case [(''s'', JStr ''AABABBA''), (''k'', jint 1)] (jint 4) True 1,
          fx_case [(''s'', JStr ''A''), (''k'', jint 0)] (jint 1) True 2,
          fx_case [(''s'', JStr ''AAAA''), (''k'', jint 0)] (jint 4) False 3,
          fx_case [(''s'', JStr ''ABCD''), (''k'', jint 2)] (jint 3) False 4,
          fx_case [(''s'', JStr ''AAAB''), (''k'', jint 0)] (jint 3) False 5,
          fx_case [(''s'', JStr ''ABBB''), (''k'', jint 2)] (jint 4) False 6,
          fx_case [(''s'', JStr ''ABCDE''), (''k'', jint 4)] (jint 5) False 7],
      fx_boilerplate = \<lparr>nb_language = ''python'', nb_template = ''class Solution:\<newline>    def characterReplacement(self, s: str, k: int) -> int:\<newline>        pass'',
        nb_methodName = ''characterReplacement'', nb_parameterNames = [''s'', ''k'']\<rparr>,
      fx_hints = [
        \<lparr>nh_hintText = ''Use a sliding window. The key insight is: in any valid window, the number of characters that need to be replaced equals window_length - count_of_most_frequent_char.'', nh_orderIndex = 0\<rparr>,
        \<lparr>nh_hintText = ''If the replacements needed exceed k, shrink the window from the left. Track the maximum count of any single character in the window.'', nh_orderIndex = 1\<rparr>]\<rparr>"

definition permutation_in_string_fixture :: fixture where
  "permutation_in_string_fixture =
     \<lparr>fx_problem = \<lparr>np_slug = ''permutation-in-string'', np_title = ''Permutation in String'', np_difficulty = ''medium'',
        np_category = ''Sliding Window'',
        np_description = ''Given two strings `s1` and `s2`, return `true` if `s2` contains a permutation of `s1`, or `false` otherwise.\<newline>\<newline>In other words, return `true` if one of `s1`'s permutations is the substring of `s2`.'',
        np_constraints = [''1 <= s1.length, s2.length <= 10^4'', ''s1 and s2 consist of lowercase English letters.''],
        np_solution = Some ''Use a fixed-size sliding window of length len(s1) over s2. Maintain character frequency counts for the window and compare with s1's frequency counts. Slide the window by adding the new character and removing the old one.'',
        np_timeLimitMs = 5000, np_source = ''curated'', np_sourceUrl = Some ''https://leetcode.com/problems/permutation-in-string/''\<rparr>,
      fx_testCases = [
          fx_case [(''s1'', JStr ''ab''), (''s2'', JStr ''eidbaooo'')] (JBool True) True 0,
          fx_case [(''s1'', JStr ''ab''), (''s2'', JStr ''eidboaoo'')] (JBool False) True 1,
          fx_case [(''s1'', JStr ''a''), (''s2'', JStr ''a'')] (JBool True) True 2,
          fx_case [(''s1'', JStr ''abc''), (''s2'', JStr ''bbbca'')] (JBool True) False 3,
          fx_case [(''s1'', JStr ''abc''), (''s2'', JStr ''ab'')] (JBool False) False 4,
          fx_case [(''s1'', JStr ''adc''), (''s2'', JStr ''dcda'')] (JBool True) False 5,
          fx_case [(''s1'', JStr ''ab''), (''s2'', JStr ''a'')] (JBool False) False 6,
          fx_case [(''s1'', JStr ''hello''), (''s2'', JStr ''ooolleoooleh'')] (JBool False) False 7],
      fx_boilerplate = \<lparr>nb_language = ''python'', nb_template = ''class Solution:\<newline>    def checkInclusion(self, s1: str, s2: str) -> bool:\<newline>        pass'',
        nb_methodName = ''checkInclusion'', nb_parameterNames = [''s1'', ''s2'']\<rparr>,
      fx_hints = [
        \<lparr>nh_hintText = ''A permutation of s1 has the same character frequencies as s1. Use a sliding window of size len(s1) over s2.'', nh_orderIndex = 0\<rparr>,
        \<lparr>nh_hintText = ''Maintain a frequency count of the current window. Compare it with the frequency count of s1. Slide the window by adding the new right character and removing the old left character.'', nh_orderIndex = 1\<rparr>]\<rparr>"

definition minimum_window_substring_fixture :: fixture where
  "minimum_window_substring_fixture =
     \<lparr>fx_problem = \<lparr>np_slug = ''minimum-window-substring'', np_title = ''Minimum Window Substring'', np_difficulty = ''hard'',
        np_category = ''Sliding Window'',
        np_description = ''Given two strings `s` and `t` of lengths `m` and `n` respectively, return the minimum window substring of `s` such that every character in `t` (including duplicates) is included in the window. If there is no such substring, return the empty string `\"\"`.\<newline>\<newline>The testcases will be generated such that the answer is unique.'',
        np_constraints = [''m == s.length'', ''n == t.length'', ''1 <= m, n <= 10^5'', ''s and t consist of uppercase and lowercase English letters.''],
        np_solution = Some ''Use a sliding window with two pointers. Maintain a frequency map for characters needed from t. Expand the right pointer to include characters, and once all characters are satisfied, shrink from the left to find the minimum window. Track the smallest valid window seen.'',
        np_timeLimitMs = 5000, np_source = ''curated'', np_sourceUrl = Some ''https://leetcode.com/problems/minimum-window-substring/''\<rparr>,
      fx_testCases = [
          fx_case [(''s'', JStr ''ADOBECODEBANC''), (''t'', JStr ''ABC'')] (JStr ''BANC'') True 0,
          fx_case [(''s'', JStr ''a''), (''t'', JStr ''a'')] (JStr ''a'') True 1,
          fx_case [(''s'', JStr ''a''), (''t'', JStr ''aa'')] (JStr []) True 2,
          fx_case [(''s'', JStr ''aa''), (''t'', JStr ''aa'')] (JStr ''aa'') False 3,
          fx_case [(''s'', JStr ''abc''), (''t'', JStr ''b'')] (JStr ''b'') False 4,
          fx_case [(''s'', JStr ''bba''), (''t'', JStr ''ab'')] (JStr ''ba'') False 5,
          fx_case [(''s'', JStr ''cabwefgewcwaefgcf''), (''t'', JStr ''cae'')] (JStr ''cwae'') False 6,
          fx_case [(''s'', JStr ''aaflslflsldkalskaaa''), (''t'', JStr ''aaa'')] (JStr ''aaa'') False 7],
      fx_boilerplate = \<lparr>nb_language = ''python'', nb_template = ''class Solution:\<newline>    def minWindow(self, s: str, t: str) -> str:\<newline>        pass'',
        nb_methodName = ''minWindow'', nb_parameterNames = [''s'', ''t'']\<rparr>,
      fx_hints = [
        \<lparr>nh_hintText = ''Use a sliding window approach. Keep a count of characters from t that you still need to find.'', nh_orderIndex = 0\<rparr>,
        \<lparr>nh_hintText = ''Expand the window to the right to include more characters. Once the window contains all needed characters, try to shrink it from the left.'', nh_orderIndex = 1\<rparr>,
        \<lparr>nh_hintText = ''Maintain a 'have' counter and a 'need' counter. When have equals need (all characters satisfied), try to shrink the window while updating the minimum.'', nh_orderIndex = 2\<rparr>]\<rparr>"

definition sliding_window_maximum_fixture :: fixture where
  "sliding_window_maximum_fixture =
     \<lparr>fx_problem = \<lparr>np_slug = ''sliding-window-maximum'', np_title = ''Sliding Window Maximum'', np_difficulty = ''hard'',
        np_category = ''Sliding Window'',
        np_description = ''You are given an array of integers `nums`, there is a sliding window of size `k` which is moving from the very left of the array to the very right. You can only see the `k` numbers in the window. Each time the sliding window moves right by one position.\<newline>\<newline>Return the max sliding window.'',
        np_constraints = [''1 <= nums.length <= 10^5'', ''-10^4 <= nums[i] <= 10^4'', ''1 <= k <= nums.length''],
        np_solution = Some ''Use a monotonic decreasing deque. For each new element, remove smaller elements from the back of the deque (they can never be the max). Remove the front element if it's outside the window. The front of the deque always holds the index of the current maximum.'',
        np_timeLimitMs = 5000, np_source = ''curated'', np_sourceUrl = Some ''https://leetcode.com/problems/sliding-window-maximum/''\<rparr>,
      fx_testCases = [
          fx_case [(''nums'', jints [1, 3, - 1, - 3, 5, 3, 6, 7]), (''k'', jint 3)] (jints [3, 3, 5, 5, 6, 7]) True 0,
          fx_case [(''nums'', jints [1]), (''k'', jint 1)] (jints [1]) True 1,
          fx_case [(''nums'', jints [1, - 1]), (''k'', jint 1)] (jints [1, - 1]) True 2,
          fx_case [(''nums'', jints [7, 2, 4]), (''k'', jint 2)] (jints [7, 4]) False 3,
          fx_case [(''nums'', jints [1, 2, 3, 4, 5]), (''k'', jint 3)] (jints [3, 4, 5]) False 4,
          fx_case [(''nums'', jints [5, 4, 3, 2, 1]), (''k'', jint 3)] (jints [5, 4, 3]) False 5,
          fx_case [(''nums'', jints [1, 1, 1, 1]), (''k'', jint 2)] (jints [1, 1, 1]) False 6,
          fx_case [(''nums'', jints [9, 11]), (''k'', jint 2)] (jints [11]) False 7],
      fx_boilerplate = \<lparr>nb_language = ''python'', nb_template = ''class Solution:\<newline>    def maxSlidingWindow(self, nums: List[int], k: int) -> List[int]:\<newline>        pass'',
        nb_methodName = ''maxSlidingWindow'', nb_parameterNames = [''nums'', ''k'']\<rparr>,
      fx_hints = [
        \<lparr>nh_hintText = ''A brute-force approach checks all k elements for each window. Can you maintain a data structure that gives you the max in O(1)?'', nh_orderIndex = 0\<rparr>,
        \<lparr>nh_hintText = ''Use a deque (double-ended queue) to maintain indices of useful elements. Keep the deque monotonically decreasing.'', nh_orderIndex = 1\<rparr>,
        \<lparr>nh_hintText = ''For each new element: remove indices from the back that point to smaller elements, remove the front if it's outside the window. The front always holds the current max.'', nh_orderIndex = 2\<rparr>]\<rparr>"

definition slidingWindowProblems :: "fixture list" where
  "slidingWindowProblems =
     [best_time_to_buy_and_sell_stock_fixture,
      longest_substring_without_repeating_characters_fixture,
      longest_repeating_character_replacement_fixture,
      permutation_in_string_fixture,
      minimum_window_substring_fixture,
      sliding_window_maximum_fixture]"

lemma slidingWindowProblems_facts:
  "map seed_facts slidingWindowProblems =
     [(''best-time-to-buy-and-sell-stock'', True, True, True),
      (''longest-substring-without-repeating-characters'', True, True, True),
      (''longest-repeating-character-replacement'', True, True, True),
      (''permutation-in-string'', True, True, True),
      (''minimum-window-substring'', True, True, True),
      (''sliding-window-maximum'', True, True, True)]"
  by (simp add: slidingWindowProblems_def seed_evaluation cong: seed_congs add:
      best_time_to_buy_and_sell_stock_fixture_def
      longest_substring_without_repeating_characters_fixture_def
      longest_repeating_character_replacement_fixture_def
      permutation_in_string_fixture_def
      minimum_window_substring_fixture_def
      sliding_window_maximum_fixture_def)

end
