(* ===== verification/Seed_Search.thy ===== *)
theory Seed_Search
  imports Seed_Base
begin

text \<open>The problems of \<^verbatim>\<open>stack.ts\<close>, \<^verbatim>\<open>binary-search.ts\<close> under
  \<^verbatim>\<open>packages/db/src/seeds/data\<close>, in the order of the files.\<close>

section \<open>stack\<close>

definition valid_parentheses_fixture :: fixture where
  "valid_parentheses_fixture =
     \<lparr>fx_problem = \<lparr>np_slug = ''valid-parentheses'', np_title = ''Valid Parentheses'', np_difficulty = ''easy'',
        np_category = ''Stack'',
        np_description = ''Given a string `s` containing just the characters `'('`, `')'`, `'{'`, `'}'`, `'['` and `']'`, determine if the input string is valid.\<newline>\<newline>An input string is valid if:\<newline>\<newline>1. Open brackets must be closed by the same type of brackets.\<newline>2. Open brackets must be closed in the correct order.\<newline>3. Every close bracket has a corresponding open bracket of the same type.'',
        np_constraints = [''1 <= s.length <= 10^4'', ''s consists of parentheses only '()[]{}'.''],
        np_solution = Some ''Use a stack. Push opening brackets onto the stack. When encountering a closing bracket, check if the top of the stack is the matching opening bracket. If the stack is empty at the end, the string is valid.'',
        np_timeLimitMs = 5000, np_source = ''curated'', np_sourceUrl = Some ''https://leetcode.com/problems/valid-parentheses/''\<rparr>,
      fx_testCases = [
          fx_case [(''s'', JStr ''()'')] (JBool True) True 0,
          fx_case [(''s'', JStr ''()[]{}'')] (JBool True) True 1,
          fx_case [(''s'', JStr ''(]'')] (JBool False) True 2,
          fx_case [(''s'', JStr ''([)]'')] (JBool False) False 3,
          fx_case [(''s'', JStr ''{[]}'')] (JBool True) False 4,
          fx_case [(''s'', JStr ''('')] (JBool False) False 5,
          fx_case [(''s'', JStr '')('')] (JBool False) False 6,
          fx_case [(''s'', JStr ''((((()))))'')] (JBool True) False 7],
      fx_boilerplate = \<lparr>nb_language = ''python'', nb_template = ''class Solution:\<newline>    def isValid(self, s: str) -> bool:\<newline>        pass'',
        nb_methodName = ''isValid'', nb_parameterNames = [''s'']\<rparr>,
      fx_hints = [
        \<lparr>nh_hintText = ''Use a stack to keep track of opening brackets. When you encounter a closing bracket, check if it matches the most recent opening bracket on the stack.'', nh_orderIndex = 0\<rparr>]\<rparr>"

definition min_stack_fixture :: fixture where
  "min_stack_fixture =
     \<lparr>fx_problem = \<lparr>np_slug = ''min-stack'', np_title = ''Min Stack'', np_difficulty = ''medium'',
        np_category = ''Stack'',
        np_description = ''Design a stack that supports push, pop, top, and retrieving the minimum element in constant time.\<newline>\<newline>Implement the `MinStack` class:\<newline>\<newline>- `MinStack()` initializes the stack object.\<newline>- `void push(int val)` pushes the element `val` onto the stack.\<newline>- `void pop()` removes the element on the top of the stack.\<newline>- `int top()` gets the top element of the stack.\<newline>- `int getMin()` retrieves the minimum element in the stack.\<newline>\<newline>You must implement a solution with O(1) time complexity for each function.'',
        np_constraints = [''-2^31 <= val <= 2^31 - 1'', ''Methods pop, top and getMin operations will always be called on non-empty stacks.'', ''At most 3 * 10^4 calls will be made to push, pop, top, and getMin.''],
        np_solution = Some ''Use two stacks: one for the actual values and one to track the current minimum. On each push, push to the min stack only if the value is less than or equal to the current minimum. On pop, pop from the min stack if the popped value equals the current minimum.'',
        np_timeLimitMs = 5000, np_source = ''curated'', np_sourceUrl = Some ''https://leetcode.com/problems/min-stack/''\<rparr>,
      fx_testCases = [
          fx_case [(''operations'', jstrs [''MinStack'', ''push'', ''push'', ''push'', ''getMin'', ''pop'', ''top'',
            ''getMin'']), (''args'', JArr [JArr [], jints [- 2], jints [0], jints [- 3], JArr [], JArr [], JArr [],
            JArr []])] (JArr [JNull, JNull, JNull, JNull, jint (- 3), JNull, jint 0, jint (- 2)]) True 0,
          fx_case [(''operations'', jstrs [''MinStack'', ''push'', ''push'', ''getMin'', ''pop'', ''getMin'']),
            (''args'', JArr [JArr [], jints [1], jints [2], JArr [], JArr [], JArr []])] (JArr [JNull, JNull, JNull,
            jint 1, JNull, jint 1]) True 1,
          fx_case [(''operations'', jstrs [''MinStack'', ''push'', ''getMin'', ''top'']), (''args'', JArr [JArr [],
            jints [5], JArr [], JArr []])] (JArr [JNull, JNull, jint 5, jint 5]) True 2,
          fx_case [(''operations'', jstrs [''MinStack'', ''push'', ''push'', ''push'', ''getMin'', ''pop'',
            ''getMin'', ''pop'', ''getMin'']), (''args'', JArr [JArr [], jints [3], jints [1], jints [2], JArr [],
            JArr [], JArr [], JArr [], JArr []])] (JArr [JNull, JNull, JNull, JNull, jint 1, JNull, jint 1, JNull,
            jint 3]) False 3,
          fx_case [(''operations'', jstrs [''MinStack'', ''push'', ''push'', ''push'', ''pop'', ''getMin'']),
            (''args'', JArr [JArr [], jints [0], jints [1], jints [0], JArr [], JArr []])] (JArr [JNull, JNull,
            JNull, JNull, JNull, jint 0]) False 4,
          fx_case [(''operations'', jstrs [''MinStack'', ''push'', ''push'', ''getMin'', ''pop'', ''top'',
            ''getMin'']), (''args'', JArr [JArr [], jints [- 1], jints [- 2], JArr [], JArr [], JArr [],
            JArr []])] (JArr [JNull, JNull, JNull, jint (- 2), JNull, jint (- 1), jint (- 1)]) False 5,
          fx_case [(''operations'', jstrs [''MinStack'', ''push'', ''push'', ''push'', ''push'', ''getMin'']),
            (''args'', JArr [JArr [], jints [2], jints [2], jints [2], jints [2], JArr []])] (JArr [JNull, JNull,
            JNull, JNull, JNull, jint 2]) False 6,
          fx_case [(''operations'', jstrs [''MinStack'', ''push'', ''push'', ''top'', ''getMin'', ''pop'', ''top'']),
            (''args'', JArr [JArr [], jints [10], jints [- 10], JArr [], JArr [], JArr [], JArr []])] (JArr [JNull,
            JNull, JNull, jint (- 10), jint (- 10), JNull, jint 10]) False 7],
      fx_boilerplate = \<lparr>nb_language = ''python'', nb_template = ''class MinStack:\<newline>    def __init__(self):\<newline>        pass\<newline>\<newline>    def push(self, val: int) -> None:\<newline>        pass\<newline>\<newline>    def pop(self) -> None:\<newline>        pass\<newline>\<newline>    def top(self) -> int:\<newline>        pass\<newline>\<newline>    def getMin(self) -> int:\<newline>        pass'',
        nb_methodName = ''MinStack'', nb_parameterNames = []\<rparr>,
      fx_hints = [
        \<lparr>nh_hintText = ''Think about maintaining extra information alongside the stack to track the minimum at each state.'', nh_orderIndex = 0\<rparr>,
        \<lparr>nh_hintText = ''Use a second stack that tracks the minimum value at each level. When you push a value, also push the new minimum (min of current value and previous minimum) onto the min stack.'', nh_orderIndex = 1\<rparr>]\<rparr>"

definition evaluate_reverse_polish_notation_fixture :: fixture where
  "evaluate_reverse_polish_notation_fixture =
     \<lparr>fx_problem = \<lparr>np_slug = ''evaluate-reverse-polish-notation'', np_title = ''Evaluate Reverse Polish Notation'', np_difficulty = ''medium'',
        np_category = ''Stack'',
        np_description = ''You are given an array of strings `tokens` that represents an arithmetic expression in Reverse Polish Notation.\<newline>\<newline>Evaluate the expression. Return an integer that represents the value of the expression.\<newline>\<newline>Note that:\<newline>\<newline>- The valid operators are `'+'`, `'-'`, `'*'`, and `'/'`.\<newline>- Each operand may be an integer or another expression.\<newline>- The division between two integers always truncates toward zero.\<newline>- There will not be any division by zero.\<newline>- The input represents a valid arithmetic expression in reverse polish notation.\<newline>- The answer and all the intermediate calculations can be represented in a 32-bit integer.'',
        np_constraints = [''1 <= tokens.length <= 10^4'', ''tokens[i] is either an operator: '+', '-', '*', or '/', or an integer in the range [-200, 200].''],
        np_solution = Some ''Use a stack. Iterate through tokens: push numbers onto the stack. When encountering an operator, pop two operands, apply the operator, and push the result back. The final value on the stack is the answer.'',
        np_timeLimitMs = 5000, np_source = ''curated'', np_sourceUrl = Some ''https://leetcode.com/problems/evaluate-reverse-polish-notation/''\<rparr>,
      fx_testCases = [
          fx_case [(''tokens'', jstrs [''2'', ''1'', ''+'', ''3'', ''*''])] (jint 9) True 0,
          fx_case [(''tokens'', jstrs [''4'', ''13'', ''5'', ''/'', ''+''])] (jint 6) True 1,
          fx_case [(''tokens'', jstrs [''10'', ''6'', ''9'', ''3'', ''+'', ''-11'', ''*'', ''/'', ''*'', ''17'',
            ''+'', ''5'', ''+''])] (jint 22) True 2,
          fx_case [(''tokens'', jstrs [''3''])] (jint 3) False 3,
          fx_case [(''tokens'', jstrs [''1'', ''2'', ''+''])] (jint 3) False 4,
          fx_case [(''tokens'', jstrs [''5'', ''3'', ''-''])] (jint 2) False 5,
          fx_case [(''tokens'', jstrs [''6'', ''2'', ''/''])] (jint 3) False 6,
          fx_case [(''tokens'', jstrs [''7'', ''-3'', ''/''])] (jint (- 2)) False 7],
      fx_boilerplate = \<lparr>nb_language = ''python'', nb_template = ''class Solution:\<newline>    def evalRPN(self, tokens: List[str]) -> int:\<newline>        pass'',
        nb_methodName = ''evalRPN'', nb_parameterNames = [''tokens'']\<rparr>,
      fx_hints = [
        \<lparr>nh_hintText = ''Process tokens from left to right. When you see a number, store it. When you see an operator, you need the two most recent numbers.'', nh_orderIndex = 0\<rparr>,
        \<lparr>nh_hintText = ''Use a stack. Push numbers onto the stack. When you encounter an operator, pop two numbers, apply the operator (second popped is the left operand), and push the result.'', nh_orderIndex = 1\<rparr>]\<rparr>"

definition generate_parentheses_fixture :: fixture where
  "generate_parentheses_fixture =
     \<lparr>fx_problem = \<lparr>np_slug = ''generate-parentheses'', np_title = ''Generate Parentheses'', np_difficulty = ''medium'',
        np_category = ''Stack'',
        np_description = ''Given `n` pairs of parentheses, write a function to generate all combinations of well-formed parentheses.'',
        np_constraints = [''1 <= n <= 8''],
        np_solution = Some ''Use backtracking. Track the count of open and close parentheses used so far. Add an open parenthesis if open < n, and a close parenthesis if close < open. When both counts equal n, the current string is a valid combination.'',
        np_timeLimitMs = 5000, np_source = ''curated'', np_sourceUrl = Some ''https://leetcode.com/problems/generate-parentheses/''\<rparr>,
      fx_testCases = [
          fx_case [(''n'', jint 3)] (jstrs [''((()))'', ''(()())'', ''(())()'', ''()(())'', ''()()()'']) True 0,
          fx_case [(''n'', jint 1)] (jstrs [''()'']) True 1,
          fx_case [(''n'', jint 2)] (jstrs [''(())'', ''()()'']) True 2,
          fx_case [(''n'', jint 4)] (jstrs [''(((())))'', ''((()()))'', ''((())())'', ''((()))()'', ''(()(()))'',
            ''(()()())'', ''(()())()'', ''(())(())'', ''(())()()'', ''()((()))'', ''()(()())'', ''()(())()'',
            ''()()(())'', ''()()()()'']) False 3,
          fx_case [(''n'', jint 5)] (jstrs [''((((()))))'', ''(((()())))'', ''(((())()))'', ''(((()))())'',
            ''(((())))()'', ''((()(())))'', ''((()()()))'', ''((()())())'', ''((()()))()'', ''((())(()))'',
            ''((())()())'', ''((())())()'', ''((()))(())'', ''((()))()()'', ''(()((())))'', ''(()(()()))'',
            ''(()(())())'', ''(()(()))()'', ''(()()(()))'', ''(()()()())'', ''(()()())()'', ''(()())(())'',
            ''(()())()()'', ''(())((()))'', ''(())(()())'', ''(())(())()'', ''(())()(())'', ''(())()()()'',
            ''()(((())))'', ''()((()()))'', ''()((())())'', ''()((()))()'', ''()(()(()))'', ''()(()()())'',
            ''()(()())()'', ''()(())(())'', ''()(())()()'', ''()()((()))'', ''()()(()())'', ''()()(())()'',
            ''()()()(())'', ''()()()()()'']) False 4,
          fx_case [(''n'', jint 4)] (jstrs [''(((())))'', ''((()()))'', ''((())())'', ''((()))()'', ''(()(()))'',
            ''(()()())'', ''(()())()'', ''(())(())'', ''(())()()'', ''()((()))'', ''()(()())'', ''()(())()'',
            ''()()(())'', ''()()()()'']) False 5,
          fx_case [(''n'', jint 2)] (jstrs [''(())'', ''()()'']) False 6,
          fx_case [(''n'', jint 3)] (jstrs [''((()))'', ''(()())'', ''(())()'', ''()(())'', ''()()()'']) False 7],
      fx_boilerplate = \<lparr>nb_language = ''python'', nb_template = ''class Solution:\<newline>    def generateParenthesis(self, n: int) -> List[str]:\<newline>        pass'',
        nb_methodName = ''generateParenthesis'', nb_parameterNames = [''n'']\<rparr>,
      fx_hints = [
        \<lparr>nh_hintText = ''Think about the conditions under which you can add an opening or closing parenthesis. You can only add a closing parenthesis if there are unmatched opening ones.'', nh_orderIndex = 0\<rparr>,
        \<lparr>nh_hintText = ''Use backtracking with two counters: `open` and `close`. Add '(' if open < n, add ')' if close < open. When both equal n, you have a valid combination.'', nh_orderIndex = 1\<rparr>]\<rparr>"

definition daily_temperatures_fixture :: fixture where
  "daily_temperatures_fixture =
     \<lparr>fx_problem = \<lparr>np_slug = ''daily-temperatures'', np_title = ''Daily Temperatures'', np_difficulty = ''medium'',
        np_category = ''Stack'',
        np_description = ''Given an array of integers `temperatures` represents the daily temperatures, return an array `answer` such that `answer[i]` is the number of days you have to wait after the `i`th day to get a warmer temperature. If there is no future day for which this is possible, keep `answer[i] == 0` instead.'',
        np_constraints = [''1 <= temperatures.length <= 10^5'', ''30 <= temperatures[i] <= 100''],
        np_solution = Some ''Use a monotonically decreasing stack of indices. Iterate through the temperatures. For each temperature, pop indices from the stack while the current temperature is greater than the temperature at the stack's top index, and set the answer for each popped index.'',
        np_timeLimitMs = 5000, np_source = ''curated'', np_sourceUrl = Some ''https://leetcode.com/problems/daily-temperatures/''\<rparr>,
      fx_testCases = [
          fx_case [(''temperatures'', jints [73, 74, 75, 71, 69, 72, 76, 73])] (jints [1, 1, 4, 2, 1, 1, 0, 0]) True 0,
          fx_case [(''temperatures'', jints [30, 40, 50, 60])] (jints [1, 1, 1, 0]) True 1,
          fx_case [(''temperatures'', jints [30, 60, 90])] (jints [1, 1, 0]) True 2,
          fx_case [(''temperatures'', jints [90, 80, 70, 60])] (jints [0, 0, 0, 0]) False 3,
          fx_case [(''temperatures'', jints [50])] (jints [0]) False 4,
          fx_case [(''temperatures'', jints [70, 70, 70, 70])] (jints [0, 0, 0, 0]) False 5,
          fx_case [(''temperatures'', jints [55, 38, 53, 81, 61, 93, 97, 32, 43, 78])] (jints [3, 1, 1, 2, 1, 1, 0,
            1, 1, 0]) False 6,
          fx_case [(''temperatures'', jints [34, 80, 80, 34, 34, 80, 80, 80, 80, 34])] (jints [1, 0, 0, 2, 1, 0, 0,
            0, 0, 0]) False 7],
      fx_boilerplate = \<lparr>nb_language = ''python'', nb_template = ''class Solution:\<newline>    def dailyTemperatures(self, temperatures: List[int]) -> List[int]:\<newline>        pass'',
        nb_methodName = ''dailyTemperatures'', nb_parameterNames = [''temperatures'']\<rparr>,
      fx_hints = [
        \<lparr>nh_hintText = ''For each day, you need to find the next day with a higher temperature. Brute force is O(n^2). Think about a data structure that helps you process elements in order.'', nh_orderIndex = 0\<rparr>,
        \<lparr>nh_hintText = ''Use a monotonically decreasing stack of indices. When the current temperature is warmer than the temperature at the top of the stack, pop and compute the difference in indices.'', nh_orderIndex = 1\<rparr>]\<rparr>"

definition car_fleet_fixture :: fixture where
  "car_fleet_fixture =
     \<lparr>fx_problem = \<lparr>np_slug = ''car-fleet'', np_title = ''Car Fleet'', np_difficulty = ''medium'',
        np_category = ''Stack'',
        np_description = ''There are `n` cars going to the same destination along a one-lane road. The destination is `target` miles away.\<newline>\<newline>You are given two integer arrays `position` and `speed`, both of length `n`, where `position[i]` is the position of the `i`th car and `speed[i]` is the speed of the `i`th car (in miles per hour).\<newline>\<newline>A car can never pass another car ahead of it, but it can catch up to it and drive bumper to bumper at the same speed. The faster car will slow down to match the slower car's speed. The distance between these two cars is ignored (i.e., they are assumed to have the same position).\<newline>\<newline>A car fleet is some non-empty set of cars driving at the same position and same speed. Note that a single car is also a car fleet.\<newline>\<newline>If a car catches up to a car fleet right at the destination point, it still counts as one fleet.\<newline>\<newline>Return the number of car fleets that will arrive at the destination.'',
        np_constraints = [''n == position.length == speed.length'', ''1 <= n <= 10^5'', ''0 < target <= 10^6'', ''0 <= position[i] < target'', ''0 < speed[i] <= 10^6'', ''All the values of position are unique.''],
        np_solution = Some ''Sort cars by position in descending order. Compute the time each car takes to reach the target. Iterate through the times: if a car's time is greater than the current fleet's time, it forms a new fleet. Otherwise, it merges with the fleet ahead.'',
        np_timeLimitMs = 5000, np_source = ''curated'', np_sourceUrl = Some ''https://leetcode.com/problems/car-fleet/''\<rparr>,
      fx_testCases = [
          fx_case [(''target'', jint 12), (''position'', jints [10, 8, 0, 5, 3]), (''speed'', jints [2, 4, 1, 1,
            3])] (jint 3) True 0,
          fx_case [(''target'', jint 10), (''position'', jints [3]), (''speed'', jints [3])] (jint 1) True 1,
          fx_case [(''target'', jint 100), (''position'', jints [0, 2, 4]), (''speed'', jints [4, 2,
            1])] (jint 1) True 2,
          fx_case [(''target'', jint 10), (''position'', jints [6, 8]), (''speed'', jints [3, 2])] (jint 2) False 3,
          fx_case [(''target'', jint 10), (''position'', jints [0, 4, 2]), (''speed'', jints [2, 1,
            3])] (jint 1) False 4,
          fx_case [(''target'', jint 20), (''position'', jints [5, 10, 15]), (''speed'', jints [5, 5,
            5])] (jint 3) False 5,
          fx_case [(''target'', jint 10), (''position'', jints [0, 5]), (''speed'', jints [10, 5])] (jint 1) False 6,
          fx_case [(''target'', jint 10), (''position'', jints [8, 3, 7, 4, 6, 5]), (''speed'', jints [4, 4, 4, 4, 4,
            4])] (jint 6) False 7],
      fx_boilerplate = \<lparr>nb_language = ''python'', nb_template = ''class Solution:\<newline>    def carFleet(self, target: int, position: List[int], speed: List[int]) -> int:\<newline>        pass'',
        nb_methodName = ''carFleet'', nb_parameterNames = [''target'', ''position'', ''speed'']\<rparr>,
      fx_hints = [
        \<lparr>nh_hintText = ''Calculate the time each car needs to reach the target. Cars closer to the target that are slower will block cars behind them.'', nh_orderIndex = 0\<rparr>,
        \<lparr>nh_hintText = ''Sort cars by position in descending order (closest to target first). Use a stack-like approach: iterate through sorted times. If a car takes longer than the current fleet leader, it starts a new fleet.'', nh_orderIndex = 1\<rparr>]\<rparr>"

definition largest_rectangle_in_histogram_fixture :: fixture where
  "largest_rectangle_in_histogram_fixture =
     \<lparr>fx_problem = \<lparr>np_slug = ''largest-rectangle-in-histogram'', np_title = ''Largest Rectangle in Histogram'', np_difficulty = ''hard'',
        np_category = ''Stack'',
        np_description = ''Given an array of integers `heights` representing the histogram's bar height where the width of each bar is `1`, return the area of the largest rectangle in the histogram.'',
        np_constraints = [''1 <= heights.length <= 10^5'', ''0 <= heights[i] <= 10^4''],
        np_solution = Some ''Use a monotonically increasing stack of indices. For each bar, while the stack's top is taller, pop and compute the area using the popped height and the width determined by the current index and the new stack top. Process remaining bars after iteration.'',
        np_timeLimitMs = 5000, np_source = ''curated'', np_sourceUrl = Some ''https://leetcode.com/problems/largest-rectangle-in-histogram/''\<rparr>,
      fx_testCases = [
          fx_case [(''heights'', jints [2, 1, 5, 6, 2, 3])] (jint 10) True 0,
          fx_case [(''heights'', jints [2, 4])] (jint 4) True 1,
          fx_case [(''heights'', jints [1])] (jint 1) True 2,
          fx_case [(''heights'', jints [2, 1, 2])] (jint 3) False 3,
          fx_case [(''heights'', jints [5, 4, 3, 2, 1])] (jint 9) False 4,
          fx_case [(''heights'', jints [1, 2, 3, 4, 5])] (jint 9) False 5,
          fx_case [(''heights'', jints [3, 3, 3, 3])] (jint 12) False 6,
          fx_case [(''heights'', jints [0, 9])] (jint 9) False 7],
      fx_boilerplate = \<lparr>nb_language = ''python'', nb_template = ''class Solution:\<newline>    def largestRectangleArea(self, heights: List[int]) -> int:\<newline>        pass'',
        nb_methodName = ''largestRectangleArea'', nb_parameterNames = [''heights'']\<rparr>,
      fx_hints = [
        \<lparr>nh_hintText = ''For each bar, the largest rectangle using that bar as the shortest has a width extending left and right until a shorter bar is found.'', nh_orderIndex = 0\<rparr>,
        \<lparr>nh_hintText = ''Use a monotonically increasing stack of indices. When a bar shorter than the stack top is encountered, pop and calculate the area for the popped bar.'', nh_orderIndex = 1\<rparr>,
        \<lparr>nh_hintText = ''When popping index `i`, the width is `current_index - stack[-1] - 1` if the stack is not empty, or `current_index` if it is. After processing all bars, pop remaining entries the same way using `len(heights)` as the right boundary.'', nh_orderIndex = 2\<rparr>]\<rparr>"

definition stackProblems :: "fixture list" where
  "stackProblems =
     [valid_parentheses_fixture,
      min_stack_fixture,
      evaluate_reverse_polish_notation_fixture,
      generate_parentheses_fixture,
      daily_temperatures_fixture,
      car_fleet_fixture,
      largest_rectangle_in_histogram_fixture]"

lemma stackProblems_facts:
  "map seed_facts stackProblems =
     [(''valid-parentheses'', True, True, True),
      (''min-stack'', True, False, True),
      (''evaluate-reverse-polish-notation'', True, True, True),
      (''generate-parentheses'', True, True, True),
      (''daily-temperatures'', True, True, True),
      (''car-fleet'', True, True, True),
      (''largest-rectangle-in-histogram'', True, True, True)]"
  by (simp add: stackProblems_def seed_evaluation cong: seed_congs add:
      valid_parentheses_fixture_def
      min_stack_fixture_def
      evaluate_reverse_polish_notation_fixture_def
      generate_parentheses_fixture_def
      daily_temperatures_fixture_def
      car_fleet_fixture_def
      largest_rectangle_in_histogram_fixture_def)


section \<open>binary search\<close>

definition binary_search_fixture :: fixture where
  "binary_search_fixture =
     \<lparr>fx_problem = \<lparr>np_slug = ''binary-search'', np_title = ''Binary Search'', np_difficulty = ''easy'',
        np_category = ''Binary Search'',
        np_description = ''Given an array of integers `nums` which is sorted in ascending order, and an integer `target`, write a function to search `target` in `nums`. If `target` exists, then return its index. Otherwise, return `-1`.\<newline>\<newline>You must write an algorithm with O(log n) runtime complexity.'',
        np_constraints = [''1 <= nums.length <= 10^4'', ''-10^4 < nums[i], target < 10^4'', ''All the integers in nums are unique.'', ''nums is sorted in ascending order.''],
        np_solution = Some ''Classic binary search. Maintain left and right pointers. Compute mid, compare with target, and narrow the search space by half each iteration.'',
        np_timeLimitMs = 5000, np_source = ''curated'', np_sourceUrl = Some ''https://leetcode.com/problems/binary-search/''\<rparr>,
      fx_testCases = [
          fx_case [(''nums'', jints [- 1, 0, 3, 5, 9, 12]), (''target'', jint 9)] (jint 4) True 0,
          fx_case [(''nums'', jints [- 1, 0, 3, 5, 9, 12]), (''target'', jint 2)] (jint (- 1)) True 1,
          fx_case [(''nums'', jints [5]), (''target'', jint 5)] (jint 0) True 2,
          fx_case [(''nums'', jints [1]), (''target'', jint 2)] (jint (- 1)) False 3,
          fx_case [(''nums'', jints [1, 2, 3, 4, 5]), (''target'', jint 1)] (jint 0) False 4,
          fx_case [(''nums'', jints [1, 2, 3, 4, 5]), (''target'', jint 5)] (jint 4) False 5,
          fx_case [(''nums'', jints [- 5, - 3, 0, 1, 4]), (''target'', jint (- 3))] (jint 1) False 6,
          fx_case [(''nums'', jints [2, 5]), (''target'', jint 5)] (jint 1) False 7],
      fx_boilerplate = \<lparr>nb_language = ''python'', nb_template = ''class Solution:\<newline>    def search(self, nums: List[int], target: int) -> int:\<newline>        pass'',
        nb_methodName = ''search'', nb_parameterNames = [''nums'', ''target'']\<rparr>,
      fx_hints = [
        \<lparr>nh_hintText = ''Compare the target with the middle element. If they are equal, return the index. If target is smaller, search the left half. If target is larger, search the right half.'', nh_orderIndex = 0\<rparr>]\<rparr>"

definition search_a_2d_matrix_fixture :: fixture where
  "search_a_2d_matrix_fixture =
     \<lparr>fx_problem = \<lparr>np_slug = ''search-a-2d-matrix'', np_title = ''Search a 2D Matrix'', np_difficulty = ''medium'',
        np_category = ''Binary Search'',
        np_description = ''You are given an `m x n` integer matrix `matrix` with the following two properties:\<newline>\<newline>- Each row is sorted in non-decreasing order.\<newline>- The first integer of each row is greater than the last integer of the previous row.\<newline>\<newline>Given an integer `target`, return `true` if `target` is in `matrix` or `false` otherwise.\<newline>\<newline>You must write a solution in O(log(m * n)) time complexity.'',
        np_constraints = [''m == matrix.length'', ''n == matrix[i].length'', ''1 <= m, n <= 100'', ''-10^4 <= matrix[i][j], target <= 10^4''],
        np_solution = Some ''Treat the 2D matrix as a flat sorted array. Perform binary search using index mapping: row = mid // n, col = mid % n, where n is the number of columns.'',
        np_timeLimitMs = 5000, np_source = ''curated'', np_sourceUrl = Some ''https://leetcode.com/problems/search-a-2d-matrix/''\<rparr>,
      fx_testCases = [
          fx_case [(''matrix'', JArr [jints [1, 3, 5, 7], jints [10, 11, 16, 20], jints [23, 30, 34, 60]]),
            (''target'', jint 3)] (JBool True) True 0,
          fx_case [(''matrix'', JArr [jints [1, 3, 5, 7], jints [10, 11, 16, 20], jints [23, 30, 34, 60]]),
            (''target'', jint 13)] (JBool False) True 1,
          fx_case [(''matrix'', JArr [jints [1]]), (''target'', jint 1)] (JBool True) True 2,
          fx_case [(''matrix'', JArr [jints [1]]), (''target'', jint 0)] (JBool False) False 3,
          fx_case [(''matrix'', JArr [jints [1, 3]]), (''target'', jint 3)] (JBool True) False 4,
          fx_case [(''matrix'', JArr [jints [1], jints [3], jints [5]]), (''target'', jint 3)] (JBool True) False 5,
          fx_case [(''matrix'', JArr [jints [1, 3, 5, 7], jints [10, 11, 16, 20], jints [23, 30, 34, 60]]),
            (''target'', jint 60)] (JBool True) False 6,
          fx_case [(''matrix'', JArr [jints [1, 3, 5, 7], jints [10, 11, 16, 20], jints [23, 30, 34, 60]]),
            (''target'', jint 1)] (JBool True) False 7],
      fx_boilerplate = \<lparr>nb_language = ''python'', nb_template = ''class Solution:\<newline>    def searchMatrix(self, matrix: List[List[int]], target: int) -> bool:\<newline>        pass'',
        nb_methodName = ''searchMatrix'', nb_parameterNames = [''matrix'', ''target'']\<rparr>,
      fx_hints = [
        \<lparr>nh_hintText = ''The matrix rows are sorted and each row starts with a value larger than the previous row's last value. This means the entire matrix is one sorted sequence.'', nh_orderIndex = 0\<rparr>,
        \<lparr>nh_hintText = ''Treat the matrix as a flat sorted array of size m*n. Use binary search on indices 0 to m*n-1, converting each index to row and column: row = mid // n, col = mid % n.'', nh_orderIndex = 1\<rparr>]\<rparr>"

definition koko_eating_bananas_fixture :: fixture where
  "koko_eating_bananas_fixture =
     \<lparr>fx_problem = \<lparr>np_slug = ''koko-eating-bananas'', np_title = ''Koko Eating Bananas'', np_difficulty = ''medium'',
        np_category = ''Binary Search'',
        np_description = ''Koko loves to eat bananas. There are `n` piles of bananas, the `i`th pile has `piles[i]` bananas. The guards have gone and will come back in `h` hours.\<newline>\<newline>Koko can decide her bananas-per-hour eating speed of `k`. Each hour, she chooses some pile of bananas and eats `k` bananas from that pile. If the pile has less than `k` bananas, she eats all of them and will not eat any more bananas during this hour.\<newline>\<newline>Koko likes to eat slowly but still wants to finish eating all the bananas before the guards come back.\<newline>\<newline>Return the minimum integer `k` such that she can eat all the bananas within `h` hours.'',
        np_constraints = [''1 <= piles.length <= 10^4'', ''piles.length <= h <= 10^9'', ''1 <= piles[i] <= 10^9''],
        np_solution = Some ''Binary search on the eating speed k in range [1, max(piles)]. For each candidate k, compute total hours needed (sum of ceil(pile/k) for each pile). Find the minimum k where total hours <= h.'',
        np_timeLimitMs = 5000, np_source = ''curated'', np_sourceUrl = Some ''https://leetcode.com/problems/koko-eating-bananas/''\<rparr>,
      fx_testCases = [
          fx_case [(''piles'', jints [3, 6, 7, 11]), (''h'', jint 8)] (jint 4) True 0,
          fx_case [(''piles'', jints [30, 11, 23, 4, 20]), (''h'', jint 5)] (jint 30) True 1,
          fx_case [(''piles'', jints [30, 11, 23, 4, 20]), (''h'', jint 6)] (jint 23) True 2,
          fx_case [(''piles'', jints [1]), (''h'', jint 1)] (jint 1) False 3,
          fx_case [(''piles'', jints [1000000000]), (''h'', jint 2)] (jint 500000000) False 4,
          fx_case [(''piles'', jints [2, 2]), (''h'', jint 2)] (jint 2) False 5,
          fx_case [(''piles'', jints [312884470]), (''h'', jint 968709470)] (jint 1) False 6,
          fx_case [(''piles'', jints [1, 1, 1, 1]), (''h'', jint 4)] (jint 1) False 7],
      fx_boilerplate = \<lparr>nb_language = ''python'', nb_template = ''class Solution:\<newline>    def minEatingSpeed(self, piles: List[int], h: int) -> int:\<newline>        pass'',
        nb_methodName = ''minEatingSpeed'', nb_parameterNames = [''piles'', ''h'']\<rparr>,
      fx_hints = [
        \<lparr>nh_hintText = ''The answer must be between 1 and max(piles). For a given speed k, you can calculate how many hours it takes to eat all bananas. Can you search for the minimum k efficiently?'', nh_orderIndex = 0\<rparr>,
        \<lparr>nh_hintText = ''Binary search on the speed k. For each candidate speed, compute total hours as sum of ceil(piles[i] / k) for all piles. If total hours <= h, try a smaller k. Otherwise, try a larger k.'', nh_orderIndex = 1\<rparr>]\<rparr>"

definition find_minimum_in_rotated_sorted_array_fixture :: fixture where
  "find_minimum_in_rotated_sorted_array_fixture =
     \<lparr>fx_problem = \<lparr>np_slug = ''find-minimum-in-rotated-sorted-array'', np_title = ''Find Minimum in Rotated Sorted Array'', np_difficulty = ''medium'',
        np_category = ''Binary Search'',
        np_description = ''Suppose an array of length `n` sorted in ascending order is rotated between `1` and `n` times. For example, the array `nums = [0,1,2,4,5,6,7]` might become:\<newline>\<newline>- `[4,5,6,7,0,1,2]` if it was rotated 4 times.\<newline>- `[0,1,2,4,5,6,7]` if it was rotated 7 times.\<newline>\<newline>Notice that rotating an array `[a[0], a[1], a[2], ..., a[n-1]]` 1 time results in the array `[a[n-1], a[0], a[1], a[2], ..., a[n-2]]`.\<newline>\<newline>Given the sorted rotated array `nums` of unique elements, return the minimum element of this array.\<newline>\<newline>You must write an algorithm that runs in O(log n) time.'',
        np_constraints = [''n == nums.length'', ''1 <= n <= 5000'', ''-5000 <= nums[i] <= 5000'', ''All the integers of nums are unique.'', ''nums is sorted and rotated between 1 and n times.''],
        np_solution = Some ''Binary search comparing mid element with the rightmost element. If nums[mid] > nums[right], the minimum is in the right half. Otherwise, it is in the left half (including mid).'',
        np_timeLimitMs = 5000, np_source = ''curated'', np_sourceUrl = Some ''https://leetcode.com/problems/find-minimum-in-rotated-sorted-array/''\<rparr>,
      fx_testCases = [
          fx_case [(''nums'', jints [3, 4, 5, 1, 2])] (jint 1) True 0,
          fx_case [(''nums'', jints [4, 5, 6, 7, 0, 1, 2])] (jint 0) True 1,
          fx_case [(''nums'', jints [11, 13, 15, 17])] (jint 11) True 2,
          fx_case [(''nums'', jints [2, 1])] (jint 1) False 3,
          fx_case [(''nums'', jints [1])] (jint 1) False 4,
          fx_case [(''nums'', jints [2, 3, 4, 5, 1])] (jint 1) False 5,
          fx_case [(''nums'', jints [5, 1, 2, 3, 4])] (jint 1) False 6,
          fx_case [(''nums'', jints [3, 1, 2])] (jint 1) False 7],
      fx_boilerplate = \<lparr>nb_language = ''python'', nb_template = ''class Solution:\<newline>    def findMin(self, nums: List[int]) -> int:\<newline>        pass'',
        nb_methodName = ''findMin'', nb_parameterNames = [''nums'']\<rparr>,
      fx_hints = [
        \<lparr>nh_hintText = ''In a rotated sorted array, one half is always sorted. The minimum is at the rotation point where the sorted order breaks.'', nh_orderIndex = 0\<rparr>,
        \<lparr>nh_hintText = ''Compare nums[mid] with nums[right]. If nums[mid] > nums[right], the pivot (minimum) is in the right half. Otherwise, the minimum is in the left half including mid.'', nh_orderIndex = 1\<rparr>]\<rparr>"

definition search_in_rotated_sorted_array_fixture :: fixture where
  "search_in_rotated_sorted_array_fixture =
     \<lparr>fx_problem = \<lparr>np_slug = ''search-in-rotated-sorted-array'', np_title = ''Search in Rotated Sorted Array'', np_difficulty = ''medium'',
        np_category = ''Binary Search'',
        np_description = ''There is an integer array `nums` sorted in ascending order (with distinct values).\<newline>\<newline>Prior to being passed to your function, `nums` is possibly rotated at an unknown pivot index `k` (`1 <= k < nums.length`) such that the resulting array is `[nums[k], nums[k+1], ..., nums[n-1], nums[0], nums[1], ..., nums[k-1]]` (0-indexed). For example, `[0,1,2,4,5,6,7]` might be rotated at pivot index 3 and become `[4,5,6,7,0,1,2]`.\<newline>\<newline>Given the array `nums` after the possible rotation and an integer `target`, return the index of `target` if it is in `nums`, or `-1` if it is not in `nums`.\<newline>\<newline>You must write an algorithm with O(log n) runtime complexity.'',
        np_constraints = [''1 <= nums.length <= 5000'', ''-10^4 <= nums[i] <= 10^4'', ''All values of nums are unique.'', ''nums is an ascending array that is possibly rotated.'', ''-10^4 <= target <= 10^4''],
        np_solution = Some ''Binary search with an extra check to determine which half is sorted. If the left half is sorted and target falls in that range, search left. Otherwise search right. Apply the same logic if the right half is sorted.'',
        np_timeLimitMs = 5000, np_source = ''curated'', np_sourceUrl = Some ''https://leetcode.com/problems/search-in-rotated-sorted-array/''\<rparr>,
      fx_testCases = [
          fx_case [(''nums'', jints [4, 5, 6, 7, 0, 1, 2]), (''target'', jint 0)] (jint 4) True 0,
          fx_case [(''nums'', jints [4, 5, 6, 7, 0, 1, 2]), (''target'', jint 3)] (jint (- 1)) True 1,
          fx_case [(''nums'', jints [1]), (''target'', jint 0)] (jint (- 1)) True 2,
          fx_case [(''nums'', jints [1]), (''target'', jint 1)] (jint 0) False 3,
          fx_case [(''nums'', jints [3, 1]), (''target'', jint 1)] (jint 1) False 4,
          fx_case [(''nums'', jints [5, 1, 3]), (''target'', jint 3)] (jint 2) False 5,
          fx_case [(''nums'', jints [4, 5, 6, 7, 8, 1, 2, 3]), (''target'', jint 8)] (jint 4) False 6,
          fx_case [(''nums'', jints [1, 2, 3, 4, 5]), (''target'', jint 4)] (jint 3) False 7],
      fx_boilerplate = \<lparr>nb_language = ''python'', nb_template = ''class Solution:\<newline>    def search(self, nums: List[int], target: int) -> int:\<newline>        pass'',
        nb_methodName = ''search'', nb_parameterNames = [''nums'', ''target'']\<rparr>,
      fx_hints = [
        \<lparr>nh_hintText = ''At each step of binary search, one half of the array is always sorted. Determine which half is sorted and check if the target falls within that range.'', nh_orderIndex = 0\<rparr>,
        \<lparr>nh_hintText = ''If nums[left] <= nums[mid], the left half is sorted. If target is in [nums[left], nums[mid]], search left. Otherwise search right. Apply similar logic when the right half is sorted.'', nh_orderIndex = 1\<rparr>]\<rparr>"

definition time_based_key_value_store_fixture :: fixture where
  "time_based_key_value_store_fixture =
     \<lparr>fx_problem = \<lparr>np_slug = ''time-based-key-value-store'', np_title = ''Time Based Key-Value Store'', np_difficulty = ''medium'',
        np_category = ''Binary Search'',
        np_description = ''Design a time-based key-value data structure that can store multiple values for the same key at different time stamps and retrieve the key's value at a certain timestamp.\<newline>\<newline>Implement the `TimeMap` class:\<newline>\<newline>- `TimeMap()` Initializes the object of the data structure.\<newline>- `void set(String key, String value, int timestamp)` Stores the key `key` with the value `value` at the given time `timestamp`.\<newline>- `String get(String key, int timestamp)` Returns a value such that `set` was called previously, with `timestamp_prev <= timestamp`. If there are multiple such values, it returns the value associated with the largest `timestamp_prev`. If there are no values, it returns the empty string `\"\"`.'',
        np_constraints = [''1 <= key.length, value.length <= 100'', ''key and value consist of lowercase English letters and digits.'', ''1 <= timestamp <= 10^7'', ''All the timestamps timestamp of set are strictly increasing.'', ''At most 2 * 10^5 calls will be made to set and get.''],
        np_solution = Some ''Use a hash map from key to a list of (timestamp, value) pairs. Since timestamps are strictly increasing, the list is sorted. For get, binary search for the largest timestamp <= the query timestamp.'',
        np_timeLimitMs = 5000, np_source = ''curated'', np_sourceUrl = Some ''https://leetcode.com/problems/time-based-key-value-store/''\<rparr>,
      fx_testCases = [
          fx_case [(''operations'', jstrs [''TimeMap'', ''set'', ''get'', ''get'', ''set'', ''get'', ''get'']),
            (''args'', JArr [JArr [], JArr [JStr ''foo'', JStr ''bar'', jint 1], JArr [JStr ''foo'', jint 1],
            JArr [JStr ''foo'', jint 3], JArr [JStr ''foo'', JStr ''bar2'', jint 4], JArr [JStr ''foo'', jint 4],
            JArr [JStr ''foo'', jint 5]])] (JArr [JNull, JNull, JStr ''bar'', JStr ''bar'', JNull, JStr ''bar2'',
            JStr ''bar2'']) True 0,
          fx_case [(''operations'', jstrs [''TimeMap'', ''set'', ''get'', ''get'']), (''args'', JArr [JArr [],
            JArr [JStr ''key'', JStr ''val'', jint 1], JArr [JStr ''key'', jint 1], JArr [JStr ''key'',
            jint 0]])] (JArr [JNull, JNull, JStr ''val'', JStr []]) True 1,
          fx_case [(''operations'', jstrs [''TimeMap'', ''set'', ''set'', ''get'', ''get'', ''get'']), (''args'',
            JArr [JArr [], JArr [JStr ''a'', JStr ''v1'', jint 1], JArr [JStr ''a'', JStr ''v2'', jint 2],
            JArr [JStr ''a'', jint 1], JArr [JStr ''a'', jint 2], JArr [JStr ''a'', jint 3]])] (JArr [JNull, JNull,
            JNull, JStr ''v1'', JStr ''v2'', JStr ''v2'']) True 2,
          fx_case [(''operations'', jstrs [''TimeMap'', ''get'']), (''args'', JArr [JArr [], JArr [JStr ''missing'',
            jint 1]])] (JArr [JNull, JStr []]) False 3,
          fx_case [(''operations'', jstrs [''TimeMap'', ''set'', ''set'', ''set'', ''get'']), (''args'',
            JArr [JArr [], JArr [JStr ''x'', JStr ''a'', jint 1], JArr [JStr ''x'', JStr ''b'', jint 5],
            JArr [JStr ''x'', JStr ''c'', jint 10], JArr [JStr ''x'', jint 7]])] (JArr [JNull, JNull, JNull, JNull,
            JStr ''b'']) False 4,
          fx_case [(''operations'', jstrs [''TimeMap'', ''set'', ''get'', ''get'']), (''args'', JArr [JArr [],
            JArr [JStr ''k'', JStr ''v'', jint 5], JArr [JStr ''k'', jint 4], JArr [JStr ''k'',
            jint 5]])] (JArr [JNull, JNull, JStr [], JStr ''v'']) False 5,
          fx_case [(''operations'', jstrs [''TimeMap'', ''set'', ''set'', ''get'', ''get'']), (''args'',
            JArr [JArr [], JArr [JStr ''a'', JStr ''x'', jint 1], JArr [JStr ''b'', JStr ''y'', jint 2],
            JArr [JStr ''a'', jint 3], JArr [JStr ''b'', jint 1]])] (JArr [JNull, JNull, JNull, JStr ''x'',
            JStr []]) False 6,
          fx_case [(''operations'', jstrs [''TimeMap'', ''set'', ''set'', ''set'', ''get'', ''get'', ''get'']),
            (''args'', JArr [JArr [], JArr [JStr ''z'', JStr ''one'', jint 1], JArr [JStr ''z'', JStr ''two'',
            jint 2], JArr [JStr ''z'', JStr ''three'', jint 3], JArr [JStr ''z'', jint 1], JArr [JStr ''z'', jint 2],
            JArr [JStr ''z'', jint 3]])] (JArr [JNull, JNull, JNull, JNull, JStr ''one'', JStr ''two'',
            JStr ''three'']) False 7],
      fx_boilerplate = \<lparr>nb_language = ''python'', nb_template = ''class TimeMap:\<newline>    def __init__(self):\<newline>        pass\<newline>\<newline>    def set(self, key: str, value: str, timestamp: int) -> None:\<newline>        pass\<newline>\<newline>    def get(self, key: str, timestamp: int) -> str:\<newline>        pass'',
        nb_methodName = ''TimeMap'', nb_parameterNames = []\<rparr>,
      fx_hints = [
        \<lparr>nh_hintText = ''Store values in a list associated with each key. Since timestamps are strictly increasing, the list is naturally sorted.'', nh_orderIndex = 0\<rparr>,
        \<lparr>nh_hintText = ''For get queries, use binary search on the list of (timestamp, value) pairs to find the largest timestamp that is <= the query timestamp.'', nh_orderIndex = 1\<rparr>]\<rparr>"

definition median_of_two_sorted_arrays_fixture :: fixture where
  "median_of_two_sorted_arrays_fixture =
     \<lparr>fx_problem = \<lparr>np_slug = ''median-of-two-sorted-arrays'', np_title = ''Median of Two Sorted Arrays'', np_difficulty = ''hard'',
        np_category = ''Binary Search'',
        np_description = ''Given two sorted arrays `nums1` and `nums2` of size `m` and `n` respectively, return the median of the two sorted arrays.\<newline>\<newline>The overall run time complexity should be O(log (m+n)).'',
        np_constraints = [''nums1.length == m'', ''nums2.length == n'', ''0 <= m <= 1000'', ''0 <= n <= 1000'', ''1 <= m + n <= 2000'', ''-10^6 <= nums1[i], nums2[i] <= 10^6''],
        np_solution = Some ''Binary search on the partition of the shorter array. For each partition point in the shorter array, compute the corresponding partition in the longer array such that left elements equal right elements. Check if max(left) <= min(right) to validate the partition.'',
        np_timeLimitMs = 5000, np_source = ''curated'', np_sourceUrl = Some ''https://leetcode.com/problems/median-of-two-sorted-arrays/''\<rparr>,
      fx_testCases = [
          fx_case [(''nums1'', jints [1, 3]), (''nums2'', jints [2])] (jdec 20 1) True 0,
          fx_case [(''nums1'', jints [1, 2]), (''nums2'', jints [3, 4])] (jdec 25 1) True 1,
          fx_case [(''nums1'', jints [0, 0]), (''nums2'', jints [0, 0])] (jdec 0 1) True 2,
          fx_case [(''nums1'', JArr []), (''nums2'', jints [1])] (jdec 10 1) False 3,
          fx_case [(''nums1'', jints [2]), (''nums2'', JArr [])] (jdec 20 1) False 4,
          fx_case [(''nums1'', jints [1, 2, 3]), (''nums2'', jints [4, 5, 6])] (jdec 35 1) False 5,
          fx_case [(''nums1'', jints [1]), (''nums2'', jints [2, 3, 4, 5, 6])] (jdec 35 1) False 6,
          fx_case [(''nums1'', jints [3, 4]), (''nums2'', jints [1, 2, 5])] (jdec 30 1) False 7],
      fx_boilerplate = \<lparr>nb_language = ''python'', nb_template = ''class Solution:\<newline>    def findMedianSortedArrays(self, nums1: List[int], nums2: List[int]) -> float:\<newline>        pass'',
        nb_methodName = ''findMedianSortedArrays'', nb_parameterNames = [''nums1'', ''nums2'']\<rparr>,
      fx_hints = [
        \<lparr>nh_hintText = ''The median splits the combined sorted array into two equal halves. You need to find the correct partition point without merging the arrays.'', nh_orderIndex = 0\<rparr>,
        \<lparr>nh_hintText = ''Binary search on the shorter array's partition. If you take i elements from nums1 and j = (m+n+1)/2 - i elements from nums2, the left partition has the correct number of elements.'', nh_orderIndex = 1\<rparr>,
        \<lparr>nh_hintText = ''A valid partition satisfies: nums1[i-1] <= nums2[j] and nums2[j-1] <= nums1[i]. If nums1[i-1] > nums2[j], decrease i. If nums2[j-1] > nums1[i], increase i. Handle edge cases with -infinity and +infinity for boundaries.'', nh_orderIndex = 2\<rparr>]\<rparr>"

definition binarySearchProblems :: "fixture list" where
  "binarySearchProblems =
     [binary_search_fixture,
      search_a_2d_matrix_fixture,
      koko_eating_bananas_fixture,
      find_minimum_in_rotated_sorted_array_fixture,
      search_in_rotated_sorted_array_fixture,
      time_based_key_value_store_fixture,
      median_of_two_sorted_arrays_fixture]"

lemma binarySearchProblems_facts:
  "map seed_facts binarySearchProblems =
     [(''binary-search'', True, True, True),
      (''search-a-2d-matrix'', True, True, True),
      (''koko-eating-bananas'', True, True, True),
      (''find-minimum-in-rotated-sorted-array'', True, True, True),
      (''search-in-rotated-sorted-array'', True, True, True),
      (''time-based-key-value-store'', True, False, True),
      (''median-of-two-sorted-arrays'', True, True, True)]"
  by (simp add: binarySearchProblems_def seed_evaluation cong: seed_congs add:
      binary_search_fixture_def
      search_a_2d_matrix_fixture_def
      koko_eating_bananas_fixture_def
      find_minimum_in_rotated_sorted_array_fixture_def
      search_in_rotated_sorted_array_fixture_def
      time_based_key_value_store_fixture_def
      median_of_two_sorted_arrays_fixture_def)

end
