(* ===== verification/Seed_Lists.thy ===== *)
theory Seed_Lists
  imports Seed_Base
begin

text \<open>The problems of \<^verbatim>\<open>linked-list.ts\<close> under
  \<^verbatim>\<open>packages/db/src/seeds/data\<close>, in the order of the files.\<close>

section \<open>linked list\<close>

definition reverse_linked_list_fixture :: fixture where
  "reverse_linked_list_fixture =
     \<lparr>fx_problem = \<lparr>np_slug = ''reverse-linked-list'', np_title = ''Reverse Linked List'', np_difficulty = ''easy'',
        np_category = ''Linked List'',
        np_description = ''Given the `head` of a singly linked list, reverse the list, and return the reversed list.'',
        np_constraints = [''The number of nodes in the list is the range [0, 5000].'', ''-5000 <= Node.val <= 5000''],
        np_solution = Some ''Iterate through the list maintaining three pointers: prev, curr, and next. At each step, reverse the current node's pointer to point to prev, then advance all three pointers.'',
        np_timeLimitMs = 5000, np_source = ''curated'', np_sourceUrl = Some ''https://leetcode.com/problems/reverse-linked-list/''\<rparr>,
      fx_testCases = [
          fx_case [(''head'', jints [1, 2, 3, 4, 5])] (jints [5, 4, 3, 2, 1]) True 0,
          fx_case [(''head'', jints [1, 2])] (jints [2, 1]) True 1,
          fx_case [(''head'', JArr [])] (JArr []) True 2,
          fx_case [(''head'', jints [1])] (jints [1]) False 3,
          fx_case [(''head'', jints [1, 2, 3])] (jints [3, 2, 1]) False 4,
          fx_case [(''head'', jints [0, 0, 0])] (jints [0, 0, 0]) False 5,
          fx_case [(''head'', jints [- 1, 0, 1])] (jints [1, 0, - 1]) False 6,
          fx_case [(''head'', jints [5000, - 5000])] (jints [- 5000, 5000]) False 7],
      fx_boilerplate = \<lparr>nb_language = ''python'', nb_template = ''# Definition for singly-linked list.\<newline># class ListNode:\<newline>#     def __init__(self, val=0, next=None):\<newline>#         self.val = val\<newline>#         self.next = next\<newline>class Solution:\<newline>    def reverseList(self, head: Optional[ListNode]) -> Optional[ListNode]:\<newline>        pass'',
        nb_methodName = ''reverseList'', nb_parameterNames = [''head'']\<rparr>,
      fx_hints = [
        \<lparr>nh_hintText = ''Iterate through the list and reverse each node's pointer direction. Keep track of the previous node so you can point the current node's next to it.'', nh_orderIndex = 0\<rparr>]\<rparr>"

definition merge_two_sorted_lists_fixture :: fixture where
  "merge_two_sorted_lists_fixture =
     \<lparr>fx_problem = \<lparr>np_slug = ''merge-two-sorted-lists'', np_title = ''Merge Two Sorted Lists'', np_difficulty = ''easy'',
        np_category = ''Linked List'',
        np_description = ''You are given the heads of two sorted linked lists `list1` and `list2`.\<newline>\<newline>Merge the two lists into one sorted list. The list should be made by splicing together the nodes of the first two lists.\<newline>\<newline>Return the head of the merged linked list.'',
        np_constraints = [''The number of nodes in both lists is in the range [0, 50].'', ''-100 <= Node.val <= 100'', ''Both list1 and list2 are sorted in non-decreasing order.''],
        np_solution = Some ''Use a dummy head node. Compare the front of both lists, append the smaller node to the merged list, and advance that list's pointer. After one list is exhausted, append the remainder of the other.'',
        np_timeLimitMs = 5000, np_source = ''curated'', np_sourceUrl = Some ''https://leetcode.com/problems/merge-two-sorted-lists/''\<rparr>,
      fx_testCases = [
          fx_case [(''list1'', jints [1, 2, 4]), (''list2'', jints [1, 3, 4])] (jints [1, 1, 2, 3, 4, 4]) True 0,
          fx_case [(''list1'', JArr []), (''list2'', JArr [])] (JArr []) True 1,
          fx_case [(''list1'', JArr []), (''list2'', jints [0])] (jints [0]) True 2,
          fx_case [(''list1'', jints [1]), (''list2'', jints [2])] (jints [1, 2]) False 3,
          fx_case [(''list1'', jints [5]), (''list2'', jints [1, 2, 3])] (jints [1, 2, 3, 5]) False 4,
          fx_case [(''list1'', jints [1, 3, 5]), (''list2'', jints [2, 4, 6])] (jints [1, 2, 3, 4, 5, 6]) False 5,
          fx_case [(''list1'', jints [- 1, 0, 1]), (''list2'', jints [- 2, 0, 2])] (jints [- 2, - 1, 0, 0, 1,
            2]) False 6,
          fx_case [(''list1'', jints [1, 1, 1]), (''list2'', jints [1, 1, 1])] (jints [1, 1, 1, 1, 1, 1]) False 7],
      fx_boilerplate = \<lparr>nb_language = ''python'', nb_template = ''# Definition for singly-linked list.\<newline># class ListNode:\<newline>#     def __init__(self, val=0, next=None):\<newline>#         self.val = val\<newline>#         self.next = next\<newline>class Solution:\<newline>    def mergeTwoLists(self, list1: Optional[ListNode], list2: Optional[ListNode]) -> Optional[ListNode]:\<newline>        pass'',
        nb_methodName = ''mergeTwoLists'', nb_parameterNames = [''list1'', ''list2'']\<rparr>,
      fx_hints = [
        \<lparr>nh_hintText = ''Create a dummy head node and a pointer to build the merged list. At each step, compare the current nodes of both lists and append the smaller one.'', nh_orderIndex = 0\<rparr>]\<rparr>"

definition linked_list_cycle_fixture :: fixture where
  "linked_list_cycle_fixture =
     \<lparr>fx_problem = \<lparr>np_slug = ''linked-list-cycle'', np_title = ''Linked List Cycle'', np_difficulty = ''easy'',
        np_category = ''Linked List'',
        np_description = ''Given `head`, the head of a linked list, determine if the linked list has a cycle in it.\<newline>\<newline>There is a cycle in a linked list if there is some node in the list that can be reached again by continuously following the `next` pointer. Internally, `pos` is used to denote the index of the node that tail's `next` pointer is connected to. Note that `pos` is not passed as a parameter.\<newline>\<newline>Return `true` if there is a cycle in the linked list. Otherwise, return `false`.'',
        np_constraints = [''The number of the nodes in the list is in the range [0, 10^4].'', ''-10^5 <= Node.val <= 10^5'', ''pos is -1 or a valid index in the linked-list.''],
        np_solution = Some ''Use Floyd's cycle detection (tortoise and hare). Move slow pointer one step and fast pointer two steps. If they meet, there is a cycle. If fast reaches null, there is no cycle.'',
        np_timeLimitMs = 5000, np_source = ''curated'', np_sourceUrl = Some ''https://leetcode.com/problems/linked-list-cycle/''\<rparr>,
      fx_testCases = [
          fx_case [(''head'', jints [3, 2, 0, - 4]), (''pos'', jint 1)] (JBool True) True 0,
          fx_case [(''head'', jints [1, 2]), (''pos'', jint 0)] (JBool True) True 1,
          fx_case [(''head'', jints [1]), (''pos'', jint (- 1))] (JBool False) True 2,
          fx_case [(''head'', JArr []), (''pos'', jint (- 1))] (JBool False) False 3,
          fx_case [(''head'', jints [1, 2, 3, 4, 5]), (''pos'', jint (- 1))] (JBool False) False 4,
          fx_case [(''head'', jints [1, 2, 3, 4, 5]), (''pos'', jint 4)] (JBool True) False 5,
          fx_case [(''head'', jints [1, 2, 3, 4, 5]), (''pos'', jint 0)] (JBool True) False 6,
          fx_case [(''head'', jints [1]), (''pos'', jint 0)] (JBool True) False 7],
      fx_boilerplate = \<lparr>nb_language = ''python'', nb_template = ''# Definition for singly-linked list.\<newline># class ListNode:\<newline>#     def __init__(self, x):\<newline>#         self.val = x\<newline>#         self.next = None\<newline>class Solution:\<newline>    def hasCycle(self, head: Optional[ListNode]) -> bool:\<newline>        pass'',
        nb_methodName = ''hasCycle'', nb_parameterNames = [''head'']\<rparr>,
      fx_hints = [
        \<lparr>nh_hintText = ''Use two pointers moving at different speeds (slow moves 1 step, fast moves 2 steps). If there is a cycle, the fast pointer will eventually catch up to the slow pointer.'', nh_orderIndex = 0\<rparr>]\<rparr>"

definition reorder_list_fixture :: fixture where
  "reorder_list_fixture =
     \<lparr>fx_problem = \<lparr>np_slug = ''reorder-list'', np_title = ''Reorder List'', np_difficulty = ''medium'',
        np_category = ''Linked List'',
        np_description = ''You are given the head of a singly linked-list. The list can be represented as:\<newline>\<newline>`L0 -> L1 -> ... -> Ln - 1 -> Ln`\<newline>\<newline>Reorder the list to be on the following form:\<newline>\<newline>`L0 -> Ln -> L1 -> Ln - 1 -> L2 -> Ln - 2 -> ...`\<newline>\<newline>You may not modify the values in the list's nodes. Only nodes themselves may be changed.'',
        np_constraints = [''The number of nodes in the list is in the range [1, 5 * 10^4].'', ''1 <= Node.val <= 1000''],
        np_solution = Some ''Three steps: (1) Find the middle using slow/fast pointers. (2) Reverse the second half of the list. (3) Merge the two halves by alternating nodes.'',
        np_timeLimitMs = 5000, np_source = ''curated'', np_sourceUrl = Some ''https://leetcode.com/problems/reorder-list/''\<rparr>,
      fx_testCases = [
          fx_case [(''head'', jints [1, 2, 3, 4])] (jints [1, 4, 2, 3]) True 0,
          fx_case [(''head'', jints [1, 2, 3, 4, 5])] (jints [1, 5, 2, 4, 3]) True 1,
          fx_case [(''head'', jints [1])] (jints [1]) True 2,
          fx_case [(''head'', jints [1, 2])] (jints [1, 2]) False 3,
          fx_case [(''head'', jints [1, 2, 3])] (jints [1, 3, 2]) False 4,
          fx_case [(''head'', jints [1, 2, 3, 4, 5, 6])] (jints [1, 6, 2, 5, 3, 4]) False 5,
          fx_case [(''head'', jints [1, 2, 3, 4, 5, 6, 7])] (jints [1, 7, 2, 6, 3, 5, 4]) False 6,
          fx_case [(''head'', jints [1, 1, 1, 1])] (jints [1, 1, 1, 1]) False 7],
      fx_boilerplate = \<lparr>nb_language = ''python'', nb_template = ''# Definition for singly-linked list.\<newline># class ListNode:\<newline>#     def __init__(self, val=0, next=None):\<newline>#         self.val = val\<newline>#         self.next = next\<newline>class Solution:\<newline>    def reorderList(self, head: Optional[ListNode]) -> None:\<newline>        pass'',
        nb_methodName = ''reorderList'', nb_parameterNames = [''head'']\<rparr>,
      fx_hints = [
        \<lparr>nh_hintText = ''The reordered list interleaves nodes from the beginning and end. Think about how you can access nodes from the end efficiently.'', nh_orderIndex = 0\<rparr>,
        \<lparr>nh_hintText = ''Split the list into two halves using slow/fast pointers. Reverse the second half, then merge the two halves by alternating nodes from each.'', nh_orderIndex = 1\<rparr>]\<rparr>"

definition remove_nth_node_from_end_of_list_fixture :: fixture where
  "remove_nth_node_from_end_of_list_fixture =
     \<lparr>fx_problem = \<lparr>np_slug = ''remove-nth-node-from-end-of-list'', np_title = ''Remove Nth Node From End of List'', np_difficulty = ''medium'',
        np_category = ''Linked List'',
        np_description = ''Given the `head` of a linked list, remove the `n`th node from the end of the list and return its head.'',
        np_constraints = [''The number of nodes in the list is sz.'', ''1 <= sz <= 30'', ''0 <= Node.val <= 100'', ''1 <= n <= sz''],
        np_solution = Some ''Use two pointers separated by n nodes. Advance both until the fast pointer reaches the end. The slow pointer will be just before the node to remove. Use a dummy head to handle edge cases.'',
        np_timeLimitMs = 5000, np_source = ''curated'', np_sourceUrl = Some ''https://leetcode.com/problems/remove-nth-node-from-end-of-list/''\<rparr>,
      fx_testCases = [
          fx_case [(''head'', jints [1, 2, 3, 4, 5]), (''n'', jint 2)] (jints [1, 2, 3, 5]) True 0,
          fx_case [(''head'', jints [1]), (''n'', jint 1)] (JArr []) True 1,
          fx_case [(''head'', jints [1, 2]), (''n'', jint 1)] (jints [1]) True 2,
          fx_case [(''head'', jints [1, 2]), (''n'', jint 2)] (jints [2]) False 3,
          fx_case [(''head'', jints [1, 2, 3]), (''n'', jint 3)] (jints [2, 3]) False 4,
          fx_case [(''head'', jints [1, 2, 3]), (''n'', jint 1)] (jints [1, 2]) False 5,
          fx_case [(''head'', jints [1, 2, 3, 4, 5]), (''n'', jint 5)] (jints [2, 3, 4, 5]) False 6,
          fx_case [(''head'', jints [10, 20, 30, 40]), (''n'', jint 2)] (jints [10, 20, 40]) False 7],
      fx_boilerplate = \<lparr>nb_language = ''python'', nb_template = ''# Definition for singly-linked list.\<newline># class ListNode:\<newline>#     def __init__(self, val=0, next=None):\<newline>#         self.val = val\<newline>#         self.next = next\<newline>class Solution:\<newline>    def removeNthFromEnd(self, head: Optional[ListNode], n: int) -> Optional[ListNode]:\<newline>        pass'',
        nb_methodName = ''removeNthFromEnd'', nb_parameterNames = [''head'', ''n'']\<rparr>,
      fx_hints = [
        \<lparr>nh_hintText = ''If you knew the length of the list, you could find the node to remove easily. Can you find it in one pass instead?'', nh_orderIndex = 0\<rparr>,
        \<lparr>nh_hintText = ''Use two pointers. Advance the fast pointer n steps ahead first, then move both pointers until fast reaches the end. The slow pointer will be right before the target node. Use a dummy head to handle removing the first node.'', nh_orderIndex = 1\<rparr>]\<rparr>"

definition copy_list_with_random_pointer_fixture :: fixture where
  "copy_list_with_random_pointer_fixture =
     \<lparr>fx_problem = \<lparr>np_slug = ''copy-list-with-random-pointer'', np_title = ''Copy List with Random Pointer'', np_difficulty = ''medium'',
        np_category = ''Linked List'',
        np_description = ''A linked list of length `n` is given such that each node contains an additional random pointer, which could point to any node in the list, or `null`.\<newline>\<newline>Construct a deep copy of the list. The deep copy should consist of exactly `n` brand new nodes, where each new node has its value set to the value of its corresponding original node. Both the `next` and `random` pointer of the new nodes should point to new nodes in the copied list such that the pointers in the original list and copied list represent the same list state. None of the pointers in the new list should point to nodes in the original list.\<newline>\<newline>Return the head of the copied linked list.\<newline>\<newline>The linked list is represented in the input/output as a list of `n` nodes. Each node is represented as a pair of `[val, random_index]` where `random_index` is the index of the node (range from `0` to `n-1`) that the `random` pointer points to, or `null` if it does not point to any node.'',
        np_constraints = [''0 <= n <= 1000'', ''-10^4 <= Node.val <= 10^4'', ''Node.random is null or is pointing to some node in the linked list.''],
        np_solution = Some ''Use a hash map from original nodes to their copies. First pass: create all copy nodes and store the mapping. Second pass: assign next and random pointers using the map.'',
        np_timeLimitMs = 5000, np_source = ''curated'', np_sourceUrl = Some ''https://leetcode.com/problems/copy-list-with-random-pointer/''\<rparr>,
      fx_testCases = [
          fx_case [(''head'', JArr [JArr [jint 7, JNull], jints [13, 0], jints [11, 4], jints [10, 2], jints [1,
            0]])] (JArr [JArr [jint 7, JNull], jints [13, 0], jints [11, 4], jints [10, 2], jints [1, 0]]) True 0,
          fx_case [(''head'', JArr [jints [1, 1], jints [2, 1]])] (JArr [jints [1, 1], jints [2, 1]]) True 1,
          fx_case [(''head'', JArr [JArr [jint 3, JNull], jints [3, 0], JArr [jint 3, JNull]])] (JArr [JArr [jint 3,
            JNull], jints [3, 0], JArr [jint 3, JNull]]) True 2,
          fx_case [(''head'', JArr [])] (JArr []) False 3,
          fx_case [(''head'', JArr [jints [1, 0]])] (JArr [jints [1, 0]]) False 4,
          fx_case [(''head'', JArr [JArr [jint 1, JNull]])] (JArr [JArr [jint 1, JNull]]) False 5,
          fx_case [(''head'', JArr [jints [1, 1], jints [2, 0]])] (JArr [jints [1, 1], jints [2, 0]]) False 6,
          fx_case [(''head'', JArr [JArr [jint 5, JNull], JArr [jint 4, JNull], JArr [jint 3, JNull], JArr [jint 2,
            JNull], JArr [jint 1, JNull]])] (JArr [JArr [jint 5, JNull], JArr [jint 4, JNull], JArr [jint 3, JNull],
            JArr [jint 2, JNull], JArr [jint 1, JNull]]) False 7],
      fx_boilerplate = \<lparr>nb_language = ''python'', nb_template = ''\"\"\"\<newline># Definition for a Node.\<newline>class Node:\<newline>    def __init__(self, x: int, next: 'Node' = None, random: 'Node' = None):\<newline>        self.val = int(x)\<newline>        self.next = next\<newline>        self.random = random\<newline>\"\"\"\<newline>class Solution:\<newline>    def copyRandomList(self, head: 'Optional[Node]') -> 'Optional[Node]':\<newline>        pass'',
        nb_methodName = ''copyRandomList'', nb_parameterNames = [''head'']\<rparr>,
      fx_hints = [
        \<lparr>nh_hintText = ''You need to create new nodes and correctly wire their next and random pointers. The challenge is mapping original nodes to their copies for the random pointers.'', nh_orderIndex = 0\<rparr>,
        \<lparr>nh_hintText = ''Use a hash map from original node to copy node. First pass: create all copy nodes. Second pass: for each original node, set copy.next and copy.random using the map to look up the corresponding copy nodes.'', nh_orderIndex = 1\<rparr>]\<rparr>"

definition add_two_numbers_fixture :: fixture where
  "add_two_numbers_fixture =
     \<lparr>fx_problem = \<lparr>np_slug = ''add-two-numbers'', np_title = ''Add Two Numbers'', np_difficulty = ''medium'',
        np_category = ''Linked List'',
        np_description = ''You are given two non-empty linked lists representing two non-negative integers. The digits are stored in reverse order, and each of their nodes contains a single digit. Add the two numbers and return the sum as a linked list.\<newline>\<newline>You may assume the two numbers do not contain any leading zero, except the number 0 itself.'',
        np_constraints = [''The number of nodes in each linked list is in the range [1, 100].'', ''0 <= Node.val <= 9'', ''It is guaranteed that the list represents a number that does not have leading zeros.''],
        np_solution = Some ''Traverse both lists simultaneously, adding corresponding digits along with any carry. Create new nodes for each digit of the result. Continue until both lists and the carry are exhausted.'',
        np_timeLimitMs = 5000, np_source = ''curated'', np_sourceUrl = Some ''https://leetcode.com/problems/add-two-numbers/''\<rparr>,
      fx_testCases = [
          fx_case [(''l1'', jints [2, 4, 3]), (''l2'', jints [5, 6, 4])] (jints [7, 0, 8]) True 0,
          fx_case [(''l1'', jints [0]), (''l2'', jints [0])] (jints [0]) True 1,
          fx_case [(''l1'', jints [9, 9, 9, 9, 9, 9, 9]), (''l2'', jints [9, 9, 9, 9])] (jints [8, 9, 9, 9, 0, 0, 0,
            1]) True 2,
          fx_case [(''l1'', jints [1]), (''l2'', jints [9, 9])] (jints [0, 0, 1]) False 3,
          fx_case [(''l1'', jints [5]), (''l2'', jints [5])] (jints [0, 1]) False 4,
          fx_case [(''l1'', jints [1, 2, 3]), (''l2'', jints [1, 2, 3])] (jints [2, 4, 6]) False 5,
          fx_case [(''l1'', jints [0, 0, 1]), (''l2'', jints [0, 0, 1])] (jints [0, 0, 2]) False 6,
          fx_case [(''l1'', jints [9]), (''l2'', jints [1])] (jints [0, 1]) False 7],
      fx_boilerplate = \<lparr>nb_language = ''python'', nb_template = ''# Definition for singly-linked list.\<newline># class ListNode:\<newline>#     def __init__(self, val=0, next=None):\<newline>#         self.val = val\<newline>#         self.next = next\<newline>class Solution:\<newline>    def addTwoNumbers(self, l1: Optional[ListNode], l2: Optional[ListNode]) -> Optional[ListNode]:\<newline>        pass'',
        nb_methodName = ''addTwoNumbers'', nb_parameterNames = [''l1'', ''l2'']\<rparr>,
      fx_hints = [
        \<lparr>nh_hintText = ''Since the digits are stored in reverse order, the head of each list is the ones digit. You can add digits from head to tail, just like manual addition.'', nh_orderIndex = 0\<rparr>,
        \<lparr>nh_hintText = ''Traverse both lists simultaneously, maintaining a carry variable. For each position, compute sum = l1.val + l2.val + carry. The new digit is sum % 10 and the new carry is sum // 10.'', nh_orderIndex = 1\<rparr>]\<rparr>"

definition find_the_duplicate_number_fixture :: fixture where
  "find_the_duplicate_number_fixture =
     \<lparr>fx_problem = \<lparr>np_slug = ''find-the-duplicate-number'', np_title = ''Find The Duplicate Number'', np_difficulty = ''medium'',
        np_category = ''Linked List'',
        np_description = ''Given an array of integers `nums` containing `n + 1` integers where each integer is in the range `[1, n]` inclusive.\<newline>\<newline>There is only one repeated number in `nums`, return this repeated number.\<newline>\<newline>You must solve the problem without modifying the array `nums` and using only constant extra space.'',
        np_constraints = [''1 <= n <= 10^5'', ''nums.length == n + 1'', ''1 <= nums[i] <= n'', ''There is only one repeated number in nums, but it could be repeated more than once.''],
        np_solution = Some ''Treat the array as a linked list where index i points to nums[i]. Use Floyd's cycle detection to find the cycle entrance, which is the duplicate number.'',
        np_timeLimitMs = 5000, np_source = ''curated'', np_sourceUrl = Some ''https://leetcode.com/problems/find-the-duplicate-number/''\<rparr>,
      fx_testCases = [
          fx_case [(''nums'', jints [1, 3, 4, 2, 2])] (jint 2) True 0,
          fx_case [(''nums'', jints [3, 1, 3, 4, 2])] (jint 3) True 1,
          fx_case [(''nums'', jints [3, 3, 3, 3, 3])] (jint 3) True 2,
          fx_case [(''nums'', jints [1, 1])] (jint 1) False 3,
          fx_case [(''nums'', jints [2, 2, 2, 2, 2])] (jint 2) False 4,
          fx_case [(''nums'', jints [1, 4, 4, 2, 4])] (jint 4) False 5,
          fx_case [(''nums'', jints [1, 2, 3, 4, 5, 5])] (jint 5) False 6,
          fx_case [(''nums'', jints [2, 5, 9, 6, 9, 3, 8, 9, 7, 1])] (jint 9) False 7],
      fx_boilerplate = \<lparr>nb_language = ''python'', nb_template = ''class Solution:\<newline>    def findDuplicate(self, nums: List[int]) -> int:\<newline>        pass'',
        nb_methodName = ''findDuplicate'', nb_parameterNames = [''nums'']\<rparr>,
      fx_hints = [
        \<lparr>nh_hintText = ''Think of the array as a function f(i) = nums[i]. Since values are in [1, n] and there are n+1 entries, there must be a cycle in the sequence i -> nums[i] -> nums[nums[i]] -> ...'', nh_orderIndex = 0\<rparr>,
        \<lparr>nh_hintText = ''Use Floyd's cycle detection (tortoise and hare). The entrance to the cycle is the duplicate number. Phase 1: find intersection point. Phase 2: find cycle entrance.'', nh_orderIndex = 1\<rparr>]\<rparr>"

definition lru_cache_fixture :: fixture where
  "lru_cache_fixture =
     \<lparr>fx_problem = \<lparr>np_slug = ''lru-cache'', np_title = ''LRU Cache'', np_difficulty = ''medium'',
        np_category = ''Linked List'',
        np_description = ''Design a data structure that follows the constraints of a Least Recently Used (LRU) cache.\<newline>\<newline>Implement the `LRUCache` class:\<newline>\<newline>- `LRUCache(int capacity)` Initialize the LRU cache with positive size `capacity`.\<newline>- `int get(int key)` Return the value of the `key` if the key exists, otherwise return `-1`.\<newline>- `void put(int key, int value)` Update the value of the `key` if the `key` exists. Otherwise, add the `key-value` pair to the cache. If the number of keys exceeds the `capacity` from this operation, evict the least recently used key.\<newline>\<newline>The functions `get` and `put` must each run in O(1) average time complexity.'',
        np_constraints = [''1 <= capacity <= 3000'', ''0 <= key <= 10^4'', ''0 <= value <= 10^5'', ''At most 2 * 10^5 calls will be made to get and put.''],
        np_solution = Some ''Combine a hash map (key -> node) with a doubly linked list (ordered by recency). Get and put both move the accessed node to the head. When capacity is exceeded, remove the tail node and delete its key from the map.'',
        np_timeLimitMs = 5000, np_source = ''curated'', np_sourceUrl = Some ''https://leetcode.com/problems/lru-cache/''\<rparr>,
      fx_testCases = [
          fx_case [(''operations'', jstrs [''LRUCache'', ''put'', ''put'', ''get'', ''put'', ''get'', ''put'',
            ''get'', ''get'', ''get'']), (''args'', JArr [jints [2], jints [1, 1], jints [2, 2], jints [1], jints [3,
            3], jints [2], jints [4, 4], jints [1], jints [3], jints [4]])] (JArr [JNull, JNull, JNull, jint 1,
            JNull, jint (- 1), JNull, jint (- 1), jint 3, jint 4]) True 0,
          fx_case [(''operations'', jstrs [''LRUCache'', ''put'', ''get'', ''put'', ''get'', ''get'']), (''args'',
            JArr [jints [1], jints [1, 1], jints [1], jints [2, 2], jints [1], jints [2]])] (JArr [JNull, JNull,
            jint 1, JNull, jint (- 1), jint 2]) True 1,
          fx_case [(''operations'', jstrs [''LRUCache'', ''put'', ''put'', ''get'', ''get'']), (''args'',
            JArr [jints [2], jints [1, 10], jints [2, 20], jints [1], jints [2]])] (JArr [JNull, JNull, JNull,
            jint 10, jint 20]) True 2,
          fx_case [(''operations'', jstrs [''LRUCache'', ''put'', ''put'', ''put'', ''get'']), (''args'',
            JArr [jints [2], jints [1, 1], jints [2, 2], jints [3, 3], jints [1]])] (JArr [JNull, JNull, JNull,
            JNull, jint (- 1)]) False 3,
          fx_case [(''operations'', jstrs [''LRUCache'', ''get'']), (''args'', JArr [jints [1],
            jints [1]])] (JArr [JNull, jint (- 1)]) False 4,
          fx_case [(''operations'', jstrs [''LRUCache'', ''put'', ''put'', ''get'', ''put'', ''get'']), (''args'',
            JArr [jints [2], jints [1, 1], jints [2, 2], jints [2], jints [3, 3], jints [1]])] (JArr [JNull, JNull,
            JNull, jint 2, JNull, jint (- 1)]) False 5,
          fx_case [(''operations'', jstrs [''LRUCache'', ''put'', ''put'', ''put'', ''put'', ''get'', ''get'']),
            (''args'', JArr [jints [2], jints [2, 1], jints [1, 1], jints [2, 3], jints [4, 1], jints [1],
            jints [2]])] (JArr [JNull, JNull, JNull, JNull, JNull, jint (- 1), jint 3]) False 6,
          fx_case [(''operations'', jstrs [''LRUCache'', ''put'', ''get'', ''put'', ''get'']), (''args'',
            JArr [jints [1], jints [1, 42], jints [1], jints [1, 99], jints [1]])] (JArr [JNull, JNull, jint 42,
            JNull, jint 99]) False 7],
      fx_boilerplate = \<lparr>nb_language = ''python'', nb_template = ''class LRUCache:\<newline>    def __init__(self, capacity: int):\<newline>        pass\<newline>\<newline>    def get(self, key: int) -> int:\<newline>        pass\<newline>\<newline>    def put(self, key: int, value: int) -> None:\<newline>        pass'',
        nb_methodName = ''LRUCache'', nb_parameterNames = [''capacity'']\<rparr>,
      fx_hints = [
        \<lparr>nh_hintText = ''You need O(1) lookup by key and O(1) insertion/removal by recency. Think about which data structures provide these properties.'', nh_orderIndex = 0\<rparr>,
        \<lparr>nh_hintText = ''Use a hash map for O(1) key lookup and a doubly linked list to maintain access order. The most recently used item goes to the front, and the least recently used item (at the tail) gets evicted when capacity is exceeded.'', nh_orderIndex = 1\<rparr>]\<rparr>"

definition merge_k_sorted_lists_fixture :: fixture where
  "merge_k_sorted_lists_fixture =
     \<lparr>fx_problem = \<lparr>np_slug = ''merge-k-sorted-lists'', np_title = ''Merge K Sorted Lists'', np_difficulty = ''hard'',
        np_category = ''Linked List'',
        np_description = ''You are given an array of `k` linked-lists `lists`, each linked-list is sorted in ascending order.\<newline>\<newline>Merge all the linked-lists into one sorted linked-list and return it.'',
        np_constraints = [''k == lists.length'', ''0 <= k <= 10^4'', ''0 <= lists[i].length <= 500'', ''-10^4 <= lists[i][j] <= 10^4'', ''lists[i] is sorted in ascending order.'', ''The sum of lists[i].length will not exceed 10^4.''],
        np_solution = Some ''Use a min-heap (priority queue) to efficiently find the smallest element among all list heads. Push the head of each list into the heap. Repeatedly extract the minimum, add it to the result, and push the next node from that list.'',
        np_timeLimitMs = 5000, np_source = ''curated'', np_sourceUrl = Some ''https://leetcode.com/problems/merge-k-sorted-lists/''\<rparr>,
      fx_testCases = [
          fx_case [(''lists'', JArr [jints [1, 4, 5], jints [1, 3, 4], jints [2, 6]])] (jints [1, 1, 2, 3, 4, 4, 5,
            6]) True 0,
          fx_case [(''lists'', JArr [])] (JArr []) True 1,
          fx_case [(''lists'', JArr [JArr []])] (JArr []) True 2,
          fx_case [(''lists'', JArr [jints [1]])] (jints [1]) False 3,
          fx_case [(''lists'', JArr [jints [1, 2], jints [3, 4], jints [5, 6]])] (jints [1, 2, 3, 4, 5, 6]) False 4,
          fx_case [(''lists'', JArr [jints [- 1, 0, 1], jints [- 2, 0, 2]])] (jints [- 2, - 1, 0, 0, 1, 2]) False 5,
          fx_case [(''lists'', JArr [jints [1], jints [1], jints [1]])] (jints [1, 1, 1]) False 6,
          fx_case [(''lists'', JArr [JArr [], jints [1], JArr []])] (jints [1]) False 7],
      fx_boilerplate = \<lparr>nb_language = ''python'', nb_template = ''# Definition for singly-linked list.\<newline># class ListNode:\<newline>#     def __init__(self, val=0, next=None):\<newline>#         self.val = val\<newline>#         self.next = next\<newline>class Solution:\<newline>    def mergeKLists(self, lists: List[Optional[ListNode]]) -> Optional[ListNode]:\<newline>        pass'',
        nb_methodName = ''mergeKLists'', nb_parameterNames = [''lists'']\<rparr>,
      fx_hints = [
        \<lparr>nh_hintText = ''You need to repeatedly find the smallest element across k list heads. A brute force comparison each time is O(k). Can you do better?'', nh_orderIndex = 0\<rparr>,
        \<lparr>nh_hintText = ''A min-heap (priority queue) lets you extract the minimum in O(log k) time. Push the head of each non-empty list into the heap.'', nh_orderIndex = 1\<rparr>,
        \<lparr>nh_hintText = ''Initialize the heap with all list heads. Pop the minimum node, add it to the result. If that node has a next, push it into the heap. Continue until the heap is empty.'', nh_orderIndex = 2\<rparr>]\<rparr>"

definition reverse_nodes_in_k_group_fixture :: fixture where
  "reverse_nodes_in_k_group_fixture =
     \<lparr>fx_problem = \<lparr>np_slug = ''reverse-nodes-in-k-group'', np_title = ''Reverse Nodes in K-Group'', np_difficulty = ''hard'',
        np_category = ''Linked List'',
        np_description = ''Given the `head` of a linked list, reverse the nodes of the list `k` at a time, and return the modified list.\<newline>\<newline>`k` is a positive integer and is less than or equal to the length of the linked list. If the number of nodes is not a multiple of `k` then left-out nodes, in the end, should remain as it is.\<newline>\<newline>You may not alter the values in the list's nodes, only nodes themselves may be changed.'',
        np_constraints = [''The number of nodes in the list is n.'', ''1 <= k <= n <= 5000'', ''0 <= Node.val <= 1000''],
        np_solution = Some ''Process the list in groups of k. For each group, check if k nodes remain. If so, reverse those k nodes in place, then connect the reversed group to the previous part. Use a dummy head and track group boundaries.'',
        np_timeLimitMs = 5000, np_source = ''curated'', np_sourceUrl = Some ''https://leetcode.com/problems/reverse-nodes-in-k-group/''\<rparr>,
      fx_testCases = [
          fx_case [(''head'', jints [1, 2, 3, 4, 5]), (''k'', jint 2)] (jints [2, 1, 4, 3, 5]) True 0,
          fx_case [(''head'', jints [1, 2, 3, 4, 5]), (''k'', jint 3)] (jints [3, 2, 1, 4, 5]) True 1,
          fx_case [(''head'', jints [1, 2, 3, 4, 5]), (''k'', jint 1)] (jints [1, 2, 3, 4, 5]) True 2,
          fx_case [(''head'', jints [1, 2, 3, 4, 5]), (''k'', jint 5)] (jints [5, 4, 3, 2, 1]) False 3,
          fx_case [(''head'', jints [1]), (''k'', jint 1)] (jints [1]) False 4,
          fx_case [(''head'', jints [1, 2]), (''k'', jint 2)] (jints [2, 1]) False 5,
          fx_case [(''head'', jints [1, 2, 3, 4]), (''k'', jint 2)] (jints [2, 1, 4, 3]) False 6,
          fx_case [(''head'', jints [1, 2, 3, 4, 5, 6]), (''k'', jint 4)] (jints [4, 3, 2, 1, 5, 6]) False 7],
      fx_boilerplate = \<lparr>nb_language = ''python'', nb_template = ''# Definition for singly-linked list.\<newline># class ListNode:\<newline>#     def __init__(self, val=0, next=None):\<newline>#         self.val = val\<newline>#         self.next = next\<newline>class Solution:\<newline>    def reverseKGroup(self, head: Optional[ListNode], k: int) -> Optional[ListNode]:\<newline>        pass'',
        nb_methodName = ''reverseKGroup'', nb_parameterNames = [''head'', ''k'']\<rparr>,
      fx_hints = [
        \<lparr>nh_hintText = ''Process the list one group of k nodes at a time. Before reversing a group, check if there are at least k nodes remaining.'', nh_orderIndex = 0\<rparr>,
        \<lparr>nh_hintText = ''For each group, reverse k nodes in place. Keep track of the node before the group (to connect after reversal) and the node after the group.'', nh_orderIndex = 1\<rparr>,
        \<lparr>nh_hintText = ''Use a dummy node before head. For each group: (1) count k nodes ahead, (2) reverse those k nodes, (3) connect the previous group's tail to the new head, (4) the old head becomes the new tail for connecting the next group.'', nh_orderIndex = 2\<rparr>]\<rparr>"

definition linkedListProblems :: "fixture list" where
  "linkedListProblems =
     [reverse_linked_list_fixture,
      merge_two_sorted_lists_fixture,
      linked_list_cycle_fixture,
      reorder_list_fixture,
      remove_nth_node_from_end_of_list_fixture,
      copy_list_with_random_pointer_fixture,
      add_two_numbers_fixture,
      find_the_duplicate_number_fixture,
      lru_cache_fixture,
      merge_k_sorted_lists_fixture,
      reverse_nodes_in_k_group_fixture]"

lemma linkedListProblems_facts:
  "map seed_facts linkedListProblems =
     [(''reverse-linked-list'', True, True, True),
      (''merge-two-sorted-lists'', True, True, True),
      (''linked-list-cycle'', True, False, True),
      (''reorder-list'', True, True, True),
      (''remove-nth-node-from-end-of-list'', True, True, True),
      (''copy-list-with-random-pointer'', True, True, False),
      (''add-two-numbers'', True, True, True),
      (''find-the-duplicate-number'', True, True, True),
      (''lru-cache'', True, False, True),
      (''merge-k-sorted-lists'', True, True, True),
      (''reverse-nodes-in-k-group'', True, True, True)]"
  by (simp add: linkedListProblems_def seed_evaluation cong: seed_congs add:
      reverse_linked_list_fixture_def
      merge_two_sorted_lists_fixture_def
      linked_list_cycle_fixture_def
      reorder_list_fixture_def
      remove_nth_node_from_end_of_list_fixture_def
      copy_list_with_random_pointer_fixture_def
      add_two_numbers_fixture_def
      find_the_duplicate_number_fixture_def
      lru_cache_fixture_def
      merge_k_sorted_lists_fixture_def
      reverse_nodes_in_k_group_fixture_def)

end
