(* ===== verification/Seed_Trees.thy ===== *)
theory Seed_Trees
  imports Seed_Base
begin

text \<open>The problems of \<^verbatim>\<open>trees.ts\<close>, \<^verbatim>\<open>tries.ts\<close> under
  \<^verbatim>\<open>packages/db/src/seeds/data\<close>, in the order of the files.\<close>

section \<open>trees\<close>

definition invert_binary_tree_fixture :: fixture where
  "invert_binary_tree_fixture =
     \<lparr>fx_problem = \<lparr>np_slug = ''invert-binary-tree'', np_title = ''Invert Binary Tree'', np_difficulty = ''easy'',
        np_category = ''Trees'',
        np_description = ''Given the `root` of a binary tree, invert the tree, and return its root.\<newline>\<newline>Inverting a binary tree means swapping every left child with its corresponding right child.'',
        np_constraints = [''The number of nodes in the tree is in the range [0, 100].'', ''-100 <= Node.val <= 100''],
        np_solution = Some ''Recursively swap the left and right children of every node. Base case: if the node is null, return null.'',
        np_timeLimitMs = 5000, np_source = ''curated'', np_sourceUrl = Some ''https://leetcode.com/problems/invert-binary-tree/''\<rparr>,
      fx_testCases = [
          fx_case [(''root'', jints [4, 2, 7, 1, 3, 6, 9])] (jints [4, 7, 2, 9, 6, 3, 1]) True 0,
          fx_case [(''root'', jints [2, 1, 3])] (jints [2, 3, 1]) True 1,
          fx_case [(''root'', JArr [])] (JArr []) True 2,
          fx_case [(''root'', jints [1])] (jints [1]) False 3,
          fx_case [(''root'', JArr [jint 1, jint 2, JNull])] (JArr [jint 1, JNull, jint 2]) False 4,
          fx_case [(''root'', JArr [jint 1, JNull, jint 2])] (JArr [jint 1, jint 2, JNull]) False 5,
          fx_case [(''root'', jints [1, 2, 3, 4, 5, 6, 7])] (jints [1, 3, 2, 7, 6, 5, 4]) False 6,
          fx_case [(''root'', jints [5, 3, 8, 1, 4, 7, 9])] (jints [5, 8, 3, 9, 7, 4, 1]) False 7],
      fx_boilerplate = \<lparr>nb_language = ''python'', nb_template = ''# Definition for a binary tree node.\<newline># class TreeNode:\<newline>#     def __init__(self, val=0, left=None, right=None):\<newline>#         self.val = val\<newline>#         self.left = left\<newline>#         self.right = right\<newline>class Solution:\<newline>    def invertTree(self, root: Optional[TreeNode]) -> Optional[TreeNode]:\<newline>        pass'',
        nb_methodName = ''invertTree'', nb_parameterNames = [''root'']\<rparr>,
      fx_hints = [
        \<lparr>nh_hintText = ''At each node, swap its left and right children, then recursively do the same for both subtrees.'', nh_orderIndex = 0\<rparr>]\<rparr>"

definition maximum_depth_of_binary_tree_fixture :: fixture where
  "maximum_depth_of_binary_tree_fixture =
     \<lparr>fx_problem = \<lparr>np_slug = ''maximum-depth-of-binary-tree'', np_title = ''Maximum Depth of Binary Tree'', np_difficulty = ''easy'',
        np_category = ''Trees'',
        np_description = ''Given the `root` of a binary tree, return its maximum depth.\<newline>\<newline>A binary tree's maximum depth is the number of nodes along the longest path from the root node down to the farthest leaf node.'',
        np_constraints = [''The number of nodes in the tree is in the range [0, 10^4].'', ''-100 <= Node.val <= 100''],
        np_solution = Some ''Recursively compute the depth: return 0 for null, otherwise return 1 + max(depth(left), depth(right)).'',
        np_timeLimitMs = 5000, np_source = ''curated'', np_sourceUrl = Some ''https://leetcode.com/problems/maximum-depth-of-binary-tree/''\<rparr>,
      fx_testCases = [
          fx_case [(''root'', JArr [jint 3, jint 9, jint 20, JNull, JNull, jint 15, jint 7])] (jint 3) True 0,
          fx_case [(''root'', JArr [jint 1, JNull, jint 2])] (jint 2) True 1,
          fx_case [(''root'', JArr [])] (jint 0) True 2,
          fx_case [(''root'', jints [1])] (jint 1) False 3,
          fx_case [(''root'', JArr [jint 1, jint 2, jint 3, jint 4, JNull, JNull, jint 5])] (jint 3) False 4,
          fx_case [(''root'', JArr [jint 1, jint 2, JNull, jint 3, JNull, jint 4, JNull])] (jint 4) False 5,
          fx_case [(''root'', jints [1, 2, 3])] (jint 2) False 6,
          fx_case [(''root'', jints [0, 0, 0, 0, 0, 0, 0])] (jint 3) False 7],
      fx_boilerplate = \<lparr>nb_language = ''python'', nb_template = ''# Definition for a binary tree node.\<newline># class TreeNode:\<newline>#     def __init__(self, val=0, left=None, right=None):\<newline>#         self.val = val\<newline>#         self.left = left\<newline>#         self.right = right\<newline>class Solution:\<newline>    def maxDepth(self, root: Optional[TreeNode]) -> int:\<newline>        pass'',
        nb_methodName = ''maxDepth'', nb_parameterNames = [''root'']\<rparr>,
      fx_hints = [
        \<lparr>nh_hintText = ''The depth of a tree is 1 + the maximum depth of its subtrees. What is the depth of an empty tree?'', nh_orderIndex = 0\<rparr>]\<rparr>"

definition diameter_of_binary_tree_fixture :: fixture where
  "diameter_of_binary_tree_fixture =
     \<lparr>fx_problem = \<lparr>np_slug = ''diameter-of-binary-tree'', np_title = ''Diameter of Binary Tree'', np_difficulty = ''easy'',
        np_category = ''Trees'',
        np_description = ''Given the `root` of a binary tree, return the length of the diameter of the tree.\<newline>\<newline>The diameter of a binary tree is the length of the longest path between any two nodes in a tree. This path may or may not pass through the `root`.\<newline>\<newline>The length of a path between two nodes is represented by the number of edges between them.'',
        np_constraints = [''The number of nodes in the tree is in the range [1, 10^4].'', ''-100 <= Node.val <= 100''],
        np_solution = Some ''For each node, the diameter through it is left_height + right_height. Compute heights recursively while tracking the maximum diameter seen.'',
        np_timeLimitMs = 5000, np_source = ''curated'', np_sourceUrl = Some ''https://leetcode.com/problems/diameter-of-binary-tree/''\<rparr>,
      fx_testCases = [
          fx_case [(''root'', jints [1, 2, 3, 4, 5])] (jint 3) True 0,
          fx_case [(''root'', jints [1, 2])] (jint 1) True 1,
          fx_case [(''root'', jints [1])] (jint 0) True 2,
          fx_case [(''root'', JArr [jint 1, jint 2, jint 3, jint 4, jint 5, JNull, JNull, jint 6])] (jint 4) False 3,
          fx_case [(''root'', JArr [jint 1, jint 2, JNull, jint 3, JNull, jint 4, JNull])] (jint 3) False 4,
          fx_case [(''root'', jints [1, 2, 3])] (jint 2) False 5,
          fx_case [(''root'', JArr [jint 1, JNull, jint 2, JNull, jint 3])] (jint 2) False 6,
          fx_case [(''root'', jints [4, 2, 6, 1, 3, 5, 7])] (jint 4) False 7],
      fx_boilerplate = \<lparr>nb_language = ''python'', nb_template = ''# Definition for a binary tree node.\<newline># class TreeNode:\<newline>#     def __init__(self, val=0, left=None, right=None):\<newline>#         self.val = val\<newline>#         self.left = left\<newline>#         self.right = right\<newline>class Solution:\<newline>    def diameterOfBinaryTree(self, root: Optional[TreeNode]) -> int:\<newline>        pass'',
        nb_methodName = ''diameterOfBinaryTree'', nb_parameterNames = [''root'']\<rparr>,
      fx_hints = [
        \<lparr>nh_hintText = ''The diameter passing through a node equals the sum of the heights of its left and right subtrees. Compute heights recursively and track the maximum diameter.'', nh_orderIndex = 0\<rparr>]\<rparr>"

definition balanced_binary_tree_fixture :: fixture where
  "balanced_binary_tree_fixture =
     \<lparr>fx_problem = \<lparr>np_slug = ''balanced-binary-tree'', np_title = ''Balanced Binary Tree'', np_difficulty = ''easy'',
        np_category = ''Trees'',
        np_description = ''Given a binary tree, determine if it is height-balanced.\<newline>\<newline>A height-balanced binary tree is a binary tree in which the depth of the two subtrees of every node never differs by more than one.'',
        np_constraints = [''The number of nodes in the tree is in the range [0, 5000].'', ''-10^4 <= Node.val <= 10^4''],
        np_solution = Some ''Recursively compute the height of each subtree. At each node, if the height difference between left and right exceeds 1, the tree is not balanced. Use -1 as a sentinel to propagate imbalance upward.'',
        np_timeLimitMs = 5000, np_source = ''curated'', np_sourceUrl = Some ''https://leetcode.com/problems/balanced-binary-tree/''\<rparr>,
      fx_testCases = [
          fx_case [(''root'', JArr [jint 3, jint 9, jint 20, JNull, JNull, jint 15, jint 7])] (JBool True) True 0,
          fx_case [(''root'', JArr [jint 1, jint 2, jint 2, jint 3, jint 3, JNull, JNull, jint 4,
            jint 4])] (JBool False) True 1,
          fx_case [(''root'', JArr [])] (JBool True) True 2,
          fx_case [(''root'', jints [1])] (JBool True) False 3,
          fx_case [(''root'', jints [1, 2, 3, 4, 5, 6, 7])] (JBool True) False 4,
          fx_case [(''root'', JArr [jint 1, jint 2, JNull, jint 3, JNull, jint 4, JNull])] (JBool False) False 5,
          fx_case [(''root'', JArr [jint 1, jint 2, jint 3, jint 4, JNull, JNull, jint 5])] (JBool True) False 6,
          fx_case [(''root'', JArr [jint 1, JNull, jint 2, JNull, jint 3])] (JBool False) False 7],
      fx_boilerplate = \<lparr>nb_language = ''python'', nb_template = ''# Definition for a binary tree node.\<newline># class TreeNode:\<newline>#     def __init__(self, val=0, left=None, right=None):\<newline>#         self.val = val\<newline>#         self.left = left\<newline>#         self.right = right\<newline>class Solution:\<newline>    def isBalanced(self, root: Optional[TreeNode]) -> bool:\<newline>        pass'',
        nb_methodName = ''isBalanced'', nb_parameterNames = [''root'']\<rparr>,
      fx_hints = [
        \<lparr>nh_hintText = ''Compute the height of each subtree recursively. If at any node the left and right heights differ by more than 1, the tree is unbalanced. Return -1 as a sentinel to short-circuit.'', nh_orderIndex = 0\<rparr>]\<rparr>"

definition same_tree_fixture :: fixture where
  "same_tree_fixture =
     \<lparr>fx_problem = \<lparr>np_slug = ''same-tree'', np_title = ''Same Tree'', np_difficulty = ''easy'',
        np_category = ''Trees'',
        np_description = ''Given the roots of two binary trees `p` and `q`, write a function to check if they are the same or not.\<newline>\<newline>Two binary trees are considered the same if they are structurally identical, and the nodes have the same value.'',
        np_constraints = [''The number of nodes in both trees is in the range [0, 100].'', ''-10^4 <= Node.val <= 10^4''],
        np_solution = Some ''Recursively compare both trees. Two trees are the same if both are null, or both are non-null with equal values and their left and right subtrees are the same.'',
        np_timeLimitMs = 5000, np_source = ''curated'', np_sourceUrl = Some ''https://leetcode.com/problems/same-tree/''\<rparr>,
      fx_testCases = [
          fx_case [(''p'', jints [1, 2, 3]), (''q'', jints [1, 2, 3])] (JBool True) True 0,
          fx_case [(''p'', jints [1, 2]), (''q'', JArr [jint 1, JNull, jint 2])] (JBool False) True 1,
          fx_case [(''p'', jints [1, 2, 1]), (''q'', jints [1, 1, 2])] (JBool False) True 2,
          fx_case [(''p'', JArr []), (''q'', JArr [])] (JBool True) False 3,
          fx_case [(''p'', jints [1]), (''q'', jints [1])] (JBool True) False 4,
          fx_case [(''p'', jints [1]), (''q'', JArr [])] (JBool False) False 5,
          fx_case [(''p'', jints [1, 2, 3, 4, 5]), (''q'', jints [1, 2, 3, 4, 5])] (JBool True) False 6,
          fx_case [(''p'', jints [1, 2, 3, 4, 5]), (''q'', jints [1, 2, 3, 4, 6])] (JBool False) False 7],
      fx_boilerplate = \<lparr>nb_language = ''python'', nb_template = ''# Definition for a binary tree node.\<newline># class TreeNode:\<newline>#     def __init__(self, val=0, left=None, right=None):\<newline>#         self.val = val\<newline>#         self.left = left\<newline>#         self.right = right\<newline>class Solution:\<newline>    def isSameTree(self, p: Optional[TreeNode], q: Optional[TreeNode]) -> bool:\<newline>        pass'',
        nb_methodName = ''isSameTree'', nb_parameterNames = [''p'', ''q'']\<rparr>,
      fx_hints = [
        \<lparr>nh_hintText = ''Two trees are the same if both roots are null, or both are non-null with equal values and recursively identical left and right subtrees.'', nh_orderIndex = 0\<rparr>]\<rparr>"

definition subtree_of_another_tree_fixture :: fixture where
  "subtree_of_another_tree_fixture =
     \<lparr>fx_problem = \<lparr>np_slug = ''subtree-of-another-tree'', np_title = ''Subtree of Another Tree'', np_difficulty = ''easy'',
        np_category = ''Trees'',
        np_description = ''Given the roots of two binary trees `root` and `subRoot`, return `true` if there is a subtree of `root` with the same structure and node values of `subRoot` and `false` otherwise.\<newline>\<newline>A subtree of a binary tree `tree` is a tree that consists of a node in `tree` and all of this node's descendants. The tree `tree` could also be considered as a subtree of itself.'',
        np_constraints = [''The number of nodes in the root tree is in the range [1, 2000].'', ''The number of nodes in the subRoot tree is in the range [1, 1000].'', ''-10^4 <= root.val <= 10^4'', ''-10^4 <= subRoot.val <= 10^4''],
        np_solution = Some ''For each node in root, check if the subtree rooted there is identical to subRoot using the same-tree check. Traverse the entire tree recursively.'',
        np_timeLimitMs = 5000, np_source = ''curated'', np_sourceUrl = Some ''https://leetcode.com/problems/subtree-of-another-tree/''\<rparr>,
      fx_testCases = [
          fx_case [(''root'', jints [3, 4, 5, 1, 2]), (''subRoot'', jints [4, 1, 2])] (JBool True) True 0,
          fx_case [(''root'', JArr [jint 3, jint 4, jint 5, jint 1, jint 2, JNull, JNull, JNull, JNull, jint 0]),
            (''subRoot'', jints [4, 1, 2])] (JBool False) True 1,
          fx_case [(''root'', jints [1, 1]), (''subRoot'', jints [1])] (JBool True) True 2,
          fx_case [(''root'', jints [1]), (''subRoot'', jints [1])] (JBool True) False 3,
          fx_case [(''root'', jints [1, 2, 3]), (''subRoot'', jints [2])] (JBool True) False 4,
          fx_case [(''root'', jints [1, 2, 3]), (''subRoot'', jints [1, 2, 3])] (JBool True) False 5,
          fx_case [(''root'', JArr [jint 1, JNull, jint 2]), (''subRoot'', jints [1, 2])] (JBool False) False 6,
          fx_case [(''root'', JArr [jint 3, jint 4, jint 5, jint 1, JNull, jint 2]), (''subRoot'', jints [3, 1,
            2])] (JBool False) False 7],
      fx_boilerplate = \<lparr>nb_language = ''python'', nb_template = ''# Definition for a binary tree node.\<newline># class TreeNode:\<newline>#     def __init__(self, val=0, left=None, right=None):\<newline>#         self.val = val\<newline>#         self.left = left\<newline>#         self.right = right\<newline>class Solution:\<newline>    def isSubtree(self, root: Optional[TreeNode], subRoot: Optional[TreeNode]) -> bool:\<newline>        pass'',
        nb_methodName = ''isSubtree'', nb_parameterNames = [''root'', ''subRoot'']\<rparr>,
      fx_hints = [
        \<lparr>nh_hintText = ''For each node in the main tree, check if the subtree rooted at that node is identical to subRoot. Reuse same-tree comparison logic.'', nh_orderIndex = 0\<rparr>]\<rparr>"

definition lowest_common_ancestor_of_a_binary_search_tree_fixture :: fixture where
  "lowest_common_ancestor_of_a_binary_search_tree_fixture =
     \<lparr>fx_problem = \<lparr>np_slug = ''lowest-common-ancestor-of-a-binary-search-tree'', np_title = ''Lowest Common Ancestor of a Binary Search Tree'', np_difficulty = ''medium'',
        np_category = ''Trees'',
        np_description = ''Given a binary search tree (BST), find the lowest common ancestor (LCA) node of two given nodes in the BST.\<newline>\<newline>According to the definition of LCA on Wikipedia: \"The lowest common ancestor is defined between two nodes `p` and `q` as the lowest node in `T` that has both `p` and `q` as descendants (where we allow a node to be a descendant of itself).\"'',
        np_constraints = [''The number of nodes in the tree is in the range [2, 10^5].'', ''-10^9 <= Node.val <= 10^9'', ''All Node.val are unique.'', ''p != q'', ''p and q will exist in the BST.''],
        np_solution = Some ''Exploit BST properties. If both p and q are smaller than the current node, go left. If both are larger, go right. Otherwise, the current node is the LCA.'',
        np_timeLimitMs = 5000, np_source = ''curated'', np_sourceUrl = Some ''https://leetcode.com/problems/lowest-common-ancestor-of-a-binary-search-tree/''\<rparr>,
      fx_testCases = [
          fx_case [(''root'', JArr [jint 6, jint 2, jint 8, jint 0, jint 4, jint 7, jint 9, JNull, JNull, jint 3,
            jint 5]), (''p'', jint 2), (''q'', jint 8)] (jint 6) True 0,
          fx_case [(''root'', JArr [jint 6, jint 2, jint 8, jint 0, jint 4, jint 7, jint 9, JNull, JNull, jint 3,
            jint 5]), (''p'', jint 2), (''q'', jint 4)] (jint 2) True 1,
          fx_case [(''root'', jints [2, 1]), (''p'', jint 2), (''q'', jint 1)] (jint 2) True 2,
          fx_case [(''root'', JArr [jint 6, jint 2, jint 8, jint 0, jint 4, jint 7, jint 9, JNull, JNull, jint 3,
            jint 5]), (''p'', jint 0), (''q'', jint 5)] (jint 2) False 3,
          fx_case [(''root'', JArr [jint 6, jint 2, jint 8, jint 0, jint 4, jint 7, jint 9, JNull, JNull, jint 3,
            jint 5]), (''p'', jint 7), (''q'', jint 9)] (jint 8) False 4,
          fx_case [(''root'', JArr [jint 6, jint 2, jint 8, jint 0, jint 4, jint 7, jint 9, JNull, JNull, jint 3,
            jint 5]), (''p'', jint 3), (''q'', jint 5)] (jint 4) False 5,
          fx_case [(''root'', JArr [jint 6, jint 2, jint 8, jint 0, jint 4, jint 7, jint 9, JNull, JNull, jint 3,
            jint 5]), (''p'', jint 0), (''q'', jint 9)] (jint 6) False 6,
          fx_case [(''root'', jints [3, 1, 5, 0, 2, 4, 6]), (''p'', jint 0), (''q'', jint 2)] (jint 1) False 7],
      fx_boilerplate = \<lparr>nb_language = ''python'', nb_template = ''# Definition for a binary tree node.\<newline># class TreeNode:\<newline>#     def __init__(self, x):\<newline>#         self.val = x\<newline>#         self.left = None\<newline>#         self.right = None\<newline>class Solution:\<newline>    def lowestCommonAncestor(self, root: 'TreeNode', p: 'TreeNode', q: 'TreeNode') -> 'TreeNode':\<newline>        pass'',
        nb_methodName = ''lowestCommonAncestor'', nb_parameterNames = [''root'', ''p'', ''q'']\<rparr>,
      fx_hints = [
        \<lparr>nh_hintText = ''In a BST, nodes to the left are smaller and nodes to the right are larger. Use this to determine which direction to search.'', nh_orderIndex = 0\<rparr>,
        \<lparr>nh_hintText = ''If both p and q are smaller than root, the LCA is in the left subtree. If both are larger, it is in the right subtree. Otherwise, root is the LCA (the split point).'', nh_orderIndex = 1\<rparr>]\<rparr>"

definition binary_tree_level_order_traversal_fixture :: fixture where
  "binary_tree_level_order_traversal_fixture =
     \<lparr>fx_problem = \<lparr>np_slug = ''binary-tree-level-order-traversal'', np_title = ''Binary Tree Level Order Traversal'', np_difficulty = ''medium'',
        np_category = ''Trees'',
        np_description = ''Given the `root` of a binary tree, return the level order traversal of its nodes' values. (i.e., from left to right, level by level).'',
        np_constraints = [''The number of nodes in the tree is in the range [0, 2000].'', ''-1000 <= Node.val <= 1000''],
        np_solution = Some ''Use BFS with a queue. Process all nodes at the current level before moving to the next. For each level, collect values into a list and enqueue children.'',
        np_timeLimitMs = 5000, np_source = ''curated'', np_sourceUrl = Some ''https://leetcode.com/problems/binary-tree-level-order-traversal/''\<rparr>,
      fx_testCases = [
          fx_case [(''root'', JArr [jint 3, jint 9, jint 20, JNull, JNull, jint 15, jint 7])] (JArr [jints [3],
            jints [9, 20], jints [15, 7]]) True 0,
          fx_case [(''root'', jints [1])] (JArr [jints [1]]) True 1,
          fx_case [(''root'', JArr [])] (JArr []) True 2,
          fx_case [(''root'', jints [1, 2, 3, 4, 5, 6, 7])] (JArr [jints [1], jints [2, 3], jints [4, 5, 6,
            7]]) False 3,
          fx_case [(''root'', JArr [jint 1, jint 2, JNull, jint 3, JNull, jint 4])] (JArr [jints [1], jints [2],
            jints [3], jints [4]]) False 4,
          fx_case [(''root'', JArr [jint 1, JNull, jint 2, JNull, jint 3])] (JArr [jints [1], jints [2],
            jints [3]]) False 5,
          fx_case [(''root'', jints [1, 2, 3])] (JArr [jints [1], jints [2, 3]]) False 6,
          fx_case [(''root'', jints [0, - 1, 1])] (JArr [jints [0], jints [- 1, 1]]) False 7],
      fx_boilerplate = \<lparr>nb_language = ''python'', nb_template = ''# Definition for a binary tree node.\<newline># class TreeNode:\<newline>#     def __init__(self, val=0, left=None, right=None):\<newline>#         self.val = val\<newline>#         self.left = left\<newline>#         self.right = right\<newline>class Solution:\<newline>    def levelOrder(self, root: Optional[TreeNode]) -> List[List[int]]:\<newline>        pass'',
        nb_methodName = ''levelOrder'', nb_parameterNames = [''root'']\<rparr>,
      fx_hints = [
        \<lparr>nh_hintText = ''Use a queue for BFS. How do you know when one level ends and the next begins?'', nh_orderIndex = 0\<rparr>,
        \<lparr>nh_hintText = ''At each step, record the current queue size (that is the number of nodes at this level). Process exactly that many nodes, adding their children to the queue for the next level.'', nh_orderIndex = 1\<rparr>]\<rparr>"

definition binary_tree_right_side_view_fixture :: fixture where
  "binary_tree_right_side_view_fixture =
     \<lparr>fx_problem = \<lparr>np_slug = ''binary-tree-right-side-view'', np_title = ''Binary Tree Right Side View'', np_difficulty = ''medium'',
        np_category = ''Trees'',
        np_description = ''Given the `root` of a binary tree, imagine yourself standing on the right side of it, return the values of the nodes you can see ordered from top to bottom.'',
        np_constraints = [''The number of nodes in the tree is in the range [0, 100].'', ''-100 <= Node.val <= 100''],
        np_solution = Some ''Use BFS level-order traversal. For each level, the last node processed is the rightmost visible node. Alternatively, use DFS visiting right subtree first and recording the first node seen at each depth.'',
        np_timeLimitMs = 5000, np_source = ''curated'', np_sourceUrl = Some ''https://leetcode.com/problems/binary-tree-right-side-view/''\<rparr>,
      fx_testCases = [
          fx_case [(''root'', JArr [jint 1, jint 2, jint 3, JNull, jint 5, JNull, jint 4])] (jints [1, 3, 4]) True 0,
          fx_case [(''root'', JArr [jint 1, JNull, jint 3])] (jints [1, 3]) True 1,
          fx_case [(''root'', JArr [])] (JArr []) True 2,
          fx_case [(''root'', jints [1])] (jints [1]) False 3,
          fx_case [(''root'', jints [1, 2, 3, 4])] (jints [1, 3, 4]) False 4,
          fx_case [(''root'', jints [1, 2])] (jints [1, 2]) False 5,
          fx_case [(''root'', jints [1, 2, 3, 4, 5, 6, 7])] (jints [1, 3, 7]) False 6,
          fx_case [(''root'', JArr [jint 1, jint 2, JNull, jint 3, JNull, jint 4])] (jints [1, 2, 3, 4]) False 7],
      fx_boilerplate = \<lparr>nb_language = ''python'', nb_template = ''# Definition for a binary tree node.\<newline># class TreeNode:\<newline>#     def __init__(self, val=0, left=None, right=None):\<newline>#         self.val = val\<newline>#         self.left = left\<newline>#         self.right = right\<newline>class Solution:\<newline>    def rightSideView(self, root: Optional[TreeNode]) -> List[int]:\<newline>        pass'',
        nb_methodName = ''rightSideView'', nb_parameterNames = [''root'']\<rparr>,
      fx_hints = [
        \<lparr>nh_hintText = ''The right side view consists of the last node at each level. Think about a traversal that processes nodes level by level.'', nh_orderIndex = 0\<rparr>,
        \<lparr>nh_hintText = ''Use BFS. For each level, the last node in the queue for that level is the one visible from the right side.'', nh_orderIndex = 1\<rparr>]\<rparr>"

definition count_good_nodes_in_binary_tree_fixture :: fixture where
  "count_good_nodes_in_binary_tree_fixture =
     \<lparr>fx_problem = \<lparr>np_slug = ''count-good-nodes-in-binary-tree'', np_title = ''Count Good Nodes in Binary Tree'', np_difficulty = ''medium'',
        np_category = ''Trees'',
        np_description = ''Given a binary tree `root`, a node X in the tree is named good if in the path from root to X there are no nodes with a value greater than X.\<newline>\<newline>Return the number of good nodes in the binary tree.'',
        np_constraints = [''The number of nodes in the binary tree is in the range [1, 10^5].'', ''Each node's value is between [-10^4, 10^4].''],
        np_solution = Some ''DFS with the maximum value seen so far on the path from root. A node is good if its value >= max so far. Recursively count good nodes in left and right subtrees, passing the updated max.'',
        np_timeLimitMs = 5000, np_source = ''curated'', np_sourceUrl = Some ''https://leetcode.com/problems/count-good-nodes-in-binary-tree/''\<rparr>,
      fx_testCases = [
          fx_case [(''root'', JArr [jint 3, jint 1, jint 4, jint 3, JNull, jint 1, jint 5])] (jint 4) True 0,
          fx_case [(''root'', JArr [jint 3, jint 3, JNull, jint 4, jint 2])] (jint 3) True 1,
          fx_case [(''root'', jints [1])] (jint 1) True 2,
          fx_case [(''root'', JArr [jint 2, JNull, jint 4, jint 10, jint 8, JNull, JNull, jint 4])] (jint 4) False 3,
          fx_case [(''root'', JArr [jint 9, JNull, jint 3, jint 6])] (jint 1) False 4,
          fx_case [(''root'', jints [1, 2, 3, 4, 5, 6, 7])] (jint 7) False 5,
          fx_case [(''root'', jints [5, 3, 8, 1, 4, 7, 9])] (jint 3) False 6,
          fx_case [(''root'', jints [- 1, - 2, - 3])] (jint 1) False 7],
      fx_boilerplate = \<lparr>nb_language = ''python'', nb_template = ''# Definition for a binary tree node.\<newline># class TreeNode:\<newline>#     def __init__(self, val=0, left=None, right=None):\<newline>#         self.val = val\<newline>#         self.left = left\<newline>#         self.right = right\<newline>class Solution:\<newline>    def goodNodes(self, root: TreeNode) -> int:\<newline>        pass'',
        nb_methodName = ''goodNodes'', nb_parameterNames = [''root'']\<rparr>,
      fx_hints = [
        \<lparr>nh_hintText = ''A node is 'good' if no ancestor has a greater value. Track the maximum value along the path from root to the current node.'', nh_orderIndex = 0\<rparr>,
        \<lparr>nh_hintText = ''Use DFS passing the current max. If node.val >= max, it is a good node. Update max to the larger of current max and node.val before recursing into children.'', nh_orderIndex = 1\<rparr>]\<rparr>"

definition validate_binary_search_tree_fixture :: fixture where
  "validate_binary_search_tree_fixture =
     \<lparr>fx_problem = \<lparr>np_slug = ''validate-binary-search-tree'', np_title = ''Validate Binary Search Tree'', np_difficulty = ''medium'',
        np_category = ''Trees'',
        np_description = ''Given the `root` of a binary tree, determine if it is a valid binary search tree (BST).\<newline>\<newline>A valid BST is defined as follows:\<newline>\<newline>- The left subtree of a node contains only nodes with keys less than the node's key.\<newline>- The right subtree of a node contains only nodes with keys greater than the node's key.\<newline>- Both the left and right subtrees must also be binary search trees.'',
        np_constraints = [''The number of nodes in the tree is in the range [1, 10^4].'', ''-2^31 <= Node.val <= 2^31 - 1''],
        np_solution = Some ''Recursively validate each node with an allowed range (min, max). For the left child, update max to the current node's value. For the right child, update min. If any node violates its range, return false.'',
        np_timeLimitMs = 5000, np_source = ''curated'', np_sourceUrl = Some ''https://leetcode.com/problems/validate-binary-search-tree/''\<rparr>,
      fx_testCases = [
          fx_case [(''root'', jints [2, 1, 3])] (JBool True) True 0,
          fx_case [(''root'', JArr [jint 5, jint 1, jint 4, JNull, JNull, jint 3, jint 6])] (JBool False) True 1,
          fx_case [(''root'', jints [1])] (JBool True) True 2,
          fx_case [(''root'', JArr [jint 5, jint 4, jint 6, JNull, JNull, jint 3, jint 7])] (JBool False) False 3,
          fx_case [(''root'', jints [2, 2, 2])] (JBool False) False 4,
          fx_case [(''root'', JArr [jint 10, jint 5, jint 15, JNull, JNull, jint 6, jint 20])] (JBool False) False 5,
          fx_case [(''root'', jints [3, 1, 5, 0, 2, 4, 6])] (JBool True) False 6,
          fx_case [(''root'', jints [0, - 1])] (JBool True) False 7],
      fx_boilerplate = \<lparr>nb_language = ''python'', nb_template = ''# Definition for a binary tree node.\<newline># class TreeNode:\<newline>#     def __init__(self, val=0, left=None, right=None):\<newline>#         self.val = val\<newline>#         self.left = left\<newline>#         self.right = right\<newline>class Solution:\<newline>    def isValidBST(self, root: Optional[TreeNode]) -> bool:\<newline>        pass'',
        nb_methodName = ''isValidBST'', nb_parameterNames = [''root'']\<rparr>,
      fx_hints = [
        \<lparr>nh_hintText = ''Just checking that left.val < node.val < right.val is not enough. The entire left subtree must be less than the node.'', nh_orderIndex = 0\<rparr>,
        \<lparr>nh_hintText = ''Pass an allowed range (low, high) to each recursive call. For the root, the range is (-inf, +inf). Going left, update high = node.val. Going right, update low = node.val.'', nh_orderIndex = 1\<rparr>]\<rparr>"

definition kth_smallest_element_in_a_bst_fixture :: fixture where
  "kth_smallest_element_in_a_bst_fixture =
     \<lparr>fx_problem = \<lparr>np_slug = ''kth-smallest-element-in-a-bst'', np_title = ''Kth Smallest Element in a BST'', np_difficulty = ''medium'',
        np_category = ''Trees'',
        np_description = ''Given the `root` of a binary search tree, and an integer `k`, return the `k`th smallest value (1-indexed) of all the values of the nodes in the tree.'',
        np_constraints = [''The number of nodes in the tree is n.'', ''1 <= k <= n <= 10^4'', ''0 <= Node.val <= 10^4''],
        np_solution = Some ''Perform an in-order traversal (left, root, right) of the BST, which visits nodes in ascending order. Return the k-th value encountered.'',
        np_timeLimitMs = 5000, np_source = ''curated'', np_sourceUrl = Some ''https://leetcode.com/problems/kth-smallest-element-in-a-bst/''\<rparr>,
      fx_testCases = [
          fx_case [(''root'', JArr [jint 3, jint 1, jint 4, JNull, jint 2]), (''k'', jint 1)] (jint 1) True 0,
          fx_case [(''root'', JArr [jint 5, jint 3, jint 6, jint 2, jint 4, JNull, JNull, jint 1]), (''k'',
            jint 3)] (jint 3) True 1,
          fx_case [(''root'', jints [1]), (''k'', jint 1)] (jint 1) True 2,
          fx_case [(''root'', JArr [jint 3, jint 1, jint 4, JNull, jint 2]), (''k'', jint 2)] (jint 2) False 3,
          fx_case [(''root'', JArr [jint 3, jint 1, jint 4, JNull, jint 2]), (''k'', jint 3)] (jint 3) False 4,
          fx_case [(''root'', JArr [jint 3, jint 1, jint 4, JNull, jint 2]), (''k'', jint 4)] (jint 4) False 5,
          fx_case [(''root'', JArr [jint 5, jint 3, jint 6, jint 2, jint 4, JNull, JNull, jint 1]), (''k'',
            jint 6)] (jint 6) False 6,
          fx_case [(''root'', jints [2, 1, 3]), (''k'', jint 2)] (jint 2) False 7],
      fx_boilerplate = \<lparr>nb_language = ''python'', nb_template = ''# Definition for a binary tree node.\<newline># class TreeNode:\<newline>#     def __init__(self, val=0, left=None, right=None):\<newline>#         self.val = val\<newline>#         self.left = left\<newline>#         self.right = right\<newline>class Solution:\<newline>    def kthSmallest(self, root: Optional[TreeNode], k: int) -> int:\<newline>        pass'',
        nb_methodName = ''kthSmallest'', nb_parameterNames = [''root'', ''k'']\<rparr>,
      fx_hints = [
        \<lparr>nh_hintText = ''In-order traversal of a BST visits nodes in ascending order. Which traversal order is that?'', nh_orderIndex = 0\<rparr>,
        \<lparr>nh_hintText = ''Perform in-order traversal (left, node, right) and count nodes visited. When the count reaches k, that node's value is your answer. Use an iterative stack approach to stop early.'', nh_orderIndex = 1\<rparr>]\<rparr>"

definition construct_binary_tree_from_preorder_and_inorder_traversal_fixture :: fixture where
  "construct_binary_tree_from_preorder_and_inorder_traversal_fixture =
     \<lparr>fx_problem = \<lparr>np_slug = ''construct-binary-tree-from-preorder-and-inorder-traversal'', np_title = ''Construct Binary Tree from Preorder and Inorder Traversal'', np_difficulty = ''medium'',
        np_category = ''Trees'',
        np_description = ''Given two integer arrays `preorder` and `inorder` where `preorder` is the preorder traversal of a binary tree and `inorder` is the inorder traversal of the same tree, construct and return the binary tree.'',
        np_constraints = [''1 <= preorder.length <= 3000'', ''inorder.length == preorder.length'', ''-3000 <= preorder[i], inorder[i] <= 3000'', ''preorder and inorder consist of unique values.'', ''Each value of inorder also appears in preorder.'', ''preorder is guaranteed to be the preorder traversal of the tree.'', ''inorder is guaranteed to be the inorder traversal of the tree.''],
        np_solution = Some ''The first element of preorder is the root. Find it in inorder to split left and right subtrees. Recursively build left and right subtrees using the corresponding slices. Use a hash map for O(1) inorder index lookup.'',
        np_timeLimitMs = 5000, np_source = ''curated'', np_sourceUrl = Some ''https://leetcode.com/problems/construct-binary-tree-from-preorder-and-inorder-traversal/''\<rparr>,
      fx_testCases = [
          fx_case [(''preorder'', jints [3, 9, 20, 15, 7]), (''inorder'', jints [9, 3, 15, 20, 7])] (JArr [jint 3,
            jint 9, jint 20, JNull, JNull, jint 15, jint 7]) True 0,
          fx_case [(''preorder'', jints [- 1]), (''inorder'', jints [- 1])] (jints [- 1]) True 1,
          fx_case [(''preorder'', jints [1, 2]), (''inorder'', jints [2, 1])] (jints [1, 2]) True 2,
          fx_case [(''preorder'', jints [1, 2]), (''inorder'', jints [1, 2])] (JArr [jint 1, JNull, jint 2]) False 3,
          fx_case [(''preorder'', jints [1, 2, 3]), (''inorder'', jints [2, 1, 3])] (jints [1, 2, 3]) False 4,
          fx_case [(''preorder'', jints [1, 2, 4, 5, 3, 6, 7]), (''inorder'', jints [4, 2, 5, 1, 6, 3,
            7])] (jints [1, 2, 3, 4, 5, 6, 7]) False 5,
          fx_case [(''preorder'', jints [3, 1, 2, 4]), (''inorder'', jints [1, 2, 3, 4])] (JArr [jint 3, jint 1,
            jint 4, JNull, jint 2]) False 6,
          fx_case [(''preorder'', jints [5, 3, 2, 4, 7, 6, 8]), (''inorder'', jints [2, 3, 4, 5, 6, 7,
            8])] (jints [5, 3, 7, 2, 4, 6, 8]) False 7],
      fx_boilerplate = \<lparr>nb_language = ''python'', nb_template = ''# Definition for a binary tree node.\<newline># class TreeNode:\<newline>#     def __init__(self, val=0, left=None, right=None):\<newline>#         self.val = val\<newline>#         self.left = left\<newline>#         self.right = right\<newline>class Solution:\<newline>    def buildTree(self, preorder: List[int], inorder: List[int]) -> Optional[TreeNode]:\<newline>        pass'',
        nb_methodName = ''buildTree'', nb_parameterNames = [''preorder'', ''inorder'']\<rparr>,
      fx_hints = [
        \<lparr>nh_hintText = ''The first element of preorder is always the root. In inorder, everything to the left of the root belongs to the left subtree, and everything to the right belongs to the right subtree.'', nh_orderIndex = 0\<rparr>,
        \<lparr>nh_hintText = ''Build a hash map from value to index in inorder for O(1) lookup. Recursively construct the tree: take the next preorder element as root, find it in inorder, and recurse on the left and right partitions.'', nh_orderIndex = 1\<rparr>]\<rparr>"

definition binary_tree_maximum_path_sum_fixture :: fixture where
  "binary_tree_maximum_path_sum_fixture =
     \<lparr>fx_problem = \<lparr>np_slug = ''binary-tree-maximum-path-sum'', np_title = ''Binary Tree Maximum Path Sum'', np_difficulty = ''hard'',
        np_category = ''Trees'',
        np_description = ''A path in a binary tree is a sequence of nodes where each pair of adjacent nodes in the sequence has an edge connecting them. A node can only appear in the sequence at most once. Note that the path does not need to pass through the root.\<newline>\<newline>The path sum of a path is the sum of the node's values in the path.\<newline>\<newline>Given the `root` of a binary tree, return the maximum path sum of any non-empty path.'',
        np_constraints = [''The number of nodes in the tree is in the range [1, 3 * 10^4].'', ''-1000 <= Node.val <= 1000''],
        np_solution = Some ''DFS returning the max gain from each subtree (node value + max of left or right gain, but not both). At each node, compute the path sum through it (node + left gain + right gain) and update the global maximum. Return the single-side max gain to the parent.'',
        np_timeLimitMs = 5000, np_source = ''curated'', np_sourceUrl = Some ''https://leetcode.com/problems/binary-tree-maximum-path-sum/''\<rparr>,
      fx_testCases = [
          fx_case [(''root'', jints [1, 2, 3])] (jint 6) True 0,
          fx_case [(''root'', JArr [jint (- 10), jint 9, jint 20, JNull, JNull, jint 15, jint 7])] (jint 42) True 1,
          fx_case [(''root'', jints [1])] (jint 1) True 2,
          fx_case [(''root'', jints [- 3])] (jint (- 3)) False 3,
          fx_case [(''root'', jints [2, - 1])] (jint 2) False 4,
          fx_case [(''root'', jints [- 2, - 1])] (jint (- 1)) False 5,
          fx_case [(''root'', JArr [jint 5, jint 4, jint 8, jint 11, JNull, jint 13, jint 4, jint 7, jint 2, JNull,
            JNull, JNull, jint 1])] (jint 48) False 6,
          fx_case [(''root'', jints [1, - 2, 3])] (jint 4) False 7],
      fx_boilerplate = \<lparr>nb_language = ''python'', nb_template = ''# Definition for a binary tree node.\<newline># class TreeNode:\<newline>#     def __init__(self, val=0, left=None, right=None):\<newline>#         self.val = val\<newline>#         self.left = left\<newline>#         self.right = right\<newline>class Solution:\<newline>    def maxPathSum(self, root: Optional[TreeNode]) -> int:\<newline>        pass'',
        nb_methodName = ''maxPathSum'', nb_parameterNames = [''root'']\<rparr>,
      fx_hints = [
        \<lparr>nh_hintText = ''At each node, you can either extend a path from a child or start a new path. The maximum path through a node uses at most one child path going up to its parent.'', nh_orderIndex = 0\<rparr>,
        \<lparr>nh_hintText = ''A path can turn at any node (using both children). But when returning to the parent, you can only include one branch.'', nh_orderIndex = 1\<rparr>,
        \<lparr>nh_hintText = ''DFS returns max(0, node.val + max(left_gain, right_gain)) to the parent. At each node, update a global max with node.val + left_gain + right_gain (the path that turns at this node). Clamp negative gains to 0.'', nh_orderIndex = 2\<rparr>]\<rparr>"

definition serialize_and_deserialize_binary_tree_fixture :: fixture where
  "serialize_and_deserialize_binary_tree_fixture =
     \<lparr>fx_problem = \<lparr>np_slug = ''serialize-and-deserialize-binary-tree'', np_title = ''Serialize and Deserialize Binary Tree'', np_difficulty = ''hard'',
        np_category = ''Trees'',
        np_description = ''Serialization is the process of converting a data structure or object into a sequence of bits so that it can be stored in a file or memory buffer, or transmitted across a network connection link to be reconstructed later in the same or another computer environment.\<newline>\<newline>Design an algorithm to serialize and deserialize a binary tree. There is no restriction on how your serialization/deserialization algorithm should work. You just need to ensure that a binary tree can be serialized to a string and this string can be deserialized to the original tree structure.'',
        np_constraints = [''The number of nodes in the tree is in the range [0, 10^4].'', ''-1000 <= Node.val <= 1000''],
        np_solution = Some ''Use preorder traversal for serialization, recording 'null' for empty nodes. For deserialization, use the same preorder sequence with an iterator, recursively building nodes and consuming 'null' markers.'',
        np_timeLimitMs = 5000, np_source = ''curated'', np_sourceUrl = Some ''https://leetcode.com/problems/serialize-and-deserialize-binary-tree/''\<rparr>,
      fx_testCases = [
          fx_case [(''root'', JArr [jint 1, jint 2, jint 3, JNull, JNull, jint 4, jint 5])] (JArr [jint 1, jint 2,
            jint 3, JNull, JNull, jint 4, jint 5]) True 0,
          fx_case [(''root'', JArr [])] (JArr []) True 1,
          fx_case [(''root'', jints [1])] (jints [1]) True 2,
          fx_case [(''root'', jints [1, 2])] (jints [1, 2]) False 3,
          fx_case [(''root'', JArr [jint 1, JNull, jint 2])] (JArr [jint 1, JNull, jint 2]) False 4,
          fx_case [(''root'', jints [1, 2, 3, 4, 5, 6, 7])] (jints [1, 2, 3, 4, 5, 6, 7]) False 5,
          fx_case [(''root'', jints [- 1, - 2, - 3])] (jints [- 1, - 2, - 3]) False 6,
          fx_case [(''root'', JArr [jint 1, jint 2, jint 3, JNull, JNull, jint 4, jint 5, jint 6,
            jint 7])] (JArr [jint 1, jint 2, jint 3, JNull, JNull, jint 4, jint 5, jint 6, jint 7]) False 7],
      fx_boilerplate = \<lparr>nb_language = ''python'', nb_template = ''# Definition for a binary tree node.\<newline># class TreeNode(object):\<newline>#     def __init__(self, x):\<newline>#         self.val = x\<newline>#         self.left = None\<newline>#         self.right = None\<newline>class Codec:\<newline>    def serialize(self, root):\<newline>        pass\<newline>\<newline>    def deserialize(self, data):\<newline>        pass'',
        nb_methodName = ''serialize'', nb_parameterNames = [''root'']\<rparr>,
      fx_hints = [
        \<lparr>nh_hintText = ''You need a format that captures both structure and values. Consider how null markers can help reconstruct the tree.'', nh_orderIndex = 0\<rparr>,
        \<lparr>nh_hintText = ''Use preorder traversal (or BFS) and record 'null' for absent children. This gives you enough information to uniquely reconstruct the tree.'', nh_orderIndex = 1\<rparr>,
        \<lparr>nh_hintText = ''Serialize: preorder DFS, appending node values and 'null' for None. Deserialize: iterate through the serialized list, recursively creating nodes. When you see 'null', return None.'', nh_orderIndex = 2\<rparr>]\<rparr>"

definition treesProblems :: "fixture list" where
  "treesProblems =
     [invert_binary_tree_fixture,
      maximum_depth_of_binary_tree_fixture,
      diameter_of_binary_tree_fixture,
      balanced_binary_tree_fixture,
      same_tree_fixture,
      subtree_of_another_tree_fixture,
      lowest_common_ancestor_of_a_binary_search_tree_fixture,
      binary_tree_level_order_traversal_fixture,
      binary_tree_right_side_view_fixture,
      count_good_nodes_in_binary_tree_fixture,
      validate_binary_search_tree_fixture,
      kth_smallest_element_in_a_bst_fixture,
      construct_binary_tree_from_preorder_and_inorder_traversal_fixture,
      binary_tree_maximum_path_sum_fixture,
      serialize_and_deserialize_binary_tree_fixture]"

lemma treesProblems_facts:
  "map seed_facts treesProblems =
     [(''invert-binary-tree'', True, True, False),
      (''maximum-depth-of-binary-tree'', True, True, False),
      (''diameter-of-binary-tree'', True, True, False),
      (''balanced-binary-tree'', True, True, False),
      (''same-tree'', True, True, False),
      (''subtree-of-another-tree'', True, True, False),
      (''lowest-common-ancestor-of-a-binary-search-tree'', True, True, False),
      (''binary-tree-level-order-traversal'', True, True, False),
      (''binary-tree-right-side-view'', True, True, False),
      (''count-good-nodes-in-binary-tree'', True, True, False),
      (''validate-binary-search-tree'', True, True, False),
      (''kth-smallest-element-in-a-bst'', True, True, False),
      (''construct-binary-tree-from-preorder-and-inorder-traversal'', True, True, True),
      (''binary-tree-maximum-path-sum'', True, True, False),
      (''serialize-and-deserialize-binary-tree'', True, True, False)]"
  by (simp add: treesProblems_def seed_evaluation cong: seed_congs add:
      invert_binary_tree_fixture_def
      maximum_depth_of_binary_tree_fixture_def
      diameter_of_binary_tree_fixture_def
      balanced_binary_tree_fixture_def
      same_tree_fixture_def
      subtree_of_another_tree_fixture_def
      lowest_common_ancestor_of_a_binary_search_tree_fixture_def
      binary_tree_level_order_traversal_fixture_def
      binary_tree_right_side_view_fixture_def
      count_good_nodes_in_binary_tree_fixture_def
      validate_binary_search_tree_fixture_def
      kth_smallest_element_in_a_bst_fixture_def
      construct_binary_tree_from_preorder_and_inorder_traversal_fixture_def
      binary_tree_maximum_path_sum_fixture_def
      serialize_and_deserialize_binary_tree_fixture_def)


section \<open>tries\<close>

definition implement_trie_prefix_tree_fixture :: fixture where
  "implement_trie_prefix_tree_fixture =
     \<lparr>fx_problem = \<lparr>np_slug = ''implement-trie-prefix-tree'', np_title = ''Implement Trie (Prefix Tree)'', np_difficulty = ''medium'',
        np_category = ''Tries'',
        np_description = ''A trie (pronounced as \"try\") or prefix tree is a tree data structure used to efficiently store and retrieve keys in a dataset of strings. There are various applications of this data structure, such as autocomplete and spellchecker.\<newline>\<newline>Implement the Trie class:\<newline>\<newline>- `Trie()` Initializes the trie object.\<newline>- `void insert(String word)` Inserts the string `word` into the trie.\<newline>- `boolean search(String word)` Returns `true` if the string `word` is in the trie (i.e., was inserted before), and `false` otherwise.\<newline>- `boolean startsWith(String prefix)` Returns `true` if there is a previously inserted string `word` that has the prefix `prefix`, and `false` otherwise.'',
        np_constraints = [''1 <= word.length, prefix.length <= 2000'', ''word and prefix consist only of lowercase English letters.'', ''At most 3 * 10^4 calls in total will be made to insert, search, and startsWith.''],
        np_solution = Some ''Use a tree of nodes where each node has up to 26 children (one per letter) and a boolean flag indicating whether a complete word ends there. Insert traverses/creates nodes. Search traverses and checks the end flag. StartsWith traverses without checking the end flag.'',
        np_timeLimitMs = 5000, np_source = ''curated'', np_sourceUrl = Some ''https://leetcode.com/problems/implement-trie-prefix-tree/''\<rparr>,
      fx_testCases = [
          fx_case [(''operations'', jstrs [''Trie'', ''insert'', ''search'', ''search'', ''startsWith'', ''insert'',
            ''search'']), (''args'', JArr [JArr [], jstrs [''apple''], jstrs [''apple''], jstrs [''app''],
            jstrs [''app''], jstrs [''app''], jstrs [''app'']])] (JArr [JNull, JNull, JBool True, JBool False,
            JBool True, JNull, JBool True]) True 0,
          fx_case [(''operations'', jstrs [''Trie'', ''insert'', ''search'', ''startsWith'']), (''args'',
            JArr [JArr [], jstrs [''hello''], jstrs [''hello''], jstrs [''hel'']])] (JArr [JNull, JNull, JBool True,
            JBool True]) True 1,
          fx_case [(''operations'', jstrs [''Trie'', ''search'', ''startsWith'']), (''args'', JArr [JArr [],
            jstrs [''a''], jstrs [''a'']])] (JArr [JNull, JBool False, JBool False]) True 2,
          fx_case [(''operations'', jstrs [''Trie'', ''insert'', ''insert'', ''search'', ''search'']), (''args'',
            JArr [JArr [], jstrs [''ab''], jstrs [''abc''], jstrs [''abc''], jstrs [''ab'']])] (JArr [JNull, JNull,
            JNull, JBool True, JBool True]) False 3,
          fx_case [(''operations'', jstrs [''Trie'', ''insert'', ''search'', ''search'', ''search'']), (''args'',
            JArr [JArr [], jstrs [''a''], jstrs [''a''], jstrs [''ab''], jstrs [''abc'']])] (JArr [JNull, JNull,
            JBool True, JBool False, JBool False]) False 4,
          fx_case [(''operations'', jstrs [''Trie'', ''insert'', ''insert'', ''startsWith'', ''startsWith'']),
            (''args'', JArr [JArr [], jstrs [''abc''], jstrs [''xyz''], jstrs [''ab''],
            jstrs [''xy'']])] (JArr [JNull, JNull, JNull, JBool True, JBool True]) False 5,
          fx_case [(''operations'', jstrs [''Trie'', ''insert'', ''insert'', ''search'', ''startsWith'']), (''args'',
            JArr [JArr [], jstrs [''bat''], jstrs [''ball''], jstrs [''bal''], jstrs [''bal'']])] (JArr [JNull,
            JNull, JNull, JBool False, JBool True]) False 6,
          fx_case [(''operations'', jstrs [''Trie'', ''insert'', ''search'', ''startsWith'', ''insert'',
            ''search'']), (''args'', JArr [JArr [], jstrs [''app''], jstrs [''app''], jstrs [''ap''], jstrs [''ap''],
            jstrs [''ap'']])] (JArr [JNull, JNull, JBool True, JBool True, JNull, JBool True]) False 7],
      fx_boilerplate = \<lparr>nb_language = ''python'', nb_template = ''class Trie:\<newline>    def __init__(self):\<newline>        pass\<newline>\<newline>    def insert(self, word: str) -> None:\<newline>        pass\<newline>\<newline>    def search(self, word: str) -> bool:\<newline>        pass\<newline>\<newline>    def startsWith(self, prefix: str) -> bool:\<newline>        pass'',
        nb_methodName = ''Trie'', nb_parameterNames = []\<rparr>,
      fx_hints = [
        \<lparr>nh_hintText = ''Each node in a trie represents a character. A path from root to a node spells out a prefix. Think about what data each node needs.'', nh_orderIndex = 0\<rparr>,
        \<lparr>nh_hintText = ''Each trie node has a dictionary (or array of 26) mapping characters to child nodes, plus a boolean `isEnd` flag. Insert creates nodes along the path. Search follows the path and checks `isEnd`. StartsWith follows the path without checking `isEnd`.'', nh_orderIndex = 1\<rparr>]\<rparr>"

definition design_add_and_search_words_data_structure_fixture :: fixture where
  "design_add_and_search_words_data_structure_fixture =
     \<lparr>fx_problem = \<lparr>np_slug = ''design-add-and-search-words-data-structure'', np_title = ''Design Add and Search Words Data Structure'', np_difficulty = ''medium'',
        np_category = ''Tries'',
        np_description = ''Design a data structure that supports adding new words and finding if a string matches any previously added string.\<newline>\<newline>Implement the `WordDictionary` class:\<newline>\<newline>- `WordDictionary()` Initializes the object.\<newline>- `void addWord(word)` Adds `word` to the data structure, it can be matched later.\<newline>- `bool search(word)` Returns `true` if there is any string in the data structure that matches `word` or `false` otherwise. `word` may contain dots `'.'` where dots can be matched with any letter.'',
        np_constraints = [''1 <= word.length <= 25'', ''word in addWord consists of lowercase English letters.'', ''word in search consist of '.' or lowercase English letters.'', ''There will be at most 3 dots in word for search queries.'', ''At most 10^4 calls will be made to addWord and search.''],
        np_solution = Some ''Use a trie for storage. The addWord method is standard trie insertion. For search, traverse the trie character by character. When encountering '.', recursively try all 26 children. Return true if any path matches.'',
        np_timeLimitMs = 5000, np_source = ''curated'', np_sourceUrl = Some ''https://leetcode.com/problems/design-add-and-search-words-data-structure/''\<rparr>,
      fx_testCases = [
          fx_case [(''operations'', jstrs [''WordDictionary'', ''addWord'', ''addWord'', ''addWord'', ''search'',
            ''search'', ''search'', ''search'']), (''args'', JArr [JArr [], jstrs [''bad''], jstrs [''dad''],
            jstrs [''mad''], jstrs [''.ad''], jstrs [''b..''], jstrs [''b.d''], jstrs [''...'']])] (JArr [JNull,
            JNull, JNull, JNull, JBool True, JBool True, JBool True, JBool True]) True 0,
          fx_case [(''operations'', jstrs [''WordDictionary'', ''addWord'', ''search'', ''search'']), (''args'',
            JArr [JArr [], jstrs [''a''], jstrs [''a''], jstrs [''.'']])] (JArr [JNull, JNull, JBool True,
            JBool True]) True 1,
          fx_case [(''operations'', jstrs [''WordDictionary'', ''search'']), (''args'', JArr [JArr [],
            jstrs [''a'']])] (JArr [JNull, JBool False]) True 2,
          fx_case [(''operations'', jstrs [''WordDictionary'', ''addWord'', ''addWord'', ''search'', ''search'']),
            (''args'', JArr [JArr [], jstrs [''ab''], jstrs [''abc''], jstrs [''ab''],
            jstrs [''abc'']])] (JArr [JNull, JNull, JNull, JBool True, JBool True]) False 3,
          fx_case [(''operations'', jstrs [''WordDictionary'', ''addWord'', ''search'', ''search'']), (''args'',
            JArr [JArr [], jstrs [''hello''], jstrs [''hell''], jstrs [''hello'']])] (JArr [JNull, JNull,
            JBool False, JBool True]) False 4,
          fx_case [(''operations'', jstrs [''WordDictionary'', ''addWord'', ''addWord'', ''search'', ''search'',
            ''search'']), (''args'', JArr [JArr [], jstrs [''at''], jstrs [''and''], jstrs [''.at''],
            jstrs [''an.''], jstrs [''a.d.'']])] (JArr [JNull, JNull, JNull, JBool False, JBool True,
            JBool False]) False 5,
          fx_case [(''operations'', jstrs [''WordDictionary'', ''addWord'', ''addWord'', ''search'', ''search'']),
            (''args'', JArr [JArr [], jstrs [''bat''], jstrs [''bar''], jstrs [''ba.''],
            jstrs [''.a.'']])] (JArr [JNull, JNull, JNull, JBool True, JBool True]) False 6,
          fx_case [(''operations'', jstrs [''WordDictionary'', ''addWord'', ''search'', ''search'', ''search'']),
            (''args'', JArr [JArr [], jstrs [''ran''], jstrs [''ra.''], jstrs [''r.n''],
            jstrs [''.an'']])] (JArr [JNull, JNull, JBool True, JBool True, JBool True]) False 7],
      fx_boilerplate = \<lparr>nb_language = ''python'', nb_template = ''class WordDictionary:\<newline>    def __init__(self):\<newline>        pass\<newline>\<newline>    def addWord(self, word: str) -> None:\<newline>        pass\<newline>\<newline>    def search(self, word: str) -> bool:\<newline>        pass'',
        nb_methodName = ''WordDictionary'', nb_parameterNames = []\<rparr>,
      fx_hints = [
        \<lparr>nh_hintText = ''A trie is well suited for prefix-based lookups. The challenge is handling the '.' wildcard that matches any character.'', nh_orderIndex = 0\<rparr>,
        \<lparr>nh_hintText = ''For addWord, use standard trie insertion. For search, traverse character by character. When you encounter '.', branch into all existing children and return true if any branch succeeds. Use DFS or recursion for the wildcard exploration.'', nh_orderIndex = 1\<rparr>]\<rparr>"

definition word_search_ii_fixture :: fixture where
  "word_search_ii_fixture =
     \<lparr>fx_problem = \<lparr>np_slug = ''word-search-ii'', np_title = ''Word Search II'', np_difficulty = ''hard'',
        np_category = ''Tries'',
        np_description = ''Given an `m x n` `board` of characters and a list of strings `words`, return all words on the board.\<newline>\<newline>Each word must be constructed from letters of sequentially adjacent cells, where adjacent cells are horizontally or vertically neighboring. The same letter cell may not be used more than once in a word.'',
        np_constraints = [''m == board.length'', ''n == board[i].length'', ''1 <= m, n <= 12'', ''board[i][j] is a lowercase English letter.'', ''1 <= words.length <= 3 * 10^4'', ''1 <= words[i].length <= 10'', ''words[i] consists of lowercase English letters.'', ''All the strings of words are unique.''],
        np_solution = Some ''Build a trie from the word list. DFS from every cell on the board, following trie edges. When a complete word is found at a trie node, add it to results. Prune trie branches after finding words to avoid revisiting.'',
        np_timeLimitMs = 5000, np_source = ''curated'', np_sourceUrl = Some ''https://leetcode.com/problems/word-search-ii/''\<rparr>,
      fx_testCases = [
          fx_case [(''board'', JArr [jstrs [''o'', ''a'', ''a'', ''n''], jstrs [''e'', ''t'', ''a'', ''e''],
            jstrs [''i'', ''h'', ''k'', ''r''], jstrs [''i'', ''f'', ''l'', ''v'']]), (''words'', jstrs [''oath'',
            ''pea'', ''eat'', ''rain''])] (jstrs [''eat'', ''oath'']) True 0,
          fx_case [(''board'', JArr [jstrs [''a'', ''b''], jstrs [''c'', ''d'']]), (''words'',
            jstrs [''abcb''])] (JArr []) True 1,
          fx_case [(''board'', JArr [jstrs [''a'']]), (''words'', jstrs [''a''])] (jstrs [''a'']) True 2,
          fx_case [(''board'', JArr [jstrs [''a'', ''b''], jstrs [''c'', ''d'']]), (''words'', jstrs [''ab'', ''cb'',
            ''ad'', ''bd'', ''ac'', ''ca'', ''da'', ''bc'', ''db'', ''adcb'', ''dabc'', ''abb'',
            ''acb''])] (jstrs [''ab'', ''ac'', ''bd'', ''ca'', ''db'']) False 3,
          fx_case [(''board'', JArr [jstrs [''a'', ''a'']]), (''words'', jstrs [''aaa''])] (JArr []) False 4,
          fx_case [(''board'', JArr [jstrs [''a'', ''b'', ''c''], jstrs [''a'', ''e'', ''d''], jstrs [''a'', ''f'',
            ''g'']]), (''words'', jstrs [''abcdefg'', ''gfedcba'', ''eaabcdgf'', ''bef'',
            ''deabc''])] (jstrs [''abcdefg'', ''bef'', ''eaabcdgf'', ''gfedcba'']) False 5,
          fx_case [(''board'', JArr [jstrs [''a'', ''b''], jstrs [''a'', ''a'']]), (''words'', jstrs [''aba'',
            ''baa'', ''bab'', ''aaab'', ''aaa'', ''aaaa'', ''aaba''])] (jstrs [''aaa'', ''aaab'', ''aaba'', ''aba'',
            ''baa'']) False 6,
          fx_case [(''board'', JArr [jstrs [''o'', ''a'', ''b'', ''n''], jstrs [''o'', ''t'', ''a'', ''e''],
            jstrs [''a'', ''h'', ''k'', ''r''], jstrs [''a'', ''f'', ''l'', ''v'']]), (''words'', jstrs [''oa'',
            ''oaa''])] (jstrs [''oa'', ''oaa'']) False 7],
      fx_boilerplate = \<lparr>nb_language = ''python'', nb_template = ''class Solution:\<newline>    def findWords(self, board: List[List[str]], words: List[str]) -> List[str]:\<newline>        pass'',
        nb_methodName = ''findWords'', nb_parameterNames = [''board'', ''words'']\<rparr>,
      fx_hints = [
        \<lparr>nh_hintText = ''Searching for each word independently with DFS is too slow when there are many words. Think about how to search for all words simultaneously.'', nh_orderIndex = 0\<rparr>,
        \<lparr>nh_hintText = ''Build a trie from all words. Start a DFS from every cell, following the trie edges. If you reach a node that marks the end of a word, add it to results.'', nh_orderIndex = 1\<rparr>,
        \<lparr>nh_hintText = ''Optimize by pruning: remove trie leaf nodes after finding a word to avoid redundant searches. Mark visited cells during DFS and unmark on backtrack. Stop early if the current trie node has no children.'', nh_orderIndex = 2\<rparr>]\<rparr>"

definition triesProblems :: "fixture list" where
  "triesProblems =
     [implement_trie_prefix_tree_fixture,
      design_add_and_search_words_data_structure_fixture,
      word_search_ii_fixture]"

lemma triesProblems_facts:
  "map seed_facts triesProblems =
     [(''implement-trie-prefix-tree'', True, False, True),
      (''design-add-and-search-words-data-structure'', True, False, True),
      (''word-search-ii'', True, True, True)]"
  by (simp add: triesProblems_def seed_evaluation cong: seed_congs add:
      implement_trie_prefix_tree_fixture_def
      design_add_and_search_words_data_structure_fixture_def
      word_search_ii_fixture_def)

end
