(* ===== verification/Seed_Heap.thy ===== *)
theory Seed_Heap
  imports Seed_Base
begin

text \<open>The problems of \<^verbatim>\<open>heap.ts\<close>, \<^verbatim>\<open>backtracking.ts\<close> under
  \<^verbatim>\<open>packages/db/src/seeds/data\<close>, in the order of the files.\<close>

section \<open>heap\<close>

definition kth_largest_element_in_a_stream_fixture :: fixture where
  "kth_largest_element_in_a_stream_fixture =
     \<lparr>fx_problem = \<lparr>np_slug = ''kth-largest-element-in-a-stream'', np_title = ''Kth Largest Element in a Stream'', np_difficulty = ''easy'',
        np_category = ''Heap / Priority Queue'',
        np_description = ''Design a class to find the `k`th largest element in a stream. Note that it is the `k`th largest element in the sorted order, not the `k`th distinct element.\<newline>\<newline>Implement `KthLargest` class:\<newline>\<newline>- `KthLargest(int k, int[] nums)` Initializes the object with the integer `k` and the stream of integers `nums`.\<newline>- `int add(int val)` Appends the integer `val` to the stream and returns the element representing the `k`th largest element in the stream.'',
        np_constraints = [''1 <= k <= 10^4'', ''0 <= nums.length <= 10^4'', ''-10^4 <= nums[i] <= 10^4'', ''-10^4 <= val <= 10^4'', ''At most 10^4 calls will be made to add.'', ''It is guaranteed that there will be at least k elements in the array when you search for the kth element.''],
        np_solution = Some ''Maintain a min-heap of size k. When adding a value, push it onto the heap and pop if the size exceeds k. The top of the heap is always the kth largest element.'',
        np_timeLimitMs = 5000, np_source = ''curated'', np_sourceUrl = None\<rparr>,
      fx_testCases = [
          fx_case [(''k'', jint 3), (''nums'', jints [4, 5, 8, 2]), (''val'', jint 3)] (jint 4) True 0,
          fx_case [(''k'', jint 3), (''nums'', jints [4, 5, 8, 2]), (''val'', jint 5)] (jint 5) True 1,
          fx_case [(''k'', jint 3), (''nums'', jints [4, 5, 8, 2]), (''val'', jint 10)] (jint 5) True 2,
          fx_case [(''k'', jint 1), (''nums'', JArr []), (''val'', jint 1)] (jint 1) False 3,
          fx_case [(''k'', jint 1), (''nums'', jints [2]), (''val'', jint 3)] (jint 3) False 4,
          fx_case [(''k'', jint 2), (''nums'', jints [0]), (''val'', jint (- 1))] (jint (- 1)) False 5,
          fx_case [(''k'', jint 3), (''nums'', jints [4, 5, 8, 2]), (''val'', jint 9)] (jint 5) False 6,
          fx_case [(''k'', jint 2), (''nums'', jints [1, 1, 1]), (''val'', jint 1)] (jint 1) False 7],
      fx_boilerplate = \<lparr>nb_language = ''python'', nb_template = ''class KthLargest:\<newline>    def __init__(self, k: int, nums: List[int]):\<newline>        pass\<newline>\<newline>    def add(self, val: int) -> int:\<newline>        pass'',
        nb_methodName = ''add'', nb_parameterNames = [''val'']\<rparr>,
      fx_hints = [
        \<lparr>nh_hintText = ''Think about which heap variant (min or max) lets you efficiently track the kth largest. A min-heap of size k keeps the kth largest at the top.'', nh_orderIndex = 0\<rparr>]\<rparr>"

definition last_stone_weight_fixture :: fixture where
  "last_stone_weight_fixture =
     \<lparr>fx_problem = \<lparr>np_slug = ''last-stone-weight'', np_title = ''Last Stone Weight'', np_difficulty = ''easy'',
        np_category = ''Heap / Priority Queue'',
        np_description = ''You are given an array of integers `stones` where `stones[i]` is the weight of the `i`th stone.\<newline>\<newline>We are playing a game with the stones. On each turn, we choose the heaviest two stones and smash them together. Suppose the heaviest two stones have weights `x` and `y` with `x <= y`. The result of this smash is:\<newline>\<newline>- If `x == y`, both stones are destroyed.\<newline>- If `x != y`, the stone of weight `x` is destroyed, and the stone of weight `y` has new weight `y - x`.\<newline>\<newline>At the end of the game, there is at most one stone left.\<newline>\<newline>Return the weight of the last remaining stone. If there are no stones left, return `0`.'',
        np_constraints = [''1 <= stones.length <= 30'', ''1 <= stones[i] <= 1000''],
        np_solution = Some ''Use a max-heap. Repeatedly extract the two largest stones, compute the difference, and push it back if non-zero. Return the last remaining element or 0.'',
        np_timeLimitMs = 5000, np_source = ''curated'', np_sourceUrl = None\<rparr>,
      fx_testCases = [
          fx_case [(''stones'', jints [2, 7, 4, 1, 8, 1])] (jint 1) True 0,
          fx_case [(''stones'', jints [1])] (jint 1) True 1,
          fx_case [(''stones'', jints [2, 2])] (jint 0) True 2,
          fx_case [(''stones'', jints [10, 4, 2, 10])] (jint 2) False 3,
          fx_case [(''stones'', jints [3, 7, 2])] (jint 2) False 4,
          fx_case [(''stones'', jints [1, 1, 1, 1])] (jint 0) False 5,
          fx_case [(''stones'', jints [1, 2, 3, 4, 5])] (jint 1) False 6,
          fx_case [(''stones'', jints [1000])] (jint 1000) False 7],
      fx_boilerplate = \<lparr>nb_language = ''python'', nb_template = ''class Solution:\<newline>    def lastStoneWeight(self, stones: List[int]) -> int:\<newline>        pass'',
        nb_methodName = ''lastStoneWeight'', nb_parameterNames = [''stones'']\<rparr>,
      fx_hints = [
        \<lparr>nh_hintText = ''You need to repeatedly find and remove the two largest elements. A max-heap (or negated min-heap in Python) is ideal for this.'', nh_orderIndex = 0\<rparr>]\<rparr>"

definition k_closest_points_to_origin_fixture :: fixture where
  "k_closest_points_to_origin_fixture =
     \<lparr>fx_problem = \<lparr>np_slug = ''k-closest-points-to-origin'', np_title = ''K Closest Points to Origin'', np_difficulty = ''medium'',
        np_category = ''Heap / Priority Queue'',
        np_description = ''Given an array of `points` where `points[i] = [xi, yi]` represents a point on the X-Y plane and an integer `k`, return the `k` closest points to the origin `(0, 0)`.\<newline>\<newline>The distance between two points on the X-Y plane is the Euclidean distance (i.e., `sqrt(x1^2 + y1^2)`).\<newline>\<newline>You may return the answer in any order. The answer is guaranteed to be unique (except for the order that it is in).'',
        np_constraints = [''1 <= k <= points.length <= 10^4'', ''-10^4 <= xi, yi <= 10^4''],
        np_solution = Some ''Use a max-heap of size k keyed by distance. For each point, push it onto the heap; if the heap exceeds size k, pop the farthest point. The remaining k points are the closest.'',
        np_timeLimitMs = 5000, np_source = ''curated'', np_sourceUrl = None\<rparr>,
      fx_testCases = [
          fx_case [(''points'', JArr [jints [1, 3], jints [- 2, 2]]), (''k'', jint 1)] (JArr [jints [- 2, 2]]) True 0,
          fx_case [(''points'', JArr [jints [3, 3], jints [5, - 1], jints [- 2, 4]]), (''k'',
            jint 2)] (JArr [jints [3, 3], jints [- 2, 4]]) True 1,
          fx_case [(''points'', JArr [jints [0, 0], jints [1, 1]]), (''k'', jint 1)] (JArr [jints [0, 0]]) True 2,
          fx_case [(''points'', JArr [jints [1, 0], jints [0, 1]]), (''k'', jint 2)] (JArr [jints [1, 0], jints [0,
            1]]) False 3,
          fx_case [(''points'', JArr [jints [2, 2], jints [2, 2], jints [3, 3]]), (''k'', jint 2)] (JArr [jints [2,
            2], jints [2, 2]]) False 4,
          fx_case [(''points'', JArr [jints [- 1, - 1], jints [1, 1], jints [2, 2]]), (''k'',
            jint 1)] (JArr [jints [- 1, - 1]]) False 5,
          fx_case [(''points'', JArr [jints [0, 1], jints [1, 0], jints [0, - 1], jints [- 1, 0]]), (''k'',
            jint 4)] (JArr [jints [0, 1], jints [1, 0], jints [0, - 1], jints [- 1, 0]]) False 6,
          fx_case [(''points'', JArr [jints [10, 10]]), (''k'', jint 1)] (JArr [jints [10, 10]]) False 7],
      fx_boilerplate = \<lparr>nb_language = ''python'', nb_template = ''class Solution:\<newline>    def kClosest(self, points: List[List[int]], k: int) -> List[List[int]]:\<newline>        pass'',
        nb_methodName = ''kClosest'', nb_parameterNames = [''points'', ''k'']\<rparr>,
      fx_hints = [
        \<lparr>nh_hintText = ''You don't need to take the square root to compare distances. Comparing x^2 + y^2 is sufficient.'', nh_orderIndex = 0\<rparr>,
        \<lparr>nh_hintText = ''Use a max-heap of size k. For each point, push it onto the heap. If the size exceeds k, pop the farthest point. The remaining points are the k closest.'', nh_orderIndex = 1\<rparr>]\<rparr>"

definition kth_largest_element_in_an_array_fixture :: fixture where
  "kth_largest_element_in_an_array_fixture =
     \<lparr>fx_problem = \<lparr>np_slug = ''kth-largest-element-in-an-array'', np_title = ''Kth Largest Element in an Array'', np_difficulty = ''medium'',
        np_category = ''Heap / Priority Queue'',
        np_description = ''Given an integer array `nums` and an integer `k`, return the `k`th largest element in the array.\<newline>\<newline>Note that it is the `k`th largest element in the sorted order, not the `k`th distinct element.\<newline>\<newline>Can you solve it without sorting?'',
        np_constraints = [''1 <= k <= nums.length <= 10^5'', ''-10^4 <= nums[i] <= 10^4''],
        np_solution = Some ''Use a min-heap of size k, or use Quickselect (partitioning like quicksort) targeting the (n-k)th index for average O(n) time.'',
        np_timeLimitMs = 5000, np_source = ''curated'', np_sourceUrl = None\<rparr>,
      fx_testCases = [
          fx_case [(''nums'', jints [3, 2, 1, 5, 6, 4]), (''k'', jint 2)] (jint 5) True 0,
          fx_case [(''nums'', jints [3, 2, 3, 1, 2, 4, 5, 5, 6]), (''k'', jint 4)] (jint 4) True 1,
          fx_case [(''nums'', jints [1]), (''k'', jint 1)] (jint 1) True 2,
          fx_case [(''nums'', jints [7, 6, 5, 4, 3, 2, 1]), (''k'', jint 5)] (jint 3) False 3,
          fx_case [(''nums'', jints [1, 2, 3, 4, 5]), (''k'', jint 1)] (jint 5) False 4,
          fx_case [(''nums'', jints [1, 2, 3, 4, 5]), (''k'', jint 5)] (jint 1) False 5,
          fx_case [(''nums'', jints [2, 2, 2, 2]), (''k'', jint 2)] (jint 2) False 6,
          fx_case [(''nums'', jints [- 1, - 2, - 3, - 4]), (''k'', jint 1)] (jint (- 1)) False 7],
      fx_boilerplate = \<lparr>nb_language = ''python'', nb_template = ''class Solution:\<newline>    def findKthLargest(self, nums: List[int], k: int) -> int:\<newline>        pass'',
        nb_methodName = ''findKthLargest'', nb_parameterNames = [''nums'', ''k'']\<rparr>,
      fx_hints = [
        \<lparr>nh_hintText = ''A min-heap of size k can efficiently track the k largest elements. The top of the heap is the kth largest.'', nh_orderIndex = 0\<rparr>,
        \<lparr>nh_hintText = ''For an O(n) average approach, consider Quickselect: partition the array like quicksort but only recurse into the side that contains the target index.'', nh_orderIndex = 1\<rparr>]\<rparr>"

definition task_scheduler_fixture :: fixture where
  "task_scheduler_fixture =
     \<lparr>fx_problem = \<lparr>np_slug = ''task-scheduler'', np_title = ''Task Scheduler'', np_difficulty = ''medium'',
        np_category = ''Heap / Priority Queue'',
        np_description = ''You are given an array of CPU tasks, each represented by letters A to Z, and a cooling interval `n`. Each cycle or interval allows the completion of one task. Tasks can be completed in any order, but there's a constraint: identical tasks must be separated by at least `n` intervals due to cooling time.\<newline>\<newline>Return the minimum number of intervals the CPU will take to finish all the given tasks.'',
        np_constraints = [''1 <= tasks.length <= 10^4'', ''tasks[i] is an uppercase English letter.'', ''0 <= n <= 100''],
        np_solution = Some ''Count task frequencies. Use a max-heap to always schedule the most frequent task. Use a cooldown queue to track tasks waiting for their cooldown period. Each time step, pop from the heap, decrement, and add to the cooldown queue with a ready time.'',
        np_timeLimitMs = 5000, np_source = ''curated'', np_sourceUrl = None\<rparr>,
      fx_testCases = [
          fx_case [(''tasks'', jstrs [''A'', ''A'', ''A'', ''B'', ''B'', ''B'']), (''n'', jint 2)] (jint 8) True 0,
          fx_case [(''tasks'', jstrs [''A'', ''C'', ''A'', ''B'', ''D'', ''B'']), (''n'', jint 1)] (jint 6) True 1,
          fx_case [(''tasks'', jstrs [''A'', ''A'', ''A'', ''B'', ''B'', ''B'']), (''n'', jint 0)] (jint 6) True 2,
          fx_case [(''tasks'', jstrs [''A'']), (''n'', jint 0)] (jint 1) False 3,
          fx_case [(''tasks'', jstrs [''A'', ''A'', ''A'', ''A'', ''A'', ''A'', ''B'', ''C'', ''D'', ''E'', ''F'',
            ''G'']), (''n'', jint 1)] (jint 12) False 4,
          fx_case [(''tasks'', jstrs [''A'', ''B'', ''C'', ''D'', ''E'', ''F'']), (''n'', jint 2)] (jint 6) False 5,
          fx_case [(''tasks'', jstrs [''A'', ''A'', ''A'', ''B'', ''B'', ''B'', ''C'', ''C'', ''C'']), (''n'',
            jint 2)] (jint 9) False 6,
          fx_case [(''tasks'', jstrs [''A'', ''A'']), (''n'', jint 5)] (jint 7) False 7],
      fx_boilerplate = \<lparr>nb_language = ''python'', nb_template = ''class Solution:\<newline>    def leastInterval(self, tasks: List[str], n: int) -> int:\<newline>        pass'',
        nb_methodName = ''leastInterval'', nb_parameterNames = [''tasks'', ''n'']\<rparr>,
      fx_hints = [
        \<lparr>nh_hintText = ''Start by counting how many times each task appears. The most frequent task drives the schedule length.'', nh_orderIndex = 0\<rparr>,
        \<lparr>nh_hintText = ''Use a max-heap to always pick the task with the highest remaining count. After scheduling a task, place it in a cooldown queue that tracks when it becomes available again.'', nh_orderIndex = 1\<rparr>]\<rparr>"

definition design_twitter_fixture :: fixture where
  "design_twitter_fixture =
     \<lparr>fx_problem = \<lparr>np_slug = ''design-twitter'', np_title = ''Design Twitter'', np_difficulty = ''medium'',
        np_category = ''Heap / Priority Queue'',
        np_description = ''Design a simplified version of Twitter where users can post tweets, follow/unfollow another user, and get the 10 most recent tweets in the user's news feed.\<newline>\<newline>Implement the `Twitter` class:\<newline>\<newline>- `Twitter()` Initializes your twitter object.\<newline>- `void postTweet(int userId, int tweetId)` Composes a new tweet with ID `tweetId` by the user `userId`. Each call to this function will be made with a unique `tweetId`.\<newline>- `List<int> getNewsFeed(int userId)` Retrieves the 10 most recent tweet IDs in the user's news feed. Each item in the news feed must be posted by users who the user followed or by the user themself. Tweets must be ordered from most recent to least recent.\<newline>- `void follow(int followerId, int followeeId)` The user with ID `followerId` started following the user with ID `followeeId`.\<newline>- `void unfollow(int followerId, int followeeId)` The user with ID `followerId` started unfollowing the user with ID `followeeId`.'',
        np_constraints = [''1 <= userId, followerId, followeeId <= 500'', ''0 <= tweetId <= 10^4'', ''All the tweets have unique IDs.'', ''At most 3 * 10^4 calls will be made to postTweet, getNewsFeed, follow, and unfollow.''],
        np_solution = Some ''Use a hash map for follow relationships and a list of (timestamp, tweetId) per user. For getNewsFeed, merge tweets from the user and all followees using a max-heap keyed by timestamp, extracting the top 10.'',
        np_timeLimitMs = 5000, np_source = ''curated'', np_sourceUrl = None\<rparr>,
      fx_testCases = [
          fx_case [(''actions'', jstrs [''postTweet'', ''getNewsFeed'']), (''params'', JArr [jints [1, 5],
            jints [1]])] (JArr [JNull, jints [5]]) True 0,
          fx_case [(''actions'', jstrs [''postTweet'', ''follow'', ''postTweet'', ''getNewsFeed'']), (''params'',
            JArr [jints [1, 5], jints [1, 2], jints [2, 6], jints [1]])] (JArr [JNull, JNull, JNull, jints [6,
            5]]) True 1,
          fx_case [(''actions'', jstrs [''postTweet'', ''follow'', ''postTweet'', ''unfollow'', ''getNewsFeed'']),
            (''params'', JArr [jints [1, 5], jints [1, 2], jints [2, 6], jints [1, 2], jints [1]])] (JArr [JNull,
            JNull, JNull, JNull, jints [5]]) True 2,
          fx_case [(''actions'', jstrs [''getNewsFeed'']), (''params'', JArr [jints [1]])] (JArr [JArr []]) False 3,
          fx_case [(''actions'', jstrs [''postTweet'', ''postTweet'', ''getNewsFeed'']), (''params'', JArr [jints [1,
            1], jints [1, 2], jints [1]])] (JArr [JNull, JNull, jints [2, 1]]) False 4,
          fx_case [(''actions'', jstrs [''follow'', ''getNewsFeed'']), (''params'', JArr [jints [1, 2],
            jints [1]])] (JArr [JNull, JArr []]) False 5,
          fx_case [(''actions'', jstrs [''postTweet'', ''follow'', ''getNewsFeed'', ''unfollow'', ''getNewsFeed'']),
            (''params'', JArr [jints [2, 10], jints [1, 2], jints [1], jints [1, 2], jints [1]])] (JArr [JNull,
            JNull, jints [10], JNull, JArr []]) False 6,
          fx_case [(''actions'', jstrs [''postTweet'', ''postTweet'', ''postTweet'', ''getNewsFeed'']), (''params'',
            JArr [jints [1, 1], jints [2, 2], jints [1, 3], jints [1]])] (JArr [JNull, JNull, JNull, jints [3,
            1]]) False 7],
      fx_boilerplate = \<lparr>nb_language = ''python'', nb_template = ''class Twitter:\<newline>    def __init__(self):\<newline>        pass\<newline>\<newline>    def postTweet(self, userId: int, tweetId: int) -> None:\<newline>        pass\<newline>\<newline>    def getNewsFeed(self, userId: int) -> List[int]:\<newline>        pass\<newline>\<newline>    def follow(self, followerId: int, followeeId: int) -> None:\<newline>        pass\<newline>\<newline>    def unfollow(self, followerId: int, followeeId: int) -> None:\<newline>        pass'',
        nb_methodName = ''getNewsFeed'', nb_parameterNames = [''userId'']\<rparr>,
      fx_hints = [
        \<lparr>nh_hintText = ''Think about what data structures you need: a way to track who follows whom, and a way to store tweets with timestamps.'', nh_orderIndex = 0\<rparr>,
        \<lparr>nh_hintText = ''For the news feed, you need to merge sorted lists from multiple users. A heap (priority queue) is perfect for k-way merge by timestamp.'', nh_orderIndex = 1\<rparr>]\<rparr>"

definition find_median_from_data_stream_fixture :: fixture where
  "find_median_from_data_stream_fixture =
     \<lparr>fx_problem = \<lparr>np_slug = ''find-median-from-data-stream'', np_title = ''Find Median from Data Stream'', np_difficulty = ''hard'',
        np_category = ''Heap / Priority Queue'',
        np_description = ''The median is the middle value in an ordered integer list. If the size of the list is even, there is no middle value, and the median is the mean of the two middle values.\<newline>\<newline>Implement the `MedianFinder` class:\<newline>\<newline>- `MedianFinder()` initializes the `MedianFinder` object.\<newline>- `void addNum(int num)` adds the integer `num` from the data stream to the data structure.\<newline>- `double findMedian()` returns the median of all elements so far. Answers within `10^-5` of the actual answer will be accepted.'',
        np_constraints = [''-10^5 <= num <= 10^5'', ''There will be at least one element in the data structure before calling findMedian.'', ''At most 5 * 10^4 calls will be made to addNum and findMedian.''],
        np_solution = Some ''Maintain two heaps: a max-heap for the lower half and a min-heap for the upper half. Balance them so their sizes differ by at most 1. The median is either the top of the larger heap or the average of both tops.'',
        np_timeLimitMs = 5000, np_source = ''curated'', np_sourceUrl = None\<rparr>,
      fx_testCases = [
          fx_case [(''actions'', jstrs [''addNum'', ''addNum'', ''findMedian'', ''addNum'', ''findMedian'']),
            (''params'', JArr [jints [1], jints [2], JArr [], jints [3], JArr []])] (JArr [JNull, JNull, jdec 15 1,
            JNull, jdec 20 1]) True 0,
          fx_case [(''actions'', jstrs [''addNum'', ''findMedian'']), (''params'', JArr [jints [5],
            JArr []])] (JArr [JNull, jdec 50 1]) True 1,
          fx_case [(''actions'', jstrs [''addNum'', ''addNum'', ''findMedian'']), (''params'', JArr [jints [1],
            jints [1], JArr []])] (JArr [JNull, JNull, jdec 10 1]) True 2,
          fx_case [(''actions'', jstrs [''addNum'', ''addNum'', ''addNum'', ''addNum'', ''findMedian'']),
            (''params'', JArr [jints [1], jints [2], jints [3], jints [4], JArr []])] (JArr [JNull, JNull, JNull,
            JNull, jdec 25 1]) False 3,
          fx_case [(''actions'', jstrs [''addNum'', ''addNum'', ''addNum'', ''findMedian'']), (''params'',
            JArr [jints [- 1], jints [- 2], jints [- 3], JArr []])] (JArr [JNull, JNull, JNull,
            jdec (- 20) 1]) False 4,
          fx_case [(''actions'', jstrs [''addNum'', ''addNum'', ''addNum'', ''addNum'', ''addNum'', ''findMedian'']),
            (''params'', JArr [jints [5], jints [3], jints [8], jints [1], jints [9], JArr []])] (JArr [JNull, JNull,
            JNull, JNull, JNull, jdec 50 1]) False 5,
          fx_case [(''actions'', jstrs [''addNum'', ''findMedian'', ''addNum'', ''findMedian'']), (''params'',
            JArr [jints [0], JArr [], jints [0], JArr []])] (JArr [JNull, jdec 0 1, JNull, jdec 0 1]) False 6,
          fx_case [(''actions'', jstrs [''addNum'', ''addNum'', ''addNum'', ''addNum'', ''addNum'', ''addNum'',
            ''findMedian'']), (''params'', JArr [jints [10], jints [20], jints [30], jints [40], jints [50],
            jints [60], JArr []])] (JArr [JNull, JNull, JNull, JNull, JNull, JNull, jdec 350 1]) False 7],
      fx_boilerplate = \<lparr>nb_language = ''python'', nb_template = ''class MedianFinder:\<newline>    def __init__(self):\<newline>        pass\<newline>\<newline>    def addNum(self, num: int) -> None:\<newline>        pass\<newline>\<newline>    def findMedian(self) -> float:\<newline>        pass'',
        nb_methodName = ''findMedian'', nb_parameterNames = []\<rparr>,
      fx_hints = [
        \<lparr>nh_hintText = ''Think about splitting the stream into two halves: numbers less than or equal to the median, and numbers greater than the median.'', nh_orderIndex = 0\<rparr>,
        \<lparr>nh_hintText = ''A max-heap for the lower half and a min-heap for the upper half let you access the middle elements in O(1) time.'', nh_orderIndex = 1\<rparr>,
        \<lparr>nh_hintText = ''Keep the heaps balanced so their sizes differ by at most 1. When adding a number, decide which heap it belongs to, then rebalance if needed.'', nh_orderIndex = 2\<rparr>]\<rparr>"

definition heapProblems :: "fixture list" where
  "heapProblems =
     [kth_largest_element_in_a_stream_fixture,
      last_stone_weight_fixture,
      k_closest_points_to_origin_fixture,
      kth_largest_element_in_an_array_fixture,
      task_scheduler_fixture,
      design_twitter_fixture,
      find_median_from_data_stream_fixture]"

lemma heapProblems_facts:
  "map seed_facts heapProblems =
     [(''kth-largest-element-in-a-stream'', True, False, True),
      (''last-stone-weight'', True, True, True),
      (''k-closest-points-to-origin'', True, True, True),
      (''kth-largest-element-in-an-array'', True, True, True),
      (''task-scheduler'', True, True, True),
      (''design-twitter'', True, False, True),
      (''find-median-from-data-stream'', True, False, True)]"
  by (simp add: heapProblems_def seed_evaluation cong: seed_congs add:
      kth_largest_element_in_a_stream_fixture_def
      last_stone_weight_fixture_def
      k_closest_points_to_origin_fixture_def
      kth_largest_element_in_an_array_fixture_def
      task_scheduler_fixture_def
      design_twitter_fixture_def
      find_median_from_data_stream_fixture_def)


section \<open>backtracking\<close>

definition subsets_fixture :: fixture where
  "subsets_fixture =
     \<lparr>fx_problem = \<lparr>np_slug = ''subsets'', np_title = ''Subsets'', np_difficulty = ''medium'',
        np_category = ''Backtracking'',
        np_description = ''Given an integer array `nums` of unique elements, return all possible subsets (the power set).\<newline>\<newline>The solution set must not contain duplicate subsets. Return the solution in any order.'',
        np_constraints = [''1 <= nums.length <= 10'', ''-10 <= nums[i] <= 10'', ''All the numbers of nums are unique.''],
        np_solution = Some ''Use backtracking. At each index, decide to include or exclude the current element. Recurse on the remaining elements and collect all paths as subsets.'',
        np_timeLimitMs = 5000, np_source = ''curated'', np_sourceUrl = None\<rparr>,
      fx_testCases = [
          fx_case [(''nums'', jints [1, 2, 3])] (JArr [JArr [], jints [1], jints [2], jints [1, 2], jints [3],
            jints [1, 3], jints [2, 3], jints [1, 2, 3]]) True 0,
          fx_case [(''nums'', jints [0])] (JArr [JArr [], jints [0]]) True 1,
          fx_case [(''nums'', jints [1, 2])] (JArr [JArr [], jints [1], jints [2], jints [1, 2]]) True 2,
          fx_case [(''nums'', jints [1])] (JArr [JArr [], jints [1]]) False 3,
          fx_case [(''nums'', jints [- 1, 0, 1])] (JArr [JArr [], jints [- 1], jints [0], jints [- 1, 0], jints [1],
            jints [- 1, 1], jints [0, 1], jints [- 1, 0, 1]]) False 4,
          fx_case [(''nums'', jints [1, 2, 3, 4])] (JArr [JArr [], jints [1], jints [2], jints [1, 2], jints [3],
            jints [1, 3], jints [2, 3], jints [1, 2, 3], jints [4], jints [1, 4], jints [2, 4], jints [1, 2, 4],
            jints [3, 4], jints [1, 3, 4], jints [2, 3, 4], jints [1, 2, 3, 4]]) False 5,
          fx_case [(''nums'', jints [5, 10])] (JArr [JArr [], jints [5], jints [10], jints [5, 10]]) False 6,
          fx_case [(''nums'', jints [- 10, 10])] (JArr [JArr [], jints [- 10], jints [10], jints [- 10, 10]]) False 7],
      fx_boilerplate = \<lparr>nb_language = ''python'', nb_template = ''class Solution:\<newline>    def subsets(self, nums: List[int]) -> List[List[int]]:\<newline>        pass'',
        nb_methodName = ''subsets'', nb_parameterNames = [''nums'']\<rparr>,
      fx_hints = [
        \<lparr>nh_hintText = ''Think of each element as a binary choice: include it or skip it. This naturally forms a decision tree.'', nh_orderIndex = 0\<rparr>,
        \<lparr>nh_hintText = ''Use backtracking: maintain a current subset, and at each index decide to include or exclude the element. When you reach the end of the array, add the current subset to the result.'', nh_orderIndex = 1\<rparr>]\<rparr>"

definition combination_sum_fixture :: fixture where
  "combination_sum_fixture =
     \<lparr>fx_problem = \<lparr>np_slug = ''combination-sum'', np_title = ''Combination Sum'', np_difficulty = ''medium'',
        np_category = ''Backtracking'',
        np_description = ''Given an array of distinct integers `candidates` and a target integer `target`, return a list of all unique combinations of `candidates` where the chosen numbers sum to `target`. You may return the combinations in any order.\<newline>\<newline>The same number may be chosen from `candidates` an unlimited number of times. Two combinations are unique if the frequency of at least one of the chosen numbers is different.\<newline>\<newline>The test cases are generated such that the number of unique combinations that sum up to `target` is less than `150` combinations for the given input.'',
        np_constraints = [''1 <= candidates.length <= 30'', ''2 <= candidates[i] <= 40'', ''All elements of candidates are distinct.'', ''1 <= target <= 40''],
        np_solution = Some ''Use backtracking with a start index. At each step, try adding each candidate (from the current index onward to avoid duplicates). Subtract from the target and recurse. Backtrack when the remaining target is negative.'',
        np_timeLimitMs = 5000, np_source = ''curated'', np_sourceUrl = None\<rparr>,
      fx_testCases = [
          fx_case [(''candidates'', jints [2, 3, 6, 7]), (''target'', jint 7)] (JArr [jints [2, 2, 3],
            jints [7]]) True 0,
          fx_case [(''candidates'', jints [2, 3, 5]), (''target'', jint 8)] (JArr [jints [2, 2, 2, 2], jints [2, 3,
            3], jints [3, 5]]) True 1,
          fx_case [(''candidates'', jints [2]), (''target'', jint 1)] (JArr []) True 2,
          fx_case [(''candidates'', jints [3]), (''target'', jint 9)] (JArr [jints [3, 3, 3]]) False 3,
          fx_case [(''candidates'', jints [2, 3]), (''target'', jint 6)] (JArr [jints [2, 2, 2], jints [3,
            3]]) False 4,
          fx_case [(''candidates'', jints [7, 3, 2]), (''target'', jint 18)] (JArr [jints [2, 2, 2, 2, 2, 2, 2, 2,
            2], jints [2, 2, 2, 2, 2, 2, 3, 3], jints [2, 2, 2, 2, 3, 7], jints [2, 2, 2, 3, 3, 3, 3], jints [2, 2,
            7, 7], jints [2, 3, 3, 3, 7], jints [3, 3, 3, 3, 3, 3], jints [7, 7, 2, 2]]) False 5,
          fx_case [(''candidates'', jints [5, 10, 15]), (''target'', jint 15)] (JArr [jints [5, 5, 5], jints [5, 10],
            jints [15]]) False 6,
          fx_case [(''candidates'', jints [8, 4]), (''target'', jint 8)] (JArr [jints [4, 4], jints [8]]) False 7],
      fx_boilerplate = \<lparr>nb_language = ''python'', nb_template = ''class Solution:\<newline>    def combinationSum(self, candidates: List[int], target: int) -> List[List[int]]:\<newline>        pass'',
        nb_methodName = ''combinationSum'', nb_parameterNames = [''candidates'', ''target'']\<rparr>,
      fx_hints = [
        \<lparr>nh_hintText = ''Since the same number can be used multiple times, when you recurse you can stay at the same index rather than moving forward.'', nh_orderIndex = 0\<rparr>,
        \<lparr>nh_hintText = ''Use a start index to avoid generating duplicate combinations. At each step, try each candidate from the start index onward, subtract it from the target, and recurse. Stop when the target reaches 0 or goes negative.'', nh_orderIndex = 1\<rparr>]\<rparr>"

definition permutations_fixture :: fixture where
  "permutations_fixture =
     \<lparr>fx_problem = \<lparr>np_slug = ''permutations'', np_title = ''Permutations'', np_difficulty = ''medium'',
        np_category = ''Backtracking'',
        np_description = ''Given an array `nums` of distinct integers, return all the possible permutations. You can return the answer in any order.'',
        np_constraints = [''1 <= nums.length <= 6'', ''-10 <= nums[i] <= 10'', ''All the integers of nums are unique.''],
        np_solution = Some ''Use backtracking. Build the permutation one element at a time. At each step, try each unused element, add it to the current permutation, recurse, then remove it (backtrack).'',
        np_timeLimitMs = 5000, np_source = ''curated'', np_sourceUrl = None\<rparr>,
      fx_testCases = [
          fx_case [(''nums'', jints [1, 2, 3])] (JArr [jints [1, 2, 3], jints [1, 3, 2], jints [2, 1, 3], jints [2,
            3, 1], jints [3, 1, 2], jints [3, 2, 1]]) True 0,
          fx_case [(''nums'', jints [0, 1])] (JArr [jints [0, 1], jints [1, 0]]) True 1,
          fx_case [(''nums'', jints [1])] (JArr [jints [1]]) True 2,
          fx_case [(''nums'', jints [- 1, 0, 1])] (JArr [jints [- 1, 0, 1], jints [- 1, 1, 0], jints [0, - 1, 1],
            jints [0, 1, - 1], jints [1, - 1, 0], jints [1, 0, - 1]]) False 3,
          fx_case [(''nums'', jints [1, 2])] (JArr [jints [1, 2], jints [2, 1]]) False 4,
          fx_case [(''nums'', jints [5])] (JArr [jints [5]]) False 5,
          fx_case [(''nums'', jints [1, 2, 3, 4])] (JArr [jints [1, 2, 3, 4], jints [1, 2, 4, 3], jints [1, 3, 2, 4],
            jints [1, 3, 4, 2], jints [1, 4, 2, 3], jints [1, 4, 3, 2], jints [2, 1, 3, 4], jints [2, 1, 4, 3],
            jints [2, 3, 1, 4], jints [2, 3, 4, 1], jints [2, 4, 1, 3], jints [2, 4, 3, 1], jints [3, 1, 2, 4],
            jints [3, 1, 4, 2], jints [3, 2, 1, 4], jints [3, 2, 4, 1], jints [3, 4, 1, 2], jints [3, 4, 2, 1],
            jints [4, 1, 2, 3], jints [4, 1, 3, 2], jints [4, 2, 1, 3], jints [4, 2, 3, 1], jints [4, 3, 1, 2],
            jints [4, 3, 2, 1]]) False 6,
          fx_case [(''nums'', jints [0])] (JArr [jints [0]]) False 7],
      fx_boilerplate = \<lparr>nb_language = ''python'', nb_template = ''class Solution:\<newline>    def permute(self, nums: List[int]) -> List[List[int]]:\<newline>        pass'',
        nb_methodName = ''permute'', nb_parameterNames = [''nums'']\<rparr>,
      fx_hints = [
        \<lparr>nh_hintText = ''Think about building a permutation position by position. At each position, you can place any element not yet used.'', nh_orderIndex = 0\<rparr>,
        \<lparr>nh_hintText = ''Use a visited set or swap elements in-place. For each position, try each unused element, recurse to fill the next position, then undo the choice.'', nh_orderIndex = 1\<rparr>]\<rparr>"

definition subsets_ii_fixture :: fixture where
  "subsets_ii_fixture =
     \<lparr>fx_problem = \<lparr>np_slug = ''subsets-ii'', np_title = ''Subsets II'', np_difficulty = ''medium'',
        np_category = ''Backtracking'',
        np_description = ''Given an integer array `nums` that may contain duplicates, return all possible subsets (the power set).\<newline>\<newline>The solution set must not contain duplicate subsets. Return the solution in any order.'',
        np_constraints = [''1 <= nums.length <= 10'', ''-10 <= nums[i] <= 10''],
        np_solution = Some ''Sort the array first. Use backtracking with a start index. Skip duplicate elements at the same recursion level by checking if the current element equals the previous one at the same level.'',
        np_timeLimitMs = 5000, np_source = ''curated'', np_sourceUrl = None\<rparr>,
      fx_testCases = [
          fx_case [(''nums'', jints [1, 2, 2])] (JArr [JArr [], jints [1], jints [1, 2], jints [1, 2, 2], jints [2],
            jints [2, 2]]) True 0,
          fx_case [(''nums'', jints [0])] (JArr [JArr [], jints [0]]) True 1,
          fx_case [(''nums'', jints [1, 1])] (JArr [JArr [], jints [1], jints [1, 1]]) True 2,
          fx_case [(''nums'', jints [1, 2, 3])] (JArr [JArr [], jints [1], jints [1, 2], jints [1, 2, 3], jints [1,
            3], jints [2], jints [2, 3], jints [3]]) False 3,
          fx_case [(''nums'', jints [4, 4, 4])] (JArr [JArr [], jints [4], jints [4, 4], jints [4, 4, 4]]) False 4,
          fx_case [(''nums'', jints [1, 1, 2, 2])] (JArr [JArr [], jints [1], jints [1, 1], jints [1, 1, 2],
            jints [1, 1, 2, 2], jints [1, 2], jints [1, 2, 2], jints [2], jints [2, 2]]) False 5,
          fx_case [(''nums'', jints [3, 1, 2])] (JArr [JArr [], jints [1], jints [1, 2], jints [1, 2, 3], jints [1,
            3], jints [2], jints [2, 3], jints [3]]) False 6,
          fx_case [(''nums'', jints [0, 0, 0, 0])] (JArr [JArr [], jints [0], jints [0, 0], jints [0, 0, 0],
            jints [0, 0, 0, 0]]) False 7],
      fx_boilerplate = \<lparr>nb_language = ''python'', nb_template = ''class Solution:\<newline>    def subsetsWithDup(self, nums: List[int]) -> List[List[int]]:\<newline>        pass'',
        nb_methodName = ''subsetsWithDup'', nb_parameterNames = [''nums'']\<rparr>,
      fx_hints = [
        \<lparr>nh_hintText = ''How is this different from Subsets I? The key challenge is avoiding duplicate subsets when the input contains duplicates.'', nh_orderIndex = 0\<rparr>,
        \<lparr>nh_hintText = ''Sort the array first. During backtracking, if the current element is the same as the previous one at the same recursion level, skip it to avoid duplicates.'', nh_orderIndex = 1\<rparr>]\<rparr>"

definition combination_sum_ii_fixture :: fixture where
  "combination_sum_ii_fixture =
     \<lparr>fx_problem = \<lparr>np_slug = ''combination-sum-ii'', np_title = ''Combination Sum II'', np_difficulty = ''medium'',
        np_category = ''Backtracking'',
        np_description = ''Given a collection of candidate numbers (`candidates`) and a target number (`target`), find all unique combinations in `candidates` where the candidate numbers sum to `target`.\<newline>\<newline>Each number in `candidates` may only be used once in the combination.\<newline>\<newline>Note: The solution set must not contain duplicate combinations.'',
        np_constraints = [''1 <= candidates.length <= 100'', ''1 <= candidates[i] <= 50'', ''1 <= target <= 30''],
        np_solution = Some ''Sort the array first. Use backtracking with a start index. At each level, skip duplicate candidates (if candidates[i] == candidates[i-1] at the same level). Each candidate can only be used once, so recurse from i+1.'',
        np_timeLimitMs = 5000, np_source = ''curated'', np_sourceUrl = None\<rparr>,
      fx_testCases = [
          fx_case [(''candidates'', jints [10, 1, 2, 7, 6, 1, 5]), (''target'', jint 8)] (JArr [jints [1, 1, 6],
            jints [1, 2, 5], jints [1, 7], jints [2, 6]]) True 0,
          fx_case [(''candidates'', jints [2, 5, 2, 1, 2]), (''target'', jint 5)] (JArr [jints [1, 2, 2],
            jints [5]]) True 1,
          fx_case [(''candidates'', jints [1]), (''target'', jint 1)] (JArr [jints [1]]) True 2,
          fx_case [(''candidates'', jints [1]), (''target'', jint 2)] (JArr []) False 3,
          fx_case [(''candidates'', jints [1, 1, 1, 1]), (''target'', jint 2)] (JArr [jints [1, 1]]) False 4,
          fx_case [(''candidates'', jints [3, 1, 3, 5, 1, 1]), (''target'', jint 5)] (JArr [jints [1, 1, 3],
            jints [5]]) False 5,
          fx_case [(''candidates'', jints [2, 2, 2]), (''target'', jint 4)] (JArr [jints [2, 2]]) False 6,
          fx_case [(''candidates'', jints [4, 3, 2, 1]), (''target'', jint 10)] (JArr [jints [1, 2, 3, 4]]) False 7],
      fx_boilerplate = \<lparr>nb_language = ''python'', nb_template = ''class Solution:\<newline>    def combinationSum2(self, candidates: List[int], target: int) -> List[List[int]]:\<newline>        pass'',
        nb_methodName = ''combinationSum2'', nb_parameterNames = [''candidates'', ''target'']\<rparr>,
      fx_hints = [
        \<lparr>nh_hintText = ''This is similar to Combination Sum, but each element can only be used once. How do you prevent using the same element twice?'', nh_orderIndex = 0\<rparr>,
        \<lparr>nh_hintText = ''Sort the candidates first. During backtracking, skip duplicate elements at the same recursion level. Move to i+1 when recursing to avoid reusing elements.'', nh_orderIndex = 1\<rparr>]\<rparr>"

definition word_search_fixture :: fixture where
  "word_search_fixture =
     \<lparr>fx_problem = \<lparr>np_slug = ''word-search'', np_title = ''Word Search'', np_difficulty = ''medium'',
        np_category = ''Backtracking'',
        np_description = ''Given an `m x n` grid of characters `board` and a string `word`, return `true` if `word` exists in the grid.\<newline>\<newline>The word can be constructed from letters of sequentially adjacent cells, where adjacent cells are horizontally or vertically neighboring. The same letter cell may not be used more than once.'',
        np_constraints = [''m == board.length'', ''n == board[i].length'', ''1 <= m, n <= 6'', ''1 <= word.length <= 15'', ''board and word consists of only lowercase and uppercase English letters.''],
        np_solution = Some ''For each cell matching the first character, start a DFS/backtracking search. Mark visited cells, explore all four directions, and backtrack by unmarking. Return true if the entire word is matched.'',
        np_timeLimitMs = 5000, np_source = ''curated'', np_sourceUrl = None\<rparr>,
      fx_testCases = [
          fx_case [(''board'', JArr [jstrs [''A'', ''B'', ''C'', ''E''], jstrs [''S'', ''F'', ''C'', ''S''],
            jstrs [''A'', ''D'', ''E'', ''E'']]), (''word'', JStr ''ABCCED'')] (JBool True) True 0,
          fx_case [(''board'', JArr [jstrs [''A'', ''B'', ''C'', ''E''], jstrs [''S'', ''F'', ''C'', ''S''],
            jstrs [''A'', ''D'', ''E'', ''E'']]), (''word'', JStr ''SEE'')] (JBool True) True 1,
          fx_case [(''board'', JArr [jstrs [''A'', ''B'', ''C'', ''E''], jstrs [''S'', ''F'', ''C'', ''S''],
            jstrs [''A'', ''D'', ''E'', ''E'']]), (''word'', JStr ''ABCB'')] (JBool False) True 2,
          fx_case [(''board'', JArr [jstrs [''A'']]), (''word'', JStr ''A'')] (JBool True) False 3,
          fx_case [(''board'', JArr [jstrs [''A'']]), (''word'', JStr ''B'')] (JBool False) False 4,
          fx_case [(''board'', JArr [jstrs [''A'', ''B''], jstrs [''C'', ''D'']]), (''word'',
            JStr ''ABDC'')] (JBool True) False 5,
          fx_case [(''board'', JArr [jstrs [''A'', ''A'', ''A''], jstrs [''A'', ''A'', ''A''], jstrs [''A'', ''A'',
            ''A'']]), (''word'', JStr ''AAAAAAAAA'')] (JBool True) False 6,
          fx_case [(''board'', JArr [jstrs [''A'', ''B''], jstrs [''C'', ''D'']]), (''word'',
            JStr ''ACDB'')] (JBool True) False 7],
      fx_boilerplate = \<lparr>nb_language = ''python'', nb_template = ''class Solution:\<newline>    def exist(self, board: List[List[str]], word: str) -> bool:\<newline>        pass'',
        nb_methodName = ''exist'', nb_parameterNames = [''board'', ''word'']\<rparr>,
      fx_hints = [
        \<lparr>nh_hintText = ''Try starting the search from every cell that matches the first character of the word.'', nh_orderIndex = 0\<rparr>,
        \<lparr>nh_hintText = ''Use DFS with backtracking. Mark cells as visited during exploration and unmark them when backtracking. Explore all four adjacent directions at each step.'', nh_orderIndex = 1\<rparr>]\<rparr>"

definition palindrome_partitioning_fixture :: fixture where
  "palindrome_partitioning_fixture =
     \<lparr>fx_problem = \<lparr>np_slug = ''palindrome-partitioning'', np_title = ''Palindrome Partitioning'', np_difficulty = ''medium'',
        np_category = ''Backtracking'',
        np_description = ''Given a string `s`, partition `s` such that every substring of the partition is a palindrome. Return all possible palindrome partitioning of `s`.'',
        np_constraints = [''1 <= s.length <= 16'', ''s contains only lowercase English letters.''],
        np_solution = Some ''Use backtracking. At each position, try every possible prefix. If the prefix is a palindrome, add it to the current partition and recurse on the remaining string. Collect results when the entire string is consumed.'',
        np_timeLimitMs = 5000, np_source = ''curated'', np_sourceUrl = None\<rparr>,
      fx_testCases = [
          fx_case [(''s'', JStr ''aab'')] (JArr [jstrs [''a'', ''a'', ''b''], jstrs [''aa'', ''b'']]) True 0,
          fx_case [(''s'', JStr ''a'')] (JArr [jstrs [''a'']]) True 1,
          fx_case [(''s'', JStr ''ab'')] (JArr [jstrs [''a'', ''b'']]) True 2,
          fx_case [(''s'', JStr ''aa'')] (JArr [jstrs [''a'', ''a''], jstrs [''aa'']]) False 3,
          fx_case [(''s'', JStr ''aaa'')] (JArr [jstrs [''a'', ''a'', ''a''], jstrs [''a'', ''aa''], jstrs [''aa'',
            ''a''], jstrs [''aaa'']]) False 4,
          fx_case [(''s'', JStr ''aba'')] (JArr [jstrs [''a'', ''b'', ''a''], jstrs [''aba'']]) False 5,
          fx_case [(''s'', JStr ''abba'')] (JArr [jstrs [''a'', ''b'', ''b'', ''a''], jstrs [''a'', ''bb'', ''a''],
            jstrs [''abba'']]) False 6,
          fx_case [(''s'', JStr ''abc'')] (JArr [jstrs [''a'', ''b'', ''c'']]) False 7],
      fx_boilerplate = \<lparr>nb_language = ''python'', nb_template = ''class Solution:\<newline>    def partition(self, s: str) -> List[List[str]]:\<newline>        pass'',
        nb_methodName = ''partition'', nb_parameterNames = [''s'']\<rparr>,
      fx_hints = [
        \<lparr>nh_hintText = ''At each position in the string, you need to decide where to cut. Try every possible prefix that forms a palindrome.'', nh_orderIndex = 0\<rparr>,
        \<lparr>nh_hintText = ''Use backtracking: for each starting position, try substrings of increasing length. If a substring is a palindrome, include it in the current partition and recurse on the rest of the string.'', nh_orderIndex = 1\<rparr>]\<rparr>"

definition letter_combinations_of_a_phone_number_fixture :: fixture where
  "letter_combinations_of_a_phone_number_fixture =
     \<lparr>fx_problem = \<lparr>np_slug = ''letter-combinations-of-a-phone-number'', np_title = ''Letter Combinations of a Phone Number'', np_difficulty = ''medium'',
        np_category = ''Backtracking'',
        np_description = ''Given a string containing digits from `2-9` inclusive, return all possible letter combinations that the number could represent. Return the answer in any order.\<newline>\<newline>A mapping of digits to letters (just like on the telephone buttons) is given below. Note that 1 does not map to any letters.\<newline>\<newline>- 2: abc\<newline>- 3: def\<newline>- 4: ghi\<newline>- 5: jkl\<newline>- 6: mno\<newline>- 7: pqrs\<newline>- 8: tuv\<newline>- 9: wxyz'',
        np_constraints = [''0 <= digits.length <= 4'', ''digits[i] is a digit in the range ['2', '9'].''],
        np_solution = Some ''Use backtracking. Map each digit to its letters. For each digit in the input, try all corresponding letters, appending one at a time and recursing to the next digit. Collect complete combinations.'',
        np_timeLimitMs = 5000, np_source = ''curated'', np_sourceUrl = None\<rparr>,
      fx_testCases = [
          fx_case [(''digits'', JStr ''23'')] (jstrs [''ad'', ''ae'', ''af'', ''bd'', ''be'', ''bf'', ''cd'', ''ce'',
            ''cf'']) True 0,
          fx_case [(''digits'', JStr [])] (JArr []) True 1,
          fx_case [(''digits'', JStr ''2'')] (jstrs [''a'', ''b'', ''c'']) True 2,
          fx_case [(''digits'', JStr ''9'')] (jstrs [''w'', ''x'', ''y'', ''z'']) False 3,
          fx_case [(''digits'', JStr ''7'')] (jstrs [''p'', ''q'', ''r'', ''s'']) False 4,
          fx_case [(''digits'', JStr ''79'')] (jstrs [''pw'', ''px'', ''py'', ''pz'', ''qw'', ''qx'', ''qy'', ''qz'',
            ''rw'', ''rx'', ''ry'', ''rz'', ''sw'', ''sx'', ''sy'', ''sz'']) False 5,
          fx_case [(''digits'', JStr ''22'')] (jstrs [''aa'', ''ab'', ''ac'', ''ba'', ''bb'', ''bc'', ''ca'', ''cb'',
            ''cc'']) False 6,
          fx_case [(''digits'', JStr ''234'')] (jstrs [''adg'', ''adh'', ''adi'', ''aeg'', ''aeh'', ''aei'', ''afg'',
            ''afh'', ''afi'', ''bdg'', ''bdh'', ''bdi'', ''beg'', ''beh'', ''bei'', ''bfg'', ''bfh'', ''bfi'',
            ''cdg'', ''cdh'', ''cdi'', ''ceg'', ''ceh'', ''cei'', ''cfg'', ''cfh'', ''cfi'']) False 7],
      fx_boilerplate = \<lparr>nb_language = ''python'', nb_template = ''class Solution:\<newline>    def letterCombinations(self, digits: str) -> List[str]:\<newline>        pass'',
        nb_methodName = ''letterCombinations'', nb_parameterNames = [''digits'']\<rparr>,
      fx_hints = [
        \<lparr>nh_hintText = ''Create a mapping from each digit to its corresponding letters. Then think about how to generate all combinations digit by digit.'', nh_orderIndex = 0\<rparr>,
        \<lparr>nh_hintText = ''Use backtracking: for each digit, iterate over its mapped letters, append one to the current combination, and recurse to the next digit. When the combination length equals the input length, add it to the results.'', nh_orderIndex = 1\<rparr>]\<rparr>"

definition n_queens_fixture :: fixture where
  "n_queens_fixture =
     \<lparr>fx_problem = \<lparr>np_slug = ''n-queens'', np_title = ''N-Queens'', np_difficulty = ''hard'',
        np_category = ''Backtracking'',
        np_description = ''The n-queens puzzle is the problem of placing `n` queens on an `n x n` chessboard such that no two queens attack each other.\<newline>\<newline>Given an integer `n`, return all distinct solutions to the n-queens puzzle. You may return the answer in any order.\<newline>\<newline>Each solution contains a distinct board configuration of the n-queens' placement, where `'Q'` and `'.'` both indicate a queen and an empty space, respectively.'',
        np_constraints = [''1 <= n <= 9''],
        np_solution = Some ''Use backtracking row by row. For each row, try placing a queen in each column. Track which columns and diagonals are under attack using sets. If a placement is valid, recurse to the next row. Collect the board when all rows are filled.'',
        np_timeLimitMs = 5000, np_source = ''curated'', np_sourceUrl = None\<rparr>,
      fx_testCases = [
          fx_case [(''n'', jint 4)] (JArr [jstrs [''.Q..'', ''...Q'', ''Q...'', ''..Q.''], jstrs [''..Q.'', ''Q...'',
            ''...Q'', ''.Q..'']]) True 0,
          fx_case [(''n'', jint 1)] (JArr [jstrs [''Q'']]) True 1,
          fx_case [(''n'', jint 2)] (JArr []) True 2,
          fx_case [(''n'', jint 3)] (JArr []) False 3,
          fx_case [(''n'', jint 5)] (JArr [jstrs [''Q....'', ''..Q..'', ''....Q'', ''.Q...'', ''...Q.''],
            jstrs [''Q....'', ''...Q.'', ''.Q...'', ''....Q'', ''..Q..''], jstrs [''.Q...'', ''...Q.'', ''Q....'',
            ''..Q..'', ''....Q''], jstrs [''.Q...'', ''....Q'', ''..Q..'', ''Q....'', ''...Q.''], jstrs [''..Q..'',
            ''Q....'', ''...Q.'', ''.Q...'', ''....Q''], jstrs [''..Q..'', ''....Q'', ''.Q...'', ''...Q.'',
            ''Q....''], jstrs [''...Q.'', ''Q....'', ''..Q..'', ''....Q'', ''.Q...''], jstrs [''...Q.'', ''.Q...'',
            ''....Q'', ''..Q..'', ''Q....''], jstrs [''....Q'', ''.Q...'', ''...Q.'', ''Q....'', ''..Q..''],
            jstrs [''....Q'', ''..Q..'', ''Q....'', ''...Q.'', ''.Q...'']]) False 4,
          fx_case [(''n'', jint 6)] (JArr [jstrs [''.Q....'', ''...Q..'', ''.....Q'', ''Q.....'', ''..Q...'',
            ''....Q.''], jstrs [''..Q...'', ''.....Q'', ''.Q....'', ''....Q.'', ''Q.....'', ''...Q..''],
            jstrs [''...Q..'', ''Q.....'', ''....Q.'', ''.Q....'', ''.....Q'', ''..Q...''], jstrs [''....Q.'',
            ''..Q...'', ''Q.....'', ''.....Q'', ''...Q..'', ''.Q....'']]) False 5,
          fx_case [(''n'', jint 7)] (JArr [jstrs [''Q......'', ''..Q....'', ''....Q..'', ''......Q'', ''.Q.....'',
            ''...Q...'', ''.....Q.''], jstrs [''Q......'', ''...Q...'', ''......Q'', ''..Q....'', ''.....Q.'',
            ''.Q.....'', ''....Q..''], jstrs [''.Q.....'', ''...Q...'', ''Q......'', ''......Q'', ''....Q..'',
            ''..Q....'', ''.....Q.''], jstrs [''.Q.....'', ''...Q...'', ''.....Q.'', ''Q......'', ''..Q....'',
            ''....Q..'', ''......Q''], jstrs [''.Q.....'', ''....Q..'', ''Q......'', ''...Q...'', ''......Q'',
            ''..Q....'', ''.....Q.''], jstrs [''.Q.....'', ''....Q..'', ''......Q'', ''...Q...'', ''Q......'',
            ''..Q....'', ''.....Q.''], jstrs [''.Q.....'', ''.....Q.'', ''..Q....'', ''......Q'', ''...Q...'',
            ''Q......'', ''....Q..''], jstrs [''.Q.....'', ''......Q'', ''....Q..'', ''..Q....'', ''Q......'',
            ''.....Q.'', ''...Q...''], jstrs [''..Q....'', ''Q......'', ''.....Q.'', ''.Q.....'', ''....Q..'',
            ''......Q'', ''...Q...''], jstrs [''..Q....'', ''Q......'', ''.....Q.'', ''...Q...'', ''.Q.....'',
            ''......Q'', ''....Q..''], jstrs [''..Q....'', ''....Q..'', ''......Q'', ''.Q.....'', ''...Q...'',
            ''.....Q.'', ''Q......''], jstrs [''..Q....'', ''.....Q.'', ''.Q.....'', ''....Q..'', ''Q......'',
            ''...Q...'', ''......Q''], jstrs [''..Q....'', ''......Q'', ''.Q.....'', ''...Q...'', ''.....Q.'',
            ''Q......'', ''....Q..''], jstrs [''..Q....'', ''......Q'', ''...Q...'', ''Q......'', ''....Q..'',
            ''.Q.....'', ''.....Q.''], jstrs [''...Q...'', ''Q......'', ''....Q..'', ''.Q.....'', ''.....Q.'',
            ''..Q....'', ''......Q''], jstrs [''...Q...'', ''Q......'', ''..Q....'', ''.....Q.'', ''.Q.....'',
            ''......Q'', ''....Q..''], jstrs [''...Q...'', ''.Q.....'', ''......Q'', ''....Q..'', ''..Q....'',
            ''Q......'', ''.....Q.''], jstrs [''...Q...'', ''.....Q.'', ''Q......'', ''..Q....'', ''....Q..'',
            ''......Q'', ''.Q.....''], jstrs [''...Q...'', ''......Q'', ''..Q....'', ''.....Q.'', ''.Q.....'',
            ''....Q..'', ''Q......''], jstrs [''...Q...'', ''......Q'', ''....Q..'', ''.Q.....'', ''.....Q.'',
            ''Q......'', ''..Q....''], jstrs [''....Q..'', ''Q......'', ''...Q...'', ''......Q'', ''..Q....'',
            ''.....Q.'', ''.Q.....''], jstrs [''....Q..'', ''Q......'', ''.....Q.'', ''...Q...'', ''.Q.....'',
            ''......Q'', ''..Q....''], jstrs [''....Q..'', ''.Q.....'', ''.....Q.'', ''..Q....'', ''......Q'',
            ''...Q...'', ''Q......''], jstrs [''....Q..'', ''..Q....'', ''Q......'', ''.....Q.'', ''...Q...'',
            ''.Q.....'', ''......Q''], jstrs [''....Q..'', ''......Q'', ''.Q.....'', ''...Q...'', ''.....Q.'',
            ''Q......'', ''..Q....''], jstrs [''....Q..'', ''......Q'', ''.Q.....'', ''.....Q.'', ''..Q....'',
            ''Q......'', ''...Q...''], jstrs [''.....Q.'', ''Q......'', ''..Q....'', ''....Q..'', ''......Q'',
            ''.Q.....'', ''...Q...''], jstrs [''.....Q.'', ''.Q.....'', ''....Q..'', ''Q......'', ''...Q...'',
            ''......Q'', ''..Q....''], jstrs [''.....Q.'', ''..Q....'', ''Q......'', ''...Q...'', ''......Q'',
            ''....Q..'', ''.Q.....''], jstrs [''.....Q.'', ''..Q....'', ''....Q..'', ''......Q'', ''Q......'',
            ''...Q...'', ''.Q.....''], jstrs [''.....Q.'', ''..Q....'', ''......Q'', ''...Q...'', ''Q......'',
            ''....Q..'', ''.Q.....''], jstrs [''.....Q.'', ''...Q...'', ''.Q.....'', ''......Q'', ''....Q..'',
            ''..Q....'', ''Q......''], jstrs [''.....Q.'', ''...Q...'', ''......Q'', ''Q......'', ''..Q....'',
            ''....Q..'', ''.Q.....''], jstrs [''......Q'', ''.Q.....'', ''...Q...'', ''.....Q.'', ''Q......'',
            ''..Q....'', ''....Q..''], jstrs [''......Q'', ''..Q....'', ''.....Q.'', ''.Q.....'', ''....Q..'',
            ''Q......'', ''...Q...''], jstrs [''......Q'', ''...Q...'', ''Q......'', ''....Q..'', ''.Q.....'',
            ''.....Q.'', ''..Q....''], jstrs [''......Q'', ''....Q..'', ''..Q....'', ''Q......'', ''.....Q.'',
            ''...Q...'', ''.Q.....'']]) False 6,
          fx_case [(''n'', jint 8)] (jint 92) False 7],
      fx_boilerplate = \<lparr>nb_language = ''python'', nb_template = ''class Solution:\<newline>    def solveNQueens(self, n: int) -> List[List[str]]:\<newline>        pass'',
        nb_methodName = ''solveNQueens'', nb_parameterNames = [''n'']\<rparr>,
      fx_hints = [
        \<lparr>nh_hintText = ''Place queens one row at a time. For each row, try every column and check if it's safe (no other queen in the same column, or on the same diagonal).'', nh_orderIndex = 0\<rparr>,
        \<lparr>nh_hintText = ''Track attacked columns and diagonals using sets. The two diagonal directions can be identified by (row - col) and (row + col).'', nh_orderIndex = 1\<rparr>,
        \<lparr>nh_hintText = ''When you've placed a queen in every row successfully, convert the board state to the required string format and add it to results.'', nh_orderIndex = 2\<rparr>]\<rparr>"

definition backtrackingProblems :: "fixture list" where
  "backtrackingProblems =
     [subsets_fixture,
      combination_sum_fixture,
      permutations_fixture,
      subsets_ii_fixture,
      combination_sum_ii_fixture,
      word_search_fixture,
      palindrome_partitioning_fixture,
      letter_combinations_of_a_phone_number_fixture,
      n_queens_fixture]"

lemma backtrackingProblems_facts:
  "map seed_facts backtrackingProblems =
     [(''subsets'', True, True, True),
      (''combination-sum'', True, True, True),
      (''permutations'', True, True, True),
      (''subsets-ii'', True, True, True),
      (''combination-sum-ii'', True, True, True),
      (''word-search'', True, True, True),
      (''palindrome-partitioning'', True, True, True),
      (''letter-combinations-of-a-phone-number'', True, True, True),
      (''n-queens'', True, True, True)]"
  by (simp add: backtrackingProblems_def seed_evaluation cong: seed_congs add:
      subsets_fixture_def
      combination_sum_fixture_def
      permutations_fixture_def
      subsets_ii_fixture_def
      combination_sum_ii_fixture_def
      word_search_fixture_def
      palindrome_partitioning_fixture_def
      letter_combinations_of_a_phone_number_fixture_def
      n_queens_fixture_def)

end
