(* ===== verification/Seed_Graphs.thy ===== *)
theory Seed_Graphs
  imports Seed_Base
begin

text \<open>The problems of \<^verbatim>\<open>graphs.ts\<close>, \<^verbatim>\<open>advanced-graphs.ts\<close> under
  \<^verbatim>\<open>packages/db/src/seeds/data\<close>, in the order of the files.\<close>

section \<open>graphs\<close>

definition number_of_islands_fixture :: fixture where
  "number_of_islands_fixture =
     \<lparr>fx_problem = \<lparr>np_slug = ''number-of-islands'', np_title = ''Number of Islands'', np_difficulty = ''medium'',
        np_category = ''Graphs'',
        np_description = ''Given an `m x n` 2D binary grid `grid` which represents a map of `'1'`s (land) and `'0'`s (water), return the number of islands.\<newline>\<newline>An island is surrounded by water and is formed by connecting adjacent lands horizontally or vertically. You may assume all four edges of the grid are all surrounded by water.'',
        np_constraints = [''m == grid.length'', ''n == grid[i].length'', ''1 <= m, n <= 300'', ''grid[i][j] is '0' or '1'.''],
        np_solution = Some ''Iterate through the grid. When a '1' is found, increment the count and use BFS or DFS to mark all connected land cells as visited. Continue scanning for the next unvisited '1'.'',
        np_timeLimitMs = 5000, np_source = ''curated'', np_sourceUrl = None\<rparr>,
      fx_testCases = [
          fx_case [(''grid'', JArr [jstrs [''1'', ''1'', ''1'', ''1'', ''0''], jstrs [''1'', ''1'', ''0'', ''1'',
            ''0''], jstrs [''1'', ''1'', ''0'', ''0'', ''0''], jstrs [''0'', ''0'', ''0'', ''0'',
            ''0'']])] (jint 1) True 0,
          fx_case [(''grid'', JArr [jstrs [''1'', ''1'', ''0'', ''0'', ''0''], jstrs [''1'', ''1'', ''0'', ''0'',
            ''0''], jstrs [''0'', ''0'', ''1'', ''0'', ''0''], jstrs [''0'', ''0'', ''0'', ''1'',
            ''1'']])] (jint 3) True 1,
          fx_case [(''grid'', JArr [jstrs [''1'']])] (jint 1) True 2,
          fx_case [(''grid'', JArr [jstrs [''0'']])] (jint 0) False 3,
          fx_case [(''grid'', JArr [jstrs [''1'', ''0'', ''1''], jstrs [''0'', ''1'', ''0''], jstrs [''1'', ''0'',
            ''1'']])] (jint 5) False 4,
          fx_case [(''grid'', JArr [jstrs [''1'', ''1'', ''1''], jstrs [''1'', ''1'', ''1''], jstrs [''1'', ''1'',
            ''1'']])] (jint 1) False 5,
          fx_case [(''grid'', JArr [jstrs [''0'', ''0'', ''0''], jstrs [''0'', ''0'', ''0''], jstrs [''0'', ''0'',
            ''0'']])] (jint 0) False 6,
          fx_case [(''grid'', JArr [jstrs [''1'', ''0'', ''1'', ''0''], jstrs [''0'', ''0'', ''0'', ''0''],
            jstrs [''1'', ''0'', ''1'', ''0'']])] (jint 4) False 7],
      fx_boilerplate = \<lparr>nb_language = ''python'', nb_template = ''class Solution:\<newline>    def numIslands(self, grid: List[List[str]]) -> int:\<newline>        pass'',
        nb_methodName = ''numIslands'', nb_parameterNames = [''grid'']\<rparr>,
      fx_hints = [
        \<lparr>nh_hintText = ''Each connected group of '1's forms one island. Think about how to traverse all cells in a connected component.'', nh_orderIndex = 0\<rparr>,
        \<lparr>nh_hintText = ''Use BFS or DFS. When you find a '1', explore all connected '1's and mark them as visited (e.g., change to '0'). Each time you start a new traversal, that's a new island.'', nh_orderIndex = 1\<rparr>]\<rparr>"

definition clone_graph_fixture :: fixture where
  "clone_graph_fixture =
     \<lparr>fx_problem = \<lparr>np_slug = ''clone-graph'', np_title = ''Clone Graph'', np_difficulty = ''medium'',
        np_category = ''Graphs'',
        np_description = ''Given a reference of a node in a connected undirected graph, return a deep copy (clone) of the graph.\<newline>\<newline>Each node in the graph contains a value (`int`) and a list (`List[Node]`) of its neighbors.\<newline>\<newline>The graph is represented in the test case using an adjacency list. An adjacency list is a collection of unordered lists used to represent a finite graph. Each list describes the set of neighbors of a node in the graph.\<newline>\<newline>The given node will always be the first node with `val = 1`. You must return the copy of the given node as a reference to the cloned graph.'',
        np_constraints = [''The number of nodes in the graph is in the range [0, 100].'', ''1 <= Node.val <= 100'', ''Node.val is unique for each node.'', ''There are no repeated edges and no self-loops in the graph.'', ''The Graph is connected and all nodes can be visited starting from the given node.''],
        np_solution = Some ''Use BFS or DFS with a hash map from original node to cloned node. For each node, create a clone if it doesn't exist, then recursively clone all neighbors and link them.'',
        np_timeLimitMs = 5000, np_source = ''curated'', np_sourceUrl = None\<rparr>,
      fx_testCases = [
          fx_case [(''adjList'', JArr [jints [2, 4], jints [1, 3], jints [2, 4], jints [1, 3]])] (JArr [jints [2, 4],
            jints [1, 3], jints [2, 4], jints [1, 3]]) True 0,
          fx_case [(''adjList'', JArr [JArr []])] (JArr [JArr []]) True 1,
          fx_case [(''adjList'', JArr [])] (JArr []) True 2,
          fx_case [(''adjList'', JArr [jints [2], jints [1]])] (JArr [jints [2], jints [1]]) False 3,
          fx_case [(''adjList'', JArr [jints [2, 3], jints [1, 3], jints [1, 2]])] (JArr [jints [2, 3], jints [1, 3],
            jints [1, 2]]) False 4,
          fx_case [(''adjList'', JArr [jints [2], jints [1, 3], jints [2]])] (JArr [jints [2], jints [1, 3],
            jints [2]]) False 5,
          fx_case [(''adjList'', JArr [jints [2, 3, 4], jints [1], jints [1], jints [1]])] (JArr [jints [2, 3, 4],
            jints [1], jints [1], jints [1]]) False 6,
          fx_case [(''adjList'', JArr [jints [2, 3], jints [1], jints [1]])] (JArr [jints [2, 3], jints [1],
            jints [1]]) False 7],
      fx_boilerplate = \<lparr>nb_language = ''python'', nb_template = ''class Solution:\<newline>    def cloneGraph(self, node: Optional['Node']) -> Optional['Node']:\<newline>        pass'',
        nb_methodName = ''cloneGraph'', nb_parameterNames = [''node'']\<rparr>,
      fx_hints = [
        \<lparr>nh_hintText = ''You need to create new nodes and link them just like the original. A hash map from original to clone helps avoid duplicating nodes.'', nh_orderIndex = 0\<rparr>,
        \<lparr>nh_hintText = ''Use BFS or DFS. When visiting a node, check if it's already been cloned. If not, create the clone and add it to the map. Then process all neighbors.'', nh_orderIndex = 1\<rparr>]\<rparr>"

definition max_area_of_island_fixture :: fixture where
  "max_area_of_island_fixture =
     \<lparr>fx_problem = \<lparr>np_slug = ''max-area-of-island'', np_title = ''Max Area of Island'', np_difficulty = ''medium'',
        np_category = ''Graphs'',
        np_description = ''You are given an `m x n` binary matrix `grid`. An island is a group of `1`'s (representing land) connected 4-directionally (horizontal or vertical). You may assume all four edges of the grid are surrounded by water.\<newline>\<newline>The area of an island is the number of cells with a value `1` in the island.\<newline>\<newline>Return the maximum area of an island in `grid`. If there is no island, return `0`.'',
        np_constraints = [''m == grid.length'', ''n == grid[i].length'', ''1 <= m, n <= 50'', ''grid[i][j] is either 0 or 1.''],
        np_solution = Some ''Iterate through the grid. For each unvisited '1', use DFS/BFS to count all connected land cells. Track and return the maximum area found.'',
        np_timeLimitMs = 5000, np_source = ''curated'', np_sourceUrl = None\<rparr>,
      fx_testCases = [
          fx_case [(''grid'', JArr [jints [0, 0, 1, 0, 0, 0, 0, 1, 0, 0, 0, 0, 0], jints [0, 0, 0, 0, 0, 0, 0, 1, 1,
            1, 0, 0, 0], jints [0, 1, 1, 0, 1, 0, 0, 0, 0, 0, 0, 0, 0], jints [0, 1, 0, 0, 1, 1, 0, 0, 1, 0, 1, 0,
            0], jints [0, 1, 0, 0, 1, 1, 0, 0, 1, 1, 1, 0, 0], jints [0, 0, 0, 0, 0, 0, 0, 0, 0, 0, 1, 0, 0],
            jints [0, 0, 0, 0, 0, 0, 0, 1, 1, 1, 0, 0, 0], jints [0, 0, 0, 0, 0, 0, 0, 1, 1, 0, 0, 0,
            0]])] (jint 6) True 0,
          fx_case [(''grid'', JArr [jints [0, 0, 0, 0, 0, 0, 0, 0]])] (jint 0) True 1,
          fx_case [(''grid'', JArr [jints [1]])] (jint 1) True 2,
          fx_case [(''grid'', JArr [jints [0]])] (jint 0) False 3,
          fx_case [(''grid'', JArr [jints [1, 1], jints [1, 1]])] (jint 4) False 4,
          fx_case [(''grid'', JArr [jints [1, 0], jints [0, 1]])] (jint 1) False 5,
          fx_case [(''grid'', JArr [jints [1, 1, 0, 0], jints [1, 1, 0, 0], jints [0, 0, 1, 1], jints [0, 0, 1,
            1]])] (jint 4) False 6,
          fx_case [(''grid'', JArr [jints [1, 1, 1], jints [1, 0, 1], jints [1, 1, 1]])] (jint 8) False 7],
      fx_boilerplate = \<lparr>nb_language = ''python'', nb_template = ''class Solution:\<newline>    def maxAreaOfIsland(self, grid: List[List[int]]) -> int:\<newline>        pass'',
        nb_methodName = ''maxAreaOfIsland'', nb_parameterNames = [''grid'']\<rparr>,
      fx_hints = [
        \<lparr>nh_hintText = ''This is similar to Number of Islands, but instead of counting islands, you need to measure each one's area.'', nh_orderIndex = 0\<rparr>,
        \<lparr>nh_hintText = ''Use DFS or BFS to explore each island. Count the number of cells visited in each traversal and keep track of the maximum.'', nh_orderIndex = 1\<rparr>]\<rparr>"

definition pacific_atlantic_water_flow_fixture :: fixture where
  "pacific_atlantic_water_flow_fixture =
     \<lparr>fx_problem = \<lparr>np_slug = ''pacific-atlantic-water-flow'', np_title = ''Pacific Atlantic Water Flow'', np_difficulty = ''medium'',
        np_category = ''Graphs'',
        np_description = ''There is an `m x n` rectangular island that borders both the Pacific Ocean and the Atlantic Ocean. The Pacific Ocean touches the island's left and top edges, and the Atlantic Ocean touches the island's right and bottom edges.\<newline>\<newline>The island is partitioned into a grid of square cells. You are given an `m x n` integer matrix `heights` where `heights[r][c]` represents the height above sea level of the cell at coordinate `(r, c)`.\<newline>\<newline>The island receives a lot of rain, and the rain water can flow to neighboring cells directly north, south, east, and west if the neighboring cell's height is less than or equal to the current cell's height. Water can flow from any cell adjacent to an ocean into the ocean.\<newline>\<newline>Return a 2D list of grid coordinates `result` where `result[i] = [ri, ci]` denotes that rain water can flow from cell `(ri, ci)` to both the Pacific and Atlantic oceans.'',
        np_constraints = [''m == heights.length'', ''n == heights[r].length'', ''1 <= m, n <= 200'', ''0 <= heights[r][c] <= 10^5''],
        np_solution = Some ''Run BFS/DFS backwards from the ocean borders. Start from Pacific edges and find all reachable cells (going uphill). Do the same from Atlantic edges. The answer is the intersection of both reachable sets.'',
        np_timeLimitMs = 5000, np_source = ''curated'', np_sourceUrl = None\<rparr>,
      fx_testCases = [
          fx_case [(''heights'', JArr [jints [1, 2, 2, 3, 5], jints [3, 2, 3, 4, 4], jints [2, 4, 5, 3, 1], jints [6,
            7, 1, 4, 5], jints [5, 1, 1, 2, 4]])] (JArr [jints [0, 4], jints [1, 3], jints [1, 4], jints [2, 2],
            jints [3, 0], jints [3, 1], jints [4, 0]]) True 0,
          fx_case [(''heights'', JArr [jints [1]])] (JArr [jints [0, 0]]) True 1,
          fx_case [(''heights'', JArr [jints [1, 1], jints [1, 1]])] (JArr [jints [0, 0], jints [0, 1], jints [1, 0],
            jints [1, 1]]) True 2,
          fx_case [(''heights'', JArr [jints [1, 2], jints [3, 4]])] (JArr [jints [0, 1], jints [1, 0], jints [1,
            1]]) False 3,
          fx_case [(''heights'', JArr [jints [5, 1], jints [1, 5]])] (JArr [jints [0, 0], jints [0, 1], jints [1, 0],
            jints [1, 1]]) False 4,
          fx_case [(''heights'', JArr [jints [10, 10, 10], jints [10, 1, 10], jints [10, 10, 10]])] (JArr [jints [0,
            0], jints [0, 1], jints [0, 2], jints [1, 0], jints [1, 2], jints [2, 0], jints [2, 1], jints [2,
            2]]) False 5,
          fx_case [(''heights'', JArr [jints [1, 2, 3], jints [4, 5, 6], jints [7, 8, 9]])] (JArr [jints [0, 2],
            jints [1, 2], jints [2, 0], jints [2, 1], jints [2, 2]]) False 6,
          fx_case [(''heights'', JArr [jints [3, 3, 3], jints [3, 3, 3], jints [3, 3, 3]])] (JArr [jints [0, 0],
            jints [0, 1], jints [0, 2], jints [1, 0], jints [1, 1], jints [1, 2], jints [2, 0], jints [2, 1],
            jints [2, 2]]) False 7],
      fx_boilerplate = \<lparr>nb_language = ''python'', nb_template = ''class Solution:\<newline>    def pacificAtlantic(self, heights: List[List[int]]) -> List[List[int]]:\<newline>        pass'',
        nb_methodName = ''pacificAtlantic'', nb_parameterNames = [''heights'']\<rparr>,
      fx_hints = [
        \<lparr>nh_hintText = ''Instead of checking if water from each cell can reach both oceans, try thinking in reverse: which cells can be reached from each ocean?'', nh_orderIndex = 0\<rparr>,
        \<lparr>nh_hintText = ''Start BFS/DFS from the Pacific border (top row, left column) going uphill to find all cells that can reach the Pacific. Do the same from the Atlantic border (bottom row, right column). The answer is the intersection.'', nh_orderIndex = 1\<rparr>]\<rparr>"

definition surrounded_regions_fixture :: fixture where
  "surrounded_regions_fixture =
     \<lparr>fx_problem = \<lparr>np_slug = ''surrounded-regions'', np_title = ''Surrounded Regions'', np_difficulty = ''medium'',
        np_category = ''Graphs'',
        np_description = ''Given an `m x n` matrix `board` containing `'X'` and `'O'`, capture all regions that are 4-directionally surrounded by `'X'`.\<newline>\<newline>A region is captured by flipping all `'O'`s into `'X'`s in that surrounded region.'',
        np_constraints = [''m == board.length'', ''n == board[i].length'', ''1 <= m, n <= 200'', ''board[i][j] is 'X' or 'O'.''],
        np_solution = Some ''Mark border-connected 'O' cells as safe using DFS/BFS from all border 'O's. Then flip all remaining 'O' cells to 'X' (they are surrounded), and restore the safe cells back to 'O'.'',
        np_timeLimitMs = 5000, np_source = ''curated'', np_sourceUrl = None\<rparr>,
      fx_testCases = [
          fx_case [(''board'', JArr [jstrs [''X'', ''X'', ''X'', ''X''], jstrs [''X'', ''O'', ''O'', ''X''],
            jstrs [''X'', ''X'', ''O'', ''X''], jstrs [''X'', ''O'', ''X'', ''X'']])] (JArr [jstrs [''X'', ''X'',
            ''X'', ''X''], jstrs [''X'', ''X'', ''X'', ''X''], jstrs [''X'', ''X'', ''X'', ''X''], jstrs [''X'',
            ''O'', ''X'', ''X'']]) True 0,
          fx_case [(''board'', JArr [jstrs [''X'']])] (JArr [jstrs [''X'']]) True 1,
          fx_case [(''board'', JArr [jstrs [''O'']])] (JArr [jstrs [''O'']]) True 2,
          fx_case [(''board'', JArr [jstrs [''O'', ''O''], jstrs [''O'', ''O'']])] (JArr [jstrs [''O'', ''O''],
            jstrs [''O'', ''O'']]) False 3,
          fx_case [(''board'', JArr [jstrs [''X'', ''X'', ''X''], jstrs [''X'', ''O'', ''X''], jstrs [''X'', ''X'',
            ''X'']])] (JArr [jstrs [''X'', ''X'', ''X''], jstrs [''X'', ''X'', ''X''], jstrs [''X'', ''X'',
            ''X'']]) False 4,
          fx_case [(''board'', JArr [jstrs [''X'', ''O'', ''X''], jstrs [''O'', ''X'', ''O''], jstrs [''X'', ''O'',
            ''X'']])] (JArr [jstrs [''X'', ''O'', ''X''], jstrs [''O'', ''X'', ''O''], jstrs [''X'', ''O'',
            ''X'']]) False 5,
          fx_case [(''board'', JArr [jstrs [''X'', ''X'', ''X'', ''X''], jstrs [''X'', ''O'', ''O'', ''X''],
            jstrs [''X'', ''O'', ''O'', ''X''], jstrs [''X'', ''X'', ''X'', ''X'']])] (JArr [jstrs [''X'', ''X'',
            ''X'', ''X''], jstrs [''X'', ''X'', ''X'', ''X''], jstrs [''X'', ''X'', ''X'', ''X''], jstrs [''X'',
            ''X'', ''X'', ''X'']]) False 6,
          fx_case [(''board'', JArr [jstrs [''O'', ''X'', ''O''], jstrs [''X'', ''O'', ''X''], jstrs [''O'', ''X'',
            ''O'']])] (JArr [jstrs [''O'', ''X'', ''O''], jstrs [''X'', ''X'', ''X''], jstrs [''O'', ''X'',
            ''O'']]) False 7],
      fx_boilerplate = \<lparr>nb_language = ''python'', nb_template = ''class Solution:\<newline>    def solve(self, board: List[List[str]]) -> None:\<newline>        pass'',
        nb_methodName = ''solve'', nb_parameterNames = [''board'']\<rparr>,
      fx_hints = [
        \<lparr>nh_hintText = ''An 'O' region is NOT surrounded if any of its cells touch the border. Think about which 'O' cells are safe from capture.'', nh_orderIndex = 0\<rparr>,
        \<lparr>nh_hintText = ''Start from all border 'O' cells and use DFS/BFS to mark all connected 'O' cells as safe. Then, any 'O' not marked safe is surrounded and should be flipped to 'X'.'', nh_orderIndex = 1\<rparr>]\<rparr>"

definition rotting_oranges_fixture :: fixture where
  "rotting_oranges_fixture =
     \<lparr>fx_problem = \<lparr>np_slug = ''rotting-oranges'', np_title = ''Rotting Oranges'', np_difficulty = ''medium'',
        np_category = ''Graphs'',
        np_description = ''You are given an `m x n` `grid` where each cell can have one of three values:\<newline>\<newline>- `0` representing an empty cell,\<newline>- `1` representing a fresh orange, or\<newline>- `2` representing a rotten orange.\<newline>\<newline>Every minute, any fresh orange that is 4-directionally adjacent to a rotten orange becomes rotten.\<newline>\<newline>Return the minimum number of minutes that must elapse until no cell has a fresh orange. If this is impossible, return `-1`.'',
        np_constraints = [''m == grid.length'', ''n == grid[i].length'', ''1 <= m, n <= 10'', ''grid[i][j] is 0, 1, or 2.''],
        np_solution = Some ''Use multi-source BFS. Start by adding all rotten oranges to the queue. Each BFS level represents one minute. Process all current rotten oranges, rotting their fresh neighbors. Count fresh oranges and check if all are rotted at the end.'',
        np_timeLimitMs = 5000, np_source = ''curated'', np_sourceUrl = None\<rparr>,
      fx_testCases = [
          fx_case [(''grid'', JArr [jints [2, 1, 1], jints [1, 1, 0], jints [0, 1, 1]])] (jint 4) True 0,
          fx_case [(''grid'', JArr [jints [2, 1, 1], jints [0, 1, 1], jints [1, 0, 1]])] (jint (- 1)) True 1,
          fx_case [(''grid'', JArr [jints [0, 2]])] (jint 0) True 2,
          fx_case [(''grid'', JArr [jints [0]])] (jint 0) False 3,
          fx_case [(''grid'', JArr [jints [1]])] (jint (- 1)) False 4,
          fx_case [(''grid'', JArr [jints [2]])] (jint 0) False 5,
          fx_case [(''grid'', JArr [jints [2, 1], jints [1, 2]])] (jint 1) False 6,
          fx_case [(''grid'', JArr [jints [2, 1, 1, 1, 1]])] (jint 4) False 7],
      fx_boilerplate = \<lparr>nb_language = ''python'', nb_template = ''class Solution:\<newline>    def orangesRotting(self, grid: List[List[int]]) -> int:\<newline>        pass'',
        nb_methodName = ''orangesRotting'', nb_parameterNames = [''grid'']\<rparr>,
      fx_hints = [
        \<lparr>nh_hintText = ''All rotten oranges spread simultaneously. This is a classic multi-source BFS problem.'', nh_orderIndex = 0\<rparr>,
        \<lparr>nh_hintText = ''Initialize a queue with all rotten orange positions. Process level by level (each level is one minute). Count fresh oranges at the start; if any remain after BFS, return -1.'', nh_orderIndex = 1\<rparr>]\<rparr>"

definition walls_and_gates_fixture :: fixture where
  "walls_and_gates_fixture =
     \<lparr>fx_problem = \<lparr>np_slug = ''walls-and-gates'', np_title = ''Walls and Gates'', np_difficulty = ''medium'',
        np_category = ''Graphs'',
        np_description = ''You are given an `m x n` grid `rooms` initialized with these three possible values:\<newline>\<newline>- `-1` -- A wall or an obstacle.\<newline>- `0` -- A gate.\<newline>- `2147483647` -- Infinity means an empty room. We use the value `2^31 - 1 = 2147483647` to represent `INF` as you may assume that the distance to a gate is less than `2147483647`.\<newline>\<newline>Fill each empty room with the distance to its nearest gate. If it is impossible to reach a gate, it should be filled with `INF`.'',
        np_constraints = [''m == rooms.length'', ''n == rooms[i].length'', ''1 <= m, n <= 250'', ''rooms[i][j] is -1, 0, or 2147483647.''],
        np_solution = Some ''Use multi-source BFS starting from all gates simultaneously. Each BFS level increments the distance by 1. This naturally fills each empty room with its shortest distance to any gate.'',
        np_timeLimitMs = 5000, np_source = ''curated'', np_sourceUrl = None\<rparr>,
      fx_testCases = [
          fx_case [(''rooms'', JArr [jints [2147483647, - 1, 0, 2147483647], jints [2147483647, 2147483647,
            2147483647, - 1], jints [2147483647, - 1, 2147483647, - 1], jints [0, - 1, 2147483647,
            2147483647]])] (JArr [jints [3, - 1, 0, 1], jints [2, 2, 1, - 1], jints [1, - 1, 2, - 1], jints [0, - 1,
            3, 4]]) True 0,
          fx_case [(''rooms'', JArr [jints [- 1]])] (JArr [jints [- 1]]) True 1,
          fx_case [(''rooms'', JArr [jints [0]])] (JArr [jints [0]]) True 2,
          fx_case [(''rooms'', JArr [jints [2147483647]])] (JArr [jints [2147483647]]) False 3,
          fx_case [(''rooms'', JArr [jints [0, 2147483647], jints [2147483647, 2147483647]])] (JArr [jints [0, 1],
            jints [1, 2]]) False 4,
          fx_case [(''rooms'', JArr [jints [0, - 1], jints [- 1, 2147483647]])] (JArr [jints [0, - 1], jints [- 1,
            2147483647]]) False 5,
          fx_case [(''rooms'', JArr [jints [0, 2147483647, 0], jints [2147483647, 2147483647, 2147483647], jints [0,
            2147483647, 0]])] (JArr [jints [0, 1, 0], jints [1, 2, 1], jints [0, 1, 0]]) False 6,
          fx_case [(''rooms'', JArr [jints [0, 2147483647, 2147483647, 2147483647, 0]])] (JArr [jints [0, 1, 2, 1,
            0]]) False 7],
      fx_boilerplate = \<lparr>nb_language = ''python'', nb_template = ''class Solution:\<newline>    def wallsAndGates(self, rooms: List[List[int]]) -> None:\<newline>        pass'',
        nb_methodName = ''wallsAndGates'', nb_parameterNames = [''rooms'']\<rparr>,
      fx_hints = [
        \<lparr>nh_hintText = ''Instead of BFS from each empty room to find the nearest gate, think about starting from all gates simultaneously.'', nh_orderIndex = 0\<rparr>,
        \<lparr>nh_hintText = ''Use multi-source BFS: add all gate positions to the queue. Process level by level, updating empty rooms with the current distance. Rooms already visited will have a shorter or equal distance, so skip them.'', nh_orderIndex = 1\<rparr>]\<rparr>"

definition course_schedule_fixture :: fixture where
  "course_schedule_fixture =
     \<lparr>fx_problem = \<lparr>np_slug = ''course-schedule'', np_title = ''Course Schedule'', np_difficulty = ''medium'',
        np_category = ''Graphs'',
        np_description = ''There are a total of `numCourses` courses you have to take, labeled from `0` to `numCourses - 1`. You are given an array `prerequisites` where `prerequisites[i] = [ai, bi]` indicates that you must take course `bi` first if you want to take course `ai`.\<newline>\<newline>For example, the pair `[0, 1]`, indicates that to take course `0` you have to first take course `1`.\<newline>\<newline>Return `true` if you can finish all courses. Otherwise, return `false`.'',
        np_constraints = [''1 <= numCourses <= 2000'', ''0 <= prerequisites.length <= 5000'', ''prerequisites[i].length == 2'', ''0 <= ai, bi < numCourses'', ''All the pairs prerequisites[i] are unique.''],
        np_solution = Some ''This is cycle detection in a directed graph. Use topological sort (Kahn's algorithm with BFS or DFS with visited states). If a cycle exists, not all courses can be completed.'',
        np_timeLimitMs = 5000, np_source = ''curated'', np_sourceUrl = None\<rparr>,
      fx_testCases = [
          fx_case [(''numCourses'', jint 2), (''prerequisites'', JArr [jints [1, 0]])] (JBool True) True 0,
          fx_case [(''numCourses'', jint 2), (''prerequisites'', JArr [jints [1, 0], jints [0,
            1]])] (JBool False) True 1,
          fx_case [(''numCourses'', jint 1), (''prerequisites'', JArr [])] (JBool True) True 2,
          fx_case [(''numCourses'', jint 3), (''prerequisites'', JArr [jints [0, 1], jints [1,
            2]])] (JBool True) False 3,
          fx_case [(''numCourses'', jint 3), (''prerequisites'', JArr [jints [0, 1], jints [1, 2], jints [2,
            0]])] (JBool False) False 4,
          fx_case [(''numCourses'', jint 4), (''prerequisites'', JArr [jints [1, 0], jints [2, 1], jints [3,
            2]])] (JBool True) False 5,
          fx_case [(''numCourses'', jint 5), (''prerequisites'', JArr [])] (JBool True) False 6,
          fx_case [(''numCourses'', jint 4), (''prerequisites'', JArr [jints [0, 1], jints [2, 3], jints [1, 2],
            jints [3, 0]])] (JBool False) False 7],
      fx_boilerplate = \<lparr>nb_language = ''python'', nb_template = ''class Solution:\<newline>    def canFinish(self, numCourses: int, prerequisites: List[List[int]]) -> bool:\<newline>        pass'',
        nb_methodName = ''canFinish'', nb_parameterNames = [''numCourses'', ''prerequisites'']\<rparr>,
      fx_hints = [
        \<lparr>nh_hintText = ''Model courses and prerequisites as a directed graph. When is it impossible to finish all courses?'', nh_orderIndex = 0\<rparr>,
        \<lparr>nh_hintText = ''The answer is impossible when there's a cycle in the prerequisite graph. Use topological sort (BFS with in-degrees or DFS with cycle detection) to check for cycles.'', nh_orderIndex = 1\<rparr>]\<rparr>"

definition course_schedule_ii_fixture :: fixture where
  "course_schedule_ii_fixture =
     \<lparr>fx_problem = \<lparr>np_slug = ''course-schedule-ii'', np_title = ''Course Schedule II'', np_difficulty = ''medium'',
        np_category = ''Graphs'',
        np_description = ''There are a total of `numCourses` courses you have to take, labeled from `0` to `numCourses - 1`. You are given an array `prerequisites` where `prerequisites[i] = [ai, bi]` indicates that you must take course `bi` first if you want to take course `ai`.\<newline>\<newline>Return the ordering of courses you should take to finish all courses. If there are many valid answers, return any of them. If it is impossible to finish all courses, return an empty array.'',
        np_constraints = [''1 <= numCourses <= 2000'', ''0 <= prerequisites.length <= numCourses * (numCourses - 1)'', ''prerequisites[i].length == 2'', ''0 <= ai, bi < numCourses'', ''ai != bi'', ''All the pairs [ai, bi] are distinct.''],
        np_solution = Some ''Use Kahn's algorithm (BFS topological sort). Build the adjacency list and in-degree counts. Start from nodes with in-degree 0, process them, and reduce neighbors' in-degrees. If all nodes are processed, return the order; otherwise return empty.'',
        np_timeLimitMs = 5000, np_source = ''curated'', np_sourceUrl = None\<rparr>,
      fx_testCases = [
          fx_case [(''numCourses'', jint 2), (''prerequisites'', JArr [jints [1, 0]])] (jints [0, 1]) True 0,
          fx_case [(''numCourses'', jint 4), (''prerequisites'', JArr [jints [1, 0], jints [2, 0], jints [3, 1],
            jints [3, 2]])] (jints [0, 1, 2, 3]) True 1,
          fx_case [(''numCourses'', jint 1), (''prerequisites'', JArr [])] (jints [0]) True 2,
          fx_case [(''numCourses'', jint 2), (''prerequisites'', JArr [jints [1, 0], jints [0, 1]])] (JArr []) False 3,
          fx_case [(''numCourses'', jint 3), (''prerequisites'', JArr [])] (jints [0, 1, 2]) False 4,
          fx_case [(''numCourses'', jint 3), (''prerequisites'', JArr [jints [2, 1], jints [1, 0]])] (jints [0, 1,
            2]) False 5,
          fx_case [(''numCourses'', jint 3), (''prerequisites'', JArr [jints [0, 1], jints [1, 2], jints [2,
            0]])] (JArr []) False 6,
          fx_case [(''numCourses'', jint 4), (''prerequisites'', JArr [jints [1, 0], jints [2, 1], jints [3,
            2]])] (jints [0, 1, 2, 3]) False 7],
      fx_boilerplate = \<lparr>nb_language = ''python'', nb_template = ''class Solution:\<newline>    def findOrder(self, numCourses: int, prerequisites: List[List[int]]) -> List[int]:\<newline>        pass'',
        nb_methodName = ''findOrder'', nb_parameterNames = [''numCourses'', ''prerequisites'']\<rparr>,
      fx_hints = [
        \<lparr>nh_hintText = ''This is an extension of Course Schedule. Instead of just detecting cycles, you need to produce the actual ordering.'', nh_orderIndex = 0\<rparr>,
        \<lparr>nh_hintText = ''Use Kahn's algorithm: compute in-degrees, start with zero-in-degree nodes, and process them in BFS order. The BFS traversal order is a valid topological ordering.'', nh_orderIndex = 1\<rparr>]\<rparr>"

definition redundant_connection_fixture :: fixture where
  "redundant_connection_fixture =
     \<lparr>fx_problem = \<lparr>np_slug = ''redundant-connection'', np_title = ''Redundant Connection'', np_difficulty = ''medium'',
        np_category = ''Graphs'',
        np_description = ''In this problem, a tree is an undirected graph that is connected and has no cycles.\<newline>\<newline>You are given a graph that started as a tree with `n` nodes labeled from `1` to `n`, with one additional edge added. The added edge has two different vertices chosen from `1` to `n`, and is not an edge that already existed. The graph is given as an array `edges` of length `n` where `edges[i] = [ai, bi]` indicates that there is an edge between nodes `ai` and `bi` in the graph.\<newline>\<newline>Return an edge that can be removed so that the resulting graph is a tree of `n` nodes. If there are multiple answers, return the answer that occurs last in the input.'',
        np_constraints = [''n == edges.length'', ''3 <= n <= 1000'', ''edges[i].length == 2'', ''1 <= ai < bi <= edges.length'', ''ai != bi'', ''There are no repeated edges.'', ''The given graph is connected.''],
        np_solution = Some ''Use Union-Find (Disjoint Set Union). Process edges one by one. When an edge connects two nodes already in the same component, that edge creates a cycle and is the redundant one.'',
        np_timeLimitMs = 5000, np_source = ''curated'', np_sourceUrl = None\<rparr>,
      fx_testCases = [
          fx_case [(''edges'', JArr [jints [1, 2], jints [1, 3], jints [2, 3]])] (jints [2, 3]) True 0,
          fx_case [(''edges'', JArr [jints [1, 2], jints [2, 3], jints [3, 4], jints [1, 4], jints [1,
            5]])] (jints [1, 4]) True 1,
          fx_case [(''edges'', JArr [jints [1, 2], jints [1, 3], jints [3, 4], jints [2, 4]])] (jints [2, 4]) True 2,
          fx_case [(''edges'', JArr [jints [1, 2], jints [2, 3], jints [1, 3]])] (jints [1, 3]) False 3,
          fx_case [(''edges'', JArr [jints [1, 3], jints [3, 4], jints [1, 2], jints [2, 4]])] (jints [2, 4]) False 4,
          fx_case [(''edges'', JArr [jints [1, 2], jints [2, 3], jints [3, 4], jints [4, 5], jints [1,
            5]])] (jints [1, 5]) False 5,
          fx_case [(''edges'', JArr [jints [3, 4], jints [1, 2], jints [2, 4], jints [3, 5], jints [2,
            3]])] (jints [2, 3]) False 6,
          fx_case [(''edges'', JArr [jints [1, 2], jints [2, 3], jints [3, 1]])] (jints [3, 1]) False 7],
      fx_boilerplate = \<lparr>nb_language = ''python'', nb_template = ''class Solution:\<newline>    def findRedundantConnection(self, edges: List[List[int]]) -> List[int]:\<newline>        pass'',
        nb_methodName = ''findRedundantConnection'', nb_parameterNames = [''edges'']\<rparr>,
      fx_hints = [
        \<lparr>nh_hintText = ''A tree with n nodes has exactly n-1 edges. Adding one more edge creates exactly one cycle. You need to find that edge.'', nh_orderIndex = 0\<rparr>,
        \<lparr>nh_hintText = ''Use Union-Find. Process edges in order. When you try to union two nodes that are already in the same set, that edge is the redundant one creating the cycle.'', nh_orderIndex = 1\<rparr>]\<rparr>"

definition number_of_connected_components_in_an_undirected_graph_fixture :: fixture where
  "number_of_connected_components_in_an_undirected_graph_fixture =
     \<lparr>fx_problem = \<lparr>np_slug = ''number-of-connected-components-in-an-undirected-graph'', np_title = ''Number of Connected Components in an Undirected Graph'', np_difficulty = ''medium'',
        np_category = ''Graphs'',
        np_description = ''You have a graph of `n` nodes. You are given an integer `n` and an array `edges` where `edges[i] = [ai, bi]` indicates that there is an edge between `ai` and `bi` in the graph.\<newline>\<newline>Return the number of connected components in the graph.'',
        np_constraints = [''1 <= n <= 2000'', ''1 <= edges.length <= 5000'', ''edges[i].length == 2'', ''0 <= ai <= bi < n'', ''ai != bi'', ''There are no repeated edges.''],
        np_solution = Some ''Use Union-Find or DFS/BFS. With Union-Find, process all edges and count the number of distinct roots. With DFS, count the number of traversals needed to visit all nodes.'',
        np_timeLimitMs = 5000, np_source = ''curated'', np_sourceUrl = None\<rparr>,
      fx_testCases = [
          fx_case [(''n'', jint 5), (''edges'', JArr [jints [0, 1], jints [1, 2], jints [3, 4]])] (jint 2) True 0,
          fx_case [(''n'', jint 5), (''edges'', JArr [jints [0, 1], jints [1, 2], jints [2, 3], jints [3,
            4]])] (jint 1) True 1,
          fx_case [(''n'', jint 1), (''edges'', JArr [])] (jint 1) True 2,
          fx_case [(''n'', jint 4), (''edges'', JArr [jints [0, 1], jints [2, 3]])] (jint 2) False 3,
          fx_case [(''n'', jint 3), (''edges'', JArr [])] (jint 3) False 4,
          fx_case [(''n'', jint 4), (''edges'', JArr [jints [0, 1], jints [1, 2], jints [2, 3]])] (jint 1) False 5,
          fx_case [(''n'', jint 6), (''edges'', JArr [jints [0, 1], jints [2, 3], jints [4, 5]])] (jint 3) False 6,
          fx_case [(''n'', jint 3), (''edges'', JArr [jints [0, 1], jints [0, 2]])] (jint 1) False 7],
      fx_boilerplate = \<lparr>nb_language = ''python'', nb_template = ''class Solution:\<newline>    def countComponents(self, n: int, edges: List[List[int]]) -> int:\<newline>        pass'',
        nb_methodName = ''countComponents'', nb_parameterNames = [''n'', ''edges'']\<rparr>,
      fx_hints = [
        \<lparr>nh_hintText = ''This is a fundamental graph connectivity problem. Think about how to group connected nodes together.'', nh_orderIndex = 0\<rparr>,
        \<lparr>nh_hintText = ''Use Union-Find: start with n components, and for each edge, union the two nodes. Each successful union decreases the component count by 1. Alternatively, use DFS and count the number of connected components.'', nh_orderIndex = 1\<rparr>]\<rparr>"

definition graph_valid_tree_fixture :: fixture where
  "graph_valid_tree_fixture =
     \<lparr>fx_problem = \<lparr>np_slug = ''graph-valid-tree'', np_title = ''Graph Valid Tree'', np_difficulty = ''medium'',
        np_category = ''Graphs'',
        np_description = ''Given `n` nodes labeled from `0` to `n - 1` and a list of undirected edges (each edge is a pair of nodes), write a function to check whether these edges make up a valid tree.\<newline>\<newline>A valid tree has exactly `n - 1` edges and is fully connected (all nodes are reachable from any node).'',
        np_constraints = [''1 <= n <= 2000'', ''0 <= edges.length <= 5000'', ''edges[i].length == 2'', ''0 <= ai, bi < n'', ''ai != bi'', ''There are no repeated edges.''],
        np_solution = Some ''A valid tree must satisfy two conditions: exactly n-1 edges, and the graph is connected. Use Union-Find to check both: if any edge creates a cycle (both nodes already connected), it's not a tree. After processing, check that there's exactly one component.'',
        np_timeLimitMs = 5000, np_source = ''curated'', np_sourceUrl = None\<rparr>,
      fx_testCases = [
          fx_case [(''n'', jint 5), (''edges'', JArr [jints [0, 1], jints [0, 2], jints [0, 3], jints [1,
            4]])] (JBool True) True 0,
          fx_case [(''n'', jint 5), (''edges'', JArr [jints [0, 1], jints [1, 2], jints [2, 3], jints [1, 3],
            jints [1, 4]])] (JBool False) True 1,
          fx_case [(''n'', jint 1), (''edges'', JArr [])] (JBool True) True 2,
          fx_case [(''n'', jint 2), (''edges'', JArr [jints [0, 1]])] (JBool True) False 3,
          fx_case [(''n'', jint 2), (''edges'', JArr [])] (JBool False) False 4,
          fx_case [(''n'', jint 4), (''edges'', JArr [jints [0, 1], jints [2, 3]])] (JBool False) False 5,
          fx_case [(''n'', jint 3), (''edges'', JArr [jints [0, 1], jints [1, 2]])] (JBool True) False 6,
          fx_case [(''n'', jint 4), (''edges'', JArr [jints [0, 1], jints [1, 2], jints [2, 3], jints [3,
            0]])] (JBool False) False 7],
      fx_boilerplate = \<lparr>nb_language = ''python'', nb_template = ''class Solution:\<newline>    def validTree(self, n: int, edges: List[List[int]]) -> bool:\<newline>        pass'',
        nb_methodName = ''validTree'', nb_parameterNames = [''n'', ''edges'']\<rparr>,
      fx_hints = [
        \<lparr>nh_hintText = ''A tree with n nodes has exactly n-1 edges. If the edge count is wrong, you can return false immediately.'', nh_orderIndex = 0\<rparr>,
        \<lparr>nh_hintText = ''Having n-1 edges is necessary but not sufficient (the graph could be disconnected). Use Union-Find to verify both that there are no cycles and that the graph is connected.'', nh_orderIndex = 1\<rparr>]\<rparr>"

definition word_ladder_fixture :: fixture where
  "word_ladder_fixture =
     \<lparr>fx_problem = \<lparr>np_slug = ''word-ladder'', np_title = ''Word Ladder'', np_difficulty = ''hard'',
        np_category = ''Graphs'',
        np_description = ''A transformation sequence from word `beginWord` to word `endWord` using a dictionary `wordList` is a sequence of words `beginWord -> s1 -> s2 -> ... -> sk` such that:\<newline>\<newline>- Every adjacent pair of words differs by a single letter.\<newline>- Every `si` for `1 <= i <= k` is in `wordList`. Note that `beginWord` does not need to be in `wordList`.\<newline>- `sk == endWord`\<newline>\<newline>Given two words, `beginWord` and `endWord`, and a dictionary `wordList`, return the number of words in the shortest transformation sequence from `beginWord` to `endWord`, or `0` if no such sequence exists.'',
        np_constraints = [''1 <= beginWord.length <= 10'', ''endWord.length == beginWord.length'', ''1 <= wordList.length <= 5000'', ''wordList[i].length == beginWord.length'', ''beginWord, endWord, and wordList[i] consist of lowercase English letters.'', ''beginWord != endWord'', ''All the words in wordList are unique.''],
        np_solution = Some ''Model as a graph where words are nodes and edges connect words differing by one letter. Use BFS from beginWord. To find neighbors efficiently, for each word generate all single-character wildcard patterns and group words by pattern.'',
        np_timeLimitMs = 5000, np_source = ''curated'', np_sourceUrl = None\<rparr>,
      fx_testCases = [
          fx_case [(''beginWord'', JStr ''hit''), (''endWord'', JStr ''cog''), (''wordList'', jstrs [''hot'',
            ''dot'', ''dog'', ''lot'', ''log'', ''cog''])] (jint 5) True 0,
          fx_case [(''beginWord'', JStr ''hit''), (''endWord'', JStr ''cog''), (''wordList'', jstrs [''hot'',
            ''dot'', ''dog'', ''lot'', ''log''])] (jint 0) True 1,
          fx_case [(''beginWord'', JStr ''a''), (''endWord'', JStr ''c''), (''wordList'', jstrs [''a'', ''b'',
            ''c''])] (jint 2) True 2,
          fx_case [(''beginWord'', JStr ''hot''), (''endWord'', JStr ''dog''), (''wordList'', jstrs [''hot'',
            ''dog''])] (jint 0) False 3,
          fx_case [(''beginWord'', JStr ''hot''), (''endWord'', JStr ''dog''), (''wordList'', jstrs [''hot'',
            ''dot'', ''dog''])] (jint 3) False 4,
          fx_case [(''beginWord'', JStr ''ab''), (''endWord'', JStr ''cd''), (''wordList'', jstrs [''ab'', ''ad'',
            ''cd''])] (jint 3) False 5,
          fx_case [(''beginWord'', JStr ''cat''), (''endWord'', JStr ''fin''), (''wordList'', jstrs [''ion'',
            ''rev'', ''che'', ''ind'', ''lie'', ''wis'', ''oct'', ''ham'', ''jag'', ''pup'', ''ban'',
            ''fin''])] (jint 0) False 6,
          fx_case [(''beginWord'', JStr ''abc''), (''endWord'', JStr ''abc''), (''wordList'',
            jstrs [''abc''])] (jint 0) False 7],
      fx_boilerplate = \<lparr>nb_language = ''python'', nb_template = ''class Solution:\<newline>    def ladderLength(self, beginWord: str, endWord: str, wordList: List[str]) -> int:\<newline>        pass'',
        nb_methodName = ''ladderLength'', nb_parameterNames = [''beginWord'', ''endWord'', ''wordList'']\<rparr>,
      fx_hints = [
        \<lparr>nh_hintText = ''Think of each word as a node in a graph. Two words are connected if they differ by exactly one letter. You need to find the shortest path from beginWord to endWord.'', nh_orderIndex = 0\<rparr>,
        \<lparr>nh_hintText = ''BFS gives the shortest path in an unweighted graph. But checking all pairs of words for one-letter difference is expensive. Instead, use wildcard patterns: for 'hot', generate '*ot', 'h*t', 'ho*' as intermediate states.'', nh_orderIndex = 1\<rparr>,
        \<lparr>nh_hintText = ''Build an adjacency map using wildcard patterns. For each word, generate all patterns and group words sharing the same pattern. Then BFS through these groups to find the shortest transformation.'', nh_orderIndex = 2\<rparr>]\<rparr>"

definition graphsProblems :: "fixture list" where
  "graphsProblems =
     [number_of_islands_fixture,
      clone_graph_fixture,
      max_area_of_island_fixture,
      pacific_atlantic_water_flow_fixture,
      surrounded_regions_fixture,
      rotting_oranges_fixture,
      walls_and_gates_fixture,
      course_schedule_fixture,
      course_schedule_ii_fixture,
      redundant_connection_fixture,
      number_of_connected_components_in_an_undirected_graph_fixture,
      graph_valid_tree_fixture,
      word_ladder_fixture]"

lemma graphsProblems_facts:
  "map seed_facts graphsProblems =
     [(''number-of-islands'', True, True, True),
      (''clone-graph'', True, False, True),
      (''max-area-of-island'', True, True, True),
      (''pacific-atlantic-water-flow'', True, True, True),
      (''surrounded-regions'', True, True, True),
      (''rotting-oranges'', True, True, True),
      (''walls-and-gates'', True, True, True),
      (''course-schedule'', True, True, True),
      (''course-schedule-ii'', True, True, True),
      (''redundant-connection'', True, True, True),
      (''number-of-connected-components-in-an-undirected-graph'', True, True, True),
      (''graph-valid-tree'', True, True, True),
      (''word-ladder'', True, True, True)]"
  by (simp add: graphsProblems_def seed_evaluation cong: seed_congs add:
      number_of_islands_fixture_def
      clone_graph_fixture_def
      max_area_of_island_fixture_def
      pacific_atlantic_water_flow_fixture_def
      surrounded_regions_fixture_def
      rotting_oranges_fixture_def
      walls_and_gates_fixture_def
      course_schedule_fixture_def
      course_schedule_ii_fixture_def
      redundant_connection_fixture_def
      number_of_connected_components_in_an_undirected_graph_fixture_def
      graph_valid_tree_fixture_def
      word_ladder_fixture_def)


section \<open>advanced graphs\<close>

definition reconstruct_itinerary_fixture :: fixture where
  "reconstruct_itinerary_fixture =
     \<lparr>fx_problem = \<lparr>np_slug = ''reconstruct-itinerary'', np_title = ''Reconstruct Itinerary'', np_difficulty = ''hard'',
        np_category = ''Advanced Graphs'',
        np_description = ''You are given a list of airline `tickets` where `tickets[i] = [fromi, toi]` represent the departure and the arrival airports of one flight. Reconstruct the itinerary in order and return it.\<newline>\<newline>All of the tickets belong to a man who departs from `\"JFK\"`, thus, the itinerary must begin with `\"JFK\"`. If there are multiple valid itineraries, you should return the itinerary that has the smallest lexical order when read as a single string.\<newline>\<newline>You may assume all tickets form at least one valid itinerary. You must use all the tickets once and only once.'',
        np_constraints = [''1 <= tickets.length <= 300'', ''tickets[i].length == 2'', ''fromi.length == 3'', ''toi.length == 3'', ''fromi and toi consist of uppercase English letters.'', ''fromi != toi''],
        np_solution = Some ''Build an adjacency list with destinations sorted in reverse lexical order (so we can pop from the end for smallest first). Use Hierholzer's algorithm for Eulerian path: DFS from JFK, appending to result on backtrack, then reverse the result.'',
        np_timeLimitMs = 5000, np_source = ''curated'', np_sourceUrl = None\<rparr>,
      fx_testCases = [
          fx_case [(''tickets'', JArr [jstrs [''MUC'', ''LHR''], jstrs [''JFK'', ''MUC''], jstrs [''SFO'', ''SJC''],
            jstrs [''LHR'', ''SFO'']])] (jstrs [''JFK'', ''MUC'', ''LHR'', ''SFO'', ''SJC'']) True 0,
          fx_case [(''tickets'', JArr [jstrs [''JFK'', ''SFO''], jstrs [''JFK'', ''ATL''], jstrs [''SFO'', ''ATL''],
            jstrs [''ATL'', ''JFK''], jstrs [''ATL'', ''SFO'']])] (jstrs [''JFK'', ''ATL'', ''JFK'', ''SFO'',
            ''ATL'', ''SFO'']) True 1,
          fx_case [(''tickets'', JArr [jstrs [''JFK'', ''A''], jstrs [''A'', ''JFK'']])] (jstrs [''JFK'', ''A'',
            ''JFK'']) True 2,
          fx_case [(''tickets'', JArr [jstrs [''JFK'', ''KUL''], jstrs [''JFK'', ''NRT''], jstrs [''NRT'',
            ''JFK'']])] (jstrs [''JFK'', ''NRT'', ''JFK'', ''KUL'']) False 3,
          fx_case [(''tickets'', JArr [jstrs [''JFK'', ''AAA'']])] (jstrs [''JFK'', ''AAA'']) False 4,
          fx_case [(''tickets'', JArr [jstrs [''JFK'', ''BBB''], jstrs [''JFK'', ''AAA''], jstrs [''AAA'',
            ''JFK'']])] (jstrs [''JFK'', ''AAA'', ''JFK'', ''BBB'']) False 5,
          fx_case [(''tickets'', JArr [jstrs [''JFK'', ''A''], jstrs [''A'', ''B''], jstrs [''B'', ''JFK''],
            jstrs [''JFK'', ''C'']])] (jstrs [''JFK'', ''A'', ''B'', ''JFK'', ''C'']) False 6,
          fx_case [(''tickets'', JArr [jstrs [''JFK'', ''A''], jstrs [''A'', ''B''], jstrs [''B'', ''C''],
            jstrs [''C'', ''A''], jstrs [''A'', ''JFK''], jstrs [''JFK'', ''D'']])] (jstrs [''JFK'', ''A'', ''B'',
            ''C'', ''A'', ''JFK'', ''D'']) False 7],
      fx_boilerplate = \<lparr>nb_language = ''python'', nb_template = ''class Solution:\<newline>    def findItinerary(self, tickets: List[List[str]]) -> List[str]:\<newline>        pass'',
        nb_methodName = ''findItinerary'', nb_parameterNames = [''tickets'']\<rparr>,
      fx_hints = [
        \<lparr>nh_hintText = ''This is an Eulerian path problem. Every ticket (edge) must be used exactly once. Think about which graph traversal algorithm finds a path that uses every edge.'', nh_orderIndex = 0\<rparr>,
        \<lparr>nh_hintText = ''Build a graph with sorted adjacency lists. Use DFS, always visiting the lexicographically smallest destination first.'', nh_orderIndex = 1\<rparr>,
        \<lparr>nh_hintText = ''Use Hierholzer's algorithm: DFS from JFK, and when you can't go further, add the current airport to the front of the result. This handles the backtracking needed for Eulerian paths.'', nh_orderIndex = 2\<rparr>]\<rparr>"

definition min_cost_to_connect_all_points_fixture :: fixture where
  "min_cost_to_connect_all_points_fixture =
     \<lparr>fx_problem = \<lparr>np_slug = ''min-cost-to-connect-all-points'', np_title = ''Min Cost to Connect All Points'', np_difficulty = ''medium'',
        np_category = ''Advanced Graphs'',
        np_description = ''You are given an array `points` representing integer coordinates of some points on a 2D-plane, where `points[i] = [xi, yi]`.\<newline>\<newline>The cost of connecting two points `[xi, yi]` and `[xj, yj]` is the Manhattan distance between them: `|xi - xj| + |yi - yj|`, where `|val|` denotes the absolute value of `val`.\<newline>\<newline>Return the minimum cost to make all points connected. All points are connected if there is exactly one simple path between any two points.'',
        np_constraints = [''1 <= points.length <= 1000'', ''-10^6 <= xi, yi <= 10^6'', ''All pairs (xi, yi) are distinct.''],
        np_solution = Some ''This is a Minimum Spanning Tree problem. Use Prim's algorithm with a min-heap: start from any node, greedily add the cheapest edge to an unvisited node. Or use Kruskal's with Union-Find on all edges sorted by weight.'',
        np_timeLimitMs = 5000, np_source = ''curated'', np_sourceUrl = None\<rparr>,
      fx_testCases = [
          fx_case [(''points'', JArr [jints [0, 0], jints [2, 2], jints [3, 10], jints [5, 2], jints [7,
            0]])] (jint 20) True 0,
          fx_case [(''points'', JArr [jints [3, 12], jints [- 2, 5], jints [- 4, 1]])] (jint 18) True 1,
          fx_case [(''points'', JArr [jints [0, 0]])] (jint 0) True 2,
          fx_case [(''points'', JArr [jints [0, 0], jints [1, 1]])] (jint 2) False 3,
          fx_case [(''points'', JArr [jints [- 1000000, - 1000000], jints [1000000, 1000000]])] (jint 4000000) False 4,
          fx_case [(''points'', JArr [jints [0, 0], jints [1, 0], jints [0, 1], jints [1, 1]])] (jint 3) False 5,
          fx_case [(''points'', JArr [jints [0, 0], jints [5, 0], jints [0, 5], jints [5, 5]])] (jint 15) False 6,
          fx_case [(''points'', JArr [jints [0, 0], jints [2, 0], jints [4, 0], jints [6, 0]])] (jint 6) False 7],
      fx_boilerplate = \<lparr>nb_language = ''python'', nb_template = ''class Solution:\<newline>    def minCostConnectPoints(self, points: List[List[int]]) -> int:\<newline>        pass'',
        nb_methodName = ''minCostConnectPoints'', nb_parameterNames = [''points'']\<rparr>,
      fx_hints = [
        \<lparr>nh_hintText = ''This is a Minimum Spanning Tree problem on a complete graph where edge weights are Manhattan distances.'', nh_orderIndex = 0\<rparr>,
        \<lparr>nh_hintText = ''Use Prim's algorithm: start from any point, use a min-heap to always add the cheapest edge to an unvisited point. Continue until all points are connected.'', nh_orderIndex = 1\<rparr>]\<rparr>"

definition network_delay_time_fixture :: fixture where
  "network_delay_time_fixture =
     \<lparr>fx_problem = \<lparr>np_slug = ''network-delay-time'', np_title = ''Network Delay Time'', np_difficulty = ''medium'',
        np_category = ''Advanced Graphs'',
        np_description = ''You are given a network of `n` nodes, labeled from `1` to `n`. You are also given `times`, a list of travel times as directed edges `times[i] = (ui, vi, wi)`, where `ui` is the source node, `vi` is the target node, and `wi` is the time it takes for a signal to travel from source to target.\<newline>\<newline>We will send a signal from a given node `k`. Return the minimum time it takes for all of the `n` nodes to receive the signal. If it is impossible for all the `n` nodes to receive the signal, return `-1`.'',
        np_constraints = [''1 <= k <= n <= 100'', ''1 <= times.length <= 6000'', ''times[i].length == 3'', ''1 <= ui, vi <= n'', ''ui != vi'', ''0 <= wi <= 100'', ''All the pairs (ui, vi) are unique. (i.e., no multiple edges.)''],
        np_solution = Some ''Use Dijkstra's algorithm from node k. Compute shortest paths to all nodes. The answer is the maximum shortest path distance. If any node is unreachable, return -1.'',
        np_timeLimitMs = 5000, np_source = ''curated'', np_sourceUrl = None\<rparr>,
      fx_testCases = [
          fx_case [(''times'', JArr [jints [2, 1, 1], jints [2, 3, 1], jints [3, 4, 1]]), (''n'', jint 4), (''k'',
            jint 2)] (jint 2) True 0,
          fx_case [(''times'', JArr [jints [1, 2, 1]]), (''n'', jint 2), (''k'', jint 1)] (jint 1) True 1,
          fx_case [(''times'', JArr [jints [1, 2, 1]]), (''n'', jint 2), (''k'', jint 2)] (jint (- 1)) True 2,
          fx_case [(''times'', JArr [jints [1, 2, 1], jints [2, 3, 2], jints [1, 3, 4]]), (''n'', jint 3), (''k'',
            jint 1)] (jint 3) False 3,
          fx_case [(''times'', JArr [jints [1, 2, 1], jints [2, 1, 1]]), (''n'', jint 2), (''k'',
            jint 1)] (jint 1) False 4,
          fx_case [(''times'', JArr [jints [1, 2, 1], jints [2, 3, 1], jints [3, 1, 1]]), (''n'', jint 3), (''k'',
            jint 1)] (jint 2) False 5,
          fx_case [(''times'', JArr [jints [1, 2, 5], jints [1, 3, 2], jints [3, 2, 1]]), (''n'', jint 3), (''k'',
            jint 1)] (jint 3) False 6,
          fx_case [(''times'', JArr [jints [1, 2, 1]]), (''n'', jint 3), (''k'', jint 1)] (jint (- 1)) False 7],
      fx_boilerplate = \<lparr>nb_language = ''python'', nb_template = ''class Solution:\<newline>    def networkDelayTime(self, times: List[List[int]], n: int, k: int) -> int:\<newline>        pass'',
        nb_methodName = ''networkDelayTime'', nb_parameterNames = [''times'', ''n'', ''k'']\<rparr>,
      fx_hints = [
        \<lparr>nh_hintText = ''This is a single-source shortest path problem. You need to find the shortest time to reach every node from node k.'', nh_orderIndex = 0\<rparr>,
        \<lparr>nh_hintText = ''Use Dijkstra's algorithm with a min-heap. After computing shortest paths to all reachable nodes, the answer is the maximum distance. If any node is unreachable, return -1.'', nh_orderIndex = 1\<rparr>]\<rparr>"

definition swim_in_rising_water_fixture :: fixture where
  "swim_in_rising_water_fixture =
     \<lparr>fx_problem = \<lparr>np_slug = ''swim-in-rising-water'', np_title = ''Swim in Rising Water'', np_difficulty = ''hard'',
        np_category = ''Advanced Graphs'',
        np_description = ''You are given an `n x n` integer matrix `grid` where each value `grid[i][j]` represents the elevation at that point `(i, j)`.\<newline>\<newline>The rain starts to fall. At time `t`, the depth of the water everywhere is `t`. You can swim from a square to another 4-directionally adjacent square if and only if the elevation of both squares individually are at most `t`. You can swim infinite distances in zero time. Of course, you must stay within the boundaries of the grid during your swim.\<newline>\<newline>Return the least time until you can reach the bottom right square `(n - 1, n - 1)` starting from the top left square `(0, 0)`.'',
        np_constraints = [''n == grid.length'', ''n == grid[i].length'', ''1 <= n <= 50'', ''0 <= grid[i][j] < n^2'', ''Each value grid[i][j] is unique.''],
        np_solution = Some ''Use a modified Dijkstra's algorithm or binary search + BFS. With Dijkstra, use a min-heap where the priority is the maximum elevation along the path. The answer is the minimum maximum-elevation path from (0,0) to (n-1,n-1).'',
        np_timeLimitMs = 5000, np_source = ''curated'', np_sourceUrl = None\<rparr>,
      fx_testCases = [
          fx_case [(''grid'', JArr [jints [0, 2], jints [1, 3]])] (jint 3) True 0,
          fx_case [(''grid'', JArr [jints [0, 1, 2, 3, 4], jints [24, 23, 22, 21, 5], jints [12, 13, 14, 15, 16],
            jints [11, 17, 18, 19, 20], jints [10, 9, 8, 7, 6]])] (jint 16) True 1,
          fx_case [(''grid'', JArr [jints [0]])] (jint 0) True 2,
          fx_case [(''grid'', JArr [jints [0, 3, 5], jints [1, 2, 8], jints [4, 6, 7]])] (jint 7) False 3,
          fx_case [(''grid'', JArr [jints [0, 1], jints [2, 3]])] (jint 3) False 4,
          fx_case [(''grid'', JArr [jints [3, 2], jints [0, 1]])] (jint 3) False 5,
          fx_case [(''grid'', JArr [jints [0, 7, 3], jints [6, 8, 2], jints [5, 4, 1]])] (jint 4) False 6,
          fx_case [(''grid'', JArr [jints [0, 1, 2, 3], jints [15, 14, 13, 4], jints [8, 9, 10, 5], jints [7, 11, 12,
            6]])] (jint 6) False 7],
      fx_boilerplate = \<lparr>nb_language = ''python'', nb_template = ''class Solution:\<newline>    def swimInWater(self, grid: List[List[int]]) -> int:\<newline>        pass'',
        nb_methodName = ''swimInWater'', nb_parameterNames = [''grid'']\<rparr>,
      fx_hints = [
        \<lparr>nh_hintText = ''The key insight is that you want to minimize the maximum elevation along any path from (0,0) to (n-1,n-1).'', nh_orderIndex = 0\<rparr>,
        \<lparr>nh_hintText = ''One approach: binary search on time t, then BFS/DFS to check if a path exists using only cells with elevation <= t.'', nh_orderIndex = 1\<rparr>,
        \<lparr>nh_hintText = ''A more elegant approach: use Dijkstra's algorithm where the 'distance' to a cell is the maximum elevation encountered on the path to it. Use a min-heap to always expand the cell with the smallest maximum elevation.'', nh_orderIndex = 2\<rparr>]\<rparr>"

definition alien_dictionary_fixture :: fixture where
  "alien_dictionary_fixture =
     \<lparr>fx_problem = \<lparr>np_slug = ''alien-dictionary'', np_title = ''Alien Dictionary'', np_difficulty = ''hard'',
        np_category = ''Advanced Graphs'',
        np_description = ''There is a new alien language that uses the English alphabet. However, the order of the letters is unknown to you.\<newline>\<newline>You are given a list of strings `words` from the alien language's dictionary, where the strings in `words` are sorted lexicographically by the rules of this new language.\<newline>\<newline>Derive the order of letters in this language. If the order is invalid, return `\"\"`. If there are multiple valid orderings, return any of them.'',
        np_constraints = [''1 <= words.length <= 100'', ''1 <= words[i].length <= 100'', ''words[i] consists of only lowercase English letters.''],
        np_solution = Some ''Compare adjacent words to extract ordering constraints (directed edges). Build a directed graph and perform topological sort. If a cycle exists, the ordering is invalid. Handle the edge case where a longer word comes before its prefix.'',
        np_timeLimitMs = 5000, np_source = ''curated'', np_sourceUrl = None\<rparr>,
      fx_testCases = [
          fx_case [(''words'', jstrs [''wrt'', ''wrf'', ''er'', ''ett'', ''rftt''])] (JStr ''wertf'') True 0,
          fx_case [(''words'', jstrs [''z'', ''x''])] (JStr ''zx'') True 1,
          fx_case [(''words'', jstrs [''z'', ''x'', ''z''])] (JStr []) True 2,
          fx_case [(''words'', jstrs [''abc'', ''ab''])] (JStr []) False 3,
          fx_case [(''words'', jstrs [''a''])] (JStr ''a'') False 4,
          fx_case [(''words'', jstrs [''z'', ''z''])] (JStr ''z'') False 5,
          fx_case [(''words'', jstrs [''ab'', ''ac''])] (JStr ''abc'') False 6,
          fx_case [(''words'', jstrs [''a'', ''b'', ''c''])] (JStr ''abc'') False 7],
      fx_boilerplate = \<lparr>nb_language = ''python'', nb_template = ''class Solution:\<newline>    def alienOrder(self, words: List[str]) -> str:\<newline>        pass'',
        nb_methodName = ''alienOrder'', nb_parameterNames = [''words'']\<rparr>,
      fx_hints = [
        \<lparr>nh_hintText = ''Compare each pair of adjacent words. The first position where they differ gives you an ordering constraint between two letters.'', nh_orderIndex = 0\<rparr>,
        \<lparr>nh_hintText = ''Build a directed graph from these constraints. Use topological sort to determine the order. Watch out for the edge case where a longer word comes before its prefix (e.g., 'abc' before 'ab').'', nh_orderIndex = 1\<rparr>,
        \<lparr>nh_hintText = ''Use Kahn's algorithm (BFS topological sort) for cycle detection. If the result doesn't include all unique letters, there's a cycle and the ordering is invalid.'', nh_orderIndex = 2\<rparr>]\<rparr>"

definition cheapest_flights_within_k_stops_fixture :: fixture where
  "cheapest_flights_within_k_stops_fixture =
     \<lparr>fx_problem = \<lparr>np_slug = ''cheapest-flights-within-k-stops'', np_title = ''Cheapest Flights Within K Stops'', np_difficulty = ''medium'',
        np_category = ''Advanced Graphs'',
        np_description = ''There are `n` cities connected by some number of flights. You are given an array `flights` where `flights[i] = [fromi, toi, pricei]` indicates that there is a flight from city `fromi` to city `toi` with cost `pricei`.\<newline>\<newline>You are also given three integers `src`, `dst`, and `k`, return the cheapest price from `src` to `dst` with at most `k` stops. If there is no such route, return `-1`.'',
        np_constraints = [''1 <= n <= 100'', ''0 <= flights.length <= (n * (n - 1) / 2)'', ''flights[i].length == 3'', ''0 <= fromi, toi < n'', ''fromi != toi'', ''1 <= pricei <= 10^4'', ''There will not be any multiple flights between two cities.'', ''0 <= src, dst, k < n'', ''src != dst''],
        np_solution = Some ''Use Bellman-Ford algorithm with at most k+1 relaxation rounds (k stops = k+1 edges). In each round, relax all edges using the previous round's distances to avoid using more stops than allowed.'',
        np_timeLimitMs = 5000, np_source = ''curated'', np_sourceUrl = None\<rparr>,
      fx_testCases = [
          fx_case [(''n'', jint 4), (''flights'', JArr [jints [0, 1, 100], jints [1, 2, 100], jints [2, 0, 100],
            jints [1, 3, 600], jints [2, 3, 200]]), (''src'', jint 0), (''dst'', jint 3), (''k'',
            jint 1)] (jint 700) True 0,
          fx_case [(''n'', jint 3), (''flights'', JArr [jints [0, 1, 100], jints [1, 2, 100], jints [0, 2, 500]]),
            (''src'', jint 0), (''dst'', jint 2), (''k'', jint 1)] (jint 200) True 1,
          fx_case [(''n'', jint 3), (''flights'', JArr [jints [0, 1, 100], jints [1, 2, 100], jints [0, 2, 500]]),
            (''src'', jint 0), (''dst'', jint 2), (''k'', jint 0)] (jint 500) True 2,
          fx_case [(''n'', jint 2), (''flights'', JArr [jints [0, 1, 100]]), (''src'', jint 0), (''dst'', jint 1),
            (''k'', jint 0)] (jint 100) False 3,
          fx_case [(''n'', jint 3), (''flights'', JArr [jints [0, 1, 100]]), (''src'', jint 0), (''dst'', jint 2),
            (''k'', jint 1)] (jint (- 1)) False 4,
          fx_case [(''n'', jint 4), (''flights'', JArr [jints [0, 1, 1], jints [1, 2, 1], jints [2, 3, 1], jints [0,
            3, 100]]), (''src'', jint 0), (''dst'', jint 3), (''k'', jint 1)] (jint 100) False 5,
          fx_case [(''n'', jint 4), (''flights'', JArr [jints [0, 1, 1], jints [1, 2, 1], jints [2, 3, 1], jints [0,
            3, 100]]), (''src'', jint 0), (''dst'', jint 3), (''k'', jint 2)] (jint 3) False 6,
          fx_case [(''n'', jint 5), (''flights'', JArr [jints [0, 1, 5], jints [1, 2, 5], jints [0, 3, 2], jints [3,
            1, 2], jints [1, 4, 1], jints [4, 2, 1]]), (''src'', jint 0), (''dst'', jint 2), (''k'',
            jint 2)] (jint 7) False 7],
      fx_boilerplate = \<lparr>nb_language = ''python'', nb_template = ''class Solution:\<newline>    def findCheapestPrice(self, n: int, flights: List[List[int]], src: int, dst: int, k: int) -> int:\<newline>        pass'',
        nb_methodName = ''findCheapestPrice'', nb_parameterNames = [''n'', ''flights'', ''src'', ''dst'', ''k'']\<rparr>,
      fx_hints = [
        \<lparr>nh_hintText = ''Standard Dijkstra doesn't work well here because the constraint is on the number of stops, not just the cost. Think about an algorithm that processes edges layer by layer.'', nh_orderIndex = 0\<rparr>,
        \<lparr>nh_hintText = ''Use Bellman-Ford with k+1 iterations. In each iteration, relax all edges. Use a copy of the previous iteration's distances to avoid chain-relaxation within the same iteration.'', nh_orderIndex = 1\<rparr>]\<rparr>"

definition advancedGraphsProblems :: "fixture list" where
  "advancedGraphsProblems =
     [reconstruct_itinerary_fixture,
      min_cost_to_connect_all_points_fixture,
      network_delay_time_fixture,
      swim_in_rising_water_fixture,
      alien_dictionary_fixture,
      cheapest_flights_within_k_stops_fixture]"

lemma advancedGraphsProblems_facts:
  "map seed_facts advancedGraphsProblems =
     [(''reconstruct-itinerary'', True, True, True),
      (''min-cost-to-connect-all-points'', True, True, True),
      (''network-delay-time'', True, True, True),
      (''swim-in-rising-water'', True, True, True),
      (''alien-dictionary'', True, True, True),
      (''cheapest-flights-within-k-stops'', True, True, True)]"
  by (simp add: advancedGraphsProblems_def seed_evaluation cong: seed_congs add:
      reconstruct_itinerary_fixture_def
      min_cost_to_connect_all_points_fixture_def
      network_delay_time_fixture_def
      swim_in_rising_water_fixture_def
      alien_dictionary_fixture_def
      cheapest_flights_within_k_stops_fixture_def)

end
