(* ===== verification/Seed_Dp.thy ===== *)
theory Seed_Dp
  imports Seed_Base
begin

text \<open>The problems of \<^verbatim>\<open>dp-1d.ts\<close>, \<^verbatim>\<open>dp-2d.ts\<close> under
  \<^verbatim>\<open>packages/db/src/seeds/data\<close>, in the order of the files.\<close>

section \<open>dp 1d\<close>

definition climbing_stairs_fixture :: fixture where
  "climbing_stairs_fixture =
     \<lparr>fx_problem = \<lparr>np_slug = ''climbing-stairs'', np_title = ''Climbing Stairs'', np_difficulty = ''easy'',
        np_category = ''1-D Dynamic Programming'',
        np_description = ''You are climbing a staircase. It takes `n` steps to reach the top.\<newline>\<newline>Each time you can either climb `1` or `2` steps. In how many distinct ways can you climb to the top?'',
        np_constraints = [''1 <= n <= 45''],
        np_solution = Some ''This is the Fibonacci sequence. dp[i] = dp[i-1] + dp[i-2]. Base cases: dp[1] = 1, dp[2] = 2. Can be optimized to O(1) space with two variables.'',
        np_timeLimitMs = 5000, np_source = ''curated'', np_sourceUrl = None\<rparr>,
      fx_testCases = [
          fx_case [(''n'', jint 2)] (jint 2) True 0,
          fx_case [(''n'', jint 3)] (jint 3) True 1,
          fx_case [(''n'', jint 1)] (jint 1) True 2,
          fx_case [(''n'', jint 4)] (jint 5) False 3,
          fx_case [(''n'', jint 5)] (jint 8) False 4,
          fx_case [(''n'', jint 10)] (jint 89) False 5,
          fx_case [(''n'', jint 20)] (jint 10946) False 6,
          fx_case [(''n'', jint 45)] (jint 1836311903) False 7],
      fx_boilerplate = \<lparr>nb_language = ''python'', nb_template = ''class Solution:\<newline>    def climbStairs(self, n: int) -> int:\<newline>        pass'',
        nb_methodName = ''climbStairs'', nb_parameterNames = [''n'']\<rparr>,
      fx_hints = [
        \<lparr>nh_hintText = ''To reach step n, you could have come from step n-1 (1 step) or step n-2 (2 steps). This gives you a recurrence relation similar to Fibonacci.'', nh_orderIndex = 0\<rparr>]\<rparr>"

definition min_cost_climbing_stairs_fixture :: fixture where
  "min_cost_climbing_stairs_fixture =
     \<lparr>fx_problem = \<lparr>np_slug = ''min-cost-climbing-stairs'', np_title = ''Min Cost Climbing Stairs'', np_difficulty = ''easy'',
        np_category = ''1-D Dynamic Programming'',
        np_description = ''You are given an integer array `cost` where `cost[i]` is the cost of `i`th step on a staircase. Once you pay the cost, you can either climb one or two steps.\<newline>\<newline>You can either start from the step with index `0`, or the step with index `1`.\<newline>\<newline>Return the minimum cost to reach the top of the floor.'',
        np_constraints = [''2 <= cost.length <= 1000'', ''0 <= cost[i] <= 999''],
        np_solution = Some ''dp[i] = cost[i] + min(dp[i-1], dp[i-2]). The answer is min(dp[n-1], dp[n-2]) since you can reach the top from either of the last two steps.'',
        np_timeLimitMs = 5000, np_source = ''curated'', np_sourceUrl = None\<rparr>,
      fx_testCases = [
          fx_case [(''cost'', jints [10, 15, 20])] (jint 15) True 0,
          fx_case [(''cost'', jints [1, 100, 1, 1, 1, 100, 1, 1, 100, 1])] (jint 6) True 1,
          fx_case [(''cost'', jints [0, 0])] (jint 0) True 2,
          fx_case [(''cost'', jints [1, 2])] (jint 1) False 3,
          fx_case [(''cost'', jints [5, 5, 5, 5])] (jint 10) False 4,
          fx_case [(''cost'', jints [0, 1, 0, 1])] (jint 0) False 5,
          fx_case [(''cost'', jints [999, 999])] (jint 999) False 6,
          fx_case [(''cost'', jints [1, 2, 3])] (jint 2) False 7],
      fx_boilerplate = \<lparr>nb_language = ''python'', nb_template = ''class Solution:\<newline>    def minCostClimbingStairs(self, cost: List[int]) -> int:\<newline>        pass'',
        nb_methodName = ''minCostClimbingStairs'', nb_parameterNames = [''cost'']\<rparr>,
      fx_hints = [
        \<lparr>nh_hintText = ''The minimum cost to reach step i is cost[i] + min(cost to reach step i-1, cost to reach step i-2). The top is one step past the last element.'', nh_orderIndex = 0\<rparr>]\<rparr>"

definition house_robber_fixture :: fixture where
  "house_robber_fixture =
     \<lparr>fx_problem = \<lparr>np_slug = ''house-robber'', np_title = ''House Robber'', np_difficulty = ''medium'',
        np_category = ''1-D Dynamic Programming'',
        np_description = ''You are a professional robber planning to rob houses along a street. Each house has a certain amount of money stashed, the only constraint stopping you from robbing each of them is that adjacent houses have security systems connected and it will automatically contact the police if two adjacent houses were broken into on the same night.\<newline>\<newline>Given an integer array `nums` representing the amount of money of each house, return the maximum amount of money you can rob tonight without alerting the police.'',
        np_constraints = [''1 <= nums.length <= 100'', ''0 <= nums[i] <= 400''],
        np_solution = Some ''dp[i] = max(dp[i-1], dp[i-2] + nums[i]). At each house, decide whether to rob it (skip previous) or skip it (keep previous best). Optimize to O(1) space with two variables.'',
        np_timeLimitMs = 5000, np_source = ''curated'', np_sourceUrl = None\<rparr>,
      fx_testCases = [
          fx_case [(''nums'', jints [1, 2, 3, 1])] (jint 4) True 0,
          fx_case [(''nums'', jints [2, 7, 9, 3, 1])] (jint 12) True 1,
          fx_case [(''nums'', jints [2, 1, 1, 2])] (jint 4) True 2,
          fx_case [(''nums'', jints [0])] (jint 0) False 3,
          fx_case [(''nums'', jints [100])] (jint 100) False 4,
          fx_case [(''nums'', jints [1, 2])] (jint 2) False 5,
          fx_case [(''nums'', jints [1, 3, 1, 3, 100])] (jint 103) False 6,
          fx_case [(''nums'', jints [400, 1, 400, 1, 400])] (jint 1200) False 7],
      fx_boilerplate = \<lparr>nb_language = ''python'', nb_template = ''class Solution:\<newline>    def rob(self, nums: List[int]) -> int:\<newline>        pass'',
        nb_methodName = ''rob'', nb_parameterNames = [''nums'']\<rparr>,
      fx_hints = [
        \<lparr>nh_hintText = ''At each house, you have two choices: rob it or skip it. If you rob house i, you can't rob house i-1.'', nh_orderIndex = 0\<rparr>,
        \<lparr>nh_hintText = ''Define dp[i] as the max money you can rob from houses 0..i. The recurrence is dp[i] = max(dp[i-1], dp[i-2] + nums[i]).'', nh_orderIndex = 1\<rparr>]\<rparr>"

definition house_robber_ii_fixture :: fixture where
  "house_robber_ii_fixture =
     \<lparr>fx_problem = \<lparr>np_slug = ''house-robber-ii'', np_title = ''House Robber II'', np_difficulty = ''medium'',
        np_category = ''1-D Dynamic Programming'',
        np_description = ''You are a professional robber planning to rob houses along a street. Each house has a certain amount of money stashed. All houses at this place are arranged in a circle. That means the first house is the neighbor of the last one. Meanwhile, adjacent houses have a security system connected, and it will automatically contact the police if two adjacent houses were broken into on the same night.\<newline>\<newline>Given an integer array `nums` representing the amount of money of each house, return the maximum amount of money you can rob tonight without alerting the police.'',
        np_constraints = [''1 <= nums.length <= 100'', ''0 <= nums[i] <= 1000''],
        np_solution = Some ''Since house 0 and house n-1 are adjacent in a circle, you can't rob both. Run House Robber on nums[0..n-2] and nums[1..n-1] separately, then return the maximum of the two results.'',
        np_timeLimitMs = 5000, np_source = ''curated'', np_sourceUrl = None\<rparr>,
      fx_testCases = [
          fx_case [(''nums'', jints [2, 3, 2])] (jint 3) True 0,
          fx_case [(''nums'', jints [1, 2, 3, 1])] (jint 4) True 1,
          fx_case [(''nums'', jints [1, 2, 3])] (jint 3) True 2,
          fx_case [(''nums'', jints [1])] (jint 1) False 3,
          fx_case [(''nums'', jints [0, 0])] (jint 0) False 4,
          fx_case [(''nums'', jints [200, 3, 140, 20, 10])] (jint 340) False 5,
          fx_case [(''nums'', jints [1, 3, 1, 3, 100])] (jint 103) False 6,
          fx_case [(''nums'', jints [1, 1, 1, 1, 1])] (jint 2) False 7],
      fx_boilerplate = \<lparr>nb_language = ''python'', nb_template = ''class Solution:\<newline>    def rob(self, nums: List[int]) -> int:\<newline>        pass'',
        nb_methodName = ''rob'', nb_parameterNames = [''nums'']\<rparr>,
      fx_hints = [
        \<lparr>nh_hintText = ''The houses form a circle, so you cannot rob both the first and last house. How can you reduce this to the non-circular House Robber problem?'', nh_orderIndex = 0\<rparr>,
        \<lparr>nh_hintText = ''Run the linear House Robber algorithm twice: once on houses[0..n-2] (excluding last) and once on houses[1..n-1] (excluding first). Return the maximum of both results.'', nh_orderIndex = 1\<rparr>]\<rparr>"

definition longest_palindromic_substring_fixture :: fixture where
  "longest_palindromic_substring_fixture =
     \<lparr>fx_problem = \<lparr>np_slug = ''longest-palindromic-substring'', np_title = ''Longest Palindromic Substring'', np_difficulty = ''medium'',
        np_category = ''1-D Dynamic Programming'',
        np_description = ''Given a string `s`, return the longest palindromic substring in `s`.'',
        np_constraints = [''1 <= s.length <= 1000'', ''s consist of only digits and English letters.''],
        np_solution = Some ''Expand around each center. For each index (and each pair of adjacent indices for even-length palindromes), expand outward while characters match. Track the longest palindrome found.'',
        np_timeLimitMs = 5000, np_source = ''curated'', np_sourceUrl = None\<rparr>,
      fx_testCases = [
          fx_case [(''s'', JStr ''babad'')] (JStr ''bab'') True 0,
          fx_case [(''s'', JStr ''cbbd'')] (JStr ''bb'') True 1,
          fx_case [(''s'', JStr ''a'')] (JStr ''a'') True 2,
          fx_case [(''s'', JStr ''ac'')] (JStr ''a'') False 3,
          fx_case [(''s'', JStr ''racecar'')] (JStr ''racecar'') False 4,
          fx_case [(''s'', JStr ''aacabdkacaa'')] (JStr ''aca'') False 5,
          fx_case [(''s'', JStr ''aaaa'')] (JStr ''aaaa'') False 6,
          fx_case [(''s'', JStr ''abcde'')] (JStr ''a'') False 7],
      fx_boilerplate = \<lparr>nb_language = ''python'', nb_template = ''class Solution:\<newline>    def longestPalindrome(self, s: str) -> str:\<newline>        pass'',
        nb_methodName = ''longestPalindrome'', nb_parameterNames = [''s'']\<rparr>,
      fx_hints = [
        \<lparr>nh_hintText = ''A palindrome mirrors around its center. There are 2n-1 possible centers (each character + each gap between characters).'', nh_orderIndex = 0\<rparr>,
        \<lparr>nh_hintText = ''For each center, expand outward while the characters on both sides match. Track the start and length of the longest palindrome found. Handle both odd-length and even-length palindromes.'', nh_orderIndex = 1\<rparr>]\<rparr>"

definition palindromic_substrings_fixture :: fixture where
  "palindromic_substrings_fixture =
     \<lparr>fx_problem = \<lparr>np_slug = ''palindromic-substrings'', np_title = ''Palindromic Substrings'', np_difficulty = ''medium'',
        np_category = ''1-D Dynamic Programming'',
        np_description = ''Given a string `s`, return the number of palindromic substrings in it.\<newline>\<newline>A string is a palindrome when it reads the same backward as forward.\<newline>\<newline>A substring is a contiguous sequence of characters within the string.'',
        np_constraints = [''1 <= s.length <= 1000'', ''s consists of lowercase English letters.''],
        np_solution = Some ''Expand around each center (2n-1 centers for both odd and even length palindromes). For each center, count how many palindromes can be formed by expanding outward while characters match.'',
        np_timeLimitMs = 5000, np_source = ''curated'', np_sourceUrl = None\<rparr>,
      fx_testCases = [
          fx_case [(''s'', JStr ''abc'')] (jint 3) True 0,
          fx_case [(''s'', JStr ''aaa'')] (jint 6) True 1,
          fx_case [(''s'', JStr ''a'')] (jint 1) True 2,
          fx_case [(''s'', JStr ''ab'')] (jint 2) False 3,
          fx_case [(''s'', JStr ''aa'')] (jint 3) False 4,
          fx_case [(''s'', JStr ''aba'')] (jint 4) False 5,
          fx_case [(''s'', JStr ''abba'')] (jint 6) False 6,
          fx_case [(''s'', JStr ''racecar'')] (jint 10) False 7],
      fx_boilerplate = \<lparr>nb_language = ''python'', nb_template = ''class Solution:\<newline>    def countSubstrings(self, s: str) -> int:\<newline>        pass'',
        nb_methodName = ''countSubstrings'', nb_parameterNames = [''s'']\<rparr>,
      fx_hints = [
        \<lparr>nh_hintText = ''Every single character is a palindrome. Now think about how to find longer palindromic substrings.'', nh_orderIndex = 0\<rparr>,
        \<lparr>nh_hintText = ''Use the expand-around-center technique. For each possible center (both single characters and pairs), expand outward and count each expansion that forms a palindrome.'', nh_orderIndex = 1\<rparr>]\<rparr>"

definition decode_ways_fixture :: fixture where
  "decode_ways_fixture =
     \<lparr>fx_problem = \<lparr>np_slug = ''decode-ways'', np_title = ''Decode Ways'', np_difficulty = ''medium'',
        np_category = ''1-D Dynamic Programming'',
        np_description = ''A message containing letters from `A-Z` can be encoded into numbers using the following mapping:\<newline>\<newline>- 'A' -> \"1\"\<newline>- 'B' -> \"2\"\<newline>- ...\<newline>- 'Z' -> \"26\"\<newline>\<newline>To decode an encoded message, all the digits must be grouped then mapped back into letters using the reverse of the mapping above (there may be multiple ways). For example, `\"11106\"` can be mapped into: `\"AAJF\"` with the grouping `(1 1 10 6)` or `\"KJF\"` with the grouping `(11 10 6)`.\<newline>\<newline>Note that the grouping `(1 11 06)` is invalid because `\"06\"` cannot be mapped into `'F'` since `\"6\"` is different from `\"06\"`.\<newline>\<newline>Given a string `s` containing only digits, return the number of ways to decode it.'',
        np_constraints = [''1 <= s.length <= 100'', ''s contains only digits and may contain leading zeros.''],
        np_solution = Some ''dp[i] = number of ways to decode s[0..i-1]. If s[i-1] != '0', dp[i] += dp[i-1] (single digit). If s[i-2..i-1] forms a valid number 10-26, dp[i] += dp[i-2] (two digits).'',
        np_timeLimitMs = 5000, np_source = ''curated'', np_sourceUrl = None\<rparr>,
      fx_testCases = [
          fx_case [(''s'', JStr ''12'')] (jint 2) True 0,
          fx_case [(''s'', JStr ''226'')] (jint 3) True 1,
          fx_case [(''s'', JStr ''06'')] (jint 0) True 2,
          fx_case [(''s'', JStr ''1'')] (jint 1) False 3,
          fx_case [(''s'', JStr ''10'')] (jint 1) False 4,
          fx_case [(''s'', JStr ''27'')] (jint 1) False 5,
          fx_case [(''s'', JStr ''11106'')] (jint 2) False 6,
          fx_case [(''s'', JStr ''111'')] (jint 3) False 7],
      fx_boilerplate = \<lparr>nb_language = ''python'', nb_template = ''class Solution:\<newline>    def numDecodings(self, s: str) -> int:\<newline>        pass'',
        nb_methodName = ''numDecodings'', nb_parameterNames = [''s'']\<rparr>,
      fx_hints = [
        \<lparr>nh_hintText = ''At each position, you can decode one digit or two digits. But '0' cannot be decoded alone, and two-digit numbers must be between 10 and 26.'', nh_orderIndex = 0\<rparr>,
        \<lparr>nh_hintText = ''Use DP where dp[i] is the number of ways to decode the first i characters. If the current digit is non-zero, add dp[i-1]. If the last two digits form a valid number (10-26), add dp[i-2].'', nh_orderIndex = 1\<rparr>]\<rparr>"

definition coin_change_fixture :: fixture where
  "coin_change_fixture =
     \<lparr>fx_problem = \<lparr>np_slug = ''coin-change'', np_title = ''Coin Change'', np_difficulty = ''medium'',
        np_category = ''1-D Dynamic Programming'',
        np_description = ''You are given an integer array `coins` representing coins of different denominations and an integer `amount` representing a total amount of money.\<newline>\<newline>Return the fewest number of coins that you need to make up that amount. If that amount of money cannot be made up by any combination of the coins, return `-1`.\<newline>\<newline>You may assume that you have an infinite number of each kind of coin.'',
        np_constraints = [''1 <= coins.length <= 12'', ''1 <= coins[i] <= 2^31 - 1'', ''0 <= amount <= 10^4''],
        np_solution = Some ''Use bottom-up DP. dp[i] = minimum coins needed for amount i. For each amount from 1 to target, try each coin: dp[i] = min(dp[i], dp[i - coin] + 1) if i >= coin. Initialize dp[0] = 0 and all others to infinity.'',
        np_timeLimitMs = 5000, np_source = ''curated'', np_sourceUrl = None\<rparr>,
      fx_testCases = [
          fx_case [(''coins'', jints [1, 5, 10]), (''amount'', jint 12)] (jint 3) True 0,
          fx_case [(''coins'', jints [2]), (''amount'', jint 3)] (jint (- 1)) True 1,
          fx_case [(''coins'', jints [1]), (''amount'', jint 0)] (jint 0) True 2,
          fx_case [(''coins'', jints [1]), (''amount'', jint 1)] (jint 1) False 3,
          fx_case [(''coins'', jints [1]), (''amount'', jint 2)] (jint 2) False 4,
          fx_case [(''coins'', jints [1, 3, 4]), (''amount'', jint 6)] (jint 2) False 5,
          fx_case [(''coins'', jints [2, 5, 10, 1]), (''amount'', jint 27)] (jint 4) False 6,
          fx_case [(''coins'', jints [186, 419, 83, 408]), (''amount'', jint 6249)] (jint 20) False 7],
      fx_boilerplate = \<lparr>nb_language = ''python'', nb_template = ''class Solution:\<newline>    def coinChange(self, coins: List[int], amount: int) -> int:\<newline>        pass'',
        nb_methodName = ''coinChange'', nb_parameterNames = [''coins'', ''amount'']\<rparr>,
      fx_hints = [
        \<lparr>nh_hintText = ''Think about the subproblem: what is the minimum number of coins needed for each amount from 0 up to the target?'', nh_orderIndex = 0\<rparr>,
        \<lparr>nh_hintText = ''Build a DP array where dp[i] is the minimum coins for amount i. For each amount, try subtracting each coin denomination and take the minimum. If dp[amount] is still infinity, return -1.'', nh_orderIndex = 1\<rparr>]\<rparr>"

definition maximum_product_subarray_fixture :: fixture where
  "maximum_product_subarray_fixture =
     \<lparr>fx_problem = \<lparr>np_slug = ''maximum-product-subarray'', np_title = ''Maximum Product Subarray'', np_difficulty = ''medium'',
        np_category = ''1-D Dynamic Programming'',
        np_description = ''Given an integer array `nums`, find a subarray that has the largest product, and return the product.\<newline>\<newline>The test cases are generated so that the answer will fit in a 32-bit integer.'',
        np_constraints = [''1 <= nums.length <= 2 * 10^4'', ''-10 <= nums[i] <= 10'', ''The product of any subarray of nums is guaranteed to fit in a 32-bit integer.''],
        np_solution = Some ''Track both the current maximum and current minimum product at each position (since a negative times a negative can become the new maximum). At each element, update max and min considering the element itself, max*element, and min*element.'',
        np_timeLimitMs = 5000, np_source = ''curated'', np_sourceUrl = None\<rparr>,
      fx_testCases = [
          fx_case [(''nums'', jints [2, 3, - 2, 4])] (jint 6) True 0,
          fx_case [(''nums'', jints [- 2, 0, - 1])] (jint 0) True 1,
          fx_case [(''nums'', jints [- 2, 3, - 4])] (jint 24) True 2,
          fx_case [(''nums'', jints [0])] (jint 0) False 3,
          fx_case [(''nums'', jints [- 2])] (jint (- 2)) False 4,
          fx_case [(''nums'', jints [2, - 5, - 2, - 4, 3])] (jint 24) False 5,
          fx_case [(''nums'', jints [- 1, - 2, - 3, 0])] (jint 6) False 6,
          fx_case [(''nums'', jints [1, 2, 3, 4])] (jint 24) False 7],
      fx_boilerplate = \<lparr>nb_language = ''python'', nb_template = ''class Solution:\<newline>    def maxProduct(self, nums: List[int]) -> int:\<newline>        pass'',
        nb_methodName = ''maxProduct'', nb_parameterNames = [''nums'']\<rparr>,
      fx_hints = [
        \<lparr>nh_hintText = ''Unlike maximum subarray sum, a negative number can flip the sign. A very negative product times a negative number becomes very positive.'', nh_orderIndex = 0\<rparr>,
        \<lparr>nh_hintText = ''Track both the current maximum product and current minimum product ending at each position. At each step, the new max is max(num, curMax*num, curMin*num) and similarly for min.'', nh_orderIndex = 1\<rparr>]\<rparr>"

definition word_break_fixture :: fixture where
  "word_break_fixture =
     \<lparr>fx_problem = \<lparr>np_slug = ''word-break'', np_title = ''Word Break'', np_difficulty = ''medium'',
        np_category = ''1-D Dynamic Programming'',
        np_description = ''Given a string `s` and a dictionary of strings `wordDict`, return `true` if `s` can be segmented into a space-separated sequence of one or more dictionary words.\<newline>\<newline>Note that the same word in the dictionary may be reused multiple times in the segmentation.'',
        np_constraints = [''1 <= s.length <= 300'', ''1 <= wordDict.length <= 1000'', ''1 <= wordDict[i].length <= 20'', ''s and wordDict[i] consist of only lowercase English letters.'', ''All the strings of wordDict are unique.''],
        np_solution = Some ''Use DP where dp[i] indicates whether s[0..i-1] can be segmented. For each position i, check all positions j < i: if dp[j] is true and s[j..i] is in the dictionary, set dp[i] = true.'',
        np_timeLimitMs = 5000, np_source = ''curated'', np_sourceUrl = None\<rparr>,
      fx_testCases = [
          fx_case [(''s'', JStr ''leetcode''), (''wordDict'', jstrs [''leet'', ''code''])] (JBool True) True 0,
          fx_case [(''s'', JStr ''applepenapple''), (''wordDict'', jstrs [''apple'', ''pen''])] (JBool True) True 1,
          fx_case [(''s'', JStr ''catsandog''), (''wordDict'', jstrs [''cats'', ''dog'', ''sand'', ''and'',
            ''cat''])] (JBool False) True 2,
          fx_case [(''s'', JStr ''a''), (''wordDict'', jstrs [''a''])] (JBool True) False 3,
          fx_case [(''s'', JStr ''ab''), (''wordDict'', jstrs [''a''])] (JBool False) False 4,
          fx_case [(''s'', JStr ''cars''), (''wordDict'', jstrs [''car'', ''ca'', ''rs''])] (JBool True) False 5,
          fx_case [(''s'', JStr ''aaaaaaa''), (''wordDict'', jstrs [''aaa'', ''aaaa''])] (JBool True) False 6,
          fx_case [(''s'', JStr ''goalspecial''), (''wordDict'', jstrs [''go'', ''goal'', ''goals'',
            ''special''])] (JBool True) False 7],
      fx_boilerplate = \<lparr>nb_language = ''python'', nb_template = ''class Solution:\<newline>    def wordBreak(self, s: str, wordDict: List[str]) -> bool:\<newline>        pass'',
        nb_methodName = ''wordBreak'', nb_parameterNames = [''s'', ''wordDict'']\<rparr>,
      fx_hints = [
        \<lparr>nh_hintText = ''Think about the problem in terms of prefixes. If you know that s[0..j] can be segmented, then you just need to check if s[j..i] is a dictionary word.'', nh_orderIndex = 0\<rparr>,
        \<lparr>nh_hintText = ''Use a boolean DP array where dp[i] means s[0..i-1] can be segmented. For each i, check all j < i: if dp[j] is true and s[j:i] is in the word set, set dp[i] = true.'', nh_orderIndex = 1\<rparr>]\<rparr>"

definition longest_increasing_subsequence_fixture :: fixture where
  "longest_increasing_subsequence_fixture =
     \<lparr>fx_problem = \<lparr>np_slug = ''longest-increasing-subsequence'', np_title = ''Longest Increasing Subsequence'', np_difficulty = ''medium'',
        np_category = ''1-D Dynamic Programming'',
        np_description = ''Given an integer array `nums`, return the length of the longest strictly increasing subsequence.'',
        np_constraints = [''1 <= nums.length <= 2500'', ''-10^4 <= nums[i] <= 10^4''],
        np_solution = Some ''Use DP where dp[i] is the length of the longest increasing subsequence ending at index i. For each i, check all j < i: if nums[j] < nums[i], dp[i] = max(dp[i], dp[j] + 1). For O(n log n), use patience sorting with binary search.'',
        np_timeLimitMs = 5000, np_source = ''curated'', np_sourceUrl = None\<rparr>,
      fx_testCases = [
          fx_case [(''nums'', jints [10, 9, 2, 5, 3, 7, 101, 18])] (jint 4) True 0,
          fx_case [(''nums'', jints [0, 1, 0, 3, 2, 3])] (jint 4) True 1,
          fx_case [(''nums'', jints [7, 7, 7, 7, 7, 7, 7])] (jint 1) True 2,
          fx_case [(''nums'', jints [1])] (jint 1) False 3,
          fx_case [(''nums'', jints [1, 2, 3, 4, 5])] (jint 5) False 4,
          fx_case [(''nums'', jints [5, 4, 3, 2, 1])] (jint 1) False 5,
          fx_case [(''nums'', jints [3, 1, 4, 1, 5, 9, 2, 6])] (jint 4) False 6,
          fx_case [(''nums'', jints [- 1, 0, 1, - 1, 2])] (jint 4) False 7],
      fx_boilerplate = \<lparr>nb_language = ''python'', nb_template = ''class Solution:\<newline>    def lengthOfLIS(self, nums: List[int]) -> int:\<newline>        pass'',
        nb_methodName = ''lengthOfLIS'', nb_parameterNames = [''nums'']\<rparr>,
      fx_hints = [
        \<lparr>nh_hintText = ''For each element, consider all previous elements. If a previous element is smaller, the current element can extend that subsequence.'', nh_orderIndex = 0\<rparr>,
        \<lparr>nh_hintText = ''dp[i] = length of LIS ending at index i. For each i, dp[i] = max(dp[j] + 1) for all j < i where nums[j] < nums[i]. The answer is max(dp).'', nh_orderIndex = 1\<rparr>]\<rparr>"

definition partition_equal_subset_sum_fixture :: fixture where
  "partition_equal_subset_sum_fixture =
     \<lparr>fx_problem = \<lparr>np_slug = ''partition-equal-subset-sum'', np_title = ''Partition Equal Subset Sum'', np_difficulty = ''medium'',
        np_category = ''1-D Dynamic Programming'',
        np_description = ''Given an integer array `nums`, return `true` if you can partition the array into two subsets such that the sum of the elements in both subsets is equal or `false` otherwise.'',
        np_constraints = [''1 <= nums.length <= 200'', ''1 <= nums[i] <= 100''],
        np_solution = Some ''If the total sum is odd, return false. Otherwise, find if a subset sums to total/2. Use a boolean DP set: for each number, update which sums are reachable. This reduces to the 0/1 knapsack problem.'',
        np_timeLimitMs = 5000, np_source = ''curated'', np_sourceUrl = None\<rparr>,
      fx_testCases = [
          fx_case [(''nums'', jints [1, 5, 11, 5])] (JBool True) True 0,
          fx_case [(''nums'', jints [1, 2, 3, 5])] (JBool False) True 1,
          fx_case [(''nums'', jints [1, 1])] (JBool True) True 2,
          fx_case [(''nums'', jints [1])] (JBool False) False 3,
          fx_case [(''nums'', jints [1, 2, 3])] (JBool True) False 4,
          fx_case [(''nums'', jints [2, 2, 2, 2, 2])] (JBool False) False 5,
          fx_case [(''nums'', jints [1, 1, 1, 1, 1, 1, 1, 1, 1, 1, 1, 1, 1, 1, 1, 1, 1, 1, 1,
            1])] (JBool True) False 6,
          fx_case [(''nums'', jints [100, 100, 100, 100, 100, 100, 100, 100])] (JBool True) False 7],
      fx_boilerplate = \<lparr>nb_language = ''python'', nb_template = ''class Solution:\<newline>    def canPartition(self, nums: List[int]) -> bool:\<newline>        pass'',
        nb_methodName = ''canPartition'', nb_parameterNames = [''nums'']\<rparr>,
      fx_hints = [
        \<lparr>nh_hintText = ''If the total sum is odd, it's impossible to split into two equal halves. If even, you need to find a subset that sums to total/2.'', nh_orderIndex = 0\<rparr>,
        \<lparr>nh_hintText = ''This is the subset sum problem, a variant of 0/1 knapsack. Use a DP set that tracks all achievable sums. For each number, update the set by adding the number to each existing sum (iterate in reverse to avoid reuse).'', nh_orderIndex = 1\<rparr>]\<rparr>"

definition dp1dProblems :: "fixture list" where
  "dp1dProblems =
     [climbing_stairs_fixture,
      min_cost_climbing_stairs_fixture,
      house_robber_fixture,
      house_robber_ii_fixture,
      longest_palindromic_substring_fixture,
      palindromic_substrings_fixture,
      decode_ways_fixture,
      coin_change_fixture,
      maximum_product_subarray_fixture,
      word_break_fixture,
      longest_increasing_subsequence_fixture,
      partition_equal_subset_sum_fixture]"

lemma dp1dProblems_facts:
  "map seed_facts dp1dProblems =
     [(''climbing-stairs'', True, True, True),
      (''min-cost-climbing-stairs'', True, True, True),
      (''house-robber'', True, True, True),
      (''house-robber-ii'', True, True, True),
      (''longest-palindromic-substring'', True, True, True),
      (''palindromic-substrings'', True, True, True),
      (''decode-ways'', True, True, True),
      (''coin-change'', True, True, True),
      (''maximum-product-subarray'', True, True, True),
      (''word-break'', True, True, True),
      (''longest-increasing-subsequence'', True, True, True),
      (''partition-equal-subset-sum'', True, True, True)]"
  by (simp add: dp1dProblems_def seed_evaluation cong: seed_congs add:
      climbing_stairs_fixture_def
      min_cost_climbing_stairs_fixture_def
      house_robber_fixture_def
      house_robber_ii_fixture_def
      longest_palindromic_substring_fixture_def
      palindromic_substrings_fixture_def
      decode_ways_fixture_def
      coin_change_fixture_def
      maximum_product_subarray_fixture_def
      word_break_fixture_def
      longest_increasing_subsequence_fixture_def
      partition_equal_subset_sum_fixture_def)


section \<open>dp 2d\<close>

definition unique_paths_fixture :: fixture where
  "unique_paths_fixture =
     \<lparr>fx_problem = \<lparr>np_slug = ''unique-paths'', np_title = ''Unique Paths'', np_difficulty = ''medium'',
        np_category = ''2-D Dynamic Programming'',
        np_description = ''There is a robot on an `m x n` grid. The robot is initially located at the top-left corner (i.e., `grid[0][0]`). The robot tries to move to the bottom-right corner (i.e., `grid[m - 1][n - 1]`). The robot can only move either down or right at any point in time.\<newline>\<newline>Given the two integers `m` and `n`, return the number of possible unique paths that the robot can take to reach the bottom-right corner.'',
        np_constraints = [''1 <= m, n <= 100''],
        np_solution = Some ''Use a 2D DP table where dp[i][j] represents the number of ways to reach cell (i, j). Each cell is the sum of the cell above and to the left. The first row and first column are all 1s since there is only one way to reach them.'',
        np_timeLimitMs = 5000, np_source = ''curated'', np_sourceUrl = None\<rparr>,
      fx_testCases = [
          fx_case [(''m'', jint 3), (''n'', jint 7)] (jint 28) True 0,
          fx_case [(''m'', jint 3), (''n'', jint 2)] (jint 3) True 1,
          fx_case [(''m'', jint 3), (''n'', jint 3)] (jint 6) True 2,
          fx_case [(''m'', jint 1), (''n'', jint 1)] (jint 1) False 3,
          fx_case [(''m'', jint 1), (''n'', jint 5)] (jint 1) False 4,
          fx_case [(''m'', jint 5), (''n'', jint 1)] (jint 1) False 5,
          fx_case [(''m'', jint 7), (''n'', jint 3)] (jint 28) False 6,
          fx_case [(''m'', jint 10), (''n'', jint 10)] (jint 48620) False 7],
      fx_boilerplate = \<lparr>nb_language = ''python'', nb_template = ''class Solution:\<newline>    def uniquePaths(self, m: int, n: int) -> int:\<newline>        pass'',
        nb_methodName = ''uniquePaths'', nb_parameterNames = [''m'', ''n'']\<rparr>,
      fx_hints = [
        \<lparr>nh_hintText = ''Think about how many ways you can arrive at any given cell. You can only come from directly above or directly to the left.'', nh_orderIndex = 0\<rparr>,
        \<lparr>nh_hintText = ''Build a 2D DP table where dp[i][j] = dp[i-1][j] + dp[i][j-1]. Initialize the first row and first column to 1.'', nh_orderIndex = 1\<rparr>]\<rparr>"

definition longest_common_subsequence_fixture :: fixture where
  "longest_common_subsequence_fixture =
     \<lparr>fx_problem = \<lparr>np_slug = ''longest-common-subsequence'', np_title = ''Longest Common Subsequence'', np_difficulty = ''medium'',
        np_category = ''2-D Dynamic Programming'',
        np_description = ''Given two strings `text1` and `text2`, return the length of their longest common subsequence. If there is no common subsequence, return `0`.\<newline>\<newline>A subsequence of a string is a new string generated from the original string with some characters (can be none) deleted without changing the relative order of the remaining characters.\<newline>\<newline>For example, `\"ace\"` is a subsequence of `\"abcde\"`.\<newline>\<newline>A common subsequence of two strings is a subsequence that is common to both strings.'',
        np_constraints = [''1 <= text1.length, text2.length <= 1000'', ''text1 and text2 consist of only lowercase English characters.''],
        np_solution = Some ''Use a 2D DP table where dp[i][j] is the LCS length of text1[0..i-1] and text2[0..j-1]. If characters match, dp[i][j] = dp[i-1][j-1] + 1. Otherwise, dp[i][j] = max(dp[i-1][j], dp[i][j-1]).'',
        np_timeLimitMs = 5000, np_source = ''curated'', np_sourceUrl = None\<rparr>,
      fx_testCases = [
          fx_case [(''text1'', JStr ''abcde''), (''text2'', JStr ''ace'')] (jint 3) True 0,
          fx_case [(''text1'', JStr ''abc''), (''text2'', JStr ''abc'')] (jint 3) True 1,
          fx_case [(''text1'', JStr ''abc''), (''text2'', JStr ''def'')] (jint 0) True 2,
          fx_case [(''text1'', JStr ''a''), (''text2'', JStr ''a'')] (jint 1) False 3,
          fx_case [(''text1'', JStr ''a''), (''text2'', JStr ''b'')] (jint 0) False 4,
          fx_case [(''text1'', JStr ''oxcpqrsvwf''), (''text2'', JStr ''shmtulqrypy'')] (jint 2) False 5,
          fx_case [(''text1'', JStr ''bsbininm''), (''text2'', JStr ''jmjkbkjkv'')] (jint 1) False 6,
          fx_case [(''text1'', JStr ''abcba''), (''text2'', JStr ''abcbcba'')] (jint 5) False 7],
      fx_boilerplate = \<lparr>nb_language = ''python'', nb_template = ''class Solution:\<newline>    def longestCommonSubsequence(self, text1: str, text2: str) -> int:\<newline>        pass'',
        nb_methodName = ''longestCommonSubsequence'', nb_parameterNames = [''text1'', ''text2'']\<rparr>,
      fx_hints = [
        \<lparr>nh_hintText = ''Consider building the solution character by character. If the current characters of both strings match, what does that tell you about the LCS?'', nh_orderIndex = 0\<rparr>,
        \<lparr>nh_hintText = ''Use a 2D DP table. When text1[i] == text2[j], dp[i][j] = dp[i-1][j-1] + 1. Otherwise take the max of dp[i-1][j] and dp[i][j-1].'', nh_orderIndex = 1\<rparr>]\<rparr>"

definition best_time_to_buy_and_sell_stock_with_cooldown_fixture :: fixture where
  "best_time_to_buy_and_sell_stock_with_cooldown_fixture =
     \<lparr>fx_problem = \<lparr>np_slug = ''best-time-to-buy-and-sell-stock-with-cooldown'', np_title = ''Best Time to Buy and Sell Stock with Cooldown'', np_difficulty = ''medium'',
        np_category = ''2-D Dynamic Programming'',
        np_description = ''You are given an array `prices` where `prices[i]` is the price of a given stock on the `i`th day.\<newline>\<newline>Find the maximum profit you can achieve. You may complete as many transactions as you like (i.e., buy one and sell one share of the stock multiple times) with the following restrictions:\<newline>\<newline>After you sell your stock, you cannot buy stock on the next day (i.e., cooldown one day).\<newline>\<newline>Note: You may not engage in multiple transactions simultaneously (i.e., you must sell the stock before you buy again).'',
        np_constraints = [''1 <= prices.length <= 5000'', ''0 <= prices[i] <= 1000''],
        np_solution = Some ''Use state machine DP with three states: holding stock, not holding (just sold), and cooldown. Transition between states at each day and track the maximum profit achievable in each state.'',
        np_timeLimitMs = 5000, np_source = ''curated'', np_sourceUrl = None\<rparr>,
      fx_testCases = [
          fx_case [(''prices'', jints [1, 2, 3, 0, 2])] (jint 3) True 0,
          fx_case [(''prices'', jints [1])] (jint 0) True 1,
          fx_case [(''prices'', jints [1, 2, 4])] (jint 3) True 2,
          fx_case [(''prices'', jints [2, 1])] (jint 0) False 3,
          fx_case [(''prices'', jints [1, 2])] (jint 1) False 4,
          fx_case [(''prices'', jints [6, 1, 3, 2, 4, 7])] (jint 6) False 5,
          fx_case [(''prices'', jints [1, 4, 2])] (jint 3) False 6,
          fx_case [(''prices'', jints [1, 2, 3, 4, 5])] (jint 4) False 7],
      fx_boilerplate = \<lparr>nb_language = ''python'', nb_template = ''class Solution:\<newline>    def maxProfit(self, prices: List[int]) -> int:\<newline>        pass'',
        nb_methodName = ''maxProfit'', nb_parameterNames = [''prices'']\<rparr>,
      fx_hints = [
        \<lparr>nh_hintText = ''Think about the different states you can be in on each day: holding a stock, not holding (free to buy), or in a cooldown period after selling.'', nh_orderIndex = 0\<rparr>,
        \<lparr>nh_hintText = ''Model this as a state machine with transitions. At each day, update: hold = max(hold, cooldown - price), sold = hold + price, cooldown = max(cooldown, sold).'', nh_orderIndex = 1\<rparr>]\<rparr>"

definition coin_change_ii_fixture :: fixture where
  "coin_change_ii_fixture =
     \<lparr>fx_problem = \<lparr>np_slug = ''coin-change-ii'', np_title = ''Coin Change II'', np_difficulty = ''medium'',
        np_category = ''2-D Dynamic Programming'',
        np_description = ''You are given an integer array `coins` representing coins of different denominations and an integer `amount` representing a total amount of money.\<newline>\<newline>Return the number of combinations that make up that amount. If that amount of money cannot be made up by any combination of the coins, return `0`.\<newline>\<newline>You may assume that you have an infinite number of each kind of coin.\<newline>\<newline>The answer is guaranteed to fit into a signed 32-bit integer.'',
        np_constraints = [''1 <= coins.length <= 300'', ''1 <= coins[i] <= 5000'', ''All the values of coins are unique.'', ''0 <= amount <= 5000''],
        np_solution = Some ''Use DP where dp[j] represents the number of combinations to make amount j. For each coin, iterate through amounts and add dp[j - coin] to dp[j]. Processing coins in the outer loop avoids counting permutations as separate combinations.'',
        np_timeLimitMs = 5000, np_source = ''curated'', np_sourceUrl = None\<rparr>,
      fx_testCases = [
          fx_case [(''amount'', jint 5), (''coins'', jints [1, 2, 5])] (jint 4) True 0,
          fx_case [(''amount'', jint 3), (''coins'', jints [2])] (jint 0) True 1,
          fx_case [(''amount'', jint 10), (''coins'', jints [10])] (jint 1) True 2,
          fx_case [(''amount'', jint 0), (''coins'', jints [1, 2, 5])] (jint 1) False 3,
          fx_case [(''amount'', jint 1), (''coins'', jints [1])] (jint 1) False 4,
          fx_case [(''amount'', jint 5), (''coins'', jints [1])] (jint 1) False 5,
          fx_case [(''amount'', jint 5), (''coins'', jints [1, 2])] (jint 3) False 6,
          fx_case [(''amount'', jint 100), (''coins'', jints [1, 5, 10, 25])] (jint 242) False 7],
      fx_boilerplate = \<lparr>nb_language = ''python'', nb_template = ''class Solution:\<newline>    def change(self, amount: int, coins: List[int]) -> int:\<newline>        pass'',
        nb_methodName = ''change'', nb_parameterNames = [''amount'', ''coins'']\<rparr>,
      fx_hints = [
        \<lparr>nh_hintText = ''This is similar to the unbounded knapsack problem. Think about building up the amount using one coin type at a time.'', nh_orderIndex = 0\<rparr>,
        \<lparr>nh_hintText = ''Use a 1D DP array where dp[j] = number of ways to make amount j. For each coin, update dp[j] += dp[j - coin] for j from coin to amount.'', nh_orderIndex = 1\<rparr>]\<rparr>"

definition target_sum_fixture :: fixture where
  "target_sum_fixture =
     \<lparr>fx_problem = \<lparr>np_slug = ''target-sum'', np_title = ''Target Sum'', np_difficulty = ''medium'',
        np_category = ''2-D Dynamic Programming'',
        np_description = ''You are given an integer array `nums` and an integer `target`.\<newline>\<newline>You want to build an expression out of nums by adding one of the symbols `'+'` and `'-'` before each integer in nums and then concatenate all the integers.\<newline>\<newline>For example, if `nums = [2, 1]`, you can add a `'+'` before `2` and a `'-'` before `1` and concatenate them to build the expression `\"+2-1\"`.\<newline>\<newline>Return the number of different expressions that you can build, which evaluates to `target`.'',
        np_constraints = [''1 <= nums.length <= 20'', ''0 <= nums[i] <= 1000'', ''0 <= sum(nums[i]) <= 1000'', ''-1000 <= target <= 1000''],
        np_solution = Some ''Convert to a subset sum problem: find subsets P and N where P - N = target and P + N = totalSum. So P = (target + totalSum) / 2. Use DP to count subsets that sum to P.'',
        np_timeLimitMs = 5000, np_source = ''curated'', np_sourceUrl = None\<rparr>,
      fx_testCases = [
          fx_case [(''nums'', jints [1, 1, 1, 1, 1]), (''target'', jint 3)] (jint 5) True 0,
          fx_case [(''nums'', jints [1]), (''target'', jint 1)] (jint 1) True 1,
          fx_case [(''nums'', jints [1, 0]), (''target'', jint 1)] (jint 2) True 2,
          fx_case [(''nums'', jints [1, 2, 1]), (''target'', jint 0)] (jint 2) False 3,
          fx_case [(''nums'', jints [0, 0, 0, 0, 0]), (''target'', jint 0)] (jint 32) False 4,
          fx_case [(''nums'', jints [1, 1, 1]), (''target'', jint 1)] (jint 3) False 5,
          fx_case [(''nums'', jints [2, 3, 5]), (''target'', jint 0)] (jint 0) False 6,
          fx_case [(''nums'', jints [1, 2, 3]), (''target'', jint 6)] (jint 1) False 7],
      fx_boilerplate = \<lparr>nb_language = ''python'', nb_template = ''class Solution:\<newline>    def findTargetSumWays(self, nums: List[int], target: int) -> int:\<newline>        pass'',
        nb_methodName = ''findTargetSumWays'', nb_parameterNames = [''nums'', ''target'']\<rparr>,
      fx_hints = [
        \<lparr>nh_hintText = ''Think about splitting the numbers into two groups: those with '+' and those with '-'. Can you reformulate this as a subset sum problem?'', nh_orderIndex = 0\<rparr>,
        \<lparr>nh_hintText = ''If P is the sum of positive-signed numbers and N is the sum of negative-signed numbers, then P - N = target and P + N = totalSum. So P = (target + totalSum) / 2. Count subsets summing to P using DP.'', nh_orderIndex = 1\<rparr>]\<rparr>"

definition interleaving_string_fixture :: fixture where
  "interleaving_string_fixture =
     \<lparr>fx_problem = \<lparr>np_slug = ''interleaving-string'', np_title = ''Interleaving String'', np_difficulty = ''medium'',
        np_category = ''2-D Dynamic Programming'',
        np_description = ''Given strings `s1`, `s2`, and `s3`, find whether `s3` is formed by an interleaving of `s1` and `s2`.\<newline>\<newline>An interleaving of two strings `s` and `t` is a configuration where `s` and `t` are divided into `n` and `m` substrings respectively, such that:\<newline>\<newline>- `s = s1 + s2 + ... + sn`\<newline>- `t = t1 + t2 + ... + tm`\<newline>- `|n - m| <= 1`\<newline>- The interleaving is `s1 + t1 + s2 + t2 + s3 + t3 + ...` or `t1 + s1 + t2 + s2 + t3 + s3 + ...`\<newline>\<newline>Note: `a + b` is the concatenation of strings `a` and `b`.'',
        np_constraints = [''0 <= s1.length, s2.length <= 100'', ''0 <= s3.length <= 200'', ''s1, s2, and s3 consist of lowercase English letters.''],
        np_solution = Some ''Use 2D DP where dp[i][j] indicates whether s3[0..i+j-1] can be formed by interleaving s1[0..i-1] and s2[0..j-1]. Check if the current character of s3 matches s1[i-1] or s2[j-1] and the previous state was valid.'',
        np_timeLimitMs = 5000, np_source = ''curated'', np_sourceUrl = None\<rparr>,
      fx_testCases = [
          fx_case [(''s1'', JStr ''aabcc''), (''s2'', JStr ''dbbca''), (''s3'',
            JStr ''aadbbcbcac'')] (JBool True) True 0,
          fx_case [(''s1'', JStr ''aabcc''), (''s2'', JStr ''dbbca''), (''s3'',
            JStr ''aadbbbaccc'')] (JBool False) True 1,
          fx_case [(''s1'', JStr []), (''s2'', JStr []), (''s3'', JStr [])] (JBool True) True 2,
          fx_case [(''s1'', JStr ''a''), (''s2'', JStr []), (''s3'', JStr ''a'')] (JBool True) False 3,
          fx_case [(''s1'', JStr []), (''s2'', JStr ''b''), (''s3'', JStr ''b'')] (JBool True) False 4,
          fx_case [(''s1'', JStr ''a''), (''s2'', JStr ''b''), (''s3'', JStr ''ab'')] (JBool True) False 5,
          fx_case [(''s1'', JStr ''a''), (''s2'', JStr ''b''), (''s3'', JStr ''c'')] (JBool False) False 6,
          fx_case [(''s1'', JStr ''ab''), (''s2'', JStr ''bc''), (''s3'', JStr ''abbc'')] (JBool True) False 7],
      fx_boilerplate = \<lparr>nb_language = ''python'', nb_template = ''class Solution:\<newline>    def isInterleave(self, s1: str, s2: str, s3: str) -> bool:\<newline>        pass'',
        nb_methodName = ''isInterleave'', nb_parameterNames = [''s1'', ''s2'', ''s3'']\<rparr>,
      fx_hints = [
        \<lparr>nh_hintText = ''First check if the lengths add up: len(s1) + len(s2) must equal len(s3). If not, it is impossible.'', nh_orderIndex = 0\<rparr>,
        \<lparr>nh_hintText = ''Use a 2D DP table where dp[i][j] = true means s3[0..i+j-1] is a valid interleaving of s1[0..i-1] and s2[0..j-1]. Transition by matching the next character of s3 with either s1[i] or s2[j].'', nh_orderIndex = 1\<rparr>]\<rparr>"

definition longest_increasing_path_in_a_matrix_fixture :: fixture where
  "longest_increasing_path_in_a_matrix_fixture =
     \<lparr>fx_problem = \<lparr>np_slug = ''longest-increasing-path-in-a-matrix'', np_title = ''Longest Increasing Path in a Matrix'', np_difficulty = ''hard'',
        np_category = ''2-D Dynamic Programming'',
        np_description = ''Given an `m x n` integers `matrix`, return the length of the longest increasing path in `matrix`.\<newline>\<newline>From each cell, you can either move in four directions: left, right, up, or down. You may not move diagonally or move outside of the boundary (i.e., wrap-around is not allowed).'',
        np_constraints = [''m == matrix.length'', ''n == matrix[i].length'', ''1 <= m, n <= 200'', ''0 <= matrix[i][j] <= 2^31 - 1''],
        np_solution = Some ''Use DFS with memoization. For each cell, recursively explore all four neighbors that have a strictly larger value. Cache results in a memo table to avoid recomputation. The answer is the maximum value in the memo table.'',
        np_timeLimitMs = 5000, np_source = ''curated'', np_sourceUrl = None\<rparr>,
      fx_testCases = [
          fx_case [(''matrix'', JArr [jints [9, 9, 4], jints [6, 6, 8], jints [2, 1, 1]])] (jint 4) True 0,
          fx_case [(''matrix'', JArr [jints [3, 4, 5], jints [3, 2, 6], jints [2, 2, 1]])] (jint 4) True 1,
          fx_case [(''matrix'', JArr [jints [1]])] (jint 1) True 2,
          fx_case [(''matrix'', JArr [jints [1, 2]])] (jint 2) False 3,
          fx_case [(''matrix'', JArr [jints [1], jints [2]])] (jint 2) False 4,
          fx_case [(''matrix'', JArr [jints [7, 8, 9], jints [9, 7, 6], jints [7, 2, 3]])] (jint 6) False 5,
          fx_case [(''matrix'', JArr [jints [1, 2, 3], jints [6, 5, 4], jints [7, 8, 9]])] (jint 9) False 6,
          fx_case [(''matrix'', JArr [jints [5, 5, 5], jints [5, 5, 5], jints [5, 5, 5]])] (jint 1) False 7],
      fx_boilerplate = \<lparr>nb_language = ''python'', nb_template = ''class Solution:\<newline>    def longestIncreasingPath(self, matrix: List[List[int]]) -> int:\<newline>        pass'',
        nb_methodName = ''longestIncreasingPath'', nb_parameterNames = [''matrix'']\<rparr>,
      fx_hints = [
        \<lparr>nh_hintText = ''Consider starting a DFS from every cell. The longest increasing path from a cell only depends on its neighbors with strictly larger values.'', nh_orderIndex = 0\<rparr>,
        \<lparr>nh_hintText = ''Since the path is strictly increasing, there are no cycles. This means memoization will work -- cache the result for each cell.'', nh_orderIndex = 1\<rparr>,
        \<lparr>nh_hintText = ''Use a memo table the same size as the matrix. For each cell, recursively compute the longest path by checking all four directions. The answer is the maximum value across all cells in the memo table.'', nh_orderIndex = 2\<rparr>]\<rparr>"

definition distinct_subsequences_fixture :: fixture where
  "distinct_subsequences_fixture =
     \<lparr>fx_problem = \<lparr>np_slug = ''distinct-subsequences'', np_title = ''Distinct Subsequences'', np_difficulty = ''hard'',
        np_category = ''2-D Dynamic Programming'',
        np_description = ''Given two strings `s` and `t`, return the number of distinct subsequences of `s` which equals `t`.\<newline>\<newline>The test cases are generated so that the answer fits on a 32-bit signed integer.'',
        np_constraints = [''1 <= s.length, t.length <= 1000'', ''s and t consist of English letters.''],
        np_solution = Some ''Use 2D DP where dp[i][j] is the number of ways to form t[0..j-1] from s[0..i-1]. If s[i-1] == t[j-1], dp[i][j] = dp[i-1][j-1] + dp[i-1][j] (use or skip s[i-1]). Otherwise dp[i][j] = dp[i-1][j] (skip s[i-1]).'',
        np_timeLimitMs = 5000, np_source = ''curated'', np_sourceUrl = None\<rparr>,
      fx_testCases = [
          fx_case [(''s'', JStr ''rabbbit''), (''t'', JStr ''rabbit'')] (jint 3) True 0,
          fx_case [(''s'', JStr ''babgbag''), (''t'', JStr ''bag'')] (jint 5) True 1,
          fx_case [(''s'', JStr ''a''), (''t'', JStr ''a'')] (jint 1) True 2,
          fx_case [(''s'', JStr ''a''), (''t'', JStr ''b'')] (jint 0) False 3,
          fx_case [(''s'', JStr ''aaa''), (''t'', JStr ''a'')] (jint 3) False 4,
          fx_case [(''s'', JStr ''aaa''), (''t'', JStr ''aa'')] (jint 3) False 5,
          fx_case [(''s'', JStr ''abc''), (''t'', JStr ''abc'')] (jint 1) False 6,
          fx_case [(''s'', JStr ''aabb''), (''t'', JStr ''ab'')] (jint 4) False 7],
      fx_boilerplate = \<lparr>nb_language = ''python'', nb_template = ''class Solution:\<newline>    def numDistinct(self, s: str, t: str) -> int:\<newline>        pass'',
        nb_methodName = ''numDistinct'', nb_parameterNames = [''s'', ''t'']\<rparr>,
      fx_hints = [
        \<lparr>nh_hintText = ''Think about the decision at each character of s: either include it in the subsequence (if it matches the current character of t) or skip it.'', nh_orderIndex = 0\<rparr>,
        \<lparr>nh_hintText = ''Use a 2D DP table where dp[i][j] counts the number of ways to form t[0..j-1] using s[0..i-1]. Base case: dp[i][0] = 1 for all i (empty t can always be formed).'', nh_orderIndex = 1\<rparr>,
        \<lparr>nh_hintText = ''Transition: if s[i-1] == t[j-1], dp[i][j] = dp[i-1][j-1] + dp[i-1][j]. Otherwise dp[i][j] = dp[i-1][j]. The answer is dp[len(s)][len(t)].'', nh_orderIndex = 2\<rparr>]\<rparr>"

definition edit_distance_fixture :: fixture where
  "edit_distance_fixture =
     \<lparr>fx_problem = \<lparr>np_slug = ''edit-distance'', np_title = ''Edit Distance'', np_difficulty = ''hard'',
        np_category = ''2-D Dynamic Programming'',
        np_description = ''Given two strings `word1` and `word2`, return the minimum number of operations required to convert `word1` to `word2`.\<newline>\<newline>You have the following three operations permitted on a word:\<newline>\<newline>- Insert a character\<newline>- Delete a character\<newline>- Replace a character'',
        np_constraints = [''0 <= word1.length, word2.length <= 500'', ''word1 and word2 consist of lowercase English letters.''],
        np_solution = Some ''Use 2D DP where dp[i][j] is the minimum edit distance between word1[0..i-1] and word2[0..j-1]. If characters match, dp[i][j] = dp[i-1][j-1]. Otherwise, take 1 + min of insert (dp[i][j-1]), delete (dp[i-1][j]), or replace (dp[i-1][j-1]).'',
        np_timeLimitMs = 5000, np_source = ''curated'', np_sourceUrl = None\<rparr>,
      fx_testCases = [
          fx_case [(''word1'', JStr ''horse''), (''word2'', JStr ''ros'')] (jint 3) True 0,
          fx_case [(''word1'', JStr ''intention''), (''word2'', JStr ''execution'')] (jint 5) True 1,
          fx_case [(''word1'', JStr []), (''word2'', JStr [])] (jint 0) True 2,
          fx_case [(''word1'', JStr ''a''), (''word2'', JStr ''a'')] (jint 0) False 3,
          fx_case [(''word1'', JStr []), (''word2'', JStr ''abc'')] (jint 3) False 4,
          fx_case [(''word1'', JStr ''abc''), (''word2'', JStr [])] (jint 3) False 5,
          fx_case [(''word1'', JStr ''abc''), (''word2'', JStr ''abc'')] (jint 0) False 6,
          fx_case [(''word1'', JStr ''kitten''), (''word2'', JStr ''sitting'')] (jint 3) False 7],
      fx_boilerplate = \<lparr>nb_language = ''python'', nb_template = ''class Solution:\<newline>    def minDistance(self, word1: str, word2: str) -> int:\<newline>        pass'',
        nb_methodName = ''minDistance'', nb_parameterNames = [''word1'', ''word2'']\<rparr>,
      fx_hints = [
        \<lparr>nh_hintText = ''Think about the last characters of word1 and word2. If they match, no operation is needed for them. If they differ, consider all three operations.'', nh_orderIndex = 0\<rparr>,
        \<lparr>nh_hintText = ''Build a 2D DP table where dp[i][j] represents the edit distance for the first i characters of word1 and first j characters of word2. Base cases: dp[i][0] = i, dp[0][j] = j.'', nh_orderIndex = 1\<rparr>,
        \<lparr>nh_hintText = ''Transition: if word1[i-1] == word2[j-1], dp[i][j] = dp[i-1][j-1]. Otherwise dp[i][j] = 1 + min(dp[i-1][j], dp[i][j-1], dp[i-1][j-1]).'', nh_orderIndex = 2\<rparr>]\<rparr>"

definition burst_balloons_fixture :: fixture where
  "burst_balloons_fixture =
     \<lparr>fx_problem = \<lparr>np_slug = ''burst-balloons'', np_title = ''Burst Balloons'', np_difficulty = ''hard'',
        np_category = ''2-D Dynamic Programming'',
        np_description = ''You are given `n` balloons, indexed from `0` to `n - 1`. Each balloon is painted with a number on it represented by an array `nums`. You are asked to burst all the balloons.\<newline>\<newline>If you burst the `i`th balloon, you will get `nums[i - 1] * nums[i] * nums[i + 1]` coins. If `i - 1` or `i + 1` goes out of bounds of the array, then treat it as if there is a balloon with a `1` painted on it.\<newline>\<newline>Return the maximum coins you can collect by bursting the balloons wisely.'',
        np_constraints = [''n == nums.length'', ''1 <= n <= 300'', ''0 <= nums[i] <= 100''],
        np_solution = Some ''Use interval DP. Think of the last balloon to burst in each subarray. For interval [left, right], try each balloon k as the last to burst, gaining nums[left-1] * nums[k] * nums[right+1] plus the optimal results from the two sub-intervals.'',
        np_timeLimitMs = 5000, np_source = ''curated'', np_sourceUrl = None\<rparr>,
      fx_testCases = [
          fx_case [(''nums'', jints [3, 1, 5, 8])] (jint 167) True 0,
          fx_case [(''nums'', jints [1, 5])] (jint 10) True 1,
          fx_case [(''nums'', jints [1])] (jint 1) True 2,
          fx_case [(''nums'', jints [5])] (jint 5) False 3,
          fx_case [(''nums'', jints [1, 1, 1])] (jint 3) False 4,
          fx_case [(''nums'', jints [9, 76, 64, 21])] (jint 116718) False 5,
          fx_case [(''nums'', jints [2, 3])] (jint 12) False 6,
          fx_case [(''nums'', jints [1, 2, 3])] (jint 12) False 7],
      fx_boilerplate = \<lparr>nb_language = ''python'', nb_template = ''class Solution:\<newline>    def maxCoins(self, nums: List[int]) -> int:\<newline>        pass'',
        nb_methodName = ''maxCoins'', nb_parameterNames = [''nums'']\<rparr>,
      fx_hints = [
        \<lparr>nh_hintText = ''Instead of thinking about which balloon to burst first, think about which balloon to burst LAST in each subarray.'', nh_orderIndex = 0\<rparr>,
        \<lparr>nh_hintText = ''Pad the array with 1s on both ends. Use interval DP: dp[left][right] is the max coins from bursting all balloons between left and right (exclusive).'', nh_orderIndex = 1\<rparr>,
        \<lparr>nh_hintText = ''For each interval, try every balloon k as the last to burst. The coins gained are nums[left] * nums[k] * nums[right] + dp[left][k] + dp[k][right].'', nh_orderIndex = 2\<rparr>]\<rparr>"

definition regular_expression_matching_fixture :: fixture where
  "regular_expression_matching_fixture =
     \<lparr>fx_problem = \<lparr>np_slug = ''regular-expression-matching'', np_title = ''Regular Expression Matching'', np_difficulty = ''hard'',
        np_category = ''2-D Dynamic Programming'',
        np_description = ''Given an input string `s` and a pattern `p`, implement regular expression matching with support for `'.'` and `'*'` where:\<newline>\<newline>- `'.'` Matches any single character.\<newline>- `'*'` Matches zero or more of the preceding element.\<newline>\<newline>The matching should cover the entire input string (not partial).'',
        np_constraints = [''1 <= s.length <= 20'', ''1 <= p.length <= 20'', ''s contains only lowercase English letters.'', ''p contains only lowercase English letters, '.', and '*'.'', ''It is guaranteed for each appearance of the character '*', there will be a previous valid character to match.''],
        np_solution = Some ''Use 2D DP where dp[i][j] indicates whether s[0..i-1] matches p[0..j-1]. Handle '*' by either using zero occurrences of the preceding character (dp[i][j-2]) or matching one occurrence if the preceding character matches s[i-1].'',
        np_timeLimitMs = 5000, np_source = ''curated'', np_sourceUrl = None\<rparr>,
      fx_testCases = [
          fx_case [(''s'', JStr ''aa''), (''p'', JStr ''a'')] (JBool False) True 0,
          fx_case [(''s'', JStr ''aa''), (''p'', JStr ''a*'')] (JBool True) True 1,
          fx_case [(''s'', JStr ''ab''), (''p'', JStr ''.*'')] (JBool True) True 2,
          fx_case [(''s'', JStr ''aab''), (''p'', JStr ''c*a*b'')] (JBool True) False 3,
          fx_case [(''s'', JStr ''mississippi''), (''p'', JStr ''mis*is*ip*.'')] (JBool True) False 4,
          fx_case [(''s'', JStr ''ab''), (''p'', JStr ''.*c'')] (JBool False) False 5,
          fx_case [(''s'', JStr ''a''), (''p'', JStr ''ab*'')] (JBool True) False 6,
          fx_case [(''s'', JStr ''aaa''), (''p'', JStr ''a*a'')] (JBool True) False 7],
      fx_boilerplate = \<lparr>nb_language = ''python'', nb_template = ''class Solution:\<newline>    def isMatch(self, s: str, p: str) -> bool:\<newline>        pass'',
        nb_methodName = ''isMatch'', nb_parameterNames = [''s'', ''p'']\<rparr>,
      fx_hints = [
        \<lparr>nh_hintText = ''The key challenge is handling '*'. It can match zero or more of the preceding character. Consider both cases at each step.'', nh_orderIndex = 0\<rparr>,
        \<lparr>nh_hintText = ''Use a 2D DP table where dp[i][j] = true means s[0..i-1] matches p[0..j-1]. Handle the base case carefully: empty string can match patterns like 'a*b*c*'.'', nh_orderIndex = 1\<rparr>,
        \<lparr>nh_hintText = ''For '*' at p[j-1]: zero matches means dp[i][j] = dp[i][j-2]. One or more matches means dp[i][j] = dp[i-1][j] if s[i-1] matches p[j-2] (or p[j-2] is '.').'', nh_orderIndex = 2\<rparr>]\<rparr>"

definition dp2dProblems :: "fixture list" where
  "dp2dProblems =
     [unique_paths_fixture,
      longest_common_subsequence_fixture,
      best_time_to_buy_and_sell_stock_with_cooldown_fixture,
      coin_change_ii_fixture,
      target_sum_fixture,
      interleaving_string_fixture,
      longest_increasing_path_in_a_matrix_fixture,
      distinct_subsequences_fixture,
      edit_distance_fixture,
      burst_balloons_fixture,
      regular_expression_matching_fixture]"

lemma dp2dProblems_facts:
  "map seed_facts dp2dProblems =
     [(''unique-paths'', True, True, True),
      (''longest-common-subsequence'', True, True, True),
      (''best-time-to-buy-and-sell-stock-with-cooldown'', True, True, True),
      (''coin-change-ii'', True, True, True),
      (''target-sum'', True, True, True),
      (''interleaving-string'', True, True, True),
      (''longest-increasing-path-in-a-matrix'', True, True, True),
      (''distinct-subsequences'', True, True, True),
      (''edit-distance'', True, True, True),
      (''burst-balloons'', True, True, True),
      (''regular-expression-matching'', True, True, True)]"
  by (simp add: dp2dProblems_def seed_evaluation cong: seed_congs add:
      unique_paths_fixture_def
      longest_common_subsequence_fixture_def
      best_time_to_buy_and_sell_stock_with_cooldown_fixture_def
      coin_change_ii_fixture_def
      target_sum_fixture_def
      interleaving_string_fixture_def
      longest_increasing_path_in_a_matrix_fixture_def
      distinct_subsequences_fixture_def
      edit_distance_fixture_def
      burst_balloons_fixture_def
      regular_expression_matching_fixture_def)

end
