(* ===== verification/Seed_Greedy.thy ===== *)
theory Seed_Greedy
  imports Seed_Base
begin

text \<open>The problems of \<^verbatim>\<open>greedy.ts\<close>, \<^verbatim>\<open>intervals.ts\<close> under
  \<^verbatim>\<open>packages/db/src/seeds/data\<close>, in the order of the files.\<close>

section \<open>greedy\<close>

definition maximum_subarray_fixture :: fixture where
  "maximum_subarray_fixture =
     \<lparr>fx_problem = \<lparr>np_slug = ''maximum-subarray'', np_title = ''Maximum Subarray'', np_difficulty = ''medium'',
        np_category = ''Greedy'',
        np_description = ''Given an integer array `nums`, find the subarray with the largest sum, and return its sum.'',
        np_constraints = [''1 <= nums.length <= 10^5'', ''-10^4 <= nums[i] <= 10^4''],
        np_solution = Some ''Use Kadane's algorithm. Maintain a running sum and reset it to the current element whenever it drops below the current element. Track the maximum sum seen so far.'',
        np_timeLimitMs = 5000, np_source = ''curated'', np_sourceUrl = None\<rparr>,
      fx_testCases = [
          fx_case [(''nums'', jints [- 2, 1, - 3, 4, - 1, 2, 1, - 5, 4])] (jint 6) True 0,
          fx_case [(''nums'', jints [1])] (jint 1) True 1,
          fx_case [(''nums'', jints [5, 4, - 1, 7, 8])] (jint 23) True 2,
          fx_case [(''nums'', jints [- 1])] (jint (- 1)) False 3,
          fx_case [(''nums'', jints [- 2, - 1])] (jint (- 1)) False 4,
          fx_case [(''nums'', jints [1, 2, 3, 4])] (jint 10) False 5,
          fx_case [(''nums'', jints [- 1, - 2, - 3, - 4])] (jint (- 1)) False 6,
          fx_case [(''nums'', jints [3, - 2, 5, - 1])] (jint 6) False 7],
      fx_boilerplate = \<lparr>nb_language = ''python'', nb_template = ''class Solution:\<newline>    def maxSubArray(self, nums: List[int]) -> int:\<newline>        pass'',
        nb_methodName = ''maxSubArray'', nb_parameterNames = [''nums'']\<rparr>,
      fx_hints = [
        \<lparr>nh_hintText = ''At each position, decide whether to extend the current subarray or start a new one from the current element.'', nh_orderIndex = 0\<rparr>,
        \<lparr>nh_hintText = ''Kadane's algorithm: maintain currentSum = max(nums[i], currentSum + nums[i]) and track the global maximum across all positions.'', nh_orderIndex = 1\<rparr>]\<rparr>"

definition jump_game_fixture :: fixture where
  "jump_game_fixture =
     \<lparr>fx_problem = \<lparr>np_slug = ''jump-game'', np_title = ''Jump Game'', np_difficulty = ''medium'',
        np_category = ''Greedy'',
        np_description = ''You are given an integer array `nums`. You are initially positioned at the array's first index, and each element in the array represents your maximum jump length at that position.\<newline>\<newline>Return `true` if you can reach the last index, or `false` otherwise.'',
        np_constraints = [''1 <= nums.length <= 10^4'', ''0 <= nums[i] <= 10^5''],
        np_solution = Some ''Track the farthest reachable index. Iterate through the array; if the current index exceeds the farthest reachable, return false. Otherwise, update the farthest reachable as max(farthest, i + nums[i]).'',
        np_timeLimitMs = 5000, np_source = ''curated'', np_sourceUrl = None\<rparr>,
      fx_testCases = [
          fx_case [(''nums'', jints [2, 3, 1, 1, 4])] (JBool True) True 0,
          fx_case [(''nums'', jints [3, 2, 1, 0, 4])] (JBool False) True 1,
          fx_case [(''nums'', jints [0])] (JBool True) True 2,
          fx_case [(''nums'', jints [1])] (JBool True) False 3,
          fx_case [(''nums'', jints [1, 0])] (JBool True) False 4,
          fx_case [(''nums'', jints [0, 1])] (JBool False) False 5,
          fx_case [(''nums'', jints [2, 0, 0])] (JBool True) False 6,
          fx_case [(''nums'', jints [1, 1, 1, 1, 1])] (JBool True) False 7],
      fx_boilerplate = \<lparr>nb_language = ''python'', nb_template = ''class Solution:\<newline>    def canJump(self, nums: List[int]) -> bool:\<newline>        pass'',
        nb_methodName = ''canJump'', nb_parameterNames = [''nums'']\<rparr>,
      fx_hints = [
        \<lparr>nh_hintText = ''Think about what the farthest index you can reach at each step is. If you ever get stuck (current index > farthest reachable), you cannot proceed.'', nh_orderIndex = 0\<rparr>,
        \<lparr>nh_hintText = ''Greedily track the maximum reachable index. At each position i, update maxReach = max(maxReach, i + nums[i]). If i > maxReach at any point, return false.'', nh_orderIndex = 1\<rparr>]\<rparr>"

definition jump_game_ii_fixture :: fixture where
  "jump_game_ii_fixture =
     \<lparr>fx_problem = \<lparr>np_slug = ''jump-game-ii'', np_title = ''Jump Game II'', np_difficulty = ''medium'',
        np_category = ''Greedy'',
        np_description = ''You are given a 0-indexed array of integers `nums` of length `n`. You are initially positioned at `nums[0]`.\<newline>\<newline>Each element `nums[i]` represents the maximum length of a forward jump from index `i`. In other words, if you are at `nums[i]`, you can jump to any `nums[i + j]` where:\<newline>\<newline>- `0 <= j <= nums[i]` and\<newline>- `i + j < n`\<newline>\<newline>Return the minimum number of jumps to reach `nums[n - 1]`. The test cases are generated such that you can reach `nums[n - 1]`.'',
        np_constraints = [''1 <= nums.length <= 10^4'', ''0 <= nums[i] <= 1000'', ''It's guaranteed that you can reach nums[n - 1].''],
        np_solution = Some ''Use a greedy BFS-like approach. Track the current jump's boundary and the farthest reachable. When you reach the current boundary, increment jumps and move the boundary to the farthest reachable.'',
        np_timeLimitMs = 5000, np_source = ''curated'', np_sourceUrl = None\<rparr>,
      fx_testCases = [
          fx_case [(''nums'', jints [2, 3, 1, 1, 4])] (jint 2) True 0,
          fx_case [(''nums'', jints [2, 3, 0, 1, 4])] (jint 2) True 1,
          fx_case [(''nums'', jints [1])] (jint 0) True 2,
          fx_case [(''nums'', jints [1, 2])] (jint 1) False 3,
          fx_case [(''nums'', jints [1, 1, 1, 1])] (jint 3) False 4,
          fx_case [(''nums'', jints [3, 2, 1])] (jint 1) False 5,
          fx_case [(''nums'', jints [10, 9, 8, 7, 6, 5, 4, 3, 2, 1, 1, 0])] (jint 2) False 6,
          fx_case [(''nums'', jints [1, 2, 3])] (jint 2) False 7],
      fx_boilerplate = \<lparr>nb_language = ''python'', nb_template = ''class Solution:\<newline>    def jump(self, nums: List[int]) -> int:\<newline>        pass'',
        nb_methodName = ''jump'', nb_parameterNames = [''nums'']\<rparr>,
      fx_hints = [
        \<lparr>nh_hintText = ''Think of this as BFS where each 'level' is a jump. All positions reachable within the current jump form one level.'', nh_orderIndex = 0\<rparr>,
        \<lparr>nh_hintText = ''Track the end of the current jump range and the farthest you can reach. When you pass the current end, increment jumps and set end to the farthest reachable.'', nh_orderIndex = 1\<rparr>]\<rparr>"

definition gas_station_fixture :: fixture where
  "gas_station_fixture =
     \<lparr>fx_problem = \<lparr>np_slug = ''gas-station'', np_title = ''Gas Station'', np_difficulty = ''medium'',
        np_category = ''Greedy'',
        np_description = ''There are `n` gas stations along a circular route, where the amount of gas at the `i`th station is `gas[i]`.\<newline>\<newline>You have a car with an unlimited gas tank and it costs `cost[i]` of gas to travel from the `i`th station to its next `(i + 1)`th station. You begin the journey with an empty tank at one of the gas stations.\<newline>\<newline>Given two integer arrays `gas` and `cost`, return the starting gas station's index if you can travel around the circuit once in the clockwise direction, otherwise return `-1`. If there exists a solution, it is guaranteed to be unique.'',
        np_constraints = [''n == gas.length == cost.length'', ''1 <= n <= 10^5'', ''0 <= gas[i], cost[i] <= 10^4''],
        np_solution = Some ''If total gas >= total cost, a solution exists. Track the current tank; whenever it drops below 0, reset the starting station to the next station and reset the tank. The final start position is the answer.'',
        np_timeLimitMs = 5000, np_source = ''curated'', np_sourceUrl = None\<rparr>,
      fx_testCases = [
          fx_case [(''gas'', jints [1, 2, 3, 4, 5]), (''cost'', jints [3, 4, 5, 1, 2])] (jint 3) True 0,
          fx_case [(''gas'', jints [2, 3, 4]), (''cost'', jints [3, 4, 3])] (jint (- 1)) True 1,
          fx_case [(''gas'', jints [5, 1, 2, 3, 4]), (''cost'', jints [4, 4, 1, 5, 1])] (jint 4) True 2,
          fx_case [(''gas'', jints [1]), (''cost'', jints [1])] (jint 0) False 3,
          fx_case [(''gas'', jints [5]), (''cost'', jints [4])] (jint 0) False 4,
          fx_case [(''gas'', jints [3, 1, 1]), (''cost'', jints [1, 2, 2])] (jint 0) False 5,
          fx_case [(''gas'', jints [1, 2, 3, 4, 5]), (''cost'', jints [1, 2, 3, 4, 5])] (jint 0) False 6,
          fx_case [(''gas'', jints [0, 0, 0]), (''cost'', jints [0, 0, 0])] (jint 0) False 7],
      fx_boilerplate = \<lparr>nb_language = ''python'', nb_template = ''class Solution:\<newline>    def canCompleteCircuit(self, gas: List[int], cost: List[int]) -> int:\<newline>        pass'',
        nb_methodName = ''canCompleteCircuit'', nb_parameterNames = [''gas'', ''cost'']\<rparr>,
      fx_hints = [
        \<lparr>nh_hintText = ''First check feasibility: if the total gas is less than the total cost, no solution exists.'', nh_orderIndex = 0\<rparr>,
        \<lparr>nh_hintText = ''Track a running surplus (gas[i] - cost[i]). Whenever it goes negative, the starting station must be after the current station. Reset and continue.'', nh_orderIndex = 1\<rparr>]\<rparr>"

definition hand_of_straights_fixture :: fixture where
  "hand_of_straights_fixture =
     \<lparr>fx_problem = \<lparr>np_slug = ''hand-of-straights'', np_title = ''Hand of Straights'', np_difficulty = ''medium'',
        np_category = ''Greedy'',
        np_description = ''Alice has some number of cards in her hand. She wants to rearrange the cards into groups so that each group is of size `groupSize`, and consists of `groupSize` consecutive cards.\<newline>\<newline>Given an integer array `hand` where `hand[i]` is the value written on the `i`th card and an integer `groupSize`, return `true` if she can rearrange the cards, or `false` otherwise.'',
        np_constraints = [''1 <= hand.length <= 10^4'', ''0 <= hand[i] <= 10^9'', ''1 <= groupSize <= hand.length''],
        np_solution = Some ''Sort the cards and use a frequency map. Greedily form groups starting from the smallest available card. For each starting card, try to consume groupSize consecutive values. If any are missing, return false.'',
        np_timeLimitMs = 5000, np_source = ''curated'', np_sourceUrl = None\<rparr>,
      fx_testCases = [
          fx_case [(''hand'', jints [1, 2, 3, 6, 2, 3, 4, 7, 8]), (''groupSize'', jint 3)] (JBool True) True 0,
          fx_case [(''hand'', jints [1, 2, 3, 4, 5]), (''groupSize'', jint 4)] (JBool False) True 1,
          fx_case [(''hand'', jints [1, 2, 3]), (''groupSize'', jint 3)] (JBool True) True 2,
          fx_case [(''hand'', jints [1]), (''groupSize'', jint 1)] (JBool True) False 3,
          fx_case [(''hand'', jints [1, 2, 3, 4]), (''groupSize'', jint 2)] (JBool True) False 4,
          fx_case [(''hand'', jints [1, 1, 2, 2, 3, 3]), (''groupSize'', jint 3)] (JBool True) False 5,
          fx_case [(''hand'', jints [1, 1, 2, 3]), (''groupSize'', jint 2)] (JBool False) False 6,
          fx_case [(''hand'', jints [8, 10, 12]), (''groupSize'', jint 3)] (JBool False) False 7],
      fx_boilerplate = \<lparr>nb_language = ''python'', nb_template = ''class Solution:\<newline>    def isNStraightHand(self, hand: List[int], groupSize: int) -> bool:\<newline>        pass'',
        nb_methodName = ''isNStraightHand'', nb_parameterNames = [''hand'', ''groupSize'']\<rparr>,
      fx_hints = [
        \<lparr>nh_hintText = ''If the total number of cards is not divisible by groupSize, it is immediately impossible.'', nh_orderIndex = 0\<rparr>,
        \<lparr>nh_hintText = ''Sort the hand and use a counter. Always start a new group from the smallest remaining card. For each group, greedily pick groupSize consecutive values.'', nh_orderIndex = 1\<rparr>]\<rparr>"

definition merge_triplets_to_form_target_triplet_fixture :: fixture where
  "merge_triplets_to_form_target_triplet_fixture =
     \<lparr>fx_problem = \<lparr>np_slug = ''merge-triplets-to-form-target-triplet'', np_title = ''Merge Triplets to Form Target Triplet'', np_difficulty = ''medium'',
        np_category = ''Greedy'',
        np_description = ''A triplet is an array of three integers. You are given a 2D integer array `triplets`, where `triplets[i] = [ai, bi, ci]` describes the `i`th triplet. You are also given an integer array `target = [x, y, z]` that describes the triplet you want to obtain.\<newline>\<newline>To obtain `target`, you may apply the following operation on `triplets` any number of times (possibly zero):\<newline>\<newline>- Choose two indices (0-indexed) `i` and `j` (`i != j`) and update `triplets[j]` to become `[max(ai, aj), max(bi, bj), max(ci, cj)]`.\<newline>\<newline>Return `true` if it is possible to obtain the `target` triplet `[x, y, z]` as an element of `triplets`, or `false` otherwise.'',
        np_constraints = [''1 <= triplets.length <= 10^5'', ''triplets[i].length == target.length == 3'', ''1 <= ai, bi, ci, x, y, z <= 1000''],
        np_solution = Some ''Filter out triplets where any value exceeds the corresponding target value (they would make that dimension too large). From the remaining triplets, check if each target dimension can be matched by at least one triplet.'',
        np_timeLimitMs = 5000, np_source = ''curated'', np_sourceUrl = None\<rparr>,
      fx_testCases = [
          fx_case [(''triplets'', JArr [jints [2, 5, 3], jints [1, 8, 4], jints [1, 7, 5]]), (''target'', jints [2,
            7, 5])] (JBool True) True 0,
          fx_case [(''triplets'', JArr [jints [3, 4, 5], jints [4, 5, 6]]), (''target'', jints [3, 2,
            5])] (JBool False) True 1,
          fx_case [(''triplets'', JArr [jints [2, 5, 3], jints [2, 3, 4], jints [1, 2, 5], jints [5, 2, 3]]),
            (''target'', jints [5, 5, 5])] (JBool True) True 2,
          fx_case [(''triplets'', JArr [jints [1, 1, 1]]), (''target'', jints [1, 1, 1])] (JBool True) False 3,
          fx_case [(''triplets'', JArr [jints [1, 2, 3]]), (''target'', jints [1, 2, 4])] (JBool False) False 4,
          fx_case [(''triplets'', JArr [jints [1, 1, 1], jints [2, 2, 2], jints [3, 3, 3]]), (''target'', jints [3,
            3, 3])] (JBool True) False 5,
          fx_case [(''triplets'', JArr [jints [3, 1, 1], jints [1, 3, 1], jints [1, 1, 3]]), (''target'', jints [3,
            3, 3])] (JBool True) False 6,
          fx_case [(''triplets'', JArr [jints [4, 1, 1], jints [1, 4, 1], jints [1, 1, 4]]), (''target'', jints [3,
            3, 3])] (JBool False) False 7],
      fx_boilerplate = \<lparr>nb_language = ''python'', nb_template = ''class Solution:\<newline>    def mergeTriplets(self, triplets: List[List[int]], target: List[int]) -> bool:\<newline>        pass'',
        nb_methodName = ''mergeTriplets'', nb_parameterNames = [''triplets'', ''target'']\<rparr>,
      fx_hints = [
        \<lparr>nh_hintText = ''If a triplet has any value exceeding the target in that dimension, using it in a merge would make that dimension too large. These triplets must be excluded.'', nh_orderIndex = 0\<rparr>,
        \<lparr>nh_hintText = ''After filtering, check if the remaining triplets collectively cover all three target values. Track which target dimensions have been matched.'', nh_orderIndex = 1\<rparr>]\<rparr>"

definition partition_labels_fixture :: fixture where
  "partition_labels_fixture =
     \<lparr>fx_problem = \<lparr>np_slug = ''partition-labels'', np_title = ''Partition Labels'', np_difficulty = ''medium'',
        np_category = ''Greedy'',
        np_description = ''You are given a string `s`. We want to partition the string into as many parts as possible so that each letter appears in at most one part.\<newline>\<newline>Note that the partition is done so that after concatenating all the parts in order, the resultant string should be `s`.\<newline>\<newline>Return a list of integers representing the size of these parts.'',
        np_constraints = [''1 <= s.length <= 500'', ''s consists of lowercase English letters.''],
        np_solution = Some ''First pass: record the last occurrence of each character. Second pass: greedily extend the current partition to include the last occurrence of every character seen so far. When the current index equals the partition end, close the partition.'',
        np_timeLimitMs = 5000, np_source = ''curated'', np_sourceUrl = None\<rparr>,
      fx_testCases = [
          fx_case [(''s'', JStr ''ababcbacadefegdehijhklij'')] (jints [9, 7, 8]) True 0,
          fx_case [(''s'', JStr ''eccbbbbdec'')] (jints [10]) True 1,
          fx_case [(''s'', JStr ''a'')] (jints [1]) True 2,
          fx_case [(''s'', JStr ''abc'')] (jints [1, 1, 1]) False 3,
          fx_case [(''s'', JStr ''aaa'')] (jints [3]) False 4,
          fx_case [(''s'', JStr ''abab'')] (jints [4]) False 5,
          fx_case [(''s'', JStr ''abcabc'')] (jints [6]) False 6,
          fx_case [(''s'', JStr ''abcdefg'')] (jints [1, 1, 1, 1, 1, 1, 1]) False 7],
      fx_boilerplate = \<lparr>nb_language = ''python'', nb_template = ''class Solution:\<newline>    def partitionLabels(self, s: str) -> List[int]:\<newline>        pass'',
        nb_methodName = ''partitionLabels'', nb_parameterNames = [''s'']\<rparr>,
      fx_hints = [
        \<lparr>nh_hintText = ''For each character, find its last occurrence in the string. This determines the minimum extent of the partition that includes this character.'', nh_orderIndex = 0\<rparr>,
        \<lparr>nh_hintText = ''Iterate through the string, tracking the farthest last-occurrence of any character seen so far. When the current index matches this boundary, you have found a partition.'', nh_orderIndex = 1\<rparr>]\<rparr>"

definition valid_parenthesis_string_fixture :: fixture where
  "valid_parenthesis_string_fixture =
     \<lparr>fx_problem = \<lparr>np_slug = ''valid-parenthesis-string'', np_title = ''Valid Parenthesis String'', np_difficulty = ''medium'',
        np_category = ''Greedy'',
        np_description = ''Given a string `s` containing only three types of characters: `'('`, `')'` and `'*'`, return `true` if `s` is valid.\<newline>\<newline>The following rules define a valid string:\<newline>\<newline>- Any left parenthesis `'('` must have a corresponding right parenthesis `')'`.\<newline>- Any right parenthesis `')'` must have a corresponding left parenthesis `'('`.\<newline>- Left parenthesis `'('` must go before the corresponding right parenthesis `')'`.\<newline>- `'*'` could be treated as a single right parenthesis `')'` OR a single left parenthesis `'('` OR an empty string `\"\"`.'',
        np_constraints = [''1 <= s.length <= 100'', ''s[i] is '(', ')' or '*'.''],
        np_solution = Some ''Track the range of possible open parenthesis counts [low, high]. For '(' increment both, for ')' decrement both, for '*' decrement low and increment high. If high goes negative, return false. Clamp low to 0. At the end, check if low == 0.'',
        np_timeLimitMs = 5000, np_source = ''curated'', np_sourceUrl = None\<rparr>,
      fx_testCases = [
          fx_case [(''s'', JStr ''()'')] (JBool True) True 0,
          fx_case [(''s'', JStr ''(*)'')] (JBool True) True 1,
          fx_case [(''s'', JStr ''(*))'')] (JBool True) True 2,
          fx_case [(''s'', JStr ''*'')] (JBool True) False 3,
          fx_case [(''s'', JStr ''('')] (JBool False) False 4,
          fx_case [(''s'', JStr '')'')] (JBool False) False 5,
          fx_case [(''s'', JStr ''((*))'')] (JBool True) False 6,
          fx_case [(''s'', JStr ''((((*)'')] (JBool False) False 7],
      fx_boilerplate = \<lparr>nb_language = ''python'', nb_template = ''class Solution:\<newline>    def checkValidString(self, s: str) -> bool:\<newline>        pass'',
        nb_methodName = ''checkValidString'', nb_parameterNames = [''s'']\<rparr>,
      fx_hints = [
        \<lparr>nh_hintText = ''The '*' character introduces uncertainty. Instead of tracking a single count of open parentheses, think about tracking the range of possible counts.'', nh_orderIndex = 0\<rparr>,
        \<lparr>nh_hintText = ''Maintain low and high bounds for the open parenthesis count. '(' increments both, ')' decrements both, '*' decrements low and increments high. Clamp low to 0. If high < 0 at any point, return false. At the end, check low == 0.'', nh_orderIndex = 1\<rparr>]\<rparr>"

definition greedyProblems :: "fixture list" where
  "greedyProblems =
     [maximum_subarray_fixture,
      jump_game_fixture,
      jump_game_ii_fixture,
      gas_station_fixture,
      hand_of_straights_fixture,
      merge_triplets_to_form_target_triplet_fixture,
      partition_labels_fixture,
      valid_parenthesis_string_fixture]"

lemma greedyProblems_facts:
  "map seed_facts greedyProblems =
     [(''maximum-subarray'', True, True, True),
      (''jump-game'', True, True, True),
      (''jump-game-ii'', True, True, True),
      (''gas-station'', True, True, True),
      (''hand-of-straights'', True, True, True),
      (''merge-triplets-to-form-target-triplet'', True, True, True),
      (''partition-labels'', True, True, True),
      (''valid-parenthesis-string'', True, True, True)]"
  by (simp add: greedyProblems_def seed_evaluation cong: seed_congs add:
      maximum_subarray_fixture_def
      jump_game_fixture_def
      jump_game_ii_fixture_def
      gas_station_fixture_def
      hand_of_straights_fixture_def
      merge_triplets_to_form_target_triplet_fixture_def
      partition_labels_fixture_def
      valid_parenthesis_string_fixture_def)


section \<open>intervals\<close>

definition meeting_rooms_fixture :: fixture where
  "meeting_rooms_fixture =
     \<lparr>fx_problem = \<lparr>np_slug = ''meeting-rooms'', np_title = ''Meeting Rooms'', np_difficulty = ''easy'',
        np_category = ''Intervals'',
        np_description = ''Given an array of meeting time `intervals` where `intervals[i] = [starti, endi]`, determine if a person could attend all meetings.\<newline>\<newline>Return `true` if the person can attend all meetings without any overlap, `false` otherwise.'',
        np_constraints = [''0 <= intervals.length <= 10^4'', ''intervals[i].length == 2'', ''0 <= starti < endi <= 10^6''],
        np_solution = Some ''Sort intervals by start time. Iterate through adjacent pairs and check if any meeting starts before the previous one ends. If so, there is an overlap.'',
        np_timeLimitMs = 5000, np_source = ''curated'', np_sourceUrl = None\<rparr>,
      fx_testCases = [
          fx_case [(''intervals'', JArr [jints [0, 30], jints [5, 10], jints [15, 20]])] (JBool False) True 0,
          fx_case [(''intervals'', JArr [jints [7, 10], jints [2, 4]])] (JBool True) True 1,
          fx_case [(''intervals'', JArr [])] (JBool True) True 2,
          fx_case [(''intervals'', JArr [jints [1, 5]])] (JBool True) False 3,
          fx_case [(''intervals'', JArr [jints [1, 2], jints [2, 3]])] (JBool True) False 4,
          fx_case [(''intervals'', JArr [jints [1, 3], jints [2, 4]])] (JBool False) False 5,
          fx_case [(''intervals'', JArr [jints [1, 5], jints [5, 10], jints [10, 15]])] (JBool True) False 6,
          fx_case [(''intervals'', JArr [jints [1, 10], jints [2, 3], jints [4, 5]])] (JBool False) False 7],
      fx_boilerplate = \<lparr>nb_language = ''python'', nb_template = ''class Solution:\<newline>    def canAttendMeetings(self, intervals: List[List[int]]) -> bool:\<newline>        pass'',
        nb_methodName = ''canAttendMeetings'', nb_parameterNames = [''intervals'']\<rparr>,
      fx_hints = [
        \<lparr>nh_hintText = ''Sort the intervals by their start time, then check if any consecutive pair overlaps (the next meeting starts before the current one ends).'', nh_orderIndex = 0\<rparr>]\<rparr>"

definition insert_interval_fixture :: fixture where
  "insert_interval_fixture =
     \<lparr>fx_problem = \<lparr>np_slug = ''insert-interval'', np_title = ''Insert Interval'', np_difficulty = ''medium'',
        np_category = ''Intervals'',
        np_description = ''You are given an array of non-overlapping intervals `intervals` where `intervals[i] = [starti, endi]` represent the start and the end of the `i`th interval and `intervals` is sorted in ascending order by `starti`. You are also given an interval `newInterval = [start, end]` that represents the start and end of another interval.\<newline>\<newline>Insert `newInterval` into `intervals` such that `intervals` is still sorted in ascending order by `starti` and `intervals` still does not have any overlapping intervals (merge overlapping intervals if necessary).\<newline>\<newline>Return `intervals` after the insertion.'',
        np_constraints = [''0 <= intervals.length <= 10^4'', ''intervals[i].length == 2'', ''0 <= starti <= endi <= 10^5'', ''intervals is sorted by starti in ascending order.'', ''newInterval.length == 2'', ''0 <= start <= end <= 10^5''],
        np_solution = Some ''Iterate through intervals. Add all intervals ending before the new interval starts. Merge all overlapping intervals with the new interval by taking min of starts and max of ends. Add the merged interval and all remaining intervals.'',
        np_timeLimitMs = 5000, np_source = ''curated'', np_sourceUrl = None\<rparr>,
      fx_testCases = [
          fx_case [(''intervals'', JArr [jints [1, 3], jints [6, 9]]), (''newInterval'', jints [2,
            5])] (JArr [jints [1, 5], jints [6, 9]]) True 0,
          fx_case [(''intervals'', JArr [jints [1, 2], jints [3, 5], jints [6, 7], jints [8, 10], jints [12, 16]]),
            (''newInterval'', jints [4, 8])] (JArr [jints [1, 2], jints [3, 10], jints [12, 16]]) True 1,
          fx_case [(''intervals'', JArr []), (''newInterval'', jints [5, 7])] (JArr [jints [5, 7]]) True 2,
          fx_case [(''intervals'', JArr [jints [1, 5]]), (''newInterval'', jints [2, 3])] (JArr [jints [1,
            5]]) False 3,
          fx_case [(''intervals'', JArr [jints [1, 5]]), (''newInterval'', jints [6, 8])] (JArr [jints [1, 5],
            jints [6, 8]]) False 4,
          fx_case [(''intervals'', JArr [jints [3, 5]]), (''newInterval'', jints [1, 2])] (JArr [jints [1, 2],
            jints [3, 5]]) False 5,
          fx_case [(''intervals'', JArr [jints [1, 5]]), (''newInterval'', jints [0, 6])] (JArr [jints [0,
            6]]) False 6,
          fx_case [(''intervals'', JArr [jints [1, 2], jints [5, 6]]), (''newInterval'', jints [3,
            4])] (JArr [jints [1, 2], jints [3, 4], jints [5, 6]]) False 7],
      fx_boilerplate = \<lparr>nb_language = ''python'', nb_template = ''class Solution:\<newline>    def insert(self, intervals: List[List[int]], newInterval: List[int]) -> List[List[int]]:\<newline>        pass'',
        nb_methodName = ''insert'', nb_parameterNames = [''intervals'', ''newInterval'']\<rparr>,
      fx_hints = [
        \<lparr>nh_hintText = ''Process intervals in three phases: those entirely before the new interval, those overlapping with it, and those entirely after it.'', nh_orderIndex = 0\<rparr>,
        \<lparr>nh_hintText = ''For overlapping intervals, merge by taking the minimum start and maximum end. Add all non-overlapping intervals directly to the result.'', nh_orderIndex = 1\<rparr>]\<rparr>"

definition merge_intervals_fixture :: fixture where
  "merge_intervals_fixture =
     \<lparr>fx_problem = \<lparr>np_slug = ''merge-intervals'', np_title = ''Merge Intervals'', np_difficulty = ''medium'',
        np_category = ''Intervals'',
        np_description = ''Given an array of `intervals` where `intervals[i] = [starti, endi]`, merge all overlapping intervals, and return an array of the non-overlapping intervals that cover all the intervals in the input.'',
        np_constraints = [''1 <= intervals.length <= 10^4'', ''intervals[i].length == 2'', ''0 <= starti <= endi <= 10^4''],
        np_solution = Some ''Sort intervals by start time. Iterate through and merge consecutive intervals that overlap (current start <= previous end). Extend the end of the merged interval to the maximum of both ends.'',
        np_timeLimitMs = 5000, np_source = ''curated'', np_sourceUrl = None\<rparr>,
      fx_testCases = [
          fx_case [(''intervals'', JArr [jints [1, 3], jints [2, 6], jints [8, 10], jints [15,
            18]])] (JArr [jints [1, 6], jints [8, 10], jints [15, 18]]) True 0,
          fx_case [(''intervals'', JArr [jints [1, 4], jints [4, 5]])] (JArr [jints [1, 5]]) True 1,
          fx_case [(''intervals'', JArr [jints [1, 4], jints [0, 4]])] (JArr [jints [0, 4]]) True 2,
          fx_case [(''intervals'', JArr [jints [1, 3]])] (JArr [jints [1, 3]]) False 3,
          fx_case [(''intervals'', JArr [jints [1, 4], jints [2, 3]])] (JArr [jints [1, 4]]) False 4,
          fx_case [(''intervals'', JArr [jints [1, 2], jints [3, 4], jints [5, 6]])] (JArr [jints [1, 2], jints [3,
            4], jints [5, 6]]) False 5,
          fx_case [(''intervals'', JArr [jints [1, 10], jints [2, 3], jints [4, 5], jints [6, 7]])] (JArr [jints [1,
            10]]) False 6,
          fx_case [(''intervals'', JArr [jints [2, 3], jints [4, 5], jints [6, 7], jints [8, 9], jints [1,
            10]])] (JArr [jints [1, 10]]) False 7],
      fx_boilerplate = \<lparr>nb_language = ''python'', nb_template = ''class Solution:\<newline>    def merge(self, intervals: List[List[int]]) -> List[List[int]]:\<newline>        pass'',
        nb_methodName = ''merge'', nb_parameterNames = [''intervals'']\<rparr>,
      fx_hints = [
        \<lparr>nh_hintText = ''Sorting the intervals by start time makes it easy to identify overlapping intervals -- they will be adjacent in the sorted order.'', nh_orderIndex = 0\<rparr>,
        \<lparr>nh_hintText = ''After sorting, iterate and maintain a current merged interval. If the next interval overlaps (its start <= current end), extend the current end. Otherwise, close the current interval and start a new one.'', nh_orderIndex = 1\<rparr>]\<rparr>"

definition non_overlapping_intervals_fixture :: fixture where
  "non_overlapping_intervals_fixture =
     \<lparr>fx_problem = \<lparr>np_slug = ''non-overlapping-intervals'', np_title = ''Non-overlapping Intervals'', np_difficulty = ''medium'',
        np_category = ''Intervals'',
        np_description = ''Given an array of intervals `intervals` where `intervals[i] = [starti, endi]`, return the minimum number of intervals you need to remove to make the rest of the intervals non-overlapping.\<newline>\<newline>Note that intervals which only touch at a point are non-overlapping. For example, `[1, 2]` and `[2, 3]` are non-overlapping.'',
        np_constraints = [''1 <= intervals.length <= 10^5'', ''intervals[i].length == 2'', ''-5 * 10^4 <= starti < endi <= 5 * 10^4''],
        np_solution = Some ''Sort intervals by end time. Greedily keep the interval that ends earliest when there is an overlap (activity selection). Count the number of intervals that must be removed.'',
        np_timeLimitMs = 5000, np_source = ''curated'', np_sourceUrl = None\<rparr>,
      fx_testCases = [
          fx_case [(''intervals'', JArr [jints [1, 2], jints [2, 3], jints [3, 4], jints [1, 3]])] (jint 1) True 0,
          fx_case [(''intervals'', JArr [jints [1, 2], jints [1, 2], jints [1, 2]])] (jint 2) True 1,
          fx_case [(''intervals'', JArr [jints [1, 2], jints [2, 3]])] (jint 0) True 2,
          fx_case [(''intervals'', JArr [jints [1, 100], jints [11, 22], jints [1, 11], jints [2,
            12]])] (jint 2) False 3,
          fx_case [(''intervals'', JArr [jints [0, 2], jints [1, 3], jints [2, 4], jints [3, 5], jints [4,
            6]])] (jint 2) False 4,
          fx_case [(''intervals'', JArr [jints [1, 2]])] (jint 0) False 5,
          fx_case [(''intervals'', JArr [jints [- 1, 0], jints [0, 1], jints [1, 2]])] (jint 0) False 6,
          fx_case [(''intervals'', JArr [jints [1, 5], jints [2, 3], jints [3, 4], jints [4, 5]])] (jint 1) False 7],
      fx_boilerplate = \<lparr>nb_language = ''python'', nb_template = ''class Solution:\<newline>    def eraseOverlapIntervals(self, intervals: List[List[int]]) -> int:\<newline>        pass'',
        nb_methodName = ''eraseOverlapIntervals'', nb_parameterNames = [''intervals'']\<rparr>,
      fx_hints = [
        \<lparr>nh_hintText = ''This is equivalent to finding the maximum number of non-overlapping intervals (activity selection problem).'', nh_orderIndex = 0\<rparr>,
        \<lparr>nh_hintText = ''Sort by end time. Greedily select intervals that do not overlap with the last selected one. The answer is total intervals minus the count of selected intervals.'', nh_orderIndex = 1\<rparr>]\<rparr>"

definition meeting_rooms_ii_fixture :: fixture where
  "meeting_rooms_ii_fixture =
     \<lparr>fx_problem = \<lparr>np_slug = ''meeting-rooms-ii'', np_title = ''Meeting Rooms II'', np_difficulty = ''medium'',
        np_category = ''Intervals'',
        np_description = ''Given an array of meeting time `intervals` where `intervals[i] = [starti, endi]`, return the minimum number of conference rooms required.\<newline>\<newline>A meeting room is required for each meeting. If two meetings overlap, they need separate rooms. Meetings that end at the same time another starts do not overlap.'',
        np_constraints = [''1 <= intervals.length <= 10^4'', ''0 <= starti < endi <= 10^6''],
        np_solution = Some ''Separate start and end times into two sorted arrays. Use two pointers: when the next event is a start, increment rooms needed; when it is an end, decrement. Track the maximum rooms needed at any point.'',
        np_timeLimitMs = 5000, np_source = ''curated'', np_sourceUrl = None\<rparr>,
      fx_testCases = [
          fx_case [(''intervals'', JArr [jints [0, 30], jints [5, 10], jints [15, 20]])] (jint 2) True 0,
          fx_case [(''intervals'', JArr [jints [7, 10], jints [2, 4]])] (jint 1) True 1,
          fx_case [(''intervals'', JArr [jints [0, 5], jints [5, 10]])] (jint 1) True 2,
          fx_case [(''intervals'', JArr [jints [1, 5]])] (jint 1) False 3,
          fx_case [(''intervals'', JArr [jints [1, 5], jints [2, 6], jints [3, 7]])] (jint 3) False 4,
          fx_case [(''intervals'', JArr [jints [1, 2], jints [1, 2], jints [1, 2]])] (jint 3) False 5,
          fx_case [(''intervals'', JArr [jints [1, 3], jints [3, 5], jints [5, 7], jints [7, 9]])] (jint 1) False 6,
          fx_case [(''intervals'', JArr [jints [1, 10], jints [2, 5], jints [6, 8]])] (jint 2) False 7],
      fx_boilerplate = \<lparr>nb_language = ''python'', nb_template = ''class Solution:\<newline>    def minMeetingRooms(self, intervals: List[List[int]]) -> int:\<newline>        pass'',
        nb_methodName = ''minMeetingRooms'', nb_parameterNames = [''intervals'']\<rparr>,
      fx_hints = [
        \<lparr>nh_hintText = ''Think of meeting starts and ends as events on a timeline. The number of rooms needed at any time equals the number of ongoing meetings.'', nh_orderIndex = 0\<rparr>,
        \<lparr>nh_hintText = ''Sort starts and ends separately. Sweep through events with two pointers, incrementing on starts and decrementing on ends. Track the peak concurrent meetings.'', nh_orderIndex = 1\<rparr>]\<rparr>"

definition minimum_interval_to_include_each_query_fixture :: fixture where
  "minimum_interval_to_include_each_query_fixture =
     \<lparr>fx_problem = \<lparr>np_slug = ''minimum-interval-to-include-each-query'', np_title = ''Minimum Interval to Include Each Query'', np_difficulty = ''hard'',
        np_category = ''Intervals'',
        np_description = ''You are given a 2D integer array `intervals`, where `intervals[i] = [lefti, righti]` describes the `i`th interval starting at `lefti` and ending at `righti` (inclusive). The size of an interval is defined as the number of integers it contains, or more formally `righti - lefti + 1`.\<newline>\<newline>You are also given an integer array `queries`. The answer to the `j`th query is the size of the smallest interval `i` such that `lefti <= queries[j] <= righti`. If no such interval exists, the answer is `-1`.\<newline>\<newline>Return an array containing the answers to the queries.'',
        np_constraints = [''1 <= intervals.length <= 10^5'', ''1 <= queries.length <= 10^5'', ''intervals[i].length == 2'', ''1 <= lefti <= righti <= 10^7'', ''1 <= queries[j] <= 10^7''],
        np_solution = Some ''Sort intervals by start. Process queries in sorted order, using a min-heap keyed by interval size. For each query, add all intervals starting <= query. Remove expired intervals (end < query). The heap top gives the smallest valid interval.'',
        np_timeLimitMs = 5000, np_source = ''curated'', np_sourceUrl = None\<rparr>,
      fx_testCases = [
          fx_case [(''intervals'', JArr [jints [1, 4], jints [2, 4], jints [3, 6], jints [4, 4]]), (''queries'',
            jints [2, 3, 4, 5])] (jints [3, 3, 1, 4]) True 0,
          fx_case [(''intervals'', JArr [jints [2, 3], jints [2, 5], jints [1, 8], jints [20, 25]]), (''queries'',
            jints [2, 19, 5, 22])] (jints [2, - 1, 4, 6]) True 1,
          fx_case [(''intervals'', JArr [jints [1, 1]]), (''queries'', jints [1])] (jints [1]) True 2,
          fx_case [(''intervals'', JArr [jints [1, 1]]), (''queries'', jints [2])] (jints [- 1]) False 3,
          fx_case [(''intervals'', JArr [jints [1, 5]]), (''queries'', jints [1, 3, 5, 6])] (jints [5, 5, 5,
            - 1]) False 4,
          fx_case [(''intervals'', JArr [jints [1, 3], jints [2, 4]]), (''queries'', jints [2])] (jints [3]) False 5,
          fx_case [(''intervals'', JArr [jints [1, 10], jints [2, 3], jints [5, 6]]), (''queries'', jints [2, 5,
            8])] (jints [2, 2, 10]) False 6,
          fx_case [(''intervals'', JArr [jints [1, 2], jints [3, 4], jints [5, 6]]), (''queries'',
            jints [7])] (jints [- 1]) False 7],
      fx_boilerplate = \<lparr>nb_language = ''python'', nb_template = ''class Solution:\<newline>    def minInterval(self, intervals: List[List[int]], queries: List[int]) -> List[int]:\<newline>        pass'',
        nb_methodName = ''minInterval'', nb_parameterNames = [''intervals'', ''queries'']\<rparr>,
      fx_hints = [
        \<lparr>nh_hintText = ''Processing queries in sorted order lets you efficiently manage which intervals are active using a sweep-line approach.'', nh_orderIndex = 0\<rparr>,
        \<lparr>nh_hintText = ''Sort intervals by left endpoint. Sort queries (while preserving original indices). For each query, push all intervals whose left <= query onto a min-heap keyed by size.'', nh_orderIndex = 1\<rparr>,
        \<lparr>nh_hintText = ''Pop from the heap any intervals whose right < query (expired). The top of the heap is the smallest interval containing the query. Use a hash map to store results by original query index.'', nh_orderIndex = 2\<rparr>]\<rparr>"

definition intervalsProblems :: "fixture list" where
  "intervalsProblems =
     [meeting_rooms_fixture,
      insert_interval_fixture,
      merge_intervals_fixture,
      non_overlapping_intervals_fixture,
      meeting_rooms_ii_fixture,
      minimum_interval_to_include_each_query_fixture]"

lemma intervalsProblems_facts:
  "map seed_facts intervalsProblems =
     [(''meeting-rooms'', True, True, True),
      (''insert-interval'', True, True, True),
      (''merge-intervals'', True, True, True),
      (''non-overlapping-intervals'', True, True, True),
      (''meeting-rooms-ii'', True, True, True),
      (''minimum-interval-to-include-each-query'', True, True, True)]"
  by (simp add: intervalsProblems_def seed_evaluation cong: seed_congs add:
      meeting_rooms_fixture_def
      insert_interval_fixture_def
      merge_intervals_fixture_def
      non_overlapping_intervals_fixture_def
      meeting_rooms_ii_fixture_def
      minimum_interval_to_include_each_query_fixture_def)

end
