(* ===== verification/Seed_Math.thy ===== *)
theory Seed_Math
  imports Seed_Base
begin

text \<open>The problems of \<^verbatim>\<open>math-geometry.ts\<close>, \<^verbatim>\<open>bit-manipulation.ts\<close> under
  \<^verbatim>\<open>packages/db/src/seeds/data\<close>, in the order of the files.\<close>

section \<open>math geometry\<close>

definition happy_number_fixture :: fixture where
  "happy_number_fixture =
     \<lparr>fx_problem = \<lparr>np_slug = ''happy-number'', np_title = ''Happy Number'', np_difficulty = ''easy'',
        np_category = ''Math & Geometry'',
        np_description = ''Write an algorithm to determine if a number `n` is happy.\<newline>\<newline>A happy number is a number defined by the following process:\<newline>\<newline>- Starting with any positive integer, replace the number by the sum of the squares of its digits.\<newline>- Repeat the process until the number equals 1 (where it will stay), or it loops endlessly in a cycle which does not include 1.\<newline>- Those numbers for which this process ends in 1 are happy.\<newline>\<newline>Return `true` if `n` is a happy number, and `false` if not.'',
        np_constraints = [''1 <= n <= 2^31 - 1''],
        np_solution = Some ''Use Floyd's cycle detection (slow/fast pointers) or a hash set. Repeatedly compute the sum of squares of digits. If you reach 1, return true. If you detect a cycle, return false.'',
        np_timeLimitMs = 5000, np_source = ''curated'', np_sourceUrl = None\<rparr>,
      fx_testCases = [
          fx_case [(''n'', jint 19)] (JBool True) True 0,
          fx_case [(''n'', jint 2)] (JBool False) True 1,
          fx_case [(''n'', jint 1)] (JBool True) True 2,
          fx_case [(''n'', jint 7)] (JBool True) False 3,
          fx_case [(''n'', jint 4)] (JBool False) False 4,
          fx_case [(''n'', jint 100)] (JBool True) False 5,
          fx_case [(''n'', jint 3)] (JBool False) False 6,
          fx_case [(''n'', jint 23)] (JBool True) False 7],
      fx_boilerplate = \<lparr>nb_language = ''python'', nb_template = ''class Solution:\<newline>    def isHappy(self, n: int) -> bool:\<newline>        pass'',
        nb_methodName = ''isHappy'', nb_parameterNames = [''n'']\<rparr>,
      fx_hints = [
        \<lparr>nh_hintText = ''The process either reaches 1 or enters an infinite cycle. Use a set to detect cycles, or apply Floyd's slow/fast pointer technique on the sequence of digit-square sums.'', nh_orderIndex = 0\<rparr>]\<rparr>"

definition plus_one_fixture :: fixture where
  "plus_one_fixture =
     \<lparr>fx_problem = \<lparr>np_slug = ''plus-one'', np_title = ''Plus One'', np_difficulty = ''easy'',
        np_category = ''Math & Geometry'',
        np_description = ''You are given a large integer represented as an integer array `digits`, where each `digits[i]` is the `i`th digit of the integer. The digits are ordered from most significant to least significant in left-to-right order. The large integer does not contain any leading `0`'s.\<newline>\<newline>Increment the large integer by one and return the resulting array of digits.'',
        np_constraints = [''1 <= digits.length <= 100'', ''0 <= digits[i] <= 9'', ''digits does not contain any leading 0's.''],
        np_solution = Some ''Iterate from the last digit. If it is less than 9, increment and return. If it is 9, set it to 0 and continue to the next digit. If all digits were 9, prepend a 1.'',
        np_timeLimitMs = 5000, np_source = ''curated'', np_sourceUrl = None\<rparr>,
      fx_testCases = [
          fx_case [(''digits'', jints [1, 2, 3])] (jints [1, 2, 4]) True 0,
          fx_case [(''digits'', jints [4, 3, 2, 1])] (jints [4, 3, 2, 2]) True 1,
          fx_case [(''digits'', jints [9])] (jints [1, 0]) True 2,
          fx_case [(''digits'', jints [0])] (jints [1]) False 3,
          fx_case [(''digits'', jints [9, 9, 9])] (jints [1, 0, 0, 0]) False 4,
          fx_case [(''digits'', jints [1, 0, 0])] (jints [1, 0, 1]) False 5,
          fx_case [(''digits'', jints [8, 9, 9])] (jints [9, 0, 0]) False 6,
          fx_case [(''digits'', jints [1])] (jints [2]) False 7],
      fx_boilerplate = \<lparr>nb_language = ''python'', nb_template = ''class Solution:\<newline>    def plusOne(self, digits: List[int]) -> List[int]:\<newline>        pass'',
        nb_methodName = ''plusOne'', nb_parameterNames = [''digits'']\<rparr>,
      fx_hints = [
        \<lparr>nh_hintText = ''Start from the rightmost digit and handle the carry. A digit of 9 becomes 0 with a carry of 1. If the carry propagates past the first digit, prepend 1 to the result.'', nh_orderIndex = 0\<rparr>]\<rparr>"

definition rotate_image_fixture :: fixture where
  "rotate_image_fixture =
     \<lparr>fx_problem = \<lparr>np_slug = ''rotate-image'', np_title = ''Rotate Image'', np_difficulty = ''medium'',
        np_category = ''Math & Geometry'',
        np_description = ''You are given an `n x n` 2D `matrix` representing an image, rotate the image by 90 degrees (clockwise).\<newline>\<newline>You have to rotate the image in-place, which means you have to modify the input 2D matrix directly. DO NOT allocate another 2D matrix and do the rotation.\<newline>\<newline>Return the rotated matrix.'',
        np_constraints = [''n == matrix.length == matrix[i].length'', ''1 <= n <= 20'', ''-1000 <= matrix[i][j] <= 1000''],
        np_solution = Some ''Transpose the matrix (swap matrix[i][j] with matrix[j][i] for i < j), then reverse each row. This achieves a 90-degree clockwise rotation in-place.'',
        np_timeLimitMs = 5000, np_source = ''curated'', np_sourceUrl = None\<rparr>,
      fx_testCases = [
          fx_case [(''matrix'', JArr [jints [1, 2, 3], jints [4, 5, 6], jints [7, 8, 9]])] (JArr [jints [7, 4, 1],
            jints [8, 5, 2], jints [9, 6, 3]]) True 0,
          fx_case [(''matrix'', JArr [jints [5, 1, 9, 11], jints [2, 4, 8, 10], jints [13, 3, 6, 7], jints [15, 14,
            12, 16]])] (JArr [jints [15, 13, 2, 5], jints [14, 3, 4, 1], jints [12, 6, 8, 9], jints [16, 7, 10,
            11]]) True 1,
          fx_case [(''matrix'', JArr [jints [1]])] (JArr [jints [1]]) True 2,
          fx_case [(''matrix'', JArr [jints [1, 2], jints [3, 4]])] (JArr [jints [3, 1], jints [4, 2]]) False 3,
          fx_case [(''matrix'', JArr [jints [0, 0], jints [0, 0]])] (JArr [jints [0, 0], jints [0, 0]]) False 4,
          fx_case [(''matrix'', JArr [jints [- 1, - 2], jints [- 3, - 4]])] (JArr [jints [- 3, - 1], jints [- 4,
            - 2]]) False 5,
          fx_case [(''matrix'', JArr [jints [1, 2, 3], jints [4, 5, 6], jints [7, 8, 9]])] (JArr [jints [7, 4, 1],
            jints [8, 5, 2], jints [9, 6, 3]]) False 6,
          fx_case [(''matrix'', JArr [jints [1, 0], jints [0, 1]])] (JArr [jints [0, 1], jints [1, 0]]) False 7],
      fx_boilerplate = \<lparr>nb_language = ''python'', nb_template = ''class Solution:\<newline>    def rotate(self, matrix: List[List[int]]) -> List[List[int]]:\<newline>        pass'',
        nb_methodName = ''rotate'', nb_parameterNames = [''matrix'']\<rparr>,
      fx_hints = [
        \<lparr>nh_hintText = ''A 90-degree clockwise rotation can be decomposed into two simpler operations: transpose and then reverse each row.'', nh_orderIndex = 0\<rparr>,
        \<lparr>nh_hintText = ''First transpose the matrix (swap matrix[i][j] with matrix[j][i]). Then reverse each row. This produces the 90-degree clockwise rotation.'', nh_orderIndex = 1\<rparr>]\<rparr>"

definition spiral_matrix_fixture :: fixture where
  "spiral_matrix_fixture =
     \<lparr>fx_problem = \<lparr>np_slug = ''spiral-matrix'', np_title = ''Spiral Matrix'', np_difficulty = ''medium'',
        np_category = ''Math & Geometry'',
        np_description = ''Given an `m x n` `matrix`, return all elements of the `matrix` in spiral order.'',
        np_constraints = [''m == matrix.length'', ''n == matrix[i].length'', ''1 <= m, n <= 10'', ''-100 <= matrix[i][j] <= 100''],
        np_solution = Some ''Use four boundaries: top, bottom, left, right. Traverse right along the top row, down along the right column, left along the bottom row, and up along the left column. Shrink boundaries after each traversal.'',
        np_timeLimitMs = 5000, np_source = ''curated'', np_sourceUrl = None\<rparr>,
      fx_testCases = [
          fx_case [(''matrix'', JArr [jints [1, 2, 3], jints [4, 5, 6], jints [7, 8, 9]])] (jints [1, 2, 3, 6, 9, 8,
            7, 4, 5]) True 0,
          fx_case [(''matrix'', JArr [jints [1, 2, 3, 4], jints [5, 6, 7, 8], jints [9, 10, 11, 12]])] (jints [1, 2,
            3, 4, 8, 12, 11, 10, 9, 5, 6, 7]) True 1,
          fx_case [(''matrix'', JArr [jints [1]])] (jints [1]) True 2,
          fx_case [(''matrix'', JArr [jints [1, 2], jints [3, 4]])] (jints [1, 2, 4, 3]) False 3,
          fx_case [(''matrix'', JArr [jints [1, 2, 3]])] (jints [1, 2, 3]) False 4,
          fx_case [(''matrix'', JArr [jints [1], jints [2], jints [3]])] (jints [1, 2, 3]) False 5,
          fx_case [(''matrix'', JArr [jints [1, 2], jints [3, 4], jints [5, 6]])] (jints [1, 2, 4, 6, 5, 3]) False 6,
          fx_case [(''matrix'', JArr [jints [6, 9, 7]])] (jints [6, 9, 7]) False 7],
      fx_boilerplate = \<lparr>nb_language = ''python'', nb_template = ''class Solution:\<newline>    def spiralOrder(self, matrix: List[List[int]]) -> List[int]:\<newline>        pass'',
        nb_methodName = ''spiralOrder'', nb_parameterNames = [''matrix'']\<rparr>,
      fx_hints = [
        \<lparr>nh_hintText = ''Simulate the spiral by maintaining four boundaries (top, bottom, left, right) and shrinking them as you traverse each edge.'', nh_orderIndex = 0\<rparr>,
        \<lparr>nh_hintText = ''Traverse right along the top boundary, then down along the right, then left along the bottom, then up along the left. After each direction, shrink the corresponding boundary and check if boundaries have crossed.'', nh_orderIndex = 1\<rparr>]\<rparr>"

definition set_matrix_zeroes_fixture :: fixture where
  "set_matrix_zeroes_fixture =
     \<lparr>fx_problem = \<lparr>np_slug = ''set-matrix-zeroes'', np_title = ''Set Matrix Zeroes'', np_difficulty = ''medium'',
        np_category = ''Math & Geometry'',
        np_description = ''Given an `m x n` integer `matrix`, if an element is `0`, set its entire row and column to `0`'s.\<newline>\<newline>You must do it in place. Return the modified matrix.'',
        np_constraints = [''m == matrix.length'', ''n == matrix[0].length'', ''1 <= m, n <= 200'', ''-2^31 <= matrix[i][j] <= 2^31 - 1''],
        np_solution = Some ''Use the first row and first column as markers. First, record whether the first row/column themselves contain zeros. Then scan the rest of the matrix: if matrix[i][j] is 0, mark matrix[i][0] and matrix[0][j] as 0. Finally, zero out cells based on markers.'',
        np_timeLimitMs = 5000, np_source = ''curated'', np_sourceUrl = None\<rparr>,
      fx_testCases = [
          fx_case [(''matrix'', JArr [jints [1, 1, 1], jints [1, 0, 1], jints [1, 1, 1]])] (JArr [jints [1, 0, 1],
            jints [0, 0, 0], jints [1, 0, 1]]) True 0,
          fx_case [(''matrix'', JArr [jints [0, 1, 2, 0], jints [3, 4, 5, 2], jints [1, 3, 1, 5]])] (JArr [jints [0,
            0, 0, 0], jints [0, 4, 5, 0], jints [0, 3, 1, 0]]) True 1,
          fx_case [(''matrix'', JArr [jints [1]])] (JArr [jints [1]]) True 2,
          fx_case [(''matrix'', JArr [jints [0]])] (JArr [jints [0]]) False 3,
          fx_case [(''matrix'', JArr [jints [1, 0]])] (JArr [jints [0, 0]]) False 4,
          fx_case [(''matrix'', JArr [jints [1, 2, 3], jints [4, 5, 6]])] (JArr [jints [1, 2, 3], jints [4, 5,
            6]]) False 5,
          fx_case [(''matrix'', JArr [jints [0, 0, 0], jints [0, 0, 0]])] (JArr [jints [0, 0, 0], jints [0, 0,
            0]]) False 6,
          fx_case [(''matrix'', JArr [jints [1, 2], jints [3, 0]])] (JArr [jints [1, 0], jints [0, 0]]) False 7],
      fx_boilerplate = \<lparr>nb_language = ''python'', nb_template = ''class Solution:\<newline>    def setZeroes(self, matrix: List[List[int]]) -> List[List[int]]:\<newline>        pass'',
        nb_methodName = ''setZeroes'', nb_parameterNames = [''matrix'']\<rparr>,
      fx_hints = [
        \<lparr>nh_hintText = ''You need to know which rows and columns should be zeroed before modifying the matrix. Can you use the matrix itself to store this information?'', nh_orderIndex = 0\<rparr>,
        \<lparr>nh_hintText = ''Use the first row and first column as flags. If matrix[i][j] == 0, set matrix[i][0] = 0 and matrix[0][j] = 0. Then use these flags to zero out the matrix. Handle the first row and column separately.'', nh_orderIndex = 1\<rparr>]\<rparr>"

definition powx_n_fixture :: fixture where
  "powx_n_fixture =
     \<lparr>fx_problem = \<lparr>np_slug = ''powx-n'', np_title = ''Pow(x, n)'', np_difficulty = ''medium'',
        np_category = ''Math & Geometry'',
        np_description = ''Implement `pow(x, n)`, which calculates `x` raised to the power `n` (i.e., `x^n`).'',
        np_constraints = [''-100.0 < x < 100.0'', ''-2^31 <= n <= 2^31 - 1'', ''n is an integer.'', ''Either x is not zero or n > 0.'', ''-10^4 <= x^n <= 10^4''],
        np_solution = Some ''Use fast exponentiation (binary exponentiation). If n is negative, compute 1/x^(-n). Square x and halve n repeatedly, multiplying the result when n is odd.'',
        np_timeLimitMs = 5000, np_source = ''curated'', np_sourceUrl = None\<rparr>,
      fx_testCases = [
          fx_case [(''x'', jdec 20 1), (''n'', jint 10)] (jdec 10240 1) True 0,
          fx_case [(''x'', jdec 21 1), (''n'', jint 3)] (jdec 9261 3) True 1,
          fx_case [(''x'', jdec 20 1), (''n'', jint (- 2))] (jdec 25 2) True 2,
          fx_case [(''x'', jdec 10 1), (''n'', jint 0)] (jdec 10 1) False 3,
          fx_case [(''x'', jdec 0 1), (''n'', jint 5)] (jdec 0 1) False 4,
          fx_case [(''x'', jdec (- 20) 1), (''n'', jint 3)] (jdec (- 80) 1) False 5,
          fx_case [(''x'', jdec (- 20) 1), (''n'', jint 2)] (jdec 40 1) False 6,
          fx_case [(''x'', jdec 10 1), (''n'', jint 2147483647)] (jdec 10 1) False 7],
      fx_boilerplate = \<lparr>nb_language = ''python'', nb_template = ''class Solution:\<newline>    def myPow(self, x: float, n: int) -> float:\<newline>        pass'',
        nb_methodName = ''myPow'', nb_parameterNames = [''x'', ''n'']\<rparr>,
      fx_hints = [
        \<lparr>nh_hintText = ''Naive repeated multiplication is too slow for large n. Think about how you can reduce the number of multiplications by exploiting the property x^n = (x^(n/2))^2.'', nh_orderIndex = 0\<rparr>,
        \<lparr>nh_hintText = ''Use binary exponentiation: if n is even, x^n = (x^2)^(n/2). If n is odd, x^n = x * x^(n-1). Handle negative n by computing 1 / x^(-n).'', nh_orderIndex = 1\<rparr>]\<rparr>"

definition multiply_strings_fixture :: fixture where
  "multiply_strings_fixture =
     \<lparr>fx_problem = \<lparr>np_slug = ''multiply-strings'', np_title = ''Multiply Strings'', np_difficulty = ''medium'',
        np_category = ''Math & Geometry'',
        np_description = ''Given two non-negative integers `num1` and `num2` represented as strings, return the product of `num1` and `num2`, also represented as a string.\<newline>\<newline>Note: You must not use any built-in BigInteger library or convert the inputs to integer directly.'',
        np_constraints = [''1 <= num1.length, num2.length <= 200'', ''num1 and num2 consist of digits only.'', ''Both num1 and num2 do not contain any leading zero, except the number 0 itself.''],
        np_solution = Some ''Simulate grade-school multiplication. Use a result array of size m+n. For each pair of digits, add their product to the appropriate position, handling carries. Strip leading zeros from the result.'',
        np_timeLimitMs = 5000, np_source = ''curated'', np_sourceUrl = None\<rparr>,
      fx_testCases = [
          fx_case [(''num1'', JStr ''2''), (''num2'', JStr ''3'')] (JStr ''6'') True 0,
          fx_case [(''num1'', JStr ''123''), (''num2'', JStr ''456'')] (JStr ''56088'') True 1,
          fx_case [(''num1'', JStr ''0''), (''num2'', JStr ''0'')] (JStr ''0'') True 2,
          fx_case [(''num1'', JStr ''999''), (''num2'', JStr ''999'')] (JStr ''998001'') False 3,
          fx_case [(''num1'', JStr ''1''), (''num2'', JStr ''1'')] (JStr ''1'') False 4,
          fx_case [(''num1'', JStr ''100''), (''num2'', JStr ''100'')] (JStr ''10000'') False 5,
          fx_case [(''num1'', JStr ''12''), (''num2'', JStr ''0'')] (JStr ''0'') False 6,
          fx_case [(''num1'', JStr ''9133''), (''num2'', JStr ''0'')] (JStr ''0'') False 7],
      fx_boilerplate = \<lparr>nb_language = ''python'', nb_template = ''class Solution:\<newline>    def multiply(self, num1: str, num2: str) -> str:\<newline>        pass'',
        nb_methodName = ''multiply'', nb_parameterNames = [''num1'', ''num2'']\<rparr>,
      fx_hints = [
        \<lparr>nh_hintText = ''Think about how you multiply numbers by hand. The digit at position i of num1 and position j of num2 contributes to position i+j and i+j+1 of the result.'', nh_orderIndex = 0\<rparr>,
        \<lparr>nh_hintText = ''Create a result array of size len(num1) + len(num2). For each pair of digits, multiply and add to result[i+j+1], carrying over to result[i+j]. Convert the array to a string, stripping leading zeros.'', nh_orderIndex = 1\<rparr>]\<rparr>"

definition detect_squares_fixture :: fixture where
  "detect_squares_fixture =
     \<lparr>fx_problem = \<lparr>np_slug = ''detect-squares'', np_title = ''Detect Squares'', np_difficulty = ''medium'',
        np_category = ''Math & Geometry'',
        np_description = ''You are given a stream of points on the X-Y plane. Design a data structure that supports:\<newline>\<newline>- `add(point)` -- Adds a new point `point = [x, y]` to the data structure. Duplicate points are allowed and should be treated as separate points.\<newline>- `count(point)` -- Given a query point `point = [x, y]`, counts the number of ways to form axis-aligned squares with the query point as one corner and three other points from the data structure as the other three corners. An axis-aligned square has its sides parallel to the x and y axes.\<newline>\<newline>Implement the `DetectSquares` class:\<newline>\<newline>- `DetectSquares()` Initializes the object with an empty data structure.\<newline>- `void add(int[] point)` Adds a new point.\<newline>- `int count(int[] point)` Returns the count of axis-aligned squares as described above.'',
        np_constraints = [''point.length == 2'', ''0 <= x, y <= 1000'', ''At most 3000 calls in total will be made to add and count.''],
        np_solution = Some ''Use a hash map counting point frequencies. For count(px, py), iterate over all points (qx, qy) that form a diagonal. The side length is |px - qx| which must equal |py - qy|. Check if the other two corners exist and multiply their frequencies.'',
        np_timeLimitMs = 5000, np_source = ''curated'', np_sourceUrl = None\<rparr>,
      fx_testCases = [
          fx_case [(''operations'', jstrs [''add'', ''add'', ''add'', ''count'', ''count'', ''add'', ''count'']),
            (''args'', JArr [JArr [jints [3, 10]], JArr [jints [11, 2]], JArr [jints [3, 2]], JArr [jints [11, 10]],
            JArr [jints [14, 8]], JArr [jints [11, 2]], JArr [jints [11, 10]]])] (JArr [JNull, JNull, JNull, jint 1,
            jint 0, JNull, jint 2]) True 0,
          fx_case [(''operations'', jstrs [''add'', ''add'', ''add'', ''add'', ''count'']), (''args'',
            JArr [JArr [jints [0, 0]], JArr [jints [0, 1]], JArr [jints [1, 0]], JArr [jints [1, 1]], JArr [jints [0,
            0]]])] (JArr [JNull, JNull, JNull, JNull, jint 1]) True 1,
          fx_case [(''operations'', jstrs [''count'']), (''args'', JArr [JArr [jints [0, 0]]])] (jints [0]) True 2,
          fx_case [(''operations'', jstrs [''add'', ''count'']), (''args'', JArr [JArr [jints [1, 1]],
            JArr [jints [1, 1]]])] (JArr [JNull, jint 0]) False 3,
          fx_case [(''operations'', jstrs [''add'', ''add'', ''add'', ''add'', ''count'']), (''args'',
            JArr [JArr [jints [0, 0]], JArr [jints [0, 2]], JArr [jints [2, 0]], JArr [jints [2, 2]], JArr [jints [0,
            0]]])] (JArr [JNull, JNull, JNull, JNull, jint 1]) False 4,
          fx_case [(''operations'', jstrs [''add'', ''add'', ''add'', ''add'', ''add'', ''add'', ''add'', ''add'',
            ''count'']), (''args'', JArr [JArr [jints [0, 0]], JArr [jints [0, 1]], JArr [jints [1, 0]],
            JArr [jints [1, 1]], JArr [jints [0, 0]], JArr [jints [0, 1]], JArr [jints [1, 0]], JArr [jints [1, 1]],
            JArr [jints [0, 0]]])] (JArr [JNull, JNull, JNull, JNull, JNull, JNull, JNull, JNull, jint 4]) False 5,
          fx_case [(''operations'', jstrs [''add'', ''add'', ''add'', ''add'', ''count'', ''count'']), (''args'',
            JArr [JArr [jints [5, 5]], JArr [jints [5, 8]], JArr [jints [8, 5]], JArr [jints [8, 8]], JArr [jints [5,
            5]], JArr [jints [5, 8]]])] (JArr [JNull, JNull, JNull, JNull, jint 1, jint 1]) False 6,
          fx_case [(''operations'', jstrs [''add'', ''add'', ''count'']), (''args'', JArr [JArr [jints [0, 0]],
            JArr [jints [1, 1]], JArr [jints [0, 1]]])] (JArr [JNull, JNull, jint 0]) False 7],
      fx_boilerplate = \<lparr>nb_language = ''python'', nb_template = ''class DetectSquares:\<newline>    def __init__(self):\<newline>        pass\<newline>\<newline>    def add(self, point: List[int]) -> None:\<newline>        pass\<newline>\<newline>    def count(self, point: List[int]) -> int:\<newline>        pass'',
        nb_methodName = ''DetectSquares'', nb_parameterNames = []\<rparr>,
      fx_hints = [
        \<lparr>nh_hintText = ''For a given query point, you need to find diagonal points that could form an axis-aligned square. The key constraint is |dx| == |dy| and both must be nonzero.'', nh_orderIndex = 0\<rparr>,
        \<lparr>nh_hintText = ''Store point frequencies in a hash map. For count(px, py), iterate over all stored points (qx, qy) where |px - qx| == |py - qy| != 0. Multiply the frequencies of the two other corners: (px, qy) and (qx, py).'', nh_orderIndex = 1\<rparr>]\<rparr>"

definition mathGeometryProblems :: "fixture list" where
  "mathGeometryProblems =
     [happy_number_fixture,
      plus_one_fixture,
      rotate_image_fixture,
      spiral_matrix_fixture,
      set_matrix_zeroes_fixture,
      powx_n_fixture,
      multiply_strings_fixture,
      detect_squares_fixture]"

lemma mathGeometryProblems_facts:
  "map seed_facts mathGeometryProblems =
     [(''happy-number'', True, True, True),
      (''plus-one'', True, True, True),
      (''rotate-image'', True, True, True),
      (''spiral-matrix'', True, True, True),
      (''set-matrix-zeroes'', True, True, True),
      (''powx-n'', True, True, True),
      (''multiply-strings'', True, True, True),
      (''detect-squares'', True, False, True)]"
  by (simp add: mathGeometryProblems_def seed_evaluation cong: seed_congs add:
      happy_number_fixture_def
      plus_one_fixture_def
      rotate_image_fixture_def
      spiral_matrix_fixture_def
      set_matrix_zeroes_fixture_def
      powx_n_fixture_def
      multiply_strings_fixture_def
      detect_squares_fixture_def)


section \<open>bit manipulation\<close>

definition single_number_fixture :: fixture where
  "single_number_fixture =
     \<lparr>fx_problem = \<lparr>np_slug = ''single-number'', np_title = ''Single Number'', np_difficulty = ''easy'',
        np_category = ''Bit Manipulation'',
        np_description = ''Given a non-empty array of integers `nums`, every element appears twice except for one. Find that single one.\<newline>\<newline>You must implement a solution with a linear runtime complexity and use only constant extra space.'',
        np_constraints = [''1 <= nums.length <= 3 * 10^4'', ''-3 * 10^4 <= nums[i] <= 3 * 10^4'', ''Each element in the array appears twice except for one element which appears only once.''],
        np_solution = Some ''XOR all elements together. Since a XOR a = 0 and a XOR 0 = a, all duplicate pairs cancel out, leaving only the single number.'',
        np_timeLimitMs = 5000, np_source = ''curated'', np_sourceUrl = None\<rparr>,
      fx_testCases = [
          fx_case [(''nums'', jints [2, 2, 1])] (jint 1) True 0,
          fx_case [(''nums'', jints [4, 1, 2, 1, 2])] (jint 4) True 1,
          fx_case [(''nums'', jints [1])] (jint 1) True 2,
          fx_case [(''nums'', jints [- 1, - 1, 2])] (jint 2) False 3,
          fx_case [(''nums'', jints [0, 1, 0])] (jint 1) False 4,
          fx_case [(''nums'', jints [5, 3, 5])] (jint 3) False 5,
          fx_case [(''nums'', jints [100, 200, 100])] (jint 200) False 6,
          fx_case [(''nums'', jints [- 30000, 30000, - 30000])] (jint 30000) False 7],
      fx_boilerplate = \<lparr>nb_language = ''python'', nb_template = ''class Solution:\<newline>    def singleNumber(self, nums: List[int]) -> int:\<newline>        pass'',
        nb_methodName = ''singleNumber'', nb_parameterNames = [''nums'']\<rparr>,
      fx_hints = [
        \<lparr>nh_hintText = ''XOR has the property that a ^ a = 0 and a ^ 0 = a. XOR all the numbers together and the duplicates will cancel out, leaving the single number.'', nh_orderIndex = 0\<rparr>]\<rparr>"

definition number_of_1_bits_fixture :: fixture where
  "number_of_1_bits_fixture =
     \<lparr>fx_problem = \<lparr>np_slug = ''number-of-1-bits'', np_title = ''Number of 1 Bits'', np_difficulty = ''easy'',
        np_category = ''Bit Manipulation'',
        np_description = ''Write a function that takes the binary representation of a positive integer and returns the number of set bits it has (also known as the Hamming weight).'',
        np_constraints = [''1 <= n <= 2^31 - 1''],
        np_solution = Some ''Use the trick n & (n - 1) to clear the lowest set bit. Count how many times you can do this before n becomes 0. Each iteration removes exactly one set bit.'',
        np_timeLimitMs = 5000, np_source = ''curated'', np_sourceUrl = None\<rparr>,
      fx_testCases = [
          fx_case [(''n'', jint 11)] (jint 3) True 0,
          fx_case [(''n'', jint 128)] (jint 1) True 1,
          fx_case [(''n'', jint 2147483645)] (jint 30) True 2,
          fx_case [(''n'', jint 1)] (jint 1) False 3,
          fx_case [(''n'', jint 7)] (jint 3) False 4,
          fx_case [(''n'', jint 15)] (jint 4) False 5,
          fx_case [(''n'', jint 255)] (jint 8) False 6,
          fx_case [(''n'', jint 1023)] (jint 10) False 7],
      fx_boilerplate = \<lparr>nb_language = ''python'', nb_template = ''class Solution:\<newline>    def hammingWeight(self, n: int) -> int:\<newline>        pass'',
        nb_methodName = ''hammingWeight'', nb_parameterNames = [''n'']\<rparr>,
      fx_hints = [
        \<lparr>nh_hintText = ''The operation n & (n - 1) clears the lowest set bit of n. Count how many times you can perform this operation before n becomes 0.'', nh_orderIndex = 0\<rparr>]\<rparr>"

definition counting_bits_fixture :: fixture where
  "counting_bits_fixture =
     \<lparr>fx_problem = \<lparr>np_slug = ''counting-bits'', np_title = ''Counting Bits'', np_difficulty = ''easy'',
        np_category = ''Bit Manipulation'',
        np_description = ''Given an integer `n`, return an array `ans` of length `n + 1` such that for each `i` (`0 <= i <= n`), `ans[i]` is the number of `1`'s in the binary representation of `i`.'',
        np_constraints = [''0 <= n <= 10^5''],
        np_solution = Some ''Use the DP relation: the number of 1 bits in i equals the number of 1 bits in i >> 1 (right shift) plus i & 1 (the last bit). This builds the answer iteratively.'',
        np_timeLimitMs = 5000, np_source = ''curated'', np_sourceUrl = None\<rparr>,
      fx_testCases = [
          fx_case [(''n'', jint 2)] (jints [0, 1, 1]) True 0,
          fx_case [(''n'', jint 5)] (jints [0, 1, 1, 2, 1, 2]) True 1,
          fx_case [(''n'', jint 0)] (jints [0]) True 2,
          fx_case [(''n'', jint 1)] (jints [0, 1]) False 3,
          fx_case [(''n'', jint 3)] (jints [0, 1, 1, 2]) False 4,
          fx_case [(''n'', jint 7)] (jints [0, 1, 1, 2, 1, 2, 2, 3]) False 5,
          fx_case [(''n'', jint 8)] (jints [0, 1, 1, 2, 1, 2, 2, 3, 1]) False 6,
          fx_case [(''n'', jint 10)] (jints [0, 1, 1, 2, 1, 2, 2, 3, 1, 2, 2]) False 7],
      fx_boilerplate = \<lparr>nb_language = ''python'', nb_template = ''class Solution:\<newline>    def countBits(self, n: int) -> List[int]:\<newline>        pass'',
        nb_methodName = ''countBits'', nb_parameterNames = [''n'']\<rparr>,
      fx_hints = [
        \<lparr>nh_hintText = ''Use the relation: countBits(i) = countBits(i >> 1) + (i & 1). The number of set bits in i is the same as i with its last bit removed, plus whether the last bit is set.'', nh_orderIndex = 0\<rparr>]\<rparr>"

definition reverse_bits_fixture :: fixture where
  "reverse_bits_fixture =
     \<lparr>fx_problem = \<lparr>np_slug = ''reverse-bits'', np_title = ''Reverse Bits'', np_difficulty = ''easy'',
        np_category = ''Bit Manipulation'',
        np_description = ''Reverse bits of a given 32 bits unsigned integer.\<newline>\<newline>Note that in some languages, there is no unsigned integer type. The input will be given as a signed integer, but the output should still represent the unsigned integer's binary reversal.'',
        np_constraints = [''The input must be a binary string of length 32.''],
        np_solution = Some ''Iterate through 32 bits. Shift the result left by 1 and add the least significant bit of n. Then right shift n by 1. Repeat 32 times.'',
        np_timeLimitMs = 5000, np_source = ''curated'', np_sourceUrl = None\<rparr>,
      fx_testCases = [
          fx_case [(''n'', jint 43261596)] (jint 964176192) True 0,
          fx_case [(''n'', jint 4294967293)] (jint 3221225471) True 1,
          fx_case [(''n'', jint 0)] (jint 0) True 2,
          fx_case [(''n'', jint 1)] (jint 2147483648) False 3,
          fx_case [(''n'', jint 2147483648)] (jint 1) False 4,
          fx_case [(''n'', jint 4294967295)] (jint 4294967295) False 5,
          fx_case [(''n'', jint 2)] (jint 1073741824) False 6,
          fx_case [(''n'', jint 3)] (jint 3221225472) False 7],
      fx_boilerplate = \<lparr>nb_language = ''python'', nb_template = ''class Solution:\<newline>    def reverseBits(self, n: int) -> int:\<newline>        pass'',
        nb_methodName = ''reverseBits'', nb_parameterNames = [''n'']\<rparr>,
      fx_hints = [
        \<lparr>nh_hintText = ''Process one bit at a time. Extract the least significant bit of n, shift your result left to make room, and append the extracted bit. Do this 32 times.'', nh_orderIndex = 0\<rparr>]\<rparr>"

definition missing_number_fixture :: fixture where
  "missing_number_fixture =
     \<lparr>fx_problem = \<lparr>np_slug = ''missing-number'', np_title = ''Missing Number'', np_difficulty = ''easy'',
        np_category = ''Bit Manipulation'',
        np_description = ''Given an array `nums` containing `n` distinct numbers in the range `[0, n]`, return the only number in the range that is missing from the array.'',
        np_constraints = [''n == nums.length'', ''1 <= n <= 10^4'', ''0 <= nums[i] <= n'', ''All the numbers of nums are unique.''],
        np_solution = Some ''XOR all numbers from 0 to n with all elements in the array. Since XOR cancels out pairs, the remaining value is the missing number. Alternatively, use the sum formula n*(n+1)/2 minus the array sum.'',
        np_timeLimitMs = 5000, np_source = ''curated'', np_sourceUrl = None\<rparr>,
      fx_testCases = [
          fx_case [(''nums'', jints [3, 0, 1])] (jint 2) True 0,
          fx_case [(''nums'', jints [0, 1])] (jint 2) True 1,
          fx_case [(''nums'', jints [9, 6, 4, 2, 3, 5, 7, 0, 1])] (jint 8) True 2,
          fx_case [(''nums'', jints [0])] (jint 1) False 3,
          fx_case [(''nums'', jints [1])] (jint 0) False 4,
          fx_case [(''nums'', jints [1, 2, 3])] (jint 0) False 5,
          fx_case [(''nums'', jints [0, 1, 2, 3, 4, 5, 6, 7, 8])] (jint 9) False 6,
          fx_case [(''nums'', jints [0, 2])] (jint 1) False 7],
      fx_boilerplate = \<lparr>nb_language = ''python'', nb_template = ''class Solution:\<newline>    def missingNumber(self, nums: List[int]) -> int:\<newline>        pass'',
        nb_methodName = ''missingNumber'', nb_parameterNames = [''nums'']\<rparr>,
      fx_hints = [
        \<lparr>nh_hintText = ''XOR all indices 0..n with all array elements. Paired values cancel out (a ^ a = 0), leaving only the missing number. Alternatively, compute n*(n+1)/2 - sum(nums).'', nh_orderIndex = 0\<rparr>]\<rparr>"

definition sum_of_two_integers_fixture :: fixture where
  "sum_of_two_integers_fixture =
     \<lparr>fx_problem = \<lparr>np_slug = ''sum-of-two-integers'', np_title = ''Sum of Two Integers'', np_difficulty = ''medium'',
        np_category = ''Bit Manipulation'',
        np_description = ''Given two integers `a` and `b`, return the sum of the two integers without using the operators `+` and `-`.'',
        np_constraints = [''-1000 <= a, b <= 1000''],
        np_solution = Some ''Use bitwise operations: XOR gives the sum without carry, AND shifted left gives the carry. Repeat until carry is 0. In Python, use a 32-bit mask to handle negative numbers correctly.'',
        np_timeLimitMs = 5000, np_source = ''curated'', np_sourceUrl = None\<rparr>,
      fx_testCases = [
          fx_case [(''a'', jint 1), (''b'', jint 2)] (jint 3) True 0,
          fx_case [(''a'', jint 2), (''b'', jint 3)] (jint 5) True 1,
          fx_case [(''a'', jint 0), (''b'', jint 0)] (jint 0) True 2,
          fx_case [(''a'', jint (- 1)), (''b'', jint 1)] (jint 0) False 3,
          fx_case [(''a'', jint (- 1)), (''b'', jint (- 1))] (jint (- 2)) False 4,
          fx_case [(''a'', jint 100), (''b'', jint 200)] (jint 300) False 5,
          fx_case [(''a'', jint (- 500)), (''b'', jint 500)] (jint 0) False 6,
          fx_case [(''a'', jint 1000), (''b'', jint (- 1000))] (jint 0) False 7],
      fx_boilerplate = \<lparr>nb_language = ''python'', nb_template = ''class Solution:\<newline>    def getSum(self, a: int, b: int) -> int:\<newline>        pass'',
        nb_methodName = ''getSum'', nb_parameterNames = [''a'', ''b'']\<rparr>,
      fx_hints = [
        \<lparr>nh_hintText = ''XOR (^) computes the sum without considering carry. AND (&) shifted left by 1 computes the carry. Repeat this process until the carry is 0.'', nh_orderIndex = 0\<rparr>,
        \<lparr>nh_hintText = ''In Python, integers have arbitrary precision, so you need a 32-bit mask (0xFFFFFFFF) to simulate 32-bit overflow. After the loop, if the result exceeds 0x7FFFFFFF, convert it back to a negative number.'', nh_orderIndex = 1\<rparr>]\<rparr>"

definition reverse_integer_fixture :: fixture where
  "reverse_integer_fixture =
     \<lparr>fx_problem = \<lparr>np_slug = ''reverse-integer'', np_title = ''Reverse Integer'', np_difficulty = ''medium'',
        np_category = ''Bit Manipulation'',
        np_description = ''Given a signed 32-bit integer `x`, return `x` with its digits reversed. If reversing `x` causes the value to go outside the signed 32-bit integer range `[-2^31, 2^31 - 1]`, then return `0`.\<newline>\<newline>Assume the environment does not allow you to store 64-bit integers (signed or unsigned).'',
        np_constraints = [''-2^31 <= x <= 2^31 - 1''],
        np_solution = Some ''Extract digits from the end using modulo and division. Build the reversed number digit by digit. Before each multiplication by 10, check for overflow against INT_MAX/10 and INT_MIN/10.'',
        np_timeLimitMs = 5000, np_source = ''curated'', np_sourceUrl = None\<rparr>,
      fx_testCases = [
          fx_case [(''x'', jint 123)] (jint 321) True 0,
          fx_case [(''x'', jint (- 123))] (jint (- 321)) True 1,
          fx_case [(''x'', jint 120)] (jint 21) True 2,
          fx_case [(''x'', jint 0)] (jint 0) False 3,
          fx_case [(''x'', jint 1534236469)] (jint 0) False 4,
          fx_case [(''x'', jint (- 2147483648))] (jint 0) False 5,
          fx_case [(''x'', jint 2147483647)] (jint 0) False 6,
          fx_case [(''x'', jint 10)] (jint 1) False 7],
      fx_boilerplate = \<lparr>nb_language = ''python'', nb_template = ''class Solution:\<newline>    def reverse(self, x: int) -> int:\<newline>        pass'',
        nb_methodName = ''reverse'', nb_parameterNames = [''x'']\<rparr>,
      fx_hints = [
        \<lparr>nh_hintText = ''Extract digits from the end using x % 10 and x // 10. Build the reversed number by multiplying by 10 and adding each digit.'', nh_orderIndex = 0\<rparr>,
        \<lparr>nh_hintText = ''Before appending each digit, check if the result would overflow the 32-bit signed integer range. If result > 2^31 / 10 (or the boundary case with remainder), return 0.'', nh_orderIndex = 1\<rparr>]\<rparr>"

definition bitManipulationProblems :: "fixture list" where
  "bitManipulationProblems =
     [single_number_fixture,
      number_of_1_bits_fixture,
      counting_bits_fixture,
      reverse_bits_fixture,
      missing_number_fixture,
      sum_of_two_integers_fixture,
      reverse_integer_fixture]"

lemma bitManipulationProblems_facts:
  "map seed_facts bitManipulationProblems =
     [(''single-number'', True, True, True),
      (''number-of-1-bits'', True, True, True),
      (''counting-bits'', True, True, True),
      (''reverse-bits'', True, True, True),
      (''missing-number'', True, True, True),
      (''sum-of-two-integers'', True, True, True),
      (''reverse-integer'', True, True, True)]"
  by (simp add: bitManipulationProblems_def seed_evaluation cong: seed_congs add:
      single_number_fixture_def
      number_of_1_bits_fixture_def
      counting_bits_fixture_def
      reverse_bits_fixture_def
      missing_number_fixture_def
      sum_of_two_integers_fixture_def
      reverse_integer_fixture_def)

end
