(* ===== verification/Seed_Catalogue.thy ===== *)
theory Seed_Catalogue
  imports Seed_Store Judge_Verdict
    Seed_Arrays Seed_Search Seed_Lists Seed_Trees Seed_Heap Seed_Graphs Seed_Dp Seed_Greedy Seed_Math
begin

text \<open>
  The shipped catalogue, \<^verbatim>\<open>packages/db/src/seeds/data/index.ts\<close>, and what the rest of the
  program makes of it: it can be stored, and which of its problems the judge can run.
\<close>

definition fixtures :: "fixture list" where
  "fixtures =
     arraysHashingProblems @
     twoPointersProblems @
     slidingWindowProblems @
     stackProblems @
     binarySearchProblems @
     linkedListProblems @
     treesProblems @
     triesProblems @
     heapProblems @
     backtrackingProblems @
     graphsProblems @
     advancedGraphsProblems @
     dp1dProblems @
     dp2dProblems @
     greedyProblems @
     intervalsProblems @
     mathGeometryProblems @
     bitManipulationProblems"

definition unjudgeable_slugs :: "string list" where
  "unjudgeable_slugs =
     [''copy-list-with-random-pointer'', ''invert-binary-tree'', ''maximum-depth-of-binary-tree'', ''diameter-of-binary-tree'',
      ''balanced-binary-tree'', ''same-tree'', ''subtree-of-another-tree'', ''lowest-common-ancestor-of-a-binary-search-tree'',
      ''binary-tree-level-order-traversal'', ''binary-tree-right-side-view'', ''count-good-nodes-in-binary-tree'', ''validate-binary-search-tree'',
      ''kth-smallest-element-in-a-bst'', ''binary-tree-maximum-path-sum'', ''serialize-and-deserialize-binary-tree'']"

definition operation_slugs :: "string list" where
  "operation_slugs =
     [''min-stack'', ''time-based-key-value-store'', ''linked-list-cycle'', ''lru-cache'',
      ''implement-trie-prefix-tree'', ''design-add-and-search-words-data-structure'', ''kth-largest-element-in-a-stream'', ''design-twitter'',
      ''find-median-from-data-stream'', ''clone-graph'', ''detect-squares'']"

lemma fixtures_facts:
  "map seed_facts fixtures =
     map seed_facts arraysHashingProblems @
     map seed_facts twoPointersProblems @
     map seed_facts slidingWindowProblems @
     map seed_facts stackProblems @
     map seed_facts binarySearchProblems @
     map seed_facts linkedListProblems @
     map seed_facts treesProblems @
     map seed_facts triesProblems @
     map seed_facts heapProblems @
     map seed_facts backtrackingProblems @
     map seed_facts graphsProblems @
     map seed_facts advancedGraphsProblems @
     map seed_facts dp1dProblems @
     map seed_facts dp2dProblems @
     map seed_facts greedyProblems @
     map seed_facts intervalsProblems @
     map seed_facts mathGeometryProblems @
     map seed_facts bitManipulationProblems"
  by (simp add: fixtures_def)

lemmas catalogue_facts =
  arraysHashingProblems_facts
  twoPointersProblems_facts
  slidingWindowProblems_facts
  stackProblems_facts
  binarySearchProblems_facts
  linkedListProblems_facts
  treesProblems_facts
  triesProblems_facts
  heapProblems_facts
  backtrackingProblems_facts
  graphsProblems_facts
  advancedGraphsProblems_facts
  dp1dProblems_facts
  dp2dProblems_facts
  greedyProblems_facts
  intervalsProblems_facts
  mathGeometryProblems_facts
  bitManipulationProblems_facts

lemma fixtures_slugs: "map fx_slug fixtures = map fst (map seed_facts fixtures)"
  by (simp add: seed_facts_def)

lemma fixtures_length: "length fixtures = 150"
proof -
  have "length fixtures = length (map seed_facts fixtures)" by simp
  then show ?thesis by (simp only: fixtures_facts catalogue_facts) simp
qed

lemma fixtures_good: "list_all good_fixture fixtures"
proof -
  have "list_all (\<lambda>(s, g, k, r). g) (map seed_facts fixtures)" by (simp only: fixtures_facts catalogue_facts) simp
  then show ?thesis by (simp add: list_all_iff seed_facts_def)
qed

text \<open>Two texts are told apart at the first character at which they differ.\<close>

lemma conj_left: "P = P' \<Longrightarrow> (P \<and> Q) = (P' \<and> Q)"
  by simp

lemma fixtures_distinct: "distinct (map fx_slug fixtures)"
  unfolding fixtures_slugs fixtures_facts catalogue_facts
  by (simp only: append.simps list.map fst_conv distinct.simps list.set insert_iff empty_iff list.inject list.distinct
      char.inject HOL.simp_thms de_Morgan_disj cong: conj_left)

text \<open>The rows that fail one of the tests, picked without comparing texts.\<close>

fun unread_rows :: "(string \<times> bool \<times> bool \<times> bool) list \<Rightarrow> string list" where
  "unread_rows [] = []"
| "unread_rows ((s, g, k, True) # rs) = unread_rows rs"
| "unread_rows ((s, g, k, False) # rs) = s # unread_rows rs"

fun unmatched_rows :: "(string \<times> bool \<times> bool \<times> bool) list \<Rightarrow> string list" where
  "unmatched_rows [] = []"
| "unmatched_rows ((s, g, True, r) # rs) = unmatched_rows rs"
| "unmatched_rows ((s, g, False, r) # rs) = s # unmatched_rows rs"

lemma unread_append: "unread_rows (rs @ rs') = unread_rows rs @ unread_rows rs'"
  by (induction rs rule: unread_rows.induct) simp_all

lemma unmatched_append: "unmatched_rows (rs @ rs') = unmatched_rows rs @ unmatched_rows rs'"
  by (induction rs rule: unmatched_rows.induct) simp_all

lemma rows_seed_facts:
  "unread_rows (map seed_facts fxs) = map fx_slug (filter (\<lambda>fx. \<not> readable fx) fxs)"
  "unmatched_rows (map seed_facts fxs) = map fx_slug (filter (\<lambda>fx. \<not> keys_match fx) fxs)"
proof (induction fxs)
  case (Cons fx fxs)
  {
    case 1
    show ?case using Cons by (cases "readable fx") (simp_all add: seed_facts_def)
  next
    case 2
    show ?case using Cons by (cases "keys_match fx") (simp_all add: seed_facts_def)
  }
qed simp_all

lemma unjudgeable_fixtures: "map fx_slug (filter (\<lambda>fx. \<not> readable fx) fixtures) = unjudgeable_slugs"
  unfolding rows_seed_facts [symmetric] fixtures_facts unread_append
  unfolding catalogue_facts unjudgeable_slugs_def
  by (simp only: unread_rows.simps append.simps)

text \<open>
  Eleven problems ask for a class and have test cases that list operations, whose names are not the parameters of the
  template: a custom test case of that shape is refused by the check of its keys.
\<close>

lemma operation_fixtures: "map fx_slug (filter (\<lambda>fx. \<not> keys_match fx) fixtures) = operation_slugs"
  unfolding rows_seed_facts [symmetric] fixtures_facts unmatched_append
  unfolding catalogue_facts operation_slugs_def
  by (simp only: unmatched_rows.simps append.simps)

text \<open>A shipped problem has a stored hint for every hint its room may use.\<close>

lemma shipped_hints_suffice:
  assumes "fx \<in> set fixtures" and "difficulty_of (np_difficulty (fx_problem fx)) = Some d"
  shows "length (fx_hints fx) = HINT_LIMIT_BY_DIFFICULTY d"
  using assms fixtures_good by (auto simp: list_all_iff good_fixture_def)

section \<open>Properties\<close>

lemma seeded_catalogue:
  assumes "\<forall>k n. \<not> de_down (envs k) n" and "inj (\<lambda>(k, n). de_id (envs k) n)"
  shows "\<exists>db. seed envs 0 fixtures empty_tables = (db, None) \<and> tables_ok db \<and> list_all2 (stores db) (tb_problems db) fixtures"
proof -
  have "table_ids empty_tables = {}" "tb_problems empty_tables = []"
    by (simp_all add: table_ids_def empty_tables_def)
  with seed_total [OF tables_ok_empty fixtures_good fixtures_distinct _ assms, of 0] show ?thesis by auto
qed

text \<open>
  C31: the shipped catalogue is stored completely. On an empty database that answers and draws new
  ids, the seeding ends without an error and the 150 problems are there in the catalogue's order.
  Every column of a problem's row is what was written down, and the queries of the repositories
  find the problem by its slug, its test cases in order, the shown ones and the hidden ones, its
  boilerplate template and its hints in order, each as they were written down.
\<close>

theorem catalogue_is_stored:
  assumes "\<forall>k n. \<not> de_down (envs k) n" and "inj (\<lambda>(k, n). de_id (envs k) n)"
  shows "\<exists>db. seed envs 0 fixtures empty_tables = (db, None) \<and> length (tb_problems db) = 150
    \<and> list_all2 (\<lambda>row fx.
         problem_fields row = new_problem_fields (fx_problem fx)
         \<and> findBySlug (np_slug (fx_problem fx)) db = Some (toProblem row)
         \<and> map case_fields (findByProblemId (pr_id row) db) = map new_case_fields (fx_testCases fx)
         \<and> map_option (\<lambda>b. (bp_language b, bp_template b, bp_methodName b, bp_parameterNames b))
              (findByProblemAndLanguage (pr_id row) (nb_language (fx_boilerplate fx)) db)
            = Some (new_boilerplate_fields (fx_boilerplate fx))
         \<and> map (\<lambda>h. (h_hintText h, h_orderIndex h)) (findHints (pr_id row) db) = map new_hint_fields (fx_hints fx))
       (tb_problems db) fixtures"
proof -
  obtain db where db: "seed envs 0 fixtures empty_tables = (db, None)" "tables_ok db" "list_all2 (stores db) (tb_problems db) fixtures"
    using seeded_catalogue [OF assms] by blast
  have d: "distinct (map pr_slug (tb_problems db))" using db(2) by (simp add: tables_ok_def)
  have "list_all2 (\<lambda>row fx.
         problem_fields row = new_problem_fields (fx_problem fx)
         \<and> findBySlug (np_slug (fx_problem fx)) db = Some (toProblem row)
         \<and> map case_fields (findByProblemId (pr_id row) db) = map new_case_fields (fx_testCases fx)
         \<and> map_option (\<lambda>b. (bp_language b, bp_template b, bp_methodName b, bp_parameterNames b))
              (findByProblemAndLanguage (pr_id row) (nb_language (fx_boilerplate fx)) db)
            = Some (new_boilerplate_fields (fx_boilerplate fx))
         \<and> map (\<lambda>h. (h_hintText h, h_orderIndex h)) (findHints (pr_id row) db) = map new_hint_fields (fx_hints fx))
       (tb_problems db) fixtures"
  proof (rule list.rel_mono_strong [OF db(3)])
    fix row fx assume r: "row \<in> set (tb_problems db)" "fx \<in> set fixtures" and st: "stores db row fx"
    have g: "good_fixture fx" using fixtures_good r(2) by (simp add: list_all_iff)
    show "problem_fields row = new_problem_fields (fx_problem fx)
       \<and> findBySlug (np_slug (fx_problem fx)) db = Some (toProblem row)
       \<and> map case_fields (findByProblemId (pr_id row) db) = map new_case_fields (fx_testCases fx)
       \<and> map_option (\<lambda>b. (bp_language b, bp_template b, bp_methodName b, bp_parameterNames b))
            (findByProblemAndLanguage (pr_id row) (nb_language (fx_boilerplate fx)) db)
          = Some (new_boilerplate_fields (fx_boilerplate fx))
       \<and> map (\<lambda>h. (h_hintText h, h_orderIndex h)) (findHints (pr_id row) db) = map new_hint_fields (fx_hints fx)"
      using st stored_problem [OF d r(1) st] stored_boilerplate [OF st] stored_hints [OF st g] by (simp add: stores_def)
  qed
  with db(1,3) show ?thesis using fixtures_length by (auto dest: list_all2_lengthD)
qed

definition counting_env :: "nat \<Rightarrow> db_env" where
  "counting_env k =
     \<lparr>de_down = (\<lambda>_. False), de_undo_fails = False,
      de_id = (\<lambda>n. replicate k (CHR ''f'') @ ''-'' @ replicate n (CHR ''s'')), de_now = ''2024''\<rparr>"

lemma counting_ids: "inj (\<lambda>(k, n). de_id (counting_env k) n)"
proof (rule injI, clarify)
  fix k n j m
  assume "de_id (counting_env k) n = de_id (counting_env j) m"
  then have e: "replicate k (CHR ''f'') @ ''-'' @ replicate n (CHR ''s'') = replicate j (CHR ''f'') @ ''-'' @ replicate m (CHR ''s'')"
    by (simp add: counting_env_def)
  have "takeWhile (\<lambda>c. c = CHR ''f'') (replicate i (CHR ''f'') @ ''-'' @ t) = replicate i (CHR ''f'')" for i t
    by (induction i) auto
  then have "replicate k (CHR ''f'') = replicate j (CHR ''f'')" using e by metis
  then have "k = j" by simp
  with e show "k = j \<and> n = m" by simp
qed

lemma counting_up: "\<forall>k n. \<not> de_down (counting_env k) n"
  by (simp add: counting_env_def)

theorem catalogue_is_stored_witness:
  "\<exists>db. seed counting_env 0 fixtures empty_tables = (db, None) \<and> length (tb_problems db) = 150"
  using catalogue_is_stored [OF counting_up counting_ids] by blast

lemma stored_inputs:
  assumes "stores db row fx"
  shows "map tc_input (findByProblemId (pr_id row) db) = case_inputs fx"
proof -
  have "map fst (map case_fields (findByProblemId (pr_id row) db)) = map fst (map new_case_fields (fx_testCases fx))"
    using assms by (simp only: stores_def)
  then show ?thesis by (simp add: case_fields_def new_case_fields_def case_inputs_def comp_def)
qed

lemma filter_rows:
  "list_all2 R xs ys \<Longrightarrow> (\<And>x y. R x y \<Longrightarrow> P x = Q y \<and> f x = g y) \<Longrightarrow> map f (filter P xs) = map g (filter Q ys)"
  by (induction rule: list_all2_induct) auto

text \<open>
  C10: fifteen of the shipped problems can never be submitted. In a seeded database the problems whose test cases do
  not mean the same in Python as in JSON are exactly those of \<open>unjudgeable_slugs\<close>, nearly all problems on binary trees: their
  inputs have null in them. For each of them, whatever the user wrote that is filled into the program plainly, the program that is
  sent to the judge stops before it runs anything, and the answer has no result block.
\<close>

theorem shipped_problems_that_cannot_be_judged:
  assumes "\<forall>k n. \<not> de_down (envs k) n" and "inj (\<lambda>(k, n). de_id (envs k) n)"
    and "seed envs 0 fixtures empty_tables = (db, None)"
  shows "map pr_slug (filter (\<lambda>r. \<not> python_reads (inputs_json (map tc_input (findByProblemId (pr_id r) db)))) (tb_problems db))
      = unjudgeable_slugs
    \<and> (row \<in> set (tb_problems db) \<and> pr_slug row \<in> set unjudgeable_slugs
         \<and> fills_plainly stringify userCode (map tc_input (findByProblemId (pr_id row) db)) methodName nonce
       \<longrightarrow> harness_main num other dumps loads spawn stringify run_other userCode (map tc_input (findByProblemId (pr_id row) db)) methodName nonce = Crashed
         \<and> parseResult parse [] nonce = Inl MissingMarkers)"
proof -
  have s: "list_all2 (stores db) (tb_problems db) fixtures" using seeded_catalogue [OF assms(1,2)] assms(3) by auto
  let ?bad = "\<lambda>r. \<not> python_reads (inputs_json (map tc_input (findByProblemId (pr_id r) db)))"
  have eq: "map pr_slug (filter ?bad (tb_problems db)) = map fx_slug (filter (\<lambda>fx. \<not> readable fx) fixtures)"
    by (rule filter_rows [OF s]) (simp add: stored_inputs readable_def stores_slug)
  have "map pr_slug (tb_problems db) = map fx_slug fixtures"
    using filter_rows [OF s, of "\<lambda>_. True" "\<lambda>_. True" pr_slug fx_slug] by (simp add: stores_slug)
  then have d: "inj_on pr_slug (set (tb_problems db))" using fixtures_distinct by (metis distinct_map)
  have "?bad row" if "row \<in> set (tb_problems db)" "pr_slug row \<in> set unjudgeable_slugs"
  proof -
    have "pr_slug row \<in> pr_slug ` set (filter ?bad (tb_problems db))"
      using that(2) unfolding unjudgeable_fixtures [symmetric] eq [symmetric] by simp
    then show ?thesis using inj_onD [OF d _ that(1)] by fastforce
  qed
  moreover have "findLastMarkerLine [] (start_tag ''RESULT'' nonce) = None"
    by (simp add: findLastMarkerLine_None start_line_Nil start_tag_def)
  ultimately show ?thesis
    by (simp add: eq unjudgeable_fixtures harness_main_filled harness_module_def parseResult_def parseTaggedJson_def)
qed

theorem shipped_problems_that_cannot_be_judged_witness:
  "\<exists>db. seed counting_env 0 fixtures empty_tables = (db, None)
     \<and> map pr_slug (filter (\<lambda>r. \<not> python_reads (inputs_json (map tc_input (findByProblemId (pr_id r) db)))) (tb_problems db))
       = unjudgeable_slugs"
proof -
  obtain db where "seed counting_env 0 fixtures empty_tables = (db, None)"
    using seeded_catalogue [OF counting_up counting_ids] by blast
  with shipped_problems_that_cannot_be_judged [OF counting_up counting_ids this] show ?thesis by blast
qed

section \<open>Problems that are solved in place\<close>

text \<open>Three templates declare a method that returns nothing, while the test cases expect the array it was to change.\<close>

definition in_place_fixtures :: "fixture list" where
  "in_place_fixtures = [reorder_list_fixture, surrounded_regions_fixture, walls_and_gates_fixture]"

definition returns_nothing :: "fixture \<Rightarrow> bool" where
  "returns_nothing fx \<longleftrightarrow> includes_str '') -> None:'' (nb_template (fx_boilerplate fx))"

definition expects_array :: "new_test_case \<Rightarrow> bool" where
  "expects_array t = (case nt_expectedOutput t of Some (JArr vs) \<Rightarrow> True | _ \<Rightarrow> False)"

lemma expects_array_iff: "expects_array t \<longleftrightarrow> (\<exists>vs. nt_expectedOutput t = Some (JArr vs))"
  by (auto simp: expects_array_def split: option.split json.split)

lemma in_place_templates: "list_all returns_nothing in_place_fixtures"
  by (simp add: in_place_fixtures_def returns_nothing_def reorder_list_fixture_def surrounded_regions_fixture_def
      walls_and_gates_fixture_def starts_with_def cong: seed_congs)

lemma in_place_expects: "list_all (\<lambda>fx. list_all expects_array (fx_testCases fx)) in_place_fixtures"
  by (simp add: in_place_fixtures_def expects_array_def reorder_list_fixture_def surrounded_regions_fixture_def
      walls_and_gates_fixture_def jints_def jstrs_def cong: seed_congs)

lemma in_place_shipped: "set in_place_fixtures \<subseteq> set fixtures"
  by (simp add: in_place_fixtures_def fixtures_def linkedListProblems_def graphsProblems_def)

text \<open>The graded answers of a submission whose method returns what the template says.\<close>

fun gives_none :: "harness_case \<Rightarrow> bool" where
  "gives_none (OkCase i el v rep) = (v = JNull)"
| "gives_none _ = True"

lemma stored_row:
  assumes "list_all2 (stores db) rows fxs" and "distinct (map fx_slug fxs)" and "fx \<in> set fxs"
    and "row \<in> set rows" and "pr_slug row = fx_slug fx"
  shows "stores db row fx"
proof -
  obtain i where i: "i < length rows" "row = rows ! i" using assms(4) by (auto simp: in_set_conv_nth)
  have s: "stores db row (fxs ! i)" and l: "i < length fxs"
    using assms(1) i by (auto simp: list_all2_conv_all_nth)
  obtain j where j: "j < length fxs" "fx = fxs ! j" using assms(3) by (auto simp: in_set_conv_nth)
  have "map fx_slug fxs ! i = map fx_slug fxs ! j" using stores_slug [OF s] i(2) l j assms(5) by simp
  then have "i = j" using nth_eq_iff_index_eq [OF assms(2), of i j] l j(1) by simp
  with s j show ?thesis by simp
qed

lemma stored_expected:
  assumes "stores db row fx"
  shows "map tc_expectedOutput (findByProblemId (pr_id row) db) = map nt_expectedOutput (fx_testCases fx)"
proof -
  have "map (fst \<circ> snd) (map case_fields (findByProblemId (pr_id row) db)) = map (fst \<circ> snd) (map new_case_fields (fx_testCases fx))"
    using assms by (simp only: stores_def)
  then show ?thesis by (simp add: case_fields_def new_case_fields_def comp_def)
qed

lemma none_passes_nowhere:
  assumes "list_all gives_none cs" and "\<forall>t \<in> set tcs. \<exists>vs. tc_expectedOutput t = Some (JArr vs)"
    and "gradeHarnessResults stringify cs tcs = Some gs"
  shows "filter gr_passed gs = []"
proof -
  note g = gradeHarnessResults_Some [OF assms(3)]
  have "length gs = length tcs" using arg_cong [OF g(1), of length] by simp
  moreover have "\<not> case_passes cs tcs i" if i: "i < length tcs" for i
  proof
    assume "case_passes cs tcs i"
    then obtain el v rep e where c: "OkCase (int i) el v rep \<in> set cs" "tc_expectedOutput (tcs ! i) = Some e" "isDeepStrictEqual v e"
      unfolding case_passes_def by blast
    from c(1) assms(1) have "v = JNull" by (auto simp: list_all_iff)
    moreover obtain vs where "e = JArr vs" using assms(2) i c(2) by (metis nth_mem option.inject)
    ultimately show False using c(3) by simp
  qed
  ultimately show ?thesis using g(2) by (metis filter_False in_set_conv_nth)
qed

text \<open>
  C11: three shipped problems cannot be solved by what their template asks for. It declares a method that returns
  nothing and changes its argument, but the harness passes on what the method returns and the
  stored test cases expect an array: in a seeded database, a complete submission all of whose calls return nothing
  has no test case passed.
\<close>

theorem in_place_problems_never_pass:
  assumes "\<forall>k n. \<not> de_down (envs k) n" and "inj (\<lambda>(k, n). de_id (envs k) n)"
    and "seed envs 0 fixtures empty_tables = (db, None)"
    and "fx \<in> set in_place_fixtures" and "row \<in> set (tb_problems db)" and "pr_slug row = fx_slug fx"
    and "list_all gives_none cs"
    and "buildSubmitResult stringify cs (findByProblemId (pr_id row) db) = Some res"
  shows "returns_nothing fx \<and> sr_passed res = 0"
proof -
  have s: "list_all2 (stores db) (tb_problems db) fixtures" using seeded_catalogue [OF assms(1,2)] assms(3) by auto
  have st: "stores db row fx"
    using stored_row [OF s fixtures_distinct _ assms(5,6)] assms(4) in_place_shipped by blast
  have "list_all expects_array (fx_testCases fx)" using in_place_expects assms(4) by (simp add: list_all_iff)
  then have "\<exists>vs. e = Some (JArr vs)" if "e \<in> set (map nt_expectedOutput (fx_testCases fx))" for e
    using that by (auto simp: list_all_iff expects_array_iff)
  then have "\<forall>t \<in> set (findByProblemId (pr_id row) db). \<exists>vs. tc_expectedOutput t = Some (JArr vs)"
    unfolding stored_expected [OF st, symmetric] by simp
  moreover obtain gs where "gradeHarnessResults stringify cs (findByProblemId (pr_id row) db) = Some gs" "sr_passed res = length (filter gr_passed gs)"
    using assms(8) by (auto simp: buildSubmitResult_def split: option.splits)
  ultimately have "sr_passed res = 0" using none_passes_nowhere [OF assms(7)] by simp
  then show ?thesis using in_place_templates assms(4) by (simp add: list_all_iff)
qed

theorem in_place_problems_never_pass_witness:
  "\<exists>db row cs res. seed counting_env 0 fixtures empty_tables = (db, None) \<and> row \<in> set (tb_problems db)
     \<and> pr_slug row = fx_slug walls_and_gates_fixture
     \<and> buildSubmitResult (\<lambda>j. ''null'') cs (findByProblemId (pr_id row) db) = Some res \<and> sr_passed res = 0"
proof -
  obtain db where db: "seed counting_env 0 fixtures empty_tables = (db, None)" "list_all2 (stores db) (tb_problems db) fixtures"
    using seeded_catalogue [OF counting_up counting_ids] by blast
  have fx: "walls_and_gates_fixture \<in> set in_place_fixtures" by (simp add: in_place_fixtures_def)
  have "map pr_slug (tb_problems db) = map fx_slug fixtures"
    using filter_rows [OF db(2), of "\<lambda>_. True" "\<lambda>_. True" pr_slug fx_slug] by (simp add: stores_slug)
  moreover have "fx_slug walls_and_gates_fixture \<in> set (map fx_slug fixtures)" using fx in_place_shipped by auto
  ultimately obtain row where row: "row \<in> set (tb_problems db)" "pr_slug row = fx_slug walls_and_gates_fixture"
    by (metis (no_types) imageE list.set_map)
  let ?tcs = "findByProblemId (pr_id row) db"
  let ?cs = "map (\<lambda>i. OkCase (int i) None JNull None) [0..<length ?tcs]"
  have "gradeHarnessResults (\<lambda>j. ''null'') ?cs ?tcs \<noteq> None" by (simp add: gradeHarnessResults_None comp_def)
  then obtain res where res: "buildSubmitResult (\<lambda>j. ''null'') ?cs ?tcs = Some res" by (auto simp: buildSubmitResult_def)
  moreover have "list_all gives_none ?cs" by (simp add: list_all_iff)
  ultimately show ?thesis
    using in_place_problems_never_pass [OF counting_up counting_ids db(1) fx row] db(1) row by blast
qed

end
