(* ===== verification/Socket_Wiring.thy ===== *)
theory Socket_Wiring
  imports Server_Startup Circuit_Breaker Room_Protocol Access_Gateway Js_Literal Problem_Store
begin

text \<open>
  How the handlers of a socket are put together, in \<^verbatim>\<open>apps/server/src\<close>: the counters over the
  reliability store (\<^verbatim>\<open>lib/rateLimitCounters.ts\<close>), what \<^verbatim>\<open>ws/socketio.ts\<close> and \<^verbatim>\<open>server.ts\<close>
  give to each handler and which events are listened to, the errors of dependencies
  (\<^verbatim>\<open>lib/dependencyError.ts\<close>), the plugin for request rates (\<^verbatim>\<open>plugins/rateLimit.ts\<close>) and the routes of
  the end-to-end tests (\<^verbatim>\<open>routes/test.ts\<close>).
\<close>

section \<open>The counters\<close>

text \<open>The names the handlers use, over the store in memory.\<close>

definition canSubmit :: "nat \<Rightarrow> int \<Rightarrow> memory_store \<Rightarrow> memory_store \<times> bool" where
  "canSubmit dailyLimit = hasQuota Judge0 dailyLimit"

definition reserveSubmission :: "nat \<Rightarrow> int \<Rightarrow> memory_store \<Rightarrow> memory_store \<times> bool" where
  "reserveSubmission dailyLimit = reserve Judge0 dailyLimit"

definition recordSubmission :: "int \<Rightarrow> memory_store \<Rightarrow> memory_store" where
  "recordSubmission = record_usage Judge0"

definition canImportToday :: "nat \<Rightarrow> int \<Rightarrow> memory_store \<Rightarrow> memory_store \<times> bool" where
  "canImportToday dailyLimit = hasQuota Imports dailyLimit"

definition reserveImport :: "nat \<Rightarrow> int \<Rightarrow> memory_store \<Rightarrow> memory_store \<times> bool" where
  "reserveImport dailyLimit = reserve Imports dailyLimit"

definition recordImport :: "int \<Rightarrow> memory_store \<Rightarrow> memory_store" where
  "recordImport = record_usage Imports"

definition canCallLLM :: "nat \<Rightarrow> int \<Rightarrow> memory_store \<Rightarrow> memory_store \<times> bool" where
  "canCallLLM dailyLimit = hasQuota Llm dailyLimit"

definition reserveLLMCall :: "nat \<Rightarrow> int \<Rightarrow> memory_store \<Rightarrow> memory_store \<times> bool" where
  "reserveLLMCall dailyLimit = reserve Llm dailyLimit"

definition recordLLMCall :: "int \<Rightarrow> memory_store \<Rightarrow> memory_store" where
  "recordLLMCall = record_usage Llm"

definition resetCounters :: "memory_store \<Rightarrow> memory_store" where
  "resetCounters = clear_store"

lemma hasQuota_used: "snd (hasQuota r limit now s) \<longleftrightarrow> used_of r (utcDayKey now) s < limit"
  by (simp add: hasQuota_def getUsageSnapshot_def case_prod_beta counter_getOrCreate)

lemma hasQuota_unchanged [simp]: "used_of r' d (fst (hasQuota r limit now s)) = used_of r' d s"
  by (simp add: hasQuota_def getUsageSnapshot_def case_prod_beta)

text \<open>
  A check answers what a reservation would have answered at that moment, and takes nothing: the reservation right
  after it is granted, and every refused reservation was preceded by one that took the last place.
\<close>

lemma check_then_reserve:
  assumes "snd (hasQuota r limit now s)" and "utcDayKey later = utcDayKey now"
  shows "snd (reserve r limit later (fst (hasQuota r limit now s)))"
  using assms by (simp add: hasQuota_used reserve_allowed)

lemma recorded_usage:
  assumes "used_of r (utcDayKey now) s < MAX_SAFE_INTEGER"
  shows "used_of r' d (record_usage r now s) = used_of r' d s + (if r' = r \<and> d = utcDayKey now then 1 else 0)"
  using assms by (simp add: record_usage_def reserve_used reserve_allowed)

lemma cleared_counters: "used_of r d (resetCounters s) = 0"
  by (simp add: resetCounters_def clear_store_def used_of_def)

lemma cleared_windows: "allowed (snd (ip_consume b k limit windowMs now (resetCounters s)))"
  by (simp add: resetCounters_def clear_store_def ip_consume_def consumeFixedWindow_def Let_def)

section \<open>What the handlers are given\<close>

record socket_server_deps =
  sx_socket :: socket_deps
  sx_hasGetDoc :: bool
  sx_hasJudge0Client :: bool
  sx_hasGroqClient :: bool
  sx_dailyLimit :: "nat option"
  sx_maxCodeBytes :: "nat option"
  sx_judge0ExecPerHour :: "nat option"
  sx_enableProblemImport :: "bool option"
  sx_enableLLMHintFallback :: "bool option"
  sx_enableImportedProblemHints :: "bool option"
  sx_maxLLMPromptChars :: "int option"
  sx_maxLLMHintChars :: "int option"
  sx_maxLLMCallsPerRoom :: "nat option"
  sx_llmCallsPerHourPerIp :: "nat option"
  sx_llmDailyLimit :: "nat option"
  sx_hintConsentMs :: "int option"
  sx_hintCooldownMs :: "int option"
  sx_importsDailyLimit :: "nat option"
  sx_hasGenerateTestCases :: bool
  sx_hasJudge0Limiter :: bool
  sx_hasImportLimiter :: bool
  sx_hasLlmLimiter :: bool

definition wired_problem_deps :: "socket_server_deps \<Rightarrow> problem_deps" where
  "wired_problem_deps deps =
     \<lparr>pb_importsPerHour = sc_importsPerHour (resolveSocketIOConfig (sx_socket deps)),
      pb_enableProblemImport = orElse (sx_enableProblemImport deps) True,
      pb_importsDailyLimit = orElse (sx_importsDailyLimit deps) 50,
      pb_hasGenerateTestCases = sx_hasGenerateTestCases deps,
      pb_hasImportLimiter = sx_hasImportLimiter deps\<rparr>"

definition wired_hint_deps :: "socket_server_deps \<Rightarrow> hint_deps" where
  "wired_hint_deps deps =
     \<lparr>hd_hasGroqClient = sx_hasGroqClient deps,
      hd_enableLLMHintFallback = orElse (sx_enableLLMHintFallback deps) True,
      hd_enableImportedProblemHints = orElse (sx_enableImportedProblemHints deps) True,
      hd_maxLLMPromptChars = orElse (sx_maxLLMPromptChars deps) 12000,
      hd_maxLLMHintChars = orElse (sx_maxLLMHintChars deps) 1500,
      hd_maxLLMCallsPerRoom = orElse (sx_maxLLMCallsPerRoom deps) 15,
      hd_hasIpLimiter = True, hd_hasLlmLimiter = sx_hasLlmLimiter deps\<rparr>"

text \<open>The times and rates of hints, with the defaults the hint handler itself has for those left out.\<close>

record hint_rates =
  hr_callsPerHourPerIp :: nat
  hr_dailyLimit :: nat
  hr_consentMs :: int
  hr_cooldownMs :: int

definition wired_hint_rates :: "socket_server_deps \<Rightarrow> hint_rates" where
  "wired_hint_rates deps =
     \<lparr>hr_callsPerHourPerIp = orElse (sx_llmCallsPerHourPerIp deps) 20, hr_dailyLimit = orElse (sx_llmDailyLimit deps) 500,
      hr_consentMs = orElse (sx_hintConsentMs deps) HINT_CONSENT_MS,
      hr_cooldownMs = orElse (sx_hintCooldownMs deps) 5000\<rparr>"

definition wired_execution_deps :: "socket_server_deps \<Rightarrow> execution_deps" where
  "wired_execution_deps deps =
     \<lparr>ed_hasIpLimiter = True, ed_judge0ExecPerHour = sx_judge0ExecPerHour deps,
      ed_dailyLimit = orElse (sx_dailyLimit deps) 100, ed_maxCodeBytes = orElse (sx_maxCodeBytes deps) 65536,
      ed_hasOperationLimiter = sx_hasJudge0Limiter deps\<rparr>"

text \<open>
  The events \<^verbatim>\<open>registerSocketHandlers\<close> listens to, in order: the handlers of the room, problems, test cases, hints,
  the solution and executions. Without a judge or documents there are no executions, without documents no problems.
\<close>

definition registerSocketHandlers :: "socket_server_deps \<Rightarrow> socket_event list" where
  "registerSocketHandlers deps =
     [USER_JOIN]
     @ (if sx_hasGetDoc deps then [PROBLEM_SELECT, PROBLEM_IMPORT] else [])
     @ [TESTCASE_ADD, HINT_REQUEST, HINT_APPROVE, HINT_DENY, SOLUTION_REVEAL]
     @ (if sx_hasJudge0Client deps \<and> sx_hasGetDoc deps then [CODE_RUN, CODE_SUBMIT] else [])"

text \<open>What becomes of an event that passed the middleware; a name nobody listens to is dropped.\<close>

definition listened_to :: "socket_server_deps \<Rightarrow> string \<Rightarrow> bool" where
  "listened_to deps ev \<longleftrightarrow> ev \<in> set (map event_name (registerSocketHandlers deps))"

text \<open>\<^verbatim>\<open>setupUpgradeRouting\<close> of \<^verbatim>\<open>server.ts\<close>: the dependencies made of a configuration, with the limiters \<^verbatim>\<open>index.ts\<close> makes.\<close>

definition cfg_nat :: "config \<Rightarrow> string \<Rightarrow> nat" where
  "cfg_nat c k = nat (cfg_int c k)"

definition server_deps :: "config \<Rightarrow> socket_server_deps" where
  "server_deps c =
     \<lparr>sx_socket =
        \<lparr>sd_wsConnectionsPerMinute = Some (cfg_nat c ''RATE_LIMIT_WS_CONNECT''),
         sd_joinAttemptsPerHour = Some (cfg_nat c ''RATE_LIMIT_JOIN''),
         sd_importsPerHour = Some (cfg_nat c ''RATE_LIMIT_IMPORT''),
         sd_allowedOrigins = Some (cfg_list c ''ALLOWED_ORIGINS''),
         sd_trustedProxyIps = Some (cfg_list c ''TRUSTED_PROXY_IPS''),
         sd_accessRevalidationIntervalMs = Some (cfg_int c ''ACCESS_REVALIDATION_INTERVAL_MS'')\<rparr>,
      sx_hasGetDoc = True, sx_hasJudge0Client = True, sx_hasGroqClient = has_groq c,
      sx_dailyLimit = Some (cfg_nat c ''JUDGE0_DAILY_LIMIT''),
      sx_maxCodeBytes = Some (cfg_nat c ''MAX_CODE_BYTES''),
      sx_judge0ExecPerHour = Some (cfg_nat c ''JUDGE0_EXEC_PER_HOUR_PER_IP''),
      sx_enableProblemImport = Some (cfg_bool c ''ENABLE_PROBLEM_IMPORT''),
      sx_enableLLMHintFallback = Some (cfg_bool c ''ENABLE_LLM_HINT_FALLBACK''),
      sx_enableImportedProblemHints = Some (cfg_bool c ''ENABLE_IMPORTED_PROBLEM_HINTS''),
      sx_maxLLMPromptChars = Some (cfg_int c ''MAX_LLM_PROMPT_CHARS''),
      sx_maxLLMHintChars = Some (cfg_int c ''MAX_LLM_HINT_CHARS''),
      sx_maxLLMCallsPerRoom = Some (cfg_nat c ''MAX_LLM_CALLS_PER_ROOM''),
      sx_llmCallsPerHourPerIp = Some (cfg_nat c ''LLM_CALLS_PER_HOUR_PER_IP''),
      sx_llmDailyLimit = Some (cfg_nat c ''LLM_DAILY_LIMIT''),
      sx_hintConsentMs = Some (cfg_int c ''ROOM_HINT_CONSENT_MS''),
      sx_hintCooldownMs = Some (cfg_int c ''ROOM_HINT_COOLDOWN_MS''),
      sx_importsDailyLimit = Some (cfg_nat c ''IMPORTS_DAILY_LIMIT''),
      sx_hasGenerateTestCases = has_generator c,
      sx_hasJudge0Limiter = True, sx_hasImportLimiter = True, sx_hasLlmLimiter = True\<rparr>"

text \<open>The direction the comments of \<^verbatim>\<open>packages/shared/src/events.ts\<close> give an event.\<close>

fun from_client :: "socket_event \<Rightarrow> bool" where
  "from_client USER_JOIN = True"
| "from_client PROBLEM_SELECT = True"
| "from_client PROBLEM_IMPORT = True"
| "from_client CODE_RUN = True"
| "from_client CODE_SUBMIT = True"
| "from_client HINT_REQUEST = True"
| "from_client HINT_APPROVE = True"
| "from_client HINT_DENY = True"
| "from_client SOLUTION_REVEAL = True"
| "from_client TESTCASE_ADD = True"
| "from_client LANGUAGE_CHANGE = True"
| "from_client _ = False"

lemma listened_to_iff: "listened_to deps (event_name e) \<longleftrightarrow> e \<in> set (registerSocketHandlers deps)"
  unfolding listened_to_def by (simp add: image_iff event_name_inj)

text \<open>
  A server made of a configuration listens to exactly the events a client may send, but for the change of language,
  which is kept for later. No event is listened to twice.
\<close>

lemma heard_events:
  "listened_to (server_deps c) (event_name e) \<longleftrightarrow> from_client e \<and> e \<noteq> LANGUAGE_CHANGE"
  "distinct (registerSocketHandlers (server_deps c))"
  unfolding listened_to_iff by (cases e; simp add: registerSocketHandlers_def server_deps_def)
    (simp add: registerSocketHandlers_def server_deps_def)

text \<open>The change of language is let through for every member and then dropped.\<close>

lemma language_change_is_dropped:
  assumes "sock_roomCode sock = Some code" and "code \<noteq> []" and "lookup code = Some r" and "member_of sock r = Some u"
  shows "authMiddleware lookup sock (event_name LANGUAGE_CHANGE) = Next
    \<and> \<not> listened_to (server_deps c) (event_name LANGUAGE_CHANGE)"
  unfolding heard_events using assms
  by (simp add: authMiddleware_def in_event_sets member_of_def member_check_policy del: event_name.simps)

text \<open>
  A socket server without documents lets the selection of a problem through and drops it: nobody
  is told. The server of \<^verbatim>\<open>server.ts\<close> always has documents.
\<close>

lemma problems_need_documents:
  "\<not> sx_hasGetDoc deps \<Longrightarrow> \<not> listened_to deps (event_name PROBLEM_SELECT) \<and> \<not> listened_to deps (event_name CODE_RUN)"
  unfolding listened_to_iff by (simp add: registerSocketHandlers_def)

section \<open>Configured limits arrive\<close>

lemma cfg_nat_pos:
  assumes "config_typed envSchema c" and "map_of envSchema k = Some (Positive d)"
  shows "0 < cfg_nat c k"
  using positive_field(1) [OF assms] by (simp add: cfg_nat_def)

lemma limit_fields:
  "map_of envSchema ''RATE_LIMIT_WS_CONNECT'' = Some (Positive 20)" "map_of envSchema ''RATE_LIMIT_JOIN'' = Some (Positive 30)"
  "map_of envSchema ''RATE_LIMIT_IMPORT'' = Some (Positive 10)" "map_of envSchema ''JUDGE0_DAILY_LIMIT'' = Some (Positive 100)"
  "map_of envSchema ''MAX_CODE_BYTES'' = Some (Positive 65536)" "map_of envSchema ''IMPORTS_DAILY_LIMIT'' = Some (Positive IMPORTS_DAILY)"
  "map_of envSchema ''MAX_LLM_CALLS_PER_ROOM'' = Some (Positive 15)"
  by (simp_all add: envSchema_def)

text \<open>
  With an accepted configuration no limit is zero, so that a first connection, join, import, submission and call of the model is
  never refused for its rate, and the defaults that \<^verbatim>\<open>ws/socketio.ts\<close> has of its own are not used.
\<close>

lemma wired_limits_positive:
  assumes "loadConfig url env = Starts c"
  shows "0 < sc_wsConnectionsPerMinute (resolveSocketIOConfig (sx_socket (server_deps c)))
    \<and> 0 < sc_joinAttemptsPerHour (resolveSocketIOConfig (sx_socket (server_deps c)))
    \<and> 0 < pb_importsPerHour (wired_problem_deps (server_deps c))
    \<and> 0 < pb_importsDailyLimit (wired_problem_deps (server_deps c))
    \<and> 0 < hd_maxLLMCallsPerRoom (wired_hint_deps (server_deps c))
    \<and> 0 < ed_dailyLimit (wired_execution_deps (server_deps c))
    \<and> 0 < ed_maxCodeBytes (wired_execution_deps (server_deps c))
    \<and> pb_enableProblemImport (wired_problem_deps (server_deps c)) = cfg_bool c ''ENABLE_PROBLEM_IMPORT''"
proof -
  have t: "config_typed envSchema c" using loadConfig_Starts [OF assms] safeParse_typed by blast
  show ?thesis
    by (simp add: server_deps_def wired_problem_deps_def wired_hint_deps_def wired_execution_deps_def resolveSocketIOConfig_def
        orElse_def limit_fields [THEN cfg_nat_pos [OF t]])
qed

text \<open>
  A limit left out by whoever sets the sockets up is the limit an empty environment gives, so the two places that
  state defaults agree on every one they share.
\<close>

lemma defaults_agree:
  "sx_llmCallsPerHourPerIp deps = None \<Longrightarrow>
     map_of envSchema ''LLM_CALLS_PER_HOUR_PER_IP'' = Some (Positive (int (hr_callsPerHourPerIp (wired_hint_rates deps))))"
  "sx_llmDailyLimit deps = None \<Longrightarrow>
     map_of envSchema ''LLM_DAILY_LIMIT'' = Some (Positive (int (hr_dailyLimit (wired_hint_rates deps))))"
  "sx_hintConsentMs deps = None \<Longrightarrow>
     map_of envSchema ''ROOM_HINT_CONSENT_MS'' = Some (Positive (hr_consentMs (wired_hint_rates deps)))"
  "sx_hintCooldownMs deps = None \<Longrightarrow>
     map_of envSchema ''ROOM_HINT_COOLDOWN_MS'' = Some (Positive (hr_cooldownMs (wired_hint_rates deps)))"
  "sx_maxLLMCallsPerRoom deps = None \<Longrightarrow>
     map_of envSchema ''MAX_LLM_CALLS_PER_ROOM'' = Some (Positive (int (hd_maxLLMCallsPerRoom (wired_hint_deps deps))))"
  "sx_dailyLimit deps = None \<Longrightarrow>
     map_of envSchema ''JUDGE0_DAILY_LIMIT'' = Some (Positive (int (ed_dailyLimit (wired_execution_deps deps))))"
  "sx_maxCodeBytes deps = None \<Longrightarrow>
     map_of envSchema ''MAX_CODE_BYTES'' = Some (Positive (int (ed_maxCodeBytes (wired_execution_deps deps))))"
  by (simp_all add: envSchema_def wired_hint_rates_def wired_hint_deps_def wired_execution_deps_def orElse_def)

text \<open>
  The switches do not: imports, hints of the model and hints for imported problems are off in an empty environment, and on
  for a socket server that is not told. Only the server of \<^verbatim>\<open>server.ts\<close>, which always tells it, has them off by default.
\<close>

lemma switches_differ:
  "map_of envSchema ''ENABLE_PROBLEM_IMPORT'' = Some (Boolean False)"
  "sx_enableProblemImport deps = None \<Longrightarrow> pb_enableProblemImport (wired_problem_deps deps)"
  "map_of envSchema ''ENABLE_LLM_HINT_FALLBACK'' = Some (Boolean False)"
  "sx_enableLLMHintFallback deps = None \<Longrightarrow> hd_enableLLMHintFallback (wired_hint_deps deps)"
  "map_of envSchema ''ENABLE_IMPORTED_PROBLEM_HINTS'' = Some (Boolean False)"
  "sx_enableImportedProblemHints deps = None \<Longrightarrow> hd_enableImportedProblemHints (wired_hint_deps deps)"
  by (simp_all add: envSchema_def wired_problem_deps_def wired_hint_deps_def orElse_def)

section \<open>Errors of dependencies\<close>

text \<open>
  A thrown value: an error of the class, another error with the properties it carries, or no error. The fields of the log
  line are those of a JSON object, a missing status is left out when it is written.
\<close>

datatype thrown = ThrownDependency dependency_error | ThrownError "(string \<times> json) list" | ThrownOther

definition new_dependency_error :: "string \<Rightarrow> string \<Rightarrow> string \<Rightarrow> string \<Rightarrow> nat option \<Rightarrow> bool option \<Rightarrow> dependency_error" where
  "new_dependency_error dependencyName operationName kind msg status timedOut =
     \<lparr>dependency = dependencyName, operation = operationName, errorType = kind, err_message = msg,
      statusCode = status, isTimeout = orElse timedOut False\<rparr>"

definition has_text :: "string \<Rightarrow> (string \<times> json) list \<Rightarrow> bool" where
  "has_text k ps = (case map_of ps k of Some (JStr s) \<Rightarrow> True | _ \<Rightarrow> False)"

definition isDependencyError :: "thrown \<Rightarrow> bool" where
  "isDependencyError e =
     (case e of
        ThrownDependency d \<Rightarrow> True
      | ThrownOther \<Rightarrow> False
      | ThrownError ps \<Rightarrow> has_text ''dependency'' ps \<and> has_text ''operation'' ps \<and> has_text ''errorType'' ps)"

definition error_property :: "string \<Rightarrow> thrown \<Rightarrow> json option" where
  "error_property k e =
     (case e of
        ThrownDependency d \<Rightarrow>
          if k = ''dependency'' then Some (JStr (dependency d))
          else if k = ''operation'' then Some (JStr (operation d))
          else if k = ''errorType'' then Some (JStr (errorType d))
          else if k = ''statusCode'' then map_option (\<lambda>n. jint (int n)) (statusCode d)
          else if k = ''isTimeout'' then Some (JBool (isTimeout d))
          else None
      | ThrownError ps \<Rightarrow> map_of ps k
      | ThrownOther \<Rightarrow> None)"

definition dependencyErrorLogFields :: "thrown \<Rightarrow> (string \<times> json option) list" where
  "dependencyErrorLogFields e =
     (if isDependencyError e then
        [(''dependency'', error_property ''dependency'' e), (''operation'', error_property ''operation'' e),
         (''error_type'', error_property ''errorType'' e), (''status_code'', error_property ''statusCode'' e),
         (''is_timeout'', error_property ''isTimeout'' e)]
      else [])"

text \<open>The log line of an error of the class names its dependency, and no message of it is written.\<close>

lemma dependency_log_fields:
  "dependencyErrorLogFields (ThrownDependency d) =
     [(''dependency'', Some (JStr (dependency d))), (''operation'', Some (JStr (operation d))),
      (''error_type'', Some (JStr (errorType d))), (''status_code'', map_option (\<lambda>n. jint (int n)) (statusCode d)),
      (''is_timeout'', Some (JBool (isTimeout d)))]"
  by (simp add: dependencyErrorLogFields_def isDependencyError_def error_property_def)

lemma no_log_fields: "dependencyErrorLogFields e = [] \<longleftrightarrow> \<not> isDependencyError e"
  by (simp add: dependencyErrorLogFields_def)

section \<open>Request rates\<close>

text \<open>The plugin counts by the address a request comes from, as the sockets do.\<close>

definition keyGenerator :: "config \<Rightarrow> string option \<Rightarrow> header \<Rightarrow> string" where
  "keyGenerator c remoteAddress forwardedFor = extractClientIp remoteAddress forwardedFor (cfg_list c ''TRUSTED_PROXY_IPS'')"

definition errorResponseBuilder :: "nat \<Rightarrow> string \<Rightarrow> nat \<times> string \<times> string" where
  "errorResponseBuilder status wait = (status, ''Too Many Requests'', ''Rate limit exceeded, retry in '' @ wait @ '' seconds'')"

lemma requests_and_sockets_share_addresses:
  "keyGenerator c (hk_remoteAddress hk) (hk_forwardedFor hk)
   = handshake_ip (resolveSocketIOConfig (sx_socket (server_deps c))) hk"
  by (simp add: keyGenerator_def handshake_ip_def resolveSocketIOConfig_def server_deps_def orElse_def)

section \<open>The routes of the end-to-end tests\<close>

definition requireTestSecret :: "string option \<Rightarrow> header \<Rightarrow> bool" where
  "requireTestSecret secret given =
     (let s = orElse secret [] in \<not> (s \<noteq> [] \<and> given \<noteq> Single s))"

record test_world =
  tw_manager :: room_manager
  tw_counters :: memory_store
  tw_socketLimits :: "memory_store option"
  tw_tables :: problem_tables

text \<open>
  \<^verbatim>\<open>POST /api/test/reset\<close>: the number of rooms and of problems marked deleted. The limits of the sockets have a store of
  their own unless the server was given one; \<open>None\<close> is a socket server that was not set up.
\<close>

definition postReset :: "string option \<Rightarrow> header \<Rightarrow> string \<Rightarrow> test_world \<Rightarrow> test_world \<times> (nat + nat \<times> nat)" where
  "postReset secret given now w =
     (if \<not> requireTestSecret secret given then (w, Inl 403)
      else (let mgr = fst (resetRooms (tw_manager w));
                (db, cleaned) = softDeleteE2eImportedProblems now (tw_tables w)
            in (w\<lparr>tw_manager := mgr, tw_counters := resetCounters (tw_counters w),
                 tw_socketLimits := map_option clear_store (tw_socketLimits w), tw_tables := db\<rparr>,
                Inr (getRoomCount mgr, cleaned))))"

definition postGc :: "string option \<Rightarrow> header \<Rightarrow> bool \<Rightarrow> nat + bool" where
  "postGc secret given exposed = (if requireTestSecret secret given then Inr exposed else Inl 403)"

lemma reset_starts_afresh:
  assumes "manager_wf (tw_manager w)" and "postReset secret given now w = (w', Inr (n, m))"
  shows "n = 0 \<and> getRoom code (tw_manager w') = None \<and> used_of r d (tw_counters w') = 0
    \<and> allowed (snd (ip_consume b k limit windowMs t (tw_counters w')))"
proof -
  have e: "rooms (fst (resetRooms (tw_manager w))) = []" "getRoom code (fst (resetRooms (tw_manager w))) = None"
    using resetRooms_empties [OF assms(1)] by simp_all
  have w': "tw_manager w' = fst (resetRooms (tw_manager w))" "tw_counters w' = resetCounters (tw_counters w)"
    "n = getRoomCount (fst (resetRooms (tw_manager w)))"
    using assms(2) by (auto simp: postReset_def Let_def case_prod_beta split: if_splits)
  show ?thesis unfolding w' by (simp add: e getRoomCount_def cleared_counters cleared_windows)
qed

text \<open>Without the secret nothing changes; an empty secret asks for none.\<close>

lemma reset_needs_the_secret:
  "s \<noteq> [] \<Longrightarrow> given \<noteq> Single s \<Longrightarrow> postReset (Some s) given now w = (w, Inl 403)"
  "requireTestSecret None given"
  by (simp_all add: postReset_def requireTestSecret_def orElse_def)

end
